(* ===== verification/Prelude.thy ===== *)
theory Prelude
  imports Main "HOL-Library.Word" "HOL-Library.Sublist"
begin

text \<open>
  What every component theory shares: the machine types, the fact collections that carry
  the component proofs, and the generic lemmas on lists, maps and truncating arithmetic.

  Machine integers. A byte is an \<open>8 word\<close>. A \<open>size_t\<close>, \<open>uint64_t\<close> or \<open>uint32_t\<close> value is
  a \<open>nat\<close> below its bound, and each addition, multiplication or narrowing cast of the
  source whose result can leave the type is followed by an explicit \<open>wrap64\<close> or \<open>wrap32\<close>.
  A pointer is a \<open>nat\<close> with 0 for \<open>nullptr\<close>. A status code (\<open>aclError\<close>, \<open>ssize_t\<close>)
  is an \<open>int\<close>.
\<close>

section \<open>Types and collections\<close>

type_synonym byte = "8 word"
type_synonym bytes = "byte list"
type_synonym ptr = nat
type_synonym acl_error = int

named_theorems wrap_simps "evaluation of truncating arithmetic below the bound"
named_theorems byte_simps "lengths and round trips of byte encodings"
named_theorems inv_intros "operations that keep a component's invariant"
named_theorems frame_simps "fields that an operation leaves alone"

section \<open>Truncating arithmetic\<close>

definition wrap32 :: "nat \<Rightarrow> nat" where
  "wrap32 n = n mod 2 ^ 32"

definition wrap64 :: "nat \<Rightarrow> nat" where
  "wrap64 n = n mod 2 ^ 64"

definition sub64 :: "nat \<Rightarrow> nat \<Rightarrow> nat" where
  \<comment> \<open>\<open>a - b\<close> on \<open>size_t\<close>: borrows out of the top\<close>
  "sub64 a b = (a + (2 ^ 64 - b mod 2 ^ 64)) mod 2 ^ 64"

definition size_max :: nat where
  "size_max = 2 ^ 64 - 1"

lemma wrap32_small [wrap_simps]: "n < 2 ^ 32 \<Longrightarrow> wrap32 n = n"
  by (simp add: wrap32_def)

lemma wrap64_small [wrap_simps]: "n < 2 ^ 64 \<Longrightarrow> wrap64 n = n"
  by (simp add: wrap64_def)

lemma wrap32_less [simp]: "wrap32 n < 2 ^ 32"
  by (simp add: wrap32_def)

lemma wrap64_less [simp]: "wrap64 n < 2 ^ 64"
  by (simp add: wrap64_def)

lemma wrap32_le [simp]: "wrap32 n \<le> n"
  by (simp add: wrap32_def)

lemma wrap64_le [simp]: "wrap64 n \<le> n"
  by (simp add: wrap64_def)

lemma sub64_ge [wrap_simps]:
  assumes "b \<le> a" and "a < 2 ^ 64"
  shows "sub64 a b = a - b"
proof -
  have b: "b mod 2 ^ 64 = b" using assms by simp
  have "a + (2 ^ 64 - b) = 2 ^ 64 + (a - b)" using assms by simp
  then have "(a + (2 ^ 64 - b)) mod 2 ^ 64 = (a - b) mod 2 ^ 64"
    by (metis mod_add_self1)
  then show ?thesis using assms by (simp add: sub64_def b)
qed

section \<open>Lists\<close>

lemma take_append_drop_take:
  "i \<le> length xs \<Longrightarrow> take i xs @ take k (drop i xs) = take (i + k) xs"
  by (simp add: take_add)

lemma take_drop_append_left [simp]:
  "n \<le> length xs \<Longrightarrow> take n (xs @ ys) = take n xs"
  by simp

lemma slice_take: "d + n \<le> k \<Longrightarrow> take n (drop d (take k xs)) = take n (drop d xs)"
  by (simp add: drop_take min_def)

lemma slice_append: "d + n \<le> length xs \<Longrightarrow> take n (drop d (xs @ ys)) = take n (drop d xs)"
  by simp

lemma foldl_snoc_rev: "foldl f s (xs @ [x]) = f (foldl f s xs) x"
  by simp

section \<open>Association lists in the order of insertion\<close>

text \<open>
  \<open>std::map\<close> and \<open>std::unordered_map\<close> are modelled by \<open>'k \<rightharpoonup> 'v\<close> where the code only looks
  keys up, and by an association list with distinct keys where it walks over the entries.
\<close>

fun al_put :: "'k \<Rightarrow> 'v \<Rightarrow> ('k \<times> 'v) list \<Rightarrow> ('k \<times> 'v) list" where
  "al_put k v [] = [(k, v)]"
| "al_put k v ((k', v') # xs) = (if k = k' then (k, v) # xs else (k', v') # al_put k v xs)"

definition al_del :: "'k \<Rightarrow> ('k \<times> 'v) list \<Rightarrow> ('k \<times> 'v) list" where
  "al_del k xs = filter (\<lambda>p. fst p \<noteq> k) xs"

lemma map_of_al_put [simp]: "map_of (al_put k v xs) = (map_of xs)(k \<mapsto> v)"
  by (induction xs rule: al_put.induct) (auto simp: fun_eq_iff)

lemma keys_al_put: "fst ` set (al_put k v xs) = insert k (fst ` set xs)"
  by (induction k v xs rule: al_put.induct) (auto simp: insert_commute)

lemma distinct_al_put [inv_intros]:
  "distinct (map fst xs) \<Longrightarrow> distinct (map fst (al_put k v xs))"
proof (induction k v xs rule: al_put.induct)
  case (2 k v k' v' xs)
  then show ?case using keys_al_put [of k v xs] by auto
qed simp

lemma map_of_al_del [simp]: "map_of (al_del k xs) = (map_of xs)(k := None)"
  by (induction xs) (auto simp: al_del_def fun_eq_iff)

lemma distinct_al_del [inv_intros]:
  "distinct (map fst xs) \<Longrightarrow> distinct (map fst (al_del k xs))"
  by (induction xs) (auto simp: al_del_def)

lemma al_del_absent [simp]: "map_of xs k = None \<Longrightarrow> al_del k xs = xs"
  by (induction xs) (auto simp: al_del_def split: if_splits)

end
