(* ===== verification/Numeric.thy ===== *)
theory Numeric
  imports Prelude
begin

text \<open>
  Models csrc/utils/Numeric.h (\<open>CeilByAlignSize\<close>, \<open>AlignDownSize\<close>) at the two widths the
  callers instantiate, and \<open>GetAlignSize\<close> of csrc/runtime/inject_helpers/LaunchArgs.cpp.
  The locale \<open>align_up\<close> is the contract that the argument-buffer code and the guard
  regions rely on; it is interpreted on the three rounding functions.
\<close>

section \<open>The rounding functions\<close>

definition CeilByAlignSize32 :: "nat \<Rightarrow> nat \<Rightarrow> nat" where
  \<comment> \<open>\<open>CeilByAlignSize<a, uint32_t>\<close>\<close>
  "CeilByAlignSize32 a v = wrap32 (wrap32 (v + a - 1) div a * a)"

definition CeilByAlignSize64 :: "nat \<Rightarrow> nat \<Rightarrow> nat" where
  \<comment> \<open>\<open>CeilByAlignSize<a, size_t>\<close>\<close>
  "CeilByAlignSize64 a v = wrap64 (wrap64 (v + a - 1) div a * a)"

definition AlignDownSize :: "nat \<Rightarrow> nat \<Rightarrow> nat" where
  "AlignDownSize a v = v - v mod a"

definition ALIGN_SIZE :: nat where
  "ALIGN_SIZE = 8"

definition GetAlignSize :: "nat \<Rightarrow> nat" where
  "GetAlignSize s = wrap32 (wrap32 (s + ALIGN_SIZE - 1) div ALIGN_SIZE * ALIGN_SIZE)"

section \<open>The contract\<close>

locale align_up =
  fixes up :: "nat \<Rightarrow> nat" and a :: nat and lim :: nat
  assumes align_pos: "0 < a"
    and up_dvd: "v + a \<le> lim \<Longrightarrow> a dvd up v"
    and up_ge: "v + a \<le> lim \<Longrightarrow> v \<le> up v"
    and up_tight: "v + a \<le> lim \<Longrightarrow> up v < v + a"
begin

lemma up_unique:
  assumes "v + a \<le> lim" and "a dvd m" and "v \<le> m" and "m < v + a"
  shows "up v = m"
proof -
  obtain p q where up: "up v = a * p" and m: "m = a * q"
    using up_dvd [OF assms(1)] assms(2) by (auto elim!: dvdE)
  have "a * p < a * q + a" and "a * q < a * p + a"
    using up_ge [OF assms(1)] up_tight [OF assms(1)] assms(3,4) up m by linarith+
  then have "a * p < a * Suc q" and "a * q < a * Suc p" by simp_all
  then have "p < Suc q" and "q < Suc p" by (simp_all only: mult_less_cancel1)
  then have "p = q" by simp
  then show ?thesis by (simp add: up m)
qed

lemma up_aligned: "v + a \<le> lim \<Longrightarrow> a dvd v \<Longrightarrow> up v = v"
  using up_unique [of v v] align_pos by simp

lemma up_idem:
  assumes "v + a + a \<le> lim"
  shows "up (up v) = up v"
  using assms up_tight [of v] by (intro up_aligned up_dvd) auto

lemma up_mono:
  assumes "v \<le> w" and "w + a \<le> lim"
  shows "up v \<le> up w"
proof (rule ccontr)
  assume "\<not> up v \<le> up w"
  moreover have "v \<le> up w" using up_ge [of w] assms by simp
  ultimately have "up w = up v"
    using assms up_tight [of v] up_dvd [of w] by (intro up_unique [symmetric]) auto
  with \<open>\<not> up v \<le> up w\<close> show False by simp
qed

end

section \<open>The code's functions keep the contract\<close>

lemma ceil_core:
  fixes a v :: nat
  assumes "0 < a"
  shows "a dvd (v + a - 1) div a * a" "v \<le> (v + a - 1) div a * a"
    "(v + a - 1) div a * a < v + a"
proof -
  have m: "(v + a - 1) mod a < a" using assms by simp
  have d: "(v + a - 1) div a * a + (v + a - 1) mod a = v + a - 1" by simp
  show "v \<le> (v + a - 1) div a * a" and "(v + a - 1) div a * a < v + a"
    using m d assms by linarith+
qed simp

lemma CeilByAlignSize32_eq [wrap_simps]:
  assumes "0 < a" and "v + a \<le> 2 ^ 32"
  shows "CeilByAlignSize32 a v = (v + a - 1) div a * a"
  using ceil_core(3) [OF assms(1), of v] assms
  by (simp add: CeilByAlignSize32_def wrap32_small)

lemma CeilByAlignSize64_eq [wrap_simps]:
  assumes "0 < a" and "v + a \<le> 2 ^ 64"
  shows "CeilByAlignSize64 a v = (v + a - 1) div a * a"
  using ceil_core(3) [OF assms(1), of v] assms
  by (simp add: CeilByAlignSize64_def wrap64_small)

lemma GetAlignSize_ceil: "GetAlignSize s = CeilByAlignSize32 8 s"
  by (simp add: GetAlignSize_def CeilByAlignSize32_def ALIGN_SIZE_def)

interpretation ceil32: align_up "CeilByAlignSize32 8" 8 "2 ^ 32"
  by unfold_locales (use ceil_core [of 8] CeilByAlignSize32_eq [of 8] in auto)

interpretation guard_ceil: align_up "CeilByAlignSize64 32" 32 "2 ^ 64"
  by unfold_locales (use ceil_core [of 32] CeilByAlignSize64_eq [of 32] in auto)

interpretation args_align: align_up GetAlignSize 8 "2 ^ 32"
  by unfold_locales
    (use ceil32.up_dvd ceil32.up_ge ceil32.up_tight in \<open>auto simp: GetAlignSize_ceil\<close>)

section \<open>Properties\<close>

lemma AlignDownSize_le [simp]: "AlignDownSize a v \<le> v"
  by (simp add: AlignDownSize_def)

lemma AlignDownSize_dvd [simp]: "a dvd AlignDownSize a v"
  by (simp add: AlignDownSize_def)

end
