(* ===== verification/Serialize.thy ===== *)
theory Serialize
  imports Prelude
begin

text \<open>
  Models csrc/utils/Serialize.h (\<open>Serialize\<close>, \<open>Deserialize\<close>) and the packet head of
  csrc/utils/Protocol.h. A trivially copyable value is written as its object
  representation; on the little-endian targets of this code that is \<open>le_bytes\<close>. The locale
  \<open>codec\<close> is the contract that readers of structures (the ELF loader, the packet senders)
  rely on: a fixed size, the value back from the front of any longer buffer, failure on a
  shorter one.
\<close>

section \<open>Object representation of unsigned integers\<close>

fun le_bytes :: "nat \<Rightarrow> nat \<Rightarrow> bytes" where
  "le_bytes 0 v = []"
| "le_bytes (Suc n) v = word_of_nat (v mod 256) # le_bytes n (v div 256)"

fun le_val :: "bytes \<Rightarrow> nat" where
  "le_val [] = 0"
| "le_val (b # bs) = unat b + 256 * le_val bs"

definition field :: "bytes \<Rightarrow> nat \<Rightarrow> nat \<Rightarrow> nat" where
  \<comment> \<open>the unsigned member of \<open>n\<close> bytes at \<open>off\<close> of a struct\<close>
  "field bs off n = le_val (take n (drop off bs))"

lemma le_bytes_numeral:
  "le_bytes (numeral k) v = word_of_nat (v mod 256) # le_bytes (pred_numeral k) (v div 256)"
  by (metis le_bytes.simps(2) numeral_eq_Suc)

lemma length_le_bytes [simp, byte_simps]: "length (le_bytes n v) = n"
  by (induction n arbitrary: v) auto

lemma unat_byte [simp]: "unat (word_of_nat (v mod 256) :: byte) = v mod 256"
  by (simp add: unat_of_nat)

lemma unat_byte_less [simp]: "unat (b :: byte) < 256"
  using unsigned_less [of b] by simp

lemma le_val_le_bytes [byte_simps]: "le_val (le_bytes n v) = v mod 256 ^ n"
proof (induction n arbitrary: v)
  case (Suc n)
  have "v mod (256 * 256 ^ n) = 256 * (v div 256 mod 256 ^ n) + v mod 256"
    by (rule mod_mult2_eq)
  with Suc show ?case by simp
qed simp

lemma le_val_small: "v < 256 ^ n \<Longrightarrow> le_val (le_bytes n v) = v"
  by (simp add: le_val_le_bytes)

lemma le_val_less: "le_val bs < 256 ^ length bs"
proof (induction bs)
  case (Cons b bs)
  have "unat b < 256" by simp
  moreover have "Suc (le_val bs) \<le> 256 ^ length bs" using Cons by simp
  then have "256 * Suc (le_val bs) \<le> 256 * 256 ^ length bs" by (rule mult_le_mono2)
  ultimately show ?case by (simp del: unat_byte_less)
qed simp

lemma le_bytes_le_val [byte_simps]: "le_bytes (length bs) (le_val bs) = bs"
proof (induction bs)
  case (Cons b bs)
  have "unat b < 256" by simp
  then have "(unat b + 256 * le_val bs) mod 256 = unat b"
    and "(unat b + 256 * le_val bs) div 256 = le_val bs" by simp_all
  with Cons show ?case by simp
qed simp

section \<open>The codec contract\<close>

locale codec =
  fixes Ser :: "'a \<Rightarrow> bytes" and Des :: "bytes \<Rightarrow> 'a option" and sz :: nat
    and wf :: "'a \<Rightarrow> bool"
  assumes size_Ser: "length (Ser v) = sz"
    and Des_Ser: "wf v \<Longrightarrow> Des (Ser v @ rest) = Some v"
    and Des_None: "Des bs = None \<longleftrightarrow> length bs < sz"
    and Des_front: "sz \<le> length bs \<Longrightarrow> Des (take sz bs) = Des bs"
begin

lemma Des_exact: "wf v \<Longrightarrow> Des (Ser v) = Some v"
  using Des_Ser [of v "[]"] by simp

lemma Ser_inj: "wf v \<Longrightarrow> wf w \<Longrightarrow> Ser v = Ser w \<Longrightarrow> v = w"
  by (metis Des_exact option.inject)

lemma drop_Ser [simp]: "drop sz (Ser v @ rest) = rest"
  by (simp add: size_Ser)

end

section \<open>Serialize and Deserialize\<close>

definition Serialize_u :: "nat \<Rightarrow> nat \<Rightarrow> bytes" where
  \<comment> \<open>\<open>Serialize<T>\<close> for an unsigned integer of \<open>n\<close> bytes\<close>
  "Serialize_u n v = le_bytes n v"

definition Serialize_cat :: "bytes list \<Rightarrow> bytes" where
  \<comment> \<open>the variadic overload: the representations one after the other\<close>
  "Serialize_cat parts = foldr (@) parts []"

definition Deserialize_u :: "nat \<Rightarrow> bytes \<Rightarrow> nat option" where
  \<comment> \<open>\<open>Deserialize<Strings, T>\<close>: \<open>None\<close> for the result \<open>false\<close>\<close>
  "Deserialize_u n msg = (if length msg < n then None else Some (le_val (take n msg)))"

lemma codec_uint: "codec (Serialize_u n) (Deserialize_u n) n (\<lambda>v. v < 256 ^ n)"
proof
  fix v :: nat and rest bs
  show "length (Serialize_u n v) = n" by (simp add: Serialize_u_def)
  show "v < 256 ^ n \<Longrightarrow> Deserialize_u n (Serialize_u n v @ rest) = Some v"
    by (simp add: Serialize_u_def Deserialize_u_def le_val_small)
  show "Deserialize_u n bs = None \<longleftrightarrow> length bs < n"
    by (simp add: Deserialize_u_def)
  show "n \<le> length bs \<Longrightarrow> Deserialize_u n (take n bs) = Deserialize_u n bs"
    by (simp add: Deserialize_u_def)
qed

interpretation u16: codec "Serialize_u 2" "Deserialize_u 2" 2 "\<lambda>v. v < 256 ^ 2"
  by (rule codec_uint)

interpretation u32: codec "Serialize_u 4" "Deserialize_u 4" 4 "\<lambda>v. v < 256 ^ 4"
  by (rule codec_uint)

interpretation u64: codec "Serialize_u 8" "Deserialize_u 8" 8 "\<lambda>v. v < 256 ^ 8"
  by (rule codec_uint)

lemma length_Serialize_u [simp, byte_simps]: "length (Serialize_u n v) = n"
  by (simp add: Serialize_u_def)

section \<open>The packet head\<close>

record packet_head =
  ph_type :: nat
  ph_reserved :: nat
  ph_orderId :: nat

definition packet_head_size :: nat where
  "packet_head_size = 16"

definition Serialize_head :: "packet_head \<Rightarrow> bytes" where
  "Serialize_head h =
     Serialize_u 4 (ph_type h) @ Serialize_u 4 (ph_reserved h) @ Serialize_u 8 (ph_orderId h)"

definition Deserialize_head :: "bytes \<Rightarrow> packet_head option" where
  "Deserialize_head msg =
     (if length msg < packet_head_size then None
      else Some \<lparr>ph_type = le_val (take 4 msg), ph_reserved = le_val (take 4 (drop 4 msg)),
                 ph_orderId = le_val (take 8 (drop 8 msg))\<rparr>)"

definition head_wf :: "packet_head \<Rightarrow> bool" where
  "head_wf h \<longleftrightarrow> ph_type h < 2 ^ 32 \<and> ph_reserved h < 2 ^ 32 \<and> ph_orderId h < 2 ^ 64"

lemma length_Serialize_head [simp, byte_simps]: "length (Serialize_head h) = 16"
  by (simp add: Serialize_head_def)

interpretation head_codec: codec Serialize_head Deserialize_head packet_head_size head_wf
proof
  fix v :: packet_head and rest bs
  show "length (Serialize_head v) = packet_head_size"
    by (simp add: packet_head_size_def)
  show "head_wf v \<Longrightarrow> Deserialize_head (Serialize_head v @ rest) = Some v"
    by (simp add: Deserialize_head_def packet_head_size_def Serialize_head_def
        Serialize_u_def head_wf_def le_val_small)
  show "Deserialize_head bs = None \<longleftrightarrow> length bs < packet_head_size"
    by (simp add: Deserialize_head_def)
  show "packet_head_size \<le> length bs \<Longrightarrow>
    Deserialize_head (take packet_head_size bs) = Deserialize_head bs"
    by (simp add: Deserialize_head_def packet_head_size_def drop_take min_def)
qed

lemma Deserialize_head_wf: "Deserialize_head msg = Some h \<Longrightarrow> head_wf h"
  using le_val_less [of "take 4 msg"] le_val_less [of "take 4 (drop 4 msg)"]
    le_val_less [of "take 8 (drop 8 msg)"]
  by (auto simp: Deserialize_head_def packet_head_size_def head_wf_def split: if_splits)

text \<open>Replacing the head of a packet in place, as the in-place renumbering does.\<close>

lemma Deserialize_head_replace:
  "head_wf h \<Longrightarrow> Deserialize_head (Serialize_head h @ drop 16 msg) = Some h"
  by (rule head_codec.Des_Ser)

end
