(* ===== verification/Hijack.thy ===== *)
theory Hijack
  imports Prelude
begin

text \<open>
  Models the interception core under csrc/core: the tool selector (FuncSelector), the
  per-thread stack of hijacked upper-layer calls (HijackedLayerManager, LayerGuard), and
  the command object around an original function (HijackedFuncTemplate).

  A hijacked function is a step on an arbitrary program state \<open>'s\<close>: \<open>'a \<Rightarrow> 's \<Rightarrow> 'r \<times> 's\<close>.
  The original function is \<open>None\<close> when the loader could not find it.
\<close>

section \<open>FuncSelector\<close>

datatype ToolType = NONE | PROF | SANITIZER | TEST

record FuncSelector =
  fs_type :: ToolType
  fs_subType :: ToolType

definition init_selector :: FuncSelector where
  "init_selector = \<lparr>fs_type = NONE, fs_subType = NONE\<rparr>"

definition selector_Set :: "ToolType \<Rightarrow> FuncSelector \<Rightarrow> FuncSelector" where
  "selector_Set t s = s\<lparr>fs_type := t\<rparr>"

definition selector_Reset :: "ToolType \<Rightarrow> FuncSelector \<Rightarrow> bool \<times> FuncSelector" where
  "selector_Reset t s =
     (if fs_type s \<noteq> TEST then (False, s) else (True, s\<lparr>fs_subType := t\<rparr>))"

definition selector_Match :: "ToolType \<Rightarrow> FuncSelector \<Rightarrow> bool" where
  "selector_Match t s =
     (if fs_type s = NONE then False
      else if fs_type s = TEST then fs_subType s = t
      else fs_type s = t)"

definition IsOpProf :: "FuncSelector \<Rightarrow> bool" where
  "IsOpProf s = selector_Match PROF s"

definition IsSanitizer :: "FuncSelector \<Rightarrow> bool" where
  "IsSanitizer s = selector_Match SANITIZER s"

text \<open>The two tools are never selected together, so their hooks exclude each other.\<close>

lemma tools_exclusive: "\<not> (IsOpProf s \<and> IsSanitizer s)"
  by (auto simp: IsOpProf_def IsSanitizer_def selector_Match_def split: if_splits)

lemma selector_Set_Match: "t \<in> {PROF, SANITIZER} \<Longrightarrow> selector_Match u (selector_Set t s) = (u = t)"
  by (auto simp: selector_Match_def selector_Set_def)

section \<open>HijackedLayerManager\<close>

type_synonym layers = "string list"

definition GetAclToRuntimeMap :: "(string \<times> string list) list" where
  "GetAclToRuntimeMap =
    [(''aclrtSetDeviceImpl'', [''rtSetDevice'']),
     (''aclrtResetDeviceImpl'', [''rtDeviceReset'']),
     (''aclrtMallocImpl'', [''rtMalloc'']),
     (''aclrtFreeImpl'', [''rtFree'']),
     (''aclrtMemsetImpl'', [''rtMemset'']),
     (''aclrtMemcpyImpl'', [''rtMemcpy'']),
     (''aclrtMapMemImpl'', [''rtMapMem'']),
     (''aclrtUnmapMemImpl'', [''rtUnmapMem'']),
     (''aclrtIpcMemGetExportKeyImpl'', [''rtIpcSetMemoryName'']),
     (''aclrtIpcMemImportByKeyImpl'', [''rtIpcOpenMemory'']),
     (''aclrtIpcMemCloseImpl'', [''rtIpcDestroyMemoryName'', ''rtIpcCloseMemory'']),
     (''aclrtGetDeviceImpl'', [''rtGetDevice'']),
     (''aclrtCreateContextImpl'', [''rtCtxCreateEx'']),
     (''aclrtQueryDeviceStatusImpl'', [''rtDeviceStatusQuery'']),
     (''aclrtGetDeviceCountImpl'', [''rtGetDeviceCount'']),
     (''aclrtGetDeviceInfoImpl'', [''rtGetDeviceInfo'']),
     (''aclrtGetSocNameImpl'', [''rtGetSocVersion''])]"

definition layer_Push :: "string \<Rightarrow> layers \<Rightarrow> layers" where
  "layer_Push func ls = func # ls"

definition layer_Pop :: "layers \<Rightarrow> layers" where
  "layer_Pop ls = (if ls \<noteq> [] then tl ls else ls)"

fun parent_scan :: "layers \<Rightarrow> string \<Rightarrow> bool" where
  "parent_scan [] func = False"
| "parent_scan (p # ps) func =
     (case map_of GetAclToRuntimeMap p of
        None \<Rightarrow> parent_scan ps func
      | Some masked \<Rightarrow> if func \<in> set masked then True else parent_scan ps func)"

definition ParentInCallStack :: "layers \<Rightarrow> string \<Rightarrow> bool" where
  "ParentInCallStack ls func = (if ls = [] then False else parent_scan ls func)"

definition InCallStack :: "layers \<Rightarrow> string \<Rightarrow> bool" where
  "InCallStack ls func = (func \<in> set ls)"

definition masks :: "string \<Rightarrow> string \<Rightarrow> bool" where
  "masks p func \<longleftrightarrow> (\<exists>ms. map_of GetAclToRuntimeMap p = Some ms \<and> func \<in> set ms)"

lemma parent_scan_iff: "parent_scan ls func \<longleftrightarrow> (\<exists>p \<in> set ls. masks p func)"
  by (induction ls) (auto simp: masks_def split: option.splits)

lemma ParentInCallStack_iff: "ParentInCallStack ls func \<longleftrightarrow> (\<exists>p \<in> set ls. masks p func)"
  by (auto simp: ParentInCallStack_def parent_scan_iff)

lemma ParentInCallStack_Push:
  "ParentInCallStack (layer_Push p ls) func \<longleftrightarrow> masks p func \<or> ParentInCallStack ls func"
  by (auto simp: ParentInCallStack_iff layer_Push_def)

lemma layer_Pop_Push [simp]: "layer_Pop (layer_Push f ls) = ls"
  by (simp add: layer_Pop_def layer_Push_def)

text \<open>
  The scope of a LayerGuard: the constructor pushes the function's name, the destructor
  pops. \<open>get\<close> and \<open>put\<close> select the layer stack in the program state.
\<close>

definition LayerGuard ::
  "('s \<Rightarrow> layers) \<Rightarrow> (layers \<Rightarrow> 's \<Rightarrow> 's) \<Rightarrow> string \<Rightarrow> ('s \<Rightarrow> 'r \<times> 's) \<Rightarrow> 's \<Rightarrow> 'r \<times> 's" where
  "LayerGuard get put func body s =
     (case body (put (layer_Push func (get s)) s) of
        (r, s') \<Rightarrow> (r, put (layer_Pop (get s')) s'))"

section \<open>HijackedFuncTemplate\<close>

text \<open>
  \<open>origin\<close> is \<open>originfunc_\<close>, \<open>pre\<close> and \<open>post\<close> the virtual hooks, \<open>err\<close> the value
  \<open>EmptyFuncError::VALUE\<close>.
\<close>

definition HijackedFunc_Call ::
  "('a \<Rightarrow> 's \<Rightarrow> 's) \<Rightarrow> ('r \<Rightarrow> 's \<Rightarrow> 'r \<times> 's) \<Rightarrow> ('a \<Rightarrow> 's \<Rightarrow> 'r \<times> 's) option \<Rightarrow> 'r \<Rightarrow>
   'a \<Rightarrow> 's \<Rightarrow> 'r \<times> 's" where
  "HijackedFunc_Call pre post origin err args s =
     (let s1 = pre args s in
      case origin of
        Some f \<Rightarrow> (case f args s1 of (ret, s2) \<Rightarrow> post ret s2)
      | None \<Rightarrow> (err, s1))"

definition HijackedFunc_OriginCall ::
  "('a \<Rightarrow> 's \<Rightarrow> 'r \<times> 's) option \<Rightarrow> 'r \<Rightarrow> 'a \<Rightarrow> 's \<Rightarrow> 'r \<times> 's" where
  "HijackedFunc_OriginCall origin err args s =
     (case origin of Some f \<Rightarrow> f args s | None \<Rightarrow> (err, s))"

definition HijackedFunc_void_Call ::
  "('a \<Rightarrow> 's \<Rightarrow> 's) \<Rightarrow> ('s \<Rightarrow> 's) \<Rightarrow> ('a \<Rightarrow> 's \<Rightarrow> 's) option \<Rightarrow> 'a \<Rightarrow> 's \<Rightarrow> 's" where
  "HijackedFunc_void_Call pre post origin args s =
     (let s1 = pre args s in
      case origin of Some f \<Rightarrow> post (f args s1) | None \<Rightarrow> s1)"

text \<open>The default hooks (empty \<open>Pre\<close>, identity \<open>Post\<close>) make the wrapper transparent.\<close>

lemma HijackedFunc_Call_default:
  "HijackedFunc_Call (\<lambda>_ s. s) Pair origin err args s =
     HijackedFunc_OriginCall origin err args s"
  by (auto simp: HijackedFunc_Call_def HijackedFunc_OriginCall_def split: option.splits)

end
