(* ===== verification/Device.thy ===== *)
theory Device
  imports Prelude
begin

text \<open>
  The device runtime. Its functions live in the vendor's libraries, so they are parameters
  of the model: a record of functions on an arbitrary device state \<open>'w\<close>, which the
  components receive as an argument. The laws below state the documented behaviour that
  theorems rely on, as predicates over a view \<open>mem\<close> of the device's memory; the flat
  memory at the end is the concrete device that the witnesses use.

  The status 0 is \<open>ACL_SUCCESS\<close> / \<open>ACL_ERROR_NONE\<close>.
\<close>

section \<open>The runtime as parameters\<close>

record 'w acl_api =
  api_malloc :: "nat \<Rightarrow> nat \<Rightarrow> 'w \<Rightarrow> (acl_error \<times> ptr) \<times> 'w"  \<comment> \<open>size, policy\<close>
  api_free :: "ptr \<Rightarrow> 'w \<Rightarrow> acl_error \<times> 'w"
  api_memset :: "ptr \<Rightarrow> nat \<Rightarrow> byte \<Rightarrow> nat \<Rightarrow> 'w \<Rightarrow> acl_error \<times> 'w"
  api_read :: "ptr \<Rightarrow> nat \<Rightarrow> 'w \<Rightarrow> (acl_error \<times> bytes) \<times> 'w"  \<comment> \<open>device to host\<close>
  api_write :: "ptr \<Rightarrow> bytes \<Rightarrow> 'w \<Rightarrow> acl_error \<times> 'w"  \<comment> \<open>host to device\<close>
  api_copy :: "ptr \<Rightarrow> nat \<Rightarrow> ptr \<Rightarrow> nat \<Rightarrow> 'w \<Rightarrow> acl_error \<times> 'w"  \<comment> \<open>device to device\<close>
  api_copyHost :: "bytes \<Rightarrow> 'w \<Rightarrow> (acl_error \<times> bytes) \<times> 'w"  \<comment> \<open>host to host: what arrives\<close>
  api_copyAsync :: "ptr \<Rightarrow> nat \<Rightarrow> ptr \<Rightarrow> nat \<Rightarrow> ptr \<Rightarrow> 'w \<Rightarrow> acl_error \<times> 'w"
  api_sync :: "ptr \<Rightarrow> 'w \<Rightarrow> acl_error \<times> 'w"
  api_defaultStream :: "'w \<Rightarrow> (acl_error \<times> ptr) \<times> 'w"
  api_getDevice :: "'w \<Rightarrow> (acl_error \<times> int) \<times> 'w"
  api_mallocHost :: "nat \<Rightarrow> 'w \<Rightarrow> (acl_error \<times> ptr) \<times> 'w"
  api_freeHost :: "ptr \<Rightarrow> 'w \<Rightarrow> acl_error \<times> 'w"

definition ACL_SUCCESS :: acl_error where
  "ACL_SUCCESS = 0"

definition mem_range :: "('w \<Rightarrow> ptr \<Rightarrow> byte) \<Rightarrow> 'w \<Rightarrow> ptr \<Rightarrow> nat \<Rightarrow> bytes" where
  "mem_range mem w p n = map (mem w) [p..<p + n]"

lemma length_mem_range [simp]: "length (mem_range mem w p n) = n"
  by (simp add: mem_range_def)

lemma nth_mem_range [simp]: "i < n \<Longrightarrow> mem_range mem w p n ! i = mem w (p + i)"
  by (simp add: mem_range_def)

section \<open>Documented behaviour\<close>

definition memset_law :: "'w acl_api \<Rightarrow> ('w \<Rightarrow> ptr \<Rightarrow> byte) \<Rightarrow> bool" where
  "memset_law api mem \<longleftrightarrow>
     (\<forall>p v n w r w'. api_memset api p n v n w = (r, w') \<longrightarrow>
        r = ACL_SUCCESS \<and> mem w' = (\<lambda>a. if p \<le> a \<and> a < p + n then v else mem w a))"

definition read_law :: "'w acl_api \<Rightarrow> ('w \<Rightarrow> ptr \<Rightarrow> byte) \<Rightarrow> bool" where
  "read_law api mem \<longleftrightarrow>
     (\<forall>p n w r bs w'. api_read api p n w = ((r, bs), w') \<longrightarrow>
        r = ACL_SUCCESS \<and> bs = mem_range mem w p n \<and> mem w' = mem w)"

definition write_law :: "'w acl_api \<Rightarrow> ('w \<Rightarrow> ptr \<Rightarrow> byte) \<Rightarrow> bool" where
  "write_law api mem \<longleftrightarrow>
     (\<forall>p bs w r w'. api_write api p bs w = (r, w') \<longrightarrow>
        r = ACL_SUCCESS \<and>
        mem w' = (\<lambda>a. if p \<le> a \<and> a < p + length bs then bs ! (a - p) else mem w a))"

definition copyHost_law :: "'w acl_api \<Rightarrow> bool" where
  "copyHost_law api \<longleftrightarrow> (\<forall>bs w. fst (api_copyHost api bs w) = (ACL_SUCCESS, bs))"

section \<open>A flat device memory\<close>

record flat =
  fl_mem :: "ptr \<Rightarrow> byte"
  fl_next :: ptr
  fl_freed :: "ptr list"
  fl_hostBufs :: "ptr list"  \<comment> \<open>pinned host buffers in use\<close>

definition flat0 :: flat where
  "flat0 = \<lparr>fl_mem = (\<lambda>_. 0), fl_next = 4096, fl_freed = [], fl_hostBufs = []\<rparr>"

definition flat_put :: "ptr \<Rightarrow> bytes \<Rightarrow> flat \<Rightarrow> flat" where
  "flat_put p bs w =
     w\<lparr>fl_mem := (\<lambda>a. if p \<le> a \<and> a < p + length bs then bs ! (a - p) else fl_mem w a)\<rparr>"

definition flat_api :: "flat acl_api" where
  "flat_api =
     \<lparr>api_malloc = (\<lambda>n _ w. ((0, fl_next w), w\<lparr>fl_next := fl_next w + n\<rparr>)),
      api_free = (\<lambda>p w. (0, w\<lparr>fl_freed := p # fl_freed w\<rparr>)),
      api_memset = (\<lambda>p _ v n w. (0, w\<lparr>fl_mem := (\<lambda>a. if p \<le> a \<and> a < p + n then v else fl_mem w a)\<rparr>)),
      api_read = (\<lambda>p n w. ((0, mem_range fl_mem w p n), w)),
      api_write = (\<lambda>p bs w. (0, flat_put p bs w)),
      api_copy = (\<lambda>d _ s n w. (0, flat_put d (mem_range fl_mem w s n) w)),
      api_copyHost = (\<lambda>bs w. ((0, bs), w)),
      api_copyAsync = (\<lambda>d _ s n _ w. (0, flat_put d (mem_range fl_mem w s n) w)),
      api_sync = (\<lambda>_ w. (0, w)),
      api_defaultStream = (\<lambda>w. ((0, 7), w)),
      api_getDevice = (\<lambda>w. ((0, 0), w)),
      api_mallocHost = (\<lambda>_ w. let p = 64 + length (fl_hostBufs w) in
        ((0, p), w\<lparr>fl_hostBufs := p # fl_hostBufs w\<rparr>)),
      api_freeHost = (\<lambda>p w. (0, w\<lparr>fl_hostBufs := removeAll p (fl_hostBufs w)\<rparr>))\<rparr>"

lemma flat_memset_law: "memset_law flat_api fl_mem"
  by (auto simp: memset_law_def flat_api_def ACL_SUCCESS_def)

lemma flat_read_law: "read_law flat_api fl_mem"
  by (auto simp: read_law_def flat_api_def ACL_SUCCESS_def)

lemma flat_write_law: "write_law flat_api fl_mem"
  by (auto simp: write_law_def flat_api_def flat_put_def ACL_SUCCESS_def)

lemma flat_copyHost_law: "copyHost_law flat_api"
  by (simp add: copyHost_law_def flat_api_def ACL_SUCCESS_def)

end
