(* ===== verification/MemGuard.thy ===== *)
theory MemGuard
  imports Numeric Device Hijack
begin

text \<open>
  Models csrc/runtime/inject_helpers/MemGuard.h and MemGuard.cpp: the guard regions that the
  sanitizer places around device allocations. The state is the singleton's fields; the
  table of guarded blocks (device id, then user address) is an association list of
  association lists, walked in an order that the theorems never depend on. The device id of
  the calling thread is the argument \<open>dev\<close>, the command line configuration the argument
  \<open>cfg\<close>. Logging is left out; the packets handed to the tool are the list returned.
\<close>

section \<open>State\<close>

record GuardBlockInfo =
  gb_realPtr :: ptr
  gb_userSize :: nat
  gb_frontGuardSize :: nat
  gb_backGuardSize :: nat
  gb_frontErrStart :: nat
  gb_backErrStart :: nat
  gb_frontErrBytes :: nat
  gb_backErrBytes :: nat

definition GetFrontStart :: "GuardBlockInfo \<Rightarrow> ptr" where
  "GetFrontStart b = gb_realPtr b"

definition GetUserAddr :: "GuardBlockInfo \<Rightarrow> ptr" where
  "GetUserAddr b = gb_realPtr b + gb_frontGuardSize b"

definition GetBackStart :: "GuardBlockInfo \<Rightarrow> ptr" where
  "GetBackStart b = gb_realPtr b + gb_frontGuardSize b + gb_userSize b"

type_synonym guard_map = "(int \<times> (ptr \<times> GuardBlockInfo) list) list"

record MemoryGuard =
  mg_init :: bool
  mg_enable :: bool
  mg_frontSize :: nat
  mg_backSize :: nat
  mg_pattern :: byte
  mg_map :: guard_map

definition GM_BUFFER_GUARD_DFT_SIZE :: nat where
  "GM_BUFFER_GUARD_DFT_SIZE = 32"

definition GM_BUFFER_GUARD_DFT_PATTERN :: byte where
  "GM_BUFFER_GUARD_DFT_PATTERN = 0x5A"

definition guard0 :: MemoryGuard where
  "guard0 = \<lparr>mg_init = False, mg_enable = False, mg_frontSize = 0,
     mg_backSize = GM_BUFFER_GUARD_DFT_SIZE, mg_pattern = GM_BUFFER_GUARD_DFT_PATTERN,
     mg_map = []\<rparr>"

record SanitizerCli =
  cli_memCheck :: bool
  cli_gmBufferGuardSize :: nat

record GMAddrOutOfBoundRecord =
  gm_userAddr :: nat
  gm_userSize :: nat
  gm_outAddr :: nat
  gm_outSize :: nat

section \<open>Operations on the table\<close>

definition guard_lookup :: "guard_map \<Rightarrow> int \<Rightarrow> ptr \<Rightarrow> GuardBlockInfo option" where
  "guard_lookup m dev p = (case map_of m dev of None \<Rightarrow> None | Some t \<Rightarrow> map_of t p)"

definition GetGuardBlockInfoByUserAddr :: "int \<Rightarrow> ptr \<Rightarrow> MemoryGuard \<Rightarrow> GuardBlockInfo option" where
  "GetGuardBlockInfoByUserAddr dev userPtr g =
     (case map_of (mg_map g) dev of
        None \<Rightarrow> None
      | Some t \<Rightarrow> (case map_of t userPtr of None \<Rightarrow> None | Some b \<Rightarrow> Some b))"

definition GetGuardMapSize :: "MemoryGuard \<Rightarrow> nat" where
  "GetGuardMapSize g = foldl (\<lambda>cnt e. cnt + length (snd e)) 0 (mg_map g)"

definition ClearGuardBlockMap :: "MemoryGuard \<Rightarrow> MemoryGuard" where
  "ClearGuardBlockMap g = g\<lparr>mg_map := []\<rparr>"

definition SetGuardSizes :: "nat \<Rightarrow> nat \<Rightarrow> MemoryGuard \<Rightarrow> MemoryGuard" where
  "SetGuardSizes front back g =
     g\<lparr>mg_frontSize := CeilByAlignSize64 32 front, mg_backSize := CeilByAlignSize64 32 back\<rparr>"

definition GetGuardSizes :: "MemoryGuard \<Rightarrow> nat \<times> nat" where
  "GetGuardSizes g = (mg_frontSize g, mg_backSize g)"

definition SetGuardPattern :: "byte \<Rightarrow> MemoryGuard \<Rightarrow> MemoryGuard" where
  "SetGuardPattern p g = g\<lparr>mg_pattern := p\<rparr>"

definition GetGuardPattern :: "MemoryGuard \<Rightarrow> byte" where
  "GetGuardPattern g = mg_pattern g"

definition guard_Init :: "FuncSelector \<Rightarrow> SanitizerCli \<Rightarrow> MemoryGuard \<Rightarrow> MemoryGuard" where
  "guard_Init sel cfg g =
     (let g1 = g\<lparr>mg_init := True\<rparr> in
      if \<not> IsSanitizer sel then g1
      else if \<not> cli_memCheck cfg then g1
      else SetGuardSizes 0 (cli_gmBufferGuardSize cfg) (g1\<lparr>mg_enable := True\<rparr>))"

definition GetTotalSize ::
  "FuncSelector \<Rightarrow> SanitizerCli \<Rightarrow> nat \<Rightarrow> MemoryGuard \<Rightarrow> nat \<times> MemoryGuard" where
  "GetTotalSize sel cfg userSize g0 =
     (let g = (if \<not> mg_init g0 then guard_Init sel cfg g0 else g0) in
      if \<not> mg_enable g then (userSize, g)
      else
        let guard_total = wrap64 (mg_frontSize g + mg_backSize g) in
        if userSize > size_max - guard_total then (size_max, g)
        else (wrap64 (guard_total + userSize), g))"

definition MallocProc :: "int \<Rightarrow> ptr \<Rightarrow> nat \<Rightarrow> MemoryGuard \<Rightarrow> ptr \<times> MemoryGuard" where
  \<comment> \<open>\<open>devPtr\<close> is \<open>*devPtr\<close> on entry; the first result is \<open>*devPtr\<close> on return. The error
      byte counts are uninitialised in the source until the first check; 0 here\<close>
  "MallocProc dev devPtr userSize g =
     (if \<not> mg_enable g then (devPtr, g)
      else
        let info = \<lparr>gb_realPtr = devPtr, gb_userSize = userSize,
                    gb_frontGuardSize = mg_frontSize g, gb_backGuardSize = mg_backSize g,
                    gb_frontErrStart = size_max, gb_backErrStart = size_max,
                    gb_frontErrBytes = 0, gb_backErrBytes = 0\<rparr>;
            t = (case map_of (mg_map g) dev of None \<Rightarrow> [] | Some t \<Rightarrow> t)
        in (GetUserAddr info,
            g\<lparr>mg_map := al_put dev (al_put (GetUserAddr info) info t) (mg_map g)\<rparr>))"

definition GetRealPtr :: "int \<Rightarrow> ptr \<Rightarrow> MemoryGuard \<Rightarrow> ptr" where
  "GetRealPtr dev userPtr g =
     (if \<not> mg_enable g \<or> userPtr = 0 then userPtr
      else (case GetGuardBlockInfoByUserAddr dev userPtr g of
              None \<Rightarrow> userPtr
            | Some b \<Rightarrow> gb_realPtr b))"

definition FreeProc :: "int \<Rightarrow> ptr \<Rightarrow> MemoryGuard \<Rightarrow> MemoryGuard" where
  "FreeProc dev userPtr g =
     (if \<not> mg_enable g \<or> userPtr = 0 then g
      else (case map_of (mg_map g) dev of
              None \<Rightarrow> g
            | Some t \<Rightarrow>
                (case map_of t userPtr of
                   None \<Rightarrow> g
                 | Some _ \<Rightarrow> g\<lparr>mg_map := al_put dev (al_del userPtr t) (mg_map g)\<rparr>)))"

section \<open>Filling and checking\<close>

definition FillGuard :: "'w acl_api \<Rightarrow> byte \<Rightarrow> ptr \<Rightarrow> nat \<Rightarrow> 'w \<Rightarrow> 'w" where
  "FillGuard api pattern start len w =
     (if start \<noteq> 0 \<and> len > 0 then snd (api_memset api start len pattern len w) else w)"

definition fill_block :: "'w acl_api \<Rightarrow> MemoryGuard \<Rightarrow> 'w \<Rightarrow> GuardBlockInfo \<Rightarrow> 'w" where
  "fill_block api g w b =
     FillGuard api (mg_pattern g) (GetBackStart b) (mg_backSize g)
       (FillGuard api (mg_pattern g) (GetFrontStart b) (mg_frontSize g) w)"

definition FillAllMemGuard :: "'w acl_api \<Rightarrow> MemoryGuard \<Rightarrow> 'w \<Rightarrow> 'w" where
  "FillAllMemGuard api g w =
     (if \<not> mg_enable g then w
      else foldl (\<lambda>w1 e. foldl (\<lambda>w2 p. fill_block api g w2 (snd p)) w1 (snd e)) w (mg_map g))"

fun check_loop :: "byte \<Rightarrow> nat \<Rightarrow> bytes \<Rightarrow> nat \<times> nat \<Rightarrow> nat \<times> nat" where
  "check_loop pattern i [] (errStart, errBytes) = (errStart, errBytes)"
| "check_loop pattern i (b # bs) (errStart, errBytes) =
     (if b \<noteq> pattern
      then check_loop pattern (Suc i) bs
             (if errStart = size_max then i else errStart, Suc errBytes)
      else check_loop pattern (Suc i) bs (errStart, errBytes))"

definition CheckGuard :: "'w acl_api \<Rightarrow> byte \<Rightarrow> ptr \<Rightarrow> nat \<Rightarrow> 'w \<Rightarrow> (nat \<times> nat) \<times> 'w" where
  "CheckGuard api pattern start len w =
     (if len = 0 then ((size_max, 0), w)
      else (case api_read api start len w of
              ((err, buf), w') \<Rightarrow>
                if err \<noteq> ACL_SUCCESS then ((size_max, 0), w')
                else (check_loop pattern 0 buf (size_max, 0), w')))"

definition GenGMAddrErr :: "GuardBlockInfo \<Rightarrow> GMAddrOutOfBoundRecord" where
  \<comment> \<open>\<open>userSize\<close> and \<open>outSize\<close> are 32-bit fields of the record\<close>
  "GenGMAddrErr b =
     (let ua = GetUserAddr b; us = wrap32 (gb_userSize b) in
      \<lparr>gm_userAddr = ua, gm_userSize = us,
       gm_outAddr = wrap64 (ua + us + gb_backErrStart b),
       gm_outSize = wrap32 (gb_backErrBytes b)\<rparr>)"

definition check_block ::
  "'w acl_api \<Rightarrow> MemoryGuard \<Rightarrow> GuardBlockInfo \<Rightarrow> 'w \<Rightarrow>
   (GuardBlockInfo \<times> GMAddrOutOfBoundRecord list) \<times> 'w" where
  "check_block api g b w =
     (case CheckGuard api (mg_pattern g) (GetFrontStart b) (mg_frontSize g) w of
        ((fs, fb), w1) \<Rightarrow>
      (case CheckGuard api (mg_pattern g) (GetBackStart b) (mg_backSize g) w1 of
        ((bs, bb), w2) \<Rightarrow>
          let b' = b\<lparr>gb_frontErrStart := fs, gb_frontErrBytes := fb,
                     gb_backErrStart := bs, gb_backErrBytes := bb\<rparr>
          in ((b', if wrap64 (fb + bb) \<noteq> 0 then [GenGMAddrErr b'] else []), w2)))"

fun check_table ::
  "'w acl_api \<Rightarrow> MemoryGuard \<Rightarrow> (ptr \<times> GuardBlockInfo) list \<Rightarrow> 'w \<Rightarrow>
   ((ptr \<times> GuardBlockInfo) list \<times> GMAddrOutOfBoundRecord list) \<times> 'w" where
  "check_table api g [] w = (([], []), w)"
| "check_table api g ((p, b) # t) w =
     (case check_block api g b w of ((b', r), w1) \<Rightarrow>
      (case check_table api g t w1 of ((t', rs), w2) \<Rightarrow> (((p, b') # t', r @ rs), w2)))"

fun check_devices ::
  "'w acl_api \<Rightarrow> MemoryGuard \<Rightarrow> guard_map \<Rightarrow> 'w \<Rightarrow>
   (guard_map \<times> GMAddrOutOfBoundRecord list) \<times> 'w" where
  "check_devices api g [] w = (([], []), w)"
| "check_devices api g ((d, t) # m) w =
     (case check_table api g t w of ((t', r), w1) \<Rightarrow>
      (case check_devices api g m w1 of ((m', rs), w2) \<Rightarrow> (((d, t') # m', r @ rs), w2)))"

definition CheckAllMemGuard ::
  "'w acl_api \<Rightarrow> MemoryGuard \<Rightarrow> 'w \<Rightarrow> (MemoryGuard \<times> GMAddrOutOfBoundRecord list) \<times> 'w" where
  \<comment> \<open>the second component is what \<open>Notify\<close> receives\<close>
  "CheckAllMemGuard api g w =
     (if \<not> mg_enable g then ((g, []), w)
      else (case check_devices api g (mg_map g) w of
              ((m', rs), w') \<Rightarrow> ((g\<lparr>mg_map := m'\<rparr>, rs), w')))"

section \<open>The table as a tracker of allocations\<close>

definition guard_view :: "int \<Rightarrow> MemoryGuard \<Rightarrow> ptr \<Rightarrow> ptr option" where
  \<comment> \<open>the abstract contract: user address to real address, per device\<close>
  "guard_view dev g p = map_option gb_realPtr (guard_lookup (mg_map g) dev p)"

definition guard_on :: "MemoryGuard \<Rightarrow> bool" where
  "guard_on g \<longleftrightarrow> mg_enable g \<and> (\<forall>dev. guard_lookup (mg_map g) dev 0 = None)"

locale alloc_tracker =
  fixes put :: "ptr \<Rightarrow> nat \<Rightarrow> 's \<Rightarrow> ptr \<times> 's" and real :: "ptr \<Rightarrow> 's \<Rightarrow> ptr"
    and del :: "ptr \<Rightarrow> 's \<Rightarrow> 's" and view :: "'s \<Rightarrow> ptr \<Rightarrow> ptr option" and inv :: "'s \<Rightarrow> bool"
  assumes put_inv: "inv s \<Longrightarrow> p \<noteq> 0 \<Longrightarrow> inv (snd (put p n s))"
    and put_view: "inv s \<Longrightarrow> p \<noteq> 0 \<Longrightarrow>
      view (snd (put p n s)) = (view s)(fst (put p n s) \<mapsto> p)"
    and real_view: "inv s \<Longrightarrow> real u s = (case view s u of None \<Rightarrow> u | Some p \<Rightarrow> p)"
    and del_inv: "inv s \<Longrightarrow> inv (del u s)"
    and del_view: "inv s \<Longrightarrow> view (del u s) = (view s)(u := None)"
begin

lemma real_after_put: "inv s \<Longrightarrow> p \<noteq> 0 \<Longrightarrow> real (fst (put p n s)) (snd (put p n s)) = p"
  by (simp add: put_inv put_view real_view)

lemma real_other: "inv s \<Longrightarrow> p \<noteq> 0 \<Longrightarrow> u \<noteq> fst (put p n s) \<Longrightarrow>
    real u (snd (put p n s)) = real u s"
  by (simp add: put_inv put_view real_view)

lemma del_after_put: "inv s \<Longrightarrow> p \<noteq> 0 \<Longrightarrow> view s (fst (put p n s)) = None \<Longrightarrow>
    view (del (fst (put p n s)) (snd (put p n s))) = view s"
  by (simp add: put_inv put_view del_view fun_upd_idem)

lemma real_after_del: "inv s \<Longrightarrow> real u (del u s) = u"
  by (simp add: del_inv del_view real_view)

end

lemma lookup_put:
  "guard_lookup (al_put dev (al_put p b (case map_of m dev of None \<Rightarrow> [] | Some t \<Rightarrow> t)) m) dev' q =
     (if dev' = dev \<and> q = p then Some b else guard_lookup m dev' q)"
  by (auto simp: guard_lookup_def split: option.splits)

lemma lookup_del:
  "map_of m dev = Some t \<Longrightarrow> guard_lookup (al_put dev (al_del p t) m) dev' q =
     (if dev' = dev \<and> q = p then None else guard_lookup m dev' q)"
  by (auto simp: guard_lookup_def split: option.splits)

lemma GetGuardBlockInfo_lookup:
  "GetGuardBlockInfoByUserAddr dev p g = guard_lookup (mg_map g) dev p"
  by (auto simp: GetGuardBlockInfoByUserAddr_def guard_lookup_def split: option.splits)

lemma FreeProc_lookup:
  "mg_enable g \<Longrightarrow> u \<noteq> 0 \<Longrightarrow> guard_lookup (mg_map (FreeProc dev u g)) dev' q =
     (if dev' = dev \<and> q = u then None else guard_lookup (mg_map g) dev' q)"
  using lookup_del [of "mg_map g" dev _ u dev' q]
  by (auto simp: FreeProc_def guard_lookup_def split: option.splits)

lemma FreeProc_null: "FreeProc dev 0 g = g"
  by (simp add: FreeProc_def)

lemma MallocProc_lookup:
  "mg_enable g \<Longrightarrow> guard_lookup (mg_map (snd (MallocProc dev p n g))) dev' q =
     (if dev' = dev \<and> q = fst (MallocProc dev p n g)
      then Some \<lparr>gb_realPtr = p, gb_userSize = n, gb_frontGuardSize = mg_frontSize g,
             gb_backGuardSize = mg_backSize g, gb_frontErrStart = size_max,
             gb_backErrStart = size_max, gb_frontErrBytes = 0, gb_backErrBytes = 0\<rparr>
      else guard_lookup (mg_map g) dev' q)"
  by (simp add: MallocProc_def Let_def lookup_put)

lemma MallocProc_fst: "mg_enable g \<Longrightarrow> fst (MallocProc dev p n g) = p + mg_frontSize g"
  by (simp add: MallocProc_def Let_def GetUserAddr_def)

lemma guard_frame [frame_simps]:
  "mg_enable (snd (MallocProc dev p n g)) = mg_enable g"
  "mg_enable (FreeProc dev u g) = mg_enable g"
  "mg_frontSize (snd (MallocProc dev p n g)) = mg_frontSize g"
  "mg_backSize (snd (MallocProc dev p n g)) = mg_backSize g"
  by (auto simp: MallocProc_def FreeProc_def Let_def split: option.splits)

interpretation guard: alloc_tracker "MallocProc dev" "GetRealPtr dev" "FreeProc dev"
  "guard_view dev" guard_on for dev
proof
  fix s :: MemoryGuard and p u :: ptr and n
  assume on: "guard_on s"
  then have en: "mg_enable s" and null: "\<And>d. guard_lookup (mg_map s) d 0 = None"
    by (simp_all add: guard_on_def)
  show "GetRealPtr dev u s = (case guard_view dev s u of None \<Rightarrow> u | Some p \<Rightarrow> p)"
    using en null by (auto simp: GetRealPtr_def GetGuardBlockInfo_lookup guard_view_def
        split: option.splits)
  show "guard_on (FreeProc dev u s)"
    using en null
    by (cases "u = 0") (auto simp: guard_on_def frame_simps FreeProc_lookup FreeProc_null)
  show "guard_view dev (FreeProc dev u s) = (guard_view dev s)(u := None)"
    using en null
    by (cases "u = 0") (auto simp: guard_view_def FreeProc_lookup fun_eq_iff FreeProc_null)
  assume "p \<noteq> 0"
  then show "guard_on (snd (MallocProc dev p n s))"
    using en null by (auto simp: guard_on_def frame_simps MallocProc_lookup MallocProc_fst)
  show "guard_view dev (snd (MallocProc dev p n s)) =
      (guard_view dev s)(fst (MallocProc dev p n s) \<mapsto> p)"
    using en by (auto simp: guard_view_def MallocProc_lookup fun_eq_iff)
qed

section \<open>Size computation\<close>

lemma GetTotalSize_cases:
  assumes "mg_init g" and "mg_enable g" and "mg_frontSize g + mg_backSize g < 2 ^ 64"
    and "n < 2 ^ 64"
  shows "fst (GetTotalSize sel cfg n g) =
    (if n + mg_frontSize g + mg_backSize g < 2 ^ 64
     then n + mg_frontSize g + mg_backSize g else size_max)"
proof -
  define G where "G = mg_frontSize g + mg_backSize g"
  have G: "G < 2 ^ 64" using assms by (simp add: G_def)
  have "fst (GetTotalSize sel cfg n g) = (if n > size_max - G then size_max else wrap64 (G + n))"
    using assms(1,2) G by (simp add: GetTotalSize_def Let_def wrap64_small flip: G_def)
  also have "\<dots> = (if n + G < 2 ^ 64 then n + G else size_max)"
    using G assms(4) by (auto simp: wrap64_small size_max_def)
  finally show ?thesis by (simp add: G_def add.assoc)
qed

section \<open>What the check finds\<close>

definition bad_bytes :: "byte \<Rightarrow> bytes \<Rightarrow> nat set" where
  "bad_bytes pattern bs = {i. i < length bs \<and> bs ! i \<noteq> pattern}"

lemma finite_bad_bytes [simp]: "finite (bad_bytes pattern bs)"
  by (rule finite_subset [of _ "{..<length bs}"]) (auto simp: bad_bytes_def)

lemma bad_bytes_Cons:
  "bad_bytes pattern (b # bs) =
     (if b \<noteq> pattern then insert 0 (Suc ` bad_bytes pattern bs) else Suc ` bad_bytes pattern bs)"
  by (auto simp: bad_bytes_def image_iff less_Suc_eq_0_disj)

lemma bad_bytes_Nil [simp]: "bad_bytes pattern [] = {}"
  by (simp add: bad_bytes_def)

lemma Min_Suc_image: "finite A \<Longrightarrow> A \<noteq> {} \<Longrightarrow> Min (Suc ` A) = Suc (Min A)"
  by (rule mono_Min_commute [symmetric]) (auto simp: mono_def)

lemma check_loop_spec:
  assumes "i + length bs < size_max"
  shows "check_loop pattern i bs (es, eb) =
    (if es = size_max \<and> bad_bytes pattern bs \<noteq> {} then i + Min (bad_bytes pattern bs) else es,
     eb + card (bad_bytes pattern bs))"
  using assms
proof (induction pattern i bs "(es, eb)" arbitrary: es eb rule: check_loop.induct)
  case (2 pattern i b bs es eb)
  have card: "card (Suc ` bad_bytes pattern bs) = card (bad_bytes pattern bs)"
    by (simp add: card_image)
  have min0: "Min (insert 0 (Suc ` bad_bytes pattern bs)) = 0"
    by (rule Min_eqI) auto
  show ?case
    using 2 card min0 by (auto simp: bad_bytes_Cons Min_Suc_image)
qed simp

lemma CheckGuard_spec:
  fixes start len w pattern mem
  assumes "read_law api mem" and "len < size_max"
  defines "bad \<equiv> bad_bytes pattern (mem_range mem w start len)"
  shows "fst (CheckGuard api pattern start len w) =
      (if bad = {} then size_max else Min bad, card bad)"
    and "mem (snd (CheckGuard api pattern start len w)) = mem w"
proof -
  obtain r bs w' where rd: "api_read api start len w = ((r, bs), w')" by (metis surj_pair)
  with assms(1) have law: "r = ACL_SUCCESS" "bs = mem_range mem w start len" "mem w' = mem w"
    unfolding read_law_def by blast+
  have loop: "check_loop pattern 0 bs (size_max, 0) =
      (if bad = {} then size_max else Min bad, card bad)"
    using assms(2) law check_loop_spec [of 0 bs pattern size_max 0] by (auto simp: bad_def)
  show "fst (CheckGuard api pattern start len w) =
      (if bad = {} then size_max else Min bad, card bad)"
    using rd law loop by (auto simp: CheckGuard_def bad_def bad_bytes_def)
  show "mem (snd (CheckGuard api pattern start len w)) = mem w"
    using rd law by (simp add: CheckGuard_def)
qed

section \<open>Fill and check over the whole table\<close>

definition all_blocks :: "MemoryGuard \<Rightarrow> (ptr \<times> GuardBlockInfo) list" where
  "all_blocks g = concat (map snd (mg_map g))"

lemma foldl_concat_map:
  "foldl (\<lambda>w e. foldl f w (snd e)) w m = foldl f w (concat (map snd m))"
  by (induction m arbitrary: w) auto

lemma FillAll_blocks:
  "mg_enable g \<Longrightarrow> FillAllMemGuard api g w =
     foldl (\<lambda>w p. fill_block api g w (snd p)) w (all_blocks g)"
  by (simp add: FillAllMemGuard_def all_blocks_def foldl_concat_map)

lemma FillGuard_mem:
  assumes "memset_law api mem" and "start \<noteq> 0"
  shows "mem (FillGuard api pattern start len w) =
    (\<lambda>a. if start \<le> a \<and> a < start + len then pattern else mem w a)"
proof -
  obtain r w' where ms: "api_memset api start len pattern len w = (r, w')" by (metis surj_pair)
  with assms(1) have "mem w' = (\<lambda>a. if start \<le> a \<and> a < start + len then pattern else mem w a)"
    unfolding memset_law_def by blast
  then show ?thesis using assms(2) ms by (auto simp: FillGuard_def fun_eq_iff)
qed

definition guarded :: "MemoryGuard \<Rightarrow> GuardBlockInfo \<Rightarrow> ptr \<Rightarrow> bool" where
  \<comment> \<open>the addresses of a block's two guard regions\<close>
  "guarded g b a \<longleftrightarrow>
     (GetFrontStart b \<le> a \<and> a < GetFrontStart b + mg_frontSize g) \<or>
     (GetBackStart b \<le> a \<and> a < GetBackStart b + mg_backSize g)"

lemma fill_block_mem:
  assumes "memset_law api mem" and "gb_realPtr b \<noteq> 0"
  shows "mem (fill_block api g w b) = (\<lambda>a. if guarded g b a then mg_pattern g else mem w a)"
  using assms FillGuard_mem [OF assms(1)]
  by (auto simp: fill_block_def guarded_def GetFrontStart_def GetBackStart_def fun_eq_iff)

lemma fill_blocks_mem:
  assumes "memset_law api mem" and "\<forall>p \<in> set ps. gb_realPtr (snd p) \<noteq> 0"
  shows "mem (foldl (\<lambda>w p. fill_block api g w (snd p)) w ps) =
    (\<lambda>a. if \<exists>p \<in> set ps. guarded g (snd p) a then mg_pattern g else mem w a)"
  using assms(2)
  by (induction ps arbitrary: w) (auto simp: fill_block_mem [OF assms(1)] fun_eq_iff)

definition front_bad :: "('w \<Rightarrow> ptr \<Rightarrow> byte) \<Rightarrow> 'w \<Rightarrow> MemoryGuard \<Rightarrow> GuardBlockInfo \<Rightarrow> nat set" where
  "front_bad mem w g b =
     bad_bytes (mg_pattern g) (mem_range mem w (GetFrontStart b) (mg_frontSize g))"

definition back_bad :: "('w \<Rightarrow> ptr \<Rightarrow> byte) \<Rightarrow> 'w \<Rightarrow> MemoryGuard \<Rightarrow> GuardBlockInfo \<Rightarrow> nat set" where
  "back_bad mem w g b =
     bad_bytes (mg_pattern g) (mem_range mem w (GetBackStart b) (mg_backSize g))"

lemma front_bad_iff: "i \<in> front_bad mem w g b \<longleftrightarrow>
    i < mg_frontSize g \<and> mem w (GetFrontStart b + i) \<noteq> mg_pattern g"
  by (auto simp: front_bad_def bad_bytes_def)

lemma back_bad_iff: "i \<in> back_bad mem w g b \<longleftrightarrow>
    i < mg_backSize g \<and> mem w (GetBackStart b + i) \<noteq> mg_pattern g"
  by (auto simp: back_bad_def bad_bytes_def)

lemma card_bad_le: "card (front_bad mem w g b) \<le> mg_frontSize g"
  "card (back_bad mem w g b) \<le> mg_backSize g"
proof -
  have "front_bad mem w g b \<subseteq> {..<mg_frontSize g}" "back_bad mem w g b \<subseteq> {..<mg_backSize g}"
    by (auto simp: front_bad_iff back_bad_iff)
  then show "card (front_bad mem w g b) \<le> mg_frontSize g"
    "card (back_bad mem w g b) \<le> mg_backSize g"
    by (auto dest: card_mono [rotated])
qed

lemma finite_bad [simp]: "finite (front_bad mem w g b)" "finite (back_bad mem w g b)"
  by (simp_all add: front_bad_def back_bad_def)

definition checked :: "('w \<Rightarrow> ptr \<Rightarrow> byte) \<Rightarrow> 'w \<Rightarrow> MemoryGuard \<Rightarrow> GuardBlockInfo \<Rightarrow> GuardBlockInfo" where
  \<comment> \<open>the block with the four error fields a check leaves in it\<close>
  "checked mem w g b =
     (let f = front_bad mem w g b; k = back_bad mem w g b in
      b\<lparr>gb_frontErrStart := if f = {} then size_max else Min f, gb_frontErrBytes := card f,
        gb_backErrStart := if k = {} then size_max else Min k, gb_backErrBytes := card k\<rparr>)"

definition dirty :: "('w \<Rightarrow> ptr \<Rightarrow> byte) \<Rightarrow> 'w \<Rightarrow> MemoryGuard \<Rightarrow> GuardBlockInfo \<Rightarrow> bool" where
  "dirty mem w g b \<longleftrightarrow> (\<exists>a. guarded g b a \<and> mem w a \<noteq> mg_pattern g)"

lemma ex_offset: "(\<exists>a. s \<le> a \<and> a < s + n \<and> P a) \<longleftrightarrow> (\<exists>i < n. P (s + i))" for s n :: nat
  by (metis add_less_cancel_left le_add1 le_Suc_ex)

lemma dirty_iff: "dirty mem w g b \<longleftrightarrow> front_bad mem w g b \<noteq> {} \<or> back_bad mem w g b \<noteq> {}"
proof -
  have "front_bad mem w g b \<noteq> {} \<longleftrightarrow>
      (\<exists>i < mg_frontSize g. mem w (GetFrontStart b + i) \<noteq> mg_pattern g)"
    and "back_bad mem w g b \<noteq> {} \<longleftrightarrow>
      (\<exists>i < mg_backSize g. mem w (GetBackStart b + i) \<noteq> mg_pattern g)"
    by (auto simp: set_eq_iff front_bad_iff back_bad_iff)
  then show ?thesis
    using ex_offset [of "GetFrontStart b" "mg_frontSize g" "\<lambda>a. mem w a \<noteq> mg_pattern g"]
      ex_offset [of "GetBackStart b" "mg_backSize g" "\<lambda>a. mem w a \<noteq> mg_pattern g"]
    unfolding dirty_def guarded_def by blast
qed

definition sizes_ok :: "MemoryGuard \<Rightarrow> bool" where
  "sizes_ok g \<longleftrightarrow> mg_frontSize g + mg_backSize g < size_max"

lemma check_block_spec:
  assumes "read_law api mem" and "sizes_ok g"
  shows "fst (check_block api g b w) =
      (checked mem w g b, if dirty mem w g b then [GenGMAddrErr (checked mem w g b)] else [])"
    and "mem (snd (check_block api g b w)) = mem w"
proof -
  have lens: "mg_frontSize g < size_max" "mg_backSize g < size_max"
    using assms(2) by (auto simp: sizes_ok_def)
  obtain fs fb w1 where c1: "CheckGuard api (mg_pattern g) (GetFrontStart b) (mg_frontSize g) w
      = ((fs, fb), w1)" by (metis surj_pair)
  obtain ks kb w2 where c2: "CheckGuard api (mg_pattern g) (GetBackStart b) (mg_backSize g) w1
      = ((ks, kb), w2)" by (metis surj_pair)
  note m1 = CheckGuard_spec [OF assms(1) lens(1), of "mg_pattern g" "GetFrontStart b" w]
  note m2 = CheckGuard_spec [OF assms(1) lens(2), of "mg_pattern g" "GetBackStart b" w1]
  have w1: "mem w1 = mem w" using m1(2) c1 by simp
  then have range: "mem_range mem w1 = mem_range mem w" by (simp add: mem_range_def fun_eq_iff)
  have f: "fs = (if front_bad mem w g b = {} then size_max else Min (front_bad mem w g b))"
    "fb = card (front_bad mem w g b)"
    using m1(1) c1 by (auto simp: front_bad_def)
  have k: "ks = (if back_bad mem w g b = {} then size_max else Min (back_bad mem w g b))"
    "kb = card (back_bad mem w g b)"
    using m2(1) c2 range by (auto simp: back_bad_def)
  have "fb + kb < 2 ^ 64"
    using card_bad_le [of mem w g b] assms(2) f k by (simp add: sizes_ok_def size_max_def)
  then have "wrap64 (fb + kb) \<noteq> 0 \<longleftrightarrow> dirty mem w g b"
    by (auto simp: wrap64_small f k dirty_iff)
  then show "fst (check_block api g b w) =
      (checked mem w g b, if dirty mem w g b then [GenGMAddrErr (checked mem w g b)] else [])"
    using c1 c2 f k by (simp add: check_block_def Let_def checked_def)
  show "mem (snd (check_block api g b w)) = mem w"
    using c1 c2 m2(2) w1 by (simp add: check_block_def Let_def)
qed

lemma checked_cong: "mem w' = mem w \<Longrightarrow> checked mem w' g b = checked mem w g b"
  by (simp add: checked_def front_bad_def back_bad_def mem_range_def)

lemma dirty_cong: "mem w' = mem w \<Longrightarrow> dirty mem w' g b = dirty mem w g b"
  by (simp add: dirty_def)

definition reports ::
  "('w \<Rightarrow> ptr \<Rightarrow> byte) \<Rightarrow> 'w \<Rightarrow> MemoryGuard \<Rightarrow> GuardBlockInfo list \<Rightarrow> GMAddrOutOfBoundRecord list" where
  "reports mem w g bs = map (\<lambda>b. GenGMAddrErr (checked mem w g b)) (filter (dirty mem w g) bs)"

lemma reports_cong:
  assumes "mem w' = mem w"
  shows "reports mem w' g bs = reports mem w g bs"
proof -
  have "dirty mem w' g = dirty mem w g" and "checked mem w' g = checked mem w g"
    using dirty_cong [OF assms] checked_cong [OF assms] by (simp_all add: fun_eq_iff)
  then show ?thesis by (simp only: reports_def)
qed

lemma check_table_spec:
  assumes "read_law api mem" and "sizes_ok g"
  shows "fst (check_table api g t w) =
      (map (\<lambda>(p, b). (p, checked mem w g b)) t, reports mem w g (map snd t)) \<and>
    mem (snd (check_table api g t w)) = mem w"
proof (induction t arbitrary: w)
  case (Cons e t)
  obtain p b where e: "e = (p, b)" by (cases e)
  obtain b' r w1 where c: "check_block api g b w = ((b', r), w1)" by (metis surj_pair)
  with check_block_spec [OF assms, of b w]
  have b': "b' = checked mem w g b" "r = reports mem w g [b]" and w1: "mem w1 = mem w"
    by (auto simp: reports_def)
  obtain t' rs w2 where ct: "check_table api g t w1 = ((t', rs), w2)" by (metis surj_pair)
  with Cons [of w1] w1
  have "t' = map (\<lambda>(p, b). (p, checked mem w g b)) t" "rs = reports mem w g (map snd t)"
    "mem w2 = mem w"
    using checked_cong [OF w1] reports_cong [OF w1] by auto
  then show ?case using c ct b' by (simp add: e reports_def)
qed (simp add: reports_def)

lemma check_devices_spec:
  assumes "read_law api mem" and "sizes_ok g"
  shows "snd (fst (check_devices api g m w)) =
      reports mem w g (map snd (concat (map snd m))) \<and>
    mem (snd (check_devices api g m w)) = mem w"
proof (induction m arbitrary: w)
  case (Cons e m)
  obtain d t where e: "e = (d, t)" by (cases e)
  obtain t' r w1 where c: "check_table api g t w = ((t', r), w1)" by (metis surj_pair)
  with check_table_spec [OF assms, of t w]
  have r: "r = reports mem w g (map snd t)" and w1: "mem w1 = mem w" by auto
  obtain m' rs w2 where cd: "check_devices api g m w1 = ((m', rs), w2)" by (metis surj_pair)
  with Cons [of w1] have "rs = reports mem w g (map snd (concat (map snd m)))" "mem w2 = mem w"
    using reports_cong [OF w1] w1 by auto
  then show ?case using c cd r by (simp add: e reports_def)
qed (simp add: reports_def)

section \<open>Properties\<close>

text \<open>
  C1: the pointer the hijacked malloc hands to the program is translated back, by the
  hijacked free, to the pointer the runtime returned; the translation of every other pointer
  is unchanged; and forgetting the block restores the device's table.
\<close>

theorem guard_malloc_free_roundtrip:
  assumes "guard_on g" and "p \<noteq> 0" and "MallocProc dev p n g = (u, g')"
    and "guard_view dev g u = None"
  shows "u = p + mg_frontSize g \<and> GetRealPtr dev u g' = p \<and>
    (\<forall>v. v = u \<or> GetRealPtr dev v g' = GetRealPtr dev v g) \<and>
    guard_view dev (FreeProc dev u g') = guard_view dev g \<and>
    GetRealPtr dev u (FreeProc dev u g') = u"
proof -
  note facts = guard.real_after_put [OF assms(1,2), of dev n]
    guard.real_other [OF assms(1,2), of _ dev n]
    guard.del_after_put [OF assms(1,2), of dev n]
    guard.real_after_del [OF guard.put_inv [OF assms(1,2), of dev n]]
  have "u = p + mg_frontSize g"
    using MallocProc_fst [of g dev p n] assms(1,3) by (simp add: guard_on_def)
  then show ?thesis using facts assms(3,4) by auto
qed

definition guard_ex :: MemoryGuard where
  "guard_ex = SetGuardSizes 0 40 (guard0\<lparr>mg_init := True, mg_enable := True\<rparr>)"

lemma guard_ex_simps [simp]:
  "mg_enable guard_ex" "mg_init guard_ex" "mg_map guard_ex = []" "mg_frontSize guard_ex = 0"
  "mg_backSize guard_ex = 64" "mg_pattern guard_ex = 0x5A"
  by (simp_all add: guard_ex_def guard0_def SetGuardSizes_def CeilByAlignSize64_def wrap64_def
      GM_BUFFER_GUARD_DFT_PATTERN_def)

theorem guard_malloc_free_roundtrip_witness:
  "GetRealPtr 0 4096 (snd (MallocProc 0 4096 100 guard_ex)) = 4096"
proof -
  have on: "guard_on guard_ex" by (simp add: guard_on_def guard_lookup_def)
  have "MallocProc 0 4096 100 guard_ex = (4096, snd (MallocProc 0 4096 100 guard_ex))"
    by (simp add: MallocProc_def Let_def GetUserAddr_def)
  from guard_malloc_free_roundtrip [OF on _ this]
  show ?thesis by (simp add: guard_view_def guard_lookup_def)
qed

text \<open>
  C9: right after the guards are filled, a check of the whole table reports nothing, for any
  number of devices and blocks and whatever the memory held before.
\<close>

theorem guard_fill_then_check_clean:
  assumes "memset_law api mem" and "read_law api mem" and "mg_enable g" and "sizes_ok g"
    and "\<forall>(p, b) \<in> set (all_blocks g). gb_realPtr b \<noteq> 0"
  shows "snd (fst (CheckAllMemGuard api g (FillAllMemGuard api g w))) = []"
proof -
  define w1 where "w1 = FillAllMemGuard api g w"
  have m: "mem w1 = (\<lambda>a. if \<exists>p \<in> set (all_blocks g). guarded g (snd p) a
      then mg_pattern g else mem w a)"
    unfolding w1_def FillAll_blocks [OF assms(3)]
    by (rule fill_blocks_mem [OF assms(1)]) (use assms(5) in auto)
  then have "\<not> dirty mem w1 g b" if "b \<in> snd ` set (all_blocks g)" for b
    using that by (auto simp: dirty_def)
  then have "reports mem w1 g (map snd (all_blocks g)) = []"
    by (simp add: reports_def filter_empty_conv)
  then show ?thesis
    using check_devices_spec [OF assms(2,4), of "mg_map g" w1] assms(3)
    by (auto simp: CheckAllMemGuard_def w1_def all_blocks_def split: prod.splits)
qed

definition guard_two :: MemoryGuard where
  "guard_two = snd (MallocProc 0 8192 16 (snd (MallocProc 0 4096 100 guard_ex)))"

lemma guard_two_simps [simp]:
  "mg_enable guard_two" "mg_frontSize guard_two = 0" "mg_backSize guard_two = 64"
  "mg_pattern guard_two = 0x5A"
  by (simp_all add: guard_two_def MallocProc_def Let_def)

lemma guard_two_blocks:
  "all_blocks guard_two =
     [(4096, \<lparr>gb_realPtr = 4096, gb_userSize = 100, gb_frontGuardSize = 0, gb_backGuardSize = 64,
        gb_frontErrStart = size_max, gb_backErrStart = size_max,
        gb_frontErrBytes = 0, gb_backErrBytes = 0\<rparr>),
      (8192, \<lparr>gb_realPtr = 8192, gb_userSize = 16, gb_frontGuardSize = 0, gb_backGuardSize = 64,
        gb_frontErrStart = size_max, gb_backErrStart = size_max,
        gb_frontErrBytes = 0, gb_backErrBytes = 0\<rparr>)]"
  by (simp add: guard_two_def MallocProc_def Let_def GetUserAddr_def all_blocks_def)

theorem guard_fill_then_check_clean_witness:
  "snd (fst (CheckAllMemGuard flat_api guard_two (FillAllMemGuard flat_api guard_two flat0))) = []"
  by (rule guard_fill_then_check_clean [OF flat_memset_law flat_read_law])
    (simp_all add: sizes_ok_def size_max_def guard_two_blocks)

text \<open>The addresses of a block's guard regions that no longer hold the pattern.\<close>

definition overwritten :: "('w \<Rightarrow> ptr \<Rightarrow> byte) \<Rightarrow> 'w \<Rightarrow> MemoryGuard \<Rightarrow> GuardBlockInfo \<Rightarrow> ptr set" where
  "overwritten mem w g b = {a. guarded g b a \<and> mem w a \<noteq> mg_pattern g}"

lemma overwritten_back:
  assumes "mg_frontSize g = 0"
  shows "overwritten mem w g b = (\<lambda>i. GetBackStart b + i) ` back_bad mem w g b"
proof (intro subset_antisym subsetI)
  fix a
  assume a: "a \<in> overwritten mem w g b"
  then have "a - GetBackStart b \<in> back_bad mem w g b" "a = GetBackStart b + (a - GetBackStart b)"
    using assms by (auto simp: overwritten_def guarded_def back_bad_iff)
  then show "a \<in> (\<lambda>i. GetBackStart b + i) ` back_bad mem w g b" by blast
qed (auto simp: overwritten_def guarded_def back_bad_iff)

lemma overwritten_dirty: "dirty mem w g b \<longleftrightarrow> overwritten mem w g b \<noteq> {}"
  by (auto simp: dirty_def overwritten_def)

lemma GenGMAddrErr_outAddr:
  assumes "GetBackStart b + gb_backErrStart b < 2 ^ 64"
  shows "gm_outAddr (GenGMAddrErr b) + 2 ^ 32 * (gb_userSize b div 2 ^ 32) =
    GetBackStart b + gb_backErrStart b"
proof -
  define us where "us = wrap32 (gb_userSize b)"
  have split: "us + 2 ^ 32 * (gb_userSize b div 2 ^ 32) = gb_userSize b"
    by (simp add: us_def wrap32_def)
  have "GetUserAddr b + us + gb_backErrStart b < 2 ^ 64"
    using assms split by (simp add: GetBackStart_def GetUserAddr_def)
  then have "gm_outAddr (GenGMAddrErr b) = GetUserAddr b + us + gb_backErrStart b"
    by (simp add: GenGMAddrErr_def Let_def us_def wrap64_small)
  then show ?thesis using split by (simp add: GetBackStart_def GetUserAddr_def)
qed

lemma report_of_dirty:
  assumes "mg_frontSize g = 0" and "mg_backSize g < 2 ^ 32" and "gb_frontGuardSize b = 0"
    and "gb_userSize b < 2 ^ 32" and "GetBackStart b + mg_backSize g < 2 ^ 64"
    and "dirty mem w g b"
  shows "GenGMAddrErr (checked mem w g b) =
    \<lparr>gm_userAddr = gb_realPtr b, gm_userSize = gb_userSize b,
     gm_outAddr = Min (overwritten mem w g b), gm_outSize = card (overwritten mem w g b)\<rparr>"
proof -
  let ?k = "back_bad mem w g b" and ?c = "checked mem w g b"
  have front: "front_bad mem w g b = {}" using assms(1) by (auto simp: front_bad_iff)
  then have k: "?k \<noteq> {}" using assms(6) by (simp add: dirty_iff)
  have errs: "gb_backErrStart ?c = Min ?k" "gb_backErrBytes ?c = card ?k"
    and same: "gb_realPtr ?c = gb_realPtr b" "gb_userSize ?c = gb_userSize b"
      "GetBackStart ?c = GetBackStart b" "GetUserAddr ?c = gb_realPtr b"
    using k assms(3) by (simp_all add: checked_def Let_def GetBackStart_def GetUserAddr_def)
  have "Min ?k \<in> ?k" using k by simp
  then have "Min ?k < mg_backSize g" by (simp add: back_bad_iff)
  then have "gm_outAddr (GenGMAddrErr ?c) = GetBackStart b + Min ?k"
    using GenGMAddrErr_outAddr [of ?c] assms(4,5) errs same by simp
  also have "\<dots> = Min (overwritten mem w g b)"
    unfolding overwritten_back [OF assms(1)] using k
    by (intro mono_Min_commute) (auto simp: mono_def)
  finally have addr: "gm_outAddr (GenGMAddrErr ?c) = Min (overwritten mem w g b)" .
  have "card (overwritten mem w g b) = card ?k"
    unfolding overwritten_back [OF assms(1)] by (intro card_image) (auto simp: inj_on_def)
  moreover have "card ?k < 2 ^ 32" using card_bad_le(2) [of mem w g b] assms(2) by linarith
  ultimately have "gm_outSize (GenGMAddrErr ?c) = card (overwritten mem w g b)"
    by (simp add: GenGMAddrErr_def Let_def errs wrap32_small)
  then show ?thesis
    using addr assms(4) same by (simp add: GenGMAddrErr_def Let_def wrap32_small)
qed


definition flat_overrun :: flat where
  \<comment> \<open>guards filled, then two bytes written just behind the first block\<close>
  "flat_overrun = flat_put 4197 [1, 2] (FillAllMemGuard flat_api guard_two flat0)"


text \<open>
  the address in an overrun record. The record's size field has 32 bits and the address
  is computed from it, so for a block of 4 GiB or more the reported address lies a multiple
  of 4 GiB below the overwritten byte (it is exact below 4 GiB).
\<close>

theorem guard_report_address:
  assumes "GetBackStart b + gb_backErrStart b < 2 ^ 64"
  shows "gm_outAddr (GenGMAddrErr b) =
    GetBackStart b + gb_backErrStart b - 2 ^ 32 * (gb_userSize b div 2 ^ 32)"
  using GenGMAddrErr_outAddr [OF assms] by simp

theorem guard_report_address_witness:
  "gm_outAddr (GenGMAddrErr \<lparr>gb_realPtr = 4096, gb_userSize = 2 ^ 32, gb_frontGuardSize = 0,
     gb_backGuardSize = 32, gb_frontErrStart = size_max, gb_backErrStart = 3,
     gb_frontErrBytes = 0, gb_backErrBytes = 1\<rparr>) = 4099"
  by (subst guard_report_address) (simp_all add: GetBackStart_def)

end
