(* ===== verification/OrdSet.thy ===== *)
theory OrdSet
  imports Prelude "HOL-Library.Product_Lexorder"
begin

text \<open>
  \<open>std::set\<close> with a comparator and \<open>std::map\<close>: lists in strictly ascending order of a key.
  Iteration is the order of the list; two elements whose keys are equal are the same
  element for the container, so \<open>insert\<close> keeps the old one. \<open>key\<close> is a linear order of the
  comparator's fields (a tuple under the lexicographic order).
\<close>

section \<open>Strictly ascending lists\<close>

definition oset :: "('a \<Rightarrow> 'k::linorder) \<Rightarrow> 'a list \<Rightarrow> bool" where
  "oset key xs \<longleftrightarrow> sorted_wrt (\<lambda>x y. key x < key y) xs"

fun oset_insert :: "('a \<Rightarrow> 'k::linorder) \<Rightarrow> 'a \<Rightarrow> 'a list \<Rightarrow> 'a list" where
  "oset_insert key x [] = [x]"
| "oset_insert key x (y # ys) =
     (if key x < key y then x # y # ys
      else if key x = key y then y # ys
      else y # oset_insert key x ys)"

definition oset_erase :: "('a \<Rightarrow> 'k::linorder) \<Rightarrow> 'k \<Rightarrow> 'a list \<Rightarrow> 'a list" where
  "oset_erase key k xs = filter (\<lambda>x. key x \<noteq> k) xs"

lemma oset_Nil [simp]: "oset key []"
  by (simp add: oset_def)

lemma oset_Cons: "oset key (x # xs) \<longleftrightarrow> (\<forall>y \<in> set xs. key x < key y) \<and> oset key xs"
  by (simp add: oset_def)

lemma set_oset_insert:
  "set (oset_insert key x xs) =
     (if key x \<in> key ` set xs then set xs else insert x (set xs))" if "oset key xs"
  using that by (induction key x xs rule: oset_insert.induct) (force simp: oset_Cons)+

lemma set_oset_insert_subset: "set (oset_insert key x xs) \<subseteq> insert x (set xs)"
  by (induction key x xs rule: oset_insert.induct) auto

lemma oset_insert_oset [inv_intros]: "oset key xs \<Longrightarrow> oset key (oset_insert key x xs)"
proof (induction key x xs rule: oset_insert.induct)
  case (2 key x y ys)
  have y: "\<forall>z \<in> set ys. key y < key z" using 2(2) by (simp add: oset_Cons)
  have below: "\<forall>z \<in> set ys. key x < key z" if "key x < key y"
    using y less_trans [OF that] by blast
  have above: "\<forall>z \<in> set (oset_insert key x ys). key y < key z" if "key y < key x"
    using that 2(2) set_oset_insert_subset [of key x ys] by (auto simp: oset_Cons)
  show ?case
    using 2 below above by (cases "key x" "key y" rule: linorder_cases) (auto simp: oset_Cons)
qed (simp add: oset_Cons)

lemma oset_erase_oset [inv_intros]: "oset key xs \<Longrightarrow> oset key (oset_erase key k xs)"
  by (induction xs) (auto simp: oset_erase_def oset_Cons)

lemma set_oset_erase: "set (oset_erase key k xs) = {x \<in> set xs. key x \<noteq> k}"
  by (auto simp: oset_erase_def)

lemma oset_inj: "oset key xs \<Longrightarrow> x \<in> set xs \<Longrightarrow> y \<in> set xs \<Longrightarrow> key x = key y \<Longrightarrow> x = y"
proof (induction xs)
  case (Cons z zs)
  have "key z < key v" if "v \<in> set zs" for v using Cons.prems(1) that by (simp add: oset_Cons)
  then show ?case using Cons by (metis less_irrefl oset_Cons set_ConsD)
qed simp

lemma oset_distinct: "oset key xs \<Longrightarrow> distinct xs"
  by (induction xs) (auto simp: oset_Cons)

lemma oset_insert_length: "length (oset_insert key x xs) \<le> Suc (length xs)"
  by (induction key x xs rule: oset_insert.induct) auto

lemma oset_erase_length:
  "oset key xs \<Longrightarrow> x \<in> set xs \<Longrightarrow> Suc (length (oset_erase key (key x) xs)) = length xs"
proof (induction xs)
  case (Cons y ys)
  show ?case
  proof (cases "x = y")
    case True
    then have "\<forall>z \<in> set ys. key z \<noteq> key x" using Cons.prems by (auto simp: oset_Cons)
    then have "oset_erase key (key x) ys = ys" by (simp add: oset_erase_def)
    with True show ?thesis by (simp add: oset_erase_def)
  next
    case False
    then have "key y \<noteq> key x" using Cons.prems by (auto simp: oset_Cons)
    with False Cons show ?thesis by (auto simp: oset_Cons oset_erase_def)
  qed
qed simp

lemma oset_insert_head:
  "(\<forall>y \<in> set xs. key x < key y) \<Longrightarrow> oset_insert key x xs = x # xs"
  by (cases xs) auto

lemma oset_erase_insert:
  assumes "oset key xs" and "key x \<noteq> k"
  shows "oset_erase key k (oset_insert key x xs) = oset_insert key x (oset_erase key k xs)"
  using assms
proof (induction key x xs rule: oset_insert.induct)
  case (2 key x y ys)
  have y: "\<forall>z \<in> set ys. key y < key z" using 2(2) by (simp add: oset_Cons)
  have "oset_insert key x (filter (\<lambda>z. key z \<noteq> k) ys) = x # filter (\<lambda>z. key z \<noteq> k) ys"
    if "key x < key y"
    using y less_trans [OF that] by (intro oset_insert_head) auto
  then show ?case using 2 by (auto simp: oset_erase_def oset_Cons)
qed (simp add: oset_erase_def)

section \<open>Ordered maps\<close>

text \<open>\<open>m[k] = v\<close> of a \<open>std::map\<close>: the entry is replaced or added at its place.\<close>

fun omap_put :: "'k::linorder \<Rightarrow> 'v \<Rightarrow> ('k \<times> 'v) list \<Rightarrow> ('k \<times> 'v) list" where
  "omap_put k v [] = [(k, v)]"
| "omap_put k v ((k', v') # xs) =
     (if k < k' then (k, v) # (k', v') # xs
      else if k = k' then (k, v) # xs
      else (k', v') # omap_put k v xs)"

lemma map_of_omap_put [simp]: "map_of (omap_put k v xs) = (map_of xs)(k \<mapsto> v)"
  by (induction k v xs rule: omap_put.induct) (auto simp: fun_eq_iff)

lemma keys_omap_put: "fst ` set (omap_put k v xs) = insert k (fst ` set xs)"
  by (induction k v xs rule: omap_put.induct) (auto simp: insert_commute)

lemma oset_omap_put [inv_intros]: "oset fst xs \<Longrightarrow> oset fst (omap_put k v xs)"
proof (induction k v xs rule: omap_put.induct)
  case (2 k v k' v' xs)
  have "\<forall>y \<in> set (omap_put k v xs). fst y = k \<or> fst y \<in> fst ` set xs"
    using keys_omap_put [of k v xs] by (metis imageI insertE)
  then have above: "\<forall>y \<in> set (omap_put k v xs). k' < fst y" if "k' < k"
    using that 2(2) by (fastforce simp: oset_Cons)
  have y: "\<forall>y \<in> set xs. k' < fst y" using 2(2) by (auto simp: oset_Cons)
  have below: "\<forall>y \<in> set xs. k < fst y" if "k < k'"
    using y less_trans [OF that] by blast
  show ?case
    using 2 below above by (cases k k' rule: linorder_cases) (auto simp: oset_Cons)
qed (simp add: oset_Cons)

lemma oset_fst_distinct: "oset fst xs \<Longrightarrow> distinct (map fst xs)"
  by (induction xs) (force simp: oset_Cons)+

lemma oset_al_del [inv_intros]: "oset fst xs \<Longrightarrow> oset fst (al_del k xs)"
  by (induction xs) (auto simp: al_del_def oset_Cons)

end
