(* ===== verification/MemManage.thy ===== *)
theory MemManage
  imports OrdSet Numeric
begin

text \<open>
  Models the memory table of csrc/runtime/inject_helpers/MemoryDataCollect.h and .cpp: the
  per-device \<open>MemoryManage\<close> (the set of recorded allocations, the counter announced to the
  kernel side, the extraction of valid ranges and their merging into disjoint intervals) and
  the peer-access relation \<open>PeerAccessState\<close> that takes snapshots of it. The types come
  from csrc/utils/Protocol.h and KernelMetaDataParser.h. The table of a device is a strictly
  ascending list under the source's comparator. Mutexes are left out: each operation is one
  atomic step.
\<close>

section \<open>Data\<close>

datatype MemInfoSrc = BYPASS | HAL | RT | ACL | EXTRA | MANUAL | MSTX_HEAP | MSTX_REGION

datatype MemInfoDesc = DEFAULT | INPUT | TILING | DOUBLE_PTR | HCCL_MC2_CONTEXT | SECTION
  | IPC_MEMORY | OVERFLOW_ADDR | PARA_BASE

fun src_code :: "MemInfoSrc \<Rightarrow> nat" where
  "src_code BYPASS = 0"
| "src_code HAL = 1"
| "src_code RT = 2"
| "src_code ACL = 3"
| "src_code EXTRA = 4"
| "src_code MANUAL = 5"
| "src_code MSTX_HEAP = 6"
| "src_code MSTX_REGION = 7"

lemma src_code_inj: "src_code a = src_code b \<longleftrightarrow> a = b"
  by (cases a; cases b) simp_all

record AddrInfo =
  ai_addr :: nat
  ai_length :: nat
  ai_src :: MemInfoSrc
  ai_desc :: MemInfoDesc
  ai_paramsNo :: nat
  ai_permission :: nat

definition ai_key :: "AddrInfo \<Rightarrow> nat \<times> nat \<times> nat" where
  \<comment> \<open>the comparator of \<open>AddrInfo\<close>: address, then length, then source\<close>
  "ai_key a = (ai_addr a, ai_length a, src_code (ai_src a))"

record HostMemoryInfo =
  hm_addr :: nat
  hm_size :: nat
  hm_permission :: nat

definition hm_key :: "HostMemoryInfo \<Rightarrow> nat \<times> nat" where
  "hm_key h = (hm_addr h, hm_size h)"

record MemoryManage =
  mm_infos :: "AddrInfo list"
  mm_count :: nat

definition mm0 :: MemoryManage where
  "mm0 = \<lparr>mm_infos = [], mm_count = 0\<rparr>"

definition REGION_FLAGS_DEFAULT :: nat where
  "REGION_FLAGS_DEFAULT = 3"

definition IsSameMemInfoSrc :: "MemInfoSrc \<Rightarrow> MemInfoSrc \<Rightarrow> bool" where
  "IsSameMemInfoSrc l r =
     (if (l = ACL \<or> l = RT) \<and> (r = ACL \<or> r = RT) then True else l = r)"

definition IsAddrInRange :: "nat \<Rightarrow> nat \<Rightarrow> nat \<Rightarrow> nat \<Rightarrow> bool" where
  "IsAddrInRange addr sz thrAddr thrSize =
     (if addr > size_max - sz \<or> thrAddr > size_max - thrSize then False
      else addr \<ge> thrAddr \<and> addr + sz \<le> thrAddr + thrSize)"

definition hasExtra :: "AddrInfo list \<Rightarrow> bool" where
  "hasExtra infos = list_ex (\<lambda>a. ai_src a = EXTRA) infos"

section \<open>Caching\<close>

definition CacheMemory_MALLOC ::
  "nat \<Rightarrow> MemInfoSrc \<Rightarrow> nat \<Rightarrow> bool \<Rightarrow> MemoryManage \<Rightarrow> MemoryManage" where
  "CacheMemory_MALLOC addr src sz isUpdateCount m =
     (let m1 = (if isUpdateCount then m\<lparr>mm_count := wrap32 (mm_count m + 1)\<rparr> else m);
          info = \<lparr>ai_addr = addr, ai_length = sz, ai_src = src, ai_desc = DEFAULT,
                  ai_paramsNo = 0, ai_permission = REGION_FLAGS_DEFAULT\<rparr>
      in m1\<lparr>mm_infos := oset_insert ai_key info (mm_infos m1)\<rparr>)"

definition CacheMemory_FREE :: "nat \<Rightarrow> MemInfoSrc \<Rightarrow> MemoryManage \<Rightarrow> MemoryManage" where
  "CacheMemory_FREE addr src m =
     (case find (\<lambda>a. ai_addr a = addr \<and> IsSameMemInfoSrc (ai_src a) src) (mm_infos m) of
        Some a \<Rightarrow> m\<lparr>mm_infos := oset_erase ai_key (ai_key a) (mm_infos m),
                    mm_count := wrap32 (mm_count m + (2 ^ 32 - 1))\<rparr>
      | None \<Rightarrow> m)"

definition SetPermission :: "nat \<Rightarrow> nat \<Rightarrow> nat \<Rightarrow> MemoryManage \<Rightarrow> MemoryManage" where
  \<comment> \<open>the entry is erased and inserted again; the order ignores the permission, so it returns
      to its place\<close>
  "SetPermission addr sz permission m =
     m\<lparr>mm_infos := map (\<lambda>a. if ai_addr a = addr \<and> ai_length a = sz
                            then a\<lparr>ai_permission := permission\<rparr> else a) (mm_infos m)\<rparr>"

definition CacheMemoryCount :: "nat \<Rightarrow> MemoryManage \<Rightarrow> MemoryManage" where
  "CacheMemoryCount count m = m\<lparr>mm_count := wrap32 (mm_count m + count)\<rparr>"

definition GetMallocCount :: "MemoryManage \<Rightarrow> nat" where
  "GetMallocCount m = mm_count m"

definition UpdateMemoryOp :: "MemoryManage \<Rightarrow> MemoryManage" where
  "UpdateMemoryOp m =
     (let infos = filter (\<lambda>a. ai_addr a \<noteq> 0 \<and> ai_length a \<noteq> 0) (mm_infos m)
      in m\<lparr>mm_infos := infos, mm_count := wrap32 (length infos)\<rparr>)"

definition mm_Reset :: "MemoryManage \<Rightarrow> MemoryManage" where
  "mm_Reset m = m\<lparr>mm_infos := [], mm_count := 0\<rparr>"

section \<open>Extraction\<close>

definition ProcessMstxHeapMem :: "HostMemoryInfo list \<Rightarrow> AddrInfo \<Rightarrow> HostMemoryInfo list" where
  "ProcessMstxHeapMem cache info =
     (case find (\<lambda>it. IsAddrInRange (ai_addr info) (ai_length info) (hm_addr it) (hm_size it)) cache of
        None \<Rightarrow> cache
      | Some it \<Rightarrow>
          let s1 = (if ai_addr info > hm_addr it
                    then oset_insert hm_key
                           \<lparr>hm_addr = hm_addr it, hm_size = ai_addr info - hm_addr it,
                            hm_permission = ai_permission info\<rparr> cache
                    else cache);
              rightSize = sub64 (wrap64 (sub64 (hm_addr it) (ai_addr info) + hm_size it))
                            (ai_length info);
              s2 = (if rightSize > 0
                    then oset_insert hm_key
                           \<lparr>hm_addr = wrap64 (ai_addr info + ai_length info), hm_size = rightSize,
                            hm_permission = ai_permission info\<rparr> s1
                    else s1)
          in oset_erase hm_key (hm_key it) s2)"

definition host_of :: "AddrInfo \<Rightarrow> HostMemoryInfo" where
  "host_of a = \<lparr>hm_addr = ai_addr a, hm_size = ai_length a, hm_permission = ai_permission a\<rparr>"

fun extract_loop ::
  "bool \<Rightarrow> AddrInfo list \<Rightarrow> HostMemoryInfo list \<Rightarrow> HostMemoryInfo list \<Rightarrow>
   HostMemoryInfo list \<times> HostMemoryInfo list" where
  \<comment> \<open>the loop of \<open>ExtractValidMems\<close> over \<open>addrInfos\<close>, with \<open>ranges\<close> and \<open>cacheRtAclMems\<close>\<close>
  "extract_loop isExtra [] ranges cache = (ranges, cache)"
| "extract_loop isExtra (a # as) ranges cache =
     (if ai_length a = 0 then extract_loop isExtra as ranges cache
      else if isExtra \<and> (ai_src a = EXTRA \<or> ai_src a = MANUAL \<or> ai_src a = BYPASS)
        then extract_loop isExtra as (ranges @ [host_of a]) cache
      else if isExtra then extract_loop isExtra as ranges cache
      else if ai_src a = ACL \<or> ai_src a = RT
        then extract_loop isExtra as ranges (oset_insert hm_key (host_of a) cache)
      else if ai_src a = MSTX_HEAP
        then extract_loop isExtra as ranges (ProcessMstxHeapMem cache a)
      else extract_loop isExtra as (ranges @ [host_of a]) cache)"

definition ExtractValidMems :: "AddrInfo list \<Rightarrow> HostMemoryInfo list" where
  "ExtractValidMems infos =
     (case extract_loop (hasExtra infos) infos [] [] of (ranges, cache) \<Rightarrow> ranges @ cache)"

section \<open>Merging\<close>

fun merge_loop :: "HostMemoryInfo list \<Rightarrow> HostMemoryInfo list \<Rightarrow> HostMemoryInfo list" where
  \<comment> \<open>first argument: \<open>merged\<close>, last element first; second: the remaining sorted ranges\<close>
  "merge_loop merged [] = rev merged"
| "merge_loop [] (r # rs) = merge_loop [r] rs"
| "merge_loop (lst # ms) (cur # rs) =
     (let lastEnd = wrap64 (hm_addr lst + hm_size lst) in
      if hm_addr cur \<le> lastEnd
      then merge_loop
             (lst\<lparr>hm_size := sub64 (max lastEnd (wrap64 (hm_addr cur + hm_size cur))) (hm_addr lst)\<rparr> # ms) rs
      else merge_loop (cur # lst # ms) rs)"

definition empty_host :: HostMemoryInfo where
  "empty_host = \<lparr>hm_addr = 0, hm_size = 0, hm_permission = 0\<rparr>"

definition MergeHostMems :: "MemoryManage \<Rightarrow> HostMemoryInfo list" where
  "MergeHostMems m =
     (if mm_infos m = [] \<or> mm_count m = 0 then []
      else
        let ranges = sort_key hm_addr (ExtractValidMems (mm_infos m));
            merged = merge_loop [] ranges
        in if length merged < mm_count m
           then merged @ replicate (mm_count m - length merged) empty_host
           else merged)"

definition SnapshotOnlineRanges :: "MemoryManage \<Rightarrow> HostMemoryInfo list" where
  "SnapshotOnlineRanges m = ExtractValidMems (mm_infos m)"

section \<open>Devices and peer access\<close>

type_synonym mm_devices = "int \<Rightarrow> MemoryManage"

datatype PeerAccessOp = ENABLE | DISABLE | RESET

type_synonym relations = "(int \<times> int list) list"

record PeerMemoryInfo =
  pm_addr :: nat
  pm_size :: nat
  pm_permission :: nat
  pm_deviceId :: int

definition PeerAccess_Apply :: "int \<Rightarrow> int \<Rightarrow> PeerAccessOp \<Rightarrow> relations \<Rightarrow> relations" where
  "PeerAccess_Apply deviceId peer operation rel =
     (if deviceId < 0 then rel
      else if operation = RESET
        then map (\<lambda>(d, ps). (d, oset_erase id deviceId ps)) (al_del deviceId rel)
      else if peer \<ge> 0 \<and> peer \<noteq> deviceId
        then let ps = (case map_of rel deviceId of None \<Rightarrow> [] | Some ps \<Rightarrow> ps) in
             if operation = ENABLE then omap_put deviceId (oset_insert id peer ps) rel
             else omap_put deviceId (oset_erase id peer ps) rel
      else rel)"

definition PeerAccess_Snapshot :: "mm_devices \<Rightarrow> int \<Rightarrow> relations \<Rightarrow> PeerMemoryInfo list" where
  "PeerAccess_Snapshot mms deviceId rel =
     (case map_of rel deviceId of
        None \<Rightarrow> []
      | Some ps \<Rightarrow>
          concat (map (\<lambda>peer.
            map (\<lambda>h. \<lparr>pm_addr = hm_addr h, pm_size = hm_size h,
                      pm_permission = hm_permission h, pm_deviceId = peer\<rparr>)
              (filter (\<lambda>h. hm_addr h \<noteq> 0 \<and> hm_size h \<noteq> 0) (SnapshotOnlineRanges (mms peer)))) ps))"

section \<open>Intervals\<close>

definition hm_end :: "HostMemoryInfo \<Rightarrow> nat" where
  "hm_end r = hm_addr r + hm_size r"

definition covers :: "HostMemoryInfo list \<Rightarrow> nat set" where
  "covers rs = (\<Union>r \<in> set rs. {hm_addr r..<hm_end r})"

definition no_wrap :: "HostMemoryInfo \<Rightarrow> bool" where
  "no_wrap r \<longleftrightarrow> hm_end r < 2 ^ 64"

definition separated :: "HostMemoryInfo list \<Rightarrow> bool" where
  \<comment> \<open>ascending, disjoint and not even adjacent\<close>
  "separated rs \<longleftrightarrow> sorted_wrt (\<lambda>x y. hm_end x < hm_addr y) rs"

lemma covers_Nil [simp]: "covers [] = {}"
  by (simp add: covers_def)

lemma covers_Cons [simp]: "covers (r # rs) = {hm_addr r..<hm_end r} \<union> covers rs"
  by (simp add: covers_def)

lemma covers_append [simp]: "covers (rs @ ss) = covers rs \<union> covers ss"
  by (simp add: covers_def)

lemma covers_rev [simp]: "covers (rev rs) = covers rs"
  by (simp add: covers_def)

lemma covers_cong: "set rs = set ss \<Longrightarrow> covers rs = covers ss"
  by (simp add: covers_def)

lemma merge_step:
  assumes "no_wrap lst" and "no_wrap cur" and "hm_addr lst \<le> hm_addr cur"
    and "hm_addr cur \<le> hm_end lst"
  defines "joined \<equiv> lst\<lparr>hm_size := sub64 (max (wrap64 (hm_addr lst + hm_size lst))
      (wrap64 (hm_addr cur + hm_size cur))) (hm_addr lst)\<rparr>"
  shows "hm_addr joined = hm_addr lst" and "hm_end joined = max (hm_end lst) (hm_end cur)"
    and "no_wrap joined"
    and "{hm_addr joined..<hm_end joined} =
      {hm_addr lst..<hm_end lst} \<union> {hm_addr cur..<hm_end cur}"
proof -
  have w: "wrap64 (hm_addr lst + hm_size lst) = hm_end lst"
    "wrap64 (hm_addr cur + hm_size cur) = hm_end cur"
    using assms(1,2) by (simp_all add: no_wrap_def hm_end_def wrap64_small)
  have le: "hm_addr lst \<le> max (hm_end lst) (hm_end cur)" by (simp add: hm_end_def)
  have lt: "max (hm_end lst) (hm_end cur) < 2 ^ 64" using assms(1,2) by (simp add: no_wrap_def)
  show a: "hm_addr joined = hm_addr lst" by (simp add: joined_def)
  show e: "hm_end joined = max (hm_end lst) (hm_end cur)"
    using sub64_ge [OF le lt] le by (simp add: joined_def w hm_end_def [of "lst\<lparr>hm_size := _\<rparr>"])
  show "no_wrap joined" using lt by (simp add: no_wrap_def e)
  show "{hm_addr joined..<hm_end joined} =
      {hm_addr lst..<hm_end lst} \<union> {hm_addr cur..<hm_end cur}"
    using assms(3,4) by (auto simp: a e)
qed

lemma merge_loop_spec:
  assumes "separated (rev merged)" and "sorted (map hm_addr rs)"
    and "\<forall>r \<in> set merged \<union> set rs. no_wrap r"
    and "merged \<noteq> [] \<Longrightarrow> \<forall>r \<in> set rs. hm_addr (hd merged) \<le> hm_addr r"
  shows "separated (merge_loop merged rs) \<and> covers (merge_loop merged rs) = covers merged \<union> covers rs
    \<and> length (merge_loop merged rs) \<le> length merged + length rs"
  using assms
proof (induction merged rs rule: merge_loop.induct)
  case (2 r rs)
  then show ?case by (auto simp: separated_def)
next
  case (3 lst ms cur rs)
  have nw: "no_wrap lst" "no_wrap cur" and le: "hm_addr lst \<le> hm_addr cur"
    using "3.prems" by auto
  have lastEnd: "wrap64 (hm_addr lst + hm_size lst) = hm_end lst"
    using nw by (simp add: no_wrap_def hm_end_def wrap64_small)
  have below: "\<forall>x \<in> set ms. hm_end x < hm_addr lst" and ms: "separated (rev ms)"
    using "3.prems"(1) by (auto simp: separated_def sorted_wrt_append)
  have rs: "sorted (map hm_addr rs)" "\<forall>r \<in> set rs. hm_addr cur \<le> hm_addr r"
    using "3.prems"(2) by auto
  show ?case
  proof (cases "hm_addr cur \<le> hm_end lst")
    case True
    let ?j = "lst\<lparr>hm_size := sub64 (max (wrap64 (hm_addr lst + hm_size lst))
      (wrap64 (hm_addr cur + hm_size cur))) (hm_addr lst)\<rparr>"
    note j = merge_step [OF nw le True]
    have "separated (rev (?j # ms))"
      using below ms j(1) by (auto simp: separated_def sorted_wrt_append)
    then have "separated (merge_loop (?j # ms) rs) \<and>
        covers (merge_loop (?j # ms) rs) = covers (?j # ms) \<union> covers rs \<and>
        length (merge_loop (?j # ms) rs) \<le> length (?j # ms) + length rs"
      using "3.prems" rs j(1,3) True lastEnd le
      by (intro "3.IH"(1)) (auto intro: order_trans [OF le])
    then show ?thesis using True j(4) by (auto simp: lastEnd)
  next
    case False
    then have "separated (rev (cur # lst # ms))"
      using below ms le by (force simp: separated_def sorted_wrt_append hm_end_def)
    then have "separated (merge_loop (cur # lst # ms) rs) \<and>
        covers (merge_loop (cur # lst # ms) rs) = covers (cur # lst # ms) \<union> covers rs \<and>
        length (merge_loop (cur # lst # ms) rs) \<le> length (cur # lst # ms) + length rs"
      using "3.prems" rs False lastEnd by (intro "3.IH"(2)) auto
    then show ?thesis using False by (auto simp: lastEnd)
  qed
qed simp

section \<open>Extraction: lengths and coverage\<close>

lemma find_Some_in: "find P xs = Some x \<Longrightarrow> x \<in> set xs \<and> P x"
  by (induction xs) (auto split: if_splits)

lemma set_oset_insert_hm:
  "oset hm_key xs \<Longrightarrow> covers (oset_insert hm_key x xs) = {hm_addr x..<hm_end x} \<union> covers xs"
proof -
  assume "oset hm_key xs"
  then have st: "set (oset_insert hm_key x xs) =
      (if hm_key x \<in> hm_key ` set xs then set xs else insert x (set xs))"
    by (rule set_oset_insert)
  show ?thesis
  proof (cases "hm_key x \<in> hm_key ` set xs")
    case True
    then obtain y where "y \<in> set xs" "hm_addr y = hm_addr x" "hm_end y = hm_end x"
      by (auto simp: hm_key_def hm_end_def)
    then have "{hm_addr y..<hm_end y} \<subseteq> covers xs" "{hm_addr x..<hm_end x} = {hm_addr y..<hm_end y}"
      by (auto simp: covers_def)
    then have "{hm_addr x..<hm_end x} \<subseteq> covers xs" by simp
    with True st show ?thesis by (auto simp: covers_def)
  next
    case False
    with st show ?thesis by (auto simp: covers_def)
  qed
qed

lemma filter_length_less: "x \<in> set xs \<Longrightarrow> \<not> P x \<Longrightarrow> length (filter P xs) < length xs"
  by (rule length_filter_less)

lemma ProcessMstxHeapMem_length: "length (ProcessMstxHeapMem cache a) \<le> Suc (length cache)"
proof (cases "find (\<lambda>it. IsAddrInRange (ai_addr a) (ai_length a) (hm_addr it) (hm_size it)) cache")
  case None
  then show ?thesis by (simp add: ProcessMstxHeapMem_def)
next
  case (Some it)
  have keep: "x \<in> set (oset_insert hm_key y xs)" if "x \<in> set xs" for x y :: HostMemoryInfo and xs
    using that by (induction hm_key y xs rule: oset_insert.induct) auto
  define s1 where "s1 = (if ai_addr a > hm_addr it
      then oset_insert hm_key \<lparr>hm_addr = hm_addr it, hm_size = ai_addr a - hm_addr it,
        hm_permission = ai_permission a\<rparr> cache else cache)"
  define rs where "rs = sub64 (wrap64 (sub64 (hm_addr it) (ai_addr a) + hm_size it)) (ai_length a)"
  define s2 where "s2 = (if rs > 0 then oset_insert hm_key
      \<lparr>hm_addr = wrap64 (ai_addr a + ai_length a), hm_size = rs,
        hm_permission = ai_permission a\<rparr> s1 else s1)"
  have "it \<in> set cache" using find_Some_in [OF Some] by simp
  then have "it \<in> set s2" using keep by (auto simp: s1_def s2_def)
  then have "length (oset_erase hm_key (hm_key it) s2) < length s2"
    unfolding oset_erase_def by (intro filter_length_less) auto
  moreover have "length s2 \<le> Suc (Suc (length cache))"
    using oset_insert_length [of hm_key _ cache] oset_insert_length [of hm_key _ s1]
    by (auto simp: s2_def s1_def intro: le_SucI order_trans [OF oset_insert_length])
  moreover have "ProcessMstxHeapMem cache a = oset_erase hm_key (hm_key it) s2"
    by (simp add: ProcessMstxHeapMem_def Some s1_def s2_def rs_def Let_def)
  ultimately show ?thesis by simp
qed

lemma extract_loop_length:
  "length (fst (extract_loop e as ranges cache)) + length (snd (extract_loop e as ranges cache))
     \<le> length as + length ranges + length cache"
proof (induction e as ranges cache rule: extract_loop.induct)
  case (2 e a as ranges cache)
  note ins = oset_insert_length [of hm_key "host_of a" cache]
  note heap = ProcessMstxHeapMem_length [of cache a]
  show ?case
    using 2 ins heap by auto
qed simp

lemma ExtractValidMems_length: "length (ExtractValidMems infos) \<le> length infos"
  using extract_loop_length [of "hasExtra infos" infos "[]" "[]"]
  by (simp add: ExtractValidMems_def case_prod_beta)

text \<open>Which entries count as valid when no heap region is carved out.\<close>

definition selected :: "bool \<Rightarrow> AddrInfo \<Rightarrow> bool" where
  "selected isExtra a \<longleftrightarrow> ai_length a \<noteq> 0 \<and>
     (isExtra \<longrightarrow> ai_src a = EXTRA \<or> ai_src a = MANUAL \<or> ai_src a = BYPASS)"

definition ai_range :: "AddrInfo \<Rightarrow> nat set" where
  "ai_range a = {ai_addr a..<ai_addr a + ai_length a}"

lemma covers_host_of [simp]: "{hm_addr (host_of a)..<hm_end (host_of a)} = ai_range a"
  by (simp add: host_of_def hm_end_def ai_range_def)

lemma selected_UN_Cons:
  "(\<Union>x \<in> {x \<in> set (a # as). selected e x}. ai_range x) =
     (if selected e a then ai_range a else {}) \<union> (\<Union>x \<in> {x \<in> set as. selected e x}. ai_range x)"
  by auto

lemma extract_loop_covers:
  assumes "oset hm_key cache" and "isExtra \<or> (\<forall>a \<in> set as. ai_src a \<noteq> MSTX_HEAP)"
  shows "covers (fst (extract_loop isExtra as ranges cache)) \<union>
      covers (snd (extract_loop isExtra as ranges cache)) =
    covers ranges \<union> covers cache \<union> (\<Union>a \<in> {a \<in> set as. selected isExtra a}. ai_range a)"
  using assms
proof (induction isExtra as ranges cache rule: extract_loop.induct)
  case (2 isExtra a as ranges cache)
  have ins: "covers (oset_insert hm_key (host_of a) cache) = ai_range a \<union> covers cache"
    using set_oset_insert_hm [OF "2.prems"(1)] by simp
  have ord: "oset hm_key (oset_insert hm_key (host_of a) cache)"
    using "2.prems"(1) by (rule oset_insert_oset)
  have tail: "isExtra \<or> (\<forall>a \<in> set as. ai_src a \<noteq> MSTX_HEAP)"
    and noheap: "isExtra \<or> ai_src a \<noteq> MSTX_HEAP" using "2.prems"(2) by auto
  let ?tag = "ai_src a = EXTRA \<or> ai_src a = MANUAL \<or> ai_src a = BYPASS"
  consider (zero) "ai_length a = 0" | (tagged) "ai_length a \<noteq> 0" "isExtra \<and> ?tag"
    | (skip) "ai_length a \<noteq> 0" "\<not> (isExtra \<and> ?tag)" "isExtra"
    | (rt) "ai_length a \<noteq> 0" "\<not> (isExtra \<and> ?tag)" "\<not> isExtra" "ai_src a = ACL \<or> ai_src a = RT"
    | (other) "ai_length a \<noteq> 0" "\<not> (isExtra \<and> ?tag)" "\<not> isExtra"
        "\<not> (ai_src a = ACL \<or> ai_src a = RT)" "ai_src a \<noteq> MSTX_HEAP"
    using noheap by blast
  then show ?case
  proof cases
    case zero
    then show ?thesis unfolding selected_UN_Cons
      using "2.IH"(1) [OF zero "2.prems"(1) tail] by (simp add: selected_def)
  next
    case tagged
    then show ?thesis unfolding selected_UN_Cons
      using "2.IH"(2) [OF tagged "2.prems"(1) tail] by (simp add: selected_def Un_ac)
  next
    case skip
    then show ?thesis unfolding selected_UN_Cons
      using "2.IH"(3) [OF skip "2.prems"(1) tail] by (simp add: selected_def)
  next
    case rt
    then show ?thesis unfolding selected_UN_Cons
      using "2.IH"(4) [OF rt ord tail] by (auto simp: selected_def ins)
  next
    case other
    then show ?thesis unfolding selected_UN_Cons
      using "2.IH"(6) [OF other "2.prems"(1) tail] by (simp add: selected_def Un_ac)
  qed
qed simp

section \<open>Carving a heap region\<close>

lemma ProcessMstxHeapMem_covers:
  assumes "oset hm_key cache"
    and "find (\<lambda>it. IsAddrInRange (ai_addr a) (ai_length a) (hm_addr it) (hm_size it)) cache = Some it"
    and "no_wrap it" and "ai_length a > 0"
    and "\<forall>x \<in> set cache. x \<noteq> it \<longrightarrow> {hm_addr x..<hm_end x} \<inter> {hm_addr it..<hm_end it} = {}"
  shows "covers (ProcessMstxHeapMem cache a) = covers cache - ai_range a"
proof -
  let ?A = "ai_addr a" and ?L = "ai_length a"
  have it: "it \<in> set cache" "hm_addr it \<le> ?A" "?A + ?L \<le> hm_end it"
    using find_Some_in [OF assms(2)] by (auto simp: IsAddrInRange_def hm_end_def split: if_splits)
  have nw: "hm_end it < 2 ^ 64" using assms(3) by (simp add: no_wrap_def)
  have "sub64 (wrap64 (sub64 (hm_addr it) ?A + hm_size it)) ?L = hm_end it - (?A + ?L)"
  proof -
    have "wrap64 (sub64 (hm_addr it) ?A + hm_size it) = hm_end it - ?A"
    proof -
      have A: "?A mod 2 ^ 64 = ?A" using it nw by simp
      have "hm_addr it + (2 ^ 64 - ?A) + hm_size it = (hm_end it - ?A) + 2 ^ 64"
        using it nw by (simp add: hm_end_def)
      then have "(sub64 (hm_addr it) ?A + hm_size it) mod 2 ^ 64 = (hm_end it - ?A) mod 2 ^ 64"
        unfolding sub64_def A by (metis mod_add_left_eq mod_add_self2)
      then show ?thesis using nw by (simp add: wrap64_def)
    qed
    then show ?thesis using it nw by (simp add: sub64_ge)
  qed
  note right = this
  define left where "left = \<lparr>hm_addr = hm_addr it, hm_size = ?A - hm_addr it,
      hm_permission = ai_permission a\<rparr>"
  define rgt where "rgt = \<lparr>hm_addr = ?A + ?L, hm_size = hm_end it - (?A + ?L),
      hm_permission = ai_permission a\<rparr>"
  define s1 where "s1 = (if ?A > hm_addr it then oset_insert hm_key left cache else cache)"
  define s2 where "s2 = (if hm_end it - (?A + ?L) > 0 then oset_insert hm_key rgt s1 else s1)"
  have res: "ProcessMstxHeapMem cache a = oset_erase hm_key (hm_key it) s2"
    using it nw
    by (simp add: ProcessMstxHeapMem_def assms(2) Let_def right s1_def s2_def left_def rgt_def
        wrap64_small)
  have o1: "oset hm_key s1" using assms(1) by (simp add: s1_def oset_insert_oset)
  have kl: "?A > hm_addr it \<Longrightarrow> hm_key left \<noteq> hm_key it" and kr: "hm_key rgt \<noteq> hm_key it"
    using it assms(4) by (auto simp: hm_key_def left_def rgt_def hm_end_def)
  have sub: "set s2 \<subseteq> {left, rgt} \<union> set cache"
    using set_oset_insert_subset [of hm_key left cache] set_oset_insert_subset [of hm_key rgt s1]
    by (auto simp: s1_def s2_def split: if_splits)
  have rest: "covers (filter (\<lambda>x. hm_key x \<noteq> hm_key it) cache) = covers cache - {hm_addr it..<hm_end it}"
    using assms(5) it oset_inj [OF assms(1) _ it(1)] by (fastforce simp: covers_def)
  have filt: "covers (oset_erase hm_key (hm_key it) s2) =
      (if ?A > hm_addr it then {hm_addr it..<?A} else {}) \<union>
      (if hm_end it - (?A + ?L) > 0 then {?A + ?L..<hm_end it} else {}) \<union>
      covers (filter (\<lambda>x. hm_key x \<noteq> hm_key it) cache)"
  proof -
    have erase_ins: "covers (oset_erase hm_key k (oset_insert hm_key x xs)) =
        {hm_addr x..<hm_end x} \<union> covers (oset_erase hm_key k xs)"
      if "oset hm_key xs" "hm_key x \<noteq> k" for k x xs
    proof -
      show ?thesis
        using set_oset_insert_hm [OF oset_erase_oset [OF that(1)]] oset_erase_insert [OF that]
        by simp
    qed
    have e1: "covers (oset_erase hm_key (hm_key it) s1) =
        (if ?A > hm_addr it then {hm_addr it..<?A} else {}) \<union>
        covers (filter (\<lambda>x. hm_key x \<noteq> hm_key it) cache)"
      using erase_ins [OF assms(1) kl] it
      by (auto simp: s1_def oset_erase_def left_def hm_end_def)
    show ?thesis
      using erase_ins [OF o1 kr] e1 it by (auto simp: s2_def rgt_def hm_end_def)
  qed
  have cov: "{hm_addr it..<hm_end it} \<subseteq> covers cache" using it(1) by (auto simp: covers_def)
  show ?thesis
    unfolding res filt rest using it cov assms(4) by (auto simp: ai_range_def)
qed

section \<open>Runs of memory operations\<close>

datatype mm_op = MMalloc nat MemInfoSrc nat | MFree nat MemInfoSrc | MPermission nat nat nat | MUpdate

fun mm_step :: "MemoryManage \<Rightarrow> mm_op \<Rightarrow> MemoryManage" where
  "mm_step m (MMalloc addr src sz) = CacheMemory_MALLOC addr src sz True m"
| "mm_step m (MFree addr src) = CacheMemory_FREE addr src m"
| "mm_step m (MPermission addr sz perm) = SetPermission addr sz perm m"
| "mm_step m MUpdate = UpdateMemoryOp m"

definition mm_run :: "MemoryManage \<Rightarrow> mm_op list \<Rightarrow> MemoryManage" where
  "mm_run m ops = foldl mm_step m ops"

definition mm_inv :: "nat \<Rightarrow> MemoryManage \<Rightarrow> bool" where
  \<comment> \<open>\<open>k\<close> bounds the number of operations so far\<close>
  "mm_inv k m \<longleftrightarrow> oset ai_key (mm_infos m) \<and> length (mm_infos m) \<le> mm_count m \<and> mm_count m \<le> k"

lemma oset_map_key: "(\<And>x. key (f x) = key x) \<Longrightarrow> oset key (map f xs) = oset key xs"
  by (induction xs) (auto simp: oset_Cons)

lemma SetPermission_key:
  "ai_key (if ai_addr a = addr \<and> ai_length a = sz then a\<lparr>ai_permission := p\<rparr> else a) = ai_key a"
  by (simp add: ai_key_def)

lemma oset_filter: "oset key xs \<Longrightarrow> oset key (filter P xs)"
  by (induction xs) (auto simp: oset_Cons)

lemma mm_step_inv [inv_intros]:
  assumes "mm_inv k m" and "k < 2 ^ 32 - 1"
  shows "mm_inv (Suc k) (mm_step m op)"
proof (cases op)
  case (MMalloc addr src sz)
  let ?a = "\<lparr>ai_addr = addr, ai_length = sz, ai_src = src, ai_desc = DEFAULT, ai_paramsNo = 0,
      ai_permission = REGION_FLAGS_DEFAULT\<rparr>"
  have "wrap32 (mm_count m + 1) = mm_count m + 1"
    using assms by (simp add: mm_inv_def wrap32_small)
  then show ?thesis
    using assms oset_insert_length [of ai_key ?a "mm_infos m"]
    by (auto simp: MMalloc mm_inv_def CacheMemory_MALLOC_def Let_def intro: inv_intros)
next
  case (MFree addr src)
  show ?thesis
  proof (cases "find (\<lambda>a. ai_addr a = addr \<and> IsSameMemInfoSrc (ai_src a) src) (mm_infos m)")
    case None
    then show ?thesis using assms by (simp add: MFree mm_inv_def CacheMemory_FREE_def)
  next
    case (Some a)
    then have a: "a \<in> set (mm_infos m)" using find_Some_in [OF Some] by simp
    then have "Suc (length (oset_erase ai_key (ai_key a) (mm_infos m))) = length (mm_infos m)"
      using assms(1) by (intro oset_erase_length) (auto simp: mm_inv_def)
    note len = this
    have "mm_count m > 0" using a assms(1) by (cases "mm_infos m") (auto simp: mm_inv_def)
    then have "mm_count m + (2 ^ 32 - 1) = (mm_count m - 1) + 2 ^ 32" by simp
    then have "wrap32 (mm_count m + (2 ^ 32 - 1)) = (mm_count m - 1) mod 2 ^ 32"
      unfolding wrap32_def by (metis mod_add_self2)
    moreover have "mm_count m - 1 < 2 ^ 32" using assms by (auto simp: mm_inv_def)
    ultimately have "wrap32 (mm_count m + (2 ^ 32 - 1)) = mm_count m - 1"
      by simp
    then show ?thesis
      using assms len by (auto simp: MFree mm_inv_def CacheMemory_FREE_def Some intro: inv_intros)
  qed
next
  case (MPermission addr sz perm)
  then show ?thesis
    using assms oset_map_key [of ai_key, OF SetPermission_key [of _ addr sz perm]]
    by (auto simp: mm_inv_def SetPermission_def)
next
  case MUpdate
  let ?f = "filter (\<lambda>a. ai_addr a \<noteq> 0 \<and> ai_length a \<noteq> 0) (mm_infos m)"
  have "length ?f \<le> k"
    using assms(1) length_filter_le [of "\<lambda>a. ai_addr a \<noteq> 0 \<and> ai_length a \<noteq> 0" "mm_infos m"]
    unfolding mm_inv_def by linarith
  moreover from this have "wrap32 (length ?f) = length ?f"
    using assms(2) by (intro wrap32_small) linarith
  ultimately have "mm_inv (Suc k) \<lparr>mm_infos = ?f, mm_count = length ?f\<rparr>"
    using assms(1) oset_filter unfolding mm_inv_def by auto
  moreover have "mm_step m op = \<lparr>mm_infos = ?f, mm_count = wrap32 (length ?f)\<rparr>"
    by (simp add: MUpdate UpdateMemoryOp_def Let_def)
  ultimately show ?thesis using \<open>wrap32 (length ?f) = length ?f\<close> by simp
qed

lemma mm_run_inv:
  "length ops + k < 2 ^ 32 \<Longrightarrow> mm_inv k m \<Longrightarrow> mm_inv (length ops + k) (mm_run m ops)"
proof (induction ops arbitrary: m k)
  case (Cons op ops)
  then have "mm_inv (Suc k) (mm_step m op)" by (intro mm_step_inv) auto
  with Cons.IH [of "Suc k" "mm_step m op"] Cons.prems show ?case by (simp add: mm_run_def)
qed (simp add: mm_run_def)

lemma mm0_inv: "mm_inv 0 mm0"
  by (simp add: mm_inv_def mm0_def)

lemma MergeHostMems_unfold:
  assumes "mm_infos m \<noteq> []" and "length (mm_infos m) \<le> mm_count m"
  defines "ms \<equiv> merge_loop [] (sort_key hm_addr (ExtractValidMems (mm_infos m)))"
  assumes "\<forall>r \<in> set (ExtractValidMems (mm_infos m)). no_wrap r"
  shows "MergeHostMems m = ms @ replicate (mm_count m - length ms) empty_host"
    and "separated ms" and "covers ms = covers (ExtractValidMems (mm_infos m))"
    and "length ms \<le> mm_count m"
proof -
  let ?rs = "sort_key hm_addr (ExtractValidMems (mm_infos m))"
  have "separated (merge_loop [] ?rs) \<and> covers (merge_loop [] ?rs) = covers [] \<union> covers ?rs \<and>
      length (merge_loop [] ?rs) \<le> length ([] :: HostMemoryInfo list) + length ?rs"
    by (rule merge_loop_spec) (use assms(4) in \<open>auto simp: separated_def\<close>)
  then show "separated ms" and "covers ms = covers (ExtractValidMems (mm_infos m))"
    and le: "length ms \<le> mm_count m"
    using ExtractValidMems_length [of "mm_infos m"] assms(2) covers_cong [of ?rs]
    by (auto simp: ms_def)
  show "MergeHostMems m = ms @ replicate (mm_count m - length ms) empty_host"
    using assms(1,2) le by (auto simp: MergeHostMems_def Let_def ms_def)
qed

section \<open>Properties\<close>


definition mm_ex_ops :: "mm_op list" where
  "mm_ex_ops = [MMalloc 0x100 RT 100, MMalloc 0x110 RT 100, MMalloc 0x300 BYPASS 256,
     MFree 0x300 BYPASS, MMalloc 0x400 MSTX_REGION 100]"

lemma mm_ex_run:
  "mm_run mm0 mm_ex_ops = \<lparr>mm_infos =
     [\<lparr>ai_addr = 0x100, ai_length = 100, ai_src = RT, ai_desc = DEFAULT, ai_paramsNo = 0, ai_permission = 3\<rparr>,
      \<lparr>ai_addr = 0x110, ai_length = 100, ai_src = RT, ai_desc = DEFAULT, ai_paramsNo = 0, ai_permission = 3\<rparr>,
      \<lparr>ai_addr = 0x400, ai_length = 100, ai_src = MSTX_REGION, ai_desc = DEFAULT, ai_paramsNo = 0, ai_permission = 3\<rparr>],
     mm_count = 3\<rparr>"
  by (simp add: mm_run_def mm_ex_ops_def mm0_def CacheMemory_MALLOC_def CacheMemory_FREE_def
      ai_key_def REGION_FLAGS_DEFAULT_def wrap32_def IsSameMemInfoSrc_def oset_erase_def Let_def)


text \<open>
  C10: without heap registrations the extracted ranges cover exactly the selected entries:
  every non-empty one, or, as soon as one framework-reported tensor (EXTRA) is present, only
  the EXTRA, MANUAL and BYPASS ones.
\<close>

theorem extract_covers_selected:
  assumes "hasExtra infos \<or> (\<forall>a \<in> set infos. ai_src a \<noteq> MSTX_HEAP)"
  shows "covers (ExtractValidMems infos) =
    (\<Union>a \<in> {a \<in> set infos. selected (hasExtra infos) a}. ai_range a)"
  using extract_loop_covers [OF oset_Nil assms, of "[]"]
  by (simp add: ExtractValidMems_def case_prod_beta)

theorem extract_covers_selected_witness:
  "covers (ExtractValidMems (mm_infos (mm_run mm0 mm_ex_ops))) =
     (\<Union>a \<in> {a \<in> set (mm_infos (mm_run mm0 mm_ex_ops)).
        selected (hasExtra (mm_infos (mm_run mm0 mm_ex_ops))) a}. ai_range a)"
  by (rule extract_covers_selected) (simp add: mm_ex_run)

text \<open>
  a heap registered inside one device allocation. Its range is carved out of the valid
  ranges, with one exception: a heap that starts where the allocation starts and is shorter
  sorts before the allocation, is processed while no allocation is cached yet, and is not
  carved out at all.
\<close>

theorem heap_carving:
  assumes "0 < n" and "a \<le> h" and "h + n \<le> a + k" and "a + k < 2 ^ 64"
  shows "covers (SnapshotOnlineRanges (mm_run mm0 [MMalloc a RT k, MMalloc h MSTX_HEAP n])) =
    (if h = a \<and> n < k then {a..<a + k} else {a..<a + k} - {h..<h + n})"
proof -
  let ?rt = "\<lparr>ai_addr = a, ai_length = k, ai_src = RT, ai_desc = DEFAULT, ai_paramsNo = 0, ai_permission = REGION_FLAGS_DEFAULT\<rparr>"
  let ?hp = "\<lparr>ai_addr = h, ai_length = n, ai_src = MSTX_HEAP, ai_desc = DEFAULT, ai_paramsNo = 0, ai_permission = REGION_FLAGS_DEFAULT\<rparr>"
  let ?m = "mm_run mm0 [MMalloc a RT k, MMalloc h MSTX_HEAP n]"
  have range: "IsAddrInRange h n a k"
    using assms by (auto simp: IsAddrInRange_def size_max_def)
  have cov: "covers (ProcessMstxHeapMem [host_of ?rt] ?hp) = {a..<a + k} - {h..<h + n}"
    using ProcessMstxHeapMem_covers [of "[host_of ?rt]" ?hp "host_of ?rt"] assms range
    by (simp add: host_of_def no_wrap_def hm_end_def oset_Cons ai_range_def)
  show ?thesis
  proof (cases "h = a \<and> n < k")
    case True
    then have "mm_infos ?m = [?hp, ?rt]"
      by (simp add: mm_run_def mm0_def CacheMemory_MALLOC_def Let_def ai_key_def)
    then show ?thesis
      using True assms(1)
      by (simp add: SnapshotOnlineRanges_def ExtractValidMems_def hasExtra_def
          ProcessMstxHeapMem_def host_of_def hm_end_def)
  next
    case False
    then have "ai_key ?rt < ai_key ?hp"
      using assms by (auto simp: ai_key_def)
    then have "mm_infos ?m = [?rt, ?hp]"
      by (auto simp: mm_run_def mm0_def CacheMemory_MALLOC_def Let_def)
    then have "SnapshotOnlineRanges ?m = ProcessMstxHeapMem [host_of ?rt] ?hp"
      using assms
      by (simp add: SnapshotOnlineRanges_def ExtractValidMems_def hasExtra_def)
    then show ?thesis using cov False by (simp add: if_not_P [OF False])
  qed
qed

theorem heap_carving_witness:
  "covers (SnapshotOnlineRanges (mm_run mm0 [MMalloc 0x1000 RT 256, MMalloc 0x1000 MSTX_HEAP 64])) =
     {0x1000..<0x1100}"
  by (subst heap_carving) simp_all

section \<open>Peer access\<close>

definition peers :: "relations \<Rightarrow> int \<Rightarrow> int set" where
  "peers rel d = (case map_of rel d of None \<Rightarrow> {} | Some ps \<Rightarrow> set ps)"

definition relations_inv :: "relations \<Rightarrow> bool" where
  \<comment> \<open>no negative device, no device its own peer, containers in their order\<close>
  "relations_inv rel \<longleftrightarrow> oset fst rel \<and>
     (\<forall>(d, ps) \<in> set rel. 0 \<le> d \<and> oset id ps \<and> (\<forall>p \<in> set ps. 0 \<le> p \<and> p \<noteq> d))"

fun peer_step :: "relations \<Rightarrow> int \<times> int \<times> PeerAccessOp \<Rightarrow> relations" where
  "peer_step rel (d, p, operation) = PeerAccess_Apply d p operation rel"

lemma map_of_map_snd: "map_of (map (\<lambda>(k, v). (k, f v)) xs) k = map_option f (map_of xs k)"
  by (induction xs) auto

lemma relations_mem: "relations_inv rel \<Longrightarrow> map_of rel d = Some ps \<Longrightarrow>
    0 \<le> d \<and> oset id ps \<and> (\<forall>p \<in> set ps. 0 \<le> p \<and> p \<noteq> d)"
  by (auto simp: relations_inv_def dest!: map_of_SomeD)

lemma set_omap_put_subset: "set (omap_put k v xs) \<subseteq> insert (k, v) (set xs)"
  by (induction k v xs rule: omap_put.induct) auto

lemma oset_fst_map_snd: "oset fst (map (\<lambda>(k, v). (k, f v)) xs) = oset fst xs"
  by (induction xs) (auto simp: oset_Cons)

lemma PeerAccess_Apply_inv:
  assumes "relations_inv rel"
  shows "relations_inv (PeerAccess_Apply d p operation rel)"
proof -
  define ps where "ps = (case map_of rel d of None \<Rightarrow> [] | Some ps \<Rightarrow> ps)"
  have ps: "oset id ps" "\<forall>q \<in> set ps. 0 \<le> q \<and> q \<noteq> d"
    using relations_mem [OF assms, of d] by (cases "map_of rel d"; simp add: ps_def)+
  have put: "relations_inv (omap_put d qs rel)"
    if "0 \<le> d" "oset id qs" "\<forall>q \<in> set qs. 0 \<le> q \<and> q \<noteq> d" for qs
    using assms that set_omap_put_subset [of d qs rel]
    by (fastforce simp: relations_inv_def oset_omap_put)
  have reset: "relations_inv (map (\<lambda>(e, qs). (e, oset_erase id d qs)) (al_del d rel))"
    using assms oset_al_del [of rel d]
    by (auto simp: relations_inv_def oset_fst_map_snd oset_erase_oset set_oset_erase al_del_def)
  have ins: "relations_inv (omap_put d (oset_insert id p ps) rel)" if "0 \<le> d" "0 \<le> p" "p \<noteq> d"
    using that ps set_oset_insert_subset [of id p ps]
    by (intro put) (auto intro: oset_insert_oset)
  have era: "relations_inv (omap_put d (oset_erase id p ps) rel)" if "0 \<le> d"
    using that ps by (intro put) (auto simp: set_oset_erase intro: oset_erase_oset)
  show ?thesis
    using assms reset ins era by (auto simp: PeerAccess_Apply_def Let_def ps_def)
qed

text \<open>
  what each request does to the authorisation relation, from any state reached by
  requests: ENABLE adds one directed pair, DISABLE removes it, RESET removes the device on
  both sides; a negative device or a device paired with itself changes nothing. Every other
  pair stays.
\<close>

theorem peer_access_effect:
  assumes "rel = foldl peer_step [] reqs"
  shows "peers (PeerAccess_Apply d p operation rel) e =
    (if d < 0 then peers rel e
     else if operation = RESET then (if e = d then {} else peers rel e - {d})
     else if p < 0 \<or> p = d \<or> e \<noteq> d then peers rel e
     else if operation = ENABLE then insert p (peers rel e)
     else peers rel e - {p})"
proof -
  have inv: "relations_inv (foldl peer_step r rs)" if "relations_inv r" for r rs
    using that by (induction rs arbitrary: r) (auto simp: PeerAccess_Apply_inv)
  have rel: "relations_inv rel" using inv [of "[]" reqs] assms by (simp add: relations_inv_def)
  define ps where "ps = (case map_of rel d of None \<Rightarrow> [] | Some ps \<Rightarrow> ps)"
  have ps: "oset id ps" "set ps = peers rel d"
    using relations_mem [OF rel, of d]
    by (cases "map_of rel d"; simp add: ps_def peers_def)+
  have ins: "set (oset_insert id p ps) = insert p (set ps)"
    using set_oset_insert [OF ps(1), of p] by auto
  show ?thesis
    using ins ps
    by (cases "d < 0"; cases operation)
      (auto simp: PeerAccess_Apply_def Let_def peers_def map_of_map_snd set_oset_erase
        simp flip: ps_def split: option.splits)
qed

theorem peer_access_effect_witness:
  "peers (PeerAccess_Apply 1 2 ENABLE (foldl peer_step [] [(0, 1, ENABLE), (1, 0, ENABLE)])) 1 = {0, 2}"
  by (subst peer_access_effect [OF refl])
    (auto simp: peers_def PeerAccess_Apply_def Let_def)

text \<open>A snapshot lists live ranges of authorised devices only, each tagged with its device.\<close>

lemma Snapshot_mem:
  "x \<in> set (PeerAccess_Snapshot mms d rel) \<Longrightarrow>
     pm_deviceId x \<in> peers rel d \<and> pm_addr x \<noteq> 0 \<and> pm_size x \<noteq> 0 \<and>
     {pm_addr x..<pm_addr x + pm_size x} \<subseteq> covers (SnapshotOnlineRanges (mms (pm_deviceId x)))"
  by (cases "map_of rel d") (auto simp: PeerAccess_Snapshot_def peers_def covers_def hm_end_def)

end
