(* ===== verification/Socket.thy ===== *)
theory Socket
  imports Serialize
begin

text \<open>
  Models csrc/core/DomainSocket.h/.cpp: the local stream socket under the packet channel.
  The kernel's socket calls are parameters, a record of functions on an arbitrary kernel
  state \<open>'w\<close>; the laws state what their manual pages promise. Sockets are records whose
  methods return the updated record and kernel. Logging is left out.

  A loop that calls \<open>write\<close> until the buffer is empty is a \<open>partial_function (option)\<close>:
  \<open>None\<close> is a loop that does not end, or the undefined pointer arithmetic after a count
  outside the buffer; both are proved not to occur under the kernel's laws.
\<close>

section \<open>The kernel interface\<close>

datatype sockopt = SO_RCVTIMEO nat | SO_PASSCRED

record 'w os_api =
  os_socket :: "'w \<Rightarrow> int \<times> 'w"
  os_setsockopt :: "int \<Rightarrow> sockopt \<Rightarrow> 'w \<Rightarrow> int \<times> 'w"
  os_bind :: "int \<Rightarrow> bytes \<Rightarrow> 'w \<Rightarrow> int \<times> 'w"
  os_listen :: "int \<Rightarrow> nat \<Rightarrow> 'w \<Rightarrow> int \<times> 'w"
  os_accept :: "int \<Rightarrow> 'w \<Rightarrow> int \<times> 'w"
  os_peercred :: "int \<Rightarrow> 'w \<Rightarrow> (int \<times> nat \<times> nat) \<times> 'w"  \<comment> \<open>result, uid, gid\<close>
  os_ids :: "'w \<Rightarrow> nat \<times> nat"
  os_connect :: "int \<Rightarrow> bytes \<Rightarrow> 'w \<Rightarrow> int \<times> 'w"
  os_read :: "int \<Rightarrow> nat \<Rightarrow> 'w \<Rightarrow> (int \<times> bytes) \<times> 'w"
  os_write :: "int \<Rightarrow> bytes \<Rightarrow> 'w \<Rightarrow> int \<times> 'w"
  os_sendmsg :: "int \<Rightarrow> bytes \<Rightarrow> int \<Rightarrow> 'w \<Rightarrow> int \<times> 'w"  \<comment> \<open>socket, data, passed fd\<close>
  os_close :: "int \<Rightarrow> 'w \<Rightarrow> 'w"
  os_unlink :: "bytes \<Rightarrow> 'w \<Rightarrow> 'w"
  os_memfd_create :: "'w \<Rightarrow> int \<times> 'w"
  os_sleep :: "nat \<Rightarrow> 'w \<Rightarrow> 'w"  \<comment> \<open>milliseconds\<close>
  os_getpid :: "'w \<Rightarrow> int"

section \<open>Sockets\<close>

record DomainSocket =
  socketPath :: bytes
  sfd :: int
  addr :: bytes  \<comment> \<open>\<open>sun_path\<close>, 108 bytes\<close>

definition new_DomainSocket :: "bytes \<Rightarrow> DomainSocket" where
  "new_DomainSocket path = \<lparr>socketPath = path, sfd = -1, addr = replicate 108 0\<rparr>"

definition DomainSocket_dtor :: "'w os_api \<Rightarrow> DomainSocket \<Rightarrow> 'w \<Rightarrow> 'w" where
  "DomainSocket_dtor api s w = (if sfd s \<noteq> -1 then os_close api (sfd s) w else w)"

definition sun_path :: "bytes \<Rightarrow> bytes" where
  \<comment> \<open>the path is copied behind a leading zero byte: a name of the abstract namespace\<close>
  "sun_path path = (let p = take (108 - 2) path in 0 # p @ replicate (107 - length p) 0)"

definition CreateSocket :: "'w os_api \<Rightarrow> DomainSocket \<Rightarrow> 'w \<Rightarrow> bool \<times> DomainSocket \<times> 'w" where
  "CreateSocket api s w =
     (let (fd, w) = os_socket api w; s = s\<lparr>sfd := fd\<rparr> in
      if fd = -1 then (False, s, w)
      else
        let s = s\<lparr>addr := sun_path (socketPath s)\<rparr>;
            (r, w) = os_setsockopt api fd (SO_RCVTIMEO 1) w in
        if r = -1 then (False, s, w)
        else
          let (r, w) = os_setsockopt api fd SO_PASSCRED w in
          if r = -1 then (False, s, w) else (True, s, w))"

record DomainSocketServer = DomainSocket +
  maxClientNum :: nat
  cfds :: "int list"

definition new_DomainSocketServer :: "bytes \<Rightarrow> nat \<Rightarrow> DomainSocketServer" where
  "new_DomainSocketServer path n = DomainSocket.extend (new_DomainSocket path) \<lparr>maxClientNum = n, cfds = []\<rparr>"

definition with_base :: "DomainSocketServer \<Rightarrow> DomainSocket \<Rightarrow> DomainSocketServer" where
  "with_base s b = DomainSocket.extend b \<lparr>maxClientNum = maxClientNum s, cfds = cfds s\<rparr>"

definition ListenAndBind :: "'w os_api \<Rightarrow> DomainSocketServer \<Rightarrow> 'w \<Rightarrow> bool \<times> DomainSocketServer \<times> 'w" where
  "ListenAndBind api s w =
     (let (ok, b, w) = CreateSocket api (DomainSocket.truncate s) w; s = with_base s b in
      if \<not> ok then (False, s, w)
      else
        let (r, w) = os_bind api (sfd s) (addr s) w in
        if r = -1 then (False, s, w)
        else
          let (r, w) = os_listen api (sfd s) (maxClientNum s) w in
          if r = -1 then (False, s, w) else (True, s, w))"

definition Accept :: "'w os_api \<Rightarrow> DomainSocketServer \<Rightarrow> 'w \<Rightarrow> nat option \<times> DomainSocketServer \<times> 'w" where
  \<comment> \<open>\<open>None\<close> for the result \<open>false\<close>, else the client id\<close>
  "Accept api s w =
     (if length (cfds s) \<ge> maxClientNum s then (None, s, w)
      else
        let (cfd, w) = os_accept api (sfd s) w in
        if cfd = -1 then (None, s, w)
        else
          let (r, w) = os_setsockopt api cfd (SO_RCVTIMEO 1) w in
          if r = -1 then (None, s, os_close api cfd w)
          else
            let ((r, uid, gid), w) = os_peercred api cfd w in
            if r = -1 then (None, s, w)
            else if os_ids api w \<noteq> (uid, gid) then (None, s, os_close api cfd w)
            else (Some (length (cfds s)), s\<lparr>cfds := cfds s @ [cfd]\<rparr>, w))"

definition GetClientNum :: "DomainSocketServer \<Rightarrow> nat" where
  "GetClientNum s = length (cfds s)"

definition DomainSocketServer_dtor :: "'w os_api \<Rightarrow> DomainSocketServer \<Rightarrow> 'w \<Rightarrow> 'w" where
  \<comment> \<open>closes the clients, unlinks \<open>sun_path\<close> as a C string, then the base destructor\<close>
  "DomainSocketServer_dtor api s w =
     DomainSocket_dtor api (DomainSocket.truncate s)
       (os_unlink api (takeWhile (\<lambda>b. b \<noteq> 0) (addr s)) (foldl (\<lambda>w fd. os_close api fd w) w (cfds s)))"

section \<open>Reading\<close>

definition read_fd :: "'w os_api \<Rightarrow> int \<Rightarrow> nat \<Rightarrow> bytes \<Rightarrow> 'w \<Rightarrow> (bool \<times> bytes \<times> nat) \<times> 'w" where
  \<comment> \<open>success, the caller's message and the received size; an end of file keeps the message\<close>
  "read_fd api fd maxBytes message w =
     (let ((ret, buffer), w) = os_read api fd maxBytes w in
      if ret = -1 then ((False, message, 0), w)
      else if ret > 0 then ((True, take (nat ret) buffer, nat ret), w)
      else ((True, message, nat ret), w))"

definition client_fd :: "DomainSocketServer \<Rightarrow> nat \<Rightarrow> int option" where
  "client_fd s i = (if i \<ge> length (cfds s) \<or> cfds s ! i = -1 then None else Some (cfds s ! i))"

definition DomainSocketServer_Read ::
  "'w os_api \<Rightarrow> DomainSocketServer \<Rightarrow> nat \<Rightarrow> bytes \<Rightarrow> nat \<Rightarrow> 'w \<Rightarrow> (bool \<times> bytes \<times> nat) \<times> 'w"
where
  "DomainSocketServer_Read api s i message maxBytes w =
     (case client_fd s i of
        None \<Rightarrow> ((False, message, 0), w)
      | Some cfd \<Rightarrow> read_fd api cfd maxBytes message w)"

definition DomainSocketClient_Read ::
  "'w os_api \<Rightarrow> DomainSocket \<Rightarrow> bytes \<Rightarrow> nat \<Rightarrow> 'w \<Rightarrow> (bool \<times> bytes \<times> nat) \<times> 'w"
where
  "DomainSocketClient_Read api s message maxBytes w =
     (if sfd s = -1 then ((False, message, 0), w) else read_fd api (sfd s) maxBytes message w)"

section \<open>Writing\<close>

definition to_int32 :: "int \<Rightarrow> int" where
  \<comment> \<open>the narrowing cast on the client's result\<close>
  "to_int32 r = (r + 2 ^ 31) mod 2 ^ 32 - 2 ^ 31"

partial_function (option) write_loop ::
  "(bytes \<Rightarrow> 'w \<Rightarrow> int \<times> 'w) \<Rightarrow> bytes \<Rightarrow> nat \<Rightarrow> 'w \<Rightarrow> ((bool \<times> nat) \<times> 'w) option"
where
  "write_loop wr buf sent w =
     (if buf = [] then Some ((True, sent), w)
      else if fst (wr buf w) = -1 then Some ((False, sent), snd (wr buf w))
      else if fst (wr buf w) < 0 \<or> int (length buf) < fst (wr buf w) then None
      else write_loop wr (drop (nat (fst (wr buf w))) buf) (sent + nat (fst (wr buf w))) (snd (wr buf w)))"

definition DomainSocketServer_Write ::
  "'w os_api \<Rightarrow> DomainSocketServer \<Rightarrow> nat \<Rightarrow> bytes \<Rightarrow> nat \<Rightarrow> 'w \<Rightarrow> ((bool \<times> nat) \<times> 'w) option"
where
  \<comment> \<open>\<open>sent0\<close> is the caller's counter, left alone by the early return\<close>
  "DomainSocketServer_Write api s i message sent0 w =
     (case client_fd s i of
        None \<Rightarrow> Some ((False, sent0), w)
      | Some cfd \<Rightarrow> write_loop (os_write api cfd) message 0 w)"

definition DomainSocketClient_Write ::
  "'w os_api \<Rightarrow> DomainSocket \<Rightarrow> bytes \<Rightarrow> nat \<Rightarrow> 'w \<Rightarrow> ((bool \<times> nat) \<times> 'w) option"
where
  "DomainSocketClient_Write api s message sent0 w =
     (if sfd s = -1 then Some ((False, sent0), w)
      else write_loop (\<lambda>b w. apfst to_int32 (os_write api (sfd s) b w)) message 0 w)"

definition WriteWithFd :: "'w os_api \<Rightarrow> DomainSocket \<Rightarrow> bytes \<Rightarrow> int \<Rightarrow> 'w \<Rightarrow> (bool \<times> nat) \<times> 'w" where
  "WriteWithFd api s message fd w =
     (if sfd s = -1 \<or> fd < 0 then ((False, 0), w)
      else
        let (ret, w) = os_sendmsg api (sfd s) message fd w in
        if ret < 0 then ((False, 0), w) else ((True, nat ret), w))"

definition DomainSocketClient_Connect :: "'w os_api \<Rightarrow> DomainSocket \<Rightarrow> 'w \<Rightarrow> bool \<times> DomainSocket \<times> 'w" where
  "DomainSocketClient_Connect api s w =
     (let (ok, s, w) = CreateSocket api s w in
      if \<not> ok then (False, s, w)
      else
        let (r, w) = os_connect api (sfd s) (addr s) w in
        if r = -1 then (False, s, w) else (True, s, w))"

section \<open>Laws of the kernel\<close>

text \<open>
  \<open>write\<close> on a stream socket with a non-empty buffer either fails and takes nothing or takes
  a non-empty prefix, at most \<open>0x7ffff000\<close> bytes (write(2)). \<open>out\<close> is the stream of bytes the
  descriptor has accepted so far.
\<close>

definition write_fd_law :: "(bytes \<Rightarrow> 'w \<Rightarrow> int \<times> 'w) \<Rightarrow> ('w \<Rightarrow> bytes) \<Rightarrow> bool" where
  "write_fd_law wr out \<longleftrightarrow>
     (\<forall>buf w. buf \<noteq> [] \<longrightarrow>
        (fst (wr buf w) = -1 \<and> out (snd (wr buf w)) = out w) \<or>
        (0 < fst (wr buf w) \<and> fst (wr buf w) \<le> int (length buf) \<and> fst (wr buf w) \<le> 0x7ffff000 \<and>
           out (snd (wr buf w)) = out w @ take (nat (fst (wr buf w))) buf))"

lemma write_fd_cases:
  assumes "write_fd_law wr out" and "buf \<noteq> []"
  obtains (fail) "fst (wr buf w) = -1" and "out (snd (wr buf w)) = out w"
  | (take) k where "fst (wr buf w) = int k" and "0 < k" and "k \<le> length buf" and "k \<le> 0x7ffff000"
      and "out (snd (wr buf w)) = out w @ take k buf"
proof -
  from assms have "(fst (wr buf w) = -1 \<and> out (snd (wr buf w)) = out w) \<or>
        (0 < fst (wr buf w) \<and> fst (wr buf w) \<le> int (length buf) \<and> fst (wr buf w) \<le> 0x7ffff000 \<and>
           out (snd (wr buf w)) = out w @ take (nat (fst (wr buf w))) buf)"
    unfolding write_fd_law_def by blast
  then show thesis
  proof
    assume "fst (wr buf w) = -1 \<and> out (snd (wr buf w)) = out w"
    then show thesis using fail by blast
  next
    assume *: "0 < fst (wr buf w) \<and> fst (wr buf w) \<le> int (length buf) \<and>
      fst (wr buf w) \<le> 0x7ffff000 \<and> out (snd (wr buf w)) = out w @ take (nat (fst (wr buf w))) buf"
    show thesis by (rule take [of "nat (fst (wr buf w))"]) (use * in auto)
  qed
qed

lemma to_int32_id: "- (2 ^ 31) \<le> r \<Longrightarrow> r < 2 ^ 31 \<Longrightarrow> to_int32 r = r"
  by (simp add: to_int32_def)

text \<open>Under the kernel's limit the client's narrowing cast changes nothing.\<close>

lemma write_fd_law_int32:
  assumes "write_fd_law wr out"
  shows "write_fd_law (\<lambda>b w. apfst to_int32 (wr b w)) out"
  unfolding write_fd_law_def
proof (intro allI impI)
  fix buf w assume ne: "buf \<noteq> ([] :: bytes)"
  from assms ne show "(fst (apfst to_int32 (wr buf w)) = -1 \<and> out (snd (apfst to_int32 (wr buf w))) = out w) \<or>
        (0 < fst (apfst to_int32 (wr buf w)) \<and> fst (apfst to_int32 (wr buf w)) \<le> int (length buf) \<and>
         fst (apfst to_int32 (wr buf w)) \<le> 0x7ffff000 \<and>
         out (snd (apfst to_int32 (wr buf w))) = out w @ take (nat (fst (apfst to_int32 (wr buf w)))) buf)"
    by (cases rule: write_fd_cases [where w = w]) (auto simp: to_int32_id)
qed

text \<open>The write loop ends, and reports exactly the prefix that went out.\<close>

lemma write_loop_result:
  assumes law: "write_fd_law wr out"
  shows "\<exists>ok k w'. write_loop wr buf sent w = Some ((ok, sent + k), w') \<and> k \<le> length buf \<and>
    out w' = out w @ take k buf \<and> (ok \<longleftrightarrow> k = length buf)"
proof (induction "length buf" arbitrary: buf sent w rule: less_induct)
  case less
  show ?case
  proof (cases "buf = []")
    case True
    then have "write_loop wr buf sent w = Some ((True, sent + 0), w)"
      by (subst write_loop.simps) simp
    with True show ?thesis by (intro exI conjI) auto
  next
    case False
    from law False show ?thesis
    proof (cases rule: write_fd_cases [where w = w])
      case fail
      then have "write_loop wr buf sent w = Some ((False, sent + 0), snd (wr buf w))"
        using False by (subst write_loop.simps) simp
      with fail False show ?thesis by (intro exI conjI) auto
    next
      case (take n)
      have "length (drop n buf) < length buf" using take False by simp
      from less [OF this, of "sent + n" "snd (wr buf w)"] obtain ok k w' where
        r: "write_loop wr (drop n buf) (sent + n) (snd (wr buf w)) = Some ((ok, sent + n + k), w')"
        and k: "k \<le> length buf - n" and o: "out w' = out w @ take n buf @ take k (drop n buf)"
        and ok: "ok \<longleftrightarrow> k = length buf - n"
        by (auto simp: take)
      have "write_loop wr buf sent w = Some ((ok, sent + (n + k)), w')"
        using r take(1,3) False by (subst write_loop.simps) (simp add: add.assoc)
      moreover have "out w' = out w @ take (n + k) buf"
        using o by (simp add: take_add)
      ultimately show ?thesis using k ok take(3) by (intro exI conjI) auto
    qed
  qed
qed

definition sendmsg_law :: "'w os_api \<Rightarrow> int \<Rightarrow> ('w \<Rightarrow> bytes) \<Rightarrow> bool" where
  \<comment> \<open>\<open>sendmsg\<close> fails and takes nothing, or takes a prefix of the data\<close>
  "sendmsg_law api fd out \<longleftrightarrow>
     (\<forall>buf f w. let r = fst (os_sendmsg api fd buf f w); w' = snd (os_sendmsg api fd buf f w) in
        (r < 0 \<and> out w' = out w) \<or>
        (0 \<le> r \<and> r \<le> int (length buf) \<and> out w' = out w @ take (nat r) buf))"

definition read_fd_law :: "'w os_api \<Rightarrow> int \<Rightarrow> ('w \<Rightarrow> bytes) \<Rightarrow> bool" where
  \<comment> \<open>\<open>read\<close> delivers the front of the pending stream, all of it if it fits; with nothing
    pending it times out\<close>
  "read_fd_law api fd inp \<longleftrightarrow>
     (\<forall>n w. let ((r, bs), w') = os_read api fd n w in
        if inp w = [] \<or> n = 0 then r \<le> 0 \<and> inp w' = inp w
        else r = int (min n (length (inp w))) \<and> take (nat r) bs = take n (inp w) \<and>
             inp w' = drop n (inp w))"

lemma read_fd_spec:
  assumes "read_fd_law api fd inp" and "inp w \<noteq> []" and "0 < n"
  shows "fst (read_fd api fd n message w) = (True, take n (inp w), min n (length (inp w)))"
    and "inp (snd (read_fd api fd n message w)) = drop n (inp w)"
  using assms unfolding read_fd_law_def
  by (auto simp: read_fd_def Let_def case_prod_beta dest!: spec [of _ n] spec [of _ w])

lemma read_fd_quiet:
  assumes "read_fd_law api fd inp" and "inp w = []"
  shows "snd (snd (fst (read_fd api fd n message w))) = 0"
    and "inp (snd (read_fd api fd n message w)) = []"
  using assms unfolding read_fd_law_def
  by (auto simp: read_fd_def Let_def case_prod_beta dest!: spec [of _ n] spec [of _ w])

section \<open>A concrete kernel\<close>

text \<open>
  The kernel that witnesses run on: one stream that takes at most three bytes a call while
  its budget of calls lasts, a pending input, a number of waiting connections, a switch for
  failing credential queries, and the list of open descriptors.
\<close>

record wire =
  wi_out :: bytes
  wi_in :: bytes
  wi_budget :: nat
  wi_conns :: nat
  wi_credFail :: bool
  wi_open :: "int list"

definition wire0 :: wire where
  "wire0 = \<lparr>wi_out = [], wi_in = [], wi_budget = 100, wi_conns = 2, wi_credFail = False, wi_open = []\<rparr>"

definition fresh_fd :: "int list \<Rightarrow> int" where
  "fresh_fd fds = fold max fds 2 + 1"

definition wire_write :: "bytes \<Rightarrow> wire \<Rightarrow> int \<times> wire" where
  "wire_write buf w =
     (if wi_budget w = 0 then (-1, w)
      else (int (min 3 (length buf)),
            w\<lparr>wi_out := wi_out w @ take 3 buf, wi_budget := wi_budget w - 1\<rparr>))"

definition wire_api :: "wire os_api" where
  "wire_api =
     \<lparr>os_socket = (\<lambda>w. (3, w)), os_setsockopt = (\<lambda>_ _ w. (0, w)), os_bind = (\<lambda>_ _ w. (0, w)),
      os_listen = (\<lambda>_ _ w. (0, w)),
      os_accept = (\<lambda>_ w. if wi_conns w = 0 then (-1, w)
        else (fresh_fd (wi_open w),
              w\<lparr>wi_conns := wi_conns w - 1, wi_open := fresh_fd (wi_open w) # wi_open w\<rparr>)),
      os_peercred = (\<lambda>_ w. ((if wi_credFail w then -1 else 0, 1000, 1000), w)),
      os_ids = (\<lambda>_. (1000, 1000)), os_connect = (\<lambda>_ _ w. (0, w)),
      os_read = (\<lambda>_ n w. if wi_in w = [] then ((-1, []), w)
        else ((int (min n (length (wi_in w))), take n (wi_in w)), w\<lparr>wi_in := drop n (wi_in w)\<rparr>)),
      os_write = (\<lambda>_. wire_write), os_sendmsg = (\<lambda>_ buf _. wire_write buf),
      os_close = (\<lambda>fd w. w\<lparr>wi_open := filter (\<lambda>f. f \<noteq> fd) (wi_open w)\<rparr>),
      os_unlink = (\<lambda>_ w. w), os_memfd_create = (\<lambda>w. (-1, w)), os_sleep = (\<lambda>_ w. w),
      os_getpid = (\<lambda>_. 77)\<rparr>"

lemma fresh_fd_greater: "\<forall>f \<in> set fds. f < fresh_fd fds" and fresh_fd_pos: "2 < fresh_fd fds"
proof -
  have "fold max fds n \<ge> n \<and> (\<forall>f \<in> set fds. f \<le> fold max fds n)" for n :: int
  proof (induction fds arbitrary: n)
    case (Cons f fds)
    from Cons [of "max f n"] show ?case by auto
  qed simp
  from this [of 2] show "\<forall>f \<in> set fds. f < fresh_fd fds" and "2 < fresh_fd fds"
    by (auto simp: fresh_fd_def)
qed

lemma wire_write_law: "write_fd_law (os_write wire_api fd) wi_out"
  by (auto simp: write_fd_law_def wire_api_def wire_write_def min_def)

lemma wire_sendmsg_law: "sendmsg_law wire_api fd wi_out"
  by (auto simp: sendmsg_law_def wire_api_def wire_write_def min_def)

lemma wire_read_law: "read_fd_law wire_api fd wi_in"
  by (auto simp: read_fd_law_def wire_api_def min_def)

end
