(* ===== verification/Comm.thy ===== *)
theory Comm
  imports Socket
begin

text \<open>
  Models csrc/core/Communication.h/.cpp: the in-memory channel \<open>LocalComm\<close>, the socket
  server and client, and the \<open>Server\<close> / \<open>Client\<close> front ends that choose between them.

  The world of a call is the process-wide \<open>LocalComm\<close> together with the kernel state. A
  call that may not return (the write loop of the socket) gives an option. The accept
  worker and the read workers are threads that run one loop body again and again: a worker
  is its client id, and the bodies are the functions \<open>accept_body\<close> and \<open>listen_body\<close>, whose
  calls of the user's hooks are recorded in the server's log.
\<close>

section \<open>The in-memory channel\<close>

record LocalComm =
  s2c :: "bytes list"
  c2s :: "bytes list"

definition LocalComm_Clear :: "LocalComm \<Rightarrow> LocalComm" where
  "LocalComm_Clear c = c\<lparr>s2c := [], c2s := []\<rparr>"

definition LocalComm_Read :: "string \<Rightarrow> bytes \<Rightarrow> LocalComm \<Rightarrow> (int \<times> bytes) \<times> LocalComm" where
  "LocalComm_Read flag msg c =
     (if flag = ''s'' \<and> c2s c \<noteq> []
        then ((int (length (hd (c2s c))), hd (c2s c)), c\<lparr>c2s := tl (c2s c)\<rparr>)
      else if flag = ''c'' \<and> s2c c \<noteq> []
        then ((int (length (hd (s2c c))), hd (s2c c)), c\<lparr>s2c := tl (s2c c)\<rparr>)
      else ((0, msg), c))"

definition LocalComm_Write :: "string \<Rightarrow> bytes \<Rightarrow> LocalComm \<Rightarrow> int \<times> LocalComm" where
  "LocalComm_Write flag msg c =
     (if flag = ''s'' then (int (length msg), c\<lparr>s2c := s2c c @ [msg]\<rparr>)
      else if flag = ''c'' then (int (length msg), c\<lparr>c2s := c2s c @ [msg]\<rparr>)
      else (0, c))"

record 'w comm_world =
  cw_local :: LocalComm
  cw_os :: 'w

definition on_local :: "(LocalComm \<Rightarrow> 'r \<times> LocalComm) \<Rightarrow> 'w comm_world \<Rightarrow> 'r \<times> 'w comm_world" where
  "on_local f cw = (let (r, c) = f (cw_local cw) in (r, cw\<lparr>cw_local := c\<rparr>))"

definition on_os :: "('w \<Rightarrow> 'r \<times> 'w) \<Rightarrow> 'w comm_world \<Rightarrow> 'r \<times> 'w comm_world" where
  "on_os f cw = (let (r, w) = f (cw_os cw) in (r, cw\<lparr>cw_os := w\<rparr>))"

datatype CommType = MEMORY | SOCKET | MAX

definition RECV_BUFF_SIZE :: nat where
  "RECV_BUFF_SIZE = 1024"

section \<open>The socket server\<close>

datatype hook_call = Connected nat | Message nat bytes

record SocketServer =
  ss_socket :: "DomainSocketServer option"
  ss_maxClientNum :: nat
  ss_connectHook :: bool  \<comment> \<open>a connect hook is set\<close>
  ss_msgHook :: bool
  ss_isRunning :: bool
  ss_acceptWorker :: bool
  ss_readWorker :: "nat list"
  ss_log :: "hook_call list"  \<comment> \<open>the hook calls so far\<close>

definition new_SocketServer :: "bytes \<Rightarrow> nat \<Rightarrow> SocketServer" where
  \<comment> \<open>the path built from the time stamp and the process id is an argument\<close>
  "new_SocketServer path n =
     \<lparr>ss_socket = Some (new_DomainSocketServer path n), ss_maxClientNum = n, ss_connectHook = False,
      ss_msgHook = False, ss_isRunning = True, ss_acceptWorker = False, ss_readWorker = [], ss_log = []\<rparr>"

definition SocketServer_dtor :: "SocketServer \<Rightarrow> SocketServer" where
  \<comment> \<open>the workers end and are joined\<close>
  "SocketServer_dtor s = s\<lparr>ss_isRunning := False, ss_acceptWorker := False, ss_readWorker := []\<rparr>"

definition SocketServer_Start :: "'w os_api \<Rightarrow> SocketServer \<Rightarrow> 'w \<Rightarrow> bool \<times> SocketServer \<times> 'w" where
  \<comment> \<open>called on a server that has its socket\<close>
  "SocketServer_Start api s w =
     (case ss_socket s of
        None \<Rightarrow> (False, s, w)
      | Some ds \<Rightarrow>
          let (ok, ds, w) = ListenAndBind api ds w in
          if ok then (True, s\<lparr>ss_socket := Some ds, ss_acceptWorker := True\<rparr>, w)
          else (False, s\<lparr>ss_socket := None\<rparr>, DomainSocketServer_dtor api ds w))"

definition accept_body :: "'w os_api \<Rightarrow> SocketServer \<Rightarrow> 'w \<Rightarrow> SocketServer \<times> 'w" where
  \<comment> \<open>the loop of the accept worker: its condition and one run of its body\<close>
  "accept_body api s w =
     (case ss_socket s of
        None \<Rightarrow> (s, w)
      | Some ds \<Rightarrow>
          if ss_isRunning s \<and> GetClientNum ds < ss_maxClientNum s then
            (case Accept api ds w of
               (None, ds, w) \<Rightarrow> (s\<lparr>ss_socket := Some ds\<rparr>, w)
             | (Some i, ds, w) \<Rightarrow>
                 (s\<lparr>ss_socket := Some ds,
                    ss_readWorker := ss_readWorker s @ (if ss_msgHook s then [i] else []),
                    ss_log := ss_log s @ (if ss_connectHook s then [Connected i] else [])\<rparr>, w))
          else (s, w))"

definition SocketServer_Read ::
  "'w os_api \<Rightarrow> SocketServer \<Rightarrow> nat \<Rightarrow> bytes \<Rightarrow> 'w \<Rightarrow> (int \<times> bytes) \<times> 'w"
where
  "SocketServer_Read api s i msg w =
     (case ss_socket s of
        None \<Rightarrow> ((-1, msg), w)
      | Some ds \<Rightarrow>
          let ((ok, msg, readSize), w) = DomainSocketServer_Read api ds i msg 1024 w in
          if \<not> ok then ((-1, msg), w) else ((int readSize, msg), w))"

definition listen_body :: "'w os_api \<Rightarrow> nat \<Rightarrow> SocketServer \<Rightarrow> bytes \<Rightarrow> 'w \<Rightarrow> (SocketServer \<times> bytes) \<times> 'w" where
  \<comment> \<open>one run of the body of \<open>Listen\<close> for client \<open>i\<close>; \<open>msg\<close> is the loop's buffer\<close>
  "listen_body api i s msg w =
     (if ss_isRunning s then
        let ((len, msg), w) = SocketServer_Read api s i msg w in
        if len \<le> 0 then ((s, msg), w) else ((s\<lparr>ss_log := ss_log s @ [Message i msg]\<rparr>, msg), w)
      else ((s, msg), w))"

definition SocketServer_Write ::
  "'w os_api \<Rightarrow> SocketServer \<Rightarrow> nat \<Rightarrow> bytes \<Rightarrow> 'w \<Rightarrow> (int \<times> 'w) option"
where
  "SocketServer_Write api s i msg w =
     (case ss_socket s of
        None \<Rightarrow> Some (-1, w)
      | Some ds \<Rightarrow>
          map_option (\<lambda>r. (if fst (fst r) then int (snd (fst r)) else -1, snd r))
            (DomainSocketServer_Write api ds i msg 0 w))"

definition SetClientConnectHook :: "SocketServer \<Rightarrow> SocketServer" where
  "SetClientConnectHook s = s\<lparr>ss_connectHook := True\<rparr>"

definition SetMsgHandlerHook :: "SocketServer \<Rightarrow> SocketServer" where
  "SetMsgHandlerHook s = s\<lparr>ss_msgHook := True\<rparr>"

section \<open>The socket client\<close>

type_synonym SocketClient = "DomainSocket option"

definition new_SocketClient :: "bytes option \<Rightarrow> SocketClient" where
  \<comment> \<open>the value of \<open>MSOP_SOCKET_PATH\<close>\<close>
  "new_SocketClient env =
     (let path = (case env of None \<Rightarrow> [] | Some p \<Rightarrow> p) in
      if path = [] then None else Some (new_DomainSocket path))"

definition SocketClient_Connect :: "'w os_api \<Rightarrow> SocketClient \<Rightarrow> 'w \<Rightarrow> bool \<times> SocketClient \<times> 'w" where
  "SocketClient_Connect api c w =
     (case c of
        None \<Rightarrow> (False, c, w)
      | Some s \<Rightarrow> let (ok, s, w) = DomainSocketClient_Connect api s w in (ok, Some s, w))"

definition SocketClient_Read :: "'w os_api \<Rightarrow> SocketClient \<Rightarrow> bytes \<Rightarrow> 'w \<Rightarrow> (int \<times> bytes) \<times> 'w" where
  "SocketClient_Read api c msg w =
     (case c of
        None \<Rightarrow> ((-1, msg), w)
      | Some s \<Rightarrow>
          let ((ok, msg, readSize), w) = DomainSocketClient_Read api s msg RECV_BUFF_SIZE w in
          if \<not> ok then ((-1, msg), w) else ((int readSize, msg), w))"

definition SocketClient_Write :: "'w os_api \<Rightarrow> SocketClient \<Rightarrow> bytes \<Rightarrow> 'w \<Rightarrow> (int \<times> 'w) option" where
  "SocketClient_Write api c msg w =
     (case c of
        None \<Rightarrow> Some (-1, w)
      | Some s \<Rightarrow>
          map_option (\<lambda>r. (if fst (fst r) then int (snd (fst r)) else -1, snd r))
            (DomainSocketClient_Write api s msg 0 w))"

definition SocketClient_WriteWithFd :: "'w os_api \<Rightarrow> SocketClient \<Rightarrow> bytes \<Rightarrow> int \<Rightarrow> 'w \<Rightarrow> int \<times> 'w" where
  "SocketClient_WriteWithFd api c msg fd w =
     (case c of
        None \<Rightarrow> (-1, w)
      | Some s \<Rightarrow>
          let ((ok, sendBytes), w) = WriteWithFd api s msg fd w in
          (if ok then int sendBytes else -1, w))"

section \<open>Server and Client\<close>

record Server =
  sv_type :: CommType
  sv_socketServer :: "SocketServer option"

definition new_Server :: "bytes \<Rightarrow> CommType \<Rightarrow> Server" where
  "new_Server path type =
     \<lparr>sv_type = type, sv_socketServer = (if type = SOCKET then Some (new_SocketServer path 256) else None)\<rparr>"

definition Server_dtor :: "'w comm_world \<Rightarrow> 'w comm_world" where
  "Server_dtor cw = cw\<lparr>cw_local := LocalComm_Clear (cw_local cw)\<rparr>"

definition Server_Start :: "'w os_api \<Rightarrow> Server \<Rightarrow> 'w comm_world \<Rightarrow> bool \<times> Server \<times> 'w comm_world" where
  "Server_Start api sv cw =
     (if sv_type sv = MEMORY then (True, sv, cw)
      else if sv_type sv = SOCKET then
        (case sv_socketServer sv of
           None \<Rightarrow> (False, sv, cw)
         | Some s \<Rightarrow>
             let (ok, s, w) = SocketServer_Start api s (cw_os cw) in
             (ok, sv\<lparr>sv_socketServer := Some s\<rparr>, cw\<lparr>cw_os := w\<rparr>))
      else (False, sv, cw))"

definition Server_Read ::
  "'w os_api \<Rightarrow> Server \<Rightarrow> nat \<Rightarrow> bytes \<Rightarrow> 'w comm_world \<Rightarrow> (int \<times> bytes) \<times> 'w comm_world"
where
  \<comment> \<open>a server of type \<open>SOCKET\<close> has its socket server (\<open>new_Server\<close>)\<close>
  "Server_Read api sv i msg cw =
     (if sv_type sv = MEMORY then on_local (LocalComm_Read ''s'' msg) cw
      else if sv_type sv = SOCKET then on_os (SocketServer_Read api (the (sv_socketServer sv)) i msg) cw
      else ((0, msg), cw))"

definition Server_Write ::
  "'w os_api \<Rightarrow> Server \<Rightarrow> nat \<Rightarrow> bytes \<Rightarrow> 'w comm_world \<Rightarrow> (int \<times> 'w comm_world) option"
where
  "Server_Write api sv i msg cw =
     (if sv_type sv = MEMORY then Some (on_local (LocalComm_Write ''s'' msg) cw)
      else if sv_type sv = SOCKET then
        map_option (apsnd (\<lambda>w. cw\<lparr>cw_os := w\<rparr>))
          (SocketServer_Write api (the (sv_socketServer sv)) i msg (cw_os cw))
      else Some (0, cw))"

definition Server_SetClientConnectHook :: "Server \<Rightarrow> Server" where
  "Server_SetClientConnectHook sv = sv\<lparr>sv_socketServer := map_option SetClientConnectHook (sv_socketServer sv)\<rparr>"

definition Server_SetMsgHandlerHook :: "Server \<Rightarrow> Server" where
  "Server_SetMsgHandlerHook sv = sv\<lparr>sv_socketServer := map_option SetMsgHandlerHook (sv_socketServer sv)\<rparr>"

record Client =
  cl_type :: CommType
  cl_socketClient :: "SocketClient option"

definition new_Client :: "bytes option \<Rightarrow> CommType \<Rightarrow> Client" where
  "new_Client env type =
     \<lparr>cl_type = type, cl_socketClient = (if type = SOCKET then Some (new_SocketClient env) else None)\<rparr>"

definition Client_dtor :: "'w comm_world \<Rightarrow> 'w comm_world" where
  "Client_dtor cw = cw\<lparr>cw_local := LocalComm_Clear (cw_local cw)\<rparr>"

definition Client_Connect :: "'w os_api \<Rightarrow> Client \<Rightarrow> 'w comm_world \<Rightarrow> bool \<times> Client \<times> 'w comm_world" where
  "Client_Connect api c cw =
     (if cl_type c = MEMORY then (True, c, cw)
      else if cl_type c = SOCKET then
        (let (ok, s, w) = SocketClient_Connect api (the (cl_socketClient c)) (cw_os cw) in
         (ok, c\<lparr>cl_socketClient := Some s\<rparr>, cw\<lparr>cw_os := w\<rparr>))
      else (False, c, cw))"

definition Client_Read :: "'w os_api \<Rightarrow> Client \<Rightarrow> bytes \<Rightarrow> 'w comm_world \<Rightarrow> (int \<times> bytes) \<times> 'w comm_world" where
  "Client_Read api c msg cw =
     (if cl_type c = MEMORY then on_local (LocalComm_Read ''c'' msg) cw
      else if cl_type c = SOCKET then on_os (SocketClient_Read api (the (cl_socketClient c)) msg) cw
      else ((0, msg), cw))"

definition Client_Write :: "'w os_api \<Rightarrow> Client \<Rightarrow> bytes \<Rightarrow> 'w comm_world \<Rightarrow> (int \<times> 'w comm_world) option" where
  "Client_Write api c msg cw =
     (if cl_type c = MEMORY then Some (on_local (LocalComm_Write ''c'' msg) cw)
      else if cl_type c = SOCKET then
        map_option (apsnd (\<lambda>w. cw\<lparr>cw_os := w\<rparr>))
          (SocketClient_Write api (the (cl_socketClient c)) msg (cw_os cw))
      else Some (0, cw))"

definition Client_WriteWithFd ::
  "'w os_api \<Rightarrow> Client \<Rightarrow> bytes \<Rightarrow> int \<Rightarrow> 'w comm_world \<Rightarrow> int \<times> 'w comm_world"
where
  "Client_WriteWithFd api c msg fd cw =
     (case cl_socketClient c of
        Some s \<Rightarrow> if cl_type c = SOCKET then on_os (SocketClient_WriteWithFd api s msg fd) cw else (-1, cw)
      | None \<Rightarrow> (-1, cw))"

section \<open>What a sender relies on\<close>

text \<open>
  The contract of \<open>Client::Write\<close>: it returns, and the peer's stream grows by a prefix of
  the message, whose length is the result unless the result is -1.
\<close>

locale channel =
  fixes send :: "bytes \<Rightarrow> 'c \<Rightarrow> (int \<times> 'c) option" and out :: "'c \<Rightarrow> bytes"
  assumes send_ends: "\<exists>r c'. send m c = Some (r, c')"
    and send_out: "send m c = Some (r, c') \<Longrightarrow>
      \<exists>k \<le> length m. out c' = out c @ take k m \<and> (r = int k \<or> r = -1)"
begin

lemma send_cases:
  obtains r c' k where "send m c = Some (r, c')" and "k \<le> length m" and "out c' = out c @ take k m"
    and "r = int k \<or> r = -1"
  using send_ends send_out by blast

end

definition local_out :: "'w comm_world \<Rightarrow> bytes" where
  "local_out cw = concat (c2s (cw_local cw))"

interpretation memory: channel "Client_Write api (new_Client env MEMORY)" local_out
proof
  fix m c r c'
  show "\<exists>r c'. Client_Write api (new_Client env MEMORY) m c = Some (r, c')"
    by (simp add: Client_Write_def new_Client_def on_local_def LocalComm_Write_def)
  assume "Client_Write api (new_Client env MEMORY) m c = Some (r, c')"
  then have "r = int (length m)" and "local_out c' = local_out c @ take (length m) m"
    by (auto simp: Client_Write_def new_Client_def on_local_def LocalComm_Write_def local_out_def)
  then show "\<exists>k \<le> length m. local_out c' = local_out c @ take k m \<and> (r = int k \<or> r = -1)"
    by (intro exI [of _ "length m"]) simp
qed

definition socket_client :: "DomainSocket \<Rightarrow> Client" where
  \<comment> \<open>a client of type \<open>SOCKET\<close> that holds the socket \<open>s\<close>\<close>
  "socket_client s = \<lparr>cl_type = SOCKET, cl_socketClient = Some (Some s)\<rparr>"

lemma socket_channel:
  fixes api :: "'w os_api"
  assumes "sfd s \<noteq> -1" and "write_fd_law (os_write api (sfd s)) out"
  shows "channel (Client_Write api (socket_client s)) (\<lambda>cw. out (cw_os cw))"
proof
  fix m :: bytes and c :: "'w comm_world" and r c'
  from write_loop_result [OF write_fd_law_int32 [OF assms(2)], of m 0 "cw_os c"]
  obtain ok k w' where
    loop: "write_loop (\<lambda>b w. apfst to_int32 (os_write api (sfd s) b w)) m 0 (cw_os c)
      = Some ((ok, k), w')" and k: "k \<le> length m" "out w' = out (cw_os c) @ take k m"
    by auto
  have res: "Client_Write api (socket_client s) m c
      = Some (if ok then int k else -1, c\<lparr>cw_os := w'\<rparr>)"
    using assms(1) loop
    by (simp add: Client_Write_def socket_client_def SocketClient_Write_def DomainSocketClient_Write_def)
  then show "\<exists>r c'. Client_Write api (socket_client s) m c = Some (r, c')" by blast
  assume "Client_Write api (socket_client s) m c = Some (r, c')"
  with res k show "\<exists>k \<le> length m. out (cw_os c') = out (cw_os c) @ take k m \<and> (r = int k \<or> r = -1)"
    by (intro exI [of _ k]) (auto split: if_splits)
qed

section \<open>The in-memory channel is a pair of queues\<close>

datatype comm_op = SWrite bytes | CWrite bytes | SRead | CRead

fun comm_step :: "LocalComm \<times> bytes list \<times> bytes list \<Rightarrow> comm_op \<Rightarrow> LocalComm \<times> bytes list \<times> bytes list" where
  \<comment> \<open>the channel, what the server has received and what the client has received\<close>
  "comm_step (c, rs, rc) (SWrite m) = (snd (LocalComm_Write ''s'' m c), rs, rc)"
| "comm_step (c, rs, rc) (CWrite m) = (snd (LocalComm_Write ''c'' m c), rs, rc)"
| "comm_step (c, rs, rc) SRead =
     (let ((len, m), c') = LocalComm_Read ''s'' [] c in (c', rs @ (if len > 0 then [m] else []), rc))"
| "comm_step (c, rs, rc) CRead =
     (let ((len, m), c') = LocalComm_Read ''c'' [] c in (c', rs, rc @ (if len > 0 then [m] else [])))"

definition from_client :: "comm_op list \<Rightarrow> bytes list" where
  "from_client ops = concat (map (\<lambda>x. case x of CWrite m \<Rightarrow> [m] | _ \<Rightarrow> []) ops)"

definition from_server :: "comm_op list \<Rightarrow> bytes list" where
  "from_server ops = concat (map (\<lambda>x. case x of SWrite m \<Rightarrow> [m] | _ \<Rightarrow> []) ops)"

abbreviation ne :: "bytes list \<Rightarrow> bytes list" where
  "ne ms \<equiv> filter (\<lambda>m. m \<noteq> []) ms"

lemma comm_run:
  "foldl comm_step (c, rs, rc) ops = (c', rs', rc') \<Longrightarrow>
     rs' @ ne (c2s c') = rs @ ne (c2s c) @ ne (from_client ops) \<and>
     rc' @ ne (s2c c') = rc @ ne (s2c c) @ ne (from_server ops)"
proof (induction ops arbitrary: c rs rc)
  case Nil
  then show ?case by (simp add: from_client_def from_server_def)
next
  case (Cons x ops)
  obtain c1 rs1 rc1 where s: "comm_step (c, rs, rc) x = (c1, rs1, rc1)"
    by (cases "comm_step (c, rs, rc) x")
  then have IH: "rs' @ ne (c2s c') = rs1 @ ne (c2s c1) @ ne (from_client ops) \<and>
     rc' @ ne (s2c c') = rc1 @ ne (s2c c1) @ ne (from_server ops)"
    using Cons by auto
  have "rs1 @ ne (c2s c1) = rs @ ne (c2s c) @ ne (from_client [x])"
    and "rc1 @ ne (s2c c1) = rc @ ne (s2c c) @ ne (from_server [x])"
    using s by (cases x; cases "c2s c"; cases "s2c c";
        auto simp: LocalComm_Write_def LocalComm_Read_def from_client_def from_server_def
          split: if_splits)+
  with IH show ?case by (simp add: from_client_def from_server_def)
qed

text \<open>
  C12: the in-memory channel is a pair of first-in-first-out queues. After any interleaving of
  reads and writes on both ends, what the server received, followed by what is still queued,
  is what the client wrote, in order, and the same the other way round. Empty messages are
  the exception: reading one gives the same result as reading an empty queue.
\<close>

theorem memory_channel_fifo:
  assumes "foldl comm_step (\<lparr>s2c = [], c2s = []\<rparr>, [], []) ops = (c, rs, rc)"
  shows "rs @ ne (c2s c) = ne (from_client ops) \<and> rc @ ne (s2c c) = ne (from_server ops)"
  using comm_run [OF assms] by simp

theorem memory_channel_fifo_witness:
  "[[1]] @ ne [[2, 3]] = ne (from_client [CWrite [1], SWrite [7], CWrite [], CWrite [2, 3], SRead]) \<and>
   [] @ ne [[7]] = ne (from_server [CWrite [1], SWrite [7], CWrite [], CWrite [2, 3], SRead])"
  using memory_channel_fifo [where ops = "[CWrite [1], SWrite [7], CWrite [], CWrite [2, 3], SRead]"]
  by (simp add: LocalComm_Write_def LocalComm_Read_def)

section \<open>The accept worker\<close>

text \<open>
  Which descriptors the kernel has open is a view \<open>opened\<close>; \<open>accept\<close> returns -1 or a
  descriptor that was not open, \<open>close\<close> takes one away, the other calls keep the set.
\<close>

definition fd_law :: "'w os_api \<Rightarrow> ('w \<Rightarrow> int set) \<Rightarrow> bool" where
  "fd_law api opened \<longleftrightarrow>
     (\<forall>fd w. (fst (os_accept api fd w) = -1 \<and> opened (snd (os_accept api fd w)) = opened w) \<or>
        (0 \<le> fst (os_accept api fd w) \<and> fst (os_accept api fd w) \<notin> opened w \<and>
         opened (snd (os_accept api fd w)) = insert (fst (os_accept api fd w)) (opened w))) \<and>
     (\<forall>fd w. opened (os_close api fd w) = opened w - {fd}) \<and>
     (\<forall>fd opt w. opened (snd (os_setsockopt api fd opt w)) = opened w) \<and>
     (\<forall>fd w. opened (snd (os_peercred api fd w)) = opened w)"

lemma fd_law_accept:
  assumes "fd_law api opened" and "os_accept api fd w = (r, w')"
  shows "(r = -1 \<and> opened w' = opened w) \<or>
    (0 \<le> r \<and> r \<notin> opened w \<and> opened w' = insert r (opened w))"
proof -
  have "(fst (os_accept api fd w) = -1 \<and> opened (snd (os_accept api fd w)) = opened w) \<or>
        (0 \<le> fst (os_accept api fd w) \<and> fst (os_accept api fd w) \<notin> opened w \<and>
         opened (snd (os_accept api fd w)) = insert (fst (os_accept api fd w)) (opened w))"
    by (rule assms(1) [unfolded fd_law_def, THEN conjunct1, THEN spec, THEN spec])
  then show ?thesis by (simp add: assms(2))
qed

lemma fd_law_close: "fd_law api opened \<Longrightarrow> opened (os_close api fd w) = opened w - {fd}"
  unfolding fd_law_def by blast

lemma fd_law_setsockopt:
  assumes "fd_law api opened" and "os_setsockopt api fd opt w = (r, w')"
  shows "opened w' = opened w"
proof -
  from assms(1) have "opened (snd (os_setsockopt api fd opt w)) = opened w" unfolding fd_law_def by blast
  then show ?thesis by (simp add: assms(2))
qed

lemma fd_law_peercred:
  assumes "fd_law api opened" and "os_peercred api fd w = (c, w')"
  shows "opened w' = opened w"
proof -
  from assms(1) have "opened (snd (os_peercred api fd w)) = opened w" unfolding fd_law_def by blast
  then show ?thesis by (simp add: assms(2))
qed

definition cred_error :: "'w os_api \<Rightarrow> DomainSocketServer \<Rightarrow> 'w \<Rightarrow> bool" where
  \<comment> \<open>the connection was accepted and the query of the peer's credentials failed\<close>
  "cred_error api s w =
     (length (cfds s) < maxClientNum s \<and>
      (let (cfd, w) = os_accept api (sfd s) w; (r, w) = os_setsockopt api cfd (SO_RCVTIMEO 1) w in
       cfd \<noteq> -1 \<and> r \<noteq> -1 \<and> fst (fst (os_peercred api cfd w)) = -1))"

lemma Accept_cases:
  assumes law: "fd_law api opened" and acc: "Accept api s w = (r, s', w')"
  shows "case r of
      None \<Rightarrow> s' = s \<and> (if cred_error api s w
        then opened w' = insert (fst (os_accept api (sfd s) w)) (opened w) else opened w' = opened w)
    | Some i \<Rightarrow> i = length (cfds s) \<and> i < maxClientNum s \<and> \<not> cred_error api s w \<and>
        (\<exists>fd. 0 \<le> fd \<and> fd \<notin> opened w \<and> opened w' = insert fd (opened w) \<and> s' = s\<lparr>cfds := cfds s @ [fd]\<rparr>)"
proof (cases "length (cfds s) < maxClientNum s")
  case False
  then show ?thesis using acc by (auto simp: Accept_def cred_error_def)
next
  case lt: True
  obtain fd w1 where 1: "os_accept api (sfd s) w = (fd, w1)" by (cases "os_accept api (sfd s) w")
  obtain r2 w2 where 2: "os_setsockopt api fd (SO_RCVTIMEO 1) w1 = (r2, w2)"
    by (cases "os_setsockopt api fd (SO_RCVTIMEO 1) w1")
  obtain r3 uid gid w3 where 3: "os_peercred api fd w2 = ((r3, uid, gid), w3)"
    by (metis prod_cases3 surj_pair)
  note o = fd_law_accept [OF law 1] fd_law_setsockopt [OF law 2] fd_law_peercred [OF law 3]
  have ce: "cred_error api s w \<longleftrightarrow> fd \<noteq> -1 \<and> r2 \<noteq> -1 \<and> r3 = -1"
    using lt by (simp add: cred_error_def 1 2 3 del: One_nat_def)
  have A: "(r, s', w') =
      (if fd = -1 then (None, s, w1) else if r2 = -1 then (None, s, os_close api fd w2)
       else if r3 = -1 then (None, s, w3)
       else if os_ids api w3 \<noteq> (uid, gid) then (None, s, os_close api fd w3)
       else (Some (length (cfds s)), s\<lparr>cfds := cfds s @ [fd]\<rparr>, w3))"
    unfolding acc [symmetric] using lt by (simp add: Accept_def 1 2 3 del: One_nat_def)
  show ?thesis
  proof (cases "fd = -1")
    case True
    then show ?thesis using A o ce by simp
  next
    case False
    then have fd: "0 \<le> fd" "fd \<notin> opened w" "opened w1 = insert fd (opened w)" using o by auto
    show ?thesis
      using A False fd o(2,3) ce 1 lt
      by (auto simp: fd_law_close [OF law] split: if_splits intro!: exI [of _ fd])
  qed
qed

lemma wire_fd_law: "fd_law wire_api (\<lambda>w. set (wi_open w))"
proof -
  have "fresh_fd (wi_open w) \<notin> set (wi_open w)" "0 \<le> fresh_fd (wi_open w)" for w
    using fresh_fd_greater [of "wi_open w"] fresh_fd_pos [of "wi_open w"] by auto
  then show ?thesis by (auto simp: fd_law_def wire_api_def)
qed

text \<open>
  descriptors of the accept path. Every connection that \<open>accept\<close> hands out is either
  registered, under the next client id, or closed again; the one path on which it stays open
  without being registered is a failed query of the peer's credentials.
\<close>

theorem accept_descriptor_accounting:
  assumes "fd_law api opened"
  shows "(case Accept api s w of
      (None, s', w') \<Rightarrow> s' = s \<and>
        opened w' = (if cred_error api s w then insert (fst (os_accept api (sfd s) w)) (opened w)
          else opened w)
    | (Some i, s', w') \<Rightarrow> i = length (cfds s) \<and> i < maxClientNum s \<and>
        (\<exists>fd. fd \<notin> opened w \<and> opened w' = insert fd (opened w) \<and> cfds s' = cfds s @ [fd]))"
proof -
  obtain r s' w' where acc: "Accept api s w = (r, s', w')" by (cases "Accept api s w")
  from Accept_cases [OF assms acc] show ?thesis
    unfolding acc by (cases r) (auto split: if_splits)
qed

theorem accept_descriptor_accounting_witness:
  "(let w = wire0\<lparr>wi_credFail := True\<rparr>; s = new_DomainSocketServer [] 256 in
     fst (Accept wire_api s w) = None \<and> wi_open (snd (snd (Accept wire_api s w))) = [3] \<and>
     (case Accept wire_api s w of
        (None, s', w') \<Rightarrow> s' = s \<and>
          set (wi_open w') = (if cred_error wire_api s w
            then insert (fst (os_accept wire_api (sfd s) w)) (set (wi_open w)) else set (wi_open w))
      | (Some i, s', w') \<Rightarrow> i = length (cfds s) \<and> i < maxClientNum s \<and>
          (\<exists>fd. fd \<notin> set (wi_open w) \<and> set (wi_open w') = insert fd (set (wi_open w)) \<and>
             cfds s' = cfds s @ [fd])))"
  unfolding Let_def
  by (intro conjI accept_descriptor_accounting [OF wire_fd_law])
    (simp_all add: Accept_def wire_api_def wire0_def new_DomainSocketServer_def fresh_fd_def
      new_DomainSocket_def DomainSocket.defs)

section \<open>A run of the accept worker\<close>

definition accept_run :: "'w os_api \<Rightarrow> nat \<Rightarrow> SocketServer \<times> 'w \<Rightarrow> SocketServer \<times> 'w" where
  "accept_run api n = (\<lambda>(s, w). accept_body api s w) ^^ n"

definition server_inv :: "nat \<Rightarrow> SocketServer \<Rightarrow> bool" where
  "server_inv m s \<longleftrightarrow> ss_connectHook s \<and> ss_msgHook s \<and> ss_maxClientNum s = m \<and>
     (\<exists>ds. ss_socket s = Some ds \<and> maxClientNum ds = m \<and> length (cfds ds) \<le> m \<and>
        ss_readWorker s = [0..<length (cfds ds)] \<and>
        ss_log s = map Connected [0..<length (cfds ds)])"

lemma accept_body_inv [inv_intros]:
  assumes law: "fd_law api opened" and inv: "server_inv m s"
  shows "server_inv m (fst (accept_body api s w))"
proof -
  from inv obtain ds where ds: "ss_socket s = Some ds" "maxClientNum ds = m" "length (cfds ds) \<le> m"
    "ss_readWorker s = [0..<length (cfds ds)]" "ss_log s = map Connected [0..<length (cfds ds)]"
    by (auto simp: server_inv_def)
  obtain r ds' w' where acc: "Accept api ds w = (r, ds', w')" by (cases "Accept api ds w")
  show ?thesis
    using inv ds Accept_cases [OF law acc]
    by (cases r) (auto simp: accept_body_def server_inv_def acc split: if_splits)
qed

text \<open>
  however often the accept worker's loop runs and whatever the kernel answers, there are
  at most \<open>maxClientNum\<close> clients, each accepted client has its own read worker, and the
  connect hook was called once for each of them, in the order of their ids.
\<close>

theorem accept_worker_bookkeeping:
  assumes "fd_law api opened" and "ss_connectHook s" and "ss_msgHook s"
    and "ss_socket s = Some ds" and "cfds ds = []" and "maxClientNum ds = ss_maxClientNum s"
    and "ss_readWorker s = []" and "ss_log s = []"
  shows "server_inv (ss_maxClientNum s) (fst (accept_run api n (s, w)))"
proof (induction n)
  case 0
  then show ?case using assms by (auto simp: accept_run_def server_inv_def)
next
  case (Suc n)
  then show ?case
    using accept_body_inv [OF assms(1) Suc] by (simp add: accept_run_def case_prod_beta)
qed

definition listening :: SocketServer where
  "listening = SetMsgHandlerHook (SetClientConnectHook (new_SocketServer [] 1))"

theorem accept_worker_bookkeeping_witness:
  "server_inv 1 (fst (accept_run wire_api 2 (listening, wire0))) \<and>
   ss_log (fst (accept_run wire_api 2 (listening, wire0))) = [Connected 0]"
proof
  show "server_inv 1 (fst (accept_run wire_api 2 (listening, wire0)))"
    using accept_worker_bookkeeping [OF wire_fd_law, of listening "new_DomainSocketServer [] 1" 2 wire0]
    by (simp add: listening_def SetMsgHandlerHook_def SetClientConnectHook_def new_SocketServer_def
        new_DomainSocketServer_def DomainSocket.defs)
  show "ss_log (fst (accept_run wire_api 2 (listening, wire0))) = [Connected 0]"
    by (simp add: accept_run_def numeral_2_eq_2 accept_body_def listening_def Accept_def wire_api_def
        wire0_def SetMsgHandlerHook_def SetClientConnectHook_def new_SocketServer_def
        new_DomainSocketServer_def DomainSocket.defs GetClientNum_def fresh_fd_def)
qed

section \<open>A read worker\<close>

definition payload :: "nat \<Rightarrow> hook_call list \<Rightarrow> bytes" where
  \<comment> \<open>what the message hook was given for a client, joined\<close>
  "payload i calls = concat (map (\<lambda>c. case c of Message j m \<Rightarrow> if j = i then m else [] | _ \<Rightarrow> []) calls)"

lemma payload_append [simp]: "payload i (xs @ ys) = payload i xs @ payload i ys"
  by (simp add: payload_def)

definition listen_run :: "'w os_api \<Rightarrow> nat \<Rightarrow> nat \<Rightarrow> (SocketServer \<times> bytes) \<times> 'w \<Rightarrow> (SocketServer \<times> bytes) \<times> 'w" where
  "listen_run api i n = (\<lambda>((s, msg), w). listen_body api i s msg w) ^^ n"

lemma listen_body_step:
  assumes law: "read_fd_law api fd inp" and run: "ss_isRunning s" "ss_socket s = Some ds"
    and fd: "client_fd ds i = Some fd" and step: "listen_body api i s msg w = ((s', msg'), w')"
  shows "inp w' = drop 1024 (inp w) \<and> ss_isRunning s' \<and> ss_socket s' = Some ds \<and>
    payload i (ss_log s') = payload i (ss_log s) @ take 1024 (inp w)"
proof (cases "inp w = []")
  case True
  obtain ok m n w1 where r: "read_fd api fd 1024 msg w = ((ok, m, n), w1)"
    by (metis prod_cases3 surj_pair)
  with read_fd_quiet [OF law True, of 1024 msg] have "n = 0" "inp w1 = []" by auto
  then have "s' = s" "w' = w1"
    using step r by (auto simp: listen_body_def run SocketServer_Read_def DomainSocketServer_Read_def fd
        split: if_splits)
  with True \<open>inp w1 = []\<close> run show ?thesis by simp
next
  case False
  obtain w1 where r: "read_fd api fd 1024 msg w = ((True, take 1024 (inp w), min 1024 (length (inp w))), w1)"
    using read_fd_spec(1) [OF law False, of 1024 msg] by (cases "read_fd api fd 1024 msg w") auto
  have "inp w1 = drop 1024 (inp w)"
    using read_fd_spec(2) [OF law False, of 1024 msg] r by simp
  moreover have m: "(min 1024 (length (inp w)) = 0) = False" using False by (simp add: min_def)
  have "s' = s\<lparr>ss_log := ss_log s @ [Message i (take 1024 (inp w))]\<rparr>" "w' = w1"
    using step r
    by (auto simp: m listen_body_def run SocketServer_Read_def DomainSocketServer_Read_def fd
        split: if_splits)
  ultimately show ?thesis using run by (simp add: payload_def)
qed

text \<open>
  a read worker hands the client's byte stream to the message hook in pieces and loses
  nothing: the pieces of \<open>n\<close> runs of its loop, joined, are the first \<open>1024 * n\<close> bytes of the
  stream, and the rest stays pending.
\<close>

theorem listen_reassembles:
  assumes "read_fd_law api fd inp" and "ss_isRunning s" and "ss_socket s = Some ds"
    and "client_fd ds i = Some fd" and "listen_run api i n ((s, msg), w) = ((s', msg'), w')"
  shows "payload i (ss_log s') = payload i (ss_log s) @ take (1024 * n) (inp w) \<and>
    inp w' = drop (1024 * n) (inp w)"
proof -
  have "inp w' = drop (1024 * n) (inp w) \<and> ss_isRunning s' \<and> ss_socket s' = Some ds \<and>
    payload i (ss_log s') = payload i (ss_log s) @ take (1024 * n) (inp w)"
    using assms(5)
  proof (induction n arbitrary: s' msg' w')
    case 0
    then show ?case using assms by (simp add: listen_run_def)
  next
    case (Suc n)
    obtain s1 m1 w1 where 1: "listen_run api i n ((s, msg), w) = ((s1, m1), w1)"
      by (metis surj_pair)
    then have "listen_body api i s1 m1 w1 = ((s', msg'), w')"
      using Suc.prems by (simp add: listen_run_def)
    from listen_body_step [OF assms(1) _ _ assms(4) this] Suc.IH [OF 1]
    show ?case by (simp add: take_add [symmetric] add.commute)
  qed
  then show ?thesis by blast
qed

definition accepted :: SocketServer where
  "accepted = fst (accept_run wire_api 1 (listening, wire0))"

theorem listen_reassembles_witness:
  "payload 0 (ss_log (fst (fst (listen_run wire_api 0 2 ((accepted, []), wire0\<lparr>wi_in := replicate 1500 7\<rparr>)))))
     = replicate 1500 7"
proof -
  let ?w = "wire0\<lparr>wi_in := replicate 1500 7\<rparr>"
  obtain s' msg' w' where r: "listen_run wire_api 0 2 ((accepted, []), ?w) = ((s', msg'), w')"
    by (metis surj_pair)
  have a: "accepted = listening\<lparr>ss_socket := Some (new_DomainSocketServer [] 1\<lparr>cfds := [3]\<rparr>),
      ss_readWorker := [0], ss_log := [Connected 0]\<rparr>"
    by (simp add: accepted_def accept_run_def accept_body_def listening_def Accept_def wire_api_def
        wire0_def SetMsgHandlerHook_def SetClientConnectHook_def new_SocketServer_def
        new_DomainSocketServer_def DomainSocket.defs GetClientNum_def fresh_fd_def)
  have "payload 0 (ss_log s') = payload 0 (ss_log accepted) @ take (1024 * 2) (wi_in ?w) \<and>
      wi_in w' = drop (1024 * 2) (wi_in ?w)"
    by (rule listen_reassembles [OF wire_read_law [of 3] _ _ _ r,
          of "new_DomainSocketServer [] 1\<lparr>cfds := [3]\<rparr>"])
      (simp_all add: a listening_def SetMsgHandlerHook_def SetClientConnectHook_def
        new_SocketServer_def client_fd_def)
  then have "payload 0 (ss_log s') = replicate 1500 7" by (simp add: a payload_def)
  then show ?thesis by (simp add: r)
qed

end
