(* ===== verification/Process.thy ===== *)
theory Process
  imports Comm
begin

text \<open>
  Models csrc/core/LocalProcess.h/.cpp, csrc/core/RemoteProcess.h/.cpp and
  csrc/runtime/inject_helpers/LocalDevice.h/.cpp: the packet sender of the hijacked process.

  The state that all connections of a process share (\<open>ProcessState\<close>) is part of the world:
  the owner's process id, the counter of packet numbers and the table of device connections.
  A call returns \<open>None\<close> when it does not return at all, and \<open>Exited\<close> when it ends the
  process (a forked child that uses the parent's connections). The counter is atomic; its
  compare-and-swap loop is also modelled as a step relation between threads, at the end.
\<close>

section \<open>State\<close>

datatype LogLevel = DEBUG | INFO | WARN | ERROR

record LocalProcess =
  lp_isDevice :: bool
  lp_client :: "Client option"

record 'w proc_world =
  pw_comm :: "'w comm_world"
  pw_ownerPid :: int
  pw_nextOrderId :: nat
  pw_devices :: "(int \<times> LocalProcess) list"

datatype 'a run = Exited | Returned 'a

definition CheckProcessOwner :: "'w os_api \<Rightarrow> 'w proc_world \<Rightarrow> bool" where
  \<comment> \<open>false: the process exits\<close>
  "CheckProcessOwner api pw \<longleftrightarrow> pw_ownerPid pw = os_getpid api (cw_os (pw_comm pw))"

definition ReserveOrderId :: "nat \<Rightarrow> nat \<times> nat" where
  \<comment> \<open>the reserved number and the counter after it, when no other thread interferes\<close>
  "ReserveOrderId next = (if next \<noteq> 0 \<and> next \<noteq> size_max then (next, next + 1) else (0, next))"

section \<open>Connecting\<close>

function connect_loop ::
  "'w os_api \<Rightarrow> Client \<Rightarrow> nat \<Rightarrow> 'w comm_world \<Rightarrow> Client \<times> nat \<times> 'w comm_world"
where
  "connect_loop api c retryTimes cw =
     (let r = Client_Connect api c cw in
      if \<not> fst r \<and> retryTimes \<le> 50
        then connect_loop api (fst (snd r)) (retryTimes + 1)
               ((snd (snd r))\<lparr>cw_os := os_sleep api 100 (cw_os (snd (snd r)))\<rparr>)
      else (fst (snd r), retryTimes, snd (snd r)))"
  by pat_completeness auto
termination by (relation "measure (\<lambda>(_, _, n, _). 51 - n)") auto

declare connect_loop.simps [simp del]

definition new_LocalProcess ::
  "'w os_api \<Rightarrow> bytes option \<Rightarrow> CommType \<Rightarrow> bool \<Rightarrow> 'w comm_world \<Rightarrow> (LocalProcess \<times> bool) \<times> 'w comm_world"
where
  \<comment> \<open>the flag: \<open>connect server success\<close> was logged\<close>
  "new_LocalProcess api env type isDevice cw =
     (let (c, retryTimes, cw) = connect_loop api (new_Client env type) 0 cw in
      ((\<lparr>lp_isDevice = isDevice, lp_client = Some c\<rparr>, \<not> retryTimes > 50), cw))"

definition LocalProcess_dtor :: "LocalProcess \<Rightarrow> 'w comm_world \<Rightarrow> LocalProcess \<times> 'w comm_world" where
  "LocalProcess_dtor lp cw =
     (case lp_client lp of
        None \<Rightarrow> (lp, cw)
      | Some c \<Rightarrow> (lp\<lparr>lp_client := None\<rparr>, Client_dtor cw))"

definition LocalDevice_GetInstance ::
  "'w os_api \<Rightarrow> bytes option \<Rightarrow> int \<Rightarrow> CommType \<Rightarrow> 'w proc_world \<Rightarrow> LocalProcess run \<times> 'w proc_world"
where
  "LocalDevice_GetInstance api env deviceId type pw =
     (if \<not> CheckProcessOwner api pw then (Exited, pw)
      else
        case map_of (pw_devices pw) deviceId of
          Some lp \<Rightarrow> (Returned lp, pw)
        | None \<Rightarrow>
            let ((lp, _), cw) = new_LocalProcess api env type True (pw_comm pw) in
            (Returned lp, pw\<lparr>pw_comm := cw, pw_devices := al_put deviceId lp (pw_devices pw)\<rparr>))"

section \<open>Sending\<close>

partial_function (option) send_loop ::
  "(bytes \<Rightarrow> 'c \<Rightarrow> (int \<times> 'c) option) \<Rightarrow> bytes \<Rightarrow> nat \<Rightarrow> 'c \<Rightarrow> (nat \<times> 'c) option"
where
  "send_loop send msg totalSent c =
     (if totalSent < length msg then
        (case send (if totalSent = 0 then msg else drop totalSent msg) c of
           None \<Rightarrow> None
         | Some r \<Rightarrow>
             if fst r \<le> 0 then Some (totalSent, snd r)
             else send_loop send msg (totalSent + nat (fst r)) (snd r))
      else Some (totalSent, c))"

definition SendBytes :: "'w os_api \<Rightarrow> LocalProcess \<Rightarrow> bytes \<Rightarrow> 'w comm_world \<Rightarrow> (int \<times> 'w comm_world) option" where
  "SendBytes api lp msg cw =
     (case lp_client lp of
        None \<Rightarrow> Some (0, cw)
      | Some c \<Rightarrow> map_option (apfst int) (send_loop (Client_Write api c) msg 0 cw))"

definition level_str :: "LogLevel \<Rightarrow> string" where
  "level_str level =
     (case level of
        DEBUG \<Rightarrow> ''[LOG][DEBUG]''
      | INFO \<Rightarrow> ''[LOG][INFO]''
      | WARN \<Rightarrow> ''[LOG][WARN]''
      | ERROR \<Rightarrow> ''[LOG][ERROR]'')"

definition ascii :: "string \<Rightarrow> bytes" where
  "ascii s = map of_char s"

definition Log :: "'w os_api \<Rightarrow> LocalProcess \<Rightarrow> LogLevel \<Rightarrow> bytes \<Rightarrow> 'w comm_world \<Rightarrow> 'w comm_world option" where
  "Log api lp level msg cw =
     (case lp_client lp of
        None \<Rightarrow> Some cw
      | Some c \<Rightarrow>
          map_option snd (Client_Write api c (ascii (level_str level) @ ascii '' '' @ msg @ ascii '';'') cw))"

definition Notify ::
  "'w os_api \<Rightarrow> LocalProcess \<Rightarrow> bytes \<Rightarrow> 'w proc_world \<Rightarrow> (int run \<times> 'w proc_world) option"
where
  "Notify api lp msg pw =
     (if \<not> lp_isDevice lp then
        map_option (\<lambda>r. (Returned (fst r), pw\<lparr>pw_comm := snd r\<rparr>)) (SendBytes api lp msg (pw_comm pw))
      else if \<not> CheckProcessOwner api pw then Some (Exited, pw)
      else
        case Deserialize_head msg of
          None \<Rightarrow> Some (Returned (-1), pw)
        | Some head \<Rightarrow>
            let (orderId, next) = ReserveOrderId (pw_nextOrderId pw);
                pw = pw\<lparr>pw_nextOrderId := next\<rparr> in
            if orderId = 0 then Some (Returned (-1), pw)
            else
              map_option (\<lambda>r. (Returned (fst r), pw\<lparr>pw_comm := snd r\<rparr>))
                (SendBytes api lp (Serialize_head (head\<lparr>ph_orderId := orderId\<rparr>) @ drop packet_head_size msg)
                   (pw_comm pw)))"

partial_function (option) WriteAllToFd_loop ::
  "(bytes \<Rightarrow> 'w \<Rightarrow> int \<times> 'w) \<Rightarrow> bytes \<Rightarrow> nat \<Rightarrow> 'w \<Rightarrow> (bool \<times> 'w) option"
where
  "WriteAllToFd_loop wr data offset w =
     (if offset < length data then
        (if fst (wr (drop offset data) w) \<le> 0 then Some (False, snd (wr (drop offset data) w))
         else WriteAllToFd_loop wr data (offset + nat (fst (wr (drop offset data) w)))
                (snd (wr (drop offset data) w)))
      else Some (True, w))"

definition WriteAllToFd :: "'w os_api \<Rightarrow> int \<Rightarrow> bytes \<Rightarrow> 'w \<Rightarrow> (bool \<times> 'w) option" where
  "WriteAllToFd api fd data w = WriteAllToFd_loop (os_write api fd) data 0 w"

definition KERNEL_BINARY :: nat where
  "KERNEL_BINARY = 2"

definition binary_head :: "nat \<Rightarrow> bytes \<Rightarrow> bytes" where
  "binary_head orderId elfData =
     Serialize_cat [Serialize_head \<lparr>ph_type = KERNEL_BINARY, ph_reserved = 0, ph_orderId = orderId\<rparr>,
       Serialize_u 8 (length elfData)]"

definition try_memfd ::
  "'w os_api \<Rightarrow> Client \<Rightarrow> bytes \<Rightarrow> bytes \<Rightarrow> 'w comm_world \<Rightarrow> (int option \<times> 'w comm_world) option"
where
  \<comment> \<open>the file path of \<open>NotifyKernelBinary\<close>: the result it returns, or \<open>None\<close> to fall back\<close>
  "try_memfd api c head elfData cw =
     (let (fd, w) = os_memfd_create api (cw_os cw); cw = cw\<lparr>cw_os := w\<rparr> in
      if fd \<ge> 0 then
        (case WriteAllToFd api fd elfData w of
           None \<Rightarrow> None
         | Some (ok, w) \<Rightarrow>
             if ok then
               let (sent, cw) = Client_WriteWithFd api c head fd (cw\<lparr>cw_os := w\<rparr>);
                   cw = cw\<lparr>cw_os := os_close api fd (cw_os cw)\<rparr> in
               Some (if sent > 0 then Some sent else None, cw)
             else Some (None, cw\<lparr>cw_os := os_close api fd w\<rparr>))
      else Some (None, cw))"

definition NotifyKernelBinary ::
  "'w os_api \<Rightarrow> LocalProcess \<Rightarrow> bytes \<Rightarrow> 'w proc_world \<Rightarrow> (int run \<times> 'w proc_world) option"
where
  "NotifyKernelBinary api lp elfData pw =
     (if lp_isDevice lp \<and> \<not> CheckProcessOwner api pw then Some (Exited, pw)
      else
        let (orderId, next) = (if lp_isDevice lp then ReserveOrderId (pw_nextOrderId pw)
              else (0, pw_nextOrderId pw));
            pw = pw\<lparr>pw_nextOrderId := next\<rparr> in
        if lp_isDevice lp \<and> orderId = 0 then Some (Returned (-1), pw)
        else
          case lp_client lp of
            None \<Rightarrow> Some (Returned (-1), pw)
          | Some c \<Rightarrow>
              (case try_memfd api c (binary_head orderId elfData) elfData (pw_comm pw) of
                 None \<Rightarrow> None
               | Some (Some sent, cw) \<Rightarrow> Some (Returned sent, pw\<lparr>pw_comm := cw\<rparr>)
               | Some (None, cw) \<Rightarrow>
                   map_option (\<lambda>r. (Returned (fst r), pw\<lparr>pw_comm := snd r\<rparr>))
                     (SendBytes api lp (binary_head orderId elfData @ elfData) cw)))"

section \<open>Receiving\<close>

partial_function (option) wait_loop ::
  "(bytes \<Rightarrow> 'c \<Rightarrow> (int \<times> bytes) \<times> 'c) \<Rightarrow> nat \<Rightarrow> bytes \<Rightarrow> bytes \<Rightarrow> int \<Rightarrow> nat \<Rightarrow> 'c \<Rightarrow> (bytes \<times> 'c) option"
where
  "wait_loop recv timeOut msg recvMsg len count c =
     (if msg = [] \<or> len = int RECV_BUFF_SIZE then
        (if 0 < fst (fst (recv recvMsg c)) then
           wait_loop recv timeOut (msg @ snd (fst (recv recvMsg c))) (snd (fst (recv recvMsg c)))
             (fst (fst (recv recvMsg c))) count (snd (recv recvMsg c))
         else if timeOut > 0 \<and> count \<ge> timeOut then Some (msg, snd (recv recvMsg c))
         else
           wait_loop recv timeOut msg (snd (fst (recv recvMsg c))) (fst (fst (recv recvMsg c)))
             (if timeOut > 0 then count + 1 else count) (snd (recv recvMsg c)))
      else Some (msg, c))"

definition Wait ::
  "'w os_api \<Rightarrow> LocalProcess \<Rightarrow> nat \<Rightarrow> 'w comm_world \<Rightarrow> ((int \<times> bytes) \<times> 'w comm_world) option"
where
  "Wait api lp timeOut cw =
     (case lp_client lp of
        None \<Rightarrow> Some ((0, []), cw)
      | Some c \<Rightarrow>
          map_option (\<lambda>r. ((int (length (fst r)), fst r), snd r))
            (wait_loop (Client_Read api c) timeOut [] [] 0 0 cw))"

section \<open>The remote side\<close>

type_synonym RemoteProcess = "Server option"

definition new_RemoteProcess :: "bytes \<Rightarrow> CommType \<Rightarrow> RemoteProcess" where
  "new_RemoteProcess path type = Some (new_Server path type)"

definition RemoteProcess_Start :: "'w os_api \<Rightarrow> RemoteProcess \<Rightarrow> 'w comm_world \<Rightarrow> RemoteProcess \<times> 'w comm_world" where
  "RemoteProcess_Start api rp cw =
     (case rp of
        None \<Rightarrow> (rp, cw)
      | Some sv \<Rightarrow> let (_, sv, cw) = Server_Start api sv cw in (Some sv, cw))"

definition RemoteProcess_dtor :: "RemoteProcess \<Rightarrow> 'w comm_world \<Rightarrow> RemoteProcess \<times> 'w comm_world" where
  "RemoteProcess_dtor rp cw = (case rp of None \<Rightarrow> (rp, cw) | Some _ \<Rightarrow> (None, Server_dtor cw))"

definition RemoteProcess_Wait ::
  "'w os_api \<Rightarrow> Server \<Rightarrow> nat \<Rightarrow> bytes \<Rightarrow> 'w comm_world \<Rightarrow> (int \<times> bytes) \<times> 'w comm_world"
where
  "RemoteProcess_Wait api sv i msg cw = Server_Read api sv i msg cw"

definition RemoteProcess_Notify ::
  "'w os_api \<Rightarrow> Server \<Rightarrow> nat \<Rightarrow> bytes \<Rightarrow> 'w comm_world \<Rightarrow> (int \<times> 'w comm_world) option"
where
  "RemoteProcess_Notify api sv i msg cw = Server_Write api sv i msg cw"

definition RemoteProcess_SetMsgHandlerHook :: "RemoteProcess \<Rightarrow> RemoteProcess" where
  "RemoteProcess_SetMsgHandlerHook rp = map_option Server_SetMsgHandlerHook rp"

section \<open>Sending over a channel\<close>

context channel
begin

lemma send_loop_result:
  "tot \<le> length msg \<Longrightarrow>
   \<exists>n c' k. send_loop send msg tot c = Some (n, c') \<and> out c' = out c @ take k (drop tot msg) \<and>
     k \<le> length msg - tot \<and> tot \<le> n \<and> n \<le> tot + k"
proof (induction "length msg - tot" arbitrary: tot c rule: less_induct)
  case less
  show ?case
  proof (cases "tot < length msg")
    case False
    then have "send_loop send msg tot c = Some (tot, c)" by (subst send_loop.simps) simp
    then show ?thesis by (intro exI [of _ tot] exI [of _ c] exI [of _ 0]) simp
  next
    case True
    define m where "m = (if tot = 0 then msg else drop tot msg)"
    have m: "m = drop tot msg" by (simp add: m_def)
    obtain r c1 k where s: "send m c = Some (r, c1)" and k: "k \<le> length m"
      and o: "out c1 = out c @ take k m" and r: "r = int k \<or> r = -1"
      by (rule send_cases)
    show ?thesis
    proof (cases "r \<le> 0")
      case True
      then have "send_loop send msg tot c = Some (tot, c1)"
        using s \<open>tot < length msg\<close> by (subst send_loop.simps) (simp flip: m_def)
      then show ?thesis using k o by (auto simp: m)
    next
      case False
      then have rk: "r = int k" "0 < k" using r by auto
      have le: "tot + k \<le> length msg" using k True by (simp add: m)
      have "length msg - (tot + k) < length msg - tot" using rk True by simp
      from less.hyps [OF this le, of c1] obtain n c2 j where
        IH: "send_loop send msg (tot + k) c1 = Some (n, c2)"
          "out c2 = out c1 @ take j (drop (tot + k) msg)" "j \<le> length msg - (tot + k)"
          "tot + k \<le> n" "n \<le> tot + k + j"
        by blast
      have "send_loop send msg tot c = Some (n, c2)"
        using s rk True IH(1) by (subst send_loop.simps) (simp flip: m_def)
      moreover have "out c2 = out c @ take (k + j) (drop tot msg)"
        using IH(2) o by (simp add: m take_add add.commute [of tot k])
      ultimately show ?thesis
        using IH(3-5) le by (intro exI [of _ n] exI [of _ c2] exI [of _ "k + j"]) simp
    qed
  qed
qed

end

lemma SendBytes_channel:
  assumes "lp_client lp = Some c" and "channel (Client_Write api c) out"
  shows "\<exists>n cw' k. SendBytes api lp msg cw = Some (int n, cw') \<and> out cw' = out cw @ take k msg \<and>
    k \<le> length msg \<and> n \<le> k"
  using channel.send_loop_result [OF assms(2), of 0 msg cw] assms(1)
  by (fastforce simp: SendBytes_def)

text \<open>
  accounting of a send. Whatever the kernel does to the individual writes, \<open>SendBytes\<close>
  returns, the peer's stream has grown by a prefix of the message, and the reported count
  never exceeds that prefix: a caller that sees the full length has sent the full message.
\<close>

theorem send_bytes_accounting:
  assumes "sfd s \<noteq> -1" and "write_fd_law (os_write api (sfd s)) out"
    and "lp_client lp = Some (socket_client s)"
  shows "\<exists>n cw' k. SendBytes api lp msg cw = Some (int n, cw') \<and>
    out (cw_os cw') = out (cw_os cw) @ take k msg \<and> k \<le> length msg \<and> n \<le> k"
  using SendBytes_channel [OF assms(3) socket_channel [OF assms(1,2)]] .

definition wire_lp :: LocalProcess where
  "wire_lp = \<lparr>lp_isDevice = True, lp_client = Some (socket_client ((new_DomainSocket [])\<lparr>sfd := 3\<rparr>))\<rparr>"

definition wire_world :: "nat \<Rightarrow> wire comm_world" where
  "wire_world budget = \<lparr>cw_local = \<lparr>s2c = [], c2s = []\<rparr>, cw_os = wire0\<lparr>wi_budget := budget\<rparr>\<rparr>"

theorem send_bytes_accounting_witness:
  "(\<exists>n cw' k. SendBytes wire_api wire_lp [1, 2, 3, 4, 5, 6, 7, 8] (wire_world 2) = Some (int n, cw') \<and>
      wi_out (cw_os cw') = wi_out (cw_os (wire_world 2)) @ take k [1, 2, 3, 4, 5, 6, 7, 8] \<and>
      k \<le> length [1, 2, 3, 4, 5, 6, 7, 8 :: byte] \<and> n \<le> k) \<and>
   map_option (\<lambda>r. (fst r, wi_out (cw_os (snd r))))
     (SendBytes wire_api wire_lp [1, 2, 3, 4, 5, 6, 7, 8] (wire_world 2)) = Some (0, [1, 2, 3, 4, 5, 6])"
proof
  show "\<exists>n cw' k. SendBytes wire_api wire_lp [1, 2, 3, 4, 5, 6, 7, 8] (wire_world 2) = Some (int n, cw') \<and>
      wi_out (cw_os cw') = wi_out (cw_os (wire_world 2)) @ take k [1, 2, 3, 4, 5, 6, 7, 8] \<and>
      k \<le> length [1, 2, 3, 4, 5, 6, 7, 8 :: byte] \<and> n \<le> k"
    by (rule send_bytes_accounting [OF _ wire_write_law, of "(new_DomainSocket [])\<lparr>sfd := 3\<rparr>"])
      (simp_all add: wire_lp_def)
  show "map_option (\<lambda>r. (fst r, wi_out (cw_os (snd r))))
     (SendBytes wire_api wire_lp [1, 2, 3, 4, 5, 6, 7, 8] (wire_world 2)) = Some (0, [1, 2, 3, 4, 5, 6])"
    by (simp add: SendBytes_def wire_lp_def send_loop.simps Client_Write_def socket_client_def
        SocketClient_Write_def DomainSocketClient_Write_def write_loop.simps wire_api_def wire_write_def
        wire_world_def wire0_def to_int32_def)
qed

section \<open>Numbered packets\<close>

definition stamp :: "nat \<Rightarrow> bytes \<Rightarrow> bytes" where
  \<comment> \<open>the packet with its number in place\<close>
  "stamp i msg = Serialize_head ((the (Deserialize_head msg))\<lparr>ph_orderId := i\<rparr>) @ drop packet_head_size msg"

lemma length_stamp [simp]: "16 \<le> length msg \<Longrightarrow> length (stamp i msg) = length msg"
  by (simp add: stamp_def packet_head_size_def)

lemma Deserialize_stamp:
  assumes "16 \<le> length msg" and "i < 2 ^ 64"
  shows "Deserialize_head (stamp i msg @ rest) = Some ((the (Deserialize_head msg))\<lparr>ph_orderId := i\<rparr>)"
proof -
  obtain h where h: "Deserialize_head msg = Some h"
    using assms(1) by (simp add: Deserialize_head_def packet_head_size_def)
  then have "head_wf (h\<lparr>ph_orderId := i\<rparr>)"
    using Deserialize_head_wf [OF h] assms(2) by (simp add: head_wf_def)
  from head_codec.Des_Ser [OF this] show ?thesis by (simp add: stamp_def h)
qed

lemma Notify_device:
  assumes "lp_isDevice lp" and "CheckProcessOwner api pw" and "16 \<le> length msg"
    and "0 < pw_nextOrderId pw" and "pw_nextOrderId pw < size_max"
  shows "Notify api lp msg pw =
    map_option (\<lambda>r. (Returned (fst r), pw\<lparr>pw_nextOrderId := Suc (pw_nextOrderId pw), pw_comm := snd r\<rparr>))
      (SendBytes api lp (stamp (pw_nextOrderId pw) msg) (pw_comm pw))"
proof -
  obtain h where h: "Deserialize_head msg = Some h"
    using assms(3) by (simp add: Deserialize_head_def packet_head_size_def)
  show ?thesis
    using assms by (simp add: Notify_def h ReserveOrderId_def stamp_def)
qed

text \<open>
  C6: a device packet. \<open>Notify\<close> replaces the packet number in the head by the next number of
  the process, leaves the rest of the packet alone, and uses the number up whether or not the
  send succeeds; a result equal to the packet's length means the whole packet is out.
\<close>

theorem notify_numbers_packet:
  assumes "lp_isDevice lp" and "CheckProcessOwner api pw" and "16 \<le> length msg"
    and "0 < pw_nextOrderId pw" and "pw_nextOrderId pw < size_max"
    and "sfd s \<noteq> -1" and "write_fd_law (os_write api (sfd s)) out"
    and "lp_client lp = Some (socket_client s)"
  shows "\<exists>n k pw'. Notify api lp msg pw = Some (Returned (int n), pw') \<and>
    pw_nextOrderId pw' = pw_nextOrderId pw + 1 \<and> n \<le> k \<and> k \<le> length msg \<and>
    out (cw_os (pw_comm pw')) = out (cw_os (pw_comm pw)) @ take k (stamp (pw_nextOrderId pw) msg) \<and>
    Deserialize_head (stamp (pw_nextOrderId pw) msg) =
      map_option (ph_orderId_update (\<lambda>_. pw_nextOrderId pw)) (Deserialize_head msg)"
proof -
  obtain h where h: "Deserialize_head msg = Some h"
    using assms(3) by (simp add: Deserialize_head_def packet_head_size_def)
  have "pw_nextOrderId pw < 2 ^ 64" using assms(5) by (simp add: size_max_def)
  note d = Deserialize_stamp [OF assms(3) this, of "[]"]
  from SendBytes_channel [OF assms(8) socket_channel [OF assms(6,7)], of "stamp (pw_nextOrderId pw) msg" "pw_comm pw"]
  obtain n cw' k where s: "SendBytes api lp (stamp (pw_nextOrderId pw) msg) (pw_comm pw) = Some (int n, cw')"
    "out (cw_os cw') = out (cw_os (pw_comm pw)) @ take k (stamp (pw_nextOrderId pw) msg)"
    "k \<le> length msg" "n \<le> k"
    using assms(3) by auto
  show ?thesis
    by (rule exI [of _ n], rule exI [of _ k],
        rule exI [of _ "pw\<lparr>pw_nextOrderId := Suc (pw_nextOrderId pw), pw_comm := cw'\<rparr>"])
      (use s d h Notify_device [OF assms(1-5)] in simp)
qed

definition ex_packet :: bytes where
  "ex_packet = Serialize_head \<lparr>ph_type = 1000, ph_reserved = 0, ph_orderId = 0\<rparr> @ [9, 8, 7]"

definition wire_pw :: "nat \<Rightarrow> wire proc_world" where
  "wire_pw budget = \<lparr>pw_comm = wire_world budget, pw_ownerPid = 77, pw_nextOrderId = 5, pw_devices = []\<rparr>"

theorem notify_numbers_packet_witness:
  "\<exists>n k pw'. Notify wire_api wire_lp ex_packet (wire_pw 100) = Some (Returned (int n), pw') \<and>
    pw_nextOrderId pw' = pw_nextOrderId (wire_pw 100) + 1 \<and> n \<le> k \<and> k \<le> length ex_packet \<and>
    wi_out (cw_os (pw_comm pw')) = wi_out (cw_os (pw_comm (wire_pw 100))) @
      take k (stamp (pw_nextOrderId (wire_pw 100)) ex_packet) \<and>
    Deserialize_head (stamp (pw_nextOrderId (wire_pw 100)) ex_packet) =
      map_option (ph_orderId_update (\<lambda>_. pw_nextOrderId (wire_pw 100))) (Deserialize_head ex_packet)"
  by (rule notify_numbers_packet [OF _ _ _ _ _ _ wire_write_law,
        where s = "(new_DomainSocket [])\<lparr>sfd := 3\<rparr>"])
    (simp_all add: wire_lp_def CheckProcessOwner_def wire_api_def wire_pw_def ex_packet_def size_max_def)

fun notify_all :: "'w os_api \<Rightarrow> LocalProcess \<Rightarrow> bytes list \<Rightarrow> 'w proc_world \<Rightarrow> 'w proc_world option" where
  "notify_all api lp [] pw = Some pw"
| "notify_all api lp (m # ms) pw =
     (case Notify api lp m pw of None \<Rightarrow> None | Some r \<Rightarrow> notify_all api lp ms (snd r))"

definition memory_device :: LocalProcess where
  "memory_device = \<lparr>lp_isDevice = True, lp_client = Some (new_Client None MEMORY)\<rparr>"

lemma SendBytes_memory:
  assumes "msg \<noteq> []"
  shows "SendBytes api memory_device msg cw = Some (int (length msg),
    cw\<lparr>cw_local := (cw_local cw)\<lparr>c2s := c2s (cw_local cw) @ [msg]\<rparr>\<rparr>)"
  using assms
  by (simp add: SendBytes_def memory_device_def send_loop.simps Client_Write_def new_Client_def
      on_local_def LocalComm_Write_def)

text \<open>
  the packets of one device connection reach the server's queue complete, in the order of
  the calls, and carry consecutive numbers starting from the process's counter.
\<close>

theorem packets_arrive_numbered:
  assumes "\<forall>m \<in> set msgs. 16 \<le> length m" and "0 < pw_nextOrderId pw"
    and "pw_nextOrderId pw + length msgs \<le> size_max" and "CheckProcessOwner api pw"
  shows "\<exists>pw'. notify_all api memory_device msgs pw = Some pw' \<and>
    pw_nextOrderId pw' = pw_nextOrderId pw + length msgs \<and>
    c2s (cw_local (pw_comm pw')) = c2s (cw_local (pw_comm pw)) @
      map2 stamp [pw_nextOrderId pw..<pw_nextOrderId pw + length msgs] msgs"
  using assms
proof (induction msgs arbitrary: pw)
  case Nil
  then show ?case by simp
next
  case (Cons m msgs)
  let ?k = "pw_nextOrderId pw"
  let ?pw = "pw\<lparr>pw_nextOrderId := Suc ?k, pw_comm := (pw_comm pw)\<lparr>cw_local :=
    (cw_local (pw_comm pw))\<lparr>c2s := c2s (cw_local (pw_comm pw)) @ [stamp ?k m]\<rparr>\<rparr>\<rparr>"
  have m: "16 \<le> length m" and k: "0 < ?k" "?k < size_max" using Cons.prems by auto
  have dev: "lp_isDevice memory_device" by (simp add: memory_device_def)
  from m have ne: "stamp ?k m \<noteq> []" by (metis length_stamp list.size(3) not_numeral_le_zero)
  have N: "Notify api memory_device m pw = Some (Returned (int (length m)), ?pw)"
    using Notify_device [OF dev Cons.prems(4) m k] m by (simp add: SendBytes_memory [OF ne])
  have "CheckProcessOwner api ?pw" using Cons.prems(4) by (simp add: CheckProcessOwner_def)
  from Cons.IH [OF _ _ _ this] Cons.prems
  obtain pw' where "notify_all api memory_device msgs ?pw = Some pw'"
    "pw_nextOrderId pw' = Suc ?k + length msgs"
    "c2s (cw_local (pw_comm pw')) = c2s (cw_local (pw_comm pw)) @ stamp ?k m #
       map2 stamp [Suc ?k..<Suc ?k + length msgs] msgs"
    by auto
  moreover have "[?k..<?k + length (m # msgs)] = ?k # [Suc ?k..<Suc ?k + length msgs]"
    using upt_conv_Cons [of ?k "?k + length (m # msgs)"] by (simp del: upt.simps)
  ultimately show ?case by (simp add: N)
qed

theorem packets_arrive_numbered_witness:
  "\<exists>pw'. notify_all wire_api memory_device [ex_packet, ex_packet] (wire_pw 0) = Some pw' \<and>
    pw_nextOrderId pw' = 7 \<and>
    c2s (cw_local (pw_comm pw')) = [stamp 5 ex_packet, stamp 6 ex_packet]"
proof -
  have u: "[5..<7] = [5, 6 :: nat]" by (simp add: upt_rec)
  have "\<forall>m \<in> set [ex_packet, ex_packet]. 16 \<le> length m" by (simp add: ex_packet_def)
  moreover have "0 < pw_nextOrderId (wire_pw 0)" "CheckProcessOwner wire_api (wire_pw 0)"
    and "pw_nextOrderId (wire_pw 0) + length [ex_packet, ex_packet] \<le> size_max"
    by (simp_all add: wire_pw_def size_max_def CheckProcessOwner_def wire_api_def wire_world_def)
  ultimately obtain pw' where "notify_all wire_api memory_device [ex_packet, ex_packet] (wire_pw 0) = Some pw'"
    "pw_nextOrderId pw' = pw_nextOrderId (wire_pw 0) + length [ex_packet, ex_packet]"
    "c2s (cw_local (pw_comm pw')) = c2s (cw_local (pw_comm (wire_pw 0))) @
      map2 stamp [pw_nextOrderId (wire_pw 0)..<pw_nextOrderId (wire_pw 0) + length [ex_packet, ex_packet]]
        [ex_packet, ex_packet]"
    using packets_arrive_numbered by blast
  moreover have "pw_nextOrderId (wire_pw 0) = 5" "c2s (cw_local (pw_comm (wire_pw 0))) = []"
    by (simp_all add: wire_pw_def wire_world_def)
  ultimately show ?thesis using u by simp
qed

section \<open>The counter under concurrency\<close>

text \<open>
  \<open>ReserveOrderId\<close> as the threads run it: a relaxed load, then a weak compare-and-swap that
  may fail, also spuriously, and on failure reloads the counter. Any number of threads take
  these steps in any order. \<open>issued\<close> records the numbers returned so far, the newest first.
\<close>

datatype rsv_pc = Idle | Loaded nat

record rsv_state =
  rs_counter :: nat
  rs_pc :: "nat \<Rightarrow> rsv_pc"
  rs_issued :: "nat list"

inductive rsv_step :: "rsv_state \<Rightarrow> rsv_state \<Rightarrow> bool" where
  rsv_load: "rs_pc s t = Idle \<Longrightarrow> rsv_step s (s\<lparr>rs_pc := (rs_pc s)(t := Loaded (rs_counter s))\<rparr>)"
| rsv_exhausted: "rs_pc s t = Loaded n \<Longrightarrow> n = 0 \<or> n = size_max \<Longrightarrow>
    rsv_step s (s\<lparr>rs_pc := (rs_pc s)(t := Idle)\<rparr>)"
| rsv_swap: "rs_pc s t = Loaded n \<Longrightarrow> n \<noteq> 0 \<Longrightarrow> n \<noteq> size_max \<Longrightarrow> rs_counter s = n \<Longrightarrow>
    rsv_step s (s\<lparr>rs_counter := n + 1, rs_pc := (rs_pc s)(t := Idle), rs_issued := n # rs_issued s\<rparr>)"
| rsv_retry: "rs_pc s t = Loaded n \<Longrightarrow> n \<noteq> 0 \<Longrightarrow> n \<noteq> size_max \<Longrightarrow>
    rsv_step s (s\<lparr>rs_pc := (rs_pc s)(t := Loaded (rs_counter s))\<rparr>)"

inductive_cases rsv_stepE: "rsv_step s s'"

definition rsv_init :: rsv_state where
  "rsv_init = \<lparr>rs_counter = 1, rs_pc = (\<lambda>_. Idle), rs_issued = []\<rparr>"

lemma rsv_step_issued:
  assumes "rsv_step s s'" and "rs_issued s = rev [1..<rs_counter s]" and "0 < rs_counter s"
    and "rs_counter s \<le> size_max"
  shows "rs_issued s' = rev [1..<rs_counter s'] \<and> 0 < rs_counter s' \<and> rs_counter s' \<le> size_max"
  using assms by (cases rule: rsv_stepE) auto

text \<open>
  C7: packet numbers under concurrency. Whatever the interleaving of the threads that reserve
  numbers, the numbers handed out are 1, 2, 3, ... in that order, each exactly once, and the
  counter never wraps.
\<close>

theorem order_ids_unique:
  assumes "rsv_step\<^sup>*\<^sup>* rsv_init s"
  shows "rs_issued s = rev [1..<rs_counter s] \<and> distinct (rs_issued s) \<and> rs_counter s \<le> size_max"
proof -
  have "rs_issued s = rev [1..<rs_counter s] \<and> 0 < rs_counter s \<and> rs_counter s \<le> size_max"
    using assms
  proof induction
    case base
    then show ?case by (simp add: rsv_init_def size_max_def)
  next
    case (step s s')
    then show ?case using rsv_step_issued by blast
  qed
  then show ?thesis by simp
qed

definition rsv_two :: rsv_state where
  "rsv_two = \<lparr>rs_counter = 2, rs_pc = (\<lambda>_. Idle)(2 := Loaded 2), rs_issued = [1]\<rparr>"

lemma rsv_two_reachable: "rsv_step\<^sup>*\<^sup>* rsv_init rsv_two"
proof -
  let ?s1 = "rsv_init\<lparr>rs_pc := (\<lambda>_. Idle)(1 := Loaded 1)\<rparr>"
  let ?s2 = "rsv_init\<lparr>rs_pc := (\<lambda>_. Idle)(1 := Loaded 1, 2 := Loaded 1)\<rparr>"
  let ?s3 = "rsv_init\<lparr>rs_counter := 2, rs_pc := (\<lambda>_. Idle)(2 := Loaded 1), rs_issued := [1]\<rparr>"
  have "rsv_step rsv_init ?s1" using rsv_load [of rsv_init 1] by (simp add: rsv_init_def)
  moreover have "rsv_step ?s1 ?s2" using rsv_load [of ?s1 2] by (simp add: rsv_init_def)
  moreover have "rsv_step ?s2
      (?s2\<lparr>rs_counter := 1 + 1, rs_pc := (rs_pc ?s2)(1 := Idle), rs_issued := 1 # rs_issued ?s2\<rparr>)"
    by (rule rsv_swap) (simp_all add: rsv_init_def size_max_def)
  moreover have "?s2\<lparr>rs_counter := 1 + 1, rs_pc := (rs_pc ?s2)(1 := Idle),
      rs_issued := 1 # rs_issued ?s2\<rparr> = ?s3"
    by (simp add: rsv_init_def fun_eq_iff)
  moreover have "rsv_step ?s3 rsv_two"
    using rsv_retry [of ?s3 2 1] by (simp add: rsv_init_def rsv_two_def size_max_def)
  ultimately show ?thesis by (metis converse_rtranclp_into_rtranclp rtranclp.rtrancl_refl)
qed

theorem order_ids_unique_witness:
  "rs_issued rsv_two = rev [1..<rs_counter rsv_two] \<and> distinct (rs_issued rsv_two) \<and>
    rs_counter rsv_two \<le> size_max"
  by (rule order_ids_unique [OF rsv_two_reachable])

section \<open>Receiving\<close>

lemma wait_loop_drains:
  assumes law: "\<And>r c. inp c \<noteq> [] \<Longrightarrow> fst (fst (recv r c)) = int (min 1024 (length (inp c)))"
    and law0: "\<And>r c. inp c = [] \<Longrightarrow> fst (fst (recv r c)) \<le> 0"
    and law': "\<And>r c. inp c \<noteq> [] \<Longrightarrow> snd (fst (recv r c)) = take 1024 (inp c)"
    and law'': "\<And>r c. inp (snd (recv r c)) = drop 1024 (inp c)"
  shows "(msg = [] \<longrightarrow> inp c \<noteq> []) \<Longrightarrow> (msg = [] \<or> len = 1024) \<Longrightarrow> timeOut = 0 \<or> count < timeOut \<Longrightarrow>
    \<exists>c'. wait_loop recv timeOut msg buf len count c = Some (msg @ inp c, c') \<and> inp c' = []"
proof (induction "length (inp c)" arbitrary: msg buf len c rule: less_induct)
  case less
  show ?case
  proof (cases "inp c = []")
    case True
    then have "msg \<noteq> []" using less.prems by auto
    then have "wait_loop recv timeOut msg buf len count c = Some (msg, snd (recv buf c))"
      using less.prems True law0 [OF True, of buf] law'' [of buf c]
      by (subst wait_loop.simps, subst (2) wait_loop.simps) (auto simp: RECV_BUFF_SIZE_def)
    then show ?thesis using True law'' [of buf c] by simp
  next
    case False
    let ?c = "snd (recv buf c)"
    have l: "fst (fst (recv buf c)) = int (min 1024 (length (inp c)))" using law False by simp
    have pos: "0 < min 1024 (length (inp c))" using False by (simp add: min_def)
    have step: "wait_loop recv timeOut msg buf len count c =
      wait_loop recv timeOut (msg @ take 1024 (inp c)) (take 1024 (inp c))
        (int (min 1024 (length (inp c)))) count ?c"
      using less.prems l pos law' [OF False, of buf]
      by (subst wait_loop.simps) (auto simp: RECV_BUFF_SIZE_def)
    show ?thesis
    proof (cases "length (inp c) < 1024")
      case True
      then have "wait_loop recv timeOut msg buf len count c = Some (msg @ inp c, ?c)"
        unfolding step using False by (subst wait_loop.simps) (simp add: RECV_BUFF_SIZE_def)
      then show ?thesis using True law'' [of buf c] by simp
    next
      case len: False
      have "length (inp ?c) < length (inp c)" using law'' [of buf c] False by simp
      moreover have "(msg @ take 1024 (inp c) = [] \<longrightarrow> inp ?c \<noteq> [])" using False by simp
      ultimately obtain c' where
        "wait_loop recv timeOut (msg @ take 1024 (inp c)) (take 1024 (inp c)) 1024 count ?c
          = Some ((msg @ take 1024 (inp c)) @ inp ?c, c')" "inp c' = []"
        using less.hyps [of ?c "msg @ take 1024 (inp c)" 1024 "take 1024 (inp c)"] less.prems(3)
        by blast
      moreover have "min 1024 (length (inp c)) = 1024" using len by simp
      ultimately show ?thesis using step law'' [of buf c] by simp
    qed
  qed
qed

lemma wait_loop_quiet:
  assumes "\<And>r c. inp c = [] \<Longrightarrow> fst (fst (recv r c)) \<le> 0" and "\<And>r c. snd (recv r c) = nxt c"
    and "\<And>c. inp c = [] \<Longrightarrow> inp (nxt c) = []"
  shows "inp c = [] \<Longrightarrow> count \<le> timeOut \<Longrightarrow> 0 < timeOut \<Longrightarrow>
    wait_loop recv timeOut [] buf len count c = Some ([], (nxt ^^ (timeOut - count + 1)) c)"
proof (induction "timeOut - count" arbitrary: count buf len c)
  case 0
  then show ?case using assms(1) [OF 0(2), of buf] by (subst wait_loop.simps) (auto simp: assms(2))
next
  case (Suc n)
  have n: "n = timeOut - (count + 1)" "count + 1 \<le> timeOut" "timeOut - count = Suc n"
    using Suc by auto
  have "wait_loop recv timeOut [] buf len count c =
      wait_loop recv timeOut [] (snd (fst (recv buf c))) (fst (fst (recv buf c))) (count + 1) (nxt c)"
    using Suc.prems Suc.hyps(2) assms(1) [OF Suc.prems(1), of buf]
    by (subst wait_loop.simps) (auto simp: assms(2))
  also have "\<dots> = Some ([], (nxt ^^ (n + 1)) (nxt c))"
    using Suc.hyps(1) [OF n(1) assms(3) [OF Suc.prems(1)] n(2) Suc.prems(3)] n by simp
  finally show ?case using n(3) by (simp add: funpow_swap1)
qed

lemma wait_loop_stuck:
  assumes "\<And>r c. inp c = [] \<Longrightarrow> fst (fst (recv r c)) \<le> 0" and "\<And>r c. inp c = [] \<Longrightarrow> inp (snd (recv r c)) = []"
  shows "wait_loop recv timeOut msg buf len count c = Some y \<Longrightarrow>
    \<not> (timeOut = 0 \<and> msg = [] \<and> inp c = [])"
proof -
  have "r = recv \<longrightarrow> \<not> (t = 0 \<and> m = [] \<and> inp c = [])"
    if "wait_loop r t m b l n c = Some y" for r t m b l n c y
  proof (rule wait_loop.raw_induct [where
        P = "\<lambda>r t m b l n c y. r = recv \<longrightarrow> \<not> (t = 0 \<and> m = [] \<and> inp c = [])", OF _ that])
    fix f r m b l c y and t n :: nat
    assume IH: "\<And>r t m b l n c y. f r t m b l n c = Some y \<Longrightarrow>
        r = recv \<longrightarrow> \<not> (t = 0 \<and> m = [] \<and> inp c = [])"
      and run: "(if m = [] \<or> l = int RECV_BUFF_SIZE
         then if 0 < fst (fst (r b c))
              then f r t (m @ snd (fst (r b c))) (snd (fst (r b c))) (fst (fst (r b c))) n (snd (r b c))
              else if 0 < t \<and> t \<le> n then Some (m, snd (r b c))
                   else f r t m (snd (fst (r b c))) (fst (fst (r b c)))
                         (if 0 < t then n + 1 else n) (snd (r b c))
         else Some (m, c)) = Some y"
    show "r = recv \<longrightarrow> \<not> (t = 0 \<and> m = [] \<and> inp c = [])"
    proof (intro impI notI)
      assume r: "r = recv" and c: "t = 0 \<and> m = [] \<and> inp c = []"
      from run c assms(1) [of c b]
      have "f r t m (snd (fst (r b c))) (fst (fst (r b c))) n (snd (r b c)) = Some y"
        by (auto simp: r split: if_splits)
      from IH [OF this] r c assms(2) [of c b] show False by simp
    qed
  qed
  then show "wait_loop recv timeOut msg buf len count c = Some y \<Longrightarrow>
    \<not> (timeOut = 0 \<and> msg = [] \<and> inp c = [])" by blast
qed

text \<open>How a client reads from its socket.\<close>

lemma Client_Read_socket:
  assumes "sfd s \<noteq> -1" and "read_fd_law api (sfd s) inp"
  shows "inp (cw_os cw) \<noteq> [] \<Longrightarrow> fst (Client_Read api (socket_client s) msg cw) =
      (int (min 1024 (length (inp (cw_os cw)))), take 1024 (inp (cw_os cw)))"
    and "inp (cw_os cw) = [] \<Longrightarrow> fst (fst (Client_Read api (socket_client s) msg cw)) \<le> 0"
    and "inp (cw_os (snd (Client_Read api (socket_client s) msg cw))) = drop 1024 (inp (cw_os cw))"
proof -
  obtain ok m n w where r: "read_fd api (sfd s) 1024 msg (cw_os cw) = ((ok, m, n), w)"
    by (metis prod_cases3 surj_pair)
  have c: "Client_Read api (socket_client s) msg cw = ((if ok then int n else -1, m), cw\<lparr>cw_os := w\<rparr>)"
    using assms(1) r
    by (simp add: Client_Read_def socket_client_def on_os_def SocketClient_Read_def
        DomainSocketClient_Read_def RECV_BUFF_SIZE_def)
  show "fst (Client_Read api (socket_client s) msg cw) =
      (int (min 1024 (length (inp (cw_os cw)))), take 1024 (inp (cw_os cw)))"
    if "inp (cw_os cw) \<noteq> []"
    using read_fd_spec(1) [OF assms(2) that, of 1024 msg] by (simp add: r c)
  show "fst (fst (Client_Read api (socket_client s) msg cw)) \<le> 0" if "inp (cw_os cw) = []"
    using read_fd_quiet(1) [OF assms(2) that, of 1024 msg] by (simp add: r c)
  show "inp (cw_os (snd (Client_Read api (socket_client s) msg cw))) = drop 1024 (inp (cw_os cw))"
    using read_fd_quiet(2) [OF assms(2), of "cw_os cw" 1024 msg]
      read_fd_spec(2) [OF assms(2), of "cw_os cw" 1024 msg]
    by (cases "inp (cw_os cw) = []") (simp_all add: r c)
qed

text \<open>
  C13: \<open>Wait\<close> returns everything the peer has sent: with a non-empty pending stream it returns
  exactly that stream, however many reads of 1024 bytes this takes, whatever the time limit.
\<close>

theorem wait_returns_pending:
  assumes "sfd s \<noteq> -1" and "read_fd_law api (sfd s) inp"
    and "lp_client lp = Some (socket_client s)" and "inp (cw_os cw) \<noteq> []"
  shows "\<exists>cw'. Wait api lp timeOut cw =
      Some ((int (length (inp (cw_os cw))), inp (cw_os cw)), cw') \<and> inp (cw_os cw') = []"
proof -
  note R = Client_Read_socket [OF assms(1,2)]
  have "\<exists>c'. wait_loop (Client_Read api (socket_client s)) timeOut [] [] 1024 0 cw =
      Some ([] @ inp (cw_os cw), c') \<and> inp (cw_os c') = []"
    by (rule wait_loop_drains [where inp = "\<lambda>cw. inp (cw_os cw)"]) (use R assms(4) in auto)
  moreover have "wait_loop (Client_Read api (socket_client s)) timeOut [] [] 1024 0 cw =
      wait_loop (Client_Read api (socket_client s)) timeOut [] [] 0 0 cw"
    by (subst (1 2) wait_loop.simps) simp
  ultimately show ?thesis by (auto simp: Wait_def assms(3))
qed

theorem wait_returns_pending_witness:
  "\<exists>cw'. Wait wire_api wire_lp 10 ((wire_world 0)\<lparr>cw_os := wire0\<lparr>wi_in := replicate 3000 1\<rparr>\<rparr>) =
      Some ((3000, replicate 3000 1), cw') \<and> wi_in (cw_os cw') = []"
  using wait_returns_pending [OF _ wire_read_law, of "(new_DomainSocket [])\<lparr>sfd := 3\<rparr>" wire_lp
      "(wire_world 0)\<lparr>cw_os := wire0\<lparr>wi_in := replicate 3000 1\<rparr>\<rparr>" 10]
  by (simp add: wire_lp_def)

text \<open>
  \<open>Wait\<close> with a silent peer. With a limit it gives up after the first read and \<open>timeOut\<close>
  retries, with an empty message; with the limit 0 it does not return.
\<close>

theorem wait_silent_peer:
  assumes "sfd s \<noteq> -1" and "read_fd_law api (sfd s) inp"
    and "lp_client lp = Some (socket_client s)" and "inp (cw_os cw) = []"
  shows "Wait api lp timeOut cw =
    (if timeOut = 0 then None
     else Some ((0, []), ((\<lambda>cw. snd (Client_Read api (socket_client s) [] cw)) ^^ (timeOut + 1)) cw))"
proof -
  note R = Client_Read_socket [OF assms(1,2)]
  have nxt: "snd (Client_Read api (socket_client s) r c) = snd (Client_Read api (socket_client s) [] c)" for r c
    using assms(1)
    by (simp add: Client_Read_def socket_client_def on_os_def SocketClient_Read_def
        DomainSocketClient_Read_def read_fd_def case_prod_beta)
  show ?thesis
  proof (cases "timeOut = 0")
    case True
    have "wait_loop (Client_Read api (socket_client s)) timeOut [] [] 0 0 cw = None"
      using wait_loop_stuck [of "\<lambda>cw. inp (cw_os cw)" "Client_Read api (socket_client s)" timeOut "[]" "[]" 0 0 cw]
        R(2,3) assms(4) True by (cases "wait_loop (Client_Read api (socket_client s)) timeOut [] [] 0 0 cw") auto
    then show ?thesis by (simp add: Wait_def assms(3) True)
  next
    case False
    then have "wait_loop (Client_Read api (socket_client s)) timeOut [] [] 0 0 cw =
        Some ([], ((\<lambda>cw. snd (Client_Read api (socket_client s) [] cw)) ^^ (timeOut - 0 + 1)) cw)"
      by (intro wait_loop_quiet [where inp = "\<lambda>cw. inp (cw_os cw)"] nxt) (use R assms(4) in auto)
    then show ?thesis using False by (simp add: Wait_def assms(3))
  qed
qed

theorem wait_silent_peer_witness:
  "Wait wire_api wire_lp 0 (wire_world 0) = None \<and>
   Wait wire_api wire_lp 2 (wire_world 0) = Some ((0, []), wire_world 0)"
proof -
  let ?s = "(new_DomainSocket [])\<lparr>sfd := 3\<rparr>"
  have W: "Wait wire_api wire_lp t (wire_world 0) = (if t = 0 then None else
      Some ((0, []), ((\<lambda>cw. snd (Client_Read wire_api (socket_client ?s) [] cw)) ^^ (t + 1)) (wire_world 0)))" for t
    by (rule wait_silent_peer [OF _ wire_read_law])
      (simp_all add: wire_lp_def wire_world_def wire0_def)
  have "snd (Client_Read wire_api (socket_client ?s) [] (wire_world 0)) = wire_world 0"
    by (simp add: wire_world_def wire0_def Client_Read_def socket_client_def on_os_def
        SocketClient_Read_def DomainSocketClient_Read_def read_fd_def wire_api_def)
  with W [of 0] W [of 2] show ?thesis by (simp add: numeral_2_eq_2)
qed

section \<open>Connecting\<close>

definition failed_attempt :: "'w os_api \<Rightarrow> Client \<times> 'w comm_world \<Rightarrow> Client \<times> 'w comm_world" where
  \<comment> \<open>the state after a failed attempt and the pause\<close>
  "failed_attempt api st =
     (let r = Client_Connect api (fst st) (snd st) in
      (fst (snd r), (snd (snd r))\<lparr>cw_os := os_sleep api 100 (cw_os (snd (snd r)))\<rparr>))"

abbreviation connects :: "'w os_api \<Rightarrow> Client \<times> 'w comm_world \<Rightarrow> bool" where
  "connects api st \<equiv> fst (Client_Connect api (fst st) (snd st))"

lemma connect_loop_succeeds:
  assumes "\<forall>j<n. \<not> connects api ((failed_attempt api ^^ j) (c, cw))"
    and "connects api ((failed_attempt api ^^ n) (c, cw))" and "r + n \<le> 51"
  shows "connect_loop api c r cw = (let st = (failed_attempt api ^^ n) (c, cw);
     res = Client_Connect api (fst st) (snd st) in (fst (snd res), r + n, snd (snd res)))"
  using assms
proof (induction n arbitrary: r c cw)
  case 0
  then show ?case by (subst connect_loop.simps) (simp add: Let_def)
next
  case (Suc n)
  let ?st = "failed_attempt api (c, cw)"
  have "\<not> connects api (c, cw)" using Suc.prems(1) by (metis funpow_0 zero_less_Suc)
  then have "connect_loop api c r cw = connect_loop api (fst ?st) (r + 1) (snd ?st)"
    using Suc.prems(3) by (subst connect_loop.simps) (simp add: failed_attempt_def Let_def)
  moreover have "(failed_attempt api ^^ j) (fst ?st, snd ?st) = (failed_attempt api ^^ Suc j) (c, cw)" for j
    by (simp add: funpow_swap1)
  then have "connect_loop api (fst ?st) (r + 1) (snd ?st) =
      (let st = (failed_attempt api ^^ Suc n) (c, cw); res = Client_Connect api (fst st) (snd st) in
       (fst (snd res), r + 1 + n, snd (snd res)))"
    using Suc.IH [of "fst ?st" "snd ?st" "r + 1"] Suc.prems by (simp del: funpow.simps)
  ultimately show ?case by (simp add: Let_def)
qed

text \<open>
  the connection retries. If the attempt after \<open>n\<close> failed ones succeeds, with \<open>n\<close> at most
  51, the constructor keeps exactly that connection; success is reported when \<open>n \<le> 50\<close>, so a
  connection made by the last attempt is used although it was reported as failed.
\<close>

theorem connect_retries:
  assumes "\<forall>j<n. \<not> connects api ((failed_attempt api ^^ j) (new_Client env type, cw))"
    and "connects api ((failed_attempt api ^^ n) (new_Client env type, cw))" and "n \<le> 51"
  shows "\<exists>c cw'. new_LocalProcess api env type d cw = ((\<lparr>lp_isDevice = d, lp_client = Some c\<rparr>, n \<le> 50), cw') \<and>
    Client_Connect api (fst ((failed_attempt api ^^ n) (new_Client env type, cw)))
      (snd ((failed_attempt api ^^ n) (new_Client env type, cw))) = (True, c, cw')"
  using connect_loop_succeeds [OF assms(1,2), of 0] assms(2,3)
  by (auto simp: new_LocalProcess_def Let_def case_prod_beta prod_eq_iff)

definition slow_api :: "wire os_api" where
  \<comment> \<open>a server that comes up after as many attempts as connections are pending\<close>
  "slow_api = wire_api\<lparr>os_connect := (\<lambda>_ _ w. if wi_conns w = 0 then (0, w)
     else (-1, w\<lparr>wi_conns := wi_conns w - 1\<rparr>))\<rparr>"

definition slow_world :: "nat \<Rightarrow> wire comm_world" where
  "slow_world n = \<lparr>cw_local = \<lparr>s2c = [], c2s = []\<rparr>, cw_os = wire0\<lparr>wi_conns := n\<rparr>\<rparr>"

lemma slow_step:
  "0 < n \<Longrightarrow> \<exists>s'. failed_attempt slow_api (socket_client s, slow_world n) =
     (socket_client s', slow_world (n - 1))"
  by (auto simp: failed_attempt_def Client_Connect_def socket_client_def SocketClient_Connect_def
      DomainSocketClient_Connect_def CreateSocket_def slow_api_def wire_api_def slow_world_def)

lemma slow_attempts:
  "j \<le> n \<Longrightarrow> \<exists>s. (failed_attempt slow_api ^^ j) (new_Client (Some [1]) SOCKET, slow_world n) =
     (socket_client s, slow_world (n - j))"
proof (induction j)
  case 0
  then show ?case by (auto simp: new_Client_def new_SocketClient_def socket_client_def)
next
  case (Suc j)
  then obtain s where "(failed_attempt slow_api ^^ j) (new_Client (Some [1]) SOCKET, slow_world n) =
     (socket_client s, slow_world (n - j))" by auto
  moreover have "0 < n - j" "n - Suc j = n - j - 1" using Suc by simp_all
  ultimately show ?case using slow_step [of "n - j" s] by simp
qed

lemma slow_connects: "connects slow_api (socket_client s, slow_world n) \<longleftrightarrow> n = 0"
  by (auto simp: Client_Connect_def socket_client_def SocketClient_Connect_def
      DomainSocketClient_Connect_def CreateSocket_def slow_api_def wire_api_def slow_world_def)

theorem connect_retries_witness:
  "\<exists>c cw'. new_LocalProcess slow_api (Some [1]) SOCKET True (slow_world 51) =
     ((\<lparr>lp_isDevice = True, lp_client = Some c\<rparr>, False), cw')"
proof -
  have "\<forall>j<51. \<not> connects slow_api ((failed_attempt slow_api ^^ j) (new_Client (Some [1]) SOCKET, slow_world 51))"
  proof (intro allI impI)
    fix j :: nat assume "j < 51"
    then obtain s where "(failed_attempt slow_api ^^ j) (new_Client (Some [1]) SOCKET, slow_world 51) =
        (socket_client s, slow_world (51 - j))"
      using slow_attempts [of j 51] by auto
    then show "\<not> connects slow_api ((failed_attempt slow_api ^^ j) (new_Client (Some [1]) SOCKET, slow_world 51))"
      using \<open>j < 51\<close> slow_connects by simp
  qed
  moreover have "connects slow_api ((failed_attempt slow_api ^^ 51) (new_Client (Some [1]) SOCKET, slow_world 51))"
    using slow_attempts [of 51 51] slow_connects by auto
  ultimately show ?thesis
    using connect_retries [of 51 slow_api "Some [1]" SOCKET "slow_world 51" True] by auto
qed

section \<open>Kernel binaries\<close>

lemma WriteAllToFd_loop_result:
  assumes law: "write_fd_law wr out"
  shows "offset \<le> length data \<Longrightarrow> \<exists>ok w'. WriteAllToFd_loop wr data offset w = Some (ok, w') \<and>
    (ok \<longrightarrow> out w' = out w @ drop offset data)"
proof (induction "length data - offset" arbitrary: offset w rule: less_induct)
  case less
  show ?case
  proof (cases "offset < length data")
    case False
    then show ?thesis using less.prems by (subst WriteAllToFd_loop.simps) auto
  next
    case True
    then have ne: "drop offset data \<noteq> []" by simp
    from law ne show ?thesis
    proof (cases rule: write_fd_cases [where w = w])
      case fail
      then show ?thesis using True by (subst WriteAllToFd_loop.simps) auto
    next
      case (take k)
      let ?w = "snd (wr (drop offset data) w)"
      have "length data - (offset + k) < length data - offset" "offset + k \<le> length data"
        using take True by auto
      from less.hyps [OF this, of ?w] obtain ok w' where
        IH: "WriteAllToFd_loop wr data (offset + k) ?w = Some (ok, w')"
          "ok \<longrightarrow> out w' = out ?w @ drop (offset + k) data" by blast
      have "WriteAllToFd_loop wr data offset w = Some (ok, w')"
        using take IH(1) True by (subst WriteAllToFd_loop.simps) simp
      moreover have "take k (drop offset data) @ drop (offset + k) data = drop offset data"
        by (metis add.commute append_take_drop_id drop_drop)
      ultimately show ?thesis using IH(2) take(5) by auto
    qed
  qed
qed

definition memfd_law :: "'w os_api \<Rightarrow> (int \<Rightarrow> 'w \<Rightarrow> bytes) \<Rightarrow> bool" where
  \<comment> \<open>a created file is empty, and writes append to it\<close>
  "memfd_law api file \<longleftrightarrow>
     (\<forall>w fd w'. os_memfd_create api w = (fd, w') \<longrightarrow> fd < 0 \<or> file fd w' = []) \<and>
     (\<forall>fd. write_fd_law (os_write api fd) (file fd))"

text \<open>
  the file path for kernel binaries. A result of the file path means that one packet head
  was passed to \<open>sendmsg\<close> together with a descriptor whose file held the complete binary, and
  that the descriptor was closed afterwards.
\<close>

theorem kernel_binary_by_file:
  assumes "memfd_law api file"
    and "try_memfd api (socket_client s) head elfData cw = Some (Some sent, cw')"
  shows "\<exists>fd w1 w2. file fd w1 = elfData \<and> 0 \<le> fd \<and> 0 < sent \<and>
    os_sendmsg api (sfd s) head fd w1 = (sent, w2) \<and> cw_os cw' = os_close api fd w2"
proof -
  obtain fd w0 where m: "os_memfd_create api (cw_os cw) = (fd, w0)" by (cases "os_memfd_create api (cw_os cw)")
  have fd: "0 \<le> fd" using assms(2) m by (auto simp: try_memfd_def Let_def split: if_splits)
  then have f0: "file fd w0 = []" using assms(1) m by (fastforce simp: memfd_law_def)
  obtain ok w1 where w: "WriteAllToFd api fd elfData w0 = Some (ok, w1)" and full: "ok \<longrightarrow> file fd w1 = elfData"
    using WriteAllToFd_loop_result [of "os_write api fd" "file fd" 0 elfData w0] assms(1) f0
    by (auto simp: memfd_law_def WriteAllToFd_def)
  have ok: ok using assms(2) m fd w by (auto simp: try_memfd_def Let_def split: if_splits)
  obtain r w2 where s: "os_sendmsg api (sfd s) head fd w1 = (r, w2)" by (cases "os_sendmsg api (sfd s) head fd w1")
  have "sent = r \<and> 0 < r \<and> cw_os cw' = os_close api fd w2"
    using assms(2) m fd w ok s
    by (auto simp: try_memfd_def Let_def Client_WriteWithFd_def socket_client_def on_os_def
        SocketClient_WriteWithFd_def WriteWithFd_def split: if_splits)
  then show ?thesis using full ok fd s by blast
qed

definition filed :: "wire os_api" where
  \<comment> \<open>a kernel whose memory file 9 is kept in \<open>wi_in\<close>\<close>
  "filed = wire_api\<lparr>os_memfd_create := (\<lambda>w. (9, w\<lparr>wi_in := []\<rparr>)),
     os_write := (\<lambda>_ buf w.
       if length buf \<le> 0x7ffff000 then (int (length buf), w\<lparr>wi_in := wi_in w @ buf\<rparr>) else (-1, w))\<rparr>"

lemma filed_law: "memfd_law filed (\<lambda>_. wi_in)"
  by (auto simp: memfd_law_def write_fd_law_def filed_def)

theorem kernel_binary_by_file_witness:
  "\<exists>fd w1 w2. wi_in w1 = [4, 5] \<and> 0 \<le> fd \<and> 0 < (3 :: int) \<and>
    wire_write [1, 2, 3] w1 = (3, w2) \<and> wire0\<lparr>wi_in := [4, 5], wi_out := [1, 2, 3], wi_budget := 99\<rparr> =
      os_close wire_api fd w2"
proof -
  let ?s = "(new_DomainSocket [])\<lparr>sfd := 3\<rparr>"
  let ?w = "wire0\<lparr>wi_in := [4, 5], wi_out := [1, 2, 3], wi_budget := 99\<rparr>"
  have "try_memfd filed (socket_client ?s) [1, 2, 3] [4, 5] (wire_world 100) =
      Some (Some 3, (wire_world 100)\<lparr>cw_os := ?w\<rparr>)"
    by (simp add: try_memfd_def Let_def filed_def wire_api_def WriteAllToFd_def WriteAllToFd_loop.simps
        Client_WriteWithFd_def socket_client_def on_os_def SocketClient_WriteWithFd_def WriteWithFd_def
        wire_write_def wire_world_def wire0_def)
  from kernel_binary_by_file [OF filed_law this]
  show ?thesis by (auto simp: filed_def wire_api_def)
qed

lemma SendBytes_memory_lp:
  assumes "msg \<noteq> []" and "lp_client lp = Some (new_Client env MEMORY)"
  shows "SendBytes api lp msg cw = Some (int (length msg),
    cw\<lparr>cw_local := (cw_local cw)\<lparr>c2s := c2s (cw_local cw) @ [msg]\<rparr>\<rparr>)"
  using assms
  by (simp add: SendBytes_def send_loop.simps Client_Write_def new_Client_def on_local_def LocalComm_Write_def)

text \<open>
  the byte stream fallback for kernel binaries. Without descriptor passing, as on the
  in-memory channel, the server receives one message: the head with the packet's number and
  the binary's length, then the binary itself. One packet number is used.
\<close>

theorem kernel_binary_fallback:
  assumes "memfd_law api file" and "lp_client lp = Some (new_Client env MEMORY)" and "lp_isDevice lp"
    and "CheckProcessOwner api pw" and "0 < pw_nextOrderId pw" and "pw_nextOrderId pw < size_max"
  shows "\<exists>pw'. NotifyKernelBinary api lp elfData pw = Some (Returned (int (24 + length elfData)), pw') \<and>
    pw_nextOrderId pw' = pw_nextOrderId pw + 1 \<and>
    c2s (cw_local (pw_comm pw')) = c2s (cw_local (pw_comm pw)) @
      [binary_head (pw_nextOrderId pw) elfData @ elfData]"
proof -
  let ?head = "binary_head (pw_nextOrderId pw) elfData"
  have len: "length ?head = 24" by (simp add: binary_head_def Serialize_cat_def)
  obtain fd w0 where m: "os_memfd_create api (cw_os (pw_comm pw)) = (fd, w0)"
    by (cases "os_memfd_create api (cw_os (pw_comm pw))")
  obtain ok w1 where w: "WriteAllToFd api fd elfData w0 = Some (ok, w1)"
    using WriteAllToFd_loop_result [of "os_write api fd" "file fd" 0 elfData w0] assms(1)
    by (auto simp: memfd_law_def WriteAllToFd_def)
  obtain cw where t: "try_memfd api (new_Client env MEMORY) ?head elfData (pw_comm pw) = Some (None, cw)"
    and l: "cw_local cw = cw_local (pw_comm pw)"
    using m w
    by (cases "0 \<le> fd"; cases ok)
      (auto simp: try_memfd_def Let_def Client_WriteWithFd_def new_Client_def)
  have "?head @ elfData \<noteq> []" using len by auto
  from SendBytes_memory_lp [OF this assms(2), of api cw] show ?thesis
    using assms t l len
    by (simp add: NotifyKernelBinary_def ReserveOrderId_def)
qed

theorem kernel_binary_fallback_witness:
  "\<exists>pw'. NotifyKernelBinary wire_api memory_device [4, 5] (wire_pw 9) = Some (Returned 26, pw') \<and>
    pw_nextOrderId pw' = 6 \<and>
    c2s (cw_local (pw_comm pw')) = [binary_head 5 [4, 5] @ [4, 5]]"
proof -
  have "memfd_law wire_api (\<lambda>_. wi_out)"
    using wire_write_law by (auto simp: memfd_law_def wire_api_def)
  from kernel_binary_fallback [OF this, of memory_device None "wire_pw 9" "[4, 5]"]
  show ?thesis
    by (simp add: memory_device_def CheckProcessOwner_def wire_pw_def wire_world_def size_max_def wire_api_def)
qed

end
