(* ===== verification/Platform.thy ===== *)
theory Platform
  imports Prelude
begin

text \<open>
  Models the chip tables and queries of csrc/core/PlatformConfig.h, and the two places that
  read them: the choice of the collective-communication parser in
  csrc/runtime/inject_helpers/ArgsManager.cpp and the name tests of
  csrc/runtime/inject_helpers/DeviceContext.cpp and KernelMetaDataParser.h. Enumerators are
  their numbers (\<open>uint32_t\<close>): a product is its series number, a multiple of 256, plus its index.
\<close>

section \<open>Names\<close>

fun prefix_of :: "string \<Rightarrow> string \<Rightarrow> bool" where
  "prefix_of [] s = True"
| "prefix_of (c # cs) [] = False"
| "prefix_of (c # cs) (d # ds) = (c = d \<and> prefix_of cs ds)"

fun contains :: "string \<Rightarrow> string \<Rightarrow> bool" where
  \<comment> \<open>\<open>s.find(sub) != npos\<close>\<close>
  "contains [] sub = (sub = [])"
| "contains (c # cs) sub = (prefix_of sub (c # cs) \<or> contains cs sub)"

section \<open>Tables\<close>

definition RADIX :: nat where
  "RADIX = 8"

definition UNKNOWN_PRODUCT_TYPE :: nat where
  "UNKNOWN_PRODUCT_TYPE = 1"

definition ASCEND310P_SERIES :: nat where
  "ASCEND310P_SERIES = push_bit RADIX 1"

definition ASCEND310B_SERIES :: nat where
  "ASCEND310B_SERIES = push_bit RADIX 2"

definition ASCEND910B_SERIES :: nat where
  "ASCEND910B_SERIES = push_bit RADIX 3"

definition ASCEND910_93_SERIES :: nat where
  "ASCEND910_93_SERIES = push_bit RADIX 4"

definition ASCEND310_SERIES :: nat where
  "ASCEND310_SERIES = push_bit RADIX 5"

definition ASCEND910A_SERIES :: nat where
  "ASCEND910A_SERIES = push_bit RADIX 6"

definition ASCEND950_SERIES :: nat where
  "ASCEND950_SERIES = push_bit RADIX 9"

lemmas series_defs = RADIX_def UNKNOWN_PRODUCT_TYPE_def ASCEND310P_SERIES_def ASCEND310B_SERIES_def
  ASCEND910B_SERIES_def ASCEND910_93_SERIES_def ASCEND310_SERIES_def ASCEND910A_SERIES_def ASCEND950_SERIES_def

definition SOC_STRING_TO_CHIP_PRODUCT :: "(string \<times> nat) list" where
  "SOC_STRING_TO_CHIP_PRODUCT =
     [
      (''Ascend910B1'', 769), (''Ascend910B2'', 770), (''Ascend910B3'', 771),
      (''Ascend910B4'', 772), (''Ascend910B2C'', 773), (''Ascend910B4-1'', 774),
      (''Ascend910_9391'', 1025), (''Ascend910_9392'', 1026), (''Ascend910_9381'', 1027),
      (''Ascend910_9382'', 1028), (''Ascend910_9372'', 1029), (''Ascend910_9362'', 1030),
      (''Ascend910_9363'', 1031), (''Ascend310B1'', 513), (''Ascend310B2'', 514),
      (''Ascend310B3'', 515), (''Ascend310B4'', 516), (''Ascend310P1'', 257),
      (''Ascend310P2'', 258), (''Ascend310P3'', 259), (''Ascend310P4'', 260),
      (''Ascend310P5'', 261), (''Ascend310P7'', 262), (''Ascend310'', 1281),
      (''Ascend910A'', 1537), (''Ascend910B'', 1538), (''Ascend910ProA'', 1539),
      (''Ascend910ProB'', 1540), (''AscendPremiumA'', 1541), (''Ascend950DT_950x'', 2305),
      (''Ascend950DT_950y'', 2306), (''Ascend950DT_9571'', 2307), (''Ascend950DT_9572'', 2308),
      (''Ascend950DT_9573'', 2309), (''Ascend950DT_9574'', 2310), (''Ascend950DT_9575'', 2311),
      (''Ascend950DT_9576'', 2312), (''Ascend950DT_9577'', 2313), (''Ascend950DT_9578'', 2314),
      (''Ascend950DT_9581'', 2315), (''Ascend950DT_9582'', 2316), (''Ascend950DT_9583'', 2317),
      (''Ascend950DT_9584'', 2318), (''Ascend950DT_9585'', 2319), (''Ascend950DT_9586'', 2320),
      (''Ascend950DT_9587'', 2321), (''Ascend950DT_9588'', 2322), (''Ascend950DT_9591'', 2323),
      (''Ascend950DT_9592'', 2324), (''Ascend950DT_9595'', 2325), (''Ascend950DT_9596'', 2326),
      (''Ascend950DT_95A1'', 2327), (''Ascend950DT_95A2'', 2328), (''Ascend950PR_950z'', 2329),
      (''Ascend950PR_9579'', 2330), (''Ascend950PR_957b'', 2331), (''Ascend950PR_957c'', 2332),
      (''Ascend950PR_957d'', 2333), (''Ascend950PR_9589'', 2334), (''Ascend950PR_958b'', 2335),
      (''Ascend950PR_9599'', 2336)
     ]"

definition DEVICE_INVALID :: nat where
  "DEVICE_INVALID = 0xFFFFFFFF"

definition CHIP_PRODUCT_TO_DEVICE_TYPE :: "(nat \<times> nat) list" where
  "CHIP_PRODUCT_TO_DEVICE_TYPE =
     [
      (1541, 0), (769, 2), (770, 3), (773, 3), (771, 4), (772, 5), (774, 5), (1025, 2), (1026, 2),
      (1027, 3), (1028, 3), (1029, 4), (1030, 5), (1031, 5), (257, 7), (259, 7), (261, 7),
      (262, 7), (2305, 11), (2306, 12), (2307, 13), (2308, 14), (2309, 15), (2310, 16), (2311, 17),
      (2312, 18), (2313, 19), (2314, 20), (2315, 21), (2316, 22), (2317, 23), (2318, 24),
      (2319, 25), (2320, 26), (2321, 27), (2322, 28), (2323, 29), (2324, 30), (2325, 31),
      (2326, 32), (2327, 33), (2328, 34), (2329, 35), (2330, 36), (2331, 37), (2332, 38),
      (2333, 39), (2334, 40), (2335, 41), (2336, 42)
     ]"

section \<open>Queries\<close>

definition series_of :: "nat \<Rightarrow> nat" where
  \<comment> \<open>\<open>GetProductSeriesType\<close> of a product\<close>
  "series_of chip = push_bit RADIX (drop_bit RADIX chip)"

definition IsChipSeriesTypeValid :: "nat \<Rightarrow> nat \<Rightarrow> bool" where
  "IsChipSeriesTypeValid inputType requiredType \<longleftrightarrow> requiredType = 0 \<or> series_of inputType = requiredType"

definition GetProductTypeBySocVersion :: "string \<Rightarrow> nat" where
  "GetProductTypeBySocVersion soc =
     (case map_of SOC_STRING_TO_CHIP_PRODUCT soc of None \<Rightarrow> UNKNOWN_PRODUCT_TYPE | Some c \<Rightarrow> c)"

definition GetProductSeriesType :: "string \<Rightarrow> nat" where
  "GetProductSeriesType soc =
     (let chip = GetProductTypeBySocVersion soc in
      if chip = UNKNOWN_PRODUCT_TYPE then chip else series_of chip)"

definition GetDeviceTypeBySocVersion :: "string \<Rightarrow> nat" where
  "GetDeviceTypeBySocVersion soc =
     (case map_of CHIP_PRODUCT_TO_DEVICE_TYPE (GetProductTypeBySocVersion soc) of
        None \<Rightarrow> DEVICE_INVALID | Some d \<Rightarrow> d)"

definition NeedOverflowStatus :: "string \<Rightarrow> bool" where
  "NeedOverflowStatus soc \<longleftrightarrow> contains soc ''Ascend310P'' \<or> contains soc ''Ascend310p''"

definition IsAscend950 :: "string \<Rightarrow> bool" where
  "IsAscend950 soc \<longleftrightarrow> contains soc ''Ascend950''"

definition NeedAddFftsAddr :: "string \<Rightarrow> bool" where
  "NeedAddFftsAddr soc \<longleftrightarrow> \<not> (contains soc ''Ascend310P'' \<or> contains soc ''Ascend950'')"

datatype mc2_parser = Mc2_910C | Mc2_910B | Mc2_None

definition mc2_parser_of :: "string \<Rightarrow> mc2_parser" where
  \<comment> \<open>the dispatch of \<open>GetMc2AddrInfosFromArgAddr\<close>, a test of common bits\<close>
  "mc2_parser_of soc =
     (let chipType = GetProductSeriesType soc in
      if Bit_Operations.and chipType ASCEND910_93_SERIES \<noteq> 0 then Mc2_910C
      else if Bit_Operations.and chipType ASCEND910B_SERIES \<noteq> 0 then Mc2_910B
      else Mc2_None)"

section \<open>Properties\<close>

definition known_socs :: "string list" where
  "known_socs = map fst SOC_STRING_TO_CHIP_PRODUCT"

definition check_chip :: "nat \<Rightarrow> bool" where
  \<comment> \<open>what the properties say of one product number\<close>
  "check_chip c \<longleftrightarrow>
     c \<noteq> UNKNOWN_PRODUCT_TYPE \<and>
     (if series_of c \<in> {ASCEND910_93_SERIES, ASCEND310_SERIES, ASCEND910A_SERIES}
        then Bit_Operations.and (series_of c) ASCEND910_93_SERIES \<noteq> 0
      else Bit_Operations.and (series_of c) ASCEND910_93_SERIES = 0 \<and>
        Bit_Operations.and (series_of c) ASCEND910B_SERIES \<noteq> 0 \<and>
        series_of c \<in> {ASCEND310P_SERIES, ASCEND310B_SERIES, ASCEND910B_SERIES, ASCEND950_SERIES})"

lemma table_checked: "list_all (\<lambda>p. check_chip (snd p)) SOC_STRING_TO_CHIP_PRODUCT"
  by (simp add: SOC_STRING_TO_CHIP_PRODUCT_def check_chip_def series_of_def series_defs
      push_bit_eq_mult drop_bit_eq_div)

lemma known_soc_chip:
  assumes "soc \<in> set known_socs"
  shows "check_chip (GetProductTypeBySocVersion soc)"
proof -
  obtain c where "map_of SOC_STRING_TO_CHIP_PRODUCT soc = Some c"
    using assms by (auto simp: known_socs_def dest: weak_map_of_SomeI)
  then show ?thesis
    using table_checked map_of_SomeD by (fastforce simp: GetProductTypeBySocVersion_def list_all_iff)
qed

lemma unknown_soc: "soc \<notin> set known_socs \<Longrightarrow> GetProductSeriesType soc = UNKNOWN_PRODUCT_TYPE"
  by (simp add: known_socs_def GetProductSeriesType_def GetProductTypeBySocVersion_def
      map_of_eq_None_iff [THEN iffD2])

text \<open>
  which parser reads the communication context of a launch, for every chip name. The code
  tests for common bits where the series are plain numbers, so the parser of the 910C is also
  taken for the 310 and 910A series and the one of the 910B for the 310P, 310B and 950 series;
  the unsupported branch is left to names outside the table.
\<close>

theorem mc2_dispatch:
  "mc2_parser_of soc =
    (if soc \<notin> set known_socs then Mc2_None
     else if GetProductSeriesType soc \<in> {ASCEND910_93_SERIES, ASCEND310_SERIES, ASCEND910A_SERIES} then Mc2_910C
     else Mc2_910B)"
proof (cases "soc \<in> set known_socs")
  case False
  then show ?thesis
    using unknown_soc [OF False] by (simp add: mc2_parser_of_def series_defs)
next
  case True
  have "GetProductSeriesType soc = series_of (GetProductTypeBySocVersion soc)"
    using known_soc_chip [OF True] by (simp add: GetProductSeriesType_def check_chip_def)
  then show ?thesis
    using known_soc_chip [OF True] True
    by (auto simp: mc2_parser_of_def Let_def check_chip_def split: if_splits)
qed

definition chips_without_device :: "string list" where
  "chips_without_device = [''Ascend310B1'', ''Ascend310B2'', ''Ascend310B3'', ''Ascend310B4'', ''Ascend310P2'',
     ''Ascend310P4'', ''Ascend310'', ''Ascend910A'', ''Ascend910B'', ''Ascend910ProA'', ''Ascend910ProB'']"

lemma device_table_checked:
  "list_all (\<lambda>(s, c). (case map_of CHIP_PRODUCT_TO_DEVICE_TYPE c of None \<Rightarrow> True | Some d \<Rightarrow> d = DEVICE_INVALID)
      = (s \<in> set chips_without_device)) SOC_STRING_TO_CHIP_PRODUCT"
  by (simp add: SOC_STRING_TO_CHIP_PRODUCT_def CHIP_PRODUCT_TO_DEVICE_TYPE_def chips_without_device_def
      DEVICE_INVALID_def)

text \<open>
  coverage of the device table: a chip name has a device type exactly when it is in the
  table of names and not among the eleven products without one.
\<close>

theorem device_type_known:
  "GetDeviceTypeBySocVersion soc \<noteq> DEVICE_INVALID \<longleftrightarrow>
     soc \<in> set known_socs \<and> soc \<notin> set chips_without_device"
proof (cases "soc \<in> set known_socs")
  case False
  then show ?thesis
    by (simp add: known_socs_def GetDeviceTypeBySocVersion_def GetProductTypeBySocVersion_def
        map_of_eq_None_iff [THEN iffD2]) (simp add: UNKNOWN_PRODUCT_TYPE_def CHIP_PRODUCT_TO_DEVICE_TYPE_def)
next
  case True
  then obtain c where c: "map_of SOC_STRING_TO_CHIP_PRODUCT soc = Some c"
    by (auto simp: known_socs_def dest: weak_map_of_SomeI)
  then have "(case map_of CHIP_PRODUCT_TO_DEVICE_TYPE c of None \<Rightarrow> True | Some d \<Rightarrow> d = DEVICE_INVALID)
      = (soc \<in> set chips_without_device)"
    using device_table_checked map_of_SomeD [OF c] by (fastforce simp: list_all_iff)
  then show ?thesis
    using True by (simp add: GetDeviceTypeBySocVersion_def GetProductTypeBySocVersion_def c split: option.splits)
qed

end
