(* ===== verification/MetaData.thy ===== *)
theory MetaData
  imports MemManage Platform "HOL-Library.Monad_Syntax"
begin

text \<open>
  Models csrc/runtime/inject_helpers/KernelMetaDataParser.h/.cpp: the parser of a kernel's
  meta section, and \<open>OpMemInfo\<close>, the description of a kernel's parameters that it produces.

  The parser indexes the section without a bounds check of its own in several places. A read
  outside the section has no defined result: the model gives \<open>None\<close>. Inside the option, a
  result is the parser's state and the returned flag. Indices are \<open>uint32_t\<close> in the source;
  sections are shorter than \<open>2 ^ 31\<close> bytes, so they do not wrap and are plain naturals here.
\<close>

section \<open>Data\<close>

record SecondPtrInfo =
  sp_dtypeBytes :: nat
  sp_addrInfoVec :: "AddrInfo list"

record OpMemInfo =
  om_inputParamsAddrInfos :: "AddrInfo list"
  om_secondPtrAddrInfos :: "(nat \<times> SecondPtrInfo) list"  \<comment> \<open>\<open>std::map\<close>: ascending keys\<close>
  om_uniqueAddrInfos :: "AddrInfo list"
  om_inputNum :: nat
  om_skipNum :: nat
  om_tilingDataSize :: nat
  om_tilingParamsNo :: nat
  om_isForSetException :: bool
  om_isTik :: bool
  om_hasMc2Ctx :: bool
  om_isFFTS :: bool
  om_hasOverflowAddr :: bool
  om_overflowAddr :: nat

definition om0 :: OpMemInfo where
  "om0 = \<lparr>om_inputParamsAddrInfos = [], om_secondPtrAddrInfos = [], om_uniqueAddrInfos = [], om_inputNum = 0,
     om_skipNum = 0, om_tilingDataSize = 0, om_tilingParamsNo = 0, om_isForSetException = False, om_isTik = False,
     om_hasMc2Ctx = False, om_isFFTS = False, om_hasOverflowAddr = False, om_overflowAddr = 0\<rparr>"

definition om_Clear :: "OpMemInfo \<Rightarrow> OpMemInfo" where
  \<comment> \<open>the overflow fields stay\<close>
  "om_Clear m = om0\<lparr>om_hasOverflowAddr := om_hasOverflowAddr m, om_overflowAddr := om_overflowAddr m\<rparr>"

definition mk_AddrInfo :: "nat \<Rightarrow> nat \<Rightarrow> MemInfoSrc \<Rightarrow> MemInfoDesc \<Rightarrow> nat \<Rightarrow> AddrInfo" where
  \<comment> \<open>aggregate initialisation, the permission left zero\<close>
  "mk_AddrInfo addr len src desc no =
     \<lparr>ai_addr = addr, ai_length = len, ai_src = src, ai_desc = desc, ai_paramsNo = no, ai_permission = 0\<rparr>"

definition RT_DEV_BINARY_MAGIC_ELF :: nat where
  "RT_DEV_BINARY_MAGIC_ELF = 0x43554245"

definition sizeof_HcclCombinOpParam :: nat where
  "sizeof_HcclCombinOpParam = 32 + 2 * 32 * 8 + 8328 + 8 + 8"

definition SetFftsInfo :: "string \<Rightarrow> nat \<Rightarrow> OpMemInfo \<Rightarrow> OpMemInfo" where
  "SetFftsInfo soc magic m =
     (if \<not> NeedAddFftsAddr soc then m
      else if om_skipNum m \<noteq> 0 \<or> magic = RT_DEV_BINARY_MAGIC_ELF
        then m\<lparr>om_skipNum := 1, om_isFFTS := True\<rparr>
      else m\<lparr>om_isFFTS := False\<rparr>)"

section \<open>Reading the section\<close>

definition byte_at :: "bytes \<Rightarrow> nat \<Rightarrow> nat option" where
  "byte_at md i = (if i < length md then Some (unat (md ! i)) else None)"

definition le16 :: "bytes \<Rightarrow> nat \<Rightarrow> nat option" where
  "le16 md i = do { a \<leftarrow> byte_at md i; b \<leftarrow> byte_at md (i + 1); Some (a + b * 256) }"

definition be16 :: "bytes \<Rightarrow> nat \<Rightarrow> nat option" where
  "be16 md i = do { a \<leftarrow> byte_at md i; b \<leftarrow> byte_at md (i + 1); Some (a * 256 + b) }"

fun be_val :: "bytes \<Rightarrow> nat \<Rightarrow> nat" where
  "be_val [] acc = acc"
| "be_val (b # bs) acc = be_val bs (acc * 256 + unat b)"

definition be64 :: "bytes \<Rightarrow> nat \<Rightarrow> nat option" where
  "be64 md i = (if i + 8 \<le> length md then Some (be_val (take 8 (drop i md)) 0) else None)"

section \<open>The entries of a parameter list\<close>

datatype DfxTensorType = INVALID_TENSOR | GENERAL_TENSOR | INPUT_TENSOR | OUTPUT_TENSOR | WORKSPACE_TENSOR
  | ASCENDC_LOG | MC2_CTX | TILING_DATA | L1 | L2 | OVERFLOW_MES | FFTS_ADDRESS | SHAPE_TENSOR | UNKNOWN_TENSOR

definition tensor_type :: "nat \<Rightarrow> DfxTensorType" where
  "tensor_type n =
     (let ts = [INVALID_TENSOR, GENERAL_TENSOR, INPUT_TENSOR, OUTPUT_TENSOR, WORKSPACE_TENSOR, ASCENDC_LOG, MC2_CTX,
         TILING_DATA, L1, L2, OVERFLOW_MES, FFTS_ADDRESS, SHAPE_TENSOR] in
      if n < length ts then ts ! n else UNKNOWN_TENSOR)"

definition IsSupportDfxPointPtr :: "nat \<Rightarrow> bool" where
  \<comment> \<open>1: \<open>LEVEL_1_POINTER\<close>, 3: \<open>LEVEL_2_POINTER_WITH_SHAPE\<close>, 4: \<open>SHAPE_TENSOR_PLACEHOLD\<close>\<close>
  "IsSupportDfxPointPtr t \<longleftrightarrow> t = 1 \<or> t = 3 \<or> t = 4"

definition LEVEL_2_POINTER_WITH_SHAPE :: nat where
  "LEVEL_2_POINTER_WITH_SHAPE = 3"

definition ParseMetaInput :: "bytes \<Rightarrow> nat \<Rightarrow> nat \<Rightarrow> OpMemInfo \<Rightarrow> OpMemInfo" where
  "ParseMetaInput md index paramsNo m =
     (case be64 md index of
        None \<Rightarrow> m
      | Some len \<Rightarrow> m\<lparr>om_inputParamsAddrInfos := om_inputParamsAddrInfos m @ [mk_AddrInfo 0 len EXTRA INPUT paramsNo]\<rparr>)"

definition ParseMetaMc2Ctx :: "OpMemInfo \<Rightarrow> OpMemInfo" where
  "ParseMetaMc2Ctx m =
     m\<lparr>om_inputParamsAddrInfos := om_inputParamsAddrInfos m @
         [mk_AddrInfo 0 sizeof_HcclCombinOpParam EXTRA HCCL_MC2_CONTEXT 0],
       om_hasMc2Ctx := True\<rparr>"

definition ParseMetaFfts :: "string \<Rightarrow> OpMemInfo \<Rightarrow> OpMemInfo" where
  "ParseMetaFfts soc m = SetFftsInfo soc 0 m"

definition ParseMetaTiling :: "bytes \<Rightarrow> nat \<Rightarrow> nat \<Rightarrow> OpMemInfo \<Rightarrow> OpMemInfo" where
  "ParseMetaTiling md index paramsNo m =
     (case be64 md index of
        None \<Rightarrow> m
      | Some len \<Rightarrow> m\<lparr>om_tilingDataSize := len, om_tilingParamsNo := paramsNo\<rparr>)"

fun dfxParser :: "string \<Rightarrow> bytes \<Rightarrow> DfxTensorType \<Rightarrow> (nat \<Rightarrow> nat \<Rightarrow> OpMemInfo \<Rightarrow> OpMemInfo) option" where
  \<comment> \<open>the table filled by the constructor\<close>
  "dfxParser soc md GENERAL_TENSOR = Some (ParseMetaInput md)"
| "dfxParser soc md INPUT_TENSOR = Some (ParseMetaInput md)"
| "dfxParser soc md OUTPUT_TENSOR = Some (ParseMetaInput md)"
| "dfxParser soc md WORKSPACE_TENSOR = Some (ParseMetaInput md)"
| "dfxParser soc md FFTS_ADDRESS = Some (\<lambda>_ _. ParseMetaFfts soc)"
| "dfxParser soc md TILING_DATA = Some (ParseMetaTiling md)"
| "dfxParser soc md MC2_CTX = Some (\<lambda>_ _. ParseMetaMc2Ctx)"
| "dfxParser soc md SHAPE_TENSOR = Some (ParseMetaInput md)"
| "dfxParser soc md _ = None"

section \<open>The loops\<close>

datatype entry_result =
    Skip nat  \<comment> \<open>continue at an index\<close>
  | Stop OpMemInfo nat  \<comment> \<open>leave the loop\<close>
  | Entry OpMemInfo nat  \<comment> \<open>one parameter parsed\<close>

definition parse_entry :: "string \<Rightarrow> bytes \<Rightarrow> nat \<Rightarrow> nat \<Rightarrow> OpMemInfo \<Rightarrow> entry_result option" where
  \<comment> \<open>the body of the loop of \<open>ParseKernelArgs\<close>\<close>
  "parse_entry soc md index paramsIdx m =
     do { numOfUint64 \<leftarrow> be16 md (index + 2);
          if numOfUint64 = 0 then Some (Skip (index + 4))
          else
            let index = index + 4 in
            do { type \<leftarrow> be16 md (index + 6);
                 ptrType \<leftarrow> be16 md (index + 4);
                 case dfxParser soc md (tensor_type type) of
                   None \<Rightarrow> Some (Stop m (index + numOfUint64 * 8))
                 | Some parser \<Rightarrow>
                     if \<not> IsSupportDfxPointPtr ptrType then Some (Stop (om_Clear m) index)
                     else
                       do { m \<leftarrow> (if ptrType = LEVEL_2_POINTER_WITH_SHAPE then
                              do { dtypeBytes \<leftarrow> be64 md (index + 16);
                                   Some (if map_of (om_secondPtrAddrInfos m) paramsIdx = None
                                     then m\<lparr>om_secondPtrAddrInfos := omap_put paramsIdx
                                       \<lparr>sp_dtypeBytes = dtypeBytes, sp_addrInfoVec = []\<rparr> (om_secondPtrAddrInfos m)\<rparr>
                                     else m) }
                              else Some m);
                            Some (Entry (parser (index + 8) (paramsIdx + 1) m)
                              (index + 8 + (numOfUint64 - 1) * 8)) } } }"

lemma parse_entry_progress:
  "parse_entry soc md index paramsIdx m = Some (Skip j) \<Longrightarrow> index < j"
  "parse_entry soc md index paramsIdx m = Some (Entry m' j) \<Longrightarrow> index < j"
  by (auto simp: parse_entry_def Let_def split: bind_splits option.splits if_splits)

lemma parse_entry_stop:
  "parse_entry soc md index paramsIdx m = Some (Stop m' j) \<Longrightarrow> index \<le> j"
  by (auto simp: parse_entry_def Let_def split: bind_splits option.splits if_splits)

function parse_args_loop ::
  "string \<Rightarrow> bytes \<Rightarrow> nat \<Rightarrow> nat \<Rightarrow> nat \<Rightarrow> OpMemInfo \<Rightarrow> (OpMemInfo \<times> nat) option"
where
  "parse_args_loop soc md dfxRange index paramsIdx m =
     (if index < dfxRange \<and> index + 7 < length md then
        (case parse_entry soc md index paramsIdx m of
           None \<Rightarrow> None
         | Some (Skip index) \<Rightarrow> parse_args_loop soc md dfxRange index paramsIdx m
         | Some (Stop m index) \<Rightarrow> Some (m, index)
         | Some (Entry m index) \<Rightarrow> parse_args_loop soc md dfxRange index (paramsIdx + 1) m)
      else Some (m, index))"
  by pat_completeness auto
termination
  by (relation "measure (\<lambda>(soc, md, dfxRange, index, paramsIdx, m). length md - index)")
    (auto dest: parse_entry_progress)

declare parse_args_loop.simps [simp del]

definition ParseKernelArgs :: "string \<Rightarrow> bytes \<Rightarrow> nat \<Rightarrow> OpMemInfo \<Rightarrow> (OpMemInfo \<times> nat) option" where
  "ParseKernelArgs soc md index m =
     do { dfxLen \<leftarrow> le16 md index;
          let index = index + 2 in parse_args_loop soc md (dfxLen + index) index 0 m }"

lemma parse_args_loop_ge: "parse_args_loop soc md r index p m = Some (m', j) \<Longrightarrow> index \<le> j"
proof (induction soc md r index p m rule: parse_args_loop.induct)
  case (1 soc md r index p m)
  show ?case
  proof (cases "index < r \<and> index + 7 < length md")
    case False
    then have "parse_args_loop soc md r index p m = Some (m, index)"
      by (subst parse_args_loop.simps) auto
    then show ?thesis using "1.prems" by simp
  next
    case True
    have eq: "parse_args_loop soc md r index p m =
      (case parse_entry soc md index p m of
           None \<Rightarrow> None
         | Some (Skip index) \<Rightarrow> parse_args_loop soc md r index p m
         | Some (Stop m index) \<Rightarrow> Some (m, index)
         | Some (Entry m index) \<Rightarrow> parse_args_loop soc md r index (p + 1) m)"
      using True by (subst parse_args_loop.simps) simp
    show ?thesis
    proof (cases "parse_entry soc md index p m")
      case None
      then show ?thesis using "1.prems" eq by simp
    next
      case (Some e)
      show ?thesis
      proof (cases e)
        case (Skip k)
        then show ?thesis
          using "1.IH"(1) [OF True Some, of k] "1.prems" eq Some parse_entry_progress(1) [of soc md index p m k] by simp
      next
        case (Stop m2 k)
        then show ?thesis
          using "1.prems" eq Some parse_entry_stop [of soc md index p m m2 k] by simp
      next
        case (Entry m2 k)
        then show ?thesis
          using "1.IH"(2) [OF True Some, of m2 k] "1.prems" eq Some parse_entry_progress(2) [of soc md index p m m2 k] by simp
      qed
    qed
qed
qed

lemma ParseKernelArgs_ge: "ParseKernelArgs soc md index m = Some (m', j) \<Longrightarrow> index + 2 \<le> j"
  using parse_args_loop_ge by (fastforce simp: ParseKernelArgs_def Let_def split: bind_splits)

function parse_loop :: "string \<Rightarrow> bytes \<Rightarrow> nat \<Rightarrow> OpMemInfo \<Rightarrow> (bool \<times> OpMemInfo) option" where
  "parse_loop soc md index m =
     (if index < length md - 1 then
        (case le16 md index of
           None \<Rightarrow> None
         | Some type \<Rightarrow>
             if index + 4 > length md then Some (False, m)
             else if type = 4 then
               (case ParseKernelArgs soc md (index + 2) m of
                  None \<Rightarrow> None
                | Some (m', j) \<Rightarrow>
                    if om_inputParamsAddrInfos m' = [] then Some (False, m') else parse_loop soc md j m')
             else
               (case le16 md (index + 2) of
                  None \<Rightarrow> None
                | Some len \<Rightarrow>
                    parse_loop soc md (index + 4 + len) (if type = 6 then m\<lparr>om_isTik := True\<rparr> else m)))
      else Some (True, m))"
  by pat_completeness auto
termination
  by (relation "measure (\<lambda>(soc, md, index, m). length md - index)")
    (auto dest!: ParseKernelArgs_ge)

declare parse_loop.simps [simp del]

definition Parse :: "string \<Rightarrow> bytes \<Rightarrow> (bool \<times> OpMemInfo) option" where
  "Parse soc md = (if md = [] then Some (False, om0) else parse_loop soc md 0 om0)"

section \<open>What a section says\<close>

text \<open>
  A writer of meta sections, and what the sections it writes mean. A parameter is its tensor
  type, its pointer type and the words that follow its header: the first is the length of the
  memory (or of the tiling data), the second, for a level-2 pointer, the size of its data type.
\<close>

type_synonym meta_param = "nat \<times> nat \<times> nat list"

datatype meta_section = Dfx "meta_param list" | Other nat bytes

primrec be_enc :: "nat \<Rightarrow> nat \<Rightarrow> bytes" where
  "be_enc 0 v = []"
| "be_enc (Suc n) v = be_enc n (v div 256) @ [of_nat (v mod 256)]"

definition enc_param :: "meta_param \<Rightarrow> bytes" where
  "enc_param = (\<lambda>(ty, ptr, ws). [0, 0] @ be_enc 2 (Suc (length ws)) @ [0, 0, 0, 0] @ be_enc 2 ptr @ be_enc 2 ty @
     concat (map (be_enc 8) ws))"

definition enc_params :: "meta_param list \<Rightarrow> bytes" where
  "enc_params ps = concat (map enc_param ps)"

definition le_enc2 :: "nat \<Rightarrow> bytes" where
  "le_enc2 v = [of_nat (v mod 256), of_nat (v div 256)]"

fun enc_section :: "meta_section \<Rightarrow> bytes" where
  "enc_section (Dfx ps) = le_enc2 4 @ le_enc2 (length (enc_params ps)) @ enc_params ps"
| "enc_section (Other ty payload) = le_enc2 ty @ le_enc2 (length payload) @ payload"

definition is_tensor :: "nat \<Rightarrow> bool" where
  "is_tensor ty \<longleftrightarrow> ty \<in> {1, 2, 3, 4, 12}"

definition wf_param :: "meta_param \<Rightarrow> bool" where
  "wf_param = (\<lambda>(ty, ptr, ws). (is_tensor ty \<or> ty \<in> {6, 7, 11}) \<and> ptr \<in> {1, 3, 4} \<and>
     (if ptr = 3 then 2 else 1) \<le> length ws \<and> Suc (length ws) < 2 ^ 16 \<and> list_all (\<lambda>w. w < 2 ^ 64) ws)"

fun wf_section :: "meta_section \<Rightarrow> bool" where
  "wf_section (Dfx ps) \<longleftrightarrow> list_all wf_param ps \<and> list_ex (\<lambda>p. is_tensor (fst p)) ps \<and>
     length (enc_params ps) < 2 ^ 16"
| "wf_section (Other ty payload) \<longleftrightarrow> ty \<noteq> 4 \<and> ty < 2 ^ 16 \<and> length payload < 2 ^ 16"

definition describe :: "string \<Rightarrow> nat \<Rightarrow> meta_param \<Rightarrow> OpMemInfo \<Rightarrow> OpMemInfo" where
  \<comment> \<open>what the parameter number \<open>no\<close>, from 0, adds\<close>
  "describe soc no = (\<lambda>(ty, ptr, ws) m.
     let m = (if ptr = 3 \<and> map_of (om_secondPtrAddrInfos m) no = None
              then m\<lparr>om_secondPtrAddrInfos :=
                omap_put no \<lparr>sp_dtypeBytes = ws ! 1, sp_addrInfoVec = []\<rparr> (om_secondPtrAddrInfos m)\<rparr>
              else m) in
     if is_tensor ty then m\<lparr>om_inputParamsAddrInfos := om_inputParamsAddrInfos m @
         [mk_AddrInfo 0 (ws ! 0) EXTRA INPUT (no + 1)]\<rparr>
     else if ty = 7 then m\<lparr>om_tilingDataSize := ws ! 0, om_tilingParamsNo := no + 1\<rparr>
     else if ty = 6 then m\<lparr>om_inputParamsAddrInfos := om_inputParamsAddrInfos m @
         [mk_AddrInfo 0 sizeof_HcclCombinOpParam EXTRA HCCL_MC2_CONTEXT 0], om_hasMc2Ctx := True\<rparr>
     else SetFftsInfo soc 0 m)"

fun describe_params :: "string \<Rightarrow> nat \<Rightarrow> meta_param list \<Rightarrow> OpMemInfo \<Rightarrow> OpMemInfo" where
  "describe_params soc no [] m = m"
| "describe_params soc no (p # ps) m = describe_params soc (no + 1) ps (describe soc no p m)"

fun describe_sections :: "string \<Rightarrow> meta_section list \<Rightarrow> OpMemInfo \<Rightarrow> OpMemInfo" where
  "describe_sections soc [] m = m"
| "describe_sections soc (Dfx ps # ss) m = describe_sections soc ss (describe_params soc 0 ps m)"
| "describe_sections soc (Other ty payload # ss) m =
     describe_sections soc ss (if ty = 6 then m\<lparr>om_isTik := True\<rparr> else m)"

section \<open>Reading what was written\<close>

lemma length_be_enc [simp]: "length (be_enc n v) = n"
  by (induction n arbitrary: v) auto

lemma be_val_append: "be_val (xs @ ys) acc = be_val ys (be_val xs acc)"
  by (induction xs acc rule: be_val.induct) auto

lemma unat_mod_byte [simp]: "unat (of_nat (v mod 256) :: byte) = v mod 256"
  by (simp add: unat_of_nat)

lemma be_val_enc: "be_val (be_enc n v) acc = acc * 256 ^ n + v mod 256 ^ n"
proof (induction n arbitrary: v acc)
  case (Suc n)
  have "v mod 256 ^ Suc n = 256 * (v div 256 mod 256 ^ n) + v mod 256"
    using mod_mult2_eq [of v 256 "256 ^ n"] by simp
  then show ?case using Suc by (simp add: be_val_append algebra_simps)
qed simp

lemma byte_at_append [simp]: "byte_at (pre @ xs) (length pre + i) = byte_at xs i"
  by (simp add: byte_at_def nth_append)

lemma le16_append [simp]: "le16 (pre @ xs) (length pre + i) = le16 xs i"
  using byte_at_append [of pre xs "i + 1"] by (simp add: le16_def add.assoc)

lemma be16_append [simp]: "be16 (pre @ xs) (length pre + i) = be16 xs i"
  using byte_at_append [of pre xs "i + 1"] by (simp add: be16_def add.assoc)

lemma be64_append [simp]: "be64 (pre @ xs) (length pre + i) = be64 xs i"
  by (simp add: be64_def)

lemmas at_start [simp] = byte_at_append [where i = 0, simplified] le16_append [where i = 0, simplified]
  be16_append [where i = 0, simplified] be64_append [where i = 0, simplified]

lemma be16_at: "length pre = k \<Longrightarrow> be16 (pre @ xs) k = be16 xs 0"
  using be16_append [of pre xs 0] by simp

lemma be64_at: "length pre = k \<Longrightarrow> be64 (pre @ xs) k = be64 xs 0"
  using be64_append [of pre xs 0] by simp

lemma be_enc_2: "be_enc 2 v = [of_nat (v div 256 mod 256), of_nat (v mod 256)]"
  unfolding numeral_2_eq_2 be_enc.simps by simp

lemma be16_enc: "v < 2 ^ 16 \<Longrightarrow> be16 (be_enc 2 v @ xs) 0 = Some v"
proof -
  assume "v < 2 ^ 16"
  then have "v div 256 mod 256 = v div 256" by simp
  then show ?thesis using unat_mod_byte [of "v div 256"] unat_mod_byte [of v]
    by (simp add: be16_def byte_at_def be_enc_2)
qed

lemma le16_enc: "v < 2 ^ 16 \<Longrightarrow> le16 (le_enc2 v @ xs) 0 = Some v"
proof -
  assume "v < 2 ^ 16"
  then have "v div 256 mod 256 = v div 256" by simp
  then have "unat (of_nat (v div 256) :: byte) = v div 256" using unat_mod_byte [of "v div 256"] by simp
  then show ?thesis using unat_mod_byte [of v] by (simp add: le16_def byte_at_def le_enc2_def)
qed

lemma be64_enc: "v < 2 ^ 64 \<Longrightarrow> be64 (be_enc 8 v @ xs) 0 = Some v"
  by (simp add: be64_def be_val_enc)

lemma wf_param_fields:
  assumes "wf_param (ty, ptr, ws)"
  shows "be16 (enc_param (ty, ptr, ws) @ post) 2 = Some (Suc (length ws))"
    and "be16 (enc_param (ty, ptr, ws) @ post) 8 = Some ptr"
    and "be16 (enc_param (ty, ptr, ws) @ post) 10 = Some ty"
    and "be64 (enc_param (ty, ptr, ws) @ post) 12 = Some (ws ! 0)"
    and "ptr = 3 \<Longrightarrow> be64 (enc_param (ty, ptr, ws) @ post) 20 = Some (ws ! 1)"
proof -
  let ?n = "be_enc 2 (Suc (length ws))"
  let ?w = "concat (map (be_enc 8) ws)"
  have ty: "ty < 2 ^ 16" and ptr: "ptr < 2 ^ 16" and n: "Suc (length ws) < 2 ^ 16"
    using assms by (auto simp: wf_param_def is_tensor_def)
  show "be16 (enc_param (ty, ptr, ws) @ post) 2 = Some (Suc (length ws))"
    using be16_at [of "[0, 0]" 2 "?n @ [0, 0, 0, 0] @ be_enc 2 ptr @ be_enc 2 ty @ ?w @ post"] be16_enc [OF n]
    by (simp add: enc_param_def)
  show "be16 (enc_param (ty, ptr, ws) @ post) 8 = Some ptr"
    using be16_at [of "[0, 0] @ ?n @ [0, 0, 0, 0]" 8 "be_enc 2 ptr @ be_enc 2 ty @ ?w @ post"] be16_enc [OF ptr]
    by (simp add: enc_param_def)
  show "be16 (enc_param (ty, ptr, ws) @ post) 10 = Some ty"
    using be16_at [of "[0, 0] @ ?n @ [0, 0, 0, 0] @ be_enc 2 ptr" 10 "be_enc 2 ty @ ?w @ post"] be16_enc [OF ty]
    by (simp add: enc_param_def)
  obtain w ws' where ws: "ws = w # ws'" "w < 2 ^ 64"
    using assms by (cases ws) (auto simp: wf_param_def split: if_splits)
  show "be64 (enc_param (ty, ptr, ws) @ post) 12 = Some (ws ! 0)"
    using be64_at [of "[0, 0] @ ?n @ [0, 0, 0, 0] @ be_enc 2 ptr @ be_enc 2 ty" 12 "?w @ post"] be64_enc [OF ws(2)]
    by (simp add: enc_param_def ws(1))
  assume "ptr = 3"
  then obtain v vs where vs: "ws' = v # vs" "v < 2 ^ 64"
    using assms ws(1) by (cases ws') (auto simp: wf_param_def)
  show "be64 (enc_param (ty, ptr, ws) @ post) 20 = Some (ws ! 1)"
    using be64_at [of "[0, 0] @ ?n @ [0, 0, 0, 0] @ be_enc 2 ptr @ be_enc 2 ty @ be_enc 8 w" 20
        "be_enc 8 v @ concat (map (be_enc 8) vs) @ post"] be64_enc [OF vs(2)]
    by (simp add: enc_param_def ws(1) vs(1))
qed

lemma length_enc_words: "length (concat (map (be_enc 8) ws)) = 8 * length ws"
  by (induction ws) auto

lemma length_enc_param: "length (enc_param (ty, ptr, ws)) = 12 + 8 * length ws"
  by (simp add: enc_param_def length_enc_words)

lemma parser_describes:
  assumes "wf_param (ty, ptr, ws)" "be64 md i = Some (ws ! 0)"
  obtains parser where "dfxParser soc md (tensor_type ty) = Some parser"
    and "\<And>m. parser i (no + 1) m =
      (if is_tensor ty then m\<lparr>om_inputParamsAddrInfos := om_inputParamsAddrInfos m @
         [mk_AddrInfo 0 (ws ! 0) EXTRA INPUT (no + 1)]\<rparr>
     else if ty = 7 then m\<lparr>om_tilingDataSize := ws ! 0, om_tilingParamsNo := no + 1\<rparr>
     else if ty = 6 then m\<lparr>om_inputParamsAddrInfos := om_inputParamsAddrInfos m @
         [mk_AddrInfo 0 sizeof_HcclCombinOpParam EXTRA HCCL_MC2_CONTEXT 0], om_hasMc2Ctx := True\<rparr>
     else SetFftsInfo soc 0 m)"
  using assms
  by (auto simp: wf_param_def is_tensor_def tensor_type_def ParseMetaInput_def ParseMetaTiling_def
      ParseMetaMc2Ctx_def ParseMetaFfts_def)

lemma parse_entry_encoded:
  assumes wf: "wf_param p"
  shows "parse_entry soc (pre @ enc_param p @ post) (length pre) no m =
    Some (Entry (describe soc no p m) (length pre + length (enc_param p)))"
proof -
  obtain ty ptr ws where p: "p = (ty, ptr, ws)" by (cases p)
  let ?md = "pre @ enc_param p @ post"
  note f = wf_param_fields [OF wf [unfolded p], of post]
  have 64: "be64 ?md (length pre + 12) = Some (ws ! 0)" using f(4) by (simp add: p)
  obtain parser where pa: "dfxParser soc ?md (tensor_type ty) = Some parser"
    and eq: "\<And>m. parser (length pre + 12) (no + 1) m =
      (if is_tensor ty then m\<lparr>om_inputParamsAddrInfos := om_inputParamsAddrInfos m @
         [mk_AddrInfo 0 (ws ! 0) EXTRA INPUT (no + 1)]\<rparr>
     else if ty = 7 then m\<lparr>om_tilingDataSize := ws ! 0, om_tilingParamsNo := no + 1\<rparr>
     else if ty = 6 then m\<lparr>om_inputParamsAddrInfos := om_inputParamsAddrInfos m @
         [mk_AddrInfo 0 sizeof_HcclCombinOpParam EXTRA HCCL_MC2_CONTEXT 0], om_hasMc2Ctx := True\<rparr>
     else SetFftsInfo soc 0 m)"
    using parser_describes [OF wf [unfolded p] 64] by metis
  have ptr: "ptr = 1 \<or> ptr = 3 \<or> ptr = 4" using wf by (simp add: wf_param_def p)
  have b: "be16 ?md (length pre + 2) = Some (Suc (length ws))" "be16 ?md (length pre + 4 + 6) = Some ty"
    "be16 ?md (length pre + 4 + 4) = Some ptr"
    using f(1-3) be16_append [of pre "enc_param p @ post"] by (simp_all only: p add.assoc) simp_all
  have e: "length pre + 4 + 8 = length pre + 12"
    "length pre + 12 + (Suc (length ws) - 1) * 8 = length pre + length (enc_param p)"
    by (simp_all add: p length_enc_param)
  have d: "be64 ?md (length pre + 4 + 16) = Some (ws ! 1)" if "ptr = 3"
    using f(5) [OF that] by (simp add: p add.assoc)
  define x where "x = (if ptr = 3 \<and> map_of (om_secondPtrAddrInfos m) no = None
     then m\<lparr>om_secondPtrAddrInfos :=
       omap_put no \<lparr>sp_dtypeBytes = ws ! 1, sp_addrInfoVec = []\<rparr> (om_secondPtrAddrInfos m)\<rparr>
     else m)"
  have dsc: "describe soc no p m = parser (length pre + 12) (no + 1) x"
    by (simp only: p describe_def prod.case Let_def eq x_def)
  have x: "(if ptr = LEVEL_2_POINTER_WITH_SHAPE
      then be64 ?md (length pre + 4 + 16) \<bind> (\<lambda>dtypeBytes.
        Some (if map_of (om_secondPtrAddrInfos m) no = None
          then m\<lparr>om_secondPtrAddrInfos :=
            omap_put no \<lparr>sp_dtypeBytes = dtypeBytes, sp_addrInfoVec = []\<rparr> (om_secondPtrAddrInfos m)\<rparr>
          else m))
      else Some m) = Some x"
    by (cases "ptr = 3") (simp_all only: d x_def LEVEL_2_POINTER_WITH_SHAPE_def bind.bind_lunit if_True if_False simp_thms)
  have s: "IsSupportDfxPointPtr ptr" using ptr by (simp add: IsSupportDfxPointPtr_def)
  show ?thesis
    unfolding parse_entry_def Let_def b bind.bind_lunit
    by (simp only: nat.distinct if_False pa option.case s x bind.bind_lunit e dsc simp_thms)
qed

lemma describe_params_inputs_mono:
  "om_inputParamsAddrInfos m \<noteq> [] \<Longrightarrow> om_inputParamsAddrInfos (describe_params soc no ps m) \<noteq> []"
  by (induction soc no ps m rule: describe_params.induct)
    (auto simp: describe_def Let_def SetFftsInfo_def split: prod.splits if_splits)

lemma describe_params_inputs:
  "list_ex (\<lambda>p. is_tensor (fst p)) ps \<Longrightarrow> om_inputParamsAddrInfos (describe_params soc no ps m) \<noteq> []"
proof (induction ps arbitrary: no m)
  case (Cons p ps)
  show ?case
  proof (cases "is_tensor (fst p)")
    case True
    then have "om_inputParamsAddrInfos (describe soc no p m) \<noteq> []"
      by (auto simp: describe_def Let_def split: prod.splits)
    then show ?thesis by (simp add: describe_params_inputs_mono)
  qed (use Cons in simp)
qed simp

lemma parse_args_loop_encoded:
  assumes "list_all wf_param ps"
  shows "parse_args_loop soc (pre @ enc_params ps @ post) (length pre + length (enc_params ps)) (length pre) no m =
    Some (describe_params soc no ps m, length pre + length (enc_params ps))"
  using assms
proof (induction ps arbitrary: pre no m)
  case Nil
  then show ?case by (subst parse_args_loop.simps) (simp add: enc_params_def)
next
  case (Cons p ps)
  let ?md = "pre @ enc_params (p # ps) @ post"
  have md: "?md = pre @ enc_param p @ (enc_params ps @ post)" by (simp add: enc_params_def)
  have md': "?md = (pre @ enc_param p) @ enc_params ps @ post" by (simp add: enc_params_def)
  have len: "length (enc_params (p # ps)) = length (enc_param p) + length (enc_params ps)"
    by (simp add: enc_params_def)
  have big: "length (enc_param p) \<ge> 12" by (cases p) (simp add: length_enc_param)
  have ne: "enc_param p \<noteq> []" using big by auto
  have step: "parse_entry soc ?md (length pre) no m =
      Some (Entry (describe soc no p m) (length (pre @ enc_param p)))"
    unfolding md using parse_entry_encoded Cons.prems by simp
  have "parse_args_loop soc ?md (length pre + length (enc_params (p # ps))) (length pre) no m =
      parse_args_loop soc ?md (length (pre @ enc_param p) + length (enc_params ps)) (length (pre @ enc_param p)) (no + 1)
        (describe soc no p m)"
    by (subst parse_args_loop.simps) (use step big ne in \<open>simp add: len add.assoc\<close>)
  also have "\<dots> = Some (describe_params soc (no + 1) ps (describe soc no p m),
      length (pre @ enc_param p) + length (enc_params ps))"
    unfolding md' using Cons.prems by (intro Cons.IH) simp
  finally show ?case by (simp add: len add.assoc)
qed

lemma ParseKernelArgs_encoded:
  assumes "list_all wf_param ps" "length (enc_params ps) < 2 ^ 16"
  shows "ParseKernelArgs soc (pre @ le_enc2 (length (enc_params ps)) @ enc_params ps @ post) (length pre) m =
    Some (describe_params soc 0 ps m, length pre + 2 + length (enc_params ps))"
  using parse_args_loop_encoded [OF assms(1), of soc "pre @ le_enc2 (length (enc_params ps))" post 0 m]
    le16_enc [OF assms(2), of "enc_params ps @ post"]
  by (simp add: ParseKernelArgs_def Let_def le_enc2_def add.commute add.left_commute)

lemma enc_section_length: "4 \<le> length (enc_section s)"
  by (cases s) (auto simp: le_enc2_def)

lemma parse_loop_section:
  assumes "wf_section s"
  shows "parse_loop soc (pre @ enc_section s @ post) (length pre) m =
    parse_loop soc (pre @ enc_section s @ post) (length pre + length (enc_section s)) (describe_sections soc [s] m)"
proof (cases s)
  case (Dfx ps)
  let ?md = "pre @ enc_section s @ post"
  have md: "?md = (pre @ le_enc2 4) @ le_enc2 (length (enc_params ps)) @ enc_params ps @ post" by (simp add: Dfx)
  have l: "length (le_enc2 n) = 2" for n by (simp add: le_enc2_def)
  have "le16 ?md (length pre) = Some 4"
    using le16_enc [of 4 "le_enc2 (length (enc_params ps)) @ enc_params ps @ post"] by (simp add: Dfx)
  moreover have "ParseKernelArgs soc ?md (length pre + 2) m =
      Some (describe_params soc 0 ps m, length pre + length (enc_section s))"
    using ParseKernelArgs_encoded [of ps soc "pre @ le_enc2 4" post m] assms
    unfolding md by (simp add: Dfx l)
  moreover have "om_inputParamsAddrInfos (describe_params soc 0 ps m) \<noteq> []"
    using describe_params_inputs assms by (simp add: Dfx)
  moreover have "length pre + 4 \<le> length ?md" using enc_section_length [of s] by simp
  ultimately show ?thesis
    by (subst parse_loop.simps) (simp add: Dfx l)
next
  case (Other ty payload)
  let ?md = "pre @ enc_section s @ post"
  have l: "length (le_enc2 n) = 2" for n by (simp add: le_enc2_def)
  have t: "le16 ?md (length pre) = Some ty"
    using le16_enc [of ty "le_enc2 (length payload) @ payload @ post"] assms by (simp add: Other)
  have n: "le16 ?md (length pre + 2) = Some (length payload)"
    using le16_enc [of "length payload" "payload @ post"] le16_append [of "pre @ le_enc2 ty" _ 0] assms
    by (simp add: Other l)
  have i: "length pre + 4 + length payload = length pre + length (enc_section s)"
    by (simp add: Other l)
  have "length pre + 4 \<le> length ?md" using enc_section_length [of s] by simp
  then have "parse_loop soc ?md (length pre) m =
      parse_loop soc ?md (length pre + 4 + length payload) (describe_sections soc [s] m)"
    by (subst parse_loop.simps) (use t n assms in \<open>simp add: Other l\<close>)
  then show ?thesis unfolding i .
qed

lemma parse_loop_sections:
  assumes "list_all wf_section ss"
  shows "parse_loop soc (pre @ concat (map enc_section ss)) (length pre) m = Some (True, describe_sections soc ss m)"
  using assms
proof (induction ss arbitrary: pre m)
  case Nil
  then show ?case by (subst parse_loop.simps) auto
next
  case (Cons s ss)
  have "describe_sections soc (s # ss) m = describe_sections soc ss (describe_sections soc [s] m)"
    by (cases s) auto
  then show ?case
    using Cons.IH [of "pre @ enc_section s" "describe_sections soc [s] m"] Cons.prems
      parse_loop_section [of s soc pre "concat (map enc_section ss)" m]
    by simp
qed



text \<open>
  The parser reads outside a section whose last parameter stops after its word count. Its
  loop checks that eight bytes are left, but the types are read at the offsets 8 to 11: a
  parameter header of 8 to 11 bytes at the end of the section passes the check and the read
  leaves the vector, whatever the words it announces.
\<close>

theorem meta_header_overread:
  assumes "length hdr = 8" "be16 hdr 2 = Some n" "n \<noteq> 0" "0 < dfxLen" "dfxLen < 2 ^ 16"
  shows "Parse soc (le_enc2 4 @ le_enc2 dfxLen @ hdr) = None"
proof -
  let ?md = "le_enc2 4 @ le_enc2 dfxLen @ hdr"
  have l: "length (le_enc2 n) = 2" for n by (simp add: le_enc2_def)
  have t: "le16 ?md 0 = Some 4" using le16_enc [of 4] by simp
  have d: "le16 ?md 2 = Some dfxLen"
    using le16_append [of "le_enc2 4" "le_enc2 dfxLen @ hdr" 0] le16_enc [OF assms(5)] by (simp add: l)
  have n: "be16 ?md (4 + 2) = Some n"
    using be16_append [of "le_enc2 4 @ le_enc2 dfxLen" hdr 2] assms(2) by (simp add: l)
  have "be16 ?md (4 + 4 + 6) = None"
    using assms(1) by (simp add: be16_def byte_at_def l Option.bind_eq_None_conv)
  then have "parse_entry soc ?md 4 0 om0 = None"
    unfolding parse_entry_def Let_def n bind.bind_lunit using assms(3) by simp
  then have "parse_args_loop soc ?md (dfxLen + 4) 4 0 om0 = None"
    by (subst parse_args_loop.simps) (use assms(1,4) in \<open>simp add: l\<close>)
  then have "ParseKernelArgs soc ?md 2 om0 = None"
    by (simp add: ParseKernelArgs_def d Let_def)
  then have "parse_loop soc ?md 0 om0 = None"
    by (subst parse_loop.simps) (use assms(1) t in \<open>simp add: l numeral_2_eq_2\<close>)
  moreover have "?md \<noteq> []" by (simp add: le_enc2_def)
  ultimately show ?thesis by (simp only: Parse_def if_False)
qed

theorem meta_header_overread_witness:
  "Parse ''Ascend910B1'' (le_enc2 4 @ le_enc2 8 @ [0, 0, 0, 1, 0, 0, 0, 0]) = None"
  by (rule meta_header_overread [where n = 1]) (simp_all add: be16_def byte_at_def)

end
