(* ===== verification/LaunchArgs.thy ===== *)
theory LaunchArgs
  imports Numeric Serialize
begin

text \<open>
  Models csrc/runtime/inject_helpers/LaunchArgs.cpp: the argument block of the runtime's
  launch calls, into which the tool inserts the pointer to its record memory. The block is a
  byte list; \<open>rtArgsEx_t\<close> is a record whose pointers are the contents they point at. Sizes
  and offsets are \<open>uint32_t\<close>. The flag \<open>overflowStatus\<close> is the result of
  \<open>DeviceContext::NeedOverflowStatus\<close>. \<open>None\<close> stands for the result \<open>false\<close>.
\<close>

section \<open>Data\<close>

record rtHostInputInfo =
  hi_addrOffset :: nat
  hi_dataOffset :: nat

record rtArgsEx =
  ra_args :: "bytes option"
  ra_hostInputInfo :: "rtHostInputInfo list option"
  ra_argsSize :: nat
  ra_tilingAddrOffset :: nat
  ra_tilingDataOffset :: nat
  ra_hostInputInfoNum :: nat
  ra_hasTiling :: nat
  ra_isNoNeedH2DCopy :: nat

definition PTR_SIZE :: nat where
  "PTR_SIZE = 8"

definition MAX_ALL_PARAM_SIZE :: nat where
  "MAX_ALL_PARAM_SIZE = 1 * 1024 * 1024 * 1024"

text \<open>\<open>std::copy_n\<close> into a vector at an offset, and \<open>resize(n, 0)\<close>.\<close>

definition overlay :: "bytes \<Rightarrow> nat \<Rightarrow> bytes \<Rightarrow> bytes" where
  "overlay v off bs = take off v @ bs @ drop (off + length bs) v"

definition resize0 :: "nat \<Rightarrow> bytes \<Rightarrow> bytes" where
  "resize0 n v = take n v @ replicate (n - length v) 0"

section \<open>Operations\<close>

definition FillArgsWithMemInfo :: "rtArgsEx \<Rightarrow> bytes \<Rightarrow> ptr \<Rightarrow> nat \<Rightarrow> (bytes \<times> nat) option" where
  \<comment> \<open>the filled block and the offset of the pointer\<close>
  "FillArgsWithMemInfo argsInfo argsWithMemInfo memInfo headSize =
     (if headSize > ra_argsSize argsInfo then None
      else
        let alignHeadSize = GetAlignSize headSize;
            args = the (ra_args argsInfo);
            v = resize0 (wrap32 (ra_argsSize argsInfo + alignHeadSize - headSize) + PTR_SIZE) argsWithMemInfo;
            v = overlay v 0 (take headSize args);
            v = overlay v alignHeadSize (le_bytes PTR_SIZE memInfo);
            v = overlay v (alignHeadSize + PTR_SIZE) (take (ra_argsSize argsInfo - headSize) (drop headSize args)) in
        Some (v, alignHeadSize))"

definition GetKernelParamNum_ex :: "rtArgsEx option \<Rightarrow> nat" where
  "GetKernelParamNum_ex argsInfo =
     (case argsInfo of
        None \<Rightarrow> 0
      | Some a \<Rightarrow>
          if ra_hasTiling a = 0 then
            (case ra_hostInputInfo a of
               Some hs \<Rightarrow> hi_dataOffset (hd hs) div PTR_SIZE
             | None \<Rightarrow> GetAlignSize (ra_argsSize a) div PTR_SIZE)
          else ra_tilingAddrOffset a div PTR_SIZE + 1)"

definition GetKernelParamNum :: "nat \<Rightarrow> nat" where
  "GetKernelParamNum argsSize = GetAlignSize argsSize div PTR_SIZE"

definition head_size :: "bool \<Rightarrow> rtArgsEx \<Rightarrow> nat" where
  \<comment> \<open>the end of the pointer area of a launch with tiling\<close>
  "head_size overflowStatus a =
     (let h = wrap32 (ra_tilingAddrOffset a + PTR_SIZE) in
      if overflowStatus then wrap32 (h + PTR_SIZE) else h)"

definition GetArgsSize :: "bool \<Rightarrow> rtArgsEx \<Rightarrow> nat" where
  "GetArgsSize overflowStatus a =
     (if ra_hasTiling a = 0 then
        (case ra_hostInputInfo a of
           Some hs \<Rightarrow> GetAlignSize (hi_dataOffset (hd hs))
         | None \<Rightarrow> GetAlignSize (ra_argsSize a))
      else GetAlignSize (head_size overflowStatus a))"

definition fill_args :: "bool \<Rightarrow> rtArgsEx \<Rightarrow> ptr \<Rightarrow> (bytes \<times> nat \<times> rtArgsEx) option" where
  \<comment> \<open>the three cases of \<open>ExpandArgs\<close>: block, pointer offset, and \<open>newArgInfo\<close> so far\<close>
  "fill_args overflowStatus a memInfo =
     (if ra_hasTiling a = 0 then
        (case ra_hostInputInfo a of
           Some hs \<Rightarrow>
             map_option (\<lambda>(v, off). (v, off, a)) (FillArgsWithMemInfo a [] memInfo (hi_dataOffset (hd hs)))
         | None \<Rightarrow>
             let alignArgsSize = GetAlignSize (ra_argsSize a);
                 v = resize0 (alignArgsSize + PTR_SIZE) [];
                 v = overlay v 0 (take (ra_argsSize a) (the (ra_args a)));
                 v = overlay v alignArgsSize (le_bytes PTR_SIZE memInfo) in
             Some (v, alignArgsSize, a))
      else
        map_option (\<lambda>(v, off). (v, off, a\<lparr>ra_tilingDataOffset := wrap32 (ra_tilingDataOffset a + PTR_SIZE)\<rparr>))
          (FillArgsWithMemInfo a [] memInfo (head_size overflowStatus a)))"

definition shift_inputs :: "rtArgsEx \<Rightarrow> rtHostInputInfo list" where
  \<comment> \<open>the loop over the host inputs; without a pointer the entries stay zero\<close>
  "shift_inputs a =
     (case ra_hostInputInfo a of
        Some hs \<Rightarrow>
          map (\<lambda>h. \<lparr>hi_addrOffset = hi_addrOffset h, hi_dataOffset = wrap32 (hi_dataOffset h + PTR_SIZE)\<rparr>)
            (take (ra_hostInputInfoNum a) hs)
      | None \<Rightarrow> replicate (ra_hostInputInfoNum a) \<lparr>hi_addrOffset = 0, hi_dataOffset = 0\<rparr>)"

definition ExpandArgs_ex :: "bool \<Rightarrow> rtArgsEx \<Rightarrow> ptr \<Rightarrow> (rtArgsEx \<times> nat) option" where
  \<comment> \<open>the new \<open>argsInfo\<close> and the offset of the pointer\<close>
  "ExpandArgs_ex overflowStatus a memInfo =
     (if memInfo = 0 then None
      else if ra_args a = None \<or> ra_isNoNeedH2DCopy a = 1 then None
      else if ra_argsSize a > MAX_ALL_PARAM_SIZE then None
      else
        case fill_args overflowStatus a memInfo of
          None \<Rightarrow> None
        | Some (v, memInfoOffset, new) \<Rightarrow>
            Some (new\<lparr>ra_args := Some v, ra_argsSize := wrap32 (length v),
                     ra_hostInputInfo := Some (shift_inputs a)\<rparr>, memInfoOffset))"

definition ExpandArgs :: "bytes \<Rightarrow> nat \<Rightarrow> bytes \<Rightarrow> ptr \<Rightarrow> (bytes \<times> nat) option" where
  \<comment> \<open>the block, its size, the scratch vector (not cleared) and the pointer\<close>
  "ExpandArgs args argsSize argsWithMemInfo memInfo =
     (if memInfo = 0 then None
      else if argsSize > MAX_ALL_PARAM_SIZE then None
      else
        let alignArgsSize = GetAlignSize argsSize;
            v = resize0 (alignArgsSize + PTR_SIZE) argsWithMemInfo;
            v = overlay v 0 (take argsSize args);
            v = overlay v alignArgsSize (le_bytes PTR_SIZE memInfo) in
        Some (v, wrap32 (length v)))"

section \<open>Layout lemmas\<close>

lemma length_resize0 [simp]: "length (resize0 n v) = n"
  by (simp add: resize0_def)

lemma resize0_Nil [simp]: "resize0 n [] = replicate n 0"
  by (simp add: resize0_def)

lemma length_overlay [simp]: "off + length bs \<le> length v \<Longrightarrow> length (overlay v off bs) = length v"
  by (simp add: overlay_def)

lemma overlay_at: "length xs = off \<Longrightarrow> overlay (xs @ ys) off bs = xs @ bs @ drop (length bs) ys"
  by (simp add: overlay_def)

lemma align_bounds:
  assumes "n \<le> MAX_ALL_PARAM_SIZE"
  shows "n \<le> GetAlignSize n" "GetAlignSize n < n + 8" "8 dvd GetAlignSize n"
proof -
  have "n + 8 \<le> 2 ^ 32" using assms by (simp add: MAX_ALL_PARAM_SIZE_def)
  then show "n \<le> GetAlignSize n" "GetAlignSize n < n + 8" "8 dvd GetAlignSize n"
    by (rule args_align.up_ge args_align.up_tight args_align.up_dvd)+
qed

text \<open>The block that \<open>FillArgsWithMemInfo\<close> builds.\<close>

lemma FillArgs_layout:
  assumes "ra_args a = Some args" and "ra_argsSize a \<le> length args" and "headSize \<le> ra_argsSize a"
    and "ra_argsSize a \<le> MAX_ALL_PARAM_SIZE"
  shows "FillArgsWithMemInfo a [] memInfo headSize = Some
    (take headSize args @ replicate (GetAlignSize headSize - headSize) 0 @ le_bytes 8 memInfo @
       take (ra_argsSize a - headSize) (drop headSize args), GetAlignSize headSize)"
proof -
  let ?n = "ra_argsSize a" and ?A = "GetAlignSize headSize"
  have b: "headSize \<le> ?A" "?A < headSize + 8" using align_bounds [of headSize] assms by auto
  have w: "wrap32 (?n + ?A - headSize) = ?n + (?A - headSize)"
    using assms b by (simp add: wrap32_small MAX_ALL_PARAM_SIZE_def)
  have len: "length (take headSize args) = headSize" "length (take (?n - headSize) (drop headSize args)) = ?n - headSize"
    using assms by auto
  have "overlay (overlay (overlay (replicate (?n + (?A - headSize) + 8) 0) 0 (take headSize args)) ?A (le_bytes 8 memInfo))
      (?A + 8) (take (?n - headSize) (drop headSize args)) =
    take headSize args @ replicate (?A - headSize) 0 @ le_bytes 8 memInfo @ take (?n - headSize) (drop headSize args)"
    (is "overlay (overlay (overlay ?v 0 ?h) ?A ?p) _ ?t = _")
  proof -
    have 1: "overlay ?v 0 ?h = ?h @ replicate (?A - headSize) 0 @ replicate (?n - headSize + 8) 0"
    proof -
      have "?n + (?A - headSize) + 8 - headSize = (?A - headSize) + (?n - headSize + 8)"
        using assms b by simp
      then have "replicate (?n + (?A - headSize) + 8 - headSize) 0 =
          replicate (?A - headSize) 0 @ replicate (?n - headSize + 8) (0 :: byte)"
        by (simp only: replicate_add)
      then show ?thesis by (simp only: overlay_def len drop_replicate take_0 append_Nil add_0)
    qed
    have A: "length (?h @ replicate (?A - headSize) 0) = ?A" using len b by simp
    have 2: "overlay (overlay ?v 0 ?h) ?A ?p =
        (?h @ replicate (?A - headSize) 0) @ ?p @ replicate (?n - headSize) 0"
      using overlay_at [OF A, of "replicate (?n - headSize + 8) 0" ?p] unfolding 1 by simp
    have B: "length (?h @ replicate (?A - headSize) 0 @ ?p) = ?A + 8" using A by simp
    show ?thesis
      using overlay_at [OF B, of "replicate (?n - headSize) 0" ?t] assms(2,3) unfolding 2
      by (simp add: len)
  qed
  then show ?thesis
    using assms w by (simp add: FillArgsWithMemInfo_def Let_def PTR_SIZE_def add.commute)
qed

section \<open>Properties\<close>

text \<open>
  C11: expanding a launch with tiling. The new block is the pointer area, padded to 8 bytes, the
  record pointer at the reported offset, and the unchanged remainder; the size field is the
  new length.
\<close>

theorem expand_tiling_layout:
  assumes "ra_args a = Some args" and "ra_argsSize a \<le> length args"
    and "ra_argsSize a \<le> MAX_ALL_PARAM_SIZE" and "ra_hasTiling a \<noteq> 0" and "memInfo \<noteq> 0"
    and "ra_isNoNeedH2DCopy a \<noteq> 1" and "h = head_size ov a" and "h \<le> ra_argsSize a"
  shows "\<exists>new off. ExpandArgs_ex ov a memInfo = Some (new, off) \<and> off = GetAlignSize h \<and>
    ra_args new = Some (take h args @ replicate (off - h) 0 @ le_bytes 8 memInfo @
      take (ra_argsSize a - h) (drop h args)) \<and>
    ra_argsSize new = length (the (ra_args new)) \<and>
    ra_tilingDataOffset new = wrap32 (ra_tilingDataOffset a + 8)"
proof -
  define v where "v = take h args @ replicate (GetAlignSize h - h) 0 @ le_bytes 8 memInfo @
      take (ra_argsSize a - h) (drop h args)"
  have b: "h \<le> GetAlignSize h" "GetAlignSize h < h + 8" using align_bounds [of h] assms by auto
  have "length v = ra_argsSize a + (GetAlignSize h - h) + 8" using assms by (simp add: v_def)
  then have w: "wrap32 (length v) = length v"
    using assms b by (simp add: wrap32_small MAX_ALL_PARAM_SIZE_def)
  have F: "FillArgsWithMemInfo a [] memInfo h = Some (v, GetAlignSize h)"
    using FillArgs_layout [OF assms(1,2) assms(8,3), of memInfo] by (simp add: v_def)
  have "ExpandArgs_ex ov a memInfo = Some (a\<lparr>ra_tilingDataOffset := wrap32 (ra_tilingDataOffset a + 8),
      ra_args := Some v, ra_argsSize := length v, ra_hostInputInfo := Some (shift_inputs a)\<rparr>, GetAlignSize h)"
    using assms(1,3-6) F by (simp add: ExpandArgs_ex_def fill_args_def PTR_SIZE_def w flip: assms(7))
  then show ?thesis by (simp add: v_def)
qed

definition tiling_ex :: rtArgsEx where
  "tiling_ex = \<lparr>ra_args = Some ([1, 1, 1, 1, 1, 1, 1, 1, 2, 2, 2, 2, 2, 2, 2, 2, 7, 8, 9]), ra_hostInputInfo = None,
     ra_argsSize = 19, ra_tilingAddrOffset = 8, ra_tilingDataOffset = 16, ra_hostInputInfoNum = 0,
     ra_hasTiling = 1, ra_isNoNeedH2DCopy = 0\<rparr>"

theorem expand_tiling_layout_witness:
  "\<exists>new off. ExpandArgs_ex False tiling_ex 258 = Some (new, off) \<and> off = 16 \<and>
    ra_args new = Some ([1, 1, 1, 1, 1, 1, 1, 1, 2, 2, 2, 2, 2, 2, 2, 2] @ [2, 1, 0, 0, 0, 0, 0, 0] @ [7, 8, 9])"
proof -
  let ?args = "[1, 1, 1, 1, 1, 1, 1, 1, 2, 2, 2, 2, 2, 2, 2, 2, 7, 8, 9 :: byte]"
  have A: "GetAlignSize 16 = 16" by (simp add: GetAlignSize_def ALIGN_SIZE_def wrap32_def)
  have "\<exists>new off. ExpandArgs_ex False tiling_ex 258 = Some (new, off) \<and> off = GetAlignSize 16 \<and>
    ra_args new = Some (take 16 ?args @ replicate (off - 16) 0 @ le_bytes 8 258 @
      take (ra_argsSize tiling_ex - 16) (drop 16 ?args)) \<and>
    ra_argsSize new = length (the (ra_args new)) \<and>
    ra_tilingDataOffset new = wrap32 (ra_tilingDataOffset tiling_ex + 8)"
    by (rule expand_tiling_layout)
      (simp_all add: tiling_ex_def MAX_ALL_PARAM_SIZE_def head_size_def PTR_SIZE_def wrap32_def)
  moreover have "le_bytes 8 258 = [2, 1, 0, 0, 0, 0, 0, 0]" by (simp add: le_bytes_numeral)
  ultimately show ?thesis by (auto simp: A tiling_ex_def)
qed

text \<open>
  the tiling data after the expansion. The tiling data moves behind the record pointer, and
  the new \<open>tilingDataOffset\<close> points at it exactly when the pointer area ends on a multiple of
  8; otherwise the data has moved by the padding as well, which the offset ignores.
\<close>

theorem tiling_data_follows:
  assumes "ra_args a = Some args" and "ra_argsSize a \<le> length args"
    and "ra_argsSize a \<le> MAX_ALL_PARAM_SIZE" and "ra_hasTiling a \<noteq> 0" and "memInfo \<noteq> 0"
    and "ra_isNoNeedH2DCopy a \<noteq> 1" and "h = head_size ov a" and "h \<le> ra_tilingDataOffset a"
    and "ra_tilingDataOffset a < ra_argsSize a" and "length args = ra_argsSize a"
  shows "\<exists>new off. ExpandArgs_ex ov a memInfo = Some (new, off) \<and>
    drop (ra_tilingDataOffset new + (GetAlignSize h - h)) (the (ra_args new)) = drop (ra_tilingDataOffset a) args \<and>
    (drop (ra_tilingDataOffset new) (the (ra_args new)) = drop (ra_tilingDataOffset a) args \<longleftrightarrow> 8 dvd h)"
proof -
  let ?o = "ra_tilingDataOffset a" and ?A = "GetAlignSize h"
  have h: "h \<le> ra_argsSize a" using assms by simp
  have b: "h \<le> ?A" "?A < h + 8" "8 dvd ?A" using align_bounds [of h] assms by auto
  obtain new off where E: "ExpandArgs_ex ov a memInfo = Some (new, off)" "off = ?A"
    "ra_args new = Some (take h args @ replicate (off - h) 0 @ le_bytes 8 memInfo @
      take (ra_argsSize a - h) (drop h args))" "ra_tilingDataOffset new = wrap32 (?o + 8)"
    using expand_tiling_layout [OF assms(1-7) h] by auto
  have o: "ra_tilingDataOffset new = ?o + 8"
    using E(4) assms by (simp add: wrap32_small MAX_ALL_PARAM_SIZE_def)
  have moved: "drop (ra_tilingDataOffset new + (?A - h)) (the (ra_args new)) = drop ?o args"
  proof -
    let ?pre = "take h args @ replicate (?A - h) 0 @ le_bytes 8 memInfo"
    have "length ?pre = ?A + 8" using assms h b by simp
    then have "drop ((?A + 8) + (?o - h)) (?pre @ take (ra_argsSize a - h) (drop h args)) =
        drop (?o - h) (take (ra_argsSize a - h) (drop h args))"
      by (simp only: drop_append) simp
    moreover have "drop (?o - h) (take (ra_argsSize a - h) (drop h args)) = drop ?o args"
      using assms by simp
    moreover have "?o + 8 + (?A - h) = (?A + 8) + (?o - h)" using assms b by simp
    ultimately show ?thesis by (simp only: E(2,3) o option.sel append_assoc)
  qed
  have al: "8 dvd h \<longleftrightarrow> ?A = h"
    using b args_align.up_aligned [of h] assms by (auto simp: MAX_ALL_PARAM_SIZE_def)
  have "drop (ra_tilingDataOffset new) (the (ra_args new)) = drop ?o args \<longleftrightarrow> ?A = h"
  proof
    assume eq: "drop (ra_tilingDataOffset new) (the (ra_args new)) = drop ?o args"
    have "length (the (ra_args new)) = ra_argsSize a + (?A - h) + 8" using assms h by (simp add: E)
    then show "?A = h" using arg_cong [OF eq, of length] b assms by (simp add: o)
  qed (use moved in simp)
  then show ?thesis using E(1) moved al by blast
qed

theorem tiling_data_follows_witness:
  "\<exists>new off. ExpandArgs_ex False tiling_ex 258 = Some (new, off) \<and>
    drop (ra_tilingDataOffset new) (the (ra_args new)) = [7, 8, 9]"
proof -
  let ?args = "[1, 1, 1, 1, 1, 1, 1, 1, 2, 2, 2, 2, 2, 2, 2, 2, 7, 8, 9 :: byte]"
  have "\<exists>new off. ExpandArgs_ex False tiling_ex 258 = Some (new, off) \<and>
    drop (ra_tilingDataOffset new + (GetAlignSize 16 - 16)) (the (ra_args new)) =
      drop (ra_tilingDataOffset tiling_ex) ?args \<and>
    (drop (ra_tilingDataOffset new) (the (ra_args new)) = drop (ra_tilingDataOffset tiling_ex) ?args
      \<longleftrightarrow> 8 dvd (16 :: nat))"
    by (rule tiling_data_follows)
      (simp_all add: tiling_ex_def MAX_ALL_PARAM_SIZE_def head_size_def PTR_SIZE_def wrap32_def)
  then show ?thesis by (auto simp: tiling_ex_def)
qed

end
