(* ===== verification/ArgsArray.thy ===== *)
theory ArgsArray
  imports LaunchArgs
begin

text \<open>
  Models csrc/runtime/inject_helpers/ArgsArrayContext.h/.cpp: the launch arguments given as an
  array of pointers to parameters, packed into one buffer by the kernel's layout. A pointer
  into the packed buffer is an offset; \<open>None\<close> is \<open>nullptr\<close>. The caller's array is a list of
  the parameters' contents, \<open>None\<close> for a null entry; a parameter's content has at least
  \<open>paramSizes[i]\<close> bytes. \<open>Save\<close> writes dump files and is left out, except for the addresses
  it reads from the buffer.
\<close>

section \<open>Operations\<close>

record ArgsArrayContext =
  ac_packed :: bytes
  ac_array :: "nat option list"
  ac_offsets :: "nat list"
  ac_sizes :: "nat list"
  ac_count :: nat
  ac_memInfoOffset :: nat
  ac_isStaticStub :: bool

definition array_align :: "nat \<Rightarrow> nat" where
  "array_align n = (n + ALIGN_SIZE - 1) div ALIGN_SIZE * ALIGN_SIZE"

definition RebuildArgsArray :: "ArgsArrayContext \<Rightarrow> ArgsArrayContext" where
  "RebuildArgsArray c =
     (if ac_packed c = [] then c\<lparr>ac_array := []\<rparr>
      else if ac_isStaticStub c then
        c\<lparr>ac_array := map (\<lambda>i. Some (ac_offsets c ! i)) [0..<ac_count c - 1] @
            [Some (ac_offsets c ! (ac_count c - 1))]\<rparr>
      else
        c\<lparr>ac_array := map (\<lambda>i. Some (ac_offsets c ! i)) [0..<ac_count c] @
            [if ac_memInfoOffset c > 0 then Some (ac_memInfoOffset c) else None]\<rparr>)"

fun pack_params :: "bytes option list \<Rightarrow> nat list \<Rightarrow> nat list \<Rightarrow> nat list \<Rightarrow> bytes \<Rightarrow> bytes option" where
  \<comment> \<open>the copying loop of \<open>Init\<close> over the indices\<close>
  "pack_params args offsets sizes [] buf = Some buf"
| "pack_params args offsets sizes (i # is) buf =
     (case args ! i of
        None \<Rightarrow> None
      | Some p \<Rightarrow> pack_params args offsets sizes is (overlay buf (offsets ! i) (take (sizes ! i) p)))"

definition packed_size :: "nat list \<Rightarrow> nat list \<Rightarrow> nat" where
  "packed_size offsets sizes = fold max (map2 (+) offsets sizes) 0"

definition ArgsArray_Create ::
  "bytes option list option \<Rightarrow> nat \<Rightarrow> nat list \<Rightarrow> nat list \<Rightarrow> bool \<Rightarrow> ArgsArrayContext option"
where
  \<comment> \<open>\<open>Create\<close> with \<open>Init\<close>\<close>
  "ArgsArray_Create args count offsets sizes isStaticStub =
     (case args of
        None \<Rightarrow> None
      | Some as \<Rightarrow>
          if count = 0 \<or> length offsets \<noteq> count \<or> length sizes \<noteq> count then None
          else
            let argsNum = (if isStaticStub then count - 1 else count) in
            map_option (\<lambda>buf. RebuildArgsArray
                \<lparr>ac_packed = buf, ac_array = [], ac_offsets = offsets, ac_sizes = sizes, ac_count = count,
                 ac_memInfoOffset = 0, ac_isStaticStub = isStaticStub\<rparr>)
              (pack_params as offsets sizes [0..<argsNum] (replicate (packed_size offsets sizes) 0)))"

definition SetLastParam :: "bytes \<Rightarrow> ArgsArrayContext \<Rightarrow> (ArgsArrayContext \<times> nat) option" where
  "SetLastParam param c =
     (let off = ac_offsets c ! (ac_count c - 1) in
      if off + length param > length (ac_packed c) then None
      else Some (RebuildArgsArray (c\<lparr>ac_packed := overlay (ac_packed c) off param, ac_memInfoOffset := off\<rparr>),
             wrap32 off))"

definition ArgsArray_ExpandArgs :: "bytes option \<Rightarrow> ArgsArrayContext \<Rightarrow> (ArgsArrayContext \<times> nat) option" where
  "ArgsArray_ExpandArgs param c =
     (case param of
        None \<Rightarrow> None
      | Some p \<Rightarrow>
          if ac_packed c = [] \<or> p = [] then None
          else if ac_isStaticStub c then SetLastParam p c
          else
            let alignSize = array_align (length (ac_packed c));
                buf = resize0 (alignSize + length p) (ac_packed c) in
            Some (RebuildArgsArray (c\<lparr>ac_packed := overlay buf alignSize p, ac_memInfoOffset := alignSize\<rparr>),
                  wrap32 alignSize))"

definition ArgsArray_GetLastParamOffset :: "ArgsArrayContext \<Rightarrow> nat" where
  "ArgsArray_GetLastParamOffset c = wrap32 (array_align (length (ac_packed c)))"

definition GetParamOffsetByParamsNo :: "nat \<Rightarrow> ArgsArrayContext \<Rightarrow> nat option" where
  "GetParamOffsetByParamsNo paramsNo c =
     (if paramsNo = 0 \<or> paramsNo > ac_count c then None else Some (ac_offsets c ! (paramsNo - 1)))"

definition GetPackedArgsSize :: "ArgsArrayContext \<Rightarrow> nat" where
  "GetPackedArgsSize c = wrap32 (length (ac_packed c))"

definition HasArgsArray :: "ArgsArrayContext \<Rightarrow> bool" where
  "HasArgsArray c \<longleftrightarrow> ac_array c \<noteq> []"

definition ArgsArray_Clone :: "ArgsArrayContext \<Rightarrow> ArgsArrayContext" where
  \<comment> \<open>the copy's pointers are rebuilt into the copy's buffer\<close>
  "ArgsArray_Clone c = RebuildArgsArray c"

definition ArgsArray_input_addrs :: "nat \<Rightarrow> nat \<Rightarrow> ArgsArrayContext \<Rightarrow> nat list option" where
  \<comment> \<open>the address loop of \<open>Save\<close>: for \<open>n\<close> inputs behind \<open>skipNum\<close> parameters\<close>
  "ArgsArray_input_addrs skipNum n c =
     (if \<forall>i \<in> set [skipNum..<skipNum + n]. i < ac_count c \<and> ac_offsets c ! i + 8 \<le> length (ac_packed c)
      then Some (map (\<lambda>i. le_val (take 8 (drop (ac_offsets c ! i) (ac_packed c)))) [skipNum..<skipNum + n])
      else None)"

section \<open>Packing\<close>

definition slot :: "bytes \<Rightarrow> nat \<Rightarrow> nat \<Rightarrow> bytes" where
  \<comment> \<open>what a kernel reads at an offset\<close>
  "slot buf off n = take n (drop off buf)"

definition disjoint_layout :: "nat list \<Rightarrow> nat list \<Rightarrow> bool" where
  "disjoint_layout offsets sizes \<longleftrightarrow> (\<forall>i < length offsets. \<forall>j < length offsets. i \<noteq> j \<longrightarrow>
     offsets ! i + sizes ! i \<le> offsets ! j \<or> offsets ! j + sizes ! j \<le> offsets ! i)"

lemma slot_overlay_same:
  assumes "off + length bs \<le> length v" and "n = length bs"
  shows "slot (overlay v off bs) off n = bs"
  using assms by (simp add: slot_def overlay_def)

lemma slot_overlay_other:
  assumes "off + length bs \<le> length v" and "o2 + n \<le> off \<or> off + length bs \<le> o2"
  shows "slot (overlay v off bs) o2 n = slot v o2 n"
proof (rule nth_equalityI)
  have len: "length (overlay v off bs) = length v" using assms(1) by simp
  then show "length (slot (overlay v off bs) o2 n) = length (slot v o2 n)" by (simp add: slot_def)
  fix i assume "i < length (slot (overlay v off bs) o2 n)"
  then have i: "i < n" "o2 + i < length v" using len by (auto simp: slot_def)
  have "overlay v off bs ! (o2 + i) = v ! (o2 + i)"
  proof (cases "o2 + i < off")
    case True
    then show ?thesis using i assms(1) by (simp add: overlay_def nth_append)
  next
    case False
    then have ge: "off + length bs \<le> o2 + i" using assms(2) i(1) by linarith
    then have "\<not> o2 + i < off" "\<not> o2 + i - off < length bs"
      "off + length bs + (o2 + i - off - length bs) = o2 + i" by linarith+
    then show ?thesis using assms(1) by (simp add: overlay_def nth_append)
  qed
  then show "slot (overlay v off bs) o2 n ! i = slot v o2 n ! i"
    using i len by (simp add: slot_def)
qed

lemma fold_max_ge: "x \<in> set xs \<or> x \<le> m \<Longrightarrow> x \<le> fold max xs m" for m x :: nat
proof (induction xs arbitrary: m)
  case (Cons y xs)
  from Cons.prems have "x \<in> set xs \<or> x \<le> max y m" by auto
  then show ?case using Cons.IH by simp
qed simp

lemma packed_size_ge:
  assumes "i < length offsets" and "length sizes = length offsets"
  shows "offsets ! i + sizes ! i \<le> packed_size offsets sizes"
  unfolding packed_size_def
proof (rule fold_max_ge, rule disjI1)
  have "i < length (map2 (+) offsets sizes)" using assms by simp
  then have "map2 (+) offsets sizes ! i \<in> set (map2 (+) offsets sizes)" by (rule nth_mem)
  then show "offsets ! i + sizes ! i \<in> set (map2 (+) offsets sizes)" using assms by simp
qed

lemma pack_params_result:
  assumes "length sizes = length offsets" and "disjoint_layout offsets sizes"
    and "\<forall>i < length offsets. offsets ! i + sizes ! i \<le> length buf"
    and "\<forall>i \<in> set is. i < length offsets \<and> (\<exists>p. args ! i = Some p \<and> sizes ! i \<le> length p)"
    and "distinct is"
  shows "\<exists>buf'. pack_params args offsets sizes is buf = Some buf' \<and> length buf' = length buf \<and>
    (\<forall>i < length offsets. slot buf' (offsets ! i) (sizes ! i) =
       (if i \<in> set is then take (sizes ! i) (the (args ! i)) else slot buf (offsets ! i) (sizes ! i)))"
  using assms(3-5)
proof (induction "is" arbitrary: buf)
  case Nil
  then show ?case by simp
next
  case (Cons k ks)
  from Cons.prems obtain p where k: "k < length offsets" "args ! k = Some p" "sizes ! k \<le> length p" by auto
  let ?bs = "take (sizes ! k) p"
  let ?buf = "overlay buf (offsets ! k) ?bs"
  have fits: "offsets ! k + length ?bs \<le> length buf" using Cons.prems(1) k by simp
  then have len: "length ?buf = length buf" by simp
  from Cons.IH [of ?buf] Cons.prems obtain buf' where
    B: "pack_params args offsets sizes ks ?buf = Some buf'" "length buf' = length buf"
      "\<forall>i < length offsets. slot buf' (offsets ! i) (sizes ! i) =
       (if i \<in> set ks then take (sizes ! i) (the (args ! i)) else slot ?buf (offsets ! i) (sizes ! i))"
    by (auto simp: len)
  have "slot ?buf (offsets ! i) (sizes ! i) =
      (if i = k then ?bs else slot buf (offsets ! i) (sizes ! i))" if "i < length offsets" for i
  proof (cases "i = k")
    case True
    then show ?thesis using slot_overlay_same [OF fits] k by simp
  next
    case False
    then have "offsets ! i + sizes ! i \<le> offsets ! k \<or> offsets ! k + length ?bs \<le> offsets ! i"
      using assms(2) that k by (auto simp: disjoint_layout_def)
    then show ?thesis using slot_overlay_other [OF fits] False by simp
  qed
  then show ?case using B k by (intro exI [of _ buf']) auto
qed

section \<open>Properties\<close>

definition args_ok :: "bytes option list \<Rightarrow> nat list \<Rightarrow> nat list \<Rightarrow> bool" where
  \<comment> \<open>non-null parameters of at least their size, on a layout without overlaps\<close>
  "args_ok args offsets sizes \<longleftrightarrow> length sizes = length offsets \<and> offsets \<noteq> [] \<and>
     (\<exists>s \<in> set sizes. 0 < s) \<and> disjoint_layout offsets sizes \<and> length args = length offsets \<and>
     (\<forall>i < length offsets. \<exists>p. args ! i = Some p \<and> sizes ! i \<le> length p)"

lemma packed_size_pos:
  assumes "length sizes = length offsets" and "\<exists>s \<in> set sizes. 0 < s"
  shows "0 < packed_size offsets sizes"
proof -
  obtain i where "i < length offsets" "0 < sizes ! i" using assms by (metis in_set_conv_nth)
  then show ?thesis using packed_size_ge [of i offsets sizes] assms(1) by linarith
qed

lemma Create_ok:
  assumes "args_ok args offsets sizes"
  shows "\<exists>buf. ArgsArray_Create (Some args) (length offsets) offsets sizes False =
      Some (RebuildArgsArray \<lparr>ac_packed = buf, ac_array = [], ac_offsets = offsets, ac_sizes = sizes,
        ac_count = length offsets, ac_memInfoOffset = 0, ac_isStaticStub = False\<rparr>) \<and>
    length buf = packed_size offsets sizes \<and> 0 < length buf \<and>
    (\<forall>i < length offsets. slot buf (offsets ! i) (sizes ! i) = take (sizes ! i) (the (args ! i)))"
proof -
  have l: "length sizes = length offsets" "disjoint_layout offsets sizes"
    and a: "\<forall>i \<in> set [0..<length offsets]. i < length offsets \<and> (\<exists>p. args ! i = Some p \<and> sizes ! i \<le> length p)"
    and s: "\<exists>s \<in> set sizes. 0 < s" and ne: "offsets \<noteq> []"
    using assms by (auto simp: args_ok_def)
  have fits: "\<forall>i < length offsets. offsets ! i + sizes ! i \<le>
      length (replicate (packed_size offsets sizes) (0 :: byte))"
    using packed_size_ge [OF _ l(1)] by simp
  from pack_params_result [OF l fits a] obtain buf where
    "pack_params args offsets sizes [0..<length offsets] (replicate (packed_size offsets sizes) 0) = Some buf"
    "length buf = packed_size offsets sizes"
    "\<forall>i < length offsets. slot buf (offsets ! i) (sizes ! i) = take (sizes ! i) (the (args ! i))"
    by auto
  then show ?thesis
    using packed_size_pos [OF l(1) s] l(1) ne by (auto simp: ArgsArray_Create_def)
qed

text \<open>
  launch arguments as an array, with the record pointer appended. After packing and
  expanding, entry \<open>i\<close> of the new array points at the caller's parameter \<open>i\<close>, the last entry
  points at the record pointer, its offset is a multiple of 8 and is the one that
  \<open>GetLastParamOffset\<close> announced.
\<close>

theorem args_array_expand:
  assumes "args_ok args offsets sizes" and "ArgsArray_Create (Some args) (length offsets) offsets sizes False = Some c"
    and "param \<noteq> []" and "packed_size offsets sizes < 2 ^ 32 - 8"
  shows "\<exists>c' off. ArgsArray_ExpandArgs (Some param) c = Some (c', off) \<and>
    off = ArgsArray_GetLastParamOffset c \<and> 8 dvd off \<and>
    length (ac_array c') = length offsets + 1 \<and> ac_array c' ! length offsets = Some off \<and>
    slot (ac_packed c') off (length param) = param \<and>
    (\<forall>i < length offsets. ac_array c' ! i = Some (offsets ! i) \<and>
       slot (ac_packed c') (offsets ! i) (sizes ! i) = take (sizes ! i) (the (args ! i)))"
proof -
  from Create_ok [OF assms(1)] obtain buf where cr:
    "ArgsArray_Create (Some args) (length offsets) offsets sizes False =
      Some (RebuildArgsArray \<lparr>ac_packed = buf, ac_array = [], ac_offsets = offsets, ac_sizes = sizes,
        ac_count = length offsets, ac_memInfoOffset = 0, ac_isStaticStub = False\<rparr>)"
    and len: "length buf = packed_size offsets sizes" "0 < length buf"
    and slots: "\<forall>i < length offsets. slot buf (offsets ! i) (sizes ! i) = take (sizes ! i) (the (args ! i))"
    by blast
  have c: "c = RebuildArgsArray \<lparr>ac_packed = buf, ac_array = [], ac_offsets = offsets, ac_sizes = sizes,
        ac_count = length offsets, ac_memInfoOffset = 0, ac_isStaticStub = False\<rparr>"
    using cr assms(2) by simp
  let ?al = "array_align (length buf)"
  have al: "length buf \<le> ?al" "?al < length buf + 8" "8 dvd ?al"
    using ceil_core [of 8 "length buf"] by (auto simp: array_align_def ALIGN_SIZE_def)
  have w: "wrap32 ?al = ?al" using al len assms(4) by (simp add: wrap32_small)
  let ?b2 = "overlay (resize0 (?al + length param) buf) ?al param"
  have ne: "buf \<noteq> []" using len by auto
  have len2: "length ?b2 = ?al + length param" by simp
  then have ne2: "?b2 \<noteq> []" using assms(3) by (metis add_is_0 length_0_conv)
  have keep: "slot ?b2 o2 n = slot buf o2 n" if "o2 + n \<le> length buf" for o2 n
  proof -
    have "slot ?b2 o2 n = slot (resize0 (?al + length param) buf) o2 n"
      by (rule slot_overlay_other) (use that al in auto)
    then show ?thesis using that al by (simp add: slot_def resize0_def)
  qed
  have last: "slot ?b2 ?al (length param) = param"
    by (rule slot_overlay_same) simp_all
  have fits: "offsets ! i + sizes ! i \<le> length buf" if "i < length offsets" for i
    using packed_size_ge [OF that, of sizes] assms(1) len by (simp add: args_ok_def)
  let ?c' = "RebuildArgsArray (c\<lparr>ac_packed := ?b2, ac_memInfoOffset := ?al\<rparr>)"
  have E: "ArgsArray_ExpandArgs (Some param) c = Some (?c', ?al)"
    using ne assms(3) w by (simp add: ArgsArray_ExpandArgs_def c RebuildArgsArray_def Let_def)
  have arr: "ac_array ?c' = map (\<lambda>i. Some (offsets ! i)) [0..<length offsets] @ [Some ?al]"
    and pk: "ac_packed ?c' = ?b2"
    using ne ne2 al len by (auto simp: c RebuildArgsArray_def)
  have "?al = ArgsArray_GetLastParamOffset c"
    using ne by (simp add: ArgsArray_GetLastParamOffset_def c RebuildArgsArray_def w)
  then show ?thesis
    using E al(3) arr pk last keep fits slots by (intro exI [of _ ?c'] exI [of _ ?al]) (simp add: nth_append)
qed

theorem args_array_expand_witness:
  "\<exists>c c' off. ArgsArray_Create (Some [Some [1, 2, 3, 4], Some [5, 6]]) 2 [0, 8] [4, 2] False = Some c \<and>
    ArgsArray_ExpandArgs (Some [9, 9]) c = Some (c', off) \<and> off = 16 \<and>
    ac_array c' = [Some 0, Some 8, Some 16] \<and>
    ac_packed c' = [1, 2, 3, 4, 0, 0, 0, 0, 5, 6, 0, 0, 0, 0, 0, 0, 9, 9]"
proof -
  let ?c = "RebuildArgsArray \<lparr>ac_packed = [1, 2, 3, 4, 0, 0, 0, 0, 5, 6], ac_array = [], ac_offsets = [0, 8],
    ac_sizes = [4, 2], ac_count = 2, ac_memInfoOffset = 0, ac_isStaticStub = False\<rparr>"
  have c: "ArgsArray_Create (Some [Some [1, 2, 3, 4], Some [5, 6]]) (length [0, 8 :: nat]) [0, 8] [4, 2] False = Some ?c"
    by (simp add: ArgsArray_Create_def packed_size_def overlay_def eval_nat_numeral)
  have ok: "args_ok [Some [1, 2, 3, 4], Some [5, 6]] [0, 8] [4, 2]"
    by (auto simp: args_ok_def disjoint_layout_def less_Suc_eq numeral_2_eq_2)
  have "packed_size [0, 8] [4, 2] < 2 ^ 32 - 8" by (simp add: packed_size_def)
  from args_array_expand [OF ok c _ this, of "[9, 9]"]
  obtain c' off where "ArgsArray_ExpandArgs (Some [9, 9]) ?c = Some (c', off)" by auto
  moreover have w: "wrap32 16 = 16" by (simp add: wrap32_def)
  have "ArgsArray_ExpandArgs (Some [9, 9]) ?c = Some (RebuildArgsArray (?c\<lparr>ac_packed :=
      [1, 2, 3, 4, 0, 0, 0, 0, 5, 6, 0, 0, 0, 0, 0, 0, 9, 9], ac_memInfoOffset := 16\<rparr>), 16)"
    by (simp add: ArgsArray_ExpandArgs_def RebuildArgsArray_def array_align_def ALIGN_SIZE_def resize0_def
        overlay_def w, simp add: eval_nat_numeral)
  ultimately show ?thesis
    using c by (auto simp: RebuildArgsArray_def numeral_2_eq_2)
qed

end
