(* ===== verification/ArgsRaw.thy ===== *)
theory ArgsRaw
  imports LaunchArgs Device
begin

text \<open>
  Models csrc/runtime/inject_helpers/ArgsRawContext.h/.cpp: the argument block of a launch as
  one buffer, on the host or on the device, and the insertion of a parameter into it.

  The pointer \<open>args_\<close> may refer to the caller's memory, to one of the context's own two
  buffers or to device memory, and the behaviour depends on which: it is a datatype. The
  caller's block is its content. A call gives \<open>None\<close> where the C++ behaviour is undefined (a
  null or dangling source, an insertion behind the end). \<open>overflowStatus\<close> is the result of
  \<open>DeviceContext::NeedOverflowStatus\<close>. \<open>Save\<close> writes dump files and is left out.
\<close>

section \<open>State\<close>

datatype args_ptr = Null | Caller bytes | OwnCopy | OwnExpanded | Dev ptr

record aclrtPlaceHolderInfo =
  pl_addrOffset :: nat
  pl_dataOffset :: nat

record ArgsRawContext =
  rc_args :: args_ptr
  rc_argsSize :: nat
  rc_isDeviceArgs :: bool
  rc_needFree :: bool
  rc_argsWithMemInfo :: bytes
  rc_argsCopy :: bytes
  rc_placeHolderArray :: "aclrtPlaceHolderInfo list"

definition new_ArgsRawContext :: "args_ptr \<Rightarrow> nat \<Rightarrow> bool \<Rightarrow> ArgsRawContext" where
  "new_ArgsRawContext args argsSize isDeviceArgs =
     \<lparr>rc_args = args, rc_argsSize = argsSize, rc_isDeviceArgs = isDeviceArgs, rc_needFree = False,
      rc_argsWithMemInfo = [], rc_argsCopy = [], rc_placeHolderArray = []\<rparr>"

definition new_ArgsRawContext_placeholders :: "bytes option \<Rightarrow> nat \<Rightarrow> aclrtPlaceHolderInfo list \<Rightarrow> ArgsRawContext" where
  "new_ArgsRawContext_placeholders args argsSize phs =
     (case args of
        Some b \<Rightarrow>
          if argsSize > 0
            then (new_ArgsRawContext OwnCopy argsSize False)
                   \<lparr>rc_argsCopy := take argsSize b, rc_placeHolderArray := phs\<rparr>
          else (new_ArgsRawContext (Caller b) argsSize False)\<lparr>rc_placeHolderArray := phs\<rparr>
      | None \<Rightarrow> (new_ArgsRawContext Null argsSize False)\<lparr>rc_placeHolderArray := phs\<rparr>)"

definition host_content :: "ArgsRawContext \<Rightarrow> bytes option" where
  \<comment> \<open>what the host pointer points at\<close>
  "host_content c =
     (case rc_args c of
        Caller b \<Rightarrow> Some b
      | OwnCopy \<Rightarrow> Some (rc_argsCopy c)
      | OwnExpanded \<Rightarrow> Some (rc_argsWithMemInfo c)
      | _ \<Rightarrow> None)"

section \<open>Operations\<close>

definition tiling_placeholder :: "aclrtPlaceHolderInfo list \<Rightarrow> aclrtPlaceHolderInfo" where
  "tiling_placeholder phs =
     foldl (\<lambda>t p. if pl_addrOffset p > pl_addrOffset t then p else t) \<lparr>pl_addrOffset = 0, pl_dataOffset = 0\<rparr> phs"

definition Raw_GetTilingData :: "ArgsRawContext \<Rightarrow> nat \<Rightarrow> bytes option option" where
  \<comment> \<open>\<open>n\<close> is the size of the caller's vector; the outer option is undefined behaviour, the
    inner one the result \<open>false\<close>\<close>
  "Raw_GetTilingData c n =
     (if rc_placeHolderArray c = [] \<or> n = 0 then Some None
      else
        case host_content c of
          None \<Rightarrow> None
        | Some buff \<Rightarrow>
            let off = pl_dataOffset (tiling_placeholder (rc_placeHolderArray c)) in
            if off + n \<le> length buff then Some (Some (take n (drop off buff))) else None)"

definition FreeArgs :: "'w acl_api \<Rightarrow> ArgsRawContext \<Rightarrow> 'w \<Rightarrow> ArgsRawContext \<times> 'w" where
  "FreeArgs api c w =
     (case rc_args c of
        Dev p \<Rightarrow>
          if rc_needFree c then (c\<lparr>rc_args := Null, rc_needFree := False\<rparr>, snd (api_free api p w)) else (c, w)
      | _ \<Rightarrow> (c, w))"

definition lastAddrOffset :: "aclrtPlaceHolderInfo list \<Rightarrow> nat" where
  "lastAddrOffset phs = foldl (\<lambda>m p. max m (pl_addrOffset p)) 0 phs"

definition after_placeholders :: "bool \<Rightarrow> aclrtPlaceHolderInfo list \<Rightarrow> nat" where
  \<comment> \<open>the slot behind the last placeholder's address\<close>
  "after_placeholders overflowStatus phs =
     (let off = wrap32 (lastAddrOffset phs + 8) in
      if overflowStatus then wrap32 (off + 8) else off)"

definition shift_placeholder :: "nat \<Rightarrow> aclrtPlaceHolderInfo \<Rightarrow> aclrtPlaceHolderInfo" where
  "shift_placeholder n p = p\<lparr>pl_dataOffset := wrap32 (pl_dataOffset p + n)\<rparr>"

definition load_args :: "'w acl_api \<Rightarrow> ArgsRawContext \<Rightarrow> 'w \<Rightarrow> (bytes \<times> 'w) option" where
  \<comment> \<open>the zero-filled buffer with the current arguments copied in; a source inside the buffer
    itself has just been overwritten with zeros, or freed when the buffer had to grow\<close>
  "load_args api c w =
     (let n = rc_argsSize c; buf = replicate (CeilByAlignSize32 8 n) 0 in
      if rc_isDeviceArgs c then
        (case rc_args c of
           Dev p \<Rightarrow>
             let ((e, bs), w) = api_read api p n w in
             Some (if e = ACL_SUCCESS then overlay buf 0 bs else buf, w)
         | _ \<Rightarrow> None)
      else
        case rc_args c of
          OwnExpanded \<Rightarrow>
            if length buf \<le> length (rc_argsWithMemInfo c) then Some (buf, snd (api_copyHost api (take n buf) w))
            else None
        | _ \<Rightarrow>
            (case host_content c of
               None \<Rightarrow> None
             | Some src \<Rightarrow>
                 let ((e, bs), w) = api_copyHost api (take n src) w in
                 Some (if e = ACL_SUCCESS then overlay buf 0 bs else buf, w)))"

definition insert_offset :: "bool \<Rightarrow> nat option \<Rightarrow> aclrtPlaceHolderInfo list \<Rightarrow> bytes \<Rightarrow> nat" where
  "insert_offset overflowStatus insertAt phs buf =
     (case insertAt of
        Some at \<Rightarrow> at
      | None \<Rightarrow> if phs = [] then wrap32 (length buf) else after_placeholders overflowStatus phs)"

definition InsertParam ::
  "'w acl_api \<Rightarrow> bool \<Rightarrow> bytes \<Rightarrow> nat option \<Rightarrow> ArgsRawContext \<Rightarrow> 'w \<Rightarrow> ((bool \<times> nat) \<times> ArgsRawContext \<times> 'w) option"
where
  \<comment> \<open>\<open>insertAt\<close> is \<open>Some\<close> for a fixed insertion point; the result is success and \<open>paramOffset\<close>\<close>
  "InsertParam api overflowStatus param insertAt c w =
     (if rc_argsSize c > MAX_ALL_PARAM_SIZE
        then Some ((False, 0), c\<lparr>rc_argsWithMemInfo := []\<rparr>, w)
      else
        case load_args api c w of
          None \<Rightarrow> None
        | Some (buf, w) \<Rightarrow>
            let c = c\<lparr>rc_argsWithMemInfo := buf\<rparr>;
                off = insert_offset overflowStatus insertAt (rc_placeHolderArray c) buf in
            if insertAt \<noteq> None \<and> off > length buf then Some ((False, 0), c, w)
            else if off > length buf then None
            else
              let phs = map (\<lambda>p. if insertAt = None \<or> pl_dataOffset p \<ge> off
                    then shift_placeholder (length param) p else p) (rc_placeHolderArray c);
                  new = take off buf @ param @ drop off buf;
                  c = c\<lparr>rc_argsWithMemInfo := new, rc_argsSize := wrap32 (length new),
                        rc_placeHolderArray := phs\<rparr> in
              if \<not> rc_isDeviceArgs c then Some ((True, off), c\<lparr>rc_args := OwnExpanded\<rparr>, w)
              else
                let (c, w) = FreeArgs api c w;
                    ((e, p), w) = api_malloc api (rc_argsSize c) 0 w in
                if e \<noteq> ACL_SUCCESS then Some ((False, off), c, w)
                else
                  let c = c\<lparr>rc_args := Dev p, rc_needFree := True\<rparr>;
                      (e, w) = api_write api p (take (rc_argsSize c) new) w in
                  Some ((e = ACL_SUCCESS, off), c, w))"

definition Raw_ExpandArgs ::
  "'w acl_api \<Rightarrow> bool \<Rightarrow> bytes \<Rightarrow> ArgsRawContext \<Rightarrow> 'w \<Rightarrow> ((bool \<times> nat) \<times> ArgsRawContext \<times> 'w) option"
where
  "Raw_ExpandArgs api overflowStatus param c w = InsertParam api overflowStatus param None c w"

definition ExpandArgsAt ::
  "'w acl_api \<Rightarrow> bool \<Rightarrow> bytes \<Rightarrow> nat \<Rightarrow> ArgsRawContext \<Rightarrow> 'w \<Rightarrow> ((bool \<times> nat) \<times> ArgsRawContext \<times> 'w) option"
where
  "ExpandArgsAt api overflowStatus param insertOffset c w =
     InsertParam api overflowStatus param (Some insertOffset) c w"

definition Raw_GetLastParamOffset :: "bool \<Rightarrow> ArgsRawContext \<Rightarrow> nat" where
  "Raw_GetLastParamOffset overflowStatus c =
     (if rc_argsSize c > MAX_ALL_PARAM_SIZE then 0
      else if rc_placeHolderArray c = [] then CeilByAlignSize32 8 (rc_argsSize c)
      else after_placeholders overflowStatus (rc_placeHolderArray c))"

definition Raw_Clone :: "ArgsRawContext \<Rightarrow> ArgsRawContext" where
  \<comment> \<open>pointers into the context's own buffers follow the copy\<close>
  "Raw_Clone c = c"

definition ArgsRawContext_dtor :: "'w acl_api \<Rightarrow> ArgsRawContext \<Rightarrow> 'w \<Rightarrow> ArgsRawContext \<times> 'w" where
  "ArgsRawContext_dtor api c w = FreeArgs api c w"

section \<open>Inserting once\<close>

definition padded :: "ArgsRawContext \<Rightarrow> bytes \<Rightarrow> bytes" where
  \<comment> \<open>the arguments padded to a multiple of 8\<close>
  "padded c src = take (rc_argsSize c) src @ replicate (GetAlignSize (rc_argsSize c) - rc_argsSize c) 0"

lemma load_args_host:
  assumes "copyHost_law api" and "\<not> rc_isDeviceArgs c" and "rc_args c \<noteq> OwnExpanded"
    and "host_content c = Some src" and "rc_argsSize c \<le> length src"
    and "rc_argsSize c \<le> MAX_ALL_PARAM_SIZE"
  shows "load_args api c w = Some (padded c src, snd (api_copyHost api (take (rc_argsSize c) src) w))"
proof -
  let ?n = "rc_argsSize c"
  have n: "?n \<le> GetAlignSize ?n" using align_bounds [OF assms(6)] by simp
  have "fst (api_copyHost api (take ?n src) w) = (ACL_SUCCESS, take ?n src)"
    using assms(1) unfolding copyHost_law_def by blast
  moreover have "overlay (replicate (GetAlignSize ?n) 0) 0 (take ?n src) = padded c src"
    using assms(5) n by (simp add: overlay_def padded_def)
  ultimately have "(let ((e, bs), w) = api_copyHost api (take ?n src) w in
      Some (if e = ACL_SUCCESS then overlay (replicate (GetAlignSize ?n) 0) 0 bs
            else replicate (GetAlignSize ?n) 0, w))
    = Some (padded c src, snd (api_copyHost api (take ?n src) w))"
    by (simp add: Let_def case_prod_beta)
  then show ?thesis
    using assms(2-4) by (cases "rc_args c") (simp_all add: load_args_def Let_def GetAlignSize_ceil [symmetric])
qed

lemma length_padded [simp]:
  "rc_argsSize c \<le> length src \<Longrightarrow> rc_argsSize c \<le> MAX_ALL_PARAM_SIZE \<Longrightarrow>
     length (padded c src) = GetAlignSize (rc_argsSize c)"
  using align_bounds [of "rc_argsSize c"] by (simp add: padded_def)

lemma foldl_max_eq: "foldl (\<lambda>m p. max m (f p)) (k :: nat) xs = fold max (map f xs) k"
proof (induction xs arbitrary: k)
  case (Cons x xs)
  then show ?case by (simp add: max.commute)
qed simp

lemma InsertParam_host:
  assumes "copyHost_law api" and "\<not> rc_isDeviceArgs c" and "rc_args c \<noteq> OwnExpanded"
    and "host_content c = Some src" and "rc_argsSize c \<le> length src"
    and "rc_argsSize c \<le> MAX_ALL_PARAM_SIZE"
    and "off = (case at of Some k \<Rightarrow> k | None \<Rightarrow> Raw_GetLastParamOffset ov c)"
    and "off \<le> GetAlignSize (rc_argsSize c)"
  shows "\<exists>c' w'. InsertParam api ov param at c w = Some ((True, off), c', w') \<and>
    rc_args c' = OwnExpanded \<and>
    rc_argsWithMemInfo c' = take off (padded c src) @ param @ drop off (padded c src) \<and>
    rc_argsSize c' = wrap32 (GetAlignSize (rc_argsSize c) + length param) \<and>
    rc_placeHolderArray c' = map (\<lambda>p. if at = None \<or> pl_dataOffset p \<ge> off
       then shift_placeholder (length param) p else p) (rc_placeHolderArray c) \<and>
    rc_isDeviceArgs c' = False \<and> rc_needFree c' = rc_needFree c"
proof -
  have len: "length (padded c src) = GetAlignSize (rc_argsSize c)" using assms(5,6) by simp
  have "rc_argsSize c + 8 \<le> 2 ^ 32" using assms(6) by (simp add: MAX_ALL_PARAM_SIZE_def)
  then have "GetAlignSize (rc_argsSize c) < 2 ^ 32"
    using align_bounds [OF assms(6)] by linarith
  then have w: "wrap32 (GetAlignSize (rc_argsSize c)) = GetAlignSize (rc_argsSize c)"
    by (rule wrap32_small)
  have off: "insert_offset ov at (rc_placeHolderArray c) (padded c src) = off"
    using assms(6,7) by (auto simp: insert_offset_def Raw_GetLastParamOffset_def len w GetAlignSize_ceil [symmetric] split: option.splits)
  show ?thesis
    using assms(2,6,8) load_args_host [OF assms(1-6), of w] len
    by (simp add: InsertParam_def Let_def off add.commute [of "length param"] del: length_padded)
qed


definition raw_ex :: ArgsRawContext where
  \<comment> \<open>two pointers, a tiling pointer at 8 and its data at 16\<close>
  "raw_ex = new_ArgsRawContext_placeholders (Some [1, 1, 1, 1, 1, 1, 1, 1, 2, 2, 2, 2, 2, 2, 2, 2, 5, 6, 7, 8]) 20
     [\<lparr>pl_addrOffset = 8, pl_dataOffset = 16\<rparr>]"

lemmas raw_ex_simps = raw_ex_def new_ArgsRawContext_placeholders_def new_ArgsRawContext_def


text \<open>
  placeholder data after a fixed-point insertion. A placeholder whose data lies at or behind
  the insertion point, or entirely in front of it, finds the same data at its new offset.
\<close>

theorem expand_at_keeps_placeholders:
  assumes "copyHost_law api" and "\<not> rc_isDeviceArgs c" and "rc_args c \<noteq> OwnExpanded"
    and "host_content c = Some src" and "rc_argsSize c \<le> length src"
    and "rc_argsSize c \<le> MAX_ALL_PARAM_SIZE" and "at \<le> GetAlignSize (rc_argsSize c)"
    and "i < length (rc_placeHolderArray c)" and "d = pl_dataOffset (rc_placeHolderArray c ! i)"
    and "d + n \<le> rc_argsSize c" and "d + n \<le> at \<or> at \<le> d" and "length param \<le> MAX_ALL_PARAM_SIZE"
  shows "\<exists>c' w'. ExpandArgsAt api ov param at c w = Some ((True, at), c', w') \<and>
    take n (drop (pl_dataOffset (rc_placeHolderArray c' ! i)) (the (host_content c'))) = take n (drop d src)"
proof -
  let ?p = "padded c src"
  have len: "length ?p = GetAlignSize (rc_argsSize c)" using assms(5,6) by simp
  have "at = (case Some at of Some k \<Rightarrow> k | None \<Rightarrow> Raw_GetLastParamOffset ov c)" by simp
  from InsertParam_host [OF assms(1-6) this assms(7), of param w] obtain c' w' where
    I: "ExpandArgsAt api ov param at c w = Some ((True, at), c', w')"
    and h: "host_content c' = Some (take at ?p @ param @ drop at ?p)"
    and ph: "rc_placeHolderArray c' = map (\<lambda>p. if pl_dataOffset p \<ge> at
       then shift_placeholder (length param) p else p) (rc_placeHolderArray c)"
    by (auto simp: ExpandArgsAt_def host_content_def)
  have same: "take n (drop d ?p) = take n (drop d src)"
    using assms(5,10) by (simp add: padded_def drop_take min_def)
  show ?thesis
  proof (cases "at \<le> d")
    case True
    have "d + length param < 2 ^ 32" using assms(6,10,12) by (simp add: MAX_ALL_PARAM_SIZE_def)
    then have "pl_dataOffset (rc_placeHolderArray c' ! i) = d + length param"
      using True assms(8,9) by (simp add: ph shift_placeholder_def wrap32_small)
    moreover have "drop (d + length param) (take at ?p @ param @ drop at ?p) = drop d ?p"
      using True len assms(7) by simp
    ultimately show ?thesis using I h same by simp
  next
    case False
    then have "pl_dataOffset (rc_placeHolderArray c' ! i) = d"
      using assms(8,9) by (simp add: ph)
    moreover have "take n (drop d (take at ?p @ param @ drop at ?p)) = take n (drop d ?p)"
      using False assms(11) len assms(7) by (subst slice_append) (simp_all add: slice_take)
    ultimately show ?thesis using I h same by simp
  qed
qed

theorem expand_at_keeps_placeholders_witness:
  "\<exists>c' w'. ExpandArgsAt flat_api False [9, 9, 9, 9, 9, 9, 9, 9] 16 raw_ex flat0 = Some ((True, 16), c', w') \<and>
    take 4 (drop (pl_dataOffset (rc_placeHolderArray c' ! 0)) (the (host_content c'))) = [5, 6, 7, 8]"
proof -
  let ?src = "[1, 1, 1, 1, 1, 1, 1, 1, 2, 2, 2, 2, 2, 2, 2, 2, 5, 6, 7, 8 :: byte]"
  have "\<exists>c' w'. ExpandArgsAt flat_api False [9, 9, 9, 9, 9, 9, 9, 9] 16 raw_ex flat0 = Some ((True, 16), c', w') \<and>
    take 4 (drop (pl_dataOffset (rc_placeHolderArray c' ! 0)) (the (host_content c'))) = take 4 (drop 16 ?src)"
    by (rule expand_at_keeps_placeholders [OF flat_copyHost_law])
      (simp_all add: raw_ex_simps host_content_def MAX_ALL_PARAM_SIZE_def GetAlignSize_def ALIGN_SIZE_def wrap32_def)
  then show ?thesis by simp
qed

section \<open>Inserting again\<close>

text \<open>
  a host context can be expanded once. Expanding it again, or expanding its clone, clears the
  buffer that holds the arguments before reading them: the call succeeds and every argument
  byte, the first inserted parameter included, is zero.
\<close>

theorem raw_second_expansion_zeroes:
  assumes "\<not> rc_isDeviceArgs c" and "rc_args c = OwnExpanded" and "rc_placeHolderArray c = []"
    and "rc_argsSize c = length (rc_argsWithMemInfo c)" and "8 dvd rc_argsSize c"
    and "rc_argsSize c \<le> MAX_ALL_PARAM_SIZE" and "c1 \<in> {c, Raw_Clone c}"
  shows "\<exists>c' w'. Raw_ExpandArgs api ov param c1 w = Some ((True, rc_argsSize c), c', w') \<and>
    host_content c' = Some (replicate (rc_argsSize c) 0 @ param)"
proof -
  have b: "rc_argsSize c + 8 \<le> 2 ^ 32" using assms(6) by (simp add: MAX_ALL_PARAM_SIZE_def)
  have A: "CeilByAlignSize32 8 (rc_argsSize c) = rc_argsSize c"
    using args_align.up_aligned [OF b assms(5)] by (simp add: GetAlignSize_ceil)
  have w: "wrap32 (rc_argsSize c) = rc_argsSize c" using b by (simp add: wrap32_small)
  have "load_args api c w = Some (replicate (rc_argsSize c) 0, snd (api_copyHost api
      (take (rc_argsSize c) (replicate (rc_argsSize c) 0)) w))"
    using assms(1,2) by (simp add: load_args_def Let_def A assms(4) [symmetric])
  then show ?thesis
    using assms w by (auto simp: Raw_ExpandArgs_def InsertParam_def insert_offset_def Raw_Clone_def host_content_def Let_def)
qed

theorem raw_second_expansion_zeroes_witness:
  "\<exists>c' w'. Raw_ExpandArgs flat_api False [3] ((new_ArgsRawContext OwnExpanded 8 False)
      \<lparr>rc_argsWithMemInfo := [1, 2, 3, 4, 5, 6, 7, 8]\<rparr>) flat0 = Some ((True, 8), c', w') \<and>
    host_content c' = Some [0, 0, 0, 0, 0, 0, 0, 0, 3]"
proof -
  let ?c = "(new_ArgsRawContext OwnExpanded 8 False)\<lparr>rc_argsWithMemInfo := [1, 2, 3, 4, 5, 6, 7, 8]\<rparr>"
  have "\<exists>c' w'. Raw_ExpandArgs flat_api False [3] ?c flat0 = Some ((True, rc_argsSize ?c), c', w') \<and>
    host_content c' = Some (replicate (rc_argsSize ?c) 0 @ [3])"
    by (rule raw_second_expansion_zeroes [of ?c]) (simp_all add: new_ArgsRawContext_def MAX_ALL_PARAM_SIZE_def)
  then show ?thesis by (simp add: new_ArgsRawContext_def eval_nat_numeral)
qed

end
