(* ===== verification/ArgsHandle.thy ===== *)
theory ArgsHandle
  imports LaunchArgs Device
begin

text \<open>
  Models csrc/runtime/inject_helpers/ArgsHandleContext.h/.cpp: launch arguments built through
  the runtime's handle interface. The context records the user's calls, appends the record
  pointer and replays everything on a fresh handle.

  The runtime is a parameter \<open>rt\<close>: a function from the history of calls and the next call to
  its status and result pointer, which is the most general sequential runtime. The history,
  including the copies into placeholder buffers, is the state. Host memory that a pointer
  refers to is given by \<open>host p n\<close>, the \<open>n\<close> bytes at \<open>p\<close>.
\<close>

section \<open>State\<close>

datatype ParamType = NORMAL | PLACEHOLDER

record ParamData =
  pd_paramHandle :: ptr
  pd_param :: bytes
  pd_type :: ParamType
  pd_srcBuffer :: ptr

record ArgsHandleContext =
  hc_params :: "ParamData list"
  hc_funcHandle :: ptr
  hc_argsHandle :: ptr
  hc_finalized :: bool

definition new_ArgsHandleContext :: "ptr \<Rightarrow> ptr \<Rightarrow> ArgsHandleContext" where
  "new_ArgsHandleContext funcHandle argsHandle =
     \<lparr>hc_params = [], hc_funcHandle = funcHandle, hc_argsHandle = argsHandle, hc_finalized = False\<rparr>"

definition MAX_SINGLE_PARAM_SIZE :: nat where
  "MAX_SINGLE_PARAM_SIZE = 4096"

section \<open>Recording\<close>

definition CacheArgsAppendOp :: "bytes \<Rightarrow> ptr \<Rightarrow> ArgsHandleContext \<Rightarrow> ArgsHandleContext" where
  "CacheArgsAppendOp param paramHandle c =
     (if length param > MAX_SINGLE_PARAM_SIZE then c
      else c\<lparr>hc_params := hc_params c @
             [\<lparr>pd_paramHandle = paramHandle, pd_param = param, pd_type = NORMAL, pd_srcBuffer = 0\<rparr>]\<rparr>)"

definition CacheArgsAppendPlaceholderOp :: "ptr \<Rightarrow> ArgsHandleContext \<Rightarrow> ArgsHandleContext" where
  "CacheArgsAppendPlaceholderOp paramHandle c =
     c\<lparr>hc_params := hc_params c @
         [\<lparr>pd_paramHandle = paramHandle, pd_param = [], pd_type = PLACEHOLDER, pd_srcBuffer = 0\<rparr>]\<rparr>"

fun update_first :: "('a \<Rightarrow> bool) \<Rightarrow> ('a \<Rightarrow> 'a) \<Rightarrow> 'a list \<Rightarrow> 'a list" where
  "update_first P f [] = []"
| "update_first P f (x # xs) = (if P x then f x # xs else x # update_first P f xs)"

definition CacheArgsParaUpdateOp :: "ptr \<Rightarrow> bytes \<Rightarrow> ArgsHandleContext \<Rightarrow> ArgsHandleContext" where
  "CacheArgsParaUpdateOp paramHandle param c =
     c\<lparr>hc_params := update_first (\<lambda>p. pd_paramHandle p = paramHandle) (pd_param_update (\<lambda>_. param)) (hc_params c)\<rparr>"

definition CacheArgsGetPlaceholderBufferOp :: "ptr \<Rightarrow> nat \<Rightarrow> ptr \<Rightarrow> ArgsHandleContext \<Rightarrow> ArgsHandleContext" where
  "CacheArgsGetPlaceholderBufferOp paramHandle dataSize buffer c =
     c\<lparr>hc_params := update_first (\<lambda>p. pd_paramHandle p = paramHandle)
         (\<lambda>p. p\<lparr>pd_srcBuffer := buffer, pd_param := resize0 dataSize (pd_param p)\<rparr>) (hc_params c)\<rparr>"

definition Finalize :: "(ptr \<Rightarrow> nat \<Rightarrow> bytes) \<Rightarrow> ArgsHandleContext \<Rightarrow> ArgsHandleContext" where
  "Finalize host c =
     c\<lparr>hc_params := map (\<lambda>p. if pd_type p = PLACEHOLDER
           then p\<lparr>pd_param := host (pd_srcBuffer p) (length (pd_param p))\<rparr> else p) (hc_params c),
       hc_finalized := True\<rparr>"

definition Handle_ExpandArgs :: "bytes \<Rightarrow> ArgsHandleContext \<Rightarrow> bool \<times> ArgsHandleContext" where
  "Handle_ExpandArgs param c = (True, CacheArgsAppendOp param 0 c)"

definition CalcUserArgsSize :: "ArgsHandleContext \<Rightarrow> nat" where
  "CalcUserArgsSize c = foldl (\<lambda>n p. n + length (pd_param p)) 0 (hc_params c)"

definition Handle_GetTilingData :: "ArgsHandleContext \<Rightarrow> bytes option" where
  "Handle_GetTilingData c =
     (if \<not> hc_finalized c then None
      else map_option pd_param (find (\<lambda>p. pd_type p = PLACEHOLDER) (hc_params c)))"

definition Handle_Clone :: "ArgsHandleContext \<Rightarrow> ArgsHandleContext" where
  "Handle_Clone c = c"

section \<open>Replaying\<close>

datatype args_call =
    Init ptr
  | Append ptr bytes
  | AppendPlaceHolder ptr
  | GetPlaceHolderBuffer ptr ptr nat
  | CopyTo ptr bytes
  | FinalizeArgs ptr

type_synonym runtime = "args_call list \<Rightarrow> args_call \<Rightarrow> acl_error \<times> ptr"

definition call :: "runtime \<Rightarrow> args_call \<Rightarrow> args_call list \<Rightarrow> (acl_error \<times> ptr) \<times> args_call list" where
  "call rt x log = (rt log x, log @ [x])"

fun replay_append ::
  "runtime \<Rightarrow> ptr \<Rightarrow> ParamData list \<Rightarrow> args_call list \<Rightarrow> ptr list option \<times> args_call list"
where
  \<comment> \<open>the first loop of \<open>ReplayArgs\<close>, with the parameter handles it obtains\<close>
  "replay_append rt h [] log = (Some [], log)"
| "replay_append rt h (p # ps) log =
     (let x = (if pd_type p = NORMAL then Append h (pd_param p) else AppendPlaceHolder h);
          ((e, ph), log) = call rt x log in
      if e \<noteq> ACL_SUCCESS then (None, log)
      else let (phs, log) = replay_append rt h ps log in (map_option (\<lambda>phs. ph # phs) phs, log))"

fun replay_buffers ::
  "runtime \<Rightarrow> ptr \<Rightarrow> (ParamData \<times> ptr) list \<Rightarrow> args_call list \<Rightarrow> bool \<times> args_call list"
where
  "replay_buffers rt h [] log = (True, log)"
| "replay_buffers rt h ((p, ph) # ps) log =
     (if pd_type p \<noteq> PLACEHOLDER then replay_buffers rt h ps log
      else
        let ((e, buffer), log) = call rt (GetPlaceHolderBuffer h ph (length (pd_param p))) log in
        if e \<noteq> ACL_SUCCESS then (False, log)
        else replay_buffers rt h ps (log @ [CopyTo buffer (pd_param p)]))"

definition ReplayArgs :: "runtime \<Rightarrow> ptr \<Rightarrow> ArgsHandleContext \<Rightarrow> args_call list \<Rightarrow> bool \<times> args_call list" where
  "ReplayArgs rt argsHandle c log =
     (case replay_append rt argsHandle (hc_params c) log of
        (None, log) \<Rightarrow> (False, log)
      | (Some phs, log) \<Rightarrow> replay_buffers rt argsHandle (zip (hc_params c) phs) log)"

definition GenerateArgsHandle :: "runtime \<Rightarrow> ArgsHandleContext \<Rightarrow> args_call list \<Rightarrow> ptr option \<times> args_call list" where
  "GenerateArgsHandle rt c log =
     (let ((e, h), log) = call rt (Init (hc_funcHandle c)) log in
      if e \<noteq> ACL_SUCCESS then (None, log)
      else
        let (ok, log) = ReplayArgs rt h c log in
        if \<not> ok then (None, log)
        else
          let ((e, _), log) = call rt (FinalizeArgs h) log in
          if e \<noteq> ACL_SUCCESS then (None, log) else (Some h, log))"

section \<open>Reading the addresses back\<close>

fun chunks8 :: "nat \<Rightarrow> bytes \<Rightarrow> bytes list" where
  "chunks8 0 bs = []"
| "chunks8 (Suc n) bs = take 8 bs # chunks8 n (drop 8 bs)"

definition GetFlattenedParams :: "ParamData list \<Rightarrow> ParamData list" where
  "GetFlattenedParams params =
     concat (map (\<lambda>p. if pd_type p \<noteq> NORMAL then [p]
       else map (\<lambda>b. \<lparr>pd_paramHandle = 0, pd_param = b, pd_type = NORMAL, pd_srcBuffer = 0\<rparr>)
              (chunks8 (length (pd_param p) div 8) (pd_param p))) params)"

definition UpdateNormalTaskArgsAddr :: "nat \<Rightarrow> ArgsHandleContext \<Rightarrow> nat list option" where
  \<comment> \<open>the addresses stored into the \<open>n\<close> input entries, \<open>None\<close> for \<open>false\<close>\<close>
  "UpdateNormalTaskArgsAddr n c =
     (let flat = GetFlattenedParams (hc_params c) in
      if length flat < n then None
      else if \<exists>p \<in> set (take n flat). length (pd_param p) \<noteq> 8 then None
      else Some (map (\<lambda>p. le_val (pd_param p)) (take n flat)))"

section \<open>Properties\<close>

definition append_call :: "ptr \<Rightarrow> ParamData \<Rightarrow> args_call" where
  "append_call h p = (if pd_type p = NORMAL then Append h (pd_param p) else AppendPlaceHolder h)"

lemma replay_append_log:
  assumes "\<forall>log x. fst (rt log x) = ACL_SUCCESS"
  shows "\<exists>phs. replay_append rt h ps log = (Some phs, log @ map (append_call h) ps) \<and> length phs = length ps"
proof (induction ps arbitrary: log)
  case Nil
  then show ?case by simp
next
  case (Cons p ps)
  obtain ph where r: "rt log (append_call h p) = (ACL_SUCCESS, ph)"
    using assms by (metis prod.collapse)
  obtain phs where "replay_append rt h ps (log @ [append_call h p]) =
      (Some phs, (log @ [append_call h p]) @ map (append_call h) ps)" "length phs = length ps"
    using Cons by blast
  then show ?case by (simp add: call_def r flip: append_call_def)
qed

definition placeholder_data :: "ParamData list \<Rightarrow> bytes list" where
  "placeholder_data ps = map pd_param (filter (\<lambda>p. pd_type p = PLACEHOLDER) ps)"

definition copies :: "args_call list \<Rightarrow> bytes list" where
  "copies log = concat (map (\<lambda>x. case x of CopyTo _ bs \<Rightarrow> [bs] | _ \<Rightarrow> []) log)"

lemma copies_append [simp]: "copies (xs @ ys) = copies xs @ copies ys"
  by (simp add: copies_def)

lemma copies_append_calls [simp]: "copies (map (append_call h) ps) = []"
  by (induction ps) (auto simp: copies_def append_call_def)

lemma replay_buffers_log:
  assumes "\<forall>log x. fst (rt log x) = ACL_SUCCESS"
  shows "\<exists>log'. replay_buffers rt h ps log = (True, log @ log') \<and>
    copies log' = placeholder_data (map fst ps) \<and> (\<forall>x \<in> set log'. \<nexists>h bs. x = Append h bs \<or> x = AppendPlaceHolder h)"
proof (induction ps arbitrary: log)
  case Nil
  then show ?case by (simp add: copies_def placeholder_data_def)
next
  case (Cons q ps)
  obtain p ph where q: "q = (p, ph)" by (cases q)
  show ?case
  proof (cases "pd_type p = PLACEHOLDER")
    case False
    then show ?thesis using Cons by (auto simp: q placeholder_data_def)
  next
    case True
    let ?x = "GetPlaceHolderBuffer h ph (length (pd_param p))"
    obtain b where r: "rt log ?x = (ACL_SUCCESS, b)" using assms by (metis prod.collapse)
    obtain log' where "replay_buffers rt h ps (log @ [?x, CopyTo b (pd_param p)]) =
        (True, (log @ [?x, CopyTo b (pd_param p)]) @ log')"
      "copies log' = placeholder_data (map fst ps)"
      "\<forall>x \<in> set log'. \<nexists>h bs. x = Append h bs \<or> x = AppendPlaceHolder h"
      using Cons by blast
    then show ?thesis
      using True
      by (intro exI [of _ "?x # CopyTo b (pd_param p) # log'"])
        (simp add: q call_def r placeholder_data_def copies_def)
  qed
qed


definition handle_ex :: ArgsHandleContext where
  "handle_ex = snd (Handle_ExpandArgs [7] (Finalize (\<lambda>p n. replicate n 5)
     (CacheArgsGetPlaceholderBufferOp 12 2 900
       (CacheArgsAppendPlaceholderOp 12 (CacheArgsAppendOp [1, 2] 11 (new_ArgsHandleContext 3 4))))))"

lemma handle_ex_params:
  "hc_params handle_ex =
     [\<lparr>pd_paramHandle = 11, pd_param = [1, 2], pd_type = NORMAL, pd_srcBuffer = 0\<rparr>,
      \<lparr>pd_paramHandle = 12, pd_param = [5, 5], pd_type = PLACEHOLDER, pd_srcBuffer = 900\<rparr>,
      \<lparr>pd_paramHandle = 0, pd_param = [7], pd_type = NORMAL, pd_srcBuffer = 0\<rparr>]"
  "hc_funcHandle handle_ex = 3"
  by (simp_all add: handle_ex_def Handle_ExpandArgs_def Finalize_def CacheArgsGetPlaceholderBufferOp_def
      CacheArgsAppendPlaceholderOp_def CacheArgsAppendOp_def new_ArgsHandleContext_def
      MAX_SINGLE_PARAM_SIZE_def resize0_def numeral_2_eq_2)


lemma chunks8_param:
  "length bs = 8 * n \<Longrightarrow> concat (chunks8 n bs) = bs \<and> length (chunks8 n bs) = n \<and> (\<forall>b \<in> set (chunks8 n bs). length b = 8)"
proof (induction n arbitrary: bs)
  case (Suc n)
  then have "length (drop 8 bs) = 8 * n" by simp
  from Suc.IH [OF this] Suc.prems show ?case by auto
qed simp

lemma flatten_normal:
  "\<forall>p \<in> set ps. pd_type p = NORMAL \<and> 8 dvd length (pd_param p) \<Longrightarrow>
     concat (map pd_param (GetFlattenedParams ps)) = concat (map pd_param ps) \<and>
     (\<forall>p \<in> set (GetFlattenedParams ps). length (pd_param p) = 8)"
proof (induction ps)
  case Nil
  then show ?case by (simp add: GetFlattenedParams_def)
next
  case (Cons p ps)
  obtain n where n: "length (pd_param p) = 8 * n" using Cons.prems by auto
  then have "concat (map pd_param (GetFlattenedParams [p])) = pd_param p"
    and "\<forall>q \<in> set (GetFlattenedParams [p]). length (pd_param q) = 8"
    using chunks8_param [OF n] Cons.prems by (auto simp: GetFlattenedParams_def comp_def)
  moreover have "GetFlattenedParams (p # ps) = GetFlattenedParams [p] @ GetFlattenedParams ps"
    by (simp add: GetFlattenedParams_def)
  ultimately show ?case using Cons by auto
qed

lemma concat_nth8:
  "\<forall>b \<in> set bs. length b = 8 \<Longrightarrow> i < length bs \<Longrightarrow> take 8 (drop (8 * i) (concat bs)) = bs ! i"
proof (induction bs arbitrary: i)
  case (Cons b bs)
  then show ?case by (cases i) auto
qed simp

text \<open>
  the addresses read back from recorded arguments. However the user grouped the pointers
  into parameters (structs of several pointers included), the address of input \<open>i\<close> is the
  \<open>i\<close>-th 8-byte word of the concatenated parameters.
\<close>

theorem input_addresses_are_words:
  assumes "\<forall>p \<in> set (hc_params c). pd_type p = NORMAL \<and> 8 dvd length (pd_param p)"
    and "8 * n \<le> CalcUserArgsSize c"
  shows "UpdateNormalTaskArgsAddr n c =
    Some (map (\<lambda>i. le_val (take 8 (drop (8 * i) (concat (map pd_param (hc_params c)))))) [0..<n])"
proof -
  let ?flat = "GetFlattenedParams (hc_params c)" and ?ws = "map pd_param (GetFlattenedParams (hc_params c))"
  note F = flatten_normal [OF assms(1)]
  have size: "CalcUserArgsSize c = length (concat (map pd_param (hc_params c)))"
  proof -
    have "foldl (\<lambda>n p. n + length (pd_param p)) k ps = k + length (concat (map pd_param ps))" for k ps
      by (induction ps arbitrary: k) auto
    from this [of 0] show ?thesis by (simp add: CalcUserArgsSize_def)
  qed
  have "length (concat ?ws) = 8 * length ?flat"
  proof -
    have "\<forall>b \<in> set ws. length b = 8 \<Longrightarrow> length (concat ws) = 8 * length ws" for ws :: "bytes list"
      by (induction ws) auto
    from this [of ?ws] show ?thesis using F by auto
  qed
  then have n: "n \<le> length ?flat" using assms(2) size F by auto
  have w: "take 8 (drop (8 * i) (concat ?ws)) = pd_param (?flat ! i)" if "i < n" for i
  proof -
    have "i < length ?ws" "\<forall>b \<in> set ?ws. length b = 8" using that n F by auto
    from concat_nth8 [OF this(2,1)] show ?thesis using that n by simp
  qed
  have "map (\<lambda>p. le_val (pd_param p)) (take n ?flat) =
      map (\<lambda>i. le_val (take 8 (drop (8 * i) (concat ?ws)))) [0..<n]"
    using n by (intro nth_equalityI) (simp_all add: w)
  moreover have "\<not> (\<exists>p \<in> set (take n ?flat). length (pd_param p) \<noteq> 8)"
    using F by (auto dest: in_set_takeD)
  ultimately show ?thesis using n F by (auto simp: UpdateNormalTaskArgsAddr_def)
qed

theorem input_addresses_are_words_witness:
  "UpdateNormalTaskArgsAddr 2 (CacheArgsAppendOp (le_bytes 8 300 @ le_bytes 8 7) 2 (new_ArgsHandleContext 0 0)) =
     Some [300, 7]"
proof -
  let ?c = "CacheArgsAppendOp (le_bytes 8 300 @ le_bytes 8 7) 2 (new_ArgsHandleContext 0 0)"
  have p: "hc_params ?c = [\<lparr>pd_paramHandle = 2, pd_param = le_bytes 8 300 @ le_bytes 8 7, pd_type = NORMAL, pd_srcBuffer = 0\<rparr>]"
    by (simp add: CacheArgsAppendOp_def new_ArgsHandleContext_def MAX_SINGLE_PARAM_SIZE_def)
  have "UpdateNormalTaskArgsAddr 2 ?c =
      Some (map (\<lambda>i. le_val (take 8 (drop (8 * i) (concat (map pd_param (hc_params ?c)))))) [0..<2])"
    by (rule input_addresses_are_words) (simp_all add: p CalcUserArgsSize_def)
  moreover have "[0..<2] = [0, Suc 0]" by (simp add: upt_rec)
  ultimately show ?thesis by (simp add: p le_val_small)
qed

end
