(* ===== verification/ArgsMgr.thy ===== *)
theory ArgsMgr
  imports MetaData ArgsArray ArgsRaw ArgsHandle
begin

unbundle bit_operations_syntax

text \<open>
  Models csrc/runtime/inject_helpers/ArgsManager.h/.cpp: the registry of argument contexts and
  of the shapes that the adump interface announces, and the three readers that complete a
  kernel's \<open>OpMemInfo\<close> before its memory is reported: the search for the announcement a launch
  belongs to, the second-level pointers, and the windows of a collective-communication context.

  Host memory behind a pointer that the registry holds is a parameter \<open>hmem\<close>: the 64-bit word
  at an address. The host argument block is its bytes; a word outside it gives \<open>None\<close>, as does
  an index outside an array of the communication structures. The registry's mutex is left out.
\<close>

section \<open>State\<close>

record AdumpInfo =
  ad_addr :: ptr
  ad_argsSpace :: nat

datatype ArgsContext = HandleCtx ArgsHandleContext | RawCtx ArgsRawContext | ArrayCtx ArgsArrayContext

record ArgsManager =
  am_contexts :: "(ptr \<times> ArgsContext) list"
  am_adump :: "(nat \<times> AdumpInfo) list"
  am_latest :: nat
  am_throughAdump :: bool
  am_argsSize :: nat

definition am0 :: ArgsManager where
  "am0 = \<lparr>am_contexts = [], am_adump = [], am_latest = 0, am_throughAdump = True, am_argsSize = 0\<rparr>"

record AclrtLaunchArgsInfo =
  la_hostArgs :: "bytes option"
  la_argsSize :: nat
  la_placeHolderArray :: "aclrtPlaceHolderInfo list option"
  la_placeHolderNum :: nat
  la_tilingAddrOffset :: nat

section \<open>Argument contexts\<close>

definition add_context :: "ptr \<Rightarrow> ArgsContext \<Rightarrow> ArgsManager \<Rightarrow> ArgsContext option \<times> ArgsManager" where
  "add_context key ctx am = (Some ctx, am\<lparr>am_contexts := al_put key ctx (am_contexts am)\<rparr>)"

definition CreateContext_handle :: "ptr \<Rightarrow> ptr \<Rightarrow> ArgsManager \<Rightarrow> ArgsContext option \<times> ArgsManager" where
  "CreateContext_handle funcHandle argsHandle am =
     (if funcHandle = 0 \<or> argsHandle = 0 then (None, am)
      else add_context argsHandle (HandleCtx (new_ArgsHandleContext funcHandle argsHandle)) am)"

definition CreateContext_raw ::
  "ptr \<Rightarrow> args_ptr \<Rightarrow> nat \<Rightarrow> bool \<Rightarrow> ArgsManager \<Rightarrow> ArgsContext option \<times> ArgsManager"
where
  \<comment> \<open>\<open>args\<close> is the address, \<open>target\<close> what it points to\<close>
  "CreateContext_raw args target argsSize isDeviceArgs am =
     (if args = 0 \<or> argsSize = 0 then (None, am)
      else add_context args (RawCtx (new_ArgsRawContext target argsSize isDeviceArgs)) (am\<lparr>am_argsSize := argsSize\<rparr>))"

definition CreateContext_placeholders ::
  "ptr \<Rightarrow> bytes \<Rightarrow> nat \<Rightarrow> aclrtPlaceHolderInfo list \<Rightarrow> ArgsManager \<Rightarrow> ArgsContext option \<times> ArgsManager"
where
  "CreateContext_placeholders args content argsSize phs am =
     (if args = 0 \<or> argsSize = 0 then (None, am)
      else add_context args (RawCtx (new_ArgsRawContext_placeholders (Some content) argsSize phs))
             (am\<lparr>am_argsSize := argsSize\<rparr>))"

definition CreateContext_array ::
  "ptr \<Rightarrow> bytes option list \<Rightarrow> nat \<Rightarrow> nat list \<Rightarrow> nat list \<Rightarrow> bool \<Rightarrow> ArgsManager \<Rightarrow>
   ArgsContext option \<times> ArgsManager"
where
  "CreateContext_array args params paramCount offsets sizes isStaticStub am =
     (if args = 0 then (None, am)
      else
        case ArgsArray_Create (Some params) paramCount offsets sizes isStaticStub of
          None \<Rightarrow> (None, am)
        | Some c \<Rightarrow> add_context args (ArrayCtx c) (am\<lparr>am_argsSize := wrap32 (GetPackedArgsSize c)\<rparr>))"

definition GetContext :: "ptr \<Rightarrow> ArgsManager \<Rightarrow> ArgsContext option" where
  "GetContext argsHandle am = map_of (am_contexts am) argsHandle"

section \<open>Announced shapes\<close>

definition GetAdumpInfo :: "nat \<Rightarrow> ArgsManager \<Rightarrow> AdumpInfo option" where
  "GetAdumpInfo index am = map_of (am_adump am) index"

definition AddAdumpInfo :: "nat \<Rightarrow> AdumpInfo \<Rightarrow> ArgsManager \<Rightarrow> ArgsManager" where
  "AddAdumpInfo index info am = am\<lparr>am_adump := al_put index info (am_adump am), am_latest := index\<rparr>"

definition HasAdumpInfo :: "ArgsManager \<Rightarrow> bool" where
  "HasAdumpInfo am \<longleftrightarrow> am_adump am \<noteq> []"

definition GetLatestAdumpInfo :: "ArgsManager \<Rightarrow> AdumpInfo option" where
  \<comment> \<open>\<open>at\<close>: \<open>None\<close> is its exception\<close>
  "GetLatestAdumpInfo am = map_of (am_adump am) (am_latest am)"

definition SetThroughAdumpFlag :: "bool \<Rightarrow> ArgsManager \<Rightarrow> ArgsManager" where
  "SetThroughAdumpFlag flag am = am\<lparr>am_throughAdump := flag\<rparr>"

definition META_MAGIC_NUM :: nat where
  "META_MAGIC_NUM = 0xA5A5A5A500000000"

definition no_adump :: AdumpInfo where
  "no_adump = \<lparr>ad_addr = 0, ad_argsSpace = 0\<rparr>"

definition atomic_index_at :: "bytes \<Rightarrow> nat \<Rightarrow> nat" where
  "atomic_index_at data i = META_MAGIC_NUM OR le_val (take 4 (drop (i - 7) data))"

fun tik_scan :: "ArgsManager \<Rightarrow> bytes \<Rightarrow> nat \<Rightarrow> nat list \<Rightarrow> AdumpInfo option" where
  \<comment> \<open>the loop over the tiling data of a tik operator, \<open>count\<close> an 8-bit counter\<close>
  "tik_scan am data count [] = None"
| "tik_scan am data count (i # is) =
     (let count = (if data ! i = 0xA5 then (count + 1) mod 256 else 0) in
      if count \<noteq> 4 \<or> i < 7 then tik_scan am data count is
      else case GetAdumpInfo (atomic_index_at data i) am of
             Some info \<Rightarrow> Some info
           | None \<Rightarrow> tik_scan am data (count - 1) is)"

definition GetAdumpInfoFromTilingData :: "bytes \<Rightarrow> OpMemInfo \<Rightarrow> ArgsManager \<Rightarrow> AdumpInfo" where
  "GetAdumpInfoFromTilingData tilingData m am =
     (let scan = (case tik_scan am tilingData 0 [4..<om_tilingDataSize m] of
                    Some info \<Rightarrow> info | None \<Rightarrow> no_adump) in
      if om_isTik m then scan
      else if om_tilingDataSize m < 8 then no_adump
      else
        case GetAdumpInfo (le_val (take 8 (drop (om_tilingDataSize m - 8) tilingData))) am of
          Some info \<Rightarrow> info
        | None \<Rightarrow> scan)"

definition GetAdumpInfo_launch :: "OpMemInfo \<Rightarrow> bytes \<Rightarrow> ArgsManager \<Rightarrow> AdumpInfo \<times> ArgsManager" where
  \<comment> \<open>the file's own \<open>GetAdumpInfo\<close>\<close>
  "GetAdumpInfo_launch m tilingData am =
     (if \<not> HasAdumpInfo am then (no_adump, SetThroughAdumpFlag False am)
      else
        let am = SetThroughAdumpFlag True am in
        if om_tilingDataSize m = 0 then (no_adump, am)
        else if length tilingData < om_tilingDataSize m then (no_adump, am)
        else (GetAdumpInfoFromTilingData tilingData m am, am))"

definition RefreshMc2CtxInfo :: "bool \<Rightarrow> nat \<Rightarrow> OpMemInfo \<Rightarrow> OpMemInfo" where
  "RefreshMc2CtxInfo hasMc2Ctx skipNum m =
     m\<lparr>om_inputParamsAddrInfos := om_inputParamsAddrInfos m @
         [mk_AddrInfo 0 sizeof_HcclCombinOpParam BYPASS DEFAULT 0],
       om_hasMc2Ctx := hasMc2Ctx, om_skipNum := skipNum\<rparr>"

definition MC2_CONTEXT_PARAMS_INDEX :: nat where
  "MC2_CONTEXT_PARAMS_INDEX = 0"

definition dynamic_input :: "(ptr \<Rightarrow> nat) \<Rightarrow> AdumpInfo \<Rightarrow> bool \<Rightarrow> nat \<Rightarrow> AddrInfo \<Rightarrow> AddrInfo" where
  \<comment> \<open>the body of the loop over the inputs\<close>
  "dynamic_input hmem info hasMc2Ctx i a =
     (if i < ad_argsSpace info then
        a\<lparr>ai_length := if hasMc2Ctx \<and> i = MC2_CONTEXT_PARAMS_INDEX then sizeof_HcclCombinOpParam
                        else hmem (ad_addr info + 8 * i)\<rparr>
      else a)"

definition UpdateInputSizeWithTilingData ::
  "(ptr \<Rightarrow> nat) \<Rightarrow> bytes \<Rightarrow> OpMemInfo \<Rightarrow> ArgsManager \<Rightarrow> OpMemInfo \<times> ArgsManager"
where
  "UpdateInputSizeWithTilingData hmem tilingData m am =
     (let (info, am) = GetAdumpInfo_launch m tilingData am in
      if ad_addr info = 0 then
        (if om_hasMc2Ctx m then RefreshMc2CtxInfo True (om_skipNum m) (om_Clear m) else om_Clear m, am)
      else
        (m\<lparr>om_inputParamsAddrInfos :=
             map (\<lambda>(i, a). dynamic_input hmem info (om_hasMc2Ctx m) i a)
               (enumerate 0 (om_inputParamsAddrInfos m))\<rparr>, am))"

section \<open>Second-level pointers\<close>

definition word_at :: "bytes \<Rightarrow> nat \<Rightarrow> nat option" where
  \<comment> \<open>\<open>static_cast<uint64_t *>(buf)[k]\<close>\<close>
  "word_at buf k = (if 8 * k + 8 \<le> length buf then Some (le_val (take 8 (drop (8 * k) buf))) else None)"

fun shape_product :: "(nat \<Rightarrow> nat option) \<Rightarrow> nat \<Rightarrow> nat \<Rightarrow> nat \<Rightarrow> nat option" where
  \<comment> \<open>the product of \<open>dim\<close> words from an index on\<close>
  "shape_product rd k 0 acc = Some acc"
| "shape_product rd k (Suc dim) acc =
     (case rd k of None \<Rightarrow> None | Some v \<Rightarrow> shape_product rd (k + 1) dim (wrap64 (acc * v)))"

function second_loop ::
  "(nat \<Rightarrow> nat \<Rightarrow> nat \<Rightarrow> AddrInfo) \<Rightarrow> (nat \<Rightarrow> nat option) \<Rightarrow> nat \<Rightarrow> nat \<Rightarrow> nat \<Rightarrow> nat \<Rightarrow> AddrInfo list \<Rightarrow>
   AddrInfo list option"
where
  \<comment> \<open>the \<open>while\<close> loop; \<open>rd\<close> indexes from \<open>hostInputsPtr\<close>, so \<open>dimCntPtr[k]\<close> is \<open>rd (k + 1)\<close>;
    \<open>mk\<close> makes the entry of an address, a length and the number of the pointer\<close>
  "second_loop mk rd dtypeBytes ptrOffset dimIdx ptrIdx acc =
     (if ptrOffset > 0 \<and> dimIdx < ptrOffset - 1 then
        (case rd (dimIdx + 1) of
           None \<Rightarrow> None
         | Some dimCntVal \<Rightarrow>
             let dim = dimCntVal mod 2 ^ 32; dimIdx = dimIdx + 1 in
             (case (shape_product rd (dimIdx + 1) dim 1, rd (ptrOffset + ptrIdx)) of
                (Some totalDim, Some addr) \<Rightarrow>
                  second_loop mk rd dtypeBytes ptrOffset (dimIdx + dim) (ptrIdx + 1)
                    (acc @ [mk addr (wrap64 (totalDim * dtypeBytes)) ptrIdx])
              | _ \<Rightarrow> None))
      else Some acc)"
  by pat_completeness auto
termination
  by (relation "measure (\<lambda>(mk, rd, dtypeBytes, ptrOffset, dimIdx, ptrIdx, acc). ptrOffset - dimIdx)") auto

declare second_loop.simps [simp del]

definition tensor_entry :: "nat \<Rightarrow> nat \<Rightarrow> nat \<Rightarrow> AddrInfo" where
  "tensor_entry addr len ptrIdx = mk_AddrInfo addr len EXTRA DEFAULT 0"

fun second_inputs ::
  "bytes \<Rightarrow> nat \<Rightarrow> nat \<Rightarrow> aclrtPlaceHolderInfo list \<Rightarrow> AddrInfo list \<Rightarrow> AddrInfo list option"
where
  \<comment> \<open>the loop over the placeholders\<close>
  "second_inputs args index dtypeBytes [] acc = Some acc"
| "second_inputs args index dtypeBytes (ph # phs) acc =
     (if pl_addrOffset ph div 8 \<noteq> index then second_inputs args index dtypeBytes phs acc
      else
        let base = pl_dataOffset ph div 8; rd = (\<lambda>k. word_at args (base + k)) in
        case rd 0 of
          None \<Rightarrow> None
        | Some w \<Rightarrow>
            (case second_loop tensor_entry rd dtypeBytes (w div 8) 0 0 acc of
               None \<Rightarrow> None
             | Some acc \<Rightarrow> second_inputs args index dtypeBytes phs acc))"

definition ParseSecondPtrAddrs :: "AclrtLaunchArgsInfo \<Rightarrow> OpMemInfo \<Rightarrow> nat \<Rightarrow> OpMemInfo option" where
  "ParseSecondPtrAddrs la m index =
     (case map_of (om_secondPtrAddrInfos m) index of
        None \<Rightarrow> Some m
      | Some sp \<Rightarrow>
          (case la_placeHolderArray la of
             None \<Rightarrow> Some m
           | Some phs \<Rightarrow>
               map_option
                 (\<lambda>infos. m\<lparr>om_secondPtrAddrInfos :=
                    al_put index (sp\<lparr>sp_addrInfoVec := infos\<rparr>) (om_secondPtrAddrInfos m)\<rparr>)
                 (second_inputs (the (la_hostArgs la)) index (sp_dtypeBytes sp)
                    (take (la_placeHolderNum la) phs) (sp_addrInfoVec sp))))"

section \<open>Windows of a communication context\<close>

definition HCCL_MAX_RANK_NUM :: nat where
  "HCCL_MAX_RANK_NUM = 32"

definition mc2_src :: "bool \<Rightarrow> MemInfoSrc" where
  "mc2_src through = (if through then EXTRA else BYPASS)"

fun mc2_windows_910B :: "bool \<Rightarrow> bytes \<Rightarrow> nat list \<Rightarrow> AddrInfo list option" where
  \<comment> \<open>the loop over the ranks; the fields of \<open>HcclCombinOpParam\<close> by their offsets\<close>
  "mc2_windows_910B through p [] = Some []"
| "mc2_windows_910B through p (i # is) =
     (if \<not> through \<and> field p 16 4 = i then mc2_windows_910B through p is
      else if i \<ge> HCCL_MAX_RANK_NUM then None
      else
        map_option (\<lambda>rest.
            mk_AddrInfo (field p (32 + 8 * i) 8) (field p 24 8) (mc2_src through) HCCL_MC2_CONTEXT 0 #
            mk_AddrInfo (field p (288 + 8 * i) 8) (field p 24 8) (mc2_src through) HCCL_MC2_CONTEXT 0 # rest)
          (mc2_windows_910B through p is))"

definition GetMc2AddrInfosFromArgAddr910B ::
  "'w acl_api \<Rightarrow> ArgsManager \<Rightarrow> ptr \<Rightarrow> 'w \<Rightarrow> (AddrInfo list \<times> 'w) option"
where
  "GetMc2AddrInfosFromArgAddr910B api am addr w =
     (let ((e, hostData), w) = api_mallocHost api sizeof_HcclCombinOpParam w in
      if e \<noteq> ACL_SUCCESS then Some ([], w)
      else
        let ((e, p), w) = api_read api addr sizeof_HcclCombinOpParam w;
            w = snd (api_freeHost api hostData w) in
        if e \<noteq> ACL_SUCCESS then Some ([], w)
        else if field p 8872 1 \<noteq> 0 then Some ([], w)
        else map_option (\<lambda>infos. (infos, w))
               (mc2_windows_910B (am_throughAdump am) p [0..<field p 20 4]))"

definition sizeof_HcclOpResParam :: nat where
  "sizeof_HcclOpResParam = 2122720"

definition sizeof_HcclRankRelationResV2 :: nat where
  "sizeof_HcclRankRelationResV2 = 64"

definition AICPU_MAX_RANK_NUM :: nat where
  "AICPU_MAX_RANK_NUM = 128 * 1024"

fun mc2_windows_910C ::
  "'w acl_api \<Rightarrow> bool \<Rightarrow> bytes \<Rightarrow> nat list \<Rightarrow> 'w \<Rightarrow> (AddrInfo list \<times> 'w) option"
where
  \<comment> \<open>the loop over the ranks; the fields of \<open>HcclOpResParam\<close> by their offsets\<close>
  "mc2_windows_910C api through p [] w = Some ([], w)"
| "mc2_windows_910C api through p (i # is) w =
     (if \<not> through \<and> i = field p 16 4 then mc2_windows_910C api through p is w
      else if i \<ge> AICPU_MAX_RANK_NUM then None
      else
        let nextDevicePtr = field p (2984 + 16 * i + 8) 8 in
        if nextDevicePtr = 0 then mc2_windows_910C api through p is w
        else
          let ((e, r), w) = api_read api nextDevicePtr sizeof_HcclRankRelationResV2 w in
          if e \<noteq> ACL_SUCCESS then mc2_windows_910C api through p is w
          else
            map_option (\<lambda>(rest, w).
                (mk_AddrInfo (field r 8 8) (field p 24 8) (mc2_src through) HCCL_MC2_CONTEXT 0 # rest, w))
              (mc2_windows_910C api through p is w))"

definition GetMc2AddrInfosFromArgAddr910C ::
  "'w acl_api \<Rightarrow> ArgsManager \<Rightarrow> ptr \<Rightarrow> 'w \<Rightarrow> (AddrInfo list \<times> 'w) option"
where
  "GetMc2AddrInfosFromArgAddr910C api am addr w =
     (let ((e, hostData), w) = api_mallocHost api sizeof_HcclOpResParam w in
      if e \<noteq> ACL_SUCCESS then Some ([], w)
      else
        let ((e, p), w) = api_read api addr sizeof_HcclOpResParam w in
        if e \<noteq> ACL_SUCCESS then Some ([], snd (api_freeHost api hostData w))
        else
          let ((e, remoteResData), w) = api_mallocHost api sizeof_HcclRankRelationResV2 w in
          if e \<noteq> ACL_SUCCESS then Some ([], snd (api_freeHost api hostData w))
          else
            map_option (\<lambda>(infos, w).
                (infos, snd (api_freeHost api hostData (snd (api_freeHost api remoteResData w)))))
              (mc2_windows_910C api (am_throughAdump am) p [0..<field p 20 4] w))"

definition GetMc2AddrInfosFromArgAddr ::
  "'w acl_api \<Rightarrow> string \<Rightarrow> ArgsManager \<Rightarrow> ptr \<Rightarrow> 'w \<Rightarrow> (AddrInfo list \<times> 'w) option"
where
  "GetMc2AddrInfosFromArgAddr api soc am addr w =
     (case mc2_parser_of soc of
        Mc2_910C \<Rightarrow> GetMc2AddrInfosFromArgAddr910C api am addr w
      | Mc2_910B \<Rightarrow> GetMc2AddrInfosFromArgAddr910B api am addr w
      | Mc2_None \<Rightarrow> Some ([], w))"

section \<open>The search for the atomic index\<close>

text \<open>The length of the run of the magic byte that ends before an index, counted from index 4.\<close>

fun run_before :: "bytes \<Rightarrow> nat \<Rightarrow> nat" where
  "run_before data 0 = 0"
| "run_before data (Suc i) = (if 4 \<le> i \<and> data ! i = 0xA5 then Suc (run_before data i) else 0)"

definition magic_at :: "bytes \<Rightarrow> nat \<Rightarrow> bool" where
  \<comment> \<open>a little-endian word whose upper half is the magic number ends at \<open>i\<close>\<close>
  "magic_at data i \<longleftrightarrow> 7 \<le> i \<and> (\<forall>k < 4. data ! (i - k) = 0xA5)"

lemma run_before_ge4: "4 \<le> run_before data (Suc i) \<longleftrightarrow> magic_at data i"
proof -
  have *: "Suc n \<le> run_before data (Suc i) \<longleftrightarrow> n + 4 \<le> i \<and> (\<forall>k \<le> n. data ! (i - k) = 0xA5)" for n i
  proof (induction n arbitrary: i)
    case 0
    then show ?case by auto
  next
    case (Suc n)
    show ?case
    proof (cases i)
      case (Suc j)
      have "(\<forall>k \<le> Suc n. data ! (Suc j - k) = 0xA5) \<longleftrightarrow> data ! Suc j = 0xA5 \<and> (\<forall>k \<le> n. data ! (j - k) = 0xA5)"
        using All_less_Suc2 [of "Suc n" "\<lambda>k. data ! (Suc j - k) = 0xA5", unfolded less_Suc_eq_le] by simp
      then show ?thesis using Suc.IH [of j] Suc by auto
    qed auto
  qed
  show ?thesis using * [of 3 i] by (auto simp: magic_at_def numeral_eq_Suc less_Suc_eq_le)
qed

lemma tik_scan_upt:
  assumes "i \<le> n" "4 \<le> i"
  shows "tik_scan am data (min 3 (run_before data i)) [i..<n] =
    (case filter (\<lambda>j. magic_at data j \<and> GetAdumpInfo (atomic_index_at data j) am \<noteq> None) [i..<n] of
       [] \<Rightarrow> None
     | j # _ \<Rightarrow> GetAdumpInfo (atomic_index_at data j) am)"
  using assms
proof (induction "n - i" arbitrary: i)
  case 0
  then show ?case by simp
next
  case (Suc d)
  have upt: "[i..<n] = i # [Suc i..<n]" using Suc by (simp add: upt_conv_Cons)
  have IH: "tik_scan am data (min 3 (run_before data (Suc i))) [Suc i..<n] =
    (case filter (\<lambda>j. magic_at data j \<and> GetAdumpInfo (atomic_index_at data j) am \<noteq> None) [Suc i..<n] of
       [] \<Rightarrow> None
     | j # _ \<Rightarrow> GetAdumpInfo (atomic_index_at data j) am)"
    using Suc by (intro Suc.hyps) auto
  show ?case
  proof (cases "magic_at data i")
    case True
    then have run: "4 \<le> run_before data (Suc i)" and i: "7 \<le> i"
      using run_before_ge4 [of data i] by (auto simp: magic_at_def)
    then have a5: "data ! i = 0xA5" and r: "3 \<le> run_before data i"
      by (auto split: if_splits)
    then have "min 3 (run_before data i) = 3" "min 3 (run_before data (Suc i)) = 3" using run by auto
    then show ?thesis using True IH a5 i
      by (cases "GetAdumpInfo (atomic_index_at data i) am") (auto simp: upt)
  next
    case False
    then have "\<not> 4 \<le> run_before data (Suc i)" using run_before_ge4 by blast
    then have r: "run_before data i \<le> 2" if "data ! i = 0xA5"
      using that Suc.prems by (auto split: if_splits)
    show ?thesis
    proof (cases "data ! i = 0xA5")
      case True
      then have "min 3 (run_before data i) = run_before data i"
        "min 3 (run_before data (Suc i)) = Suc (run_before data i)"
        using r Suc.prems by auto
      then show ?thesis using True False IH r by (auto simp: upt)
    next
      case a5: False
      then have "min 3 (run_before data (Suc i)) = 0" by simp
      then show ?thesis using a5 False IH by (simp add: upt)
    qed
  qed
qed

text \<open>
  The search of a tik operator's tiling data is the search for its specification: the first
  position at which a little-endian word with the magic upper half ends (bytes 4 and up) and
  whose word is an announced index. The counter that slides over runs of the magic byte, also
  longer than four bytes and after words that are not announced, misses none and finds no other.
\<close>

theorem tik_scan_first_announced:
  shows "tik_scan am data 0 [4..<n] =
    (case filter (\<lambda>j. magic_at data j \<and> GetAdumpInfo (atomic_index_at data j) am \<noteq> None) [4..<n] of
       [] \<Rightarrow> None
     | j # _ \<Rightarrow> GetAdumpInfo (atomic_index_at data j) am)"
proof (cases "4 \<le> n")
  case True
  have "run_before data 4 = 0" by (simp add: numeral_eq_Suc)
  then show ?thesis using tik_scan_upt [OF True order_refl, of am data] by simp
qed simp

section \<open>What the readers find\<close>

text \<open>
  A writer of the host data of a second-level pointer: the byte offset of the pointers, a shape
  for each tensor (rank in the low half of its first word), then the pointers.
\<close>

definition shape_words :: "nat list \<Rightarrow> nat list" where
  "shape_words dims = length dims # dims"

definition second_words :: "(nat list \<times> nat) list \<Rightarrow> nat list" where
  "second_words ts =
     (let shapes = concat (map (\<lambda>(dims, addr). shape_words dims) ts) in
      8 * (length shapes + 1) # shapes @ map snd ts)"

definition second_infos :: "nat \<Rightarrow> (nat list \<times> nat) list \<Rightarrow> AddrInfo list" where
  "second_infos dtypeBytes ts =
     map (\<lambda>(dims, addr). mk_AddrInfo addr (wrap64 (prod_list dims * dtypeBytes)) EXTRA DEFAULT 0) ts"

lemma wrap64_mult_left: "wrap64 (wrap64 a * b) = wrap64 (a * b)"
  by (simp add: wrap64_def mod_mult_left_eq)

lemma shape_product_words:
  assumes "\<And>j. j < length dims \<Longrightarrow> rd (k + j) = Some (dims ! j)"
  shows "\<exists>p. shape_product rd k (length dims) acc = Some p \<and> wrap64 p = wrap64 (acc * prod_list dims)"
  using assms
proof (induction dims arbitrary: k acc)
  case (Cons d dims)
  have "rd k = Some d" using Cons.prems [of 0] by simp
  moreover have "rd (Suc k + j) = Some (dims ! j)" if "j < length dims" for j
    using Cons.prems [of "Suc j"] that by simp
  then have "\<exists>p. shape_product rd (Suc k) (length dims) (wrap64 (acc * d)) = Some p \<and>
      wrap64 p = wrap64 (wrap64 (acc * d) * prod_list dims)"
    by (intro Cons.IH) auto
  ultimately show ?case by (auto simp: wrap64_mult_left mult.assoc)
qed simp

definition shapes_of :: "(nat list \<times> nat) list \<Rightarrow> nat list" where
  "shapes_of ts = concat (map (\<lambda>(dims, addr). shape_words dims) ts)"

lemma shapes_of_append: "shapes_of (xs @ (dims, addr) # ys) = shapes_of xs @ length dims # dims @ shapes_of ys"
  by (simp add: shapes_of_def shape_words_def)

lemma second_loop_words:
  assumes "\<And>k. k < length (shapes_of (pre @ ts)) \<Longrightarrow> rd (k + 1) = Some (shapes_of (pre @ ts) ! k)"
    and "\<And>k. k < length (pre @ ts) \<Longrightarrow>
      rd (length (shapes_of (pre @ ts)) + 1 + k) = Some (snd ((pre @ ts) ! k))"
    and "\<forall>t \<in> set ts. length (fst t) < 2 ^ 32"
  shows "second_loop tensor_entry rd dt (length (shapes_of (pre @ ts)) + 1) (length (shapes_of pre)) (length pre) acc =
    Some (acc @ second_infos dt ts)"
  using assms
proof (induction ts arbitrary: pre acc)
  case Nil
  then show ?case by (subst second_loop.simps) (simp add: second_infos_def)
next
  case (Cons t ts)
  obtain dims addr where t: "t = (dims, addr)" by (cases t)
  let ?S = "shapes_of (pre @ t # ts)"
  have S: "?S = shapes_of pre @ length dims # dims @ shapes_of ts" unfolding t by (rule shapes_of_append)
  have d: "length dims < 2 ^ 32" using Cons.prems(3) by (simp add: t)
  have cnt: "rd (length (shapes_of pre) + 1) = Some (length dims)"
    using Cons.prems(1) [of "length (shapes_of pre)"] by (simp add: S)
  have dim: "rd (length (shapes_of pre) + 1 + 1 + j) = Some (dims ! j)" if "j < length dims" for j
    using Cons.prems(1) [of "length (shapes_of pre) + 1 + j"] that by (simp add: S nth_append)
  obtain q where q: "shape_product rd (length (shapes_of pre) + 1 + 1) (length dims) 1 = Some q"
      "wrap64 q = wrap64 (prod_list dims)"
    using shape_product_words [of dims rd "length (shapes_of pre) + 1 + 1" 1] dim by auto
  have adr: "rd (length ?S + 1 + length pre) = Some addr"
    using Cons.prems(2) [of "length pre"] by (simp add: t nth_append)
  have len: "wrap64 (q * dt) = wrap64 (prod_list dims * dt)"
    using q(2) wrap64_mult_left [of q dt] wrap64_mult_left [of "prod_list dims" dt] by simp
  have "second_loop tensor_entry rd dt (length ?S + 1) (length (shapes_of pre)) (length pre) acc =
      second_loop tensor_entry rd dt (length ?S + 1) (length (shapes_of (pre @ [t]))) (length (pre @ [t]))
        (acc @ [mk_AddrInfo addr (wrap64 (prod_list dims * dt)) EXTRA DEFAULT 0])"
    using d cnt q(1) adr
    by (subst second_loop.simps) (simp add: S t shapes_of_def shape_words_def len Let_def tensor_entry_def)
  also have "\<dots> = Some ((acc @ [mk_AddrInfo addr (wrap64 (prod_list dims * dt)) EXTRA DEFAULT 0]) @ second_infos dt ts)"
    using Cons.IH [of "pre @ [t]"] Cons.prems by simp
  finally show ?case by (simp add: second_infos_def t)
qed

lemma second_inputs_other:
  assumes "filter (\<lambda>ph. pl_addrOffset ph div 8 = index) phs = []"
  shows "second_inputs args index dt phs acc = Some acc"
  using assms by (induction phs) (auto split: if_splits)

lemma second_inputs_filter:
  "second_inputs args index dt phs acc =
   second_inputs args index dt (filter (\<lambda>ph. pl_addrOffset ph div 8 = index) phs) acc"
  by (induction args index dt phs acc rule: second_inputs.induct) (auto simp: Let_def split: option.splits)

text \<open>
  A kernel parameter that is a second-level pointer is expanded into the tensors behind it.
  If one placeholder of the launch belongs to the parameter and its data is the description of
  a list of tensors (a shape each, then the pointers), the parser appends exactly these
  tensors: each address with the product of its dimensions times the size of its data type.
\<close>

theorem second_ptr_tensors:
  assumes "map_of (om_secondPtrAddrInfos m) index = Some sp"
    and "la_hostArgs la = Some args" and "la_placeHolderArray la = Some phs"
    and "filter (\<lambda>ph. pl_addrOffset ph div 8 = index) (take (la_placeHolderNum la) phs) = [ph]"
    and "\<forall>k < length (second_words ts). word_at args (pl_dataOffset ph div 8 + k) = Some (second_words ts ! k)"
    and "\<forall>t \<in> set ts. length (fst t) < 2 ^ 32"
  shows "ParseSecondPtrAddrs la m index =
    Some (m\<lparr>om_secondPtrAddrInfos := al_put index
      (sp\<lparr>sp_addrInfoVec := sp_addrInfoVec sp @ second_infos (sp_dtypeBytes sp) ts\<rparr>) (om_secondPtrAddrInfos m)\<rparr>)"
proof -
  define rd where "rd = (\<lambda>k. word_at args (pl_dataOffset ph div 8 + k))"
  have ws: "second_words ts = 8 * (length (shapes_of ts) + 1) # shapes_of ts @ map snd ts"
    by (simp add: second_words_def shapes_of_def Let_def)
  have rd: "rd k = Some (second_words ts ! k)" if "k < length (second_words ts)" for k
    using assms(5) that by (simp add: rd_def)
  have rd0: "rd 0 = Some (8 * (length (shapes_of ts) + 1))" using rd [of 0] by (simp add: ws)
  have shapes: "rd (k + 1) = Some (shapes_of ts ! k)" if "k < length (shapes_of ts)" for k
    using rd [of "k + 1"] that by (simp add: ws nth_append)
  have ptrs: "rd (length (shapes_of ts) + 1 + k) = Some (snd (ts ! k))" if "k < length ts" for k
    using rd [of "length (shapes_of ts) + 1 + k"] that by (simp add: ws nth_append)
  have loop: "second_loop tensor_entry rd (sp_dtypeBytes sp) (length (shapes_of ts) + 1) 0 0 (sp_addrInfoVec sp) =
      Some (sp_addrInfoVec sp @ second_infos (sp_dtypeBytes sp) ts)"
    using second_loop_words [of "[]" ts rd "sp_dtypeBytes sp" "sp_addrInfoVec sp"] shapes ptrs assms(6)
    by (simp add: shapes_of_def)
  have "ph \<in> set (filter (\<lambda>ph. pl_addrOffset ph div 8 = index) (take (la_placeHolderNum la) phs))"
    unfolding assms(4) by simp
  then have "pl_addrOffset ph div 8 = index" by simp
  then have "second_inputs args index (sp_dtypeBytes sp) [ph] (sp_addrInfoVec sp) =
      Some (sp_addrInfoVec sp @ second_infos (sp_dtypeBytes sp) ts)"
    using rd0 loop unfolding rd_def by (simp add: Let_def)
  then show ?thesis
    using second_inputs_filter [of args index "sp_dtypeBytes sp" "take (la_placeHolderNum la) phs"] assms(1-4)
    by (simp add: ParseSecondPtrAddrs_def)
qed

definition launch_ex :: AclrtLaunchArgsInfo where
  "launch_ex = \<lparr>la_hostArgs = Some (concat (map (le_bytes 8) ([16, 0] @ second_words [([2, 3], 4096), ([5], 8192)]))),
     la_argsSize = 80, la_placeHolderArray = Some [\<lparr>pl_addrOffset = 0, pl_dataOffset = 16\<rparr>],
     la_placeHolderNum = 1, la_tilingAddrOffset = 0\<rparr>"

lemma word_at_words:
  assumes "k < length ws" "\<forall>v \<in> set ws. v < 2 ^ 64"
  shows "word_at (concat (map (le_bytes 8) ws)) k = Some (ws ! k)"
  using assms
proof (induction ws arbitrary: k)
  case (Cons w ws)
  show ?case
  proof (cases k)
    case 0
    then show ?thesis using Cons.prems by (simp add: word_at_def le_val_small)
  next
    case (Suc j)
    have len: "length (concat (map (le_bytes 8) ws)) = 8 * length ws" by (induction ws) auto
    have "word_at (concat (map (le_bytes 8) ws)) j = Some (ws ! j)" using Cons Suc by auto
    then show ?thesis using Suc by (simp add: word_at_def split: if_splits)
  qed
qed simp

theorem second_ptr_tensors_witness:
  "map_option om_secondPtrAddrInfos (ParseSecondPtrAddrs launch_ex
       (om0\<lparr>om_secondPtrAddrInfos := [(0, \<lparr>sp_dtypeBytes = 4, sp_addrInfoVec = []\<rparr>)]\<rparr>) 0) =
     Some [(0, \<lparr>sp_dtypeBytes = 4, sp_addrInfoVec =
       [mk_AddrInfo 4096 24 EXTRA DEFAULT 0, mk_AddrInfo 8192 20 EXTRA DEFAULT 0]\<rparr>)]"
proof -
  let ?ts = "[([2, 3], 4096), ([5], 8192)] :: (nat list \<times> nat) list"
  let ?m = "om0\<lparr>om_secondPtrAddrInfos := [(0, \<lparr>sp_dtypeBytes = 4, sp_addrInfoVec = []\<rparr>)]\<rparr>"
  have w: "word_at (the (la_hostArgs launch_ex)) (2 + k) = Some (second_words ?ts ! k)"
    if "k < length (second_words ?ts)" for k
    using word_at_words [of "2 + k" "[16, 0] @ second_words ?ts"] that
    by (auto simp: launch_ex_def second_words_def shape_words_def)
  have "ParseSecondPtrAddrs launch_ex ?m 0 = Some (?m\<lparr>om_secondPtrAddrInfos := al_put 0
      (\<lparr>sp_dtypeBytes = 4, sp_addrInfoVec = []\<rparr>\<lparr>sp_addrInfoVec := [] @ second_infos 4 ?ts\<rparr>)
      (om_secondPtrAddrInfos ?m)\<rparr>)"
    using second_ptr_tensors [of ?m 0 "\<lparr>sp_dtypeBytes = 4, sp_addrInfoVec = []\<rparr>" launch_ex
        "the (la_hostArgs launch_ex)" "[\<lparr>pl_addrOffset = 0, pl_dataOffset = 16\<rparr>]"
        "\<lparr>pl_addrOffset = 0, pl_dataOffset = 16\<rparr>" ?ts] w
    by (simp add: launch_ex_def)
  then show ?thesis
    by (simp add: second_infos_def om0_def wrap64_small)
qed

end
