(* ===== verification/ElfLoader.thy ===== *)
theory ElfLoader
  imports Serialize MetaData
begin

text \<open>
  Models utils/ElfLoader.h and ElfLoader.cpp, and the part of
  runtime/inject_helpers/RegisterContext.cpp that reads the symbols of a kernel from its binary. The
  binary is a list of bytes that is parsed in place. A read that the code does not check itself is
  \<open>Undef\<close> when it leaves its buffer; \<open>Fail\<close> is the code's own \<open>false\<close>. A multimap keeps the entries of
  a name in the order of their insertion, so it is the list of all entries.
\<close>

section \<open>Values in a buffer\<close>

datatype 'a elf_result = Undef | Fail | Ok 'a

definition read_bytes :: "bytes \<Rightarrow> nat \<Rightarrow> nat \<Rightarrow> bytes option" where
  \<comment> \<open>\<open>ReadValue\<close> and \<open>ReadArray\<close>: the bytes of the value\<close>
  "read_bytes data off n =
     (if off > length data \<or> length data - off < n then None else Some (take n (drop off data)))"

definition cstr_at :: "bytes \<Rightarrow> nat \<Rightarrow> bytes option" where
  \<comment> \<open>the string at a position; \<open>None\<close> when no terminator follows\<close>
  "cstr_at buf off = (if 0 \<in> set (drop off buf) then Some (takeWhile (\<lambda>b. b \<noteq> 0) (drop off buf)) else None)"

record Elf64_Ehdr =
  e_ident :: bytes
  e_shoff :: nat
  e_flags :: nat
  e_ehsize :: nat
  e_phentsize :: nat
  e_phnum :: nat
  e_shentsize :: nat
  e_shnum :: nat
  e_shstrndx :: nat

record Elf64_Shdr =
  sh_name :: nat
  sh_type :: nat
  sh_flags :: nat
  sh_addr :: nat
  sh_offset :: nat
  sh_size :: nat
  sh_link :: nat

record Elf64_Sym =
  st_name :: nat
  st_info :: nat
  st_shndx :: nat
  st_value :: nat

definition dec_ehdr :: "bytes \<Rightarrow> Elf64_Ehdr" where
  "dec_ehdr bs = \<lparr>e_ident = take 16 bs, e_shoff = field bs 40 8, e_flags = field bs 48 4, e_ehsize = field bs 52 2,
     e_phentsize = field bs 54 2, e_phnum = field bs 56 2, e_shentsize = field bs 58 2, e_shnum = field bs 60 2,
     e_shstrndx = field bs 62 2\<rparr>"

definition dec_shdr :: "bytes \<Rightarrow> Elf64_Shdr" where
  "dec_shdr bs = \<lparr>sh_name = field bs 0 4, sh_type = field bs 4 4, sh_flags = field bs 8 8, sh_addr = field bs 16 8,
     sh_offset = field bs 24 8, sh_size = field bs 32 8, sh_link = field bs 40 4\<rparr>"

definition dec_sym :: "bytes \<Rightarrow> Elf64_Sym" where
  "dec_sym bs = \<lparr>st_name = field bs 0 4, st_info = field bs 4 1, st_shndx = field bs 6 2, st_value = field bs 8 8\<rparr>"

definition sizeof_Ehdr :: nat where "sizeof_Ehdr = 64"
definition sizeof_Shdr :: nat where "sizeof_Shdr = 64"
definition sizeof_Sym :: nat where "sizeof_Sym = 24"

definition LoadHeader :: "bytes \<Rightarrow> Elf64_Ehdr option" where
  "LoadHeader data = map_option dec_ehdr (read_bytes data 0 sizeof_Ehdr)"

definition read_shdr :: "bytes \<Rightarrow> nat \<Rightarrow> Elf64_Shdr option" where
  "read_shdr data off = map_option dec_shdr (read_bytes data off sizeof_Shdr)"

definition read_sym :: "bytes \<Rightarrow> nat \<Rightarrow> Elf64_Sym option" where
  "read_sym data off = map_option dec_sym (read_bytes data off sizeof_Sym)"

section \<open>The section table\<close>

definition ValidateElfHeader :: "Elf64_Ehdr \<Rightarrow> bool" where
  "ValidateElfHeader h \<longleftrightarrow>
     take 4 (e_ident h) = [0x7F, 0x45, 0x4C, 0x46] \<and> e_ident h ! 4 = 2 \<and> e_ident h ! 5 = 1 \<and>
     \<not> e_shnum h \<le> e_shstrndx h"

definition ValidateElfHeaderSafety :: "Elf64_Ehdr \<Rightarrow> nat \<Rightarrow> bool" where
  "ValidateElfHeaderSafety h maxSafeSize =
     (if maxSafeSize < e_ehsize h \<or> maxSafeSize < e_phentsize h \<or> maxSafeSize < e_phnum h \<or>
         maxSafeSize < e_shentsize h \<or> maxSafeSize < e_shnum h \<or> maxSafeSize < e_shstrndx h then False
      else \<not> maxSafeSize < wrap64 (e_shoff h + wrap64 (sub64 (e_shnum h) 1 * e_shentsize h)))"

definition ReadSectionHeaders :: "bytes \<Rightarrow> Elf64_Ehdr \<Rightarrow> Elf64_Shdr list option" where
  "ReadSectionHeaders data h =
     (if e_shentsize h \<noteq> sizeof_Shdr \<or> e_shoff h = 0 \<or> e_shnum h = 0 then None
      else those (map (\<lambda>i. read_shdr data (wrap64 (e_shoff h + i * e_shentsize h))) [0..<e_shnum h]))"

type_synonym sections = "(bytes \<times> Elf64_Shdr) list"

fun name_loop :: "bytes \<Rightarrow> Elf64_Shdr list \<Rightarrow> sections \<times> sections \<Rightarrow> (sections \<times> sections) elf_result" where
  "name_loop buf [] acc = Ok acc"
| "name_loop buf (sh # shs) (secs, all) =
     (if sh_name sh \<ge> length buf then Fail
      else (case cstr_at buf (sh_name sh) of
              None \<Rightarrow> Undef
            | Some name \<Rightarrow> name_loop buf shs (al_put name sh secs, all @ [(name, sh)])))"

definition BuildSectionMap :: "bytes \<Rightarrow> Elf64_Ehdr \<Rightarrow> (sections \<times> sections) elf_result" where
  \<comment> \<open>\<open>sections\<close> and \<open>allSections\<close>\<close>
  "BuildSectionMap data h =
     (case ReadSectionHeaders data h of
        None \<Rightarrow> Fail
      | Some shdrs \<Rightarrow>
          let nameSec = shdrs ! e_shstrndx h in
          (case read_bytes data (sh_offset nameSec) (sh_size nameSec) of
             None \<Rightarrow> Fail
           | Some buf \<Rightarrow> if buf = [] \<or> last buf \<noteq> 0 then Fail else name_loop buf shdrs ([], [])))"

definition ScanSectionHeaders :: "bytes \<Rightarrow> (sections \<times> sections) elf_result" where
  "ScanSectionHeaders data =
     (if data = [] then Fail
      else (case LoadHeader data of
              None \<Rightarrow> Fail
            | Some h \<Rightarrow>
                if e_shentsize h \<noteq> sizeof_Shdr \<or> e_shoff h = 0 \<or> e_shnum h = 0 then Fail
                else if \<not> ValidateElfHeader h then Fail
                else if \<not> ValidateElfHeaderSafety h (length data) then Fail
                else BuildSectionMap data h))"

record Elf =
  elf_buffer :: bytes
  elf_sections :: sections
  elf_all :: sections

definition FromBuffer :: "bytes \<Rightarrow> Elf elf_result" where
  \<comment> \<open>on a fresh loader, and \<open>Load\<close>\<close>
  "FromBuffer buffer =
     (if buffer = [] then Fail
      else (case LoadHeader buffer of
              None \<Rightarrow> Fail
            | Some h \<Rightarrow>
                if \<not> ValidateElfHeader h then Fail
                else if \<not> ValidateElfHeaderSafety h (length buffer) then Fail
                else (case BuildSectionMap buffer h of
                        Ok (secs, all) \<Rightarrow> Ok \<lparr>elf_buffer = buffer, elf_sections = secs, elf_all = all\<rparr>
                      | Fail \<Rightarrow> Fail | Undef \<Rightarrow> Undef)))"

section \<open>The contents of sections\<close>

definition ReadRawData :: "Elf \<Rightarrow> bytes \<Rightarrow> bytes" where
  "ReadRawData e name =
     (case map_of (elf_sections e) name of
        None \<Rightarrow> []
      | Some sh \<Rightarrow> (case read_bytes (elf_buffer e) (sh_offset sh) (sh_size sh) of None \<Rightarrow> [] | Some bs \<Rightarrow> bs))"

fun split0 :: "bytes \<Rightarrow> bytes list" where
  \<comment> \<open>\<open>SplitString(str, '\0', res)\<close>: \<open>getline\<close> gives no piece after a final separator\<close>
  "split0 [] = []"
| "split0 (b # bs) =
     (if b = 0 then [] # split0 bs
      else (case split0 bs of
              [] \<Rightarrow> [[b]]
            | p # ps \<Rightarrow> (b # p) # ps))"

definition ReadStringTable :: "Elf \<Rightarrow> bytes \<Rightarrow> bytes list elf_result" where
  "ReadStringTable e name =
     (case map_of (elf_sections e) name of
        None \<Rightarrow> Ok []
      | Some sh \<Rightarrow>
          let off = sh_offset sh; len = length (elf_buffer e); rest = sub64 len off in
          if off < len \<and> elf_buffer e ! off \<noteq> 0 then Ok []
          else if \<not> (sh_size sh > 2 \<and> rest > 2) then Ok []
          else let n = min (sh_size sh - 2) (rest - 2) in
            (if off + 1 + n > len then Undef else Ok (split0 (take n (drop (off + 1) (elf_buffer e))))))"

fun all_raw :: "bytes \<Rightarrow> Elf64_Shdr list \<Rightarrow> bytes option" where
  "all_raw data [] = Some []"
| "all_raw data (sh # shs) =
     (if sh_size sh > length data \<or> sh_offset sh > length data - sh_size sh then None
      else map_option (\<lambda>out. take (sh_size sh) (drop (sh_offset sh) data) @ out) (all_raw data shs))"

definition headers_of :: "sections \<Rightarrow> bytes \<Rightarrow> Elf64_Shdr list" where
  \<comment> \<open>\<open>equal_range(name)\<close>\<close>
  "headers_of all name = map snd (filter (\<lambda>p. fst p = name) all)"

definition ReadAllRawData :: "bytes \<Rightarrow> sections \<Rightarrow> bytes \<Rightarrow> bytes option" where
  "ReadAllRawData data all name =
     (if headers_of all name = [] then None else all_raw data (headers_of all name))"

definition Elf_ReadAllRawData :: "Elf \<Rightarrow> bytes \<Rightarrow> bytes" where
  "Elf_ReadAllRawData e name =
     (case ReadAllRawData (elf_buffer e) (elf_all e) name of None \<Rightarrow> [] | Some bs \<Rightarrow> bs)"

section \<open>Symbols\<close>

definition SHT_SYMTAB :: nat where "SHT_SYMTAB = 2"

definition text_name :: bytes where
  "text_name = [0x2E, 0x74, 0x65, 0x78, 0x74]"

fun locate_loop :: "bytes \<Rightarrow> nat \<Rightarrow> Elf64_Shdr list \<Rightarrow> nat option \<times> nat option \<Rightarrow> (nat option \<times> nat option) elf_result" where
  \<comment> \<open>the first symbol table and the first section named \<open>.text\<close>\<close>
  "locate_loop buf i [] acc = Ok acc"
| "locate_loop buf i (sh # shs) (symtab, tidx) =
     (let symtab = (if sh_type sh = SHT_SYMTAB \<and> symtab = None then Some i else symtab) in
      if tidx = None \<and> sh_name sh < length buf then
        (case cstr_at buf (sh_name sh) of
           None \<Rightarrow> Undef
         | Some name \<Rightarrow> locate_loop buf (Suc i) shs (symtab, if name = text_name then Some i else tidx))
      else locate_loop buf (Suc i) shs (symtab, tidx))"

definition LocateKernelSymtab :: "bytes \<Rightarrow> (Elf64_Shdr \<times> Elf64_Shdr \<times> nat option) elf_result" where
  \<comment> \<open>the headers of the symbol table and its strings, and the index of \<open>.text\<close> when there is one\<close>
  "LocateKernelSymtab data =
     (if data = [] then Fail
      else (case LoadHeader data of
              None \<Rightarrow> Fail
            | Some h \<Rightarrow>
                if e_shentsize h \<noteq> sizeof_Shdr \<or> e_shoff h = 0 \<or> e_shnum h = 0 \<or> e_shstrndx h \<ge> e_shnum h then Fail
                else if \<not> ValidateElfHeader h \<or> \<not> ValidateElfHeaderSafety h (length data) then Fail
                else (case ReadSectionHeaders data h of
                        None \<Rightarrow> Fail
                      | Some shdrs \<Rightarrow>
                          let nameSec = shdrs ! e_shstrndx h in
                          (case (if sh_size nameSec = 0 then None else read_bytes data (sh_offset nameSec) (sh_size nameSec)) of
                             None \<Rightarrow> Fail
                           | Some buf \<Rightarrow>
                               if buf = [] \<or> last buf \<noteq> 0 then Fail
                               else (case locate_loop buf 0 shdrs (None, None) of
                                       Ok (Some k, tidx) \<Rightarrow>
                                         let symtab = shdrs ! k in
                                         if sh_link symtab \<ge> e_shnum h then Fail
                                         else let strtab = shdrs ! sh_link symtab in
                                           (if sh_offset symtab > length data \<or> sh_size symtab > length data - sh_offset symtab \<or>
                                               sh_offset strtab > length data \<or> sh_size strtab > length data - sh_offset strtab
                                            then Fail else Ok (symtab, strtab, tidx))
                                     | Ok (None, tidx) \<Rightarrow> Fail
                                     | Fail \<Rightarrow> Fail | Undef \<Rightarrow> Undef)))))"

record ElfKernelSymbols =
  ks_names :: "bytes list"
  ks_offsets :: "nat list"
  ks_hasSimt :: bool

definition no_symbols :: ElfKernelSymbols where
  "no_symbols = \<lparr>ks_names = [], ks_offsets = [], ks_hasSimt = False\<rparr>"

definition add_symbol :: "bytes \<Rightarrow> Elf64_Sym \<Rightarrow> ElfKernelSymbols \<Rightarrow> ElfKernelSymbols" where
  \<comment> \<open>with the bytes from the name to the end of the string table; \<open>STB_GLOBAL\<close>, \<open>STT_FUNC\<close>, \<open>STB_LOCAL\<close>\<close>
  "add_symbol name sy out =
     (if st_info sy div 16 = 1 \<and> st_info sy mod 16 = 2
      then out\<lparr>ks_offsets := ks_offsets out @ [st_value sy], ks_names := ks_names out @ [takeWhile (\<lambda>b. b \<noteq> 0) name]\<rparr>
      else if st_info sy div 16 = 0 \<and> length name \<ge> 2 \<and> name ! 0 = 0x24 \<and> name ! 1 = 0x74
      then out\<lparr>ks_hasSimt := True\<rparr> else out)"

fun symbol_loop ::
  "bytes \<Rightarrow> Elf64_Shdr \<Rightarrow> Elf64_Shdr \<Rightarrow> nat option \<Rightarrow> nat list \<Rightarrow> ElfKernelSymbols \<Rightarrow> ElfKernelSymbols elf_result"
where
  "symbol_loop data symtab strtab tidx [] out = Ok out"
| "symbol_loop data symtab strtab tidx (i # is) out =
     (case read_sym data (wrap64 (sh_offset symtab + i * sizeof_Sym)) of
        None \<Rightarrow> Fail
      | Some sy \<Rightarrow>
          if st_name sy \<ge> sh_size strtab \<or> tidx \<noteq> Some (st_shndx sy) then symbol_loop data symtab strtab tidx is out
          else
            let from = sh_offset strtab + st_name sy; nameBytes = sh_size strtab - st_name sy in
            if from + nameBytes > length data then Undef
            else symbol_loop data symtab strtab tidx is (add_symbol (take nameBytes (drop from data)) sy out))"

definition CollectKernelSymbols ::
  "bytes \<Rightarrow> Elf64_Shdr \<Rightarrow> Elf64_Shdr \<Rightarrow> nat option \<Rightarrow> ElfKernelSymbols elf_result"
where
  "CollectKernelSymbols data symtab strtab tidx =
     symbol_loop data symtab strtab tidx [0..<sh_size symtab div sizeof_Sym] no_symbols"

definition ScanKernelSymbols :: "bytes \<Rightarrow> ElfKernelSymbols elf_result" where
  "ScanKernelSymbols data =
     (case LocateKernelSymtab data of
        Ok (symtab, strtab, tidx) \<Rightarrow> CollectKernelSymbols data symtab strtab tidx
      | Fail \<Rightarrow> Fail | Undef \<Rightarrow> Undef)"

section \<open>Strings in a terminated table\<close>

definition terminated :: "bytes \<Rightarrow> bool" where
  "terminated buf \<longleftrightarrow> buf \<noteq> [] \<and> last buf = 0"

lemma cstr_at_terminated:
  assumes "terminated buf" "off < length buf"
  shows "cstr_at buf off = Some (takeWhile (\<lambda>b. b \<noteq> 0) (drop off buf))"
proof -
  have "drop off buf \<noteq> []" using assms(2) by simp
  then have "last (drop off buf) \<in> set (drop off buf)" by (rule last_in_set)
  then show ?thesis using assms by (simp add: cstr_at_def terminated_def)
qed

definition section_name :: "bytes \<Rightarrow> Elf64_Shdr \<Rightarrow> bytes" where
  "section_name buf sh = takeWhile (\<lambda>b. b \<noteq> 0) (drop (sh_name sh) buf)"

lemma name_loop_terminated:
  assumes "terminated buf"
  shows "name_loop buf shs (secs, all) =
    (if \<forall>sh \<in> set shs. sh_name sh < length buf
     then Ok (foldl (\<lambda>m sh. al_put (section_name buf sh) sh m) secs shs, all @ map (\<lambda>sh. (section_name buf sh, sh)) shs)
     else Fail)"
proof (induction shs arbitrary: secs all)
  case (Cons sh shs)
  then show ?case using assms by (auto simp: cstr_at_terminated section_name_def)
qed simp

lemma locate_loop_terminated: "terminated buf \<Longrightarrow> locate_loop buf i shs (symtab, tidx) \<noteq> Undef"
proof (induction shs arbitrary: i symtab tidx)
  case (Cons sh shs)
  then show ?case by (simp add: cstr_at_terminated Let_def)
qed simp

lemma BuildSectionMap_safe: "BuildSectionMap data h \<noteq> Undef"
proof -
  have "name_loop buf shs ([], []) \<noteq> Undef" if "buf \<noteq> []" "last buf = 0" for buf shs
    using that name_loop_terminated [of buf shs "[]" "[]"] by (simp add: terminated_def)
  then show ?thesis by (auto simp: BuildSectionMap_def Let_def split: option.splits)
qed

lemma LocateKernelSymtab_cases:
  obtains "LocateKernelSymtab data = Fail"
  | symtab strtab tidx where "LocateKernelSymtab data = Ok (symtab, strtab, tidx)"
    "sh_offset symtab + sh_size symtab \<le> length data" "sh_offset strtab + sh_size strtab \<le> length data"
proof -
  have loop: "locate_loop buf 0 shdrs (None, None) \<noteq> Undef" if "buf \<noteq> []" "last buf = 0" for buf shdrs
    using that locate_loop_terminated [of buf 0 shdrs None None] by (simp add: terminated_def)
  show ?thesis
  proof (cases "LocateKernelSymtab data")
    case Undef
    then show ?thesis using loop
      by (auto simp: LocateKernelSymtab_def Let_def split: if_splits option.splits elf_result.splits)
  next
    case Fail
    then show ?thesis by (rule that(1))
  next
    case (Ok x)
    obtain symtab strtab tidx where x: "x = (symtab, strtab, tidx)" by (metis prod_cases3)
    have "sh_offset symtab + sh_size symtab \<le> length data" "sh_offset strtab + sh_size strtab \<le> length data"
      using Ok x by (auto simp: LocateKernelSymtab_def Let_def split: if_splits option.splits elf_result.splits)
    then show ?thesis using that(2) Ok x by blast
  qed
qed

section \<open>The scan as a comprehension\<close>

definition symbol_at :: "bytes \<Rightarrow> Elf64_Shdr \<Rightarrow> nat \<Rightarrow> Elf64_Sym" where
  "symbol_at data symtab i = dec_sym (take sizeof_Sym (drop (sh_offset symtab + i * sizeof_Sym) data))"

definition name_bytes :: "bytes \<Rightarrow> Elf64_Shdr \<Rightarrow> Elf64_Sym \<Rightarrow> bytes" where
  \<comment> \<open>from the symbol's name to the end of the string table\<close>
  "name_bytes data strtab s = take (sh_size strtab - st_name s) (drop (sh_offset strtab + st_name s) data)"

definition text_symbols :: "bytes \<Rightarrow> Elf64_Shdr \<Rightarrow> Elf64_Shdr \<Rightarrow> nat option \<Rightarrow> Elf64_Sym list" where
  \<comment> \<open>the symbols of the table that have a name and lie in \<open>.text\<close>\<close>
  "text_symbols data symtab strtab tidx =
     filter (\<lambda>s. st_name s < sh_size strtab \<and> tidx = Some (st_shndx s))
       (map (symbol_at data symtab) [0..<sh_size symtab div sizeof_Sym])"

definition is_kernel :: "Elf64_Sym \<Rightarrow> bool" where
  \<comment> \<open>a global function\<close>
  "is_kernel s \<longleftrightarrow> st_info s div 16 = 1 \<and> st_info s mod 16 = 2"

definition is_simt :: "bytes \<Rightarrow> Elf64_Sym \<Rightarrow> bool" where
  \<comment> \<open>a local symbol whose name begins with \<open>$t\<close>\<close>
  "is_simt name s \<longleftrightarrow> st_info s div 16 = 0 \<and> take 2 name = [0x24, 0x74]"

definition kernel_symbols :: "bytes \<Rightarrow> Elf64_Shdr \<Rightarrow> Elf64_Shdr \<Rightarrow> nat option \<Rightarrow> ElfKernelSymbols" where
  "kernel_symbols data symtab strtab tidx =
     (let syms = text_symbols data symtab strtab tidx; kernels = filter is_kernel syms in
      \<lparr>ks_names = map (\<lambda>s. takeWhile (\<lambda>b. b \<noteq> 0) (name_bytes data strtab s)) kernels,
       ks_offsets = map st_value kernels,
       ks_hasSimt = list_ex (\<lambda>s. is_simt (name_bytes data strtab s) s) syms\<rparr>)"

lemma take2: "take 2 xs = [a, b] \<longleftrightarrow> length xs \<ge> 2 \<and> xs ! 0 = a \<and> xs ! 1 = b"
  by (cases xs; cases "tl xs") (auto simp: numeral_2_eq_2)

lemma add_symbol_fields:
  "ks_names (add_symbol name s out) = ks_names out @ (if is_kernel s then [takeWhile (\<lambda>b. b \<noteq> 0) name] else [])"
  "ks_offsets (add_symbol name s out) = ks_offsets out @ (if is_kernel s then [st_value s] else [])"
  "ks_hasSimt (add_symbol name s out) \<longleftrightarrow> ks_hasSimt out \<or> is_simt name s"
  by (auto simp: add_symbol_def is_kernel_def is_simt_def take2)

lemma symbol_loop_spec:
  fixes tidx :: "nat option"
  assumes "length data < 2 ^ 64" "sh_offset strtab + sh_size strtab \<le> length data"
    and "\<And>i. i \<in> set js \<Longrightarrow> sh_offset symtab + i * sizeof_Sym + sizeof_Sym \<le> length data"
  defines "keep \<equiv> filter (\<lambda>s. st_name s < sh_size strtab \<and> tidx = Some (st_shndx s)) (map (symbol_at data symtab) js)"
  shows "symbol_loop data symtab strtab tidx js out =
    Ok \<lparr>ks_names = ks_names out @ map (\<lambda>s. takeWhile (\<lambda>b. b \<noteq> 0) (name_bytes data strtab s)) (filter is_kernel keep),
        ks_offsets = ks_offsets out @ map st_value (filter is_kernel keep),
        ks_hasSimt = (ks_hasSimt out \<or> list_ex (\<lambda>s. is_simt (name_bytes data strtab s) s) keep)\<rparr>"
  using assms(3) unfolding keep_def
proof (induction js arbitrary: out)
  case (Cons i js)
  have in_data: "sh_offset symtab + i * sizeof_Sym + sizeof_Sym \<le> length data" using Cons.prems by simp
  then have "wrap64 (sh_offset symtab + i * sizeof_Sym) = sh_offset symtab + i * sizeof_Sym"
    using assms(1) by (intro wrap64_small) simp
  then have read: "read_sym data (wrap64 (sh_offset symtab + i * sizeof_Sym)) = Some (symbol_at data symtab i)"
    using in_data by (simp add: read_sym_def read_bytes_def symbol_at_def)
  have inside: "sh_offset strtab + st_name s + (sh_size strtab - st_name s) \<le> length data" if "st_name s < sh_size strtab" for s
    using assms(2) that by simp
  let ?s = "symbol_at data symtab i"
  let ?keep = "st_name ?s < sh_size strtab \<and> tidx = Some (st_shndx ?s)"
  let ?next = "if ?keep then add_symbol (name_bytes data strtab ?s) ?s out else out"
  have step: "symbol_loop data symtab strtab tidx (i # js) out = symbol_loop data symtab strtab tidx js ?next"
    using inside [of ?s] by (cases ?keep) (auto simp: read Let_def name_bytes_def)
  note IH = Cons.IH [of ?next, OF Cons.prems [OF list.set_intros(2)]]
  show ?case
    by (rule trans [OF step], rule trans [OF IH], cases ?keep) (auto simp: add_symbol_fields)
qed simp

lemma collect_symbols:
  assumes "length data < 2 ^ 64" "sh_offset symtab + sh_size symtab \<le> length data"
    and "sh_offset strtab + sh_size strtab \<le> length data"
  shows "CollectKernelSymbols data symtab strtab tidx = Ok (kernel_symbols data symtab strtab tidx)"
proof -
  have "sh_offset symtab + i * sizeof_Sym + sizeof_Sym \<le> length data" if "i < sh_size symtab div sizeof_Sym" for i
  proof -
    have "Suc i * sizeof_Sym \<le> sh_size symtab div sizeof_Sym * sizeof_Sym" using that by (intro mult_le_mono1) simp
    also have "\<dots> \<le> sh_size symtab" by simp
    finally show ?thesis using assms(2) by simp
  qed
  then show ?thesis
    using symbol_loop_spec [OF assms(1,3), of "[0..<sh_size symtab div sizeof_Sym]" symtab tidx no_symbols]
    by (simp add: CollectKernelSymbols_def kernel_symbols_def text_symbols_def no_symbols_def Let_def)
qed

section \<open>Writing a table\<close>

definition enc_shdr :: "Elf64_Shdr \<Rightarrow> bytes" where
  "enc_shdr sh = le_bytes 4 (sh_name sh) @ le_bytes 4 (sh_type sh) @ le_bytes 8 (sh_flags sh) @ le_bytes 8 (sh_addr sh) @
     le_bytes 8 (sh_offset sh) @ le_bytes 8 (sh_size sh) @ le_bytes 4 (sh_link sh) @ replicate 20 0"

definition wf_shdr :: "Elf64_Shdr \<Rightarrow> bool" where
  "wf_shdr sh \<longleftrightarrow> sh_name sh < 2 ^ 32 \<and> sh_type sh < 2 ^ 32 \<and> sh_flags sh < 2 ^ 64 \<and> sh_addr sh < 2 ^ 64 \<and>
     sh_offset sh < 2 ^ 64 \<and> sh_size sh < 2 ^ 64 \<and> sh_link sh < 2 ^ 32"

definition enc_ident :: bytes where
  "enc_ident = [0x7F, 0x45, 0x4C, 0x46, 2, 1] @ replicate 10 0"

definition enc_ehdr :: "nat \<Rightarrow> nat \<Rightarrow> nat \<Rightarrow> bytes" where
  "enc_ehdr shoff shnum shstrndx =
     enc_ident @ replicate 24 0 @ le_bytes 8 shoff @ replicate 4 0 @ le_bytes 2 64 @ replicate 4 0 @
     le_bytes 2 64 @ le_bytes 2 shnum @ le_bytes 2 shstrndx"

definition elf_image :: "bytes \<Rightarrow> Elf64_Shdr list \<Rightarrow> nat \<Rightarrow> bytes" where
  "elf_image body shdrs k = enc_ehdr (64 + length body) (length shdrs) k @ body @ concat (map enc_shdr shdrs)"

lemma length_enc [simp]: "length (enc_shdr sh) = 64" "length (enc_ehdr a b c) = 64" "length enc_ident = 16"
  by (simp_all add: enc_shdr_def enc_ehdr_def enc_ident_def)

lemma length_concat_enc: "length (concat (map enc_shdr shdrs)) = 64 * length shdrs"
  by (induction shdrs) simp_all

lemma length_elf_image: "length (elf_image body shdrs k) = 64 + length body + 64 * length shdrs"
  by (simp add: elf_image_def length_concat_enc)

lemma field_skip: "length xs \<le> off \<Longrightarrow> field (xs @ ys) off n = field ys (off - length xs) n"
  by (simp add: field_def)

lemma field_here: "v < 256 ^ n \<Longrightarrow> field (le_bytes n v @ ys) 0 n = v"
  by (simp add: field_def le_val_small)

lemma field_last: "v < 256 ^ n \<Longrightarrow> field (le_bytes n v) 0 n = v"
  by (simp add: field_def le_val_small)

lemma dec_enc_shdr: "wf_shdr sh \<Longrightarrow> dec_shdr (enc_shdr sh) = sh"
  by (simp add: dec_shdr_def enc_shdr_def wf_shdr_def field_skip field_here)

lemma dec_enc_ehdr:
  assumes "shoff < 2 ^ 64" "shnum < 2 ^ 16" "k < 2 ^ 16"
  shows "dec_ehdr (enc_ehdr shoff shnum k) = \<lparr>e_ident = enc_ident, e_shoff = shoff, e_flags = 0, e_ehsize = 64,
    e_phentsize = 0, e_phnum = 0, e_shentsize = 64, e_shnum = shnum, e_shstrndx = k\<rparr>"
proof -
  have zero: "field (replicate m 0 @ ys) 0 n = 0" if "n \<le> m" for m n ys
  proof -
    have "le_val (replicate n 0) = 0" by (induction n) simp_all
    then show ?thesis using that by (simp add: field_def min_def)
  qed
  have split4: "replicate 4 0 = replicate 2 (0 :: byte) @ replicate 2 0" by (simp add: replicate_add [symmetric])
  have phnum: "field (replicate 4 0 @ ys) 2 2 = 0" for ys
    by (simp add: split4 field_skip zero)
  show ?thesis
    using assms by (simp add: dec_ehdr_def enc_ehdr_def field_skip field_here field_last zero phnum)
qed

lemma take_drop_concat:
  assumes "\<And>xs. xs \<in> set xss \<Longrightarrow> length xs = n" "i < length xss"
  shows "take n (drop (i * n) (concat xss)) = xss ! i"
  using assms
proof (induction xss arbitrary: i)
  case (Cons xs xss)
  then show ?case by (cases i) (auto simp: add.commute)
qed simp

lemma read_table:
  assumes "length (elf_image body shdrs k) < 2 ^ 64" "i < length shdrs" "wf_shdr (shdrs ! i)"
  shows "read_shdr (elf_image body shdrs k) (wrap64 (64 + length body + i * 64)) = Some (shdrs ! i)"
proof -
  have i: "i * 64 + 64 \<le> 64 * length shdrs" using assms(2) by simp
  then have "wrap64 (64 + length body + i * 64) = 64 + length body + i * 64"
    using assms(1) by (intro wrap64_small) (simp add: length_elf_image)
  moreover have "take 64 (drop (64 + length body + i * 64) (elf_image body shdrs k)) = enc_shdr (shdrs ! i)"
  proof -
    have "drop (64 + length body + i * 64) (elf_image body shdrs k) = drop (i * 64) (concat (map enc_shdr shdrs))"
      by (simp add: elf_image_def)
    moreover have "take 64 (drop (i * 64) (concat (map enc_shdr shdrs))) = map enc_shdr shdrs ! i"
      using assms(2) by (intro take_drop_concat) auto
    ultimately show ?thesis using assms(2) by simp
  qed
  ultimately show ?thesis
    using i assms(3) by (simp add: read_shdr_def read_bytes_def sizeof_Shdr_def length_elf_image dec_enc_shdr)
qed

lemma those_Some: "(\<And>i. i \<in> set is \<Longrightarrow> f i = Some (g i)) \<Longrightarrow> those (map f is) = Some (map g is)"
  by (induction "is") simp_all

definition wf_image :: "bytes \<Rightarrow> Elf64_Shdr list \<Rightarrow> nat \<Rightarrow> bool" where
  "wf_image body shdrs k \<longleftrightarrow> k < length shdrs \<and> length shdrs < 2 ^ 16 \<and> length body + 64 * length shdrs + 64 < 2 ^ 64 \<and>
     (\<forall>sh \<in> set shdrs. wf_shdr sh)"

lemma image_header:
  assumes "wf_image body shdrs k"
  defines "h \<equiv> \<lparr>e_ident = enc_ident, e_shoff = 64 + length body, e_flags = 0, e_ehsize = 64, e_phentsize = 0, e_phnum = 0,
    e_shentsize = 64, e_shnum = length shdrs, e_shstrndx = k\<rparr>"
  shows "LoadHeader (elf_image body shdrs k) = Some h" "ValidateElfHeader h"
    "ValidateElfHeaderSafety h (length (elf_image body shdrs k))"
    "ReadSectionHeaders (elf_image body shdrs k) h = Some shdrs"
proof -
  have len: "length (elf_image body shdrs k) < 2 ^ 64" and n: "length shdrs < 2 ^ 16" "k < length shdrs"
    using assms(1) by (simp_all add: wf_image_def length_elf_image)
  show "LoadHeader (elf_image body shdrs k) = Some h"
    using len n dec_enc_ehdr [of "64 + length body" "length shdrs" k]
    by (simp add: LoadHeader_def read_bytes_def sizeof_Ehdr_def length_elf_image elf_image_def h_def)
  show "ValidateElfHeader h" using n by (simp add: ValidateElfHeader_def h_def enc_ident_def)
  have "sub64 (length shdrs) 1 = length shdrs - 1" using n by (intro sub64_ge) simp_all
  moreover have "(length shdrs - 1) * 64 \<le> 64 * length shdrs" by simp
  ultimately show "ValidateElfHeaderSafety h (length (elf_image body shdrs k))"
    using len n by (auto simp: ValidateElfHeaderSafety_def h_def length_elf_image wrap64_small)
  have "those (map (\<lambda>i. read_shdr (elf_image body shdrs k) (wrap64 (64 + length body + i * 64))) [0..<length shdrs]) =
      Some (map ((!) shdrs) [0..<length shdrs])"
    using len assms(1) by (intro those_Some read_table) (auto simp: wf_image_def)
  then show "ReadSectionHeaders (elf_image body shdrs k) h = Some shdrs"
    using n by (simp add: ReadSectionHeaders_def h_def sizeof_Shdr_def map_nth) (simp add: length_0_conv [symmetric] del: length_0_conv)
qed

lemma read_body:
  assumes "off + n \<le> length body"
  shows "read_bytes (elf_image body shdrs k) (64 + off) n = Some (take n (drop off body))"
  using assms by (simp add: read_bytes_def length_elf_image) (simp add: elf_image_def)

lemma scan_image:
  assumes "wf_image body shdrs k"
    and table: "read_bytes (elf_image body shdrs k) (sh_offset (shdrs ! k)) (sh_size (shdrs ! k)) = Some names"
      "terminated names" "\<forall>sh \<in> set shdrs. sh_name sh < length names"
  shows "ScanSectionHeaders (elf_image body shdrs k) =
    Ok (foldl (\<lambda>m sh. al_put (section_name names sh) sh m) [] shdrs, map (\<lambda>sh. (section_name names sh, sh)) shdrs)"
proof -
  note hd = image_header [OF assms(1)]
  have ne: "elf_image body shdrs k \<noteq> []" by (simp add: length_0_conv [symmetric] length_elf_image del: length_0_conv)
  have n: "length shdrs \<noteq> 0" using assms(1) by (auto simp: wf_image_def)
  have build: "BuildSectionMap (elf_image body shdrs k) \<lparr>e_ident = enc_ident, e_shoff = 64 + length body, e_flags = 0,
      e_ehsize = 64, e_phentsize = 0, e_phnum = 0, e_shentsize = 64, e_shnum = length shdrs, e_shstrndx = k\<rparr> =
    Ok (foldl (\<lambda>m sh. al_put (section_name names sh) sh m) [] shdrs, map (\<lambda>sh. (section_name names sh, sh)) shdrs)"
    using table name_loop_terminated [OF table(2), of shdrs "[]" "[]"]
    by (simp add: BuildSectionMap_def hd(4) terminated_def)
  show ?thesis
    using ne n hd(1-3) by (simp add: ScanSectionHeaders_def sizeof_Shdr_def build)
qed

section \<open>An example\<close>

definition ex_names :: bytes where
  \<comment> \<open>\<open>.text\<close>, \<open>k\<close> and \<open>$t\<close>\<close>
  "ex_names = [0, 0x2E, 0x74, 0x65, 0x78, 0x74, 0, 0x6B, 0, 0x24, 0x74, 0]"

definition ex_syms :: bytes where
  \<comment> \<open>the global function \<open>k\<close> at 16 and the local symbol \<open>$t\<close>, both in section 1\<close>
  "ex_syms = [7, 0, 0, 0, 0x12, 0, 1, 0, 16, 0, 0, 0, 0, 0, 0, 0] @ replicate 8 0 @
     [9, 0, 0, 0, 0, 0, 1, 0, 0, 0, 0, 0, 0, 0, 0, 0] @ replicate 8 0"

definition ex_header :: "nat \<Rightarrow> nat \<Rightarrow> nat \<Rightarrow> nat \<Rightarrow> nat \<Rightarrow> Elf64_Shdr" where
  "ex_header name t off len link =
     \<lparr>sh_name = name, sh_type = t, sh_flags = 0, sh_addr = 0, sh_offset = off, sh_size = len, sh_link = link\<rparr>"

definition ex_shdrs :: "Elf64_Shdr list" where
  "ex_shdrs = [ex_header 0 0 0 0 0, ex_header 1 1 64 0 0, ex_header 0 2 76 48 3, ex_header 0 3 64 12 0]"

definition ex_image :: bytes where
  "ex_image = elf_image (ex_names @ ex_syms) ex_shdrs 3"

lemma length_ex: "length ex_names = 12" "length ex_syms = 48" "length ex_shdrs = 4" "length ex_image = 380"
  by (simp_all add: ex_names_def ex_syms_def ex_shdrs_def ex_image_def length_elf_image)

lemma wf_ex: "wf_image (ex_names @ ex_syms) ex_shdrs 3"
  by (simp add: wf_image_def length_ex) (simp add: ex_shdrs_def ex_header_def wf_shdr_def)

lemma ex_body:
  "off + n \<le> 60 \<Longrightarrow> read_bytes ex_image (64 + off) n = Some (take n (drop off (ex_names @ ex_syms)))"
  unfolding ex_image_def by (rule read_body) (simp add: length_ex)

lemma ex_names_read: "read_bytes ex_image 64 12 = Some ex_names"
  using ex_body [of 0 12] by (simp add: length_ex)

lemma ex_located: "LocateKernelSymtab ex_image = Ok (ex_header 0 2 76 48 3, ex_header 0 3 64 12 0, Some 1)"
proof -
  have ne: "ex_image \<noteq> []" using length_ex(4) by auto
  have t: "terminated ex_names" by (simp add: terminated_def ex_names_def)
  have loop: "locate_loop ex_names 0 ex_shdrs (None, None) = Ok (Some 2, Some 1)"
    by (simp add: ex_shdrs_def ex_header_def ex_names_def SHT_SYMTAB_def text_name_def cstr_at_def Let_def)
  note hd = image_header [OF wf_ex, folded ex_image_def, unfolded length_append length_ex]
  have nth: "ex_shdrs ! 2 = ex_header 0 2 76 48 3" "ex_shdrs ! 3 = ex_header 0 3 64 12 0"
    by (simp_all add: ex_shdrs_def)
  show ?thesis
    using hd ne t unfolding LocateKernelSymtab_def
    by (simp add: length_ex sizeof_Shdr_def Let_def nth ex_names_read loop terminated_def)
      (simp add: ex_header_def ex_names_read loop nth length_ex)
qed

lemma ex_take: "off + n \<le> 60 \<Longrightarrow> take n (drop (64 + off) ex_image) = take n (drop off (ex_names @ ex_syms))"
  using ex_body [of off n] by (simp add: read_bytes_def split: if_splits)

lemma ex_kernel_symbols: "kernel_symbols ex_image (ex_header 0 2 76 48 3) (ex_header 0 3 64 12 0) (Some 1) =
  \<lparr>ks_names = [[0x6B]], ks_offsets = [16], ks_hasSimt = True\<rparr>"
proof -
  have syms: "map (symbol_at ex_image (ex_header 0 2 76 48 3)) [0..<2] =
      [\<lparr>st_name = 7, st_info = 18, st_shndx = 1, st_value = 16\<rparr>, \<lparr>st_name = 9, st_info = 0, st_shndx = 1, st_value = 0\<rparr>]"
    using ex_take [of 12 24] ex_take [of 36 24]
    by (simp add: symbol_at_def ex_header_def sizeof_Sym_def upt_rec numeral_2_eq_2 length_ex)
      (simp add: ex_names_def ex_syms_def dec_sym_def field_def)
  have "name_bytes ex_image (ex_header 0 3 64 12 0) s = take (12 - st_name s) (drop (st_name s) ex_names)" if "st_name s \<le> 12" for s
    using ex_take [of "st_name s" "12 - st_name s"] that by (simp add: name_bytes_def ex_header_def length_ex)
  then show ?thesis
    using syms by (simp add: kernel_symbols_def text_symbols_def ex_header_def sizeof_Sym_def)
      (simp add: is_kernel_def is_simt_def ex_names_def)
qed

lemma ex_sections: "ScanSectionHeaders ex_image =
    Ok ([([], ex_header 0 3 64 12 0), (text_name, ex_header 1 1 64 0 0)],
        [([], ex_header 0 0 0 0 0), (text_name, ex_header 1 1 64 0 0), ([], ex_header 0 2 76 48 3), ([], ex_header 0 3 64 12 0)])"
  using scan_image [OF wf_ex, of ex_names] ex_names_read
  by (simp add: ex_image_def [symmetric])
    (simp add: ex_shdrs_def ex_header_def ex_names_def terminated_def section_name_def text_name_def)

lemma ex_scanned: "ScanKernelSymbols ex_image = Ok \<lparr>ks_names = [[0x6B]], ks_offsets = [16], ks_hasSimt = True\<rparr>"
  using collect_symbols [of ex_image "ex_header 0 2 76 48 3" "ex_header 0 3 64 12 0" "Some 1"] ex_kernel_symbols
  by (simp add: ScanKernelSymbols_def ex_located length_ex) (simp add: ex_header_def)

section \<open>Properties\<close>



text \<open>
  A binary that is written as header, contents and section table is read back: every section with
  its name and its header, in the order of the table, and for each name the last header with it.
\<close>

theorem elf_sections_roundtrip:
  assumes "wf_image body shdrs k"
    and table: "read_bytes (elf_image body shdrs k) (sh_offset (shdrs ! k)) (sh_size (shdrs ! k)) = Some names"
      "terminated names" "\<forall>sh \<in> set shdrs. sh_name sh < length names"
  shows "ScanSectionHeaders (elf_image body shdrs k) =
    Ok (foldl (\<lambda>m sh. al_put (section_name names sh) sh m) [] shdrs, map (\<lambda>sh. (section_name names sh, sh)) shdrs)"
  using assms by (rule scan_image)

theorem elf_sections_roundtrip_witness:
  "ScanSectionHeaders ex_image =
    Ok ([([], ex_header 0 3 64 12 0), (text_name, ex_header 1 1 64 0 0)],
        [([], ex_header 0 0 0 0 0), (text_name, ex_header 1 1 64 0 0), ([], ex_header 0 2 76 48 3), ([], ex_header 0 3 64 12 0)])"
  using elf_sections_roundtrip [OF wf_ex, of ex_names] ex_names_read
  by (simp add: ex_image_def [symmetric])
    (simp add: ex_shdrs_def ex_header_def ex_names_def terminated_def section_name_def text_name_def)

text \<open>
  The scan of the symbols is the comprehension it stands for: once the tables are located it cannot
  fail any more, the names and entry addresses are those of the global functions of \<open>.text\<close> in the order of the
  symbol table, and the kernel is a SIMT one when \<open>.text\<close> has a local symbol whose name begins with \<open>$t\<close>.
\<close>

theorem kernel_symbols_scan:
  assumes "length data < 2 ^ 64"
  shows "ScanKernelSymbols data =
    (case LocateKernelSymtab data of
       Ok (symtab, strtab, tidx) \<Rightarrow> Ok (kernel_symbols data symtab strtab tidx)
     | Fail \<Rightarrow> Fail | Undef \<Rightarrow> Undef)"
proof (rule LocateKernelSymtab_cases [of data])
  fix symtab strtab tidx
  assume l: "LocateKernelSymtab data = Ok (symtab, strtab, tidx)"
    and t: "sh_offset symtab + sh_size symtab \<le> length data" "sh_offset strtab + sh_size strtab \<le> length data"
  show ?thesis using collect_symbols [OF assms t] by (simp add: ScanKernelSymbols_def l)
qed (simp add: ScanKernelSymbols_def)

theorem kernel_symbols_scan_witness:
  "ScanKernelSymbols ex_image = Ok \<lparr>ks_names = [[0x6B]], ks_offsets = [16], ks_hasSimt = True\<rparr>"
  using kernel_symbols_scan [of ex_image] by (simp add: length_ex ex_located ex_kernel_symbols del: One_nat_def)

text \<open>
  The contents of a name are those of all its sections, one after the other in the order of the table:
  with every range inside of the binary the call returns them, and with one outside it returns nothing.
\<close>

theorem all_sections_concatenated:
  "ReadAllRawData data all name =
     (if headers_of all name \<noteq> [] \<and> list_all (\<lambda>sh. sh_offset sh + sh_size sh \<le> length data) (headers_of all name)
      then Some (concat (map (\<lambda>sh. take (sh_size sh) (drop (sh_offset sh) data)) (headers_of all name)))
      else None)"
proof -
  have "all_raw data shs =
      (if list_all (\<lambda>sh. sh_offset sh + sh_size sh \<le> length data) shs
       then Some (concat (map (\<lambda>sh. take (sh_size sh) (drop (sh_offset sh) data)) shs)) else None)" for shs
    by (induction shs) auto
  then show ?thesis by (simp add: ReadAllRawData_def)
qed

text \<open>
  The reader of string tables leaves the binary exactly when the section begins behind its end: the
  size that is left is an unsigned difference, and is then huge.
\<close>

theorem string_table_overread:
  assumes "map_of (elf_sections e) name = Some sh" "length (elf_buffer e) < 2 ^ 64" "sh_offset sh < 2 ^ 64 - 2"
    and "2 < sh_size sh"
  shows "ReadStringTable e name = Undef \<longleftrightarrow> length (elf_buffer e) < sh_offset sh"
proof -
  let ?len = "length (elf_buffer e)" and ?off = "sh_offset sh"
  have "sub64 ?len ?off = ?len - ?off" if "?off \<le> ?len" using that assms(2) by (rule sub64_ge)
  moreover have "2 < sub64 ?len ?off" if "?len < ?off"
  proof -
    have "?off mod 2 ^ 64 = ?off" using assms(3) by simp
    moreover have "?len + (2 ^ 64 - ?off) < 2 ^ 64" using that assms(3) by simp
    ultimately show ?thesis using assms(3) by (simp add: sub64_def)
  qed
  ultimately show ?thesis
    using assms(1,4) by (cases "?len < ?off") (auto simp: ReadStringTable_def Let_def min_def split: if_splits)
qed

theorem string_table_overread_witness:
  "ReadStringTable \<lparr>elf_buffer = ex_image, elf_sections = [([1], ex_header 0 3 381 3 0)], elf_all = []\<rparr> [1] = Undef"
  using string_table_overread [of "\<lparr>elf_buffer = ex_image, elf_sections = [([1], ex_header 0 3 381 3 0)], elf_all = []\<rparr>" "[1]"
    "ex_header 0 3 381 3 0"]
  by (simp add: length_ex ex_header_def)

end
