(* ===== verification/MemReport.thy ===== *)
theory MemReport
  imports ArgsMgr ElfLoader
begin

text \<open>
  Models the report functions of csrc/runtime/inject_helpers/MemoryDataCollect.cpp: the records
  of single operations, of the memory of a kernel launch (its tensors, the windows of a
  communication context, second-level pointers and tiling data), of the allocated sections of a
  binary and of the overflow buffer. A record is put into the memory table (theory MemManage)
  and sent to the tool process as a \<open>MEMORY_RECORD\<close> packet; the state is the table of the
  current device and the records sent so far.
\<close>

section \<open>Single records\<close>

datatype MemOpType = MALLOC | FREE | MEMCPY_BLOCKS | LOAD | STORE | INVALID_OP

record HostMemRecord =
  hr_type :: MemOpType
  hr_infoSrc :: MemInfoSrc
  hr_infoDesc :: MemInfoDesc
  hr_srcAddr :: nat
  hr_dstAddr :: nat
  hr_memSize :: nat
  hr_paramsNo :: nat
  hr_rootAddr :: nat

record report_state =
  rs_mm :: MemoryManage
  rs_sent :: "HostMemRecord list"

definition mem_record :: "MemOpType \<Rightarrow> nat \<Rightarrow> nat \<Rightarrow> MemInfoSrc \<Rightarrow> MemInfoDesc \<Rightarrow> nat \<Rightarrow> HostMemRecord" where
  \<comment> \<open>\<open>HostMemRecord record{}\<close> with the fields that are set\<close>
  "mem_record type addr sz src desc no =
     \<lparr>hr_type = type, hr_infoSrc = src, hr_infoDesc = desc, hr_srcAddr = 0, hr_dstAddr = addr,
      hr_memSize = sz, hr_paramsNo = no, hr_rootAddr = 0\<rparr>"

definition send_record :: "HostMemRecord \<Rightarrow> report_state \<Rightarrow> report_state" where
  "send_record r s = s\<lparr>rs_sent := rs_sent s @ [r]\<rparr>"

definition ReportMalloc ::
  "nat \<Rightarrow> nat \<Rightarrow> MemInfoSrc \<Rightarrow> MemInfoDesc \<Rightarrow> nat \<Rightarrow> report_state \<Rightarrow> report_state"
where
  "ReportMalloc addr sz src desc no s =
     send_record (mem_record MALLOC addr sz src desc no)
       (s\<lparr>rs_mm := CacheMemory_MALLOC addr src sz True (rs_mm s)\<rparr>)"

definition ReportFree :: "nat \<Rightarrow> MemInfoSrc \<Rightarrow> MemInfoDesc \<Rightarrow> nat \<Rightarrow> report_state \<Rightarrow> report_state" where
  "ReportFree addr src desc no s =
     send_record (mem_record FREE addr 0 src desc no)
       (s\<lparr>rs_mm := CacheMemory_FREE addr src (rs_mm s)\<rparr>)"

definition ReportMemset ::
  "nat \<Rightarrow> nat \<Rightarrow> MemInfoSrc \<Rightarrow> MemInfoDesc \<Rightarrow> nat \<Rightarrow> report_state \<Rightarrow> report_state"
where
  "ReportMemset addr sz src desc no s = send_record (mem_record STORE addr sz src desc no) s"

section \<open>The memory of a launch\<close>

type_synonym addr_infos = "nat list \<times> (nat \<times> AddrInfo) list"  \<comment> \<open>\<open>order\<close> and \<open>addrMap\<close>\<close>

definition updateAddrInfos :: "AddrInfo \<Rightarrow> addr_infos \<Rightarrow> addr_infos" where
  "updateAddrInfos a = (\<lambda>(order, addrMap).
     case map_of addrMap (ai_addr a) of
       None \<Rightarrow> (order @ [ai_addr a], al_put (ai_addr a) a addrMap)
     | Some b \<Rightarrow>
         (order, if ai_length a > ai_length b
                 then al_put (ai_addr a) (b\<lparr>ai_length := ai_length a\<rparr>) addrMap else addrMap))"

definition ProcessMc2CtxAddr ::
  "'w acl_api \<Rightarrow> string \<Rightarrow> ArgsManager \<Rightarrow> nat \<Rightarrow> addr_infos \<Rightarrow> 'w \<Rightarrow> (bool \<times> addr_infos \<times> 'w) option"
where
  "ProcessMc2CtxAddr api soc am addr acc w =
     map_option (\<lambda>(infos, w). (am_throughAdump am, foldl (\<lambda>acc a. updateAddrInfos a acc) acc infos, w))
       (GetMc2AddrInfosFromArgAddr api soc am addr w)"

fun input_loop ::
  "'w acl_api \<Rightarrow> string \<Rightarrow> ArgsManager \<Rightarrow> AclrtLaunchArgsInfo \<Rightarrow> nat list \<Rightarrow> OpMemInfo \<Rightarrow> addr_infos \<Rightarrow> 'w \<Rightarrow>
   (OpMemInfo \<times> addr_infos \<times> 'w) option"
where
  \<comment> \<open>the loop over \<open>inputParamsAddrInfos\<close>, by index\<close>
  "input_loop api soc am la [] m acc w = Some (m, acc, w)"
| "input_loop api soc am la (i # is) m acc w =
     (case word_at (the (la_hostArgs la)) (om_skipNum m + i) of
        None \<Rightarrow> None
      | Some addr \<Rightarrow>
          let it = (om_inputParamsAddrInfos m ! i)\<lparr>ai_addr := addr\<rparr>;
              m = m\<lparr>om_inputParamsAddrInfos := (om_inputParamsAddrInfos m)[i := it]\<rparr> in
          (case ParseSecondPtrAddrs la m i of
             None \<Rightarrow> None
           | Some m \<Rightarrow>
               if \<not> om_hasMc2Ctx m \<or> i \<noteq> MC2_CONTEXT_PARAMS_INDEX
                 then input_loop api soc am la is m (updateAddrInfos it acc) w
               else
                 (case ProcessMc2CtxAddr api soc am addr acc w of
                    None \<Rightarrow> None
                  | Some (cache, acc, w) \<Rightarrow>
                      input_loop api soc am la is m (if cache then updateAddrInfos it acc else acc) w)))"

definition second_loop_infos :: "OpMemInfo \<Rightarrow> AddrInfo list" where
  "second_loop_infos m = concat (map (sp_addrInfoVec \<circ> snd) (om_secondPtrAddrInfos m))"

definition unique_infos :: "addr_infos \<Rightarrow> AddrInfo list" where
  \<comment> \<open>the loop over \<open>order\<close>: the entries with an address and a length\<close>
  "unique_infos = (\<lambda>(order, addrMap).
     concat (map (\<lambda>addr. case map_of addrMap addr of
                    None \<Rightarrow> []
                  | Some a \<Rightarrow>
                      if ai_addr a \<noteq> 0 \<and> ai_length a \<noteq> 0
                      then [mk_AddrInfo addr (ai_length a) (ai_src a) (ai_desc a) (ai_paramsNo a)]
                      else []) order))"

definition report_unique :: "AddrInfo list \<Rightarrow> report_state \<Rightarrow> report_state" where
  "report_unique infos s =
     foldl (\<lambda>s a. ReportMemset (ai_addr a) (ai_length a) (ai_src a) (ai_desc a) (ai_paramsNo a)
              (ReportMalloc (ai_addr a) (ai_length a) (ai_src a) (ai_desc a) (ai_paramsNo a) s)) s infos"

definition align32 :: "nat \<Rightarrow> nat" where
  \<comment> \<open>\<open>(n + 31U) / 32U * 32U\<close> on \<open>uint64_t\<close>\<close>
  "align32 n = wrap64 (n + 31) div 32 * 32"

definition report_tiling :: "nat \<Rightarrow> nat \<Rightarrow> MemInfoDesc \<Rightarrow> OpMemInfo \<Rightarrow> report_state \<Rightarrow> OpMemInfo \<times> report_state" where
  \<comment> \<open>both reports of the tiling data and the entry for its release, whose description is an
    argument: the two callers differ\<close>
  "report_tiling tilingAddr tilingSize desc m s =
     (m\<lparr>om_uniqueAddrInfos := mk_AddrInfo tilingAddr tilingSize BYPASS desc 0 # om_uniqueAddrInfos m\<rparr>,
      ReportMemset tilingAddr tilingSize BYPASS TILING 0 (ReportMalloc tilingAddr tilingSize BYPASS TILING 0 s))"

definition last_placeholder :: "aclrtPlaceHolderInfo list \<Rightarrow> nat \<times> nat" where
  \<comment> \<open>\<open>tilingAddrOffset\<close> and \<open>tilingDataOffset\<close>: the placeholder with the largest address offset\<close>
  "last_placeholder phs =
     foldl (\<lambda>(a, d) ph. if pl_addrOffset ph > a then (pl_addrOffset ph, pl_dataOffset ph) else (a, d)) (0, 0) phs"

definition report_launch_tiling ::
  "bool \<Rightarrow> AclrtLaunchArgsInfo \<Rightarrow> OpMemInfo \<Rightarrow> report_state \<Rightarrow> (OpMemInfo \<times> report_state) option"
where
  \<comment> \<open>the end of \<open>ReportOpMallocInfo\<close>, from the test of \<open>placeHolderNum\<close>\<close>
  "report_launch_tiling overflowStatus la m s =
     (let buff = the (la_hostArgs la) in
      if la_placeHolderNum la = 0 then
        (if la_tilingAddrOffset la = 0 then Some (m, s)
         else
           case word_at buff (la_tilingAddrOffset la div 8) of
             None \<Rightarrow> None
           | Some tilingAddr \<Rightarrow>
               if tilingAddr = 0 \<or> om_tilingDataSize m = 0 then Some (m, s)
               else Some (report_tiling tilingAddr (align32 (om_tilingDataSize m)) TILING m s))
      else
        case la_placeHolderArray la of
          None \<Rightarrow> None
        | Some phs \<Rightarrow>
            let (tilingAddrOffset, tilingDataOffset) = last_placeholder (take (la_placeHolderNum la) phs) in
            (case word_at buff (tilingAddrOffset div 8) of
               None \<Rightarrow> None
             | Some tilingAddr \<Rightarrow>
                 let tilingArgsSize = sub64 (sub64 (la_argsSize la) tilingDataOffset) (if overflowStatus then 8 else 0) in
                 Some (report_tiling tilingAddr (align32 (max tilingArgsSize (om_tilingDataSize m))) DEFAULT m s)))"

definition ReportOpMallocInfo ::
  "'w acl_api \<Rightarrow> string \<Rightarrow> ArgsManager \<Rightarrow> AclrtLaunchArgsInfo \<Rightarrow> OpMemInfo \<Rightarrow> report_state \<Rightarrow> 'w \<Rightarrow>
   (OpMemInfo \<times> report_state \<times> 'w) option"
where
  "ReportOpMallocInfo api soc am la m s w =
     (case la_hostArgs la of
        None \<Rightarrow> Some (m, s, w)
      | Some _ \<Rightarrow>
          (case input_loop api soc am la [0..<length (om_inputParamsAddrInfos m)] m ([], []) w of
             None \<Rightarrow> None
           | Some (m, acc, w) \<Rightarrow>
               let acc = foldl (\<lambda>acc a. updateAddrInfos a acc) acc (second_loop_infos m);
                   m = m\<lparr>om_uniqueAddrInfos := om_uniqueAddrInfos m @ unique_infos acc\<rparr>;
                   s = report_unique (om_uniqueAddrInfos m) s in
               map_option (\<lambda>(m, s). (m, s, w)) (report_launch_tiling (NeedOverflowStatus soc) la m s)))"

definition ReportOpFreeInfo :: "OpMemInfo \<Rightarrow> report_state \<Rightarrow> OpMemInfo \<times> report_state" where
  "ReportOpFreeInfo m s =
     (let s = foldl (\<lambda>s a. ReportFree (ai_addr a) (ai_src a) (ai_desc a) (ai_paramsNo a) s) s (om_uniqueAddrInfos m) in
      (om_Clear m, s\<lparr>rs_mm := UpdateMemoryOp (rs_mm s)\<rparr>))"

section \<open>Sections and the overflow buffer\<close>

definition SHF_ALLOC :: nat where
  "SHF_ALLOC = 2"

definition GetAllocSectionHeaders :: "sections \<Rightarrow> Elf64_Shdr list" where
  "GetAllocSectionHeaders headers =
     map snd (filter (\<lambda>(_, h). sh_flags h AND SHF_ALLOC > 0 \<and> sh_size h > 0) headers)"

definition ReportSectionsMalloc :: "nat \<Rightarrow> Elf64_Shdr list \<Rightarrow> report_state \<Rightarrow> report_state" where
  "ReportSectionsMalloc pcStartAddr headers s =
     (if pcStartAddr = 0 then s
      else
        foldl (\<lambda>s h. let a = wrap64 (pcStartAddr + sh_addr h) in
                 ReportMemset a (sh_size h) BYPASS SECTION 0 (ReportMalloc a (sh_size h) BYPASS SECTION 0 s)) s headers)"

definition ReportSectionsFree :: "nat \<Rightarrow> Elf64_Shdr list \<Rightarrow> report_state \<Rightarrow> report_state" where
  "ReportSectionsFree pcStartAddr headers s =
     (if pcStartAddr = 0 then s
      else
        foldl (\<lambda>s h. if pcStartAddr > size_max - sh_addr h then s
                 else ReportFree (wrap64 (pcStartAddr + sh_addr h)) BYPASS SECTION 0 s) s headers)"

definition ReportOverflowMalloc :: "OpMemInfo \<Rightarrow> report_state \<Rightarrow> report_state" where
  "ReportOverflowMalloc m s =
     (if \<not> om_hasOverflowAddr m \<or> om_overflowAddr m = 0 then s
      else ReportMalloc (om_overflowAddr m) 512 BYPASS OVERFLOW_ADDR 0 s)"

definition ReportOverflowFree :: "OpMemInfo \<Rightarrow> report_state \<Rightarrow> report_state" where
  "ReportOverflowFree m s =
     (if \<not> om_hasOverflowAddr m \<or> om_overflowAddr m = 0 then s
      else ReportFree (om_overflowAddr m) BYPASS OVERFLOW_ADDR 0 s)"

section \<open>The addresses of a launch are reported once\<close>

definition same_addr :: "AddrInfo list \<Rightarrow> nat \<Rightarrow> AddrInfo list" where
  "same_addr infos addr = filter (\<lambda>a. ai_addr a = addr) infos"

definition max_length :: "AddrInfo list \<Rightarrow> nat" where
  "max_length infos = fold max (map ai_length infos) 0"

text \<open>What \<open>addrMap\<close> and \<open>order\<close> hold after a list of entries has been put into them.\<close>

definition addr_infos_of :: "AddrInfo list \<Rightarrow> addr_infos \<Rightarrow> bool" where
  "addr_infos_of infos acc \<longleftrightarrow>
     fst acc = rev (remdups (rev (map ai_addr infos))) \<and>
     (\<forall>addr. map_of (snd acc) addr =
        (case same_addr infos addr of
           [] \<Rightarrow> None
         | a # as \<Rightarrow> Some (a\<lparr>ai_length := max_length (a # as)\<rparr>)))"

lemma fold_max_start: "fold max xs (n :: nat) = max n (fold max xs 0)"
proof (induction xs arbitrary: n)
  case (Cons x xs)
  show ?case using Cons [of "max x n"] Cons [of "max x 0"] by (simp add: max.left_commute)
qed simp

lemma max_length_snoc: "max_length (as @ [a]) = max (max_length as) (ai_length a)"
  by (simp add: max_length_def max.commute)

lemma max_length_single [simp]: "max_length [a] = ai_length a"
  by (simp add: max_length_def)

lemma remdups_rev_snoc:
  "rev (remdups (rev (xs @ [x]))) = (if x \<in> set xs then rev (remdups (rev xs)) else rev (remdups (rev xs)) @ [x])"
  by simp

lemma addr_infos_of_Nil: "addr_infos_of [] ([], [])"
  by (simp add: addr_infos_of_def same_addr_def)

lemma same_addr_Nil_iff: "same_addr infos addr = [] \<longleftrightarrow> addr \<notin> ai_addr ` set infos"
  by (auto simp: same_addr_def filter_empty_conv)

lemma updateAddrInfos_of:
  assumes "addr_infos_of infos acc"
  shows "addr_infos_of (infos @ [a]) (updateAddrInfos a acc)"
proof -
  obtain order mp where acc: "acc = (order, mp)" by (cases acc)
  have order: "order = rev (remdups (rev (map ai_addr infos)))"
    and look: "\<And>addr. map_of mp addr = (case same_addr infos addr of
      [] \<Rightarrow> None | a # as \<Rightarrow> Some (a\<lparr>ai_length := max_length (a # as)\<rparr>))"
    using assms by (auto simp: addr_infos_of_def acc)
  have same: "same_addr (infos @ [a]) addr = same_addr infos addr @ (if addr = ai_addr a then [a] else [])" for addr
    by (simp add: same_addr_def)
  show ?thesis
  proof (cases "same_addr infos (ai_addr a)")
    case Nil
    then show ?thesis
      using order look same_addr_Nil_iff [of infos "ai_addr a"]
      by (auto simp: acc addr_infos_of_def updateAddrInfos_def same map_of_al_put)
  next
    case (Cons b bs)
    then have "ai_addr a \<in> ai_addr ` set infos" using same_addr_Nil_iff [of infos "ai_addr a"] by auto
    moreover have "max_length ((b # bs) @ [a]) = max (max_length (b # bs)) (ai_length a)" by (rule max_length_snoc)
    ultimately show ?thesis
      using order look Cons
      by (auto simp: acc addr_infos_of_def updateAddrInfos_def same map_of_al_put max_def split: list.splits)
  qed
qed

lemma foldl_updateAddrInfos:
  "addr_infos_of infos acc \<Longrightarrow> addr_infos_of (infos @ xs) (foldl (\<lambda>acc a. updateAddrInfos a acc) acc xs)"
proof (induction xs arbitrary: infos acc)
  case (Cons a xs)
  then show ?case using Cons.IH [of "infos @ [a]" "updateAddrInfos a acc"] updateAddrInfos_of by simp
qed simp

text \<open>The entries of a list of tensors, merged by address.\<close>

definition merged_infos :: "AddrInfo list \<Rightarrow> AddrInfo list" where
  "merged_infos infos =
     concat (map (\<lambda>addr. let as = same_addr infos addr; n = max_length as in
         if addr \<noteq> 0 \<and> n \<noteq> 0
         then [mk_AddrInfo addr n (ai_src (hd as)) (ai_desc (hd as)) (ai_paramsNo (hd as))] else [])
       (rev (remdups (rev (map ai_addr infos)))))"

lemma unique_infos_merged: "addr_infos_of infos acc \<Longrightarrow> unique_infos acc = merged_infos infos"
proof -
  assume *: "addr_infos_of infos acc"
  obtain order mp where acc: "acc = (order, mp)" by (cases acc)
  have "(case map_of mp addr of None \<Rightarrow> []
      | Some a \<Rightarrow> if ai_addr a \<noteq> 0 \<and> ai_length a \<noteq> 0
          then [mk_AddrInfo addr (ai_length a) (ai_src a) (ai_desc a) (ai_paramsNo a)] else []) =
    (let as = same_addr infos addr; n = max_length as in
         if addr \<noteq> 0 \<and> n \<noteq> 0
         then [mk_AddrInfo addr n (ai_src (hd as)) (ai_desc (hd as)) (ai_paramsNo (hd as))] else [])"
    if "addr \<in> set order" for addr
  proof -
    have "addr \<in> ai_addr ` set infos" using that * by (simp add: addr_infos_of_def acc)
    then obtain b bs where b: "same_addr infos addr = b # bs"
      using same_addr_Nil_iff [of infos addr] by (cases "same_addr infos addr") auto
    then have "b \<in> set (same_addr infos addr)" by simp
    then have "ai_addr b = addr" by (simp add: same_addr_def)
    then show ?thesis using * b by (simp add: addr_infos_of_def acc Let_def)
  qed
  note entry = this
  have "unique_infos (order, mp) = merged_infos infos"
    unfolding unique_infos_def merged_infos_def prod.case
    using * entry by (intro arg_cong [of _ _ concat] map_cong) (simp_all add: addr_infos_of_def acc)
  then show ?thesis by (simp add: acc)
qed

lemma distinct_merged: "distinct (map ai_addr (merged_infos infos))"
proof -
  have *: "map ai_addr (concat (map (\<lambda>addr. if P addr then [mk_AddrInfo addr (n addr) (s addr) (d addr) (k addr)] else []) xs))
      = filter P xs" for P n s d k xs
    by (induction xs) (auto simp: mk_AddrInfo_def)
  show ?thesis unfolding merged_infos_def Let_def * by simp
qed

lemma input_loop_infos:
  "input_loop api soc am la is m acc w = Some (m', acc', w') \<Longrightarrow> addr_infos_of infos acc \<Longrightarrow>
   (\<exists>infos'. addr_infos_of infos' acc') \<and> om_uniqueAddrInfos m' = om_uniqueAddrInfos m"
proof (induction "is" arbitrary: m acc w infos)
  case Nil
  then show ?case by auto
next
  case (Cons i "is")
  obtain addr m1 where addr: "word_at (the (la_hostArgs la)) (om_skipNum m + i) = Some addr"
    and m1: "ParseSecondPtrAddrs la (m\<lparr>om_inputParamsAddrInfos :=
        (om_inputParamsAddrInfos m)[i := (om_inputParamsAddrInfos m ! i)\<lparr>ai_addr := addr\<rparr>]\<rparr>) i = Some m1"
    using Cons.prems(1) by (auto simp: Let_def split: option.splits)
  have u: "om_uniqueAddrInfos m1 = om_uniqueAddrInfos m"
    using m1 by (auto simp: ParseSecondPtrAddrs_def split: option.splits)
  obtain acc1 w1 infos1 where s: "input_loop api soc am la is m1 acc1 w1 = Some (m', acc', w')"
      "addr_infos_of infos1 acc1"
  proof (cases "\<not> om_hasMc2Ctx m1 \<or> i \<noteq> MC2_CONTEXT_PARAMS_INDEX")
    case True
    then have "input_loop api soc am la is m1
        (updateAddrInfos ((om_inputParamsAddrInfos m ! i)\<lparr>ai_addr := addr\<rparr>) acc) w = Some (m', acc', w')"
      using Cons.prems(1) addr m1 by (simp add: Let_def)
    then show ?thesis using that updateAddrInfos_of [OF Cons.prems(2)] by blast
  next
    case False
    then obtain cache acc2 w2 where p: "ProcessMc2CtxAddr api soc am addr acc w = Some (cache, acc2, w2)"
      and l: "input_loop api soc am la is m1
        (if cache then updateAddrInfos ((om_inputParamsAddrInfos m ! i)\<lparr>ai_addr := addr\<rparr>) acc2 else acc2) w2 =
        Some (m', acc', w')"
      using Cons.prems(1) addr m1 by (auto simp: Let_def split: option.splits)
    obtain xs where "addr_infos_of (infos @ xs) acc2"
      using p foldl_updateAddrInfos [OF Cons.prems(2)] by (auto simp: ProcessMc2CtxAddr_def)
    then show ?thesis
      using that [OF l] updateAddrInfos_of by (cases cache; simp only: if_True if_False; blast)
  qed
  then show ?case using Cons.IH u by metis
qed

text \<open>What the records of a launch are: a pair for each entry, a release for each entry.\<close>

definition pair_records :: "AddrInfo \<Rightarrow> HostMemRecord list" where
  "pair_records a =
     [mem_record MALLOC (ai_addr a) (ai_length a) (ai_src a) (ai_desc a) (ai_paramsNo a),
      mem_record STORE (ai_addr a) (ai_length a) (ai_src a) (ai_desc a) (ai_paramsNo a)]"

definition free_record :: "AddrInfo \<Rightarrow> HostMemRecord" where
  "free_record a = mem_record FREE (ai_addr a) 0 (ai_src a) (ai_desc a) (ai_paramsNo a)"

definition table_entry :: "AddrInfo \<Rightarrow> AddrInfo" where
  "table_entry a = \<lparr>ai_addr = ai_addr a, ai_length = ai_length a, ai_src = ai_src a, ai_desc = DEFAULT,
     ai_paramsNo = 0, ai_permission = REGION_FLAGS_DEFAULT\<rparr>"

text \<open>The table while some launch entries are in it: a base and the entries.\<close>

definition holds :: "AddrInfo set \<Rightarrow> AddrInfo list \<Rightarrow> MemoryManage \<Rightarrow> bool" where
  "holds T infos m \<longleftrightarrow> oset ai_key (mm_infos m) \<and> set (mm_infos m) = T \<union> table_entry ` set infos"

definition clear_of :: "AddrInfo set \<Rightarrow> AddrInfo list \<Rightarrow> bool" where
  "clear_of T infos \<longleftrightarrow> (\<forall>t \<in> T. \<forall>a \<in> set infos. \<not> (ai_addr t = ai_addr a \<and> IsSameMemInfoSrc (ai_src t) (ai_src a)))"

lemma IsSame_refl [simp]: "IsSameMemInfoSrc s s"
  by (simp add: IsSameMemInfoSrc_def)

lemma holds_malloc:
  assumes "holds T infos m" "clear_of T (infos @ [a])" "ai_addr a \<notin> ai_addr ` set infos"
  shows "holds T (infos @ [a]) (CacheMemory_MALLOC (ai_addr a) (ai_src a) (ai_length a) True m)"
proof -
  have "ai_key (table_entry a) \<notin> ai_key ` (T \<union> table_entry ` set infos)"
    using assms(2,3) by (auto simp: clear_of_def ai_key_def table_entry_def src_code_inj image_iff)
  then show ?thesis
    using assms(1)
    by (auto simp: holds_def CacheMemory_MALLOC_def Let_def table_entry_def [symmetric] set_oset_insert
        oset_insert_oset)
qed

lemma holds_free:
  assumes "holds T (a # infos) m" "clear_of T (a # infos)" "ai_addr a \<notin> ai_addr ` set infos"
  shows "holds T infos (CacheMemory_FREE (ai_addr a) (ai_src a) m)"
proof -
  have o: "oset ai_key (mm_infos m)" and s: "set (mm_infos m) = T \<union> table_entry ` set (a # infos)"
    using assms(1) by (auto simp: holds_def)
  have only: "t = table_entry a"
    if "t \<in> set (mm_infos m)" "ai_addr t = ai_addr a" "IsSameMemInfoSrc (ai_src t) (ai_src a)" for t
    using that s assms(2,3) by (auto simp: clear_of_def table_entry_def image_iff)
  have "table_entry a \<in> set (mm_infos m)" using s by simp
  moreover have "ai_addr (table_entry a) = ai_addr a \<and> IsSameMemInfoSrc (ai_src (table_entry a)) (ai_src a)"
    by (simp add: table_entry_def)
  ultimately obtain t where
    f: "find (\<lambda>t. ai_addr t = ai_addr a \<and> IsSameMemInfoSrc (ai_src t) (ai_src a)) (mm_infos m) = Some t"
    by (metis (mono_tags, lifting) find_None_iff2 not_None_eq)
  then have t: "t = table_entry a" using only by (auto simp: find_Some_iff)
  have "table_entry a \<notin> T \<union> table_entry ` set infos"
    using assms(2,3) by (auto simp: clear_of_def table_entry_def image_iff)
  moreover have "ai_key x = ai_key (table_entry a) \<longleftrightarrow> x = table_entry a" if "x \<in> set (mm_infos m)" for x
    using oset_inj [OF o that] s by auto
  then have "set (oset_erase ai_key (ai_key (table_entry a)) (mm_infos m)) = set (mm_infos m) - {table_entry a}"
    by (auto simp: set_oset_erase)
  moreover have "set (mm_infos m) = insert (table_entry a) (T \<union> table_entry ` set infos)" using s by simp
  ultimately have "set (oset_erase ai_key (ai_key (table_entry a)) (mm_infos m)) = T \<union> table_entry ` set infos"
    by (metis Diff_insert_absorb)
  then show ?thesis using o f by (simp add: holds_def CacheMemory_FREE_def t oset_erase_oset)
qed

lemma report_unique_holds:
  assumes "holds T done (rs_mm s)" "clear_of T (done @ infos)" "distinct (map ai_addr (done @ infos))"
  shows "holds T (done @ infos) (rs_mm (report_unique infos s)) \<and>
    rs_sent (report_unique infos s) = rs_sent s @ concat (map pair_records infos)"
  using assms
proof (induction infos arbitrary: "done" s)
  case (Cons a infos)
  let ?s = "ReportMemset (ai_addr a) (ai_length a) (ai_src a) (ai_desc a) (ai_paramsNo a)
      (ReportMalloc (ai_addr a) (ai_length a) (ai_src a) (ai_desc a) (ai_paramsNo a) s)"
  have "clear_of T (done @ [a])" using Cons.prems(2) by (auto simp: clear_of_def)
  moreover have "ai_addr a \<notin> ai_addr ` set done" using Cons.prems(3) by auto
  ultimately have "holds T (done @ [a]) (rs_mm ?s)"
    using holds_malloc Cons.prems(1) by (simp add: ReportMemset_def ReportMalloc_def send_record_def)
  then show ?case
    using Cons.IH [of "done @ [a]" ?s] Cons.prems
    by (simp add: report_unique_def pair_records_def ReportMemset_def ReportMalloc_def send_record_def)
qed (simp add: report_unique_def)

definition free_all :: "AddrInfo list \<Rightarrow> report_state \<Rightarrow> report_state" where
  "free_all infos s =
     foldl (\<lambda>s a. ReportFree (ai_addr a) (ai_src a) (ai_desc a) (ai_paramsNo a) s) s infos"

lemma free_all_holds:
  assumes "holds T infos (rs_mm s)" "clear_of T infos" "distinct (map ai_addr infos)"
  shows "holds T [] (rs_mm (free_all infos s)) \<and> rs_sent (free_all infos s) = rs_sent s @ map free_record infos"
  using assms
proof (induction infos arbitrary: s)
  case (Cons a infos)
  have "holds T infos (rs_mm (ReportFree (ai_addr a) (ai_src a) (ai_desc a) (ai_paramsNo a) s))"
    using holds_free [OF Cons.prems(1,2)] Cons.prems(3) by (simp add: ReportFree_def send_record_def)
  moreover have "clear_of T infos" using Cons.prems(2) by (auto simp: clear_of_def)
  ultimately show ?case
    using Cons.IH [of "ReportFree (ai_addr a) (ai_src a) (ai_desc a) (ai_paramsNo a) s"] Cons.prems(3)
    by (simp add: free_all_def free_record_def ReportFree_def send_record_def)
qed (simp add: free_all_def)

lemma oset_eq:
  assumes "oset key xs" "oset key ys" "set xs = set ys"
  shows "xs = ys"
  using assms
proof (induction xs arbitrary: ys)
  case (Cons x xs)
  obtain y ys' where y: "ys = y # ys'" using Cons.prems(3) by (cases ys) auto
  have "key x < key z" if "z \<in> set xs" for z using Cons.prems(1) that by (simp add: oset_Cons)
  moreover have "key y < key z" if "z \<in> set ys'" for z using Cons.prems(2) y that by (simp add: oset_Cons)
  ultimately have xy: "x = y" using Cons.prems(3) y by (metis less_asym list.set_intros(1) set_ConsD)
  have "x \<notin> set xs" "x \<notin> set ys'"
    using Cons.prems(1,2) y xy by (auto simp: oset_Cons)
  then have "set xs = set ys'" using Cons.prems(3) y xy by auto
  then show ?case using Cons y xy by (simp add: oset_Cons)
qed simp

text \<open>The tiling step as one equation: nothing, or one more pair and one more entry in front.\<close>

lemma report_launch_tiling_cases:
  assumes "report_launch_tiling ov la m s = Some (m', s')"
  obtains "m' = m" "s' = s"
  | addr n desc where "m' = m\<lparr>om_uniqueAddrInfos := mk_AddrInfo addr n BYPASS desc 0 # om_uniqueAddrInfos m\<rparr>"
      "s' = report_unique [mk_AddrInfo addr n BYPASS TILING 0] s"
  using assms
  by (auto simp: report_launch_tiling_def report_tiling_def report_unique_def mk_AddrInfo_def Let_def
      split: if_splits option.splits prod.splits)

lemma report_unique_append: "report_unique (xs @ ys) s = report_unique ys (report_unique xs s)"
  by (simp add: report_unique_def)

lemma report_unique_permission:
  "report_unique [a] s = report_unique [b] s"
  if "ai_addr a = ai_addr b" "ai_length a = ai_length b" "ai_src a = ai_src b" "ai_desc a = ai_desc b"
    "ai_paramsNo a = ai_paramsNo b" for a b
  using that by (simp add: report_unique_def)

lemma ReportOpMallocInfo_reports:
  assumes "ReportOpMallocInfo api soc am la m s w = Some (m', s', w')" "om_uniqueAddrInfos m = []"
  obtains infos til where "om_uniqueAddrInfos m' = til @ infos" "length til \<le> 1"
    "s' = report_unique (infos @ map (ai_desc_update (\<lambda>_. TILING)) til) s"
proof (cases "la_hostArgs la")
  case None
  then show ?thesis
    using that [of "[]" "[]"] assms by (simp add: ReportOpMallocInfo_def report_unique_def)
next
  case (Some args)
  then obtain m1 acc w1 where loop: "input_loop api soc am la [0..<length (om_inputParamsAddrInfos m)] m ([], []) w =
      Some (m1, acc, w1)"
    using assms(1) by (auto simp: ReportOpMallocInfo_def split: option.splits)
  have u1: "om_uniqueAddrInfos m1 = []"
    using input_loop_infos [OF loop addr_infos_of_Nil] assms(2) by simp
  define infos where
    "infos = unique_infos (foldl (\<lambda>acc a. updateAddrInfos a acc) acc (second_loop_infos m1))"
  define m2 where "m2 = m1\<lparr>om_uniqueAddrInfos := infos\<rparr>"
  have infos: "om_uniqueAddrInfos m2 = infos" by (simp add: m2_def)
  have til: "report_launch_tiling (NeedOverflowStatus soc) la m2 (report_unique infos s) = Some (m', s')"
    using assms(1) Some loop u1 by (simp add: ReportOpMallocInfo_def Let_def infos_def m2_def)
  from til show ?thesis
  proof (cases rule: report_launch_tiling_cases)
    case 1
    then show ?thesis using that [of "[]" infos] infos by simp
  next
    case (2 addr n desc)
    then show ?thesis
      using that [of "[mk_AddrInfo addr n BYPASS desc 0]" infos] infos
      by (simp add: report_unique_append mk_AddrInfo_def)
  qed
qed

text \<open>
  The memory of a launch is reported and released. For every launch that \<open>ReportOpMallocInfo\<close>
  reports, \<open>ReportOpFreeInfo\<close> brings the memory table back to what it was before: the tensors,
  windows, second-level pointers and tiling data of the launch leave no entry and take none
  along, as long as the table has no entry of the same kind of source at their addresses. The
  packets in between are one allocation and one store for each entry, the tiling data last, and
  one release for each, the tiling data first.
\<close>

theorem op_report_released:
  assumes "ReportOpMallocInfo api soc am la m s w = Some (m', s', w')" and "om_uniqueAddrInfos m = []"
    and "oset ai_key (mm_infos (rs_mm s))"
    and "\<forall>t \<in> set (mm_infos (rs_mm s)). ai_addr t \<noteq> 0 \<and> ai_length t \<noteq> 0"
    and "clear_of (set (mm_infos (rs_mm s))) (om_uniqueAddrInfos m')"
    and "distinct (map ai_addr (om_uniqueAddrInfos m'))"
  shows "mm_infos (rs_mm (snd (ReportOpFreeInfo m' s'))) = mm_infos (rs_mm s) \<and>
    (\<exists>infos til. om_uniqueAddrInfos m' = til @ infos \<and> length til \<le> 1 \<and>
      rs_sent (snd (ReportOpFreeInfo m' s')) =
        rs_sent s @ concat (map pair_records (infos @ map (ai_desc_update (\<lambda>_. TILING)) til)) @
        map free_record (til @ infos))"
proof -
  let ?T = "set (mm_infos (rs_mm s))"
  obtain infos til where u: "om_uniqueAddrInfos m' = til @ infos" "length til \<le> 1"
    and s': "s' = report_unique (infos @ map (ai_desc_update (\<lambda>_. TILING)) til) s"
    using ReportOpMallocInfo_reports [OF assms(1,2)] .
  let ?all = "infos @ map (ai_desc_update (\<lambda>_. TILING)) til"
  have "clear_of ?T ?all" "distinct (map ai_addr ?all)"
    using assms(5,6) u(1) by (auto simp: clear_of_def comp_def)
  then have h: "holds ?T ?all (rs_mm s')" and sent: "rs_sent s' = rs_sent s @ concat (map pair_records ?all)"
    using report_unique_holds [of ?T "[]" s ?all] assms(3) s' by (auto simp: holds_def)
  have "table_entry (ai_desc_update (\<lambda>_. TILING) a) = table_entry a" for a by (simp add: table_entry_def)
  then have "table_entry ` set ?all = table_entry ` set (til @ infos)"
    by (simp add: image_Un image_image Un_commute)
  then have "holds ?T (til @ infos) (rs_mm s')" using h by (simp add: holds_def)
  then have f: "holds ?T [] (rs_mm (free_all (til @ infos) s'))"
    and fs: "rs_sent (free_all (til @ infos) s') = rs_sent s' @ map free_record (til @ infos)"
    using free_all_holds [of ?T "til @ infos" s'] assms(5,6) u(1) by auto
  have "mm_infos (rs_mm (free_all (til @ infos) s')) = mm_infos (rs_mm s)"
    using f assms(3) oset_eq by (auto simp: holds_def)
  then have "mm_infos (rs_mm (snd (ReportOpFreeInfo m' s'))) = mm_infos (rs_mm s)"
    using assms(4) u(1) by (simp add: ReportOpFreeInfo_def free_all_def UpdateMemoryOp_def Let_def filter_id_conv)
  moreover have "rs_sent (snd (ReportOpFreeInfo m' s')) = rs_sent (free_all (til @ infos) s')"
    using u(1) by (simp add: ReportOpFreeInfo_def free_all_def Let_def)
  ultimately show ?thesis using u fs sent by auto
qed

definition report_args :: AclrtLaunchArgsInfo where
  "report_args = \<lparr>la_hostArgs = Some (concat (map (le_bytes 8) [4096, 8192, 4096, 12288])), la_argsSize = 32,
     la_placeHolderArray = None, la_placeHolderNum = 0, la_tilingAddrOffset = 24\<rparr>"

definition report_op :: OpMemInfo where
  "report_op = om0\<lparr>om_tilingDataSize := 40, om_inputParamsAddrInfos :=
     [mk_AddrInfo 0 16 EXTRA INPUT 2, mk_AddrInfo 0 32 EXTRA INPUT 3, mk_AddrInfo 0 64 EXTRA INPUT 4]\<rparr>"

definition report_start :: report_state where
  "report_start = \<lparr>rs_mm = CacheMemory_MALLOC 65536 RT 256 True mm0, rs_sent = []\<rparr>"

lemma report_words:
  "word_at (the (la_hostArgs report_args)) 0 = Some 4096"
  "word_at (the (la_hostArgs report_args)) (Suc 0) = Some 8192"
  "word_at (the (la_hostArgs report_args)) (Suc (Suc 0)) = Some 4096"
  "word_at (the (la_hostArgs report_args)) 3 = Some 12288"
  using word_at_words [of 0 "[4096, 8192, 4096, 12288]"] word_at_words [of 1 "[4096, 8192, 4096, 12288]"]
    word_at_words [of "Suc (Suc 0)" "[4096, 8192, 4096, 12288]"] word_at_words [of 3 "[4096, 8192, 4096, 12288]"]
  by (simp_all add: report_args_def)

lemma input_loop_plain:
  assumes "om_secondPtrAddrInfos m = []" "\<not> om_hasMc2Ctx m"
    "word_at (the (la_hostArgs la)) (om_skipNum m + i) = Some addr"
  shows "input_loop api soc am la (i # is) m acc w =
    input_loop api soc am la is
      (m\<lparr>om_inputParamsAddrInfos :=
        (om_inputParamsAddrInfos m)[i := (om_inputParamsAddrInfos m ! i)\<lparr>ai_addr := addr\<rparr>]\<rparr>)
      (updateAddrInfos ((om_inputParamsAddrInfos m ! i)\<lparr>ai_addr := addr\<rparr>) acc) w"
  using assms by (simp add: ParseSecondPtrAddrs_def Let_def)

lemma report_ex:
  "\<exists>m' s'. ReportOpMallocInfo flat_api ''Ascend910B1'' am0 report_args report_op report_start flat0 = Some (m', s', flat0) \<and>
     om_uniqueAddrInfos m' =
       [mk_AddrInfo 12288 64 BYPASS TILING 0, mk_AddrInfo 4096 64 EXTRA INPUT 2, mk_AddrInfo 8192 32 EXTRA INPUT 3]"
proof -
  have upt: "[0..<3] = [0, Suc 0, Suc (Suc 0)]" by (simp add: upt_rec numeral_eq_Suc)
  have fields: "la_placeHolderNum report_args = 0" "la_tilingAddrOffset report_args div 8 = 3"
    "la_tilingAddrOffset report_args \<noteq> 0" "\<exists>a. la_hostArgs report_args = Some a"
    by (simp_all add: report_args_def)
  have loop: "\<exists>m. input_loop flat_api ''Ascend910B1'' am0 report_args [0, Suc 0, Suc (Suc 0)] report_op ([], []) flat0 =
      Some (m, ([4096, 8192], [(4096, mk_AddrInfo 4096 64 EXTRA INPUT 2), (8192, mk_AddrInfo 8192 32 EXTRA INPUT 3)]), flat0) \<and>
      om_uniqueAddrInfos m = [] \<and> om_secondPtrAddrInfos m = [] \<and> om_tilingDataSize m = 40"
    by (simp add: input_loop_plain report_words report_op_def om0_def updateAddrInfos_def mk_AddrInfo_def
        del: input_loop.simps(2))
  have len: "length (om_inputParamsAddrInfos report_op) = 3" by (simp add: report_op_def)
  let ?acc = "([4096, 8192], [(4096, mk_AddrInfo 4096 64 EXTRA INPUT 2), (8192, mk_AddrInfo 8192 32 EXTRA INPUT 3)])"
  let ?infos = "[mk_AddrInfo 4096 64 EXTRA INPUT 2, mk_AddrInfo 8192 32 EXTRA INPUT 3]"
  from loop obtain m where
    m: "input_loop flat_api ''Ascend910B1'' am0 report_args [0, Suc 0, Suc (Suc 0)] report_op ([], []) flat0 =
      Some (m, ?acc, flat0)"
    and mf: "om_uniqueAddrInfos m = []" "om_secondPtrAddrInfos m = []" "om_tilingDataSize m = 40" by blast
  have u: "unique_infos ?acc = ?infos" by (simp add: unique_infos_def mk_AddrInfo_def)
  let ?m = "m\<lparr>om_uniqueAddrInfos := ?infos\<rparr>"
  have a: "align32 40 = 64" by (simp add: align32_def wrap64_small)
  have til: "report_launch_tiling ov report_args ?m s = Some (report_tiling 12288 64 TILING ?m s)" for ov s
    using fields mf by (auto simp: report_launch_tiling_def report_words a)
  have "ReportOpMallocInfo flat_api ''Ascend910B1'' am0 report_args report_op report_start flat0 =
      map_option (\<lambda>(m, s). (m, s, flat0)) (report_launch_tiling (NeedOverflowStatus ''Ascend910B1'') report_args ?m
        (report_unique ?infos report_start))"
    using fields(4) m mf u by (auto simp: ReportOpMallocInfo_def len upt second_loop_infos_def Let_def)
  then show ?thesis
    by (simp only: til) (simp add: report_tiling_def)
qed

theorem op_report_released_witness:
  "\<exists>m' s'. ReportOpMallocInfo flat_api ''Ascend910B1'' am0 report_args report_op report_start flat0 = Some (m', s', flat0) \<and>
     mm_infos (rs_mm (snd (ReportOpFreeInfo m' s'))) = mm_infos (rs_mm report_start)"
proof -
  obtain m' s' where ex: "ReportOpMallocInfo flat_api ''Ascend910B1'' am0 report_args report_op report_start flat0 =
      Some (m', s', flat0)"
    and u: "om_uniqueAddrInfos m' =
       [mk_AddrInfo 12288 64 BYPASS TILING 0, mk_AddrInfo 4096 64 EXTRA INPUT 2, mk_AddrInfo 8192 32 EXTRA INPUT 3]"
    using report_ex by blast
  have s: "mm_infos (rs_mm report_start) = [\<lparr>ai_addr = 65536, ai_length = 256, ai_src = RT, ai_desc = DEFAULT,
      ai_paramsNo = 0, ai_permission = REGION_FLAGS_DEFAULT\<rparr>]"
    by (simp add: report_start_def CacheMemory_MALLOC_def mm0_def)
  have "mm_infos (rs_mm (snd (ReportOpFreeInfo m' s'))) = mm_infos (rs_mm report_start)"
    using op_report_released [OF ex] u by (simp add: s oset_Cons clear_of_def mk_AddrInfo_def report_op_def om0_def)
  with ex show ?thesis by blast
qed

text \<open>
  An address that several tensors of a launch share (an operator that writes in place) is
  reported once, at the place of its first use, with the largest of the lengths and the source,
  description and number of the first; null addresses and empty tensors are not reported.
\<close>

theorem launch_addresses_merged:
  "unique_infos (foldl (\<lambda>acc a. updateAddrInfos a acc) ([], []) infos) = merged_infos infos \<and>
   distinct (map ai_addr (merged_infos infos))"
  using unique_infos_merged [OF foldl_updateAddrInfos [OF addr_infos_of_Nil, of infos]] distinct_merged
  by simp

end
