(* ===== verification/Text.thy ===== *)
theory Text
  imports Prelude "HOL-Library.Char_ord" "HOL-Library.List_Lexorder"
begin

unbundle bit_operations_syntax

text \<open>
  Models csrc/utils/Ustring.h and Ustring.cpp. A \<open>std::string\<close> is a \<open>string\<close>, a character its
  byte; the classification functions are those of the C locale. \<open>std::istringstream\<close> with
  \<open>getline\<close> yields the parts before the delimiters and a last part only when it is not empty.
\<close>

section \<open>Searching\<close>

fun find_sub :: "string \<Rightarrow> string \<Rightarrow> nat option" where
  \<comment> \<open>\<open>s.find(sub)\<close>, \<open>None\<close> for \<open>npos\<close>\<close>
  "find_sub sub [] = (if sub = [] then Some 0 else None)"
| "find_sub sub (c # cs) = (if prefix sub (c # cs) then Some 0 else map_option Suc (find_sub sub cs))"

definition rfind_sub :: "string \<Rightarrow> string \<Rightarrow> nat \<Rightarrow> nat option" where
  \<comment> \<open>\<open>s.rfind(sub, pos)\<close>\<close>
  "rfind_sub sub s pos =
     (case rev (filter (\<lambda>i. prefix sub (drop i s)) [0..<Suc (min pos (length s))]) of
        [] \<Rightarrow> None | i # _ \<Rightarrow> Some i)"

definition StartsWith :: "string \<Rightarrow> string \<Rightarrow> bool" where
  "StartsWith str pre \<longleftrightarrow> rfind_sub pre str 0 = Some 0"

definition EndsWith :: "string \<Rightarrow> string \<Rightarrow> bool" where
  "EndsWith fullStr ending \<longleftrightarrow>
     (if length fullStr \<ge> length ending then drop (length fullStr - length ending) fullStr = ending else False)"

section \<open>Characters\<close>

definition code :: "char \<Rightarrow> nat" where
  "code c = of_char c"

definition isdigit :: "char \<Rightarrow> bool" where
  "isdigit c \<longleftrightarrow> 48 \<le> code c \<and> code c \<le> 57"

definition isalnum :: "char \<Rightarrow> bool" where
  "isalnum c \<longleftrightarrow> isdigit c \<or> (65 \<le> code c \<and> code c \<le> 90) \<or> (97 \<le> code c \<and> code c \<le> 122)"

definition IsDigit :: "string \<Rightarrow> bool" where
  "IsDigit digit =
     (let index = (if digit \<noteq> [] \<and> (hd digit = CHR ''-'' \<or> hd digit = CHR ''+'') then 1 else 0) in
      if length digit = index \<or> length digit > 2 ^ 32 - 1 then False
      else list_all isdigit (drop index digit))"

definition CheckInputStringValid :: "string \<Rightarrow> nat \<Rightarrow> bool" where
  "CheckInputStringValid inputString len =
     (if inputString = [] then False
      else if length inputString > len then False
      else list_all (\<lambda>c. isalnum c \<or> c = CHR ''_'') inputString)"

section \<open>Splitting and joining\<close>

function SplitString :: "char \<Rightarrow> string \<Rightarrow> string list" where
  \<comment> \<open>the vector overload\<close>
  "SplitString split [] = []"
| "SplitString split (c # cs) =
     takeWhile (\<lambda>x. x \<noteq> split) (c # cs) # SplitString split (drop 1 (dropWhile (\<lambda>x. x \<noteq> split) (c # cs)))"
  by pat_completeness auto
termination
  by (relation "measure (length \<circ> snd)") (auto simp: less_Suc_eq_le intro: le_trans [OF diff_le_self length_dropWhile_le])

definition SplitString_set :: "char \<Rightarrow> string \<Rightarrow> string list \<Rightarrow> string list" where
  \<comment> \<open>the set overload: the tokens are inserted into \<open>res\<close>\<close>
  "SplitString_set split str res = foldl (\<lambda>res t. List.insert t res) res (SplitString split str)"

fun Join :: "string list \<Rightarrow> string \<Rightarrow> string" where
  "Join [] sep = []"
| "Join (x # xs) sep = foldl (\<lambda>ret y. ret @ sep @ y) x xs"

definition Strip :: "string \<Rightarrow> string" where
  \<comment> \<open>with the default set of characters, the space\<close>
  "Strip str = rev (dropWhile (\<lambda>c. c = CHR '' '') (rev (dropWhile (\<lambda>c. c = CHR '' '') str)))"

definition ToRawCArgv :: "string list \<Rightarrow> string option list" where
  "ToRawCArgv argv = map Some argv @ [None]"

definition GetValidLength :: "string option \<Rightarrow> nat \<Rightarrow> nat" where
  \<comment> \<open>\<open>maxLen - 1\<close> borrows for 0\<close>
  "GetValidLength str maxLen =
     (case str of
        None \<Rightarrow> 0
      | Some s \<Rightarrow> min (length (takeWhile (\<lambda>c. code c \<noteq> 0) (take maxLen s))) (sub64 maxLen 1))"

section \<open>Suffixes and parts\<close>

fun RemoveSuffix :: "string \<Rightarrow> string list \<Rightarrow> string" where
  "RemoveSuffix str [] = str"
| "RemoveSuffix str (suf # rest) =
     (if str = [] then str
      else if length str \<ge> length suf \<and> drop (length str - length suf) str = suf
        then take (length str - length suf) str
      else RemoveSuffix str rest)"

definition ExtractObjName :: "string \<Rightarrow> string \<Rightarrow> string \<Rightarrow> string" where
  \<comment> \<open>\<open>suffixIndex - objStart\<close> borrows when the suffix is found before the end of the prefix\<close>
  "ExtractObjName str pre suf =
     (case (find_sub pre str, find_sub suf str) of
        (Some prefixIndex, Some suffixIndex) \<Rightarrow>
          let objStart = prefixIndex + length pre in take (sub64 suffixIndex objStart) (drop objStart str)
      | _ \<Rightarrow> [])"

section \<open>Control characters\<close>

definition GetInvalidChar :: "(char \<times> string) list" where
  "GetInvalidChar =
     [(CHR 0x0A, [CHR 0x5C, CHR ''n'']), (CHR 0x0C, [CHR 0x5C, CHR ''f'']), (CHR 0x0D, [CHR 0x5C, CHR ''r'']),
      (CHR 0x08, [CHR 0x5C, CHR ''b'']), (CHR 0x09, [CHR 0x5C, CHR ''t'']), (CHR 0x0B, [CHR 0x5C, CHR ''v'']),
      (CHR 0x7F, CHR 0x5C # ''u007F'')]"

definition IsStringCharValid :: "string \<Rightarrow> bool" where
  \<comment> \<open>the message names one of the characters found, in the order of a hash table; left out\<close>
  "IsStringCharValid inputString \<longleftrightarrow> list_all (\<lambda>(c, _). find_sub [c] inputString = None) GetInvalidChar"

function safe_loop :: "string \<Rightarrow> nat \<Rightarrow> string" where
  \<comment> \<open>the loop of \<open>ToSafeString\<close>\<close>
  "safe_loop safeStr i =
     (if i < length safeStr then
        (case map_of GetInvalidChar (safeStr ! i) of
           Some validStr \<Rightarrow> safe_loop (take i safeStr @ validStr @ drop (Suc i) safeStr) (i + length validStr)
         | None \<Rightarrow> safe_loop safeStr (i + 1))
      else safeStr)"
  by pat_completeness auto
termination
  by (relation "measure (\<lambda>(s, i). length s - i)") auto

declare safe_loop.simps [simp del]

definition ToSafeString :: "string \<Rightarrow> string" where
  "ToSafeString str = safe_loop str 0"

section \<open>Numbers\<close>

definition HEX_DIGITS :: string where
  "HEX_DIGITS = ''0123456789abcdef''"

fun hex_str :: "nat \<Rightarrow> string" where
  "hex_str n = (if n < 16 then [HEX_DIGITS ! n] else hex_str (n div 16) @ [HEX_DIGITS ! (n mod 16)])"

declare hex_str.simps [simp del]

definition NumToHexString :: "nat \<Rightarrow> string" where
  "NumToHexString num = ''0x'' @ hex_str num"

definition fnv1a :: "string \<Rightarrow> nat" where
  "fnv1a str = foldl (\<lambda>hash c. wrap32 ((hash XOR code c) * 0x01000193)) 0x811c9dc5 str"

fun hex_digits :: "nat \<Rightarrow> nat \<Rightarrow> string" where
  \<comment> \<open>the loop that fills \<open>hex\<close> from its end\<close>
  "hex_digits 0 hash = []"
| "hex_digits (Suc n) hash = hex_digits n (drop_bit 4 hash) @ [HEX_DIGITS ! (hash AND 0xF)]"

definition FormatNameForLog :: "string \<Rightarrow> string" where
  "FormatNameForLog str = (if str = [] then [] else ''hash='' @ hex_digits 8 (fnv1a str))"

definition dec_val :: "string \<Rightarrow> nat" where
  "dec_val ds = foldl (\<lambda>n c. n * 10 + (code c - 48)) 0 ds"

definition StringToNum :: "bool \<Rightarrow> nat \<Rightarrow> string \<Rightarrow> int option" where
  \<comment> \<open>for an integer type of \<open>bits\<close> bits (16 or more), unsigned or signed; \<open>None\<close> for \<open>false\<close>\<close>
  "StringToNum is_unsigned bits str =
     (if \<not> IsDigit str then None
      else if is_unsigned \<and> str \<noteq> [] \<and> hd str = CHR ''-'' then None
      else
        let neg = (hd str = CHR ''-'');
            v = int (dec_val (if neg \<or> hd str = CHR ''+'' then tl str else str));
            v = (if neg then - v else v) in
        if (if is_unsigned then v < 2 ^ bits else - (2 ^ (bits - 1)) \<le> v \<and> v < 2 ^ (bits - 1))
          then Some v else None)"

definition ToLower :: "string \<Rightarrow> string" where
  "ToLower s = map (\<lambda>c. if 65 \<le> code c \<and> code c \<le> 90 then char_of (code c + 32) else c) s"

section \<open>Lemmas\<close>

lemma StartsWith_prefix: "StartsWith str pre \<longleftrightarrow> prefix pre str"
  by (simp add: StartsWith_def rfind_sub_def)

lemma EndsWith_suffix: "EndsWith str suf \<longleftrightarrow> suffix suf str"
proof
  assume "EndsWith str suf"
  then have "str = take (length str - length suf) str @ suf"
    by (metis EndsWith_def append_take_drop_id)
  then show "suffix suf str" unfolding suffix_def by blast
next
  assume "suffix suf str"
  then show "EndsWith str suf" by (auto simp: EndsWith_def suffix_def)
qed

lemma safe_loop_suffix:
  "safe_loop (pre @ s) (length pre) = pre @ concat (map (\<lambda>c. case map_of GetInvalidChar c of Some v \<Rightarrow> v | None \<Rightarrow> [c]) s)"
proof (induction s arbitrary: pre)
  case Nil
  then show ?case by (subst safe_loop.simps) simp
next
  case (Cons c s)
  show ?case
  proof (cases "map_of GetInvalidChar c")
    case None
    then show ?thesis using Cons [of "pre @ [c]"] by (subst safe_loop.simps) simp
  next
    case (Some v)
    then show ?thesis using Cons [of "pre @ v"] by (subst safe_loop.simps) simp
  qed
qed

lemma ToSafeString_map:
  "ToSafeString str = concat (map (\<lambda>c. case map_of GetInvalidChar c of Some v \<Rightarrow> v | None \<Rightarrow> [c]) str)"
  using safe_loop_suffix [of "[]" str] by (simp add: ToSafeString_def)

lemma find_char: "find_sub [c] s = None \<longleftrightarrow> c \<notin> set s"
  by (induction s) auto

lemma IsStringCharValid_iff: "IsStringCharValid s \<longleftrightarrow> (\<forall>c \<in> set s. map_of GetInvalidChar c = None)"
  by (auto simp: IsStringCharValid_def list_all_iff find_char map_of_eq_None_iff)

lemma escapes_valid: "map_of GetInvalidChar c = Some v \<Longrightarrow> IsStringCharValid v"
proof -
  assume "map_of GetInvalidChar c = Some v"
  then have "v \<in> snd ` set GetInvalidChar" by (force dest: map_of_SomeD)
  moreover have "list_all (\<lambda>v. list_all (\<lambda>c. map_of GetInvalidChar c = None) v) (map snd GetInvalidChar)"
    by (simp add: GetInvalidChar_def)
  ultimately show ?thesis by (auto simp: IsStringCharValid_iff list_all_iff)
qed

lemma SplitString_snoc:
  assumes "d \<notin> set x" "x \<noteq> []"
  shows "SplitString d x = [x]"
proof -
  obtain c cs where x: "x = c # cs" using assms(2) by (cases x) auto
  have "takeWhile (\<lambda>y. y \<noteq> d) x = x" "dropWhile (\<lambda>y. y \<noteq> d) x = []"
    using assms(1) by (auto simp: takeWhile_eq_all_conv dropWhile_eq_Nil_conv)
  then show ?thesis unfolding x SplitString.simps by (simp only: drop_Nil SplitString.simps)
qed

lemma SplitString_cons:
  assumes "d \<notin> set x"
  shows "SplitString d (x @ d # s) = x # SplitString d s"
proof -
  have tw: "takeWhile (\<lambda>y. y \<noteq> d) (x @ d # s) = x" and dw: "dropWhile (\<lambda>y. y \<noteq> d) (x @ d # s) = d # s"
    using assms by (induction x) auto
  obtain c cs where "x @ d # s = c # cs" by (cases x) auto
  then show ?thesis using tw dw by (metis SplitString.simps(2) drop_Suc_Cons drop0 One_nat_def)
qed

lemma Join_Cons: "Join (x # y # ys) sep = x @ sep @ Join (y # ys) sep"
proof -
  have *: "foldl (\<lambda>ret y. ret @ sep @ y) (a @ b) ys = a @ foldl (\<lambda>ret y. ret @ sep @ y) b ys" for a b
    by (induction ys arbitrary: b) auto
  show ?thesis using * [of "x @ sep" y] by simp
qed

lemma SplitString_Join:
  assumes "xs \<noteq> []" "last xs \<noteq> []" "\<forall>x \<in> set xs. d \<notin> set x"
  shows "SplitString d (Join xs [d]) = xs"
  using assms
proof (induction xs rule: induct_list012)
  case (2 x)
  then show ?case using SplitString_snoc by simp
next
  case (3 x y zs)
  then have "SplitString d (Join (y # zs) [d]) = y # zs" by simp
  then show ?case using SplitString_cons [of d x "Join (y # zs) [d]"] 3 by (simp add: Join_Cons del: Join.simps)
qed simp

end
