(* ===== verification/Paths.thy ===== *)
theory Paths
  imports Text "HOL-Library.Monad_Syntax"
begin

text \<open>
  Models csrc/utils/Path.h/.cpp and csrc/utils/Environment.cpp. A path is its segments; the
  current directory, \<open>realpath\<close> and the environment of the process are arguments. A system
  environment is the list of its entries, \<open>None\<close> where \<open>environ\<close> is null. \<open>GetStat\<close> and
  \<open>Exists\<close> ask the file system and are left out.
\<close>

section \<open>Paths\<close>

record Path =
  pa_absolute :: bool
  pa_route :: "string list"

definition empty_Path :: Path where
  "empty_Path = \<lparr>pa_absolute = False, pa_route = []\<rparr>"

function path_scan :: "string \<Rightarrow> string list" where
  \<comment> \<open>the scanning loop of the constructor, from an index on\<close>
  "path_scan [] = []"
| "path_scan (c # cs) =
     (if c = CHR ''/'' then path_scan cs
      else
        let route = c # takeWhile (\<lambda>x. x \<noteq> CHR ''/'') cs;
            more = path_scan (dropWhile (\<lambda>x. x \<noteq> CHR ''/'') cs) in
        if route \<noteq> ''.'' then route # more else more)"
  by pat_completeness auto
termination
  by (relation "measure length") (auto simp: less_Suc_eq_le length_dropWhile_le)

definition new_Path :: "string \<Rightarrow> Path" where
  "new_Path path =
     (let path = Strip path in
      if path = [] then empty_Path
      else \<lparr>pa_absolute = (hd path = CHR ''/''), pa_route = path_scan path\<rparr>)"

definition Path_ToString :: "Path \<Rightarrow> string" where
  "Path_ToString p =
     (if pa_absolute p then ''/'' @ Join (pa_route p) ''/''
      else if pa_route p = [] then ''.''
      else Join (pa_route p) ''/'')"

definition Path_Name :: "Path \<Rightarrow> string" where
  "Path_Name p = (if pa_route p = [] then [] else last (pa_route p))"

definition Path_Parent :: "Path \<Rightarrow> Path" where
  "Path_Parent p = (if pa_route p \<noteq> [] then p\<lparr>pa_route := butlast (pa_route p)\<rparr> else p)"

definition path_join :: "Path \<Rightarrow> Path \<Rightarrow> Path" where
  \<comment> \<open>\<open>operator/\<close>\<close>
  "path_join p rhs = (if pa_absolute rhs then rhs else p\<lparr>pa_route := pa_route p @ pa_route rhs\<rparr>)"

definition Path_Absolute :: "string option \<Rightarrow> Path \<Rightarrow> Path" where
  \<comment> \<open>the first argument is the result of \<open>getcwd\<close>\<close>
  "Path_Absolute cwd p = path_join (new_Path (case cwd of Some d \<Rightarrow> d | None \<Rightarrow> [])) p"

fun resolve_loop :: "string list \<Rightarrow> nat list \<Rightarrow> nat \<Rightarrow> string list \<times> nat" where
  \<comment> \<open>the loop of \<open>Resolved\<close>: the vector, the remaining positions of \<open>fast\<close>, and \<open>slow\<close>\<close>
  "resolve_loop route [] slow = (route, slow)"
| "resolve_loop route (fast # fs) slow =
     (if route ! fast \<noteq> ''..'' then resolve_loop (route[slow := route ! fast]) fs (slow + 1)
      else if slow > 0 then resolve_loop route fs (slow - 1)
      else resolve_loop route fs slow)"

definition Path_Resolved :: "string option \<Rightarrow> Path \<Rightarrow> Path" where
  "Path_Resolved cwd p =
     (let path = Path_Absolute cwd p;
          (route, slow) = resolve_loop (pa_route path) [0..<length (pa_route path)] 0 in
      path\<lparr>pa_route := take slow route\<rparr>)"

section \<open>The environment of a child process\<close>

definition needJoinEnv :: "string list" where
  "needJoinEnv = [''LD_PRELOAD'', ''LD_LIBRARY_PATH'', ''PATH'']"

partial_function (option) join_loop ::
  "bool \<Rightarrow> string list \<Rightarrow> nat \<Rightarrow> (string \<times> string) list \<Rightarrow> string list \<Rightarrow>
   ((string \<times> string) list \<times> string list) option"
where
  \<comment> \<open>the loop over \<open>environ\<close> at a position; an entry without an equals sign is tried again\<close>
  "join_loop combineMode systemEnvs i envs outEnv =
     (if i < length systemEnvs then
        (if \<not> combineMode then join_loop combineMode systemEnvs (i + 1) envs (outEnv @ [systemEnvs ! i])
         else
           case find_sub ''='' (systemEnvs ! i) of
             None \<Rightarrow> join_loop combineMode systemEnvs i envs outEnv
           | Some pos \<Rightarrow>
               let tmp = systemEnvs ! i; key = take pos tmp in
               (case map_of envs key of
                  Some v \<Rightarrow>
                    if key \<in> set needJoinEnv then
                      join_loop combineMode systemEnvs (i + 1) (al_del key envs)
                        (outEnv @ [(if pos = length tmp - 1 then key @ ''='' @ v else key @ ''='' @ v @ '':'') @
                           drop (pos + 1) tmp])
                    else join_loop combineMode systemEnvs (i + 1) envs (outEnv @ [tmp])
                | None \<Rightarrow> join_loop combineMode systemEnvs (i + 1) envs (outEnv @ [tmp])))
      else Some (envs, outEnv))"

definition JoinWithSystemEnv ::
  "string list option \<Rightarrow> (string \<times> string) list \<Rightarrow> string list \<Rightarrow> bool \<Rightarrow> string list option"
where
  \<comment> \<open>\<open>envs\<close>: a map in ascending order of its keys\<close>
  "JoinWithSystemEnv environ envs outEnv combineMode =
     map_option (\<lambda>(envs, outEnv). outEnv @ map (\<lambda>(k, v). k @ ''='' @ v) envs)
       (join_loop combineMode (case environ of Some es \<Rightarrow> es | None \<Rightarrow> []) 0 envs outEnv)"

definition GetAscendHomePath :: "(string \<Rightarrow> string option) \<Rightarrow> string \<Rightarrow> string option" where
  \<comment> \<open>\<open>realpath\<close> and the value of \<open>ASCEND_HOME_PATH\<close>, empty when it is not set\<close>
  "GetAscendHomePath realpath pathFromEnv = (if pathFromEnv = [] then None else realpath pathFromEnv)"

definition ExtractSocVersion :: "string \<Rightarrow> string option" where
  "ExtractSocVersion path =
     (case rfind_sub ''/lib'' path (length path) of
        None \<Rightarrow> None
      | Some libPos \<Rightarrow>
          (case rfind_sub ''Ascend'' path libPos of
             None \<Rightarrow> None
           | Some ascendPos \<Rightarrow>
               let seg = take (libPos - ascendPos) (drop ascendPos path) in
               if length seg < 9 \<or> take 6 seg \<noteq> ''Ascend'' then None
               else if \<not> list_all isdigit (take 3 (drop 6 seg)) then None
               else if length seg > 17 then None
               else if \<not> list_all (\<lambda>c. isalnum c \<or> c = CHR ''_'') (drop 9 seg) then None
               else Some seg))"

fun first_soc :: "string \<Rightarrow> string list \<Rightarrow> string option" where
  "first_soc home [] = None"
| "first_soc home (p # ps) =
     (if \<not> StartsWith p home then first_soc home ps
      else case ExtractSocVersion p of Some v \<Rightarrow> Some v | None \<Rightarrow> first_soc home ps)"

definition GetSocVersionFromEnvVar ::
  "(string \<Rightarrow> string option) \<Rightarrow> string \<Rightarrow> string option \<Rightarrow> string option"
where
  "GetSocVersionFromEnvVar realpath homeEnv ldEnv =
     (case GetAscendHomePath realpath homeEnv of
        None \<Rightarrow> None
      | Some home \<Rightarrow>
          (case ldEnv of None \<Rightarrow> None | Some ld \<Rightarrow> first_soc home (SplitString CHR '':'' ld)))"

section \<open>Printing and parsing\<close>

definition segment :: "string \<Rightarrow> bool" where
  "segment s \<longleftrightarrow> s \<noteq> [] \<and> CHR ''/'' \<notin> set s \<and> s \<noteq> ''.''"

lemma path_scan_segment:
  assumes "segment s" "rest = [] \<or> hd rest = CHR ''/''"
  shows "path_scan (s @ rest) = s # path_scan rest"
proof -
  obtain c cs where s: "s = c # cs" using assms(1) by (cases s) (auto simp: segment_def)
  have "takeWhile (\<lambda>x. x \<noteq> CHR ''/'') (cs @ rest) = cs" "dropWhile (\<lambda>x. x \<noteq> CHR ''/'') (cs @ rest) = rest"
    using assms s by (cases rest; auto simp: segment_def takeWhile_append dropWhile_append)+
  then show ?thesis using assms(1) by (auto simp: s segment_def Let_def)
qed

lemma path_scan_Join: "list_all segment xs \<Longrightarrow> path_scan (Join xs ''/'') = xs"
proof (induction xs rule: induct_list012)
  case 1
  then show ?case by simp
next
  case (2 x)
  then show ?case using path_scan_segment [of x "[]"] by simp
next
  case (3 x y zs)
  have "path_scan (Join (y # zs) ''/'') = y # zs" using 3 by simp
  then show ?case
    using path_scan_segment [of x "''/'' @ Join (y # zs) ''/''"] 3(3) by (simp add: Join_Cons del: Join.simps)
qed

lemma Join_ends:
  assumes "xs \<noteq> []" "list_all segment xs"
  shows "Join xs ''/'' \<noteq> [] \<and> hd (Join xs ''/'') = hd (hd xs) \<and> last (Join xs ''/'') = last (last xs)"
  using assms
proof (induction xs rule: induct_list012)
  case (2 x)
  then show ?case by (simp add: segment_def)
next
  case (3 x y zs)
  then have "x \<noteq> []" by (simp add: segment_def)
  then show ?case using 3 by (simp add: Join_Cons del: Join.simps)
qed simp

lemma Strip_ends:
  assumes "s \<noteq> []" "hd s \<noteq> CHR '' ''" "last s \<noteq> CHR '' ''"
  shows "Strip s = s"
proof -
  have "dropWhile (\<lambda>c. c = CHR '' '') s = s" using assms by (cases s) auto
  moreover have "dropWhile (\<lambda>c. c = CHR '' '') (rev s) = rev s"
    using assms by (cases s rule: rev_cases) auto
  ultimately show ?thesis by (simp add: Strip_def)
qed

text \<open>
  Printing a path and parsing it gives the path back, absolute or relative, the root and the
  current directory included, for segments that are not empty, hold no separator, are not the
  dot, and where the printed string neither starts nor ends with a space (which the parser strips).
\<close>

theorem path_print_parse:
  assumes "list_all segment (pa_route p)"
    and "pa_route p \<noteq> [] \<longrightarrow> (pa_absolute p \<or> hd (hd (pa_route p)) \<noteq> CHR '' '') \<and> last (last (pa_route p)) \<noteq> CHR '' ''"
  shows "new_Path (Path_ToString p) = p"
proof (cases "pa_route p = []")
  case True
  have "Strip ''/'' = ''/''" "Strip ''.'' = ''.''" by (simp_all add: Strip_def)
  then show ?thesis using True
    by (cases p) (auto simp: Path_ToString_def new_Path_def empty_Path_def Let_def)
next
  case False
  note e = Join_ends [OF False assms(1)]
  have r: "path_scan (Join (pa_route p) ''/'') = pa_route p" using path_scan_Join [OF assms(1)] .
  have "hd (hd (pa_route p)) \<noteq> CHR ''/''"
    using False assms(1) by (cases "pa_route p"; cases "hd (pa_route p)") (auto simp: segment_def)
  then show ?thesis
    using False assms(2) e r Strip_ends [of "Path_ToString p"]
    by (cases p) (auto simp: Path_ToString_def new_Path_def Let_def)
qed

theorem path_print_parse_witness:
  "new_Path (Path_ToString \<lparr>pa_absolute = True, pa_route = [''tmp'', ''msop dir'', ''a.o'']\<rparr>) =
     \<lparr>pa_absolute = True, pa_route = [''tmp'', ''msop dir'', ''a.o'']\<rparr>"
  by (rule path_print_parse) (simp_all add: segment_def)

section \<open>Resolution\<close>

text \<open>The specification: a stack of segments, on which the parent segment pops.\<close>

definition push_segment :: "string list \<Rightarrow> string \<Rightarrow> string list" where
  "push_segment stack r = (if r \<noteq> ''..'' then stack @ [r] else butlast stack)"

lemma resolve_loop_stack:
  assumes "slow \<le> i" "i \<le> length route"
  shows "let (route', slow') = resolve_loop route [i..<length route] slow in
    slow' \<le> length route' \<and> take slow' route' = foldl push_segment (take slow route) (drop i route)"
  using assms
proof (induction "length route - i" arbitrary: i route slow)
  case 0
  then show ?case by simp
next
  case (Suc d)
  then have i: "i < length route" by simp
  have upt: "[i..<length route] = i # [Suc i..<length route]" using i by (simp add: upt_conv_Cons)
  have dr: "drop i route = route ! i # drop (Suc i) route" using i by (simp add: Cons_nth_drop_Suc)
  show ?case
  proof (cases "route ! i = ''..''")
    case True
    have "butlast (take slow route) = take (slow - 1) route" using Suc.prems by (simp add: butlast_take)
    then show ?thesis
      using True Suc.hyps(1) [of route "Suc i" "slow - 1"] Suc.hyps(2) Suc.prems i
      by (cases slow) (auto simp: upt dr push_segment_def)
  next
    case False
    let ?r = "route[slow := route ! i]"
    have "take (Suc slow) ?r = take slow route @ [route ! i]"
      using Suc.prems i by (simp add: take_Suc_conv_app_nth)
    moreover have "drop (Suc i) ?r = drop (Suc i) route" using Suc.prems by simp
    ultimately show ?thesis
      using False Suc.hyps(1) [of ?r "Suc i" "Suc slow"] Suc.hyps(2) Suc.prems i
      by (auto simp: upt dr push_segment_def)
  qed
qed

lemma push_segment_plain: "''..'' \<notin> set st \<Longrightarrow> ''..'' \<notin> set (foldl push_segment st rs)"
proof (induction rs arbitrary: st)
  case (Cons r rs)
  then show ?case using in_set_butlastD [of "''..''" st] by (auto simp: push_segment_def)
qed simp

text \<open>
  C14: \<open>Resolved\<close> compacts the segments in place with two positions in one vector; the result is
  that of a stack on which a parent segment pops (and does nothing on an empty stack), of the
  current directory's segments followed by the path's own. The result keeps no parent segment.
\<close>

theorem resolved_is_stack:
  "pa_route (Path_Resolved cwd p) = foldl push_segment [] (pa_route (Path_Absolute cwd p)) \<and>
   ''..'' \<notin> set (pa_route (Path_Resolved cwd p)) \<and>
   pa_absolute (Path_Resolved cwd p) = pa_absolute (Path_Absolute cwd p)"
  using resolve_loop_stack [of 0 0 "pa_route (Path_Absolute cwd p)"]
    push_segment_plain [of "[]" "pa_route (Path_Absolute cwd p)"]
  by (auto simp: Path_Resolved_def Let_def split: prod.splits)

section \<open>What the child process sees\<close>

text \<open>The value of a variable: the first entry of its name, as \<open>getenv\<close> finds it.\<close>

fun env_lookup :: "string list \<Rightarrow> string \<Rightarrow> string option" where
  "env_lookup [] k = None"
| "env_lookup (e # es) k = (if prefix (k @ ''='') e then Some (drop (length k + 1) e) else env_lookup es k)"

definition has_equals :: "string \<Rightarrow> bool" where
  "has_equals e \<longleftrightarrow> CHR ''='' \<in> set e"

definition joined :: "(string \<times> string) list \<Rightarrow> string \<Rightarrow> string \<Rightarrow> string" where
  \<comment> \<open>the value of a variable of the system's environment\<close>
  "joined envs k w =
     (case map_of envs k of
        Some v \<Rightarrow> if k \<in> set needJoinEnv then (if w = [] then v else v @ '':'' @ w) else w
      | None \<Rightarrow> w)"

lemma find_equals:
  assumes "has_equals e"
  obtains k w where "e = k @ ''='' @ w" "CHR ''='' \<notin> set k" "find_sub ''='' e = Some (length k)"
proof -
  obtain k w where e: "e = k @ CHR ''='' # w" "CHR ''='' \<notin> set k"
    using assms split_list_first [of "CHR ''=''" e] by (auto simp: has_equals_def)
  have "find_sub ''='' (k @ CHR ''='' # w) = Some (length k)"
    using e(2) by (induction k) auto
  then show ?thesis using that [of k w] e by simp
qed

lemma find_no_equals: "\<not> has_equals e \<Longrightarrow> find_sub ''='' e = None"
  using find_char [of "CHR ''=''" e] by (simp add: has_equals_def)

lemma entry_lookup:
  assumes "CHR ''='' \<notin> set k" "CHR ''='' \<notin> set j"
  shows "prefix (k @ ''='') (j @ ''='' @ w) \<longleftrightarrow> k = j"
  using assms by (induction k j rule: list_induct2') auto

lemma env_lookup_append:
  "env_lookup (xs @ ys) k = (case env_lookup xs k of Some w \<Rightarrow> Some w | None \<Rightarrow> env_lookup ys k)"
  by (induction xs) auto

lemma env_lookup_envs:
  assumes "CHR ''='' \<notin> set k" "\<forall>(j, v) \<in> set envs. CHR ''='' \<notin> set j"
  shows "env_lookup (map (\<lambda>(k, v). k @ ''='' @ v) envs) k = map_of envs k"
  using assms(2)
proof (induction envs)
  case (Cons e envs)
  obtain j v where e: "e = (j, v)" by (cases e)
  show ?case using Cons entry_lookup [OF assms(1), of j v] by (auto simp: e)
qed simp

lemma join_loop_lookup:
  assumes "\<forall>e \<in> set (drop i sys). has_equals e" "\<forall>(j, v) \<in> set envs. CHR ''='' \<notin> set j" "CHR ''='' \<notin> set k"
  shows "\<exists>envs' out'. join_loop True sys i envs out = Some (envs', out') \<and>
    env_lookup (out' @ map (\<lambda>(k, v). k @ ''='' @ v) envs') k =
      (case env_lookup out k of
         Some w \<Rightarrow> Some w
       | None \<Rightarrow> (case env_lookup (drop i sys) k of
                    Some w \<Rightarrow> Some (joined envs k w)
                  | None \<Rightarrow> map_of envs k))"
  using assms
proof (induction "length sys - i" arbitrary: i envs out)
  case 0
  have "env_lookup (out @ map (\<lambda>(k, v). k @ ''='' @ v) envs) k =
      (case env_lookup out k of Some w \<Rightarrow> Some w | None \<Rightarrow> map_of envs k)"
    using env_lookup_append [of out] env_lookup_envs [OF assms(3) 0(3)] by (auto split: option.splits)
  moreover have dr: "drop i sys = []" "\<not> i < length sys" using 0(1) by simp_all
  moreover have "join_loop True sys i envs out = Some (envs, out)" using dr(2) by (subst join_loop.simps) simp
  ultimately show ?case unfolding dr(1) by (auto split: option.splits)
next
  case (Suc d)
  then have i: "i < length sys" by simp
  have dr: "drop i sys = sys ! i # drop (Suc i) sys" using i by (simp add: Cons_nth_drop_Suc)
  obtain j w where e: "sys ! i = j @ ''='' @ w" "CHR ''='' \<notin> set j" "find_sub ''='' (sys ! i) = Some (length j)"
    using Suc.prems(1) dr find_equals by (metis list.set_intros(1))
  have look: "env_lookup [sys ! i] k = (if k = j then Some w else None)"
    using entry_lookup [OF assms(3) e(2)] by (simp add: e(1))
  have rest: "\<forall>e \<in> set (drop (Suc i) sys). has_equals e" using Suc.prems(1) dr by simp
  show ?case
  proof (cases "\<exists>v. map_of envs j = Some v \<and> j \<in> set needJoinEnv")
    case True
    then obtain v where v: "map_of envs j = Some v" "j \<in> set needJoinEnv" by blast
    define n where "n = (if w = [] then j @ ''='' @ v else j @ ''='' @ v @ '':'' @ w)"
    have step: "join_loop True sys i envs out = join_loop True sys (Suc i) (al_del j envs) (out @ [n])"
      using v e i by (subst join_loop.simps) (auto simp: n_def Let_def)
    have new: "env_lookup [n] k = (if k = j then Some (joined envs k w) else None)"
      using entry_lookup [OF assms(3) e(2)] v by (simp add: n_def joined_def)
    have del: "\<forall>(j, v) \<in> set (al_del j envs). CHR ''='' \<notin> set j"
      using Suc.prems(2) by (auto simp: al_del_def)
    have "joined (al_del j envs) k w' = joined envs k w'" if "k \<noteq> j" for w'
      using that by (simp add: joined_def map_of_al_del)
    moreover have "d = length sys - Suc i" using Suc.hyps(2) by simp
    ultimately show ?thesis
      using Suc.hyps(1) [OF _ rest del assms(3), of "out @ [n]"] look new
        env_lookup_append [of out "[n]" k] env_lookup_append [of "[sys ! i]" "drop (Suc i) sys" k]
      by (simp add: step dr map_of_al_del split: option.splits if_splits)
  next
    case False
    have step: "join_loop True sys i envs out = join_loop True sys (Suc i) envs (out @ [sys ! i])"
      using False e i by (subst join_loop.simps) (auto simp: Let_def split: option.splits)
    have "joined envs k w = w" if "k = j" using False that by (auto simp: joined_def split: option.splits)
    moreover have "d = length sys - Suc i" using Suc.hyps(2) by simp
    ultimately show ?thesis
      using Suc.hyps(1) [OF _ rest Suc.prems(2) assms(3), of "out @ [sys ! i]"] look
        env_lookup_append [of out "[sys ! i]" k] env_lookup_append [of "[sys ! i]" "drop (Suc i) sys" k]
      by (simp add: step dr split: option.splits if_splits)
  qed
qed

text \<open>
  The environment built for a child process. When every entry of the system's environment
  has an equals sign, the join ends, and a variable of the child has: the system's value, with
  the program's value joined in front for the three path variables that the program defines, and
  the program's value if the system does not have the variable. (A variable the program defines
  that the system has too and that is not one of the three keeps the system's value.)
\<close>

theorem joined_environment:
  assumes "\<forall>e \<in> set sys. has_equals e" and "\<forall>(j, v) \<in> set envs. CHR ''='' \<notin> set j" and "CHR ''='' \<notin> set k"
  shows "\<exists>out. JoinWithSystemEnv (Some sys) envs [] True = Some out \<and>
    env_lookup out k =
      (case env_lookup sys k of Some w \<Rightarrow> Some (joined envs k w) | None \<Rightarrow> map_of envs k)"
  using join_loop_lookup [of 0 sys envs k "[]"] assms by (auto simp: JoinWithSystemEnv_def)

theorem joined_environment_witness:
  "\<exists>out. JoinWithSystemEnv (Some [''PATH=/bin'', ''HOME=/root'', ''LD_PRELOAD='']) 
       [(''HOME'', ''/x''), (''LD_PRELOAD'', ''a.so''), (''PATH'', ''/usr/bin'')] [] True = Some out \<and>
     env_lookup out ''PATH'' = Some ''/usr/bin:/bin''"
  using joined_environment [of "[''PATH=/bin'', ''HOME=/root'', ''LD_PRELOAD='']"
      "[(''HOME'', ''/x''), (''LD_PRELOAD'', ''a.so''), (''PATH'', ''/usr/bin'')]" "''PATH''"]
  by (simp add: has_equals_def joined_def needJoinEnv_def)



end
