(* ===== verification/Markers.thy ===== *)
theory Markers
  imports Text OrdSet
begin

text \<open>
  Models csrc/runtime/inject_helpers/MsTx.h and MsTx.cpp, the state behind the mstx marker
  interface: the message ranges of each thread (which decide what is profiled), the domains, and
  the heaps and regions that a program announces for its own allocator. Threads are numbers; the
  mutex makes each operation one step. Objects that the class creates have addresses from an
  allocator \<open>alloc\<close>, which gets the addresses in use. The configuration does not change.
\<close>

section \<open>Data\<close>

record mstx_config =
  cf_isRangeReplay :: bool
  cf_isMstxEnable :: bool
  cf_mstxEnabledMessage :: string

record MstxMemVirtualRangeDesc =
  vr_deviceId :: nat
  vr_ptr :: ptr
  vr_size :: nat

record MstxMemHeapDesc =
  hp_usage :: nat
  hp_type :: nat
  hp_typeSpecificDesc :: "MstxMemVirtualRangeDesc option"

record MstxMemHeapRangeDesc =
  hs_usage :: nat
  hs_memType :: nat
  hs_rangeDesc :: MstxMemVirtualRangeDesc

datatype MstxMemRegionRef = REF_POINTER ptr | REF_HANDLE ptr

record MstxMemRegionsRegisterBatch =
  rb_heap :: ptr
  rb_regionDescArray :: "MstxMemVirtualRangeDesc list option"
  rb_hasHandleArrayOut :: bool

type_synonym MstxMemRegionsUnregisterBatch = "MstxMemRegionRef list option"  \<comment> \<open>\<open>refArray\<close>\<close>

record MstxMemPermissionsAssignRegionsDesc =
  pr_flags :: nat
  pr_region :: MstxMemRegionRef

type_synonym MstxMemPermissionsAssignBatch = "MstxMemPermissionsAssignRegionsDesc list option"

record MemRegionsBelongInfo =
  bi_addr :: nat
  bi_size :: nat
  bi_success :: bool

definition no_belong :: MemRegionsBelongInfo where
  "no_belong = \<lparr>bi_addr = 0, bi_size = 0, bi_success = False\<rparr>"

definition MAX_DOMAIN_LENGTH :: nat where
  "MAX_DOMAIN_LENGTH = 1023"

record MsTx =
  mt_isMstxInit :: bool
  mt_isEnabledMessageInit :: bool
  mt_enabledMessages :: "string list"
  mt_usage :: "(nat \<times> (string \<times> nat) list) list"  \<comment> \<open>thread, message, count\<close>
  mt_active :: "(nat \<times> string) list"
  mt_invalidIds :: "nat list"
  mt_rangeId :: nat
  mt_name2Domain :: "(string \<times> ptr) list"
  mt_domain2Name :: "(ptr \<times> string) list"
  mt_heapDesc :: "((ptr \<times> ptr) \<times> MstxMemHeapRangeDesc) list"
  mt_heaps :: "(ptr \<times> ptr list) list"
  mt_regions :: "(ptr \<times> ptr list) list"
  mt_regionDesc :: "(ptr \<times> MstxMemVirtualRangeDesc) list"

definition MstxAttrReset :: "bool \<Rightarrow> MsTx \<Rightarrow> MsTx" where
  "MstxAttrReset forceReset m =
     (if mt_isMstxInit m \<and> \<not> forceReset then m
      else m\<lparr>mt_enabledMessages := [], mt_usage := [], mt_active := [], mt_rangeId := 0,
             mt_name2Domain := [], mt_domain2Name := [], mt_heapDesc := [], mt_heaps := [],
             mt_regions := [], mt_regionDesc := [], mt_isEnabledMessageInit := False,
             mt_isMstxInit := True\<rparr>)"

definition new_MsTx :: MsTx where
  "new_MsTx = MstxAttrReset False
     \<lparr>mt_isMstxInit = False, mt_isEnabledMessageInit = False, mt_enabledMessages = [], mt_usage = [],
      mt_active = [], mt_invalidIds = [], mt_rangeId = 0, mt_name2Domain = [], mt_domain2Name = [],
      mt_heapDesc = [], mt_heaps = [], mt_regions = [], mt_regionDesc = []\<rparr>"

section \<open>Ranges\<close>

definition init_enabled :: "mstx_config \<Rightarrow> MsTx \<Rightarrow> MsTx" where
  "init_enabled cf m =
     (if mt_isEnabledMessageInit m then m
      else m\<lparr>mt_enabledMessages := SplitString_set CHR ''|'' (cf_mstxEnabledMessage cf) (mt_enabledMessages m),
             mt_isEnabledMessageInit := True\<rparr>)"

definition IsInMstxRange :: "mstx_config \<Rightarrow> nat \<Rightarrow> MsTx \<Rightarrow> bool \<times> MsTx" where
  "IsInMstxRange cf threadId m =
     (if \<not> cf_isMstxEnable cf then (True, m)
      else if cf_mstxEnabledMessage cf = [] then
        ((case map_of (mt_usage m) threadId of None \<Rightarrow> False | Some u \<Rightarrow> u \<noteq> []), m)
      else
        let m = init_enabled cf m in
        (list_ex (\<lambda>one. case map_of (mt_usage m) threadId of
                    None \<Rightarrow> False
                  | Some u \<Rightarrow> map_of u one \<noteq> None) (mt_enabledMessages m), m))"

definition IsMessageEnable :: "mstx_config \<Rightarrow> string \<Rightarrow> MsTx \<Rightarrow> bool \<times> MsTx" where
  "IsMessageEnable cf msg m =
     (if cf_mstxEnabledMessage cf = [] then (True, m)
      else let m = init_enabled cf m in (msg \<in> set (mt_enabledMessages m), m))"

definition count_message :: "nat \<Rightarrow> string \<Rightarrow> MsTx \<Rightarrow> MsTx" where
  \<comment> \<open>\<open>mstxRangeMessageUsageCountMap_[thread][message]++\<close>\<close>
  "count_message t msg m =
     (let u = (case map_of (mt_usage m) t of None \<Rightarrow> [] | Some u \<Rightarrow> u);
          c = (case map_of u msg of None \<Rightarrow> 0 | Some c \<Rightarrow> c) in
      m\<lparr>mt_usage := al_put t (al_put msg (wrap64 (c + 1)) u) (mt_usage m)\<rparr>)"

definition range_valid :: "mstx_config \<Rightarrow> nat \<Rightarrow> string \<Rightarrow> MsTx \<Rightarrow> bool \<times> MsTx" where
  "range_valid cf t message m =
     (if cf_isRangeReplay cf then
        let (enabled, m) = IsMessageEnable cf message m in
        if \<not> enabled then (False, m)
        else let (inRange, m) = IsInMstxRange cf t m in (\<not> inRange, m)
      else (True, m))"

definition MstxRangeAdd :: "mstx_config \<Rightarrow> nat \<Rightarrow> string \<Rightarrow> MsTx \<Rightarrow> nat \<times> MsTx" where
  "MstxRangeAdd cf t message m =
     (let (valid, m) = range_valid cf t message m in
      if mt_rangeId m = size_max then (size_max, m)
      else
        let m = m\<lparr>mt_active := al_put (mt_rangeId m) message (mt_active m)\<rparr>;
            m = (if valid then count_message t message m
                 else m\<lparr>mt_invalidIds := List.insert (mt_rangeId m) (mt_invalidIds m)\<rparr>) in
        (mt_rangeId m, m\<lparr>mt_rangeId := mt_rangeId m + 1\<rparr>))"

definition MstxRangeEnd :: "nat \<Rightarrow> nat \<Rightarrow> MsTx \<Rightarrow> bool \<times> MsTx" where
  \<comment> \<open>up to the replay of the captured range, which follows in range replay iff the result is true\<close>
  "MstxRangeEnd threadId rangeId m =
     (case map_of (mt_active m) rangeId of
        None \<Rightarrow> (False, m)
      | Some message \<Rightarrow>
          let m = m\<lparr>mt_active := al_del rangeId (mt_active m)\<rparr> in
          if rangeId \<in> set (mt_invalidIds m) then (False, m)
          else
            (case map_of (mt_usage m) threadId of
               None \<Rightarrow> (False, m)
             | Some u \<Rightarrow>
                 (case map_of u message of
                    None \<Rightarrow> (False, m)
                  | Some c \<Rightarrow>
                      let c = (if c > 0 then c - 1 else c);
                          u = (if c = 0 then al_del message u else al_put message c u) in
                      (True, m\<lparr>mt_usage := (if u = [] then al_del threadId (mt_usage m)
                                           else al_put threadId u (mt_usage m))\<rparr>))))"

section \<open>Domains, heaps and regions\<close>

definition live_objects :: "MsTx \<Rightarrow> ptr list" where
  \<comment> \<open>the objects the class owns\<close>
  "live_objects m = map snd (mt_name2Domain m) @ concat (map snd (mt_heaps m)) @ concat (map snd (mt_regions m))"

definition MstxDomainCreateA :: "(ptr list \<Rightarrow> ptr) \<Rightarrow> string \<Rightarrow> MsTx \<Rightarrow> ptr \<times> MsTx" where
  "MstxDomainCreateA alloc domainName m =
     (if \<not> CheckInputStringValid domainName MAX_DOMAIN_LENGTH then (0, m)
      else
        let m = (case map_of (mt_name2Domain m) domainName of
                   Some _ \<Rightarrow> m
                 | None \<Rightarrow> m\<lparr>mt_name2Domain := al_put domainName (alloc (live_objects m)) (mt_name2Domain m)\<rparr>);
            d = the (map_of (mt_name2Domain m) domainName) in
        (d, m\<lparr>mt_domain2Name := al_put d domainName (mt_domain2Name m)\<rparr>))"

definition IsDomainExist :: "ptr \<Rightarrow> MsTx \<Rightarrow> bool" where
  "IsDomainExist domain m = (if domain = 0 then True else map_of (mt_domain2Name m) domain \<noteq> None)"

definition owned_by :: "(ptr \<times> ptr list) list \<Rightarrow> ptr \<Rightarrow> ptr list" where
  \<comment> \<open>the vector of a domain, empty if there is none\<close>
  "owned_by vs domain = (case map_of vs domain of None \<Rightarrow> [] | Some v \<Rightarrow> v)"

definition MstxMemHeapRegister :: "(ptr list \<Rightarrow> ptr) \<Rightarrow> ptr \<Rightarrow> MstxMemHeapDesc option \<Rightarrow> MsTx \<Rightarrow> ptr \<times> MsTx" where
  "MstxMemHeapRegister alloc domain desc m =
     (if \<not> IsDomainExist domain m then (0, m)
      else
        (case desc of
           None \<Rightarrow> (0, m)
         | Some d \<Rightarrow>
             (case hp_typeSpecificDesc d of
                None \<Rightarrow> (0, m)
              | Some rng \<Rightarrow>
                  let h = alloc (live_objects m) in
                  (h, m\<lparr>mt_heaps := al_put domain (owned_by (mt_heaps m) domain @ [h]) (mt_heaps m),
                        mt_heapDesc := al_put (domain, h)
                          \<lparr>hs_usage = hp_usage d, hs_memType = hp_type d, hs_rangeDesc = rng\<rparr> (mt_heapDesc m)\<rparr>))))"

definition MstxMemHeapUnregister :: "ptr \<Rightarrow> ptr \<Rightarrow> MsTx \<Rightarrow> MstxMemHeapRangeDesc option \<times> MsTx" where
  \<comment> \<open>the description of the heap when the result of the code is true\<close>
  "MstxMemHeapUnregister domain heap m =
     (if \<not> IsDomainExist domain m then (None, m)
      else if heap = 0 then (None, m)
      else
        (case map_of (mt_heapDesc m) (domain, heap) of
           None \<Rightarrow> (None, m)
         | Some desc \<Rightarrow>
             (case map_of (mt_heaps m) domain of
                None \<Rightarrow> (None, m)
              | Some v \<Rightarrow>
                  (Some desc, m\<lparr>mt_heaps := al_put domain (filter (\<lambda>h. h \<noteq> heap) v) (mt_heaps m),
                                mt_heapDesc := al_del (domain, heap) (mt_heapDesc m)\<rparr>))))"

fun add_regions :: "(ptr list \<Rightarrow> ptr) \<Rightarrow> ptr \<Rightarrow> MstxMemVirtualRangeDesc list \<Rightarrow> MsTx \<Rightarrow> ptr list \<times> MsTx" where
  \<comment> \<open>the loop of \<open>MstxMemRegionsRegister\<close>, with the handles it writes out\<close>
  "add_regions alloc domain [] m = ([], m)"
| "add_regions alloc domain (d # ds) m =
     (let r = alloc (live_objects m);
          m = m\<lparr>mt_regions := al_put domain (owned_by (mt_regions m) domain @ [r]) (mt_regions m),
                mt_regionDesc := al_put r d (mt_regionDesc m)\<rparr>;
          (rs, m) = add_regions alloc domain ds m in
      (r # rs, m))"

definition MstxMemRegionsRegister ::
  "(ptr list \<Rightarrow> ptr) \<Rightarrow> ptr \<Rightarrow> MstxMemRegionsRegisterBatch option \<Rightarrow> MsTx \<Rightarrow>
   MemRegionsBelongInfo \<times> ptr list \<times> MsTx"
where
  "MstxMemRegionsRegister alloc domain desc m =
     (if \<not> IsDomainExist domain m then (no_belong, [], m)
      else
        (case desc of
           None \<Rightarrow> (no_belong, [], m)
         | Some b \<Rightarrow>
             (case rb_regionDescArray b of
                None \<Rightarrow> (no_belong, [], m)
              | Some ds \<Rightarrow>
                  if \<not> rb_hasHandleArrayOut b then (no_belong, [], m)
                  else
                    let it = map_of (mt_heapDesc m) (domain, rb_heap b) in
                    if rb_heap b \<noteq> 0 \<and> it = None then (no_belong, [], m)
                    else
                      let info = (case it of
                                    None \<Rightarrow> \<lparr>bi_addr = 0, bi_size = 0, bi_success = True\<rparr>
                                  | Some h \<Rightarrow> \<lparr>bi_addr = vr_ptr (hs_rangeDesc h), bi_size = vr_size (hs_rangeDesc h),
                                              bi_success = True\<rparr>);
                          m = m\<lparr>mt_regions := al_put domain (owned_by (mt_regions m) domain) (mt_regions m)\<rparr>;
                          (rs, m) = add_regions alloc domain ds m in
                      (info, rs, m))))"

definition UpdateRegionsUnregisterInfo ::
  "ptr \<Rightarrow> ptr \<Rightarrow> MstxMemVirtualRangeDesc list \<Rightarrow> MsTx \<Rightarrow> MstxMemVirtualRangeDesc list \<times> MsTx"
where
  "UpdateRegionsUnregisterInfo domain target rangeDescVec m =
     (let (rangeDescVec, m) =
            (case map_of (mt_regionDesc m) target of
               None \<Rightarrow> (rangeDescVec, m)
             | Some d \<Rightarrow> (rangeDescVec @ [d], m\<lparr>mt_regionDesc := al_del target (mt_regionDesc m)\<rparr>)) in
      (rangeDescVec,
       m\<lparr>mt_regions := al_put domain (filter (\<lambda>r. r \<noteq> target) (owned_by (mt_regions m) domain)) (mt_regions m)\<rparr>))"

fun unregister_loop ::
  "ptr \<Rightarrow> MstxMemRegionRef list \<Rightarrow> MstxMemVirtualRangeDesc list \<Rightarrow> MsTx \<Rightarrow> MstxMemVirtualRangeDesc list \<times> MsTx"
where
  "unregister_loop domain [] vec m = (vec, m)"
| "unregister_loop domain (REF_HANDLE h # refs) vec m =
     (let (vec, m) = UpdateRegionsUnregisterInfo domain h vec m in unregister_loop domain refs vec m)"
| "unregister_loop domain (REF_POINTER p # refs) vec m = unregister_loop domain refs vec m"

definition MstxMemRegionsUnregister ::
  "ptr \<Rightarrow> MstxMemRegionsUnregisterBatch option \<Rightarrow> MsTx \<Rightarrow> MstxMemVirtualRangeDesc list option \<times> MsTx"
where
  \<comment> \<open>the filled vector when the result of the code is true\<close>
  "MstxMemRegionsUnregister domain desc m =
     (if \<not> IsDomainExist domain m then (None, m)
      else
        (case desc of
           None \<Rightarrow> (None, m)
         | Some None \<Rightarrow> (None, m)
         | Some (Some refs) \<Rightarrow>
             if map_of (mt_regions m) domain = None then (None, m)
             else let (vec, m) = unregister_loop domain refs [] m in (Some vec, m)))"

fun permission_loop ::
  "MsTx \<Rightarrow> MstxMemPermissionsAssignRegionsDesc list \<Rightarrow> MstxMemVirtualRangeDesc list \<Rightarrow>
   bool \<times> MstxMemVirtualRangeDesc list"
where
  "permission_loop m [] vec = (True, vec)"
| "permission_loop m (p # ps) vec =
     (case pr_region p of
        REF_HANDLE h \<Rightarrow>
          (case map_of (mt_regionDesc m) h of
             None \<Rightarrow> (False, vec)
           | Some d \<Rightarrow> permission_loop m ps (vec @ [d]))
      | REF_POINTER _ \<Rightarrow> (False, vec))"

definition MstxMemPermissionsAssign ::
  "ptr \<Rightarrow> MstxMemPermissionsAssignBatch option \<Rightarrow> MsTx \<Rightarrow> bool \<times> MstxMemVirtualRangeDesc list"
where
  "MstxMemPermissionsAssign domain desc m =
     (if \<not> IsDomainExist domain m then (False, [])
      else
        (case desc of
           None \<Rightarrow> (False, [])
         | Some None \<Rightarrow> (False, [])
         | Some (Some ps) \<Rightarrow>
             if map_of (mt_regions m) domain = None then (False, []) else permission_loop m ps []))"

section \<open>What the ranges mean\<close>

text \<open>
  The specification: the ranges that count, as a list of identifier, thread and message, and the
  identifiers of the ranges that do not (in range replay: messages that are not selected, and
  ranges inside another one).
\<close>

datatype range_event = RangeStart nat string | RangeStop nat nat  \<comment> \<open>by a thread\<close>

record range_spec =
  as_next :: nat
  as_open :: "(nat \<times> nat \<times> string) list"
  as_void :: "nat list"

definition selected :: "mstx_config \<Rightarrow> string \<Rightarrow> bool" where
  "selected cf msg \<longleftrightarrow>
     cf_mstxEnabledMessage cf = [] \<or> msg \<in> set (SplitString CHR ''|'' (cf_mstxEnabledMessage cf))"

definition in_range :: "mstx_config \<Rightarrow> nat \<Rightarrow> range_spec \<Rightarrow> bool" where
  "in_range cf t a \<longleftrightarrow> \<not> cf_isMstxEnable cf \<or> (\<exists>i msg. (i, t, msg) \<in> set (as_open a) \<and> selected cf msg)"

fun spec_step :: "mstx_config \<Rightarrow> range_event \<Rightarrow> range_spec \<Rightarrow> range_spec" where
  "spec_step cf (RangeStart t msg) a =
     (if as_next a = size_max then a
      else if \<not> cf_isRangeReplay cf \<or> (selected cf msg \<and> \<not> in_range cf t a) then
        a\<lparr>as_open := (as_next a, t, msg) # as_open a, as_next := as_next a + 1\<rparr>
      else a\<lparr>as_void := as_next a # as_void a, as_next := as_next a + 1\<rparr>)"
| "spec_step cf (RangeStop t i) a =
     a\<lparr>as_open := filter (\<lambda>r. fst r \<noteq> i) (as_open a), as_void := filter (\<lambda>j. j \<noteq> i) (as_void a)\<rparr>"

fun range_step :: "mstx_config \<Rightarrow> range_event \<Rightarrow> MsTx \<Rightarrow> MsTx" where
  "range_step cf (RangeStart t msg) m = snd (MstxRangeAdd cf t msg m)"
| "range_step cf (RangeStop t i) m = snd (MstxRangeEnd t i m)"

declare range_step.simps [simp del] spec_step.simps [simp del]

definition spec0 :: range_spec where
  "spec0 = \<lparr>as_next = 0, as_open = [], as_void = []\<rparr>"

fun own_step :: "range_event \<Rightarrow> range_spec \<Rightarrow> bool" where
  \<comment> \<open>a thread ends only ranges of its own (or none)\<close>
  "own_step (RangeStart t msg) a = True"
| "own_step (RangeStop t i) a = list_all (\<lambda>(j, t', msg). j = i \<longrightarrow> t' = t) (as_open a)"

fun own_run :: "mstx_config \<Rightarrow> range_event list \<Rightarrow> range_spec \<Rightarrow> bool" where
  "own_run cf [] a = True"
| "own_run cf (e # es) a = (own_step e a \<and> own_run cf es (spec_step cf e a))"

definition open_count :: "(nat \<times> nat \<times> string) list \<Rightarrow> nat \<Rightarrow> string \<Rightarrow> nat" where
  "open_count rs t msg = length (filter (\<lambda>(i, t', msg'). t' = t \<and> msg' = msg) rs)"

definition usage :: "MsTx \<Rightarrow> nat \<Rightarrow> string \<Rightarrow> nat option" where
  "usage m t msg = (case map_of (mt_usage m) t of None \<Rightarrow> None | Some u \<Rightarrow> map_of u msg)"

definition ids_ok :: "MsTx \<Rightarrow> range_spec \<Rightarrow> bool" where
  "ids_ok m a \<longleftrightarrow>
     mt_rangeId m = as_next a \<and> as_next a \<le> size_max \<and>
     distinct (map fst (as_open a)) \<and> length (as_open a) \<le> as_next a \<and>
     (\<forall>(i, t, msg) \<in> set (as_open a).
        i < as_next a \<and> map_of (mt_active m) i = Some msg \<and> i \<notin> set (mt_invalidIds m)) \<and>
     (\<forall>i \<in> set (as_void a). i < as_next a \<and> i \<in> set (mt_invalidIds m)) \<and>
     (\<forall>i \<in> set (mt_invalidIds m). i < as_next a) \<and>
     dom (map_of (mt_active m)) \<subseteq> set (as_void a) \<union> fst ` set (as_open a)"

definition usage_ok :: "MsTx \<Rightarrow> range_spec \<Rightarrow> bool" where
  "usage_ok m a \<longleftrightarrow>
     (\<forall>t. map_of (mt_usage m) t \<noteq> Some []) \<and>
     (\<forall>t msg. usage m t msg = (let n = open_count (as_open a) t msg in if n = 0 then None else Some n))"

definition enabled_ok :: "mstx_config \<Rightarrow> MsTx \<Rightarrow> bool" where
  "enabled_ok cf m \<longleftrightarrow>
     (if mt_isEnabledMessageInit m
      then set (mt_enabledMessages m) = set (SplitString CHR ''|'' (cf_mstxEnabledMessage cf))
      else mt_enabledMessages m = [])"

definition ranges_ok :: "mstx_config \<Rightarrow> MsTx \<Rightarrow> range_spec \<Rightarrow> bool" where
  "ranges_ok cf m a \<longleftrightarrow> ids_ok m a \<and> usage_ok m a \<and> enabled_ok cf m"

lemma set_SplitString_set: "set (SplitString_set c s res) = set res \<union> set (SplitString c s)"
proof -
  have "set (foldl (\<lambda>res t. List.insert t res) res ts) = set res \<union> set ts" for ts :: "string list"
    by (induction ts arbitrary: res) auto
  then show ?thesis by (simp add: SplitString_set_def)
qed

lemma init_enabled_ok: "ranges_ok cf m a \<Longrightarrow> ranges_ok cf (init_enabled cf m) a"
  by (auto simp: ranges_ok_def ids_ok_def usage_ok_def enabled_ok_def init_enabled_def usage_def set_SplitString_set)

lemma enabled_init:
  "ranges_ok cf m a \<Longrightarrow>
   set (mt_enabledMessages (init_enabled cf m)) = set (SplitString CHR ''|'' (cf_mstxEnabledMessage cf))"
  by (auto simp: ranges_ok_def enabled_ok_def init_enabled_def set_SplitString_set)

lemma usage_init [simp]: "mt_usage (init_enabled cf m) = mt_usage m"
  by (simp add: init_enabled_def)

lemma open_count_pos: "open_count rs t msg > 0 \<longleftrightarrow> (\<exists>i. (i, t, msg) \<in> set rs)"
  by (force simp: open_count_def filter_empty_conv)

lemma usage_count:
  "ranges_ok cf m a \<Longrightarrow>
   usage m t msg = (if open_count (as_open a) t msg = 0 then None else Some (open_count (as_open a) t msg))"
  by (simp add: ranges_ok_def usage_ok_def Let_def)

lemma usage_open:
  assumes "ranges_ok cf m a"
  shows "usage m t msg \<noteq> None \<longleftrightarrow> (\<exists>i. (i, t, msg) \<in> set (as_open a))"
  using usage_count [OF assms, of t msg] open_count_pos [of "as_open a" t msg] by auto

lemma usage_thread:
  assumes "ranges_ok cf m a"
  shows "(case map_of (mt_usage m) t of None \<Rightarrow> False | Some u \<Rightarrow> u \<noteq> []) \<longleftrightarrow>
    (\<exists>i msg. (i, t, msg) \<in> set (as_open a))"
proof -
  have "(case map_of (mt_usage m) t of None \<Rightarrow> False | Some u \<Rightarrow> u \<noteq> []) \<longleftrightarrow> (\<exists>msg. usage m t msg \<noteq> None)"
  proof (cases "map_of (mt_usage m) t")
    case (Some u)
    have "(\<exists>msg. map_of u msg \<noteq> None) \<longleftrightarrow> u \<noteq> []" by (cases u) (auto simp: map_of_eq_None_iff)
    then show ?thesis by (simp add: usage_def Some)
  qed (simp add: usage_def)
  then show ?thesis using usage_open [OF assms] by blast
qed

lemma IsInMstxRange_ok:
  assumes "ranges_ok cf m a"
  shows "fst (IsInMstxRange cf t m) \<longleftrightarrow> in_range cf t a" and "ranges_ok cf (snd (IsInMstxRange cf t m)) a"
proof -
  have *: "(\<exists>one \<in> set (mt_enabledMessages (init_enabled cf m)).
      case map_of (mt_usage m) t of None \<Rightarrow> False | Some u \<Rightarrow> map_of u one \<noteq> None) \<longleftrightarrow>
    (\<exists>i msg. (i, t, msg) \<in> set (as_open a) \<and> msg \<in> set (SplitString CHR ''|'' (cf_mstxEnabledMessage cf)))"
  proof -
    have "(case map_of (mt_usage m) t of None \<Rightarrow> False | Some u \<Rightarrow> map_of u one \<noteq> None) \<longleftrightarrow>
        (\<exists>i. (i, t, one) \<in> set (as_open a))" for one
      using usage_open [OF assms, of t one] by (simp add: usage_def split: option.splits)
    then show ?thesis by (simp only: enabled_init [OF assms]) blast
  qed
  show "fst (IsInMstxRange cf t m) \<longleftrightarrow> in_range cf t a"
    using usage_thread [OF assms, of t] *
    by (auto simp: IsInMstxRange_def Let_def in_range_def selected_def list_ex_iff)
  show "ranges_ok cf (snd (IsInMstxRange cf t m)) a"
    using assms init_enabled_ok by (auto simp: IsInMstxRange_def Let_def)
qed

lemma IsMessageEnable_ok:
  assumes "ranges_ok cf m a"
  shows "fst (IsMessageEnable cf msg m) \<longleftrightarrow> selected cf msg" and "ranges_ok cf (snd (IsMessageEnable cf msg m)) a"
  using assms enabled_init [OF assms] init_enabled_ok by (auto simp: IsMessageEnable_def Let_def selected_def)

lemma range_valid_ok:
  assumes "ranges_ok cf m a"
  shows "fst (range_valid cf t msg m) \<longleftrightarrow> \<not> cf_isRangeReplay cf \<or> (selected cf msg \<and> \<not> in_range cf t a)"
    and "ranges_ok cf (snd (range_valid cf t msg m)) a"
  using IsMessageEnable_ok [OF assms, of msg] IsInMstxRange_ok [OF IsMessageEnable_ok(2) [OF assms], of t msg] assms
  by (auto simp: range_valid_def split: prod.splits)

lemma usage_put:
  assumes "usage_ok m a" and "as_open a' = (i, t, msg) # as_open a"
    and "length (as_open a) < size_max" and "mt_usage m' = mt_usage (count_message t msg m)"
  shows "usage_ok m' a'"
proof -
  let ?n = "open_count (as_open a)"
  have "usage m t msg = (if ?n t msg = 0 then None else Some (?n t msg))"
    using assms(1) by (simp add: usage_ok_def Let_def)
  then have old: "(case map_of (case map_of (mt_usage m) t of None \<Rightarrow> [] | Some u \<Rightarrow> u) msg of None \<Rightarrow> 0 | Some c \<Rightarrow> c)
      = ?n t msg"
    by (simp add: usage_def split: option.splits if_splits)
  have "?n t msg \<le> length (as_open a)" unfolding open_count_def by (rule length_filter_le)
  then have "wrap64 (?n t msg + 1) = ?n t msg + 1"
    using assms(3) by (simp add: wrap64_def size_max_def)
  then have us: "mt_usage m' = al_put t (al_put msg (?n t msg + 1)
      (case map_of (mt_usage m) t of None \<Rightarrow> [] | Some u \<Rightarrow> u)) (mt_usage m)"
    unfolding assms(4) count_message_def Let_def old by simp
  have usage': "usage m' t' msg' = (if t' = t \<and> msg' = msg then Some (?n t msg + 1) else usage m t' msg')" for t' msg'
    by (auto simp: usage_def us split: option.splits)
  have cnt: "open_count (as_open a') t' msg' = (if t' = t \<and> msg' = msg then ?n t msg + 1 else ?n t' msg')" for t' msg'
    by (auto simp: open_count_def assms(2))
  have "al_put msg n u \<noteq> []" for n and u :: "(string \<times> nat) list"
    by (cases u) (auto split: if_splits)
  then show ?thesis
    using assms(1) by (auto simp: usage_ok_def usage' cnt Let_def us)
qed

lemma range_start_ok:
  assumes r: "ranges_ok cf m a"
  shows "ranges_ok cf (range_step cf (RangeStart t msg) m) (spec_step cf (RangeStart t msg) a)"
proof -
  define valid where "valid \<longleftrightarrow> \<not> cf_isRangeReplay cf \<or> (selected cf msg \<and> \<not> in_range cf t a)"
  obtain m1 where m1: "range_valid cf t msg m = (valid, m1)" and ok: "ids_ok m1 a" "usage_ok m1 a" "enabled_ok cf m1"
    using range_valid_ok [OF r, of t msg] by (cases "range_valid cf t msg m") (simp add: valid_def ranges_ok_def)
  have nx: "mt_rangeId m1 = as_next a" using ok(1) by (simp add: ids_ok_def)
  show ?thesis
  proof (cases "as_next a = size_max")
    case True
    then have "range_step cf (RangeStart t msg) m = m1" using m1 nx by (simp add: range_step.simps MstxRangeAdd_def)
    then show ?thesis using ok True by (simp add: spec_step.simps ranges_ok_def)
  next
    case False
    have len: "length (as_open a) < size_max" using ok(1) False by (simp add: ids_ok_def)
    show ?thesis
    proof (cases valid)
      case True
      let ?m1 = "m1\<lparr>mt_active := al_put (as_next a) msg (mt_active m1)\<rparr>"
      have step: "range_step cf (RangeStart t msg) m = (count_message t msg ?m1)\<lparr>mt_rangeId := as_next a + 1\<rparr>"
        using m1 nx False True by (simp add: range_step.simps MstxRangeAdd_def Let_def count_message_def)
      have spec: "spec_step cf (RangeStart t msg) a =
          a\<lparr>as_open := (as_next a, t, msg) # as_open a, as_next := as_next a + 1\<rparr>"
        using True False by (simp add: spec_step.simps valid_def)
      have "usage_ok ?m1 a" using ok(2) by (simp add: usage_ok_def usage_def)
      then have "usage_ok (range_step cf (RangeStart t msg) m) (spec_step cf (RangeStart t msg) a)"
        by (rule usage_put) (use len in \<open>simp_all add: step spec\<close>)
      moreover have "ids_ok (range_step cf (RangeStart t msg) m) (spec_step cf (RangeStart t msg) a)"
        using ok(1) False unfolding step spec count_message_def Let_def ids_ok_def by (auto simp: image_iff less_Suc_eq)
      moreover have "enabled_ok cf (range_step cf (RangeStart t msg) m)"
        using ok(3) by (simp add: step enabled_ok_def count_message_def Let_def)
      ultimately show ?thesis by (simp add: ranges_ok_def)
    next
      case False': False
      have step: "range_step cf (RangeStart t msg) m =
          m1\<lparr>mt_active := al_put (as_next a) msg (mt_active m1),
             mt_invalidIds := List.insert (as_next a) (mt_invalidIds m1), mt_rangeId := as_next a + 1\<rparr>"
        using m1 nx False False' by (simp add: range_step.simps MstxRangeAdd_def Let_def)
      have spec: "spec_step cf (RangeStart t msg) a = a\<lparr>as_void := as_next a # as_void a, as_next := as_next a + 1\<rparr>"
        using False False' by (simp add: spec_step.simps valid_def)
      have "ids_ok (range_step cf (RangeStart t msg) m) (spec_step cf (RangeStart t msg) a)"
        using ok(1) False unfolding step spec ids_ok_def by (auto simp: image_iff less_Suc_eq)
      then show ?thesis using ok by (simp add: ranges_ok_def step spec usage_ok_def usage_def enabled_ok_def)
    qed
  qed
qed

lemma open_count_end:
  assumes "distinct (map fst rs)" "(i, t, msg) \<in> set rs"
  shows "open_count rs t' msg' =
    open_count (filter (\<lambda>r. fst r \<noteq> i) rs) t' msg' + (if t' = t \<and> msg' = msg then 1 else 0)"
  using assms
proof (induction rs)
  case (Cons r rs)
  have gone: "filter (\<lambda>r. fst r \<noteq> i) rs = rs" if "i \<notin> fst ` set rs"
    using that by (intro filter_True) force
  obtain i' t1 msg1 where r: "r = (i', t1, msg1)" by (cases r)
  show ?case
  proof (cases "i' = i")
    case True
    then have "i \<notin> fst ` set rs" using Cons.prems(1) r by simp
    then show ?thesis using Cons.prems(2) gone True by (auto simp: open_count_def r image_iff)
  next
    case False
    then show ?thesis using Cons by (auto simp: open_count_def r)
  qed
qed simp

lemma usage_take:
  assumes ok: "usage_ok m a" and "distinct (map fst (as_open a))" and "(i, t, msg) \<in> set (as_open a)"
    and "as_open a' = filter (\<lambda>r. fst r \<noteq> i) (as_open a)"
    and u: "map_of (mt_usage m) t = Some u" "map_of u msg = Some c"
    and us: "mt_usage m' =
      (let u' = (if c - 1 = 0 then al_del msg u else al_put msg (c - 1) u) in
       if u' = [] then al_del t (mt_usage m) else al_put t u' (mt_usage m))"
  shows "usage_ok m' a'"
proof -
  have c: "c = open_count (as_open a) t msg"
  proof -
    have "usage m t msg = (if open_count (as_open a) t msg = 0 then None else Some (open_count (as_open a) t msg))"
      using ok by (simp add: usage_ok_def Let_def)
    then show ?thesis using u by (simp add: usage_def split: if_splits)
  qed
  have cnt: "open_count (as_open a) t' msg' = open_count (as_open a') t' msg' + (if t' = t \<and> msg' = msg then 1 else 0)"
    for t' msg'
    using open_count_end [OF assms(2,3)] by (simp add: assms(4))
  define u' where "u' = (if c - 1 = 0 then al_del msg u else al_put msg (c - 1) u)"
  have us': "mt_usage m' = (if u' = [] then al_del t (mt_usage m) else al_put t u' (mt_usage m))"
    using us by (simp add: u'_def Let_def)
  have "usage m' t' msg' = (if t' = t then map_of u' msg' else usage m t' msg')" for t' msg'
    by (simp add: usage_def us')
  moreover have "map_of u' msg' = (if msg' = msg then (if c - 1 = 0 then None else Some (c - 1)) else map_of u msg')" for msg'
    by (simp add: u'_def)
  ultimately have usage': "usage m' t' msg' =
      (if t' = t \<and> msg' = msg then (if c - 1 = 0 then None else Some (c - 1)) else usage m t' msg')" for t' msg'
    using u by (simp add: usage_def)
  have ne: "map_of (mt_usage m') t' \<noteq> Some []" for t'
    using ok by (simp add: us' usage_ok_def)
  have "usage m' t' msg' = (if open_count (as_open a') t' msg' = 0 then None else Some (open_count (as_open a') t' msg'))"
    for t' msg'
  proof (cases "t' = t \<and> msg' = msg")
    case True
    then show ?thesis using cnt [of t msg] by (simp add: usage' c)
  next
    case False
    then have "usage m' t' msg' = usage m t' msg'" "open_count (as_open a') t' msg' = open_count (as_open a) t' msg'"
      using usage' [of t' msg'] cnt [of t' msg'] by auto
    then show ?thesis using ok by (simp add: usage_ok_def Let_def)
  qed
  then show ?thesis using ne by (simp add: usage_ok_def Let_def)
qed

lemma range_stop_ok:
  assumes r: "ranges_ok cf m a" and own: "own_step (RangeStop t i) a"
  shows "ranges_ok cf (range_step cf (RangeStop t i) m) (spec_step cf (RangeStop t i) a)"
proof -
  have ok: "ids_ok m a" "usage_ok m a" "enabled_ok cf m" using r by (simp_all add: ranges_ok_def)
  let ?a = "spec_step cf (RangeStop t i) a"
  have enabled: "enabled_ok cf (range_step cf (RangeStop t i) m)"
    using ok(3) by (auto simp: enabled_ok_def range_step.simps MstxRangeEnd_def Let_def split: option.splits)
  have ids: "ids_ok (m\<lparr>mt_active := al_del i (mt_active m), mt_usage := us\<rparr>) ?a" for us
    using ok(1) unfolding ids_ok_def
    by (auto simp: spec_step.simps distinct_map_filter image_iff intro: le_trans [OF length_filter_le])
  show ?thesis
  proof (cases "i \<in> fst ` set (as_open a)")
    case True
    then obtain msg where i: "(i, t, msg) \<in> set (as_open a)"
      using own by (force simp: list_all_iff)
    then have act: "map_of (mt_active m) i = Some msg" "i \<notin> set (mt_invalidIds m)"
      using ok(1) by (auto simp: ids_ok_def)
    obtain u c where u: "map_of (mt_usage m) t = Some u" "map_of u msg = Some c"
      using usage_open [OF r, of t msg] i by (auto simp: usage_def split: option.splits)
    let ?u = "if c - 1 = 0 then al_del msg u else al_put msg (c - 1) u"
    have step: "range_step cf (RangeStop t i) m = m\<lparr>mt_active := al_del i (mt_active m),
        mt_usage := (let u' = ?u in if u' = [] then al_del t (mt_usage m) else al_put t u' (mt_usage m))\<rparr>"
      using act u by (cases c) (simp_all add: range_step.simps MstxRangeEnd_def Let_def)
    have "usage_ok (range_step cf (RangeStop t i) m) ?a"
      by (rule usage_take [OF ok(2) _ i _ u])
        (use ok(1) in \<open>simp_all add: step spec_step.simps ids_ok_def Let_def\<close>)
    then show ?thesis using ids enabled by (simp add: ranges_ok_def step)
  next
    case False
    have same: "as_open ?a = as_open a"
      using False by (auto simp: spec_step.simps intro!: filter_True)
    have "range_step cf (RangeStop t i) m = m\<lparr>mt_active := al_del i (mt_active m), mt_usage := mt_usage m\<rparr>"
    proof (cases "map_of (mt_active m) i")
      case None
      then show ?thesis by (simp add: range_step.simps MstxRangeEnd_def)
    next
      case (Some msg)
      then have "i \<in> set (as_void a)" using ok(1) False by (auto simp: ids_ok_def dom_def)
      then have "i \<in> set (mt_invalidIds m)" using ok(1) by (auto simp: ids_ok_def)
      then show ?thesis using Some by (simp add: range_step.simps MstxRangeEnd_def Let_def)
    qed
    moreover have "usage_ok (m\<lparr>mt_active := al_del i (mt_active m), mt_usage := mt_usage m\<rparr>) ?a"
      using ok(2) same by (simp add: usage_ok_def usage_def)
    ultimately show ?thesis using ids [of "mt_usage m"] enabled by (simp add: ranges_ok_def)
  qed
qed

definition run_ranges :: "mstx_config \<Rightarrow> range_event list \<Rightarrow> MsTx" where
  "run_ranges cf es = foldl (\<lambda>m e. range_step cf e m) new_MsTx es"

definition run_spec :: "mstx_config \<Rightarrow> range_event list \<Rightarrow> range_spec" where
  "run_spec cf es = foldl (\<lambda>a e. spec_step cf e a) spec0 es"

lemma ranges_ok_start: "ranges_ok cf new_MsTx spec0"
  by (simp add: ranges_ok_def ids_ok_def usage_ok_def enabled_ok_def usage_def new_MsTx_def spec0_def
      MstxAttrReset_def open_count_def)

lemma range_step_ok:
  "ranges_ok cf m a \<Longrightarrow> own_step e a \<Longrightarrow> ranges_ok cf (range_step cf e m) (spec_step cf e a)"
  using range_start_ok range_stop_ok by (cases e) blast+

lemma run_ranges_ok: "own_run cf es spec0 \<Longrightarrow> ranges_ok cf (run_ranges cf es) (run_spec cf es)"
proof -
  have "ranges_ok cf (foldl (\<lambda>m e. range_step cf e m) m es) (foldl (\<lambda>a e. spec_step cf e a) a es)"
    if "ranges_ok cf m a" "own_run cf es a" for m a
    using that by (induction es arbitrary: m a) (simp_all add: range_step_ok)
  then show "own_run cf es spec0 \<Longrightarrow> ?thesis" using ranges_ok_start by (simp add: run_ranges_def run_spec_def)
qed

text \<open>
  The counters of the markers implement the list of open ranges. After any run of range starts
  and stops of any threads in which a thread stops only its own ranges, the answer of
  \<open>IsInMstxRange\<close>, by which a kernel is profiled or not, is yes for a thread exactly if markers are
  off or the thread has an open range that counts and whose message is selected; the usage count
  of a message is the number of the thread's open ranges with it, and is gone at zero.
\<close>

theorem ranges_counted:
  assumes "own_run cf es spec0"
  shows "(fst (IsInMstxRange cf t (run_ranges cf es)) \<longleftrightarrow> in_range cf t (run_spec cf es)) \<and>
    usage (run_ranges cf es) t msg =
      (let n = open_count (as_open (run_spec cf es)) t msg in if n = 0 then None else Some n)"
  using IsInMstxRange_ok(1) [OF run_ranges_ok [OF assms]] usage_count [OF run_ranges_ok [OF assms]]
  by (simp add: Let_def)

definition select_ab :: mstx_config where
  "select_ab = \<lparr>cf_isRangeReplay = True, cf_isMstxEnable = True, cf_mstxEnabledMessage = ''a|b''\<rparr>"

theorem ranges_counted_witness:
  "fst (IsInMstxRange select_ab 7 (run_ranges select_ab
     [RangeStart 7 ''a'', RangeStart 7 ''b'', RangeStart 8 ''b'', RangeStop 7 1, RangeStop 8 2])) \<and>
   usage (run_ranges select_ab
     [RangeStart 7 ''a'', RangeStart 7 ''b'', RangeStart 8 ''b'', RangeStop 7 1, RangeStop 8 2]) 7 ''a'' = Some 1"
proof -
  let ?es = "[RangeStart 7 ''a'', RangeStart 7 ''b'', RangeStart 8 ''b'', RangeStop 7 1, RangeStop 8 2]"
  have "own_run select_ab ?es spec0 \<and> in_range select_ab 7 (run_spec select_ab ?es) \<and>
      open_count (as_open (run_spec select_ab ?es)) 7 ''a'' = 1"
    by (simp add: run_spec_def spec0_def spec_step.simps select_ab_def selected_def in_range_def size_max_def open_count_def)
  then show ?thesis using ranges_counted [of select_ab ?es 7 "''a''"] by (simp add: Let_def)
qed

lemma filter_the_one: "distinct xs \<Longrightarrow> x \<in> set xs \<Longrightarrow> filter (\<lambda>y. y = x) xs = [x]"
proof (induction xs)
  case (Cons y ys)
  then show ?case by (cases "y = x") (auto simp: filter_empty_conv)
qed simp

definition one_per_thread :: "mstx_config \<Rightarrow> range_spec \<Rightarrow> bool" where
  "one_per_thread cf a \<longleftrightarrow>
     distinct (map (fst \<circ> snd) (as_open a)) \<and> (\<forall>(i, t, msg) \<in> set (as_open a). selected cf msg)"

lemma one_per_thread_step:
  assumes "cf_isRangeReplay cf" "one_per_thread cf a"
  shows "one_per_thread cf (spec_step cf e a)"
proof (cases e)
  case (RangeStart t msg)
  show ?thesis
  proof (cases "as_next a \<noteq> size_max \<and> selected cf msg \<and> \<not> in_range cf t a")
    case True
    then have "t \<notin> (fst \<circ> snd) ` set (as_open a)"
      using assms(2) by (force simp: in_range_def one_per_thread_def)
    then show ?thesis using assms True by (auto simp: RangeStart spec_step.simps one_per_thread_def)
  next
    case False
    then have "as_open (spec_step cf e a) = as_open a" using assms(1) by (auto simp: RangeStart spec_step.simps)
    then show ?thesis using assms(2) by (simp add: one_per_thread_def)
  qed
next
  case (RangeStop t i)
  then show ?thesis using assms(2)
    by (auto simp: spec_step.simps one_per_thread_def distinct_map_filter)
qed

lemma one_per_thread_run: "cf_isRangeReplay cf \<Longrightarrow> one_per_thread cf (run_spec cf es)"
proof -
  assume "cf_isRangeReplay cf"
  then have "one_per_thread cf (foldl (\<lambda>a e. spec_step cf e a) a es)" if "one_per_thread cf a" for a
    using that by (induction es arbitrary: a) (simp_all add: one_per_thread_step)
  moreover have "one_per_thread cf spec0" by (simp add: one_per_thread_def spec0_def)
  ultimately show ?thesis by (simp add: run_spec_def)
qed

text \<open>
  In range replay, where each range is captured and run again as a whole, no thread ever has two
  ranges that count at the same time, whatever ranges the program nests or interleaves: at most
  one message of a thread has a usage count, and it is one.
\<close>

theorem replay_ranges_apart:
  assumes "cf_isRangeReplay cf" "own_run cf es spec0"
    and "usage (run_ranges cf es) t msg = Some n" "usage (run_ranges cf es) t msg' = Some n'"
  shows "msg = msg' \<and> n = 1"
proof -
  let ?rs = "as_open (run_spec cf es)"
  have d: "distinct (map (fst \<circ> snd) ?rs)" using one_per_thread_run [OF assms(1)] by (simp add: one_per_thread_def)
  note u = usage_count [OF run_ranges_ok [OF assms(2)], of t]
  obtain i i' where i: "(i, t, msg) \<in> set ?rs" "(i', t, msg') \<in> set ?rs"
    using assms(3,4) usage_open [OF run_ranges_ok [OF assms(2)], of t] by fastforce
  have same: "x = y" if "x \<in> set ?rs" "y \<in> set ?rs" "fst (snd x) = fst (snd y)" for x y
    using d that by (auto simp: distinct_map inj_on_def)
  have "filter (\<lambda>(i, t', m). t' = t \<and> m = msg) ?rs = [(i, t, msg)]"
  proof -
    have "filter (\<lambda>(i, t', m). t' = t \<and> m = msg) ?rs = filter (\<lambda>r. r = (i, t, msg)) ?rs"
      using same [OF i(1)] by (intro filter_cong) auto
    then show ?thesis using i(1) d by (auto simp: distinct_map intro: filter_the_one)
  qed
  then show ?thesis using same [OF i] u [of msg] assms(3) by (auto simp: open_count_def)
qed

theorem replay_ranges_apart_witness:
  "usage (run_ranges select_ab [RangeStart 7 ''a'', RangeStart 7 ''b'', RangeStart 8 ''b'']) 7 ''a'' = Some 1"
proof -
  let ?es = "[RangeStart 7 ''a'', RangeStart 7 ''b'', RangeStart 8 ''b'']"
  have own: "own_run select_ab ?es spec0" by simp
  have "cf_isRangeReplay select_ab" by (simp add: select_ab_def)
  moreover have "usage (run_ranges select_ab ?es) 7 ''a'' \<noteq> None"
    unfolding usage_open [OF run_ranges_ok [OF own]]
    by (simp add: run_spec_def spec0_def spec_step.simps select_ab_def selected_def in_range_def size_max_def)
  ultimately show ?thesis using replay_ranges_apart [OF _ own, of 7 "''a''" _ "''a''"] by auto
qed

text \<open>
  A range that another thread ends (the runtime allows it: identifiers are global) is taken from the
  active ranges and its message stays counted for the thread that started it, for ever.
\<close>

lemma cross_thread_end_keeps_range:
  assumes "\<not> cf_isRangeReplay cf" "cf_mstxEnabledMessage cf = []" "t \<noteq> t'"
  shows "fst (IsInMstxRange cf t (snd (MstxRangeEnd t' 0 (snd (MstxRangeAdd cf t msg new_MsTx)))))"
  using assms
  by (simp add: MstxRangeAdd_def range_valid_def new_MsTx_def MstxAttrReset_def count_message_def Let_def
      MstxRangeEnd_def IsInMstxRange_def size_max_def wrap64_def)

section \<open>Handles\<close>

text \<open>
  The class gives out the addresses of objects it owns, and frees an object when it is
  unregistered, after which its address may come back for a new one.
\<close>

datatype mstx_op =
    DomainCreate string
  | HeapRegister ptr "MstxMemHeapDesc option"
  | HeapUnregister ptr ptr
  | RegionsRegister ptr "MstxMemRegionsRegisterBatch option"
  | RegionsUnregister ptr "MstxMemRegionsUnregisterBatch option"

fun mstx_step :: "(ptr list \<Rightarrow> ptr) \<Rightarrow> MsTx \<Rightarrow> mstx_op \<Rightarrow> MsTx" where
  "mstx_step alloc m (DomainCreate n) = snd (MstxDomainCreateA alloc n m)"
| "mstx_step alloc m (HeapRegister d desc) = snd (MstxMemHeapRegister alloc d desc m)"
| "mstx_step alloc m (HeapUnregister d h) = snd (MstxMemHeapUnregister d h m)"
| "mstx_step alloc m (RegionsRegister d b) = snd (snd (MstxMemRegionsRegister alloc d b m))"
| "mstx_step alloc m (RegionsUnregister d b) = snd (MstxMemRegionsUnregister d b m)"

definition alloc_law :: "(ptr list \<Rightarrow> ptr) \<Rightarrow> bool" where
  \<comment> \<open>\<open>new\<close>: an address that is not in use and not null\<close>
  "alloc_law alloc \<longleftrightarrow> (\<forall>used. alloc used \<notin> set used \<and> alloc used \<noteq> 0)"

definition handles_ok :: "MsTx \<Rightarrow> bool" where
  "handles_ok m \<longleftrightarrow>
     (\<forall>d h. map_of (mt_heapDesc m) (d, h) \<noteq> None \<longrightarrow> h \<in> set (owned_by (mt_heaps m) d)) \<and>
     (\<forall>r. map_of (mt_regionDesc m) r \<noteq> None \<longrightarrow> (\<exists>d. r \<in> set (owned_by (mt_regions m) d))) \<and>
     (\<forall>d. map_of (mt_domain2Name m) d \<noteq> None \<longrightarrow> (\<exists>n. map_of (mt_name2Domain m) n = Some d)) \<and>
     0 \<notin> set (live_objects m)"

lemma owned_sub: "h \<in> set (owned_by vs d) \<Longrightarrow> h \<in> set (concat (map snd vs))"
  by (cases "map_of vs d") (force simp: owned_by_def dest: map_of_SomeD)+

lemma owned_live:
  "h \<in> set (owned_by (mt_heaps m) d) \<Longrightarrow> h \<in> set (live_objects m)"
  "h \<in> set (owned_by (mt_regions m) d) \<Longrightarrow> h \<in> set (live_objects m)"
  using owned_sub unfolding live_objects_def set_append by fast+

lemma domain_live: "map_of (mt_name2Domain m) n = Some d \<Longrightarrow> d \<in> set (live_objects m)"
  by (force simp: live_objects_def dest: map_of_SomeD)

lemma owned_put [simp]: "owned_by (al_put d v vs) d' = (if d' = d then v else owned_by vs d')"
  by (simp add: owned_by_def)

lemma values_put: "set (map snd (al_put k v xs)) \<subseteq> insert v (set (map snd xs))"
  by (induction k v xs rule: al_put.induct) auto

lemma concat_put: "set (concat (map snd (al_put k v xs))) \<subseteq> set v \<union> set (concat (map snd xs))"
  using values_put [of k v xs] by fastforce

lemma live_new_heap:
  assumes "0 \<notin> set v" "0 \<notin> set (live_objects m)"
  shows "0 \<notin> set (live_objects (m\<lparr>mt_heaps := al_put d v (mt_heaps m), mt_heapDesc := hs\<rparr>))"
  using assms concat_put [of d v "mt_heaps m"] unfolding live_objects_def by auto

lemma live_new_region:
  assumes "0 \<notin> set v" "0 \<notin> set (live_objects m)"
  shows "0 \<notin> set (live_objects (m\<lparr>mt_regions := al_put d v (mt_regions m), mt_regionDesc := rs\<rparr>))"
  using assms concat_put [of d v "mt_regions m"] unfolding live_objects_def by auto

lemma handles_parts:
  assumes "handles_ok m"
  shows "map_of (mt_heapDesc m) (d, h) = Some x \<Longrightarrow> h \<in> set (owned_by (mt_heaps m) d)"
    and "map_of (mt_regionDesc m) h = Some y \<Longrightarrow> \<exists>d. h \<in> set (owned_by (mt_regions m) d)"
    and "map_of (mt_domain2Name m) d = Some s \<Longrightarrow> \<exists>n. map_of (mt_name2Domain m) n = Some d"
    and "0 \<notin> set (live_objects m)" and "0 \<notin> set (owned_by (mt_heaps m) d)" and "0 \<notin> set (owned_by (mt_regions m) d)"
  using assms owned_live [of 0 m d] by (auto simp: handles_ok_def)

lemma handles_heaps:
  assumes "handles_ok m" "0 \<notin> set v"
    and "\<And>h x. map_of hs (d, h) = Some x \<Longrightarrow> h \<in> set v"
    and "\<And>d' h. d' \<noteq> d \<Longrightarrow> map_of hs (d', h) = map_of (mt_heapDesc m) (d', h)"
  shows "handles_ok (m\<lparr>mt_heaps := al_put d v (mt_heaps m), mt_heapDesc := hs\<rparr>)"
  using live_new_heap [OF assms(2) handles_parts(4) [OF assms(1)]] assms
  by (auto simp: handles_ok_def)

lemma handles_regions:
  assumes "handles_ok m" "0 \<notin> set v"
    and "\<And>r x. map_of rs r = Some x \<Longrightarrow> r \<in> set v \<or> (\<exists>d' \<noteq> d. r \<in> set (owned_by (mt_regions m) d'))"
  shows "handles_ok (m\<lparr>mt_regions := al_put d v (mt_regions m), mt_regionDesc := rs\<rparr>)"
proof -
  have "\<exists>d'. r \<in> set (owned_by (al_put d v (mt_regions m)) d')" if "map_of rs r \<noteq> None" for r
    using assms(3) [of r] that by fastforce
  then show ?thesis
    using live_new_region [OF assms(2) handles_parts(4) [OF assms(1)]] assms(1)
    by (simp add: handles_ok_def del: owned_put not_None_eq)
qed

lemma handles_domain:
  assumes "handles_ok m" "map_of (mt_name2Domain m) n = None" "a \<noteq> 0"
  shows "handles_ok (m\<lparr>mt_name2Domain := al_put n a (mt_name2Domain m), mt_domain2Name := al_put a n (mt_domain2Name m)\<rparr>)"
proof -
  have "\<exists>n'. map_of (al_put n a (mt_name2Domain m)) n' = Some d" if d: "map_of (al_put a n (mt_domain2Name m)) d = Some s" for d s
  proof (cases "d = a")
    case True
    then show ?thesis by (auto intro: exI [of _ n])
  next
    case False
    then obtain n' where n': "map_of (mt_name2Domain m) n' = Some d" using d handles_parts(3) [OF assms(1), of d s] by auto
    then have "n' \<noteq> n" using assms(2) by auto
    then show ?thesis using n' by (auto intro: exI [of _ n'])
  qed
  moreover have "0 \<notin> set (live_objects (m\<lparr>mt_name2Domain := al_put n a (mt_name2Domain m), mt_domain2Name := ds\<rparr>))" for ds
    using handles_parts(4) [OF assms(1)] assms(3) values_put [of n a "mt_name2Domain m"]
    unfolding live_objects_def by auto
  moreover have "owned_by (mt_heaps (m\<lparr>mt_name2Domain := ns, mt_domain2Name := ds\<rparr>)) = owned_by (mt_heaps m)" for ns ds
    by simp
  ultimately show ?thesis using assms(1)
    by (simp add: handles_ok_def del: map_of_al_put not_None_eq) (metis option.exhaust)
qed

lemma handles_again: "handles_ok m \<Longrightarrow> map_of (mt_name2Domain m) n = Some d \<Longrightarrow>
  handles_ok (m\<lparr>mt_domain2Name := al_put d n (mt_domain2Name m)\<rparr>)"
  by (auto simp: handles_ok_def live_objects_def)

lemma alloc_nonzero: "alloc_law alloc \<Longrightarrow> alloc used \<noteq> 0"
  by (simp add: alloc_law_def)

lemma handles_add_regions:
  assumes "alloc_law alloc"
  shows "handles_ok m \<Longrightarrow> handles_ok (snd (add_regions alloc d ds m))"
proof (induction ds arbitrary: m)
  case (Cons r ds)
  let ?r = "alloc (live_objects m)"
  let ?m = "m\<lparr>mt_regions := al_put d (owned_by (mt_regions m) d @ [?r]) (mt_regions m),
      mt_regionDesc := al_put ?r r (mt_regionDesc m)\<rparr>"
  have "handles_ok ?m"
  proof (rule handles_regions [OF Cons.prems])
    show "0 \<notin> set (owned_by (mt_regions m) d @ [?r])"
      using handles_parts(6) [OF Cons.prems] alloc_nonzero [OF assms, of "live_objects m"] by auto
    show "h \<in> set (owned_by (mt_regions m) d @ [?r]) \<or> (\<exists>d' \<noteq> d. h \<in> set (owned_by (mt_regions m) d'))"
      if "map_of (al_put ?r r (mt_regionDesc m)) h = Some x" for h x
      using that handles_parts(2) [OF Cons.prems, of h] by (cases "h = ?r") auto
  qed
  from Cons.IH [OF this] show ?case by (cases "add_regions alloc d ds ?m") (simp add: Let_def)
qed simp

lemma handles_unregister: "handles_ok m \<Longrightarrow> handles_ok (snd (UpdateRegionsUnregisterInfo d h vec m))"
proof -
  assume ok: "handles_ok m"
  let ?v = "filter (\<lambda>r. r \<noteq> h) (owned_by (mt_regions m) d)"
  have "handles_ok (m\<lparr>mt_regions := al_put d ?v (mt_regions m), mt_regionDesc := al_del h (mt_regionDesc m)\<rparr>)"
  proof (rule handles_regions [OF ok])
    show "0 \<notin> set ?v" using handles_parts(6) [OF ok] by auto
    show "r \<in> set ?v \<or> (\<exists>d' \<noteq> d. r \<in> set (owned_by (mt_regions m) d'))"
      if "map_of (al_del h (mt_regionDesc m)) r = Some x" for r x
      using that handles_parts(2) [OF ok, of r] by (auto split: if_splits)
  qed
  moreover have "snd (UpdateRegionsUnregisterInfo d h vec m) =
      m\<lparr>mt_regions := al_put d ?v (mt_regions m), mt_regionDesc := al_del h (mt_regionDesc m)\<rparr>"
    by (cases "map_of (mt_regionDesc m) h") (simp_all add: UpdateRegionsUnregisterInfo_def)
  ultimately show ?thesis by simp
qed

lemma handles_unregister_loop: "handles_ok m \<Longrightarrow> handles_ok (snd (unregister_loop d refs vec m))"
proof (induction d refs vec m rule: unregister_loop.induct)
  case (2 d h refs vec m)
  show ?case using 2(1) handles_unregister [OF 2(2), of d h vec]
    by (cases "UpdateRegionsUnregisterInfo d h vec m") simp
qed simp_all

lemma handles_register_heap:
  assumes "alloc_law alloc" "handles_ok m"
  shows "handles_ok (snd (MstxMemHeapRegister alloc d desc m))"
proof (cases "\<exists>x rng. IsDomainExist d m \<and> desc = Some x \<and> hp_typeSpecificDesc x = Some rng")
  case True
  then obtain x rng where d: "IsDomainExist d m" "desc = Some x" "hp_typeSpecificDesc x = Some rng" by blast
  let ?h = "alloc (live_objects m)"
  let ?v = "owned_by (mt_heaps m) d @ [?h]"
  let ?hs = "al_put (d, ?h) \<lparr>hs_usage = hp_usage x, hs_memType = hp_type x, hs_rangeDesc = rng\<rparr> (mt_heapDesc m)"
  have "handles_ok (m\<lparr>mt_heaps := al_put d ?v (mt_heaps m), mt_heapDesc := ?hs\<rparr>)"
  proof (rule handles_heaps [OF assms(2)])
    show "0 \<notin> set ?v"
      using handles_parts(5) [OF assms(2)] alloc_nonzero [OF assms(1), of "live_objects m"] by auto
    show "h \<in> set ?v" if "map_of ?hs (d, h) = Some y" for h y
      using that handles_parts(1) [OF assms(2), of d h] by (cases "h = ?h") auto
  qed simp
  then show ?thesis using d by (simp add: MstxMemHeapRegister_def Let_def)
next
  case False
  then show ?thesis using assms(2) by (auto simp: MstxMemHeapRegister_def split: option.splits)
qed

lemma handles_unregister_heap:
  assumes "handles_ok m"
  shows "handles_ok (snd (MstxMemHeapUnregister d h m))"
proof (cases "\<exists>x v. IsDomainExist d m \<and> h \<noteq> 0 \<and> map_of (mt_heapDesc m) (d, h) = Some x \<and> map_of (mt_heaps m) d = Some v")
  case True
  then obtain x v where d: "IsDomainExist d m" "h \<noteq> 0" "map_of (mt_heapDesc m) (d, h) = Some x"
    "map_of (mt_heaps m) d = Some v" by blast
  have v: "owned_by (mt_heaps m) d = v" using d(4) by (simp add: owned_by_def)
  have "handles_ok (m\<lparr>mt_heaps := al_put d (filter (\<lambda>x. x \<noteq> h) v) (mt_heaps m),
      mt_heapDesc := al_del (d, h) (mt_heapDesc m)\<rparr>)"
  proof (rule handles_heaps [OF assms])
    show "0 \<notin> set (filter (\<lambda>x. x \<noteq> h) v)" using handles_parts(5) [OF assms, of d] v by simp
    show "k \<in> set (filter (\<lambda>x. x \<noteq> h) v)" if "map_of (al_del (d, h) (mt_heapDesc m)) (d, k) = Some y" for k y
      using that handles_parts(1) [OF assms, of d k] v by (cases "k = h") auto
  qed simp
  then show ?thesis using d by (simp add: MstxMemHeapUnregister_def)
next
  case False
  then show ?thesis using assms by (auto simp: MstxMemHeapUnregister_def split: option.splits)
qed

lemma handles_step:
  assumes "alloc_law alloc" "handles_ok m"
  shows "handles_ok (mstx_step alloc m oper)"
proof (cases oper)
  case (DomainCreate n)
  then show ?thesis
    using assms(2) handles_domain [OF assms(2) _ alloc_nonzero [OF assms(1)], of n "live_objects m"]
      handles_again [OF assms(2), of n]
    by (cases "map_of (mt_name2Domain m) n") (simp_all add: MstxDomainCreateA_def Let_def)
next
  case (HeapRegister d desc)
  then show ?thesis using handles_register_heap [OF assms] by simp
next
  case (HeapUnregister d h)
  then show ?thesis using handles_unregister_heap [OF assms(2)] by simp
next
  case (RegionsRegister d b)
  have "handles_ok (m\<lparr>mt_regions := al_put d (owned_by (mt_regions m) d) (mt_regions m), mt_regionDesc := mt_regionDesc m\<rparr>)"
  proof (rule handles_regions [OF assms(2)])
    show "0 \<notin> set (owned_by (mt_regions m) d)" using handles_parts(6) [OF assms(2)] .
    show "r \<in> set (owned_by (mt_regions m) d) \<or> (\<exists>d' \<noteq> d. r \<in> set (owned_by (mt_regions m) d'))"
      if "map_of (mt_regionDesc m) r = Some x" for r x
      using handles_parts(2) [OF assms(2) that] by metis
  qed
  then have ok: "handles_ok (snd (add_regions alloc d ds (m\<lparr>mt_regions := al_put d (owned_by (mt_regions m) d) (mt_regions m)\<rparr>)))" for ds
    using handles_add_regions [OF assms(1)] by simp
  have "mstx_step alloc m oper = m \<or> (\<exists>ds. mstx_step alloc m oper =
      snd (add_regions alloc d ds (m\<lparr>mt_regions := al_put d (owned_by (mt_regions m) d) (mt_regions m)\<rparr>)))"
    by (auto simp: RegionsRegister MstxMemRegionsRegister_def Let_def split: option.splits prod.splits)
  then show ?thesis using ok assms(2) by metis
next
  case (RegionsUnregister d b)
  then have "mstx_step alloc m oper = m \<or> (\<exists>refs. mstx_step alloc m oper = snd (unregister_loop d refs [] m))"
    by (auto simp: MstxMemRegionsUnregister_def Let_def split: option.splits prod.splits) (metis snd_conv)
  then show ?thesis using assms(2) handles_unregister_loop [OF assms(2)] by metis
qed

text \<open>
  The tables never speak of an object that is gone. After any run of domain, heap and region
  operations, every described heap and region is one that the class still owns, every named domain
  too, null is never a handle, and so the address of the next object has no entry in any table,
  also when it is the address of an earlier, freed one: no description outlives its object.
\<close>

theorem handles_never_stale:
  assumes "alloc_law alloc"
  shows "handles_ok (foldl (mstx_step alloc) new_MsTx ops) \<and>
    (let m = foldl (mstx_step alloc) new_MsTx ops; a = alloc (live_objects m) in
     a \<noteq> 0 \<and> map_of (mt_regionDesc m) a = None \<and> map_of (mt_domain2Name m) a = None \<and>
     (\<forall>d. map_of (mt_heapDesc m) (d, a) = None))"
proof -
  have "handles_ok (foldl (mstx_step alloc) m ops)" if "handles_ok m" for m
    using that by (induction ops arbitrary: m) (simp_all add: handles_step [OF assms])
  moreover have "handles_ok new_MsTx"
    by (simp add: handles_ok_def new_MsTx_def MstxAttrReset_def live_objects_def)
  ultimately have ok: "handles_ok (foldl (mstx_step alloc) new_MsTx ops)" by blast
  let ?m = "foldl (mstx_step alloc) new_MsTx ops"
  have "alloc (live_objects ?m) \<notin> set (live_objects ?m)" "alloc (live_objects ?m) \<noteq> 0"
    using assms by (auto simp: alloc_law_def)
  then show ?thesis
    using ok handles_parts(1-3) [OF ok] owned_live [of _ ?m] domain_live [of ?m]
    by (simp add: Let_def) (metis option.exhaust)
qed

definition next_address :: "ptr list \<Rightarrow> ptr" where
  "next_address used = Suc (sum_list used)"

lemma next_address_law: "alloc_law next_address"
  using member_le_sum_list by (fastforce simp: alloc_law_def next_address_def)

theorem handles_never_stale_witness:
  "handles_ok (foldl (mstx_step next_address) new_MsTx
     [DomainCreate ''pool'', HeapRegister 1 (Some \<lparr>hp_usage = 0, hp_type = 0,
        hp_typeSpecificDesc = Some \<lparr>vr_deviceId = 0, vr_ptr = 4096, vr_size = 512\<rparr>\<rparr>),
      HeapUnregister 1 2, HeapRegister 1 None])"
  using handles_never_stale [OF next_address_law] by blast

end
