(* ===== verification/MarkerReport.thy ===== *)
theory MarkerReport
  imports Markers MemReport
begin

text \<open>
  Models the marker entry points of the sanitizer in csrc/bind/BindSanitizer.cpp: what the heaps,
  regions and permissions that a program announces (theory Markers) do to the memory tables
  (theory MemManage) and which packets they send. The tables are one per device; the
  entry points write the table of the device that the calling thread is bound to (\<open>cur\<close>) and send
  to the device of the description. Also the two functions by which a program reports memory by
  hand.
\<close>

section \<open>State\<close>

record MemRegionPermissionDesc =
  mp_addr :: nat
  mp_size :: nat
  mp_deviceId :: nat
  mp_flags :: nat

datatype marker_packet = MemoryRecord HostMemRecord | RegionPermission MemRegionPermissionDesc

record marker_state =
  ks_mstx :: MsTx
  ks_mm :: "nat \<Rightarrow> MemoryManage"
  ks_sent :: "(nat \<times> marker_packet) list"

definition notify :: "nat \<Rightarrow> marker_packet \<Rightarrow> marker_state \<Rightarrow> marker_state" where
  "notify dev p k = k\<lparr>ks_sent := ks_sent k @ [(dev, p)]\<rparr>"

definition on_table :: "nat \<Rightarrow> (MemoryManage \<Rightarrow> MemoryManage) \<Rightarrow> marker_state \<Rightarrow> marker_state" where
  "on_table dev f k = k\<lparr>ks_mm := (ks_mm k)(dev := f (ks_mm k dev))\<rparr>"

section \<open>Tests\<close>

definition region_in_range :: "HostMemRecord \<Rightarrow> nat \<Rightarrow> nat \<Rightarrow> bool" where
  \<comment> \<open>this file's \<open>IsAddrInRange\<close>\<close>
  "region_in_range r thresholdAddr thresholdSize \<longleftrightarrow>
     hr_dstAddr r \<ge> thresholdAddr \<and> thresholdSize \<ge> hr_memSize r \<and>
     hr_dstAddr r - thresholdAddr \<le> thresholdSize - hr_memSize r"

definition IsInvalidMemInfo :: "HostMemRecord \<Rightarrow> bool" where
  "IsInvalidMemInfo r \<longleftrightarrow>
     (hr_type r = MALLOC \<and> (hr_dstAddr r = 0 \<or> hr_memSize r = 0)) \<or> (hr_type r = FREE \<and> hr_dstAddr r = 0)"

section \<open>Heaps\<close>

definition Sanitizer_MemHeapRegister ::
  "(ptr list \<Rightarrow> ptr) \<Rightarrow> nat \<Rightarrow> ptr \<Rightarrow> MstxMemHeapDesc option \<Rightarrow> marker_state \<Rightarrow> ptr \<times> marker_state"
where
  "Sanitizer_MemHeapRegister alloc cur domain desc k =
     (let (ret, mt) = MstxMemHeapRegister alloc domain desc (ks_mstx k); k = k\<lparr>ks_mstx := mt\<rparr> in
      if ret = 0 then (0, k)
      else
        let rng = the (hp_typeSpecificDesc (the desc));
            r = mem_record MALLOC (vr_ptr rng) (vr_size rng) MSTX_HEAP DEFAULT 0 in
        if IsInvalidMemInfo r then (ret, k)
        else (ret, notify (vr_deviceId rng) (MemoryRecord r)
               (on_table cur (CacheMemory_MALLOC (hr_dstAddr r) (hr_infoSrc r) (hr_memSize r) True) k)))"

definition Sanitizer_MemHeapUnregister :: "nat \<Rightarrow> ptr \<Rightarrow> ptr \<Rightarrow> marker_state \<Rightarrow> marker_state" where
  "Sanitizer_MemHeapUnregister cur domain heap k =
     (let (desc, mt) = MstxMemHeapUnregister domain heap (ks_mstx k); k = k\<lparr>ks_mstx := mt\<rparr> in
      case desc of
        None \<Rightarrow> k
      | Some d \<Rightarrow>
          let rng = hs_rangeDesc d; r = mem_record FREE (vr_ptr rng) 0 MSTX_HEAP DEFAULT 0 in
          if IsInvalidMemInfo r then k
          else notify (vr_deviceId rng) (MemoryRecord r)
                 (on_table cur (CacheMemory_FREE (hr_dstAddr r) (hr_infoSrc r)) k))"

section \<open>Regions\<close>

definition region_record :: "MemOpType \<Rightarrow> nat \<Rightarrow> nat \<Rightarrow> nat \<Rightarrow> HostMemRecord" where
  "region_record type addr sz root =
     (mem_record type addr sz MSTX_REGION DEFAULT 0)\<lparr>hr_rootAddr := root\<rparr>"

definition register_region ::
  "nat \<Rightarrow> ptr \<Rightarrow> MemRegionsBelongInfo \<Rightarrow> marker_state \<Rightarrow> MstxMemVirtualRangeDesc \<Rightarrow> marker_state"
where
  \<comment> \<open>the body of the loop of \<open>MstxMemRegionsRegister\<close>\<close>
  "register_region cur heap info k d =
     (let r = region_record MALLOC (vr_ptr d) (vr_size d) (bi_addr info) in
      if IsInvalidMemInfo r then k
      else if heap = 0 \<or> region_in_range r (bi_addr info) (bi_size info) then
        let k = on_table cur (CacheMemory_MALLOC (hr_dstAddr r) (hr_infoSrc r) (hr_memSize r) True) k;
            k = notify (vr_deviceId d) (MemoryRecord r) k in
        notify (vr_deviceId d) (MemoryRecord (r\<lparr>hr_type := STORE\<rparr>)) k
      else k)"

definition Sanitizer_MemRegionsRegister ::
  "(ptr list \<Rightarrow> ptr) \<Rightarrow> nat \<Rightarrow> ptr \<Rightarrow> MstxMemRegionsRegisterBatch option \<Rightarrow> marker_state \<Rightarrow>
   ptr list \<times> marker_state"
where
  \<comment> \<open>with the handles written to \<open>regionHandleArrayOut\<close>\<close>
  "Sanitizer_MemRegionsRegister alloc cur domain desc k =
     (let (info, handles, mt) = MstxMemRegionsRegister alloc domain desc (ks_mstx k); k = k\<lparr>ks_mstx := mt\<rparr> in
      if bi_success info then
        (handles, foldl (register_region cur (rb_heap (the desc)) info) k (the (rb_regionDescArray (the desc))))
      else (handles, k))"

definition free_region :: "nat \<Rightarrow> marker_state \<Rightarrow> MstxMemVirtualRangeDesc \<Rightarrow> marker_state" where
  "free_region cur k d =
     (let r = region_record FREE (vr_ptr d) (vr_size d) 0 in
      if IsInvalidMemInfo r then k
      else notify (vr_deviceId d) (MemoryRecord r) (on_table cur (CacheMemory_FREE (hr_dstAddr r) (hr_infoSrc r)) k))"

definition free_pointer :: "nat \<Rightarrow> marker_state \<Rightarrow> MstxMemRegionRef \<Rightarrow> marker_state" where
  "free_pointer cur k ref =
     (case ref of
        REF_HANDLE _ \<Rightarrow> k
      | REF_POINTER p \<Rightarrow>
          let r = region_record FREE p 0 0 in
          if IsInvalidMemInfo r then k
          else notify cur (MemoryRecord r) (on_table cur (CacheMemory_FREE (hr_dstAddr r) (hr_infoSrc r)) k))"

definition Sanitizer_MemRegionsUnregister ::
  "nat \<Rightarrow> ptr \<Rightarrow> MstxMemRegionsUnregisterBatch option \<Rightarrow> marker_state \<Rightarrow> marker_state"
where
  "Sanitizer_MemRegionsUnregister cur domain desc k =
     (let (vec, mt) = MstxMemRegionsUnregister domain desc (ks_mstx k); k = k\<lparr>ks_mstx := mt\<rparr> in
      case vec of
        None \<Rightarrow> k
      | Some vec \<Rightarrow> foldl (free_pointer cur) (foldl (free_region cur) k vec) (the (the desc)))"

section \<open>Permissions\<close>

definition assign_permission ::
  "nat \<Rightarrow> marker_state \<Rightarrow> MstxMemVirtualRangeDesc \<times> MstxMemPermissionsAssignRegionsDesc \<Rightarrow> marker_state"
where
  "assign_permission cur k = (\<lambda>(rng, p).
     notify (vr_deviceId rng)
       (RegionPermission \<lparr>mp_addr = vr_ptr rng, mp_size = vr_size rng, mp_deviceId = vr_deviceId rng, mp_flags = pr_flags p\<rparr>)
       (on_table cur (SetPermission (vr_ptr rng) (vr_size rng) (pr_flags p)) k))"

definition Sanitizer_MemPermissionsAssign ::
  "nat \<Rightarrow> ptr \<Rightarrow> MstxMemPermissionsAssignBatch option \<Rightarrow> marker_state \<Rightarrow> marker_state option"
where
  \<comment> \<open>\<open>rangeDescVec[i]\<close> for each entry of the batch; \<open>None\<close> when it is read out of range\<close>
  "Sanitizer_MemPermissionsAssign cur domain desc k =
     (let (ok, vec) = MstxMemPermissionsAssign domain desc (ks_mstx k) in
      if \<not> ok then Some k
      else
        let ps = the (the desc) in
        if length vec < length ps then None else Some (foldl (assign_permission cur) k (zip vec ps)))"

section \<open>Reports by hand\<close>

definition sanitizer_report_malloc :: "nat \<Rightarrow> nat \<Rightarrow> report_state \<Rightarrow> report_state" where
  "sanitizer_report_malloc addr sz s =
     ReportMemset addr sz MANUAL DEFAULT 0 (ReportMalloc addr sz MANUAL DEFAULT 0 s)"

definition sanitizer_report_free :: "nat \<Rightarrow> report_state \<Rightarrow> report_state" where
  "sanitizer_report_free addr s = ReportFree addr MANUAL DEFAULT 0 s"

section \<open>Permissions: each entry has its region\<close>

definition region_of :: "MsTx \<Rightarrow> MstxMemPermissionsAssignRegionsDesc \<Rightarrow> MstxMemVirtualRangeDesc option" where
  \<comment> \<open>the registered range of an entry\<close>
  "region_of m p = (case pr_region p of REF_HANDLE h \<Rightarrow> map_of (mt_regionDesc m) h | REF_POINTER _ \<Rightarrow> None)"

lemma permission_loop_Cons:
  "permission_loop m (p # ps) vec =
     (case region_of m p of None \<Rightarrow> (False, vec) | Some d \<Rightarrow> permission_loop m ps (vec @ [d]))"
  by (cases "pr_region p") (simp_all add: region_of_def split: option.split)

declare permission_loop.simps(2) [simp del]

lemma permission_loop_all:
  "\<forall>p \<in> set ps. region_of m p \<noteq> None \<Longrightarrow>
     permission_loop m ps vec = (True, vec @ map (\<lambda>p. the (region_of m p)) ps)"
  by (induction ps arbitrary: vec) (auto simp: permission_loop_Cons)

lemma permission_loop_stop: "\<exists>p \<in> set ps. region_of m p = None \<Longrightarrow> \<not> fst (permission_loop m ps vec)"
  by (induction ps arbitrary: vec) (auto simp: permission_loop_Cons split: option.split)

text \<open>
  Assigning permissions never reads behind the descriptions it collected: it either refuses the
  whole batch and changes nothing, when some entry is not a handle of a registered region, or
  sends, for the entries in order, the registered range of the entry's region with its flags.
\<close>

theorem permissions_complete:
  assumes "IsDomainExist domain (ks_mstx k)" "map_of (mt_regions (ks_mstx k)) domain \<noteq> None"
  shows "Sanitizer_MemPermissionsAssign cur domain (Some (Some ps)) k =
    Some (if \<exists>p \<in> set ps. region_of (ks_mstx k) p = None then k
          else foldl (assign_permission cur) k (map (\<lambda>p. (the (region_of (ks_mstx k) p), p)) ps))"
proof (cases "\<exists>p \<in> set ps. region_of (ks_mstx k) p = None")
  case True
  then show ?thesis
    using assms permission_loop_stop [OF True, of "[]"]
    by (cases "permission_loop (ks_mstx k) ps []")
      (simp add: Sanitizer_MemPermissionsAssign_def MstxMemPermissionsAssign_def)
next
  case False
  have zip: "zip (map f ps) ps = map (\<lambda>p. (f p, p)) ps" for f :: "_ \<Rightarrow> MstxMemVirtualRangeDesc"
    by (induction ps) simp_all
  have "permission_loop (ks_mstx k) ps [] = (True, map (\<lambda>p. the (region_of (ks_mstx k) p)) ps)"
    using permission_loop_all [of ps "ks_mstx k" "[]"] False by simp
  then show ?thesis
    using assms False by (auto simp: Sanitizer_MemPermissionsAssign_def MstxMemPermissionsAssign_def zip)
qed

definition one_region :: marker_state where
  "one_region = \<lparr>ks_mstx = new_MsTx\<lparr>mt_regions := [(0, [9])], mt_regionDesc := [(9, \<lparr>vr_deviceId = 2, vr_ptr = 64, vr_size = 32\<rparr>)]\<rparr>,
     ks_mm = (\<lambda>_. mm0), ks_sent = []\<rparr>"

theorem permissions_complete_witness:
  "ks_sent (the (Sanitizer_MemPermissionsAssign 0 0 (Some (Some [\<lparr>pr_flags = 1, pr_region = REF_HANDLE 9\<rparr>])) one_region)) =
     [(2, RegionPermission \<lparr>mp_addr = 64, mp_size = 32, mp_deviceId = 2, mp_flags = 1\<rparr>)]"
proof -
  have "IsDomainExist 0 (ks_mstx one_region)" "map_of (mt_regions (ks_mstx one_region)) 0 \<noteq> None"
    by (simp_all add: IsDomainExist_def one_region_def)
  from permissions_complete [OF this, of 0] show ?thesis
    by (simp add: region_of_def one_region_def assign_permission_def notify_def on_table_def)
qed

section \<open>Regions of a heap\<close>

definition in_heap :: "MstxMemVirtualRangeDesc \<Rightarrow> nat \<times> marker_packet \<Rightarrow> bool" where
  \<comment> \<open>a record of a range inside the heap's range, with the heap as root\<close>
  "in_heap heap = (\<lambda>(dev, p). case p of
     MemoryRecord r \<Rightarrow>
       hr_rootAddr r = vr_ptr heap \<and> 0 < hr_memSize r \<and>
       {hr_dstAddr r..<hr_dstAddr r + hr_memSize r} \<subseteq> {vr_ptr heap..<vr_ptr heap + vr_size heap}
   | RegionPermission _ \<Rightarrow> False)"

lemma register_region_in_heap:
  assumes "heap \<noteq> 0"
  shows "\<exists>ps. ks_sent (register_region cur heap \<lparr>bi_addr = vr_ptr h, bi_size = vr_size h, bi_success = True\<rparr> k d) = ks_sent k @ ps \<and>
    list_all (in_heap h) ps"
  using assms
  by (auto simp: register_region_def Let_def notify_def on_table_def in_heap_def region_in_range_def
      IsInvalidMemInfo_def region_record_def mem_record_def)

text \<open>
  Whatever regions a program announces for a heap, every record that reaches the tool
  lies inside the heap's range, is not empty and names the heap as its root: a region that leaves
  the heap on either side is dropped.
\<close>

theorem heap_regions_inside:
  assumes "map_of (mt_heapDesc (ks_mstx k)) (domain, rb_heap b) = Some h" "rb_heap b \<noteq> 0"
  shows "\<exists>ps. ks_sent (snd (Sanitizer_MemRegionsRegister alloc cur domain (Some b) k)) = ks_sent k @ ps \<and>
    list_all (in_heap (hs_rangeDesc h)) ps"
proof -
  let ?info = "\<lparr>bi_addr = vr_ptr (hs_rangeDesc h), bi_size = vr_size (hs_rangeDesc h), bi_success = True\<rparr>"
  have loop: "\<exists>ps. ks_sent (foldl (register_region cur (rb_heap b) ?info) k ds) = ks_sent k @ ps \<and>
      list_all (in_heap (hs_rangeDesc h)) ps" for ds k
  proof (induction ds arbitrary: k)
    case (Cons d ds)
    obtain ps where ps: "ks_sent (register_region cur (rb_heap b) ?info k d) = ks_sent k @ ps" "list_all (in_heap (hs_rangeDesc h)) ps"
      using register_region_in_heap [OF assms(2)] by blast
    show ?case using Cons.IH [of "register_region cur (rb_heap b) ?info k d"] ps by auto
  qed simp
  have "fst (MstxMemRegionsRegister alloc domain (Some b) (ks_mstx k)) \<in> {no_belong, ?info}"
    using assms by (auto simp: MstxMemRegionsRegister_def Let_def split: option.splits prod.splits)
  moreover obtain info hs mt where "MstxMemRegionsRegister alloc domain (Some b) (ks_mstx k) = (info, hs, mt)"
    by (cases "MstxMemRegionsRegister alloc domain (Some b) (ks_mstx k)")
  ultimately show ?thesis
    using loop [of "k\<lparr>ks_mstx := mt\<rparr>" "the (rb_regionDescArray b)"]
    by (auto simp: Sanitizer_MemRegionsRegister_def no_belong_def)
qed

definition small_heap :: marker_state where
  "small_heap = \<lparr>ks_mstx = new_MsTx\<lparr>mt_heaps := [(0, [5])],
       mt_heapDesc := [((0, 5), \<lparr>hs_usage = 0, hs_memType = 0,
         hs_rangeDesc = \<lparr>vr_deviceId = 0, vr_ptr = 1024, vr_size = 256\<rparr>\<rparr>)]\<rparr>,
     ks_mm = (\<lambda>_. mm0), ks_sent = []\<rparr>"

definition two_regions :: MstxMemRegionsRegisterBatch where
  "two_regions = \<lparr>rb_heap = 5, rb_regionDescArray = Some [\<lparr>vr_deviceId = 0, vr_ptr = 1056, vr_size = 64\<rparr>,
       \<lparr>vr_deviceId = 0, vr_ptr = 1216, vr_size = 65\<rparr>], rb_hasHandleArrayOut = True\<rparr>"

theorem heap_regions_inside_witness:
  "list_all (in_heap \<lparr>vr_deviceId = 0, vr_ptr = 1024, vr_size = 256\<rparr>)
     (ks_sent (snd (Sanitizer_MemRegionsRegister next_address 0 0 (Some two_regions) small_heap)))"
proof -
  have "map_of (mt_heapDesc (ks_mstx small_heap)) (0, rb_heap two_regions) = Some \<lparr>hs_usage = 0, hs_memType = 0,
         hs_rangeDesc = \<lparr>vr_deviceId = 0, vr_ptr = 1024, vr_size = 256\<rparr>\<rparr>" "rb_heap two_regions \<noteq> 0"
    by (simp_all add: small_heap_def two_regions_def)
  from heap_regions_inside [OF this, of next_address 0] show ?thesis by (auto simp: small_heap_def)
qed

section \<open>Registered regions are released\<close>

lemma unregister_known:
  assumes "map_of (mt_regionDesc m) h = Some d"
  shows "UpdateRegionsUnregisterInfo domain h vec m =
    (vec @ [d], m\<lparr>mt_regionDesc := al_del h (mt_regionDesc m),
       mt_regions := al_put domain (filter (\<lambda>r. r \<noteq> h) (owned_by (mt_regions m) domain)) (mt_regions m)\<rparr>)"
  using assms by (simp add: UpdateRegionsUnregisterInfo_def)

text \<open>The handles that a registration gives out stand for its descriptions, one each.\<close>

lemma add_regions_handles:
  assumes "alloc_law alloc" "handles_ok m" "add_regions alloc domain ds m = (hs, m')"
  shows "length hs = length ds \<and> distinct hs \<and> set hs \<inter> set (live_objects m) = {} \<and>
    map_of (mt_regionDesc m') = (map_of (mt_regionDesc m))(hs [\<mapsto>] ds) \<and>
    mt_domain2Name m' = mt_domain2Name m \<and>
    (map_of (mt_regions m) domain \<noteq> None \<longrightarrow> map_of (mt_regions m') domain \<noteq> None)"
  using assms(2,3)
proof (induction ds arbitrary: m hs)
  case (Cons d ds)
  let ?r = "alloc (live_objects m)"
  let ?m = "m\<lparr>mt_regions := al_put domain (owned_by (mt_regions m) domain @ [?r]) (mt_regions m),
      mt_regionDesc := al_put ?r d (mt_regionDesc m)\<rparr>"
  obtain hs' where hs: "hs = ?r # hs'" "add_regions alloc domain ds ?m = (hs', m')"
    using Cons.prems(2) by (auto simp: Let_def split: prod.splits)
  have ok: "handles_ok ?m"
    using handles_add_regions [OF assms(1) Cons.prems(1), of domain "[d]"] by (simp add: Let_def)
  have r: "?r \<in> set (live_objects ?m)"
    by (rule owned_live(2) [where d = domain]) simp
  have sub: "set (live_objects m) \<subseteq> set (live_objects ?m)"
  proof -
    have "set (concat (map snd vs)) \<subseteq> set (concat (map snd (al_put domain (owned_by vs domain @ [?r]) vs)))" for vs
    proof (induction vs)
      case (Cons v vs)
      then show ?case by (cases v) (auto simp: owned_by_def)
    qed simp
    from this [of "mt_regions m"] show ?thesis unfolding live_objects_def by auto
  qed
  have IH: "length hs' = length ds \<and> distinct hs' \<and> set hs' \<inter> set (live_objects ?m) = {} \<and>
    map_of (mt_regionDesc m') = (map_of (mt_regionDesc ?m))(hs' [\<mapsto>] ds) \<and> mt_domain2Name m' = mt_domain2Name ?m \<and>
    (map_of (mt_regions ?m) domain \<noteq> None \<longrightarrow> map_of (mt_regions m') domain \<noteq> None)"
    using Cons.IH [OF ok hs(2)] .
  have "?r \<notin> set (live_objects m)" using assms(1) by (simp add: alloc_law_def)
  then show ?case using IH r sub hs(1) by auto
qed simp

lemma unregister_all:
  assumes "length hs = length ds" "distinct hs" "\<forall>i < length hs. map_of (mt_regionDesc m) (hs ! i) = Some (ds ! i)"
  shows "fst (unregister_loop domain (map REF_HANDLE hs) vec m) = vec @ ds"
  using assms
proof (induction hs ds arbitrary: m vec rule: list_induct2)
  case (Cons h hs d ds)
  let ?m = "m\<lparr>mt_regionDesc := al_del h (mt_regionDesc m),
       mt_regions := al_put domain (filter (\<lambda>r. r \<noteq> h) (owned_by (mt_regions m) domain)) (mt_regions m)\<rparr>"
  have "map_of (mt_regionDesc m) h = Some d" using Cons.prems(2) by (metis length_Cons nth_Cons_0 zero_less_Suc)
  moreover have "\<forall>i < length hs. map_of (mt_regionDesc ?m) (hs ! i) = Some (ds ! i)"
    using Cons.prems by (auto simp: in_set_conv_nth)
  ultimately show ?case using Cons.IH [of ?m "vec @ [d]"] Cons.prems(1) by (simp add: unregister_known)
qed simp

lemma map_upds_nth:
  "length ks = length vs \<Longrightarrow> distinct ks \<Longrightarrow> i < length ks \<Longrightarrow> (m(ks [\<mapsto>] vs)) (ks ! i) = Some (vs ! i)"
proof (induction ks vs arbitrary: m i rule: list_induct2)
  case (Cons k ks v vs)
  then show ?case by (cases i) (auto simp: in_set_conv_nth)
qed simp

definition region_info :: "MstxMemVirtualRangeDesc \<Rightarrow> AddrInfo" where
  "region_info d = \<lparr>ai_addr = vr_ptr d, ai_length = vr_size d, ai_src = MSTX_REGION, ai_desc = DEFAULT,
     ai_paramsNo = 0, ai_permission = REGION_FLAGS_DEFAULT\<rparr>"

lemma region_info_fields [simp]:
  "ai_addr (region_info d) = vr_ptr d" "ai_length (region_info d) = vr_size d" "ai_src (region_info d) = MSTX_REGION"
  "table_entry (region_info d) = region_info d"
  by (simp_all add: region_info_def table_entry_def)

definition accepted :: "ptr \<Rightarrow> MemRegionsBelongInfo \<Rightarrow> MstxMemVirtualRangeDesc \<Rightarrow> bool" where
  "accepted heap info d \<longleftrightarrow> vr_ptr d \<noteq> 0 \<and> vr_size d \<noteq> 0 \<and>
     (heap = 0 \<or> region_in_range (region_record MALLOC (vr_ptr d) (vr_size d) (bi_addr info)) (bi_addr info) (bi_size info))"

lemma register_regions_holds:
  assumes "holds T (map region_info done) (ks_mm k cur)" "clear_of T (map region_info (done @ ds))"
    "distinct (map vr_ptr (done @ ds))" "list_all (accepted heap info) ds"
  shows "holds T (map region_info (done @ ds)) (ks_mm (foldl (register_region cur heap info) k ds) cur)"
  using assms
proof (induction ds arbitrary: "done" k)
  case (Cons d ds)
  have c: "clear_of T (map region_info done @ [region_info d])" using Cons.prems(2) by (auto simp: clear_of_def)
  moreover have "ai_addr (region_info d) \<notin> ai_addr ` set (map region_info done)"
    using Cons.prems(3) by auto
  ultimately have "holds T (map region_info done @ [region_info d])
      (CacheMemory_MALLOC (vr_ptr d) MSTX_REGION (vr_size d) True (ks_mm k cur))"
    using holds_malloc [OF Cons.prems(1), of "region_info d"] by simp
  then have "holds T (map region_info (done @ [d])) (ks_mm (register_region cur heap info k d) cur)"
    using Cons.prems(4)
    by (simp add: register_region_def accepted_def IsInvalidMemInfo_def region_record_def mem_record_def Let_def
        on_table_def notify_def)
  then show ?case using Cons.IH [of "done @ [d]"] Cons.prems by simp
qed simp

lemma free_regions_holds:
  assumes "holds T (map region_info ds) (ks_mm k cur)" "clear_of T (map region_info ds)"
    "distinct (map vr_ptr ds)" "\<forall>d \<in> set ds. vr_ptr d \<noteq> 0"
  shows "holds T [] (ks_mm (foldl (free_region cur) k ds) cur)"
  using assms
proof (induction ds arbitrary: k)
  case (Cons d ds)
  have "ai_addr (region_info d) \<notin> ai_addr ` set (map region_info ds)"
    using Cons.prems(3) by auto
  then have "holds T (map region_info ds) (CacheMemory_FREE (vr_ptr d) MSTX_REGION (ks_mm k cur))"
    using holds_free [of T "region_info d" "map region_info ds"] Cons.prems(1,2) by simp
  then have "holds T (map region_info ds) (ks_mm (free_region cur k d) cur)"
    using Cons.prems(4)
    by (simp add: free_region_def IsInvalidMemInfo_def region_record_def mem_record_def Let_def on_table_def notify_def)
  moreover have "clear_of T (map region_info ds)" using Cons.prems(2) by (simp add: clear_of_def)
  ultimately show ?case using Cons.IH Cons.prems by simp
qed simp

lemma free_pointer_handles: "foldl (free_pointer cur) k (map REF_HANDLE hs) = k"
  by (induction hs) (simp_all add: free_pointer_def)

definition belong_of :: "ptr \<Rightarrow> MstxMemRegionsRegisterBatch \<Rightarrow> MsTx \<Rightarrow> MemRegionsBelongInfo" where
  "belong_of domain b m = (case map_of (mt_heapDesc m) (domain, rb_heap b) of
     None \<Rightarrow> \<lparr>bi_addr = 0, bi_size = 0, bi_success = True\<rparr>
   | Some h \<Rightarrow> \<lparr>bi_addr = vr_ptr (hs_rangeDesc h), bi_size = vr_size (hs_rangeDesc h), bi_success = True\<rparr>)"


definition pool_regions :: MstxMemRegionsRegisterBatch where
  "pool_regions = \<lparr>rb_heap = 5, rb_regionDescArray = Some [\<lparr>vr_deviceId = 0, vr_ptr = 1056, vr_size = 64\<rparr>,
       \<lparr>vr_deviceId = 0, vr_ptr = 1216, vr_size = 64\<rparr>], rb_hasHandleArrayOut = True\<rparr>"


end
