(* ===== verification/Snapshot.thy ===== *)
theory Snapshot
  imports Device OrdSet
begin

text \<open>
  Models csrc/runtime/inject_helpers/MemoryContext.h and .cpp, which back up the device memory
  of a program before a kernel is run several times and restore it before each run, and
  DevMemManager.h and .cpp, the device buffer of the instrumented kernel that is kept from launch
  to launch. Device memory is behind \<open>acl_api\<close> (theory Device). The mutexes make each operation
  one step.
\<close>

section \<open>Sections and buckets\<close>

record MemSection =
  ms_originAddr :: ptr
  ms_snapshotAddr :: ptr
  ms_size :: nat
  ms_policy :: nat

definition ACL_MEM_MALLOC_HUGE_FIRST :: nat where
  "ACL_MEM_MALLOC_HUGE_FIRST = 0"

record DeviceBucket =
  db_memSectionMap :: "(ptr \<times> MemSection) list"
  db_stream :: ptr

definition bucket0 :: DeviceBucket where
  "bucket0 = \<lparr>db_memSectionMap = [], db_stream = 0\<rparr>"

type_synonym MemoryContext = "(int \<times> DeviceBucket) list"

definition GetBucket :: "int \<Rightarrow> MemoryContext \<Rightarrow> DeviceBucket \<times> MemoryContext" where
  \<comment> \<open>\<open>devId\<close>: the device that the calling thread runs on\<close>
  "GetBucket devId mc =
     (case map_of mc devId of
        None \<Rightarrow> (bucket0, omap_put devId bucket0 mc)
      | Some b \<Rightarrow> (b, mc))"

definition Append_section :: "int \<Rightarrow> ptr \<Rightarrow> nat \<Rightarrow> MemoryContext \<Rightarrow> MemoryContext" where
  "Append_section devId addr sz mc =
     (let (b, mc) = GetBucket devId mc in
      if addr = 0 then mc
      else omap_put devId (b\<lparr>db_memSectionMap := omap_put addr
             \<lparr>ms_originAddr = addr, ms_snapshotAddr = 0, ms_size = sz, ms_policy = ACL_MEM_MALLOC_HUGE_FIRST\<rparr>
             (db_memSectionMap b)\<rparr>) mc)"

definition Discard :: "'w acl_api \<Rightarrow> int \<Rightarrow> ptr \<Rightarrow> MemoryContext \<Rightarrow> 'w \<Rightarrow> MemoryContext \<times> 'w" where
  "Discard api devId addr mc w =
     (let (b, mc) = GetBucket devId mc in
      case map_of (db_memSectionMap b) addr of
        None \<Rightarrow> (mc, w)
      | Some sec \<Rightarrow>
          let w = (if ms_snapshotAddr sec \<noteq> 0 then snd (api_free api (ms_snapshotAddr sec) w) else w) in
          (omap_put devId (b\<lparr>db_memSectionMap := al_del addr (db_memSectionMap b)\<rparr>) mc, w))"

definition free_snapshots :: "'w acl_api \<Rightarrow> 'w \<Rightarrow> DeviceBucket \<Rightarrow> 'w" where
  "free_snapshots api w b =
     foldl (\<lambda>w (_, sec). if ms_snapshotAddr sec \<noteq> 0 then snd (api_free api (ms_snapshotAddr sec) w) else w)
       w (db_memSectionMap b)"

definition DiscardAll :: "'w acl_api \<Rightarrow> MemoryContext \<Rightarrow> 'w \<Rightarrow> MemoryContext \<times> 'w" where
  "DiscardAll api mc w = ([], foldl (\<lambda>w (_, b). free_snapshots api w b) w mc)"

section \<open>Copies\<close>

datatype MemCopyDirection = ORIGIN_TO_SNAPSHOT | SNAPSHOT_TO_ORIGIN

definition copy_ends :: "MemSection \<Rightarrow> MemCopyDirection \<Rightarrow> ptr \<times> ptr" where
  \<comment> \<open>destination and source\<close>
  "copy_ends sec dir =
     (if dir = ORIGIN_TO_SNAPSHOT then (ms_snapshotAddr sec, ms_originAddr sec)
      else (ms_originAddr sec, ms_snapshotAddr sec))"

definition MemCopyWithStream :: "'w acl_api \<Rightarrow> MemSection \<Rightarrow> ptr \<Rightarrow> MemCopyDirection \<Rightarrow> 'w \<Rightarrow> bool \<times> 'w" where
  "MemCopyWithStream api sec stream dir w =
     (let (dst, src) = copy_ends sec dir;
          (ret, w) = api_copyAsync api dst (ms_size sec) src (ms_size sec) stream w in
      if ret \<noteq> ACL_SUCCESS then (False, w)
      else let (ret, w) = api_sync api stream w in (ret = ACL_SUCCESS, w))"

definition MemCopySync :: "'w acl_api \<Rightarrow> MemSection \<Rightarrow> MemCopyDirection \<Rightarrow> 'w \<Rightarrow> bool \<times> 'w" where
  "MemCopySync api sec dir w =
     (let (dst, src) = copy_ends sec dir;
          (ret, w) = api_copy api dst (ms_size sec) src (ms_size sec) w in
      (ret = ACL_SUCCESS, w))"

definition copy_section :: "'w acl_api \<Rightarrow> MemSection \<Rightarrow> ptr \<Rightarrow> MemCopyDirection \<Rightarrow> 'w \<Rightarrow> bool \<times> 'w" where
  \<comment> \<open>with a stream if there is one\<close>
  "copy_section api sec stream dir w =
     (if stream = 0 then MemCopySync api sec dir w else MemCopyWithStream api sec stream dir w)"

definition CreateSnapshot :: "'w acl_api \<Rightarrow> MemSection \<Rightarrow> ptr \<Rightarrow> 'w \<Rightarrow> bool \<times> MemSection \<times> 'w" where
  "CreateSnapshot api sec stream w =
     (if ms_originAddr sec = 0 then (False, sec, w)
      else
        let ((ret, p), w') = (if ms_snapshotAddr sec = 0 then api_malloc api (ms_size sec) (ms_policy sec) w
                              else ((ACL_SUCCESS, ms_snapshotAddr sec), w));
            sec = sec\<lparr>ms_snapshotAddr := p\<rparr> in
        if ret \<noteq> ACL_SUCCESS then (False, sec, w')
        else let (ok, w') = copy_section api sec stream ORIGIN_TO_SNAPSHOT w' in (ok, sec, w'))"

definition RestoreFromSnapshot :: "'w acl_api \<Rightarrow> MemSection \<Rightarrow> ptr \<Rightarrow> 'w \<Rightarrow> bool \<times> 'w" where
  "RestoreFromSnapshot api sec stream w =
     (if ms_originAddr sec = 0 then (False, w)
      else if ms_snapshotAddr sec = 0 then (False, w)
      else copy_section api sec stream SNAPSHOT_TO_ORIGIN w)"

definition GetCurrentStream :: "'w acl_api \<Rightarrow> ptr \<Rightarrow> 'w \<Rightarrow> ptr \<times> 'w" where
  \<comment> \<open>the bucket's stream, kept once it is known\<close>
  "GetCurrentStream api stream w =
     (if stream \<noteq> 0 then (stream, w)
      else let ((ret, s), w) = api_defaultStream api w in (if ret \<noteq> ACL_SUCCESS then 0 else s, w))"

fun backup_loop ::
  "'w acl_api \<Rightarrow> (ptr \<times> MemSection) list \<Rightarrow> ptr \<Rightarrow> 'w \<Rightarrow> bool \<times> (ptr \<times> MemSection) list \<times> ptr \<times> 'w"
where
  "backup_loop api [] stream w = (True, [], stream, w)"
| "backup_loop api ((a, sec) # secs) stream w =
     (let (stream, w) = GetCurrentStream api stream w;
          (ok, sec, w) = CreateSnapshot api sec stream w in
      if \<not> ok then (False, (a, sec) # secs, stream, w)
      else let (ok, secs, stream, w) = backup_loop api secs stream w in (ok, (a, sec) # secs, stream, w))"

definition Backup :: "'w acl_api \<Rightarrow> int \<Rightarrow> MemoryContext \<Rightarrow> 'w \<Rightarrow> bool \<times> MemoryContext \<times> 'w" where
  "Backup api devId mc w =
     (let (b, mc) = GetBucket devId mc;
          (ok, secs, stream, w) = backup_loop api (db_memSectionMap b) (db_stream b) w in
      (ok, omap_put devId (b\<lparr>db_memSectionMap := secs, db_stream := stream\<rparr>) mc, w))"

fun restore_loop :: "'w acl_api \<Rightarrow> (ptr \<times> MemSection) list \<Rightarrow> ptr \<Rightarrow> 'w \<Rightarrow> ptr \<times> 'w" where
  "restore_loop api [] stream w = (stream, w)"
| "restore_loop api ((a, sec) # secs) stream w =
     (let (stream, w) = GetCurrentStream api stream w;
          (ok, w) = RestoreFromSnapshot api sec stream w in
      restore_loop api secs stream w)"

definition Restore :: "'w acl_api \<Rightarrow> int \<Rightarrow> MemoryContext \<Rightarrow> 'w \<Rightarrow> bool \<times> MemoryContext \<times> 'w" where
  "Restore api devId mc w =
     (let (b, mc) = GetBucket devId mc;
          (stream, w) = restore_loop api (db_memSectionMap b) (db_stream b) w in
      (True, omap_put devId (b\<lparr>db_stream := stream\<rparr>) mc, w))"

section \<open>The buffer of the instrumented kernel\<close>

record DevMemManager =
  dm_memSize :: nat
  dm_memPtr :: ptr
  dm_isMemoryInit :: bool
  dm_isSkipKernel :: bool
  dm_deviceId :: int

definition dm0 :: DevMemManager where
  "dm0 = \<lparr>dm_memSize = 0, dm_memPtr = 0, dm_isMemoryInit = False, dm_isSkipKernel = False, dm_deviceId = -1\<rparr>"

definition ACL_ERROR_BAD_ALLOC :: acl_error where
  "ACL_ERROR_BAD_ALLOC = 200000"

definition dm_Free :: "'w acl_api \<Rightarrow> DevMemManager \<Rightarrow> 'w \<Rightarrow> DevMemManager \<times> 'w" where
  "dm_Free api d w =
     (let (d, w) = (if dm_memPtr d \<noteq> 0 then (d\<lparr>dm_memPtr := 0\<rparr>, snd (api_free api (dm_memPtr d) w)) else (d, w)) in
      (d\<lparr>dm_memSize := 0, dm_deviceId := -1\<rparr>, w))"

definition MallocMemory :: "'w acl_api \<Rightarrow> nat \<Rightarrow> DevMemManager \<Rightarrow> 'w \<Rightarrow> (acl_error \<times> ptr option) \<times> DevMemManager \<times> 'w" where
  \<comment> \<open>with what is stored in \<open>*memPtr\<close>; \<open>memPtr\<close> is not null\<close>
  "MallocMemory api sz d w =
     (let ((r, deviceId), w) = api_getDevice api w in
      if r \<noteq> ACL_SUCCESS then ((ACL_ERROR_BAD_ALLOC, None), d, w)
      else if deviceId = dm_deviceId d \<and> dm_memSize d \<ge> sz then ((ACL_SUCCESS, Some (dm_memPtr d)), d, w)
      else
        let (d, w) = dm_Free api d w;
            ((err, p), w) = api_malloc api sz ACL_MEM_MALLOC_HUGE_FIRST w;
            d = d\<lparr>dm_memPtr := p\<rparr> in
        if err \<noteq> ACL_SUCCESS then ((err, None), d, w)
        else ((ACL_SUCCESS, Some p), d\<lparr>dm_memSize := sz, dm_isMemoryInit := False, dm_deviceId := deviceId\<rparr>, w))"

definition SetMemoryInitFlag :: "bool \<Rightarrow> DevMemManager \<Rightarrow> DevMemManager" where
  "SetMemoryInitFlag flag d = d\<lparr>dm_isMemoryInit := flag\<rparr>"

definition SetSkipKernelFlag :: "bool \<Rightarrow> DevMemManager \<Rightarrow> DevMemManager" where
  "SetSkipKernelFlag flag d = d\<lparr>dm_isSkipKernel := flag\<rparr>"

section \<open>Backup and restore\<close>

text \<open>The documented behaviour: copies arrive, and the other calls leave the contents alone.\<close>

definition copies :: "('w \<Rightarrow> ptr \<Rightarrow> byte) \<Rightarrow> ptr \<Rightarrow> ptr \<Rightarrow> nat \<Rightarrow> 'w \<Rightarrow> 'w \<Rightarrow> bool" where
  "copies mem d s n w w' \<longleftrightarrow> mem w' = (\<lambda>a. if d \<le> a \<and> a < d + n then mem w (s + (a - d)) else mem w a)"

definition copy_law :: "'w acl_api \<Rightarrow> ('w \<Rightarrow> ptr \<Rightarrow> byte) \<Rightarrow> bool" where
  "copy_law api mem \<longleftrightarrow>
     (\<forall>d m s n w. fst (api_copy api d m s n w) = ACL_SUCCESS \<and> copies mem d s n w (snd (api_copy api d m s n w))) \<and>
     (\<forall>d m s n t w. fst (api_copyAsync api d m s n t w) = ACL_SUCCESS \<and> copies mem d s n w (snd (api_copyAsync api d m s n t w)))"

definition quiet_law :: "'w acl_api \<Rightarrow> ('w \<Rightarrow> ptr \<Rightarrow> byte) \<Rightarrow> bool" where
  "quiet_law api mem \<longleftrightarrow>
     (\<forall>n p w. mem (snd (api_malloc api n p w)) = mem w \<and>
        (fst (fst (api_malloc api n p w)) = ACL_SUCCESS \<longrightarrow> snd (fst (api_malloc api n p w)) \<noteq> 0)) \<and>
     (\<forall>t w. fst (api_sync api t w) = ACL_SUCCESS \<and> mem (snd (api_sync api t w)) = mem w) \<and>
     (\<forall>w. mem (snd (api_defaultStream api w)) = mem w)"

definition apart :: "ptr \<times> nat \<Rightarrow> ptr \<times> nat \<Rightarrow> bool" where
  "apart x y \<longleftrightarrow> fst x + snd x \<le> fst y \<or> fst y + snd y \<le> fst x"

definition section_blocks :: "ptr \<times> MemSection \<Rightarrow> (ptr \<times> nat) list" where
  "section_blocks e = [(ms_originAddr (snd e), ms_size (snd e)), (ms_snapshotAddr (snd e), ms_size (snd e))]"

definition separate :: "(ptr \<times> MemSection) list \<Rightarrow> bool" where
  \<comment> \<open>the blocks and their snapshots do not overlap\<close>
  "separate secs \<longleftrightarrow> sorted_wrt apart (concat (map section_blocks secs))"

definition snap_range :: "('w \<Rightarrow> ptr \<Rightarrow> byte) \<Rightarrow> 'w \<Rightarrow> ptr \<times> MemSection \<Rightarrow> bytes" where
  "snap_range mem w e = mem_range mem w (ms_snapshotAddr (snd e)) (ms_size (snd e))"

definition origin_range :: "('w \<Rightarrow> ptr \<Rightarrow> byte) \<Rightarrow> 'w \<Rightarrow> ptr \<times> MemSection \<Rightarrow> bytes" where
  "origin_range mem w e = mem_range mem w (ms_originAddr (snd e)) (ms_size (snd e))"

lemma copy_lawD:
  assumes "copy_law api mem"
  shows "api_copy api d m s n w = (r, w') \<Longrightarrow> r = ACL_SUCCESS \<and> copies mem d s n w w'"
    and "api_copyAsync api d m s n t w = (r, w') \<Longrightarrow> r = ACL_SUCCESS \<and> copies mem d s n w w'"
  using assms unfolding copy_law_def by (metis fst_conv snd_conv)+

lemma quiet_lawD:
  assumes "quiet_law api mem"
  shows "api_malloc api n p w = ((r, q), w') \<Longrightarrow> mem w' = mem w \<and> (r = ACL_SUCCESS \<longrightarrow> q \<noteq> 0)"
    and "api_sync api t w = (r, w') \<Longrightarrow> r = ACL_SUCCESS \<and> mem w' = mem w"
    and "api_defaultStream api w = (rs, w') \<Longrightarrow> mem w' = mem w"
  using assms unfolding quiet_law_def by (metis fst_conv snd_conv)+

lemma copies_from: "mem w1 = mem w \<Longrightarrow> copies mem d s n w1 w2 \<longleftrightarrow> copies mem d s n w w2"
  by (simp add: copies_def cong: if_cong)

lemma mem_range_cong:
  "(\<And>a. p \<le> a \<Longrightarrow> a < p + n \<Longrightarrow> mem w a = mem w' a) \<Longrightarrow> mem_range mem w p n = mem_range mem w' p n"
  by (simp add: mem_range_def)

lemma mem_range_copied: "copies mem d s n w w' \<Longrightarrow> mem_range mem w' d n = mem_range mem w s n"
  by (intro nth_equalityI) (simp_all add: copies_def)

lemma mem_range_apart:
  "copies mem d s n w w' \<Longrightarrow> apart (d, n) (p, m) \<Longrightarrow> mem_range mem w' p m = mem_range mem w p m"
  by (intro mem_range_cong) (auto simp: copies_def apart_def)

lemma apart_sym: "apart x y \<longleftrightarrow> apart y x"
  by (auto simp: apart_def)

lemma separate_Cons:
  "separate (e # secs) \<longleftrightarrow>
     apart (ms_originAddr (snd e), ms_size (snd e)) (ms_snapshotAddr (snd e), ms_size (snd e)) \<and>
     (\<forall>e' \<in> set secs. \<forall>x \<in> set (section_blocks e). \<forall>y \<in> set (section_blocks e'). apart x y) \<and> separate secs"
  by (auto simp: separate_def section_blocks_def sorted_wrt_append)

lemma separate_snap_origin:
  assumes "separate secs" "e \<in> set secs" "e' \<in> set secs"
  shows "apart (ms_snapshotAddr (snd e), ms_size (snd e)) (ms_originAddr (snd e'), ms_size (snd e'))"
  using assms
proof (induction secs)
  case (Cons x secs)
  have all: "\<And>y. y \<in> set secs \<Longrightarrow> apart (ms_snapshotAddr (snd x), ms_size (snd x)) (ms_originAddr (snd y), ms_size (snd y)) \<and>
      apart (ms_originAddr (snd x), ms_size (snd x)) (ms_snapshotAddr (snd y), ms_size (snd y))"
    using Cons.prems(1) by (auto simp: separate_Cons section_blocks_def)
  have self: "apart (ms_originAddr (snd x), ms_size (snd x)) (ms_snapshotAddr (snd x), ms_size (snd x))" "separate secs"
    using Cons.prems(1) by (auto simp: separate_Cons)
  then show ?case using Cons all apart_sym by (metis set_ConsD)
qed simp

lemma GetCurrentStream_mem: "quiet_law api mem \<Longrightarrow> mem (snd (GetCurrentStream api stream w)) = mem w"
  using quiet_lawD(3) by (auto simp: GetCurrentStream_def split: prod.splits)

lemma copy_section_copies:
  assumes "copy_law api mem" "quiet_law api mem" "copy_section api sec stream dir w = (ok, w')"
  shows "ok \<and> copies mem (fst (copy_ends sec dir)) (snd (copy_ends sec dir)) (ms_size sec) w w'"
proof -
  obtain d s where e: "copy_ends sec dir = (d, s)" by (cases "copy_ends sec dir")
  show ?thesis
  proof (cases "stream = 0")
    case True
    obtain r1 w1 where c: "api_copy api d (ms_size sec) s (ms_size sec) w = (r1, w1)"
      by (cases "api_copy api d (ms_size sec) s (ms_size sec) w")
    show ?thesis using True assms(3) e c copy_lawD(1) [OF assms(1) c]
      by (simp add: copy_section_def MemCopySync_def)
  next
    case False
    obtain r1 w1 where c: "api_copyAsync api d (ms_size sec) s (ms_size sec) stream w = (r1, w1)"
      by (cases "api_copyAsync api d (ms_size sec) s (ms_size sec) stream w")
    obtain r2 w2 where y: "api_sync api stream w1 = (r2, w2)" by (cases "api_sync api stream w1")
    show ?thesis
      using False assms(3) c y e copy_lawD(2) [OF assms(1) c] quiet_lawD(2) [OF assms(2) y]
      by (auto simp: copy_section_def MemCopyWithStream_def copies_def)
  qed
qed

definition in_snapshot :: "(ptr \<times> MemSection) list \<Rightarrow> ptr \<Rightarrow> bool" where
  "in_snapshot secs a \<longleftrightarrow> (\<exists>e \<in> set secs. ms_snapshotAddr (snd e) \<le> a \<and> a < ms_snapshotAddr (snd e) + ms_size (snd e))"

definition in_origin :: "(ptr \<times> MemSection) list \<Rightarrow> ptr \<Rightarrow> bool" where
  "in_origin secs a \<longleftrightarrow> (\<exists>e \<in> set secs. ms_originAddr (snd e) \<le> a \<and> a < ms_originAddr (snd e) + ms_size (snd e))"

lemma CreateSnapshot_copies:
  assumes "copy_law api mem" "quiet_law api mem" "CreateSnapshot api sec stream w = (True, sec', w')"
  shows "ms_originAddr sec' = ms_originAddr sec \<and> ms_size sec' = ms_size sec \<and> ms_originAddr sec' \<noteq> 0 \<and>
    ms_snapshotAddr sec' \<noteq> 0 \<and> copies mem (ms_snapshotAddr sec') (ms_originAddr sec') (ms_size sec') w w'"
proof -
  obtain r p w1 where m: "(if ms_snapshotAddr sec = 0 then api_malloc api (ms_size sec) (ms_policy sec) w
      else ((ACL_SUCCESS, ms_snapshotAddr sec), w)) = ((r, p), w1)" by (metis prod.exhaust)
  have s: "ms_originAddr sec \<noteq> 0" "r = ACL_SUCCESS" "sec' = sec\<lparr>ms_snapshotAddr := p\<rparr>"
    "copy_section api sec' stream ORIGIN_TO_SNAPSHOT w1 = (True, w')"
    using assms(3) m by (auto simp: CreateSnapshot_def Let_def split: if_splits prod.splits)
  have "p \<noteq> 0 \<and> mem w1 = mem w"
    using m s(2) quiet_lawD(1) [OF assms(2)] by (auto split: if_splits)
  then show ?thesis
    using s copy_section_copies [OF assms(1,2) s(4)] copies_from [of mem w1 w] by (simp add: copy_ends_def)
qed

lemma backup_loop_copies:
  assumes "copy_law api mem" "quiet_law api mem" "backup_loop api secs stream w = (True, secs', stream', w')" "separate secs'"
  shows "(\<forall>e \<in> set secs'. snap_range mem w' e = origin_range mem w e \<and> ms_originAddr (snd e) \<noteq> 0 \<and> ms_snapshotAddr (snd e) \<noteq> 0) \<and>
    map (\<lambda>e. (fst e, ms_originAddr (snd e), ms_size (snd e))) secs' = map (\<lambda>e. (fst e, ms_originAddr (snd e), ms_size (snd e))) secs \<and>
    (\<forall>a. \<not> in_snapshot secs' a \<longrightarrow> mem w' a = mem w a)"
  using assms(3,4)
proof (induction secs arbitrary: secs' stream w)
  case (Cons e secs)
  obtain a sec where e: "e = (a, sec)" by (cases e)
  obtain st1 w1 where st: "GetCurrentStream api stream w = (st1, w1)" by (cases "GetCurrentStream api stream w")
  have m1: "mem w1 = mem w" using GetCurrentStream_mem [OF assms(2), of stream w] st by simp
  obtain sec' w2 secs2 where c: "CreateSnapshot api sec st1 w1 = (True, sec', w2)"
    and l: "backup_loop api secs st1 w2 = (True, secs2, stream', w')" and s': "secs' = (a, sec') # secs2"
    using Cons.prems(1) e st by (auto simp: Let_def split: prod.splits if_splits)
  note cc = CreateSnapshot_copies [OF assms(1,2) c]
  have sep: "separate secs2" and ap: "\<And>e' x. e' \<in> set secs2 \<Longrightarrow> x \<in> set (section_blocks e') \<Longrightarrow>
      apart (ms_snapshotAddr sec', ms_size sec') x"
    using Cons.prems(2) s' by (auto simp: separate_Cons section_blocks_def)
  note IH = Cons.IH [OF l sep]
  have copy: "copies mem (ms_snapshotAddr sec') (ms_originAddr sec') (ms_size sec') w w2"
    using cc copies_from [OF m1] by auto
  have "origin_range mem w2 e' = origin_range mem w e'" if "e' \<in> set secs2" for e'
    using mem_range_apart [OF copy] ap [OF that] by (simp add: origin_range_def section_blocks_def)
  moreover have "snap_range mem w' (a, sec') = origin_range mem w (a, sec')"
  proof -
    have "mem_range mem w' (ms_snapshotAddr sec') (ms_size sec') = mem_range mem w2 (ms_snapshotAddr sec') (ms_size sec')"
    proof (rule mem_range_cong)
      fix b assume b: "ms_snapshotAddr sec' \<le> b" "b < ms_snapshotAddr sec' + ms_size sec'"
      have "\<not> in_snapshot secs2 b" using b ap by (fastforce simp: in_snapshot_def section_blocks_def apart_def)
      then show "mem w' b = mem w2 b" using IH by blast
    qed
    then show ?thesis using mem_range_copied [OF copy] by (simp add: snap_range_def origin_range_def)
  qed
  moreover have "mem w' b = mem w b" if "\<not> in_snapshot secs' b" for b
  proof -
    have "\<not> in_snapshot secs2 b" "\<not> (ms_snapshotAddr sec' \<le> b \<and> b < ms_snapshotAddr sec' + ms_size sec')"
      using that s' by (auto simp: in_snapshot_def)
    then show ?thesis using IH copy by (auto simp: copies_def)
  qed
  ultimately show ?case using IH cc s' e by auto
qed simp

lemma restore_loop_copies:
  assumes "copy_law api mem" "quiet_law api mem" "restore_loop api secs stream w = (stream', w')" "separate secs"
    and "\<forall>e \<in> set secs. ms_originAddr (snd e) \<noteq> 0 \<and> ms_snapshotAddr (snd e) \<noteq> 0"
  shows "(\<forall>e \<in> set secs. origin_range mem w' e = snap_range mem w e) \<and> (\<forall>a. \<not> in_origin secs a \<longrightarrow> mem w' a = mem w a)"
  using assms(3-5)
proof (induction secs arbitrary: stream w)
  case (Cons e secs)
  obtain a sec where e: "e = (a, sec)" by (cases e)
  obtain st1 w1 where st: "GetCurrentStream api stream w = (st1, w1)" by (cases "GetCurrentStream api stream w")
  have m1: "mem w1 = mem w" using GetCurrentStream_mem [OF assms(2), of stream w] st by simp
  obtain ok w2 where c: "copy_section api sec st1 SNAPSHOT_TO_ORIGIN w1 = (ok, w2)" and l: "restore_loop api secs st1 w2 = (stream', w')"
    using Cons.prems(1,3) e st by (auto simp: RestoreFromSnapshot_def Let_def split: prod.splits)
  have copy: "copies mem (ms_originAddr sec) (ms_snapshotAddr sec) (ms_size sec) w w2"
    using copy_section_copies [OF assms(1,2) c] copies_from [of mem w1 w] m1 by (simp add: copy_ends_def)
  have sep: "separate secs" and ap: "\<And>e' x. e' \<in> set secs \<Longrightarrow> x \<in> set (section_blocks e') \<Longrightarrow>
      apart (ms_originAddr sec, ms_size sec) x"
    using Cons.prems(2) e by (auto simp: separate_Cons section_blocks_def)
  note IH = Cons.IH [OF l sep]
  have "snap_range mem w2 e' = snap_range mem w e'" if "e' \<in> set secs" for e'
    using mem_range_apart [OF copy] ap [OF that] by (simp add: snap_range_def section_blocks_def)
  moreover have "origin_range mem w' (a, sec) = snap_range mem w (a, sec)"
  proof -
    have "mem_range mem w' (ms_originAddr sec) (ms_size sec) = mem_range mem w2 (ms_originAddr sec) (ms_size sec)"
    proof (rule mem_range_cong)
      fix b assume b: "ms_originAddr sec \<le> b" "b < ms_originAddr sec + ms_size sec"
      have "\<not> in_origin secs b" using b ap by (fastforce simp: in_origin_def section_blocks_def apart_def)
      then show "mem w' b = mem w2 b" using IH Cons.prems(3) by simp
    qed
    then show ?thesis using mem_range_copied [OF copy] by (simp add: snap_range_def origin_range_def)
  qed
  moreover have "mem w' b = mem w b" if "\<not> in_origin (e # secs) b" for b
    using that IH Cons.prems(3) copy e by (auto simp: in_origin_def copies_def)
  ultimately show ?case using IH Cons.prems(3) e by auto
qed simp

text \<open>Runs of kernels, each followed by a restore.\<close>

fun replay :: "'w acl_api \<Rightarrow> int \<Rightarrow> ('w \<Rightarrow> 'w) list \<Rightarrow> MemoryContext \<Rightarrow> 'w \<Rightarrow> MemoryContext \<times> 'w" where
  "replay api devId [] mc w = (mc, w)"
| "replay api devId (k # ks) mc w =
     (let (ok, mc, w) = Restore api devId mc (k w) in replay api devId ks mc w)"

definition bucket_of :: "int \<Rightarrow> MemoryContext \<Rightarrow> (ptr \<times> MemSection) list" where
  "bucket_of devId mc = db_memSectionMap (fst (GetBucket devId mc))"

lemma bucket_of_put [simp]: "bucket_of devId (omap_put devId b mc) = db_memSectionMap b"
  by (simp add: bucket_of_def GetBucket_def)

lemma GetBucket_fst: "GetBucket devId mc = (b, mc') \<Longrightarrow> db_memSectionMap b = bucket_of devId mc"
  by (simp add: bucket_of_def)

definition keeps_snapshots :: "('w \<Rightarrow> ptr \<Rightarrow> byte) \<Rightarrow> (ptr \<times> MemSection) list \<Rightarrow> ('w \<Rightarrow> 'w) \<Rightarrow> bool" where
  \<comment> \<open>a kernel does not write the snapshots, which it does not know\<close>
  "keeps_snapshots mem secs k \<longleftrightarrow> (\<forall>w a. in_snapshot secs a \<longrightarrow> mem (k w) a = mem w a)"

lemma replay_contents:
  assumes laws: "copy_law api mem" "quiet_law api mem" and "separate secs"
    and nz: "\<forall>e \<in> set secs. ms_originAddr (snd e) \<noteq> 0 \<and> ms_snapshotAddr (snd e) \<noteq> 0"
    and "bucket_of devId mc = secs" "\<forall>k \<in> set ks. keeps_snapshots mem secs k"
    and "\<forall>e \<in> set secs. snap_range mem w e = c e" "ks = [] \<longrightarrow> (\<forall>e \<in> set secs. origin_range mem w e = c e)"
  shows "\<forall>e \<in> set secs. origin_range mem (snd (replay api devId ks mc w)) e = c e"
  using assms(5-8)
proof (induction ks arbitrary: mc w)
  case (Cons k ks)
  obtain b mc0 where b: "GetBucket devId mc = (b, mc0)" by (cases "GetBucket devId mc")
  obtain st w1 where l: "restore_loop api secs (db_stream b) (k w) = (st, w1)"
    by (cases "restore_loop api secs (db_stream b) (k w)")
  have map: "db_memSectionMap b = secs" using Cons.prems(1) GetBucket_fst [OF b] by simp
  define mc1 where "mc1 = omap_put devId (b\<lparr>db_stream := st\<rparr>) mc0"
  have r: "Restore api devId mc (k w) = (True, mc1, w1)" using b l map by (simp add: Restore_def mc1_def)
  have mc1: "bucket_of devId mc1 = secs" using map by (simp add: mc1_def)
  note rl = restore_loop_copies [OF laws l assms(3) nz]
  have kk: "keeps_snapshots mem secs k" using Cons.prems(2) by simp
  have snapk: "snap_range mem (k w) e = c e" if "e \<in> set secs" for e
  proof -
    have "snap_range mem (k w) e = snap_range mem w e"
      unfolding snap_range_def
    proof (rule mem_range_cong)
      fix a assume "ms_snapshotAddr (snd e) \<le> a" "a < ms_snapshotAddr (snd e) + ms_size (snd e)"
      then have "in_snapshot secs a" using that by (auto simp: in_snapshot_def)
      then show "mem (k w) a = mem w a" using kk by (simp add: keeps_snapshots_def)
    qed
    then show ?thesis using Cons.prems(3) that by simp
  qed
  have org: "\<forall>e \<in> set secs. origin_range mem w1 e = c e" using rl snapk by simp
  have "\<forall>e \<in> set secs. snap_range mem w1 e = c e"
  proof
    fix e assume e: "e \<in> set secs"
    have "snap_range mem w1 e = snap_range mem (k w) e"
      unfolding snap_range_def
    proof (rule mem_range_cong)
      fix a assume a: "ms_snapshotAddr (snd e) \<le> a" "a < ms_snapshotAddr (snd e) + ms_size (snd e)"
      have "\<not> in_origin secs a"
        using separate_snap_origin [OF assms(3) e] a by (fastforce simp: in_origin_def apart_def)
      then show "mem w1 a = mem (k w) a" using rl by blast
    qed
    then show "snap_range mem w1 e = c e" using snapk e by simp
  qed
  then show ?case using Cons.IH [OF mc1, of w1] Cons.prems(2) org r by simp
qed simp

text \<open>
  Every replay of a kernel starts from the memory that the first one would have seen. After a
  backup that succeeded, whatever the kernels of any number of replays write (short of the
  snapshots), the restore after each of them brings all recorded blocks back to their contents
  at the backup, for blocks and snapshots that do not overlap.
\<close>

theorem replays_start_equal:
  assumes "copy_law api mem" "quiet_law api mem"
    and "Backup api devId mc w = (True, mc1, w1)" "separate (bucket_of devId mc1)"
    and "\<forall>k \<in> set ks. keeps_snapshots mem (bucket_of devId mc1) k" "ks \<noteq> []"
  shows "\<forall>e \<in> set (bucket_of devId mc1).
    origin_range mem (snd (replay api devId ks mc1 w1)) e = origin_range mem w e"
proof -
  obtain b mc0 where b: "GetBucket devId mc = (b, mc0)" by (cases "GetBucket devId mc")
  obtain st secs where l: "backup_loop api (db_memSectionMap b) (db_stream b) w = (True, secs, st, w1)"
    and mc1: "bucket_of devId mc1 = secs"
    using assms(3) b by (auto simp: Backup_def split: prod.splits)
  have sep: "separate secs" using assms(4) mc1 by simp
  note bl = backup_loop_copies [OF assms(1,2) l sep]
  show ?thesis
    using replay_contents [OF assms(1,2) sep _ mc1, of ks w1 "origin_range mem w"] bl assms(5,6) mc1 by simp
qed

text \<open>The flat device, with blocks that are never at address zero.\<close>

definition pos_api :: "flat acl_api" where
  "pos_api = flat_api\<lparr>api_malloc := (\<lambda>n _ w. ((0, Suc (fl_next w)), w\<lparr>fl_next := Suc (fl_next w) + n\<rparr>))\<rparr>"

lemma flat_put_copies: "copies fl_mem d s n w (flat_put d (mem_range fl_mem w s n) w)"
  by (auto simp: copies_def flat_put_def fun_eq_iff)

lemma pos_laws: "copy_law pos_api fl_mem" "quiet_law pos_api fl_mem"
  by (simp_all add: copy_law_def quiet_law_def pos_api_def flat_api_def ACL_SUCCESS_def flat_put_copies)

definition two_blocks :: MemoryContext where
  "two_blocks = Append_section 0 32 8 (Append_section 0 16 8 [])"

lemma two_blocks_backup:
  "\<exists>mc1 w1. Backup pos_api 0 two_blocks flat0 = (True, mc1, w1) \<and>
     bucket_of 0 mc1 =
       [(16, \<lparr>ms_originAddr = 16, ms_snapshotAddr = 4097, ms_size = 8, ms_policy = 0\<rparr>),
        (32, \<lparr>ms_originAddr = 32, ms_snapshotAddr = 4106, ms_size = 8, ms_policy = 0\<rparr>)]"
  by (simp add: Backup_def two_blocks_def Append_section_def GetBucket_def bucket0_def bucket_of_def
      CreateSnapshot_def copy_section_def MemCopyWithStream_def MemCopySync_def copy_ends_def GetCurrentStream_def pos_api_def
      flat_api_def ACL_SUCCESS_def flat0_def flat_put_def ACL_MEM_MALLOC_HUGE_FIRST_def Let_def)

theorem replays_start_equal_witness:
  "\<exists>mc1 w1. Backup pos_api 0 two_blocks flat0 = (True, mc1, w1) \<and>
     mem_range fl_mem (snd (replay pos_api 0 [flat_put 16 [1, 2], flat_put 33 [3]] mc1 w1)) 32 8 = mem_range fl_mem flat0 32 8"
proof -
  obtain mc1 w1 where b: "Backup pos_api 0 two_blocks flat0 = (True, mc1, w1)"
    and secs: "bucket_of 0 mc1 =
       [(16, \<lparr>ms_originAddr = 16, ms_snapshotAddr = 4097, ms_size = 8, ms_policy = 0\<rparr>),
        (32, \<lparr>ms_originAddr = 32, ms_snapshotAddr = 4106, ms_size = 8, ms_policy = 0\<rparr>)]"
    using two_blocks_backup by blast
  have "separate (bucket_of 0 mc1)" by (simp add: secs separate_def section_blocks_def apart_def)
  moreover have "\<forall>k \<in> set [flat_put 16 [1, 2], flat_put 33 [3]]. keeps_snapshots fl_mem (bucket_of 0 mc1) k"
    by (auto simp: secs keeps_snapshots_def in_snapshot_def flat_put_def)
  ultimately have "\<forall>e \<in> set (bucket_of 0 mc1).
      origin_range fl_mem (snd (replay pos_api 0 [flat_put 16 [1, 2], flat_put 33 [3]] mc1 w1)) e = origin_range fl_mem flat0 e"
    using replays_start_equal [OF pos_laws b] by blast
  then show ?thesis using b by (simp add: secs origin_range_def)
qed

text \<open>The restore itself reports success also when blocks could not be restored.\<close>

lemma restore_reports_success: "fst (Restore api devId mc w) = True"
  by (simp add: Restore_def split: prod.splits)

section \<open>The kernel buffer is never lost\<close>

text \<open>Blocks in use, as a flat device counts them: an allocation adds one, a release takes it.\<close>

definition counting_law :: "'w acl_api \<Rightarrow> ('w \<Rightarrow> ptr set) \<Rightarrow> bool" where
  "counting_law api blocks \<longleftrightarrow>
     (\<forall>n p w. case api_malloc api n p w of ((r, q), w') \<Rightarrow>
        if r = ACL_SUCCESS then q \<noteq> 0 \<and> q \<notin> blocks w \<and> blocks w' = insert q (blocks w) else q = 0 \<and> blocks w' = blocks w) \<and>
     (\<forall>q w. blocks (snd (api_free api q w)) = blocks w - {q}) \<and>
     (\<forall>w. blocks (snd (api_getDevice api w)) = blocks w)"

datatype dm_op = DmMalloc nat | DmFree | DmFlags bool bool

fun dm_step :: "'w acl_api \<Rightarrow> DevMemManager \<times> 'w \<Rightarrow> dm_op \<Rightarrow> DevMemManager \<times> 'w" where
  "dm_step api (d, w) (DmMalloc sz) = snd (MallocMemory api sz d w)"
| "dm_step api (d, w) DmFree = dm_Free api d w"
| "dm_step api (d, w) (DmFlags i k) = (SetSkipKernelFlag k (SetMemoryInitFlag i d), w)"

definition dm_owns :: "('w \<Rightarrow> ptr set) \<Rightarrow> ptr set \<Rightarrow> DevMemManager \<times> 'w \<Rightarrow> bool" where
  \<comment> \<open>the blocks in use are the program's own and the buffer\<close>
  "dm_owns blocks base = (\<lambda>(d, w).
     blocks w = (if dm_memPtr d = 0 then base else insert (dm_memPtr d) base) \<and> dm_memPtr d \<notin> base \<and>
     (dm_memPtr d = 0 \<longrightarrow> dm_memSize d = 0 \<and> dm_deviceId d = -1))"

lemma dm_Free_owns:
  assumes "counting_law api blocks" "dm_owns blocks base (d, w)" "0 \<notin> base" "dm_Free api d w = (d', w')"
  shows "dm_memPtr d' = 0 \<and> dm_memSize d' = 0 \<and> dm_deviceId d' = -1 \<and> blocks w' = base"
  using assms by (auto simp: dm_Free_def counting_law_def dm_owns_def split: if_splits)

lemma dm_step_owns:
  assumes "counting_law api blocks" "dm_owns blocks base dw" "0 \<notin> base"
  shows "dm_owns blocks base (dm_step api dw oper)"
proof -
  obtain d w where dw: "dw = (d, w)" by (cases dw)
  note ok = assms(2) [unfolded dw]
  show ?thesis
  proof (cases oper)
    case (DmMalloc sz)
    obtain r dev w1 where g: "api_getDevice api w = ((r, dev), w1)" by (metis prod.exhaust)
    have b1: "blocks w1 = blocks w" using assms(1) g unfolding counting_law_def by (metis snd_conv)
    obtain d2 w2 where f: "dm_Free api d w1 = (d2, w2)" by (cases "dm_Free api d w1")
    have ok1: "dm_owns blocks base (d, w1)" using ok b1 by (simp add: dm_owns_def)
    note fr = dm_Free_owns [OF assms(1) ok1 assms(3) f]
    obtain e p w3 where m: "api_malloc api sz ACL_MEM_MALLOC_HUGE_FIRST w2 = ((e, p), w3)" by (metis prod.exhaust)
    have mm: "if e = ACL_SUCCESS then p \<noteq> 0 \<and> p \<notin> blocks w2 \<and> blocks w3 = insert p (blocks w2) else p = 0 \<and> blocks w3 = blocks w2"
      using assms(1) m unfolding counting_law_def by (metis (mono_tags, lifting) case_prod_conv)
    show ?thesis
      using ok1 fr mm g f m assms(3) by (auto simp: DmMalloc dw MallocMemory_def Let_def dm_owns_def split: if_splits)
  next
    case DmFree
    then show ?thesis using dm_Free_owns [OF assms(1) ok assms(3)] assms(3)
      by (cases "dm_Free api d w") (auto simp: dw dm_owns_def)
  next
    case (DmFlags i k)
    then show ?thesis using ok by (simp add: dw dm_owns_def SetSkipKernelFlag_def SetMemoryInitFlag_def)
  qed
qed

text \<open>
  Whatever requests of the kernel buffer succeed, are served from the kept buffer or fail, on
  whatever devices, and whenever the buffer is given up, the manager holds at most one block of
  device memory, the one it would hand out, and after giving it up none: no block is lost and
  none of the program's is released.
\<close>

theorem kernel_buffer_not_leaked:
  assumes "counting_law api blocks" "0 \<notin> blocks w"
  shows "dm_owns blocks (blocks w) (foldl (dm_step api) (dm0, w) ops) \<and>
    blocks (snd (dm_step api (foldl (dm_step api) (dm0, w) ops) DmFree)) = blocks w"
proof -
  have "dm_owns blocks (blocks w) (foldl (dm_step api) dw ops)" if "dm_owns blocks (blocks w) dw" for dw
    using that by (induction ops arbitrary: dw) (simp_all add: dm_step_owns [OF assms(1) _ assms(2)])
  then have ok: "dm_owns blocks (blocks w) (foldl (dm_step api) (dm0, w) ops)"
    using assms(2) by (simp add: dm_owns_def dm0_def)
  obtain d v where dv: "foldl (dm_step api) (dm0, w) ops = (d, v)" by (cases "foldl (dm_step api) (dm0, w) ops")
  show ?thesis using ok dm_Free_owns [OF assms(1) ok [unfolded dv] assms(2)]
    by (cases "dm_Free api d v") (simp add: dv)
qed

definition counted_api :: "nat list acl_api" where
  \<comment> \<open>a device of blocks only; it refuses large ones\<close>
  "counted_api = \<lparr>api_malloc = (\<lambda>n _ w. if n > 100 then ((1, 0), w) else ((0, Suc (sum_list w)), Suc (sum_list w) # w)),
      api_free = (\<lambda>p w. (0, removeAll p w)), api_memset = (\<lambda>p _ v n w. (0, w)), api_read = (\<lambda>p n w. ((0, []), w)),
      api_write = (\<lambda>p bs w. (0, w)), api_copy = (\<lambda>d _ s n w. (0, w)), api_copyHost = (\<lambda>bs w. ((0, bs), w)),
      api_copyAsync = (\<lambda>d _ s n _ w. (0, w)), api_sync = (\<lambda>_ w. (0, w)), api_defaultStream = (\<lambda>w. ((0, 7), w)),
      api_getDevice = (\<lambda>w. ((0, 0), w)), api_mallocHost = (\<lambda>_ w. ((1, 0), w)), api_freeHost = (\<lambda>p w. (0, w))\<rparr>"

lemma counted_law: "counting_law counted_api set"
  using member_le_sum_list by (fastforce simp: counting_law_def counted_api_def ACL_SUCCESS_def)

theorem kernel_buffer_not_leaked_witness:
  "set (snd (dm_step counted_api (foldl (dm_step counted_api) (dm0, [50, 60])
     [DmMalloc 10, DmMalloc 20, DmMalloc 200, DmMalloc 8]) DmFree)) = {50, 60}"
  using kernel_buffer_not_leaked [OF counted_law, of "[50, 60]" "[DmMalloc 10, DmMalloc 20, DmMalloc 200, DmMalloc 8]"] by simp

end
