(* ===== verification/AllocHooks.thy ===== *)
theory AllocHooks
  imports Hijack MemGuard MemReport Snapshot
begin

text \<open>
  Models the hooks of the memory functions: csrc/runtime/HijackedFuncOfMalloc.cpp, Free, MapMem,
  UnmapMem, Memset, Memcpy, csrc/acl_rt_impl/HijackedFuncOfAclrtMallocImpl.cpp and its variants,
  Free, Memset, Memcpy, MapMem and UnmapMem, and the entry points of csrc/bind/BindSanitizer.cpp
  that call them under the layer guard. A hook changes the requested size (guard zones, theory
  MemGuard), calls the vendor's function, and then puts the block into the tables of the sanitizer
  (theory MemReport) or of the profiler (theory Snapshot). The vendor's function is a parameter on
  the whole state of the process, since the real ACL function calls the runtime function of the
  same process again, which is hooked as well.
\<close>

section \<open>The process\<close>

record hook_env =
  he_selector :: FuncSelector
  he_cli :: SanitizerCli
  he_soc :: string
  he_devId :: int  \<comment> \<open>the device of the calling thread\<close>
  he_isSimulator :: bool
  he_isAppReplay :: bool
  he_lcclFlag :: bool

record 'w process =
  pg_layers :: layers
  pg_guard :: MemoryGuard
  pg_report :: report_state
  pg_context :: MemoryContext
  pg_dev :: 'w

type_synonym 'w alloc_fn = "nat \<Rightarrow> nat \<Rightarrow> 'w process \<Rightarrow> (acl_error \<times> ptr) \<times> 'w process"
  \<comment> \<open>size and policy (or type); the status and the pointer stored\<close>

definition ACL_ERROR_INTERNAL_ERROR :: acl_error where
  "ACL_ERROR_INTERNAL_ERROR = 500000"

definition RT_ERROR_RESERVED :: acl_error where
  "RT_ERROR_RESERVED = 0x99"

definition ACL_MEM_MALLOC_HUGE1G_ONLY :: nat where
  "ACL_MEM_MALLOC_HUGE1G_ONLY = 6"

definition ACL_MEM_MALLOC_HUGE1G_ONLY_P2P :: nat where
  "ACL_MEM_MALLOC_HUGE1G_ONLY_P2P = 7"

definition acl_p2p :: "nat \<Rightarrow> bool" where
  "acl_p2p policy \<longleftrightarrow> policy \<in> {3, 4, 5, ACL_MEM_MALLOC_HUGE1G_ONLY_P2P}"

definition rt_p2p :: "nat \<Rightarrow> bool" where
  "rt_p2p type \<longleftrightarrow> type = 0x10 \<or> type = 0x11"

definition blockAlignSize :: nat where
  "blockAlignSize = 32"

definition with_guard :: "(MemoryGuard \<Rightarrow> 'r \<times> MemoryGuard) \<Rightarrow> 'w process \<Rightarrow> 'r \<times> 'w process" where
  "with_guard f p = (let (r, g) = f (pg_guard p) in (r, p\<lparr>pg_guard := g\<rparr>))"

definition Notify_record :: "HostMemRecord \<Rightarrow> 'w process \<Rightarrow> 'w process" where
  "Notify_record r p = p\<lparr>pg_report := send_record r (pg_report p)\<rparr>"

definition prof_append :: "hook_env \<Rightarrow> acl_error \<Rightarrow> bool \<Rightarrow> ptr \<Rightarrow> nat \<Rightarrow> 'w process \<Rightarrow> 'w process" where
  \<comment> \<open>the profiler's part of the allocation hooks\<close>
  "prof_append env ret p2p ptr sz p =
     (if IsOpProf (he_selector env) \<and> \<not> he_isSimulator env \<and> ret = ACL_SUCCESS \<and>
         \<not> he_isAppReplay env \<and> \<not> he_lcclFlag env \<and> \<not> p2p
      then p\<lparr>pg_context := Append_section (he_devId env) ptr sz (pg_context p)\<rparr> else p)"

definition prof_discard :: "'w acl_api \<Rightarrow> hook_env \<Rightarrow> ptr \<Rightarrow> 'w process \<Rightarrow> 'w process" where
  "prof_discard api env ptr p =
     (if IsOpProf (he_selector env) \<and> \<not> he_isSimulator env then
        let (mc, w) = Discard api (he_devId env) ptr (pg_context p) (pg_dev p) in
        p\<lparr>pg_context := mc, pg_dev := w\<rparr>
      else p)"

section \<open>Allocation hooks\<close>

definition Malloc_Post ::
  "MemInfoSrc \<Rightarrow> bool \<Rightarrow> (nat \<Rightarrow> nat) \<Rightarrow> bool \<Rightarrow> hook_env \<Rightarrow> nat \<Rightarrow> acl_error \<times> ptr \<Rightarrow> 'w process \<Rightarrow>
   (acl_error \<times> ptr) \<times> 'w process"
where
  \<comment> \<open>the common shape of the hooks' \<open>Post\<close>: the source, whether the block enters the table, the
    size that is reported, and whether the block is a peer-to-peer one\<close>
  "Malloc_Post src cache reported p2p env sz = (\<lambda>(ret, ptr) p.
     if IsSanitizer (he_selector env) \<and> ret \<noteq> ACL_SUCCESS then ((ret, ptr), p)
     else
       let (ptr, p) =
             (if IsSanitizer (he_selector env) then
                let (ptr, p) = with_guard (MallocProc (he_devId env) ptr sz) p;
                    r = mem_record MALLOC ptr (reported sz) src DEFAULT 0;
                    p = (if cache then p\<lparr>pg_report := (pg_report p)\<lparr>rs_mm :=
                           CacheMemory_MALLOC ptr src (reported sz) True (rs_mm (pg_report p))\<rparr>\<rparr> else p) in
                (ptr, Notify_record r p)
              else (ptr, p)) in
       ((ret, ptr), prof_append env ret p2p ptr sz p))"

definition Malloc_Call ::
  "acl_error \<Rightarrow> (acl_error \<times> ptr \<Rightarrow> 'w process \<Rightarrow> (acl_error \<times> ptr) \<times> 'w process) \<Rightarrow> 'w alloc_fn option \<Rightarrow>
   hook_env \<Rightarrow> 'w alloc_fn"
where
  \<comment> \<open>\<open>Call\<close> of the hooks; when the loader did not find the vendor's function nothing is stored, here 0\<close>
  "Malloc_Call missing post origin env sz policy p =
     (let (actualSize, p) = with_guard (GetTotalSize (he_selector env) (he_cli env) sz) p in
      case origin of
        None \<Rightarrow> ((missing, 0), p)
      | Some f \<Rightarrow> let (res, p) = f actualSize policy p in post res p)"

definition acl_reported :: "hook_env \<Rightarrow> nat \<Rightarrow> nat \<Rightarrow> nat" where
  "acl_reported env policy sz =
     (if IsAscend950 (he_soc env) \<or> policy = ACL_MEM_MALLOC_HUGE1G_ONLY \<or> policy = ACL_MEM_MALLOC_HUGE1G_ONLY_P2P
      then CeilByAlignSize64 blockAlignSize sz
      else wrap64 (CeilByAlignSize64 blockAlignSize sz + blockAlignSize))"

definition AclrtMalloc_Post :: "hook_env \<Rightarrow> nat \<Rightarrow> nat \<Rightarrow> acl_error \<times> ptr \<Rightarrow> 'w process \<Rightarrow> (acl_error \<times> ptr) \<times> 'w process" where
  "AclrtMalloc_Post env sz policy = Malloc_Post ACL True (acl_reported env policy) (acl_p2p policy) env sz"

definition AclrtMalloc_Call :: "'w alloc_fn option \<Rightarrow> hook_env \<Rightarrow> 'w alloc_fn" where
  "AclrtMalloc_Call origin env sz policy = Malloc_Call ACL_ERROR_INTERNAL_ERROR (AclrtMalloc_Post env sz policy) origin env sz policy"

definition AclrtMallocWithCfg_Post :: "hook_env \<Rightarrow> nat \<Rightarrow> nat \<Rightarrow> acl_error \<times> ptr \<Rightarrow> 'w process \<Rightarrow> (acl_error \<times> ptr) \<times> 'w process" where
  "AclrtMallocWithCfg_Post env sz policy = Malloc_Post ACL True (acl_reported env policy) (acl_p2p policy) env sz"

definition AclrtMallocWithCfg_Call :: "'w alloc_fn option \<Rightarrow> hook_env \<Rightarrow> 'w alloc_fn" where
  "AclrtMallocWithCfg_Call origin env sz policy = Malloc_Call ACL_ERROR_INTERNAL_ERROR (AclrtMallocWithCfg_Post env sz policy) origin env sz policy"

definition AclrtMallocForTaskScheduler_Post :: "hook_env \<Rightarrow> nat \<Rightarrow> nat \<Rightarrow> acl_error \<times> ptr \<Rightarrow> 'w process \<Rightarrow> (acl_error \<times> ptr) \<times> 'w process" where
  "AclrtMallocForTaskScheduler_Post env sz policy = Malloc_Post ACL True (acl_reported env policy) (acl_p2p policy) env sz"

definition AclrtMallocForTaskScheduler_Call :: "'w alloc_fn option \<Rightarrow> hook_env \<Rightarrow> 'w alloc_fn" where
  "AclrtMallocForTaskScheduler_Call origin env sz policy =
     Malloc_Call ACL_ERROR_INTERNAL_ERROR (AclrtMallocForTaskScheduler_Post env sz policy) origin env sz policy"

definition AclrtMallocAlign32_Post :: "hook_env \<Rightarrow> nat \<Rightarrow> nat \<Rightarrow> acl_error \<times> ptr \<Rightarrow> 'w process \<Rightarrow> (acl_error \<times> ptr) \<times> 'w process" where
  "AclrtMallocAlign32_Post env sz policy = Malloc_Post ACL True (CeilByAlignSize64 blockAlignSize) (acl_p2p policy) env sz"

definition AclrtMallocAlign32_Call :: "'w alloc_fn option \<Rightarrow> hook_env \<Rightarrow> 'w alloc_fn" where
  "AclrtMallocAlign32_Call origin env sz policy = Malloc_Call ACL_ERROR_INTERNAL_ERROR (AclrtMallocAlign32_Post env sz policy) origin env sz policy"

definition AclrtMallocCached_Post :: "hook_env \<Rightarrow> nat \<Rightarrow> nat \<Rightarrow> acl_error \<times> ptr \<Rightarrow> 'w process \<Rightarrow> (acl_error \<times> ptr) \<times> 'w process" where
  "AclrtMallocCached_Post env sz policy = Malloc_Post ACL False (\<lambda>n. n) (acl_p2p policy) env sz"

definition AclrtMallocCached_Call :: "'w alloc_fn option \<Rightarrow> hook_env \<Rightarrow> 'w alloc_fn" where
  "AclrtMallocCached_Call origin env sz policy = Malloc_Call ACL_ERROR_INTERNAL_ERROR (AclrtMallocCached_Post env sz policy) origin env sz policy"

definition RtMalloc_Post :: "hook_env \<Rightarrow> nat \<Rightarrow> nat \<Rightarrow> acl_error \<times> ptr \<Rightarrow> 'w process \<Rightarrow> (acl_error \<times> ptr) \<times> 'w process" where
  "RtMalloc_Post env sz type = Malloc_Post RT True (\<lambda>n. n) (rt_p2p type) env sz"

definition RtMalloc_Call :: "'w alloc_fn option \<Rightarrow> hook_env \<Rightarrow> 'w alloc_fn" where
  "RtMalloc_Call origin env sz type = Malloc_Call RT_ERROR_RESERVED (RtMalloc_Post env sz type) origin env sz type"

section \<open>Release hooks\<close>

type_synonym 'w free_fn = "ptr \<Rightarrow> 'w process \<Rightarrow> acl_error \<times> 'w process"

definition Free_Pre :: "'w acl_api \<Rightarrow> MemInfoSrc \<Rightarrow> hook_env \<Rightarrow> ptr \<Rightarrow> 'w process \<Rightarrow> 'w process" where
  "Free_Pre api src env ptr p =
     (let p = (if IsSanitizer (he_selector env) then
                 let p = p\<lparr>pg_report := (pg_report p)\<lparr>rs_mm := CacheMemory_FREE ptr src (rs_mm (pg_report p))\<rparr>\<rparr>;
                     p = Notify_record (mem_record FREE ptr 0 src DEFAULT 0) p in
                 p\<lparr>pg_guard := FreeProc (he_devId env) ptr (pg_guard p)\<rparr>
               else p) in
      prof_discard api env ptr p)"

definition Free_Call :: "'w acl_api \<Rightarrow> acl_error \<Rightarrow> MemInfoSrc \<Rightarrow> 'w free_fn option \<Rightarrow> hook_env \<Rightarrow> 'w free_fn" where
  "Free_Call api missing src origin env ptr p =
     (let actualPtr = GetRealPtr (he_devId env) ptr (pg_guard p);
          p = Free_Pre api src env ptr p in
      case origin of None \<Rightarrow> (missing, p) | Some f \<Rightarrow> f actualPtr p)"

definition AclrtFree_Call :: "'w acl_api \<Rightarrow> 'w free_fn option \<Rightarrow> hook_env \<Rightarrow> 'w free_fn" where
  "AclrtFree_Call api = Free_Call api ACL_ERROR_INTERNAL_ERROR ACL"

definition AclrtFreeWithDevSync_Call :: "'w acl_api \<Rightarrow> 'w free_fn option \<Rightarrow> hook_env \<Rightarrow> 'w free_fn" where
  "AclrtFreeWithDevSync_Call api = Free_Call api ACL_ERROR_INTERNAL_ERROR ACL"

definition RtFree_Call :: "'w acl_api \<Rightarrow> 'w free_fn option \<Rightarrow> hook_env \<Rightarrow> 'w free_fn" where
  "RtFree_Call api = Free_Call api RT_ERROR_RESERVED RT"

section \<open>Mapped memory, sets, copies and host memory\<close>

definition AclrtMapMem_Post :: "hook_env \<Rightarrow> ptr \<Rightarrow> nat \<Rightarrow> acl_error \<Rightarrow> 'w process \<Rightarrow> acl_error \<times> 'w process" where
  "AclrtMapMem_Post env virPtr sz ret p =
     (if IsSanitizer (he_selector env) \<and> ret \<noteq> ACL_SUCCESS then (ret, p)
      else
        let p = (if IsSanitizer (he_selector env) then Notify_record (mem_record MALLOC virPtr sz ACL DEFAULT 0) p else p) in
        (ret, prof_append env ret False virPtr sz p))"

definition RtMapMem_Post :: "hook_env \<Rightarrow> ptr \<Rightarrow> nat \<Rightarrow> acl_error \<Rightarrow> 'w process \<Rightarrow> acl_error \<times> 'w process" where
  "RtMapMem_Post env devPtr sz ret p =
     (let p = (if IsSanitizer (he_selector env) then Notify_record (mem_record MALLOC devPtr sz RT DEFAULT 0) p else p) in
      (ret, prof_append env ret False devPtr sz p))"

definition UnmapMem_Pre :: "'w acl_api \<Rightarrow> MemInfoSrc \<Rightarrow> hook_env \<Rightarrow> ptr \<Rightarrow> 'w process \<Rightarrow> 'w process" where
  "UnmapMem_Pre api src env virPtr p =
     (let p = (if IsSanitizer (he_selector env) then Notify_record (mem_record FREE virPtr 0 src DEFAULT 0) p else p) in
      prof_discard api env virPtr p)"

definition AclrtUnmapMem_Pre :: "'w acl_api \<Rightarrow> hook_env \<Rightarrow> ptr \<Rightarrow> 'w process \<Rightarrow> 'w process" where
  "AclrtUnmapMem_Pre api = UnmapMem_Pre api ACL"

definition RtUnmapMem_Pre :: "'w acl_api \<Rightarrow> hook_env \<Rightarrow> ptr \<Rightarrow> 'w process \<Rightarrow> 'w process" where
  "RtUnmapMem_Pre api = UnmapMem_Pre api RT"

datatype DVmemType = DV_MEM_LOCK_HOST | DV_MEM_LOCK_DEV | DV_MEM_LOCK_DEV_DVPP | DV_MEM_OTHER

definition IsMemoryOnDevice :: "(ptr \<Rightarrow> DVmemType option) \<Rightarrow> ptr \<Rightarrow> bool" where
  \<comment> \<open>the driver's query, \<open>None\<close> when it fails\<close>
  "IsMemoryOnDevice attr ptr =
     (case attr ptr of None \<Rightarrow> True | Some t \<Rightarrow> t = DV_MEM_LOCK_DEV \<or> t = DV_MEM_LOCK_DEV_DVPP)"

definition Memset_Pre :: "(ptr \<Rightarrow> DVmemType option) \<Rightarrow> MemInfoSrc \<Rightarrow> hook_env \<Rightarrow> ptr \<Rightarrow> nat \<Rightarrow> 'w process \<Rightarrow> 'w process" where
  "Memset_Pre attr src env devPtr count p =
     (if IsSanitizer (he_selector env) then
        if \<not> IsMemoryOnDevice attr devPtr then p
        else Notify_record (mem_record STORE devPtr count src DEFAULT 0) p
      else p)"

definition AclrtMemset_Pre :: "(ptr \<Rightarrow> DVmemType option) \<Rightarrow> hook_env \<Rightarrow> ptr \<Rightarrow> nat \<Rightarrow> 'w process \<Rightarrow> 'w process" where
  "AclrtMemset_Pre attr = Memset_Pre attr ACL"

definition RtMemset_Pre :: "(ptr \<Rightarrow> DVmemType option) \<Rightarrow> hook_env \<Rightarrow> ptr \<Rightarrow> nat \<Rightarrow> 'w process \<Rightarrow> 'w process" where
  "RtMemset_Pre attr = Memset_Pre attr RT"

datatype memcpy_kind = HOST_TO_HOST | HOST_TO_DEVICE | DEVICE_TO_HOST | DEVICE_TO_DEVICE | OTHER_KIND

definition Memcpy_Pre :: "MemInfoSrc \<Rightarrow> hook_env \<Rightarrow> ptr \<Rightarrow> ptr \<Rightarrow> nat \<Rightarrow> memcpy_kind \<Rightarrow> 'w process \<Rightarrow> 'w process" where
  "Memcpy_Pre src env dst from count kind p =
     (if IsSanitizer (he_selector env) then
        let p = (if kind = HOST_TO_DEVICE \<or> kind = DEVICE_TO_DEVICE
                 then Notify_record (mem_record STORE dst count src DEFAULT 0) p else p) in
        (if kind = DEVICE_TO_HOST \<or> kind = DEVICE_TO_DEVICE
         then Notify_record (mem_record LOAD from count src DEFAULT 0) p else p)
      else p)"

definition AclrtMemcpy_Pre :: "hook_env \<Rightarrow> ptr \<Rightarrow> ptr \<Rightarrow> nat \<Rightarrow> memcpy_kind \<Rightarrow> 'w process \<Rightarrow> 'w process" where
  "AclrtMemcpy_Pre = Memcpy_Pre ACL"

definition RtMemcpy_Pre :: "hook_env \<Rightarrow> ptr \<Rightarrow> ptr \<Rightarrow> nat \<Rightarrow> memcpy_kind \<Rightarrow> 'w process \<Rightarrow> 'w process" where
  "RtMemcpy_Pre = Memcpy_Pre RT"

definition AclrtMemsetAsync_Pre :: "(ptr \<Rightarrow> DVmemType option) \<Rightarrow> hook_env \<Rightarrow> ptr \<Rightarrow> nat \<Rightarrow> 'w process \<Rightarrow> 'w process" where
  "AclrtMemsetAsync_Pre attr = Memset_Pre attr ACL"

definition AclrtMemcpyAsync_Pre :: "hook_env \<Rightarrow> ptr \<Rightarrow> ptr \<Rightarrow> nat \<Rightarrow> memcpy_kind \<Rightarrow> 'w process \<Rightarrow> 'w process" where
  "AclrtMemcpyAsync_Pre = Memcpy_Pre ACL"

definition MAX_MEMORY_RECORD_HEIGHT :: nat where
  "MAX_MEMORY_RECORD_HEIGHT = 60 * 1024 * 1024 * 1024"

definition memcpy2d_row :: "ptr \<Rightarrow> nat \<Rightarrow> ptr \<Rightarrow> nat \<Rightarrow> nat \<Rightarrow> memcpy_kind \<Rightarrow> nat \<Rightarrow> 'w process \<Rightarrow> 'w process" where
  \<comment> \<open>one turn of the loop over the rows\<close>
  "memcpy2d_row dst dpitch from spitch width kind r p =
     (let p = (if (kind = HOST_TO_DEVICE \<or> kind = DEVICE_TO_DEVICE) \<and> dst \<le> size_max - wrap64 (r * dpitch)
               then Notify_record (mem_record STORE (dst + wrap64 (r * dpitch)) width ACL DEFAULT 0) p else p) in
      (if (kind = DEVICE_TO_HOST \<or> kind = DEVICE_TO_DEVICE) \<and> from \<le> size_max - wrap64 (r * spitch)
       then Notify_record (mem_record LOAD (from + wrap64 (r * spitch)) width ACL DEFAULT 0) p else p))"

definition AclrtMemcpy2d_Pre ::
  "hook_env \<Rightarrow> ptr \<Rightarrow> nat \<Rightarrow> ptr \<Rightarrow> nat \<Rightarrow> nat \<Rightarrow> nat \<Rightarrow> memcpy_kind \<Rightarrow> 'w process \<Rightarrow> 'w process"
where
  "AclrtMemcpy2d_Pre env dst dpitch from spitch width height kind p =
     (let height = (if height > MAX_MEMORY_RECORD_HEIGHT then MAX_MEMORY_RECORD_HEIGHT else height) in
      if IsSanitizer (he_selector env)
      then fold (memcpy2d_row dst dpitch from spitch width kind) [0..<height] p else p)"

definition AclrtMemcpy2dAsync_Pre ::
  "hook_env \<Rightarrow> ptr \<Rightarrow> nat \<Rightarrow> ptr \<Rightarrow> nat \<Rightarrow> nat \<Rightarrow> nat \<Rightarrow> memcpy_kind \<Rightarrow> 'w process \<Rightarrow> 'w process"
where
  "AclrtMemcpy2dAsync_Pre = AclrtMemcpy2d_Pre"

definition AclrtMallocHost_Post :: "hook_env \<Rightarrow> ptr \<Rightarrow> nat \<Rightarrow> acl_error \<Rightarrow> 'w process \<Rightarrow> acl_error \<times> 'w process" where
  "AclrtMallocHost_Post env hostPtr sz ret p =
     (if IsSanitizer (he_selector env) \<and> ret = ACL_SUCCESS then
        (ret, Notify_record (mem_record MALLOC hostPtr (wrap64 (CeilByAlignSize64 blockAlignSize sz + blockAlignSize)) ACL DEFAULT 0) p)
      else (ret, p))"

definition AclrtMallocHostWithCfg_Post :: "hook_env \<Rightarrow> ptr \<Rightarrow> nat \<Rightarrow> acl_error \<Rightarrow> 'w process \<Rightarrow> acl_error \<times> 'w process" where
  "AclrtMallocHostWithCfg_Post = AclrtMallocHost_Post"

definition AclrtFreeHost_Pre :: "hook_env \<Rightarrow> ptr \<Rightarrow> 'w process \<Rightarrow> 'w process" where
  "AclrtFreeHost_Pre env hostPtr p =
     (if IsSanitizer (he_selector env) then Notify_record (mem_record FREE hostPtr 0 ACL DEFAULT 0) p else p)"

section \<open>Entry points\<close>

definition rtMalloc :: "'w alloc_fn option \<Rightarrow> hook_env \<Rightarrow> 'w alloc_fn" where
  "rtMalloc origin env sz type p =
     (if ParentInCallStack (pg_layers p) ''rtMalloc''
      then (case origin of None \<Rightarrow> ((RT_ERROR_RESERVED, 0), p) | Some f \<Rightarrow> f sz type p)
      else RtMalloc_Call origin env sz type p)"

definition rtFree :: "'w acl_api \<Rightarrow> 'w free_fn option \<Rightarrow> hook_env \<Rightarrow> 'w free_fn" where
  "rtFree api origin env ptr p =
     (if ParentInCallStack (pg_layers p) ''rtFree''
      then HijackedFunc_OriginCall origin RT_ERROR_RESERVED ptr p else RtFree_Call api origin env ptr p)"

type_synonym ('a, 'w) process_fn = "'a \<Rightarrow> 'w process \<Rightarrow> acl_error \<times> 'w process"

definition rt_entry ::
  "string \<Rightarrow> ('a \<Rightarrow> 'w process \<Rightarrow> 'w process) \<Rightarrow> (acl_error \<Rightarrow> 'w process \<Rightarrow> acl_error \<times> 'w process) \<Rightarrow>
   ('a, 'w) process_fn option \<Rightarrow> ('a, 'w) process_fn"
where
  \<comment> \<open>the shape of the runtime entries: \<open>OriginCall\<close> below a masking layer, \<open>Call\<close> otherwise\<close>
  "rt_entry func pre post origin args p =
     (if ParentInCallStack (pg_layers p) func then HijackedFunc_OriginCall origin RT_ERROR_RESERVED args p
      else HijackedFunc_Call pre post origin RT_ERROR_RESERVED args p)"

definition rtMapMem :: "(ptr \<times> nat, 'w) process_fn option \<Rightarrow> hook_env \<Rightarrow> (ptr \<times> nat, 'w) process_fn" where
  "rtMapMem origin env = (\<lambda>(devPtr, sz).
     rt_entry ''rtMapMem'' (\<lambda>_ p. p) (RtMapMem_Post env devPtr sz) origin (devPtr, sz))"

definition rtUnmapMem :: "'w acl_api \<Rightarrow> (ptr, 'w) process_fn option \<Rightarrow> hook_env \<Rightarrow> (ptr, 'w) process_fn" where
  "rtUnmapMem api origin env = rt_entry ''rtUnmapMem'' (RtUnmapMem_Pre api env) Pair origin"

definition rtMemset ::
  "(ptr \<Rightarrow> DVmemType option) \<Rightarrow> (ptr \<times> nat \<times> nat \<times> nat, 'w) process_fn option \<Rightarrow> hook_env \<Rightarrow>
   (ptr \<times> nat \<times> nat \<times> nat, 'w) process_fn"
where
  \<comment> \<open>pointer, size of the destination, value and count\<close>
  "rtMemset attr origin env =
     rt_entry ''rtMemset'' (\<lambda>(devPtr, _, _, count). RtMemset_Pre attr env devPtr count) Pair origin"

definition rtMemcpy ::
  "(ptr \<times> nat \<times> ptr \<times> nat \<times> memcpy_kind, 'w) process_fn option \<Rightarrow> hook_env \<Rightarrow>
   (ptr \<times> nat \<times> ptr \<times> nat \<times> memcpy_kind, 'w) process_fn"
where
  \<comment> \<open>destination, its size, source, count and kind\<close>
  "rtMemcpy origin env =
     rt_entry ''rtMemcpy'' (\<lambda>(dst, _, from, count, kind). RtMemcpy_Pre env dst from count kind) Pair origin"

definition in_layer :: "string \<Rightarrow> ('w process \<Rightarrow> 'r \<times> 'w process) \<Rightarrow> 'w process \<Rightarrow> 'r \<times> 'w process" where
  \<comment> \<open>\<open>LayerGuard guard(..., __func__)\<close> at the head of the function\<close>
  "in_layer func body = LayerGuard pg_layers (\<lambda>ls p. p\<lparr>pg_layers := ls\<rparr>) func body"

definition aclrtMallocImpl :: "'w alloc_fn option \<Rightarrow> hook_env \<Rightarrow> 'w alloc_fn" where
  "aclrtMallocImpl origin env sz policy = in_layer ''aclrtMallocImpl'' (AclrtMalloc_Call origin env sz policy)"

definition aclrtMallocAlign32Impl :: "'w alloc_fn option \<Rightarrow> hook_env \<Rightarrow> 'w alloc_fn" where
  "aclrtMallocAlign32Impl origin env sz policy =
     in_layer ''aclrtMallocAlign32Impl'' (AclrtMallocAlign32_Call origin env sz policy)"

definition aclrtMallocWithCfgImpl :: "'w alloc_fn option \<Rightarrow> hook_env \<Rightarrow> 'w alloc_fn" where
  "aclrtMallocWithCfgImpl origin env sz policy = AclrtMallocWithCfg_Call origin env sz policy"

definition aclrtMallocForTaskSchedulerImpl :: "'w alloc_fn option \<Rightarrow> hook_env \<Rightarrow> 'w alloc_fn" where
  "aclrtMallocForTaskSchedulerImpl origin env sz policy = AclrtMallocForTaskScheduler_Call origin env sz policy"

definition aclrtFreeImpl :: "'w acl_api \<Rightarrow> 'w free_fn option \<Rightarrow> hook_env \<Rightarrow> 'w free_fn" where
  "aclrtFreeImpl api origin env ptr = in_layer ''aclrtFreeImpl'' (AclrtFree_Call api origin env ptr)"

definition aclrtFreeWithDevSyncImpl :: "'w acl_api \<Rightarrow> 'w free_fn option \<Rightarrow> hook_env \<Rightarrow> 'w free_fn" where
  "aclrtFreeWithDevSyncImpl api origin env ptr =
     in_layer ''aclrtFreeWithDevSyncImpl'' (AclrtFreeWithDevSync_Call api origin env ptr)"

definition acl_entry ::
  "string \<Rightarrow> ('a \<Rightarrow> 'w process \<Rightarrow> 'w process) \<Rightarrow> ('a \<Rightarrow> acl_error \<Rightarrow> 'w process \<Rightarrow> acl_error \<times> 'w process) \<Rightarrow>
   ('a, 'w) process_fn option \<Rightarrow> ('a, 'w) process_fn"
where
  \<comment> \<open>the shape of the ACL entries: a layer around \<open>Call\<close>\<close>
  "acl_entry func pre post origin args =
     in_layer func (HijackedFunc_Call pre (post args) origin ACL_ERROR_INTERNAL_ERROR args)"

definition aclrtMapMemImpl :: "(ptr \<times> nat, 'w) process_fn option \<Rightarrow> hook_env \<Rightarrow> (ptr \<times> nat, 'w) process_fn" where
  "aclrtMapMemImpl origin env =
     acl_entry ''aclrtMapMemImpl'' (\<lambda>_ p. p) (\<lambda>(virPtr, sz). AclrtMapMem_Post env virPtr sz) origin"

definition aclrtUnmapMemImpl :: "'w acl_api \<Rightarrow> (ptr, 'w) process_fn option \<Rightarrow> hook_env \<Rightarrow> (ptr, 'w) process_fn" where
  "aclrtUnmapMemImpl api origin env =
     acl_entry ''aclrtUnmapMemImpl'' (AclrtUnmapMem_Pre api env) (\<lambda>_. Pair) origin"

definition aclrtMemsetImpl ::
  "(ptr \<Rightarrow> DVmemType option) \<Rightarrow> (ptr \<times> nat \<times> nat \<times> nat, 'w) process_fn option \<Rightarrow> hook_env \<Rightarrow>
   (ptr \<times> nat \<times> nat \<times> nat, 'w) process_fn"
where
  \<comment> \<open>pointer, size of the destination, value and count\<close>
  "aclrtMemsetImpl attr origin env =
     acl_entry ''aclrtMemsetImpl'' (\<lambda>(devPtr, _, _, count). AclrtMemset_Pre attr env devPtr count) (\<lambda>_. Pair) origin"

definition aclrtMemcpyImpl ::
  "(ptr \<times> nat \<times> ptr \<times> nat \<times> memcpy_kind, 'w) process_fn option \<Rightarrow> hook_env \<Rightarrow>
   (ptr \<times> nat \<times> ptr \<times> nat \<times> memcpy_kind, 'w) process_fn"
where
  "aclrtMemcpyImpl origin env =
     acl_entry ''aclrtMemcpyImpl'' (\<lambda>(dst, _, from, count, kind). AclrtMemcpy_Pre env dst from count kind) (\<lambda>_. Pair) origin"

definition IsDevIdUsed :: "int \<Rightarrow> int list \<Rightarrow> bool \<times> int list" where
  \<comment> \<open>with the static set of devices seen so far\<close>
  "IsDevIdUsed devId used = (if devId \<in> set used then (True, used) else (False, List.insert devId used))"

section \<open>The layer guard\<close>

lemma masks_alloc: "masks ''aclrtMallocImpl'' ''rtMalloc''" "masks ''aclrtFreeImpl'' ''rtFree''"
  by (simp_all add: masks_def GetAclToRuntimeMap_def)

lemma masks_memory:
  "masks ''aclrtMapMemImpl'' ''rtMapMem''" "masks ''aclrtUnmapMemImpl'' ''rtUnmapMem''"
  "masks ''aclrtMemsetImpl'' ''rtMemset''" "masks ''aclrtMemcpyImpl'' ''rtMemcpy''"
  by (simp_all add: masks_def GetAclToRuntimeMap_def)

lemma masks_missing: "\<not> masks ''aclrtMallocAlign32Impl'' f" "\<not> masks ''aclrtFreeWithDevSyncImpl'' f"
  by (simp_all add: masks_def GetAclToRuntimeMap_def)

lemma with_guard_layers [frame_simps]: "pg_layers (snd (with_guard f p)) = pg_layers p"
  by (simp add: with_guard_def split: prod.splits)

lemma Free_Pre_layers [frame_simps]: "pg_layers (Free_Pre api src env ptr p) = pg_layers p"
  by (simp add: Free_Pre_def prof_discard_def Notify_record_def Let_def split: prod.splits)

text \<open>
  What the hooks see of the vendor: functions that act on the device alone, and the ACL functions
  that are built from the runtime functions, by calling them through the process's symbols.
\<close>

definition dev_alloc :: "(nat \<Rightarrow> nat \<Rightarrow> 'w \<Rightarrow> (acl_error \<times> ptr) \<times> 'w) \<Rightarrow> 'w alloc_fn" where
  "dev_alloc f sz policy p = (let (r, w) = f sz policy (pg_dev p) in (r, p\<lparr>pg_dev := w\<rparr>))"

definition dev_free :: "(ptr \<Rightarrow> 'w \<Rightarrow> acl_error \<times> 'w) \<Rightarrow> 'w free_fn" where
  "dev_free f ptr p = (let (r, w) = f ptr (pg_dev p) in (r, p\<lparr>pg_dev := w\<rparr>))"

definition acl_over_rt :: "(nat \<Rightarrow> nat) \<Rightarrow> 'w alloc_fn \<Rightarrow> 'w alloc_fn" where
  "acl_over_rt type_of rt sz policy p = rt sz (type_of policy) p"

lemma aclrtMallocImpl_masks:
  "aclrtMallocImpl (Some (acl_over_rt type_of (rtMalloc (Some rt) env))) env sz policy p =
   aclrtMallocImpl (Some (acl_over_rt type_of rt)) env sz policy p"
proof -
  let ?p = "p\<lparr>pg_layers := layer_Push ''aclrtMallocImpl'' (pg_layers p)\<rparr>"
  obtain n q where g: "with_guard (GetTotalSize (he_selector env) (he_cli env) sz) ?p = (n, q)" by force
  have "pg_layers q = layer_Push ''aclrtMallocImpl'' (pg_layers p)"
    using g with_guard_layers [of "GetTotalSize (he_selector env) (he_cli env) sz" ?p] by simp
  then have "acl_over_rt type_of (rtMalloc (Some rt) env) n policy q = acl_over_rt type_of rt n policy q"
    by (simp add: acl_over_rt_def rtMalloc_def ParentInCallStack_Push masks_alloc)
  then show ?thesis
    by (simp add: aclrtMallocImpl_def in_layer_def LayerGuard_def AclrtMalloc_Call_def Malloc_Call_def g)
qed

lemma aclrtFreeImpl_masks:
  "aclrtFreeImpl api (Some (rtFree api (Some rt) env)) env ptr p = aclrtFreeImpl api (Some rt) env ptr p"
proof -
  let ?p = "p\<lparr>pg_layers := layer_Push ''aclrtFreeImpl'' (pg_layers p)\<rparr>"
  let ?q = "Free_Pre api ACL env ptr ?p"
  have "rtFree api (Some rt) env a ?q = rt a ?q" for a
    by (simp add: rtFree_def HijackedFunc_OriginCall_def frame_simps ParentInCallStack_Push masks_alloc)
  then show ?thesis
    by (simp add: aclrtFreeImpl_def in_layer_def LayerGuard_def AclrtFree_Call_def Free_Call_def)
qed

lemma acl_entry_masks:
  assumes "masks func inner" and "\<And>args p. pg_layers (pre args p) = pg_layers p"
    and "\<And>args p. ParentInCallStack (pg_layers p) inner \<Longrightarrow> g args p = f args p"
  shows "acl_entry func pre post (Some g) args p = acl_entry func pre post (Some f) args p"
  using assms by (simp add: acl_entry_def in_layer_def LayerGuard_def HijackedFunc_Call_def ParentInCallStack_Push)

lemma rt_entry_masked:
  "ParentInCallStack (pg_layers p) func \<Longrightarrow> rt_entry func pre post (Some f) args p = f args p"
  by (simp add: rt_entry_def HijackedFunc_OriginCall_def)

lemma memory_Pre_layers [frame_simps]:
  "pg_layers (UnmapMem_Pre api src env ptr p) = pg_layers p"
  "pg_layers (Memset_Pre attr src env ptr count p) = pg_layers p"
  "pg_layers (Memcpy_Pre src env dst from count kind p) = pg_layers p"
  by (simp_all add: UnmapMem_Pre_def Memset_Pre_def Memcpy_Pre_def prof_discard_def Notify_record_def Let_def
      split: prod.splits)

lemma memory_entries_mask:
  "aclrtMapMemImpl (Some (rtMapMem (Some f) env)) env a1 p = aclrtMapMemImpl (Some f) env a1 p"
  "aclrtUnmapMemImpl api (Some (rtUnmapMem api (Some g) env)) env a2 p = aclrtUnmapMemImpl api (Some g) env a2 p"
  "aclrtMemsetImpl attr (Some (rtMemset attr (Some h) env)) env a3 p = aclrtMemsetImpl attr (Some h) env a3 p"
  "aclrtMemcpyImpl (Some (rtMemcpy (Some k) env)) env a4 p = aclrtMemcpyImpl (Some k) env a4 p"
  unfolding aclrtMapMemImpl_def aclrtUnmapMemImpl_def aclrtMemsetImpl_def aclrtMemcpyImpl_def
  by (rule acl_entry_masks, rule masks_memory, auto simp: frame_simps rt_entry_masked rtMapMem_def rtUnmapMem_def rtMemset_def
      rtMemcpy_def AclrtUnmapMem_Pre_def AclrtMemset_Pre_def AclrtMemcpy_Pre_def)+

section \<open>An allocation and its release\<close>

definition malloc_entry :: "nat \<Rightarrow> nat \<Rightarrow> AddrInfo" where
  "malloc_entry addr len = \<lparr>ai_addr = addr, ai_length = len, ai_src = ACL, ai_desc = DEFAULT,
     ai_paramsNo = 0, ai_permission = REGION_FLAGS_DEFAULT\<rparr>"

lemma CacheMemory_free_malloc:
  assumes "oset ai_key (mm_infos m)" "mm_count m < 2 ^ 32"
    and fresh: "\<forall>a \<in> set (mm_infos m). \<not> (ai_addr a = addr \<and> IsSameMemInfoSrc (ai_src a) ACL)"
  shows "CacheMemory_FREE addr ACL (CacheMemory_MALLOC addr ACL len True m) = m"
proof -
  let ?a = "malloc_entry addr len"
  have key: "ai_key ?a \<notin> ai_key ` set (mm_infos m)"
    using fresh src_code_inj [of ACL]
    by (fastforce simp: malloc_entry_def ai_key_def IsSameMemInfoSrc_def image_iff)
  have set: "set (oset_insert ai_key ?a (mm_infos m)) = insert ?a (set (mm_infos m))"
    using key assms(1) by (simp add: set_oset_insert)
  let ?P = "\<lambda>a. ai_addr a = addr \<and> IsSameMemInfoSrc (ai_src a) ACL"
  have "?P ?a" by (simp add: malloc_entry_def)
  then obtain b where b: "find ?P (oset_insert ai_key ?a (mm_infos m)) = Some b"
    using set by (metis (mono_tags, lifting) find_None_iff2 insertI1 not_None_eq)
  then have "b = ?a" using find_Some_in [OF b] set fresh by blast
  moreover have "wrap32 (wrap32 (mm_count m + 1) + (2 ^ 32 - 1)) = mm_count m"
    using assms(2) by (simp add: wrap32_def mod_simps)
  moreover have "ai_key x \<noteq> ai_key ?a" if "x \<in> set (mm_infos m)" for x
    using key that by (metis imageI)
  then have "oset_erase ai_key (ai_key ?a) (oset_insert ai_key ?a (mm_infos m)) = mm_infos m"
    using assms(1) set by (intro oset_eq [of ai_key]) (auto simp: set_oset_erase inv_intros)
  ultimately show ?thesis
    using b by (simp add: CacheMemory_FREE_def CacheMemory_MALLOC_def malloc_entry_def Let_def)
qed

text \<open>The sanitizer's allocation and release, on a vendor that acts on the device alone.\<close>

definition malloc_sent :: "hook_env \<Rightarrow> nat \<Rightarrow> ptr \<Rightarrow> nat \<Rightarrow> report_state \<Rightarrow> report_state" where
  "malloc_sent env policy user sz s = ReportMalloc user (acl_reported env policy sz) ACL DEFAULT 0 s"

lemma aclrtMallocImpl_spec:
  assumes san: "IsSanitizer (he_selector env)"
    and size: "GetTotalSize (he_selector env) (he_cli env) sz (pg_guard p) = (n, g)"
    and dev: "f n policy (pg_dev p) = ((ACL_SUCCESS, q), w)"
    and proc: "MallocProc (he_devId env) q sz g = (user, g')"
  shows "aclrtMallocImpl (Some (dev_alloc f)) env sz policy p =
    ((ACL_SUCCESS, user),
     p\<lparr>pg_guard := g', pg_report := malloc_sent env policy user sz (pg_report p), pg_dev := w\<rparr>)"
  using san dev tools_exclusive [of "he_selector env"]
  by (simp add: aclrtMallocImpl_def in_layer_def LayerGuard_def AclrtMalloc_Call_def Malloc_Call_def
      with_guard_def size proc dev_alloc_def AclrtMalloc_Post_def Malloc_Post_def Notify_record_def
      prof_append_def malloc_sent_def ReportMalloc_def Let_def)

lemma aclrtFreeImpl_spec:
  assumes san: "IsSanitizer (he_selector env)"
    and dev: "f (GetRealPtr (he_devId env) user (pg_guard p)) (pg_dev p) = (r, w)"
  shows "aclrtFreeImpl api (Some (dev_free f)) env user p =
    (r, p\<lparr>pg_guard := FreeProc (he_devId env) user (pg_guard p),
          pg_report := ReportFree user ACL DEFAULT 0 (pg_report p), pg_dev := w\<rparr>)"
  using san dev tools_exclusive [of "he_selector env"]
  by (simp add: aclrtFreeImpl_def in_layer_def LayerGuard_def AclrtFree_Call_def Free_Call_def Free_Pre_def
      dev_free_def Notify_record_def prof_discard_def ReportFree_def Let_def)

text \<open>A hook without a masking layer above a hooked runtime function.\<close>

lemma GetTotalSize_add:
  assumes "mg_init g" "mg_enable g" "n + mg_frontSize g + mg_backSize g < 2 ^ 64"
  shows "GetTotalSize sel cfg n g = (n + mg_frontSize g + mg_backSize g, g)"
  using assms by (auto simp: GetTotalSize_def Let_def wrap64_small size_max_def)

lemma MallocProc_add:
  "mg_enable g \<Longrightarrow> \<exists>m. MallocProc dev q n g = (q + mg_frontSize g, g\<lparr>mg_map := m\<rparr>)"
  by (simp add: MallocProc_def GetUserAddr_def Let_def) (rule exI, rule refl)

lemma RtMalloc_Call_spec:
  assumes "IsSanitizer (he_selector env)" "mg_init (pg_guard p)" "mg_enable (pg_guard p)"
    and "n + mg_frontSize (pg_guard p) + mg_backSize (pg_guard p) < 2 ^ 64"
    and dev: "f (n + mg_frontSize (pg_guard p) + mg_backSize (pg_guard p)) type (pg_dev p) = ((ACL_SUCCESS, q), w)"
  shows "\<exists>m. RtMalloc_Call (Some (dev_alloc f)) env n type p =
    ((ACL_SUCCESS, q + mg_frontSize (pg_guard p)),
     p\<lparr>pg_guard := (pg_guard p)\<lparr>mg_map := m\<rparr>,
       pg_report := ReportMalloc (q + mg_frontSize (pg_guard p)) n RT DEFAULT 0 (pg_report p), pg_dev := w\<rparr>)"
proof -
  obtain m where "MallocProc (he_devId env) q n (pg_guard p) = (q + mg_frontSize (pg_guard p), (pg_guard p)\<lparr>mg_map := m\<rparr>)"
    using MallocProc_add [OF assms(3)] by blast
  then show ?thesis
    using assms(1) dev tools_exclusive [of "he_selector env"] GetTotalSize_add [OF assms(2-4)]
    by (intro exI [of _ m])
      (simp add: RtMalloc_Call_def RtMalloc_Post_def Malloc_Call_def Malloc_Post_def with_guard_def dev_alloc_def
        Notify_record_def prof_append_def ReportMalloc_def)
qed

lemma Malloc_Call_unmasked:
  assumes "IsSanitizer (he_selector env)" "mg_init (pg_guard p)" "mg_enable (pg_guard p)"
    and layers: "\<not> ParentInCallStack (pg_layers p) ''rtMalloc''"
    and G: "G = mg_frontSize (pg_guard p) + mg_backSize (pg_guard p)" "sz + 2 * G < 2 ^ 64"
    and dev: "f (sz + 2 * G) (type_of policy) (pg_dev p) = ((ACL_SUCCESS, q), w)"
  shows "\<exists>m. Malloc_Call missing (Malloc_Post ACL True rep p2p env sz) (Some (acl_over_rt type_of (rtMalloc (Some (dev_alloc f)) env))) env sz policy p =
    ((ACL_SUCCESS, q + 2 * mg_frontSize (pg_guard p)),
     p\<lparr>pg_guard := (pg_guard p)\<lparr>mg_map := m\<rparr>,
       pg_report := ReportMalloc (q + 2 * mg_frontSize (pg_guard p)) (rep sz) ACL DEFAULT 0
         (ReportMalloc (q + mg_frontSize (pg_guard p)) (sz + G) RT DEFAULT 0 (pg_report p)),
       pg_dev := w\<rparr>)"
proof -
  have size: "GetTotalSize (he_selector env) (he_cli env) sz (pg_guard p) = (sz + G, pg_guard p)"
    using GetTotalSize_add [OF assms(2,3)] G by (simp add: add.assoc)
  have dev2: "f (sz + G + mg_frontSize (pg_guard p) + mg_backSize (pg_guard p)) (type_of policy) (pg_dev p) =
      ((ACL_SUCCESS, q), w)"
    using dev G(1) by (simp add: mult_2 add_ac)
  have "sz + G + mg_frontSize (pg_guard p) + mg_backSize (pg_guard p) < 2 ^ 64" using G by simp
  then obtain m where rt: "RtMalloc_Call (Some (dev_alloc f)) env (sz + G) (type_of policy) p =
    ((ACL_SUCCESS, q + mg_frontSize (pg_guard p)),
     p\<lparr>pg_guard := (pg_guard p)\<lparr>mg_map := m\<rparr>,
       pg_report := ReportMalloc (q + mg_frontSize (pg_guard p)) (sz + G) RT DEFAULT 0 (pg_report p), pg_dev := w\<rparr>)"
    using RtMalloc_Call_spec [OF assms(1-3), of "sz + G" f "type_of policy" q w] dev2 by blast
  obtain m' where "MallocProc (he_devId env) (q + mg_frontSize (pg_guard p)) sz ((pg_guard p)\<lparr>mg_map := m\<rparr>) =
      (q + 2 * mg_frontSize (pg_guard p), (pg_guard p)\<lparr>mg_map := m'\<rparr>)"
    using MallocProc_add [of "(pg_guard p)\<lparr>mg_map := m\<rparr>" "he_devId env" "q + mg_frontSize (pg_guard p)" sz] assms(3)
    by (auto simp: mult_2 add.assoc)
  then show ?thesis
    using assms(1) tools_exclusive [of "he_selector env"] rt layers
    by (intro exI [of _ m'])
      (simp add: Malloc_Call_def Malloc_Post_def with_guard_def size acl_over_rt_def rtMalloc_def
        Notify_record_def prof_append_def ReportMalloc_def Let_def)
qed

section \<open>Two-dimensional copies\<close>

definition rows_in :: "ptr \<Rightarrow> nat \<Rightarrow> nat list \<Rightarrow> nat list" where
  \<comment> \<open>the addresses of the rows that do not leave the address space\<close>
  "rows_in base pitch rs = map (\<lambda>r. base + wrap64 (r * pitch)) (filter (\<lambda>r. base + wrap64 (r * pitch) < 2 ^ 64) rs)"

lemma row_guard: "base \<le> size_max - wrap64 n \<longleftrightarrow> base + wrap64 n < 2 ^ 64"
proof -
  have "wrap64 n \<le> size_max" using wrap64_less [of n] by (simp add: size_max_def)
  then show ?thesis by (auto simp: size_max_def)
qed

lemma fold_rows:
  "kind = HOST_TO_DEVICE \<Longrightarrow> fold (memcpy2d_row dst dpitch from spitch width kind) rs p =
     p\<lparr>pg_report := (pg_report p)\<lparr>rs_sent := rs_sent (pg_report p) @
        map (\<lambda>a. mem_record STORE a width ACL DEFAULT 0) (rows_in dst dpitch rs)\<rparr>\<rparr>"
  "kind = DEVICE_TO_HOST \<Longrightarrow> fold (memcpy2d_row dst dpitch from spitch width kind) rs p =
     p\<lparr>pg_report := (pg_report p)\<lparr>rs_sent := rs_sent (pg_report p) @
        map (\<lambda>a. mem_record LOAD a width ACL DEFAULT 0) (rows_in from spitch rs)\<rparr>\<rparr>"
  by (induction rs arbitrary: p)
    (simp_all add: memcpy2d_row_def rows_in_def row_guard Notify_record_def send_record_def)

section \<open>Properties\<close>

text \<open>
  The entry points for an allocation with a configuration and for the task scheduler do not open a
  layer, and the layer of the 32-byte aligned one has no entry in the table of masked runtime
  functions: over the hooked runtime function they leave guard zones twice, ask the device for both,
  shift the block twice and send two records for one allocation.
\<close>

theorem unmasked_malloc_twice:
  assumes "IsSanitizer (he_selector env)" "mg_init (pg_guard p)" "mg_enable (pg_guard p)" "pg_layers p = []"
    and "sz + 2 * (mg_frontSize (pg_guard p) + mg_backSize (pg_guard p)) < 2 ^ 64"
    and "f (sz + 2 * (mg_frontSize (pg_guard p) + mg_backSize (pg_guard p))) (type_of policy) (pg_dev p) =
      ((ACL_SUCCESS, q), w)"
    and "entry \<in> {aclrtMallocWithCfgImpl, aclrtMallocForTaskSchedulerImpl, aclrtMallocAlign32Impl}"
  shows "\<exists>res p' a b. entry (Some (acl_over_rt type_of (rtMalloc (Some (dev_alloc f)) env))) env sz policy p = (res, p') \<and>
    res = (ACL_SUCCESS, q + 2 * mg_frontSize (pg_guard p)) \<and>
    rs_sent (pg_report p') = rs_sent (pg_report p) @ [a, b] \<and> hr_type a = MALLOC \<and> hr_type b = MALLOC \<and>
    hr_infoSrc a = RT \<and> hr_infoSrc b = ACL"
proof -
  let ?push = "p\<lparr>pg_layers := layer_Push ''aclrtMallocAlign32Impl'' []\<rparr>"
  have layers: "\<not> ParentInCallStack (pg_layers p) ''rtMalloc''" "\<not> ParentInCallStack (pg_layers ?push) ''rtMalloc''"
    using assms(4) masks_missing by (simp_all add: ParentInCallStack_Push) (simp_all add: ParentInCallStack_def)
  note unm = Malloc_Call_unmasked [where policy = policy and type_of = type_of and f = f and q = q and w = w and sz = sz]
  have direct: "\<exists>m. Malloc_Call missing (Malloc_Post ACL True rep p2p env sz) (Some (acl_over_rt type_of (rtMalloc (Some (dev_alloc f)) env))) env sz policy p =
    ((ACL_SUCCESS, q + 2 * mg_frontSize (pg_guard p)),
     p\<lparr>pg_guard := (pg_guard p)\<lparr>mg_map := m\<rparr>,
       pg_report := ReportMalloc (q + 2 * mg_frontSize (pg_guard p)) (rep sz) ACL DEFAULT 0
         (ReportMalloc (q + mg_frontSize (pg_guard p)) (sz + (mg_frontSize (pg_guard p) + mg_backSize (pg_guard p))) RT DEFAULT 0 (pg_report p)),
       pg_dev := w\<rparr>)" for rep p2p missing
    by (rule unm [OF assms(1-3) layers(1) refl assms(5,6)])
  have pushed: "\<exists>m. Malloc_Call missing (Malloc_Post ACL True rep p2p env sz) (Some (acl_over_rt type_of (rtMalloc (Some (dev_alloc f)) env))) env sz policy ?push =
    ((ACL_SUCCESS, q + 2 * mg_frontSize (pg_guard p)),
     ?push\<lparr>pg_guard := (pg_guard p)\<lparr>mg_map := m\<rparr>,
       pg_report := ReportMalloc (q + 2 * mg_frontSize (pg_guard p)) (rep sz) ACL DEFAULT 0
         (ReportMalloc (q + mg_frontSize (pg_guard p)) (sz + (mg_frontSize (pg_guard p) + mg_backSize (pg_guard p))) RT DEFAULT 0 (pg_report p)),
       pg_dev := w\<rparr>)" for rep p2p missing
    using unm [of env ?push _ missing rep p2p, OF assms(1) _ _ layers(2) refl] assms(2,3,5,6) by simp
  show ?thesis
    using assms(7) direct [of ACL_ERROR_INTERNAL_ERROR "acl_reported env policy" "acl_p2p policy"] pushed [of ACL_ERROR_INTERNAL_ERROR "CeilByAlignSize64 blockAlignSize" "acl_p2p policy"] assms(4)
    by (auto simp: aclrtMallocWithCfgImpl_def AclrtMallocWithCfg_Call_def AclrtMallocWithCfg_Post_def
        aclrtMallocForTaskSchedulerImpl_def AclrtMallocForTaskScheduler_Call_def AclrtMallocForTaskScheduler_Post_def
        aclrtMallocAlign32Impl_def in_layer_def LayerGuard_def AclrtMallocAlign32_Call_def AclrtMallocAlign32_Post_def
        ReportMalloc_def send_record_def mem_record_def)
qed

text \<open>
  C17: Interception is transparent between the layers: when the vendor's ACL functions are built from
  the runtime functions of the process, which are hooked too, the allocation, the release, the
  mapping, the set and the copy behave exactly as if the runtime functions underneath were not
  hooked. Every record, table entry and guard zone is made once, by the outer hook.
\<close>

theorem runtime_layer_masked:
  "aclrtMallocImpl (Some (acl_over_rt type_of (rtMalloc (Some rt) env))) env sz policy p =
     aclrtMallocImpl (Some (acl_over_rt type_of rt)) env sz policy p \<and>
   aclrtFreeImpl api (Some (rtFree api (Some rf) env)) env ptr p = aclrtFreeImpl api (Some rf) env ptr p \<and>
   aclrtMapMemImpl (Some (rtMapMem (Some f) env)) env a1 p = aclrtMapMemImpl (Some f) env a1 p \<and>
   aclrtUnmapMemImpl api (Some (rtUnmapMem api (Some g) env)) env a2 p = aclrtUnmapMemImpl api (Some g) env a2 p \<and>
   aclrtMemsetImpl attr (Some (rtMemset attr (Some h) env)) env a3 p = aclrtMemsetImpl attr (Some h) env a3 p \<and>
   aclrtMemcpyImpl (Some (rtMemcpy (Some k) env)) env a4 p = aclrtMemcpyImpl (Some k) env a4 p"
  by (simp add: aclrtMallocImpl_masks aclrtFreeImpl_masks memory_entries_mask)

text \<open>
  C18: An allocation and its release under the sanitizer, through the entry points and the hooked
  runtime functions: the vendor releases exactly the block it allocated, and afterwards the memory
  table and the guarded addresses are the ones from before, two records having been sent.
\<close>

theorem malloc_free_round_trip:
  assumes san: "IsSanitizer (he_selector env)"
    and on: "mg_init (pg_guard p)" "guard_on (pg_guard p)"
    and dev: "f (fst (GetTotalSize (he_selector env) (he_cli env) sz (pg_guard p))) (type_of policy) (pg_dev p) =
      ((ACL_SUCCESS, q), w)" and q: "q \<noteq> 0"
    and table: "oset ai_key (mm_infos (rs_mm (pg_report p)))" "mm_count (rs_mm (pg_report p)) < 2 ^ 32"
    and fresh: "guard_view (he_devId env) (pg_guard p) (q + mg_frontSize (pg_guard p)) = None"
      "\<forall>a \<in> set (mm_infos (rs_mm (pg_report p))).
         \<not> (ai_addr a = q + mg_frontSize (pg_guard p) \<and> IsSameMemInfoSrc (ai_src a) ACL)"
    and malloc: "aclrtMallocImpl (Some (acl_over_rt type_of (rtMalloc (Some (dev_alloc f)) env))) env sz policy p =
      ((ACL_SUCCESS, user), p1)"
    and free: "aclrtFreeImpl api (Some (rtFree api (Some (dev_free d)) env)) env user p1 = (r, p2)"
  shows "(r, pg_dev p2) = d q w \<and> pg_layers p2 = pg_layers p \<and>
    guard_view (he_devId env) (pg_guard p2) = guard_view (he_devId env) (pg_guard p) \<and>
    rs_mm (pg_report p2) = rs_mm (pg_report p) \<and>
    rs_sent (pg_report p2) = rs_sent (pg_report p) @
      [mem_record MALLOC user (acl_reported env policy sz) ACL DEFAULT 0, mem_record FREE user 0 ACL DEFAULT 0]"
proof -
  let ?g = "pg_guard p" and ?dev = "he_devId env"
  have "snd (GetTotalSize (he_selector env) (he_cli env) sz ?g) = ?g"
    using on(1) by (simp add: GetTotalSize_def Let_def)
  then obtain n where n: "GetTotalSize (he_selector env) (he_cli env) sz ?g = (n, ?g)"
    by (metis surjective_pairing)
  obtain u g' where proc: "MallocProc ?dev q sz ?g = (u, g')" by force
  have "acl_over_rt type_of (dev_alloc f) = dev_alloc (\<lambda>k pol. f k (type_of pol))"
    by (simp add: acl_over_rt_def dev_alloc_def fun_eq_iff)
  then have p1: "user = u" "p1 = p\<lparr>pg_guard := g', pg_report := malloc_sent env policy u sz (pg_report p), pg_dev := w\<rparr>"
    using malloc aclrtMallocImpl_spec [of env sz p n ?g "\<lambda>k pol. f k (type_of pol)" policy q w u g']
      san n dev proc by (simp_all add: aclrtMallocImpl_masks)
  have u: "u = q + mg_frontSize ?g" using proc MallocProc_fst [of ?g ?dev q sz] on(2) by (simp add: guard_on_def)
  have real: "GetRealPtr ?dev user g' = q"
    using guard.real_after_put [OF on(2) q, of ?dev sz] proc p1(1) by simp
  have view: "guard_view ?dev (FreeProc ?dev user g') = guard_view ?dev ?g"
    using guard.del_after_put [OF on(2) q, of ?dev sz] proc p1(1) u fresh(1) by simp
  obtain r' w' where d: "d q w = (r', w')" by force
  have p2: "(r, p2) = (r', p1\<lparr>pg_guard := FreeProc ?dev user g',
      pg_report := ReportFree user ACL DEFAULT 0 (pg_report p1), pg_dev := w'\<rparr>)"
    using free aclrtFreeImpl_spec [OF san, of d user p1 r' w' api] real d p1(2) by (simp add: aclrtFreeImpl_masks)
  have "CacheMemory_FREE user ACL (CacheMemory_MALLOC user ACL (acl_reported env policy sz) True (rs_mm (pg_report p))) =
      rs_mm (pg_report p)"
    using CacheMemory_free_malloc [OF table] fresh(2) u p1(1) by simp
  then show ?thesis
    using p2 p1 d view by (simp add: ReportFree_def malloc_sent_def ReportMalloc_def send_record_def)
qed

text \<open>
  A two-dimensional copy to the device under the sanitizer is reported row by row, in the order of the
  rows: each row's address as it is, without the rows that would leave the address space, up to the
  largest height that is reported. A copy to the host reports the rows that are read in the same way.
\<close>

theorem memcpy2d_rows:
  assumes "IsSanitizer (he_selector env)" and "kind = HOST_TO_DEVICE \<and> base = dst \<and> pitch = dpitch \<and> op = STORE \<or>
      kind = DEVICE_TO_HOST \<and> base = from \<and> pitch = spitch \<and> op = LOAD"
  shows "AclrtMemcpy2d_Pre env dst dpitch from spitch width height kind p =
     p\<lparr>pg_report := (pg_report p)\<lparr>rs_sent := rs_sent (pg_report p) @
       map (\<lambda>a. mem_record op a width ACL DEFAULT 0) (rows_in base pitch [0..<min height MAX_MEMORY_RECORD_HEIGHT])\<rparr>\<rparr>"
  using assms by (auto simp: AclrtMemcpy2d_Pre_def fold_rows min_def)

definition sanitizer_env :: hook_env where
  "sanitizer_env = \<lparr>he_selector = selector_Set SANITIZER init_selector,
     he_cli = \<lparr>cli_memCheck = True, cli_gmBufferGuardSize = 64\<rparr>, he_soc = ''Ascend910B1'', he_devId = 0,
     he_isSimulator = False, he_isAppReplay = False, he_lcclFlag = False\<rparr>"

definition process0 :: "flat process" where
  "process0 = \<lparr>pg_layers = [], pg_guard = guard_Init (he_selector sanitizer_env) (he_cli sanitizer_env) guard0,
     pg_report = \<lparr>rs_mm = mm0, rs_sent = []\<rparr>, pg_context = [], pg_dev = flat0\<rparr>"

lemma process0_guard: "pg_guard process0 =
    \<lparr>mg_init = True, mg_enable = True, mg_frontSize = 0, mg_backSize = 64, mg_pattern = 0x5A, mg_map = []\<rparr>"
  by (simp add: process0_def sanitizer_env_def guard_Init_def guard0_def SetGuardSizes_def selector_Set_Match
      IsSanitizer_def GM_BUFFER_GUARD_DFT_PATTERN_def GM_BUFFER_GUARD_DFT_SIZE_def CeilByAlignSize64_def wrap64_def)

lemma sanitizer_env_on: "IsSanitizer (he_selector sanitizer_env)"
  by (simp add: sanitizer_env_def IsSanitizer_def selector_Set_Match)

theorem malloc_free_round_trip_witness:
  "\<exists>user p1 r p2.
     aclrtMallocImpl (Some (acl_over_rt id (rtMalloc (Some (dev_alloc (api_malloc flat_api))) sanitizer_env))) sanitizer_env 100 0 process0 =
       ((ACL_SUCCESS, user), p1) \<and>
     aclrtFreeImpl flat_api (Some (rtFree flat_api (Some (dev_free (api_free flat_api))) sanitizer_env)) sanitizer_env user p1 = (r, p2) \<and>
     fl_freed (pg_dev p2) = [4096] \<and> mm_infos (rs_mm (pg_report p2)) = []"
proof -
  let ?f = "\<lambda>k pol. api_malloc flat_api k (id pol)"
  have size: "GetTotalSize (he_selector sanitizer_env) (he_cli sanitizer_env) 100 (pg_guard process0) = (164, pg_guard process0)"
    by (simp add: GetTotalSize_def process0_guard wrap64_def size_max_def)
  have dev: "?f 164 0 (pg_dev process0) = ((ACL_SUCCESS, 4096), flat0\<lparr>fl_next := 4260\<rparr>)"
    by (simp add: flat_api_def process0_def flat0_def ACL_SUCCESS_def)
  obtain user g' where proc: "MallocProc (he_devId sanitizer_env) 4096 100 (pg_guard process0) = (user, g')" by force
  have fn: "acl_over_rt id (dev_alloc (api_malloc flat_api)) = dev_alloc ?f"
    by (simp add: acl_over_rt_def dev_alloc_def fun_eq_iff)
  obtain p1 where m: "aclrtMallocImpl (Some (acl_over_rt id (rtMalloc (Some (dev_alloc (api_malloc flat_api))) sanitizer_env)))
      sanitizer_env 100 0 process0 = ((ACL_SUCCESS, user), p1)"
    using aclrtMallocImpl_spec [OF sanitizer_env_on size, of ?f 0, OF dev proc] by (simp add: aclrtMallocImpl_masks fn)
  obtain r p2 where f: "aclrtFreeImpl flat_api (Some (rtFree flat_api (Some (dev_free (api_free flat_api))) sanitizer_env))
      sanitizer_env user p1 = (r, p2)" by force
  note rt = malloc_free_round_trip [OF sanitizer_env_on _ _ _ _ _ _ _ _ m f, where q = 4096 and w = "flat0\<lparr>fl_next := 4260\<rparr>"]
  have "(r, pg_dev p2) = api_free flat_api 4096 (flat0\<lparr>fl_next := 4260\<rparr>) \<and> rs_mm (pg_report p2) = rs_mm (pg_report process0)"
    using rt size dev by (simp add: process0_guard guard_on_def guard_lookup_def guard_view_def)
      (simp add: process0_def mm0_def)
  with m f show ?thesis
    by (auto simp: flat_api_def flat0_def process0_def mm0_def)
qed

theorem unmasked_malloc_twice_witness:
  "\<exists>res p'. aclrtMallocWithCfgImpl (Some (acl_over_rt id (rtMalloc (Some (dev_alloc (api_malloc flat_api))) sanitizer_env))) sanitizer_env 100 0
      process0 = (res, p') \<and> map hr_infoSrc (rs_sent (pg_report p')) = [RT, ACL]"
proof -
  have "api_malloc flat_api (100 + 2 * (mg_frontSize (pg_guard process0) + mg_backSize (pg_guard process0))) (id 0) (pg_dev process0) =
      ((ACL_SUCCESS, 4096), flat0\<lparr>fl_next := 4324\<rparr>)"
    by (simp add: process0_guard) (simp add: flat_api_def process0_def flat0_def ACL_SUCCESS_def)
  with unmasked_malloc_twice [where env = sanitizer_env and p = process0 and sz = 100 and policy = 0 and type_of = id
      and f = "api_malloc flat_api" and q = 4096 and w = "flat0\<lparr>fl_next := 4324\<rparr>" and entry = aclrtMallocWithCfgImpl]
  have "\<exists>res p' a b. aclrtMallocWithCfgImpl (Some (acl_over_rt id (rtMalloc (Some (dev_alloc (api_malloc flat_api))) sanitizer_env))) sanitizer_env 100 0
      process0 = (res, p') \<and> rs_sent (pg_report p') = rs_sent (pg_report process0) @ [a, b] \<and> hr_infoSrc a = RT \<and> hr_infoSrc b = ACL"
    using sanitizer_env_on by (simp add: process0_guard) (simp add: process0_def, blast)
  then show ?thesis by (fastforce simp: process0_def)
qed

theorem memcpy2d_rows_witness:
  "map hr_dstAddr (rs_sent (pg_report (AclrtMemcpy2d_Pre sanitizer_env 8192 100 64 10 10 3 HOST_TO_DEVICE process0))) =
     [8192, 8292, 8392]"
proof -
  have "[0..<3::nat] = [0, 1, 2]" by (simp add: upt_rec)
  then show ?thesis
    using memcpy2d_rows [OF sanitizer_env_on, of HOST_TO_DEVICE 8192 8192 100 100 STORE 64 10 10 3 process0]
    by (simp add: rows_in_def process0_def MAX_MEMORY_RECORD_HEIGHT_def mem_record_def wrap64_def)
qed

end
