(* ===== verification/DeviceHooks.thy ===== *)
theory DeviceHooks
  imports AllocHooks Platform Text
begin

text \<open>
  Models runtime/inject_helpers/DeviceContext.h and .cpp, ThreadContext.h and the hooks that bind a
  device to a thread, reset it, or authorise the access of one device to another:
  runtime/HijackedFuncOfSetDevice.cpp, SetDeviceV2, SetDeviceEx, DeviceReset, DeviceResetEx,
  acl_rt_impl/HijackedFuncOfAclrtSetDeviceImpl.cpp, ResetDeviceImpl and
  DeviceEnable/DisablePeerAccessImpl, with their entries in bind/BindSanitizer.cpp. Queries to the
  vendor read its state; the packets that the hooks send are kept with the device whose
  connection they take.
\<close>

section \<open>Contexts\<close>

record DeviceContext =
  dc_socVersion :: string
  dc_visibleDevId :: int
  dc_devId :: int

definition dc0 :: DeviceContext where
  "dc0 = \<lparr>dc_socVersion = [], dc_visibleDevId = 0, dc_devId = 0\<rparr>"

record 'w device_vendor =
  dv_getDevice :: "'w \<Rightarrow> int option"  \<comment> \<open>\<open>aclrtGetDevice\<close>; \<open>None\<close> when it fails\<close>
  dv_getSocVersion :: "'w \<Rightarrow> string option"  \<comment> \<open>\<open>rtGetSocVersion\<close>; \<open>None\<close> when it fails\<close>
  dv_getSocName :: "'w \<Rightarrow> string option"  \<comment> \<open>\<open>aclrtGetSocName\<close>; \<open>None\<close> for null\<close>
  dv_hasVisible :: bool  \<comment> \<open>the runtime has \<open>rtGetVisibleDeviceIdByLogicDeviceId\<close>\<close>
  dv_logicId :: "int \<Rightarrow> 'w \<Rightarrow> int option"  \<comment> \<open>\<open>aclrtGetLogicDevIdByUserDevId\<close>\<close>
  dv_setLimit :: "int \<Rightarrow> 'w \<Rightarrow> 'w"  \<comment> \<open>\<open>rtDeviceSetLimit\<close> for the warp stack size\<close>

datatype device_packet =
  DEVICE_SUMMARY nat int  \<comment> \<open>device type and id\<close>
| PEER_ACCESS_RECORD int int PeerAccessOp

record 'w device_state =
  ds_layers :: layers
  ds_thread :: int  \<comment> \<open>\<open>ThreadContext::deviceId_\<close>\<close>
  ds_contexts :: "int \<Rightarrow> DeviceContext"
  ds_used :: "int list"  \<comment> \<open>\<open>usedDevIds\<close>\<close>
  ds_relations :: relations
  ds_buffer :: DevMemManager
  ds_sent :: "(int \<times> device_packet) list"
  ds_dev :: 'w

definition Thread_SetDeviceId :: "int \<Rightarrow> 'w device_state \<Rightarrow> 'w device_state" where
  "Thread_SetDeviceId d s = s\<lparr>ds_thread := d\<rparr>"

definition Thread_GetDeviceId :: "'w device_vendor \<Rightarrow> 'w device_state \<Rightarrow> int \<times> 'w device_state" where
  \<comment> \<open>the query writes the member, which keeps its value when the query fails\<close>
  "Thread_GetDeviceId v s =
     (case dv_getDevice v (ds_dev s) of
        None \<Rightarrow> (ds_thread s, s)
      | Some d \<Rightarrow> (d, s\<lparr>ds_thread := d\<rparr>))"

definition on_context :: "int \<Rightarrow> (DeviceContext \<Rightarrow> DeviceContext) \<Rightarrow> 'w device_state \<Rightarrow> 'w device_state" where
  \<comment> \<open>\<open>DeviceContext::Instance(d)\<close>\<close>
  "on_context d f s = s\<lparr>ds_contexts := (ds_contexts s)(d := f (ds_contexts s d))\<rparr>"

definition on_local_context :: "'w device_vendor \<Rightarrow> (DeviceContext \<Rightarrow> DeviceContext) \<Rightarrow> 'w device_state \<Rightarrow> 'w device_state" where
  \<comment> \<open>\<open>DeviceContext::Local()\<close>\<close>
  "on_local_context v f s = (let (d, s) = Thread_GetDeviceId v s in on_context d f s)"

definition ConvertToVisibleDeviceIdIfPossible :: "'w device_vendor \<Rightarrow> 'w \<Rightarrow> int \<Rightarrow> int" where
  "ConvertToVisibleDeviceIdIfPossible v w d =
     (if \<not> dv_hasVisible v then d
      else (case dv_logicId v d w of None \<Rightarrow> d | Some c \<Rightarrow> c))"

definition SetSocVersion :: "string \<Rightarrow> DeviceContext \<Rightarrow> DeviceContext" where
  "SetSocVersion name c = c\<lparr>dc_socVersion := name\<rparr>"

definition GetSocVersion :: "'w device_vendor \<Rightarrow> 'w \<Rightarrow> DeviceContext \<Rightarrow> string \<times> DeviceContext" where
  "GetSocVersion v w c =
     (if dc_socVersion c \<noteq> [] then (dc_socVersion c, c)
      else (case dv_getSocName v w of
              None \<Rightarrow> (dc_socVersion c, c)
            | Some name \<Rightarrow> (name, c\<lparr>dc_socVersion := name\<rparr>)))"

definition Context_IsAscend950 :: "'w device_vendor \<Rightarrow> 'w \<Rightarrow> DeviceContext \<Rightarrow> bool \<times> DeviceContext" where
  "Context_IsAscend950 v w c = (let (soc, c) = GetSocVersion v w c in (IsAscend950 soc, c))"

definition Context_SetDeviceId :: "'w device_vendor \<Rightarrow> hook_env \<Rightarrow> 'w \<Rightarrow> int \<Rightarrow> DeviceContext \<Rightarrow> DeviceContext" where
  "Context_SetDeviceId v env w devId c =
     (if IsOpProf (he_selector env) \<and> he_isSimulator env then c\<lparr>dc_devId := devId, dc_visibleDevId := devId\<rparr>
      else c\<lparr>dc_visibleDevId := ConvertToVisibleDeviceIdIfPossible v w devId, dc_devId := devId\<rparr>)"

definition GetRunningDeviceId :: "'w device_vendor \<Rightarrow> 'w \<Rightarrow> int" where
  "GetRunningDeviceId v w =
     (case dv_getDevice v w of None \<Rightarrow> 0 | Some d \<Rightarrow> ConvertToVisibleDeviceIdIfPossible v w d)"

section \<open>Binding a device\<close>

type_synonym 'w device_fn = "int \<Rightarrow> 'w device_state \<Rightarrow> acl_error \<times> 'w device_state"

definition SOC_VERSION_MAX :: nat where
  "SOC_VERSION_MAX = 256"

definition device_notify :: "int \<Rightarrow> device_packet \<Rightarrow> 'w device_state \<Rightarrow> 'w device_state" where
  "device_notify d pkt s = s\<lparr>ds_sent := ds_sent s @ [(d, pkt)]\<rparr>"

definition simulated_id :: "hook_env \<Rightarrow> int \<Rightarrow> int" where
  "simulated_id env devId = (if IsOpProf (he_selector env) \<and> he_isSimulator env then 0 else devId)"

definition RtSetDevice_Pre :: "'w device_vendor \<Rightarrow> hook_env \<Rightarrow> int \<Rightarrow> 'w device_state \<Rightarrow> string \<times> 'w device_state" where
  \<comment> \<open>with the buffer \<open>socVersion_\<close>, empty at first\<close>
  "RtSetDevice_Pre v env devId s =
     (if \<not> IsSanitizer (he_selector env) then ([], s)
      else (case dv_getSocVersion v (ds_dev s) of
              None \<Rightarrow> ([], s)
            | Some soc \<Rightarrow>
                (soc, if IsAscend950 soc then s\<lparr>ds_dev := dv_setLimit v devId (ds_dev s)\<rparr> else s)))"

definition RtSetDevice_Post ::
  "'w device_vendor \<Rightarrow> hook_env \<Rightarrow> int \<Rightarrow> string \<Rightarrow> acl_error \<Rightarrow> 'w device_state \<Rightarrow> acl_error \<times> 'w device_state"
where
  "RtSetDevice_Post v env devId soc ret s =
     (let s = Thread_SetDeviceId devId s;
          s = on_context devId (Context_SetDeviceId v env (ds_dev s) devId) s in
      if IsSanitizer (he_selector env)
      then (ret, device_notify devId (DEVICE_SUMMARY (GetDeviceTypeBySocVersion soc) devId)
                   (on_context devId (SetSocVersion soc) s))
      else (ret, s))"

definition RtSetDevice_Call :: "'w device_vendor \<Rightarrow> 'w device_fn option \<Rightarrow> hook_env \<Rightarrow> 'w device_fn" where
  "RtSetDevice_Call v origin env devId s =
     (let (soc, s) = RtSetDevice_Pre v env devId s in
      case origin of
        None \<Rightarrow> (RT_ERROR_RESERVED, s)
      | Some f \<Rightarrow> let (ret, s) = f (simulated_id env devId) s in RtSetDevice_Post v env devId soc ret s)"

definition RtSetDeviceEx_Call :: "'w device_vendor \<Rightarrow> 'w device_fn option \<Rightarrow> hook_env \<Rightarrow> 'w device_fn" where
  \<comment> \<open>also \<open>rtSetDeviceV2\<close>, whose mode is passed on unchanged\<close>
  "RtSetDeviceEx_Call v origin env devId s =
     (let s = Thread_SetDeviceId devId s;
          s = on_local_context v (Context_SetDeviceId v env (ds_dev s) devId) s in
      case origin of
        None \<Rightarrow> (RT_ERROR_RESERVED, s)
      | Some f \<Rightarrow> f (simulated_id env devId) s)"

definition RtSetDeviceV2_Call :: "'w device_vendor \<Rightarrow> 'w device_fn option \<Rightarrow> hook_env \<Rightarrow> 'w device_fn" where
  "RtSetDeviceV2_Call = RtSetDeviceEx_Call"

definition AclrtSetDevice_Pre :: "'w device_vendor \<Rightarrow> hook_env \<Rightarrow> int \<Rightarrow> 'w device_state \<Rightarrow> 'w device_state option" where
  \<comment> \<open>a string made from a null pointer has no meaning\<close>
  "AclrtSetDevice_Pre v env devId s =
     (if \<not> IsSanitizer (he_selector env) then Some s
      else (case dv_getSocName v (ds_dev s) of
              None \<Rightarrow> None
            | Some soc \<Rightarrow> Some (if IsAscend950 soc then s\<lparr>ds_dev := dv_setLimit v devId (ds_dev s)\<rparr> else s)))"

definition AclrtSetDevice_Post ::
  "'w device_vendor \<Rightarrow> hook_env \<Rightarrow> int \<Rightarrow> acl_error \<Rightarrow> 'w device_state \<Rightarrow> acl_error \<times> 'w device_state"
where
  "AclrtSetDevice_Post v env devId ret s =
     (if ret \<noteq> ACL_SUCCESS then (ret, s)
      else
        let s = Thread_SetDeviceId devId s;
            s = on_context devId (Context_SetDeviceId v env (ds_dev s) devId) s in
        if IsSanitizer (he_selector env) then
          (case dv_getSocName v (ds_dev s) of
             None \<Rightarrow> (ret, s)
           | Some soc \<Rightarrow>
               let s = on_local_context v (SetSocVersion (take (GetValidLength (Some soc) SOC_VERSION_MAX) soc)) s in
               (ret, device_notify devId (DEVICE_SUMMARY (GetDeviceTypeBySocVersion soc) devId) s))
        else (ret, s))"

definition AclrtSetDevice_Call ::
  "'w device_vendor \<Rightarrow> 'w device_fn option \<Rightarrow> hook_env \<Rightarrow> int \<Rightarrow> 'w device_state \<Rightarrow> (acl_error \<times> 'w device_state) option"
where
  "AclrtSetDevice_Call v origin env devId s =
     (case AclrtSetDevice_Pre v env devId s of
        None \<Rightarrow> None
      | Some s \<Rightarrow>
          Some (case origin of
                  None \<Rightarrow> (ACL_ERROR_INTERNAL_ERROR, s)
                | Some f \<Rightarrow> let (ret, s) = f (simulated_id env devId) s in AclrtSetDevice_Post v env devId ret s))"

section \<open>Reset and peer access\<close>

definition Reset_Pre :: "'w acl_api \<Rightarrow> hook_env \<Rightarrow> 'w device_state \<Rightarrow> 'w device_state" where
  "Reset_Pre api env s =
     (if IsSanitizer (he_selector env)
      then let (b, w) = dm_Free api (ds_buffer s) (ds_dev s) in s\<lparr>ds_buffer := b, ds_dev := w\<rparr>
      else s)"

definition Reset_Post ::
  "'w device_vendor \<Rightarrow> hook_env \<Rightarrow> int \<Rightarrow> acl_error \<Rightarrow> 'w device_state \<Rightarrow> acl_error \<times> 'w device_state"
where
  "Reset_Post v env devId ret s =
     (if IsSanitizer (he_selector env) then
        if ret \<noteq> ACL_SUCCESS then (ret, s)
        else
          let soc = fst (GetSocVersion v (ds_dev s) (ds_contexts s devId));
              s = on_context devId (\<lambda>c. snd (GetSocVersion v (ds_dev s) c)) s;
              s = device_notify devId (DEVICE_SUMMARY (GetDeviceTypeBySocVersion soc) devId) s;
              s = s\<lparr>ds_relations := PeerAccess_Apply devId (-1) RESET (ds_relations s)\<rparr> in
          (ret, device_notify devId (PEER_ACCESS_RECORD devId (-1) RESET) s)
      else (ret, s))"

definition Reset_Call ::
  "acl_error \<Rightarrow> 'w device_vendor \<Rightarrow> 'w acl_api \<Rightarrow> 'w device_fn option \<Rightarrow> hook_env \<Rightarrow> 'w device_fn"
where
  "Reset_Call missing v api origin env devId s =
     (let s = Reset_Pre api env s in
      case origin of
        None \<Rightarrow> (missing, s)
      | Some f \<Rightarrow> let (ret, s) = f (simulated_id env devId) s in Reset_Post v env devId ret s)"

definition RtDeviceReset_Call :: "'w device_vendor \<Rightarrow> 'w acl_api \<Rightarrow> 'w device_fn option \<Rightarrow> hook_env \<Rightarrow> 'w device_fn" where
  "RtDeviceReset_Call = Reset_Call RT_ERROR_RESERVED"

definition RtDeviceResetEx_Call :: "'w device_vendor \<Rightarrow> 'w acl_api \<Rightarrow> 'w device_fn option \<Rightarrow> hook_env \<Rightarrow> 'w device_fn" where
  "RtDeviceResetEx_Call = Reset_Call RT_ERROR_RESERVED"

definition AclrtResetDevice_Call :: "'w device_vendor \<Rightarrow> 'w acl_api \<Rightarrow> 'w device_fn option \<Rightarrow> hook_env \<Rightarrow> 'w device_fn" where
  "AclrtResetDevice_Call = Reset_Call ACL_ERROR_INTERNAL_ERROR"

definition PeerAccess_Post :: "PeerAccessOp \<Rightarrow> hook_env \<Rightarrow> int \<Rightarrow> int \<Rightarrow> acl_error \<Rightarrow> 'w device_state \<Rightarrow> acl_error \<times> 'w device_state" where
  "PeerAccess_Post operation env deviceId peer ret s =
     (if ret = ACL_SUCCESS \<and> IsSanitizer (he_selector env)
      then (ret, device_notify deviceId (PEER_ACCESS_RECORD deviceId peer operation)
                   (s\<lparr>ds_relations := PeerAccess_Apply deviceId peer operation (ds_relations s)\<rparr>))
      else (ret, s))"

definition PeerAccess_Call ::
  "PeerAccessOp \<Rightarrow> 'w device_vendor \<Rightarrow> 'w device_fn option \<Rightarrow> hook_env \<Rightarrow> 'w device_fn"
where
  "PeerAccess_Call operation v origin env peer s =
     (let (deviceId, s) = Thread_GetDeviceId v s in
      case origin of
        None \<Rightarrow> (ACL_ERROR_INTERNAL_ERROR, s)
      | Some f \<Rightarrow> let (ret, s) = f peer s in PeerAccess_Post operation env deviceId peer ret s)"

definition AclrtDeviceEnablePeerAccess_Call :: "'w device_vendor \<Rightarrow> 'w device_fn option \<Rightarrow> hook_env \<Rightarrow> 'w device_fn" where
  "AclrtDeviceEnablePeerAccess_Call = PeerAccess_Call ENABLE"

definition AclrtDeviceDisablePeerAccess_Call :: "'w device_vendor \<Rightarrow> 'w device_fn option \<Rightarrow> hook_env \<Rightarrow> 'w device_fn" where
  "AclrtDeviceDisablePeerAccess_Call = PeerAccess_Call DISABLE"

section \<open>Entry points\<close>

definition origin_call :: "acl_error \<Rightarrow> 'w device_fn option \<Rightarrow> 'w device_fn" where
  "origin_call missing origin d s = HijackedFunc_OriginCall origin missing d s"

definition rtSetDevice :: "'w device_vendor \<Rightarrow> 'w device_fn option \<Rightarrow> hook_env \<Rightarrow> 'w device_fn" where
  "rtSetDevice v origin env devId s =
     (if ParentInCallStack (ds_layers s) ''rtSetDevice'' then origin_call RT_ERROR_RESERVED origin devId s
      else
        let (known, used) = IsDevIdUsed devId (ds_used s); s = s\<lparr>ds_used := used\<rparr> in
        if known then origin_call RT_ERROR_RESERVED origin devId s else RtSetDevice_Call v origin env devId s)"

definition in_device_layer :: "string \<Rightarrow> ('w device_state \<Rightarrow> 'r \<times> 'w device_state) \<Rightarrow> 'w device_state \<Rightarrow> 'r \<times> 'w device_state" where
  "in_device_layer func body = LayerGuard ds_layers (\<lambda>ls s. s\<lparr>ds_layers := ls\<rparr>) func body"

definition aclrtSetDeviceImpl ::
  "'w device_vendor \<Rightarrow> 'w device_fn option \<Rightarrow> hook_env \<Rightarrow> int \<Rightarrow> 'w device_state \<Rightarrow> (acl_error \<times> 'w device_state) option"
where
  "aclrtSetDeviceImpl v origin env devId s =
     (let s = s\<lparr>ds_layers := layer_Push ''aclrtSetDeviceImpl'' (ds_layers s)\<rparr>;
          (known, used) = IsDevIdUsed devId (ds_used s); s = s\<lparr>ds_used := used\<rparr> in
      map_option (\<lambda>(ret, s). (ret, s\<lparr>ds_layers := layer_Pop (ds_layers s)\<rparr>))
        (if known then Some (origin_call ACL_ERROR_INTERNAL_ERROR origin devId s)
         else AclrtSetDevice_Call v origin env devId s))"

definition rtDeviceReset :: "'w device_vendor \<Rightarrow> 'w acl_api \<Rightarrow> 'w device_fn option \<Rightarrow> hook_env \<Rightarrow> 'w device_fn" where
  "rtDeviceReset v api origin env devId s =
     (if ParentInCallStack (ds_layers s) ''rtDeviceReset'' then origin_call RT_ERROR_RESERVED origin devId s
      else RtDeviceReset_Call v api origin env devId s)"

definition aclrtResetDeviceImpl :: "'w device_vendor \<Rightarrow> 'w acl_api \<Rightarrow> 'w device_fn option \<Rightarrow> hook_env \<Rightarrow> 'w device_fn" where
  "aclrtResetDeviceImpl v api origin env devId =
     in_device_layer ''aclrtResetDeviceImpl'' (AclrtResetDevice_Call v api origin env devId)"

definition aclrtDeviceEnablePeerAccessImpl :: "'w device_vendor \<Rightarrow> 'w device_fn option \<Rightarrow> hook_env \<Rightarrow> 'w device_fn" where
  "aclrtDeviceEnablePeerAccessImpl v origin env peer =
     in_device_layer ''aclrtDeviceEnablePeerAccessImpl'' (AclrtDeviceEnablePeerAccess_Call v origin env peer)"

definition aclrtDeviceDisablePeerAccessImpl :: "'w device_vendor \<Rightarrow> 'w device_fn option \<Rightarrow> hook_env \<Rightarrow> 'w device_fn" where
  "aclrtDeviceDisablePeerAccessImpl v origin env peer =
     in_device_layer ''aclrtDeviceDisablePeerAccessImpl'' (AclrtDeviceDisablePeerAccess_Call v origin env peer)"

section \<open>A vendor that acts on the device alone\<close>

definition dev_fn :: "(int \<Rightarrow> 'w \<Rightarrow> acl_error \<times> 'w) \<Rightarrow> 'w device_fn" where
  "dev_fn g d s = (let (r, w) = g d (ds_dev s) in (r, s\<lparr>ds_dev := w\<rparr>))"

definition soc_known :: "'w device_vendor \<Rightarrow> bool" where
  \<comment> \<open>the name of the chip is there, and does not change\<close>
  "soc_known v \<longleftrightarrow> (\<exists>soc. \<forall>w. dv_getSocName v w = Some soc)"

definition is_summary :: "int \<Rightarrow> int \<times> device_packet \<Rightarrow> bool" where
  "is_summary d = (\<lambda>(c, pkt). case pkt of DEVICE_SUMMARY _ e \<Rightarrow> c = d \<and> e = d | _ \<Rightarrow> False)"

definition announced :: "int \<Rightarrow> 'w device_state \<Rightarrow> nat" where
  \<comment> \<open>how often the tool was told of the device\<close>
  "announced d s = length (filter (is_summary d) (ds_sent s))"

datatype set_call = RtSet int | AclSet int

fun call_id :: "set_call \<Rightarrow> int" where
  "call_id (RtSet d) = d"
| "call_id (AclSet d) = d"

fun set_step :: "'w device_vendor \<Rightarrow> hook_env \<Rightarrow> (int \<Rightarrow> 'w \<Rightarrow> acl_error \<times> 'w) \<Rightarrow> set_call \<Rightarrow> 'w device_state \<Rightarrow>
    (acl_error \<times> 'w device_state) option" where
  "set_step v env g (RtSet d) s = Some (rtSetDevice v (Some (dev_fn g)) env d s)"
| "set_step v env g (AclSet d) s = aclrtSetDeviceImpl v (Some (dev_fn g)) env d s"

fun set_run :: "'w device_vendor \<Rightarrow> hook_env \<Rightarrow> (int \<Rightarrow> 'w \<Rightarrow> acl_error \<times> 'w) \<Rightarrow> set_call list \<Rightarrow> 'w device_state \<Rightarrow>
    (acl_error list \<times> 'w device_state) option" where
  "set_run v env g [] s = Some ([], s)"
| "set_run v env g (c # cs) s =
     (case set_step v env g c s of
        None \<Rightarrow> None
      | Some (r, s) \<Rightarrow> map_option (\<lambda>(rs, s). (r # rs, s)) (set_run v env g cs s))"

fun tells :: "set_call \<times> acl_error \<Rightarrow> bool" where
  "tells (RtSet d, r) = True"
| "tells (AclSet d, r) = (r = ACL_SUCCESS)"

lemma context_frames [frame_simps]:
  "ds_sent (on_context d f s) = ds_sent s" "ds_used (on_context d f s) = ds_used s"
  "ds_layers (on_context d f s) = ds_layers s"
  "ds_sent (on_local_context v f s) = ds_sent s" "ds_used (on_local_context v f s) = ds_used s"
  "ds_layers (on_local_context v f s) = ds_layers s"
  "ds_sent (Thread_SetDeviceId d s) = ds_sent s" "ds_used (Thread_SetDeviceId d s) = ds_used s"
  "ds_layers (Thread_SetDeviceId d s) = ds_layers s"
  "ds_used (device_notify d pkt s) = ds_used s" "ds_layers (device_notify d pkt s) = ds_layers s"
  by (simp_all add: on_context_def on_local_context_def Thread_GetDeviceId_def Thread_SetDeviceId_def device_notify_def
      split: option.splits)

lemma announced_notify:
  "announced d (device_notify e (DEVICE_SUMMARY n e) s) = (if d = e then Suc (announced d s) else announced d s)"
  by (simp add: announced_def device_notify_def is_summary_def)

lemma announced_cong: "ds_sent s' = ds_sent s \<Longrightarrow> announced d s' = announced d s"
  by (simp add: announced_def)

lemma RtSetDevice_announces:
  assumes "IsSanitizer (he_selector env)" "RtSetDevice_Call v (Some (dev_fn g)) env e s = (r, s')"
  shows "announced d s' = announced d s + (if d = e then 1 else 0) \<and> ds_used s' = ds_used s \<and> ds_layers s' = ds_layers s"
proof -
  obtain soc t where t: "RtSetDevice_Pre v env e s = (soc, t)" by force
  then have "ds_sent t = ds_sent s \<and> ds_used t = ds_used s \<and> ds_layers t = ds_layers s"
    by (auto simp: RtSetDevice_Pre_def split: if_splits option.splits)
  moreover obtain q w where "g (simulated_id env e) (ds_dev t) = (q, w)" by force
  ultimately show ?thesis
    using assms t by (auto simp: RtSetDevice_Call_def RtSetDevice_Post_def dev_fn_def Let_def announced_notify frame_simps
        announced_def device_notify_def is_summary_def)
qed

lemma AclrtSetDevice_announces:
  assumes "IsSanitizer (he_selector env)" "soc_known v" "AclrtSetDevice_Call v (Some (dev_fn g)) env e s = Some (r, s')"
  shows "announced d s' = announced d s + (if d = e \<and> r = ACL_SUCCESS then 1 else 0) \<and>
    ds_used s' = ds_used s \<and> ds_layers s' = ds_layers s"
proof -
  obtain soc where soc: "dv_getSocName v w = Some soc" for w using assms(2) by (auto simp: soc_known_def)
  define t where "t = (if IsAscend950 soc then s\<lparr>ds_dev := dv_setLimit v e (ds_dev s)\<rparr> else s)"
  have t: "AclrtSetDevice_Pre v env e s = Some t" using assms(1) soc by (simp add: AclrtSetDevice_Pre_def t_def)
  have "ds_sent t = ds_sent s \<and> ds_used t = ds_used s \<and> ds_layers t = ds_layers s" by (simp add: t_def)
  moreover obtain q w where "g (simulated_id env e) (ds_dev t) = (q, w)" by force
  ultimately show ?thesis
    using assms(1,3) t soc by (auto simp: AclrtSetDevice_Call_def AclrtSetDevice_Post_def dev_fn_def Let_def frame_simps
        announced_def device_notify_def is_summary_def split: if_splits)
qed

lemma set_step_announces:
  assumes "IsSanitizer (he_selector env)" "soc_known v" "set_step v env g c s = Some (r, s')" "ds_layers s = []"
  shows "announced d s' = announced d s + (if d = call_id c \<and> d \<notin> set (ds_used s) \<and> tells (c, r) then 1 else 0) \<and>
    set (ds_used s') = insert (call_id c) (set (ds_used s)) \<and> ds_layers s' = []"
proof (cases c)
  case (RtSet e)
  let ?s = "s\<lparr>ds_used := snd (IsDevIdUsed e (ds_used s))\<rparr>"
  have step: "(if e \<in> set (ds_used s) then dev_fn g e ?s else RtSetDevice_Call v (Some (dev_fn g)) env e ?s) = (r, s')"
    using assms(3,4) RtSet by (simp add: rtSetDevice_def ParentInCallStack_def IsDevIdUsed_def Let_def origin_call_def
        HijackedFunc_OriginCall_def split: if_splits)
  show ?thesis
  proof (cases "e \<in> set (ds_used s)")
    case True
    then show ?thesis using step RtSet assms(4)
      by (auto simp: dev_fn_def IsDevIdUsed_def announced_def split: prod.splits)
  next
    case False
    then show ?thesis
      using step RtSet assms(4) RtSetDevice_announces [OF assms(1), of v g e ?s r s' d]
      by (auto simp: IsDevIdUsed_def announced_def)
  qed
next
  case (AclSet e)
  let ?s = "s\<lparr>ds_layers := layer_Push ''aclrtSetDeviceImpl'' [], ds_used := snd (IsDevIdUsed e (ds_used s))\<rparr>"
  obtain t where step: "(if e \<in> set (ds_used s) then Some (dev_fn g e ?s) else AclrtSetDevice_Call v (Some (dev_fn g)) env e ?s) = Some (r, t)"
    and s': "s' = t\<lparr>ds_layers := layer_Pop (ds_layers t)\<rparr>"
    using assms(3,4) AclSet by (auto simp: aclrtSetDeviceImpl_def IsDevIdUsed_def Let_def origin_call_def
        HijackedFunc_OriginCall_def split: if_splits prod.splits)
  have an: "announced d s' = announced d t" "announced d ?s = announced d s" "ds_used s' = ds_used t"
    by (simp_all add: s' announced_def)
  show ?thesis
  proof (cases "e \<in> set (ds_used s)")
    case True
    then show ?thesis using step AclSet an s'
      by (auto simp: dev_fn_def IsDevIdUsed_def announced_def split: prod.splits)
  next
    case False
    then show ?thesis
      using step AclSet AclrtSetDevice_announces [OF assms(1,2), of g e ?s r t d] an s'
      by (auto simp: IsDevIdUsed_def)
  qed
qed

section \<open>Properties\<close>

definition first_call :: "int \<Rightarrow> (set_call \<times> acl_error) list \<Rightarrow> (set_call \<times> acl_error) option" where
  "first_call d calls = find (\<lambda>(c, r). call_id c = d) calls"

text \<open>
  C19: Over any sequence of calls that bind a device, through the ACL and the runtime entry in any order,
  the sanitizer's tool is told of a device at most once by them, and that by the first call for it:
  always when this is the runtime's, and only when it succeeds when it is the ACL's. A first ACL call
  that fails is final: no later one announces the device.
\<close>

theorem device_announced_by_first:
  assumes "IsSanitizer (he_selector env)" "soc_known v" "set_run v env g calls s = Some (rs, s')" "ds_layers s = []"
  shows "announced d s' = announced d s +
    (if d \<in> set (ds_used s) then 0
     else case first_call d (zip calls rs) of None \<Rightarrow> 0 | Some c \<Rightarrow> if tells c then 1 else 0)"
  using assms(3,4)
proof (induction calls arbitrary: s rs)
  case (Cons c cs)
  from Cons.prems(1) obtain r t qs where step: "set_step v env g c s = Some (r, t)"
    and run: "set_run v env g cs t = Some (qs, s')" and rs: "rs = r # qs"
    by (auto split: option.splits)
  note one = set_step_announces [OF assms(1,2) step Cons.prems(2)]
  show ?case
    using Cons.IH [OF run] one [of d] by (auto simp: rs first_call_def)
qed (simp add: first_call_def)

definition chip_vendor :: "nat device_vendor" where
  \<comment> \<open>one chip; the state is the number of calls that bind a device\<close>
  "chip_vendor = \<lparr>dv_getDevice = (\<lambda>w. Some 0), dv_getSocVersion = (\<lambda>w. Some ''Ascend910B1''),
     dv_getSocName = (\<lambda>w. Some ''Ascend910B1''), dv_hasVisible = True, dv_logicId = (\<lambda>d w. Some d),
     dv_setLimit = (\<lambda>d w. w)\<rparr>"

definition busy_once :: "int \<Rightarrow> nat \<Rightarrow> acl_error \<times> nat" where
  "busy_once d w = (if w = 0 then 1 else ACL_SUCCESS, Suc w)"

definition device_start :: "nat device_state" where
  "device_start = \<lparr>ds_layers = [], ds_thread = 0, ds_contexts = (\<lambda>_. dc0), ds_used = [], ds_relations = [],
     ds_buffer = dm0, ds_sent = [], ds_dev = 0\<rparr>"

theorem device_announced_by_first_witness:
  "map_option (\<lambda>(rs, s). (rs, announced 0 s, announced 1 s))
     (set_run chip_vendor sanitizer_env busy_once [AclSet 0, AclSet 0, RtSet 1, AclSet 1] device_start) =
   Some ([1, 0, 0, 0], 0, 1)"
proof -
  have known: "soc_known chip_vendor" by (simp add: soc_known_def chip_vendor_def)
  obtain rs s where run: "set_run chip_vendor sanitizer_env busy_once [AclSet 0, AclSet 0, RtSet 1, AclSet 1] device_start =
      Some (rs, s)" and rs: "rs = [1, 0, 0, 0]"
    using sanitizer_env_on tools_exclusive [of "he_selector sanitizer_env"]
    by (simp add: aclrtSetDeviceImpl_def rtSetDevice_def AclrtSetDevice_Call_def AclrtSetDevice_Pre_def
        AclrtSetDevice_Post_def RtSetDevice_Call_def RtSetDevice_Pre_def RtSetDevice_Post_def chip_vendor_def busy_once_def
        device_start_def IsDevIdUsed_def dev_fn_def simulated_id_def origin_call_def HijackedFunc_OriginCall_def
        ParentInCallStack_def Let_def IsAscend950_def contains_def layer_Push_def layer_Pop_def ACL_SUCCESS_def
        on_context_def on_local_context_def Thread_SetDeviceId_def Thread_GetDeviceId_def device_notify_def)
  note told = device_announced_by_first [OF sanitizer_env_on known run]
  have "announced 0 s = 0" "announced 1 s = 1"
    using told [of 0] told [of 1]
    by (simp_all add: rs device_start_def first_call_def announced_def ACL_SUCCESS_def)
  then show ?thesis using run rs by simp
qed

text \<open>
  A reset that succeeds, through the ACL or a runtime entry, leaves nothing of the device behind: no
  authorisation from it or to it, no buffer of an instrumented kernel, every other authorisation
  untouched, and the tool is told in one summary and one peer-access record.
\<close>

theorem reset_revokes:
  assumes san: "IsSanitizer (he_selector env)" and rel: "ds_relations s = foldl peer_step [] reqs" and d: "0 \<le> d"
    and layers: "ds_layers s = []"
    and reset: "aclrtResetDeviceImpl v api (Some (dev_fn g)) env d s = (ACL_SUCCESS, s') \<or>
      rtDeviceReset v api (Some (dev_fn g)) env d s = (ACL_SUCCESS, s') \<or>
      RtDeviceResetEx_Call v api (Some (dev_fn g)) env d s = (ACL_SUCCESS, s')"
  shows "peers (ds_relations s') e = (if e = d then {} else peers (ds_relations s) e - {d}) \<and>
    dm_memPtr (ds_buffer s') = 0 \<and>
    (\<exists>n. ds_sent s' = ds_sent s @ [(d, DEVICE_SUMMARY n d), (d, PEER_ACCESS_RECORD d (-1) RESET)])"
proof -
  have core: "ds_relations t' = PeerAccess_Apply d (-1) RESET (ds_relations t) \<and> dm_memPtr (ds_buffer t') = 0 \<and>
      (\<exists>n. ds_sent t' = ds_sent t @ [(d, DEVICE_SUMMARY n d), (d, PEER_ACCESS_RECORD d (-1) RESET)])"
    if "Reset_Call missing v api (Some (dev_fn g)) env d t = (ACL_SUCCESS, t')" for missing t t'
    using that san
    by (auto simp: Reset_Call_def Reset_Pre_def Reset_Post_def dev_fn_def dm_Free_def device_notify_def on_context_def Let_def
        split: prod.splits if_splits)
  have "ds_relations s' = PeerAccess_Apply d (-1) RESET (ds_relations s) \<and> dm_memPtr (ds_buffer s') = 0 \<and>
      (\<exists>n. ds_sent s' = ds_sent s @ [(d, DEVICE_SUMMARY n d), (d, PEER_ACCESS_RECORD d (-1) RESET)])"
    using reset
  proof (elim disjE)
    assume "aclrtResetDeviceImpl v api (Some (dev_fn g)) env d s = (ACL_SUCCESS, s')"
    then obtain t where "Reset_Call ACL_ERROR_INTERNAL_ERROR v api (Some (dev_fn g)) env d
        (s\<lparr>ds_layers := layer_Push ''aclrtResetDeviceImpl'' (ds_layers s)\<rparr>) = (ACL_SUCCESS, t)"
      and s': "s' = t\<lparr>ds_layers := layer_Pop (ds_layers t)\<rparr>"
      by (auto simp: aclrtResetDeviceImpl_def in_device_layer_def LayerGuard_def AclrtResetDevice_Call_def split: prod.splits)
    from core [OF this(1)] show ?thesis by (simp add: s')
  next
    assume "rtDeviceReset v api (Some (dev_fn g)) env d s = (ACL_SUCCESS, s')"
    then show ?thesis
      using core [of RT_ERROR_RESERVED s s'] layers by (simp add: rtDeviceReset_def RtDeviceReset_Call_def ParentInCallStack_def)
  next
    assume "RtDeviceResetEx_Call v api (Some (dev_fn g)) env d s = (ACL_SUCCESS, s')"
    then show ?thesis using core [of RT_ERROR_RESERVED s s'] by (simp add: RtDeviceResetEx_Call_def)
  qed
  then show ?thesis using peer_access_effect [OF rel, of d "-1" RESET e] d by simp
qed

theorem reset_revokes_witness:
  "\<exists>s'. rtDeviceReset chip_vendor \<lparr>api_malloc = \<lambda>n p w. ((0, 64), w), api_free = \<lambda>p w. (0, w), api_memset = \<lambda>p n b m w. (0, w),
       api_read = \<lambda>p n w. ((0, []), w), api_write = \<lambda>p bs w. (0, w), api_copy = \<lambda>d n p m w. (0, w),
       api_copyHost = \<lambda>bs w. ((0, bs), w), api_copyAsync = \<lambda>d n p m st w. (0, w), api_sync = \<lambda>st w. (0, w),
       api_defaultStream = \<lambda>w. ((0, 7), w), api_getDevice = \<lambda>w. ((0, 0), w), api_mallocHost = \<lambda>n w. ((0, 64), w),
       api_freeHost = \<lambda>p w. (0, w)\<rparr> (Some (dev_fn (\<lambda>d w. (ACL_SUCCESS, w)))) sanitizer_env 0
       (device_start\<lparr>ds_relations := foldl peer_step [] [(0, 1, ENABLE), (1, 0, ENABLE), (1, 2, ENABLE)]\<rparr>) = (ACL_SUCCESS, s') \<and>
     peers (ds_relations s') 1 = {2}"
  (is "\<exists>s'. rtDeviceReset _ ?api ?g _ _ ?s = _ \<and> _")
proof -
  obtain r s' where run: "rtDeviceReset chip_vendor ?api ?g sanitizer_env 0 ?s = (r, s')" by force
  have r: "r = ACL_SUCCESS"
    using run by (auto simp: rtDeviceReset_def RtDeviceReset_Call_def Reset_Call_def Reset_Post_def dev_fn_def device_start_def
        ParentInCallStack_def Let_def split: prod.splits if_splits)
  have "peers (ds_relations s') 1 = {2}"
    using reset_revokes [OF sanitizer_env_on _ _ _ disjI2 [OF disjI1 [OF run [unfolded r]]],
        of "[(0, 1, ENABLE), (1, 0, ENABLE), (1, 2, ENABLE)]" 1]
    by (simp add: device_start_def) (auto simp: peers_def PeerAccess_Apply_def Let_def)
  then show ?thesis using run r by blast
qed

text \<open>
  The older entries bind the thread before the call: the context that gets the new id is the one
  of the device that is current at that time, and the thread is bound to that device again.
\<close>

lemma set_device_ex_context:
  assumes "dv_getDevice v (ds_dev s) = Some current"
  shows "RtSetDeviceEx_Call v (Some f) env d s =
    f (simulated_id env d) (on_context current (Context_SetDeviceId v env (ds_dev s) d) (s\<lparr>ds_thread := current\<rparr>))"
  using assms by (simp add: RtSetDeviceEx_Call_def on_local_context_def Thread_GetDeviceId_def Thread_SetDeviceId_def)

end
