(* ===== verification/IpcHooks.thy ===== *)
theory IpcHooks
  imports AllocHooks Text
begin

text \<open>
  Models the hooks of memory shared between processes: runtime/inject_helpers/IPCMemManager.h,
  acl_rt_impl/HijackedFuncOfAclrtIpcMemGetExportKeyImpl.cpp, IpcMemImportByKeyImpl and
  IpcMemCloseImpl, runtime/HijackedFuncOfIpcSetMemoryName.cpp, IpcOpenMemory, IpcCloseMemory and
  IpcDestroyMemoryName, with their entries in bind/BindSanitizer.cpp. A block that is exported is
  widened by its guard zones before the vendor sees it, and an imported address is moved past the
  front zone again. The records are those handed to \<open>IPCInteract\<close>; the tool's answer is only logged.
\<close>

section \<open>State\<close>

datatype IPCMemActor = SHARER | SHAREE

record IPCMemInfo =
  im_actor :: IPCMemActor
  im_devPtr :: ptr

datatype IPCMemRecord =
  SET_INFO nat nat string  \<comment> \<open>address, size, name\<close>
| DESTROY_INFO string
| MAP_INFO nat string
| UNMAP_INFO nat

record 'w ipc_state =
  ip_layers :: layers
  ip_guard :: MemoryGuard
  ip_map :: "string \<Rightarrow> IPCMemInfo option"  \<comment> \<open>\<open>ipcMemInfoMap\<close>\<close>
  ip_sent :: "IPCMemRecord list"
  ip_dev :: 'w

type_synonym 'w export_fn = "ptr \<Rightarrow> nat \<Rightarrow> 'w ipc_state \<Rightarrow> (acl_error \<times> string option) \<times> 'w ipc_state"
  \<comment> \<open>the key's buffer after the call, \<open>None\<close> for a null one\<close>
type_synonym 'w import_fn = "string option \<Rightarrow> 'w ipc_state \<Rightarrow> (acl_error \<times> ptr) \<times> 'w ipc_state"
type_synonym 'w key_fn = "string option \<Rightarrow> 'w ipc_state \<Rightarrow> acl_error \<times> 'w ipc_state"
type_synonym 'w ptr_fn = "ptr \<Rightarrow> 'w ipc_state \<Rightarrow> acl_error \<times> 'w ipc_state"

definition IPC_NAME_SIZE :: nat where
  "IPC_NAME_SIZE = 64"

definition ipc_key :: "string \<Rightarrow> nat \<Rightarrow> string" where
  \<comment> \<open>\<open>std::string key(key_, GetValidLength(key_, n))\<close>, which is also what lands in \<open>name\<close>\<close>
  "ipc_key key n = take (GetValidLength (Some key) n) key"

definition map_insert :: "'k \<Rightarrow> 'v \<Rightarrow> ('k \<Rightarrow> 'v option) \<Rightarrow> 'k \<Rightarrow> 'v option" where
  \<comment> \<open>\<open>std::map::insert\<close>, which keeps an entry that is there\<close>
  "map_insert k v m = (case m k of None \<Rightarrow> m(k \<mapsto> v) | Some _ \<Rightarrow> m)"

definition IPCInteract :: "IPCMemRecord \<Rightarrow> 'w ipc_state \<Rightarrow> 'w ipc_state" where
  "IPCInteract r s = s\<lparr>ip_sent := ip_sent s @ [r]\<rparr>"

section \<open>Hooks of the ACL functions\<close>

definition IpcMemGetExportKey_Post ::
  "hook_env \<Rightarrow> ptr \<Rightarrow> nat \<Rightarrow> nat \<Rightarrow> acl_error \<times> string option \<Rightarrow> 'w ipc_state \<Rightarrow> 'w ipc_state"
where
  "IpcMemGetExportKey_Post env devPtr sz len = (\<lambda>(ret, buffer) s.
     if ret \<noteq> ACL_SUCCESS then s
     else if IsSanitizer (he_selector env) then
       (case buffer of
          None \<Rightarrow> s
        | Some buf \<Rightarrow>
            let key = ipc_key buf (min len IPC_NAME_SIZE);
                s = s\<lparr>ip_map := map_insert key \<lparr>im_actor = SHARER, im_devPtr = devPtr\<rparr> (ip_map s)\<rparr> in
            IPCInteract (SET_INFO devPtr sz key) s)
     else s)"

definition IpcMemGetExportKey_Call ::
  "'w export_fn option \<Rightarrow> hook_env \<Rightarrow> ptr \<Rightarrow> nat \<Rightarrow> nat \<Rightarrow> 'w ipc_state \<Rightarrow> (acl_error \<times> string option) \<times> 'w ipc_state"
where
  "IpcMemGetExportKey_Call origin env devPtr sz len s =
     (case origin of
        None \<Rightarrow> ((ACL_ERROR_INTERNAL_ERROR, None), s)
      | Some f \<Rightarrow>
          let (res, s) =
                (if mg_enable (ip_guard s) then
                   let (frontSize, backSize) = GetGuardSizes (ip_guard s) in
                   f (sub64 devPtr frontSize) (wrap64 (sz + frontSize + backSize)) s
                 else f devPtr sz s) in
          (res, IpcMemGetExportKey_Post env devPtr sz len res s))"

definition IpcMemImportByKey_Post :: "hook_env \<Rightarrow> ptr \<Rightarrow> string option \<Rightarrow> 'w ipc_state \<Rightarrow> 'w ipc_state" where
  \<comment> \<open>\<open>devPtr\<close> is \<open>*devPtr_\<close>; the result of the call is not looked at\<close>
  "IpcMemImportByKey_Post env devPtr key s =
     (if IsSanitizer (he_selector env) then
        (case key of
           None \<Rightarrow> s
         | Some buf \<Rightarrow>
             let key = ipc_key buf IPC_NAME_SIZE;
                 s = s\<lparr>ip_map := map_insert key \<lparr>im_actor = SHAREE, im_devPtr = devPtr\<rparr> (ip_map s)\<rparr> in
             IPCInteract (MAP_INFO devPtr key) s)
      else s)"

definition IpcMemImportByKey_Call ::
  "'w import_fn option \<Rightarrow> hook_env \<Rightarrow> string option \<Rightarrow> 'w ipc_state \<Rightarrow> (acl_error \<times> ptr) \<times> 'w ipc_state"
where
  \<comment> \<open>the pointer to the result is not null\<close>
  "IpcMemImportByKey_Call origin env key s =
     (case origin of
        None \<Rightarrow> ((ACL_ERROR_INTERNAL_ERROR, 0), s)
      | Some f \<Rightarrow>
          let ((ret, p), s) = f key s;
              p = (if mg_enable (ip_guard s) then wrap64 (p + fst (GetGuardSizes (ip_guard s))) else p) in
          ((ret, p), IpcMemImportByKey_Post env p key s))"

definition IpcMemClose_Post :: "hook_env \<Rightarrow> string option \<Rightarrow> acl_error \<Rightarrow> 'w ipc_state \<Rightarrow> acl_error \<times> 'w ipc_state" where
  "IpcMemClose_Post env key ret s =
     (if IsSanitizer (he_selector env) then
        (case key of
           None \<Rightarrow> (ret, s)
         | Some buf \<Rightarrow>
             let key = ipc_key buf IPC_NAME_SIZE in
             (case ip_map s key of
                None \<Rightarrow> (ret, s)
              | Some info \<Rightarrow>
                  let s = s\<lparr>ip_map := (ip_map s)(key := None)\<rparr> in
                  (ret, IPCInteract (if im_actor info = SHARER then DESTROY_INFO key
                                     else UNMAP_INFO (im_devPtr info)) s)))
      else (ret, s))"

section \<open>Hooks of the runtime functions\<close>

definition IpcSetMemoryName_Call ::
  "'w export_fn option \<Rightarrow> hook_env \<Rightarrow> ptr \<Rightarrow> nat \<Rightarrow> nat \<Rightarrow> 'w ipc_state \<Rightarrow> (acl_error \<times> string option) \<times> 'w ipc_state"
where
  "IpcSetMemoryName_Call origin env ptr byteCount len s =
     (case origin of
        None \<Rightarrow> ((RT_ERROR_RESERVED, None), s)
      | Some f \<Rightarrow>
          let (frontSize, backSize) = GetGuardSizes (ip_guard s) in
          if mg_enable (ip_guard s) \<and> byteCount + frontSize + backSize \<ge> 2 ^ 64 then f ptr byteCount s
          else
            let ((ret, name), s) =
                  (if mg_enable (ip_guard s) then f (sub64 ptr frontSize) (byteCount + frontSize + backSize) s
                   else f ptr byteCount s) in
            if ret \<noteq> ACL_SUCCESS then ((ret, name), s)
            else if IsSanitizer (he_selector env)
              then ((ret, name), IPCInteract (SET_INFO ptr byteCount
                      (case name of None \<Rightarrow> [] | Some buf \<Rightarrow> ipc_key buf (min len IPC_NAME_SIZE))) s)
            else ((ret, name), s))"

definition IpcOpenMemory_Call ::
  "'w import_fn option \<Rightarrow> hook_env \<Rightarrow> string option \<Rightarrow> 'w ipc_state \<Rightarrow> (acl_error \<times> ptr) \<times> 'w ipc_state"
where
  "IpcOpenMemory_Call origin env name s =
     (case origin of
        None \<Rightarrow> ((RT_ERROR_RESERVED, 0), s)
      | Some f \<Rightarrow>
          let ((ret, p), s) = f name s in
          if ret \<noteq> ACL_SUCCESS then ((ret, p), s)
          else
            let p = (if mg_enable (ip_guard s) then wrap64 (p + fst (GetGuardSizes (ip_guard s))) else p) in
            if IsSanitizer (he_selector env)
            then ((ret, p), IPCInteract (MAP_INFO p (case name of None \<Rightarrow> [] | Some buf \<Rightarrow> ipc_key buf IPC_NAME_SIZE)) s)
            else ((ret, p), s))"

definition IpcCloseMemory_Call :: "'w ptr_fn option \<Rightarrow> hook_env \<Rightarrow> 'w ptr_fn" where
  "IpcCloseMemory_Call origin env ptr s =
     (case origin of
        None \<Rightarrow> (RT_ERROR_RESERVED, s)
      | Some f \<Rightarrow>
          let (ret, s) =
                (if mg_enable (ip_guard s) then f (sub64 ptr (fst (GetGuardSizes (ip_guard s)))) s else f ptr s) in
          if ret \<noteq> ACL_SUCCESS then (ret, s)
          else if IsSanitizer (he_selector env) then (ret, IPCInteract (UNMAP_INFO ptr) s)
          else (ret, s))"

definition IpcDestroyMemoryName_Call :: "'w key_fn option \<Rightarrow> hook_env \<Rightarrow> 'w key_fn" where
  "IpcDestroyMemoryName_Call origin env name s =
     (case origin of
        None \<Rightarrow> (RT_ERROR_RESERVED, s)
      | Some f \<Rightarrow>
          let (ret, s) = f name s in
          if ret \<noteq> ACL_SUCCESS then (ret, s)
          else if IsSanitizer (he_selector env)
            then (ret, IPCInteract (DESTROY_INFO (case name of None \<Rightarrow> [] | Some buf \<Rightarrow> ipc_key buf IPC_NAME_SIZE)) s)
          else (ret, s))"

section \<open>Entry points\<close>

definition in_ipc_layer :: "string \<Rightarrow> ('w ipc_state \<Rightarrow> 'r \<times> 'w ipc_state) \<Rightarrow> 'w ipc_state \<Rightarrow> 'r \<times> 'w ipc_state" where
  "in_ipc_layer func body = LayerGuard ip_layers (\<lambda>ls s. s\<lparr>ip_layers := ls\<rparr>) func body"

definition aclrtIpcMemGetExportKeyImpl ::
  "'w export_fn option \<Rightarrow> hook_env \<Rightarrow> ptr \<Rightarrow> nat \<Rightarrow> nat \<Rightarrow> 'w ipc_state \<Rightarrow> (acl_error \<times> string option) \<times> 'w ipc_state"
where
  "aclrtIpcMemGetExportKeyImpl origin env devPtr sz len =
     in_ipc_layer ''aclrtIpcMemGetExportKeyImpl'' (IpcMemGetExportKey_Call origin env devPtr sz len)"

definition aclrtIpcMemImportByKeyImpl ::
  "'w import_fn option \<Rightarrow> hook_env \<Rightarrow> string option \<Rightarrow> 'w ipc_state \<Rightarrow> (acl_error \<times> ptr) \<times> 'w ipc_state"
where
  "aclrtIpcMemImportByKeyImpl origin env key =
     in_ipc_layer ''aclrtIpcMemImportByKeyImpl'' (IpcMemImportByKey_Call origin env key)"

definition aclrtIpcMemCloseImpl :: "'w key_fn option \<Rightarrow> hook_env \<Rightarrow> 'w key_fn" where
  "aclrtIpcMemCloseImpl origin env key =
     in_ipc_layer ''aclrtIpcMemCloseImpl''
       (HijackedFunc_Call (\<lambda>_ s. s) (IpcMemClose_Post env key) origin ACL_ERROR_INTERNAL_ERROR key)"

definition rtIpcSetMemoryName ::
  "'w export_fn option \<Rightarrow> hook_env \<Rightarrow> ptr \<Rightarrow> nat \<Rightarrow> nat \<Rightarrow> 'w ipc_state \<Rightarrow> (acl_error \<times> string option) \<times> 'w ipc_state"
where
  "rtIpcSetMemoryName origin env ptr byteCount len s =
     (if ParentInCallStack (ip_layers s) ''rtIpcSetMemoryName''
      then (case origin of None \<Rightarrow> ((RT_ERROR_RESERVED, None), s) | Some f \<Rightarrow> f ptr byteCount s)
      else IpcSetMemoryName_Call origin env ptr byteCount len s)"

definition rtIpcOpenMemory ::
  "'w import_fn option \<Rightarrow> hook_env \<Rightarrow> string option \<Rightarrow> 'w ipc_state \<Rightarrow> (acl_error \<times> ptr) \<times> 'w ipc_state"
where
  "rtIpcOpenMemory origin env name s =
     (if ParentInCallStack (ip_layers s) ''rtIpcOpenMemory''
      then (case origin of None \<Rightarrow> ((RT_ERROR_RESERVED, 0), s) | Some f \<Rightarrow> f name s)
      else IpcOpenMemory_Call origin env name s)"

definition rtIpcCloseMemory :: "'w ptr_fn option \<Rightarrow> hook_env \<Rightarrow> 'w ptr_fn" where
  "rtIpcCloseMemory origin env ptr s =
     (if ParentInCallStack (ip_layers s) ''rtIpcCloseMemory''
      then HijackedFunc_OriginCall origin RT_ERROR_RESERVED ptr s
      else IpcCloseMemory_Call origin env ptr s)"

definition rtIpcDestroyMemoryName :: "'w key_fn option \<Rightarrow> hook_env \<Rightarrow> 'w key_fn" where
  "rtIpcDestroyMemoryName origin env name s =
     (if ParentInCallStack (ip_layers s) ''rtIpcDestroyMemoryName''
      then HijackedFunc_OriginCall origin RT_ERROR_RESERVED name s
      else IpcDestroyMemoryName_Call origin env name s)"

section \<open>The vendor's side\<close>

definition dev_export :: "(ptr \<Rightarrow> nat \<Rightarrow> 'w \<Rightarrow> (acl_error \<times> string option) \<times> 'w) \<Rightarrow> 'w export_fn" where
  "dev_export f p n s = (let (r, w) = f p n (ip_dev s) in (r, s\<lparr>ip_dev := w\<rparr>))"

definition dev_import :: "(string option \<Rightarrow> 'w \<Rightarrow> (acl_error \<times> ptr) \<times> 'w) \<Rightarrow> 'w import_fn" where
  "dev_import f key s = (let (r, w) = f key (ip_dev s) in (r, s\<lparr>ip_dev := w\<rparr>))"

definition dev_key :: "(string option \<Rightarrow> 'w \<Rightarrow> acl_error \<times> 'w) \<Rightarrow> 'w key_fn" where
  "dev_key f key s = (let (r, w) = f key (ip_dev s) in (r, s\<lparr>ip_dev := w\<rparr>))"

text \<open>
  The documented behaviour: an exported range is known under its key, and a mapping of a known range
  lies inside the address space and shows the range's cells. The two views are those of the exporting
  and the importing process.
\<close>

definition share_law ::
  "(ptr \<Rightarrow> nat \<Rightarrow> 'w \<Rightarrow> (acl_error \<times> string option) \<times> 'w) \<Rightarrow> (string option \<Rightarrow> 'w \<Rightarrow> (acl_error \<times> ptr) \<times> 'w) \<Rightarrow>
   ('w \<Rightarrow> string \<Rightarrow> ptr \<Rightarrow> nat \<Rightarrow> bool) \<Rightarrow> ('w \<Rightarrow> ptr \<Rightarrow> 'c) \<Rightarrow> ('w \<Rightarrow> ptr \<Rightarrow> 'c) \<Rightarrow> bool"
where
  "share_law exp imp exported view_a view_b \<longleftrightarrow>
     (\<forall>p n w key w'. exp p n w = ((ACL_SUCCESS, Some key), w') \<longrightarrow> exported w' key p n) \<and>
     (\<forall>p n w key m w'. exported w key p n \<and> imp (Some key) w = ((ACL_SUCCESS, m), w') \<longrightarrow>
        m + n \<le> 2 ^ 64 \<and> (\<forall>i < n. view_b w' (m + i) = view_a w' (p + i)))"

lemma in_ipc_layerD:
  assumes "in_ipc_layer func body s = (r, s')"
  obtains t where "body (s\<lparr>ip_layers := layer_Push func (ip_layers s)\<rparr>) = (r, t)"
    and "s' = t\<lparr>ip_layers := layer_Pop (ip_layers t)\<rparr>"
  using assms by (auto simp: in_ipc_layer_def LayerGuard_def split: prod.splits)

lemma Post_dev [frame_simps]:
  "ip_dev (IpcMemGetExportKey_Post env u sz len res s) = ip_dev s"
  "ip_dev (IpcMemImportByKey_Post env u key s) = ip_dev s"
  by (simp_all add: IpcMemGetExportKey_Post_def IpcMemImportByKey_Post_def IPCInteract_def Let_def split: prod.splits option.splits)

definition exported_range :: "MemoryGuard \<Rightarrow> ptr \<Rightarrow> nat \<Rightarrow> ptr \<times> nat" where
  "exported_range g u sz =
     (if mg_enable g then (u - mg_frontSize g, sz + mg_frontSize g + mg_backSize g) else (u, sz))"

definition guard_offset :: "MemoryGuard \<Rightarrow> nat" where
  "guard_offset g = (if mg_enable g then mg_frontSize g else 0)"

definition block_ok :: "MemoryGuard \<Rightarrow> ptr \<Rightarrow> nat \<Rightarrow> bool" where
  \<comment> \<open>the block and its zones lie inside the address space\<close>
  "block_ok g u sz \<longleftrightarrow> mg_frontSize g \<le> u \<and> u < 2 ^ 64 \<and> sz + mg_frontSize g + mg_backSize g < 2 ^ 64"

lemma export_call:
  assumes "block_ok (ip_guard s) u sz"
    and "IpcMemGetExportKey_Call (Some (dev_export f)) env u sz len s = (res, s') \<or>
      IpcSetMemoryName_Call (Some (dev_export f)) env u sz len s = (res, s')"
  shows "f (fst (exported_range (ip_guard s) u sz)) (snd (exported_range (ip_guard s) u sz)) (ip_dev s) = (res, ip_dev s')"
  using assms
  by (auto simp: IpcMemGetExportKey_Call_def IpcSetMemoryName_Call_def exported_range_def block_ok_def GetGuardSizes_def dev_export_def
      sub64_ge wrap64_small frame_simps IPCInteract_def Let_def split: prod.splits if_splits)

lemma import_call:
  assumes "IpcMemImportByKey_Call (Some (dev_import f)) env (Some key) s = ((ACL_SUCCESS, u), s') \<or>
      IpcOpenMemory_Call (Some (dev_import f)) env (Some key) s = ((ACL_SUCCESS, u), s')"
  shows "\<exists>m. f (Some key) (ip_dev s) = ((ACL_SUCCESS, m), ip_dev s') \<and>
    u = (if mg_enable (ip_guard s) then wrap64 (m + mg_frontSize (ip_guard s)) else m)"
  using assms
  by (auto simp: IpcMemImportByKey_Call_def IpcOpenMemory_Call_def GetGuardSizes_def dev_import_def frame_simps IPCInteract_def Let_def
      split: prod.splits if_splits)

section \<open>Properties\<close>

text \<open>
  C20: Shared memory under guard zones: a block exported by one process and imported by another, each through
  its hooks (the ACL's or the runtime's), with the same guard sizes in both, shows the importer at its
  own address the cells that the exporter has in the block, byte for byte from the first.
\<close>

theorem shared_block_views_agree:
  assumes law: "share_law exp imp exported view_a view_b"
    and guard: "mg_enable (ip_guard a) = mg_enable (ip_guard b)" "GetGuardSizes (ip_guard a) = GetGuardSizes (ip_guard b)"
    and ok: "block_ok (ip_guard a) u sz" and layers: "ip_layers a = []" "ip_layers b = []"
    and export: "aclrtIpcMemGetExportKeyImpl (Some (dev_export exp)) env u sz len a = ((ACL_SUCCESS, Some key), a') \<or>
      rtIpcSetMemoryName (Some (dev_export exp)) env u sz len a = ((ACL_SUCCESS, Some key), a')"
    and kept: "\<And>p n. exported (ip_dev a') key p n \<Longrightarrow> exported (ip_dev b) key p n"
    and "import": "aclrtIpcMemImportByKeyImpl (Some (dev_import imp)) env' (Some key) b = ((ACL_SUCCESS, ub), b') \<or>
      rtIpcOpenMemory (Some (dev_import imp)) env' (Some key) b = ((ACL_SUCCESS, ub), b')"
    and i: "i < sz"
  shows "view_b (ip_dev b') (ub + i) = view_a (ip_dev b') (u + i)"
proof -
  let ?p = "fst (exported_range (ip_guard a) u sz)" and ?n = "snd (exported_range (ip_guard a) u sz)"
  have "exp ?p ?n (ip_dev a) = ((ACL_SUCCESS, Some key), ip_dev a')"
    using export
  proof
    assume "aclrtIpcMemGetExportKeyImpl (Some (dev_export exp)) env u sz len a = ((ACL_SUCCESS, Some key), a')"
    then obtain t where t: "IpcMemGetExportKey_Call (Some (dev_export exp)) env u sz len
        (a\<lparr>ip_layers := layer_Push ''aclrtIpcMemGetExportKeyImpl'' (ip_layers a)\<rparr>) = ((ACL_SUCCESS, Some key), t)"
      and a': "a' = t\<lparr>ip_layers := layer_Pop (ip_layers t)\<rparr>"
      unfolding aclrtIpcMemGetExportKeyImpl_def by (rule in_ipc_layerD)
    show ?thesis using export_call [OF _ disjI1 [OF t]] ok a' by simp
  next
    assume "rtIpcSetMemoryName (Some (dev_export exp)) env u sz len a = ((ACL_SUCCESS, Some key), a')"
    then show ?thesis
      using export_call [OF ok disjI2] layers(1) by (simp add: rtIpcSetMemoryName_def ParentInCallStack_def)
  qed
  then have known: "exported (ip_dev b) key ?p ?n" using law kept by (simp add: share_law_def)
  have "\<exists>m. imp (Some key) (ip_dev b) = ((ACL_SUCCESS, m), ip_dev b') \<and>
      ub = (if mg_enable (ip_guard b) then wrap64 (m + mg_frontSize (ip_guard b)) else m)"
    using "import"
  proof
    assume "aclrtIpcMemImportByKeyImpl (Some (dev_import imp)) env' (Some key) b = ((ACL_SUCCESS, ub), b')"
    then obtain t where t: "IpcMemImportByKey_Call (Some (dev_import imp)) env' (Some key)
        (b\<lparr>ip_layers := layer_Push ''aclrtIpcMemImportByKeyImpl'' (ip_layers b)\<rparr>) = ((ACL_SUCCESS, ub), t)"
      and b': "b' = t\<lparr>ip_layers := layer_Pop (ip_layers t)\<rparr>"
      unfolding aclrtIpcMemImportByKeyImpl_def by (rule in_ipc_layerD)
    show ?thesis using import_call [OF disjI1 [OF t]] b' by (simp cong: if_cong)
  next
    assume "rtIpcOpenMemory (Some (dev_import imp)) env' (Some key) b = ((ACL_SUCCESS, ub), b')"
    then show ?thesis
      using import_call [OF disjI2, of imp env' key b ub b'] layers(2)
      by (simp add: rtIpcOpenMemory_def ParentInCallStack_def cong: if_cong)
  qed
  then obtain m where m: "imp (Some key) (ip_dev b) = ((ACL_SUCCESS, m), ip_dev b')"
    and ub: "ub = (if mg_enable (ip_guard b) then wrap64 (m + mg_frontSize (ip_guard b)) else m)" by blast
  have cells: "m + ?n \<le> 2 ^ 64" "\<And>j. j < ?n \<Longrightarrow> view_b (ip_dev b') (m + j) = view_a (ip_dev b') (?p + j)"
    using law known m unfolding share_law_def by blast+
  show ?thesis
  proof (cases "mg_enable (ip_guard a)")
    case True
    then have "ub = m + mg_frontSize (ip_guard a)"
      using ub guard cells(1) i by (simp add: GetGuardSizes_def exported_range_def wrap64_small)
    then show ?thesis
      using cells(2) [of "mg_frontSize (ip_guard a) + i"] True i ok by (simp add: exported_range_def block_ok_def add.assoc)
  next
    case False
    then show ?thesis using cells(2) [of i] ub guard(1) i by (simp add: exported_range_def)
  qed
qed

definition shared_store :: "(ptr \<times> nat) list \<Rightarrow> bool" where
  "shared_store rs \<longleftrightarrow> (\<forall>(p, n) \<in> set rs. p + 2 ^ 40 + n \<le> 2 ^ 64)"

definition store_export :: "ptr \<Rightarrow> nat \<Rightarrow> (string \<times> ptr \<times> nat) list \<Rightarrow> (acl_error \<times> string option) \<times> (string \<times> ptr \<times> nat) list" where
  \<comment> \<open>a vendor with one name for each export, which maps at a fixed distance\<close>
  "store_export p n w =
     (let key = replicate (Suc (length w)) CHR ''k'' in ((ACL_SUCCESS, Some key), (key, p, n) # w))"

definition store_import :: "string option \<Rightarrow> (string \<times> ptr \<times> nat) list \<Rightarrow> (acl_error \<times> ptr) \<times> (string \<times> ptr \<times> nat) list" where
  "store_import key w =
     (case Option.bind key (map_of w) of
        None \<Rightarrow> ((1, 0), w)
      | Some (p, n) \<Rightarrow> if p + 65536 + n \<le> 2 ^ 64 then ((ACL_SUCCESS, p + 65536), w) else ((1, 0), w))"

lemma store_share_law:
  "share_law store_export store_import (\<lambda>w key p n. map_of w key = Some (p, n)) (\<lambda>w a. a) (\<lambda>w a. a - 65536)"
  by (auto simp: share_law_def store_export_def store_import_def ACL_SUCCESS_def Let_def split: if_splits)

definition ipc_start :: "(string \<times> ptr \<times> nat) list \<Rightarrow> (string \<times> ptr \<times> nat) list ipc_state" where
  "ipc_start w = \<lparr>ip_layers = [], ip_guard = SetGuardSizes 64 64 (guard0\<lparr>mg_enable := True\<rparr>), ip_map = Map.empty,
     ip_sent = [], ip_dev = w\<rparr>"

lemma ipc_start_guard: "GetGuardSizes (ip_guard (ipc_start w)) = (64, 64)" "mg_enable (ip_guard (ipc_start w))"
  "mg_frontSize (ip_guard (ipc_start w)) = 64" "mg_backSize (ip_guard (ipc_start w)) = 64"
  by (simp_all add: ipc_start_def GetGuardSizes_def SetGuardSizes_def CeilByAlignSize64_def wrap64_def)

theorem shared_block_views_agree_witness:
  "\<exists>key a' ub b'.
     aclrtIpcMemGetExportKeyImpl (Some (dev_export store_export)) sanitizer_env 8192 256 65 (ipc_start []) = ((ACL_SUCCESS, Some key), a') \<and>
     aclrtIpcMemImportByKeyImpl (Some (dev_import store_import)) sanitizer_env (Some key) (ipc_start (ip_dev a')) = ((ACL_SUCCESS, ub), b') \<and>
     (ub + 255) - 65536 = 8192 + 255"
proof -
  let ?key = "''k''"
  obtain a' where a: "aclrtIpcMemGetExportKeyImpl (Some (dev_export store_export)) sanitizer_env 8192 256 65 (ipc_start []) =
      ((ACL_SUCCESS, Some ?key), a')" and w: "ip_dev a' = [(?key, 8128, 384)]"
    by (auto simp: aclrtIpcMemGetExportKeyImpl_def in_ipc_layer_def LayerGuard_def IpcMemGetExportKey_Call_def ipc_start_def
        GetGuardSizes_def SetGuardSizes_def CeilByAlignSize64_def wrap64_def sub64_def dev_export_def store_export_def
        frame_simps Let_def)
  obtain ub b' where b: "aclrtIpcMemImportByKeyImpl (Some (dev_import store_import)) sanitizer_env (Some ?key) (ipc_start (ip_dev a')) =
      ((ACL_SUCCESS, ub), b')"
    by (simp add: w) (simp add: aclrtIpcMemImportByKeyImpl_def in_ipc_layer_def LayerGuard_def IpcMemImportByKey_Call_def ipc_start_def
        dev_import_def store_import_def Let_def)
  have "(ub + 255) - 65536 = (8192 + 255 :: nat)"
    by (rule shared_block_views_agree [OF store_share_law _ _ _ _ _ disjI1 [OF a] _ disjI1 [OF b]])
      (simp_all add: ipc_start_guard block_ok_def, simp_all add: ipc_start_def)
  with a b show ?thesis by blast
qed

definition key_state_eq :: "'w ipc_state \<Rightarrow> 'w ipc_state \<Rightarrow> bool" where
  "key_state_eq s t \<longleftrightarrow> ip_map s = ip_map t \<and> ip_layers s = ip_layers t \<and> ip_guard s = ip_guard t"

lemma aclrtIpcMemCloseImpl_eq:
  assumes "IsSanitizer (he_selector env)"
  shows "aclrtIpcMemCloseImpl (Some (dev_key c)) env (Some key) s =
    (let (ret, w) = c (Some key) (ip_dev s); s = s\<lparr>ip_dev := w\<rparr>; k = ipc_key key IPC_NAME_SIZE in
     (ret, case ip_map s k of
             None \<Rightarrow> s
           | Some info \<Rightarrow> IPCInteract (if im_actor info = SHARER then DESTROY_INFO k else UNMAP_INFO (im_devPtr info))
               (s\<lparr>ip_map := (ip_map s)(k := None)\<rparr>)))"
  using assms
  by (auto simp: aclrtIpcMemCloseImpl_def in_ipc_layer_def LayerGuard_def HijackedFunc_Call_def IpcMemClose_Post_def dev_key_def
      IPCInteract_def Let_def split: prod.splits option.splits)

lemma export_close:
  assumes "IsSanitizer (he_selector env)" "ip_map s (ipc_key key IPC_NAME_SIZE) = None" "IPC_NAME_SIZE \<le> len"
    and e: "aclrtIpcMemGetExportKeyImpl (Some (dev_export f)) env u sz len s = ((ACL_SUCCESS, Some key), s1)"
    and close: "aclrtIpcMemCloseImpl (Some (dev_key c)) env (Some key) s1 = (ret, s2)"
  shows "key_state_eq s2 s \<and> ip_sent s2 = ip_sent s @ [SET_INFO u sz (ipc_key key IPC_NAME_SIZE), DESTROY_INFO (ipc_key key IPC_NAME_SIZE)]"
proof -
  let ?k = "ipc_key key IPC_NAME_SIZE"
  have fresh: "((ip_map s)(?k \<mapsto> x))(?k := None) = ip_map s" for x using assms(2) by (simp add: fun_upd_idem)
  have len: "min len IPC_NAME_SIZE = IPC_NAME_SIZE" using assms(3) by simp
  obtain w where "s1 = (IPCInteract (SET_INFO u sz ?k) (s\<lparr>ip_dev := w, ip_map := (ip_map s)(?k \<mapsto> \<lparr>im_actor = SHARER, im_devPtr = u\<rparr>)\<rparr>))"
    using e assms(1,2) len
    by (auto simp: aclrtIpcMemGetExportKeyImpl_def in_ipc_layer_def LayerGuard_def IpcMemGetExportKey_Call_def
        IpcMemGetExportKey_Post_def dev_export_def GetGuardSizes_def map_insert_def IPCInteract_def Let_def
        split: prod.splits if_splits)
  then show ?thesis
    using close assms(1) fresh
    by (auto simp: aclrtIpcMemCloseImpl_eq IPCInteract_def key_state_eq_def Let_def split: prod.splits)
qed

lemma import_close:
  assumes "IsSanitizer (he_selector env)" "ip_map s (ipc_key key IPC_NAME_SIZE) = None"
    and i: "aclrtIpcMemImportByKeyImpl (Some (dev_import g)) env (Some key) s = ((r, p), s1)"
    and close: "aclrtIpcMemCloseImpl (Some (dev_key c)) env (Some key) s1 = (ret, s2)"
  shows "key_state_eq s2 s \<and> ip_sent s2 = ip_sent s @ [MAP_INFO p (ipc_key key IPC_NAME_SIZE), UNMAP_INFO p]"
proof -
  let ?k = "ipc_key key IPC_NAME_SIZE"
  have fresh: "((ip_map s)(?k \<mapsto> x))(?k := None) = ip_map s" for x using assms(2) by (simp add: fun_upd_idem)
  obtain w where "s1 = (IPCInteract (MAP_INFO p ?k) (s\<lparr>ip_dev := w, ip_map := (ip_map s)(?k \<mapsto> \<lparr>im_actor = SHAREE, im_devPtr = p\<rparr>)\<rparr>))"
    using i assms(1,2)
    by (auto simp: aclrtIpcMemImportByKeyImpl_def in_ipc_layer_def LayerGuard_def IpcMemImportByKey_Call_def
        IpcMemImportByKey_Post_def dev_import_def map_insert_def IPCInteract_def Let_def split: prod.splits if_splits)
  then show ?thesis
    using close assms(1) fresh
    by (auto simp: aclrtIpcMemCloseImpl_eq IPCInteract_def key_state_eq_def Let_def split: prod.splits)
qed

text \<open>
  What is opened is closed: when the key is new to the process, the record that \<open>aclrtIpcMemClose\<close>
  sends names the same block as the one sent at the export (the name is destroyed) or at the import
  (the same address is unmapped), and the process's table of keys is as before.
\<close>

theorem ipc_close_matches:
  assumes "IsSanitizer (he_selector env)" "ip_map s (ipc_key key IPC_NAME_SIZE) = None" "IPC_NAME_SIZE \<le> len"
    and "aclrtIpcMemGetExportKeyImpl (Some (dev_export f)) env u sz len s = ((ACL_SUCCESS, Some key), s1) \<and>
        opened = SET_INFO u sz (ipc_key key IPC_NAME_SIZE) \<and> closed = DESTROY_INFO (ipc_key key IPC_NAME_SIZE) \<or>
      aclrtIpcMemImportByKeyImpl (Some (dev_import g)) env (Some key) s = ((r, u), s1) \<and>
        opened = MAP_INFO u (ipc_key key IPC_NAME_SIZE) \<and> closed = UNMAP_INFO u"
    and "aclrtIpcMemCloseImpl (Some (dev_key c)) env (Some key) s1 = (ret, s2)"
  shows "key_state_eq s2 s \<and> ip_sent s2 = ip_sent s @ [opened, closed]"
  using assms(4)
proof (elim disjE conjE)
  assume "aclrtIpcMemGetExportKeyImpl (Some (dev_export f)) env u sz len s = ((ACL_SUCCESS, Some key), s1)"
    and "opened = SET_INFO u sz (ipc_key key IPC_NAME_SIZE)" "closed = DESTROY_INFO (ipc_key key IPC_NAME_SIZE)"
  then show ?thesis using export_close [OF assms(1-3) _ assms(5)] by simp
next
  assume "aclrtIpcMemImportByKeyImpl (Some (dev_import g)) env (Some key) s = ((r, u), s1)"
    and "opened = MAP_INFO u (ipc_key key IPC_NAME_SIZE)" "closed = UNMAP_INFO u"
  then show ?thesis using import_close [OF assms(1,2) _ assms(5)] by simp
qed

theorem ipc_close_matches_witness:
  "\<exists>s1 s2. aclrtIpcMemImportByKeyImpl (Some (dev_import store_import)) sanitizer_env (Some ''k'') (ipc_start [(''k'', 8128, 384)]) =
       ((ACL_SUCCESS, 73728), s1) \<and>
     aclrtIpcMemCloseImpl (Some (dev_key (\<lambda>k w. (ACL_SUCCESS, w)))) sanitizer_env (Some ''k'') s1 = (ACL_SUCCESS, s2) \<and>
     ip_sent s2 = [MAP_INFO 73728 ''k'', UNMAP_INFO 73728]"
proof -
  have name: "ipc_key ''k'' IPC_NAME_SIZE = ''k''"
    by (simp add: ipc_key_def GetValidLength_def IPC_NAME_SIZE_def sub64_def code_def)
  obtain s1 where i: "aclrtIpcMemImportByKeyImpl (Some (dev_import store_import)) sanitizer_env (Some ''k'')
      (ipc_start [(''k'', 8128, 384)]) = ((ACL_SUCCESS, 73728), s1)"
    by (simp add: aclrtIpcMemImportByKeyImpl_def in_ipc_layer_def LayerGuard_def IpcMemImportByKey_Call_def ipc_start_def
        dev_import_def store_import_def GetGuardSizes_def SetGuardSizes_def CeilByAlignSize64_def wrap64_def)
  obtain r s2 where c: "aclrtIpcMemCloseImpl (Some (dev_key (\<lambda>k w. (ACL_SUCCESS, w)))) sanitizer_env (Some ''k'') s1 = (r, s2)" by force
  have "r = ACL_SUCCESS" using c sanitizer_env_on by (simp add: aclrtIpcMemCloseImpl_eq Let_def)
  moreover have "ip_sent s2 = [MAP_INFO 73728 ''k'', UNMAP_INFO 73728]"
    using ipc_close_matches [OF sanitizer_env_on _ order_refl disjI2 [OF conjI [OF i]] c] name by (simp add: ipc_start_def)
  ultimately show ?thesis using i c by blast
qed

text \<open>
  C40: A process that imports a key it exported itself keeps the role of the sharer for it, since an insertion
  leaves an entry that is there: closing the key destroys the name, and the address that was mapped is
  never reported unmapped, however often the key is closed.
\<close>

definition close_times :: "(string option \<Rightarrow> 'w \<Rightarrow> acl_error \<times> 'w) \<Rightarrow> hook_env \<Rightarrow> string \<Rightarrow> nat \<Rightarrow> 'w ipc_state \<Rightarrow> 'w ipc_state" where
  "close_times c env key n = ((\<lambda>s. snd (aclrtIpcMemCloseImpl (Some (dev_key c)) env (Some key) s)) ^^ n)"

lemma close_absent:
  assumes "IsSanitizer (he_selector env)" "ip_map s (ipc_key key IPC_NAME_SIZE) = None"
  shows "ip_sent (close_times c env key n s) = ip_sent s \<and> ip_map (close_times c env key n s) (ipc_key key IPC_NAME_SIZE) = None"
  using assms(2)
proof (induction n)
  case (Suc n)
  then show ?case using assms(1)
    by (auto simp: close_times_def aclrtIpcMemCloseImpl_eq Let_def split: prod.splits)
qed (simp add: close_times_def)

theorem own_import_never_unmapped:
  assumes "IsSanitizer (he_selector env)" "ip_map s (ipc_key key IPC_NAME_SIZE) = None" "IPC_NAME_SIZE \<le> len"
    and e: "aclrtIpcMemGetExportKeyImpl (Some (dev_export f)) env u sz len s = ((ACL_SUCCESS, Some key), s1)"
    and i: "aclrtIpcMemImportByKeyImpl (Some (dev_import g)) env (Some key) s1 = ((r, p), s2)"
  shows "ip_sent (close_times c env key (Suc n) s2) =
    ip_sent s @ [SET_INFO u sz (ipc_key key IPC_NAME_SIZE), MAP_INFO p (ipc_key key IPC_NAME_SIZE), DESTROY_INFO (ipc_key key IPC_NAME_SIZE)]"
proof -
  let ?k = "ipc_key key IPC_NAME_SIZE"
  have len: "min len IPC_NAME_SIZE = IPC_NAME_SIZE" using assms(3) by simp
  have s1: "ip_map s1 ?k = Some \<lparr>im_actor = SHARER, im_devPtr = u\<rparr>" "ip_sent s1 = ip_sent s @ [SET_INFO u sz ?k]"
    using e assms(1,2) len
    by (auto simp: aclrtIpcMemGetExportKeyImpl_def in_ipc_layer_def LayerGuard_def IpcMemGetExportKey_Call_def
        IpcMemGetExportKey_Post_def dev_export_def GetGuardSizes_def map_insert_def IPCInteract_def Let_def
        split: prod.splits if_splits)
  then have s2: "ip_map s2 ?k = Some \<lparr>im_actor = SHARER, im_devPtr = u\<rparr>" "ip_sent s2 = ip_sent s1 @ [MAP_INFO p ?k]"
    using i assms(1)
    by (auto simp: aclrtIpcMemImportByKeyImpl_def in_ipc_layer_def LayerGuard_def IpcMemImportByKey_Call_def
        IpcMemImportByKey_Post_def dev_import_def map_insert_def IPCInteract_def Let_def split: prod.splits if_splits)
  define s3 where "s3 = snd (aclrtIpcMemCloseImpl (Some (dev_key c)) env (Some key) s2)"
  have "ip_map s3 ?k = None" "ip_sent s3 = ip_sent s2 @ [DESTROY_INFO ?k]"
    using s2 assms(1) by (auto simp: s3_def aclrtIpcMemCloseImpl_eq IPCInteract_def Let_def split: prod.splits)
  moreover have "close_times c env key (Suc n) s2 = close_times c env key n s3"
    by (simp only: close_times_def s3_def funpow_Suc_right o_apply)
  ultimately show ?thesis using close_absent [OF assms(1), of s3] s1 s2 by simp
qed

theorem own_import_never_unmapped_witness:
  "\<exists>s1 p s2. aclrtIpcMemGetExportKeyImpl (Some (dev_export store_export)) sanitizer_env 8192 256 65 (ipc_start []) =
       ((ACL_SUCCESS, Some ''k''), s1) \<and>
     aclrtIpcMemImportByKeyImpl (Some (dev_import store_import)) sanitizer_env (Some ''k'') s1 = ((ACL_SUCCESS, p), s2) \<and>
     UNMAP_INFO p \<notin> set (ip_sent (close_times (\<lambda>k w. (ACL_SUCCESS, w)) sanitizer_env ''k'' 2 s2))"
proof -
  obtain s1 where e: "aclrtIpcMemGetExportKeyImpl (Some (dev_export store_export)) sanitizer_env 8192 256 65 (ipc_start []) =
      ((ACL_SUCCESS, Some ''k''), s1)" and w: "ip_dev s1 = [(''k'', 8128, 384)]"
    by (auto simp: aclrtIpcMemGetExportKeyImpl_def in_ipc_layer_def LayerGuard_def IpcMemGetExportKey_Call_def ipc_start_def
        GetGuardSizes_def SetGuardSizes_def CeilByAlignSize64_def wrap64_def sub64_def dev_export_def store_export_def
        frame_simps Let_def)
  obtain r p s2 where i: "aclrtIpcMemImportByKeyImpl (Some (dev_import store_import)) sanitizer_env (Some ''k'') s1 = ((r, p), s2)"
    by (metis surj_pair)
  have "r = ACL_SUCCESS"
    using i w by (auto simp: aclrtIpcMemImportByKeyImpl_def in_ipc_layer_def LayerGuard_def IpcMemImportByKey_Call_def
        dev_import_def store_import_def Let_def split: if_splits)
  moreover have "UNMAP_INFO p \<notin> set (ip_sent (close_times (\<lambda>k w. (ACL_SUCCESS, w)) sanitizer_env ''k'' (Suc 1) s2))"
    by (subst own_import_never_unmapped [OF sanitizer_env_on _ _ e i])
      (simp_all add: ipc_start_def IPC_NAME_SIZE_def)
  ultimately show ?thesis using e i by (auto simp: numeral_2_eq_2)
qed

end
