(* ===== verification/Registry.thy ===== *)
theory Registry
  imports ElfLoader Text Process AllocHooks
begin

text \<open>
  Models runtime/inject_helpers/RegisterContext.h and .cpp (the symbols are read in theory ElfLoader),
  RegisterManager.h and .cpp, and the hooks that register a binary:
  acl_rt_impl/HijackedFuncOfAclrtCreateBinaryImpl.cpp, BinaryLoadImpl, BinaryLoadFromFileImpl and
  BinaryLoadFromDataImpl, with \<open>SaveObject\<close> of ProfDataCollect.cpp. The vendor's calls and the files
  are the parameter \<open>binary_vendor\<close>. A context does not change after \<open>Init\<close>, so it is a value; the
  pointer to the copied options is null when there are none. Scans cannot leave the binary
  (theorem \<open>elf_scans_inside\<close>), so \<open>Undef\<close> is treated like a failed one.
\<close>

section \<open>The vendor and the files\<close>

record load_option =
  lo_type :: nat
  lo_value :: nat

record load_options =
  lp_numOpt :: nat
  lp_options :: "load_option list option"

record 'w binary_vendor =
  bv_loadData :: "bytes \<Rightarrow> load_options option \<Rightarrow> 'w \<Rightarrow> (acl_error \<times> ptr) \<times> 'w"
  bv_loadFile :: "string \<Rightarrow> load_options option \<Rightarrow> 'w \<Rightarrow> (acl_error \<times> ptr) \<times> 'w"
  bv_unload :: "ptr \<Rightarrow> 'w \<Rightarrow> 'w"
  bv_function :: "ptr \<Rightarrow> string \<Rightarrow> 'w \<Rightarrow> (acl_error \<times> ptr) \<times> 'w"
  bv_functionByEntry :: "ptr \<Rightarrow> nat \<Rightarrow> 'w \<Rightarrow> (acl_error \<times> ptr) \<times> 'w"
  bv_functionAddr :: "ptr \<Rightarrow> 'w \<Rightarrow> acl_error \<times> ptr \<times> ptr"  \<comment> \<open>cube and vector address\<close>
  bv_kernelType :: "ptr \<Rightarrow> 'w \<Rightarrow> acl_error \<times> int"
  bv_paramCount :: "ptr \<Rightarrow> 'w \<Rightarrow> acl_error \<times> nat"
  bv_paramInfo :: "ptr \<Rightarrow> nat \<Rightarrow> 'w \<Rightarrow> acl_error \<times> nat \<times> nat"
  bv_functionName :: "ptr \<Rightarrow> 'w \<Rightarrow> acl_error \<times> string"
  bv_functionBinary :: "ptr \<Rightarrow> 'w \<Rightarrow> acl_error \<times> ptr"
  bv_functionBySymbol :: "ptr \<Rightarrow> 'w \<Rightarrow> acl_error \<times> ptr"
  bv_readBinary :: "string \<Rightarrow> 'w \<Rightarrow> bytes"  \<comment> \<open>empty when the file cannot be read\<close>
  bv_writeBinary :: "string \<Rightarrow> bytes \<Rightarrow> 'w \<Rightarrow> nat \<times> 'w"
  bv_exists :: "string \<Rightarrow> 'w \<Rightarrow> bool"
  bv_mkdir :: "string \<Rightarrow> 'w \<Rightarrow> bool \<times> 'w"
  bv_removeAll :: "string \<Rightarrow> 'w \<Rightarrow> 'w"
  bv_symlink :: "string \<Rightarrow> string \<Rightarrow> 'w \<Rightarrow> 'w"
  bv_copyFile :: "string \<Rightarrow> string \<Rightarrow> 'w \<Rightarrow> bool \<times> 'w"
  bv_jsonMagic :: "string \<Rightarrow> 'w \<Rightarrow> string option"  \<comment> \<open>the field \<open>magic\<close> of a kernel's description\<close>
  bv_stamp :: "'w \<Rightarrow> string"

section \<open>Names\<close>

definition chars :: "bytes \<Rightarrow> string" where
  "chars bs = map (\<lambda>b. char_of (unat b)) bs"

fun decimal :: "nat \<Rightarrow> string" where
  \<comment> \<open>\<open>to_string\<close>\<close>
  "decimal n = (if n < 10 then [char_of (48 + n)] else decimal (n div 10) @ [char_of (48 + n mod 10)])"

declare decimal.simps [simp del]

definition MIX_AIC_TAIL :: string where "MIX_AIC_TAIL = ''_mix_aic''"
definition MIX_AIV_TAIL :: string where "MIX_AIV_TAIL = ''_mix_aiv''"

definition EndsWithMixAivOrAic :: "string \<Rightarrow> bool" where
  "EndsWithMixAivOrAic kernelName =
     (if kernelName = [] then False
      else if length kernelName < length MIX_AIC_TAIL then False
      else let endPart = drop (length kernelName - length MIX_AIC_TAIL) kernelName in
        endPart = MIX_AIC_TAIL \<or> endPart = MIX_AIV_TAIL)"

section \<open>What a binary says\<close>

definition GetSectionHeaders :: "bytes \<Rightarrow> sections option" where
  \<comment> \<open>both overloads\<close>
  "GetSectionHeaders data = (case ScanSectionHeaders data of Ok (secs, all) \<Rightarrow> Some secs | _ \<Rightarrow> None)"

definition stub_section :: string where
  "stub_section = ''.init_array_sanitizer_file_mapping''"

definition HasStaticStub :: "bytes \<Rightarrow> bool" where
  "HasStaticStub data =
     (case GetSectionHeaders data of None \<Rightarrow> False | Some h \<Rightarrow> map_of h (ascii stub_section) \<noteq> None)"

definition HasDebugLine :: "bytes \<Rightarrow> bool" where
  "HasDebugLine data =
     (case GetSectionHeaders data of None \<Rightarrow> False | Some h \<Rightarrow> map_of h (ascii ''.debug_line'') \<noteq> None)"

definition GetSimtSymbolFromBinary :: "bytes \<Rightarrow> bool" where
  "GetSimtSymbolFromBinary data = (case ScanKernelSymbols data of Ok sy \<Rightarrow> ks_hasSimt sy | _ \<Rightarrow> False)"

definition RT_DEV_BINARY_MAGIC_ELF_AICPU :: nat where "RT_DEV_BINARY_MAGIC_ELF_AICPU = 0x41415243"
definition RT_DEV_BINARY_MAGIC_ELF_AIVEC :: nat where "RT_DEV_BINARY_MAGIC_ELF_AIVEC = 0x41415246"
definition RT_DEV_BINARY_MAGIC_ELF_AICUBE :: nat where "RT_DEV_BINARY_MAGIC_ELF_AICUBE = 0x41494343"
definition FLAG_A2_AIV :: nat where "FLAG_A2_AIV = 0x930000"
definition FLAG_A2_AIC :: nat where "FLAG_A2_AIC = 0x940000"
definition FLAG_DEFAULT_VALUE :: nat where "FLAG_DEFAULT_VALUE = 0x810000"

definition IsA2Version :: "string \<Rightarrow> bool" where
  "IsA2Version soc \<longleftrightarrow> find_sub ''Ascend910B'' soc \<noteq> None"

definition GetFlagByMagic :: "string \<Rightarrow> nat \<Rightarrow> nat" where
  "GetFlagByMagic soc magic =
     (if IsA2Version soc then
        if magic = RT_DEV_BINARY_MAGIC_ELF_AIVEC then FLAG_A2_AIV
        else if magic = RT_DEV_BINARY_MAGIC_ELF_AICUBE \<or> magic = RT_DEV_BINARY_MAGIC_ELF then FLAG_A2_AIC
        else 0
      else 0)"

datatype KernelType = AICPU | AIVEC | AICUBE | MIX | INVALID

definition MagicToKernelType :: "nat \<Rightarrow> KernelType" where
  "MagicToKernelType magic =
     (if magic = RT_DEV_BINARY_MAGIC_ELF_AIVEC then AIVEC
      else if magic = RT_DEV_BINARY_MAGIC_ELF_AICUBE then AICUBE
      else if magic = RT_DEV_BINARY_MAGIC_ELF then MIX
      else if magic = RT_DEV_BINARY_MAGIC_ELF_AICPU then AICPU
      else INVALID)"

definition meta_name :: "sections \<Rightarrow> string \<Rightarrow> string option" where
  \<comment> \<open>the name itself, or the first one with a tail\<close>
  "meta_name headers name =
     (let sectionName = ''.ascend.meta.'' @ name in
      find (\<lambda>n. map_of headers (ascii n) \<noteq> None) [sectionName, sectionName @ MIX_AIC_TAIL, sectionName @ MIX_AIV_TAIL])"

definition GetMetaSection :: "bytes \<Rightarrow> string \<Rightarrow> bytes" where
  \<comment> \<open>the data; empty when the size returned is 0\<close>
  "GetMetaSection data kernelName =
     (case ScanSectionHeaders data of
        Ok (headers, all) \<Rightarrow>
          (case meta_name headers kernelName of
             None \<Rightarrow> []
           | Some n \<Rightarrow> (case ReadAllRawData data all (ascii n) of None \<Rightarrow> [] | Some md \<Rightarrow> md))
      | _ \<Rightarrow> [])"

section \<open>Register contexts\<close>

record RegisterParam =
  rp_regId :: nat
  rp_magic :: nat
  rp_numOpt :: nat
  rp_optionData :: "load_option list"
  rp_needUnload :: bool
  rp_optionsIsNull :: bool

definition new_RegisterParam :: "nat \<Rightarrow> nat \<Rightarrow> load_options option \<Rightarrow> bool \<Rightarrow> bool \<Rightarrow> RegisterParam" where
  "new_RegisterParam regId magic op needUnload optionsIsNull =
     (let p = \<lparr>rp_regId = regId, rp_magic = magic, rp_numOpt = 0, rp_optionData = [], rp_needUnload = needUnload,
                rp_optionsIsNull = optionsIsNull\<rparr> in
      case op of
        None \<Rightarrow> p
      | Some opts \<Rightarrow>
          if lp_numOpt opts = 0 then p
          else let p = p\<lparr>rp_numOpt := lp_numOpt opts\<rparr> in
            (case lp_options opts of
               None \<Rightarrow> p
             | Some data \<Rightarrow> p\<lparr>rp_optionData := take (lp_numOpt opts) data\<rparr>))"

definition param_options :: "RegisterParam \<Rightarrow> load_options" where
  \<comment> \<open>\<open>param_.options\<close>\<close>
  "param_options p = \<lparr>lp_numOpt = rp_numOpt p, lp_options = (if rp_optionData p = [] then None else Some (rp_optionData p))\<rparr>"

definition OPTION_NONE :: nat where "OPTION_NONE = 10000"

record RegisterContext =
  rg_binPath :: string
  rg_elfData :: bytes
  rg_kernelOffsets :: "nat list"
  rg_kernelSymbolNames :: "string list"
  rg_param :: RegisterParam
  rg_hasStaticStub :: bool
  rg_hasDebugLine :: bool
  rg_hdl :: ptr
  rg_isFromFile :: bool
  rg_hasSimt :: bool
  rg_type :: nat

definition rg0 :: RegisterContext where
  "rg0 = \<lparr>rg_binPath = [], rg_elfData = [], rg_kernelOffsets = [], rg_kernelSymbolNames = [],
     rg_param = new_RegisterParam 0 0 None False False, rg_hasStaticStub = False, rg_hasDebugLine = False, rg_hdl = 0,
     rg_isFromFile = False, rg_hasSimt = False, rg_type = OPTION_NONE\<rparr>"

definition Init_data :: "bytes \<Rightarrow> ptr \<Rightarrow> RegisterParam \<Rightarrow> RegisterContext \<Rightarrow> bool \<times> RegisterContext" where
  "Init_data elfData binHandle param ctx =
     (let ctx = ctx\<lparr>rg_elfData := elfData, rg_param := param\<rparr> in
      case ScanKernelSymbols elfData of
        Ok sy \<Rightarrow>
          let ctx = ctx\<lparr>rg_kernelOffsets := ks_offsets sy, rg_kernelSymbolNames := map chars (ks_names sy),
                        rg_hasSimt := ks_hasSimt sy\<rparr>;
              ctx = (case GetSectionHeaders elfData of
                       None \<Rightarrow> ctx
                     | Some h \<Rightarrow> ctx\<lparr>rg_hasStaticStub := map_of h (ascii stub_section) \<noteq> None,
                                    rg_hasDebugLine := map_of h (ascii ''.debug_line'') \<noteq> None\<rparr>) in
          (True, ctx\<lparr>rg_hdl := binHandle\<rparr>)
      | _ \<Rightarrow> (False, ctx))"

definition Init_file ::
  "'w binary_vendor \<Rightarrow> string \<Rightarrow> ptr \<Rightarrow> RegisterParam \<Rightarrow> RegisterContext \<Rightarrow> 'w \<Rightarrow> bool \<times> RegisterContext"
where
  "Init_file v binPath binHandle param ctx w =
     (case bv_readBinary v binPath w of
        [] \<Rightarrow> (False, ctx)
      | elfData \<Rightarrow>
          let ctx = (case lp_options (param_options param) of None \<Rightarrow> ctx | Some os \<Rightarrow> ctx\<lparr>rg_type := lo_type (hd os)\<rparr>) in
          Init_data elfData binHandle param (ctx\<lparr>rg_binPath := binPath, rg_isFromFile := True\<rparr>))"

definition RegisterContext_dtor :: "'w binary_vendor \<Rightarrow> RegisterContext \<Rightarrow> 'w \<Rightarrow> 'w" where
  "RegisterContext_dtor v ctx w = (if rp_needUnload (rg_param ctx) then bv_unload v (rg_hdl ctx) w else w)"

definition with_flags :: "nat \<Rightarrow> bytes \<Rightarrow> bytes" where
  \<comment> \<open>the header with \<open>e_flags\<close> set, copied over the first bytes\<close>
  "with_flags flags data = take 48 data @ le_bytes 4 flags @ drop 52 data"

definition saved_image :: "string \<Rightarrow> RegisterContext \<Rightarrow> bytes option" where
  \<comment> \<open>what \<open>Save\<close> writes\<close>
  "saved_image soc ctx =
     (case LoadHeader (rg_elfData ctx) of
        None \<Rightarrow> None
      | Some header \<Rightarrow>
          let correctFlag = GetFlagByMagic soc (rp_magic (rg_param ctx)) in
          Some (if e_flags header = FLAG_DEFAULT_VALUE \<and> correctFlag > 0 then with_flags correctFlag (rg_elfData ctx)
                else rg_elfData ctx))"

definition Register_Save :: "'w binary_vendor \<Rightarrow> string \<Rightarrow> RegisterContext \<Rightarrow> string \<Rightarrow> 'w \<Rightarrow> bool \<times> 'w" where
  "Register_Save v soc ctx outputPath w =
     (case saved_image soc ctx of
        None \<Rightarrow> (False, w)
      | Some img \<Rightarrow> (let (written, w) = bv_writeBinary v outputPath img w in (written = length img, w)))"

definition symbol_for :: "string \<Rightarrow> string \<Rightarrow> bool" where
  "symbol_for kernelName sy \<longleftrightarrow>
     kernelName = sy \<or> kernelName @ MIX_AIC_TAIL = sy \<or> kernelName @ MIX_AIV_TAIL = sy"

definition GetKernelOffsetByName :: "RegisterContext \<Rightarrow> string \<Rightarrow> nat" where
  "GetKernelOffsetByName ctx kernelName =
     (let kernelOffset =
        (case find (\<lambda>i. symbol_for kernelName (rg_kernelSymbolNames ctx ! i)) [0..<length (rg_kernelSymbolNames ctx)] of
           None \<Rightarrow> 2 ^ 64 - 1
         | Some i \<Rightarrow> rg_kernelOffsets ctx ! i) in
      if kernelOffset = 2 ^ 64 - 1 then 0 else kernelOffset)"

definition GetKernelName :: "RegisterContext \<Rightarrow> nat \<Rightarrow> string" where
  "GetKernelName ctx tilingKey =
     (let nameSuffix = ''_'' @ decimal tilingKey;
          suffixNames = [nameSuffix, nameSuffix @ MIX_AIC_TAIL, nameSuffix @ MIX_AIV_TAIL] in
      case find (\<lambda>name. list_ex (EndsWith name) suffixNames) (rg_kernelSymbolNames ctx) of
        None \<Rightarrow> []
      | Some name \<Rightarrow> name)"

definition KernelSymbolNameIsMix :: "RegisterContext \<Rightarrow> string \<Rightarrow> bool" where
  "KernelSymbolNameIsMix ctx kernelName =
     (if EndsWithMixAivOrAic kernelName then True
      else list_ex (\<lambda>sy. EndsWithMixAivOrAic sy \<and> take (length sy - length MIX_AIC_TAIL) sy = kernelName)
             (rg_kernelSymbolNames ctx))"

definition ParseMetaData :: "string \<Rightarrow> RegisterContext \<Rightarrow> string \<Rightarrow> OpMemInfo option option" where
  \<comment> \<open>the outer \<open>None\<close> is a read outside of the section, the inner one the result \<open>false\<close>\<close>
  "ParseMetaData soc ctx kernelName =
     (case GetMetaSection (rg_elfData ctx) kernelName of
        [] \<Rightarrow> Some None
      | md \<Rightarrow> map_option (\<lambda>(ok, memInfo). if ok then Some memInfo else None) (Parse soc md))"

definition CloneFromBin :: "'w binary_vendor \<Rightarrow> RegisterContext \<Rightarrow> string \<Rightarrow> 'w \<Rightarrow> RegisterContext option \<times> 'w" where
  "CloneFromBin v ctx newBinPath w =
     (case bv_readBinary v newBinPath w of
        [] \<Rightarrow> (None, w)
      | data \<Rightarrow>
          let p = rg_param ctx;
              ((ret, binHandle), w) =
                bv_loadData v data (if rp_optionsIsNull p then None else Some (param_options p)) w in
          if ret \<noteq> ACL_SUCCESS then (None, w)
          else
            let newParam = new_RegisterParam (rp_regId p) (rp_magic p) (Some (param_options p)) True (rp_optionsIsNull p);
                (ok, new) = Init_data data binHandle newParam rg0 in
            if ok then (Some new, w) else (None, RegisterContext_dtor v new w))"

definition json_path :: "string \<Rightarrow> string" where
  "json_path path = take (length path - 1) path @ ''json''"

definition Clone_register :: "'w binary_vendor \<Rightarrow> RegisterContext \<Rightarrow> string \<Rightarrow> 'w \<Rightarrow> RegisterContext option \<times> 'w" where
  "Clone_register v ctx newBinPath w =
     (if \<not> rg_isFromFile ctx then CloneFromBin v ctx newBinPath w
      else
        let cur = json_path (rg_binPath ctx);
            (copied, w) = (if bv_exists v cur w then bv_copyFile v cur (json_path newBinPath) w else (True, w)) in
        if \<not> copied then (None, w)
        else
          let p = rg_param ctx;
              ((ret, binHandle), w) =
                bv_loadFile v newBinPath (if rp_optionsIsNull p then None else Some (param_options p)) w in
          if ret \<noteq> ACL_SUCCESS then (None, w)
          else
            let newParam = new_RegisterParam (rp_regId p) (rp_magic p) (Some (param_options p)) True (rp_optionsIsNull p);
                (ok, new) = Init_file v newBinPath binHandle newParam rg0 w in
            if ok then (Some new, w) else (None, RegisterContext_dtor v new w))"

section \<open>The manager\<close>

record RegisterManager =
  rm_contexts :: "(ptr \<times> RegisterContext) list"
  rm_tempElfData :: "(ptr \<times> bytes) list"
  rm_currentRegId :: nat

definition rm0 :: RegisterManager where
  "rm0 = \<lparr>rm_contexts = [], rm_tempElfData = [], rm_currentRegId = 0\<rparr>"

definition ParseMagicStr :: "string \<Rightarrow> nat option" where
  "ParseMagicStr magicStr = map_of
     [(''RT_DEV_BINARY_MAGIC_ELF_AIVEC'', RT_DEV_BINARY_MAGIC_ELF_AIVEC),
      (''RT_DEV_BINARY_MAGIC_ELF_AICUBE'', RT_DEV_BINARY_MAGIC_ELF_AICUBE),
      (''RT_DEV_BINARY_MAGIC_ELF'', RT_DEV_BINARY_MAGIC_ELF),
      (''RT_DEV_BINARY_MAGIC_ELF_AICPU'', RT_DEV_BINARY_MAGIC_ELF_AICPU)] magicStr"

definition enter_register ::
  "ptr \<Rightarrow> bool \<times> RegisterContext \<Rightarrow> RegisterManager \<Rightarrow> RegisterContext option \<times> RegisterManager"
where
  \<comment> \<open>the common end of the three \<open>CreateContext\<close>\<close>
  "enter_register binHandle res m =
     (case res of
        (False, ctx) \<Rightarrow> (None, m)
      | (True, ctx) \<Rightarrow>
          (Some ctx, m\<lparr>rm_currentRegId := wrap64 (rm_currentRegId m + 1),
                       rm_contexts := al_put binHandle ctx (rm_contexts m)\<rparr>))"

definition CreateRegister_file ::
  "'w binary_vendor \<Rightarrow> string \<Rightarrow> ptr \<Rightarrow> nat \<Rightarrow> load_options option \<Rightarrow> 'w \<Rightarrow> RegisterManager \<Rightarrow>
   RegisterContext option \<times> RegisterManager"
where
  "CreateRegister_file v binPath binHandle magic options w m =
     enter_register binHandle
       (Init_file v binPath binHandle (new_RegisterParam (rm_currentRegId m) magic options False (options = None)) rg0 w) m"

definition CreateRegister_bin ::
  "ptr \<Rightarrow> ptr \<Rightarrow> nat \<Rightarrow> load_options option \<Rightarrow> RegisterManager \<Rightarrow> RegisterContext option \<times> RegisterManager"
where
  \<comment> \<open>\<open>operator[]\<close> enters an empty entry for an unknown binary\<close>
  "CreateRegister_bin bin binHandle magic options m =
     (let data = (case map_of (rm_tempElfData m) bin of None \<Rightarrow> [] | Some d \<Rightarrow> d);
          m = m\<lparr>rm_tempElfData := al_put bin data (rm_tempElfData m)\<rparr> in
      if data = [] then (None, m)
      else enter_register binHandle
        (Init_data data binHandle (new_RegisterParam (rm_currentRegId m) magic options False (options = None)) rg0) m)"

definition CreateRegister_data ::
  "bytes \<Rightarrow> ptr \<Rightarrow> nat \<Rightarrow> load_options option \<Rightarrow> RegisterManager \<Rightarrow> RegisterContext option \<times> RegisterManager"
where
  "CreateRegister_data data binHandle magic options m =
     enter_register binHandle
       (Init_data data binHandle (new_RegisterParam (rm_currentRegId m) magic options False (options = None)) rg0) m"

definition GetRegister :: "RegisterManager \<Rightarrow> ptr \<Rightarrow> RegisterContext option" where
  "GetRegister m key = map_of (rm_contexts m) key"

definition MAX_MEM_BYTE_SIZE :: nat where "MAX_MEM_BYTE_SIZE = 32212254720"

definition CacheElfData :: "ptr \<Rightarrow> bytes \<Rightarrow> RegisterManager \<Rightarrow> RegisterManager" where
  "CacheElfData bin data m =
     (if length data > MAX_MEM_BYTE_SIZE then m else m\<lparr>rm_tempElfData := al_put bin data (rm_tempElfData m)\<rparr>)"

section \<open>The hooks that register binaries\<close>

record 'w binary_state =
  bs_regs :: RegisterManager
  bs_saved :: "(ptr \<times> string) list"  \<comment> \<open>\<open>binaryPathMap_\<close>\<close>
  bs_world :: 'w

record binary_env =
  be_selector :: FuncSelector
  be_isSimulator :: bool
  be_soc :: string
  be_tmpDumpPath :: string

definition AICORE_KERNEL_NAME :: string where "AICORE_KERNEL_NAME = ''aicore_binary.o''"

definition SaveObject :: "'w binary_vendor \<Rightarrow> binary_env \<Rightarrow> RegisterContext \<Rightarrow> 'w binary_state \<Rightarrow> bool \<times> 'w binary_state" where
  "SaveObject v env ctx s =
     (let hdl = rg_hdl ctx in
      if map_of (bs_saved s) hdl \<noteq> None then (True, s)
      else
        let outputDir = Join [be_tmpDumpPath env, bv_stamp v (bs_world s)] ''/'';
            outputPath = Join [outputDir, AICORE_KERNEL_NAME] ''/'';
            (made, w) = (if bv_exists v outputDir (bs_world s) then (True, bs_world s) else bv_mkdir v outputDir (bs_world s)) in
        if \<not> made then (False, s\<lparr>bs_world := w\<rparr>)
        else
          let (ok, w) = Register_Save v (be_soc env) ctx outputPath w; s = s\<lparr>bs_world := w\<rparr> in
          if ok then (True, s\<lparr>bs_saved := al_put hdl outputPath (bs_saved s)\<rparr>) else (False, s))"

definition after_register ::
  "'w binary_vendor \<Rightarrow> binary_env \<Rightarrow> acl_error \<Rightarrow> RegisterContext option \<times> RegisterManager \<Rightarrow> 'w binary_state \<Rightarrow>
   acl_error \<times> 'w binary_state"
where
  \<comment> \<open>the common end of the three \<open>Post\<close>: the simulator's profiler keeps the binary\<close>
  "after_register v env ret res s =
     (let s = s\<lparr>bs_regs := snd res\<rparr> in
      case fst res of
        None \<Rightarrow> (ret, s)
      | Some ctx \<Rightarrow>
          if IsOpProf (be_selector env) \<and> be_isSimulator env then (ret, snd (SaveObject v env ctx s)) else (ret, s))"

definition CreateBinary_Post :: "bytes option \<Rightarrow> ptr \<Rightarrow> 'w binary_state \<Rightarrow> ptr \<times> 'w binary_state" where
  \<comment> \<open>the data with its length\<close>
  "CreateBinary_Post data bin s =
     (case data of
        None \<Rightarrow> (bin, s)
      | Some d \<Rightarrow> if bin = 0 \<or> d = [] then (bin, s) else (bin, s\<lparr>bs_regs := CacheElfData bin d (bs_regs s)\<rparr>))"

definition CreateBinary_Call ::
  "(bytes option \<Rightarrow> 'w binary_state \<Rightarrow> ptr \<times> 'w binary_state) option \<Rightarrow> bytes option \<Rightarrow> 'w binary_state \<Rightarrow>
   ptr \<times> 'w binary_state"
where
  "CreateBinary_Call origin data s = HijackedFunc_Call (\<lambda>_ s. s) (CreateBinary_Post data) origin 0 data s"

definition BinaryLoad_Post ::
  "'w binary_vendor \<Rightarrow> binary_env \<Rightarrow> ptr \<Rightarrow> bool \<Rightarrow> acl_error \<times> ptr \<Rightarrow> 'w binary_state \<Rightarrow> acl_error \<times> 'w binary_state"
where
  \<comment> \<open>the binary, whether the pointer to the handle is there, and what the call gave\<close>
  "BinaryLoad_Post v env bin hasHandle = (\<lambda>(ret, binHandle) s.
     if ret \<noteq> ACL_SUCCESS \<or> bin = 0 \<or> \<not> hasHandle then (ret, s)
     else after_register v env ret (CreateRegister_bin bin binHandle RT_DEV_BINARY_MAGIC_ELF None (bs_regs s)) s)"

definition last_dot :: "string \<Rightarrow> nat option" where
  \<comment> \<open>\<open>find_last_of('.')\<close>\<close>
  "last_dot s = (case rev (filter (\<lambda>i. s ! i = CHR ''.'') [0..<length s]) of [] \<Rightarrow> None | i # _ \<Rightarrow> Some i)"

definition magic_of_file :: "'w binary_vendor \<Rightarrow> string \<Rightarrow> 'w \<Rightarrow> nat option" where
  \<comment> \<open>\<open>None\<close> for a description, which is not registered\<close>
  "magic_of_file v binPath w =
     (let magic = RT_DEV_BINARY_MAGIC_ELF; lastDot = last_dot binPath;
          suf = (case lastDot of None \<Rightarrow> [] | Some i \<Rightarrow> drop i binPath) in
      if suf = ''.o'' then
        (case bv_jsonMagic v (take (the lastDot) binPath @ ''.json'') w of
           None \<Rightarrow> Some magic
         | Some magicStr \<Rightarrow> (case ParseMagicStr magicStr of None \<Rightarrow> Some magic | Some k \<Rightarrow> Some k))
      else if suf = ''.json'' then None
      else Some magic)"

definition BinaryLoadFromFile_Post ::
  "'w binary_vendor \<Rightarrow> binary_env \<Rightarrow> string option \<Rightarrow> load_options option \<Rightarrow> bool \<Rightarrow> acl_error \<times> ptr \<Rightarrow> 'w binary_state \<Rightarrow>
   acl_error \<times> 'w binary_state"
where
  "BinaryLoadFromFile_Post v env binPath options hasHandle = (\<lambda>(ret, binHandle) s.
     if ret \<noteq> ACL_SUCCESS \<or> \<not> hasHandle then (ret, s)
     else (case binPath of
        None \<Rightarrow> (ret, s)
      | Some path \<Rightarrow>
          (case magic_of_file v path (bs_world s) of
             None \<Rightarrow> (ret, s)
           | Some magic \<Rightarrow>
               after_register v env ret (CreateRegister_file v path binHandle magic options (bs_world s) (bs_regs s)) s)))"

definition ACL_RT_BINARY_LOAD_OPT_MAGIC :: nat where "ACL_RT_BINARY_LOAD_OPT_MAGIC = 2"
definition ACL_RT_BINARY_LOAD_OPT_CPU_KERNEL_MODE :: nat where "ACL_RT_BINARY_LOAD_OPT_CPU_KERNEL_MODE = 3"

fun magic_of_options :: "load_option list \<Rightarrow> nat \<Rightarrow> nat" where
  \<comment> \<open>the enumerators for the magic of a lazy and of an eager load have the same value\<close>
  "magic_of_options [] magic = magic"
| "magic_of_options (op # ops) magic =
     (let magic = (if lo_type op = ACL_RT_BINARY_LOAD_OPT_MAGIC then lo_value op else magic) in
      if lo_type op = ACL_RT_BINARY_LOAD_OPT_CPU_KERNEL_MODE then RT_DEV_BINARY_MAGIC_ELF_AICPU
      else magic_of_options ops magic)"

definition BinaryLoadFromData_Post ::
  "'w binary_vendor \<Rightarrow> binary_env \<Rightarrow> bytes option \<Rightarrow> load_options option \<Rightarrow> bool \<Rightarrow> acl_error \<times> ptr \<Rightarrow> 'w binary_state \<Rightarrow>
   (acl_error \<times> 'w binary_state) option"
where
  \<comment> \<open>\<open>None\<close> when the options are counted and not there\<close>
  "BinaryLoadFromData_Post v env bin options hasHandle = (\<lambda>(ret, binHandle) s.
     if ret \<noteq> ACL_SUCCESS \<or> \<not> hasHandle then Some (ret, s)
     else (case bin of
        None \<Rightarrow> Some (ret, s)
      | Some data \<Rightarrow>
          (let load = (\<lambda>magic. after_register v env ret (CreateRegister_data data binHandle magic options (bs_regs s)) s) in
           case options of
             None \<Rightarrow> Some (load RT_DEV_BINARY_MAGIC_ELF)
           | Some opts \<Rightarrow>
               (case (lp_numOpt opts, lp_options opts) of
                  (0, _) \<Rightarrow> Some (load RT_DEV_BINARY_MAGIC_ELF)
                | (n, None) \<Rightarrow> None
                | (n, Some os) \<Rightarrow> Some (load (magic_of_options (take n os) RT_DEV_BINARY_MAGIC_ELF))))))"

section \<open>The registry\<close>

definition decoded :: "RegisterContext \<Rightarrow> bool" where
  \<comment> \<open>what the context says of its binary is what the binary says\<close>
  "decoded c \<longleftrightarrow>
     ScanKernelSymbols (rg_elfData c) \<noteq> Fail \<and>
     (case ScanKernelSymbols (rg_elfData c) of
        Ok sy \<Rightarrow> rg_kernelSymbolNames c = map chars (ks_names sy) \<and> rg_kernelOffsets c = ks_offsets sy \<and>
                 rg_hasSimt c = ks_hasSimt sy
      | _ \<Rightarrow> False) \<and>
     rg_hasStaticStub c = HasStaticStub (rg_elfData c) \<and> rg_hasDebugLine c = HasDebugLine (rg_elfData c)"

definition regs_ok :: "RegisterManager \<Rightarrow> bool" where
  "regs_ok m \<longleftrightarrow>
     (\<forall>(h, c) \<in> set (rm_contexts m). rg_hdl c = h \<and> decoded c \<and> rp_regId (rg_param c) < rm_currentRegId m) \<and>
     (\<forall>(h, c) \<in> set (rm_contexts m). \<forall>(h', c') \<in> set (rm_contexts m).
        rp_regId (rg_param c) = rp_regId (rg_param c') \<longrightarrow> h = h')"

datatype hook_op =
  HCreateBinary "bytes option" ptr
| HLoad ptr "acl_error \<times> ptr"
| HLoadFile "string option" "load_options option" "acl_error \<times> ptr"
| HLoadData "bytes option" "load_options option" "acl_error \<times> ptr"

fun hook_step :: "'w binary_vendor \<Rightarrow> binary_env \<Rightarrow> hook_op \<Rightarrow> 'w binary_state \<Rightarrow> 'w binary_state option" where
  \<comment> \<open>a call of the program, with what the vendor gave for it\<close>
  "hook_step v env (HCreateBinary data bin) s = Some (snd (CreateBinary_Post data bin s))"
| "hook_step v env (HLoad bin res) s = Some (snd (BinaryLoad_Post v env bin True res s))"
| "hook_step v env (HLoadFile path options res) s = Some (snd (BinaryLoadFromFile_Post v env path options True res s))"
| "hook_step v env (HLoadData data options res) s = map_option snd (BinaryLoadFromData_Post v env data options True res s)"

fun hook_run :: "'w binary_vendor \<Rightarrow> binary_env \<Rightarrow> hook_op list \<Rightarrow> 'w binary_state \<Rightarrow> 'w binary_state option" where
  "hook_run v env [] s = Some s"
| "hook_run v env (op # ops) s = (case hook_step v env op s of None \<Rightarrow> None | Some s \<Rightarrow> hook_run v env ops s)"

lemma set_al_put_subset: "set (al_put k v xs) \<subseteq> insert (k, v) (set xs)"
  by (induction k v xs rule: al_put.induct) auto

lemma in_al_put: "p \<in> set (al_put k v xs) \<Longrightarrow> p = (k, v) \<or> p \<in> set xs"
  using set_al_put_subset by fastforce

lemma Init_data_ok:
  "Init_data elf h param ctx = (True, c) \<Longrightarrow> rg_hasStaticStub ctx = False \<Longrightarrow> rg_hasDebugLine ctx = False \<Longrightarrow>
   decoded c \<and> rg_hdl c = h \<and> rg_param c = param \<and> rg_elfData c = elf"
  by (auto simp: Init_data_def decoded_def HasStaticStub_def HasDebugLine_def Let_def split: elf_result.splits option.splits)

lemma Init_file_ok:
  "Init_file v path h param rg0 w = (True, c) \<Longrightarrow> decoded c \<and> rg_hdl c = h \<and> rg_param c = param"
  by (auto simp: Init_file_def Let_def rg0_def dest!: Init_data_ok split: list.splits option.splits)

lemma new_RegisterParam_fields [simp]: "rp_regId (new_RegisterParam i magic op u n) = i"
  "rp_magic (new_RegisterParam i magic op u n) = magic" "rp_needUnload (new_RegisterParam i magic op u n) = u"
  by (auto simp: new_RegisterParam_def Let_def split: option.splits)

definition grown :: "RegisterManager \<Rightarrow> RegisterManager \<Rightarrow> bool" where
  \<comment> \<open>still in order, and at most one id further\<close>
  "grown m m' \<longleftrightarrow> regs_ok m' \<and> rm_currentRegId m' \<le> rm_currentRegId m + 1"

lemma grown_refl: "regs_ok m \<Longrightarrow> grown m m"
  by (simp add: grown_def)

lemma grown_temp [simp]: "grown m (m'\<lparr>rm_tempElfData := t\<rparr>) = grown m m'" "grown (m\<lparr>rm_tempElfData := t\<rparr>) m' = grown m m'"
  by (simp_all add: grown_def regs_ok_def)

lemma regs_ok_temp [simp]: "regs_ok (m\<lparr>rm_tempElfData := t\<rparr>) = regs_ok m"
  by (simp add: regs_ok_def)

lemma enter_register_grown:
  assumes "regs_ok m" "rm_currentRegId m < 2 ^ 64 - 1"
    and "\<And>c. res = (True, c) \<Longrightarrow> decoded c \<and> rg_hdl c = h \<and> rp_regId (rg_param c) = rm_currentRegId m"
  shows "grown m (snd (enter_register h res m))"
proof -
  have next_id: "wrap64 (rm_currentRegId m + 1) = rm_currentRegId m + 1" using assms(2) by (intro wrap64_small) simp
  obtain ok c where res: "res = (ok, c)" by fastforce
  show ?thesis
  proof (cases ok)
    case True
    then have c: "decoded c" "rg_hdl c = h" "rp_regId (rg_param c) = rm_currentRegId m" using assms(3) res by auto
    let ?xs = "rm_contexts m" and ?ys = "al_put h c (rm_contexts m)"
    have old: "rg_hdl b = a" "decoded b" "rp_regId (rg_param b) < rm_currentRegId m" if "(a, b) \<in> set ?xs" for a b
      using assms(1) that by (auto simp: regs_ok_def)
    have one: "(a, b) = (h, c) \<or> (a, b) \<in> set ?xs" if "(a, b) \<in> set ?ys" for a b
      using in_al_put [OF that] by auto
    have "a = a'" if ab: "(a, b) \<in> set ?ys" "(a', b') \<in> set ?ys" "rp_regId (rg_param b) = rp_regId (rg_param b')" for a b a' b'
      using one [OF ab(1)] one [OF ab(2)] ab(3) old(3) c(3) assms(1) by (force simp: regs_ok_def)
    moreover have "rg_hdl b = a \<and> decoded b \<and> rp_regId (rg_param b) < rm_currentRegId m + 1" if "(a, b) \<in> set ?ys" for a b
      using one [OF that] old [of a b] c by auto
    ultimately have "regs_ok (m\<lparr>rm_currentRegId := rm_currentRegId m + 1, rm_contexts := ?ys\<rparr>)"
      by (force simp: regs_ok_def)
    then show ?thesis using True res by (simp add: enter_register_def next_id [simplified] grown_def)
  qed (use assms(1) res in \<open>simp add: enter_register_def grown_def\<close>)
qed

lemma CreateRegister_grown:
  assumes "regs_ok m" "rm_currentRegId m < 2 ^ 64 - 1"
  shows "grown m (snd (CreateRegister_file v path h magic op w m))"
    "grown m (snd (CreateRegister_bin bin h magic op m))"
    "grown m (snd (CreateRegister_data data h magic op m))"
proof -
  have rg0: "rg_hasStaticStub rg0 = False" "rg_hasDebugLine rg0 = False" by (simp_all add: rg0_def)
  show "grown m (snd (CreateRegister_file v path h magic op w m))"
    unfolding CreateRegister_file_def by (rule enter_register_grown [OF assms]) (auto dest!: Init_file_ok)
  show "grown m (snd (CreateRegister_data data h magic op m))"
    unfolding CreateRegister_data_def by (rule enter_register_grown [OF assms]) (auto dest!: Init_data_ok simp: rg0)
  have "grown (m\<lparr>rm_tempElfData := t\<rparr>) (snd (enter_register h
      (Init_data d h (new_RegisterParam (rm_currentRegId m) magic op False n) rg0) (m\<lparr>rm_tempElfData := t\<rparr>)))" for d t n
    by (rule enter_register_grown) (use assms in \<open>auto dest!: Init_data_ok simp: rg0\<close>)
  then show "grown m (snd (CreateRegister_bin bin h magic op m))"
    using assms(1) by (simp add: CreateRegister_bin_def Let_def grown_refl)
qed

lemma after_register_regs: "bs_regs (snd (after_register v env ret res s)) = snd res"
  by (auto simp: after_register_def SaveObject_def Let_def split: option.splits prod.splits)

lemma after_register_snd: "after_register v env ret res s = (r, s') \<Longrightarrow> bs_regs s' = snd res"
  using after_register_regs [of v env ret res s] by simp

lemma hook_step_grown:
  assumes "hook_step v env op s = Some s'" "regs_ok (bs_regs s)" "rm_currentRegId (bs_regs s) < 2 ^ 64 - 1"
  shows "grown (bs_regs s) (bs_regs s')"
proof (cases op)
  case (HCreateBinary data bin)
  then show ?thesis
    using assms by (auto simp: CreateBinary_Post_def CacheElfData_def grown_refl split: option.splits)
next
  case (HLoad bin res)
  then show ?thesis
    using assms CreateRegister_grown(2) [OF assms(2,3)]
    by (cases res) (auto simp: BinaryLoad_Post_def after_register_regs grown_refl)
next
  case (HLoadFile path options res)
  then show ?thesis
    using assms CreateRegister_grown(1) [OF assms(2,3)]
    by (cases res) (auto simp: BinaryLoadFromFile_Post_def after_register_regs grown_refl split: option.splits)
next
  case (HLoadData data options res)
  then show ?thesis
    using assms CreateRegister_grown(3) [OF assms(2,3)]
    by (cases res)
      (auto simp: BinaryLoadFromData_Post_def grown_refl Let_def dest!: after_register_snd split: option.splits nat.splits if_splits)
qed

lemma hook_run_grown:
  assumes "hook_run v env ops s = Some s'" "regs_ok (bs_regs s)" "rm_currentRegId (bs_regs s) + length ops < 2 ^ 64"
  shows "regs_ok (bs_regs s') \<and> rm_currentRegId (bs_regs s') \<le> rm_currentRegId (bs_regs s) + length ops"
  using assms
proof (induction ops arbitrary: s)
  case (Cons op ops)
  obtain s1 where s1: "hook_step v env op s = Some s1" "hook_run v env ops s1 = Some s'"
    using Cons.prems(1) by (auto split: option.splits)
  have g: "grown (bs_regs s) (bs_regs s1)" using hook_step_grown [OF s1(1)] Cons.prems by simp
  show ?case
    using Cons.IH [OF s1(2)] g Cons.prems(3) by (fastforce simp: grown_def)
qed simp

section \<open>Decimal keys\<close>

lemma decimal_all_digits: "list_all isdigit (decimal n)"
proof (induction n rule: decimal.induct)
  case (1 n)
  have digit: "isdigit (char_of (48 + d))" if "d < 10" for d :: nat
    using that by (simp add: isdigit_def code_def)
  show ?case
  proof (cases "n < 10")
    case True
    then show ?thesis by (subst decimal.simps) (simp add: digit)
  next
    case False
    then show ?thesis using 1 digit [of "n mod 10"] by (subst decimal.simps) simp
  qed
qed

lemma decimal_not_empty: "decimal n \<noteq> []"
  by (subst decimal.simps) simp

lemma decimal_value: "foldl (\<lambda>a c. a * 10 + (code c - 48)) 0 (decimal n) = n"
proof (induction n rule: decimal.induct)
  case (1 n)
  have digit: "code (char_of (48 + d)) - 48 = d" if "d < 10" for d :: nat
    using that by (simp add: code_def)
  show ?case
  proof (cases "n < 10")
    case True
    then show ?thesis by (subst decimal.simps) (simp add: digit)
  next
    case False
    then have "foldl (\<lambda>a c. a * 10 + (code c - 48)) 0 (decimal n) = n div 10 * 10 + (code (char_of (48 + n mod 10)) - 48)"
      using 1 by (subst decimal.simps) simp
    also have "\<dots> = n" using digit [of "n mod 10"] by simp
    finally show ?thesis .
  qed
qed

lemma decimal_inj: "decimal m = decimal n \<longleftrightarrow> m = n"
  using decimal_value by metis

lemma last_decimal: "isdigit (last (decimal n))"
  using decimal_all_digits [of n] decimal_not_empty [of n] by (simp add: list_all_iff)

lemma no_underscore: "CHR ''_'' \<notin> set (decimal n)"
  using decimal_all_digits [of n] by (auto simp: list_all_iff isdigit_def code_def)

lemma last_part_unique:
  assumes "xs @ c # ys = xs' @ c # ys'" "c \<notin> set ys" "c \<notin> set ys'"
  shows "ys = ys'"
proof -
  have "rev (takeWhile (\<lambda>d. d \<noteq> c) (rev (us @ c # vs))) = vs" if "c \<notin> set vs" for us vs
    using that by (subst rev_append) (auto simp: takeWhile_append)
  then show ?thesis using assms by metis
qed

definition symbol_name :: "string \<times> nat \<times> string \<Rightarrow> string" where
  \<comment> \<open>a kernel's symbol: its name, its key and the tail of a mixed kernel\<close>
  "symbol_name = (\<lambda>(b, k, tail). b @ ''_'' @ decimal k @ tail)"

definition tails :: "string list" where
  "tails = [[], MIX_AIC_TAIL, MIX_AIV_TAIL]"

lemma EndsWith_append: "EndsWith (xs @ ys) zs \<longleftrightarrow> (\<exists>us. xs @ ys = us @ zs)"
proof -
  have "EndsWith ws zs \<longleftrightarrow> (\<exists>us. ws = us @ zs)" for ws
    by (auto simp: EndsWith_def) (metis append_take_drop_id)
  then show ?thesis .
qed

lemma key_at_end:
  assumes "u \<in> set tails" "t \<in> set tails"
  shows "EndsWith (b @ ''_'' @ decimal k @ t) (''_'' @ decimal j @ u) \<longleftrightarrow> t = u \<and> k = j"
proof
  assume "EndsWith (b @ ''_'' @ decimal k @ t) (''_'' @ decimal j @ u)"
  then obtain us where eq: "(b @ ''_'' @ decimal k) @ t = (us @ ''_'' @ decimal j) @ u"
    using EndsWith_append [of b "''_'' @ decimal k @ t" "''_'' @ decimal j @ u"] by auto
  have end_char: "last (zs @ ''_'' @ decimal n @ v) = (if v = [] then last (decimal n) else last v)" for zs n v
    using decimal_not_empty [of n] by simp
  have no_digit: "\<not> isdigit (last MIX_AIC_TAIL)" "\<not> isdigit (last MIX_AIV_TAIL)" "last MIX_AIC_TAIL \<noteq> last MIX_AIV_TAIL"
    "MIX_AIC_TAIL \<noteq> []" "MIX_AIV_TAIL \<noteq> []"
    by (simp_all add: MIX_AIC_TAIL_def MIX_AIV_TAIL_def isdigit_def code_def)
  have "last (b @ ''_'' @ decimal k @ t) = last (us @ ''_'' @ decimal j @ u)" using eq by simp
  then have same: "(if t = [] then last (decimal k) else last t) = (if u = [] then last (decimal j) else last u)"
    unfolding end_char .
  have tu: "t = u"
  proof -
    have cases: "t = [] \<or> t = MIX_AIC_TAIL \<or> t = MIX_AIV_TAIL" "u = [] \<or> u = MIX_AIC_TAIL \<or> u = MIX_AIV_TAIL"
      using assms by (simp_all add: tails_def)
    have "isdigit (if t = [] then last (decimal k) else last t) \<longleftrightarrow> t = []"
      using cases(1) no_digit last_decimal [of k] by (elim disjE) simp_all
    moreover have "isdigit (if u = [] then last (decimal j) else last u) \<longleftrightarrow> u = []"
      using cases(2) no_digit last_decimal [of j] by (elim disjE) simp_all
    ultimately have empty: "t = [] \<longleftrightarrow> u = []" using same by simp
    show ?thesis
    proof (cases "t = []")
      case False
      then have "last t = last u" using same empty by simp
      then show ?thesis using cases False empty no_digit by (elim disjE) simp_all
    qed (use empty in simp)
  qed
  then have "b @ ''_'' @ decimal k = us @ ''_'' @ decimal j" using eq by simp
  then have "b @ CHR ''_'' # decimal k = us @ CHR ''_'' # decimal j" by simp
  then have "decimal k = decimal j" by (rule last_part_unique [OF _ no_underscore no_underscore])
  then show "t = u \<and> k = j" using tu by (simp add: decimal_inj)
next
  assume "t = u \<and> k = j"
  then have "b @ ''_'' @ decimal k @ t = b @ (''_'' @ decimal j @ u)" by simp
  then show "EndsWith (b @ ''_'' @ decimal k @ t) (''_'' @ decimal j @ u)" unfolding EndsWith_append by (rule exI)
qed

lemma find_map: "find P (map f xs) = map_option f (find (P \<circ> f) xs)"
  by (induction xs) auto

lemma find_cong_set: "(\<And>x. x \<in> set xs \<Longrightarrow> P x = Q x) \<Longrightarrow> find P xs = find Q xs"
  by (induction xs) auto

section \<open>Headers with other flags\<close>

lemma field_with_flags:
  assumes "length d \<ge> 64" "off + n \<le> 48 \<or> 52 \<le> off"
  shows "field (take 64 (with_flags f d)) off n = field (take 64 d) off n"
proof -
  have len: "length (with_flags f d) = length d" using assms(1) by (simp add: with_flags_def)
  have "take n (drop off (take 64 (with_flags f d))) = take n (drop off (take 64 d))"
  proof (rule nth_equalityI)
    show "length (take n (drop off (take 64 (with_flags f d)))) = length (take n (drop off (take 64 d)))"
      by (simp add: len)
    fix i assume "i < length (take n (drop off (take 64 (with_flags f d))))"
    then have i: "i < n" "off + i < 64" "off + i < length d" by (auto simp: len)
    have "with_flags f d ! (off + i) = d ! (off + i)"
    proof (cases "off + i < 48")
      case True
      then show ?thesis using assms(1) by (simp add: with_flags_def nth_append)
    next
      case False
      then obtain k where "off = 52 + k" using assms(2) i(1) le_Suc_ex [of 52 off] by auto
      then show ?thesis using assms(1) i by (simp add: with_flags_def nth_append add.assoc)
    qed
    then show "take n (drop off (take 64 (with_flags f d))) ! i = take n (drop off (take 64 d)) ! i"
      using i by (simp add: len)
  qed
  then show ?thesis by (simp add: field_def)
qed

lemma field_flags_set:
  assumes "length d \<ge> 64" "f < 2 ^ 32"
  shows "field (take 64 (with_flags f d)) 48 4 = f"
proof -
  have "drop 48 (take 64 (with_flags f d)) = le_bytes 4 f @ take 12 (drop 52 d)"
    using assms(1) by (simp add: with_flags_def take_drop)
  then show ?thesis using assms(2) by (simp add: field_def le_val_small)
qed

lemma dec_ehdr_with_flags:
  assumes "length d \<ge> 64" "f < 2 ^ 32"
  shows "dec_ehdr (take 64 (with_flags f d)) = (dec_ehdr (take 64 d))\<lparr>e_flags := f\<rparr>"
proof -
  have "take 16 (with_flags f d) = take 16 d" using assms(1) by (simp add: with_flags_def)
  then show ?thesis
    using field_flags_set [OF assms] field_with_flags [OF assms(1), of 40 8 f] field_with_flags [OF assms(1), of 52 2 f]
      field_with_flags [OF assms(1), of 54 2 f] field_with_flags [OF assms(1), of 56 2 f]
      field_with_flags [OF assms(1), of 58 2 f] field_with_flags [OF assms(1), of 60 2 f] field_with_flags [OF assms(1), of 62 2 f]
    by (simp add: dec_ehdr_def min_def)
qed

lemma GetFlagByMagic_small: "GetFlagByMagic soc magic < 2 ^ 32"
  by (simp add: GetFlagByMagic_def FLAG_A2_AIV_def FLAG_A2_AIC_def)

section \<open>Properties\<close>

text \<open>
  C22: The registry is well typed after any sequence of intercepted calls: a context is found under
  the handle that it holds, what it says of its binary (symbols, entry addresses, the marks of
  instrumentation) is what the binary says, and no two handles share a registration number.
\<close>

theorem registry_typed:
  assumes "hook_run v env ops s = Some s'" "bs_regs s = rm0" "length ops < 2 ^ 64"
    and "GetRegister (bs_regs s') h = Some c"
  shows "rg_hdl c = h \<and> decoded c \<and>
    (\<forall>h' c'. GetRegister (bs_regs s') h' = Some c' \<and> rp_regId (rg_param c) = rp_regId (rg_param c') \<longrightarrow> h = h')"
proof -
  have "regs_ok (bs_regs s')" using hook_run_grown [OF assms(1)] assms(2,3) by (simp add: rm0_def regs_ok_def)
  then show ?thesis using assms(4) by (fastforce simp: regs_ok_def GetRegister_def dest: map_of_SomeD)
qed

definition none_vendor :: "'w binary_vendor" where
  \<comment> \<open>a vendor that refuses everything but the load of a binary, and has no files\<close>
  "none_vendor = \<lparr>bv_loadData = (\<lambda>_ _ w. ((ACL_SUCCESS, 7), w)), bv_loadFile = (\<lambda>_ _ w. ((ACL_SUCCESS, 7), w)),
     bv_unload = (\<lambda>_ w. w), bv_function = (\<lambda>_ _ w. ((1, 0), w)), bv_functionByEntry = (\<lambda>_ _ w. ((1, 0), w)),
     bv_functionAddr = (\<lambda>_ w. (1, 0, 0)), bv_kernelType = (\<lambda>_ w. (1, 0)), bv_paramCount = (\<lambda>_ w. (1, 0)),
     bv_paramInfo = (\<lambda>_ _ w. (1, 0, 0)), bv_functionName = (\<lambda>_ w. (1, [])), bv_functionBinary = (\<lambda>_ w. (1, 0)),
     bv_functionBySymbol = (\<lambda>_ w. (1, 0)), bv_readBinary = (\<lambda>_ w. []), bv_writeBinary = (\<lambda>_ _ w. (0, w)),
     bv_exists = (\<lambda>_ w. False), bv_mkdir = (\<lambda>_ w. (False, w)), bv_removeAll = (\<lambda>_ w. w), bv_symlink = (\<lambda>_ _ w. w),
     bv_copyFile = (\<lambda>_ _ w. (False, w)), bv_jsonMagic = (\<lambda>_ w. None), bv_stamp = (\<lambda>w. [])\<rparr>"

definition ex_env :: binary_env where
  "ex_env = \<lparr>be_selector = init_selector, be_isSimulator = False, be_soc = ''Ascend910B1'', be_tmpDumpPath = []\<rparr>"

definition ex_ops :: "hook_op list" where
  "ex_ops = [HCreateBinary (Some ex_image) 5, HLoad 5 (ACL_SUCCESS, 9), HLoadData (Some ex_image) None (ACL_SUCCESS, 10)]"

definition ex_state :: "unit binary_state" where
  "ex_state = \<lparr>bs_regs = rm0, bs_saved = [], bs_world = ()\<rparr>"

definition ex_context :: "nat \<Rightarrow> ptr \<Rightarrow> RegisterContext" where
  \<comment> \<open>of the example binary\<close>
  "ex_context regId h = rg0\<lparr>rg_elfData := ex_image, rg_kernelOffsets := [16], rg_kernelSymbolNames := [''k''],
     rg_param := new_RegisterParam regId RT_DEV_BINARY_MAGIC_ELF None False True, rg_hdl := h, rg_hasSimt := True\<rparr>"

lemma ex_stub: "ascii stub_section \<noteq> text_name" "ascii ''.debug_line'' \<noteq> text_name"
  "ascii stub_section \<noteq> []" "ascii ''.debug_line'' \<noteq> []"
  by (simp_all add: ascii_def stub_section_def text_name_def)

lemma Init_ex: "Init_data ex_image h (new_RegisterParam i RT_DEV_BINARY_MAGIC_ELF None False True) rg0 = (True, ex_context i h)"
proof -
  have "char_of (107 :: nat) = CHR ''k''" using char_of_char [of "CHR ''k''", where 'a = nat] by simp
  then show ?thesis
    using ex_stub by (simp add: Init_data_def ex_scanned GetSectionHeaders_def ex_sections ex_context_def rg0_def chars_def)
qed

lemma ex_run: "hook_run none_vendor ex_env ex_ops ex_state =
  Some (ex_state\<lparr>bs_regs := \<lparr>rm_contexts = [(9, ex_context 0 9), (10, ex_context 1 10)], rm_tempElfData = [(5, ex_image)],
    rm_currentRegId = 2\<rparr>\<rparr>)"
proof -
  have ne: "ex_image \<noteq> []" "length ex_image \<le> MAX_MEM_BYTE_SIZE" using length_ex(4) by (auto simp: MAX_MEM_BYTE_SIZE_def)
  show ?thesis
    using ne by (simp add: ex_ops_def ex_state_def CreateBinary_Post_def CacheElfData_def rm0_def BinaryLoad_Post_def
        CreateRegister_bin_def BinaryLoadFromData_Post_def CreateRegister_data_def Init_ex enter_register_def
        after_register_def ex_env_def IsOpProf_def init_selector_def Let_def wrap64_def selector_Match_def)
qed

theorem registry_typed_witness:
  "\<exists>s'. hook_run none_vendor ex_env ex_ops ex_state = Some s' \<and> GetRegister (bs_regs s') 9 = Some (ex_context 0 9) \<and>
     rg_hdl (ex_context 0 9) = 9 \<and> decoded (ex_context 0 9)"
  using registry_typed [OF ex_run, of 9 "ex_context 0 9"] ex_run
  by (simp add: ex_state_def ex_ops_def GetRegister_def)

text \<open>
  C23: The kernel of a tiling key is the first symbol with that key, whatever the names are and whether
  the kernel is a mixed one: no key is the end of another one.
\<close>

theorem kernel_of_key:
  assumes "rg_kernelSymbolNames ctx = map symbol_name syms" "list_all (\<lambda>(b, k, tail). tail \<in> set tails) syms"
  shows "GetKernelName ctx key =
    (case find (\<lambda>(b, k, tail). k = key) syms of None \<Rightarrow> [] | Some sy \<Rightarrow> symbol_name sy)"
proof -
  let ?sufs = "[''_'' @ decimal key, (''_'' @ decimal key) @ MIX_AIC_TAIL, (''_'' @ decimal key) @ MIX_AIV_TAIL]"
  have "list_ex (EndsWith (symbol_name (b, k, t))) ?sufs \<longleftrightarrow> k = key" if "(b, k, t) \<in> set syms" for b k t
  proof -
    have t: "t \<in> set tails" using assms(2) that by (auto simp: list_all_iff)
    have "EndsWith (symbol_name (b, k, t)) (''_'' @ decimal key @ u) \<longleftrightarrow> t = u \<and> k = key" if "u \<in> set tails" for u
      unfolding symbol_name_def using key_at_end [OF that t] by simp
    from this [of "[]"] this [of MIX_AIC_TAIL] this [of MIX_AIV_TAIL] show ?thesis
      using t by (auto simp: tails_def)
  qed
  then have "find (\<lambda>name. list_ex (EndsWith name) ?sufs) (map symbol_name syms) =
      map_option symbol_name (find (\<lambda>(b, k, t). k = key) syms)"
    unfolding find_map by (intro arg_cong [where f = "map_option symbol_name"] find_cong_set) auto
  then show ?thesis by (simp add: GetKernelName_def assms(1) Let_def split: option.splits)
qed

theorem kernel_of_key_witness:
  "GetKernelName (rg0\<lparr>rg_kernelSymbolNames := map symbol_name [(''a'', 11, []), (''a'', 1, MIX_AIC_TAIL), (''a'', 1, MIX_AIV_TAIL)]\<rparr>) 1 =
     symbol_name (''a'', 1, MIX_AIC_TAIL)"
  using kernel_of_key [of "rg0\<lparr>rg_kernelSymbolNames := map symbol_name [(''a'', 11, []), (''a'', 1, MIX_AIC_TAIL), (''a'', 1, MIX_AIV_TAIL)]\<rparr>"
      "[(''a'', 11, []), (''a'', 1, MIX_AIC_TAIL), (''a'', 1, MIX_AIV_TAIL)]" 1]
  by (simp add: tails_def)

text \<open>
  The binary that is written for the instrumentation differs from the registered one in the four
  bytes of the flags only, and has the flags of the chip when the compiler left the default there.
\<close>

theorem saved_binary_flags:
  assumes "LoadHeader (rg_elfData c) = Some h"
  shows "\<exists>img. saved_image soc c = Some img \<and> length img = length (rg_elfData c) \<and>
    take 48 img = take 48 (rg_elfData c) \<and> drop 52 img = drop 52 (rg_elfData c) \<and>
    LoadHeader img = Some (h\<lparr>e_flags := if e_flags h = FLAG_DEFAULT_VALUE \<and> GetFlagByMagic soc (rp_magic (rg_param c)) > 0
      then GetFlagByMagic soc (rp_magic (rg_param c)) else e_flags h\<rparr>)"
proof -
  let ?d = "rg_elfData c" and ?f = "GetFlagByMagic soc (rp_magic (rg_param c))"
  have len: "64 \<le> length ?d" and h: "h = dec_ehdr (take 64 ?d)"
    using assms by (auto simp: LoadHeader_def read_bytes_def sizeof_Ehdr_def split: if_splits)
  have "LoadHeader (with_flags ?f ?d) = Some (h\<lparr>e_flags := ?f\<rparr>)"
    using len dec_ehdr_with_flags [OF len GetFlagByMagic_small]
    by (simp add: LoadHeader_def read_bytes_def sizeof_Ehdr_def h) (simp add: with_flags_def)
  then show ?thesis using assms len by (auto simp: saved_image_def Let_def with_flags_def)
qed

theorem saved_binary_flags_witness:
  "\<exists>img. saved_image ''Ascend910B1'' (ex_context 0 9) = Some img \<and> length img = 380 \<and>
     take 48 img = take 48 ex_image \<and> drop 52 img = drop 52 ex_image"
  using saved_binary_flags [of "ex_context 0 9" _ "''Ascend910B1''"] image_header(1) [OF wf_ex, folded ex_image_def]
  by (fastforce simp: ex_context_def rg0_def length_ex)

text \<open>
  A copy of a context made from an instrumented binary keeps the registration number and the
  kind of the original and owns what it loaded. When the symbols of the new binary cannot be read the copy
  is given up, but the handle has not been stored yet: the null handle is unloaded, and the binary
  stays loaded.
\<close>

theorem clone_from_binary:
  assumes "\<not> rg_isFromFile ctx" "bv_readBinary v path w = data" "data \<noteq> []"
    and "bv_loadData v data (if rp_optionsIsNull (rg_param ctx) then None else Some (param_options (rg_param ctx))) w =
      ((ACL_SUCCESS, h), w')"
  shows "case Clone_register v ctx path w of
      (Some new, w'') \<Rightarrow> w'' = w' \<and> decoded new \<and> rg_elfData new = data \<and> rg_hdl new = h \<and>
        rp_regId (rg_param new) = rp_regId (rg_param ctx) \<and> rp_magic (rg_param new) = rp_magic (rg_param ctx) \<and>
        rp_needUnload (rg_param new)
    | (None, w'') \<Rightarrow> w'' = bv_unload v 0 w'"
proof -
  let ?p = "rg_param ctx"
  let ?n = "new_RegisterParam (rp_regId ?p) (rp_magic ?p) (Some (param_options ?p)) True (rp_optionsIsNull ?p)"
  obtain ok new where init: "Init_data data h ?n rg0 = (ok, new)" by fastforce
  have clone: "Clone_register v ctx path w = (if ok then (Some new, w') else (None, RegisterContext_dtor v new w'))"
    using assms init by (cases data) (simp_all add: Clone_register_def CloneFromBin_def)
  have "decoded new \<and> rg_hdl new = h \<and> rg_param new = ?n \<and> rg_elfData new = data" if ok
    using Init_data_ok [of data h ?n rg0 new] init that by (simp add: rg0_def)
  moreover have "rg_hdl new = 0 \<and> rg_param new = ?n" if "\<not> ok"
    using init that by (auto simp: Init_data_def Let_def rg0_def split: elf_result.splits)
  ultimately show ?thesis by (cases ok) (simp_all add: clone RegisterContext_dtor_def)
qed

definition leaky_vendor :: "ptr list binary_vendor" where
  \<comment> \<open>it keeps the handles that are loaded; its files are not binaries\<close>
  "leaky_vendor = none_vendor\<lparr>bv_readBinary := (\<lambda>_ _. [0]), bv_loadData := (\<lambda>_ _ w. ((ACL_SUCCESS, 7), 7 # w)),
     bv_unload := removeAll\<rparr>"

theorem clone_from_binary_witness: "Clone_register leaky_vendor (ex_context 0 9) ''a'' [] = (None, [7])"
proof -
  have fail: "fst (Clone_register leaky_vendor (ex_context 0 9) ''a'' []) = None"
    by (simp add: Clone_register_def CloneFromBin_def leaky_vendor_def none_vendor_def ex_context_def rg0_def
        Init_data_def ScanKernelSymbols_def LocateKernelSymtab_def LoadHeader_def read_bytes_def sizeof_Ehdr_def Let_def
        split: prod.splits)
  have "case Clone_register leaky_vendor (ex_context 0 9) ''a'' [] of (Some new, w) \<Rightarrow> True | (None, w) \<Rightarrow> w = [7]"
    using clone_from_binary [of "ex_context 0 9" leaky_vendor "''a''" "[]" "[0]" 7 "[7]"]
    by (simp add: leaky_vendor_def none_vendor_def ex_context_def rg0_def split: prod.splits option.splits)
  then show ?thesis using fail by (auto split: prod.splits option.splits)
qed

end
