(* ===== verification/Launches.thy ===== *)
theory Launches
  imports Registry ArgsMgr
begin

text \<open>
  Models runtime/inject_helpers/FuncContext.h and .cpp, StubFuncContext, TilingFuncContext, FuncManager,
  LaunchContext, LaunchManager, KernelMatcher, acl_rt_impl/AclLaunchKernelMixin.h, the hooks that look
  functions up (HijackedFuncOfAclrtBinaryGetFunctionImpl.cpp, BinaryGetFunctionByEntryImpl,
  RegisterCpuFuncImpl), those that bind streams (HijackedFuncOfAclmdlRI*.cpp), and \<open>InitParam\<close> of the six
  launch hooks. Function contexts are shared and change, so they live in a store and are referred to
  by their number in the order of creation; an argument context is referred to by its key in the
  table of \<open>ArgsManager\<close>, which only the launch under way does. The launches are kept per device.
\<close>

section \<open>Functions\<close>

datatype func_kind = Stub | Tiling nat

record FuncContext =
  fx_kind :: func_kind
  fx_funcHandle :: ptr
  fx_regCtx :: RegisterContext
  fx_kernelName :: string
  fx_isAiCpu :: bool
  fx_paramCount :: nat
  fx_paramOffsets :: "nat list"
  fx_paramSizes :: "nat list"

definition new_FuncContext :: "func_kind \<Rightarrow> RegisterContext \<Rightarrow> string \<Rightarrow> ptr \<Rightarrow> FuncContext" where
  "new_FuncContext kind regCtx name funcHandle =
     \<lparr>fx_kind = kind, fx_funcHandle = funcHandle, fx_regCtx = regCtx, fx_kernelName = name, fx_isAiCpu = False,
      fx_paramCount = 0, fx_paramOffsets = [], fx_paramSizes = []\<rparr>"

definition new_StubFuncContext :: "RegisterContext \<Rightarrow> string \<Rightarrow> ptr \<Rightarrow> FuncContext" where
  "new_StubFuncContext regCtx kernelName funcHandle = new_FuncContext Stub regCtx kernelName funcHandle"

definition new_TilingFuncContext :: "RegisterContext \<Rightarrow> nat \<Rightarrow> ptr \<Rightarrow> FuncContext" where
  "new_TilingFuncContext regCtx funcEntry funcHandle =
     new_FuncContext (Tiling funcEntry) regCtx (GetKernelName regCtx funcEntry) funcHandle"

definition GetTilingKey :: "FuncContext \<Rightarrow> nat option" where
  "GetTilingKey f = (case fx_kind f of Stub \<Rightarrow> None | Tiling key \<Rightarrow> Some key)"

definition FuncContext_GetKernelPC :: "'w binary_vendor \<Rightarrow> FuncContext \<Rightarrow> 'w \<Rightarrow> nat" where
  "FuncContext_GetKernelPC v f w =
     (if fx_isAiCpu f then 0
      else let (ret, aicAddr, aivAddr) = bv_functionAddr v (fx_funcHandle f) w in
        if ret \<noteq> 0 then 0 else if aicAddr \<noteq> 0 then aicAddr else if aivAddr \<noteq> 0 then aivAddr else 0)"

definition GetKernelPC :: "'w binary_vendor \<Rightarrow> FuncContext \<Rightarrow> 'w \<Rightarrow> nat" where
  \<comment> \<open>the overriding methods of the two classes, which are alike\<close>
  "GetKernelPC v f w = (if fx_funcHandle f \<noteq> 0 then FuncContext_GetKernelPC v f w else 0)"

definition FuncContext_GetStartPC :: "'w binary_vendor \<Rightarrow> FuncContext \<Rightarrow> 'w \<Rightarrow> nat" where
  "FuncContext_GetStartPC v f w =
     (let pcStartAddr = GetKernelPC v f w in
      if pcStartAddr = 0 then pcStartAddr
      else let kernelOffset = GetKernelOffsetByName (fx_regCtx f) (fx_kernelName f) in
        if pcStartAddr < kernelOffset then 0 else pcStartAddr - kernelOffset)"

definition GetStartPC :: "'w binary_vendor \<Rightarrow> FuncContext \<Rightarrow> 'w \<Rightarrow> nat" where
  "GetStartPC v f w = (if fx_funcHandle f \<noteq> 0 then FuncContext_GetStartPC v f w else 0)"

definition AclrtKernelTypeTrans :: "int \<Rightarrow> KernelType" where
  "AclrtKernelTypeTrans k =
     (if k = 0 \<or> k = 3 then MIX else if k = 2 then AIVEC else if k = 1 then AICUBE else if k = 100 then AICPU else AIVEC)"

definition GetKernelTypeFromRuntime :: "'w binary_vendor \<Rightarrow> FuncContext \<Rightarrow> 'w \<Rightarrow> KernelType" where
  "GetKernelTypeFromRuntime v f w =
     (let (ret, k) = bv_kernelType v (fx_funcHandle f) w in if ret \<noteq> ACL_SUCCESS then INVALID else AclrtKernelTypeTrans k)"

definition GetKernelType :: "'w binary_vendor \<Rightarrow> FuncContext \<Rightarrow> 'w \<Rightarrow> KernelType" where
  "GetKernelType v f w =
     (let kernelType = MagicToKernelType (rp_magic (rg_param (fx_regCtx f))) in
      if kernelType \<noteq> MIX then kernelType
      else let kernelType = GetKernelTypeFromRuntime v f w in
        if kernelType = AICPU then kernelType else if kernelType = INVALID then AICUBE else kernelType)"

fun param_loop :: "'w binary_vendor \<Rightarrow> ptr \<Rightarrow> nat list \<Rightarrow> 'w \<Rightarrow> FuncContext \<Rightarrow> bool \<times> FuncContext" where
  "param_loop v h [] w f = (True, f)"
| "param_loop v h (i # is) w f =
     (let (ret, off, sz) = bv_paramInfo v h i w in
      if ret \<noteq> ACL_SUCCESS then (False, f)
      else param_loop v h is w
        (f\<lparr>fx_paramOffsets := fx_paramOffsets f @ [off], fx_paramSizes := fx_paramSizes f @ [sz]\<rparr>))"

definition QueryParamInfo :: "'w binary_vendor \<Rightarrow> FuncContext \<Rightarrow> 'w \<Rightarrow> bool \<times> FuncContext" where
  "QueryParamInfo v f w =
     (if fx_funcHandle f = 0 then (False, f)
      else let (ret, paramCount) = bv_paramCount v (fx_funcHandle f) w in
        if ret \<noteq> ACL_SUCCESS \<or> paramCount = 0 then (False, f)
        else param_loop v (fx_funcHandle f) [0..<paramCount] w
               (f\<lparr>fx_paramCount := paramCount, fx_paramOffsets := [], fx_paramSizes := []\<rparr>))"

definition Clone_func :: "'w binary_vendor \<Rightarrow> RegisterContext \<Rightarrow> FuncContext \<Rightarrow> 'w \<Rightarrow> FuncContext option \<times> 'w" where
  "Clone_func v regCtx f w =
     (if fx_funcHandle f = 0 then (None, w)
      else (case fx_kind f of
              Stub \<Rightarrow>
                let ((ret, funcHandle), w) = bv_function v (rg_hdl regCtx) (fx_kernelName f) w in
                if ret \<noteq> ACL_SUCCESS then (None, w) else (Some (new_StubFuncContext regCtx (fx_kernelName f) funcHandle), w)
            | Tiling tilingKey \<Rightarrow>
                let ((ret, funcHandle), w) = bv_functionByEntry v (rg_hdl regCtx) tilingKey w in
                if ret \<noteq> ACL_SUCCESS then (None, w) else (Some (new_TilingFuncContext regCtx tilingKey funcHandle), w)))"

section \<open>Launches\<close>

record StreamInfo =
  sm_binded :: bool
  sm_subscribed :: bool

definition sm0 :: StreamInfo where
  "sm0 = \<lparr>sm_binded = False, sm_subscribed = False\<rparr>"

type_synonym launch_cfg = "nat option option"
  \<comment> \<open>the pointer, its \<open>attrs\<close>, and there the \<open>localMemorySize\<close> of the first\<close>

record LaunchContext =
  lx_func :: nat
  lx_args :: ptr
  lx_blockDim :: nat
  lx_stream :: ptr
  lx_isSink :: bool
  lx_launchId :: nat
  lx_cfg :: launch_cfg
  lx_dbiFunc :: "nat option"

record LaunchManager =
  lm_contexts :: "LaunchContext list"
  lm_memInfo :: OpMemInfo
  lm_memInfoHistory :: "OpMemInfo list"
  lm_simtUbDynamicSize :: nat

definition lm0 :: LaunchManager where
  "lm0 = \<lparr>lm_contexts = [], lm_memInfo = om0, lm_memInfoHistory = [], lm_simtUbDynamicSize = 0\<rparr>"

record contexts =
  cx_regs :: RegisterManager
  cx_heap :: "FuncContext list"
  cx_funcs :: "(ptr \<times> nat) list"
  cx_fakeFuncHandles :: "((ptr \<times> nat) \<times> ptr) list"
  cx_args :: ArgsManager
  cx_streams :: "(ptr \<times> StreamInfo) list"
  cx_launch :: "int \<Rightarrow> LaunchManager"

definition cx0 :: contexts where
  "cx0 = \<lparr>cx_regs = rm0, cx_heap = [], cx_funcs = [], cx_fakeFuncHandles = [], cx_args = am0, cx_streams = [],
     cx_launch = (\<lambda>_. lm0)\<rparr>"

definition on_launches :: "int \<Rightarrow> (LaunchManager \<Rightarrow> LaunchManager) \<Rightarrow> contexts \<Rightarrow> contexts" where
  \<comment> \<open>\<open>LaunchManager::Local()\<close> of a device\<close>
  "on_launches d g s = s\<lparr>cx_launch := (cx_launch s)(d := g (cx_launch s d))\<rparr>"

definition enter_func :: "FuncContext \<Rightarrow> contexts \<Rightarrow> nat option \<times> contexts" where
  "enter_func f s =
     (Some (length (cx_heap s)),
      s\<lparr>cx_heap := cx_heap s @ [f], cx_funcs := al_put (fx_funcHandle f) (length (cx_heap s)) (cx_funcs s)\<rparr>)"

definition CreateFunc_name :: "ptr \<Rightarrow> string \<Rightarrow> ptr \<Rightarrow> contexts \<Rightarrow> nat option \<times> contexts" where
  "CreateFunc_name binHandle kernelName funcHandle s =
     (case GetRegister (cx_regs s) binHandle of
        None \<Rightarrow> (None, s)
      | Some regCtx \<Rightarrow> enter_func (new_StubFuncContext regCtx kernelName funcHandle) s)"

definition CreateFunc_entry :: "ptr \<Rightarrow> nat \<Rightarrow> ptr \<Rightarrow> contexts \<Rightarrow> nat option \<times> contexts" where
  "CreateFunc_entry binHandle funcEntry funcHandle s =
     (case GetRegister (cx_regs s) binHandle of
        None \<Rightarrow> (None, s)
      | Some regCtx \<Rightarrow> enter_func (new_TilingFuncContext regCtx funcEntry funcHandle) s)"

definition GetFunc :: "contexts \<Rightarrow> ptr \<Rightarrow> nat option" where
  "GetFunc s funcHandle = map_of (cx_funcs s) funcHandle"

definition GetFunc_entry :: "contexts \<Rightarrow> ptr \<Rightarrow> nat \<Rightarrow> nat option" where
  "GetFunc_entry s binHandle funcEntry =
     (case map_of (cx_fakeFuncHandles s) (binHandle, funcEntry) of
        None \<Rightarrow> None
      | Some h \<Rightarrow> map_of (cx_funcs s) h)"

definition GetOrCreateStreamInfo :: "ptr \<Rightarrow> contexts \<Rightarrow> StreamInfo \<times> contexts" where
  "GetOrCreateStreamInfo stm s =
     (case map_of (cx_streams s) stm of
        Some i \<Rightarrow> (i, s)
      | None \<Rightarrow> (sm0, s\<lparr>cx_streams := al_put stm sm0 (cx_streams s)\<rparr>))"

definition set_binded :: "bool \<Rightarrow> ptr \<Rightarrow> contexts \<Rightarrow> contexts" where
  \<comment> \<open>\<open>Pre\<close> of the hooks that bind a stream or begin a capture, and of those that end it\<close>
  "set_binded b stm s =
     (let (i, s) = GetOrCreateStreamInfo stm s in s\<lparr>cx_streams := al_put stm (i\<lparr>sm_binded := b\<rparr>) (cx_streams s)\<rparr>)"

definition BindStream_Pre :: "ptr \<Rightarrow> contexts \<Rightarrow> contexts" where "BindStream_Pre stream s = set_binded True stream s"
definition UnbindStream_Pre :: "ptr \<Rightarrow> contexts \<Rightarrow> contexts" where "UnbindStream_Pre stream s = set_binded False stream s"
definition CaptureBegin_Pre :: "ptr \<Rightarrow> contexts \<Rightarrow> contexts" where "CaptureBegin_Pre stream s = set_binded True stream s"
definition CaptureEnd_Pre :: "ptr \<Rightarrow> contexts \<Rightarrow> contexts" where "CaptureEnd_Pre stream s = set_binded False stream s"

definition SetSimtUbDynamicSize :: "nat \<Rightarrow> LaunchManager \<Rightarrow> LaunchManager" where
  "SetSimtUbDynamicSize n m = m\<lparr>lm_simtUbDynamicSize := wrap32 n\<rparr>"

definition ArchiveMemInfo :: "LaunchManager \<Rightarrow> LaunchManager" where
  "ArchiveMemInfo m = m\<lparr>lm_memInfoHistory := lm_memInfoHistory m @ [lm_memInfo m]\<rparr>"

definition CreateLaunch ::
  "FuncSelector \<Rightarrow> int \<Rightarrow> ptr \<Rightarrow> nat \<Rightarrow> ptr \<Rightarrow> launch_cfg \<Rightarrow> ptr option \<Rightarrow> contexts \<Rightarrow> LaunchContext option \<times> contexts"
where
  \<comment> \<open>with the key of the argument context, \<open>None\<close> for a null one\<close>
  "CreateLaunch sel d funcHandle blockDim stream cfg argsCtx s =
     (let (streamInfo, s) = GetOrCreateStreamInfo stream s in
      case (argsCtx, GetFunc s funcHandle) of
        (Some args, Some func) \<Rightarrow>
          let ctx = \<lparr>lx_func = func, lx_args = args, lx_blockDim = blockDim, lx_stream = stream,
                     lx_isSink = sm_binded streamInfo, lx_launchId = length (lm_contexts (cx_launch s d)),
                     lx_cfg = cfg, lx_dbiFunc = None\<rparr>;
              s = on_launches d (\<lambda>m. m\<lparr>lm_contexts := lm_contexts m @ [ctx]\<rparr>) s;
              s = (if IsSanitizer sel then
                     on_launches d (SetSimtUbDynamicSize (case cfg of Some (Some n) \<Rightarrow> n | _ \<Rightarrow> 0)) s
                   else s) in
          (Some ctx, s)
      | _ \<Rightarrow> (None, s))"

definition CreateLaunch_handle ::
  "FuncSelector \<Rightarrow> int \<Rightarrow> ptr \<Rightarrow> nat \<Rightarrow> ptr \<Rightarrow> launch_cfg \<Rightarrow> ptr \<Rightarrow> contexts \<Rightarrow> LaunchContext option \<times> contexts"
where
  "CreateLaunch_handle sel d funcHandle blockDim stream cfg argsHandle s =
     CreateLaunch sel d funcHandle blockDim stream cfg
       (case GetContext argsHandle (cx_args s) of None \<Rightarrow> None | Some c \<Rightarrow> Some argsHandle) s"

definition GetLaunch :: "LaunchManager \<Rightarrow> nat \<Rightarrow> LaunchContext option" where
  "GetLaunch m launchId = (if launchId \<ge> length (lm_contexts m) then None else Some (lm_contexts m ! launchId))"

definition GetLastLaunch :: "LaunchManager \<Rightarrow> LaunchContext option" where
  "GetLastLaunch m = (if lm_contexts m = [] then None else Some (last (lm_contexts m)))"

definition SetDBIFuncCtx :: "int \<Rightarrow> nat \<Rightarrow> nat \<Rightarrow> contexts \<Rightarrow> contexts" where
  "SetDBIFuncCtx d launchId f s =
     on_launches d (\<lambda>m. m\<lparr>lm_contexts := (lm_contexts m)[launchId := (lm_contexts m ! launchId)\<lparr>lx_dbiFunc := Some f\<rparr>]\<rparr>) s"

definition GetDBIFuncCtx :: "(nat \<Rightarrow> bool) \<Rightarrow> LaunchContext \<Rightarrow> nat option" where
  \<comment> \<open>a weak pointer; \<open>alive\<close> tells the objects that still have an owner\<close>
  "GetDBIFuncCtx alive l = (case lx_dbiFunc l of None \<Rightarrow> None | Some f \<Rightarrow> if alive f then Some f else None)"

section \<open>Which launches\<close>

record matcher_config =
  mc_launchId :: nat
  mc_regId :: nat
  mc_kernelName :: string

definition any_launch :: matcher_config where
  "any_launch = \<lparr>mc_launchId = 2 ^ 64 - 1, mc_regId = 2 ^ 64 - 1, mc_kernelName = []\<rparr>"

definition IsMatchAll :: "matcher_config \<Rightarrow> bool" where
  "IsMatchAll c \<longleftrightarrow> mc_launchId c = 2 ^ 64 - 1 \<and> mc_kernelName c = [] \<and> mc_regId c = 2 ^ 64 - 1"

definition Match :: "matcher_config \<Rightarrow> nat \<Rightarrow> string \<Rightarrow> bool" where
  "Match c launchId kernelName =
     (if IsMatchAll c then True
      else if mc_launchId c \<noteq> 2 ^ 64 - 1 then launchId = mc_launchId c
      else if mc_kernelName c \<noteq> [] then find_sub (mc_kernelName c) kernelName \<noteq> None
      else False)"

section \<open>Looking functions up\<close>

definition KERNEL_NAME_MAX :: nat where "KERNEL_NAME_MAX = 2048"

definition BinaryGetFunction_Post ::
  "ptr \<Rightarrow> string option \<Rightarrow> bool \<Rightarrow> acl_error \<times> ptr \<Rightarrow> contexts \<Rightarrow> acl_error \<times> contexts"
where
  \<comment> \<open>the binary, the name, whether the pointer to the handle is there, and what the call gave\<close>
  "BinaryGetFunction_Post binHandle kernelName hasHandle = (\<lambda>(ret, funcHandle) s.
     case kernelName of
       None \<Rightarrow> (ret, s)
     | Some name \<Rightarrow>
         if ret \<noteq> ACL_SUCCESS \<or> binHandle = 0 \<or> \<not> hasHandle \<or> funcHandle = 0 then (ret, s)
         else let subName = take (GetValidLength (Some name) KERNEL_NAME_MAX) name in
           (ret, snd (CreateFunc_name binHandle subName funcHandle s)))"

definition BinaryGetFunctionByEntry_Post ::
  "ptr \<Rightarrow> nat \<Rightarrow> bool \<Rightarrow> acl_error \<times> ptr \<Rightarrow> contexts \<Rightarrow> acl_error \<times> contexts"
where
  "BinaryGetFunctionByEntry_Post binHandle funcEntry hasHandle = (\<lambda>(ret, funcHandle) s.
     if ret \<noteq> ACL_SUCCESS \<or> binHandle = 0 \<or> \<not> hasHandle \<or> funcHandle = 0 then (ret, s)
     else (ret, snd (CreateFunc_entry binHandle funcEntry funcHandle s)))"

definition RegisterCpuFunc_Post ::
  "ptr \<Rightarrow> string option \<Rightarrow> bool \<Rightarrow> bool \<Rightarrow> acl_error \<times> ptr \<Rightarrow> contexts \<Rightarrow> (acl_error \<times> contexts) option"
where
  \<comment> \<open>the binary, the function's name, whether the kernel's name and the pointer to the handle are
    there; \<open>None\<close> is the write through a null context\<close>
  "RegisterCpuFunc_Post binHandle funcName hasKernelName hasHandle = (\<lambda>(ret, funcHandle) s.
     case funcName of
       None \<Rightarrow> Some (ret, s)
     | Some name \<Rightarrow>
         if ret \<noteq> ACL_SUCCESS \<or> \<not> hasKernelName \<or> binHandle = 0 \<or> \<not> hasHandle \<or> funcHandle = 0 then Some (ret, s)
         else let subName = take (GetValidLength (Some name) KERNEL_NAME_MAX) name in
           (case CreateFunc_name binHandle subName funcHandle s of
              (None, s) \<Rightarrow> None
            | (Some i, s) \<Rightarrow> Some (ret, s\<lparr>cx_heap := (cx_heap s)[i := (cx_heap s ! i)\<lparr>fx_isAiCpu := True\<rparr>]\<rparr>)))"

definition CreateFuncContext :: "'w binary_vendor \<Rightarrow> ptr \<Rightarrow> 'w \<Rightarrow> contexts \<Rightarrow> nat option \<times> contexts" where
  \<comment> \<open>the buffer of the name is never empty, so the string is empty only when the query fails\<close>
  "CreateFuncContext v funcHandle w s =
     (let (ret, name) = bv_functionName v funcHandle w; (ret2, bin) = bv_functionBinary v funcHandle w;
          binHandle = (if ret2 \<noteq> ACL_SUCCESS then 0 else bin) in
      if ret \<noteq> ACL_SUCCESS \<or> binHandle = 0 then (None, s)
      else CreateFunc_name binHandle (takeWhile (\<lambda>c. code c \<noteq> 0) name) funcHandle s)"

definition ResolveFuncHandle :: "'w binary_vendor \<Rightarrow> ptr \<Rightarrow> 'w \<Rightarrow> ptr" where
  "ResolveFuncHandle v func w =
     (if func \<noteq> 0 then
        if fst (bv_functionBinary v func w) = ACL_SUCCESS then func
        else let (ret, fh) = bv_functionBySymbol v func w in if ret = ACL_SUCCESS then fh else func
      else func)"

section \<open>The memory of a launch\<close>

record launch_env =
  le_selector :: FuncSelector
  le_soc :: string
  le_device :: int
  le_needDump :: bool  \<comment> \<open>\<open>IsNeedDumpContext\<close> of the profiler's object\<close>
  le_hmem :: "ptr \<Rightarrow> nat"  \<comment> \<open>words of host memory\<close>

definition Args_GetTilingData :: "ArgsContext \<Rightarrow> nat \<Rightarrow> bytes option option" where
  \<comment> \<open>the virtual method; \<open>n\<close> is the size of the caller's vector\<close>
  "Args_GetTilingData c n =
     (case c of HandleCtx h \<Rightarrow> Some (Handle_GetTilingData h) | RawCtx r \<Rightarrow> Raw_GetTilingData r n | ArrayCtx a \<Rightarrow> Some None)"

definition UpdateOpMemInfoByAdump ::
  "launch_env \<Rightarrow> RegisterContext \<Rightarrow> string \<Rightarrow> ArgsContext \<Rightarrow> ArgsManager \<Rightarrow> OpMemInfo \<Rightarrow> (OpMemInfo \<times> ArgsManager) option"
where
  "UpdateOpMemInfoByAdump env regCtx kernelName args am memInfo =
     (let magic = rp_magic (rg_param regCtx); soc = le_soc env in
      if om_isForSetException memInfo then Some ((SetFftsInfo soc magic memInfo)\<lparr>om_isForSetException := False\<rparr>, am)
      else
        let memInfo = om_Clear memInfo in
        (case ParseMetaData soc regCtx kernelName of
           None \<Rightarrow> None
         | Some None \<Rightarrow> Some (memInfo, am)
         | Some (Some parsed) \<Rightarrow>
             let m = SetFftsInfo soc magic
                       (parsed\<lparr>om_hasOverflowAddr := om_hasOverflowAddr memInfo, om_overflowAddr := om_overflowAddr memInfo\<rparr>) in
             (case Args_GetTilingData args (om_tilingDataSize m) of
                None \<Rightarrow> None
              | Some None \<Rightarrow> Some (m, am)
              | Some (Some tilingData) \<Rightarrow> Some (UpdateInputSizeWithTilingData (le_hmem env) tilingData m am))))"

definition finish_launch :: "launch_env \<Rightarrow> LaunchContext \<Rightarrow> contexts \<Rightarrow> contexts option" where
  \<comment> \<open>the common end of \<open>InitParam\<close>\<close>
  "finish_launch env l s =
     (let d = le_device env; sel = le_selector env in
      case (if IsOpProf sel \<and> le_needDump env \<or> IsSanitizer sel then
              (case GetContext (lx_args l) (cx_args s) of
                 None \<Rightarrow> None
               | Some args \<Rightarrow>
                   let f = cx_heap s ! lx_func l in
                   map_option (\<lambda>(m, am). on_launches d (\<lambda>lm. lm\<lparr>lm_memInfo := m\<rparr>) (s\<lparr>cx_args := am\<rparr>))
                     (UpdateOpMemInfoByAdump env (fx_regCtx f) (fx_kernelName f) args (cx_args s) (lm_memInfo (cx_launch s d))))
            else Some s) of
        None \<Rightarrow> None
      | Some s \<Rightarrow> Some (on_launches d ArchiveMemInfo s))"

definition known_func :: "'w binary_vendor \<Rightarrow> ptr \<Rightarrow> 'w \<Rightarrow> contexts \<Rightarrow> contexts" where
  "known_func v funcHandle w s =
     (case GetFunc s funcHandle of None \<Rightarrow> snd (CreateFuncContext v funcHandle w s) | Some i \<Rightarrow> s)"

definition is_aicpu :: "contexts \<Rightarrow> ptr \<Rightarrow> bool" where
  "is_aicpu s funcHandle =
     (case GetFunc s funcHandle of
        None \<Rightarrow> False
      | Some i \<Rightarrow> rp_magic (rg_param (fx_regCtx (cx_heap s ! i))) = RT_DEV_BINARY_MAGIC_ELF_AICPU)"

definition launch_with ::
  "launch_env \<Rightarrow> ptr \<Rightarrow> nat \<Rightarrow> ptr \<Rightarrow> launch_cfg \<Rightarrow> ptr \<Rightarrow> nat option \<Rightarrow> ArgsContext option \<times> ArgsManager \<Rightarrow> contexts \<Rightarrow>
   (LaunchContext option \<times> contexts) option"
where
  \<comment> \<open>from the argument context on; for the SIMT hooks the size that they set afterwards\<close>
  "launch_with env funcHandle blockDim stream cfg key dynUbufSize res s =
     (let s = s\<lparr>cx_args := snd res\<rparr>;
          (l, s) = CreateLaunch (le_selector env) (le_device env) funcHandle blockDim stream cfg
                     (case fst res of None \<Rightarrow> None | Some c \<Rightarrow> Some key) s in
      case l of
        None \<Rightarrow> Some (None, s)
      | Some l \<Rightarrow>
          let s = (case dynUbufSize of
                     Some n \<Rightarrow> if IsSanitizer (le_selector env) then on_launches (le_device env) (SetSimtUbDynamicSize n) s else s
                   | None \<Rightarrow> s) in
          map_option (\<lambda>s. (Some l, s)) (finish_launch env l s))"

definition InitParam_LaunchKernel ::
  "launch_env \<Rightarrow> 'w binary_vendor \<Rightarrow> ptr \<Rightarrow> nat \<Rightarrow> ptr \<Rightarrow> args_ptr \<Rightarrow> nat \<Rightarrow> ptr \<Rightarrow> 'w \<Rightarrow> contexts \<Rightarrow>
   (LaunchContext option \<times> contexts) option"
where
  \<comment> \<open>the address of the arguments and what is there\<close>
  "InitParam_LaunchKernel env v funcHandle blockDim argsData target argsSize stream w s =
     (let s = known_func v funcHandle w s in
      launch_with env funcHandle blockDim stream None argsData None
        (CreateContext_raw argsData target argsSize True (cx_args s)) s)"

definition InitParam_LaunchKernelV2 ::
  "launch_env \<Rightarrow> 'w binary_vendor \<Rightarrow> ptr \<Rightarrow> nat \<Rightarrow> ptr \<Rightarrow> args_ptr \<Rightarrow> nat \<Rightarrow> launch_cfg \<Rightarrow> ptr \<Rightarrow> 'w \<Rightarrow> contexts \<Rightarrow>
   (LaunchContext option \<times> contexts) option"
where
  "InitParam_LaunchKernelV2 env v funcHandle numBlocks argsData target argsSize cfg stream w s =
     (let s = known_func v funcHandle w s in
      launch_with env funcHandle numBlocks stream cfg argsData None
        (CreateContext_raw argsData target argsSize True (cx_args s)) s)"

definition InitParam_WithConfig ::
  "launch_env \<Rightarrow> 'w binary_vendor \<Rightarrow> ptr \<Rightarrow> nat \<Rightarrow> ptr \<Rightarrow> launch_cfg \<Rightarrow> ptr \<Rightarrow> 'w \<Rightarrow> contexts \<Rightarrow>
   (LaunchContext option \<times> contexts) option"
where
  "InitParam_WithConfig env v funcHandle blockDim stream cfg argsHandle w s =
     (let s = known_func v funcHandle w s;
          (l, s) = CreateLaunch_handle (le_selector env) (le_device env) funcHandle blockDim stream cfg argsHandle s in
      case l of
        None \<Rightarrow> Some (None, s)
      | Some l \<Rightarrow> map_option (\<lambda>s. (Some l, s)) (finish_launch env l s))"

definition InitParam_WithHostArgs ::
  "launch_env \<Rightarrow> 'w binary_vendor \<Rightarrow> ptr \<Rightarrow> nat \<Rightarrow> ptr \<Rightarrow> launch_cfg \<Rightarrow> ptr \<Rightarrow> bytes \<Rightarrow> nat \<Rightarrow> aclrtPlaceHolderInfo list \<Rightarrow>
   'w \<Rightarrow> contexts \<Rightarrow> (LaunchContext option \<times> contexts) option"
where
  "InitParam_WithHostArgs env v funcHandle blockDim stream cfg hostArgs content argsSize phs w s =
     (let s = known_func v funcHandle w s in
      if is_aicpu s funcHandle then Some (None, s)
      else launch_with env funcHandle blockDim stream cfg hostArgs None
        (CreateContext_placeholders hostArgs content argsSize phs (cx_args s)) s)"

definition dim3_blocks :: "nat \<Rightarrow> nat \<Rightarrow> nat \<Rightarrow> nat" where
  "dim3_blocks x y z = wrap32 (wrap32 (x * y) * z)"

definition InitParam_SIMTWithHostArgs ::
  "launch_env \<Rightarrow> 'w binary_vendor \<Rightarrow> ptr \<Rightarrow> nat \<times> nat \<times> nat \<Rightarrow> nat \<Rightarrow> ptr \<Rightarrow> launch_cfg \<Rightarrow> ptr \<Rightarrow> bytes \<Rightarrow> nat \<Rightarrow>
   aclrtPlaceHolderInfo list \<Rightarrow> 'w \<Rightarrow> contexts \<Rightarrow> (LaunchContext option \<times> contexts) option"
where
  "InitParam_SIMTWithHostArgs env v func gridDim dynUbufSize stream cfg hostArgs content argsSize phs w s =
     (let funcHandle = ResolveFuncHandle v func w; s = known_func v funcHandle w s; (x, y, z) = gridDim in
      if is_aicpu s funcHandle then Some (None, s)
      else launch_with env funcHandle (dim3_blocks x y z) stream cfg hostArgs (Some dynUbufSize)
        (CreateContext_placeholders hostArgs content argsSize phs (cx_args s)) s)"

definition query_params :: "'w binary_vendor \<Rightarrow> nat \<Rightarrow> 'w \<Rightarrow> contexts \<Rightarrow> bool \<times> contexts" where
  \<comment> \<open>on the function in the store\<close>
  "query_params v i w s =
     (let (ok, f) = QueryParamInfo v (cx_heap s ! i) w in (ok, s\<lparr>cx_heap := (cx_heap s)[i := f]\<rparr>))"

definition launch_array ::
  "launch_env \<Rightarrow> 'w binary_vendor \<Rightarrow> ptr \<Rightarrow> nat \<Rightarrow> ptr \<Rightarrow> launch_cfg \<Rightarrow> ptr \<Rightarrow> bytes option list \<Rightarrow> bool \<Rightarrow> nat option \<Rightarrow>
   'w \<Rightarrow> contexts \<Rightarrow> (LaunchContext option \<times> contexts) option"
where
  \<comment> \<open>the common part of the two hooks that take an array; whether they look for a static instrumentation\<close>
  "launch_array env v funcHandle blocks stream cfg args params useStub dynUbufSize w s =
     (let s = known_func v funcHandle w s in
      if is_aicpu s funcHandle then Some (None, s)
      else (case GetFunc s funcHandle of
              None \<Rightarrow> Some (None, s)
            | Some i \<Rightarrow>
                let (ok, s) = query_params v i w s; f = cx_heap s ! i in
                if \<not> ok then Some (None, s)
                else
                  (case CreateContext_array args params (fx_paramCount f) (fx_paramOffsets f) (fx_paramSizes f)
                          (useStub \<and> rg_hasStaticStub (fx_regCtx f)) (cx_args s) of
                     (None, am) \<Rightarrow> Some (None, s\<lparr>cx_args := am\<rparr>)
                   | (Some c, am) \<Rightarrow> launch_with env funcHandle blocks stream cfg args dynUbufSize (Some c, am) s)))"

definition InitParam_WithArgsArray ::
  "launch_env \<Rightarrow> 'w binary_vendor \<Rightarrow> ptr \<Rightarrow> nat \<Rightarrow> ptr \<Rightarrow> launch_cfg \<Rightarrow> ptr \<Rightarrow> bytes option list \<Rightarrow> 'w \<Rightarrow> contexts \<Rightarrow>
   (LaunchContext option \<times> contexts) option"
where
  "InitParam_WithArgsArray env v func numBlocks stream cfg args params w s =
     launch_array env v (ResolveFuncHandle v func w) numBlocks stream cfg args params True None w s"

definition InitParam_SIMTWithArgsArray ::
  "launch_env \<Rightarrow> 'w binary_vendor \<Rightarrow> ptr \<Rightarrow> nat \<times> nat \<times> nat \<Rightarrow> nat \<Rightarrow> ptr \<Rightarrow> launch_cfg \<Rightarrow> ptr \<Rightarrow> bytes option list \<Rightarrow> 'w \<Rightarrow>
   contexts \<Rightarrow> (LaunchContext option \<times> contexts) option"
where
  "InitParam_SIMTWithArgsArray env v func gridDim dynUbufSize stream cfg args params w s =
     (let (x, y, z) = gridDim in
      launch_array env v (ResolveFuncHandle v func w) (dim3_blocks x y z) stream cfg args params False (Some dynUbufSize) w s)"


section \<open>Every launch has its own record\<close>

text \<open>
  What the hooks do to the contexts, one step each. A launch whose reading leaves its buffer has no
  successor. The numbers of the launches are kept per device, so the devices interleave freely.
\<close>

inductive launch_step :: "'w binary_vendor \<Rightarrow> contexts \<Rightarrow> contexts \<Rightarrow> bool" for v where
  Lookup_name: "launch_step v s (snd (BinaryGetFunction_Post bin name h res s))"
| Lookup_entry: "launch_step v s (snd (BinaryGetFunctionByEntry_Post bin entry h res s))"
| Register_cpu: "RegisterCpuFunc_Post bin name k h res s = Some (r, s') \<Longrightarrow> launch_step v s s'"
| Register_binary: "launch_step v s (s\<lparr>cx_regs := m\<rparr>)"
| Argument_hooks: "launch_step v s (s\<lparr>cx_args := am\<rparr>)"
| Bind_stream: "launch_step v s (set_binded b stream s)"
| Instrumented: "f < length (cx_heap s) \<Longrightarrow> i < length (lm_contexts (cx_launch s d)) \<Longrightarrow>
    launch_step v s (SetDBIFuncCtx d i f s)"
| Exception_info: "launch_step v s (on_launches d (\<lambda>m. m\<lparr>lm_memInfo := mi\<rparr>) s)"
| Launch: "InitParam_LaunchKernel env v fh bd ad tg sz stm w s = Some (l, s') \<Longrightarrow> launch_step v s s'"
| LaunchV2: "InitParam_LaunchKernelV2 env v fh bd ad tg sz cfg stm w s = Some (l, s') \<Longrightarrow> launch_step v s s'"
| WithConfig: "InitParam_WithConfig env v fh bd stm cfg ah w s = Some (l, s') \<Longrightarrow> launch_step v s s'"
| WithHostArgs: "InitParam_WithHostArgs env v fh bd stm cfg ha ct sz phs w s = Some (l, s') \<Longrightarrow> launch_step v s s'"
| SIMTWithHostArgs:
    "InitParam_SIMTWithHostArgs env v fh gd du stm cfg ha ct sz phs w s = Some (l, s') \<Longrightarrow> launch_step v s s'"
| WithArgsArray: "InitParam_WithArgsArray env v fh bd stm cfg aa ps w s = Some (l, s') \<Longrightarrow> launch_step v s s'"
| SIMTWithArgsArray:
    "InitParam_SIMTWithArgsArray env v fh gd du stm cfg aa ps w s = Some (l, s') \<Longrightarrow> launch_step v s s'"

definition numbered :: "nat \<Rightarrow> LaunchManager \<Rightarrow> bool" where
  "numbered n m \<longleftrightarrow>
     map lx_launchId (lm_contexts m) = [0..<length (lm_contexts m)] \<and>
     (\<forall>l \<in> set (lm_contexts m). lx_func l < n \<and> (\<forall>f. lx_dbiFunc l = Some f \<longrightarrow> f < n))"

definition archived :: "LaunchManager \<Rightarrow> bool" where
  "archived m \<longleftrightarrow> length (lm_memInfoHistory m) = length (lm_contexts m)"

definition known :: "contexts \<Rightarrow> bool" where
  "known s \<longleftrightarrow> (\<forall>p \<in> set (cx_funcs s). snd p < length (cx_heap s))"

definition aligned :: "contexts \<Rightarrow> bool" where
  "aligned s \<longleftrightarrow> known s \<and> (\<forall>d. numbered (length (cx_heap s)) (cx_launch s d) \<and> archived (cx_launch s d))"

lemma set_al_put: "p \<in> set (al_put k x xs) \<Longrightarrow> p = (k, x) \<or> p \<in> set xs"
  by (induction k x xs rule: al_put.induct) (auto split: if_splits)

lemma numbered_mono: "numbered n m \<Longrightarrow> n \<le> n' \<Longrightarrow> numbered n' m"
  unfolding numbered_def by (meson less_le_trans)

definition grows :: "contexts \<Rightarrow> contexts \<Rightarrow> bool" where
  \<comment> \<open>what everything that is not a launch does\<close>
  "grows s s' \<longleftrightarrow> cx_launch s' = cx_launch s \<and> length (cx_heap s) \<le> length (cx_heap s') \<and> (known s \<longrightarrow> known s')"

lemma grows_refl [simp]: "grows s s"
  by (simp add: grows_def)

lemma grows_trans: "grows s t \<Longrightarrow> grows t u \<Longrightarrow> grows s u"
  by (auto simp: grows_def)

lemma grows_aligned: "grows s s' \<Longrightarrow> aligned s \<Longrightarrow> aligned s'"
  by (auto simp: grows_def aligned_def intro: numbered_mono)

lemma grows_fields [simp]:
  "grows s (s\<lparr>cx_regs := m\<rparr>)" "grows s (s\<lparr>cx_args := am\<rparr>)" "grows s (s\<lparr>cx_streams := st\<rparr>)"
  "grows s (s\<lparr>cx_heap := (cx_heap s)[i := f]\<rparr>)"
  by (auto simp: grows_def known_def)

lemma grows_enter: "grows s (snd (enter_func f s))"
  by (auto simp: grows_def known_def enter_func_def dest!: set_al_put)

lemma grows_create [simp]: "grows s (snd (CreateFunc_name b n h s))" "grows s (snd (CreateFunc_entry b e h s))"
  by (simp_all add: CreateFunc_name_def CreateFunc_entry_def grows_enter split: option.split)

lemma grows_known_func [simp]: "grows s (known_func v h w s)"
  by (simp add: known_func_def CreateFuncContext_def Let_def split: option.split prod.split)

lemma grows_query [simp]: "query_params v i w s = (ok, s') \<Longrightarrow> grows s s'"
  by (auto simp: query_params_def split: prod.splits)

lemma grows_stream: "GetOrCreateStreamInfo stm s = (i, s') \<Longrightarrow> grows s s'"
  by (auto simp: GetOrCreateStreamInfo_def split: option.splits)

lemma grows_binded [simp]: "grows s (set_binded b stm s)"
  by (auto simp: set_binded_def split: prod.split dest!: grows_stream intro: grows_trans)

lemma grows_lookups [simp]:
  "grows s (snd (BinaryGetFunction_Post bin name h res s))" "grows s (snd (BinaryGetFunctionByEntry_Post bin entry h res s))"
  by (simp_all add: BinaryGetFunction_Post_def BinaryGetFunctionByEntry_Post_def Let_def split: prod.split option.split)

lemma grows_cpu:
  assumes "RegisterCpuFunc_Post bin name k h res s = Some (r, s')"
  shows "grows s s'"
proof -
  have "\<And>n i t. CreateFunc_name bin n (snd res) s = (Some i, t) \<Longrightarrow> grows s (t\<lparr>cx_heap := (cx_heap t)[i := f]\<rparr>)" for f
    by (metis grows_create(1) grows_fields(4) grows_trans snd_conv)
  then show ?thesis
    using assms by (auto simp: RegisterCpuFunc_Post_def Let_def split: prod.splits option.splits if_splits)
qed

definition opened :: "int \<Rightarrow> contexts \<Rightarrow> bool" where
  \<comment> \<open>between the creation of a launch and the end of \<open>InitParam\<close>\<close>
  "opened d s \<longleftrightarrow> known s \<and> (\<forall>e. numbered (length (cx_heap s)) (cx_launch s e) \<and> (e \<noteq> d \<longrightarrow> archived (cx_launch s e))) \<and>
     Suc (length (lm_memInfoHistory (cx_launch s d))) = length (lm_contexts (cx_launch s d))"

lemma on_launches_fields [simp]:
  "cx_heap (on_launches d g s) = cx_heap s" "cx_funcs (on_launches d g s) = cx_funcs s"
  "cx_launch (on_launches d g s) = (cx_launch s)(d := g (cx_launch s d))" "known (on_launches d g s) = known s"
  by (simp_all add: on_launches_def known_def)

lemma aligned_on_launches:
  assumes "aligned s" and "numbered (length (cx_heap s)) (g (cx_launch s d))" and "archived (g (cx_launch s d))"
  shows "aligned (on_launches d g s)"
  using assms by (simp add: aligned_def)

lemma opened_on_launches:
  assumes "opened d s" and "lm_contexts (g (cx_launch s d)) = lm_contexts (cx_launch s d)"
    and "lm_memInfoHistory (g (cx_launch s d)) = lm_memInfoHistory (cx_launch s d)"
  shows "opened d (on_launches d g s)"
  using assms by (simp add: opened_def numbered_def)

lemma opened_args: "opened d (s\<lparr>cx_args := am\<rparr>) = opened d s"
  by (simp add: opened_def known_def)

lemma aligned_create:
  assumes s: "aligned s" and eq: "CreateLaunch sel d h bd stm cfg k s = (l, s')"
  shows "if l = None then aligned s' else opened d s'"
proof -
  obtain i t where gs: "GetOrCreateStreamInfo stm s = (i, t)" by (meson surj_pair)
  have t: "aligned t" using grows_aligned [OF grows_stream [OF gs] s] .
  show ?thesis
  proof (cases k)
    case (Some args)
    show ?thesis
    proof (cases "GetFunc t h")
      case (Some f)
      have f: "f < length (cx_heap t)"
        using t map_of_SomeD [OF Some [unfolded GetFunc_def]] by (auto simp: aligned_def known_def)
      define ctx where "ctx = \<lparr>lx_func = f, lx_args = args, lx_blockDim = bd, lx_stream = stm, lx_isSink = sm_binded i,
        lx_launchId = length (lm_contexts (cx_launch t d)), lx_cfg = cfg, lx_dbiFunc = None\<rparr>"
      have o1: "opened d (on_launches d (\<lambda>m. m\<lparr>lm_contexts := lm_contexts m @ [ctx]\<rparr>) t)"
        using t f by (simp add: aligned_def opened_def numbered_def archived_def ctx_def)
      have "opened d s'" and "l = Some ctx"
        using eq o1 Some \<open>k = _\<close>
        by (auto simp: CreateLaunch_def gs Let_def ctx_def SetSimtUbDynamicSize_def split: if_splits
            intro!: opened_on_launches)
      then show ?thesis by simp
    qed (use eq t in \<open>auto simp: CreateLaunch_def gs split: option.splits\<close>)
  qed (use eq t in \<open>auto simp: CreateLaunch_def gs split: option.splits\<close>)
qed

lemma aligned_archive: "opened d s \<Longrightarrow> aligned (on_launches d ArchiveMemInfo s)"
  by (auto simp: opened_def aligned_def ArchiveMemInfo_def numbered_def archived_def)

lemma aligned_finish:
  assumes "opened (le_device env) s" and "finish_launch env l s = Some s'"
  shows "aligned s'"
proof -
  have "opened (le_device env) (on_launches (le_device env) (\<lambda>lm. lm\<lparr>lm_memInfo := m\<rparr>) (s\<lparr>cx_args := am\<rparr>))" for m am
    using assms(1) by (intro opened_on_launches) (simp_all add: opened_args)
  then show ?thesis
    using assms
    by (auto simp: finish_launch_def Let_def intro!: aligned_archive split: if_splits option.splits prod.splits)
qed

lemma aligned_launch_with:
  assumes "aligned s" and "launch_with env h bd stm cfg k du res s = Some (l, s')"
  shows "aligned s'"
proof -
  obtain l1 t where c: "CreateLaunch (le_selector env) (le_device env) h bd stm cfg
    (case fst res of None \<Rightarrow> None | Some c \<Rightarrow> Some k) (s\<lparr>cx_args := snd res\<rparr>) = (l1, t)" by (meson surj_pair)
  have *: "if l1 = None then aligned t else opened (le_device env) t"
    using aligned_create [OF grows_aligned [OF grows_fields(2) assms(1)] c] .
  then have "opened (le_device env) (on_launches (le_device env) (SetSimtUbDynamicSize n) t)" if "l1 \<noteq> None" for n
    using that by (intro opened_on_launches) (simp_all add: SetSimtUbDynamicSize_def)
  then show ?thesis
    using assms(2) * c
    by (auto simp: launch_with_def Let_def split: option.splits if_splits intro: aligned_finish)
qed

lemma aligned_launch_array:
  assumes "aligned s" and "launch_array env v h bd stm cfg aa ps st du w s = Some (l, s')"
  shows "aligned s'"
proof -
  define t where "t = known_func v h w s"
  have t: "aligned t" unfolding t_def by (rule grows_aligned [OF grows_known_func assms(1)])
  have q: "aligned u" if "query_params v i w t = (ok, u)" for i ok u
    using grows_aligned [OF grows_query [OF that] t] .
  show ?thesis
    using assms(2) t
    by (auto simp: launch_array_def Let_def t_def [symmetric] split: if_splits option.splits prod.splits dest!: q
        intro: grows_aligned [OF grows_fields(2)] aligned_launch_with)
qed

lemma aligned_step: "launch_step v s s' \<Longrightarrow> aligned s \<Longrightarrow> aligned s'"
proof (induction rule: launch_step.induct)
  case (Register_cpu bin name k h res s r s')
  then show ?case using grows_aligned [OF grows_cpu] by blast
next
  case (Instrumented f s i d)
  have "numbered n (m\<lparr>lm_contexts := (lm_contexts m)[i := (lm_contexts m ! i)\<lparr>lx_dbiFunc := Some f\<rparr>]\<rparr>)"
    if m: "numbered n m" "i < length (lm_contexts m)" "f < n" for n m
  proof -
    have ids: "map lx_launchId ((lm_contexts m)[i := (lm_contexts m ! i)\<lparr>lx_dbiFunc := Some f\<rparr>]) = map lx_launchId (lm_contexts m)"
      using m(2) by (simp add: map_update list_update_same_conv)
    then show ?thesis
      using m nth_mem [OF m(2)] by (auto simp: numbered_def dest!: set_update_subset_insert [THEN subsetD])
  qed
  then show ?case
    using Instrumented unfolding SetDBIFuncCtx_def
    by (intro aligned_on_launches) (auto simp: aligned_def archived_def)
next
  case (Exception_info s d mi)
  then show ?case by (intro aligned_on_launches) (auto simp: aligned_def archived_def numbered_def)
next
  case (WithConfig env fh bd stm cfg ah w s l s')
  obtain l1 t where c: "CreateLaunch_handle (le_selector env) (le_device env) fh bd stm cfg ah (known_func v fh w s) = (l1, t)"
    by (meson surj_pair)
  have *: "if l1 = None then aligned t else opened (le_device env) t"
    using aligned_create [OF grows_aligned [OF grows_known_func WithConfig.prems] c [unfolded CreateLaunch_handle_def]] .
  then show ?case
    using WithConfig c
    by (auto simp: InitParam_WithConfig_def Let_def split: option.splits intro: aligned_finish)
qed (auto simp: InitParam_LaunchKernel_def InitParam_LaunchKernelV2_def InitParam_WithHostArgs_def InitParam_SIMTWithHostArgs_def
      InitParam_WithArgsArray_def InitParam_SIMTWithArgsArray_def Let_def split: prod.splits if_splits
    intro: grows_aligned [OF grows_lookups(1)] grows_aligned [OF grows_lookups(2)] grows_aligned [OF grows_fields(1)]
      grows_aligned [OF grows_fields(2)] grows_aligned [OF grows_binded] grows_aligned [OF grows_known_func]
      aligned_launch_with aligned_launch_array)

lemma aligned_run: "(launch_step v)\<^sup>*\<^sup>* s s' \<Longrightarrow> aligned s \<Longrightarrow> aligned s'"
  by (induction rule: rtranclp_induct) (auto intro: aligned_step)

lemma aligned_cx0: "aligned cx0"
  by (simp add: aligned_def cx0_def known_def lm0_def numbered_def archived_def)

definition appended :: "int \<Rightarrow> ptr \<Rightarrow> nat \<Rightarrow> ptr \<Rightarrow> contexts \<Rightarrow> LaunchContext \<Rightarrow> contexts \<Rightarrow> bool" where
  \<comment> \<open>a launch of the device more, of the function and on the stream\<close>
  "appended d h bd stm s l s' \<longleftrightarrow>
     lm_contexts (cx_launch s' d) = lm_contexts (cx_launch s d) @ [l] \<and> (\<forall>e. e \<noteq> d \<longrightarrow> cx_launch s' e = cx_launch s e) \<and>
     GetFunc s h = Some (lx_func l) \<and> lx_launchId l = length (lm_contexts (cx_launch s d)) \<and> lx_blockDim l = bd \<and>
     lx_isSink l = (case map_of (cx_streams s) stm of None \<Rightarrow> False | Some i \<Rightarrow> sm_binded i)"

lemma create_appends:
  assumes "CreateLaunch sel d h bd stm cfg k s = (Some l, s')"
  shows "appended d h bd stm s l s'" and "lm_memInfoHistory (cx_launch s' d) = lm_memInfoHistory (cx_launch s d)"
proof -
  obtain i t where st: "GetOrCreateStreamInfo stm s = (i, t)" by fastforce
  then have t: "cx_launch t = cx_launch s" "GetFunc t h = GetFunc s h"
    "sm_binded i = (case map_of (cx_streams s) stm of None \<Rightarrow> False | Some i \<Rightarrow> sm_binded i)"
    by (auto simp: GetOrCreateStreamInfo_def GetFunc_def sm0_def split: option.splits)
  obtain args f where kf: "k = Some args" "GetFunc t h = Some f"
    using assms by (cases k; cases "GetFunc t h") (auto simp: CreateLaunch_def st)
  show "appended d h bd stm s l s'" and "lm_memInfoHistory (cx_launch s' d) = lm_memInfoHistory (cx_launch s d)"
    using assms kf t by (auto simp: CreateLaunch_def st Let_def appended_def SetSimtUbDynamicSize_def split: if_splits)
qed

lemma finish_archives:
  assumes "finish_launch env l s = Some s'"
  shows "lm_contexts (cx_launch s' e) = lm_contexts (cx_launch s e)" "e \<noteq> le_device env \<Longrightarrow> cx_launch s' e = cx_launch s e"
    "lm_memInfoHistory (cx_launch s' (le_device env)) =
       lm_memInfoHistory (cx_launch s (le_device env)) @ [lm_memInfo (cx_launch s' (le_device env))]"
  using assms
  by (auto simp: finish_launch_def ArchiveMemInfo_def Let_def split: if_splits option.splits)

lemma launch_with_appends:
  assumes "launch_with env h bd stm cfg k du res s = Some (Some l, s')"
  shows "appended (le_device env) h bd stm s l s'"
    and "lm_memInfoHistory (cx_launch s' (le_device env)) =
      lm_memInfoHistory (cx_launch s (le_device env)) @ [lm_memInfo (cx_launch s' (le_device env))]"
proof -
  let ?d = "le_device env"
  obtain l1 t where c: "CreateLaunch (le_selector env) ?d h bd stm cfg
    (case fst res of None \<Rightarrow> None | Some c \<Rightarrow> Some k) (s\<lparr>cx_args := snd res\<rparr>) = (l1, t)" by (meson surj_pair)
  define u where "u = (case du of
    Some n \<Rightarrow> if IsSanitizer (le_selector env) then on_launches ?d (SetSimtUbDynamicSize n) t else t | None \<Rightarrow> t)"
  have u: "lm_contexts (cx_launch u e) = lm_contexts (cx_launch t e)" "e \<noteq> ?d \<Longrightarrow> cx_launch u e = cx_launch t e"
    "lm_memInfoHistory (cx_launch u e) = lm_memInfoHistory (cx_launch t e)" for e
    by (auto simp: u_def SetSimtUbDynamicSize_def split: option.splits)
  have l1: "l1 = Some l" and f: "finish_launch env l u = Some s'"
    using assms c by (auto simp: launch_with_def u_def Let_def split: option.splits)
  note fin = finish_archives [OF f] and cr = create_appends [OF c [unfolded l1]]
  show "appended ?d h bd stm s l s'"
    using cr(1) u fin by (simp add: appended_def GetFunc_def)
  show "lm_memInfoHistory (cx_launch s' ?d) = lm_memInfoHistory (cx_launch s ?d) @ [lm_memInfo (cx_launch s' ?d)]"
    using cr(2) u(3) fin(3) by simp
qed

section \<open>Entry addresses\<close>

lemma symbol_loop_lengths:
  "symbol_loop data symtab strtab tidx js out = Ok sy \<Longrightarrow> length (ks_offsets out) = length (ks_names out) \<Longrightarrow>
   length (ks_offsets sy) = length (ks_names sy)"
proof (induction js arbitrary: out)
  case (Cons j js)
  have "length (ks_offsets (add_symbol n s out)) = length (ks_names (add_symbol n s out))" for n s
    using Cons.prems(2) by (simp add: add_symbol_fields)
  then show ?case using Cons by (auto simp: Let_def split: option.splits if_splits)
qed simp

lemma decoded_lengths: "decoded c \<Longrightarrow> length (rg_kernelOffsets c) = length (rg_kernelSymbolNames c)"
  by (auto simp: decoded_def ScanKernelSymbols_def CollectKernelSymbols_def no_symbols_def
      dest!: symbol_loop_lengths split: elf_result.splits)

lemma find_first:
  "find P [0..<n] = Some i \<longleftrightarrow> i < n \<and> P i \<and> (\<forall>j < i. \<not> P j)"
  by (auto simp: find_Some_iff)

lemma find_none: "find P [0..<n] = None \<longleftrightarrow> (\<forall>j < n. \<not> P j)"
  by (simp add: find_None_iff)

section \<open>Properties\<close>

text \<open>
  C24: After any sequence of lookups, stream bindings, replacements and launches of the six kinds, on any
  devices, launch number \<open>i\<close> of a device has the identifier \<open>i\<close>, its own record in the history of the
  operators' memory, and functions that exist.
\<close>

theorem launches_recorded:
  assumes "(launch_step v)\<^sup>*\<^sup>* cx0 s" and "GetLaunch (cx_launch s d) i = Some l"
  shows "lx_launchId l = i \<and> length (lm_memInfoHistory (cx_launch s d)) = length (lm_contexts (cx_launch s d)) \<and>
    i < length (lm_memInfoHistory (cx_launch s d)) \<and> lx_func l < length (cx_heap s) \<and>
    (\<forall>f. lx_dbiFunc l = Some f \<longrightarrow> f < length (cx_heap s))"
proof -
  have "numbered (length (cx_heap s)) (cx_launch s d)" and a: "archived (cx_launch s d)"
    using aligned_run [OF assms(1) aligned_cx0] by (simp_all add: aligned_def)
  moreover have i: "i < length (lm_contexts (cx_launch s d))" "l = lm_contexts (cx_launch s d) ! i"
    using assms(2) by (auto simp: GetLaunch_def split: if_splits)
  moreover have "map lx_launchId (lm_contexts (cx_launch s d)) ! i = lx_launchId l" using i by simp
  ultimately show ?thesis using nth_mem [OF i(1)] by (auto simp: numbered_def archived_def)
qed

definition ex_contexts :: contexts where
  \<comment> \<open>a binary and one of its functions\<close>
  "ex_contexts = snd (BinaryGetFunction_Post 9 (Some ''k'') True (ACL_SUCCESS, 21)
     (cx0\<lparr>cx_regs := rm0\<lparr>rm_contexts := [(9, ex_context 0 9)]\<rparr>\<rparr>))"

definition ex_launch_env :: launch_env where
  "ex_launch_env = \<lparr>le_selector = init_selector, le_soc = ''Ascend910B1'', le_device = 3, le_needDump = False, le_hmem = (\<lambda>_. 0)\<rparr>"

lemma ex_contexts_eval:
  "ex_contexts = cx0\<lparr>cx_regs := rm0\<lparr>rm_contexts := [(9, ex_context 0 9)]\<rparr>,
     cx_heap := [new_FuncContext Stub (ex_context 0 9) ''k'' 21], cx_funcs := [(21, 0)]\<rparr>"
  by (simp add: ex_contexts_def BinaryGetFunction_Post_def cx0_def CreateFunc_name_def GetRegister_def enter_func_def
      new_StubFuncContext_def new_FuncContext_def GetValidLength_def KERNEL_NAME_MAX_def Let_def code_def sub64_def)

lemma ex_launch:
  "\<exists>s l. InitParam_LaunchKernel ex_launch_env none_vendor 21 8 64 Null 16 5 () (set_binded True 5 ex_contexts) = Some (Some l, s) \<and>
     lx_func l = 0 \<and> lx_isSink l"
  by (simp add: InitParam_LaunchKernel_def known_func_def ex_contexts_eval GetFunc_def set_binded_def GetOrCreateStreamInfo_def
      cx0_def launch_with_def CreateContext_raw_def add_context_def CreateLaunch_def ex_launch_env_def finish_launch_def
      IsOpProf_def IsSanitizer_def selector_Match_def init_selector_def Let_def)

theorem launches_recorded_witness:
  "\<exists>s l. InitParam_LaunchKernel ex_launch_env none_vendor 21 8 64 Null 16 5 () (set_binded True 5 ex_contexts) = Some (Some l, s) \<and>
     lx_isSink l \<and> lx_launchId l = 0 \<and> length (lm_memInfoHistory (cx_launch s 3)) = 1 \<and> lx_func l < length (cx_heap s)"
proof -
  let ?v = "none_vendor :: unit binary_vendor" and ?s1 = "cx0\<lparr>cx_regs := rm0\<lparr>rm_contexts := [(9, ex_context 0 9)]\<rparr>\<rparr>"
  let ?s2 = "set_binded True 5 ex_contexts"
  obtain s l where run: "InitParam_LaunchKernel ex_launch_env none_vendor 21 8 64 Null 16 5 () ?s2 = Some (Some l, s)"
    and sink: "lx_isSink l" using ex_launch by blast
  have st: "launch_step ?v cx0 ?s1" "launch_step ?v ?s1 ex_contexts" "launch_step ?v ex_contexts ?s2"
    unfolding ex_contexts_def by (rule launch_step.intros)+
  have reach: "(launch_step ?v)\<^sup>*\<^sup>* cx0 s"
    by (rule converse_rtranclp_into_rtranclp [OF st(1) converse_rtranclp_into_rtranclp [OF st(2)
          converse_rtranclp_into_rtranclp [OF st(3) r_into_rtranclp [of "launch_step ?v", OF launch_step.Launch [OF run]]]]])
  have "lm_contexts (cx_launch s 3) = [l]"
    using launch_with_appends(1) [of ex_launch_env] run
    by (auto simp: InitParam_LaunchKernel_def known_func_def ex_contexts_eval GetFunc_def set_binded_def
        GetOrCreateStreamInfo_def cx0_def lm0_def ex_launch_env_def appended_def Let_def)
  then have "GetLaunch (cx_launch s 3) 0 = Some l" "length (lm_contexts (cx_launch s 3)) = 1" by (simp_all add: GetLaunch_def)
  then show ?thesis using launches_recorded [OF reach, of 3 0 l] run sink by fastforce
qed

text \<open>
  A launch that is recorded is the last of its device, has the function that was looked up and the
  state of the stream at that moment, and the last entry of the history is the memory that was parsed for it;
  the other devices keep theirs.
\<close>

theorem launch_kernel_recorded:
  assumes "InitParam_LaunchKernelV2 env v h bd ad tg sz cfg stm w s = Some (Some l, s')"
  defines "d \<equiv> le_device env"
  shows "GetLastLaunch (cx_launch s' d) = Some l \<and>
    (\<forall>i < length (lm_contexts (cx_launch s d)). GetLaunch (cx_launch s' d) i = GetLaunch (cx_launch s d) i) \<and>
    last (lm_memInfoHistory (cx_launch s' d)) = lm_memInfo (cx_launch s' d) \<and>
    GetFunc (known_func v h w s) h = Some (lx_func l) \<and>
    lx_isSink l = (case map_of (cx_streams s) stm of None \<Rightarrow> False | Some i \<Rightarrow> sm_binded i) \<and>
    (\<forall>e. e \<noteq> d \<longrightarrow> cx_launch s' e = cx_launch s e)"
proof -
  let ?k = "known_func v h w s"
  have "cx_launch ?k = cx_launch s" "cx_streams ?k = cx_streams s"
    by (auto simp: known_func_def CreateFuncContext_def CreateFunc_name_def enter_func_def Let_def split: option.split prod.split)
  then show ?thesis
    using launch_with_appends [of env h bd stm cfg ad None "CreateContext_raw ad tg sz True (cx_args ?k)" ?k l s'] assms
    by (auto simp: InitParam_LaunchKernelV2_def appended_def GetLastLaunch_def GetLaunch_def Let_def nth_append)
qed

theorem launch_kernel_recorded_witness:
  "\<exists>s l. InitParam_LaunchKernelV2 ex_launch_env none_vendor 21 8 64 Null 16 None 5 () (set_binded True 5 ex_contexts) =
       Some (Some l, s) \<and> GetLastLaunch (cx_launch s 3) = Some l \<and> lx_func l = 0 \<and> lx_isSink l"
proof -
  obtain s l where run: "InitParam_LaunchKernelV2 ex_launch_env none_vendor 21 8 64 Null 16 None 5 () (set_binded True 5 ex_contexts) =
      Some (Some l, s)" and l: "lx_func l = 0" "lx_isSink l"
    using ex_launch by (auto simp: InitParam_LaunchKernelV2_def InitParam_LaunchKernel_def)
  then show ?thesis using launch_kernel_recorded [OF run] by (auto simp: ex_launch_env_def)
qed

text \<open>
  The start of a binary in device memory: the entry of the kernel less the address of the first symbol that
  is the kernel's name, bare or with one of the tails of a mixed kernel. Adding the address again gives the entry.
\<close>

theorem start_pc_of_kernel:
  assumes "decoded (fx_regCtx f)" and "GetStartPC v f w \<noteq> 0"
  defines "c \<equiv> fx_regCtx f" and "P \<equiv> \<lambda>i. symbol_for (fx_kernelName f) (rg_kernelSymbolNames (fx_regCtx f) ! i)"
  shows "(\<exists>i < length (rg_kernelOffsets c). P i \<and> (\<forall>j < i. \<not> P j) \<and>
      (rg_kernelOffsets c ! i < 2 ^ 64 - 1 \<longrightarrow> GetStartPC v f w + rg_kernelOffsets c ! i = GetKernelPC v f w)) \<or>
    (\<forall>i < length (rg_kernelOffsets c). \<not> P i) \<and> GetStartPC v f w = GetKernelPC v f w"
proof -
  have pc: "GetStartPC v f w + GetKernelOffsetByName c (fx_kernelName f) = GetKernelPC v f w"
    using assms(2) by (auto simp: GetStartPC_def FuncContext_GetStartPC_def c_def Let_def split: if_splits)
  note len = decoded_lengths [OF assms(1), folded c_def]
  show ?thesis
  proof (cases "find P [0..<length (rg_kernelOffsets c)]")
    case None
    then have "GetKernelOffsetByName c (fx_kernelName f) = 0"
      using len by (simp add: GetKernelOffsetByName_def P_def c_def [symmetric])
    then show ?thesis using pc None unfolding find_none by simp
  next
    case (Some i)
    then have "GetKernelOffsetByName c (fx_kernelName f) = (if rg_kernelOffsets c ! i = 2 ^ 64 - 1 then 0 else rg_kernelOffsets c ! i)"
      using len by (simp add: GetKernelOffsetByName_def P_def c_def [symmetric])
    then show ?thesis using pc Some unfolding find_first by auto
  qed
qed

definition ex_vendor :: "unit binary_vendor" where
  \<comment> \<open>the entries are at 0x1010\<close>
  "ex_vendor = none_vendor\<lparr>bv_functionAddr := (\<lambda>_ _. (ACL_SUCCESS, 0x1010, 0))\<rparr>"

lemma decoded_ex: "decoded (ex_context i h)"
  using Init_data_ok [OF Init_ex] by (simp add: rg0_def)

theorem start_pc_of_kernel_witness:
  "GetStartPC ex_vendor (new_FuncContext Stub (ex_context 0 9) ''k'' 21) () + 16 = 0x1010"
proof -
  let ?f = "new_FuncContext Stub (ex_context 0 9) ''k'' 21"
  have "decoded (fx_regCtx ?f)" "GetStartPC ex_vendor ?f () \<noteq> 0" "GetKernelPC ex_vendor ?f () = 0x1010"
    using decoded_ex
    by (simp_all add: new_FuncContext_def GetStartPC_def FuncContext_GetStartPC_def GetKernelPC_def FuncContext_GetKernelPC_def
        GetKernelOffsetByName_def ex_vendor_def symbol_for_def ex_context_def ACL_SUCCESS_def)
  then show ?thesis
    using start_pc_of_kernel [of ?f ex_vendor "()"] by (auto simp: new_FuncContext_def ex_context_def symbol_for_def)
qed

text \<open>
  The hook for a function of the AI CPU takes the result of the registration without looking at it: it writes
  through a null pointer exactly when the vendor knows the binary and the registry does not.
\<close>

theorem cpu_func_of_unknown_binary:
  assumes "bin \<noteq> 0" "h \<noteq> 0"
  shows "case RegisterCpuFunc_Post bin (Some name) True True (ACL_SUCCESS, h) s of
      None \<Rightarrow> GetRegister (cx_regs s) bin = None
    | Some (r, s') \<Rightarrow> GetRegister (cx_regs s) bin \<noteq> None \<and> r = ACL_SUCCESS \<and>
        (\<exists>i f. GetFunc s' h = Some i \<and> i < length (cx_heap s') \<and> cx_heap s' ! i = f \<and> fx_isAiCpu f \<and>
           Some (fx_regCtx f) = GetRegister (cx_regs s) bin \<and> (\<forall>v w. GetKernelPC v f w = 0))"
  using assms
  by (auto simp: RegisterCpuFunc_Post_def CreateFunc_name_def enter_func_def new_StubFuncContext_def new_FuncContext_def
      GetFunc_def GetKernelPC_def FuncContext_GetKernelPC_def Let_def split: option.splits)

theorem cpu_func_of_unknown_binary_witness:
  "RegisterCpuFunc_Post 9 (Some ''f'') True True (ACL_SUCCESS, 30) cx0 = None"
proof -
  have "GetRegister (cx_regs cx0) 9 = None" by (simp add: cx0_def rm0_def GetRegister_def)
  then show ?thesis
    using cpu_func_of_unknown_binary [of 9 30 cx0 "''f''"] by (auto split: option.splits)
qed

end
