(* ===== verification/LaunchInit.thy ===== *)
theory LaunchInit
  imports Launches "HOL-Library.Signed_Division"
begin

text \<open>
  Models runtime/inject_helpers/LaunchInitFinalize.h and .cpp, the record buffer that an instrumented
  kernel writes to: \<open>SanitizerLaunchInit\<close> lays it out and puts the heads into device memory,
  \<open>SanitizerLaunchFinalize\<close> fetches the records of each block and sends them to the tool. The structures
  are those of utils/Protocol.h, written as bytes with padding zero. The ratios that divide a block are
  \<open>float\<close> constants: a \<open>float\<close> is a natural number over a power of two, rounded to 24 bits. What
  KernelContext knows of a launch through the older interface is the argument \<open>kernel_view\<close>.
\<close>

section \<open>Single-precision products\<close>

fun bit_count :: "nat \<Rightarrow> nat" where
  "bit_count n = (if n = 0 then 0 else Suc (bit_count (n div 2)))"

declare bit_count.simps [simp del]

definition round24 :: "nat \<Rightarrow> nat" where
  \<comment> \<open>to the nearest number with 24 bits, ties to even\<close>
  "round24 p =
     (let e = bit_count p - 24; q = p div 2 ^ e; r = p mod 2 ^ e in
      (if 2 ^ e < 2 * r \<or> 2 ^ e = 2 * r \<and> odd q then q + 1 else q) * 2 ^ e)"

type_synonym float = "nat \<times> nat"  \<comment> \<open>\<open>(m, k)\<close> is \<open>m / 2 ^ k\<close>\<close>

definition times_float :: "nat \<Rightarrow> float \<Rightarrow> float" where
  \<comment> \<open>an integer times a \<open>float\<close>: the integer is converted first\<close>
  "times_float n = (\<lambda>(m, k). (round24 (round24 n * m), k))"

definition minus_float :: "float \<Rightarrow> float \<Rightarrow> float" where
  "minus_float = (\<lambda>(p, k) (q, j). if j \<le> k then (round24 (p - q * 2 ^ (k - j)), k) else (round24 (p * 2 ^ (j - k) - q), j))"

definition trunc_float :: "float \<Rightarrow> nat" where
  "trunc_float = (\<lambda>(p, k). p div 2 ^ k)"

definition SIMT_CACHE_SIZE_RATIO :: float where
  \<comment> \<open>0.1\<close>
  "SIMT_CACHE_SIZE_RATIO = (13421773, 27)"

definition SHADOW_MEM_CACHE_SIZE_RATIO :: float where
  \<comment> \<open>0.3\<close>
  "SHADOW_MEM_CACHE_SIZE_RATIO = (5033165, 24)"

definition SIMT_ENTRY_CACHE_SIZE_RATIO :: float where
  "SIMT_ENTRY_CACHE_SIZE_RATIO = (5033165, 24)"

section \<open>Structures of the protocol\<close>

definition MB_TO_BYTES :: nat where "MB_TO_BYTES = 1024 * 1024"
definition CACHE_LINE_SIZE :: nat where "CACHE_LINE_SIZE = 64"
definition SIMT_THREAD_MAX_SIZE :: nat where "SIMT_THREAD_MAX_SIZE = 2048"
definition SHADOW_MEM_MIN_BYTE_SIZE :: nat where "SHADOW_MEM_MIN_BYTE_SIZE = 12 * 1024 * 1024"
definition MAX_BLOCKDIM_NUMS :: nat where "MAX_BLOCKDIM_NUMS = 100"
definition CHECK_ALL_BLOCK :: int where "CHECK_ALL_BLOCK = -1"
definition ILLEGAL_ADDR :: nat where "ILLEGAL_ADDR = 0xFFFFFFFFFFFFFFFF"
definition MAX_AICORE_NUM :: nat where "MAX_AICORE_NUM = 108"
definition sizeof_Register :: nat where "sizeof_Register = 512"
definition sizeof_RecordGlobalHead :: nat where "sizeof_RecordGlobalHead = 128 + MAX_AICORE_NUM * sizeof_Register"
definition sizeof_RecordBlockHead :: nat where "sizeof_RecordBlockHead = 192"
definition sizeof_SimtRecordBlockHead :: nat where "sizeof_SimtRecordBlockHead = 832"
definition sizeof_HostMemoryInfo :: nat where "sizeof_HostMemoryInfo = 24"
definition sizeof_PeerMemoryInfo :: nat where "sizeof_PeerMemoryInfo = 24"
definition sizeof_ShadowMemoryHeapHead :: nat where "sizeof_ShadowMemoryHeapHead = 64"

lemmas protocol_sizes =
  MB_TO_BYTES_def CACHE_LINE_SIZE_def SIMT_THREAD_MAX_SIZE_def SHADOW_MEM_MIN_BYTE_SIZE_def
  MAX_AICORE_NUM_def sizeof_Register_def sizeof_RecordGlobalHead_def sizeof_RecordBlockHead_def
  sizeof_SimtRecordBlockHead_def sizeof_HostMemoryInfo_def sizeof_PeerMemoryInfo_def sizeof_ShadowMemoryHeapHead_def

record SanitizerConfig =
  sc_defaultCheck :: bool
  sc_memCheck :: bool
  sc_raceCheck :: bool
  sc_initCheck :: bool
  sc_syncCheck :: bool
  sc_registerCheck :: bool
  sc_checkDcci :: bool
  sc_outOfBoundCheck :: bool
  sc_checkBlockId :: int
  sc_cacheSize :: nat
  sc_kernelName :: string
  sc_gmBufferGuardSize :: nat

record CheckParmsInfo =
  cp_cacheSize :: nat
  cp_checkBlockId :: int
  cp_defaultcheck :: bool
  cp_memcheck :: bool
  cp_outOfBoundCheck :: bool
  cp_racecheck :: bool
  cp_initcheck :: bool
  cp_synccheck :: bool
  cp_registerCheck :: bool
  cp_dcciCheck :: bool
  cp_gmBufferGuardSize :: nat

record KernelInfo =
  ki_totalBlockDim :: nat
  ki_totalCacheSize :: nat
  ki_kernelParamNum :: nat
  ki_kernelType :: KernelType
  ki_l2CacheOffset :: nat

record OffsetInfo =
  oi_offset :: nat
  oi_size :: nat

record ProtocolOffsetInfo =
  po_simtErrorInfo :: OffsetInfo
  po_shadowMemoryInfo :: OffsetInfo
  po_simtEntryInfo :: OffsetInfo
  po_blockHeadSize :: nat

record RecordGlobalHead =
  gh_checkParms :: CheckParmsInfo
  gh_kernelInfo :: KernelInfo
  gh_offsetInfo :: ProtocolOffsetInfo
  gh_ubDynamicSize :: nat
  gh_supportSimt :: bool
  gh_registers :: bytes

definition no_region :: OffsetInfo where
  "no_region = \<lparr>oi_offset = 0, oi_size = 0\<rparr>"

definition pad :: "nat \<Rightarrow> bytes" where "pad n = replicate n 0"
definition bool_byte :: "bool \<Rightarrow> bytes" where "bool_byte b = [if b then 1 else 0]"

definition kernel_type_code :: "KernelType \<Rightarrow> nat" where
  "kernel_type_code k = (case k of AICPU \<Rightarrow> 0 | AIVEC \<Rightarrow> 1 | AICUBE \<Rightarrow> 2 | MIX \<Rightarrow> 3 | INVALID \<Rightarrow> 4)"

definition enc_checkParms :: "CheckParmsInfo \<Rightarrow> bytes" where
  "enc_checkParms c =
     le_bytes 4 (cp_cacheSize c) @ le_bytes 2 (nat (cp_checkBlockId c mod 2 ^ 16)) @
     concat (map bool_byte [cp_defaultcheck c, cp_memcheck c, cp_outOfBoundCheck c, cp_racecheck c, cp_initcheck c,
       cp_synccheck c, cp_registerCheck c, cp_dcciCheck c]) @ pad 2 @ le_bytes 4 (cp_gmBufferGuardSize c)"

definition enc_kernelInfo :: "KernelInfo \<Rightarrow> bytes" where
  "enc_kernelInfo k =
     le_bytes 8 (ki_totalBlockDim k) @ le_bytes 8 (ki_totalCacheSize k) @ le_bytes 4 (ki_kernelParamNum k) @
     le_bytes 1 (kernel_type_code (ki_kernelType k)) @ pad 3 @ le_bytes 8 (ki_l2CacheOffset k)"

definition enc_offset :: "OffsetInfo \<Rightarrow> bytes" where
  "enc_offset r = le_bytes 8 (oi_offset r) @ le_bytes 8 (oi_size r)"

definition enc_offsetInfo :: "ProtocolOffsetInfo \<Rightarrow> bytes" where
  "enc_offsetInfo p =
     enc_offset (po_simtErrorInfo p) @ enc_offset (po_shadowMemoryInfo p) @ enc_offset (po_simtEntryInfo p) @
     le_bytes 4 (po_blockHeadSize p) @ pad 4"

definition enc_global :: "RecordGlobalHead \<Rightarrow> bytes" where
  "enc_global g =
     le_bytes 8 0x5a5a5a5a5a5a5a5a @ enc_checkParms (gh_checkParms g) @ pad 4 @ enc_kernelInfo (gh_kernelInfo g) @
     enc_offsetInfo (gh_offsetInfo g) @ le_bytes 4 (gh_ubDynamicSize g) @ bool_byte (gh_supportSimt g) @ pad 3 @
     gh_registers g"

record RecordBlockHead =
  bh_hostMemoryNum :: nat
  bh_hostMemoryInfoPtr :: ptr
  bh_paraBaseSize :: nat
  bh_peerMemoryNum :: nat
  bh_peerMemoryInfoPtr :: ptr

definition enc_block :: "RecordBlockHead \<Rightarrow> bytes" where
  \<comment> \<open>the counters of the records and \<open>BlockInfo\<close> are zero, the parameter base has no address yet\<close>
  "enc_block b =
     pad 96 @ le_bytes 4 (bh_hostMemoryNum b) @ pad 4 @ le_bytes 8 (bh_hostMemoryInfoPtr b) @ pad 8 @
     le_bytes 8 ILLEGAL_ADDR @ le_bytes 8 (bh_paraBaseSize b) @ le_bytes 4 (bh_peerMemoryNum b) @ pad 4 @
     le_bytes 8 (bh_peerMemoryInfoPtr b) @ pad 40"

definition enc_host :: "HostMemoryInfo \<Rightarrow> bytes" where
  "enc_host h = le_bytes 8 (hm_addr h) @ le_bytes 8 (hm_size h) @ le_bytes 4 (hm_permission h) @ pad 4"

definition enc_peer :: "PeerMemoryInfo \<Rightarrow> bytes" where
  "enc_peer p =
     le_bytes 8 (pm_addr p) @ le_bytes 8 (pm_size p) @ le_bytes 4 (pm_permission p) @
     le_bytes 4 (nat (pm_deviceId p mod 2 ^ 32))"

section \<open>Chips and blocks\<close>

definition ASCEND_910B_START :: nat where "ASCEND_910B_START = 1"
definition ASCEND_910B_END :: nat where "ASCEND_910B_END = 6"
definition ASCEND_950_START :: nat where "ASCEND_950_START = 10"
definition ASCEND_950_END :: nat where "ASCEND_950_END = 43"

definition IsC220Arch :: "nat \<Rightarrow> bool" where
  "IsC220Arch deviceType \<longleftrightarrow> deviceType > ASCEND_910B_START \<and> deviceType < ASCEND_910B_END"

definition IsC310Arch :: "nat \<Rightarrow> bool" where
  "IsC310Arch deviceType \<longleftrightarrow> deviceType > ASCEND_950_START \<and> deviceType < ASCEND_950_END"

definition HasSubBlocks :: "nat \<Rightarrow> bool" where
  "HasSubBlocks deviceType \<longleftrightarrow> IsC220Arch deviceType \<or> IsC310Arch deviceType"

definition SupportSimt :: "nat \<Rightarrow> bool" where
  "SupportSimt deviceType \<longleftrightarrow> IsC310Arch deviceType"

definition IsSimtLaunchCallStack :: "layers \<Rightarrow> bool" where
  "IsSimtLaunchCallStack ls \<longleftrightarrow>
     InCallStack ls ''aclrtLaunchSIMTKernelWithHostArgsImpl'' \<or> InCallStack ls ''aclrtLaunchSIMTKernelWithArgsArrayImpl''"

definition InAclNewLaunchCallStack :: "layers \<Rightarrow> bool" where
  "InAclNewLaunchCallStack ls \<longleftrightarrow>
     list_ex (InCallStack ls)
       [''aclrtLaunchKernelImpl'', ''aclrtLaunchKernelV2Impl'', ''aclrtLaunchKernelWithConfigImpl'',
        ''aclrtLaunchKernelWithHostArgsImpl'', ''aclrtLaunchKernelWithArgsArrayImpl'',
        ''aclrtLaunchSIMTKernelWithHostArgsImpl'', ''aclrtLaunchSIMTKernelWithArgsArrayImpl'']"

definition GetAllThreadSize :: "RecordGlobalHead \<Rightarrow> nat" where
  "GetAllThreadSize g =
     (oi_size (po_simtErrorInfo (gh_offsetInfo g)) + sizeof_SimtRecordBlockHead) * SIMT_THREAD_MAX_SIZE"

definition GetRecordHeadSize :: "nat \<Rightarrow> nat \<Rightarrow> nat" where
  "GetRecordHeadSize hostMemoryNum peerMemoryNum =
     CeilByAlignSize64 CACHE_LINE_SIZE
       (sizeof_RecordBlockHead + hostMemoryNum * sizeof_HostMemoryInfo + peerMemoryNum * sizeof_PeerMemoryInfo)"

definition C220_VEC_SUB_BLOCKDIM :: nat where "C220_VEC_SUB_BLOCKDIM = 2"
definition C220_MIX_SUB_BLOCKDIM :: nat where "C220_MIX_SUB_BLOCKDIM = 3"
definition MAX_RECORD_BUF_SIZE_EACH_BLOCK :: nat where "MAX_RECORD_BUF_SIZE_EACH_BLOCK = 8 * 1024"
definition MAX_RECORD_BUF_SIZE_ALL_BLOCK :: nat where "MAX_RECORD_BUF_SIZE_ALL_BLOCK = 24 * 1024"
definition SINGLE_CHECK_OTHER_BLOCK_CACHE_SIZE :: nat where "SINGLE_CHECK_OTHER_BLOCK_CACHE_SIZE = 1"

definition AssignMemSize :: "RecordGlobalHead \<Rightarrow> nat \<Rightarrow> nat \<Rightarrow> bool \<times> RecordGlobalHead" where
  \<comment> \<open>\<open>blockDim\<close> is between 1 and 100, so nothing wraps\<close>
  "AssignMemSize head blockDim deviceType =
     (let single = cp_cacheSize (gh_checkParms head); all = (cp_checkBlockId (gh_checkParms head) = CHECK_ALL_BLOCK);
          total = (if HasSubBlocks deviceType then C220_MIX_SUB_BLOCKDIM * blockDim else blockDim);
          cache = (if all then single * total
                   else if HasSubBlocks deviceType then single * 2 + SINGLE_CHECK_OTHER_BLOCK_CACHE_SIZE * (total - 2)
                   else single + SINGLE_CHECK_OTHER_BLOCK_CACHE_SIZE * (total - 1));
          head = head\<lparr>gh_kernelInfo := (gh_kernelInfo head)\<lparr>ki_totalBlockDim := total, ki_totalCacheSize := cache\<rparr>\<rparr> in
      (\<not> (single = 0 \<or> single > MAX_RECORD_BUF_SIZE_EACH_BLOCK \<or> cache > MAX_RECORD_BUF_SIZE_ALL_BLOCK), head))"

definition IsTargetBlockIdx :: "string \<Rightarrow> int \<Rightarrow> nat \<Rightarrow> bool" where
  \<comment> \<open>the quotient and the remainder of a negative number truncate, and the sums are converted to \<open>uint64_t\<close>\<close>
  "IsTargetBlockIdx soc checkBlockId blockIdx =
     (if HasSubBlocks (GetDeviceTypeBySocVersion soc) then
        int blockIdx = (checkBlockId sdiv 2 * 3 + checkBlockId smod 2) mod 2 ^ 64 \<or>
        int blockIdx = (checkBlockId * 3 + 2) mod 2 ^ 64
      else int blockIdx = checkBlockId mod 2 ^ 64)"

definition GetBlockSize :: "string \<Rightarrow> RecordGlobalHead \<Rightarrow> nat \<Rightarrow> nat" where
  "GetBlockSize soc g blockIdx =
     (let c = gh_checkParms g in
      po_blockHeadSize (gh_offsetInfo g) +
      (if cp_checkBlockId c = CHECK_ALL_BLOCK \<or> IsTargetBlockIdx soc (cp_checkBlockId c) blockIdx then cp_cacheSize c
       else SINGLE_CHECK_OTHER_BLOCK_CACHE_SIZE) * MB_TO_BYTES)"

section \<open>The state of a launch\<close>

record kernel_view =
  \<comment> \<open>what KernelContext has for the launch under way: the magic number and the kernels of its binary, its name\<close>
  kv_registerEvent :: "(nat \<times> string list) option"
  kv_launchName :: "string option"
  kv_paramNum :: nat
  kv_memInfo :: OpMemInfo
  kv_argsSize :: nat
  kv_ubDynamicSize :: nat

record 'w init_env =
  ie_layers :: layers
  ie_soc :: string
  ie_device :: int
  ie_config :: SanitizerConfig
  ie_peers :: "PeerMemoryInfo list"
  ie_contexts :: contexts
  ie_kernel :: kernel_view
  ie_vendor :: "'w binary_vendor"
  ie_l2Offset :: "int \<Rightarrow> 'w \<Rightarrow> int \<times> nat"

record 'w record_state =
  rd_dev :: DevMemManager
  rd_registers :: bytes  \<comment> \<open>\<open>SanitizerLaunchGlobalData\<close>\<close>
  rd_reports :: report_state
  rd_blocks :: "(bytes \<times> bool) list"  \<comment> \<open>the kernel records that are sent, and whether an answer is awaited\<close>
  rd_world :: 'w

definition GetKernelType_events :: "nat \<Rightarrow> string list \<Rightarrow> string \<Rightarrow> KernelType" where
  "GetKernelType_events magic kernelNames launchName =
     (let kernelType = MagicToKernelType magic in
      if kernelType \<noteq> MIX then kernelType
      else
        let kernelName = RemoveSuffix launchName [MIX_AIC_TAIL, MIX_AIV_TAIL];
            aic = kernelName @ MIX_AIC_TAIL \<in> set kernelNames; aiv = kernelName @ MIX_AIV_TAIL \<in> set kernelNames in
        if \<not> aiv then AICUBE else if \<not> aic then AIVEC else MIX)"

definition GetCurrentKernelType :: "kernel_view \<Rightarrow> KernelType" where
  "GetCurrentKernelType k =
     (case (kv_registerEvent k, kv_launchName k) of
        (Some (magic, names), Some name) \<Rightarrow> GetKernelType_events magic names name
      | _ \<Rightarrow> AICPU)"

record SanitizerLaunchInit =
  si_blockDim :: nat
  si_hostMemoryNum :: nat
  si_peerMemories :: "PeerMemoryInfo list"
  si_globalHead :: RecordGlobalHead
  si_kernelType :: KernelType

definition InitKernelType :: "'w init_env \<Rightarrow> 'w \<Rightarrow> KernelType" where
  "InitKernelType env w =
     (if InAclNewLaunchCallStack (ie_layers env) then
        (case GetLastLaunch (cx_launch (ie_contexts env) (ie_device env)) of
           None \<Rightarrow> INVALID
         | Some l \<Rightarrow> GetKernelType (ie_vendor env) (cx_heap (ie_contexts env) ! lx_func l) w)
      else GetCurrentKernelType (ie_kernel env))"

definition gh0 :: RecordGlobalHead where
  "gh0 = \<lparr>gh_checkParms =
      \<lparr>cp_cacheSize = 100, cp_checkBlockId = CHECK_ALL_BLOCK, cp_defaultcheck = False, cp_memcheck = False,
       cp_outOfBoundCheck = False, cp_racecheck = False, cp_initcheck = False, cp_synccheck = False, cp_registerCheck = False,
       cp_dcciCheck = False, cp_gmBufferGuardSize = GM_BUFFER_GUARD_DFT_SIZE\<rparr>,
     gh_kernelInfo = \<lparr>ki_totalBlockDim = 0, ki_totalCacheSize = 0, ki_kernelParamNum = 0, ki_kernelType = AICPU, ki_l2CacheOffset = 0\<rparr>,
     gh_offsetInfo = \<lparr>po_simtErrorInfo = no_region, po_shadowMemoryInfo = no_region, po_simtEntryInfo = no_region,
       po_blockHeadSize = 0\<rparr>,
     gh_ubDynamicSize = 0, gh_supportSimt = False, gh_registers = pad (MAX_AICORE_NUM * sizeof_Register)\<rparr>"

definition SanitizerLaunchInit_Init :: "'w init_env \<Rightarrow> nat \<Rightarrow> 'w record_state \<Rightarrow> SanitizerLaunchInit" where
  "SanitizerLaunchInit_Init env blockDim s =
     \<lparr>si_blockDim = blockDim, si_hostMemoryNum = GetMallocCount (rs_mm (rd_reports s)), si_peerMemories = ie_peers env,
      si_globalHead = gh0, si_kernelType = InitKernelType env (rd_world s)\<rparr>"

section \<open>The layout of a block\<close>

definition simt_bytes :: "nat \<Rightarrow> nat" where
  \<comment> \<open>\<open>cacheByteSize * SIMT_CACHE_SIZE_RATIO / SIMT_THREAD_MAX_SIZE\<close>: the division by a power of two is exact\<close>
  "simt_bytes cache = (let (p, k) = times_float cache SIMT_CACHE_SIZE_RATIO in trunc_float (p, k + 11))"

definition rest_ratio :: float where
  "rest_ratio =
     minus_float (minus_float (minus_float (1, 0) SIMT_CACHE_SIZE_RATIO) SHADOW_MEM_CACHE_SIZE_RATIO) SIMT_ENTRY_CACHE_SIZE_RATIO"

definition AssignSimtVfInfo :: "nat \<Rightarrow> RecordGlobalHead \<Rightarrow> RecordGlobalHead" where
  \<comment> \<open>the dynamic size that the launch has\<close>
  "AssignSimtVfInfo ubDynamicSize g =
     (let o1 = gh_offsetInfo g; cache = cp_cacheSize (gh_checkParms g) * MB_TO_BYTES; head = po_blockHeadSize o1;
          simtInstrSize = simt_bytes cache in
      if simtInstrSize < sizeof_SimtRecordBlockHead then g
      else
        let g = g\<lparr>gh_ubDynamicSize := CeilByAlignSize32 128 ubDynamicSize\<rparr>;
            err = \<lparr>oi_offset = AlignDownSize CACHE_LINE_SIZE (trunc_float (times_float cache rest_ratio)) + head,
                   oi_size = AlignDownSize CACHE_LINE_SIZE (simtInstrSize - sizeof_SimtRecordBlockHead)\<rparr>;
            allThread = (oi_size err + sizeof_SimtRecordBlockHead) * SIMT_THREAD_MAX_SIZE;
            shadowMemorySize = trunc_float (times_float cache SHADOW_MEM_CACHE_SIZE_RATIO);
            shadow = (if shadowMemorySize < SHADOW_MEM_MIN_BYTE_SIZE then no_region
                      else \<lparr>oi_offset = AlignDownSize CACHE_LINE_SIZE (oi_offset err + allThread) + CACHE_LINE_SIZE,
                            oi_size = shadowMemorySize\<rparr>);
            entryOffset = AlignDownSize CACHE_LINE_SIZE (oi_offset shadow + oi_size shadow) + CACHE_LINE_SIZE;
            entrySize = sub64 (trunc_float (times_float cache SIMT_ENTRY_CACHE_SIZE_RATIO)) CACHE_LINE_SIZE;
            entrySize = (if wrap64 (entrySize + entryOffset) \<ge> cache + head
                         then sub64 (sub64 (cache + head) entryOffset) CACHE_LINE_SIZE else entrySize) in
        g\<lparr>gh_offsetInfo := o1\<lparr>po_simtErrorInfo := err, po_shadowMemoryInfo := shadow,
             po_simtEntryInfo := \<lparr>oi_offset = entryOffset, oi_size = entrySize\<rparr>\<rparr>\<rparr>)"

definition check_parms :: "SanitizerConfig \<Rightarrow> CheckParmsInfo" where
  "check_parms c =
     \<lparr>cp_cacheSize = sc_cacheSize c, cp_checkBlockId = sc_checkBlockId c, cp_defaultcheck = sc_defaultCheck c,
      cp_memcheck = sc_memCheck c, cp_outOfBoundCheck = sc_outOfBoundCheck c, cp_racecheck = sc_raceCheck c,
      cp_initcheck = sc_initCheck c, cp_synccheck = sc_syncCheck c, cp_registerCheck = sc_registerCheck c,
      cp_dcciCheck = sc_checkDcci c, cp_gmBufferGuardSize = sc_gmBufferGuardSize c\<rparr>"

definition launch_ubDynamicSize :: "'w init_env \<Rightarrow> nat" where
  "launch_ubDynamicSize env =
     (if InAclNewLaunchCallStack (ie_layers env)
      then lm_simtUbDynamicSize (cx_launch (ie_contexts env) (ie_device env)) else kv_ubDynamicSize (ie_kernel env))"

definition assigned_head :: "'w init_env \<Rightarrow> SanitizerLaunchInit \<Rightarrow> bytes \<Rightarrow> nat \<Rightarrow> nat \<Rightarrow> RecordGlobalHead" where
  \<comment> \<open>the head with the registers, the offset of the L2 cache and the size of the block heads\<close>
  "assigned_head env si registers l2 headSize =
     (let g = (si_globalHead si)\<lparr>gh_registers := registers, gh_checkParms := check_parms (ie_config env),
                gh_kernelInfo := (gh_kernelInfo (si_globalHead si))\<lparr>ki_l2CacheOffset := l2, ki_kernelType := si_kernelType si,
                  ki_kernelParamNum := kv_paramNum (ie_kernel env)\<rparr>,
                gh_supportSimt := SupportSimt (GetDeviceTypeBySocVersion (ie_soc env)),
                gh_offsetInfo := (gh_offsetInfo (si_globalHead si))\<lparr>po_blockHeadSize := headSize\<rparr>\<rparr> in
      if gh_supportSimt g then AssignSimtVfInfo (launch_ubDynamicSize env) g else g)"

definition AssignGlobalHead ::
  "'w acl_api \<Rightarrow> 'w init_env \<Rightarrow> SanitizerLaunchInit \<Rightarrow> 'w record_state \<Rightarrow> bool \<times> SanitizerLaunchInit \<times> 'w record_state"
where
  "AssignGlobalHead api env si s =
     (let ((err, registers), w) = api_copyHost api (rd_registers s) (rd_world s); s = s\<lparr>rd_world := w\<rparr> in
      if err \<noteq> ACL_SUCCESS then (False, si, s)
      else
        let deviceType = GetDeviceTypeBySocVersion (ie_soc env);
            (e, l2) = (if IsC220Arch deviceType then ie_l2Offset env (ie_device env) w else (0, 0)) in
        if e \<noteq> 0 then (False, si, s)
        else if length (si_peerMemories si) > 2 ^ 32 - 1 then (False, si, s)
        else
          let headSize = GetRecordHeadSize (si_hostMemoryNum si) (length (si_peerMemories si)) in
          if headSize > 2 ^ 32 - 1 then (False, si, s)
          else
            let (ok, g) = AssignMemSize (assigned_head env si registers l2 headSize) (si_blockDim si) deviceType in
            (ok, si\<lparr>si_globalHead := g\<rparr>, s))"

section \<open>Heads in device memory\<close>

definition CopyExtraMallocToHostMemory :: "HostMemoryInfo list \<Rightarrow> OpMemInfo \<Rightarrow> HostMemoryInfo list" where
  \<comment> \<open>the sizes of the tensors and of the tiling data go to the entries behind the recorded ranges\<close>
  "CopyExtraMallocToHostMemory hostMems m =
     (let extraIndex = length (takeWhile (\<lambda>h. \<not> (hm_addr h = 0 \<and> hm_size h = 0)) hostMems);
          lengths = map ai_length (om_inputParamsAddrInfos m) @ (if om_tilingDataSize m > 0 then [om_tilingDataSize m] else []) in
      foldl (\<lambda>hs (i, n). if extraIndex + i < length hs
                 then hs[extraIndex + i := (hs ! (extraIndex + i))\<lparr>hm_size := n\<rparr>] else hs)
        hostMems (enumerate 0 lengths))"

definition on_world :: "('w \<Rightarrow> 'a \<times> 'w) \<Rightarrow> 'w record_state \<Rightarrow> 'a \<times> 'w record_state" where
  "on_world f s = (let (r, w) = f (rd_world s) in (r, s\<lparr>rd_world := w\<rparr>))"

definition HostMallocH2D ::
  "'w acl_api \<Rightarrow> 'w init_env \<Rightarrow> SanitizerLaunchInit \<Rightarrow> ptr \<Rightarrow> 'w record_state \<Rightarrow> bool \<times> 'w record_state"
where
  "HostMallocH2D api env si memInfo s =
     (if \<not> gh_supportSimt (si_globalHead si) then (True, s)
      else
        let hostMems = CopyExtraMallocToHostMemory (MergeHostMems (rs_mm (rd_reports s))) (kv_memInfo (ie_kernel env));
            (e, s) = (if hostMems \<noteq> []
              then on_world (api_write api (memInfo + sizeof_RecordBlockHead) (concat (map enc_host hostMems))) s else (0, s)) in
        if e \<noteq> ACL_SUCCESS then (False, s)
        else
          let (e, s) = (if si_peerMemories si \<noteq> []
              then on_world (api_write api (memInfo + sizeof_RecordBlockHead + si_hostMemoryNum si * sizeof_HostMemoryInfo)
                     (concat (map enc_peer (si_peerMemories si)))) s else (0, s)) in
          (e = ACL_SUCCESS, s))"

definition enc_heap :: "ptr \<Rightarrow> nat \<Rightarrow> bytes" where
  \<comment> \<open>\<open>ShadowMemoryHeapHead\<close> of the region: the first level of the table is allocated in advance\<close>
  "enc_heap p n =
     (let startAddr = p + sizeof_ShadowMemoryHeapHead;
          sz = (if n > sizeof_ShadowMemoryHeapHead then n - sizeof_ShadowMemoryHeapHead else 0);
          current = startAddr + (0xFFFFFFFFFFFF + 0xFFFFFFFF - 1) div 0xFFFFFFFF * 8 in
      le_bytes 8 startAddr @ le_bytes 8 sz @ le_bytes 8 current @ le_bytes 8 0 @ pad 32)"

definition InitSimtShadowMemoryHead :: "'w acl_api \<Rightarrow> RecordGlobalHead \<Rightarrow> ptr \<Rightarrow> 'w record_state \<Rightarrow> bool \<times> 'w record_state" where
  "InitSimtShadowMemoryHead api g memInfo s =
     (let r = po_shadowMemoryInfo (gh_offsetInfo g); p = memInfo + oi_offset r;
          (e, s) = on_world (api_memset api p (oi_size r) 0 (oi_size r)) s in
      if e \<noteq> ACL_SUCCESS then (False, s)
      else let (e, s) = on_world (api_write api p (enc_heap p (oi_size r))) s in (e = ACL_SUCCESS, s))"

definition SimtBlockHeadsH2D ::
  "'w acl_api \<Rightarrow> string \<Rightarrow> RecordGlobalHead \<Rightarrow> ptr \<Rightarrow> nat \<Rightarrow> 'w record_state \<Rightarrow> bool \<times> 'w record_state"
where
  "SimtBlockHeadsH2D api soc g memInfo blockIdx s =
     (if \<not> gh_supportSimt g then (True, s)
      else
        let checkBlockId = cp_checkBlockId (gh_checkParms g) in
        if checkBlockId = CHECK_ALL_BLOCK \<or> IsTargetBlockIdx soc checkBlockId blockIdx then
          let n = GetAllThreadSize g;
              (e, s) = on_world (api_memset api (memInfo + oi_offset (po_simtErrorInfo (gh_offsetInfo g))) n 0 n) s in
          if e \<noteq> ACL_SUCCESS then (False, s)
          else if oi_size (po_shadowMemoryInfo (gh_offsetInfo g)) = 0 then (True, s)
          else InitSimtShadowMemoryHead api g memInfo s
        else (True, s))"

definition block_head :: "'w init_env \<Rightarrow> SanitizerLaunchInit \<Rightarrow> ptr \<Rightarrow> RecordBlockHead" where
  "block_head env si memInfo =
     (let n = si_hostMemoryNum si; k = length (si_peerMemories si) in
      \<lparr>bh_hostMemoryNum = n, bh_hostMemoryInfoPtr = (if n > 0 then memInfo + sizeof_RecordBlockHead else 0),
       bh_paraBaseSize = (if InAclNewLaunchCallStack (ie_layers env) then am_argsSize (cx_args (ie_contexts env))
                          else kv_argsSize (ie_kernel env)),
       bh_peerMemoryNum = k,
       bh_peerMemoryInfoPtr = (if k > 0 then memInfo + sizeof_RecordBlockHead + n * sizeof_HostMemoryInfo else 0)\<rparr>)"

definition init_block ::
  "'w acl_api \<Rightarrow> 'w init_env \<Rightarrow> SanitizerLaunchInit \<Rightarrow> ptr \<Rightarrow> nat \<Rightarrow> 'w record_state \<Rightarrow> bool \<times> 'w record_state"
where
  \<comment> \<open>the body of the loop over the blocks\<close>
  "init_block api env si memInfo blockIdx s =
     (let (e, s) = on_world (api_write api memInfo (enc_block (block_head env si memInfo))) s in
      if e \<noteq> ACL_SUCCESS then (False, s)
      else
        let (ok, s) = HostMallocH2D api env si memInfo s in
        if \<not> ok then (False, s) else SimtBlockHeadsH2D api (ie_soc env) (si_globalHead si) memInfo blockIdx s)"

fun init_blocks ::
  "'w acl_api \<Rightarrow> 'w init_env \<Rightarrow> SanitizerLaunchInit \<Rightarrow> ptr \<Rightarrow> nat list \<Rightarrow> 'w record_state \<Rightarrow> bool \<times> 'w record_state"
where
  "init_blocks api env si memInfo [] s = (True, s)"
| "init_blocks api env si memInfo (i # is) s =
     (let (ok, s) = init_block api env si memInfo i s in
      if \<not> ok then (False, s)
      else init_blocks api env si (memInfo + GetBlockSize (ie_soc env) (si_globalHead si) i) is s)"

definition BlockHeadsH2D ::
  "'w acl_api \<Rightarrow> 'w init_env \<Rightarrow> SanitizerLaunchInit \<Rightarrow> ptr \<Rightarrow> 'w record_state \<Rightarrow> bool \<times> 'w record_state"
where
  "BlockHeadsH2D api env si memInfo s =
     (let (e, s) = on_world (api_write api memInfo (enc_global (si_globalHead si))) s in
      if e \<noteq> ACL_SUCCESS then (False, s)
      else init_blocks api env si (memInfo + sizeof_RecordGlobalHead)
             [0..<ki_totalBlockDim (gh_kernelInfo (si_globalHead si))] s)"

definition on_dev ::
  "(DevMemManager \<Rightarrow> 'w \<Rightarrow> 'a \<times> DevMemManager \<times> 'w) \<Rightarrow> 'w record_state \<Rightarrow> 'a \<times> 'w record_state"
where
  "on_dev f s = (let (r, d, w) = f (rd_dev s) (rd_world s) in (r, s\<lparr>rd_dev := d, rd_world := w\<rparr>))"

definition SkipKernelProcess :: "'w acl_api \<Rightarrow> 'w record_state \<Rightarrow> ptr option \<times> 'w record_state" where
  "SkipKernelProcess api s =
     (let ((e, p), s) = on_dev (MallocMemory api MB_TO_BYTES) s in if e \<noteq> ACL_SUCCESS then (None, s) else (p, s))"

definition record_size :: "RecordGlobalHead \<Rightarrow> nat" where
  \<comment> \<open>\<open>memSize\<close>\<close>
  "record_size g =
     ki_totalCacheSize (gh_kernelInfo g) * MB_TO_BYTES + sizeof_RecordGlobalHead +
     ki_totalBlockDim (gh_kernelInfo g) * po_blockHeadSize (gh_offsetInfo g)"

definition SanitizerLaunchInit_Process ::
  "'w acl_api \<Rightarrow> 'w init_env \<Rightarrow> SanitizerLaunchInit \<Rightarrow> 'w record_state \<Rightarrow> ptr option \<times> 'w record_state"
where
  "SanitizerLaunchInit_Process api env si s =
     (if dm_isSkipKernel (rd_dev s) then SkipKernelProcess api s
      else
        let (ok, si, s) = AssignGlobalHead api env si s in
        if \<not> ok then (None, s)
        else
          let ((e, p), s) = on_dev (MallocMemory api (record_size (si_globalHead si))) s in
          if e \<noteq> ACL_SUCCESS then (None, s)
          else
            let (ok, s) = BlockHeadsH2D api env si (the p) s in
            if \<not> ok then (None, snd (on_dev (\<lambda>d w. ((), dm_Free api d w)) s))
            else if dm_isMemoryInit (rd_dev s) then (p, s)
            else (p, s\<lparr>rd_dev := SetMemoryInitFlag True (rd_dev s)\<rparr>))"

definition CheckBlockDimValid :: "nat \<Rightarrow> bool" where
  "CheckBlockDimValid blockDim = (if blockDim = 0 then False else \<not> blockDim > MAX_BLOCKDIM_NUMS)"

definition sanitizer_init :: "'w acl_api \<Rightarrow> 'w init_env \<Rightarrow> nat \<Rightarrow> 'w record_state \<Rightarrow> ptr option \<times> 'w record_state" where
  "sanitizer_init api env blockDim s =
     (if \<not> CheckBlockDimValid blockDim then (None, s)
      else SanitizerLaunchInit_Process api env (SanitizerLaunchInit_Init env blockDim s) s)"

section \<open>Fetching the records\<close>

record SanitizerLaunchFinalize =
  sf_blockSize :: nat
  sf_blockRemainSize :: nat
  sf_sendMemorySize :: nat
  sf_memInfo :: ptr
  sf_memInfoBackUp :: ptr
  sf_host :: "nat \<Rightarrow> byte"  \<comment> \<open>the buffer \<open>memInfoHostBackUp_\<close>, which both head pointers point into\<close>
  sf_pos :: nat  \<comment> \<open>\<open>memInfoHost_\<close> as an offset\<close>
  sf_blockHead :: nat

definition hfield :: "(nat \<Rightarrow> byte) \<Rightarrow> nat \<Rightarrow> nat \<Rightarrow> nat" where
  "hfield host off n = le_val (map host [off..<off + n])"

definition host_head :: "(nat \<Rightarrow> byte) \<Rightarrow> RecordGlobalHead" where
  \<comment> \<open>\<open>*globalHead_\<close>: the members that are read\<close>
  "host_head host =
     (let id = hfield host 12 2; region = (\<lambda>off. \<lparr>oi_offset = hfield host off 8, oi_size = hfield host (off + 8) 8\<rparr>) in
      gh0\<lparr>gh_checkParms := (gh_checkParms gh0)\<lparr>cp_cacheSize := hfield host 8 4,
            cp_checkBlockId := (if id < 2 ^ 15 then int id else int id - 2 ^ 16)\<rparr>,
          gh_kernelInfo := (gh_kernelInfo gh0)\<lparr>ki_totalBlockDim := hfield host 32 8, ki_totalCacheSize := hfield host 40 8\<rparr>,
          gh_offsetInfo := \<lparr>po_simtErrorInfo = region 64, po_shadowMemoryInfo = region 80, po_simtEntryInfo = region 96,
            po_blockHeadSize = hfield host 112 4\<rparr>,
          gh_supportSimt := hfield host 124 1 \<noteq> 0,
          gh_registers := map host [128..<sizeof_RecordGlobalHead]\<rparr>)"

definition SanitizerLaunchFinalize_Init :: "SanitizerConfig \<Rightarrow> ptr \<Rightarrow> SanitizerLaunchFinalize" where
  \<comment> \<open>the buffer that \<open>Process\<close> allocates is taken to be zero\<close>
  "SanitizerLaunchFinalize_Init config memInfo =
     (let n = sc_cacheSize config * MB_TO_BYTES + sizeof_RecordGlobalHead + sizeof_RecordBlockHead in
      \<lparr>sf_blockSize = n, sf_blockRemainSize = n, sf_sendMemorySize = 0, sf_memInfo = memInfo, sf_memInfoBackUp = memInfo,
       sf_host = (\<lambda>_. 0), sf_pos = 0, sf_blockHead = 0\<rparr>)"

definition UpdateOffsetStatus :: "nat \<Rightarrow> nat \<Rightarrow> SanitizerLaunchFinalize \<Rightarrow> SanitizerLaunchFinalize" where
  "UpdateOffsetStatus offset d2HOffsetDiff f =
     f\<lparr>sf_memInfo := wrap64 (sf_memInfo f + wrap64 (offset + d2HOffsetDiff)), sf_pos := sf_pos f + offset,
       sf_sendMemorySize := sf_sendMemorySize f + offset, sf_blockRemainSize := sub64 (sf_blockRemainSize f) offset\<rparr>"

definition UpdateShadowMemoryOffset :: "SanitizerLaunchFinalize \<Rightarrow> SanitizerLaunchFinalize" where
  \<comment> \<open>has no caller\<close>
  "UpdateShadowMemoryOffset f = UpdateOffsetStatus 0 (oi_size (po_shadowMemoryInfo (gh_offsetInfo (host_head (sf_host f))))) f"

definition ResetOffsetStatus :: "string \<Rightarrow> nat \<Rightarrow> SanitizerLaunchFinalize \<Rightarrow> SanitizerLaunchFinalize" where
  "ResetOffsetStatus soc blockIdx f =
     (let backUp = sf_memInfoBackUp f + GetBlockSize soc (host_head (sf_host f)) blockIdx in
      f\<lparr>sf_memInfoBackUp := backUp, sf_memInfo := backUp, sf_pos := sizeof_RecordGlobalHead,
        sf_blockRemainSize := sf_blockSize f, sf_sendMemorySize := sizeof_RecordGlobalHead\<rparr>)"

definition put_host :: "nat \<Rightarrow> bytes \<Rightarrow> SanitizerLaunchFinalize \<Rightarrow> SanitizerLaunchFinalize" where
  "put_host pos bs f =
     f\<lparr>sf_host := (\<lambda>a. if pos \<le> a \<and> a < pos + length bs then bs ! (a - pos) else sf_host f a)\<rparr>"

definition fetch ::
  "'w acl_api \<Rightarrow> nat \<Rightarrow> nat \<Rightarrow> ptr \<Rightarrow> nat \<Rightarrow> SanitizerLaunchFinalize \<Rightarrow> 'w record_state \<Rightarrow>
   bool \<times> SanitizerLaunchFinalize \<times> 'w record_state"
where
  \<comment> \<open>\<open>aclrtMemcpy\<close> to the buffer, which refuses more than the room that it is told of\<close>
  "fetch api pos destMax src n f s =
     (if n > destMax then (False, f, s)
      else let ((e, bs), s) = on_world (api_read api src n) s in
        if e \<noteq> ACL_SUCCESS then (False, f, s) else (True, put_host pos bs f, s))"

definition then_advance ::
  "nat \<Rightarrow> nat \<Rightarrow> bool \<times> SanitizerLaunchFinalize \<times> 'w record_state \<Rightarrow> bool \<times> SanitizerLaunchFinalize \<times> 'w record_state"
where
  "then_advance offset diff = (\<lambda>(ok, f, s). if ok then (True, UpdateOffsetStatus offset diff f, s) else (False, f, s))"

definition GlobalHeadD2H ::
  "'w acl_api \<Rightarrow> SanitizerLaunchFinalize \<Rightarrow> 'w record_state \<Rightarrow> bool \<times> SanitizerLaunchFinalize \<times> 'w record_state"
where
  "GlobalHeadD2H api f s =
     (let (ok, f, s) = fetch api (sf_pos f) (sf_blockRemainSize f) (sf_memInfo f) sizeof_RecordGlobalHead f s in
      if \<not> ok then (False, f, s)
      else (True, UpdateOffsetStatus sizeof_RecordGlobalHead 0
                    (f\<lparr>sf_memInfoBackUp := sf_memInfoBackUp f + sizeof_RecordGlobalHead\<rparr>), s))"

definition RegistersD2H :: "'w acl_api \<Rightarrow> SanitizerLaunchFinalize \<Rightarrow> 'w record_state \<Rightarrow> bool \<times> 'w record_state" where
  "RegistersD2H api f s =
     (let ((e, registers), s) = on_world (api_copyHost api (gh_registers (host_head (sf_host f)))) s in
      if e \<noteq> ACL_SUCCESS then (False, s) else (True, s\<lparr>rd_registers := registers\<rparr>))"

definition block_field :: "SanitizerLaunchFinalize \<Rightarrow> nat \<Rightarrow> nat \<Rightarrow> nat" where
  \<comment> \<open>a member of \<open>*blockHead_\<close>\<close>
  "block_field f off n = hfield (sf_host f) (sf_blockHead f + off) n"

definition recordCount :: "SanitizerLaunchFinalize \<Rightarrow> nat" where "recordCount f = block_field f 0 8"
definition recordWriteCount :: "SanitizerLaunchFinalize \<Rightarrow> nat" where "recordWriteCount f = block_field f 8 8"
definition record_offset :: "SanitizerLaunchFinalize \<Rightarrow> nat" where "record_offset f = block_field f 16 8"
definition writeOffset :: "SanitizerLaunchFinalize \<Rightarrow> nat" where "writeOffset f = block_field f 24 8"
definition simtEntryUseSize :: "SanitizerLaunchFinalize \<Rightarrow> nat" where "simtEntryUseSize f = block_field f 72 8"
definition paraBase_addr :: "SanitizerLaunchFinalize \<Rightarrow> nat" where "paraBase_addr f = block_field f 120 8"
definition paraBase_size :: "SanitizerLaunchFinalize \<Rightarrow> nat" where "paraBase_size f = block_field f 128 8"

definition BlockHeadD2H ::
  "'w acl_api \<Rightarrow> SanitizerLaunchFinalize \<Rightarrow> 'w record_state \<Rightarrow> bool \<times> SanitizerLaunchFinalize \<times> 'w record_state"
where
  "BlockHeadD2H api f s =
     (let (ok, f, s) = fetch api (sf_pos f) (sf_blockRemainSize f) (sf_memInfo f) sizeof_RecordBlockHead f s in
      if \<not> ok then (False, f, s)
      else (True, UpdateOffsetStatus sizeof_RecordBlockHead
                    (sub64 (po_blockHeadSize (gh_offsetInfo (host_head (sf_host f)))) sizeof_RecordBlockHead)
                    (f\<lparr>sf_blockHead := sf_pos f\<rparr>), s))"

definition SimdRecordD2H ::
  "'w acl_api \<Rightarrow> SanitizerLaunchFinalize \<Rightarrow> 'w record_state \<Rightarrow> bool \<times> SanitizerLaunchFinalize \<times> 'w record_state"
where
  "SimdRecordD2H api f s =
     then_advance (writeOffset f) 0 (fetch api (sf_pos f) (sf_blockRemainSize f) (sf_memInfo f) (writeOffset f) f s)"

definition SimtErrorD2H ::
  "'w acl_api \<Rightarrow> SanitizerLaunchFinalize \<Rightarrow> 'w record_state \<Rightarrow> bool \<times> SanitizerLaunchFinalize \<times> 'w record_state"
where
  "SimtErrorD2H api f s =
     (let g = host_head (sf_host f); n = wrap64 (GetAllThreadSize g) in
      then_advance n 0
        (fetch api (sf_pos f) (sf_blockRemainSize f) (sf_memInfoBackUp f + oi_offset (po_simtErrorInfo (gh_offsetInfo g))) n f s))"

definition SimtEntryD2H ::
  "'w acl_api \<Rightarrow> SanitizerLaunchFinalize \<Rightarrow> 'w record_state \<Rightarrow> bool \<times> SanitizerLaunchFinalize \<times> 'w record_state"
where
  "SimtEntryD2H api f s =
     (let g = host_head (sf_host f); n = simtEntryUseSize f in
      if n = 0 then (True, f, s)
      else then_advance n 0
        (fetch api (sf_pos f) (sf_blockRemainSize f) (sf_memInfoBackUp f + oi_offset (po_simtEntryInfo (gh_offsetInfo g))) n f s))"

definition DumpMemoryInfo ::
  "'w acl_api \<Rightarrow> SanitizerLaunchFinalize \<Rightarrow> 'w record_state \<Rightarrow> SanitizerLaunchFinalize \<times> 'w record_state"
where
  \<comment> \<open>the log of the table that the kernel had; it uses the room of the next block\<close>
  "DumpMemoryInfo api f s =
     (let pos = sf_pos f; (ok, f, s) = fetch api pos (sf_blockRemainSize f) (sf_memInfo f) sizeof_RecordBlockHead f s in
      if \<not> ok then (f, s)
      else if hfield (sf_host f) (pos + 96) 4 = 0 then (f, s)
      else
        let recordHeadSize = po_blockHeadSize (gh_offsetInfo (host_head (sf_host f))) in
        if recordHeadSize > sf_blockRemainSize f then (f, s)
        else
          let (ok, f, s) = fetch api (pos + sizeof_RecordBlockHead) (sub64 (sf_blockRemainSize f) sizeof_RecordBlockHead)
                (sf_memInfo f + sizeof_RecordBlockHead) (sub64 recordHeadSize sizeof_RecordBlockHead) f s in
          (f, s))"

definition report_region :: "nat \<Rightarrow> nat \<Rightarrow> report_state \<Rightarrow> report_state" where
  "report_region a sz r = ReportMemset a sz BYPASS PARA_BASE 0 (ReportMalloc a sz BYPASS PARA_BASE 0 r)"

definition SIMT_IMPLICIT_PARAM_SIZE :: nat where "SIMT_IMPLICIT_PARAM_SIZE = 32"

definition ReportParaBase ::
  "layers \<Rightarrow> SanitizerLaunchFinalize \<Rightarrow> nat option \<Rightarrow> report_state \<Rightarrow> nat option \<times> report_state"
where
  \<comment> \<open>the address that has been reported, \<open>None\<close> before\<close>
  "ReportParaBase ls f para r =
     (let addr = paraBase_addr f; sz = paraBase_size f in
      if para = None \<and> addr \<noteq> ILLEGAL_ADDR \<and> sz \<noteq> 0 then
        let r = (if IsSimtLaunchCallStack ls \<and> addr > SIMT_IMPLICIT_PARAM_SIZE
                 then report_region (addr - SIMT_IMPLICIT_PARAM_SIZE) SIMT_IMPLICIT_PARAM_SIZE r else r) in
        (Some addr, report_region addr sz r)
      else (para, r))"

definition SendKernelBlock :: "bytes \<Rightarrow> nat \<Rightarrow> nat \<Rightarrow> 'w record_state \<Rightarrow> 'w record_state" where
  "SendKernelBlock body curBlkIdx totalBlkIdx s = s\<lparr>rd_blocks := rd_blocks s @ [(body, curBlkIdx + 1 = totalBlkIdx)]\<rparr>"

definition fetch_block ::
  "'w acl_api \<Rightarrow> 'w init_env \<Rightarrow> nat \<Rightarrow> nat option \<Rightarrow> SanitizerLaunchFinalize \<Rightarrow> 'w record_state \<Rightarrow>
   bool \<times> nat option \<times> SanitizerLaunchFinalize \<times> 'w record_state"
where
  \<comment> \<open>the body of the loop up to the report; \<open>False\<close> is a \<open>break\<close>\<close>
  "fetch_block api env blockIdx para f s =
     (let (f, s) = (if gh_supportSimt (host_head (sf_host f)) \<and> blockIdx = 0 then DumpMemoryInfo api f s else (f, s));
          (ok, f, s) = BlockHeadD2H api f s in
      if \<not> ok then (False, para, f, s)
      else
        let (ok, para, f, s) =
          (if record_offset f = 0 \<or> writeOffset f = 0 \<or> recordCount f = 0 \<or> recordWriteCount f = 0 then (True, para, f, s)
           else
             let (para, r) = ReportParaBase (ie_layers env) f para (rd_reports s);
                 (ok, f, s) = SimdRecordD2H api f (s\<lparr>rd_reports := r\<rparr>) in
             (ok, para, f, s)) in
        if \<not> ok then (False, para, f, s)
        else
          let g = host_head (sf_host f); checkBlockId = cp_checkBlockId (gh_checkParms g) in
          if gh_supportSimt g \<and> (checkBlockId = CHECK_ALL_BLOCK \<or> IsTargetBlockIdx (ie_soc env) checkBlockId blockIdx) then
            let (ok, f, s) = SimtErrorD2H api f s in
            if \<not> ok then (False, para, f, s) else let (ok, f, s) = SimtEntryD2H api f s in (ok, para, f, s)
          else (True, para, f, s))"

fun report_blocks ::
  "'w acl_api \<Rightarrow> 'w init_env \<Rightarrow> nat \<Rightarrow> nat list \<Rightarrow> nat option \<Rightarrow> SanitizerLaunchFinalize \<Rightarrow> 'w record_state \<Rightarrow>
   nat option \<times> 'w record_state"
where
  "report_blocks api env n [] para f s = (para, s)"
| "report_blocks api env n (i # is) para f s =
     (let (ok, para, f, s) = fetch_block api env i para f s in
      if \<not> ok then (para, s)
      else
        let body = le_bytes 8 (sf_sendMemorySize f) @ map (sf_host f) [0..<sf_sendMemorySize f] in
        report_blocks api env n is para (ResetOffsetStatus (ie_soc env) i f) (SendKernelBlock body i n s))"

definition free_para_base :: "layers \<Rightarrow> nat option \<Rightarrow> report_state \<Rightarrow> report_state" where
  "free_para_base ls para r =
     (case para of
        None \<Rightarrow> r
      | Some a \<Rightarrow>
          let r = (if IsSimtLaunchCallStack ls \<and> a > SIMT_IMPLICIT_PARAM_SIZE
                   then ReportFree (a - SIMT_IMPLICIT_PARAM_SIZE) BYPASS PARA_BASE 0 r else r) in
          ReportFree a BYPASS PARA_BASE 0 r)"

definition ReportBlockInfo :: "'w acl_api \<Rightarrow> 'w init_env \<Rightarrow> SanitizerLaunchFinalize \<Rightarrow> 'w record_state \<Rightarrow> 'w record_state" where
  "ReportBlockInfo api env f s =
     (let total = ki_totalBlockDim (gh_kernelInfo (host_head (sf_host f)));
          (para, s) = report_blocks api env total [0..<total] None f s in
      s\<lparr>rd_reports := free_para_base (ie_layers env) para (rd_reports s)\<rparr>)"

definition SanitizerLaunchFinalize_Process ::
  "'w acl_api \<Rightarrow> 'w init_env \<Rightarrow> SanitizerLaunchFinalize \<Rightarrow> 'w record_state \<Rightarrow> 'w record_state"
where
  "SanitizerLaunchFinalize_Process api env f s =
     (let (ok, f, s) = GlobalHeadD2H api f s in
      if \<not> ok then s
      else let (ok, s) = RegistersD2H api f s in if \<not> ok then s else ReportBlockInfo api env f s)"

definition sanitizer_finalize :: "'w acl_api \<Rightarrow> 'w init_env \<Rightarrow> ptr \<Rightarrow> nat \<Rightarrow> 'w record_state \<Rightarrow> 'w record_state" where
  \<comment> \<open>with the destructor\<close>
  "sanitizer_finalize api env memInfo blockDim s =
     (if \<not> dm_isMemoryInit (rd_dev s) \<or> \<not> CheckBlockDimValid blockDim \<or> memInfo = 0 then s
      else
        let s = SanitizerLaunchFinalize_Process api env (SanitizerLaunchFinalize_Init (ie_config env) memInfo) s in
        s\<lparr>rd_dev := SetMemoryInitFlag False (rd_dev s)\<rparr>)"

section \<open>Rounding\<close>

lemma bit_count_bounds: "0 < n \<Longrightarrow> 2 ^ (bit_count n - 1) \<le> n \<and> n < 2 ^ bit_count n"
proof (induction n rule: bit_count.induct)
  case (1 n)
  show ?case
  proof (cases "n = 1")
    case True
    then show ?thesis by (simp add: bit_count.simps)
  next
    case False
    then have "0 < n div 2" using 1(2) by simp
    then have IH: "2 ^ (bit_count (n div 2) - 1) \<le> n div 2" "n div 2 < 2 ^ bit_count (n div 2)" using 1 by auto
    have "0 < bit_count (n div 2)" using \<open>0 < n div 2\<close> by (simp add: bit_count.simps [of "n div 2"])
    then obtain m where m: "bit_count (n div 2) = Suc m" by (cases "bit_count (n div 2)") simp_all
    have "2 * (n div 2) \<le> n" "n < 2 * (n div 2) + 2" by simp_all
    then have "2 * 2 ^ m \<le> n" "n < 4 * 2 ^ m" using IH m by simp_all
    then show ?thesis using 1(2) m by (simp add: bit_count.simps [of n])
  qed
qed

lemma round24_bounds: "2 ^ 24 * round24 p \<le> p * (2 ^ 24 + 1) \<and> p * (2 ^ 24 - 1) \<le> 2 ^ 24 * round24 p"
proof (cases "bit_count p \<le> 24")
  case True
  then have "round24 p = p" by (simp add: round24_def Let_def)
  then show ?thesis by simp
next
  case False
  define e where "e = bit_count p - 24"
  define q where "q = p div 2 ^ e"
  define r where "r = p mod 2 ^ e"
  have p: "p = q * 2 ^ e + r" "r < 2 ^ e" by (simp_all add: q_def r_def div_mult_mod_eq)
  have "0 < p" using False by (cases "p = 0") (simp_all add: bit_count.simps)
  then have "2 ^ (bit_count p - 1) \<le> p" using bit_count_bounds by blast
  moreover have "bit_count p - 1 = e + 23" using False by (simp add: e_def)
  ultimately have big: "2 ^ e * 2 ^ 23 \<le> p" by (simp add: power_add)
  have "2 * round24 p \<le> 2 * p + 2 ^ e \<and> 2 * p \<le> 2 * round24 p + 2 ^ e"
  proof (cases "2 ^ e < 2 * r \<or> 2 ^ e = 2 * r \<and> odd q")
    case True
    then have "round24 p = q * 2 ^ e + 2 ^ e" by (simp add: round24_def Let_def e_def q_def r_def)
    then show ?thesis using p True by auto
  next
    case False
    then have "round24 p = q * 2 ^ e" by (simp add: round24_def Let_def e_def q_def r_def)
    then show ?thesis using p False by auto
  qed
  then show ?thesis using big by simp
qed

lemma round24_small: "n < 2 ^ 24 \<Longrightarrow> round24 (n * 2 ^ k) = n * 2 ^ k"
proof (cases "n = 0")
  case False
  assume n: "n < 2 ^ 24"
  show ?thesis
  proof (cases "bit_count (n * 2 ^ k) \<le> 24")
    case True
    then show ?thesis by (simp add: round24_def Let_def)
  next
    case F: False
    define e where "e = bit_count (n * 2 ^ k) - 24"
    have "2 ^ (bit_count (n * 2 ^ k) - 1) \<le> n * 2 ^ k" using bit_count_bounds [of "n * 2 ^ k"] False by simp
    also have "\<dots> < 2 ^ (24 + k)" using n by (simp add: power_add)
    finally have "bit_count (n * 2 ^ k) - 1 < 24 + k" by (rule power_less_imp_less_exp [rotated]) simp
    then have "e \<le> k" using F by (simp add: e_def)
    then obtain j where "k = e + j" using le_Suc_ex by blast
    then have "n * 2 ^ k = n * 2 ^ j * 2 ^ e" by (simp add: power_add)
    then have m: "n * 2 ^ k mod 2 ^ e = 0" by (metis mod_mult_self2_is_0)
    then have "n * 2 ^ k div 2 ^ e * 2 ^ e = n * 2 ^ k" using div_mult_mod_eq [of "n * 2 ^ k" "2 ^ e"] by simp
    then show ?thesis using m by (simp add: round24_def Let_def flip: e_def)
  qed
qed (simp add: round24_def bit_count.simps)

lemma rest_ratio_eval: "rest_ratio = (40265312, 27)"
  by (simp add: rest_ratio_def minus_float_def round24_def bit_count.simps Let_def SIMT_CACHE_SIZE_RATIO_def
      SHADOW_MEM_CACHE_SIZE_RATIO_def SIMT_ENTRY_CACHE_SIZE_RATIO_def)

text \<open>The parts of a block of \<open>n\<close> megabytes, as products that are rounded once.\<close>

definition tenth :: "nat \<Rightarrow> nat" where "tenth n = round24 (n * 2 ^ 20 * 13421773)"
definition three_tenths :: "nat \<Rightarrow> nat" where "three_tenths n = round24 (n * 2 ^ 20 * 5033165)"
definition remaining :: "nat \<Rightarrow> nat" where "remaining n = round24 (n * 2 ^ 20 * 40265312)"

lemma cache_parts:
  assumes "n \<le> 8192"
  shows "simt_bytes (n * MB_TO_BYTES) = tenth n div 2 ^ 38"
    and "trunc_float (times_float (n * MB_TO_BYTES) SHADOW_MEM_CACHE_SIZE_RATIO) = three_tenths n div 2 ^ 24"
    and "trunc_float (times_float (n * MB_TO_BYTES) SIMT_ENTRY_CACHE_SIZE_RATIO) = three_tenths n div 2 ^ 24"
    and "trunc_float (times_float (n * MB_TO_BYTES) rest_ratio) = remaining n div 2 ^ 27"
  using assms round24_small [of n 20]
  by (simp_all add: simt_bytes_def times_float_def trunc_float_def tenth_def three_tenths_def remaining_def MB_TO_BYTES_def
      SIMT_CACHE_SIZE_RATIO_def SHADOW_MEM_CACHE_SIZE_RATIO_def SIMT_ENTRY_CACHE_SIZE_RATIO_def rest_ratio_eval)

lemma tenth_bounds:
  "2 ^ 24 * tenth n \<le> n * (2 ^ 20 * 13421773 * (2 ^ 24 + 1)) \<and> n * (2 ^ 20 * 13421773 * (2 ^ 24 - 1)) \<le> 2 ^ 24 * tenth n"
  using round24_bounds [of "n * 2 ^ 20 * 13421773"] by (simp add: tenth_def)

lemma three_tenths_bounds:
  "2 ^ 24 * three_tenths n \<le> n * (2 ^ 20 * 5033165 * (2 ^ 24 + 1)) \<and>
   n * (2 ^ 20 * 5033165 * (2 ^ 24 - 1)) \<le> 2 ^ 24 * three_tenths n"
  using round24_bounds [of "n * 2 ^ 20 * 5033165"] by (simp add: three_tenths_def)

lemma remaining_bounds:
  "2 ^ 24 * remaining n \<le> n * (2 ^ 20 * 40265312 * (2 ^ 24 + 1)) \<and>
   n * (2 ^ 20 * 40265312 * (2 ^ 24 - 1)) \<le> 2 ^ 24 * remaining n"
  using round24_bounds [of "n * 2 ^ 20 * 40265312"] by (simp add: remaining_def)

text \<open>From 17 megabytes on the heads of the threads have room, from 40 on the shadow memory has.\<close>

lemma simt_room_iff:
  assumes "n \<le> 8192"
  shows "sizeof_SimtRecordBlockHead \<le> tenth n div 2 ^ 38 \<longleftrightarrow> 17 \<le> n"
proof
  assume "sizeof_SimtRecordBlockHead \<le> tenth n div 2 ^ 38"
  then have "832 * 2 ^ 38 \<le> tenth n" by (simp add: sizeof_SimtRecordBlockHead_def)
  then show "17 \<le> n" using tenth_bounds [of n] by simp
next
  assume "17 \<le> n"
  then have "832 * 2 ^ 38 \<le> tenth n" using tenth_bounds [of n] by simp
  then show "sizeof_SimtRecordBlockHead \<le> tenth n div 2 ^ 38" by (simp add: sizeof_SimtRecordBlockHead_def)
qed

lemma three_tenths_40: "three_tenths 40 = 211106232532992"
  by (simp add: three_tenths_def round24_def bit_count.simps Let_def)

lemma shadow_room_iff:
  assumes "n \<le> 8192"
  shows "SHADOW_MEM_MIN_BYTE_SIZE \<le> three_tenths n div 2 ^ 24 \<longleftrightarrow> 40 \<le> n"
proof
  assume "SHADOW_MEM_MIN_BYTE_SIZE \<le> three_tenths n div 2 ^ 24"
  then have "12582912 * 2 ^ 24 \<le> three_tenths n" by (simp add: SHADOW_MEM_MIN_BYTE_SIZE_def)
  then show "40 \<le> n" using three_tenths_bounds [of n] by simp
next
  assume n: "40 \<le> n"
  have "12582912 * 2 ^ 24 \<le> three_tenths n"
  proof (cases "n = 40")
    case True
    then show ?thesis by (simp add: three_tenths_40)
  next
    case False
    then show ?thesis using n three_tenths_bounds [of n] by simp
  qed
  then show "SHADOW_MEM_MIN_BYTE_SIZE \<le> three_tenths n div 2 ^ 24" by (simp add: SHADOW_MEM_MIN_BYTE_SIZE_def)
qed

section \<open>The parts of a block\<close>

definition layout_of :: "nat \<Rightarrow> nat \<Rightarrow> nat \<Rightarrow> nat \<Rightarrow> nat \<Rightarrow> ProtocolOffsetInfo" where
  "layout_of t r s n head =
     (let errOffset = AlignDownSize 64 r + head;
          errSize = AlignDownSize 64 (t - 832);
          shadow = (if n < 40 then no_region
                    else \<lparr>oi_offset = AlignDownSize 64 (errOffset + (errSize + 832) * 2048) + 64, oi_size = s\<rparr>);
          entryOffset = AlignDownSize 64 (oi_offset shadow + oi_size shadow) + 64;
          entrySize = (if s - 64 + entryOffset \<ge> n * MB_TO_BYTES + head
                       then n * MB_TO_BYTES + head - entryOffset - 64 else s - 64) in
      \<lparr>po_simtErrorInfo = \<lparr>oi_offset = errOffset, oi_size = errSize\<rparr>, po_shadowMemoryInfo = shadow,
       po_simtEntryInfo = \<lparr>oi_offset = entryOffset, oi_size = entrySize\<rparr>, po_blockHeadSize = head\<rparr>)"

definition simt_layout :: "nat \<Rightarrow> nat \<Rightarrow> ProtocolOffsetInfo" where
  \<comment> \<open>the result of \<open>AssignSimtVfInfo\<close> for \<open>n\<close> megabytes, from 17 on\<close>
  "simt_layout n head = layout_of (tenth n div 2 ^ 38) (remaining n div 2 ^ 27) (three_tenths n div 2 ^ 24) n head"

lemma align_down_bounds: "AlignDownSize 64 v \<le> v \<and> v < AlignDownSize 64 v + 64"
  by (simp add: AlignDownSize_def)

lemma layout_bounds:
  assumes "n \<le> 8192" "17 \<le> n" "head < 2 ^ 32"
  defines "L \<equiv> simt_layout n head"
  shows "head \<le> oi_offset (po_simtErrorInfo L)"
    and "oi_offset (po_simtErrorInfo L) + (oi_size (po_simtErrorInfo L) + 832) * 2048 + 64 \<le> n * MB_TO_BYTES + head"
    and "oi_offset (po_simtEntryInfo L) + 64 \<le> n * MB_TO_BYTES + head"
    and "three_tenths n div 2 ^ 24 - 64 + oi_offset (po_simtEntryInfo L) < 2 ^ 64"
    and "40 \<le> n \<Longrightarrow> oi_offset (po_simtErrorInfo L) + (oi_size (po_simtErrorInfo L) + 832) * 2048 \<le> oi_offset (po_shadowMemoryInfo L)"
    and "40 \<le> n \<Longrightarrow> oi_offset (po_shadowMemoryInfo L) + oi_size (po_shadowMemoryInfo L) \<le> oi_offset (po_simtEntryInfo L)"
    and "oi_offset (po_simtEntryInfo L) + oi_size (po_simtEntryInfo L) \<le> n * MB_TO_BYTES + head"
    and "n * MB_TO_BYTES \<le> 4 * oi_size (po_simtEntryInfo L)"
proof -
  define t where "t = tenth n div 2 ^ 38"
  define r where "r = remaining n div 2 ^ 27"
  define s where "s = three_tenths n div 2 ^ 24"
  define err where "err = AlignDownSize 64 (t - 832)"
  define eo where "eo = AlignDownSize 64 r + head"
  define so where "so = AlignDownSize 64 (eo + (err + 832) * 2048) + 64"
  define en where "en = AlignDownSize 64 (if n < 40 then 0 else so + s) + 64"
  have n: "n * 1048576 \<le> 8589934592" "17825792 \<le> n * 1048576" using assms(1,2) by simp_all
  have "832 \<le> t" using simt_room_iff [OF assms(1)] assms(2) by (simp add: t_def sizeof_SimtRecordBlockHead_def)
  then have "err + 832 \<le> t" using align_down_bounds [of "t - 832"] unfolding err_def by linarith
  moreover have "t * 274877906944 \<le> tenth n" by (simp add: t_def)
  moreover have "16 * tenth n \<le> 225179998145741 * n" using tenth_bounds [of n] by simp
  ultimately have t: "20480 * err + 17039360 \<le> 1048578 * n" by linarith
  have "r * 134217728 \<le> remaining n" "remaining n \<le> 42221242312294 * n"
    using remaining_bounds [of n] by (simp_all add: r_def)
  then have "10 * r \<le> 3145730 * n" by linarith
  then have r: "eo \<le> r + head" "head \<le> eo" "10 * r \<le> 3145730 * n"
    using AlignDownSize_le [of 64 r] by (simp_all add: eo_def)
  have "s * 16777216 \<le> three_tenths n" "three_tenths n < s * 16777216 + 16777216"
    using div_mult_mod_eq [of "three_tenths n" 16777216] mod_less_divisor [of 16777216 "three_tenths n"]
    by (simp_all add: s_def)
  moreover have "16 * three_tenths n \<le> 84442501401805 * n" "84442491335475 * n \<le> 16 * three_tenths n"
    using three_tenths_bounds [of n] by simp_all
  ultimately have s: "10 * s \<le> 3145730 * n" "3145726 * n \<le> 10 * s + 10" by linarith+
  have e2: "(err + 832) * 2048 = 2048 * err + 1703936" by simp
  have so: "eo + 2048 * err + 1703936 \<le> so" "so \<le> eo + 2048 * err + 1703936 + 64"
    using align_down_bounds [of "eo + (err + 832) * 2048"] unfolding so_def e2 by linarith+
  have en: "40 \<le> n \<Longrightarrow> so + s \<le> en" "en \<le> so + s + 64" "n < 40 \<Longrightarrow> en = 64"
    using align_down_bounds [of "so + s"] unfolding en_def by (auto simp: AlignDownSize_def)
  have L: "po_simtErrorInfo L = \<lparr>oi_offset = eo, oi_size = err\<rparr>"
    "po_shadowMemoryInfo L = (if n < 40 then no_region else \<lparr>oi_offset = so, oi_size = s\<rparr>)"
    "po_simtEntryInfo L = \<lparr>oi_offset = en, oi_size = (if s - 64 + en \<ge> n * 1048576 + head then n * 1048576 + head - en - 64 else s - 64)\<rparr>"
    unfolding L_def simt_layout_def t_def [symmetric] r_def [symmetric] s_def [symmetric]
    by (simp_all add: layout_of_def Let_def eo_def err_def so_def en_def no_region_def MB_TO_BYTES_def)
  have bound: "so + s + 128 + n * 262144 \<le> n * 1048576 + head" using so r(1,3) t s(1) n by linarith
  have nn: "n * MB_TO_BYTES = n * 1048576" by (simp add: MB_TO_BYTES_def)
  show "head \<le> oi_offset (po_simtErrorInfo L)" using r by (simp add: L)
  show "oi_offset (po_simtErrorInfo L) + (oi_size (po_simtErrorInfo L) + 832) * 2048 + 64 \<le> n * MB_TO_BYTES + head"
    unfolding L nn using r t n e2 by simp
  show e: "oi_offset (po_simtEntryInfo L) + 64 \<le> n * MB_TO_BYTES + head"
    unfolding L nn using en bound by simp
  show "three_tenths n div 2 ^ 24 - 64 + oi_offset (po_simtEntryInfo L) < 2 ^ 64"
    unfolding L s_def [symmetric] using en bound n assms(3) by simp
  show "oi_offset (po_simtErrorInfo L) + (oi_size (po_simtErrorInfo L) + 832) * 2048 \<le> oi_offset (po_shadowMemoryInfo L)" if "40 \<le> n"
    unfolding L using so that e2 by simp
  show "oi_offset (po_shadowMemoryInfo L) + oi_size (po_shadowMemoryInfo L) \<le> oi_offset (po_simtEntryInfo L)" if "40 \<le> n"
    unfolding L using en that by simp
  show "oi_offset (po_simtEntryInfo L) + oi_size (po_simtEntryInfo L) \<le> n * MB_TO_BYTES + head"
    unfolding L nn using en bound by simp
  show "n * MB_TO_BYTES \<le> 4 * oi_size (po_simtEntryInfo L)"
  proof -
    have "262144 * n + 64 \<le> s" "en + 64 + 262144 * n \<le> n * 1048576 + head" using s assms(2) en bound by linarith+
    then show ?thesis unfolding L nn by auto
  qed
qed

lemma same_layout:
  "po_blockHeadSize l = h \<Longrightarrow> l\<lparr>po_simtErrorInfo := a, po_shadowMemoryInfo := b, po_simtEntryInfo := c\<rparr> =
    \<lparr>po_simtErrorInfo = a, po_shadowMemoryInfo = b, po_simtEntryInfo = c, po_blockHeadSize = h\<rparr>"
  by (cases l) simp

lemma AssignSimtVfInfo_parts:
  assumes parts: "simt_bytes (n * MB_TO_BYTES) = t" "trunc_float (times_float (n * MB_TO_BYTES) rest_ratio) = r"
      "trunc_float (times_float (n * MB_TO_BYTES) SHADOW_MEM_CACHE_SIZE_RATIO) = s"
      "trunc_float (times_float (n * MB_TO_BYTES) SIMT_ENTRY_CACHE_SIZE_RATIO) = s"
    and g: "cp_cacheSize (gh_checkParms g) = n" "po_blockHeadSize (gh_offsetInfo g) = h"
    and t: "832 \<le> t" and sh: "s < SHADOW_MEM_MIN_BYTE_SIZE \<longleftrightarrow> n < 40"
    and s: "sub64 s 64 = s - 64"
    and en: "en = oi_offset (po_simtEntryInfo (layout_of t r s n h))" "wrap64 (s - 64 + en) = s - 64 + en"
      "sub64 (sub64 (n * MB_TO_BYTES + h) en) 64 = n * MB_TO_BYTES + h - en - 64"
  shows "AssignSimtVfInfo u g = g\<lparr>gh_ubDynamicSize := CeilByAlignSize32 128 u, gh_offsetInfo := layout_of t r s n h\<rparr>"
proof -
  have nt: "\<not> t < sizeof_SimtRecordBlockHead" using t by (simp add: sizeof_SimtRecordBlockHead_def)
  define shadow where "shadow = (if n < 40 then no_region
    else \<lparr>oi_offset = AlignDownSize 64 (AlignDownSize 64 r + h + (AlignDownSize 64 (t - 832) + 832) * 2048) + 64, oi_size = s\<rparr>)"
  have en_eq: "en = AlignDownSize 64 (oi_offset shadow + oi_size shadow) + 64"
    by (simp only: en(1) layout_of_def Let_def shadow_def ProtocolOffsetInfo.select_convs OffsetInfo.select_convs)
  show ?thesis
    unfolding AssignSimtVfInfo_def layout_of_def Let_def g parts CACHE_LINE_SIZE_def
    unfolding sizeof_SimtRecordBlockHead_def SIMT_THREAD_MAX_SIZE_def sh OffsetInfo.select_convs shadow_def [symmetric] en_eq [symmetric] s en(2,3)
    unfolding if_not_P [OF nt [unfolded sizeof_SimtRecordBlockHead_def]] same_layout [OF g(2)] by (rule refl)
qed

lemma AssignSimtVfInfo_layout:
  assumes "cp_cacheSize (gh_checkParms g) \<le> 8192" "17 \<le> cp_cacheSize (gh_checkParms g)"
    and "po_blockHeadSize (gh_offsetInfo g) < 2 ^ 32"
  shows "AssignSimtVfInfo u g = g\<lparr>gh_ubDynamicSize := CeilByAlignSize32 128 u,
    gh_offsetInfo := simt_layout (cp_cacheSize (gh_checkParms g)) (po_blockHeadSize (gh_offsetInfo g))\<rparr>"
proof -
  define n where "n = cp_cacheSize (gh_checkParms g)"
  define h where "h = po_blockHeadSize (gh_offsetInfo g)"
  define s where "s = three_tenths n div 2 ^ 24"
  define en where "en = oi_offset (po_simtEntryInfo (simt_layout n h))"
  have n: "n \<le> 8192" "17 \<le> n" and h: "h < 2 ^ 32" using assms by (simp_all add: n_def h_def)
  have "three_tenths n < 2 ^ 64" "64 * 2 ^ 24 \<le> three_tenths n" using three_tenths_bounds [of n] n by simp_all
  then have s: "s < 2 ^ 64" "64 \<le> s" unfolding s_def by (meson div_le_dividend order_le_less_trans, simp)
  have "n * MB_TO_BYTES \<le> 8192 * 1048576" using n(1) by (simp add: MB_TO_BYTES_def)
  then have lim: "n * MB_TO_BYTES + h < 2 ^ 64" using h by simp
  have en: "en + 64 \<le> n * MB_TO_BYTES + h" "s - 64 + en < 2 ^ 64"
    using layout_bounds(3,4) [OF n h] by (simp_all only: en_def s_def)
  have "sub64 (n * MB_TO_BYTES + h) en = n * MB_TO_BYTES + h - en" by (rule sub64_ge) (use en lim in linarith)+
  moreover have "sub64 (n * MB_TO_BYTES + h - en) 64 = n * MB_TO_BYTES + h - en - 64"
    by (rule sub64_ge) (use en lim in linarith)+
  ultimately have sub: "sub64 (sub64 (n * MB_TO_BYTES + h) en) 64 = n * MB_TO_BYTES + h - en - 64" by (simp only:)
  have "832 \<le> tenth n div 2 ^ 38" using simt_room_iff [OF n(1)] n(2) by (simp only: sizeof_SimtRecordBlockHead_def)
  moreover have "s < SHADOW_MEM_MIN_BYTE_SIZE \<longleftrightarrow> n < 40" using shadow_room_iff [OF n(1)] by (simp only: s_def not_le [symmetric])
  moreover have "sub64 s 64 = s - 64" using s by (intro sub64_ge)
  ultimately show ?thesis
    unfolding simt_layout_def n_def [symmetric] h_def [symmetric] s_def [symmetric]
    using AssignSimtVfInfo_parts [OF cache_parts(1) [OF n(1)] cache_parts(4) [OF n(1)]
        cache_parts(2) [OF n(1), folded s_def] cache_parts(3) [OF n(1), folded s_def] n_def [symmetric] h_def [symmetric]
        _ _ _ en_def [unfolded simt_layout_def s_def [symmetric]] wrap64_small [OF en(2)] sub]
    by blast
qed

end
