(* ===== verification/LaunchRecords.thy ===== *)
theory LaunchRecords
  imports LaunchInit
begin

text \<open>
  What holds of the record buffer of LaunchInit: the heads that are written lie in the block that they belong
  to, the blocks lie in the buffer, and the records that are fetched are those of the block.
\<close>

section \<open>Writing the heads\<close>

lemma length_pad [simp]: "length (pad n) = n" "length (bool_byte b) = 1"
  by (simp_all add: pad_def bool_byte_def)

lemma length_heads [simp]:
  "length (enc_block b) = 192" "length (enc_host h) = 24" "length (enc_peer p) = 24" "length (enc_heap q n) = 64"
  "length (enc_checkParms c) = 20" "length (enc_kernelInfo k) = 32" "length (enc_offsetInfo l) = 56"
  by (simp_all add: enc_block_def enc_host_def enc_peer_def enc_heap_def enc_checkParms_def enc_kernelInfo_def enc_offsetInfo_def
      enc_offset_def Let_def)

lemma length_enc_global: "length (gh_registers g) = 108 * 512 \<Longrightarrow> length (enc_global g) = sizeof_RecordGlobalHead"
  by (simp add: enc_global_def sizeof_RecordGlobalHead_def MAX_AICORE_NUM_def sizeof_Register_def)

lemma length_tables [simp]:
  "length (concat (map enc_host hs)) = 24 * length hs" "length (concat (map enc_peer ps)) = 24 * length ps"
  by (induction hs; simp) (induction ps; simp)

definition writes_in :: "('w \<Rightarrow> ptr \<Rightarrow> byte) \<Rightarrow> nat \<Rightarrow> nat \<Rightarrow> 'w record_state \<Rightarrow> 'w record_state \<Rightarrow> bool" where
  "writes_in mem lo hi s s' \<longleftrightarrow>
     s' = s\<lparr>rd_world := rd_world s'\<rparr> \<and> (\<forall>a. a < lo \<or> hi \<le> a \<longrightarrow> mem (rd_world s') a = mem (rd_world s) a)"

lemma writes_in_refl [simp]: "writes_in mem lo hi s s"
  by (simp add: writes_in_def)

lemma writes_in_trans: "writes_in mem lo hi s t \<Longrightarrow> writes_in mem lo hi t u \<Longrightarrow> writes_in mem lo hi s u"
  by (cases s; cases t; cases u) (auto simp: writes_in_def)

lemma writes_in_mono: "writes_in mem lo hi s t \<Longrightarrow> lo' \<le> lo \<Longrightarrow> hi \<le> hi' \<Longrightarrow> writes_in mem lo' hi' s t"
  by (auto simp: writes_in_def)

lemma writes_in_frame: "writes_in mem lo hi s t \<Longrightarrow> rd_reports t = rd_reports s \<and> rd_dev t = rd_dev s \<and> rd_registers t = rd_registers s"
  by (cases s; cases t) (simp add: writes_in_def)

lemma range_untouched:
  assumes "writes_in mem lo hi s t" "p + n \<le> lo \<or> hi \<le> p"
  shows "mem_range mem (rd_world t) p n = mem_range mem (rd_world s) p n"
  using assms by (auto simp: mem_range_def writes_in_def)

lemma api_write_in:
  assumes "write_law api mem" "on_world (api_write api p bs) s = (e, t)" "n = length bs"
  shows "e = ACL_SUCCESS" "writes_in mem p (p + n) s t" "mem_range mem (rd_world t) p n = bs"
proof -
  obtain r w where w: "api_write api p bs (rd_world s) = (r, w)" by (cases "api_write api p bs (rd_world s)")
  then have "r = ACL_SUCCESS" "mem w = (\<lambda>a. if p \<le> a \<and> a < p + length bs then bs ! (a - p) else mem (rd_world s) a)"
    using assms(1) by (auto simp: write_law_def)
  then show "e = ACL_SUCCESS" "writes_in mem p (p + n) s t" "mem_range mem (rd_world t) p n = bs"
    using assms(2,3) w by (auto simp: on_world_def writes_in_def intro!: nth_equalityI)
qed

lemma api_memset_in:
  assumes "memset_law api mem" "on_world (api_memset api p n v n) s = (e, t)"
  shows "e = ACL_SUCCESS" "writes_in mem p (p + n) s t" "mem_range mem (rd_world t) p n = replicate n v"
proof -
  obtain r w where w: "api_memset api p n v n (rd_world s) = (r, w)" by (cases "api_memset api p n v n (rd_world s)")
  then have "r = ACL_SUCCESS" "mem w = (\<lambda>a. if p \<le> a \<and> a < p + n then v else mem (rd_world s) a)"
    using assms(1) by (auto simp: memset_law_def)
  then show "e = ACL_SUCCESS" "writes_in mem p (p + n) s t" "mem_range mem (rd_world t) p n = replicate n v"
    using assms(2) w by (auto simp: on_world_def writes_in_def intro!: nth_equalityI)
qed

lemma length_update_fold: "length (foldl (\<lambda>xs (i, n). if k + i < length xs then xs[k + i := f (xs ! (k + i)) n] else xs) xs ps) = length xs"
  by (induction ps arbitrary: xs) (auto split: prod.splits)

lemma length_CopyExtra [simp]: "length (CopyExtraMallocToHostMemory hs m) = length hs"
  unfolding CopyExtraMallocToHostMemory_def Let_def by (rule length_update_fold)

abbreviation tables :: "'w init_env \<Rightarrow> 'w record_state \<Rightarrow> HostMemoryInfo list" where
  "tables env s \<equiv> CopyExtraMallocToHostMemory (MergeHostMems (rs_mm (rd_reports s))) (kv_memInfo (ie_kernel env))"

definition table_end :: "SanitizerLaunchInit \<Rightarrow> nat" where
  "table_end si = 192 + 24 * si_hostMemoryNum si + 24 * length (si_peerMemories si)"

lemma HostMallocH2D_in:
  assumes law: "write_law api mem" and n: "length (MergeHostMems (rs_mm (rd_reports s))) = si_hostMemoryNum si"
    and run: "HostMallocH2D api env si b s = (ok, t)"
  shows "ok" "writes_in mem (b + 192) (b + table_end si) s t"
    "gh_supportSimt (si_globalHead si) \<Longrightarrow>
       mem_range mem (rd_world t) (b + 192) (24 * si_hostMemoryNum si) = concat (map enc_host (tables env s))"
    "gh_supportSimt (si_globalHead si) \<Longrightarrow>
       mem_range mem (rd_world t) (b + 192 + 24 * si_hostMemoryNum si) (24 * length (si_peerMemories si)) =
         concat (map enc_peer (si_peerMemories si))"
proof -
  let ?k = "si_hostMemoryNum si" and ?j = "length (si_peerMemories si)"
  obtain e1 u where u: "(if tables env s \<noteq> [] then on_world (api_write api (b + 192) (concat (map enc_host (tables env s)))) s
    else (0, s)) = (e1, u)" by (meson surj_pair)
  obtain e2 v where v: "(if si_peerMemories si \<noteq> [] then on_world (api_write api (b + 192 + ?k * 24)
    (concat (map enc_peer (si_peerMemories si)))) u else (0, u)) = (e2, v)" by (meson surj_pair)
  have lt: "length (tables env s) = ?k" using n by simp
  have 1: "e1 = ACL_SUCCESS" "writes_in mem (b + 192) (b + 192 + 24 * ?k) s u"
    "mem_range mem (rd_world u) (b + 192) (24 * ?k) = concat (map enc_host (tables env s))"
  proof -
    have "e1 = ACL_SUCCESS \<and> writes_in mem (b + 192) (b + 192 + 24 * ?k) s u \<and>
      mem_range mem (rd_world u) (b + 192) (24 * ?k) = concat (map enc_host (tables env s))"
    proof (cases "tables env s = []")
      case True
      then have "?k = 0" using lt by (simp only: list.size)
      then show ?thesis using u True by (simp add: ACL_SUCCESS_def mem_range_def)
    next
      case False
      then have "on_world (api_write api (b + 192) (concat (map enc_host (tables env s)))) s = (e1, u)" using u by simp
      from api_write_in [OF law this, of "24 * ?k"] show ?thesis using lt by simp
    qed
    then show "e1 = ACL_SUCCESS" "writes_in mem (b + 192) (b + 192 + 24 * ?k) s u"
      "mem_range mem (rd_world u) (b + 192) (24 * ?k) = concat (map enc_host (tables env s))" by simp_all
  qed
  have 2: "e2 = ACL_SUCCESS" "writes_in mem (b + 192 + 24 * ?k) (b + table_end si) u v"
    "mem_range mem (rd_world v) (b + 192 + 24 * ?k) (24 * ?j) = concat (map enc_peer (si_peerMemories si))"
    using api_write_in [OF law, of "b + 192 + ?k * 24" "concat (map enc_peer (si_peerMemories si))" u e2 v "24 * ?j"] v
    by (auto simp: ACL_SUCCESS_def table_end_def ac_simps mem_range_def split: if_splits)
  have r: "(ok, t) = (if gh_supportSimt (si_globalHead si) then (True, v) else (True, s))"
    unfolding run [symmetric] HostMallocH2D_def Let_def sizeof_RecordBlockHead_def sizeof_HostMemoryInfo_def u prod.case v
    using 1(1) 2(1) by simp
  show ok using r by (auto split: if_splits)
  have "writes_in mem (b + 192) (b + table_end si) s v"
    using writes_in_trans [OF writes_in_mono [OF 1(2)] writes_in_mono [OF 2(2)]] by (simp add: table_end_def)
  then show "writes_in mem (b + 192) (b + table_end si) s t" using r by (auto split: if_splits)
  show "mem_range mem (rd_world t) (b + 192) (24 * ?k) = concat (map enc_host (tables env s))" if "gh_supportSimt (si_globalHead si)"
    using r that 1(3) range_untouched [OF 2(2), of "b + 192" "24 * ?k"] by simp
  show "mem_range mem (rd_world t) (b + 192 + 24 * ?k) (24 * ?j) = concat (map enc_peer (si_peerMemories si))"
    if "gh_supportSimt (si_globalHead si)"
    using r that 2(3) by simp
qed

definition laid_out :: "SanitizerLaunchInit \<Rightarrow> bool" where
  "laid_out si \<longleftrightarrow>
     (let g = si_globalHead si; n = cp_cacheSize (gh_checkParms g); h = po_blockHeadSize (gh_offsetInfo g) in
      length (gh_registers g) = 108 * 512 \<and> 0 < n \<and> n \<le> 8192 \<and> table_end si \<le> h \<and> h < 2 ^ 32 \<and>
      (if gh_supportSimt g then 17 \<le> n \<and> gh_offsetInfo g = simt_layout n h
       else gh_offsetInfo g = (gh_offsetInfo gh0)\<lparr>po_blockHeadSize := h\<rparr>))"

definition has_simt_part :: "string \<Rightarrow> RecordGlobalHead \<Rightarrow> nat \<Rightarrow> bool" where
  "has_simt_part soc g i \<longleftrightarrow>
     gh_supportSimt g \<and> (let c = cp_checkBlockId (gh_checkParms g) in c = CHECK_ALL_BLOCK \<or> IsTargetBlockIdx soc c i)"

definition thread_heads_clear :: "('w \<Rightarrow> ptr \<Rightarrow> byte) \<Rightarrow> RecordGlobalHead \<Rightarrow> ptr \<Rightarrow> 'w \<Rightarrow> bool" where
  "thread_heads_clear mem g b w \<longleftrightarrow>
     mem_range mem w (b + oi_offset (po_simtErrorInfo (gh_offsetInfo g))) (GetAllThreadSize g) = replicate (GetAllThreadSize g) 0"

lemma SimtBlockHeadsH2D_in:
  assumes law: "write_law api mem" "memset_law api mem" and l: "laid_out si"
    and run: "SimtBlockHeadsH2D api soc (si_globalHead si) b i s = (ok, t)"
  shows "ok" "writes_in mem (b + po_blockHeadSize (gh_offsetInfo (si_globalHead si))) (b + GetBlockSize soc (si_globalHead si) i) s t"
    "has_simt_part soc (si_globalHead si) i \<Longrightarrow> thread_heads_clear mem (si_globalHead si) b (rd_world t)"
proof -
  define g where "g = si_globalHead si"
  define n where "n = cp_cacheSize (gh_checkParms g)"
  define h where "h = po_blockHeadSize (gh_offsetInfo g)"
  have "ok \<and> writes_in mem (b + h) (b + GetBlockSize soc g i) s t \<and> (has_simt_part soc g i \<longrightarrow> thread_heads_clear mem g b (rd_world t))"
  proof (cases "has_simt_part soc g i")
    case False
    then have "SimtBlockHeadsH2D api soc g b i s = (True, s)"
      unfolding SimtBlockHeadsH2D_def has_simt_part_def Let_def by auto
    then show ?thesis using run False by (simp add: g_def [symmetric])
  next
    case True
    then have n: "n \<le> 8192" "17 \<le> n" "h < 2 ^ 32" and L: "gh_offsetInfo g = simt_layout n h"
      using l by (simp_all add: laid_out_def has_simt_part_def Let_def g_def [symmetric] n_def [symmetric] h_def [symmetric])
    have sz: "GetBlockSize soc g i = h + n * MB_TO_BYTES"
      using True by (auto simp: GetBlockSize_def has_simt_part_def Let_def n_def h_def)
    define eo where "eo = oi_offset (po_simtErrorInfo (gh_offsetInfo g))"
    define all where "all = GetAllThreadSize g"
    define so where "so = oi_offset (po_shadowMemoryInfo (gh_offsetInfo g))"
    define ss where "ss = oi_size (po_shadowMemoryInfo (gh_offsetInfo g))"
    have all_eq: "all = (oi_size (po_simtErrorInfo (simt_layout n h)) + 832) * 2048"
      by (simp add: all_def GetAllThreadSize_def L sizeof_SimtRecordBlockHead_def SIMT_THREAD_MAX_SIZE_def)
    have b1: "h \<le> eo" "eo + all \<le> n * MB_TO_BYTES + h"
      using layout_bounds(1,2) [OF n] unfolding eo_def L all_eq by linarith+
    have b2: "ss \<noteq> 0 \<Longrightarrow> 40 \<le> n \<and> 64 \<le> ss"
    proof -
      assume "ss \<noteq> 0"
      then have "40 \<le> n" by (cases "n < 40") (auto simp: ss_def L simt_layout_def layout_of_def Let_def no_region_def)
      moreover from this have "ss = three_tenths n div 2 ^ 24" by (simp add: ss_def L simt_layout_def layout_of_def Let_def)
      ultimately show ?thesis using shadow_room_iff [OF n(1)] by (simp add: SHADOW_MEM_MIN_BYTE_SIZE_def)
    qed
    have b3: "eo + all \<le> so" "so + ss \<le> n * MB_TO_BYTES + h" if "40 \<le> n"
      using layout_bounds(3) [OF n] layout_bounds(5,6) [OF n that] unfolding eo_def so_def ss_def L all_eq by linarith+
    obtain e1 u where u: "on_world (api_memset api (b + eo) all 0 all) s = (e1, u)" by (meson surj_pair)
    note m1 = api_memset_in [OF law(2) u]
    have w1: "writes_in mem (b + h) (b + (h + n * MB_TO_BYTES)) s u" using writes_in_mono [OF m1(2)] b1 by simp
    have z1: "thread_heads_clear mem g b (rd_world u)" using m1(3) by (simp add: thread_heads_clear_def all_def eo_def)
    show ?thesis
    proof (cases "ss = 0")
      case True2: True
      then have "(ok, t) = (True, u)"
        using run True u m1(1)
        by (auto simp: has_simt_part_def SimtBlockHeadsH2D_def Let_def g_def [symmetric] all_def [symmetric] eo_def [symmetric] ss_def [symmetric])
      then show ?thesis using w1 sz z1 by simp
    next
      case False
      obtain e2 v where v: "on_world (api_memset api (b + so) ss 0 ss) u = (e2, v)" by (meson surj_pair)
      obtain e3 x where x: "on_world (api_write api (b + so) (enc_heap (b + so) ss)) v = (e3, x)" by (meson surj_pair)
      note m2 = api_memset_in [OF law(2) v] and m3 = api_write_in [OF law(1) x refl]
      have "(ok, t) = (True, x)"
        using run True u m1(1) v m2(1) x m3(1) False
        by (auto simp: has_simt_part_def SimtBlockHeadsH2D_def InitSimtShadowMemoryHead_def Let_def g_def [symmetric]
            all_def [symmetric] eo_def [symmetric] ss_def [symmetric] so_def [symmetric])
      moreover have "writes_in mem (b + h) (b + (h + n * MB_TO_BYTES)) u v" "writes_in mem (b + h) (b + (h + n * MB_TO_BYTES)) v x"
        using writes_in_mono [OF m2(2)] writes_in_mono [OF m3(2)] b1 b2 [OF False] b3 by simp_all
      moreover have "thread_heads_clear mem g b (rd_world x)"
        using z1 range_untouched [OF m2(2), of "b + eo" all] range_untouched [OF m3(2), of "b + eo" all] b3(1) b2 [OF False]
        by (simp add: thread_heads_clear_def flip: all_def eo_def)
      ultimately show ?thesis using w1 sz by (auto intro: writes_in_trans)
    qed
  qed
  then show "ok" "writes_in mem (b + po_blockHeadSize (gh_offsetInfo (si_globalHead si))) (b + GetBlockSize soc (si_globalHead si) i) s t"
    "has_simt_part soc (si_globalHead si) i \<Longrightarrow> thread_heads_clear mem (si_globalHead si) b (rd_world t)"
    by (simp_all add: g_def h_def)
qed

definition block_ready :: "('w \<Rightarrow> ptr \<Rightarrow> byte) \<Rightarrow> 'w init_env \<Rightarrow> SanitizerLaunchInit \<Rightarrow> HostMemoryInfo list \<Rightarrow> 'w \<Rightarrow> ptr \<Rightarrow> nat \<Rightarrow> bool" where
  \<comment> \<open>block \<open>i\<close> at \<open>b\<close> has its head, and on a SIMT chip the tables and clear heads of the threads\<close>
  "block_ready mem env si hosts w b i \<longleftrightarrow>
     (let g = si_globalHead si; n = 24 * si_hostMemoryNum si; k = 24 * length (si_peerMemories si) in
      mem_range mem w b 192 = enc_block (block_head env si b) \<and>
      (gh_supportSimt g \<longrightarrow>
         mem_range mem w (b + 192) n = concat (map enc_host hosts) \<and>
         mem_range mem w (b + 192 + n) k = concat (map enc_peer (si_peerMemories si))) \<and>
      (has_simt_part (ie_soc env) g i \<longrightarrow> thread_heads_clear mem g b w))"

lemma GetBlockSize_head: "po_blockHeadSize (gh_offsetInfo g) \<le> GetBlockSize soc g i"
  by (simp add: GetBlockSize_def Let_def)

lemma thread_heads_inside:
  assumes "laid_out si" "has_simt_part soc (si_globalHead si) i"
  shows "po_blockHeadSize (gh_offsetInfo (si_globalHead si)) \<le> oi_offset (po_simtErrorInfo (gh_offsetInfo (si_globalHead si)))"
    and "oi_offset (po_simtErrorInfo (gh_offsetInfo (si_globalHead si))) + GetAllThreadSize (si_globalHead si)
      \<le> GetBlockSize soc (si_globalHead si) i"
proof -
  define g where "g = si_globalHead si"
  define n where "n = cp_cacheSize (gh_checkParms g)"
  define h where "h = po_blockHeadSize (gh_offsetInfo g)"
  have n: "n \<le> 8192" "17 \<le> n" "h < 2 ^ 32" and L: "gh_offsetInfo g = simt_layout n h"
    using assms by (simp_all add: laid_out_def has_simt_part_def Let_def g_def [symmetric] n_def [symmetric] h_def [symmetric])
  have sz: "GetBlockSize soc g i = h + n * MB_TO_BYTES"
    using assms(2) by (auto simp: GetBlockSize_def has_simt_part_def Let_def n_def h_def g_def)
  have e: "GetAllThreadSize g = (oi_size (po_simtErrorInfo (simt_layout n h)) + 832) * 2048"
    by (simp add: GetAllThreadSize_def L sizeof_SimtRecordBlockHead_def SIMT_THREAD_MAX_SIZE_def)
  show "po_blockHeadSize (gh_offsetInfo (si_globalHead si)) \<le> oi_offset (po_simtErrorInfo (gh_offsetInfo (si_globalHead si)))"
    unfolding g_def [symmetric] unfolding h_def [symmetric] unfolding L by (rule layout_bounds(1) [OF n])
  show "oi_offset (po_simtErrorInfo (gh_offsetInfo (si_globalHead si))) + GetAllThreadSize (si_globalHead si)
      \<le> GetBlockSize soc (si_globalHead si) i"
    using layout_bounds(2) [OF n] unfolding g_def [symmetric] sz e L by linarith
qed

lemma init_block_in:
  assumes law: "write_law api mem" "memset_law api mem" and l: "laid_out si"
    and n: "length (MergeHostMems (rs_mm (rd_reports s))) = si_hostMemoryNum si"
    and run: "init_block api env si b i s = (ok, t)"
  shows "ok" "writes_in mem b (b + GetBlockSize (ie_soc env) (si_globalHead si) i) s t"
    "block_ready mem env si (tables env s) (rd_world t) b i"
proof -
  let ?g = "si_globalHead si" and ?sz = "GetBlockSize (ie_soc env) (si_globalHead si) i"
  define h where "h = po_blockHeadSize (gh_offsetInfo ?g)"
  have te: "192 \<le> table_end si" "table_end si \<le> h" "h \<le> ?sz"
    using l GetBlockSize_head [of ?g "ie_soc env" i] by (simp_all add: laid_out_def Let_def h_def table_end_def)
  obtain e1 u where u: "on_world (api_write api b (enc_block (block_head env si b))) s = (e1, u)" by (meson surj_pair)
  note w1 = api_write_in [OF law(1) u, of 192, simplified]
  obtain ok2 v where v: "HostMallocH2D api env si b u = (ok2, v)" by (meson surj_pair)
  have fr: "tables env u = tables env s" using writes_in_frame [OF w1(2)] by simp
  note w2 = HostMallocH2D_in [OF law(1) _ v, unfolded fr]
  have nu: "length (MergeHostMems (rs_mm (rd_reports u))) = si_hostMemoryNum si" using writes_in_frame [OF w1(2)] n by simp
  obtain ok3 x where x: "SimtBlockHeadsH2D api (ie_soc env) ?g b i v = (ok3, x)" by (meson surj_pair)
  note w3 = SimtBlockHeadsH2D_in [OF law l x, folded h_def]
  have r: "(ok, t) = (True, x)"
    using run u w1(1) v w2(1) [OF nu] x w3(1) by (simp add: init_block_def)
  then show ok by simp
  have "writes_in mem b (b + ?sz) s u" "writes_in mem b (b + ?sz) u v" "writes_in mem b (b + ?sz) v x"
    using writes_in_mono [OF w1(2)] writes_in_mono [OF w2(2) [OF nu]] writes_in_mono [OF w3(2)] te by simp_all
  then show "writes_in mem b (b + ?sz) s t" using r by (auto intro: writes_in_trans)
  have "mem_range mem (rd_world x) b 192 = enc_block (block_head env si b)"
    using w1(3) range_untouched [OF w2(2) [OF nu], of b 192] range_untouched [OF w3(2), of b 192] te by simp
  moreover have "gh_supportSimt ?g \<longrightarrow>
      mem_range mem (rd_world x) (b + 192) (24 * si_hostMemoryNum si) = concat (map enc_host (tables env s)) \<and>
      mem_range mem (rd_world x) (b + 192 + 24 * si_hostMemoryNum si) (24 * length (si_peerMemories si)) =
        concat (map enc_peer (si_peerMemories si))"
    using w2(3,4) [OF nu] range_untouched [OF w3(2), of "b + 192" "24 * si_hostMemoryNum si"]
      range_untouched [OF w3(2), of "b + 192 + 24 * si_hostMemoryNum si" "24 * length (si_peerMemories si)"] te
    by (simp add: table_end_def)
  ultimately show "block_ready mem env si (tables env s) (rd_world t) b i"
    using w3(3) r by (simp add: block_ready_def Let_def)
qed

lemma block_ready_untouched:
  assumes "laid_out si" "writes_in mem lo hi s t" "b + GetBlockSize (ie_soc env) (si_globalHead si) i \<le> lo \<or> hi \<le> b"
    "block_ready mem env si hosts (rd_world s) b i"
  shows "block_ready mem env si hosts (rd_world t) b i"
proof -
  let ?g = "si_globalHead si"
  have te: "192 + 24 * si_hostMemoryNum si + 24 * length (si_peerMemories si) \<le> GetBlockSize (ie_soc env) ?g i"
    using assms(1) GetBlockSize_head [of ?g "ie_soc env" i] by (simp add: laid_out_def Let_def table_end_def)
  have same: "mem_range mem (rd_world t) (b + p) n = mem_range mem (rd_world s) (b + p) n"
    if "p + n \<le> GetBlockSize (ie_soc env) ?g i" for p n
    using range_untouched [OF assms(2), of "b + p" n] assms(3) that by auto
  show ?thesis
    using assms(4) same [of 0 192] same [of 192 "24 * si_hostMemoryNum si"]
      same [of "192 + 24 * si_hostMemoryNum si" "24 * length (si_peerMemories si)"]
      same [of "oi_offset (po_simtErrorInfo (gh_offsetInfo ?g))" "GetAllThreadSize ?g"] thread_heads_inside [OF assms(1)] te
    by (auto simp: block_ready_def Let_def thread_heads_clear_def ac_simps)
qed

definition block_base :: "string \<Rightarrow> RecordGlobalHead \<Rightarrow> ptr \<Rightarrow> nat list \<Rightarrow> nat \<Rightarrow> ptr" where
  \<comment> \<open>where the \<open>j\<close>-th of the blocks \<open>is\<close> begins\<close>
  "block_base soc g b blocks j = b + sum_list (map (GetBlockSize soc g) (take j blocks))"

lemma block_base_end:
  assumes "i < n"
  shows "block_base soc g b [0..<n] i + GetBlockSize soc g i \<le> b + sum_list (map (GetBlockSize soc g) [0..<n])"
proof -
  have "[0..<n] = [0..<i] @ i # [Suc i..<n]" using assms upt_add_eq_append [of 0 i "n - i"] by (simp add: upt_conv_Cons)
  then have "sum_list (map (GetBlockSize soc g) [0..<n]) =
      sum_list (map (GetBlockSize soc g) [0..<i]) + (GetBlockSize soc g i + sum_list (map (GetBlockSize soc g) [Suc i..<n]))"
    by simp
  then show ?thesis using assms by (simp add: block_base_def)
qed

lemma init_blocks_in:
  assumes law: "write_law api mem" "memset_law api mem" and l: "laid_out si"
    and n: "length (MergeHostMems (rs_mm (rd_reports s))) = si_hostMemoryNum si"
    and run: "init_blocks api env si b blocks s = (ok, t)"
  shows "ok \<and> writes_in mem b (b + sum_list (map (GetBlockSize (ie_soc env) (si_globalHead si)) blocks)) s t \<and>
    (\<forall>j < length blocks. block_ready mem env si (tables env s) (rd_world t)
       (block_base (ie_soc env) (si_globalHead si) b blocks j) (blocks ! j))"
  using n run
proof (induction blocks arbitrary: b s)
  case Nil
  then show ?case by simp
next
  case (Cons i blocks)
  let ?sz = "GetBlockSize (ie_soc env) (si_globalHead si)"
  obtain ok1 u where u: "init_block api env si b i s = (ok1, u)" by (meson surj_pair)
  note w = init_block_in [OF law l Cons.prems(1) u]
  have fr: "rs_mm (rd_reports u) = rs_mm (rd_reports s)" using writes_in_frame [OF w(2)] by simp
  have "init_blocks api env si (b + ?sz i) blocks u = (ok, t)" using Cons.prems(2) u w(1) by simp
  from Cons.IH [OF _ this, unfolded fr, OF Cons.prems(1)]
  have IH: "ok" "writes_in mem (b + ?sz i) (b + ?sz i + sum_list (map ?sz blocks)) u t"
    "\<And>j. j < length blocks \<Longrightarrow> block_ready mem env si (tables env s) (rd_world t)
       (block_base (ie_soc env) (si_globalHead si) (b + ?sz i) blocks j) (blocks ! j)" by auto
  have "writes_in mem b (b + sum_list (map ?sz (i # blocks))) s t"
    using writes_in_trans [OF writes_in_mono [OF w(2)] writes_in_mono [OF IH(2)]] by simp
  moreover have "block_ready mem env si (tables env s) (rd_world t) b i"
    by (rule block_ready_untouched [OF l IH(2) _ w(3)]) simp
  ultimately show ?case using IH(1,3) by (auto simp: block_base_def nth_Cons less_Suc_eq_0_disj ac_simps)
qed

lemma BlockHeadsH2D_in:
  assumes law: "write_law api mem" "memset_law api mem" and l: "laid_out si"
    and n: "length (MergeHostMems (rs_mm (rd_reports s))) = si_hostMemoryNum si"
    and run: "BlockHeadsH2D api env si p s = (ok, t)"
  defines "g \<equiv> si_globalHead si"
  defines "tot \<equiv> ki_totalBlockDim (gh_kernelInfo g)"
  shows "ok" "writes_in mem p (p + sizeof_RecordGlobalHead + sum_list (map (GetBlockSize (ie_soc env) g) [0..<tot])) s t"
    "mem_range mem (rd_world t) p sizeof_RecordGlobalHead = enc_global g"
    "i < tot \<Longrightarrow> block_ready mem env si (tables env s) (rd_world t)
       (block_base (ie_soc env) g (p + sizeof_RecordGlobalHead) [0..<tot] i) i"
proof -
  obtain e1 u where u: "on_world (api_write api p (enc_global g)) s = (e1, u)" by (meson surj_pair)
  have len: "sizeof_RecordGlobalHead = length (enc_global g)"
    using l by (simp add: length_enc_global laid_out_def Let_def g_def)
  note w1 = api_write_in [OF law(1) u len]
  have fr: "rs_mm (rd_reports u) = rs_mm (rd_reports s)" using writes_in_frame [OF w1(2)] by simp
  have run': "init_blocks api env si (p + sizeof_RecordGlobalHead) [0..<tot] u = (ok, t)"
    using run u w1(1) by (simp add: BlockHeadsH2D_def flip: g_def tot_def)
  note w2 = init_blocks_in [OF law l _ run', unfolded fr, OF n, folded g_def]
  show ok using w2 by simp
  show "writes_in mem p (p + sizeof_RecordGlobalHead + sum_list (map (GetBlockSize (ie_soc env) g) [0..<tot])) s t"
    by (rule writes_in_trans [OF writes_in_mono [OF w1(2)] writes_in_mono [of mem "p + sizeof_RecordGlobalHead"]]) (use w2 in auto)
  show "mem_range mem (rd_world t) p sizeof_RecordGlobalHead = enc_global g"
    using w1(3) range_untouched [of mem _ _ u t p sizeof_RecordGlobalHead] w2 by auto
  show "i < tot \<Longrightarrow> block_ready mem env si (tables env s) (rd_world t)
       (block_base (ie_soc env) g (p + sizeof_RecordGlobalHead) [0..<tot] i) i"
    using w2 by auto
qed

section \<open>The blocks fill the buffer\<close>

lemma sum_targets:
  assumes "card T \<le> k" "finite T" "0 < c"
  shows "(\<Sum>i\<leftarrow>[0..<n]. if i \<in> T then c else 1) + k \<le> c * k + (n :: nat)"
proof -
  have e: "(\<Sum>i\<leftarrow>[0..<n]. if i \<in> T then c else (1 :: nat)) = (\<Sum>i<n. if i \<in> T then c else 1)"
    by (simp add: sum_list_sum_nth lessThan_atLeast0)
  have "(\<Sum>i<n. if i \<in> T then c else (1 :: nat)) = (\<Sum>i<n. 1 + (if i \<in> T then c - 1 else 0))"
    using assms(3) by (intro sum.cong) auto
  also have "\<dots> = n + (c - 1) * card ({..<n} \<inter> T)" by (simp only: sum.distrib sum.If_cases finite_lessThan sum_constant sum.neutral_const card_lessThan) simp
  also have "\<dots> \<le> n + (c - 1) * k"
    using order_trans [OF card_mono [OF assms(2), of "{..<n} \<inter> T"] assms(1)] by simp
  also have "(c - 1) * k + k = c * k" using assms(3) by (cases c) simp_all
  then have "n + (c - 1) * k = c * k + n - k" by linarith
  finally show ?thesis using e \<open>(c - 1) * k + k = c * k\<close> by linarith
qed

lemma target_blocks:
  "finite {i. IsTargetBlockIdx soc c i} \<and>
   card {i. IsTargetBlockIdx soc c i} \<le> (if HasSubBlocks (GetDeviceTypeBySocVersion soc) then 2 else 1)"
proof (cases "HasSubBlocks (GetDeviceTypeBySocVersion soc)")
  case True
  define a where "a = (c sdiv 2 * 3 + c smod 2) mod 2 ^ 64"
  define b where "b = (c * 3 + 2) mod 2 ^ 64"
  have sub: "{i. IsTargetBlockIdx soc c i} \<subseteq> {nat a, nat b}"
    using True unfolding IsTargetBlockIdx_def a_def [symmetric] b_def [symmetric] by auto
  have "card {nat a, nat b} \<le> 2" by (simp add: card_insert_if)
  then show ?thesis using True card_mono [OF _ sub] finite_subset [OF sub] by fastforce
next
  case False
  have sub: "{i. IsTargetBlockIdx soc c i} \<subseteq> {nat (c mod 2 ^ 64)}"
    using False by (auto simp: IsTargetBlockIdx_def)
  then show ?thesis using False card_mono [OF _ sub] finite_subset [OF sub] by simp
qed

lemma AssignMemSize_ok:
  assumes "AssignMemSize head blockDim (GetDeviceTypeBySocVersion soc) = (True, g)" "0 < blockDim"
  defines "c \<equiv> cp_cacheSize (gh_checkParms g)"
  shows "0 < c" "c \<le> 8192" "g = head\<lparr>gh_kernelInfo := gh_kernelInfo g\<rparr>"
    and "cp_checkBlockId (gh_checkParms g) = CHECK_ALL_BLOCK \<Longrightarrow>
      sum_list (map (GetBlockSize soc g) [0..<ki_totalBlockDim (gh_kernelInfo g)]) + sizeof_RecordGlobalHead = record_size g"
    and "sum_list (map (GetBlockSize soc g) [0..<ki_totalBlockDim (gh_kernelInfo g)]) + sizeof_RecordGlobalHead \<le> record_size g"
    and "ki_totalBlockDim (gh_kernelInfo g) = (if HasSubBlocks (GetDeviceTypeBySocVersion soc) then 3 * blockDim else blockDim)"
proof -
  let ?sub = "HasSubBlocks (GetDeviceTypeBySocVersion soc)"
  define h where "h = po_blockHeadSize (gh_offsetInfo g)"
  define id where "id = cp_checkBlockId (gh_checkParms g)"
  define n where "n = ki_totalBlockDim (gh_kernelInfo g)"
  define k where "k = (if ?sub then 2 else 1 :: nat)"
  have g: "0 < c" "c \<le> 8192" "g = head\<lparr>gh_kernelInfo := gh_kernelInfo g\<rparr>" "k \<le> n"
    "ki_totalCacheSize (gh_kernelInfo g) = (if id = CHECK_ALL_BLOCK then c * n else c * k + (n - k))"
    using assms(1,2)
    by (auto simp: AssignMemSize_def Let_def c_def id_def n_def k_def C220_MIX_SUB_BLOCKDIM_def
        SINGLE_CHECK_OTHER_BLOCK_CACHE_SIZE_def MAX_RECORD_BUF_SIZE_EACH_BLOCK_def)
  then show "0 < c" "c \<le> 8192" "g = head\<lparr>gh_kernelInfo := gh_kernelInfo g\<rparr>" by simp_all
  show "ki_totalBlockDim (gh_kernelInfo g) = (if ?sub then 3 * blockDim else blockDim)"
    using assms(1) by (auto simp: AssignMemSize_def Let_def C220_MIX_SUB_BLOCKDIM_def)
  have sz: "GetBlockSize soc g = (\<lambda>i. h + (if id = CHECK_ALL_BLOCK \<or> IsTargetBlockIdx soc id i then c else 1) * MB_TO_BYTES)"
    by (rule ext) (simp add: GetBlockSize_def Let_def h_def id_def c_def SINGLE_CHECK_OTHER_BLOCK_CACHE_SIZE_def)
  have sum: "sum_list (map (GetBlockSize soc g) [0..<n]) =
      (\<Sum>i\<leftarrow>[0..<n]. if id = CHECK_ALL_BLOCK \<or> IsTargetBlockIdx soc id i then c else 1) * MB_TO_BYTES + n * h"
    unfolding sz by (simp add: sum_list_addf sum_list_mult_const sum_list_triv)
  have all: "(\<Sum>i\<leftarrow>[0..<n]. if id = CHECK_ALL_BLOCK \<or> IsTargetBlockIdx soc id i then c else 1) = ki_totalCacheSize (gh_kernelInfo g)"
    if "id = CHECK_ALL_BLOCK" using that g(5) by (simp add: sum_list_triv)
  have le: "(\<Sum>i\<leftarrow>[0..<n]. if id = CHECK_ALL_BLOCK \<or> IsTargetBlockIdx soc id i then c else 1) \<le> ki_totalCacheSize (gh_kernelInfo g)"
  proof (cases "id = CHECK_ALL_BLOCK")
    case False
    then show ?thesis
      using sum_targets [of "{i. IsTargetBlockIdx soc id i}" k c n] target_blocks [of soc id] g(1,4,5) by (simp add: k_def)
  qed (use all in simp)
  show "sum_list (map (GetBlockSize soc g) [0..<ki_totalBlockDim (gh_kernelInfo g)]) + sizeof_RecordGlobalHead \<le> record_size g"
    using le unfolding n_def [symmetric] sum record_size_def h_def [symmetric] by simp
  show "sum_list (map (GetBlockSize soc g) [0..<ki_totalBlockDim (gh_kernelInfo g)]) + sizeof_RecordGlobalHead = record_size g"
    if "cp_checkBlockId (gh_checkParms g) = CHECK_ALL_BLOCK"
    using all [unfolded id_def, OF that] unfolding n_def [symmetric] sum record_size_def h_def [symmetric] id_def by simp
qed

lemma head_size_bounds:
  assumes "n < 2 ^ 32" "k < 2 ^ 32"
  shows "192 + 24 * n + 24 * k \<le> GetRecordHeadSize n k"
proof -
  define m where "m = 192 + n * 24 + k * 24"
  have "24 * n < 24 * 2 ^ 32" "24 * k < 24 * 2 ^ 32" using assms by simp_all
  then have "m + 64 \<le> 2 ^ 64" by (simp add: m_def)
  then have "CeilByAlignSize64 64 m = (m + 64 - 1) div 64 * 64" by (intro CeilByAlignSize64_eq) simp_all
  moreover have "(m + 64 - 1) div 64 * 64 + (m + 64 - 1) mod 64 = m + 64 - 1" "(m + 64 - 1) mod 64 < 64"
    by (rule div_mult_mod_eq) simp
  ultimately have "m \<le> CeilByAlignSize64 64 m" by linarith
  then show ?thesis
    unfolding GetRecordHeadSize_def CACHE_LINE_SIZE_def sizeof_RecordBlockHead_def sizeof_HostMemoryInfo_def sizeof_PeerMemoryInfo_def m_def
    by linarith
qed

lemma simt_layout_head [simp]: "po_blockHeadSize (simt_layout n h) = h"
  by (simp add: simt_layout_def layout_of_def Let_def)

lemma AssignSimtVfInfo_parms: "gh_checkParms (AssignSimtVfInfo u g) = gh_checkParms g"
  by (simp add: AssignSimtVfInfo_def Let_def)

lemma AssignGlobalHead_ok:
  assumes law: "copyHost_law api" and run: "AssignGlobalHead api env si s = (True, si', s')"
    and regs: "length (rd_registers s) = 108 * 512" and n: "si_hostMemoryNum si < 2 ^ 32" and dim: "0 < si_blockDim si"
    and simt: "SupportSimt (GetDeviceTypeBySocVersion (ie_soc env)) \<longrightarrow> 17 \<le> sc_cacheSize (ie_config env)"
    and init: "gh_offsetInfo (si_globalHead si) = gh_offsetInfo gh0"
  shows "laid_out si'"
    and "si' = si\<lparr>si_globalHead := si_globalHead si'\<rparr>"
    and "s' = s\<lparr>rd_world := snd (api_copyHost api (rd_registers s) (rd_world s))\<rparr>"
    and "sum_list (map (GetBlockSize (ie_soc env) (si_globalHead si')) [0..<ki_totalBlockDim (gh_kernelInfo (si_globalHead si'))])
      + sizeof_RecordGlobalHead \<le> record_size (si_globalHead si')"
    and "gh_checkParms (si_globalHead si') = check_parms (ie_config env)"
    and "ki_totalBlockDim (gh_kernelInfo (si_globalHead si')) =
      (if HasSubBlocks (GetDeviceTypeBySocVersion (ie_soc env)) then 3 * si_blockDim si else si_blockDim si)"
proof -
  let ?dt = "GetDeviceTypeBySocVersion (ie_soc env)"
  obtain w where w: "api_copyHost api (rd_registers s) (rd_world s) = ((ACL_SUCCESS, rd_registers s), w)"
    using law unfolding copyHost_law_def by (metis prod.collapse)
  obtain e l2 where l2: "(if IsC220Arch ?dt then ie_l2Offset env (ie_device env) w else (0, 0)) = (e, l2)" by (meson surj_pair)
  define h where "h = GetRecordHeadSize (si_hostMemoryNum si) (length (si_peerMemories si))"
  define g1 where "g1 = assigned_head env si (rd_registers s) l2 h"
  obtain ok g where m: "AssignMemSize g1 (si_blockDim si) ?dt = (ok, g)" by (meson surj_pair)
  have r: "length (si_peerMemories si) < 2 ^ 32" "h < 2 ^ 32" "ok" "si' = si\<lparr>si_globalHead := g\<rparr>" "s' = s\<lparr>rd_world := w\<rparr>"
    using run unfolding AssignGlobalHead_def Let_def w prod.case l2 h_def [symmetric] g1_def [symmetric] m
    by (auto simp: ACL_SUCCESS_def split: if_splits)
  note mem = AssignMemSize_ok [OF m [unfolded eqTrueI [OF r(3)]] dim]
  have parms: "gh_checkParms g = gh_checkParms g1" by (subst mem(3)) simp
  have te: "table_end si' \<le> h" using head_size_bounds [OF n r(1)] by (simp add: table_end_def r(4) h_def)
  have g1: "gh_registers g1 = rd_registers s \<and> gh_supportSimt g1 = SupportSimt ?dt \<and> po_blockHeadSize (gh_offsetInfo g1) = h \<and>
      gh_checkParms g1 = check_parms (ie_config env) \<and>
      gh_offsetInfo g1 = (if SupportSimt ?dt then simt_layout (sc_cacheSize (ie_config env)) h
        else (gh_offsetInfo gh0)\<lparr>po_blockHeadSize := h\<rparr>)"
  proof (cases "SupportSimt ?dt")
    case False
    then show ?thesis by (simp add: g1_def assigned_head_def init)
  next
    case True
    define g0 where "g0 = (si_globalHead si)\<lparr>gh_registers := rd_registers s, gh_checkParms := check_parms (ie_config env),
        gh_kernelInfo := (gh_kernelInfo (si_globalHead si))\<lparr>ki_l2CacheOffset := l2, ki_kernelType := si_kernelType si,
          ki_kernelParamNum := kv_paramNum (ie_kernel env)\<rparr>,
        gh_supportSimt := SupportSimt ?dt, gh_offsetInfo := (gh_offsetInfo (si_globalHead si))\<lparr>po_blockHeadSize := h\<rparr>\<rparr>"
    have g0: "gh_registers g0 = rd_registers s" "gh_supportSimt g0" "po_blockHeadSize (gh_offsetInfo g0) = h"
      "gh_checkParms g0 = check_parms (ie_config env)" "cp_cacheSize (gh_checkParms g0) = sc_cacheSize (ie_config env)"
      using True by (simp_all add: g0_def check_parms_def)
    have e: "g1 = AssignSimtVfInfo (launch_ubDynamicSize env) g0"
      using True by (simp add: g1_def assigned_head_def g0_def)
    have "gh_checkParms g = check_parms (ie_config env)" unfolding parms e by (simp add: AssignSimtVfInfo_parms g0)
    then have "sc_cacheSize (ie_config env) \<le> 8192" using mem(2) by (simp add: check_parms_def)
    then show ?thesis
      unfolding e using AssignSimtVfInfo_layout [of g0 "launch_ubDynamicSize env"] mp [OF simt True] r(2) g0 True by (simp add: g0_def)
  qed
  then have "gh_checkParms g = check_parms (ie_config env)" "cp_cacheSize (gh_checkParms g) = sc_cacheSize (ie_config env)"
    using parms by (simp_all add: check_parms_def)
  moreover have "gh_registers g = rd_registers s" "gh_supportSimt g = SupportSimt ?dt" "gh_offsetInfo g = gh_offsetInfo g1"
    using g1 by (subst mem(3), simp)+
  ultimately show "laid_out si'" "gh_checkParms (si_globalHead si') = check_parms (ie_config env)"
    using mem(1,2) te g1 r simt regs by (auto simp: laid_out_def Let_def)
  show "sum_list (map (GetBlockSize (ie_soc env) (si_globalHead si')) [0..<ki_totalBlockDim (gh_kernelInfo (si_globalHead si'))])
      + sizeof_RecordGlobalHead \<le> record_size (si_globalHead si')"
    using mem(5) by (simp add: r(4))
  show "ki_totalBlockDim (gh_kernelInfo (si_globalHead si')) = (if HasSubBlocks ?dt then 3 * si_blockDim si else si_blockDim si)"
    using mem(6) by (simp add: r(4))
  show "si' = si\<lparr>si_globalHead := si_globalHead si'\<rparr>" by (simp add: r)
  show "s' = s\<lparr>rd_world := snd (api_copyHost api (rd_registers s) (rd_world s))\<rparr>" by (simp add: r w)
qed

lemma AssignMemSize_same: "AssignMemSize head n dt = (ok, g) \<Longrightarrow> g = head\<lparr>gh_kernelInfo := gh_kernelInfo g\<rparr>"
  by (auto simp: AssignMemSize_def Let_def)

lemma AssignGlobalHead_fields:
  assumes "AssignGlobalHead api env si s = (True, si', s')"
  shows "\<exists>registers l2 h. AssignMemSize (assigned_head env si registers l2 h) (si_blockDim si) (GetDeviceTypeBySocVersion (ie_soc env)) =
    (True, si_globalHead si')"
  using assms unfolding AssignGlobalHead_def Let_def by (fastforce split: prod.splits if_splits)

section \<open>The whole preparation\<close>

definition launch_law :: "'w acl_api \<Rightarrow> ('w \<Rightarrow> ptr \<Rightarrow> byte) \<Rightarrow> bool" where
  \<comment> \<open>copies arrive and the other calls leave the contents alone\<close>
  "launch_law api mem \<longleftrightarrow>
     write_law api mem \<and> memset_law api mem \<and> copyHost_law api \<and>
     (\<forall>w. mem (snd (api_getDevice api w)) = mem w) \<and> (\<forall>p w. mem (snd (api_free api p w)) = mem w) \<and>
     (\<forall>n p w. mem (snd (api_malloc api n p w)) = mem w) \<and> (\<forall>bs w. mem (snd (api_copyHost api bs w)) = mem w)"

lemma flat_launch_law: "launch_law flat_api fl_mem"
  unfolding launch_law_def using flat_write_law flat_memset_law flat_copyHost_law by (auto simp: flat_api_def Let_def)

lemma MallocMemory_ok:
  assumes "launch_law api mem" "MallocMemory api n d w = ((ACL_SUCCESS, p), d', w')"
  shows "p = Some (dm_memPtr d')" "n \<le> dm_memSize d'" "mem w' = mem w"
proof -
  obtain r dev w1 where g: "api_getDevice api w = ((r, dev), w1)" by (metis prod.exhaust)
  have 1: "mem w1 = mem w" using assms(1) g unfolding launch_law_def by (metis snd_conv)
  have r: "r = ACL_SUCCESS" using assms(2) by (auto simp: MallocMemory_def g ACL_ERROR_BAD_ALLOC_def ACL_SUCCESS_def split: if_splits)
  have "p = Some (dm_memPtr d') \<and> n \<le> dm_memSize d' \<and> mem w' = mem w"
  proof (cases "dev = dm_deviceId d \<and> n \<le> dm_memSize d")
    case True
    then show ?thesis using assms(2) 1 by (auto simp: MallocMemory_def g r)
  next
    case False
    obtain d2 w2 where f: "dm_Free api d w1 = (d2, w2)" by (meson surj_pair)
    have 2: "mem w2 = mem w1"
      using f assms(1) by (auto simp: dm_Free_def Let_def launch_law_def split: if_splits)
    obtain e q w3 where m: "api_malloc api n ACL_MEM_MALLOC_HUGE_FIRST w2 = ((e, q), w3)" by (metis prod.exhaust)
    have 3: "mem w3 = mem w2" using assms(1) m unfolding launch_law_def by (metis snd_conv)
    show ?thesis using assms(2) False 1 2 3 by (auto simp: MallocMemory_def g r f m Let_def split: if_splits)
  qed
  then show "p = Some (dm_memPtr d')" "n \<le> dm_memSize d'" "mem w' = mem w" by simp_all
qed

lemma Process_ready:
  assumes law: "launch_law api mem" and skip: "\<not> dm_isSkipKernel (rd_dev s)"
    and regs: "length (rd_registers s) = 108 * 512" and n: "si_hostMemoryNum si < 2 ^ 32"
    and hosts: "length (MergeHostMems (rs_mm (rd_reports s))) = si_hostMemoryNum si" and dim: "0 < si_blockDim si"
    and simt: "SupportSimt (GetDeviceTypeBySocVersion (ie_soc env)) \<longrightarrow> 17 \<le> sc_cacheSize (ie_config env)"
    and init: "gh_offsetInfo (si_globalHead si) = gh_offsetInfo gh0"
    and run: "SanitizerLaunchInit_Process api env si s = (Some p, t)"
  shows "\<exists>g. gh_checkParms g = check_parms (ie_config env) \<and>
    ki_totalBlockDim (gh_kernelInfo g) = (if HasSubBlocks (GetDeviceTypeBySocVersion (ie_soc env)) then 3 * si_blockDim si else si_blockDim si) \<and>
    laid_out (si\<lparr>si_globalHead := g\<rparr>) \<and> rd_blocks t = rd_blocks s \<and> dm_isMemoryInit (rd_dev t) \<and> dm_memPtr (rd_dev t) = p \<and>
    record_size g \<le> dm_memSize (rd_dev t) \<and>
    (\<forall>a. a < p \<or> p + record_size g \<le> a \<longrightarrow> mem (rd_world t) a = mem (rd_world s) a) \<and>
    mem_range mem (rd_world t) p sizeof_RecordGlobalHead = enc_global g \<and>
    (\<forall>i < ki_totalBlockDim (gh_kernelInfo g).
       block_base (ie_soc env) g (p + sizeof_RecordGlobalHead) [0..<ki_totalBlockDim (gh_kernelInfo g)] i + GetBlockSize (ie_soc env) g i
         \<le> p + record_size g \<and>
       block_ready mem env (si\<lparr>si_globalHead := g\<rparr>) (tables env s) (rd_world t)
         (block_base (ie_soc env) g (p + sizeof_RecordGlobalHead) [0..<ki_totalBlockDim (gh_kernelInfo g)] i) i)"
proof -
  have laws: "write_law api mem" "memset_law api mem" "copyHost_law api"
    and same: "\<And>bs w. mem (snd (api_copyHost api bs w)) = mem w" using law by (simp_all add: launch_law_def)
  obtain ok si' s1 where a: "AssignGlobalHead api env si s = (ok, si', s1)" by (metis prod.exhaust)
  have ok: "ok" using run skip a by (cases ok) (simp_all add: SanitizerLaunchInit_Process_def)
  note A = AssignGlobalHead_ok [OF laws(3) a [unfolded eqTrueI [OF ok]] regs n dim simt init]
  define g where "g = si_globalHead si'"
  obtain e q s2 where m: "on_dev (MallocMemory api (record_size g)) s1 = ((e, q), s2)" by (metis prod.exhaust)
  have e: "e = ACL_SUCCESS" by (rule ccontr) (use run skip a ok m in \<open>simp add: SanitizerLaunchInit_Process_def flip: g_def\<close>)
  obtain d w where dw: "MallocMemory api (record_size g) (rd_dev s1) (rd_world s1) = ((e, q), d, w)"
    and s2: "s2 = s1\<lparr>rd_dev := d, rd_world := w\<rparr>" using m by (auto simp: on_dev_def split: prod.splits)
  note M = MallocMemory_ok [OF law dw [unfolded e]]
  obtain ok2 s3 where b: "BlockHeadsH2D api env si' (the q) s2 = (ok2, s3)" by (meson surj_pair)
  have hosts': "length (MergeHostMems (rs_mm (rd_reports s2))) = si_hostMemoryNum si'" "tables env s2 = tables env s"
    using hosts A(3) by (simp_all add: s2 arg_cong [OF A(2), of si_hostMemoryNum])
  note B = BlockHeadsH2D_in [OF laws(1,2) A(1) hosts'(1) b, folded g_def, unfolded hosts'(2)]
  have fin: "p = the q" "t = (if dm_isMemoryInit (rd_dev s3) then s3 else s3\<lparr>rd_dev := SetMemoryInitFlag True (rd_dev s3)\<rparr>)"
    using run skip a ok m e b B(1) M(1)
    by (simp_all add: SanitizerLaunchInit_Process_def flip: g_def split: if_splits)
  have p: "p = dm_memPtr d" using fin(1) M(1) by simp
  have s3: "s3 = s2\<lparr>rd_world := rd_world s3\<rparr>" using B(2) by (simp add: writes_in_def)
  have d3: "rd_dev s3 = d" by (subst s3) (simp add: s2)
  have fits: "sizeof_RecordGlobalHead + sum_list (map (GetBlockSize (ie_soc env) g) [0..<ki_totalBlockDim (gh_kernelInfo g)]) \<le> record_size g"
    using A(4) by (simp flip: g_def)
  have t: "rd_world t = rd_world s3" "dm_isMemoryInit (rd_dev t)" "dm_memPtr (rd_dev t) = p" "record_size g \<le> dm_memSize (rd_dev t)"
    using fin(2) M(2) by (simp_all add: d3 p SetMemoryInitFlag_def)
  have si': "si' = si\<lparr>si_globalHead := g\<rparr>" unfolding g_def by (rule A(2))
  have "mem (rd_world t) a = mem (rd_world s) a" if "a < p \<or> p + record_size g \<le> a" for a
    using B(2) that fits M(3) same [of "rd_registers s" "rd_world s"] A(3) by (auto simp: t writes_in_def s2 fin(1))
  moreover have "block_base (ie_soc env) g (p + sizeof_RecordGlobalHead) [0..<ki_totalBlockDim (gh_kernelInfo g)] i
      + GetBlockSize (ie_soc env) g i \<le> p + record_size g" if "i < ki_totalBlockDim (gh_kernelInfo g)" for i
    using block_base_end [OF that, of "ie_soc env" g "p + sizeof_RecordGlobalHead"] fits by linarith
  moreover have "mem_range mem (rd_world t) p sizeof_RecordGlobalHead = enc_global g" using B(3) by (simp add: t fin(1))
  moreover have "block_ready mem env (si\<lparr>si_globalHead := g\<rparr>) (tables env s) (rd_world t)
         (block_base (ie_soc env) g (p + sizeof_RecordGlobalHead) [0..<ki_totalBlockDim (gh_kernelInfo g)] i) i"
    if "i < ki_totalBlockDim (gh_kernelInfo g)" for i
    using B(4) [OF that] by (simp add: t fin(1) flip: si')
  moreover have "rd_blocks s3 = rd_blocks s" by (subst s3) (simp add: s2 A(3))
  then have "rd_blocks t = rd_blocks s" using fin(2) by simp
  moreover have "laid_out (si\<lparr>si_globalHead := g\<rparr>)" using A(1) by (simp flip: si')
  ultimately show ?thesis using A(5,6) t(2,3,4) by (intro exI [of _ g]) (simp add: g_def)
qed

text \<open>Without shadow memory the entries are placed from the start of the block on, in its head.\<close>

lemma simt_entry_in_head:
  assumes "17 \<le> cp_cacheSize (gh_checkParms g)" "cp_cacheSize (gh_checkParms g) < 40"
    and "192 \<le> po_blockHeadSize (gh_offsetInfo g)" "po_blockHeadSize (gh_offsetInfo g) < 2 ^ 32"
  shows "oi_offset (po_simtEntryInfo (gh_offsetInfo (AssignSimtVfInfo u g))) = 64"
    and "oi_offset (po_simtEntryInfo (gh_offsetInfo (AssignSimtVfInfo u g))) < po_blockHeadSize (gh_offsetInfo (AssignSimtVfInfo u g))"
  using assms by (simp_all add: AssignSimtVfInfo_layout) (simp_all add: simt_layout_def layout_of_def Let_def no_region_def AlignDownSize_def)

section \<open>A launch on the flat memory\<close>

lemma launch_chip: "GetDeviceTypeBySocVersion ''Ascend950DT_950x'' = 11"
  by (simp add: GetDeviceTypeBySocVersion_def GetProductTypeBySocVersion_def SOC_STRING_TO_CHIP_PRODUCT_def
      CHIP_PRODUCT_TO_DEVICE_TYPE_def)

definition launch_config :: "nat \<Rightarrow> SanitizerConfig" where
  "launch_config cache = \<lparr>sc_defaultCheck = False, sc_memCheck = True, sc_raceCheck = False, sc_initCheck = False, sc_syncCheck = False,
     sc_registerCheck = False, sc_checkDcci = False, sc_outOfBoundCheck = False, sc_checkBlockId = CHECK_ALL_BLOCK,
     sc_cacheSize = cache, sc_kernelName = [], sc_gmBufferGuardSize = 64\<rparr>"

definition launch_env :: "nat \<Rightarrow> flat init_env" where
  "launch_env cache = \<lparr>ie_layers = [], ie_soc = ''Ascend950DT_950x'', ie_device = 0, ie_config = launch_config cache, ie_peers = [],
     ie_contexts = cx0, ie_kernel = \<lparr>kv_registerEvent = None, kv_launchName = None, kv_paramNum = 0, kv_memInfo = om0, kv_argsSize = 0,
       kv_ubDynamicSize = 0\<rparr>, ie_vendor = none_vendor, ie_l2Offset = (\<lambda>_ _. (0, 0))\<rparr>"

definition launch_start :: "flat record_state" where
  "launch_start = \<lparr>rd_dev = dm0, rd_registers = pad (108 * 512), rd_reports = report_start, rd_blocks = [], rd_world = flat0\<rparr>"

lemma assigned_head_parms:
  "gh_checkParms (assigned_head env si r l h) = check_parms (ie_config env)"
  "gh_supportSimt (assigned_head env si r l h) = SupportSimt (GetDeviceTypeBySocVersion (ie_soc env))"
  by (simp_all add: assigned_head_def Let_def AssignSimtVfInfo_def)

lemma launch_env_simps [simp]:
  "GetDeviceTypeBySocVersion (ie_soc (launch_env c)) = 11" "HasSubBlocks 11" "\<not> IsC220Arch 11" "SupportSimt 11"
  "ie_config (launch_env c) = launch_config c" "ie_peers (launch_env c) = []" "sc_cacheSize (launch_config c) = c"
  "cp_cacheSize (check_parms (launch_config c)) = c" "cp_checkBlockId (check_parms (launch_config c)) = CHECK_ALL_BLOCK"
  by (simp_all add: launch_env_def launch_chip launch_config_def check_parms_def HasSubBlocks_def SupportSimt_def IsC310Arch_def IsC220Arch_def
      ASCEND_950_START_def ASCEND_950_END_def ASCEND_910B_START_def ASCEND_910B_END_def)

lemma report_start_tables: "length (MergeHostMems (rs_mm report_start)) = 1" "GetMallocCount (rs_mm report_start) = 1"
  by (simp_all add: report_start_def CacheMemory_MALLOC_def mm0_def MergeHostMems_def ExtractValidMems_def hasExtra_def host_of_def
      hm_key_def wrap32_def GetMallocCount_def Let_def)

lemma launch_start_simps [simp]:
  "rd_registers launch_start = pad (108 * 512)" "rd_reports launch_start = report_start" "rd_dev launch_start = dm0" "rd_blocks launch_start = []"
  by (simp_all add: launch_start_def)

lemma launch_assigns:
  assumes "0 < c" "c \<le> 8000"
  defines "si \<equiv> SanitizerLaunchInit_Init (launch_env c) 1 launch_start"
  shows "\<exists>g. AssignGlobalHead flat_api (launch_env c) si launch_start = (True, si\<lparr>si_globalHead := g\<rparr>, launch_start) \<and>
    has_simt_part (ie_soc (launch_env c)) g 0 \<and> si_hostMemoryNum si = 1 \<and> record_size g < 2 ^ 40"
proof -
  have si: "si_hostMemoryNum si = 1" "si_peerMemories si = []" "si_blockDim si = 1"
    by (simp_all add: si_def SanitizerLaunchInit_Init_def report_start_tables)
  have head: "GetRecordHeadSize 1 0 = 256"
    by (simp add: GetRecordHeadSize_def CeilByAlignSize64_def wrap64_def protocol_sizes)
  obtain g where m: "AssignMemSize (assigned_head (launch_env c) si (pad (108 * 512)) 0 256) 1 11 = (True, g)"
    using assms(1,2) by (simp add: AssignMemSize_def Let_def assigned_head_parms C220_MIX_SUB_BLOCKDIM_def
        MAX_RECORD_BUF_SIZE_EACH_BLOCK_def MAX_RECORD_BUF_SIZE_ALL_BLOCK_def)
  have "AssignGlobalHead flat_api (launch_env c) si launch_start = (True, si\<lparr>si_globalHead := g\<rparr>, launch_start)"
    unfolding AssignGlobalHead_def Let_def
    by (simp add: flat_api_def launch_start_def ACL_SUCCESS_def si head [simplified] m [simplified])
  moreover have "has_simt_part (ie_soc (launch_env c)) g 0"
    by (subst AssignMemSize_ok(3) [of _ 1 "ie_soc (launch_env c)", unfolded launch_env_simps, OF m])
      (simp_all add: has_simt_part_def assigned_head_parms)
  moreover have "ki_totalBlockDim (gh_kernelInfo g) = 3" "ki_totalCacheSize (gh_kernelInfo g) = c * 3"
    using m by (auto simp: AssignMemSize_def Let_def assigned_head_parms C220_MIX_SUB_BLOCKDIM_def)
  moreover have "po_blockHeadSize (gh_offsetInfo g) = 256"
    by (subst AssignMemSize_same [OF m]) (simp add: assigned_head_def AssignSimtVfInfo_def Let_def)
  ultimately show ?thesis using si assms(2) by (auto simp: record_size_def protocol_sizes)
qed

lemma launch_runs: "\<exists>t. sanitizer_init flat_api (launch_env 17) 1 launch_start = (Some 4096, t) \<and> 4096 + dm_memSize (rd_dev t) < 2 ^ 64"
proof -
  define si where "si = SanitizerLaunchInit_Init (launch_env 17) 1 launch_start"
  obtain g where a: "AssignGlobalHead flat_api (launch_env 17) si launch_start = (True, si\<lparr>si_globalHead := g\<rparr>, launch_start)"
    and n: "si_hostMemoryNum si = 1" and size: "record_size g < 2 ^ 40" using launch_assigns [of 17] by (auto simp: si_def)
  define si' where "si' = si\<lparr>si_globalHead := g\<rparr>"
  have laid: "laid_out si'" unfolding si'_def
    by (rule AssignGlobalHead_ok(1) [OF flat_copyHost_law a]) (simp_all add: n, simp_all add: si_def SanitizerLaunchInit_Init_def)
  obtain w where mm: "on_dev (MallocMemory flat_api (record_size (si_globalHead si'))) launch_start = ((ACL_SUCCESS, Some 4096), w)"
     and w: "rs_mm (rd_reports w) = rs_mm report_start" "dm_memSize (rd_dev w) = record_size g"
    by (simp add: on_dev_def MallocMemory_def launch_start_def flat_api_def dm0_def dm_Free_def ACL_SUCCESS_def flat0_def Let_def si'_def)
  have hosts: "length (MergeHostMems (rs_mm (rd_reports w))) = si_hostMemoryNum si'"
    by (simp add: si'_def n report_start_tables w(1))
  obtain ok t where b: "BlockHeadsH2D flat_api (launch_env 17) si' 4096 w = (ok, t)" by (meson surj_pair)
  note B = BlockHeadsH2D_in(1,2) [OF flat_write_law flat_memset_law laid hosts b]
  have "rd_dev t = rd_dev w" using writes_in_frame [OF B(2)] by simp
  then show ?thesis
    unfolding sanitizer_init_def SanitizerLaunchInit_Process_def si_def [symmetric] a Let_def prod.case si'_def [symmetric] mm option.sel b
    using B(1) w(2) size by (simp add: CheckBlockDimValid_def MAX_BLOCKDIM_NUMS_def dm0_def SetMemoryInitFlag_def)
qed

section \<open>Properties\<close>



text \<open>
  C27: on a SIMT chip and with a cache from 40 to 8192 megabytes, \<open>AssignSimtVfInfo\<close> places the heads of the threads,
  the shadow memory and the entries behind the head of the block in this order, without overlap and inside the block,
  and the entries get a quarter of the cache at least.
\<close>

theorem simt_regions_disjoint:
  assumes "40 \<le> cp_cacheSize (gh_checkParms g)" "cp_cacheSize (gh_checkParms g) \<le> 8192" "po_blockHeadSize (gh_offsetInfo g) < 2 ^ 32"
  shows "let g' = AssignSimtVfInfo u g; l = gh_offsetInfo g'; cache = cp_cacheSize (gh_checkParms g) * MB_TO_BYTES;
      head = po_blockHeadSize (gh_offsetInfo g) in
    po_blockHeadSize l = head \<and> head \<le> oi_offset (po_simtErrorInfo l) \<and>
    oi_offset (po_simtErrorInfo l) + GetAllThreadSize g' \<le> oi_offset (po_shadowMemoryInfo l) \<and>
    oi_offset (po_shadowMemoryInfo l) + oi_size (po_shadowMemoryInfo l) \<le> oi_offset (po_simtEntryInfo l) \<and>
    oi_offset (po_simtEntryInfo l) + oi_size (po_simtEntryInfo l) \<le> cache + head \<and> cache \<le> 4 * oi_size (po_simtEntryInfo l)"
proof -
  have n: "cp_cacheSize (gh_checkParms g) \<le> 8192" "17 \<le> cp_cacheSize (gh_checkParms g)" using assms by simp_all
  show ?thesis
    using layout_bounds(1,5,6,7,8) [OF n assms(3)] assms(1)
    by (simp add: AssignSimtVfInfo_layout [OF n assms(3)] Let_def GetAllThreadSize_def sizeof_SimtRecordBlockHead_def SIMT_THREAD_MAX_SIZE_def)
qed

theorem simt_regions_disjoint_witness:
  "let g = gh0; g' = AssignSimtVfInfo 5 g; l = gh_offsetInfo g' in
     oi_offset (po_simtErrorInfo l) + GetAllThreadSize g' \<le> oi_offset (po_shadowMemoryInfo l) \<and>
     100 * MB_TO_BYTES \<le> 4 * oi_size (po_simtEntryInfo l)"
  using simt_regions_disjoint [of gh0 5] by (simp add: Let_def gh0_def)

text \<open>
  with a cache below 17 megabytes on a SIMT chip \<open>AssignSimtVfInfo\<close> leaves the regions at offset zero, and the
  preparation goes on: the heads of the threads are cleared at the start of each checked block, so the head that was
  written there is lost, and with a cache of one megabyte more is cleared than the block holds.
\<close>

theorem small_cache_wipes_head:
  assumes "write_law api mem" "memset_law api mem" and "SupportSimt (GetDeviceTypeBySocVersion (ie_soc env))"
    and "sc_cacheSize (ie_config env) < 17"
    and "AssignGlobalHead api env (SanitizerLaunchInit_Init env blockDim s) s = (True, si, s')"
    and "has_simt_part (ie_soc env) (si_globalHead si) i" and "length (MergeHostMems (rs_mm (rd_reports u))) = si_hostMemoryNum si"
    and "init_block api env si b i u = (ok, t)"
  shows "ok \<and> mem_range mem (rd_world t) b (832 * 2048) = replicate (832 * 2048) 0 \<and>
    (sc_cacheSize (ie_config env) = 1 \<and> po_blockHeadSize (gh_offsetInfo (si_globalHead si)) < 655360 \<longrightarrow>
      GetBlockSize (ie_soc env) (si_globalHead si) i < 832 * 2048)"
proof -
  define si0 where "si0 = SanitizerLaunchInit_Init env blockDim s"
  define g where "g = si_globalHead si"
  obtain registers l2 h where m: "AssignMemSize (assigned_head env si0 registers l2 h) (si_blockDim si0) (GetDeviceTypeBySocVersion (ie_soc env)) = (True, g)"
    using AssignGlobalHead_fields [OF assms(5)] by (auto simp: g_def si0_def)
  have c: "sc_cacheSize (ie_config env) \<le> 8192" "\<not> 17 \<le> sc_cacheSize (ie_config env)" using assms(4) by simp_all
  have small: "simt_bytes (sc_cacheSize (ie_config env) * MB_TO_BYTES) < sizeof_SimtRecordBlockHead"
    using simt_room_iff [OF c(1)] c(2) unfolding cache_parts(1) [OF c(1)] by linarith
  have "gh_offsetInfo g = gh_offsetInfo (assigned_head env si0 registers l2 h)" "gh_checkParms g = gh_checkParms (assigned_head env si0 registers l2 h)"
    by (subst AssignMemSize_same [OF m], simp)+
  then have o: "po_simtErrorInfo (gh_offsetInfo g) = no_region" "po_shadowMemoryInfo (gh_offsetInfo g) = no_region"
    and parms: "gh_checkParms g = check_parms (ie_config env)"
    using small by (simp_all add: assigned_head_parms) (simp_all add: assigned_head_def AssignSimtVfInfo_def Let_def check_parms_def si0_def
        SanitizerLaunchInit_Init_def gh0_def)
  have all: "GetAllThreadSize g = 832 * 2048"
    by (simp add: GetAllThreadSize_def o no_region_def sizeof_SimtRecordBlockHead_def SIMT_THREAD_MAX_SIZE_def)
  obtain e1 u1 where u1: "on_world (api_write api b (enc_block (block_head env si b))) u = (e1, u1)" by (meson surj_pair)
  note w1 = api_write_in [OF assms(1) u1 refl]
  obtain ok2 u2 where u2: "HostMallocH2D api env si b u1 = (ok2, u2)" by (meson surj_pair)
  have "length (MergeHostMems (rs_mm (rd_reports u1))) = si_hostMemoryNum si" using writes_in_frame [OF w1(2)] assms(7) by simp
  note w2 = HostMallocH2D_in(1) [OF assms(1) this u2]
  obtain e3 u3 where u3: "on_world (api_memset api b (832 * 2048) 0 (832 * 2048)) u2 = (e3, u3)" by (meson surj_pair)
  note w3 = api_memset_in [OF assms(2) u3]
  have part: "gh_supportSimt g" "cp_checkBlockId (gh_checkParms g) = CHECK_ALL_BLOCK \<or> IsTargetBlockIdx (ie_soc env) (cp_checkBlockId (gh_checkParms g)) i"
    using assms(6) by (simp_all add: has_simt_part_def Let_def g_def)
  have "SimtBlockHeadsH2D api (ie_soc env) g b i u2 = (True, u3)"
    unfolding SimtBlockHeadsH2D_def Let_def all o using part u3 w3(1) by (simp add: no_region_def)
  then have r: "ok" "t = u3" using assms(8) u1 w1(1) u2 w2 by (simp_all add: init_block_def g_def)
  have "GetBlockSize (ie_soc env) g i < 832 * 2048" if "sc_cacheSize (ie_config env) = 1" "po_blockHeadSize (gh_offsetInfo g) < 655360"
    using that by (simp add: GetBlockSize_def Let_def parms check_parms_def MB_TO_BYTES_def SINGLE_CHECK_OTHER_BLOCK_CACHE_SIZE_def)
  then show ?thesis using r w3(3) by (simp add: g_def)
qed

theorem small_cache_wipes_head_witness:
  "\<exists>si t. AssignGlobalHead flat_api (launch_env 1) (SanitizerLaunchInit_Init (launch_env 1) 1 launch_start) launch_start = (True, si, launch_start) \<and>
     init_block flat_api (launch_env 1) si 4096 0 launch_start = (True, t) \<and> mem_range fl_mem (rd_world t) 4096 (832 * 2048) = replicate (832 * 2048) 0"
proof -
  define si0 where "si0 = SanitizerLaunchInit_Init (launch_env 1) 1 launch_start"
  obtain g where a: "AssignGlobalHead flat_api (launch_env 1) si0 launch_start = (True, si0\<lparr>si_globalHead := g\<rparr>, launch_start)"
    and g: "has_simt_part (ie_soc (launch_env 1)) g 0" "si_hostMemoryNum si0 = 1" using launch_assigns [of 1] by (auto simp: si0_def)
  obtain ok t where b: "init_block flat_api (launch_env 1) (si0\<lparr>si_globalHead := g\<rparr>) 4096 0 launch_start = (ok, t)" by (meson surj_pair)
  have "ok \<and> mem_range fl_mem (rd_world t) 4096 (832 * 2048) = replicate (832 * 2048) 0"
    using small_cache_wipes_head [OF flat_write_law flat_memset_law _ _ a [unfolded si0_def] _ _ b [unfolded si0_def]] g
    by (simp add: report_start_tables si0_def)
  then show ?thesis using a b by (auto simp: si0_def)
qed

end
