(* ===== verification/LaunchFinalize.thy ===== *)
theory LaunchFinalize
  imports LaunchRecords
begin

text \<open>
  What \<open>SanitizerLaunchFinalize\<close> of LaunchInit sends: for each block, in order, the global head, the head of the
  block, its records and, on a SIMT chip, the heads of the threads and the entries.
\<close>

section \<open>The host buffer\<close>

definition sent :: "SanitizerLaunchFinalize \<Rightarrow> bytes" where
  "sent f = map (sf_host f) [0..<sf_sendMemorySize f]"

lemma length_sent [simp]: "length (sent f) = sf_sendMemorySize f"
  by (simp add: sent_def)

lemma sent_blockHead [simp]: "sent (f\<lparr>sf_blockHead := x\<rparr>) = sent f"
  by (simp add: sent_def)

lemma hfield_sent: "off + n \<le> sf_sendMemorySize f \<Longrightarrow> hfield (sf_host f) off n = field (sent f) off n"
  by (simp add: hfield_def field_def sent_def drop_map take_map take_upt)

definition device_head :: "('w \<Rightarrow> ptr \<Rightarrow> byte) \<Rightarrow> 'w \<Rightarrow> ptr \<Rightarrow> RecordGlobalHead" where
  \<comment> \<open>the global head that device memory holds\<close>
  "device_head mem w p = host_head (\<lambda>a. mem w (p + a))"

lemma host_head_cong:
  assumes "\<And>a. a < sizeof_RecordGlobalHead \<Longrightarrow> x a = y a"
  shows "host_head x = host_head y"
proof -
  have big: "128 \<le> sizeof_RecordGlobalHead" by (simp add: sizeof_RecordGlobalHead_def)
  have "hfield x off n = hfield y off n" if "off + n \<le> 128" for off n
    using that big assms by (auto simp: hfield_def intro!: arg_cong [of _ _ le_val])
  moreover have "map x [128..<sizeof_RecordGlobalHead] = map y [128..<sizeof_RecordGlobalHead]" using assms by simp
  ultimately show ?thesis unfolding host_head_def Let_def by simp
qed

lemma host_head_sent:
  assumes "take sizeof_RecordGlobalHead (sent f) = mem_range mem w p sizeof_RecordGlobalHead"
  shows "host_head (sf_host f) = device_head mem w p"
  unfolding device_head_def
proof (rule host_head_cong)
  fix a assume a: "a < sizeof_RecordGlobalHead"
  have "sizeof_RecordGlobalHead \<le> sf_sendMemorySize f" using arg_cong [OF assms, of length] by simp
  then show "sf_host f a = mem w (p + a)"
    using a arg_cong [OF assms, of "\<lambda>xs. xs ! a"] by (simp add: sent_def)
qed

definition appended :: "('w \<Rightarrow> ptr \<Rightarrow> byte) \<Rightarrow> bytes \<Rightarrow> SanitizerLaunchFinalize \<Rightarrow> 'w record_state \<Rightarrow> SanitizerLaunchFinalize \<Rightarrow> 'w record_state \<Rightarrow> bool" where
  \<comment> \<open>\<open>bs\<close> came behind what is sent, the rest stayed\<close>
  "appended mem bs f s f' s' \<longleftrightarrow>
     sf_pos f' = sf_sendMemorySize f' \<and> sent f' = sent f @ bs \<and> sf_blockRemainSize f' + length bs = sf_blockRemainSize f \<and>
     sf_memInfoBackUp f' = sf_memInfoBackUp f \<and> sf_blockSize f' = sf_blockSize f \<and> sf_blockHead f' = sf_blockHead f \<and>
     rd_blocks s' = rd_blocks s \<and> rd_dev s' = rd_dev s \<and> mem (rd_world s') = mem (rd_world s)"

lemma appended_length: "appended mem bs f s f' s' \<Longrightarrow> sf_sendMemorySize f' = sf_sendMemorySize f + length bs"
  unfolding appended_def by (metis length_append length_sent)

lemma appended_nil: "sf_pos f = sf_sendMemorySize f \<Longrightarrow> appended mem [] f s f s"
  by (simp add: appended_def)

lemma appended_trans:
  "appended mem xs f s f' s' \<Longrightarrow> appended mem ys f' s' f'' s'' \<Longrightarrow> appended mem (xs @ ys) f s f'' s''"
  by (simp add: appended_def)

lemma appended_range: "appended mem bs f s f' s' \<Longrightarrow> mem_range mem (rd_world s') p n = mem_range mem (rd_world s) p n"
  by (simp add: appended_def mem_range_def)

lemma fetch_ok:
  assumes "read_law api mem" "n \<le> room" "fetch api pos room src n f s = (ok, f', s')"
  shows "ok" "f' = put_host pos (mem_range mem (rd_world s) src n) f" "s' = s\<lparr>rd_world := rd_world s'\<rparr>"
    "mem (rd_world s') = mem (rd_world s)"
proof -
  obtain e bs w where r: "api_read api src n (rd_world s) = ((e, bs), w)" by (metis prod.exhaust)
  then have "e = ACL_SUCCESS \<and> bs = mem_range mem (rd_world s) src n \<and> mem w = mem (rd_world s)"
    using assms(1) unfolding read_law_def by blast
  then show "ok" "f' = put_host pos (mem_range mem (rd_world s) src n) f" "s' = s\<lparr>rd_world := rd_world s'\<rparr>"
    "mem (rd_world s') = mem (rd_world s)"
    using assms(2,3) r by (auto simp: fetch_def on_world_def)
qed

lemma fetch_refused: "room < n \<Longrightarrow> fetch api pos room src n f s = (False, f, s)"
  by (simp add: fetch_def)

lemma advance_appended:
  assumes law: "read_law api mem" and pos: "sf_pos f = sf_sendMemorySize f"
    and room: "n \<le> sf_blockRemainSize f" "sf_blockRemainSize f < 2 ^ 64"
    and run: "then_advance n d (fetch api (sf_pos f) (sf_blockRemainSize f) src n f s) = (ok, f', s')"
  shows "ok" "appended mem (mem_range mem (rd_world s) src n) f s f' s'" "sf_memInfo f' = wrap64 (sf_memInfo f + wrap64 (n + d))"
proof -
  obtain ok1 f1 s1 where r: "fetch api (sf_pos f) (sf_blockRemainSize f) src n f s = (ok1, f1, s1)" by (metis prod.exhaust)
  note fo = fetch_ok [OF law room(1) r]
  have f': "ok" "f' = UpdateOffsetStatus n d f1" "s' = s1" using run r fo(1) by (simp_all add: then_advance_def)
  have sub: "sub64 (sf_blockRemainSize f) n = sf_blockRemainSize f - n" by (rule sub64_ge) (use room in auto)
  have "sent f' = sent f @ mem_range mem (rd_world s) src n"
    by (rule nth_equalityI) (auto simp: f' fo(2) sent_def UpdateOffsetStatus_def put_host_def pos nth_append)
  then show "appended mem (mem_range mem (rd_world s) src n) f s f' s'"
    using fo(4) f' room by (simp add: appended_def, subst fo(3), simp add: fo(2) UpdateOffsetStatus_def put_host_def pos sub, subst fo(3), simp)
  show "ok" by (rule f'(1))
  show "sf_memInfo f' = wrap64 (sf_memInfo f + wrap64 (n + d))" by (simp add: f' fo(2) UpdateOffsetStatus_def put_host_def)
qed

section \<open>One block\<close>

definition simd_bytes :: "bytes \<Rightarrow> nat" where
  \<comment> \<open>the bytes of records that the head of a block announces\<close>
  "simd_bytes head =
     (if field head 16 8 = 0 \<or> field head 24 8 = 0 \<or> field head 0 8 = 0 \<or> field head 8 8 = 0 then 0 else field head 24 8)"

definition block_parts :: "('w \<Rightarrow> ptr \<Rightarrow> byte) \<Rightarrow> 'w \<Rightarrow> string \<Rightarrow> RecordGlobalHead \<Rightarrow> ptr \<Rightarrow> nat \<Rightarrow> bytes" where
  \<comment> \<open>what is sent of block \<open>i\<close> at \<open>b\<close>\<close>
  "block_parts mem w soc g b i =
     (let head = mem_range mem w b 192; l = gh_offsetInfo g in
      head @ mem_range mem w (b + po_blockHeadSize l) (simd_bytes head) @
      (if has_simt_part soc g i
       then mem_range mem w (b + oi_offset (po_simtErrorInfo l)) (wrap64 (GetAllThreadSize g)) @
            mem_range mem w (b + oi_offset (po_simtEntryInfo l)) (field head 72 8)
       else []))"

definition at_block :: "('w \<Rightarrow> ptr \<Rightarrow> byte) \<Rightarrow> 'w \<Rightarrow> ptr \<Rightarrow> ptr \<Rightarrow> nat \<Rightarrow> SanitizerLaunchFinalize \<Rightarrow> bool" where
  \<comment> \<open>before the block at \<open>b\<close> is fetched: the host buffer holds the global head of the buffer at \<open>p\<close>\<close>
  "at_block mem w p b room f \<longleftrightarrow>
     sf_pos f = sizeof_RecordGlobalHead \<and> sf_sendMemorySize f = sizeof_RecordGlobalHead \<and>
     sent f = mem_range mem w p sizeof_RecordGlobalHead \<and> sf_memInfo f = b \<and> sf_memInfoBackUp f = b \<and>
     room \<le> sf_blockRemainSize f \<and> sf_blockRemainSize f < 2 ^ 64"

lemma fetch_blockHead:
  "fetch api pos room src n (f\<lparr>sf_blockHead := x\<rparr>) s =
     (let (ok, f', s') = fetch api pos room src n f s in (ok, f'\<lparr>sf_blockHead := x\<rparr>, s'))"
  by (cases f) (simp add: fetch_def put_host_def split: prod.splits cong: if_cong)

lemma fetch_keeps:
  assumes "read_law api mem" "fetch api pos room src n f s = (ok, f', s')" "sf_sendMemorySize f \<le> pos"
  shows "f' = f\<lparr>sf_host := sf_host f'\<rparr> \<and> sent f' = sent f \<and> s' = s\<lparr>rd_world := rd_world s'\<rparr> \<and> mem (rd_world s') = mem (rd_world s)"
proof (cases "n \<le> room")
  case True
  note fo = fetch_ok [OF assms(1) True assms(2)]
  show ?thesis using fo(2,3,4) assms(3) by (auto simp: put_host_def sent_def)
qed (use assms(2) in \<open>simp add: fetch_refused\<close>)

lemma DumpMemoryInfo_keeps:
  assumes "read_law api mem" "DumpMemoryInfo api f s = (f', s')" "sf_sendMemorySize f \<le> sf_pos f"
  shows "f' = f\<lparr>sf_host := sf_host f'\<rparr> \<and> sent f' = sent f \<and> s' = s\<lparr>rd_world := rd_world s'\<rparr> \<and> mem (rd_world s') = mem (rd_world s)"
proof -
  obtain ok1 f1 s1 where r1: "fetch api (sf_pos f) (sf_blockRemainSize f) (sf_memInfo f) sizeof_RecordBlockHead f s = (ok1, f1, s1)"
    by (metis prod.exhaust)
  note k1 = fetch_keeps [OF assms(1) r1 assms(3)]
  let ?n = "sub64 (po_blockHeadSize (gh_offsetInfo (host_head (sf_host f1)))) sizeof_RecordBlockHead"
  obtain ok2 f2 s2 where r2: "fetch api (sf_pos f + sizeof_RecordBlockHead) (sub64 (sf_blockRemainSize f1) sizeof_RecordBlockHead)
      (sf_memInfo f1 + sizeof_RecordBlockHead) ?n f1 s1 = (ok2, f2, s2)" by (metis prod.exhaust)
  have "sf_sendMemorySize f1 \<le> sf_pos f + sizeof_RecordBlockHead" using k1 assms(3) by (metis SanitizerLaunchFinalize.select_convs(3) SanitizerLaunchFinalize.surjective SanitizerLaunchFinalize.update_convs(6) trans_le_add1)
  note k2 = fetch_keeps [OF assms(1) r2 this]
  have "(f', s') = (f, s) \<or> (f', s') = (f1, s1) \<or> (f', s') = (f2, s2)"
    using assms(2) by (auto simp: DumpMemoryInfo_def Let_def r1 r2 split: if_splits)
  moreover have "f2 = f\<lparr>sf_host := sf_host f2\<rparr>" "s2 = s\<lparr>rd_world := rd_world s2\<rparr>"
    using k1 k2 by (metis SanitizerLaunchFinalize.surjective SanitizerLaunchFinalize.update_convs(6) SanitizerLaunchFinalize.select_convs,
      metis record_state.surjective record_state.update_convs(5) record_state.select_convs)
  ultimately show ?thesis using k1 k2 by auto
qed

lemma BlockHeadD2H_ok:
  assumes law: "read_law api mem" and at: "at_block mem w p b room f" and room: "192 \<le> room"
    and w: "mem (rd_world s) = mem w" and wrap: "b + po_blockHeadSize (gh_offsetInfo (device_head mem w p)) < 2 ^ 64"
    and run: "BlockHeadD2H api f s = (ok, f', s')"
  shows "ok" "appended mem (mem_range mem w b 192) (f\<lparr>sf_blockHead := sizeof_RecordGlobalHead\<rparr>) s f' s'"
    "sf_memInfo f' = b + po_blockHeadSize (gh_offsetInfo (device_head mem w p))"
proof -
  let ?d = "sub64 (po_blockHeadSize (gh_offsetInfo (device_head mem w p))) sizeof_RecordBlockHead"
  define h where "h = po_blockHeadSize (gh_offsetInfo (device_head mem w p))"
  define f0 where "f0 = f\<lparr>sf_blockHead := sizeof_RecordGlobalHead\<rparr>"
  have f: "sf_pos f = sf_sendMemorySize f" "192 \<le> sf_blockRemainSize f" "sf_blockRemainSize f < 2 ^ 64" "sf_pos f = sizeof_RecordGlobalHead"
    "sent f = mem_range mem w p sizeof_RecordGlobalHead" "sf_memInfo f = b" using at room by (simp_all add: at_block_def)
  obtain ok1 f1 s1 where r: "fetch api (sf_pos f) (sf_blockRemainSize f) (sf_memInfo f) sizeof_RecordBlockHead f s = (ok1, f1, s1)"
    by (metis prod.exhaust)
  have n: "sizeof_RecordBlockHead \<le> sf_blockRemainSize f" using f by (simp add: sizeof_RecordBlockHead_def)
  note fo = fetch_ok [OF law n r]
  have head: "host_head (sf_host f1) = device_head mem w p"
    by (rule host_head_sent) (use fetch_keeps [OF law r] f in simp)
  have blk: "sf_pos f1 = sizeof_RecordGlobalHead" by (simp add: fo(2) put_host_def f(4))
  have e: "ok \<and> s' = s1 \<and> f' = UpdateOffsetStatus sizeof_RecordBlockHead ?d (f1\<lparr>sf_blockHead := sizeof_RecordGlobalHead\<rparr>)"
    using run by (simp add: BlockHeadD2H_def r fo(1) head blk)
  have "fetch api (sf_pos f0) (sf_blockRemainSize f0) b sizeof_RecordBlockHead f0 s = (True, f1\<lparr>sf_blockHead := sizeof_RecordGlobalHead\<rparr>, s1)"
    unfolding f0_def fetch_blockHead using r fo(1) by (simp add: f(6))
  then have t: "then_advance sizeof_RecordBlockHead ?d (fetch api (sf_pos f0) (sf_blockRemainSize f0) b sizeof_RecordBlockHead f0 s) = (ok, f', s')"
    using e by (simp add: then_advance_def)
  have pre: "sf_pos f0 = sf_sendMemorySize f0" "sizeof_RecordBlockHead \<le> sf_blockRemainSize f0" "sf_blockRemainSize f0 < 2 ^ 64"
    using f n by (simp_all add: f0_def)
  note a = advance_appended [OF law pre t]
  show ok using e by simp
  show "appended mem (mem_range mem w b 192) (f\<lparr>sf_blockHead := sizeof_RecordGlobalHead\<rparr>) s f' s'"
    using a(2) w by (simp add: f0_def sizeof_RecordBlockHead_def mem_range_def)
  have "wrap64 (192 + sub64 h 192) = h" using wrap unfolding wrap64_def sub64_def h_def [symmetric] by (simp add: mod_simps)
  then show "sf_memInfo f' = b + po_blockHeadSize (gh_offsetInfo (device_head mem w p))"
    using a(3) wrap by (simp add: f0_def f(6) sizeof_RecordBlockHead_def wrap64_small flip: h_def)
qed

lemma block_field_appended:
  assumes "appended mem xs f s f' s'" "sf_blockHead f + off + n \<le> sf_sendMemorySize f"
  shows "block_field f' off n = block_field f off n"
proof -
  have "sf_sendMemorySize f \<le> sf_sendMemorySize f'" using appended_length [OF assms(1)] by simp
  then show ?thesis
    using assms by (simp add: block_field_def hfield_sent appended_def) (simp add: field_def)
qed

lemma host_head_appended:
  assumes "appended mem xs f s f' s'" "sizeof_RecordGlobalHead \<le> sf_sendMemorySize f"
  shows "host_head (sf_host f') = host_head (sf_host f)"
proof (rule host_head_cong)
  fix a assume a: "a < sizeof_RecordGlobalHead"
  have "sent f' ! a = sent f ! a" using assms a by (simp add: appended_def nth_append)
  moreover have "sf_sendMemorySize f \<le> sf_sendMemorySize f'" using appended_length [OF assms(1)] by simp
  ultimately show "sf_host f' a = sf_host f a" using a assms(2) by (simp add: sent_def)
qed

lemma field_head:
  assumes "appended mem head f s f' s'" "sf_blockHead f' = sf_sendMemorySize f" "off + n \<le> length head"
  shows "block_field f' off n = field head off n"
proof -
  have "sf_sendMemorySize f + (off + n) \<le> sf_sendMemorySize f'" "sent f' = sent f @ head"
    using assms(1,3) appended_length [OF assms(1)] by (simp_all add: appended_def)
  then show ?thesis by (simp add: block_field_def hfield_sent assms(2) field_def)
qed

lemma fetch_block_parts:
  assumes law: "read_law api mem" and w: "mem (rd_world s) = mem w"
    and at: "at_block mem w p b (length (block_parts mem w (ie_soc env) g b i)) f" and g: "g = device_head mem w p"
    and wrap: "b + po_blockHeadSize (gh_offsetInfo g) < 2 ^ 64"
    and run: "fetch_block api env i para f s = (ok, para', f', s')"
  shows "ok" "appended mem (block_parts mem w (ie_soc env) g b i) (f\<lparr>sf_blockHead := sizeof_RecordGlobalHead\<rparr>) s f' s'"
    "host_head (sf_host f') = g"
proof -
  define head where "head = mem_range mem w b 192"
  define simd where "simd = mem_range mem w (b + po_blockHeadSize (gh_offsetInfo g)) (simd_bytes head)"
  define err where "err = mem_range mem w (b + oi_offset (po_simtErrorInfo (gh_offsetInfo g))) (wrap64 (GetAllThreadSize g))"
  define entry where "entry = mem_range mem w (b + oi_offset (po_simtEntryInfo (gh_offsetInfo g))) (field head 72 8)"
  have parts: "block_parts mem w (ie_soc env) g b i = head @ simd @ (if has_simt_part (ie_soc env) g i then err @ entry else [])"
    by (simp add: block_parts_def Let_def head_def simd_def err_def entry_def)
  have lens: "length head = 192" "length simd = simd_bytes head" "length err = wrap64 (GetAllThreadSize g)" "length entry = field head 72 8"
    by (simp_all add: head_def simd_def err_def entry_def)
  have f: "sf_pos f = sizeof_RecordGlobalHead" "sf_sendMemorySize f = sizeof_RecordGlobalHead"
    "sent f = mem_range mem w p sizeof_RecordGlobalHead" "sf_memInfoBackUp f = b" using at by (simp_all add: at_block_def)
  obtain f0 s0 where d: "(if gh_supportSimt (host_head (sf_host f)) \<and> i = 0 then DumpMemoryInfo api f s else (f, s)) = (f0, s0)"
    by (meson surj_pair)
  have d0: "f0 = f\<lparr>sf_host := sf_host f0\<rparr> \<and> sent f0 = sent f \<and> s0 = s\<lparr>rd_world := rd_world s0\<rparr> \<and> mem (rd_world s0) = mem (rd_world s)"
    using d DumpMemoryInfo_keeps [OF law, of f s f0 s0] f by (auto split: if_splits)
  have at0: "at_block mem w p b (length (block_parts mem w (ie_soc env) g b i)) f0"
    using at d0 unfolding at_block_def by (metis SanitizerLaunchFinalize.select_convs SanitizerLaunchFinalize.surjective SanitizerLaunchFinalize.update_convs(6))
  have w0: "mem (rd_world s0) = mem w" using d0 w by simp
  obtain ok1 f1 s1 where h: "BlockHeadD2H api f0 s0 = (ok1, f1, s1)" by (metis prod.exhaust)
  have "192 \<le> length (block_parts mem w (ie_soc env) g b i)" by (simp add: parts lens)
  note H = BlockHeadD2H_ok [OF law at0 this w0 wrap [unfolded g] h, folded g head_def]
  have hd: "sf_blockHead f1 = sf_sendMemorySize f0" "sf_sendMemorySize f1 = sizeof_RecordGlobalHead + 192"
    using H(2) appended_length [OF H(2)] at0 lens(1) by (simp_all add: appended_def at_block_def)
  have A1: "appended mem head (f0\<lparr>sf_blockHead := sizeof_RecordGlobalHead\<rparr>) s0 f1 s1" by (rule H(2))
  have flds: "block_field f1 off n = field head off n" if "off + n \<le> 192" for off n
    using field_head [OF A1, of off n] hd that lens by simp
  have hh: "host_head (sf_host f1) = g"
    unfolding g by (rule host_head_sent) (use A1 at0 in \<open>simp add: appended_def at_block_def\<close>)
  have w1: "mem (rd_world s1) = mem w" using A1 w0 by (simp add: appended_def)
  have room1: "sf_blockRemainSize f1 + 192 = sf_blockRemainSize f0" "sf_blockRemainSize f0 < 2 ^ 64"
    "length (block_parts mem w (ie_soc env) g b i) \<le> sf_blockRemainSize f0" "sf_pos f1 = sf_sendMemorySize f1" "sf_memInfoBackUp f1 = b"
    using A1 at0 lens(1) by (simp_all add: appended_def at_block_def)
  define quiet where "quiet \<longleftrightarrow> record_offset f1 = 0 \<or> writeOffset f1 = 0 \<or> recordCount f1 = 0 \<or> recordWriteCount f1 = 0"
  have n: "simd_bytes head = (if quiet then 0 else writeOffset f1)"
    by (simp add: simd_bytes_def quiet_def record_offset_def writeOffset_def recordCount_def recordWriteCount_def flds)
  obtain ok2 para2 f2 s2 where r2: "(if quiet then (True, para, f1, s1)
           else
             let (para, r) = ReportParaBase (ie_layers env) f1 para (rd_reports s1);
                 (ok, f, s) = SimdRecordD2H api f1 (s1\<lparr>rd_reports := r\<rparr>) in
             (ok, para, f, s)) = (ok2, para2, f2, s2)" by (metis prod.exhaust)
  have A2: "ok2 \<and> appended mem simd f1 s1 f2 s2"
  proof (cases quiet)
    case True
    then have "simd = []" using n by (simp add: simd_def mem_range_def)
    then show ?thesis using True r2 appended_nil [of f1 mem s1] room1 by simp
  next
    case False
    obtain pa r where p: "ReportParaBase (ie_layers env) f1 para (rd_reports s1) = (pa, r)" by (meson surj_pair)
    have t: "then_advance (writeOffset f1) 0 (fetch api (sf_pos f1) (sf_blockRemainSize f1) (sf_memInfo f1) (writeOffset f1) f1 (s1\<lparr>rd_reports := r\<rparr>))
        = (ok2, f2, s2)"
      using r2 False by (auto simp: p SimdRecordD2H_def split: prod.splits)
    have "writeOffset f1 \<le> sf_blockRemainSize f1" "sf_blockRemainSize f1 < 2 ^ 64" using room1 parts lens n False by simp_all
    note a = advance_appended [OF law room1(4) this t]
    show ?thesis using a(1,2) n False H(3) w1 by (simp add: appended_def simd_def mem_range_def)
  qed
  note l2 = appended_length [OF conjunct2 [OF A2]]
  have hh2: "host_head (sf_host f2) = g" using host_head_appended [OF conjunct2 [OF A2]] hd hh by simp
  have room2: "sf_blockRemainSize f2 + length simd = sf_blockRemainSize f1" "sf_pos f2 = sf_sendMemorySize f2" "sf_memInfoBackUp f2 = b"
    "mem (rd_world s2) = mem w" "sf_blockHead f2 = sf_blockHead f1"
    using A2 room1 w1 by (simp_all add: appended_def)
  have use2: "simtEntryUseSize f2 = field head 72 8"
    using block_field_appended [OF conjunct2 [OF A2], of 72 8] flds [of 72 8] hd at0 by (simp add: simtEntryUseSize_def at_block_def)
  define tail where "tail = (if has_simt_part (ie_soc env) g i then err @ entry else [])"
  have cond: "has_simt_part (ie_soc env) g i \<longleftrightarrow>
      gh_supportSimt g \<and> (cp_checkBlockId (gh_checkParms g) = CHECK_ALL_BLOCK \<or> IsTargetBlockIdx (ie_soc env) (cp_checkBlockId (gh_checkParms g)) i)"
    by (simp add: has_simt_part_def Let_def)
  obtain ok3 f3 s3 where r3: "SimtErrorD2H api f2 s2 = (ok3, f3, s3)" by (metis prod.exhaust)
  obtain ok4 f4 s4 where r4: "SimtEntryD2H api f3 s3 = (ok4, f4, s4)" by (metis prod.exhaust)
  have step: "(ok, para', f', s') = (if has_simt_part (ie_soc env) g i then (if ok3 then (ok4, para2, f4, s4) else (False, para2, f3, s3))
      else (True, para2, f2, s2))"
    unfolding run [symmetric] fetch_block_def d prod.case h Let_def quiet_def [symmetric]
    using r2 A2 H(1) hh2 by (auto simp: cond r3 r4 Let_def)
  have A3: "ok \<and> appended mem tail f2 s2 f' s'"
  proof (cases "has_simt_part (ie_soc env) g i")
    case False
    then show ?thesis using step appended_nil [of f2 mem s2] room2 by (simp add: tail_def)
  next
    case True
    have fits: "length err + length entry \<le> sf_blockRemainSize f2" "sf_blockRemainSize f2 < 2 ^ 64"
      using room1 room2(1) parts lens True by simp_all
    have t3: "then_advance (wrap64 (GetAllThreadSize g)) 0 (fetch api (sf_pos f2) (sf_blockRemainSize f2)
        (b + oi_offset (po_simtErrorInfo (gh_offsetInfo g))) (wrap64 (GetAllThreadSize g)) f2 s2) = (ok3, f3, s3)"
      using r3 by (simp add: SimtErrorD2H_def Let_def hh2 room2(3))
    note a3 = advance_appended [OF law room2(2) _ fits(2) t3]
    have e3: "ok3" "appended mem err f2 s2 f3 s3" using a3(1,2) fits lens(3) room2(4) by (simp_all add: err_def mem_range_def)
    have hh3: "host_head (sf_host f3) = g" using host_head_appended [OF e3(2)] l2 hd hh2 by simp
    have use3: "simtEntryUseSize f3 = field head 72 8"
      using block_field_appended [OF e3(2), of 72 8] use2 hd l2 room2(5) at0 by (simp add: simtEntryUseSize_def at_block_def)
    have p3: "sf_pos f3 = sf_sendMemorySize f3" "sf_memInfoBackUp f3 = b" "mem (rd_world s3) = mem w"
      "sf_blockRemainSize f3 + length err = sf_blockRemainSize f2" using e3(2) room2 by (simp_all add: appended_def)
    have e4: "ok4 \<and> appended mem entry f3 s3 f4 s4"
    proof (cases "field head 72 8 = 0")
      case True
      then have "entry = []" by (simp add: entry_def mem_range_def)
      then show ?thesis using True r4 use3 appended_nil [OF p3(1), of mem s3] by (simp add: SimtEntryD2H_def Let_def)
    next
      case False
      have t4: "then_advance (field head 72 8) 0 (fetch api (sf_pos f3) (sf_blockRemainSize f3)
          (b + oi_offset (po_simtEntryInfo (gh_offsetInfo g))) (field head 72 8) f3 s3) = (ok4, f4, s4)"
        using r4 False by (simp add: SimtEntryD2H_def Let_def hh3 p3(2) use3)
      note a4 = advance_appended [OF law p3(1) _ _ t4]
      show ?thesis using a4(1,2) fits lens(4) p3 by (simp add: entry_def mem_range_def)
    qed
    then show ?thesis using step True e3 appended_trans by (auto simp: tail_def)
  qed
  show ok using A3 by simp
  have "appended mem (head @ simd @ tail) (f0\<lparr>sf_blockHead := sizeof_RecordGlobalHead\<rparr>) s0 f' s'"
    using appended_trans [OF A1 appended_trans [OF conjunct2 [OF A2] conjunct2 [OF A3]]] .
  moreover have "rd_blocks s0 = rd_blocks s \<and> rd_dev s0 = rd_dev s \<and> sf_blockRemainSize f0 = sf_blockRemainSize f \<and>
      sf_memInfoBackUp f0 = sf_memInfoBackUp f \<and> sf_blockSize f0 = sf_blockSize f"
    using d0 by (cases f; cases f0; cases s; cases s0) simp
  ultimately show "appended mem (block_parts mem w (ie_soc env) g b i) (f\<lparr>sf_blockHead := sizeof_RecordGlobalHead\<rparr>) s f' s'"
    unfolding parts tail_def [symmetric] using d0 by (simp add: appended_def)
  show "host_head (sf_host f') = g" using host_head_appended [OF conjunct2 [OF A3]] l2 hd hh2 by simp
qed

section \<open>All blocks\<close>

definition block_message :: "('w \<Rightarrow> ptr \<Rightarrow> byte) \<Rightarrow> 'w \<Rightarrow> string \<Rightarrow> RecordGlobalHead \<Rightarrow> ptr \<Rightarrow> ptr \<Rightarrow> nat \<Rightarrow> bytes" where
  \<comment> \<open>the length, the global head and the parts of the block\<close>
  "block_message mem w soc g p b i =
     (let body = mem_range mem w p sizeof_RecordGlobalHead @ block_parts mem w soc g b i in le_bytes 8 (length body) @ body)"

lemma at_block_reset:
  assumes at: "at_block mem w p b room f" and a: "appended mem parts (f\<lparr>sf_blockHead := x\<rparr>) s f' s'" and g: "host_head (sf_host f') = g"
    and size: "room + sizeof_RecordGlobalHead = sf_blockSize f" "sf_blockSize f < 2 ^ 64"
  shows "at_block mem w p (b + GetBlockSize soc g i) room (ResetOffsetStatus soc i f')"
    and "sf_blockSize (ResetOffsetStatus soc i f') = sf_blockSize f"
proof -
  have sent': "sent f' = sent f @ parts" "sf_sendMemorySize f' = sizeof_RecordGlobalHead + length parts"
    using a at appended_length [OF a] by (simp_all add: appended_def at_block_def)
  have "map (sf_host f') [0..<sizeof_RecordGlobalHead] = take sizeof_RecordGlobalHead (sent f')"
    using sent'(2) by (simp add: sent_def take_map take_upt)
  also have "\<dots> = mem_range mem w p sizeof_RecordGlobalHead" using at sent'(1) by (simp add: at_block_def)
  finally show "at_block mem w p (b + GetBlockSize soc g i) room (ResetOffsetStatus soc i f')"
    using at a g size by (simp add: at_block_def ResetOffsetStatus_def Let_def appended_def sent_def)
  show "sf_blockSize (ResetOffsetStatus soc i f') = sf_blockSize f"
    using a by (simp add: ResetOffsetStatus_def Let_def appended_def)
qed

lemma report_blocks_sends:
  assumes law: "read_law api mem" and g: "g = device_head mem w p"
  shows "\<lbrakk>mem (rd_world s) = mem w; at_block mem w p b room f; room + sizeof_RecordGlobalHead = sf_blockSize f; sf_blockSize f < 2 ^ 64;
    \<forall>j < length blocks. length (block_parts mem w (ie_soc env) g (block_base (ie_soc env) g b blocks j) (blocks ! j)) \<le> room;
    b + sum_list (map (GetBlockSize (ie_soc env) g) blocks) < 2 ^ 64; report_blocks api env n blocks para f s = (para', t)\<rbrakk> \<Longrightarrow>
    rd_blocks t = rd_blocks s @ map (\<lambda>j. (block_message mem w (ie_soc env) g p (block_base (ie_soc env) g b blocks j) (blocks ! j), blocks ! j + 1 = n))
      [0..<length blocks] \<and> rd_dev t = rd_dev s \<and> mem (rd_world t) = mem w"
proof (induction blocks arbitrary: b f s para)
  case Nil
  then show ?case by simp
next
  case (Cons i blocks)
  let ?sz = "GetBlockSize (ie_soc env) g"
  obtain ok para1 f1 s1 where r: "fetch_block api env i para f s = (ok, para1, f1, s1)" by (metis prod.exhaust)
  have p0: "length (block_parts mem w (ie_soc env) g b i) \<le> room" using Cons.prems(5) by (auto simp: block_base_def)
  have at0: "at_block mem w p b (length (block_parts mem w (ie_soc env) g b i)) f" using Cons.prems(2) p0 by (simp add: at_block_def)
  have wrap: "b + po_blockHeadSize (gh_offsetInfo g) < 2 ^ 64" using Cons.prems(6) GetBlockSize_head [of g "ie_soc env" i] by simp
  note F = fetch_block_parts [OF law Cons.prems(1) at0 g wrap r]
  let ?f = "ResetOffsetStatus (ie_soc env) i f1"
  note at1 = at_block_reset [OF Cons.prems(2) F(2,3) Cons.prems(3,4), of "ie_soc env" i]
  have sent1: "sent f1 = mem_range mem w p sizeof_RecordGlobalHead @ block_parts mem w (ie_soc env) g b i"
    using F(2) Cons.prems(2) by (simp add: appended_def at_block_def)
  then have len1: "sf_sendMemorySize f1 = length (mem_range mem w p sizeof_RecordGlobalHead @ block_parts mem w (ie_soc env) g b i)"
    by (metis length_sent)
  let ?m = "(block_message mem w (ie_soc env) g p b i, i + 1 = n)"
  have msg: "le_bytes 8 (sf_sendMemorySize f1) @ map (sf_host f1) [0..<sf_sendMemorySize f1] = block_message mem w (ie_soc env) g p b i"
    using sent1 unfolding block_message_def Let_def len1 [symmetric] by (simp add: sent_def)
  have run: "report_blocks api env n blocks para1 ?f (s1\<lparr>rd_blocks := rd_blocks s1 @ [?m]\<rparr>) = (para', t)"
    using Cons.prems(7) by (simp add: r F(1) msg SendKernelBlock_def)
  have s1: "mem (rd_world s1) = mem w" "rd_blocks s1 = rd_blocks s" "rd_dev s1 = rd_dev s"
    using F(2) Cons.prems(1) by (simp_all add: appended_def)
  have bases: "block_base (ie_soc env) g b (i # blocks) (Suc j) = block_base (ie_soc env) g (b + ?sz i) blocks j" for j
    by (simp add: block_base_def ac_simps)
  have fit: "\<forall>j < length blocks. length (block_parts mem w (ie_soc env) g (block_base (ie_soc env) g (b + ?sz i) blocks j) (blocks ! j)) \<le> room"
    using Cons.prems(5) by (auto simp flip: bases)
  have IH: "rd_blocks t = (rd_blocks s @ [?m]) @ map (\<lambda>j. (block_message mem w (ie_soc env) g p (block_base (ie_soc env) g (b + ?sz i) blocks j) (blocks ! j), blocks ! j + 1 = n))
      [0..<length blocks] \<and> rd_dev t = rd_dev s \<and> mem (rd_world t) = mem w"
    using Cons.IH [OF _ at1(1) _ _ fit _ run] Cons.prems(3,4,6) at1(2) s1 by simp
  have "[0..<length (i # blocks)] = 0 # map Suc [0..<length blocks]" by (simp add: upt_conv_Cons map_Suc_upt del: upt_Suc)
  then have "map (\<lambda>j. (block_message mem w (ie_soc env) g p (block_base (ie_soc env) g b (i # blocks) j) ((i # blocks) ! j), (i # blocks) ! j + 1 = n))
      [0..<length (i # blocks)] =
    ?m # map (\<lambda>j. (block_message mem w (ie_soc env) g p (block_base (ie_soc env) g (b + ?sz i) blocks j) (blocks ! j), blocks ! j + 1 = n))
      [0..<length blocks]"
    by (simp add: comp_def bases) (simp add: block_base_def)
  then show ?case using IH by simp
qed

lemma GlobalHeadD2H_at:
  assumes law: "read_law api mem" and c: "sc_cacheSize config < 2 ^ 32" and p: "p + sizeof_RecordGlobalHead < 2 ^ 64"
    and run: "GlobalHeadD2H api (SanitizerLaunchFinalize_Init config p) s = (ok, f, t)"
  shows "ok" "at_block mem (rd_world s) p (p + sizeof_RecordGlobalHead) (sc_cacheSize config * MB_TO_BYTES + 192) f"
    "sf_blockSize f = sc_cacheSize config * MB_TO_BYTES + 192 + sizeof_RecordGlobalHead" "sf_blockSize f < 2 ^ 64"
    "t = s\<lparr>rd_world := rd_world t\<rparr>" "mem (rd_world t) = mem (rd_world s)"
proof -
  let ?f = "SanitizerLaunchFinalize_Init config p" and ?n = sizeof_RecordGlobalHead
  have f: "sf_pos ?f = 0" "sf_memInfo ?f = p" "sf_memInfoBackUp ?f = p" "sf_sendMemorySize ?f = 0"
    "sf_blockSize ?f = sc_cacheSize config * MB_TO_BYTES + 192 + ?n" "sf_blockRemainSize ?f = sf_blockSize ?f"
    by (simp_all add: SanitizerLaunchFinalize_Init_def Let_def sizeof_RecordBlockHead_def)
  obtain ok1 f1 s1 where r: "fetch api (sf_pos ?f) (sf_blockRemainSize ?f) (sf_memInfo ?f) ?n ?f s = (ok1, f1, s1)" by (metis prod.exhaust)
  have "?n \<le> sf_blockRemainSize ?f" by (simp add: f)
  note fo = fetch_ok [OF law this r, unfolded f]
  have "sc_cacheSize config * MB_TO_BYTES < 2 ^ 32 * 2 ^ 20" using c by (simp add: MB_TO_BYTES_def)
  then have big: "sf_blockSize ?f < 2 ^ 64" by (simp add: f protocol_sizes)
  have sub: "sub64 (sf_blockSize ?f) ?n = sc_cacheSize config * MB_TO_BYTES + 192"
    using sub64_ge [of ?n "sf_blockSize ?f"] big by (simp add: f)
  have f1: "ok" "f = UpdateOffsetStatus ?n 0 (f1\<lparr>sf_memInfoBackUp := sf_memInfoBackUp f1 + ?n\<rparr>)" "t = s1"
    using run by (simp_all add: GlobalHeadD2H_def r fo(1))
  show ok by (rule f1)
  have "sent f = mem_range mem (rd_world s) p ?n"
    by (rule nth_equalityI) (auto simp: f1 fo(2) sent_def UpdateOffsetStatus_def put_host_def f)
  then show "at_block mem (rd_world s) p (p + ?n) (sc_cacheSize config * MB_TO_BYTES + 192) f"
    using p big sub by (simp add: at_block_def f1 fo(2) UpdateOffsetStatus_def put_host_def f wrap64_small)
  show "sf_blockSize f = sc_cacheSize config * MB_TO_BYTES + 192 + ?n" "sf_blockSize f < 2 ^ 64"
    using big by (simp_all add: f1 fo(2) UpdateOffsetStatus_def put_host_def f)
  show "t = s\<lparr>rd_world := rd_world t\<rparr>" "mem (rd_world t) = mem (rd_world s)" using fo(3,4) f1(3) by simp_all
qed

lemma finalize_sends:
  assumes law: "read_law api mem" "copyHost_law api" "\<And>bs w. mem (snd (api_copyHost api bs w)) = mem w"
    and init: "dm_isMemoryInit (rd_dev s)" "CheckBlockDimValid blockDim" "p \<noteq> 0" and c: "sc_cacheSize (ie_config env) < 2 ^ 32"
  defines "g \<equiv> device_head mem (rd_world s) p"
  defines "n \<equiv> ki_totalBlockDim (gh_kernelInfo g)"
  defines "base \<equiv> block_base (ie_soc env) g (p + sizeof_RecordGlobalHead) [0..<n]"
  assumes wrap: "p + sizeof_RecordGlobalHead + sum_list (map (GetBlockSize (ie_soc env) g) [0..<n]) < 2 ^ 64"
    and fit: "\<forall>i < n. length (block_parts mem (rd_world s) (ie_soc env) g (base i) i) \<le> sc_cacheSize (ie_config env) * MB_TO_BYTES + 192"
  shows "rd_blocks (sanitizer_finalize api env p blockDim s) =
      rd_blocks s @ map (\<lambda>i. (block_message mem (rd_world s) (ie_soc env) g p (base i) i, i + 1 = n)) [0..<n]"
    and "rd_dev (sanitizer_finalize api env p blockDim s) = SetMemoryInitFlag False (rd_dev s)"
    and "mem (rd_world (sanitizer_finalize api env p blockDim s)) = mem (rd_world s)"
proof -
  obtain ok f s1 where h: "GlobalHeadD2H api (SanitizerLaunchFinalize_Init (ie_config env) p) s = (ok, f, s1)" by (metis prod.exhaust)
  have p: "p + sizeof_RecordGlobalHead < 2 ^ 64" using wrap by simp
  note G = GlobalHeadD2H_at [OF law(1) c p h]
  obtain ok2 s2 where r: "RegistersD2H api f s1 = (ok2, s2)" by (meson surj_pair)
  have r2: "ok2" "rd_blocks s2 = rd_blocks s1" "rd_dev s2 = rd_dev s1" "mem (rd_world s2) = mem (rd_world s1)"
  proof -
    obtain w where w: "api_copyHost api (gh_registers (host_head (sf_host f))) (rd_world s1) = ((ACL_SUCCESS, gh_registers (host_head (sf_host f))), w)"
      using law(2) unfolding copyHost_law_def by (metis prod.collapse)
    then have "mem w = mem (rd_world s1)" using law(3) by (metis snd_conv)
    then show "ok2" "rd_blocks s2 = rd_blocks s1" "rd_dev s2 = rd_dev s1" "mem (rd_world s2) = mem (rd_world s1)"
      using r w by (auto simp: RegistersD2H_def on_world_def)
  qed
  have hh: "host_head (sf_host f) = g"
    unfolding g_def by (rule host_head_sent) (use G(2) in \<open>simp add: at_block_def\<close>)
  obtain para t where b: "report_blocks api env n [0..<n] None f s2 = (para, t)" by (meson surj_pair)
  have "rd_blocks t = rd_blocks s2 @ map (\<lambda>j. (block_message mem (rd_world s) (ie_soc env) g p
        (block_base (ie_soc env) g (p + sizeof_RecordGlobalHead) [0..<n] j) ([0..<n] ! j), [0..<n] ! j + 1 = n))
      [0..<length [0..<n]] \<and> rd_dev t = rd_dev s2 \<and> mem (rd_world t) = mem (rd_world s)"
    by (rule report_blocks_sends [OF law(1) g_def [THEN meta_eq_to_obj_eq] _ G(2) _ G(4) _ wrap b]) (use fit r2 G in \<open>auto simp: base_def\<close>)
  then have t: "rd_blocks t = rd_blocks s @ map (\<lambda>i. (block_message mem (rd_world s) (ie_soc env) g p (base i) i, i + 1 = n)) [0..<n] \<and>
      rd_dev t = rd_dev s \<and> mem (rd_world t) = mem (rd_world s)"
    using r2 by (simp add: base_def, subst (1 2) G(5), simp)
  have fin: "sanitizer_finalize api env p blockDim s =
      (t\<lparr>rd_reports := free_para_base (ie_layers env) para (rd_reports t)\<rparr>)\<lparr>rd_dev := SetMemoryInitFlag False (rd_dev t)\<rparr>"
    using init b by (simp add: sanitizer_finalize_def SanitizerLaunchFinalize_Process_def h G(1) r r2(1) ReportBlockInfo_def hh Let_def flip: n_def)
  show "rd_blocks (sanitizer_finalize api env p blockDim s) =
      rd_blocks s @ map (\<lambda>i. (block_message mem (rd_world s) (ie_soc env) g p (base i) i, i + 1 = n)) [0..<n]"
    "rd_dev (sanitizer_finalize api env p blockDim s) = SetMemoryInitFlag False (rd_dev s)"
    "mem (rd_world (sanitizer_finalize api env p blockDim s)) = mem (rd_world s)"
    using t by (simp_all add: fin)
qed

section \<open>The global head comes back\<close>

lemma hfield_nth: "off + n \<le> length xs \<Longrightarrow> hfield ((!) xs) off n = field xs off n"
  unfolding hfield_def field_def by (intro arg_cong [of _ _ le_val] nth_equalityI) simp_all

lemma field_append:
  "length xs \<le> off \<Longrightarrow> field (xs @ ys) off n = field ys (off - length xs) n"
  "off + n \<le> length xs \<Longrightarrow> field (xs @ ys) off n = field xs off n"
  by (simp_all add: field_def)

lemma field_le_bytes: "field (le_bytes n v) 0 n = v mod 256 ^ n"
  by (simp add: field_def le_val_le_bytes)

lemma length_enc_offset [simp]: "length (enc_offset r) = 16"
  by (simp add: enc_offset_def)

lemma enc_part_fields:
  "field (enc_checkParms c) 0 4 = cp_cacheSize c mod 2 ^ 32"
  "field (enc_checkParms c) 4 2 = nat (cp_checkBlockId c mod 2 ^ 16) mod 2 ^ 16"
  "field (enc_kernelInfo k) 0 8 = ki_totalBlockDim k mod 2 ^ 64"
  "field (enc_offset r) 0 8 = oi_offset r mod 2 ^ 64" "field (enc_offset r) 8 8 = oi_size r mod 2 ^ 64"
  "field (bool_byte b) 0 (Suc 0) = (if b then 1 else 0)"
  by (simp_all add: enc_checkParms_def enc_kernelInfo_def enc_offset_def field_append field_le_bytes) (simp_all add: field_def bool_byte_def)

lemma enc_offsetInfo_fields:
  "field (enc_offsetInfo l) 0 8 = oi_offset (po_simtErrorInfo l) mod 2 ^ 64" "field (enc_offsetInfo l) 8 8 = oi_size (po_simtErrorInfo l) mod 2 ^ 64"
  "field (enc_offsetInfo l) 16 8 = oi_offset (po_shadowMemoryInfo l) mod 2 ^ 64" "field (enc_offsetInfo l) 24 8 = oi_size (po_shadowMemoryInfo l) mod 2 ^ 64"
  "field (enc_offsetInfo l) 32 8 = oi_offset (po_simtEntryInfo l) mod 2 ^ 64" "field (enc_offsetInfo l) 40 8 = oi_size (po_simtEntryInfo l) mod 2 ^ 64"
  "field (enc_offsetInfo l) 48 4 = po_blockHeadSize l mod 2 ^ 32"
  by (simp_all add: enc_offsetInfo_def field_append field_le_bytes enc_part_fields)

lemma enc_global_fields:
  "field (enc_global g) 8 4 = cp_cacheSize (gh_checkParms g) mod 2 ^ 32"
  "field (enc_global g) 12 2 = nat (cp_checkBlockId (gh_checkParms g) mod 2 ^ 16) mod 2 ^ 16"
  "field (enc_global g) 32 8 = ki_totalBlockDim (gh_kernelInfo g) mod 2 ^ 64"
  "field (enc_global g) 124 (Suc 0) = (if gh_supportSimt g then 1 else 0)"
  "k + n \<le> 56 \<Longrightarrow> field (enc_global g) (64 + k) n = field (enc_offsetInfo (gh_offsetInfo g)) k n"
  by (simp_all add: enc_global_def field_append enc_part_fields)

lemma host_head_enc:
  assumes "length (gh_registers g) = 108 * 512" "cp_cacheSize (gh_checkParms g) < 2 ^ 32"
    and "- 32768 \<le> cp_checkBlockId (gh_checkParms g)" "cp_checkBlockId (gh_checkParms g) < 32768"
    and "ki_totalBlockDim (gh_kernelInfo g) < 2 ^ 64"
    and "\<forall>r \<in> {po_simtErrorInfo (gh_offsetInfo g), po_shadowMemoryInfo (gh_offsetInfo g), po_simtEntryInfo (gh_offsetInfo g)}.
      oi_offset r < 2 ^ 64 \<and> oi_size r < 2 ^ 64"
    and "po_blockHeadSize (gh_offsetInfo g) < 2 ^ 32"
  defines "g' \<equiv> host_head ((!) (enc_global g))"
  shows "cp_cacheSize (gh_checkParms g') = cp_cacheSize (gh_checkParms g)" "cp_checkBlockId (gh_checkParms g') = cp_checkBlockId (gh_checkParms g)"
    "ki_totalBlockDim (gh_kernelInfo g') = ki_totalBlockDim (gh_kernelInfo g)" "gh_supportSimt g' = gh_supportSimt g"
    "gh_offsetInfo g' = gh_offsetInfo g"
proof -
  have h: "hfield ((!) (enc_global g)) off n = field (enc_global g) off n" if "off + n \<le> 128" for off n
    using that length_enc_global [OF assms(1)] by (intro hfield_nth) (simp add: sizeof_RecordGlobalHead_def)
  let ?id = "cp_checkBlockId (gh_checkParms g)"
  have "int (nat (?id mod 2 ^ 16) mod 2 ^ 16) = ?id mod 2 ^ 16" by (simp add: zmod_int)
  then have id: "(if nat (?id mod 2 ^ 16) mod 2 ^ 16 < 2 ^ 15 then int (nat (?id mod 2 ^ 16) mod 2 ^ 16) else int (nat (?id mod 2 ^ 16) mod 2 ^ 16) - 2 ^ 16) = ?id"
  proof (cases "0 \<le> ?id")
    case False
    then have "(?id + 65536) mod 65536 = ?id + 65536" using assms(3) by (intro mod_pos_pos_trivial) auto
    then show ?thesis using assms(3) False by simp
  qed (use assms(4) in simp)
  show "cp_cacheSize (gh_checkParms g') = cp_cacheSize (gh_checkParms g)" "ki_totalBlockDim (gh_kernelInfo g') = ki_totalBlockDim (gh_kernelInfo g)"
    "gh_supportSimt g' = gh_supportSimt g"
    using assms(2,5) by (simp_all add: g'_def host_head_def Let_def h enc_global_fields)
  show "cp_checkBlockId (gh_checkParms g') = ?id"
    using id by (simp add: g'_def host_head_def Let_def h enc_global_fields split: if_splits)
  have o: "hfield ((!) (enc_global g)) 64 8 = oi_offset (po_simtErrorInfo (gh_offsetInfo g))" 
    "hfield ((!) (enc_global g)) 72 8 = oi_size (po_simtErrorInfo (gh_offsetInfo g))" 
    "hfield ((!) (enc_global g)) 80 8 = oi_offset (po_shadowMemoryInfo (gh_offsetInfo g))" 
    "hfield ((!) (enc_global g)) 88 8 = oi_size (po_shadowMemoryInfo (gh_offsetInfo g))" 
    "hfield ((!) (enc_global g)) 96 8 = oi_offset (po_simtEntryInfo (gh_offsetInfo g))" 
    "hfield ((!) (enc_global g)) 104 8 = oi_size (po_simtEntryInfo (gh_offsetInfo g))" 
    "hfield ((!) (enc_global g)) 112 4 = po_blockHeadSize (gh_offsetInfo g)"
    using enc_global_fields(5) [of 0 8 g] enc_global_fields(5) [of 8 8 g] enc_global_fields(5) [of 16 8 g] enc_global_fields(5) [of 24 8 g]
      enc_global_fields(5) [of 32 8 g] enc_global_fields(5) [of 40 8 g] enc_global_fields(5) [of 48 4 g] assms(6,7)
    by (simp_all add: h enc_offsetInfo_fields)
  show "gh_offsetInfo g' = gh_offsetInfo g"
    by (simp add: g'_def host_head_def Let_def o)
qed

lemma laid_out_head:
  assumes "laid_out si" "g = si_globalHead si" "- 32768 \<le> cp_checkBlockId (gh_checkParms g)" "cp_checkBlockId (gh_checkParms g) < 32768"
    "ki_totalBlockDim (gh_kernelInfo g) < 2 ^ 64" "mem_range mem w p sizeof_RecordGlobalHead = enc_global g"
  shows "GetBlockSize soc (device_head mem w p) = GetBlockSize soc g" "has_simt_part soc (device_head mem w p) = has_simt_part soc g"
    "gh_offsetInfo (device_head mem w p) = gh_offsetInfo g"
    "ki_totalBlockDim (gh_kernelInfo (device_head mem w p)) = ki_totalBlockDim (gh_kernelInfo g)"
proof -
  define n where "n = cp_cacheSize (gh_checkParms g)"
  define h where "h = po_blockHeadSize (gh_offsetInfo g)"
  have l: "length (gh_registers g) = 108 * 512" "n \<le> 8192" "h < 2 ^ 32"
    "if gh_supportSimt g then 17 \<le> n \<and> gh_offsetInfo g = simt_layout n h else gh_offsetInfo g = (gh_offsetInfo gh0)\<lparr>po_blockHeadSize := h\<rparr>"
    using assms(1) by (simp_all add: laid_out_def Let_def assms(2) n_def h_def)
  have lim: "n * MB_TO_BYTES + h < 2 ^ 64" using l(2,3) by (simp add: MB_TO_BYTES_def)
  have regions: "\<forall>r \<in> {po_simtErrorInfo (gh_offsetInfo g), po_shadowMemoryInfo (gh_offsetInfo g), po_simtEntryInfo (gh_offsetInfo g)}.
      oi_offset r < 2 ^ 64 \<and> oi_size r < 2 ^ 64"
  proof (cases "gh_supportSimt g")
    case False
    then show ?thesis using l(4) by (simp add: gh0_def no_region_def)
  next
    case True
    then have n: "17 \<le> n" and L: "gh_offsetInfo g = simt_layout n h" using l(4) by simp_all
    have "oi_offset (po_shadowMemoryInfo (gh_offsetInfo g)) + oi_size (po_shadowMemoryInfo (gh_offsetInfo g)) < 2 ^ 64"
    proof (cases "40 \<le> n")
      case True
      then show ?thesis using layout_bounds(3) [OF l(2) n l(3)] layout_bounds(6) [OF l(2) n l(3) True] lim unfolding L by linarith
    next
      case False
      then show ?thesis by (simp add: L simt_layout_def layout_of_def Let_def no_region_def)
    qed
    moreover have "oi_offset (po_simtErrorInfo (gh_offsetInfo g)) + oi_size (po_simtErrorInfo (gh_offsetInfo g)) < 2 ^ 64"
      using layout_bounds(2) [OF l(2) n l(3)] lim unfolding L add_mult_distrib by linarith
    moreover have "oi_offset (po_simtEntryInfo (gh_offsetInfo g)) + oi_size (po_simtEntryInfo (gh_offsetInfo g)) < 2 ^ 64"
      using layout_bounds(7) [OF l(2) n l(3)] lim unfolding L by linarith
    ultimately show ?thesis by auto
  qed
  have "device_head mem w p = host_head ((!) (enc_global g))"
    unfolding device_head_def by (rule host_head_cong) (simp flip: assms(6))
  moreover have c: "cp_cacheSize (gh_checkParms g) < 2 ^ 32" "po_blockHeadSize (gh_offsetInfo g) < 2 ^ 32"
    using l(2,3) by (simp_all add: n_def h_def)
  moreover note host_head_enc [OF l(1) c(1) assms(3-5) regions c(2)]
  ultimately have e: "cp_cacheSize (gh_checkParms (device_head mem w p)) = cp_cacheSize (gh_checkParms g)"
    "cp_checkBlockId (gh_checkParms (device_head mem w p)) = cp_checkBlockId (gh_checkParms g)"
    "ki_totalBlockDim (gh_kernelInfo (device_head mem w p)) = ki_totalBlockDim (gh_kernelInfo g)"
    "gh_supportSimt (device_head mem w p) = gh_supportSimt g" "gh_offsetInfo (device_head mem w p) = gh_offsetInfo g"
    by simp_all
  show "GetBlockSize soc (device_head mem w p) = GetBlockSize soc g" "has_simt_part soc (device_head mem w p) = has_simt_part soc g"
    by (rule ext, simp add: GetBlockSize_def has_simt_part_def e)+
  show "gh_offsetInfo (device_head mem w p) = gh_offsetInfo g"
    "ki_totalBlockDim (gh_kernelInfo (device_head mem w p)) = ki_totalBlockDim (gh_kernelInfo g)" by (rule e)+
qed

lemma le_val_zero: "le_val (replicate n 0) = 0"
  by (induction n) simp_all

lemma silent_parts:
  assumes l: "laid_out si" "g = si_globalHead si" and ready: "block_ready mem env si hosts w b i"
  shows "block_parts mem w (ie_soc env) g b i =
      enc_block (block_head env si b) @ (if has_simt_part (ie_soc env) g i then replicate (GetAllThreadSize g) 0 else [])"
    and "length (block_parts mem w (ie_soc env) g b i) \<le> cp_cacheSize (gh_checkParms g) * MB_TO_BYTES + 192"
proof -
  have head: "mem_range mem w b 192 = enc_block (block_head env si b)" using ready by (simp add: block_ready_def Let_def)
  have z: "field (enc_block x) k 8 = 0" if "k + 8 \<le> 96" for x k
    using that by (simp add: enc_block_def field_append) (simp add: field_def pad_def le_val_zero del: replicate.simps)
  have thr: "wrap64 (GetAllThreadSize g) = GetAllThreadSize g \<and> GetAllThreadSize g \<le> cp_cacheSize (gh_checkParms g) * MB_TO_BYTES \<and>
      mem_range mem w (b + oi_offset (po_simtErrorInfo (gh_offsetInfo g))) (GetAllThreadSize g) = replicate (GetAllThreadSize g) 0"
    if "has_simt_part (ie_soc env) g i"
  proof -
    have "GetBlockSize (ie_soc env) g i = po_blockHeadSize (gh_offsetInfo g) + cp_cacheSize (gh_checkParms g) * MB_TO_BYTES"
      using that by (auto simp: GetBlockSize_def has_simt_part_def Let_def)
    then have le: "GetAllThreadSize g \<le> cp_cacheSize (gh_checkParms g) * MB_TO_BYTES"
      using thread_heads_inside [OF l(1), of "ie_soc env" i] that l(2) by simp
    moreover have "cp_cacheSize (gh_checkParms g) \<le> 8192" using l by (simp add: laid_out_def Let_def)
    then have "cp_cacheSize (gh_checkParms g) * MB_TO_BYTES < 2 ^ 64" by (simp add: MB_TO_BYTES_def)
    ultimately have "wrap64 (GetAllThreadSize g) = GetAllThreadSize g" by (intro wrap64_small) linarith
    then show ?thesis using le ready that l(2) by (simp add: block_ready_def thread_heads_clear_def Let_def)
  qed
  have s0: "simd_bytes (enc_block x) = 0" for x by (simp add: simd_bytes_def z)
  show p: "block_parts mem w (ie_soc env) g b i =
      enc_block (block_head env si b) @ (if has_simt_part (ie_soc env) g i then replicate (GetAllThreadSize g) 0 else [])"
    using thr by (simp add: block_parts_def head s0 z Let_def) (simp add: mem_range_def)
  show "length (block_parts mem w (ie_soc env) g b i) \<le> cp_cacheSize (gh_checkParms g) * MB_TO_BYTES + 192"
    unfolding p using thr by simp
qed

text \<open>
  From the second block on the copies are told of more room than the host buffer has, by the size of the global
  head: what a head announces beyond the end of the buffer is copied all the same.
\<close>

lemma room_past_buffer:
  assumes "f' = ResetOffsetStatus soc i f"
  shows "sf_pos f' + sf_blockRemainSize f' = sf_blockSize f' + sizeof_RecordGlobalHead"
    and "read_law api mem \<Longrightarrow> n \<le> sf_blockSize f' \<Longrightarrow> fst (fetch api (sf_pos f') (sf_blockRemainSize f') src n f' s)"
  using fetch_ok(1) [of api mem n "sf_blockRemainSize f'" "sf_pos f'" src f' s] assms
  by (auto simp: ResetOffsetStatus_def Let_def split: prod.splits) (metis fst_conv prod.exhaust)

section \<open>Properties\<close>


lemma field_mem_range: "off + n \<le> m \<Longrightarrow> field (mem_range mem w b m) off n = le_val (map (mem w) [b + off..<b + off + n])"
  by (simp add: field_def mem_range_def drop_map take_map take_upt)

definition recorded :: flat where
  \<comment> \<open>a global head at 4096 with one block, whose head announces one record of two bytes\<close>
  "recorded = flat0\<lparr>fl_mem := (\<lambda>a. if a = 4128 then 1 else if a = 4208 then 192 else if a = 59520 then 1 else if a = 59528 then 1
     else if a = 59536 then 2 else if a = 59544 then 2 else if a = 59712 then 7 else if a = 59713 then 9 else 0)\<rparr>"


text \<open>
  preparation and report fit together: when the kernel writes nothing between \<open>__sanitizer_init\<close> and
  \<open>__sanitizer_finalize\<close>, the report is one packet for each block, three times \<open>blockDim\<close> on the chips with sub-blocks,
  with the heads that were prepared, no records, and the clear heads of the threads where a block has them.
\<close>

theorem silent_kernel_reported:
  assumes "launch_law api mem" and "read_law api mem" and "\<not> dm_isSkipKernel (rd_dev s)" and "length (rd_registers s) = 108 * 512"
    and "length (MergeHostMems (rs_mm (rd_reports s))) = GetMallocCount (rs_mm (rd_reports s))"
    and "GetMallocCount (rs_mm (rd_reports s)) < 2 ^ 32"
    and "SupportSimt (GetDeviceTypeBySocVersion (ie_soc env)) \<longrightarrow> 17 \<le> sc_cacheSize (ie_config env)"
    and "- 32768 \<le> sc_checkBlockId (ie_config env)" and "sc_checkBlockId (ie_config env) < 32768"
    and "sanitizer_init api env blockDim s = (Some p, t)" and "p \<noteq> 0" and "p + dm_memSize (rd_dev t) < 2 ^ 64"
  shows "\<exists>g. let soc = ie_soc env; n = (if HasSubBlocks (GetDeviceTypeBySocVersion soc) then 3 * blockDim else blockDim);
      body = (\<lambda>i. enc_global g @
        enc_block (block_head env (SanitizerLaunchInit_Init env blockDim s) (block_base soc g (p + sizeof_RecordGlobalHead) [0..<n] i)) @
        (if has_simt_part soc g i then replicate (GetAllThreadSize g) 0 else [])) in
    gh_checkParms g = check_parms (ie_config env) \<and>
    rd_blocks (sanitizer_finalize api env p blockDim t) = rd_blocks s @ map (\<lambda>i. (le_bytes 8 (length (body i)) @ body i, i + 1 = n)) [0..<n]"
proof -
  let ?si = "SanitizerLaunchInit_Init env blockDim s"
  have law: "copyHost_law api" "\<And>bs w. mem (snd (api_copyHost api bs w)) = mem w" using assms(1) by (simp_all add: launch_law_def)
  have dim: "0 < blockDim" "CheckBlockDimValid blockDim" and run: "SanitizerLaunchInit_Process api env ?si s = (Some p, t)"
    using assms(10) by (auto simp: sanitizer_init_def CheckBlockDimValid_def split: if_splits)
  have si: "si_hostMemoryNum ?si = GetMallocCount (rs_mm (rd_reports s))" "0 < si_blockDim ?si" "si_blockDim ?si = blockDim"
    "gh_offsetInfo (si_globalHead ?si) = gh_offsetInfo gh0" using dim by (simp_all add: SanitizerLaunchInit_Init_def)
  define n where "n = (if HasSubBlocks (GetDeviceTypeBySocVersion (ie_soc env)) then 3 * blockDim else blockDim)"
  obtain g where g: "gh_checkParms g = check_parms (ie_config env)" "ki_totalBlockDim (gh_kernelInfo g) = n"
    "laid_out (?si\<lparr>si_globalHead := g\<rparr>)" "rd_blocks t = rd_blocks s" "dm_isMemoryInit (rd_dev t)" "record_size g \<le> dm_memSize (rd_dev t)"
    "mem_range mem (rd_world t) p sizeof_RecordGlobalHead = enc_global g"
    and blocks0: "\<forall>i < ki_totalBlockDim (gh_kernelInfo g).
       block_base (ie_soc env) g (p + sizeof_RecordGlobalHead) [0..<ki_totalBlockDim (gh_kernelInfo g)] i + GetBlockSize (ie_soc env) g i
         \<le> p + record_size g \<and>
       block_ready mem env (?si\<lparr>si_globalHead := g\<rparr>) (tables env s) (rd_world t)
         (block_base (ie_soc env) g (p + sizeof_RecordGlobalHead) [0..<ki_totalBlockDim (gh_kernelInfo g)] i) i"
    using Process_ready [OF assms(1,3,4) assms(6) [folded si(1)] assms(5) [folded si(1)] si(2) assms(7) si(4) run, unfolded si(3), folded n_def]
    by blast
  note blocks = blocks0 [unfolded g(2), rule_format]
  define base where "base = block_base (ie_soc env) g (p + sizeof_RecordGlobalHead) [0..<n]"
  define g' where "g' = device_head mem (rd_world t) p"
  have pre: "g = si_globalHead (?si\<lparr>si_globalHead := g\<rparr>)" "- 32768 \<le> cp_checkBlockId (gh_checkParms g)"
    "cp_checkBlockId (gh_checkParms g) < 32768" "ki_totalBlockDim (gh_kernelInfo g) < 2 ^ 64"
    using assms(8,9) dim by (simp_all add: g(1,2) check_parms_def n_def CheckBlockDimValid_def MAX_BLOCKDIM_NUMS_def split: if_splits)
  note e = laid_out_head [OF g(3) pre g(7), folded g'_def, unfolded g(2)]
  have all: "GetAllThreadSize g' = GetAllThreadSize g" by (simp add: GetAllThreadSize_def e)
  have e2: "block_parts mem (rd_world t) (ie_soc env) g' = block_parts mem (rd_world t) (ie_soc env) g"
    unfolding block_parts_def e all ..
  have e3: "block_base (ie_soc env) g' = block_base (ie_soc env) g" unfolding block_base_def e ..
  have head: "block_head env (?si\<lparr>si_globalHead := g\<rparr>) b = block_head env ?si b" for b by (simp add: block_head_def)
  note parts = silent_parts [OF g(3) pre(1) conjunct2 [OF blocks], unfolded head, folded base_def]
  have fit: "\<forall>i < n. length (block_parts mem (rd_world t) (ie_soc env) g (base i) i) \<le> sc_cacheSize (ie_config env) * MB_TO_BYTES + 192"
    using parts(2) g(1) by (simp add: check_parms_def)
  have c: "sc_cacheSize (ie_config env) < 2 ^ 32" using g(1,3) by (simp add: laid_out_def check_parms_def Let_def)
  have wrap: "p + sizeof_RecordGlobalHead + sum_list (map (GetBlockSize (ie_soc env) g) [0..<n]) < 2 ^ 64"
  proof -
    have "0 < n" using dim by (simp add: n_def)
    then have split: "[0..<n] = [0..<n - 1] @ [n - 1]" "n - 1 < n" by (cases n; simp)+
    have "block_base (ie_soc env) g (p + sizeof_RecordGlobalHead) [0..<n] (n - 1) + GetBlockSize (ie_soc env) g (n - 1) =
        p + sizeof_RecordGlobalHead + sum_list (map (GetBlockSize (ie_soc env) g) [0..<n])"
      unfolding block_base_def by (subst (1 2) split(1)) simp
    then show ?thesis using blocks [OF split(2)] g(6) assms(12) by linarith
  qed
  have "rd_blocks (sanitizer_finalize api env p blockDim t) =
      rd_blocks t @ map (\<lambda>i. (block_message mem (rd_world t) (ie_soc env) g' p (base i) i, i + 1 = n)) [0..<n]"
    using finalize_sends(1) [OF assms(2) law g(5) dim(2) assms(11) c, folded g'_def, unfolded e e2 e3, folded base_def, OF wrap fit] .
  moreover have "block_message mem (rd_world t) (ie_soc env) g' p (base i) i =
      (let body = enc_global g @ enc_block (block_head env ?si (base i)) @ (if has_simt_part (ie_soc env) g i then replicate (GetAllThreadSize g) 0 else [])
       in le_bytes 8 (length body) @ body)" if "i < n" for i
    unfolding block_message_def e2 g(7) parts(1) [OF that] ..
  ultimately show ?thesis
    using g(1,4) by (intro exI [of _ g]) (simp add: Let_def flip: n_def base_def)
qed

theorem silent_kernel_reported_witness:
  "\<exists>t. sanitizer_init flat_api (launch_env 17) 1 launch_start = (Some 4096, t) \<and>
     length (rd_blocks (sanitizer_finalize flat_api (launch_env 17) 4096 1 t)) = 3 \<and>
     map snd (rd_blocks (sanitizer_finalize flat_api (launch_env 17) 4096 1 t)) = [False, False, True]"
proof -
  obtain t where t: "sanitizer_init flat_api (launch_env 17) 1 launch_start = (Some 4096, t)"
    and small: "4096 + dm_memSize (rd_dev t) < 2 ^ 64" using launch_runs by blast
  have pre: "\<not> dm_isSkipKernel (rd_dev launch_start)" "length (rd_registers launch_start) = 108 * 512"
    "length (MergeHostMems (rs_mm (rd_reports launch_start))) = GetMallocCount (rs_mm (rd_reports launch_start))"
    "GetMallocCount (rs_mm (rd_reports launch_start)) < 2 ^ 32"
    "SupportSimt (GetDeviceTypeBySocVersion (ie_soc (launch_env 17))) \<longrightarrow> 17 \<le> sc_cacheSize (ie_config (launch_env 17))"
    "- 32768 \<le> sc_checkBlockId (ie_config (launch_env 17))" "sc_checkBlockId (ie_config (launch_env 17)) < 32768"
    by (simp_all add: dm0_def report_start_tables) (simp_all add: launch_config_def CHECK_ALL_BLOCK_def)
  have three: "[0..<3] = [0, 1, 2 :: nat]" by (simp add: upt_rec)
  show ?thesis
    using silent_kernel_reported [OF flat_launch_law flat_read_law pre t _ small] t by (auto simp: Let_def three)
qed

end
