(* ===== verification/KernelCtx.thy ===== *)
theory KernelCtx
  imports Launches
begin

text \<open>
  Models runtime/inject_helpers/KernelContext.h and .cpp, which record what a program registers and launches
  through the older runtime interface, and the hooks that fill it: csrc/runtime/HijackedFuncOfFunctionRegister.cpp,
  SetExceptionExtInfo, CtxGetOverflowAddr, ModelBindStream and AiCpuKernelLaunchExWithArgs. What is saved of a
  launch, and the hooks that register binaries, are in theory LaunchDump. The binary of an instrumented
  kernel belongs to a task (theory DbiTask) and is referred to by its address. Host memory is total: reads
  outside of an argument block are not detected here. The mutexes make each operation one step.
\<close>

section \<open>Data\<close>

record devbin =
  db_magic :: nat
  db_version :: nat
  db_data :: "bytes option"
  db_length :: nat

definition devbin_bytes :: "devbin \<Rightarrow> bytes" where
  \<comment> \<open>the bytes behind \<open>data\<close>; a null pointer is refused like a binary of length 0\<close>
  "devbin_bytes b = (case db_data b of None \<Rightarrow> [] | Some d \<Rightarrow> take (db_length b) d)"

record RegisterEvent =
  re_hdl :: ptr
  re_bin :: devbin
  re_stubBin :: ptr
  re_kernelNames :: "string list"
  re_kernelOffsets :: "nat list"
  re_binData :: bytes
  re_isKernelWithDBI :: bool
  re_hasDebugLine :: bool

record rtArgs =
  \<comment> \<open>\<open>rtArgsEx_t\<close>, with the address of the block\<close>
  rx_args :: ptr
  rx_hostInputInfoPtr :: "rtHostInputInfo list option"
  rx_argsSize :: nat
  rx_tilingAddrOffset :: nat
  rx_tilingDataOffset :: nat
  rx_hostInputInfoNum :: nat

definition rx0 :: rtArgs where
  "rx0 = \<lparr>rx_args = 0, rx_hostInputInfoPtr = None, rx_argsSize = 0, rx_tilingAddrOffset = 0, rx_tilingDataOffset = 0,
     rx_hostInputInfoNum = 0\<rparr>"

record LaunchEvent =
  ev_launchWithHandle :: bool
  ev_stubFunc :: ptr
  ev_hdl :: ptr
  ev_hasTilingKey :: bool
  ev_tilingKey :: nat
  ev_pcStartAddr :: nat
  ev_argsInfo :: ptr
  ev_blockDim :: nat
  ev_kernelName :: string
  ev_argsInfoCopy :: rtArgs
  ev_isSink :: bool

record StubFuncInfo =
  fi_hdl :: ptr
  fi_kernelName :: string
  fi_kernelInfoExt :: string
  fi_funcMode :: nat

datatype kernel_args = StubFuncArgs ptr ptr | KernelHandleArgs ptr ptr nat
  \<comment> \<open>the original handle, the instrumented one or null, and the tiling key\<close>

record KernelDevice =
  \<comment> \<open>\<open>KernelContext::DeviceContext\<close>\<close>
  kd_memInfo :: OpMemInfo
  kd_memInfoHistory :: "OpMemInfo list"
  kd_launchEvents :: "LaunchEvent list"
  kd_isMC2 :: bool
  kd_isLccl :: bool
  kd_stopListen :: bool
  kd_listening :: bool  \<comment> \<open>the thread is there\<close>

definition kd0 :: KernelDevice where
  "kd0 = \<lparr>kd_memInfo = om0, kd_memInfoHistory = [], kd_launchEvents = [], kd_isMC2 = False, kd_isLccl = False,
     kd_stopListen = True, kd_listening = False\<rparr>"

record AicpuLaunchArgs =
  ac_kernelType :: nat
  ac_opName :: string
  ac_blockDim :: nat
  ac_stm :: ptr
  ac_isValid :: bool

record KernelContext =
  kc_registerEvents :: "RegisterEvent list"
  kc_stubInfo :: "(ptr \<times> StubFuncInfo) list"
  kc_hdlToRegId :: "(ptr \<times> nat) list"
  kc_devices :: "int \<Rightarrow> KernelDevice"
  kc_hasSimt :: bool
  kc_argsSize :: nat
  kc_kernelParamNum :: nat
  kc_simtUbDynamicSize :: nat
  kc_aicpu :: AicpuLaunchArgs  \<comment> \<open>of the calling thread\<close>

definition kc0 :: KernelContext where
  "kc0 = \<lparr>kc_registerEvents = [], kc_stubInfo = [], kc_hdlToRegId = [], kc_devices = (\<lambda>_. kd0), kc_hasSimt = False,
     kc_argsSize = 0, kc_kernelParamNum = 0, kc_simtUbDynamicSize = 0,
     kc_aicpu = \<lparr>ac_kernelType = 0, ac_opName = [], ac_blockDim = 0, ac_stm = 0, ac_isValid = False\<rparr>\<rparr>"

record kernel_env =
  kn_device :: int  \<comment> \<open>what \<open>aclrtGetDevice\<close> stores, 0 when it fails\<close>
  kn_soc :: string
  kn_addrOfStub :: "ptr \<Rightarrow> nat option"  \<comment> \<open>\<open>rtKernelGetAddrAndPrefCnt\<close>\<close>
  kn_addrOfKey :: "ptr \<Rightarrow> nat \<Rightarrow> nat option"
  kn_hmem :: "ptr \<Rightarrow> byte"  \<comment> \<open>host memory\<close>
  kn_threadId :: string  \<comment> \<open>the listening thread's number, printed\<close>
  kn_subscribe :: "nat \<Rightarrow> ptr \<Rightarrow> bool"  \<comment> \<open>whether one of the two subscriptions succeeds\<close>

definition NO_ID :: nat where "NO_ID = 2 ^ 64 - 1"

definition peek64 :: "(ptr \<Rightarrow> byte) \<Rightarrow> ptr \<Rightarrow> nat" where
  "peek64 m p = le_val (map m [p..<p + 8])"

definition on_kernel_device :: "kernel_env \<Rightarrow> (KernelDevice \<Rightarrow> KernelDevice) \<Rightarrow> KernelContext \<Rightarrow> KernelContext" where
  "on_kernel_device env g k = k\<lparr>kc_devices := (kc_devices k)(kn_device env := g (kc_devices k (kn_device env)))\<rparr>"

definition GetDeviceContext :: "kernel_env \<Rightarrow> KernelContext \<Rightarrow> KernelDevice" where
  \<comment> \<open>made when it is first asked for\<close>
  "GetDeviceContext env k = kc_devices k (kn_device env)"

section \<open>Names and tiling keys\<close>

definition isspace :: "char \<Rightarrow> bool" where
  "isspace c \<longleftrightarrow> code c = 32 \<or> (9 \<le> code c \<and> code c \<le> 13)"

definition extract_u64 :: "string \<Rightarrow> nat \<Rightarrow> nat" where
  \<comment> \<open>\<open>stringstream >> uint64_t\<close>: an empty stream keeps the old value, one without digits stores 0, a
    number too large the largest one\<close>
  "extract_u64 s old =
     (let t = dropWhile isspace s in
      if t = [] then old
      else let neg = (hd t = CHR ''-''); t = (if neg \<or> hd t = CHR ''+'' then tl t else t);
               ds = takeWhile isdigit t; v = dec_val ds in
        if ds = [] then 0 else if v \<ge> 2 ^ 64 then 2 ^ 64 - 1 else if neg then (2 ^ 64 - v) mod 2 ^ 64 else v)"

definition GetTilingKeyFromName :: "string \<Rightarrow> nat \<Rightarrow> nat option" where
  \<comment> \<open>with the value of the variable before; \<open>None\<close> for \<open>false\<close>\<close>
  "GetTilingKeyFromName kernelName tilingKey =
     (let kernelName = (if EndsWith kernelName MIX_AIC_TAIL \<or> EndsWith kernelName MIX_AIV_TAIL
                        then take (length kernelName - 8) kernelName else kernelName);
          items = SplitString CHR ''_'' kernelName in
      if length items < 2 then None else Some (extract_u64 (last items) tilingKey))"

fun offset_by_key :: "(string \<times> nat) list \<Rightarrow> nat \<Rightarrow> nat \<Rightarrow> nat option" where
  \<comment> \<open>the loop; the variable of the key is shared by its rounds\<close>
  "offset_by_key [] tilingKey fromName = None"
| "offset_by_key ((name, off) # rest) tilingKey fromName =
     (case GetTilingKeyFromName name fromName of
        None \<Rightarrow> offset_by_key rest tilingKey fromName
      | Some k \<Rightarrow> if k = tilingKey then Some off else offset_by_key rest tilingKey k)"

definition GetKernelOffsetByTilingKey :: "string list \<Rightarrow> nat list \<Rightarrow> nat \<Rightarrow> nat option" where
  "GetKernelOffsetByTilingKey kernelNames kernelOffsets tilingKey = offset_by_key (zip kernelNames kernelOffsets) tilingKey 0"

definition key_suffixes :: "nat \<Rightarrow> string list" where
  "key_suffixes tilingKey =
     (let nameSuffix = ''_'' @ decimal tilingKey in [nameSuffix, nameSuffix @ MIX_AIC_TAIL, nameSuffix @ MIX_AIV_TAIL])"

definition GetNameByTilingKey :: "KernelContext \<Rightarrow> ptr \<Rightarrow> nat \<Rightarrow> string" where
  "GetNameByTilingKey k hdl tilingKey =
     (case map_of (kc_hdlToRegId k) hdl of
        None \<Rightarrow> []
      | Some regId \<Rightarrow>
          let names = re_kernelNames (kc_registerEvents k ! regId) in
          if length names = 1 then last names
          else (case find (\<lambda>name. list_ex (EndsWith name) (key_suffixes tilingKey)) names of
                  None \<Rightarrow> [] | Some name \<Rightarrow> name))"

definition GetFullKernelName :: "string option \<Rightarrow> string list \<Rightarrow> string" where
  "GetFullKernelName name fullNames =
     (case name of
        None \<Rightarrow> []
      | Some s \<Rightarrow>
          let subName = take (GetValidLength (Some s) 1023) s in
          (case find (\<lambda>fullName. fullName = subName \<or> find_sub (subName @ MIX_AIC_TAIL) fullName \<noteq> None \<or>
                         find_sub (subName @ MIX_AIV_TAIL) fullName \<noteq> None) fullNames of
             None \<Rightarrow> [] | Some fullName \<Rightarrow> fullName))"

section \<open>Queries\<close>

definition GetDevBinary :: "(ptr \<Rightarrow> devbin option) \<Rightarrow> KernelContext \<Rightarrow> ptr \<Rightarrow> bool \<Rightarrow> devbin elf_result" where
  \<comment> \<open>\<open>bins\<close>: the instrumented binaries that still exist; \<open>Undef\<close> is the read of one that does not\<close>
  "GetDevBinary bins k hdl getStubBin =
     (case map_of (kc_hdlToRegId k) hdl of
        None \<Rightarrow> Fail
      | Some regId \<Rightarrow>
          let e = kc_registerEvents k ! regId in
          if getStubBin \<and> re_stubBin e = 0 then Fail
          else if getStubBin then (case bins (re_stubBin e) of None \<Rightarrow> Undef | Some b \<Rightarrow> Ok b)
          else Ok (re_bin e))"

definition GetDevBinary_stub :: "(ptr \<Rightarrow> devbin option) \<Rightarrow> KernelContext \<Rightarrow> ptr \<Rightarrow> bool \<Rightarrow> devbin elf_result" where
  "GetDevBinary_stub bins k stubFunc getStubBin =
     (case map_of (kc_stubInfo k) stubFunc of
        None \<Rightarrow> Fail
      | Some i \<Rightarrow> GetDevBinary bins k (fi_hdl i) getStubBin)"

definition GetLastLaunchEvent :: "KernelDevice \<Rightarrow> LaunchEvent option" where
  "GetLastLaunchEvent d = (if kd_launchEvents d = [] then None else Some (last (kd_launchEvents d)))"

definition GetStubFuncInfo :: "KernelContext \<Rightarrow> ptr \<Rightarrow> StubFuncInfo option" where
  "GetStubFuncInfo k stubFunc = map_of (kc_stubInfo k) stubFunc"

definition GetLaunchId :: "KernelDevice \<Rightarrow> nat" where
  "GetLaunchId d = (if kd_launchEvents d = [] then NO_ID else length (kd_launchEvents d) - 1)"

definition GetLaunchName :: "KernelDevice \<Rightarrow> nat \<Rightarrow> string" where
  "GetLaunchName d launchId =
     (let launchId = (if launchId = NO_ID then GetLaunchId d else launchId) in
      if launchId \<ge> length (kd_launchEvents d) then ''invalid_launch_id'' else ev_kernelName (kd_launchEvents d ! launchId))"

definition GetBlockId :: "KernelDevice \<Rightarrow> nat" where
  "GetBlockId d = (if GetLaunchId d = NO_ID then 2 ^ 32 - 1 else ev_blockDim (kd_launchEvents d ! GetLaunchId d))"

definition GetLaunchEvent :: "KernelDevice \<Rightarrow> nat \<Rightarrow> LaunchEvent option" where
  "GetLaunchEvent d launchId =
     (if launchId < length (kd_launchEvents d) then Some (kd_launchEvents d ! launchId) else None)"

definition GetRegisterId_key :: "KernelContext \<Rightarrow> ptr \<Rightarrow> bool \<Rightarrow> nat" where
  "GetRegisterId_key k key withHandle =
     (case (if withHandle then Some key else map_option fi_hdl (map_of (kc_stubInfo k) key)) of
        None \<Rightarrow> NO_ID
      | Some key \<Rightarrow> (case map_of (kc_hdlToRegId k) key of None \<Rightarrow> NO_ID | Some i \<Rightarrow> i))"

definition GetRegisterId :: "KernelContext \<Rightarrow> KernelDevice \<Rightarrow> nat \<Rightarrow> nat" where
  "GetRegisterId k d launchId =
     (if launchId \<ge> length (kd_launchEvents d) then NO_ID
      else GetRegisterId_key k (ev_hdl (kd_launchEvents d ! launchId)) True)"

definition GetRegisterEvent :: "KernelContext \<Rightarrow> nat \<Rightarrow> RegisterEvent option" where
  "GetRegisterEvent k regId =
     (if regId \<ge> length (kc_registerEvents k) then None else Some (kc_registerEvents k ! regId))"

definition GetNextRegisterId :: "KernelContext \<Rightarrow> nat" where
  "GetNextRegisterId k = length (kc_registerEvents k)"

definition CheckHdlVaild :: "KernelContext \<Rightarrow> ptr \<Rightarrow> bool" where
  "CheckHdlVaild k hdl \<longleftrightarrow> map_of (kc_hdlToRegId k) hdl \<noteq> None"

definition CheckStubValid :: "KernelContext \<Rightarrow> ptr \<Rightarrow> bool" where
  "CheckStubValid k stub \<longleftrightarrow> map_of (kc_stubInfo k) stub \<noteq> None"

section \<open>Where a kernel starts\<close>

definition GetKernelAddr :: "kernel_env \<Rightarrow> kernel_args \<Rightarrow> nat option" where
  "GetKernelAddr env args =
     (case args of
        StubFuncArgs originHandle dbiHandle \<Rightarrow> kn_addrOfStub env (if dbiHandle \<noteq> 0 then dbiHandle else originHandle)
      | KernelHandleArgs originHandle dbiHandle tilingKey \<Rightarrow>
          kn_addrOfKey env (if dbiHandle \<noteq> 0 then dbiHandle else originHandle) tilingKey)"

definition GetKernelOffset :: "KernelContext \<Rightarrow> kernel_args \<Rightarrow> nat option" where
  "GetKernelOffset k args =
     (case args of
        StubFuncArgs originHandle dbiHandle \<Rightarrow>
          (case GetStubFuncInfo k originHandle of
             None \<Rightarrow> None
           | Some i \<Rightarrow>
               (case GetRegisterEvent k (GetRegisterId_key k (fi_hdl i) True) of
                  None \<Rightarrow> None
                | Some e \<Rightarrow> map_option snd
                    (find (\<lambda>(name, off). name = fi_kernelName i) (zip (re_kernelNames e) (re_kernelOffsets e)))))
      | KernelHandleArgs originHandle dbiHandle tilingKey \<Rightarrow>
          (case GetRegisterEvent k (GetRegisterId_key k originHandle True) of
             None \<Rightarrow> None
           | Some e \<Rightarrow> GetKernelOffsetByTilingKey (re_kernelNames e) (re_kernelOffsets e) tilingKey))"

definition GetPcStartAddr :: "kernel_env \<Rightarrow> KernelContext \<Rightarrow> kernel_args \<Rightarrow> nat option" where
  \<comment> \<open>the template\<close>
  "GetPcStartAddr env k args =
     (case GetKernelAddr env args of
        None \<Rightarrow> None
      | Some kernelAddr \<Rightarrow>
          (case GetKernelOffset k args of
             None \<Rightarrow> None
           | Some kernelOffset \<Rightarrow> if kernelAddr < kernelOffset then None else Some (kernelAddr - kernelOffset)))"

definition GetPcStartAddr_hdl :: "kernel_env \<Rightarrow> KernelContext \<Rightarrow> ptr \<Rightarrow> nat option" where
  "GetPcStartAddr_hdl env k hdl =
     (case map_of (kc_hdlToRegId k) hdl of
        None \<Rightarrow> None
      | Some regId \<Rightarrow>
          (case re_kernelNames (kc_registerEvents k ! regId) of
             [] \<Rightarrow> None
           | name # _ \<Rightarrow>
               (case GetTilingKeyFromName name 0 of
                  None \<Rightarrow> None
                | Some tilingKey \<Rightarrow> GetPcStartAddr env k (KernelHandleArgs hdl 0 tilingKey))))"

definition GetPcStartAddr_stub :: "kernel_env \<Rightarrow> KernelContext \<Rightarrow> ptr \<Rightarrow> nat option" where
  "GetPcStartAddr_stub env k stubFunc = GetPcStartAddr env k (StubFuncArgs stubFunc 0)"

section \<open>Registrations\<close>

definition new_RegisterEvent :: "ptr \<Rightarrow> devbin \<Rightarrow> ptr \<Rightarrow> RegisterEvent" where
  \<comment> \<open>the event before it is entered: the bytes are copied, then scanned\<close>
  "new_RegisterEvent hdl bin stubBin =
     (let sy = (case ScanKernelSymbols (devbin_bytes bin) of Ok sy \<Rightarrow> sy | _ \<Rightarrow> no_symbols);
          headers = GetSectionHeaders (devbin_bytes bin) in
      \<lparr>re_hdl = hdl, re_bin = bin, re_stubBin = stubBin,
       re_kernelNames = map chars (ks_names sy), re_kernelOffsets = ks_offsets sy, re_binData = devbin_bytes bin,
       re_isKernelWithDBI = (case headers of None \<Rightarrow> True | Some h \<Rightarrow> map_of h (ascii stub_section) = None),
       re_hasDebugLine = (case headers of None \<Rightarrow> False | Some h \<Rightarrow> map_of h (ascii ''.debug_line'') \<noteq> None)\<rparr>)"

definition AddHdlRegisterEvent :: "ptr \<Rightarrow> devbin option \<Rightarrow> ptr \<Rightarrow> KernelContext \<Rightarrow> KernelContext" where
  "AddHdlRegisterEvent hdl bin stubBin k =
     (case bin of
        None \<Rightarrow> k
      | Some b \<Rightarrow>
          if hdl = 0 then k
          else if db_length b \<ge> MAX_MEM_BYTE_SIZE then k
          else k\<lparr>kc_hasSimt := GetSimtSymbolFromBinary (devbin_bytes b),
                 kc_hdlToRegId := al_put hdl (length (kc_registerEvents k)) (kc_hdlToRegId k),
                 kc_registerEvents := kc_registerEvents k @ [new_RegisterEvent hdl b stubBin]\<rparr>)"

definition stub_name :: "KernelContext \<Rightarrow> ptr \<Rightarrow> string option \<Rightarrow> string option \<Rightarrow> string" where
  \<comment> \<open>the name that a function is entered with\<close>
  "stub_name k binHdl stubName kernelInfoExt =
     (let given = (case stubName of None \<Rightarrow> ''anonymous'' | Some n \<Rightarrow> n) in
      case map_of (kc_hdlToRegId k) binHdl of
        None \<Rightarrow> given
      | Some regId \<Rightarrow>
          (case GetRegisterEvent k regId of
             None \<Rightarrow> given
           | Some e \<Rightarrow>
               let tmpName = GetFullKernelName stubName (re_kernelNames e) in
               if tmpName \<noteq> [] then tmpName
               else let tmpName = GetFullKernelName kernelInfoExt (re_kernelNames e) in
                 if tmpName \<noteq> [] then tmpName else given))"

definition AddFuncRegisterEvent ::
  "ptr \<Rightarrow> ptr \<Rightarrow> string option \<Rightarrow> string option \<Rightarrow> nat \<Rightarrow> KernelContext \<Rightarrow> KernelContext"
where
  \<comment> \<open>\<open>insert\<close> leaves an entry that is there\<close>
  "AddFuncRegisterEvent binHdl stubFunc stubName kernelInfoExt funcMode k =
     (let info = \<lparr>fi_hdl = binHdl, fi_kernelName = stub_name k binHdl stubName kernelInfoExt,
                  fi_kernelInfoExt = (case kernelInfoExt of None \<Rightarrow> [] | Some n \<Rightarrow> n), fi_funcMode = funcMode\<rparr> in
      if map_of (kc_stubInfo k) stubFunc \<noteq> None then k
      else k\<lparr>kc_stubInfo := al_put stubFunc info (kc_stubInfo k)\<rparr>)"

definition SetDbiBinary :: "nat \<Rightarrow> ptr \<Rightarrow> devbin \<Rightarrow> KernelContext \<Rightarrow> bool \<times> KernelContext" where
  \<comment> \<open>the address of the binary and what is there\<close>
  "SetDbiBinary registerId p devBinary k =
     (if registerId \<ge> length (kc_registerEvents k) then (False, k)
      else
        let sy = (case ScanKernelSymbols (devbin_bytes devBinary) of Ok sy \<Rightarrow> sy | _ \<Rightarrow> no_symbols);
            e = (kc_registerEvents k ! registerId)\<lparr>re_stubBin := p, re_kernelNames := map chars (ks_names sy),
                   re_kernelOffsets := ks_offsets sy\<rparr> in
        (True, k\<lparr>kc_registerEvents := (kc_registerEvents k)[registerId := e]\<rparr>))"

section \<open>Launches\<close>

definition push_launch :: "kernel_env \<Rightarrow> LaunchEvent \<Rightarrow> KernelContext \<Rightarrow> KernelContext" where
  "push_launch env ev k = on_kernel_device env (\<lambda>d. d\<lparr>kd_launchEvents := kd_launchEvents d @ [ev]\<rparr>) k"

definition args_ptr :: "(ptr \<times> rtArgs) option \<Rightarrow> ptr" where
  "args_ptr argsInfo = (case argsInfo of None \<Rightarrow> 0 | Some (p, a) \<Rightarrow> p)"

definition args_copy :: "(ptr \<times> rtArgs) option \<Rightarrow> rtArgs" where
  "args_copy argsInfo = (case argsInfo of None \<Rightarrow> rx0 | Some (p, a) \<Rightarrow> a)"

definition AddLaunchEvent_stub ::
  "kernel_env \<Rightarrow> ptr \<Rightarrow> nat \<Rightarrow> (ptr \<times> rtArgs) option \<Rightarrow> ptr \<Rightarrow> KernelContext \<Rightarrow> contexts \<Rightarrow> KernelContext \<times> contexts"
where
  "AddLaunchEvent_stub env stubFunc blockDim argsInfo stm k s =
     (case map_of (kc_stubInfo k) stubFunc of
        None \<Rightarrow> (k, s)
      | Some info \<Rightarrow>
          let pcStartAddr = (case GetPcStartAddr env k (StubFuncArgs stubFunc 0) of None \<Rightarrow> 0 | Some pc \<Rightarrow> pc);
              (stmInfo, s) = GetOrCreateStreamInfo stm s in
          (push_launch env
             \<lparr>ev_launchWithHandle = False, ev_stubFunc = stubFunc, ev_hdl = fi_hdl info, ev_hasTilingKey = False,
              ev_tilingKey = 0, ev_pcStartAddr = pcStartAddr, ev_argsInfo = args_ptr argsInfo, ev_blockDim = blockDim,
              ev_kernelName = fi_kernelName info, ev_argsInfoCopy = args_copy argsInfo, ev_isSink = sm_binded stmInfo\<rparr> k, s))"

definition AddLaunchEvent_handle ::
  "kernel_env \<Rightarrow> ptr \<Rightarrow> nat \<Rightarrow> nat \<Rightarrow> (ptr \<times> rtArgs) option \<Rightarrow> ptr \<Rightarrow> KernelContext \<Rightarrow> contexts \<Rightarrow>
   KernelContext \<times> contexts"
where
  "AddLaunchEvent_handle env hdl tilingKey blockDim argsInfo stm k s =
     (let kernelName = GetNameByTilingKey k hdl tilingKey;
          pcStartAddr = (case GetPcStartAddr env k (KernelHandleArgs hdl 0 tilingKey) of None \<Rightarrow> 0 | Some pc \<Rightarrow> pc);
          (stmInfo, s) = GetOrCreateStreamInfo stm s in
      (push_launch env
         \<lparr>ev_launchWithHandle = True, ev_stubFunc = 0, ev_hdl = hdl, ev_hasTilingKey = True,
          ev_tilingKey = tilingKey, ev_pcStartAddr = pcStartAddr, ev_argsInfo = args_ptr argsInfo, ev_blockDim = blockDim,
          ev_kernelName = kernelName, ev_argsInfoCopy = args_copy argsInfo, ev_isSink = sm_binded stmInfo\<rparr> k, s))"

definition UpdatePcStartAddrByDbi :: "kernel_env \<Rightarrow> nat \<Rightarrow> kernel_args \<Rightarrow> KernelContext \<Rightarrow> bool \<times> KernelContext" where
  "UpdatePcStartAddrByDbi env launchId args k =
     (let d = GetDeviceContext env k in
      if launchId \<ge> length (kd_launchEvents d) then (False, k)
      else
        (case GetPcStartAddr env k args of
           None \<Rightarrow> (False, k)
         | Some pcStartAddr \<Rightarrow>
             (True, on_kernel_device env (\<lambda>d. d\<lparr>kd_launchEvents :=
                (kd_launchEvents d)[launchId := (kd_launchEvents d ! launchId)\<lparr>ev_pcStartAddr := pcStartAddr\<rparr>]\<rparr>) k)))"

section \<open>What is known of the arguments\<close>

definition ClearArgsInfo :: "kernel_env \<Rightarrow> KernelContext \<Rightarrow> KernelContext" where
  "ClearArgsInfo env k = on_kernel_device env (\<lambda>d. d\<lparr>kd_memInfo := om_Clear (kd_memInfo d)\<rparr>) k"

definition ArchiveMemInfo_kernel :: "kernel_env \<Rightarrow> KernelContext \<Rightarrow> KernelContext" where
  "ArchiveMemInfo_kernel env k =
     on_kernel_device env (\<lambda>d. d\<lparr>kd_memInfoHistory := kd_memInfoHistory d @ [kd_memInfo d]\<rparr>) k"

fun size_inputs :: "(nat \<Rightarrow> nat) \<Rightarrow> nat list \<Rightarrow> AddrInfo list" where
  \<comment> \<open>the loop over the inputs: only a first-level pointer is entered\<close>
  "size_inputs buff [] = []"
| "size_inputs buff (i # is) =
     (let w = buff (2 + i) in
      if (w div 2 ^ 56) mod 256 = 0 then mk_AddrInfo 0 (w mod 2 ^ 56) EXTRA INPUT (i + 1) # size_inputs buff is
      else size_inputs buff is)"

definition sized_meminfo :: "(nat \<Rightarrow> nat) \<Rightarrow> OpMemInfo \<Rightarrow> OpMemInfo" where
  "sized_meminfo buff m =
     (let inputNum = buff 1 mod 2 ^ 32; skipNum = (buff 1 div 2 ^ 32) mod 2 ^ 32 in
      (om_Clear m)\<lparr>om_isForSetException := True, om_inputNum := inputNum, om_skipNum := skipNum,
        om_inputParamsAddrInfos := size_inputs buff [0..<inputNum], om_isFFTS := skipNum \<noteq> 0\<rparr>)"

definition SetArgsSize :: "kernel_env \<Rightarrow> ptr option \<Rightarrow> KernelContext \<Rightarrow> KernelContext" where
  \<comment> \<open>the pointer, and there \<open>infoAddr\<close>\<close>
  "SetArgsSize env sizeInfo k =
     (case sizeInfo of
        None \<Rightarrow> k
      | Some infoAddr \<Rightarrow>
          if infoAddr = 0 then k
          else on_kernel_device env (\<lambda>d. d\<lparr>kd_memInfo :=
                 sized_meminfo (\<lambda>i. peek64 (kn_hmem env) (infoAddr + 8 * i)) (kd_memInfo d)\<rparr>) k)"

definition SetArgsSize_num :: "nat \<Rightarrow> KernelContext \<Rightarrow> KernelContext" where
  "SetArgsSize_num argSize k = k\<lparr>kc_argsSize := wrap32 argSize\<rparr>"

definition SetKernelParamNum :: "nat \<Rightarrow> KernelContext \<Rightarrow> KernelContext" where
  "SetKernelParamNum n k = k\<lparr>kc_kernelParamNum := wrap32 n\<rparr>"

definition SetSimtUbDynamicSize_kernel :: "nat \<Rightarrow> KernelContext \<Rightarrow> KernelContext" where
  "SetSimtUbDynamicSize_kernel n k = k\<lparr>kc_simtUbDynamicSize := wrap32 n\<rparr>"

definition tiling_buffer :: "(ptr \<Rightarrow> byte) \<Rightarrow> rtArgs \<Rightarrow> ptr" where
  \<comment> \<open>\<open>tilingBuffData\<close>: in the block, or where the block points to\<close>
  "tiling_buffer m a =
     (if rx_tilingDataOffset a \<noteq> 0 then rx_args a + rx_tilingDataOffset a div 8 * 8
      else if rx_tilingAddrOffset a \<noteq> 0 then peek64 m (rx_args a + rx_tilingAddrOffset a div 8 * 8)
      else 0)"

definition CompleteInputData :: "kernel_env \<Rightarrow> rtArgs \<Rightarrow> OpMemInfo \<Rightarrow> ArgsManager \<Rightarrow> OpMemInfo \<times> ArgsManager" where
  "CompleteInputData env a m am =
     (let p = tiling_buffer (kn_hmem env) a in
      if p \<noteq> 0 \<and> om_tilingDataSize m > 0 then
        UpdateInputSizeWithTilingData (peek64 (kn_hmem env)) (map (kn_hmem env) [p..<p + om_tilingDataSize m]) m am
      else (m, am))"

definition parsed_meminfo ::
  "kernel_env \<Rightarrow> devbin \<Rightarrow> rtArgs option \<Rightarrow> string \<Rightarrow> OpMemInfo \<Rightarrow> ArgsManager \<Rightarrow> (OpMemInfo \<times> ArgsManager) option"
where
  \<comment> \<open>\<open>None\<close> is a read outside of the section\<close>
  "parsed_meminfo env binary argsInfo kernelName m am =
     (if om_isForSetException m then
        Some ((SetFftsInfo (kn_soc env) (db_magic binary) m)\<lparr>om_isForSetException := False\<rparr>, am)
      else
        let m = om_Clear m; metaData = GetMetaSection (devbin_bytes binary) kernelName in
        if metaData = [] then Some (m, am)
        else (case Parse (kn_soc env) metaData of
                None \<Rightarrow> None
              | Some (ok, parsed) \<Rightarrow>
                  if \<not> ok then Some (m, am)
                  else
                    let m = SetFftsInfo (kn_soc env) (db_magic binary)
                              (parsed\<lparr>om_hasOverflowAddr := om_hasOverflowAddr m, om_overflowAddr := om_overflowAddr m\<rparr>) in
                    Some (case argsInfo of None \<Rightarrow> (m, am) | Some a \<Rightarrow> CompleteInputData env a m am)))"

definition ParseMetaDataFromBinary ::
  "kernel_env \<Rightarrow> devbin \<Rightarrow> rtArgs option \<Rightarrow> KernelContext \<Rightarrow> contexts \<Rightarrow> (KernelContext \<times> contexts) option"
where
  "ParseMetaDataFromBinary env binary argsInfo k s =
     map_option (\<lambda>(m, am). (on_kernel_device env (\<lambda>d. d\<lparr>kd_memInfo := m\<rparr>) k, s\<lparr>cx_args := am\<rparr>))
       (parsed_meminfo env binary argsInfo (GetLaunchName (GetDeviceContext env k) NO_ID)
          (kd_memInfo (GetDeviceContext env k)) (cx_args s))"

definition tensor_entry_kernel :: "nat \<Rightarrow> nat \<Rightarrow> nat \<Rightarrow> AddrInfo" where
  "tensor_entry_kernel a len ptrIdx = mk_AddrInfo a len EXTRA DOUBLE_PTR (ptrIdx + 1)"

fun second_inputs_kernel ::
  "(ptr \<Rightarrow> byte) \<Rightarrow> ptr \<Rightarrow> nat \<Rightarrow> nat \<Rightarrow> rtHostInputInfo list \<Rightarrow> AddrInfo list \<Rightarrow> AddrInfo list option"
where
  \<comment> \<open>the loop over the host inputs\<close>
  "second_inputs_kernel m args index dtypeBytes [] acc = Some acc"
| "second_inputs_kernel m args index dtypeBytes (h # hs) acc =
     (if hi_addrOffset h div 8 \<noteq> index then second_inputs_kernel m args index dtypeBytes hs acc
      else
        let rd = (\<lambda>i. Some (peek64 m (args + 8 * (hi_dataOffset h div 8 + i)))) in
        (case second_loop tensor_entry_kernel rd dtypeBytes (the (rd 0) div 8) 0 0 acc of
           None \<Rightarrow> None
         | Some acc \<Rightarrow> second_inputs_kernel m args index dtypeBytes hs acc))"

definition ParseSecondPtrAddrs_kernel :: "kernel_env \<Rightarrow> rtArgs \<Rightarrow> OpMemInfo \<Rightarrow> nat \<Rightarrow> OpMemInfo option" where
  "ParseSecondPtrAddrs_kernel env a m index =
     (case map_of (om_secondPtrAddrInfos m) index of
        None \<Rightarrow> Some m
      | Some sp \<Rightarrow>
          (case rx_hostInputInfoPtr a of
             None \<Rightarrow> Some m
           | Some hs \<Rightarrow>
               map_option
                 (\<lambda>infos. m\<lparr>om_secondPtrAddrInfos :=
                    al_put index (sp\<lparr>sp_addrInfoVec := infos\<rparr>) (om_secondPtrAddrInfos m)\<rparr>)
                 (second_inputs_kernel (kn_hmem env) (rx_args a) index (sp_dtypeBytes sp)
                    (take (rx_hostInputInfoNum a) hs) (sp_addrInfoVec sp))))"

section \<open>Communication operators and callbacks\<close>

definition MC2_AICPU_SUFFIX :: string where "MC2_AICPU_SUFFIX = ''Mc2AicpuKernel''"
definition KERNEL_TYPE_AICPU_KFC :: nat where "KERNEL_TYPE_AICPU_KFC = 5"

definition is_mc2_pair :: "AicpuLaunchArgs \<Rightarrow> string \<Rightarrow> bool" where
  \<comment> \<open>the aicpu kernel belongs to the aicore one\<close>
  "is_mc2_pair a aiCoreKernelName \<longleftrightarrow>
     EndsWith (ac_opName a) MC2_AICPU_SUFFIX \<and>
     (let kernelName = take (the (rfind_sub MC2_AICPU_SUFFIX (ac_opName a) (length (ac_opName a)))) (ac_opName a) in
      ac_isValid a \<and> (aiCoreKernelName = kernelName \<or> StartsWith aiCoreKernelName (kernelName @ ''_'')))"

definition SetMC2Flag :: "kernel_env \<Rightarrow> contexts \<Rightarrow> KernelContext \<Rightarrow> KernelContext" where
  "SetMC2Flag env s k =
     (let aiCoreKernelName = (case GetLastLaunch (cx_launch s (kn_device env)) of
                                None \<Rightarrow> ''invalid_kernel_name''
                              | Some l \<Rightarrow> fx_kernelName (cx_heap s ! lx_func l)) in
      on_kernel_device env (\<lambda>d. d\<lparr>kd_isMC2 := is_mc2_pair (kc_aicpu k) aiCoreKernelName\<rparr>) k)"

definition SetLcclFlag :: "kernel_env \<Rightarrow> bool \<Rightarrow> KernelContext \<Rightarrow> KernelContext" where
  "SetLcclFlag env isLccl k = on_kernel_device env (\<lambda>d. d\<lparr>kd_isLccl := isLccl\<rparr>) k"

definition SubscribeReport :: "kernel_env \<Rightarrow> ptr \<Rightarrow> KernelContext \<Rightarrow> contexts \<Rightarrow> bool \<times> KernelContext \<times> contexts" where
  \<comment> \<open>the stream's entry is made when it is first asked for\<close>
  "SubscribeReport env stm k s =
     (let (streamInfo, s) = GetOrCreateStreamInfo stm s in
      if sm_subscribed streamInfo then (True, k, s)
      else
        let k = on_kernel_device env (\<lambda>d. d\<lparr>kd_stopListen := False, kd_listening := True\<rparr>) k in
        case StringToNum True 64 (kn_threadId env) of
          None \<Rightarrow> (False, k, s)
        | Some tid \<Rightarrow>
            if \<not> kn_subscribe env (nat tid) stm then (False, k, s)
            else (True, k, s\<lparr>cx_streams := al_put stm (streamInfo\<lparr>sm_subscribed := True\<rparr>) (cx_streams s)\<rparr>))"

section \<open>The hooks\<close>

definition FunctionRegister_Pre ::
  "ptr \<Rightarrow> ptr \<Rightarrow> string option \<Rightarrow> string option \<Rightarrow> nat \<Rightarrow> KernelContext \<Rightarrow> KernelContext"
where
  "FunctionRegister_Pre binHandle stubFunc stubName kernelInfoExt funcMode k =
     (if binHandle = 0 \<or> stubFunc = 0 then k
      else AddFuncRegisterEvent binHandle stubFunc stubName kernelInfoExt funcMode k)"

definition SetExceptionExtInfo_Pre :: "kernel_env \<Rightarrow> ptr option \<Rightarrow> KernelContext \<Rightarrow> KernelContext" where
  "SetExceptionExtInfo_Pre env sizeInfo k = SetArgsSize env sizeInfo k"

definition CtxGetOverflowAddr_Post ::
  "FuncSelector \<Rightarrow> kernel_env \<Rightarrow> ptr option \<Rightarrow> acl_error \<Rightarrow> KernelContext \<Rightarrow> acl_error \<times> KernelContext"
where
  "CtxGetOverflowAddr_Post sel env overflowAddr ret k =
     (if IsSanitizer sel then
        (case overflowAddr of
           None \<Rightarrow> (ret, k)
         | Some p \<Rightarrow> (ret, on_kernel_device env (\<lambda>d. d\<lparr>kd_memInfo :=
             (kd_memInfo d)\<lparr>om_hasOverflowAddr := True, om_overflowAddr := p\<rparr>\<rparr>) k))
      else (ret, k))"

definition ModelBindStream_Pre :: "ptr \<Rightarrow> contexts \<Rightarrow> contexts" where
  "ModelBindStream_Pre stm s = set_binded True stm s"

definition AiCpuLaunch_Pre ::
  "FuncSelector \<Rightarrow> 'w acl_api \<Rightarrow> MemoryGuard \<Rightarrow> nat \<Rightarrow> string option \<Rightarrow> nat \<Rightarrow> ptr \<Rightarrow> KernelContext \<Rightarrow> 'w \<Rightarrow>
   KernelContext \<times> 'w"
where
  "AiCpuLaunch_Pre sel api g kernelType opName blockDim stm k w =
     (if \<not> IsOpProf sel then (k, w)
      else
        let validOpName = (case opName of None \<Rightarrow> [] | Some s \<Rightarrow> take (GetValidLength opName KERNEL_NAME_MAX) s);
            k = (if kernelType = KERNEL_TYPE_AICPU_KFC \<and> EndsWith validOpName MC2_AICPU_SUFFIX
                 then k\<lparr>kc_aicpu := \<lparr>ac_kernelType = kernelType, ac_opName = validOpName, ac_blockDim = blockDim,
                                    ac_stm = stm, ac_isValid = True\<rparr>\<rparr>
                 else k\<lparr>kc_aicpu := (kc_aicpu k)\<lparr>ac_isValid := False\<rparr>\<rparr>) in
        (k, FillAllMemGuard api g w))"

definition AiCpuLaunch_Post ::
  "FuncSelector \<Rightarrow> 'w acl_api \<Rightarrow> MemoryGuard \<Rightarrow> acl_error \<Rightarrow> 'w \<Rightarrow>
   (acl_error \<times> MemoryGuard \<times> GMAddrOutOfBoundRecord list) \<times> 'w"
where
  \<comment> \<open>with the records that are sent\<close>
  "AiCpuLaunch_Post sel api g ret w =
     (if IsSanitizer sel then (case CheckAllMemGuard api g w of ((g, rs), w) \<Rightarrow> ((ret, g, rs), w))
      else ((ret, g, []), w))"

end
