(* ===== verification/KernelFacts.thy ===== *)
theory KernelFacts
  imports KernelCtx
begin

text \<open>
  What the tables of KernelCtx keep: each handle leads to the event of its last registration, each function to
  its first one, and an event's names and offsets belong together, after any run of the operations. Then the two
  searches by a tiling key, the start of a kernel, second-level pointers and the guards of an aicpu launch.
\<close>

section \<open>Tiling keys in names\<close>

lemma no_tail:
  assumes "isdigit (last xs)"
  shows "\<not> EndsWith xs MIX_AIC_TAIL" "\<not> EndsWith xs MIX_AIV_TAIL"
proof -
  have "last xs = last t" if "EndsWith xs t" "t \<noteq> []" for t
    using that EndsWith_append [of "[]" xs t] by auto
  from this [of MIX_AIC_TAIL] this [of MIX_AIV_TAIL] assms show "\<not> EndsWith xs MIX_AIC_TAIL" "\<not> EndsWith xs MIX_AIV_TAIL"
    by (auto simp: MIX_AIC_TAIL_def MIX_AIV_TAIL_def isdigit_def code_def)
qed

lemma SplitString_append: "SplitString d (xs @ d # ys) = SplitString d (xs @ [d]) @ SplitString d ys"
proof (induction xs rule: measure_induct_rule [of length])
  case (less xs)
  show ?case
  proof (cases "d \<in> set xs")
    case True
    then obtain as bs where xs: "xs = as @ d # bs" "d \<notin> set as" using split_list_first by metis
    then show ?thesis using less [of bs] SplitString_cons [OF xs(2)] by simp
  next
    case False
    then show ?thesis using SplitString_cons [of d xs ys] SplitString_cons [of d xs "[]"] by simp
  qed
qed

lemma SplitString_snoc_not_empty: "SplitString d (xs @ [d]) \<noteq> []"
  by (cases xs) auto

lemma extract_decimal: "k < 2 ^ 64 \<Longrightarrow> extract_u64 (decimal k) old = k"
proof -
  assume k: "k < 2 ^ 64"
  obtain c cs where d: "decimal k = c # cs" using decimal_not_empty [of k] by (cases "decimal k") auto
  have digits: "list_all isdigit (c # cs)" using decimal_all_digits [of k] d by simp
  then have "\<not> isspace c" "c \<noteq> CHR ''-''" "c \<noteq> CHR ''+''" by (auto simp: isspace_def isdigit_def code_def)
  moreover have "takeWhile isdigit (c # cs) = c # cs" using digits by (simp add: takeWhile_eq_all_conv list_all_iff)
  moreover have "dec_val (c # cs) = k" using decimal_value [of k] d by (simp add: dec_val_def)
  ultimately show ?thesis using k unfolding extract_u64_def d by (simp only: dropWhile.simps if_False Let_def list.sel list.simps simp_thms not_le) auto
qed

lemma key_of_symbol:
  assumes "t \<in> set tails" "k < 2 ^ 64"
  shows "GetTilingKeyFromName (symbol_name (b, k, t)) old = Some k"
proof -
  let ?n = "b @ ''_'' @ decimal k"
  have "isdigit (last ?n)" using last_decimal [of k] decimal_not_empty [of k] by simp
  note bare = no_tail [OF this]
  have split: "SplitString CHR ''_'' ?n = SplitString CHR ''_'' (b @ ''_'') @ [decimal k]"
    using SplitString_append [of "CHR ''_''" b "decimal k"] SplitString_snoc [OF no_underscore decimal_not_empty, of k] by simp
  have cut: "(if EndsWith (?n @ t) MIX_AIC_TAIL \<or> EndsWith (?n @ t) MIX_AIV_TAIL
              then take (length (?n @ t) - 8) (?n @ t) else ?n @ t) = ?n"
  proof (cases "t = []")
    case False
    then have t: "t = MIX_AIC_TAIL \<or> t = MIX_AIV_TAIL" using assms(1) by (auto simp: tails_def)
    then have "EndsWith (?n @ t) MIX_AIC_TAIL \<or> EndsWith (?n @ t) MIX_AIV_TAIL" by (auto simp: EndsWith_def)
    moreover have "length t = 8" using t by (auto simp: MIX_AIC_TAIL_def MIX_AIV_TAIL_def)
    ultimately show ?thesis by simp
  qed (use bare in simp)
  have name: "symbol_name (b, k, t) = ?n @ t" by (simp add: symbol_name_def)
  show ?thesis
    unfolding GetTilingKeyFromName_def Let_def name cut split
    using SplitString_snoc_not_empty [of "CHR ''_''" b] extract_decimal [OF assms(2)] by (simp add: Suc_le_eq)
qed

lemma suffix_of_symbol:
  assumes "t \<in> set tails"
  shows "list_ex (EndsWith (symbol_name (b, k, t))) (key_suffixes j) \<longleftrightarrow> k = j"
proof -
  have "EndsWith (symbol_name (b, k, t)) (''_'' @ decimal j @ u) \<longleftrightarrow> t = u \<and> k = j" if "u \<in> set tails" for u
    unfolding symbol_name_def using key_at_end [OF that assms] by simp
  from this [of "[]"] this [of MIX_AIC_TAIL] this [of MIX_AIV_TAIL] show ?thesis
    using assms by (auto simp: tails_def key_suffixes_def Let_def)
qed

definition wf_symbol :: "string \<times> nat \<times> string \<Rightarrow> bool" where
  "wf_symbol = (\<lambda>(b, k, t). k < 2 ^ 64 \<and> t \<in> set tails)"

lemma offset_by_key_find:
  assumes "list_all wf_symbol syms" "length offs = length syms"
  shows "offset_by_key (zip (map symbol_name syms) offs) key old =
    map_option snd (find (\<lambda>((b, k, t), off). k = key) (zip syms offs))"
  using assms
proof (induction syms arbitrary: offs old)
  case (Cons sy syms)
  obtain b k t where sy: "sy = (b, k, t)" by (cases sy)
  obtain off offs' where "offs = off # offs'" using Cons.prems(2) by (cases offs) auto
  then show ?case using Cons.IH [of offs' k] Cons.prems key_of_symbol [of t k b old] by (simp add: sy wf_symbol_def)
qed simp

lemma find_by_suffix:
  assumes "list_all wf_symbol syms"
  shows "find (\<lambda>name. list_ex (EndsWith name) (key_suffixes key)) (map symbol_name syms) =
    map_option symbol_name (find (\<lambda>(b, k, t). k = key) syms)"
  unfolding find_map using assms suffix_of_symbol
  by (intro arg_cong [where f = "map_option symbol_name"] find_cong_set) (auto simp: list_all_iff wf_symbol_def)

lemma find_zip_fst:
  assumes "length ys = length xs"
  shows "find P xs = map_option fst (find (\<lambda>(x, y). P x) (zip xs ys))"
  using assms by (induction xs ys rule: list_induct2') auto

section \<open>The tables\<close>

definition event_ok :: "RegisterEvent \<Rightarrow> bool" where
  \<comment> \<open>each name has its offset\<close>
  "event_ok e \<longleftrightarrow> length (re_kernelNames e) = length (re_kernelOffsets e)"

definition kernel_ok :: "KernelContext \<Rightarrow> bool" where
  "kernel_ok k \<longleftrightarrow>
     (\<forall>h i. map_of (kc_hdlToRegId k) h = Some i \<longrightarrow>
        i < length (kc_registerEvents k) \<and> re_hdl (kc_registerEvents k ! i) = h \<and> h \<noteq> 0) \<and>
     list_all event_ok (kc_registerEvents k)"

lemma scanned_symbol_lengths:
  assumes "symbol_loop data symtab strtab tidx js out = Ok sy" "length (ks_names out) = length (ks_offsets out)"
  shows "length (ks_names sy) = length (ks_offsets sy)"
  using assms
proof (induction js arbitrary: out)
  case (Cons j js)
  have "length (ks_names (add_symbol name sm out)) = length (ks_offsets (add_symbol name sm out))" for name sm
    using Cons.prems(2) by (simp add: add_symbol_fields)
  then show ?case
    using Cons.IH [of out] Cons.IH [of "add_symbol name sm out" for name sm] Cons.prems
    by (auto simp: Let_def split: option.splits if_splits)
qed simp

lemma symbols_lengths:
  "length (ks_names (case ScanKernelSymbols data of Ok sy \<Rightarrow> sy | _ \<Rightarrow> no_symbols)) =
   length (ks_offsets (case ScanKernelSymbols data of Ok sy \<Rightarrow> sy | _ \<Rightarrow> no_symbols))"
proof (cases "ScanKernelSymbols data")
  case (Ok sy)
  then obtain symtab strtab tidx where "CollectKernelSymbols data symtab strtab tidx = Ok sy"
    by (auto simp: ScanKernelSymbols_def split: elf_result.splits)
  then show ?thesis using Ok scanned_symbol_lengths [of data symtab strtab tidx _ no_symbols sy]
    by (simp add: CollectKernelSymbols_def no_symbols_def)
qed (simp_all add: no_symbols_def)

inductive kernel_step :: "KernelContext \<times> contexts \<Rightarrow> KernelContext \<times> contexts \<Rightarrow> bool" where
  RegisterBinary: "kernel_step (k, s) (AddHdlRegisterEvent hdl bin stubBin k, s)"
| RegisterFunction: "kernel_step (k, s) (FunctionRegister_Pre hdl stub name ext mode k, s)"
| LaunchStub: "kernel_step (k, s) (AddLaunchEvent_stub env stub bd args stm k s)"
| LaunchHandle: "kernel_step (k, s) (AddLaunchEvent_handle env hdl key bd args stm k s)"
| Instrumented: "kernel_step (k, s) (snd (SetDbiBinary regId p b k), s)"
| UpdatePc: "kernel_step (k, s) (snd (UpdatePcStartAddrByDbi env launchId ka k), s)"
| ParseMeta: "ParseMetaDataFromBinary env b a k s = Some r \<Longrightarrow> kernel_step (k, s) r"
| ExceptionInfo: "kernel_step (k, s) (SetExceptionExtInfo_Pre env si k, s)"
| OverflowAddr: "kernel_step (k, s) (snd (CtxGetOverflowAddr_Post sel env oa ret k), s)"
| Clear: "kernel_step (k, s) (ClearArgsInfo env k, s)"
| Archive: "kernel_step (k, s) (ArchiveMemInfo_kernel env k, s)"
| Sizes: "kernel_step (k, s) (SetArgsSize_num n (SetKernelParamNum n' (SetSimtUbDynamicSize_kernel n'' k)), s)"
| Mc2: "kernel_step (k, s) (SetMC2Flag env s k, s)"
| Lccl: "kernel_step (k, s) (SetLcclFlag env b' k, s)"
| AiCpu: "kernel_step (k, s) (fst (AiCpuLaunch_Pre sel (api :: unit acl_api) g kt op bd stm k w), s)"
| Subscribe: "kernel_step (k, s) (snd (SubscribeReport env stm k s))"
| Bind: "kernel_step (k, s) (k, ModelBindStream_Pre stm s)"

definition tables :: "KernelContext \<Rightarrow> RegisterEvent list \<times> (ptr \<times> nat) list \<times> (ptr \<times> StubFuncInfo) list" where
  "tables k = (kc_registerEvents k, kc_hdlToRegId k, kc_stubInfo k)"

lemma tables_device [simp]: "tables (on_kernel_device env g k) = tables k"
  by (simp add: tables_def on_kernel_device_def)

lemma tables_fields:
  assumes "tables k' = tables k"
  shows "kc_registerEvents k' = kc_registerEvents k" "kc_hdlToRegId k' = kc_hdlToRegId k" "kc_stubInfo k' = kc_stubInfo k"
  using assms by (simp_all add: tables_def)

lemma kernel_step_tables:
  \<comment> \<open>only three steps change the tables\<close>
  assumes "kernel_step (k, s) (k', s')"
  obtains "tables k' = tables k"
  | hdl bin stubBin where "k' = AddHdlRegisterEvent hdl bin stubBin k"
  | hdl stub name ext mode where "k' = FunctionRegister_Pre hdl stub name ext mode k"
  | regId p b where "k' = snd (SetDbiBinary regId p b k)"
  using assms
proof cases
  case (LaunchStub env stub bd args stm)
  then have "tables k' = tables k"
    by (auto simp: AddLaunchEvent_stub_def push_launch_def Let_def split: option.splits prod.splits)
  then show ?thesis by (rule that(1))
next
  case (LaunchHandle env hdl key bd args stm)
  then have "tables k' = tables k" by (auto simp: AddLaunchEvent_handle_def push_launch_def Let_def split: prod.splits)
  then show ?thesis by (rule that(1))
next
  case (UpdatePc env launchId ka)
  then have "tables k' = tables k" by (auto simp: UpdatePcStartAddrByDbi_def Let_def split: option.splits)
  then show ?thesis by (rule that(1))
next
  case (ParseMeta env b a)
  then have "tables k' = tables k" by (auto simp: ParseMetaDataFromBinary_def)
  then show ?thesis by (rule that(1))
next
  case (ExceptionInfo env si)
  then have "tables k' = tables k" by (auto simp: SetExceptionExtInfo_Pre_def SetArgsSize_def split: option.splits)
  then show ?thesis by (rule that(1))
next
  case (OverflowAddr sel env oa ret)
  then have "tables k' = tables k" by (auto simp: CtxGetOverflowAddr_Post_def split: option.splits)
  then show ?thesis by (rule that(1))
next
  case (Subscribe env stm)
  then have "tables k' = tables k" by (auto simp: SubscribeReport_def Let_def split: option.splits prod.splits if_splits)
  then show ?thesis by (rule that(1))
next
  case (AiCpu sel api g kt op bd stm w)
  then have "tables k' = tables k" by (auto simp: AiCpuLaunch_Pre_def Let_def tables_def)
  then show ?thesis by (rule that(1))
next
  case (Clear env)
  then have "tables k' = tables k" by (simp add: ClearArgsInfo_def)
  then show ?thesis by (rule that(1))
next
  case (Archive env)
  then have "tables k' = tables k" by (simp add: ArchiveMemInfo_kernel_def)
  then show ?thesis by (rule that(1))
next
  case (Sizes n n' n'')
  then have "tables k' = tables k"
    by (simp add: tables_def SetArgsSize_num_def SetKernelParamNum_def SetSimtUbDynamicSize_kernel_def)
  then show ?thesis by (rule that(1))
next
  case (Mc2 env)
  then have "tables k' = tables k" by (simp add: SetMC2Flag_def Let_def)
  then show ?thesis by (rule that(1))
next
  case (Lccl env b)
  then have "tables k' = tables k" by (simp add: SetLcclFlag_def)
  then show ?thesis by (rule that(1))
next
  case (RegisterBinary hdl bin p)
  from this(1) show ?thesis by (rule that(2))
next
  case (RegisterFunction hdl stub name ext mode)
  from this(1) show ?thesis by (rule that(3))
next
  case (Instrumented regId p b)
  from this(1) show ?thesis by (rule that(4))
next
  case (Bind stm)
  then show ?thesis by (intro that(1)) simp
qed

lemma FunctionRegister_events [simp]:
  "kc_registerEvents (FunctionRegister_Pre hdl stub name ext mode k) = kc_registerEvents k"
  "kc_hdlToRegId (FunctionRegister_Pre hdl stub name ext mode k) = kc_hdlToRegId k"
  by (simp_all add: FunctionRegister_Pre_def AddFuncRegisterEvent_def Let_def)

lemma event_ok_new: "event_ok (new_RegisterEvent hdl b p)"
  by (simp add: event_ok_def new_RegisterEvent_def Let_def symbols_lengths)

lemma re_hdl_new [simp]: "re_hdl (new_RegisterEvent hdl b p) = hdl" "re_bin (new_RegisterEvent hdl b p) = b"
  by (simp_all add: new_RegisterEvent_def Let_def)

lemma kernel_ok_register: "kernel_ok k \<Longrightarrow> kernel_ok (AddHdlRegisterEvent hdl bin p k)"
  by (auto simp: kernel_ok_def AddHdlRegisterEvent_def nth_append event_ok_new split: option.splits if_splits) (meson less_Suc_eq)+

lemma kernel_ok_dbi: "kernel_ok k \<Longrightarrow> kernel_ok (snd (SetDbiBinary regId p b k))"
  by (auto simp: kernel_ok_def SetDbiBinary_def Let_def nth_list_update list_all_length event_ok_def symbols_lengths)

lemma kernel_ok_function: "kernel_ok (FunctionRegister_Pre hdl stub name ext mode k) = kernel_ok k"
  by (simp add: kernel_ok_def)

lemma kernel_ok_step:
  assumes "kernel_step (k, s) (k', s')" "kernel_ok k"
  shows "kernel_ok k'"
  using assms(1)
proof (rule kernel_step_tables)
  assume "tables k' = tables k"
  from tables_fields [OF this] show ?thesis using assms(2) by (simp add: kernel_ok_def)
next
  fix hdl bin p assume "k' = AddHdlRegisterEvent hdl bin p k"
  then show ?thesis using kernel_ok_register [OF assms(2)] by simp
next
  fix hdl stub name ext mode assume "k' = FunctionRegister_Pre hdl stub name ext mode k"
  then show ?thesis using assms(2) by (simp add: kernel_ok_function)
next
  fix regId p b assume "k' = snd (SetDbiBinary regId p b k)"
  then show ?thesis using kernel_ok_dbi [OF assms(2)] by simp
qed

lemma kernel_ok_run: "kernel_step\<^sup>*\<^sup>* a b \<Longrightarrow> kernel_ok (fst a) \<Longrightarrow> kernel_ok (fst b)"
proof (induction rule: rtranclp_induct)
  case (step b c)
  then show ?case using kernel_ok_step [of "fst b" "snd b" "fst c" "snd c"] by simp
qed

section \<open>What a handle leads to\<close>

inductive quiet_step :: "ptr \<Rightarrow> KernelContext \<times> contexts \<Rightarrow> KernelContext \<times> contexts \<Rightarrow> bool" for h where
  \<comment> \<open>a step that does not register \<open>h\<close> again\<close>
  "kernel_step (k, s) (k', s') \<Longrightarrow> map_of (kc_hdlToRegId k') h = map_of (kc_hdlToRegId k) h \<Longrightarrow> quiet_step h (k, s) (k', s')"

lemma bin_kept_step:
  assumes "kernel_step (k, s) (k', s')" "i < length (kc_registerEvents k)"
  shows "i < length (kc_registerEvents k')" "re_bin (kc_registerEvents k' ! i) = re_bin (kc_registerEvents k ! i)"
proof -
  have "i < length (kc_registerEvents k') \<and> re_bin (kc_registerEvents k' ! i) = re_bin (kc_registerEvents k ! i)"
    using assms(1)
  proof (rule kernel_step_tables)
    assume "tables k' = tables k"
    from tables_fields [OF this] show ?thesis using assms(2) by simp
  next
    fix hdl bin p assume "k' = AddHdlRegisterEvent hdl bin p k"
    then show ?thesis using assms(2) by (auto simp: AddHdlRegisterEvent_def nth_append split: option.splits)
  next
    fix hdl stub name ext mode assume "k' = FunctionRegister_Pre hdl stub name ext mode k"
    then show ?thesis using assms(2) by simp
  next
    fix regId p b assume "k' = snd (SetDbiBinary regId p b k)"
    then show ?thesis using assms(2) by (auto simp: SetDbiBinary_def Let_def nth_list_update)
  qed
  then show "i < length (kc_registerEvents k')" "re_bin (kc_registerEvents k' ! i) = re_bin (kc_registerEvents k ! i)" by auto
qed

lemma bin_kept_run:
  assumes "(quiet_step h)\<^sup>*\<^sup>* a b" "map_of (kc_hdlToRegId (fst a)) h = Some i" "i < length (kc_registerEvents (fst a))"
  shows "map_of (kc_hdlToRegId (fst b)) h = Some i \<and> i < length (kc_registerEvents (fst b)) \<and>
    re_bin (kc_registerEvents (fst b) ! i) = re_bin (kc_registerEvents (fst a) ! i)"
  using assms(1)
proof (induction rule: rtranclp_induct)
  case (step b c)
  from step(2) show ?case
  proof cases
    case (1 k s k' s')
    then show ?thesis using step(3) bin_kept_step [of k s k' s' i] by auto
  qed
qed (use assms(2,3) in simp)

lemma stub_kept_step:
  assumes "kernel_step (k, s) (k', s')" "map_of (kc_stubInfo k) f = Some i"
  shows "map_of (kc_stubInfo k') f = Some i"
  using assms(1)
proof (rule kernel_step_tables)
  assume "tables k' = tables k"
  from tables_fields [OF this] show ?thesis using assms(2) by simp
next
  fix hdl bin p assume "k' = AddHdlRegisterEvent hdl bin p k"
  then show ?thesis using assms(2) by (auto simp: AddHdlRegisterEvent_def split: option.splits)
next
  fix hdl stub name ext mode assume "k' = FunctionRegister_Pre hdl stub name ext mode k"
  then show ?thesis using assms(2) by (auto simp: FunctionRegister_Pre_def AddFuncRegisterEvent_def Let_def)
next
  fix regId p b assume "k' = snd (SetDbiBinary regId p b k)"
  then show ?thesis using assms(2) by (auto simp: SetDbiBinary_def Let_def)
qed

lemma stub_kept_run:
  assumes "kernel_step\<^sup>*\<^sup>* a b" "map_of (kc_stubInfo (fst a)) f = Some i"
  shows "map_of (kc_stubInfo (fst b)) f = Some i"
  using assms(1)
proof (induction rule: rtranclp_induct)
  case (step b c)
  then show ?case using stub_kept_step [of "fst b" "snd b" "fst c" "snd c"] by simp
qed (use assms(2) in simp)

section \<open>Second-level pointers\<close>

definition addr_len :: "AddrInfo \<Rightarrow> nat \<times> nat" where
  "addr_len a = (ai_addr a, ai_length a)"

lemma shape_product_more:
  assumes "shape_product rd i dim acc = Some v" "\<And>j u. rd j = Some u \<Longrightarrow> rd' j = Some u"
  shows "shape_product rd' i dim acc = Some v"
  using assms(1) by (induction dim arbitrary: i acc) (auto dest: assms(2) split: option.splits)

lemma second_loop_entries:
  assumes "second_loop mk rd d off i p acc = Some r"
    and "\<And>j u. rd j = Some u \<Longrightarrow> rd' j = Some u"
    and "\<And>a l n. addr_len (mk' a l n) = addr_len (mk a l n)" "map addr_len acc' = map addr_len acc"
  shows "\<exists>r'. second_loop mk' rd' d off i p acc' = Some r' \<and> map addr_len r' = map addr_len r"
  using assms
proof (induction "off - i" arbitrary: i p acc acc' rule: less_induct)
  case less
  show ?case
  proof (cases "off > 0 \<and> i < off - 1")
    case True
    then obtain w t a where rd: "rd (i + 1) = Some w" "shape_product rd (i + 1 + 1) (w mod 2 ^ 32) 1 = Some t" "rd (off + p) = Some a"
      and loop: "second_loop mk rd d off (i + 1 + w mod 2 ^ 32) (p + 1) (acc @ [mk a (wrap64 (t * d)) p]) = Some r"
      using less.prems(1) by (subst (asm) second_loop.simps) (auto simp: Let_def split: option.splits)
    have smaller: "off - (i + 1 + w mod 2 ^ 32) < off - i"
      using True by (intro diff_less_mono2) auto
    obtain r' where "second_loop mk' rd' d off (i + 1 + w mod 2 ^ 32) (p + 1) (acc' @ [mk' a (wrap64 (t * d)) p]) = Some r'"
      "map addr_len r' = map addr_len r"
      using less.hyps [OF smaller loop less.prems(2), of "acc' @ [mk' a (wrap64 (t * d)) p]"] less.prems(3,4) by auto
    then show ?thesis
      using True less.prems(2) [OF rd(1)] less.prems(2) [OF rd(3)] shape_product_more [OF rd(2) less.prems(2)]
      by (subst second_loop.simps) (simp add: Let_def)
  next
    case False
    then have "second_loop mk rd d off i p acc = Some acc" by (subst second_loop.simps) auto
    then have "r = acc" using less.prems(1) by simp
    moreover have "second_loop mk' rd' d off i p acc' = Some acc'" using False by (subst second_loop.simps) auto
    ultimately show ?thesis using less.prems(4) by simp
  qed
qed

definition as_placeholder :: "rtHostInputInfo \<Rightarrow> aclrtPlaceHolderInfo" where
  "as_placeholder h = \<lparr>pl_addrOffset = hi_addrOffset h, pl_dataOffset = hi_dataOffset h\<rparr>"

lemma as_placeholder_fields [simp]:
  "pl_addrOffset (as_placeholder h) = hi_addrOffset h" "pl_dataOffset (as_placeholder h) = hi_dataOffset h"
  by (simp_all add: as_placeholder_def)

lemma word_at_memory:
  assumes "word_at (map m [p..<p + n]) j = Some v"
  shows "peek64 m (p + 8 * j) = v"
proof -
  have len: "8 * j + 8 \<le> n" and v: "v = le_val (take 8 (drop (8 * j) (map m [p..<p + n])))"
    using assms by (auto simp: word_at_def split: if_splits)
  have "take 8 (drop (8 * j) (map m [p..<p + n])) = map m [p + 8 * j..<p + 8 * j + 8]"
    using len by (simp add: drop_map take_map drop_upt take_upt)
  then show ?thesis by (simp add: v peek64_def)
qed

lemma same_entry: "addr_len (tensor_entry_kernel a l n) = addr_len (tensor_entry a l n)"
  by (simp add: addr_len_def tensor_entry_def tensor_entry_kernel_def mk_AddrInfo_def)

lemma second_inputs_entries:
  assumes "second_inputs (map m [p..<p + n]) index d (map as_placeholder hs) acc = Some r"
    "map addr_len acc' = map addr_len acc"
  shows "\<exists>r'. second_inputs_kernel m p index d hs acc' = Some r' \<and> map addr_len r' = map addr_len r"
  using assms
proof (induction hs arbitrary: acc acc')
  case (Cons h hs)
  let ?base = "hi_dataOffset h div 8"
  let ?rd = "\<lambda>k. word_at (map m [p..<p + n]) (?base + k)" and ?rd' = "\<lambda>i. Some (peek64 m (p + 8 * (?base + i)))"
  show ?case
  proof (cases "hi_addrOffset h div 8 = index")
    case True
    then obtain w acc1 where w: "?rd 0 = Some w"
      and loop: "second_loop tensor_entry ?rd d (w div 8) 0 0 acc = Some acc1"
      and rest: "second_inputs (map m [p..<p + n]) index d (map as_placeholder hs) acc1 = Some r"
      using Cons.prems(1) by (auto simp: Let_def split: option.splits)
    have more: "?rd' j = Some u" if "?rd j = Some u" for j u using word_at_memory [OF that] by simp
    obtain acc2 where "second_loop tensor_entry_kernel ?rd' d (w div 8) 0 0 acc' = Some acc2"
      "map addr_len acc2 = map addr_len acc1"
      using second_loop_entries [where rd' = ?rd', OF loop more same_entry Cons.prems(2)] by blast
    moreover have "peek64 m (p + 8 * ?base) = w" using more [OF w] by simp
    ultimately show ?thesis using Cons.IH [OF rest, of acc2] True by (simp add: Let_def)
  next
    case False
    then show ?thesis using Cons.IH [of acc acc'] Cons.prems by simp
  qed
qed simp

section \<open>Properties\<close>


definition ex_bin :: devbin where
  "ex_bin = \<lparr>db_magic = RT_DEV_BINARY_MAGIC_ELF, db_version = 0, db_data = Some ex_image, db_length = 380\<rparr>"

definition ex_kernel_env :: kernel_env where
  "ex_kernel_env = \<lparr>kn_device = 0, kn_soc = ''Ascend910B1'', kn_addrOfStub = (\<lambda>_. Some 4112), kn_addrOfKey = (\<lambda>_ _. Some 4112),
     kn_hmem = (\<lambda>_. 0), kn_threadId = ''7'', kn_subscribe = (\<lambda>_ _. True)\<rparr>"


text \<open>
  The numbers that handles are looked up with are always those of their own events, whose names all have an
  offset, so that no search by handle or by function leaves the tables.
\<close>

theorem register_ids_valid:
  assumes "kernel_step\<^sup>*\<^sup>* (kc0, cx0) (k, s)" "map_of (kc_hdlToRegId k) h = Some i"
  shows "\<exists>e. GetRegisterEvent k i = Some e \<and> re_hdl e = h \<and> length (re_kernelNames e) = length (re_kernelOffsets e)"
proof -
  have "kernel_ok kc0" by (simp add: kernel_ok_def kc0_def)
  then have "kernel_ok k" using kernel_ok_run [OF assms(1)] by simp
  then have "i < length (kc_registerEvents k)" "re_hdl (kc_registerEvents k ! i) = h" "list_all event_ok (kc_registerEvents k)"
    using assms(2) unfolding kernel_ok_def by blast+
  then show ?thesis by (simp add: GetRegisterEvent_def list_all_length event_ok_def)
qed

theorem register_ids_valid_witness:
  "\<exists>e. GetRegisterEvent (AddHdlRegisterEvent 5 (Some ex_bin) 0 kc0) 0 = Some e \<and> re_hdl e = 5 \<and>
     length (re_kernelNames e) = length (re_kernelOffsets e)"
proof (rule register_ids_valid)
  show "kernel_step\<^sup>*\<^sup>* (kc0, cx0) (AddHdlRegisterEvent 5 (Some ex_bin) 0 kc0, cx0)"
    by (intro r_into_rtranclp kernel_step.RegisterBinary)
qed (simp add: AddHdlRegisterEvent_def ex_bin_def MAX_MEM_BYTE_SIZE_def kc0_def)

text \<open>
  C29: A launch by tiling key is recorded with the name of the kernel that has the key, and its start is the
  address that the driver gives for it less the offset of that same kernel: the search for the name, by its
  end, and the search for the offset, by the number read from the name, agree for every binary of several
  kernels whose symbols end in their keys.
\<close>

theorem launch_name_and_start:
  assumes "map_of (kc_hdlToRegId k) hdl = Some i" "i < length (kc_registerEvents k)" "i \<noteq> NO_ID"
    and "re_kernelNames (kc_registerEvents k ! i) = map symbol_name syms" "list_all wf_symbol syms"
    and "re_kernelOffsets (kc_registerEvents k ! i) = offs" "length offs = length syms" "length syms \<noteq> 1"
    and "find (\<lambda>((b, j, t), off). j = key) (zip syms offs) = Some (sy, off)"
    and "kn_addrOfKey env hdl key = Some a" "off \<le> a"
  shows "\<exists>ev s'. AddLaunchEvent_handle env hdl key bd args stm k s = (push_launch env ev k, s') \<and>
    ev_kernelName ev = symbol_name sy \<and> ev_pcStartAddr ev + off = a \<and> ev_hdl ev = hdl \<and> ev_tilingKey ev = key"
proof -
  let ?e = "kc_registerEvents k ! i"
  have "find (\<lambda>(b, j, t). j = key) syms = map_option fst (find (\<lambda>(x, y). (\<lambda>(b, j, t). j = key) x) (zip syms offs))"
    using assms(7) by (rule find_zip_fst)
  moreover have "(\<lambda>(x, y :: nat). (\<lambda>(b :: string, j, t :: string). j = key) x) = (\<lambda>((b, j, t), off). j = key)"
    by (auto simp: fun_eq_iff)
  ultimately have "find (\<lambda>(b, j, t). j = key) syms = Some sy" using assms(9) by simp
  then have name: "GetNameByTilingKey k hdl key = symbol_name sy"
    using assms(1,4,8) find_by_suffix [OF assms(5), of key] by (simp add: GetNameByTilingKey_def Let_def)
  have "GetKernelOffset k (KernelHandleArgs hdl 0 key) = Some off"
    using assms(1-4,6,9) offset_by_key_find [OF assms(5,7), of key 0]
    by (simp add: GetKernelOffset_def GetRegisterId_key_def GetRegisterEvent_def GetKernelOffsetByTilingKey_def)
  then have "GetPcStartAddr env k (KernelHandleArgs hdl 0 key) = Some (a - off)"
    using assms(10,11) by (simp add: GetPcStartAddr_def GetKernelAddr_def)
  then show ?thesis using assms(11) name
    by (auto simp: AddLaunchEvent_handle_def Let_def split: prod.splits)
qed

definition two_kernels :: KernelContext where
  "two_kernels = kc0\<lparr>kc_hdlToRegId := [(5, 0)], kc_registerEvents := [(new_RegisterEvent 5 ex_bin 0)
     \<lparr>re_kernelNames := map symbol_name [(''Add'', 11, []), (''Add'', 1, MIX_AIC_TAIL)], re_kernelOffsets := [0, 16]\<rparr>]\<rparr>"

theorem launch_name_and_start_witness:
  "\<exists>ev s'. AddLaunchEvent_handle ex_kernel_env 5 1 8 None 0 two_kernels cx0 = (push_launch ex_kernel_env ev two_kernels, s') \<and>
    ev_kernelName ev = symbol_name (''Add'', 1, MIX_AIC_TAIL) \<and> ev_pcStartAddr ev + 16 = 4112 \<and> ev_hdl ev = 5 \<and> ev_tilingKey ev = 1"
  by (rule launch_name_and_start [where i = 0 and syms = "[(''Add'', 11, []), (''Add'', 1, MIX_AIC_TAIL)]" and offs = "[0, 16]"])
    (simp_all add: two_kernels_def kc0_def NO_ID_def wf_symbol_def tails_def ex_kernel_env_def)

text \<open>
  C32: The two parsers of second-level pointers agree: what the argument manager reads from a copy of the
  block, this one reads from the block itself, with the same addresses, lengths and order.
\<close>

definition tensors :: "OpMemInfo \<Rightarrow> nat \<Rightarrow> (nat \<times> (nat \<times> nat) list) option" where
  "tensors m index = map_option (\<lambda>sp. (sp_dtypeBytes sp, map addr_len (sp_addrInfoVec sp))) (map_of (om_secondPtrAddrInfos m) index)"

theorem second_ptr_parsers_agree:
  assumes "la_hostArgs la = Some (map (kn_hmem env) [rx_args a..<rx_args a + n])"
    and "la_placeHolderArray la = map_option (map as_placeholder) (rx_hostInputInfoPtr a)"
    and "la_placeHolderNum la = rx_hostInputInfoNum a"
    and "ParseSecondPtrAddrs la m index = Some m1"
  shows "\<exists>m2. ParseSecondPtrAddrs_kernel env a m index = Some m2 \<and> tensors m2 = tensors m1"
proof (cases "map_of (om_secondPtrAddrInfos m) index")
  case None
  then show ?thesis using assms(4) by (auto simp: ParseSecondPtrAddrs_def ParseSecondPtrAddrs_kernel_def)
next
  case (Some sp)
  show ?thesis
  proof (cases "rx_hostInputInfoPtr a")
    case None
    then show ?thesis using assms(2,4) Some by (auto simp: ParseSecondPtrAddrs_def ParseSecondPtrAddrs_kernel_def)
  next
    case hs: (Some hs)
    let ?hs = "take (rx_hostInputInfoNum a) hs"
    obtain r where r: "second_inputs (map (kn_hmem env) [rx_args a..<rx_args a + n]) index (sp_dtypeBytes sp)
        (map as_placeholder ?hs) (sp_addrInfoVec sp) = Some r"
      and m1: "m1 = m\<lparr>om_secondPtrAddrInfos := al_put index (sp\<lparr>sp_addrInfoVec := r\<rparr>) (om_secondPtrAddrInfos m)\<rparr>"
      using assms Some hs by (auto simp: ParseSecondPtrAddrs_def take_map)
    obtain r' where "second_inputs_kernel (kn_hmem env) (rx_args a) index (sp_dtypeBytes sp) ?hs (sp_addrInfoVec sp) = Some r'"
      "map addr_len r' = map addr_len r"
      using second_inputs_entries [OF r refl] by blast
    then show ?thesis using Some hs
      by (auto simp: ParseSecondPtrAddrs_kernel_def m1 tensors_def fun_eq_iff)
  qed
qed

definition tensor_args :: rtArgs where
  "tensor_args = rx0\<lparr>rx_args := 16, rx_argsSize := 80, rx_hostInputInfoPtr := Some [\<lparr>hi_addrOffset = 0, hi_dataOffset = 16\<rparr>],
     rx_hostInputInfoNum := 1\<rparr>"

definition tensor_memory :: "ptr \<Rightarrow> byte" where
  \<comment> \<open>at 16 the block of \<open>launch_ex\<close> (theory ArgsMgr)\<close>
  "tensor_memory p = (the (la_hostArgs launch_ex) @ replicate 16 0) ! (p - 16)"

lemma length_launch_ex: "length (the (la_hostArgs launch_ex)) = 80"
  by (simp add: launch_ex_def second_words_def shape_words_def)

lemma map_nth_shifted: "map (\<lambda>p. (bs @ xs) ! (p - a)) [a..<a + length bs] = bs"
  by (intro nth_equalityI) (auto simp: nth_append)

theorem second_ptr_parsers_agree_witness:
  "\<exists>m2. ParseSecondPtrAddrs_kernel (ex_kernel_env\<lparr>kn_hmem := tensor_memory\<rparr>) tensor_args
       (om0\<lparr>om_secondPtrAddrInfos := [(0, \<lparr>sp_dtypeBytes = 4, sp_addrInfoVec = []\<rparr>)]\<rparr>) 0 = Some m2 \<and>
     tensors m2 = tensors (the (ParseSecondPtrAddrs launch_ex
       (om0\<lparr>om_secondPtrAddrInfos := [(0, \<lparr>sp_dtypeBytes = 4, sp_addrInfoVec = []\<rparr>)]\<rparr>) 0))"
proof (rule second_ptr_parsers_agree)
  let ?b = "the (la_hostArgs launch_ex)"
  have "map tensor_memory [16..<16 + 80] = ?b"
    unfolding tensor_memory_def length_launch_ex [symmetric] by (rule map_nth_shifted)
  then show "la_hostArgs launch_ex = Some (map (kn_hmem (ex_kernel_env\<lparr>kn_hmem := tensor_memory\<rparr>))
      [rx_args tensor_args..<rx_args tensor_args + 80])"
    by (simp add: tensor_args_def rx0_def launch_ex_def del: upt_rec_numeral)
  show "ParseSecondPtrAddrs launch_ex (om0\<lparr>om_secondPtrAddrInfos := [(0, \<lparr>sp_dtypeBytes = 4, sp_addrInfoVec = []\<rparr>)]\<rparr>) 0 =
      Some (the (ParseSecondPtrAddrs launch_ex (om0\<lparr>om_secondPtrAddrInfos := [(0, \<lparr>sp_dtypeBytes = 4, sp_addrInfoVec = []\<rparr>)]\<rparr>) 0))"
    using second_ptr_tensors_witness by (cases "ParseSecondPtrAddrs launch_ex (om0\<lparr>om_secondPtrAddrInfos := [(0, \<lparr>sp_dtypeBytes = 4, sp_addrInfoVec = []\<rparr>)]\<rparr>) 0") auto
qed (simp_all add: tensor_args_def rx0_def launch_ex_def as_placeholder_def)

text \<open>
  An aicpu launch under the sanitizer does not fill the guard zones before it checks them: the blocks that are
  reported are those whose zones did not hold the pattern before the launch, although it wrote nothing.
\<close>

theorem aicpu_launch_reports_unfilled:
  assumes "IsSanitizer sel" "\<not> IsOpProf sel" "mg_enable g" "read_law api mem" "sizes_ok g"
    and "AiCpuLaunch_Pre sel api g kernelType opName blockDim stm k w = (k', w1)" "mem w2 = mem w1"
  shows "snd (snd (fst (AiCpuLaunch_Post sel api g ret w2))) = reports mem w g (map snd (all_blocks g))"
proof -
  have "mem w2 = mem w" using assms(2,6,7) by (simp add: AiCpuLaunch_Pre_def)
  then have "reports mem w2 g bs = reports mem w g bs" for bs by (rule reports_cong)
  then show ?thesis
    using assms(1,3) check_devices_spec [OF assms(4,5), of "mg_map g" w2]
    by (auto simp: AiCpuLaunch_Post_def CheckAllMemGuard_def all_blocks_def split: prod.splits)
qed

definition sanitizer_selector :: FuncSelector where
  "sanitizer_selector = he_selector sanitizer_env"

lemma sanitizer_selector_tools [simp]: "IsSanitizer sanitizer_selector" "\<not> IsOpProf sanitizer_selector"
  by (simp_all add: sanitizer_selector_def sanitizer_env_def IsSanitizer_def IsOpProf_def selector_Match_def selector_Set_def init_selector_def)

theorem aicpu_launch_reports_unfilled_witness:
  "length (snd (snd (fst (AiCpuLaunch_Post sanitizer_selector flat_api guard_two 0 flat0)))) = 2"
proof -
  have "dirty fl_mem flat0 guard_two b" if "b \<in> set (map snd (all_blocks guard_two))" for b
    using that by (auto simp: dirty_def guarded_def guard_two_blocks flat0_def GetBackStart_def GetUserAddr_def)
  then have "length (reports fl_mem flat0 guard_two (map snd (all_blocks guard_two))) = 2"
    by (simp add: reports_def guard_two_blocks)
  moreover have "snd (snd (fst (AiCpuLaunch_Post sanitizer_selector flat_api guard_two 0 flat0))) =
      reports fl_mem flat0 guard_two (map snd (all_blocks guard_two))"
    by (rule aicpu_launch_reports_unfilled [OF _ _ _ flat_read_law])
      (simp_all add: sizes_ok_def size_max_def guard_two_blocks AiCpuLaunch_Pre_def)
  ultimately show ?thesis by simp
qed

text \<open>
  The first registration of a function wins: whatever is done later, also registering the same function for a
  new binary, its name and handle stay those of the first call, and its launches are recorded for that binary.
\<close>

theorem first_function_registration:
  assumes "map_of (kc_stubInfo k) f = None" "hdl \<noteq> 0" "f \<noteq> 0"
    and "kernel_step\<^sup>*\<^sup>* (FunctionRegister_Pre hdl f name ext mode k, s) (k', s')"
  shows "GetStubFuncInfo k' f = Some \<lparr>fi_hdl = hdl, fi_kernelName = stub_name k hdl name ext,
      fi_kernelInfoExt = (case ext of None \<Rightarrow> [] | Some n \<Rightarrow> n), fi_funcMode = mode\<rparr>"
    and "\<exists>ev s''. AddLaunchEvent_stub env f bd args stm k' s' = (push_launch env ev k', s'') \<and> ev_hdl ev = hdl"
proof -
  let ?i = "\<lparr>fi_hdl = hdl, fi_kernelName = stub_name k hdl name ext,
      fi_kernelInfoExt = (case ext of None \<Rightarrow> [] | Some n \<Rightarrow> n), fi_funcMode = mode\<rparr>"
  have "map_of (kc_stubInfo (FunctionRegister_Pre hdl f name ext mode k)) f = Some ?i"
    using assms(1-3) by (simp add: FunctionRegister_Pre_def AddFuncRegisterEvent_def Let_def)
  with stub_kept_run [OF assms(4)] have "map_of (kc_stubInfo k') f = Some ?i" by simp
  then show "GetStubFuncInfo k' f = Some ?i"
    and "\<exists>ev s''. AddLaunchEvent_stub env f bd args stm k' s' = (push_launch env ev k', s'') \<and> ev_hdl ev = hdl"
    by (auto simp: GetStubFuncInfo_def AddLaunchEvent_stub_def Let_def split: prod.splits)
qed

lemma full_name_in_the_middle:
  \<comment> \<open>an earlier name that only contains the one asked for is taken before the exact one\<close>
  "GetFullKernelName (Some ''add'') [''my_add_mix_aic_0'', ''add''] = ''my_add_mix_aic_0''"
  by (simp add: GetFullKernelName_def GetValidLength_def code_def sub64_def MIX_AIC_TAIL_def MIX_AIV_TAIL_def)

end
