(* ===== verification/LaunchDump.thy ===== *)
theory LaunchDump
  imports KernelCtx
begin

text \<open>
  What is saved of a launch, so that the launcher tool can repeat it: runtime/inject_helpers/ArgsContext.h and .cpp
  (the description of a launch, its inputs), the \<open>Save\<close> of the argument contexts, LaunchContext.cpp, the saving part
  of KernelContext.cpp, KernelDumper of KernelReplacement.h and .cpp, and the hooks
  csrc/runtime/HijackedFuncOfDevBinaryRegister.cpp and RegisterAllKernel, which save a binary for the simulator.
  The text of a JSON object is made by a library and is a parameter. \<open>None\<close> stands for a read outside of an
  argument block. The argument context of a launch, which the launch shares, is an argument.
\<close>

section \<open>The description of a launch\<close>

record DumperContext =
  du_binPath :: string
  du_blockDim :: nat
  du_visibleDevId :: int
  du_devId :: int
  du_isFFTS :: bool
  du_inputPathList :: "string list"
  du_inputSizeList :: "nat list"
  du_kernelName :: string
  du_magic :: nat
  du_tilingDataPath :: string
  du_tilingDataSize :: nat
  du_tilingKey :: nat
  du_hasTilingKey :: bool
  du_isAclNew :: bool

definition du0 :: DumperContext where
  "du0 = \<lparr>du_binPath = [], du_blockDim = 0, du_visibleDevId = 0, du_devId = 0, du_isFFTS = False, du_inputPathList = [],
     du_inputSizeList = [], du_kernelName = [], du_magic = 0, du_tilingDataPath = [], du_tilingDataSize = 0,
     du_tilingKey = 0, du_hasTilingKey = False, du_isAclNew = False\<rparr>"

type_synonym json_object = "(string \<times> string) list"
  \<comment> \<open>in the order of the keys, as the library keeps it\<close>

definition decimal_int :: "int \<Rightarrow> string" where
  "decimal_int i = (if i < 0 then CHR ''-'' # decimal (nat (- i)) else decimal (nat i))"

definition magic_name :: "nat \<Rightarrow> string option" where
  "magic_name magic =
     (if magic = RT_DEV_BINARY_MAGIC_ELF_AIVEC then Some ''RT_DEV_BINARY_MAGIC_ELF_AIVEC''
      else if magic = RT_DEV_BINARY_MAGIC_ELF_AICUBE then Some ''RT_DEV_BINARY_MAGIC_ELF_AICUBE''
      else if magic = RT_DEV_BINARY_MAGIC_ELF then Some ''RT_DEV_BINARY_MAGIC_ELF''
      else None)"

definition ToJson :: "DumperContext \<Rightarrow> json_object option" where
  "ToJson c =
     (let j = (if du_isAclNew c then omap_put ''old_mode'' ''0'' [] else []);
          j = omap_put ''bin_path'' (du_binPath c) j;
          j = omap_put ''block_dim'' (decimal (du_blockDim c)) j;
          j = omap_put ''device_id'' (decimal_int (du_devId c)) j;
          j = omap_put ''ffts'' (if du_isFFTS c then ''Y'' else ''N'') j;
          j = omap_put ''input_path'' (Join (du_inputPathList c) '';'') j;
          j = omap_put ''input_size'' (Join (map decimal (du_inputSizeList c)) '';'') j;
          j = omap_put ''kernel_name'' (du_kernelName c) j in
      case magic_name (du_magic c) of
        None \<Rightarrow> None
      | Some m \<Rightarrow>
          let j = omap_put ''magic'' m j;
              j = (if du_tilingDataPath c \<noteq> []
                   then omap_put ''tiling_data_path'' (Join [du_tilingDataPath c, decimal (du_tilingDataSize c)] '';'') j else j) in
          Some (if du_hasTilingKey c then omap_put ''tiling_key'' (decimal (du_tilingKey c)) j else j))"

record 'w dump_env =
  de_vendor :: "'w binary_vendor"
  de_api :: "'w acl_api"  \<comment> \<open>the ACL functions\<close>
  de_rt :: "'w acl_api"  \<comment> \<open>the older runtime's functions\<close>
  de_soc :: string
  de_running :: int  \<comment> \<open>the device that \<open>LaunchManager::Local()\<close> is for\<close>
  de_devId :: int
  de_visibleDevId :: int
  de_json :: "json_object \<Rightarrow> string"  \<comment> \<open>\<open>dump()\<close> of the library\<close>

definition KERNEL_CONFIG_NAME :: string where "KERNEL_CONFIG_NAME = ''kernel_config.bin''"
definition KERNEL_BIN_NAME :: string where "KERNEL_BIN_NAME = ''aicore_binary.o''"

definition JoinPath :: "string list \<Rightarrow> string" where
  "JoinPath parts = Join parts ''/''"

definition WriteBinary :: "'w dump_env \<Rightarrow> string \<Rightarrow> bytes \<Rightarrow> 'w \<Rightarrow> bool \<times> 'w" where
  \<comment> \<open>with the comparison that every caller makes\<close>
  "WriteBinary env path data w = (let (written, w) = bv_writeBinary (de_vendor env) path data w in (written = length data, w))"

definition DumpConfig :: "'w dump_env \<Rightarrow> string \<Rightarrow> DumperContext \<Rightarrow> 'w \<Rightarrow> bool \<times> 'w" where
  "DumpConfig env outputDir config w =
     (case ToJson config of
        None \<Rightarrow> (False, w)
      | Some j \<Rightarrow> WriteBinary env (JoinPath [outputDir, KERNEL_CONFIG_NAME]) (ascii (de_json env j)) w)"

section \<open>Inputs and tiling data\<close>

definition MAX_MEM_SIZE :: nat where "MAX_MEM_SIZE = 10 * 1024 * 1024 * 1024"
definition UNKNOWN_MEM_SIZE :: nat where "UNKNOWN_MEM_SIZE = 0xFFFFFFFFFFFFFFFF"

definition add_input :: "nat \<Rightarrow> string \<Rightarrow> DumperContext \<Rightarrow> DumperContext" where
  "add_input n path c = c\<lparr>du_inputSizeList := du_inputSizeList c @ [n], du_inputPathList := du_inputPathList c @ [path]\<rparr>"

definition add_input_size :: "nat \<Rightarrow> DumperContext \<Rightarrow> DumperContext" where
  \<comment> \<open>the size is entered before anything else\<close>
  "add_input_size n c = c\<lparr>du_inputSizeList := du_inputSizeList c @ [n]\<rparr>"

definition input_file :: "string \<Rightarrow> nat \<Rightarrow> string" where
  "input_file outputDir i = outputDir @ ''/input_'' @ decimal i @ ''.bin''"

definition dump_one :: "'w dump_env \<Rightarrow> string \<Rightarrow> nat \<Rightarrow> AddrInfo \<Rightarrow> DumperContext \<Rightarrow> 'w \<Rightarrow> bool \<times> DumperContext \<times> 'w" where
  \<comment> \<open>an input with a known size: the host buffer is freed on every way out\<close>
  "dump_one env outputDir i a c w =
     (let n = ai_length a; ((ret, hostData), w) = api_mallocHost (de_api env) n w in
      if ret \<noteq> ACL_SUCCESS then (False, add_input_size n c, w)
      else
        let free = (\<lambda>w. snd (api_freeHost (de_api env) hostData w)) in
        if ai_addr a = 0 then (False, add_input_size n c, free w)
        else
          let ((ret, data), w) = api_read (de_api env) (ai_addr a) n w in
          if ret \<noteq> ACL_SUCCESS then (False, add_input_size n c, free w)
          else let (ok, w) = WriteBinary env (input_file outputDir i) data w in
            (ok, add_input n (input_file outputDir i) c, free w))"

fun dump_inputs ::
  "'w dump_env \<Rightarrow> string \<Rightarrow> nat \<Rightarrow> AddrInfo list \<Rightarrow> DumperContext \<Rightarrow> 'w \<Rightarrow> bool \<times> DumperContext \<times> 'w"
where
  "dump_inputs env outputDir i [] c w = (True, c, w)"
| "dump_inputs env outputDir i (a # as) c w =
     (if ai_length a = 0 then dump_inputs env outputDir (i + 1) as (add_input 0 ''n'' c) w
      else if ai_length a = UNKNOWN_MEM_SIZE then dump_inputs env outputDir (i + 1) as (add_input 0 ''n'' c) w
      else if ai_length a > MAX_MEM_SIZE then (False, add_input_size (ai_length a) c, w)
      else let (ok, c, w) = dump_one env outputDir i a c w in
        if \<not> ok then (False, c, w) else dump_inputs env outputDir (i + 1) as c w)"

definition DumpInputData :: "'w dump_env \<Rightarrow> string \<Rightarrow> AddrInfo list \<Rightarrow> DumperContext \<Rightarrow> 'w \<Rightarrow> bool \<times> DumperContext \<times> 'w" where
  "DumpInputData env outputDir infos c w = (if infos = [] then (False, c, w) else dump_inputs env outputDir 0 infos c w)"

definition tiling_file :: "string \<Rightarrow> string" where
  "tiling_file outputDir = outputDir @ ''/input_tiling.bin''"

definition DumpTilingData :: "'w dump_env \<Rightarrow> string \<Rightarrow> bytes \<Rightarrow> DumperContext \<Rightarrow> 'w \<Rightarrow> bool \<times> DumperContext \<times> 'w" where
  "DumpTilingData env outputDir tilingData c w =
     (if tilingData = [] then (True, c, w)
      else
        let (ok, w) = WriteBinary env (tiling_file outputDir) tilingData w in
        (ok, c\<lparr>du_tilingDataPath := tiling_file outputDir, du_tilingDataSize := wrap32 (length tilingData)\<rparr>, w))"

section \<open>Saving an argument context\<close>

definition with_addrs :: "nat list \<Rightarrow> OpMemInfo \<Rightarrow> OpMemInfo" where
  "with_addrs addrs m =
     m\<lparr>om_inputParamsAddrInfos := map2 (\<lambda>p a. a\<lparr>ai_addr := p\<rparr>) addrs (om_inputParamsAddrInfos m)\<rparr>"

definition Handle_Save ::
  "'w dump_env \<Rightarrow> string \<Rightarrow> ArgsHandleContext \<Rightarrow> DumperContext \<Rightarrow> OpMemInfo \<Rightarrow> 'w \<Rightarrow>
   (bool \<times> DumperContext \<times> OpMemInfo \<times> 'w) option"
where
  "Handle_Save env outputPath h c m w =
     (case UpdateNormalTaskArgsAddr (length (om_inputParamsAddrInfos m)) h of
        None \<Rightarrow> Some (False, c, m, w)
      | Some addrs \<Rightarrow>
          let m = with_addrs addrs m; (ok, c, w) = DumpInputData env outputPath (om_inputParamsAddrInfos m) c w in
          if \<not> ok then Some (False, c, m, w)
          else (case Handle_GetTilingData h of
                  None \<Rightarrow> Some (True, c, m, w)
                | Some t \<Rightarrow> let (ok, c, w) = DumpTilingData env outputPath t c w in Some (ok, c, m, w)))"

definition Array_Save ::
  "'w dump_env \<Rightarrow> string \<Rightarrow> ArgsArrayContext \<Rightarrow> DumperContext \<Rightarrow> OpMemInfo \<Rightarrow> 'w \<Rightarrow>
   (bool \<times> DumperContext \<times> OpMemInfo \<times> 'w) option"
where
  \<comment> \<open>the addresses before the first parameter that is missing are already entered\<close>
  "Array_Save env outputPath a c m w =
     (let params = map (\<lambda>i. om_skipNum m + i) [0..<length (om_inputParamsAddrInfos m)];
          there = takeWhile (\<lambda>i. i < ac_count a \<and> ac_offsets a ! i + 8 \<le> length (ac_packed a)) params;
          addrs = map (\<lambda>i. le_val (take 8 (drop (ac_offsets a ! i) (ac_packed a)))) there in
      if length there < length params then
        Some (False, c, m\<lparr>om_inputParamsAddrInfos := map2 (\<lambda>p b. b\<lparr>ai_addr := p\<rparr>) addrs (om_inputParamsAddrInfos m) @
                            drop (length addrs) (om_inputParamsAddrInfos m)\<rparr>, w)
      else
        let m = with_addrs addrs m; (ok, c, w) = DumpInputData env outputPath (om_inputParamsAddrInfos m) c w in
        Some (ok, c, m, w))"

definition read_words :: "bytes \<Rightarrow> nat \<Rightarrow> nat \<Rightarrow> nat list option" where
  \<comment> \<open>\<open>n\<close> words of a block from a word on\<close>
  "read_words block from n = those (map (\<lambda>i. word_at block (from + i)) [0..<n])"

definition Raw_Save ::
  "'w dump_env \<Rightarrow> string \<Rightarrow> ArgsRawContext \<Rightarrow> DumperContext \<Rightarrow> OpMemInfo \<Rightarrow> 'w \<Rightarrow>
   (bool \<times> DumperContext \<times> OpMemInfo \<times> 'w) option"
where
  "Raw_Save env outputPath r c m w =
     (let n = length (om_inputParamsAddrInfos m);
          finish = (\<lambda>block w.
            case read_words block (om_skipNum m) n of
              None \<Rightarrow> None
            | Some addrs \<Rightarrow>
                let m = with_addrs addrs m; (ok, c, w) = DumpInputData env outputPath (om_inputParamsAddrInfos m) c w in
                if \<not> ok then Some (False, c, m, w)
                else (case Raw_GetTilingData r (om_tilingDataSize m) of
                        None \<Rightarrow> None
                      | Some None \<Rightarrow> Some (True, c, m, w)
                      | Some (Some t) \<Rightarrow> let (ok, c, w) = DumpTilingData env outputPath t c w in Some (ok, c, m, w))) in
      if rc_isDeviceArgs r then
        (case rc_args r of
           Dev p \<Rightarrow>
             let ((ret, hostArgs), w) = api_mallocHost (de_api env) (rc_argsSize r) w in
             if ret \<noteq> ACL_SUCCESS then Some (False, c, m, w)
             else
               let ((ret, block), w) = api_read (de_api env) p (rc_argsSize r) w;
                   w = snd (api_freeHost (de_api env) hostArgs w) in
               if ret \<noteq> ACL_SUCCESS then Some (False, c, m, w) else finish block w
         | _ \<Rightarrow> None)
      else (case host_content r of None \<Rightarrow> None | Some block \<Rightarrow> finish block w))"

definition Args_Save ::
  "'w dump_env \<Rightarrow> string \<Rightarrow> ArgsContext \<Rightarrow> DumperContext \<Rightarrow> OpMemInfo \<Rightarrow> 'w \<Rightarrow>
   (bool \<times> DumperContext \<times> OpMemInfo \<times> 'w) option"
where
  \<comment> \<open>the virtual method\<close>
  "Args_Save env outputPath ctx c m w =
     (case ctx of
        HandleCtx h \<Rightarrow> Handle_Save env outputPath h c m w
      | RawCtx r \<Rightarrow> Raw_Save env outputPath r c m w
      | ArrayCtx a \<Rightarrow> Array_Save env outputPath a c m w)"

section \<open>Saving a launch of the ACL interface\<close>

definition launch_config :: "'w dump_env \<Rightarrow> string \<Rightarrow> FuncContext \<Rightarrow> LaunchContext \<Rightarrow> OpMemInfo \<Rightarrow> DumperContext \<Rightarrow> DumperContext" where
  "launch_config env outputPath f l m c =
     c\<lparr>du_isFFTS := om_isFFTS m, du_magic := rp_magic (rg_param (fx_regCtx f)), du_blockDim := lx_blockDim l,
       du_kernelName := RemoveSuffix (fx_kernelName f) [MIX_AIC_TAIL, MIX_AIV_TAIL],
       du_tilingKey := (case GetTilingKey f of None \<Rightarrow> 0 | Some key \<Rightarrow> key),
       du_binPath := JoinPath [outputPath, KERNEL_BIN_NAME], du_hasTilingKey := GetTilingKey f \<noteq> None,
       du_devId := de_devId env, du_visibleDevId := de_visibleDevId env, du_isAclNew := True\<rparr>"

definition LaunchContext_Save ::
  "'w dump_env \<Rightarrow> string \<Rightarrow> LaunchContext \<Rightarrow> ArgsContext \<Rightarrow> contexts \<Rightarrow> 'w \<Rightarrow> (bool \<times> contexts \<times> 'w) option"
where
  \<comment> \<open>the addresses that are read stay in the history\<close>
  "LaunchContext_Save env outputPath l argsCtx s w =
     (let f = cx_heap s ! lx_func l; i = lx_launchId l;
          (ok, w) = Register_Save (de_vendor env) (de_soc env) (fx_regCtx f) (JoinPath [outputPath, KERNEL_BIN_NAME]) w in
      if \<not> ok then Some (False, s, w)
      else
        let history = lm_memInfoHistory (cx_launch s (de_running env)) in
        if i \<ge> length history then Some (False, s, w)
        else
          (case Args_Save env outputPath argsCtx du0 (history ! i) w of
             None \<Rightarrow> None
           | Some (ok, c, m, w) \<Rightarrow>
               let s = on_launches (de_running env) (\<lambda>lm. lm\<lparr>lm_memInfoHistory := (lm_memInfoHistory lm)[i := m]\<rparr>) s in
               if \<not> ok then Some (False, s, w)
               else let (ok, w) = DumpConfig env outputPath (launch_config env outputPath f l m c) w in Some (ok, s, w)))"

section \<open>Saving what KernelContext knows\<close>

definition object_image :: "string \<Rightarrow> RegisterEvent \<Rightarrow> bytes option" where
  \<comment> \<open>what is written: the copied bytes, their default flags replaced\<close>
  "object_image soc e =
     (case LoadHeader (re_binData e) of
        None \<Rightarrow> None
      | Some header \<Rightarrow>
          let correctFlag = GetFlagByMagic soc (db_magic (re_bin e)) in
          Some (if e_flags header = FLAG_DEFAULT_VALUE \<and> correctFlag > 0 then with_flags correctFlag (re_binData e)
                else re_binData e))"

definition DumpKernelObject :: "'w dump_env \<Rightarrow> KernelContext \<Rightarrow> nat \<Rightarrow> string \<Rightarrow> 'w \<Rightarrow> bool \<times> 'w" where
  "DumpKernelObject env k regId outputPath w =
     (case GetRegisterEvent k regId of
        None \<Rightarrow> (False, w)
      | Some e \<Rightarrow>
          (case object_image (de_soc env) e of
             None \<Rightarrow> (False, w)
           | Some buffer \<Rightarrow> WriteBinary env outputPath buffer w))"

definition DumpKernelObject_hdl :: "'w dump_env \<Rightarrow> KernelContext \<Rightarrow> ptr \<Rightarrow> string \<Rightarrow> string \<Rightarrow> 'w \<Rightarrow> bool \<times> 'w" where
  "DumpKernelObject_hdl env k hdl outputDir savedFileName w =
     (case map_of (kc_hdlToRegId k) hdl of
        None \<Rightarrow> (False, w)
      | Some regId \<Rightarrow>
          let (there, w) = (if bv_exists (de_vendor env) outputDir w then (True, w) else bv_mkdir (de_vendor env) outputDir w) in
          if \<not> there then (False, w) else DumpKernelObject env k regId (JoinPath [outputDir, savedFileName]) w)"

fun sink_addrs :: "'w dump_env \<Rightarrow> ptr \<Rightarrow> nat \<Rightarrow> AddrInfo list \<Rightarrow> 'w \<Rightarrow> bool \<times> AddrInfo list \<times> 'w" where
  \<comment> \<open>the loop: each address is read from the block on the device\<close>
  "sink_addrs env args i [] w = (True, [], w)"
| "sink_addrs env args i (a # as) w =
     (let ((ret, word), w) = api_read (de_api env) (args + 8 * i) 8 w in
      if ret \<noteq> ACL_SUCCESS then (False, a # as, w)
      else if le_val word = 0 \<and> ai_length a > 0 then (False, a # as, w)
      else let (ok, as, w) = sink_addrs env args (i + 1) as w in (ok, a\<lparr>ai_addr := le_val word\<rparr> # as, w))"

definition UpdateSinkTaskArgsAddr :: "'w dump_env \<Rightarrow> ptr \<Rightarrow> OpMemInfo \<Rightarrow> 'w \<Rightarrow> bool \<times> OpMemInfo \<times> 'w" where
  "UpdateSinkTaskArgsAddr env args m w =
     (let (ok, as, w) = sink_addrs env args (om_skipNum m) (om_inputParamsAddrInfos m) w in
      (ok, m\<lparr>om_inputParamsAddrInfos := as\<rparr>, w))"

definition UpdateNormalTaskArgsAddr_kernel :: "(ptr \<Rightarrow> byte) \<Rightarrow> ptr \<Rightarrow> OpMemInfo \<Rightarrow> OpMemInfo" where
  "UpdateNormalTaskArgsAddr_kernel hmem args m =
     with_addrs (map (\<lambda>i. peek64 hmem (args + 8 * (om_skipNum m + i))) [0..<length (om_inputParamsAddrInfos m)]) m"

definition DumpTilingData_kernel ::
  "'w dump_env \<Rightarrow> (ptr \<Rightarrow> byte) \<Rightarrow> rtArgs \<Rightarrow> string \<Rightarrow> DumperContext \<Rightarrow> 'w \<Rightarrow> bool \<times> DumperContext \<times> 'w"
where
  \<comment> \<open>the size is what is left of the block behind the offset, also when the data lie elsewhere\<close>
  "DumpTilingData_kernel env hmem a outputDir c w =
     (if tiling_buffer hmem a = 0 then (True, c, w)
      else if rx_argsSize a \<le> rx_tilingDataOffset a then (False, c, w)
      else
        let tilingDataSize = rx_argsSize a - rx_tilingDataOffset a;
            ((ret, hostData), w) = api_mallocHost (de_rt env) tilingDataSize w in
        if ret \<noteq> 0 then (False, c, w)
        else
          let free = (\<lambda>w. snd (api_freeHost (de_rt env) hostData w));
              ((ret, data), w) = api_read (de_rt env) (tiling_buffer hmem a) tilingDataSize w in
          if ret \<noteq> 0 then (False, c, free w)
          else
            let (ok, w) = WriteBinary env (tiling_file outputDir) data w in
            (ok, c\<lparr>du_tilingDataPath := tiling_file outputDir, du_tilingDataSize := tilingDataSize\<rparr>, free w))"

definition DumpKernelArgs ::
  "'w dump_env \<Rightarrow> kernel_env \<Rightarrow> string \<Rightarrow> nat \<Rightarrow> DumperContext \<Rightarrow> KernelContext \<Rightarrow> 'w \<Rightarrow>
   bool \<times> DumperContext \<times> KernelContext \<times> 'w"
where
  "DumpKernelArgs env ke outputDir launchId c k w =
     (let d = GetDeviceContext ke k in
      if launchId \<ge> length (kd_launchEvents d) \<or> launchId \<ge> length (kd_memInfoHistory d) then (False, c, k, w)
      else
        let ev = kd_launchEvents d ! launchId; a = ev_argsInfoCopy ev; m = kd_memInfoHistory d ! launchId;
            keep = (\<lambda>m. on_kernel_device ke (\<lambda>d. d\<lparr>kd_memInfoHistory := (kd_memInfoHistory d)[launchId := m]\<rparr>) k) in
        if rx_args a = 0 then (False, c, k, w)
        else if ev_isSink ev \<and> rx_tilingDataOffset a = 0 then
          let (ok, m, w) = UpdateSinkTaskArgsAddr env (rx_args a) m w in
          if \<not> ok then (False, c, keep m, w)
          else let (ok, c, w) = DumpInputData env outputDir (om_inputParamsAddrInfos m) c w in (ok, c, keep m, w)
        else
          let m = UpdateNormalTaskArgsAddr_kernel (kn_hmem ke) (rx_args a) m;
              (ok, c, w) = DumpInputData env outputDir (om_inputParamsAddrInfos m) c w in
          if \<not> ok then (False, c, keep m, w)
          else let (ok, c, w) = DumpTilingData_kernel env (kn_hmem ke) a outputDir c w in (ok, c, keep m, w))"

definition SaveAicore :: "'w dump_env \<Rightarrow> kernel_env \<Rightarrow> string \<Rightarrow> nat \<Rightarrow> KernelContext \<Rightarrow> 'w \<Rightarrow> bool \<times> 'w" where
  "SaveAicore env ke outputDir launchId k w =
     (let d = GetDeviceContext ke k; launchId = (if launchId = NO_ID then GetLaunchId d else launchId) in
      if launchId \<ge> length (kd_launchEvents d) then (False, w)
      else
        let regId = GetRegisterId_key k (ev_hdl (kd_launchEvents d ! launchId)) True in
        if regId \<ge> length (kc_registerEvents k) then (False, w)
        else DumpKernelObject env k regId (JoinPath [outputDir, KERNEL_BIN_NAME]) w)"

definition event_config ::
  "'w dump_env \<Rightarrow> string \<Rightarrow> RegisterEvent \<Rightarrow> LaunchEvent \<Rightarrow> OpMemInfo \<Rightarrow> DumperContext \<Rightarrow> DumperContext"
where
  "event_config env outputDir e ev m c =
     c\<lparr>du_isFFTS := om_isFFTS m, du_magic := db_magic (re_bin e), du_blockDim := ev_blockDim ev,
       du_kernelName := ev_kernelName ev, du_tilingKey := ev_tilingKey ev,
       du_binPath := JoinPath [outputDir, KERNEL_BIN_NAME], du_hasTilingKey := ev_hasTilingKey ev,
       du_devId := de_devId env, du_visibleDevId := de_visibleDevId env\<rparr>"

definition Kernel_Save ::
  "'w dump_env \<Rightarrow> kernel_env \<Rightarrow> string \<Rightarrow> nat \<Rightarrow> KernelContext \<Rightarrow> 'w \<Rightarrow> bool \<times> KernelContext \<times> 'w"
where
  \<comment> \<open>\<open>KernelContext::Save\<close>\<close>
  "Kernel_Save env ke outputDir launchId k w =
     (let d = GetDeviceContext ke k; launchId = (if launchId = NO_ID then GetLaunchId d else launchId);
          (ok, w) = SaveAicore env ke outputDir launchId k w in
      if \<not> ok then (False, k, w)
      else
        let (ok, c, k, w) = DumpKernelArgs env ke outputDir launchId du0 k w; d = GetDeviceContext ke k in
        if \<not> ok then (False, k, w)
        else if launchId \<ge> length (kd_launchEvents d) then (False, k, w)
        else
          let ev = kd_launchEvents d ! launchId; regId = GetRegisterId_key k (ev_hdl ev) True in
          (case GetRegisterEvent k regId of
             None \<Rightarrow> (False, k, w)
           | Some e \<Rightarrow>
               let (ok, w) = DumpConfig env outputDir (event_config env outputDir e ev (kd_memInfoHistory d ! launchId) c) w in
               (ok, k, w)))"

section \<open>Dumping launches that match\<close>

record KernelDumper =
  kp_dumpNum :: nat
  kp_outputDir :: string
  kp_matcher :: "matcher_config option"
  kp_callbacks :: "(nat \<times> bool) list"  \<comment> \<open>launches whose callback is in a stream, and the interface they used\<close>

definition MAX_DUMP_NUM :: nat where "MAX_DUMP_NUM = 50000"

definition Dumper_Init :: "string \<Rightarrow> matcher_config \<Rightarrow> KernelDumper \<Rightarrow> KernelDumper" where
  "Dumper_Init outputDir config dm = dm\<lparr>kp_outputDir := outputDir, kp_matcher := Some config\<rparr>"

definition LaunchDumpTask ::
  "kernel_env \<Rightarrow> ptr \<Rightarrow> bool \<Rightarrow> acl_error \<Rightarrow> KernelDumper \<Rightarrow> KernelContext \<Rightarrow> contexts \<Rightarrow>
   bool \<times> KernelDumper \<times> KernelContext \<times> contexts"
where
  \<comment> \<open>with the status that the runtime answers to the launch of the callback\<close>
  "LaunchDumpTask ke stm aclNew ret dm k s =
     (let dm = dm\<lparr>kp_dumpNum := kp_dumpNum dm + 1\<rparr> in
      if kp_dumpNum dm > MAX_DUMP_NUM then (False, dm, k, s)
      else
        let (ok, k, s) = SubscribeReport ke stm k s in
        if \<not> ok then (False, dm, k, s)
        else
          (case (if aclNew then map_option lx_launchId (GetLastLaunch (cx_launch s (kn_device ke)))
                 else Some (GetLaunchId (GetDeviceContext ke k))) of
             None \<Rightarrow> (False, dm, k, s)
           | Some launchId \<Rightarrow>
               if ret \<noteq> 0 then (False, dm, k, s)
               else (True, dm\<lparr>kp_callbacks := kp_callbacks dm @ [(launchId, aclNew)]\<rparr>, k, s)))"

definition Dump_at ::
  "'w dump_env \<Rightarrow> kernel_env \<Rightarrow> (LaunchContext \<Rightarrow> ArgsContext) \<Rightarrow> string \<Rightarrow> nat \<Rightarrow> bool \<Rightarrow> KernelContext \<Rightarrow> contexts \<Rightarrow> 'w \<Rightarrow>
   (bool \<times> KernelContext \<times> contexts \<times> 'w) option"
where
  \<comment> \<open>the overload with a directory, whose creation is not looked at\<close>
  "Dump_at env ke args_of outputDir launchId aclNew k s w =
     (let w = snd (bv_mkdir (de_vendor env) outputDir w) in
      if aclNew then
        (case GetLaunch (cx_launch s (de_running env)) launchId of
           None \<Rightarrow> Some (False, k, s, w)
         | Some l \<Rightarrow> map_option (\<lambda>(ok, s, w). (ok, k, s, w)) (LaunchContext_Save env outputDir l (args_of l) s w))
      else let (ok, k, w) = Kernel_Save env ke outputDir launchId k w in Some (ok, k, s, w))"

definition dump_dir :: "string \<Rightarrow> int \<Rightarrow> nat \<Rightarrow> string" where
  "dump_dir outputDir devId launchId = JoinPath [outputDir, ''dumpData_'' @ decimal_int devId @ ''_'' @ decimal launchId]"

definition Dump ::
  "'w dump_env \<Rightarrow> kernel_env \<Rightarrow> (LaunchContext \<Rightarrow> ArgsContext) \<Rightarrow> KernelDumper \<Rightarrow> nat \<Rightarrow> bool \<Rightarrow> KernelContext \<Rightarrow> contexts \<Rightarrow> 'w \<Rightarrow>
   (bool \<times> KernelContext \<times> contexts \<times> 'w) option"
where
  "Dump env ke args_of dm launchId aclNew k s w =
     (case (if aclNew then map_option (\<lambda>l. fx_kernelName (cx_heap s ! lx_func l)) (GetLaunch (cx_launch s (de_running env)) launchId)
            else Some (GetLaunchName (GetDeviceContext ke k) launchId)) of
        None \<Rightarrow> Some (False, k, s, w)
      | Some kernelName \<Rightarrow>
          (case kp_matcher dm of
             None \<Rightarrow> Some (False, k, s, w)
           | Some c \<Rightarrow>
               if \<not> Match c launchId kernelName then Some (False, k, s, w)
               else Dump_at env ke args_of (dump_dir (kp_outputDir dm) (de_devId env) launchId) launchId aclNew k s w))"

definition DumpAicore :: "'w dump_env \<Rightarrow> kernel_env \<Rightarrow> string \<Rightarrow> KernelContext \<Rightarrow> 'w \<Rightarrow> bool \<times> 'w" where
  "DumpAicore env ke outputDir k w = SaveAicore env ke outputDir NO_ID k w"

section \<open>The hooks that register binaries\<close>

definition SaveObject_hdl ::
  "'w dump_env \<Rightarrow> binary_env \<Rightarrow> ptr \<Rightarrow> KernelContext \<Rightarrow> (ptr \<times> string) list \<Rightarrow> 'w \<Rightarrow> bool \<times> (ptr \<times> string) list \<times> 'w"
where
  "SaveObject_hdl env be hdl k saved w =
     (if map_of saved hdl \<noteq> None then (True, saved, w)
      else
        let outputDir = JoinPath [be_tmpDumpPath be, bv_stamp (de_vendor env) w];
            (ok, w) = DumpKernelObject_hdl env k hdl outputDir AICORE_KERNEL_NAME w in
        if ok then (True, al_put hdl (JoinPath [outputDir, AICORE_KERNEL_NAME]) saved, w) else (False, saved, w))"

definition register_post ::
  "'w dump_env \<Rightarrow> binary_env \<Rightarrow> ptr option \<Rightarrow> devbin option \<Rightarrow> acl_error \<Rightarrow> KernelContext \<Rightarrow> (ptr \<times> string) list \<Rightarrow> 'w \<Rightarrow>
   acl_error \<times> KernelContext \<times> (ptr \<times> string) list \<times> 'w"
where
  \<comment> \<open>\<open>Post\<close> of both hooks: the pointer to the handle, and the handle there; the status of the call is not looked at\<close>
  "register_post env be hdl bin ret k saved w =
     (case hdl of
        None \<Rightarrow> (ret, k, saved, w)
      | Some h \<Rightarrow>
          let k = AddHdlRegisterEvent h bin 0 k in
          if IsOpProf (be_selector be) \<and> be_isSimulator be
          then let (ok, saved, w) = SaveObject_hdl env be h k saved w in (ret, k, saved, w)
          else (ret, k, saved, w))"

definition DevBinaryRegister_Post ::
  "'w dump_env \<Rightarrow> binary_env \<Rightarrow> ptr option \<Rightarrow> devbin option \<Rightarrow> acl_error \<Rightarrow> KernelContext \<Rightarrow> (ptr \<times> string) list \<Rightarrow> 'w \<Rightarrow>
   acl_error \<times> KernelContext \<times> (ptr \<times> string) list \<times> 'w"
where
  "DevBinaryRegister_Post env be hdl bin ret k saved w = register_post env be hdl bin ret k saved w"

definition RegisterAllKernel_Call ::
  "'w dump_env \<Rightarrow> binary_env \<Rightarrow> (devbin option \<Rightarrow> 'w \<Rightarrow> (acl_error \<times> ptr option) \<times> 'w) option \<Rightarrow> devbin option \<Rightarrow>
   KernelContext \<Rightarrow> (ptr \<times> string) list \<Rightarrow> 'w \<Rightarrow> acl_error \<times> KernelContext \<times> (ptr \<times> string) list \<times> 'w"
where
  "RegisterAllKernel_Call env be origin bin k saved w =
     (case origin of
        None \<Rightarrow> (RT_ERROR_RESERVED, k, saved, w)
      | Some f \<Rightarrow> (case f bin w of ((ret, hdl), w) \<Rightarrow> register_post env be hdl bin ret k saved w))"

end
