(* ===== verification/ConfigParser.thy ===== *)
theory ConfigParser
  imports LaunchDump
begin

text \<open>
  Models csrc/tools/kernel_launcher/KernelConfigParser.h and .cpp: how the launcher tool reads the description of a
  launch. It is the inverse of \<open>ToJson\<close> of theory LaunchDump. The library that parses the text, the canonical
  path and the working directory are parameters. A field that no constructor sets is \<open>None\<close> until it is written.
\<close>

section \<open>The configuration\<close>

datatype param_type = FftsAddr | Input | Output | Workspace | TilingParam

record Param =
  pm_type :: param_type
  pm_name :: string
  pm_dType :: string
  pm_dataSize :: "nat option"
  pm_dataPath :: string
  pm_isRequired :: "bool option"

definition new_Param :: "param_type \<Rightarrow> Param" where
  "new_Param ty = \<lparr>pm_type = ty, pm_name = [], pm_dType = [], pm_dataSize = None, pm_dataPath = [], pm_isRequired = None\<rparr>"

record KernelConfig =
  kf_hasTilingKey :: bool
  kf_isOldVersion :: bool
  kf_tilingKey :: nat
  kf_blockDim :: int
  kf_deviceID :: int
  kf_kernelName :: string
  kf_kernelBinaryPath :: string
  kf_magic :: string
  kf_outputDir :: string
  kf_params :: "Param list"

definition kf0 :: KernelConfig where
  "kf0 = \<lparr>kf_hasTilingKey = False, kf_isOldVersion = True, kf_tilingKey = 0, kf_blockDim = 0, kf_deviceID = 0,
     kf_kernelName = [], kf_kernelBinaryPath = [], kf_magic = [], kf_outputDir = [], kf_params = []\<rparr>"

record parser_state =
  ps_config :: KernelConfig
  ps_inputCount :: nat
  ps_outputCount :: nat

definition ps0 :: parser_state where
  "ps0 = \<lparr>ps_config = kf0, ps_inputCount = 0, ps_outputCount = 0\<rparr>"

record parser_env =
  pe_items :: "bytes \<Rightarrow> (string \<times> string option) list option"
    \<comment> \<open>\<open>items()\<close> of the parsed text, \<open>None\<close> when it is not accepted; a value that is no string is \<open>None\<close>\<close>
  pe_canonical :: "string \<Rightarrow> string"
  pe_cwd :: "string option"

definition on_config :: "(KernelConfig \<Rightarrow> KernelConfig) \<Rightarrow> parser_state \<Rightarrow> parser_state" where
  "on_config g s = s\<lparr>ps_config := g (ps_config s)\<rparr>"

definition add_params :: "Param list \<Rightarrow> parser_state \<Rightarrow> parser_state" where
  "add_params ps s = on_config (\<lambda>c. c\<lparr>kf_params := kf_params c @ ps\<rparr>) s"

definition FILE_NAME_LENGTH_LIMIT :: nat where "FILE_NAME_LENGTH_LIMIT = 255"
definition DIR_NAME_LENGTH_LIMIT :: nat where "DIR_NAME_LENGTH_LIMIT = 4096"

definition PathLenCheckValid :: "string \<Rightarrow> bool" where
  "PathLenCheckValid checkPath \<longleftrightarrow>
     length checkPath \<le> DIR_NAME_LENGTH_LIMIT \<and>
     list_all (\<lambda>d. length d \<le> FILE_NAME_LENGTH_LIMIT) (SplitString CHR ''/'' checkPath)"

definition MAGICS :: "string list" where
  "MAGICS = [''RT_DEV_BINARY_MAGIC_ELF_AIVEC'', ''RT_DEV_BINARY_MAGIC_ELF_AICUBE'', ''RT_DEV_BINARY_MAGIC_ELF'']"

section \<open>The setters\<close>

type_synonym setter = "string \<Rightarrow> parser_state \<Rightarrow> bool \<times> parser_state"

definition SetKernelName :: setter where
  "SetKernelName arg s =
     (if \<not> CheckInputStringValid arg FILE_NAME_LENGTH_LIMIT then (False, s)
      else (True, on_config (\<lambda>c. c\<lparr>kf_kernelName := arg\<rparr>) s))"

definition SetBinPath :: setter where
  "SetBinPath arg s = (True, on_config (\<lambda>c. c\<lparr>kf_kernelBinaryPath := arg\<rparr>) s)"

definition SetBlockDim :: setter where
  "SetBlockDim arg s =
     (case StringToNum False 32 arg of
        None \<Rightarrow> (False, s) | Some v \<Rightarrow> (True, on_config (\<lambda>c. c\<lparr>kf_blockDim := v\<rparr>) s))"

definition SetDeviceId_config :: setter where
  "SetDeviceId_config arg s =
     (case StringToNum False 32 arg of
        None \<Rightarrow> (False, s) | Some v \<Rightarrow> (True, on_config (\<lambda>c. c\<lparr>kf_deviceID := v\<rparr>) s))"

definition SetMagic :: setter where
  \<comment> \<open>the field is set before the check\<close>
  "SetMagic arg s = (arg \<in> set MAGICS, on_config (\<lambda>c. c\<lparr>kf_magic := arg\<rparr>) s)"

definition SetFfts :: setter where
  "SetFfts arg s =
     (True, if arg \<noteq> [] \<and> hd arg = CHR ''Y'' then add_params [(new_Param FftsAddr)\<lparr>pm_dataSize := Some 64\<rparr>] s else s)"

definition input_param :: "string \<Rightarrow> Param" where
  "input_param binPath = (new_Param Input)\<lparr>pm_dType := ''int8'', pm_dataPath := binPath, pm_isRequired := Some (binPath \<noteq> ''n'')\<rparr>"

definition SetInputPath :: setter where
  "SetInputPath arg s =
     (let sizeVec = SplitString CHR '';'' arg in
      if sizeVec = [] then (False, s)
      else (True, add_params (map input_param sizeVec) (s\<lparr>ps_inputCount := wrap32 (length sizeVec)\<rparr>)))"

fun set_sizes :: "param_type \<Rightarrow> string list \<Rightarrow> Param list \<Rightarrow> bool \<times> Param list" where
  \<comment> \<open>the loop over the parameters: those of the type take the sizes in order\<close>
  "set_sizes ty sizes [] = (True, [])"
| "set_sizes ty sizes (p # ps) =
     (if pm_type p \<noteq> ty then (let (ok, ps) = set_sizes ty sizes ps in (ok, p # ps))
      else
        (case StringToNum True 64 (hd sizes) of
           None \<Rightarrow> (False, p # ps)
         | Some v \<Rightarrow> let (ok, ps) = set_sizes ty (tl sizes) ps in (ok, p\<lparr>pm_dataSize := Some (nat v)\<rparr> # ps)))"

definition set_all_sizes :: "param_type \<Rightarrow> string list \<Rightarrow> parser_state \<Rightarrow> bool \<times> parser_state" where
  "set_all_sizes ty sizes s =
     (let (ok, ps) = set_sizes ty sizes (kf_params (ps_config s)) in (ok, on_config (\<lambda>c. c\<lparr>kf_params := ps\<rparr>) s))"

definition SetInputSize :: setter where
  "SetInputSize arg s =
     (let sizeVec = SplitString CHR '';'' arg in
      if ps_inputCount s = 0 then (False, s)
      else if length sizeVec \<noteq> ps_inputCount s then (False, s)
      else set_all_sizes Input sizeVec s)"

definition SetOutputSize :: setter where
  "SetOutputSize arg s =
     (let sizeVec = SplitString CHR '';'' arg in
      if ps_outputCount s = 0 \<and> sizeVec \<noteq> [] then (True, s)
      else if ps_outputCount s \<noteq> length sizeVec then (False, s)
      else set_all_sizes Output sizeVec s)"

fun workspace_params :: "string list \<Rightarrow> Param list option" where
  "workspace_params [] = Some []"
| "workspace_params (x # xs) =
     (case StringToNum True 64 x of
        None \<Rightarrow> None
      | Some v \<Rightarrow> map_option (\<lambda>ps. (new_Param Workspace)\<lparr>pm_dataSize := Some (nat v)\<rparr> # ps) (workspace_params xs))"

definition SetWorkspaceSize :: setter where
  "SetWorkspaceSize arg s =
     (case workspace_params (SplitString CHR '';'' arg) of None \<Rightarrow> (False, s) | Some ps \<Rightarrow> (True, add_params ps s))"

definition SetOutputDir :: "parser_env \<Rightarrow> setter" where
  "SetOutputDir env arg s =
     (let canonicalPath = pe_canonical env arg in
      if canonicalPath = [] then (False, s)
      else (case pe_cwd env of
              None \<Rightarrow> (False, s)
            | Some currentPath \<Rightarrow>
                if rfind_sub currentPath canonicalPath 0 \<noteq> Some 0 \<or>
                   (length canonicalPath > length currentPath \<and> canonicalPath ! length currentPath \<noteq> CHR ''/'') then (False, s)
                else if \<not> PathLenCheckValid canonicalPath then (False, s)
                else (True, on_config (\<lambda>c. c\<lparr>kf_outputDir := canonicalPath\<rparr>) s)))"

definition SetOldMode :: setter where
  "SetOldMode arg s = (True, on_config (\<lambda>c. c\<lparr>kf_isOldVersion := arg = ''1''\<rparr>) s)"

fun output_names :: "string list \<Rightarrow> parser_state \<Rightarrow> bool \<times> parser_state" where
  \<comment> \<open>the loop: the names before an invalid one are entered\<close>
  "output_names [] s = (True, s)"
| "output_names (n # ns) s =
     (if \<not> CheckInputStringValid n FILE_NAME_LENGTH_LIMIT then (False, s)
      else output_names ns (add_params [(new_Param Output)\<lparr>pm_name := n\<rparr>] s))"

definition SetOutputName :: setter where
  "SetOutputName arg s =
     (let nameVec = SplitString CHR '';'' arg; (ok, s) = output_names nameVec s in
      if \<not> ok then (False, s) else (True, s\<lparr>ps_outputCount := wrap32 (length nameVec)\<rparr>))"

definition SetTilingDataPath :: setter where
  "SetTilingDataPath arg s =
     (if arg = [] then (True, s)
      else
        let sizeVec = SplitString CHR '';'' arg in
        if length sizeVec < 2 then (False, s)
        else (case StringToNum True 64 (sizeVec ! 1) of
                None \<Rightarrow> (False, s)
              | Some v \<Rightarrow> (True, add_params [(new_Param TilingParam)\<lparr>pm_dataPath := hd sizeVec, pm_dataSize := Some (nat v)\<rparr>] s)))"

definition SetTilingKey :: setter where
  "SetTilingKey arg s =
     (if arg = [] then (True, s)
      else (case StringToNum True 64 arg of
              None \<Rightarrow> (False, s)
            | Some v \<Rightarrow> (True, on_config (\<lambda>c. c\<lparr>kf_tilingKey := nat v, kf_hasTilingKey := True\<rparr>) s)))"

section \<open>The parser\<close>

definition ARGS_ORDERS :: "string list" where
  "ARGS_ORDERS = [''bin_path'', ''block_dim'', ''device_id'', ''ffts'', ''input_path'', ''input_size'', ''kernel_name'', ''magic'',
     ''output_dir'', ''output_name'', ''output_size'', ''workspace_size'', ''tiling_data_path'', ''tiling_key'', ''old_mode'']"

definition arg_order :: "string \<Rightarrow> nat" where
  "arg_order key = length (takeWhile (\<lambda>k. k \<noteq> key) ARGS_ORDERS)"

definition parserFuncs :: "parser_env \<Rightarrow> (string \<times> setter) list" where
  "parserFuncs env =
     [(''kernel_name'', SetKernelName), (''bin_path'', SetBinPath), (''block_dim'', SetBlockDim),
      (''device_id'', SetDeviceId_config), (''magic'', SetMagic), (''ffts'', SetFfts), (''input_path'', SetInputPath),
      (''input_size'', SetInputSize), (''tiling_data_path'', SetTilingDataPath), (''tiling_key'', SetTilingKey),
      (''output_size'', SetOutputSize), (''workspace_size'', SetWorkspaceSize), (''output_dir'', SetOutputDir env),
      (''output_name'', SetOutputName), (''old_mode'', SetOldMode)]"

fun run_setters :: "parser_env \<Rightarrow> (string \<times> string) list \<Rightarrow> parser_state \<Rightarrow> bool \<times> parser_state" where
  "run_setters env [] s = (True, s)"
| "run_setters env ((key, value) # items) s =
     (case map_of (parserFuncs env) key of
        None \<Rightarrow> run_setters env items s
      | Some f \<Rightarrow> let (ok, s) = f value s in if \<not> ok then (False, s) else run_setters env items s)"

datatype parse_result =
  Threw  \<comment> \<open>a value is no string: the conversion throws\<close>
| Unspecified  \<comment> \<open>a key is unknown, and the comparison of \<open>sort\<close> is no order\<close>
| Parsed bool KernelConfig  \<comment> \<open>\<open>isGetConfigSuccess_\<close> and the configuration\<close>

definition GetKernelConfig :: "parser_env \<Rightarrow> bytes option \<Rightarrow> parse_result" where
  \<comment> \<open>the bytes of the file, \<open>None\<close> when it cannot be read or is empty\<close>
  "GetKernelConfig env rawFile =
     (case Option.bind rawFile (pe_items env) of
        None \<Rightarrow> Parsed False kf0
      | Some items \<Rightarrow>
          if list_ex (\<lambda>(k, v). v = None) items then Threw
          else
            let items = map (\<lambda>(k, v). (k, the v)) items in
            if length items \<ge> 2 \<and> list_ex (\<lambda>(k, v). k \<notin> set ARGS_ORDERS) items then Unspecified
            else let (ok, s) = run_setters env (sort_key (\<lambda>(k, v). arg_order k) items) ps0 in Parsed ok (ps_config s))"

end
