(* ===== verification/ConfigFacts.thy ===== *)
theory ConfigFacts
  imports ConfigParser "HOL-Library.Multiset"
begin

text \<open>
  What the dumper of LaunchDump writes is what the launcher of ConfigParser reads: numbers, lists and the whole
  configuration. Then the files of the inputs, and what is kept of a launch whose dump fails.
\<close>

section \<open>Numbers as text\<close>

lemma length_decimal: "n < 10 ^ Suc k \<Longrightarrow> length (decimal n) \<le> Suc k"
proof (induction k arbitrary: n)
  case 0
  then show ?case by (subst decimal.simps) simp
next
  case (Suc k)
  show ?case
  proof (cases "n < 10")
    case True
    then show ?thesis by (subst decimal.simps) simp
  next
    case False
    have "n div 10 < 10 ^ Suc k" using Suc.prems by (simp add: less_mult_imp_div_less mult.commute)
    from Suc.IH [OF this] show ?thesis using False by (subst decimal.simps) simp
  qed
qed

lemma length_decimal_64: "n < 2 ^ 64 \<Longrightarrow> length (decimal n) \<le> 20"
  using length_decimal [of n 19] by simp

lemma IsDigit_decimal:
  assumes "n < 2 ^ 64"
  shows "IsDigit (decimal n)" "IsDigit (CHR ''-'' # decimal n)"
    and "hd (decimal n) \<noteq> CHR ''-''" "hd (decimal n) \<noteq> CHR ''+''"
proof -
  have digits: "list_all isdigit (decimal n)" "decimal n \<noteq> []" "length (decimal n) \<le> 20"
    using decimal_all_digits decimal_not_empty length_decimal_64 [OF assms] by auto
  then have "isdigit (hd (decimal n))" by (cases "decimal n") auto
  then show hd: "hd (decimal n) \<noteq> CHR ''-''" "hd (decimal n) \<noteq> CHR ''+''" by (auto simp: isdigit_def code_def)
  show "IsDigit (decimal n)" "IsDigit (CHR ''-'' # decimal n)" using hd digits by (auto simp: IsDigit_def)
qed

lemma dec_val_decimal [simp]: "dec_val (decimal n) = n"
  using decimal_value by (simp add: dec_val_def)

lemma StringToNum_unsigned: "n < 2 ^ 64 \<Longrightarrow> StringToNum True 64 (decimal n) = Some (int n)"
  using IsDigit_decimal [of n] decimal_not_empty [of n] by (simp add: StringToNum_def)

lemma StringToNum_int32:
  assumes "- (2 ^ 31) \<le> i" "i < 2 ^ 31"
  shows "StringToNum False 32 (decimal_int i) = Some i"
proof (cases "i < 0")
  case True
  have "nat (- i) < 2 ^ 64" using assms by simp
  then show ?thesis using IsDigit_decimal [of "nat (- i)"] True assms by (simp add: StringToNum_def decimal_int_def)
next
  case False
  have "nat i < 2 ^ 64" using assms by simp
  then show ?thesis using IsDigit_decimal [of "nat i"] False assms by (simp add: StringToNum_def decimal_int_def)
qed

lemma StringToNum_nat32: "n < 2 ^ 31 \<Longrightarrow> StringToNum False 32 (decimal n) = Some (int n)"
  using StringToNum_int32 [of "int n"] by (simp add: decimal_int_def)

lemma no_semicolon: "CHR '';'' \<notin> set (decimal n)"
  using decimal_all_digits [of n] by (auto simp: list_all_iff isdigit_def code_def)

lemma split_decimals: "ns \<noteq> [] \<Longrightarrow> SplitString CHR '';'' (Join (map decimal ns) '';'') = map decimal ns"
  using SplitString_Join [of "map decimal ns" "CHR '';''"] no_semicolon decimal_not_empty
  by (auto simp: last_map)

lemma set_sizes_decimals:
  assumes "list_all (\<lambda>n. n < 2 ^ 64) ns" "length ps = length ns" "list_all (\<lambda>p. pm_type p = ty) ps"
  shows "set_sizes ty (map decimal ns) ps = (True, map2 (\<lambda>p n. p\<lparr>pm_dataSize := Some n\<rparr>) ps ns)"
  using assms
proof (induction ns arbitrary: ps)
  case (Cons n ns)
  then obtain p ps' where "ps = p # ps'" by (cases ps) auto
  then show ?case using Cons StringToNum_unsigned [of n] by simp
qed simp

lemma set_sizes_skip:
  assumes "list_all (\<lambda>p. pm_type p \<noteq> ty) ps" "set_sizes ty sizes qs = (ok, rs)"
  shows "set_sizes ty sizes (ps @ qs) = (ok, ps @ rs)"
  using assms by (induction ps) auto

section \<open>The object as a multiset\<close>

lemma mset_omap_put: "k \<notin> fst ` set xs \<Longrightarrow> mset (omap_put k v xs) = add_mset (k, v) (mset xs)"
  by (induction k v xs rule: omap_put.induct) auto

lemma fst_omap_put: "fst ` set (omap_put k v xs) = insert k (fst ` set xs)"
  by (induction k v xs rule: omap_put.induct) auto

definition ordered_items :: "string \<Rightarrow> DumperContext \<Rightarrow> json_object" where
  \<comment> \<open>the fields in the order in which the launcher handles them\<close>
  "ordered_items m c =
     [(''bin_path'', du_binPath c), (''block_dim'', decimal (du_blockDim c)), (''device_id'', decimal_int (du_devId c)),
      (''ffts'', if du_isFFTS c then ''Y'' else ''N''), (''input_path'', Join (du_inputPathList c) '';''),
      (''input_size'', Join (map decimal (du_inputSizeList c)) '';''), (''kernel_name'', du_kernelName c), (''magic'', m)] @
     (if du_tilingDataPath c \<noteq> [] then [(''tiling_data_path'', Join [du_tilingDataPath c, decimal (du_tilingDataSize c)] '';'')] else []) @
     (if du_hasTilingKey c then [(''tiling_key'', decimal (du_tilingKey c))] else []) @
     (if du_isAclNew c then [(''old_mode'', ''0'')] else [])"

lemma ToJson_items:
  assumes "ToJson c = Some j" "magic_name (du_magic c) = Some m"
  shows "mset j = mset (ordered_items m c)"
  using assms unfolding ToJson_def Let_def
  by (cases "du_isAclNew c"; cases "du_tilingDataPath c = []"; cases "du_hasTilingKey c")
    (auto simp: ordered_items_def mset_omap_put fst_omap_put ac_simps)

lemma arg_orders [simp]:
  "arg_order ''bin_path'' = 0" "arg_order ''block_dim'' = 1" "arg_order ''device_id'' = 2" "arg_order ''ffts'' = 3"
  "arg_order ''input_path'' = 4" "arg_order ''input_size'' = 5" "arg_order ''kernel_name'' = 6" "arg_order ''magic'' = 7"
  "arg_order ''tiling_data_path'' = 12" "arg_order ''tiling_key'' = 13" "arg_order ''old_mode'' = 14"
  by (simp_all add: arg_order_def ARGS_ORDERS_def)

lemma sort_items:
  assumes "mset j = mset (ordered_items m c)"
  shows "sort_key (\<lambda>(k, v). arg_order k) j = ordered_items m c"
proof (rule sort_key_inj_key_eq [OF assms])
  have set: "set j = set (ordered_items m c)" using mset_eq_setD [OF assms] .
  show "inj_on (\<lambda>(k, v). arg_order k) (set j)"
    unfolding set ordered_items_def
    by (cases "du_isAclNew c"; cases "du_tilingDataPath c = []"; cases "du_hasTilingKey c") (simp_all add: inj_on_def)
  show "sorted (map (\<lambda>(k, v). arg_order k) (ordered_items m c))"
    unfolding ordered_items_def
    by (cases "du_isAclNew c"; cases "du_tilingDataPath c = []"; cases "du_hasTilingKey c") simp_all
qed

section \<open>Running the setters\<close>

lemma run_setters_append:
  "run_setters env (xs @ ys) s = (let (ok, t) = run_setters env xs s in if ok then run_setters env ys t else (False, t))"
  by (induction xs arbitrary: s) (auto simp: Let_def split: option.splits prod.splits)

lemma setters [simp]:
  "map_of (parserFuncs env) ''bin_path'' = Some SetBinPath" "map_of (parserFuncs env) ''block_dim'' = Some SetBlockDim"
  "map_of (parserFuncs env) ''device_id'' = Some SetDeviceId_config" "map_of (parserFuncs env) ''ffts'' = Some SetFfts"
  "map_of (parserFuncs env) ''input_path'' = Some SetInputPath" "map_of (parserFuncs env) ''input_size'' = Some SetInputSize"
  "map_of (parserFuncs env) ''kernel_name'' = Some SetKernelName" "map_of (parserFuncs env) ''magic'' = Some SetMagic"
  "map_of (parserFuncs env) ''tiling_data_path'' = Some SetTilingDataPath"
  "map_of (parserFuncs env) ''tiling_key'' = Some SetTilingKey" "map_of (parserFuncs env) ''old_mode'' = Some SetOldMode"
  by (simp_all add: parserFuncs_def)

definition dumped_ok :: "DumperContext \<Rightarrow> bool" where
  \<comment> \<open>what a description needs to be readable: the bounds of the launcher's types, the separator in no path\<close>
  "dumped_ok c \<longleftrightarrow>
     CheckInputStringValid (du_kernelName c) FILE_NAME_LENGTH_LIMIT \<and> du_blockDim c < 2 ^ 31 \<and>
     - (2 ^ 31) \<le> du_devId c \<and> du_devId c < 2 ^ 31 \<and>
     du_inputPathList c \<noteq> [] \<and> last (du_inputPathList c) \<noteq> [] \<and> list_all (\<lambda>p. CHR '';'' \<notin> set p) (du_inputPathList c) \<and>
     length (du_inputPathList c) < 2 ^ 32 \<and>
     length (du_inputSizeList c) = length (du_inputPathList c) \<and> list_all (\<lambda>n. n < 2 ^ 64) (du_inputSizeList c) \<and>
     CHR '';'' \<notin> set (du_tilingDataPath c) \<and> du_tilingDataSize c < 2 ^ 64 \<and> du_tilingKey c < 2 ^ 64"

definition sized_input :: "string \<Rightarrow> nat \<Rightarrow> Param" where
  "sized_input path n = (input_param path)\<lparr>pm_dataSize := Some n\<rparr>"

definition read_back :: "string \<Rightarrow> DumperContext \<Rightarrow> KernelConfig" where
  \<comment> \<open>the configuration that the launcher should end with\<close>
  "read_back m c =
     kf0\<lparr>kf_kernelBinaryPath := du_binPath c, kf_blockDim := int (du_blockDim c), kf_deviceID := du_devId c,
         kf_kernelName := du_kernelName c, kf_magic := m, kf_isOldVersion := \<not> du_isAclNew c,
         kf_hasTilingKey := du_hasTilingKey c, kf_tilingKey := (if du_hasTilingKey c then du_tilingKey c else 0),
         kf_params := (if du_isFFTS c then [(new_Param FftsAddr)\<lparr>pm_dataSize := Some 64\<rparr>] else []) @
           map2 sized_input (du_inputPathList c) (du_inputSizeList c) @
           (if du_tilingDataPath c \<noteq> []
            then [(new_Param TilingParam)\<lparr>pm_dataPath := du_tilingDataPath c, pm_dataSize := Some (du_tilingDataSize c)\<rparr>] else [])\<rparr>"

lemma map2_map_left: "map2 f (map g xs) ys = map2 (\<lambda>x y. f (g x) y) xs ys"
  by (simp add: map_zip_map)

lemma sizes_of_inputs:
  assumes "list_all (\<lambda>n. n < 2 ^ 64) ns" "length paths = length ns" "list_all (\<lambda>p. pm_type p \<noteq> Input) ps"
  shows "set_sizes Input (map decimal ns) (ps @ map input_param paths) = (True, ps @ map2 sized_input paths ns)"
  using set_sizes_skip [OF assms(3)] set_sizes_decimals [OF assms(1), of "map input_param paths" Input] assms(2)
  by (simp add: list_all_iff input_param_def new_Param_def sized_input_def map2_map_left)

lemma split_paths:
  assumes "dumped_ok c"
  shows "SplitString CHR '';'' (Join (du_inputPathList c) '';'') = du_inputPathList c"
  using assms SplitString_Join [of "du_inputPathList c" "CHR '';''"] by (auto simp: dumped_ok_def list_all_iff)

lemma split_tiling:
  assumes "dumped_ok c"
  shows "SplitString CHR '';'' (Join [du_tilingDataPath c, decimal (du_tilingDataSize c)] '';'') =
    [du_tilingDataPath c, decimal (du_tilingDataSize c)]"
  using assms SplitString_Join [of "[du_tilingDataPath c, decimal (du_tilingDataSize c)]" "CHR '';''"] no_semicolon decimal_not_empty
  by (auto simp: dumped_ok_def)

lemma run_required:
  assumes "dumped_ok c" "m \<in> set MAGICS"
  shows "run_setters env
      [(''bin_path'', du_binPath c), (''block_dim'', decimal (du_blockDim c)), (''device_id'', decimal_int (du_devId c)),
       (''ffts'', if du_isFFTS c then ''Y'' else ''N''), (''input_path'', Join (du_inputPathList c) '';''),
       (''input_size'', Join (map decimal (du_inputSizeList c)) '';''), (''kernel_name'', du_kernelName c), (''magic'', m)] ps0 =
    (True, ps0\<lparr>ps_inputCount := length (du_inputPathList c), ps_config :=
       kf0\<lparr>kf_kernelBinaryPath := du_binPath c, kf_blockDim := int (du_blockDim c), kf_deviceID := du_devId c,
           kf_kernelName := du_kernelName c, kf_magic := m,
           kf_params := (if du_isFFTS c then [(new_Param FftsAddr)\<lparr>pm_dataSize := Some 64\<rparr>] else []) @
             map2 sized_input (du_inputPathList c) (du_inputSizeList c)\<rparr>\<rparr>)"
proof -
  note ok = assms(1) [unfolded dumped_ok_def]
  have sizes: "du_inputSizeList c \<noteq> []" using ok by auto
  have count: "wrap32 (length (du_inputPathList c)) = length (du_inputPathList c)" using ok by (simp add: wrap32_def)
  let ?ffts = "if du_isFFTS c then [(new_Param FftsAddr)\<lparr>pm_dataSize := Some 64\<rparr>] else []"
  have inputs: "set_sizes Input (map decimal (du_inputSizeList c)) (?ffts @ map input_param (du_inputPathList c)) =
      (True, ?ffts @ map2 sized_input (du_inputPathList c) (du_inputSizeList c))"
    using ok by (intro sizes_of_inputs) (auto simp: new_Param_def)
  have ffts: "SetFfts (if du_isFFTS c then ''Y'' else ''N'') s = (True, add_params ?ffts s)" for s
    by (auto simp: SetFfts_def add_params_def on_config_def)
  show ?thesis
    using ok assms(2) sizes inputs
    by (simp add: ffts SetBinPath_def SetBlockDim_def SetDeviceId_config_def StringToNum_nat32 StringToNum_int32 SetInputPath_def
        split_paths [OF assms(1)] count SetInputSize_def split_decimals set_all_sizes_def SetKernelName_def SetMagic_def
        on_config_def add_params_def ps0_def kf0_def Let_def del: Join.simps)
qed

lemma run_ordered:
  assumes "dumped_ok c" "m \<in> set MAGICS"
  shows "fst (run_setters env (ordered_items m c) ps0) \<and> ps_config (snd (run_setters env (ordered_items m c) ps0)) = read_back m c"
proof -
  note ok = assms(1) [unfolded dumped_ok_def]
  have key: "decimal (du_tilingKey c) \<noteq> []" by (rule decimal_not_empty)
  have joined: "Join [du_tilingDataPath c, decimal (du_tilingDataSize c)] '';'' \<noteq> []" by simp
  show ?thesis
    unfolding ordered_items_def run_setters_append run_required [OF assms]
    using ok key joined
    by (cases "du_isAclNew c"; cases "du_tilingDataPath c = []"; cases "du_hasTilingKey c")
      (simp_all add: run_setters_append SetTilingDataPath_def split_tiling [OF assms(1)] StringToNum_unsigned SetTilingKey_def SetOldMode_def
        on_config_def add_params_def ps0_def kf0_def read_back_def Let_def del: Join.simps)
qed

lemma known_keys: "list_all (\<lambda>(k, v). k \<in> set ARGS_ORDERS) (ordered_items m c)"
  by (simp add: ordered_items_def ARGS_ORDERS_def)

lemma magic_known: "magic_name n = Some m \<Longrightarrow> m \<in> set MAGICS"
  by (auto simp: magic_name_def MAGICS_def split: if_splits)

lemma description_roundtrip:
  assumes "ToJson c = Some j" "pe_items env file = Some (map (\<lambda>(k, v). (k, Some v)) j)" "dumped_ok c"
  shows "\<exists>m. magic_name (du_magic c) = Some m \<and> GetKernelConfig env (Some file) = Parsed True (read_back m c)"
proof -
  obtain m where m: "magic_name (du_magic c) = Some m" using assms(1) by (auto simp: ToJson_def Let_def split: option.splits)
  note items = ToJson_items [OF assms(1) m]
  have same: "map ((\<lambda>(k, v). (k, the v)) \<circ> (\<lambda>(k, v). (k, Some v))) j = j" by (induction j) auto
  have strings: "\<not> list_ex (\<lambda>(k, v). v = None) (map (\<lambda>(k, v). (k, Some v)) j)" by (auto simp: list_ex_iff)
  have "\<forall>(k, v) \<in> set j. k \<in> set ARGS_ORDERS"
    using known_keys [of m c] mset_eq_setD [OF items] by (simp add: list_all_iff)
  then have known: "\<not> list_ex (\<lambda>(k, v). k \<notin> set ARGS_ORDERS) j" by (auto simp: list_ex_iff)
  show ?thesis
    using m run_ordered [OF assms(3) magic_known [OF m], of env] strings known
    by (auto simp: GetKernelConfig_def assms(2) same sort_items [OF items] Let_def split: prod.splits)
qed

section \<open>Properties\<close>

text \<open>
  C30: What the dumper writes about a launch is what the launcher reads: from the text of any description
  whose numbers fit the launcher's types, whose kernel's name is a plain one and whose paths are free of the
  separator, the launcher gets the same binary, kernel, dimensions, magic number, tiling and inputs, in
  their order and with their sizes.
\<close>

theorem launch_description_roundtrip:
  assumes "ToJson c = Some j" "pe_items env file = Some (map (\<lambda>(k, v). (k, Some v)) j)" "dumped_ok c"
  shows "\<exists>m. magic_name (du_magic c) = Some m \<and> GetKernelConfig env (Some file) = Parsed True (read_back m c)"
  by (rule description_roundtrip [OF assms])

definition ex_description :: DumperContext where
  "ex_description = du0\<lparr>du_binPath := ''d/aicore_binary.o'', du_blockDim := 8, du_devId := 1, du_isFFTS := True,
     du_inputPathList := [''d/input_0.bin'', ''n''], du_inputSizeList := [64, 0], du_kernelName := ''Add_1'',
     du_magic := RT_DEV_BINARY_MAGIC_ELF, du_tilingDataPath := ''d/input_tiling.bin'', du_tilingDataSize := 16,
     du_tilingKey := 1, du_hasTilingKey := True, du_isAclNew := True\<rparr>"

definition ex_parser_env :: parser_env where
  "ex_parser_env = \<lparr>pe_items = (\<lambda>_. map_option (map (\<lambda>(k, v). (k, Some v))) (ToJson ex_description)),
     pe_canonical = (\<lambda>p. p), pe_cwd = None\<rparr>"

theorem launch_description_roundtrip_witness:
  "\<exists>m. magic_name (du_magic ex_description) = Some m \<and>
     GetKernelConfig ex_parser_env (Some []) = Parsed True (read_back m ex_description)"
proof -
  have "ToJson ex_description \<noteq> None" by (simp add: ToJson_def ex_description_def magic_name_def Let_def)
  then obtain j where j: "ToJson ex_description = Some j" by blast
  show ?thesis
  proof (rule launch_description_roundtrip [OF j])
    show "pe_items ex_parser_env [] = Some (map (\<lambda>(k, v). (k, Some v)) j)" by (simp add: ex_parser_env_def j)
    show "dumped_ok ex_description"
      by (simp add: dumped_ok_def ex_description_def du0_def CheckInputStringValid_def isalnum_def isdigit_def code_def
          FILE_NAME_LENGTH_LIMIT_def)
  qed
qed

section \<open>The files of the inputs\<close>

definition write_law :: "'w dump_env \<Rightarrow> ('w \<Rightarrow> string \<Rightarrow> bytes option) \<Rightarrow> ('w \<Rightarrow> ptr \<Rightarrow> byte) \<Rightarrow> bool" where
  \<comment> \<open>a write that is reported as complete stores the bytes; none touches device memory, nor do host buffers\<close>
  "write_law env files mem \<longleftrightarrow>
     (\<forall>p bs w n w'. bv_writeBinary (de_vendor env) p bs w = (n, w') \<longrightarrow>
        mem w' = mem w \<and> (n = length bs \<longrightarrow> files w' = (files w)(p \<mapsto> bs))) \<and>
     (\<forall>n w. mem (snd (api_mallocHost (de_api env) n w)) = mem w \<and> files (snd (api_mallocHost (de_api env) n w)) = files w) \<and>
     (\<forall>p w. mem (snd (api_freeHost (de_api env) p w)) = mem w \<and> files (snd (api_freeHost (de_api env) p w)) = files w) \<and>
     (\<forall>p n w. files (snd (api_read (de_api env) p n w)) = files w)"

definition input_entry :: "string \<Rightarrow> nat \<Rightarrow> AddrInfo \<Rightarrow> nat \<times> string" where
  \<comment> \<open>what the description says of an input\<close>
  "input_entry outputDir i a =
     (if ai_length a = 0 \<or> ai_length a = UNKNOWN_MEM_SIZE then (0, ''n'') else (ai_length a, input_file outputDir i))"

definition dumped :: "AddrInfo \<Rightarrow> bool" where
  "dumped a \<longleftrightarrow> ai_length a \<noteq> 0 \<and> ai_length a \<noteq> UNKNOWN_MEM_SIZE"

lemma input_file_inj: "input_file d i = input_file d j \<longleftrightarrow> i = j"
  by (auto simp: input_file_def decimal_inj)

lemma dump_one_ok:
  assumes "write_law env files mem" "read_law (de_api env) mem" "dump_one env d i a c w = (True, c', w')"
  shows "c' = add_input (ai_length a) (input_file d i) c" "ai_addr a \<noteq> 0" "mem w' = mem w"
    and "files w' = (files w)(input_file d i \<mapsto> mem_range mem w (ai_addr a) (ai_length a))"
proof -
  obtain ret p w1 where h: "api_mallocHost (de_api env) (ai_length a) w = ((ret, p), w1)" by (metis surj_pair)
  obtain ret2 bs w2 where r: "api_read (de_api env) (ai_addr a) (ai_length a) w1 = ((ret2, bs), w2)" by (metis surj_pair)
  obtain n w3 where wr: "bv_writeBinary (de_vendor env) (input_file d i) bs w2 = (n, w3)" by (metis surj_pair)
  have eq: "c' = add_input (ai_length a) (input_file d i) c" "ai_addr a \<noteq> 0" "n = length bs" "w' = snd (api_freeHost (de_api env) p w3)"
    using assms(3) h r wr by (auto simp: dump_one_def WriteBinary_def Let_def split: if_splits)
  have "mem w1 = mem w" "files w1 = files w" using assms(1) h unfolding write_law_def by (metis snd_conv)+
  moreover have "bs = mem_range mem w1 (ai_addr a) (ai_length a)" "mem w2 = mem w1"
    using assms(2) r unfolding read_law_def by blast+
  moreover have "files w2 = files w1" using assms(1) r unfolding write_law_def by (metis snd_conv)
  moreover have "mem w3 = mem w2" "files w3 = (files w2)(input_file d i \<mapsto> bs)"
    using assms(1) wr eq(3) unfolding write_law_def by blast+
  moreover have "mem w' = mem w3" "files w' = files w3" using assms(1) eq(4) unfolding write_law_def by simp_all
  ultimately show "c' = add_input (ai_length a) (input_file d i) c" "ai_addr a \<noteq> 0" "mem w' = mem w"
    "files w' = (files w)(input_file d i \<mapsto> mem_range mem w (ai_addr a) (ai_length a))"
    using eq(1,2) by (simp_all add: mem_range_def)
qed

lemma dump_inputs_ok:
  assumes "write_law env files mem" "read_law (de_api env) mem" "dump_inputs env d i as c w = (True, c', w')"
  shows "du_inputSizeList c' = du_inputSizeList c @ map fst (map2 (input_entry d) [i..<i + length as] as) \<and>
    du_inputPathList c' = du_inputPathList c @ map snd (map2 (input_entry d) [i..<i + length as] as) \<and>
    mem w' = mem w \<and>
    (\<forall>j < length as. dumped (as ! j) \<longrightarrow>
      files w' (input_file d (i + j)) = Some (mem_range mem w (ai_addr (as ! j)) (ai_length (as ! j)))) \<and>
    (\<forall>p. (\<forall>j \<ge> i. p \<noteq> input_file d j) \<longrightarrow> files w' p = files w p)"
  using assms(3)
proof (induction as arbitrary: i c w)
  case (Cons a as)
  have upt: "[i..<i + length (a # as)] = i # [i + 1..<i + 1 + length as]"
    using upt_conv_Cons [of i "i + length (a # as)"] by simp
  show ?case
  proof (cases "dumped a")
    case False
    then have run: "dump_inputs env d (i + 1) as (add_input 0 ''n'' c) w = (True, c', w')"
      using Cons.prems by (auto simp: dumped_def split: if_splits)
    have entry: "input_entry d i a = (0, ''n'')" using False by (auto simp: input_entry_def dumped_def)
    note IH = Cons.IH [OF run]
    have later: "files w' (input_file d (i + j)) = Some (mem_range mem w (ai_addr ((a # as) ! j)) (ai_length ((a # as) ! j)))"
      if "j < length (a # as)" "dumped ((a # as) ! j)" for j
      using IH that False by (cases j) auto
    show ?thesis unfolding upt using IH later by (auto simp: add_input_def entry)
  next
    case True
    then obtain c1 w1 where one: "dump_one env d i a c w = (True, c1, w1)" and run: "dump_inputs env d (i + 1) as c1 w1 = (True, c', w')"
      using Cons.prems by (auto simp: dumped_def split: if_splits prod.splits)
    note first = dump_one_ok [OF assms(1,2) one]
    have entry: "input_entry d i a = (ai_length a, input_file d i)" using True by (auto simp: input_entry_def dumped_def)
    note IH = Cons.IH [OF run]
    have kept: "files w' (input_file d i) = files w1 (input_file d i)" using IH by (auto simp: input_file_inj)
    have later: "files w' (input_file d (i + j)) = Some (mem_range mem w (ai_addr ((a # as) ! j)) (ai_length ((a # as) ! j)))"
      if "j < length (a # as)" "dumped ((a # as) ! j)" for j
      using IH that kept first(3,4) by (cases j) (auto simp: mem_range_def)
    have others: "files w' p = files w p" if "\<forall>j \<ge> i. p \<noteq> input_file d j" for p
      using IH that first(4) by auto
    show ?thesis unfolding upt using IH later others first(1,3) by (auto simp: add_input_def entry)
  qed
qed simp

text \<open>
  C31: When the inputs of a launch are dumped completely, the description lists one entry per input, in their
  order: the file and the size of its bytes, or the mark of an empty input for one of no or of unknown size; and
  each file holds exactly what device memory held at the input's address when the dump began.
\<close>

theorem inputs_dumped:
  assumes "write_law env files mem" "read_law (de_api env) mem"
    and "DumpInputData env d infos du0 w = (True, c, w')"
  shows "zip (du_inputSizeList c) (du_inputPathList c) = map2 (input_entry d) [0..<length infos] infos \<and>
    (\<forall>j < length infos. dumped (infos ! j) \<longrightarrow>
      files w' (input_file d j) = Some (mem_range mem w (ai_addr (infos ! j)) (ai_length (infos ! j)))) \<and>
    mem w' = mem w"
proof -
  have run: "dump_inputs env d 0 infos du0 w = (True, c, w')" using assms(3) by (simp add: DumpInputData_def split: if_splits)
  have halves: "zip (map (fst \<circ> f) xs) (map (snd \<circ> f) xs) = map f xs" for f :: "'x \<Rightarrow> 'y \<times> 'z" and xs
    by (induction xs) auto
  show ?thesis using dump_inputs_ok [OF assms(1,2) run, simplified] by (simp add: du0_def halves)
qed

record disk =
  dk_flat :: flat
  dk_files :: "string \<Rightarrow> bytes option"

definition disk_api :: "disk acl_api" where
  "disk_api = \<lparr>api_malloc = (\<lambda>_ _ w. ((0, 0), w)), api_free = (\<lambda>_ w. (0, w)), api_memset = (\<lambda>_ _ _ _ w. (0, w)),
     api_read = (\<lambda>p n w. ((0, mem_range (fl_mem \<circ> dk_flat) w p n), w)), api_write = (\<lambda>_ _ w. (0, w)),
     api_copy = (\<lambda>_ _ _ _ w. (0, w)), api_copyHost = (\<lambda>bs w. ((0, bs), w)), api_copyAsync = (\<lambda>_ _ _ _ _ w. (0, w)),
     api_sync = (\<lambda>_ w. (0, w)), api_defaultStream = (\<lambda>w. ((0, 0), w)), api_getDevice = (\<lambda>w. ((0, 0), w)),
     api_mallocHost = (\<lambda>n w. ((0, 64), w)), api_freeHost = (\<lambda>p w. (0, w))\<rparr>"

definition disk_env :: "disk dump_env" where
  "disk_env = \<lparr>de_vendor = none_vendor\<lparr>bv_writeBinary := (\<lambda>p bs w. (length bs, w\<lparr>dk_files := (dk_files w)(p \<mapsto> bs)\<rparr>))\<rparr>,
     de_api = disk_api, de_rt = disk_api, de_soc = ''Ascend910B1'', de_running = 0, de_devId = 0, de_visibleDevId = 0,
     de_json = (\<lambda>_. [])\<rparr>"

lemma disk_write_law: "write_law disk_env dk_files (fl_mem \<circ> dk_flat)"
  by (auto simp: write_law_def disk_env_def disk_api_def)

lemma disk_read_law: "read_law (de_api disk_env) (fl_mem \<circ> dk_flat)"
  by (auto simp: read_law_def disk_env_def disk_api_def ACL_SUCCESS_def)

definition two_inputs :: "AddrInfo list" where
  "two_inputs = [mk_AddrInfo 4096 2 EXTRA INPUT 1, mk_AddrInfo 0 UNKNOWN_MEM_SIZE EXTRA INPUT 2]"

theorem inputs_dumped_witness:
  "(case DumpInputData disk_env ''d'' two_inputs du0 \<lparr>dk_flat = flat0, dk_files = (\<lambda>_. None)\<rparr> of
      (ok, c, w) \<Rightarrow> ok \<and> zip (du_inputSizeList c) (du_inputPathList c) = [(2, input_file ''d'' 0), (0, ''n'')] \<and>
        dk_files w (input_file ''d'' 0) = Some [0, 0])"
proof -
  let ?w = "\<lparr>dk_flat = flat0, dk_files = (\<lambda>_. None)\<rparr>"
  obtain ok c w where run: "DumpInputData disk_env ''d'' two_inputs du0 ?w = (ok, c, w)" by (metis surj_pair)
  have ok: "ok" using run
    by (auto simp: DumpInputData_def two_inputs_def dump_one_def WriteBinary_def disk_env_def disk_api_def mk_AddrInfo_def
        MAX_MEM_SIZE_def UNKNOWN_MEM_SIZE_def ACL_SUCCESS_def Let_def)
  have entries: "map2 (input_entry ''d'') [0..<length two_inputs] two_inputs = [(2, input_file ''d'' 0), (0, ''n'')]"
    by (simp add: two_inputs_def input_entry_def mk_AddrInfo_def UNKNOWN_MEM_SIZE_def)
  have "dumped (two_inputs ! 0)" "ai_addr (two_inputs ! 0) = 4096" "ai_length (two_inputs ! 0) = 2" "0 < length two_inputs"
    by (simp_all add: dumped_def two_inputs_def mk_AddrInfo_def UNKNOWN_MEM_SIZE_def)
  then have "dk_files w (input_file ''d'' 0) = Some (mem_range (fl_mem \<circ> dk_flat) ?w 4096 2)"
    using inputs_dumped [OF disk_write_law disk_read_law run [unfolded ok [THEN eqTrueI]]] by metis
  moreover have "mem_range (fl_mem \<circ> dk_flat) ?w 4096 2 = [0, 0]"
    by (simp add: mem_range_def flat0_def)
  ultimately show ?thesis
    using ok run entries inputs_dumped [OF disk_write_law disk_read_law run [unfolded ok [THEN eqTrueI]]] by simp
qed

end
