(* ===== verification/LaunchReplay.thy ===== *)
theory LaunchReplay
  imports ConfigFacts
begin

text \<open>
  A saved launch can be repeated: the composition of \<open>LaunchContext::Save\<close> (theory LaunchDump), the library that
  writes and parses the text, and the launcher's parser (theory ConfigParser).
\<close>

section \<open>The shape of a description\<close>

definition plain :: "string \<Rightarrow> bool" where
  "plain p \<longleftrightarrow> p \<noteq> [] \<and> CHR '';'' \<notin> set p"

definition shaped :: "DumperContext \<Rightarrow> bool" where
  "shaped c \<longleftrightarrow> length (du_inputSizeList c) = length (du_inputPathList c) \<and> list_all plain (du_inputPathList c) \<and>
     list_all (\<lambda>n. n < 2 ^ 64) (du_inputSizeList c)"

lemma plain_input: "CHR '';'' \<notin> set d \<Longrightarrow> plain (input_file d i)"
  using no_semicolon [of i] by (auto simp: plain_def input_file_def)

lemma shaped_add: "shaped c \<Longrightarrow> plain p \<Longrightarrow> n < 2 ^ 64 \<Longrightarrow> shaped (add_input n p c)"
  by (simp add: shaped_def add_input_def)

lemma add_input_fields [simp]:
  "du_inputPathList (add_input n p c) = du_inputPathList c @ [p]" "du_tilingDataPath (add_input n p c) = du_tilingDataPath c"
  "du_tilingDataSize (add_input n p c) = du_tilingDataSize c"
  by (simp_all add: add_input_def)

lemma dump_one_config:
  "dump_one env d i a c w = (True, c', w') \<Longrightarrow> c' = add_input (ai_length a) (input_file d i) c"
  by (auto simp: dump_one_def Let_def split: if_splits prod.splits)

lemma dump_inputs_shape:
  assumes "dump_inputs env d i as c w = (True, c', w')" "CHR '';'' \<notin> set d" "shaped c"
  shows "shaped c' \<and> length (du_inputPathList c') = length (du_inputPathList c) + length as \<and>
    du_tilingDataPath c' = du_tilingDataPath c \<and> du_tilingDataSize c' = du_tilingDataSize c"
  using assms(1,3)
proof (induction as arbitrary: i c w)
  case (Cons a as)
  have none: "shaped (add_input 0 ''n'' c)" using Cons.prems(2) by (intro shaped_add) (auto simp: plain_def)
  show ?case
  proof (cases "dumped a")
    case False
    then have "dump_inputs env d (i + 1) as (add_input 0 ''n'' c) w = (True, c', w')"
      using Cons.prems(1) by (auto simp: dumped_def split: if_splits)
    from Cons.IH [OF this none] show ?thesis by simp
  next
    case True
    then obtain c1 w1 where one: "dump_one env d i a c w = (True, c1, w1)" and run: "dump_inputs env d (i + 1) as c1 w1 = (True, c', w')"
      and small: "ai_length a \<le> MAX_MEM_SIZE"
      using Cons.prems(1) by (auto simp: dumped_def not_less split: if_splits prod.splits)
    have "shaped c1" unfolding dump_one_config [OF one]
      using small Cons.prems(2) plain_input [OF assms(2)] by (intro shaped_add) (auto simp: MAX_MEM_SIZE_def)
    from Cons.IH [OF run this] show ?thesis by (simp add: dump_one_config [OF one])
  qed
qed simp

definition saved_shape :: "string \<Rightarrow> nat \<Rightarrow> DumperContext \<Rightarrow> bool" where
  \<comment> \<open>the description once the arguments are saved, for a number of inputs\<close>
  "saved_shape d n c \<longleftrightarrow> shaped c \<and> 0 < n \<and> length (du_inputPathList c) = n \<and>
     du_tilingDataPath c \<in> {[], tiling_file d} \<and> du_tilingDataSize c < 2 ^ 32"

lemma DumpInputData_shape:
  assumes "DumpInputData env d infos du0 w = (True, c, w')" "CHR '';'' \<notin> set d"
  shows "saved_shape d (length infos) c"
proof -
  have "infos \<noteq> []" "dump_inputs env d 0 infos du0 w = (True, c, w')"
    using assms(1) by (auto simp: DumpInputData_def split: if_splits)
  from dump_inputs_shape [OF this(2) assms(2)] this(1) show ?thesis by (auto simp: saved_shape_def shaped_def du0_def)
qed

lemma DumpTilingData_shape:
  assumes "DumpTilingData env d t c w = (ok, c', w')" "saved_shape d n c"
  shows "saved_shape d n c'"
  using assms by (auto simp: DumpTilingData_def saved_shape_def shaped_def wrap32_def split: if_splits prod.splits)

lemma with_addrs_length: "length (om_inputParamsAddrInfos (with_addrs addrs m)) =
    min (length addrs) (length (om_inputParamsAddrInfos m))"
  by (simp add: with_addrs_def)

lemma Args_Save_shape:
  assumes "Args_Save env d ctx du0 m w = Some (True, c, m', w')" "CHR '';'' \<notin> set d"
  shows "\<exists>n \<le> length (om_inputParamsAddrInfos m). saved_shape d n c"
proof -
  have few: "length (om_inputParamsAddrInfos (with_addrs addrs m)) \<le> length (om_inputParamsAddrInfos m)" for addrs
    by (simp add: with_addrs_length)
  have inputs: "\<exists>n \<le> length (om_inputParamsAddrInfos m). saved_shape d n c1"
    if "DumpInputData env d (om_inputParamsAddrInfos (with_addrs addrs m)) du0 w1 = (True, c1, w2)" for addrs c1 w1 w2
    using DumpInputData_shape [OF that assms(2)] few [of addrs] by blast
  have tiled: "\<exists>n \<le> length (om_inputParamsAddrInfos m). saved_shape d n c2"
    if "DumpInputData env d (om_inputParamsAddrInfos (with_addrs addrs m)) du0 w1 = (True, c1, w2)"
      and "DumpTilingData env d t c1 w2 = (ok, c2, w3)" for addrs c1 w1 w2 t ok c2 w3
    using inputs [OF that(1)] DumpTilingData_shape [OF that(2)] by blast
  show ?thesis
  proof (cases ctx)
    case (HandleCtx h)
    then show ?thesis using assms(1) few
      by (auto simp: Args_Save_def Handle_Save_def Let_def split: option.splits prod.splits if_splits
          dest: inputs tiled)
  next
    case (RawCtx r)
    then show ?thesis using assms(1) few
      by (auto simp: Args_Save_def Raw_Save_def Let_def split: option.splits prod.splits if_splits args_ptr.splits
          dest: inputs tiled)
  next
    case (ArrayCtx a)
    then show ?thesis using assms(1) few
      by (auto simp: Args_Save_def Array_Save_def Let_def split: option.splits prod.splits if_splits
          dest: inputs)
  qed
qed

section \<open>Saving and reading a launch\<close>

definition json_law :: "'w dump_env \<Rightarrow> parser_env \<Rightarrow> bool" where
  \<comment> \<open>the library parses what it wrote\<close>
  "json_law env pe \<longleftrightarrow> (\<forall>j. pe_items pe (ascii (de_json env j)) = Some (map (\<lambda>(k, v). (k, Some v)) j))"

lemma DumpConfig_written:
  assumes "DumpConfig env d c w = (True, w')" "write_law env files mem"
  shows "\<exists>j. ToJson c = Some j \<and> files w' (JoinPath [d, KERNEL_CONFIG_NAME]) = Some (ascii (de_json env j))"
proof -
  obtain j where j: "ToJson c = Some j" using assms(1) by (auto simp: DumpConfig_def split: option.splits)
  let ?p = "JoinPath [d, KERNEL_CONFIG_NAME]" and ?bs = "ascii (de_json env j)"
  obtain n w1 where wr: "bv_writeBinary (de_vendor env) ?p ?bs w = (n, w1)" by (metis surj_pair)
  have "n = length ?bs" "w' = w1" using assms(1) j wr by (auto simp: DumpConfig_def WriteBinary_def)
  then have "files w' = (files w)(?p \<mapsto> ?bs)" using assms(2) wr unfolding write_law_def by blast
  then show ?thesis using j by simp
qed

lemma dumped_ok_launch:
  assumes "saved_shape d n c" "n < 2 ^ 32" "CHR '';'' \<notin> set d"
    and "CheckInputStringValid (RemoveSuffix (fx_kernelName f) [MIX_AIC_TAIL, MIX_AIV_TAIL]) FILE_NAME_LENGTH_LIMIT"
    and "lx_blockDim l < 2 ^ 31" "- (2 ^ 31) \<le> de_devId env" "de_devId env < 2 ^ 31"
    and "\<And>key. GetTilingKey f = Some key \<Longrightarrow> key < 2 ^ 64"
  shows "dumped_ok (launch_config env d f l m c)"
proof -
  note shape = assms(1) [unfolded saved_shape_def shaped_def]
  have "du_inputPathList c \<noteq> []" using shape by auto
  moreover from this have "last (du_inputPathList c) \<noteq> []" using shape by (auto simp: list_all_iff plain_def)
  moreover have "list_all (\<lambda>p. CHR '';'' \<notin> set p) (du_inputPathList c)" using shape by (auto simp: list_all_iff plain_def)
  moreover have "CHR '';'' \<notin> set (du_tilingDataPath c)" using shape assms(3) by (auto simp: tiling_file_def)
  moreover have "(case GetTilingKey f of None \<Rightarrow> 0 | Some key \<Rightarrow> key) < 2 ^ 64" using assms(8) by (auto split: option.splits)
  ultimately show ?thesis using shape assms(2,4-7) by (simp add: dumped_ok_def launch_config_def)
qed


section \<open>A library and a launch\<close>

fun escape :: "string \<Rightarrow> string" where
  "escape [] = ''.''"
| "escape (c # cs) = CHR '':'' # c # escape cs"

fun unescape :: "string \<Rightarrow> (string \<times> string) option" where
  \<comment> \<open>the word and what follows it\<close>
  "unescape [] = None"
| "unescape [c] = (if c = CHR ''.'' then Some ([], []) else None)"
| "unescape (c # d # cs) =
     (if c = CHR ''.'' then Some ([], d # cs) else map_option (\<lambda>(w, r). (d # w, r)) (unescape cs))"

lemma unescape_escape: "unescape (escape w @ r) = Some (w, r)"
  by (induction w) (cases r; simp)+

fun unescape_items :: "nat \<Rightarrow> string \<Rightarrow> (string \<times> string option) list option" where
  "unescape_items n [] = Some []"
| "unescape_items 0 s = None"
| "unescape_items (Suc n) s =
     (case unescape s of
        None \<Rightarrow> None
      | Some (k, s) \<Rightarrow>
          (case unescape s of
             None \<Rightarrow> None
           | Some (v, s) \<Rightarrow> map_option (\<lambda>is. (k, Some v) # is) (unescape_items n s)))"

definition plain_json :: "json_object \<Rightarrow> string" where
  "plain_json j = concat (map (\<lambda>(k, v). escape k @ escape v) j)"

lemma escape_not_empty [simp]: "escape w \<noteq> []"
  by (cases w) auto

lemma unescape_plain: "length j \<le> n \<Longrightarrow> unescape_items n (plain_json j) = Some (map (\<lambda>(k, v). (k, Some v)) j)"
proof (induction j arbitrary: n)
  case (Cons kv j)
  obtain k v where kv: "kv = (k, v)" by (cases kv)
  obtain n' where n: "n = Suc n'" using Cons.prems by (cases n) auto
  have step: "plain_json (kv # j) = escape k @ escape v @ plain_json j" by (simp add: plain_json_def kv)
  obtain c cs where "escape k @ escape v @ plain_json j = c # cs" by (cases "escape k @ escape v @ plain_json j") auto
  then have "unescape_items n (plain_json (kv # j)) =
      (case unescape (escape k @ escape v @ plain_json j) of
        None \<Rightarrow> None
      | Some (k, s) \<Rightarrow> (case unescape s of None \<Rightarrow> None | Some (v, s) \<Rightarrow> map_option (\<lambda>is. (k, Some v) # is) (unescape_items n' s)))"
    unfolding step n by simp
  then show ?case using Cons n by (simp add: unescape_escape kv)
qed (cases n; simp add: plain_json_def)

lemma length_plain_json: "length j \<le> length (plain_json j)"
proof (induction j)
  case (Cons kv j)
  have "0 < length (escape (fst kv))" by simp
  then show ?case using Cons by (simp add: plain_json_def split_beta del: length_greater_0_conv)
qed simp

lemma chars_ascii [simp]: "chars (ascii s) = s"
proof -
  have "char_of (unat (of_char c :: byte)) = (c :: char)" for c
  proof -
    have "(of_char c :: nat) < 256" using nat_of_char_less_256 [of c] by simp
    then have "unat (of_nat (of_char c) :: byte) = of_char c" by (simp add: unat_of_nat)
    then show ?thesis unfolding of_nat_of_char by simp
  qed
  then show ?thesis by (simp add: chars_def ascii_def comp_def)
qed

lemma length_ascii: "length (ascii s) = length s"
  by (simp add: ascii_def)

definition plain_parser :: parser_env where
  "plain_parser = \<lparr>pe_items = (\<lambda>bs. unescape_items (length bs) (chars bs)), pe_canonical = (\<lambda>p. p), pe_cwd = None\<rparr>"

definition plain_env :: "disk dump_env" where
  "plain_env = disk_env\<lparr>de_json := plain_json\<rparr>"

lemma plain_json_law: "json_law plain_env plain_parser"
  unfolding json_law_def plain_env_def plain_parser_def
  using unescape_plain [OF length_plain_json] by (simp add: length_ascii)

definition replay_func :: FuncContext where
  "replay_func = new_TilingFuncContext (ex_context 0 9) 1 3"

definition replay_contexts :: contexts where
  "replay_contexts = cx0\<lparr>cx_heap := [replay_func\<lparr>fx_kernelName := ''Add_1''\<rparr>],
     cx_launch := (\<lambda>_. lm0\<lparr>lm_memInfoHistory := [om0\<lparr>om_inputParamsAddrInfos := [mk_AddrInfo 0 2 EXTRA INPUT 1]\<rparr>]\<rparr>)\<rparr>"

definition replay_launch :: LaunchContext where
  "replay_launch = \<lparr>lx_func = 0, lx_args = 0, lx_blockDim = 8, lx_stream = 0, lx_isSink = False, lx_launchId = 0, lx_cfg = None, lx_dbiFunc = None\<rparr>"

definition replay_args :: ArgsContext where
  "replay_args = RawCtx (new_ArgsRawContext (Caller (le_bytes 8 4096)) 8 False)"

definition replay_disk :: disk where
  "replay_disk = \<lparr>dk_flat = flat0, dk_files = (\<lambda>_. None)\<rparr>"

lemma plain_env_fields [simp]:
  "de_api plain_env = disk_api" "de_soc plain_env = ''Ascend910B1''" "de_running plain_env = 0" "de_devId plain_env = 0"
  "WriteBinary plain_env p bs w = (True, w\<lparr>dk_files := (dk_files w)(p \<mapsto> bs)\<rparr>)"
  "Register_Save (de_vendor plain_env) soc r p w =
     (case saved_image soc r of None \<Rightarrow> (False, w) | Some img \<Rightarrow> (True, w\<lparr>dk_files := (dk_files w)(p \<mapsto> img)\<rparr>))"
  by (simp_all add: WriteBinary_def Register_Save_def plain_env_def disk_env_def split: option.splits)

lemma replay_saved: "\<exists>s' w'. LaunchContext_Save plain_env ''d'' replay_launch replay_args replay_contexts replay_disk = Some (True, s', w')"
proof -
  obtain img where img: "saved_image ''Ascend910B1'' (ex_context 0 9) = Some img" using saved_binary_flags_witness by blast
  let ?m = "om0\<lparr>om_inputParamsAddrInfos := [mk_AddrInfo 0 2 EXTRA INPUT 1]\<rparr>"
  have one: "dump_one plain_env ''d'' 0 (mk_AddrInfo 4096 2 EXTRA INPUT 1) c w =
      (True, add_input 2 (input_file ''d'' 0) c, w\<lparr>dk_files := (dk_files w)(input_file ''d'' 0 \<mapsto> mem_range (fl_mem \<circ> dk_flat) w 4096 2)\<rparr>)" for c w
    by (simp add: dump_one_def Let_def mk_AddrInfo_def disk_api_def ACL_SUCCESS_def)
  have words: "read_words (le_bytes 8 4096) 0 1 = Some [4096]"
    by (simp add: read_words_def word_at_def le_val_small)
  have "\<exists>c m' w'. Args_Save plain_env ''d'' replay_args du0 ?m w = Some (True, c, m', w')" for w
    using words by (simp add: replay_args_def Args_Save_def Raw_Save_def new_ArgsRawContext_def host_content_def om0_def Let_def
        with_addrs_def DumpInputData_def Raw_GetTilingData_def mk_AddrInfo_def MAX_MEM_SIZE_def UNKNOWN_MEM_SIZE_def
        one [unfolded mk_AddrInfo_def One_nat_def])
  then obtain c m' w' where args: "Args_Save plain_env ''d'' replay_args du0 ?m
      (replay_disk\<lparr>dk_files := (dk_files replay_disk)(JoinPath [''d'', KERNEL_BIN_NAME] \<mapsto> img)\<rparr>) = Some (True, c, m', w')" by metis
  have config: "ToJson (launch_config plain_env ''d'' f replay_launch m' c) \<noteq> None" if "fx_regCtx f = ex_context 0 9" for f
    using that by (simp add: ToJson_def launch_config_def magic_name_def ex_context_def new_RegisterParam_def Let_def)
  show ?thesis
    using img args config
    by (fastforce simp: LaunchContext_Save_def replay_contexts_def replay_launch_def replay_func_def new_TilingFuncContext_def
        new_FuncContext_def lm0_def cx0_def DumpConfig_def Let_def split: option.splits prod.splits)
qed


end
