(* ===== verification/Instrument.thy ===== *)
theory Instrument
  imports LaunchDump
begin

text \<open>
  Models core/BinaryInstrumentation.h and .cpp, which turn a kernel's binary into an instrumented one by
  running the compiler's tools (utils/PipeCall.cpp, utils/UmaskGuard.h), and \<open>GetArchName\<close> of
  runtime/inject_helpers/InstrReport.cpp. The programs that are run, files and plugins are the environment
  \<open>'w shell\<close>.
\<close>

section \<open>Running programs\<close>

record 'w shell =
  sl_run :: "string list \<Rightarrow> 'w \<Rightarrow> (bool \<times> string) \<times> 'w"
    \<comment> \<open>whether the program was started and ended with 0, and what it printed\<close>
  sl_chmod :: "string \<Rightarrow> nat \<Rightarrow> 'w \<Rightarrow> bool \<times> 'w"
  sl_umask :: "nat \<Rightarrow> 'w \<Rightarrow> nat \<times> 'w"
  sl_writeText :: "string \<Rightarrow> string \<Rightarrow> 'w \<Rightarrow> bool \<times> 'w"
  sl_isDir :: "string \<Rightarrow> 'w \<Rightarrow> bool"
  sl_inputValid :: "string \<Rightarrow> string \<Rightarrow> 'w \<Rightarrow> bool"
  sl_open :: "string \<Rightarrow> 'w \<Rightarrow> ptr \<times> 'w"
  sl_symbol :: "ptr \<Rightarrow> string \<Rightarrow> 'w \<Rightarrow> ptr"
  sl_close :: "ptr \<Rightarrow> 'w \<Rightarrow> 'w"
  sl_start :: "ptr \<Rightarrow> string \<Rightarrow> nat \<Rightarrow> string \<Rightarrow> 'w \<Rightarrow> 'w"
    \<comment> \<open>the plugin's function, the path, the length it is given and the architecture\<close>

definition PipeCall :: "'w shell \<Rightarrow> string list \<Rightarrow> string \<Rightarrow> 'w \<Rightarrow> (bool \<times> string) \<times> 'w" where
  \<comment> \<open>what is printed is appended to \<open>output\<close>\<close>
  "PipeCall sh cmd output w = (let ((ok, printed), w) = sl_run sh cmd w in ((ok, output @ printed), w))"

definition SAVE_DATA_FILE_AUTHORITY :: nat where "SAVE_DATA_FILE_AUTHORITY = 6 * 64 + 4 * 8"
definition DEFAULT_UMASK_FOR_LOG_FILE :: nat where "DEFAULT_UMASK_FOR_LOG_FILE = 2 * 8 + 7"

definition with_umask :: "'w shell \<Rightarrow> nat \<Rightarrow> ('w \<Rightarrow> 'a \<times> 'w) \<Rightarrow> 'w \<Rightarrow> 'a \<times> 'w" where
  \<comment> \<open>\<open>UmaskGuard\<close>: the old mask is put back on every way out\<close>
  "with_umask sh msk act w =
     (let (old, w) = sl_umask sh msk w; (r, w) = act w in (r, snd (sl_umask sh old w)))"

section \<open>Instrumenting a kernel\<close>

datatype BIType = CUSTOMIZE | BB_COUNT | PGO | MAX_TYPE

definition BI_TYPE_NAME :: "BIType \<Rightarrow> string option" where
  "BI_TYPE_NAME t =
     (case t of CUSTOMIZE \<Rightarrow> Some ''customize'' | BB_COUNT \<Rightarrow> Some ''bbcount'' | PGO \<Rightarrow> Some ''pgo'' | MAX_TYPE \<Rightarrow> None)"

record bi_config =
  bi_pluginPath :: string
  bi_archName :: string
  bi_tmpDir :: string
  bi_tuneLogPath :: string
  bi_argSize :: nat
  bi_extraArgs :: "string list"

definition bi0 :: bi_config where
  "bi0 = \<lparr>bi_pluginPath = [], bi_archName = [], bi_tmpDir = [], bi_tuneLogPath = [], bi_argSize = 0, bi_extraArgs = []\<rparr>"

record BinaryInstrumentation =
  \<comment> \<open>one of the three classes, told apart by the type; the last two fields are those of \<open>CustomDBI\<close>\<close>
  bn_type :: BIType
  bn_config :: bi_config
  bn_initFunc :: ptr
  bn_handle :: ptr

definition DBIFactory_Create :: "BIType \<Rightarrow> BinaryInstrumentation option" where
  "DBIFactory_Create t =
     (if t = MAX_TYPE then None else Some \<lparr>bn_type = t, bn_config = bi0, bn_initFunc = 0, bn_handle = 0\<rparr>)"

definition key_option :: "string \<Rightarrow> string list" where
  "key_option tilingKey = (if tilingKey \<noteq> [] then [''--tiling-key='' @ tilingKey] else [])"

definition args_option :: "bi_config \<Rightarrow> string" where
  "args_option c = ''--tune-argsize='' @ decimal (bi_argSize c)"

definition BBCount_command :: "bi_config \<Rightarrow> string \<Rightarrow> string \<Rightarrow> string \<Rightarrow> string list" where
  "BBCount_command c newKernelFile oldKernelFile tilingKey =
     (if find_sub ''dav-c310'' (bi_archName c) \<noteq> None
      then [''bisheng-tune'', ''--action=instru-probe'', ''--tune-bbbend-offset'', ''--instru-bbprobe'', args_option c,
            oldKernelFile, ''-o'', newKernelFile]
      else [''bisheng-tune'', ''--action=block-count-instr'', ''--tune-bbbend-offset'', args_option c,
            oldKernelFile, ''-o'', newKernelFile]) @ key_option tilingKey @ bi_extraArgs c"

definition PGO_command :: "bi_config \<Rightarrow> string \<Rightarrow> string \<Rightarrow> string \<Rightarrow> string list" where
  "PGO_command c newKernelFile oldKernelFile tilingKey =
     [''bisheng-tune'', ''--action=block-count-instr'', args_option c, oldKernelFile, ''-o='' @ newKernelFile] @
     key_option tilingKey @ bi_extraArgs c"

definition run_and_chmod :: "'w shell \<Rightarrow> string list \<Rightarrow> string \<Rightarrow> 'w \<Rightarrow> bool \<times> 'w" where
  \<comment> \<open>run a program, then set the permissions of the file it wrote\<close>
  "run_and_chmod sh cmd file w =
     (let ((ok, output), w) = PipeCall sh cmd [] w in
      if \<not> ok then (False, w) else sl_chmod sh file SAVE_DATA_FILE_AUTHORITY w)"

definition BBCount_Convert :: "'w shell \<Rightarrow> bi_config \<Rightarrow> string \<Rightarrow> string \<Rightarrow> string \<Rightarrow> 'w \<Rightarrow> bool \<times> 'w" where
  "BBCount_Convert sh c newKernelFile oldKernelFile tilingKey =
     with_umask sh DEFAULT_UMASK_FOR_LOG_FILE
       (run_and_chmod sh (BBCount_command c newKernelFile oldKernelFile tilingKey) newKernelFile)"

definition PGO_Convert :: "'w shell \<Rightarrow> bi_config \<Rightarrow> string \<Rightarrow> string \<Rightarrow> string \<Rightarrow> 'w \<Rightarrow> bool \<times> 'w" where
  "PGO_Convert sh c newKernelFile oldKernelFile tilingKey =
     with_umask sh DEFAULT_UMASK_FOR_LOG_FILE
       (run_and_chmod sh (PGO_command c newKernelFile oldKernelFile tilingKey) newKernelFile)"

section \<open>The probes of a plugin\<close>

function words :: "string \<Rightarrow> string list" where
  \<comment> \<open>\<open>istream_iterator<string>\<close>\<close>
  "words s =
     (let t = dropWhile isspace s in
      if t = [] then [] else takeWhile (\<lambda>c. \<not> isspace c) t # words (dropWhile (\<lambda>c. \<not> isspace c) t))"
  by pat_completeness auto
termination
proof (relation "measure length")
  fix s t :: string
  assume t: "t = dropWhile isspace s" "t \<noteq> []"
  then have "\<not> isspace (hd t)" by (simp add: hd_dropWhile)
  then have "length (dropWhile (\<lambda>c. \<not> isspace c) t) < length t"
    using t(2) by (cases t) (auto simp: less_Suc_eq_le length_dropWhile_le)
  also have "length t \<le> length s" using t(1) by (simp add: length_dropWhile_le)
  finally show "(dropWhile (\<lambda>c. \<not> isspace c) t, s) \<in> measure length" by simp
qed simp

declare words.simps [simp del]

definition symbol_line :: "string \<Rightarrow> string \<Rightarrow> string option" where
  \<comment> \<open>the sixth field of a line that describes a function of the text section\<close>
  "symbol_line property line =
     (let items = words line in
      if length items > 5 \<and> items ! 1 = property \<and> items ! 2 = ''F'' \<and> items ! 3 = ''.text'' then Some (items ! 5) else None)"

fun first_symbol :: "string list \<Rightarrow> string \<Rightarrow> string option" where
  "first_symbol [] property = None"
| "first_symbol (line # lines) property =
     (case symbol_line property line of Some sy \<Rightarrow> Some sy | None \<Rightarrow> first_symbol lines property)"

definition ParseFirstSymbol :: "string \<Rightarrow> string \<Rightarrow> string option" where
  "ParseFirstSymbol text' property = first_symbol (SplitString (CHR 0x0A) text') property"

definition GenerateOrderingFile :: "'w shell \<Rightarrow> string \<Rightarrow> string \<Rightarrow> string \<Rightarrow> 'w \<Rightarrow> bool \<times> 'w" where
  \<comment> \<open>both programs print into the same \<open>output\<close>\<close>
  "GenerateOrderingFile sh kernelFile probeFile orderingFile w =
     (let ((ok, output), w) = PipeCall sh [''llvm-objdump'', ''--syms'', kernelFile] [] w in
      if \<not> ok then (False, w)
      else (case ParseFirstSymbol output ''g'' of
              None \<Rightarrow> (False, w)
            | Some kernelSymbol \<Rightarrow>
                let ((ok, output), w) = PipeCall sh [''llvm-objdump'', ''--syms'', probeFile] output w in
                if \<not> ok then (False, w)
                else (case ParseFirstSymbol output ''w'' of
                        None \<Rightarrow> (False, w)
                      | Some probeSymbol \<Rightarrow> sl_writeText sh orderingFile (kernelSymbol @ [CHR 0x0A] @ probeSymbol) w)))"

definition GenerateTempProbe :: "'w shell \<Rightarrow> bi_config \<Rightarrow> string \<Rightarrow> 'w \<Rightarrow> bool \<times> 'w" where
  "GenerateTempProbe sh c probeFile =
     run_and_chmod sh [''llvm-objcopy'', ''-j'', ''.'' @ bi_archName c, ''-O'', ''binary'', bi_pluginPath c, probeFile] probeFile"

definition GenerateKernelWithProbe :: "'w shell \<Rightarrow> string \<Rightarrow> string \<Rightarrow> string \<Rightarrow> string \<Rightarrow> 'w \<Rightarrow> bool \<times> 'w" where
  "GenerateKernelWithProbe sh kernelFile probeFile orderingFile kernelWithProbeFile =
     run_and_chmod sh [''ld.lld'', ''-m'', ''aicorelinux'', ''-Ttext=0'', ''-execute-probe'', ''--symbol-ordering-file'', orderingFile,
       ''-z'', ''separate-loadable-segments'', probeFile, kernelFile, ''-static'', ''-q'', ''-o'', kernelWithProbeFile]
       kernelWithProbeFile"

definition dfx_prefix :: string where "dfx_prefix = ''--dfx-region-id-map=''"

definition FinalizeOutput :: "'w binary_vendor \<Rightarrow> 'w shell \<Rightarrow> bi_config \<Rightarrow> string \<Rightarrow> 'w \<Rightarrow> 'w" where
  \<comment> \<open>the loop ends with the first option of that kind\<close>
  "FinalizeOutput v sh c output w =
     (let w = (if bi_tuneLogPath c \<noteq> [] then snd (sl_writeText sh (bi_tuneLogPath c) output w) else w) in
      case find (\<lambda>arg. find_sub dfx_prefix arg = Some 0) (bi_extraArgs c) of
        None \<Rightarrow> w
      | Some arg \<Rightarrow>
          let dfxMapPath = drop (length dfx_prefix) arg in
          if bv_exists v dfxMapPath w then snd (sl_chmod sh dfxMapPath SAVE_DATA_FILE_AUTHORITY w) else w)"

definition Custom_SetConfig :: "'w shell \<Rightarrow> bi_config \<Rightarrow> BinaryInstrumentation \<Rightarrow> 'w \<Rightarrow> bool \<times> BinaryInstrumentation \<times> 'w" where
  "Custom_SetConfig sh config b w =
     (let b = b\<lparr>bn_config := config\<rparr> in
      if bi_pluginPath config = [] \<or> bi_archName config = [] then (False, b, w)
      else if \<not> sl_inputValid sh (bi_pluginPath config) ''so'' w then (False, b, w)
      else
        let (handle, w) = sl_open sh (bi_pluginPath config) w; b = b\<lparr>bn_handle := handle\<rparr> in
        if handle = 0 then (False, b, w)
        else
          let f = sl_symbol sh handle ''MSBitStart'' w in (f \<noteq> 0, b\<lparr>bn_initFunc := f\<rparr>, w))"

definition Custom_command :: "bi_config \<Rightarrow> string \<Rightarrow> string \<Rightarrow> string list" where
  "Custom_command c newKernelFile tilingKey =
     [''bisheng-tune'', ''--action=instru-probe'', args_option c, ''--instru-memprobe'',
      JoinPath [bi_tmpDir c, ''old_kernel_with_probe.o''], ''--dbi-config='' @ JoinPath [bi_tmpDir c, ''ctrl.bin''],
      ''-o='' @ newKernelFile] @ bi_extraArgs c @ key_option tilingKey"

definition Custom_Convert ::
  "'w binary_vendor \<Rightarrow> 'w shell \<Rightarrow> BinaryInstrumentation \<Rightarrow> string \<Rightarrow> string \<Rightarrow> string \<Rightarrow> 'w \<Rightarrow> bool \<times> 'w"
where
  "Custom_Convert v sh b newKernelFile oldKernelFile tilingKey w =
     (let c = bn_config b; archName = bi_archName c;
          tempProbePath = JoinPath [bi_tmpDir c, ''probe.o''];
          tempCtrlPath = JoinPath [bi_tmpDir c, ''ctrl.bin''];
          tempOrderingPath = JoinPath [bi_tmpDir c, ''symbol_ordering.txt''];
          tempKernelWithProbePath = JoinPath [bi_tmpDir c, ''old_kernel_with_probe.o''] in
      if bn_initFunc b = 0 \<or> archName = [] then (False, w)
      else let (ok, w) = GenerateTempProbe sh c tempProbePath w in
      if \<not> ok then (False, w)
      else let (ok, w) = GenerateOrderingFile sh oldKernelFile tempProbePath tempOrderingPath w in
      if \<not> ok then (False, w)
      else let (ok, w) = GenerateKernelWithProbe sh oldKernelFile tempProbePath tempOrderingPath tempKernelWithProbePath w in
      if \<not> ok then (False, w)
      else
        let w = sl_start sh (bn_initFunc b) tempCtrlPath (length tempCtrlPath mod 2 ^ 16) archName w;
            (ok, w) = sl_chmod sh tempCtrlPath SAVE_DATA_FILE_AUTHORITY w in
        if \<not> ok then (False, w)
        else
          let ((ok, output), w) = PipeCall sh (Custom_command c newKernelFile tilingKey) [] w;
              (ok, w) = (if ok then sl_chmod sh newKernelFile SAVE_DATA_FILE_AUTHORITY w else (False, w)) in
          (ok, FinalizeOutput v sh c output w))"

definition Custom_dtor :: "'w shell \<Rightarrow> BinaryInstrumentation \<Rightarrow> 'w \<Rightarrow> 'w" where
  "Custom_dtor sh b w = (if bn_handle b \<noteq> 0 then sl_close sh (bn_handle b) w else w)"

section \<open>The three classes\<close>

definition dbi_SetConfig :: "'w shell \<Rightarrow> bi_config \<Rightarrow> BinaryInstrumentation \<Rightarrow> 'w \<Rightarrow> bool \<times> BinaryInstrumentation \<times> 'w" where
  "dbi_SetConfig sh config b w =
     (if bn_type b = CUSTOMIZE then Custom_SetConfig sh config b w else (True, b\<lparr>bn_config := config\<rparr>, w))"

definition dbi_Convert ::
  "'w binary_vendor \<Rightarrow> 'w shell \<Rightarrow> BinaryInstrumentation \<Rightarrow> string \<Rightarrow> string \<Rightarrow> string \<Rightarrow> 'w \<Rightarrow> bool \<times> 'w"
where
  "dbi_Convert v sh b newKernelFile oldKernelFile tilingKey w =
     (case bn_type b of
        CUSTOMIZE \<Rightarrow> Custom_Convert v sh b newKernelFile oldKernelFile tilingKey w
      | BB_COUNT \<Rightarrow> BBCount_Convert sh (bn_config b) newKernelFile oldKernelFile tilingKey w
      | PGO \<Rightarrow> PGO_Convert sh (bn_config b) newKernelFile oldKernelFile tilingKey w
      | MAX_TYPE \<Rightarrow> (False, w))"

definition dbi_dtor :: "'w shell \<Rightarrow> BinaryInstrumentation \<Rightarrow> 'w \<Rightarrow> 'w" where
  "dbi_dtor sh b w = (if bn_type b = CUSTOMIZE then Custom_dtor sh b w else w)"

definition NeedExtraSpace :: "BinaryInstrumentation \<Rightarrow> bool" where
  "NeedExtraSpace b \<longleftrightarrow> bn_type b \<noteq> PGO"

section \<open>Architectures\<close>

definition GetArchName :: "KernelType \<Rightarrow> string \<Rightarrow> string" where
  "GetArchName kernelType socVersion =
     (if find_sub ''Ascend910B'' socVersion \<noteq> None \<or> find_sub ''Ascend910_93'' socVersion \<noteq> None then
        (case kernelType of AIVEC \<Rightarrow> ''dav-c220-vec'' | AICUBE \<Rightarrow> ''dav-c220-cube'' | MIX \<Rightarrow> ''dav-c220'' | _ \<Rightarrow> [])
      else if find_sub ''Ascend310P'' socVersion \<noteq> None then
        (case kernelType of AIVEC \<Rightarrow> ''dav-m200-vec'' | MIX \<Rightarrow> ''dav-m200'' | _ \<Rightarrow> [])
      else if find_sub ''Ascend950'' socVersion \<noteq> None then
        (case kernelType of AIVEC \<Rightarrow> ''dav-c310-vec'' | AICUBE \<Rightarrow> ''dav-c310-cube'' | MIX \<Rightarrow> ''dav-c310'' | _ \<Rightarrow> [])
      else [])"

definition GetTargetArchName :: "'w binary_vendor \<Rightarrow> string \<Rightarrow> FuncContext \<Rightarrow> 'w \<Rightarrow> string" where
  "GetTargetArchName v socVersion f w = GetArchName (GetKernelType v f w) socVersion"

end
