(* ===== verification/DbiTask.thy ===== *)
theory DbiTask
  imports Instrument LaunchInit
begin

text \<open>
  Models runtime/inject_helpers/DBITask.h and .cpp, which replace the kernel of a launch by an instrumented one, the
  replacing part of KernelReplacement.h and .cpp, and the cleaner of temporary directories of utils/FileSystem.h.
  The factory and the configuration are those of one thread. A function context that a task keeps is
  entered into the store of theory Launches: the launch that used it goes on referring to it. \<open>None\<close> is the call of a
  task without an instrumentation class, which has no meaning. The runtime is the environment \<open>'w dbi_env\<close>.
\<close>

section \<open>Keys of tasks\<close>

fun BIType_code :: "BIType \<Rightarrow> nat" where
  "BIType_code CUSTOMIZE = 0"
| "BIType_code BB_COUNT = 1"
| "BIType_code PGO = 2"
| "BIType_code MAX_TYPE = 3"

lemma BIType_code_inj: "BIType_code a = BIType_code b \<Longrightarrow> a = b"
  by (cases a; cases b) auto

instantiation BIType :: linorder
begin

definition less_eq_BIType :: "BIType \<Rightarrow> BIType \<Rightarrow> bool" where
  "a \<le> b \<longleftrightarrow> BIType_code a \<le> BIType_code b"

definition less_BIType :: "BIType \<Rightarrow> BIType \<Rightarrow> bool" where
  "a < b \<longleftrightarrow> BIType_code a < BIType_code b"

instance
  by standard (auto simp: less_eq_BIType_def less_BIType_def intro: BIType_code_inj)

end

datatype TaskKey = TaskKey (tk_biType: BIType) (tk_stubFunc: ptr) (tk_tilingKey: string) (tk_pluginPath: string)

definition TaskKey_less :: "TaskKey \<Rightarrow> TaskKey \<Rightarrow> bool" where
  \<comment> \<open>\<open>operator<\<close>\<close>
  "TaskKey_less a b \<longleftrightarrow>
     (if tk_biType a \<noteq> tk_biType b then tk_biType a < tk_biType b
      else if tk_stubFunc a \<noteq> tk_stubFunc b then tk_stubFunc a < tk_stubFunc b
      else if tk_tilingKey a \<noteq> tk_tilingKey b then tk_tilingKey a < tk_tilingKey b
      else tk_pluginPath a < tk_pluginPath b)"

instantiation TaskKey :: linorder
begin

definition less_TaskKey :: "TaskKey \<Rightarrow> TaskKey \<Rightarrow> bool" where
  "less_TaskKey = TaskKey_less"

definition less_eq_TaskKey :: "TaskKey \<Rightarrow> TaskKey \<Rightarrow> bool" where
  "a \<le> b \<longleftrightarrow> TaskKey_less a b \<or> a = b"

instance
proof
  fix a b c :: TaskKey
  note defs = less_TaskKey_def less_eq_TaskKey_def TaskKey_less_def
  show "a < b \<longleftrightarrow> a \<le> b \<and> \<not> b \<le> a"
    by (auto simp: defs split: if_splits)
  show "a \<le> a" by (simp add: defs)
  show "a \<le> b \<Longrightarrow> b \<le> c \<Longrightarrow> a \<le> c"
    by (auto simp: defs split: if_splits)
  show "a \<le> b \<Longrightarrow> b \<le> a \<Longrightarrow> a = b"
    by (auto simp: defs split: if_splits)
  show "a \<le> b \<or> b \<le> a"
    by (cases a; cases b) (auto simp: defs)
qed

end

definition TaskKey_eq :: "TaskKey \<Rightarrow> TaskKey \<Rightarrow> bool" where
  \<comment> \<open>\<open>operator==\<close>\<close>
  "TaskKey_eq a b \<longleftrightarrow> tk_biType a = tk_biType b \<and> tk_stubFunc a = tk_stubFunc b \<and> tk_tilingKey a = tk_tilingKey b \<and>
     tk_pluginPath a \<noteq> tk_pluginPath b"

section \<open>Temporary directories\<close>

definition AddPath :: "string \<Rightarrow> bool \<Rightarrow> (string \<times> bool) list \<Rightarrow> (string \<times> bool) list" where
  "AddPath path keep paths = (if path = [] then paths else omap_put path keep paths)"

definition RemovePath :: "string \<Rightarrow> (string \<times> bool) list \<Rightarrow> (string \<times> bool) list" where
  "RemovePath path paths = (if path = [] then paths else al_del path paths)"

fun clean_paths :: "'w binary_vendor \<Rightarrow> (string \<times> bool) list \<Rightarrow> 'w \<Rightarrow> 'w" where
  "clean_paths v [] w = w"
| "clean_paths v ((path, keep) # rest) w =
     clean_paths v rest (if keep \<or> \<not> bv_exists v path w then w else bv_removeAll v path w)"

definition CleanAll :: "'w binary_vendor \<Rightarrow> (string \<times> bool) list \<Rightarrow> 'w \<Rightarrow> (string \<times> bool) list \<times> 'w" where
  "CleanAll v paths w = ([], clean_paths v paths w)"

section \<open>The configuration\<close>

record DBITaskConfig =
  tc_extraCompilerArgs :: "string list"
  tc_tuneLogPath :: string
  tc_oldKernelName :: string
  tc_newKernelName :: string
  tc_tmpRootDir :: string
  tc_pluginPath :: string
  tc_type :: BIType
  tc_argsSize :: nat
  tc_keepTaskOutputs :: bool
  tc_keepRootTmpDirOutputs :: bool
  tc_enabled :: bool
  tc_matcher :: "matcher_config option"

definition tc0 :: "bool \<Rightarrow> DBITaskConfig" where
  \<comment> \<open>whether debug messages are logged\<close>
  "tc0 verbose =
     \<lparr>tc_extraCompilerArgs = [], tc_tuneLogPath = [], tc_oldKernelName = ''tmp_old_kernel.o'',
      tc_newKernelName = ''tmp_new_kernel.o'', tc_tmpRootDir = [], tc_pluginPath = [], tc_type = MAX_TYPE, tc_argsSize = 0,
      tc_keepTaskOutputs = verbose, tc_keepRootTmpDirOutputs = verbose, tc_enabled = False, tc_matcher = None\<rparr>"

definition SetTmpRootDir ::
  "nat \<Rightarrow> string \<Rightarrow> string \<Rightarrow> DBITaskConfig \<times> (string \<times> bool) list \<Rightarrow> DBITaskConfig \<times> (string \<times> bool) list"
where
  \<comment> \<open>the process's number and the time stamp\<close>
  "SetTmpRootDir pid ts path = (\<lambda>(c, paths).
     if tc_tmpRootDir c \<noteq> [] then (c, paths)
     else
       let dir = (if path = [] then ''./tmp_'' @ decimal pid @ ''_'' @ ts else path @ ''/tmp_'' @ decimal pid @ ''_'' @ ts) in
       (c\<lparr>tc_tmpRootDir := dir\<rparr>, AddPath dir (tc_keepRootTmpDirOutputs c) paths))"

definition CleanTmpRootDir ::
  "'w binary_vendor \<Rightarrow> DBITaskConfig \<Rightarrow> (string \<times> bool) list \<Rightarrow> 'w \<Rightarrow> (DBITaskConfig \<times> (string \<times> bool) list) \<times> 'w"
where
  "CleanTmpRootDir v c paths w =
     (if tc_tmpRootDir c = [] then ((c, paths), w)
      else
        ((c\<lparr>tc_tmpRootDir := []\<rparr>, RemovePath (tc_tmpRootDir c) paths),
         if \<not> tc_keepRootTmpDirOutputs c \<and> bv_exists v (tc_tmpRootDir c) w then bv_removeAll v (tc_tmpRootDir c) w else w))"

definition Config_Init ::
  "BIType \<Rightarrow> string \<Rightarrow> matcher_config \<Rightarrow> nat \<Rightarrow> string \<Rightarrow> string \<Rightarrow> string \<Rightarrow> string list \<Rightarrow>
   DBITaskConfig \<times> (string \<times> bool) list \<Rightarrow> DBITaskConfig \<times> (string \<times> bool) list"
where
  "Config_Init type pluginPath config pid ts tmpPath tuneLogPath extraCompilerArgs = (\<lambda>(c, paths).
     SetTmpRootDir pid ts tmpPath
       (c\<lparr>tc_enabled := True, tc_pluginPath := pluginPath, tc_type := type, tc_matcher := Some config,
          tc_tuneLogPath := tuneLogPath, tc_extraCompilerArgs := extraCompilerArgs\<rparr>, paths))"

definition Config_Init_matcher ::
  "BIType \<Rightarrow> matcher_config option \<Rightarrow> nat \<Rightarrow> string \<Rightarrow> string \<Rightarrow>
   DBITaskConfig \<times> (string \<times> bool) list \<Rightarrow> DBITaskConfig \<times> (string \<times> bool) list"
where
  "Config_Init_matcher type matcher pid ts tmpPath = (\<lambda>(c, paths).
     SetTmpRootDir pid ts tmpPath
       (c\<lparr>tc_enabled := True, tc_pluginPath := [], tc_type := type, tc_matcher := matcher\<rparr>, paths))"

definition IsEnabled :: "DBITaskConfig \<Rightarrow> nat \<Rightarrow> string \<Rightarrow> bool" where
  "IsEnabled c launchId kernelName \<longleftrightarrow>
     tc_enabled c \<and> (case tc_matcher c of None \<Rightarrow> False | Some m \<Rightarrow> Match m launchId kernelName)"

definition KeepTaskOutputs :: "DBITaskConfig \<Rightarrow> DBITaskConfig" where
  "KeepTaskOutputs c = c\<lparr>tc_keepTaskOutputs := True\<rparr>"

definition GetOutputDir :: "DBITaskConfig \<Rightarrow> nat \<Rightarrow> string" where
  "GetOutputDir c launchId =
     (let biTypeName = (case BI_TYPE_NAME (tc_type c) of None \<Rightarrow> [] | Some n \<Rightarrow> n);
          soName = ExtractObjName (tc_pluginPath c) ''plugin_'' ''.so'' in
      JoinPath [tc_tmpRootDir c, ''launch_'' @ decimal launchId @ ''_'' @ biTypeName @ ''_'' @ soName])"

definition IsPlatformSupportDBI :: "string \<Rightarrow> bool" where
  "IsPlatformSupportDBI socVersion \<longleftrightarrow> find_sub ''Ascend910B'' socVersion \<noteq> None \<or>
     find_sub ''Ascend910_93'' socVersion \<noteq> None \<or> find_sub ''Ascend950'' socVersion \<noteq> None"

section \<open>Replaced kernels\<close>

record 'w dbi_env =
  dn_dump :: "'w dump_env"
  dn_kernel :: kernel_env
  dn_shell :: "'w shell"
  dn_register :: "bool \<Rightarrow> devbin \<Rightarrow> 'w \<Rightarrow> (nat \<times> ptr) \<times> 'w"
    \<comment> \<open>\<open>rtDevBinaryRegister\<close> or \<open>rtRegisterAllKernel\<close>: the status (0 is \<open>RT_ERROR_NONE\<close>) and the handle that is stored\<close>
  dn_unregister :: "ptr \<Rightarrow> 'w \<Rightarrow> 'w"
  dn_registerFunc :: "ptr \<Rightarrow> ptr \<Rightarrow> string \<Rightarrow> string \<Rightarrow> nat \<Rightarrow> 'w \<Rightarrow> nat \<times> 'w"  \<comment> \<open>\<open>rtFunctionRegister\<close>\<close>

record KernelReplaceTask =
  kt_bin :: devbin
  kt_binAddr :: ptr  \<comment> \<open>the address of the field \<open>bin_\<close>\<close>
  kt_handle :: ptr
  kt_kernelPath :: string

definition new_KernelReplaceTask :: "ptr \<Rightarrow> string \<Rightarrow> KernelReplaceTask" where
  "new_KernelReplaceTask p kernelPath =
     \<lparr>kt_bin = \<lparr>db_magic = 0, db_version = 0, db_data = None, db_length = 0\<rparr>, kt_binAddr = p, kt_handle = 0,
      kt_kernelPath = kernelPath\<rparr>"

definition KernelReplaceTask_Run ::
  "'w dbi_env \<Rightarrow> KernelContext \<Rightarrow> nat \<Rightarrow> bool \<Rightarrow> ptr \<Rightarrow> KernelReplaceTask \<Rightarrow> 'w \<Rightarrow> (bool \<times> ptr \<times> KernelReplaceTask) \<times> 'w"
where
  \<comment> \<open>\<open>handle\<close> is what the caller's variable holds\<close>
  "KernelReplaceTask_Run env k regId withStubFunc handle t w =
     (case GetRegisterEvent k regId of
        None \<Rightarrow> ((False, handle, t), w)
      | Some event \<Rightarrow>
          let data = bv_readBinary (de_vendor (dn_dump env)) (kt_kernelPath t) w in
          if data = [] then ((False, handle, t), w)
          else
            let bin = (re_bin event)\<lparr>db_data := Some data, db_length := length data\<rparr>;
                ((ret, h), w) = dn_register env withStubFunc bin w; t = t\<lparr>kt_bin := bin, kt_handle := h\<rparr> in
            if ret \<noteq> 0 then ((False, handle, t), w) else ((True, h, t), w))"

definition KernelReplaceTask_dtor :: "'w dbi_env \<Rightarrow> KernelReplaceTask \<Rightarrow> 'w \<Rightarrow> 'w" where
  "KernelReplaceTask_dtor env t w = (if kt_handle t \<noteq> 0 then dn_unregister env (kt_handle t) w else w)"

definition release_task :: "'w dbi_env \<Rightarrow> KernelReplaceTask option \<Rightarrow> 'w \<Rightarrow> 'w" where
  "release_task env t w = (case t of None \<Rightarrow> w | Some t \<Rightarrow> KernelReplaceTask_dtor env t w)"

record KernelReplacement =
  kr_oldKernelRegId :: nat
  kr_kernelPath :: string
  kr_matcher :: "matcher_config option"
  kr_replaceTask :: "KernelReplaceTask option"

definition kr0 :: KernelReplacement where
  "kr0 = \<lparr>kr_oldKernelRegId = NO_ID, kr_kernelPath = [], kr_matcher = None, kr_replaceTask = None\<rparr>"

definition Replacement_Init :: "string \<Rightarrow> matcher_config \<Rightarrow> KernelReplacement \<Rightarrow> KernelReplacement" where
  "Replacement_Init kernelPath config r = r\<lparr>kr_kernelPath := kernelPath, kr_matcher := Some config\<rparr>"

definition CreateHandle ::
  "'w dbi_env \<Rightarrow> KernelContext \<Rightarrow> nat \<Rightarrow> ptr option \<Rightarrow> ptr \<Rightarrow> KernelReplacement \<Rightarrow> 'w \<Rightarrow>
   (bool \<times> ptr option \<times> KernelReplacement) \<times> 'w"
where
  \<comment> \<open>what \<open>handle\<close> points to, unless it is null; \<open>p\<close> is the address of a new task's binary\<close>
  "CreateHandle env k launchId handle p r w =
     (case (handle, kr_matcher r) of
        (Some h, Some matcher) \<Rightarrow>
          let kernelName = GetLaunchName (GetDeviceContext (dn_kernel env) k) NO_ID;
              regId = GetRegisterId k (GetDeviceContext (dn_kernel env) k) launchId in
          if kr_kernelPath r = [] then ((False, handle, r), w)
          else if \<not> Match matcher launchId kernelName then ((False, handle, r), w)
          else if regId = NO_ID then ((False, handle, r), w)
          else if kr_oldKernelRegId r \<noteq> NO_ID then
            (case kr_replaceTask r of
               None \<Rightarrow> ((False, handle, r), w)
             | Some t \<Rightarrow>
                 if kr_oldKernelRegId r \<noteq> regId then ((False, handle, r), w) else ((True, Some (kt_handle t), r), w))
          else
            let w = release_task env (kr_replaceTask r) w;
                ((ok, h, t), w) = KernelReplaceTask_Run env k regId False h (new_KernelReplaceTask p (kr_kernelPath r)) w in
            if ok then ((True, Some h, r\<lparr>kr_replaceTask := Some t, kr_oldKernelRegId := regId\<rparr>), w)
            else ((True, Some h, r\<lparr>kr_replaceTask := None\<rparr>), KernelReplaceTask_dtor env t w)
      | _ \<Rightarrow> ((False, handle, r), w))"

definition ReleaseHandle :: "'w dbi_env \<Rightarrow> KernelContext \<Rightarrow> ptr \<Rightarrow> KernelReplacement \<Rightarrow> 'w \<Rightarrow> (bool \<times> KernelReplacement) \<times> 'w" where
  "ReleaseHandle env k handle r w =
     (case kr_replaceTask r of
        None \<Rightarrow> ((False, r), w)
      | Some t \<Rightarrow>
          let regId = GetRegisterId_key k handle True in
          if regId = NO_ID \<or> regId \<noteq> kr_oldKernelRegId r then ((False, r), w)
          else ((True, r\<lparr>kr_replaceTask := None, kr_oldKernelRegId := NO_ID\<rparr>), KernelReplaceTask_dtor env t w))"

section \<open>Tasks\<close>

record DBITask =
  dt_dbi :: "BinaryInstrumentation option"
  dt_replaceTask :: "KernelReplaceTask option"
  dt_launchId :: nat
  dt_stubFunc :: ptr  \<comment> \<open>the address of the field \<open>stubFunc_\<close>\<close>
  dt_registered :: bool
  dt_funcCtx :: "nat option"

definition new_DBITask :: "BIType \<Rightarrow> ptr \<Rightarrow> DBITask" where
  "new_DBITask type p =
     \<lparr>dt_dbi = DBIFactory_Create type, dt_replaceTask = None, dt_launchId = 0, dt_stubFunc = p, dt_registered = False,
      dt_funcCtx = None\<rparr>"

record dbi_state =
  ds_config :: DBITaskConfig
  ds_pool :: "(nat \<times> (TaskKey \<times> DBITask) list) list"
  ds_next :: ptr  \<comment> \<open>an address that no task uses\<close>

definition pool_task :: "dbi_state \<Rightarrow> nat \<Rightarrow> TaskKey \<Rightarrow> DBITask option" where
  "pool_task ds regId key = (case map_of (ds_pool ds) regId of None \<Rightarrow> None | Some tasks \<Rightarrow> map_of tasks key)"

definition put_task :: "nat \<Rightarrow> TaskKey \<Rightarrow> DBITask \<Rightarrow> dbi_state \<Rightarrow> dbi_state" where
  "put_task regId key t ds =
     (let tasks = (case map_of (ds_pool ds) regId of None \<Rightarrow> [] | Some tasks \<Rightarrow> tasks) in
      ds\<lparr>ds_pool := omap_put regId (omap_put key t tasks) (ds_pool ds)\<rparr>)"

definition GetOrCreate :: "nat \<Rightarrow> TaskKey \<Rightarrow> dbi_state \<Rightarrow> DBITask \<times> dbi_state" where
  \<comment> \<open>the task of a key, made when it is first asked for\<close>
  "GetOrCreate regId key ds =
     (case pool_task ds regId key of
        Some t \<Rightarrow> (t, ds)
      | None \<Rightarrow>
          let t = new_DBITask (tk_biType key) (ds_next ds) in
          (t, put_task regId key t (ds\<lparr>ds_next := ds_next ds + 1\<rparr>)))"

definition key_of_tiling :: "string \<Rightarrow> BIType \<Rightarrow> string \<Rightarrow> TaskKey" where
  "key_of_tiling tilingKey type pluginPath = TaskKey type 0 tilingKey pluginPath"

definition key_of_stub :: "ptr \<Rightarrow> BIType \<Rightarrow> string \<Rightarrow> TaskKey" where
  "key_of_stub stubFunc type pluginPath = TaskKey type stubFunc [] pluginPath"

definition DBITask_dtor :: "'w dbi_env \<Rightarrow> DBITask \<Rightarrow> 'w \<Rightarrow> 'w" where
  \<comment> \<open>the fields in the reverse of their order\<close>
  "DBITask_dtor env t w =
     (let w = release_task env (dt_replaceTask t) w in
      case dt_dbi t of None \<Rightarrow> w | Some b \<Rightarrow> dbi_dtor (dn_shell env) b w)"

definition Destroy :: "'w dbi_env \<Rightarrow> nat \<Rightarrow> dbi_state \<Rightarrow> 'w \<Rightarrow> dbi_state \<times> 'w" where
  "Destroy env regId ds w =
     (case map_of (ds_pool ds) regId of
        None \<Rightarrow> (ds, w)
      | Some tasks \<Rightarrow> (ds\<lparr>ds_pool := al_del regId (ds_pool ds)\<rparr>, fold (\<lambda>(key, t). DBITask_dtor env t) tasks w))"

definition task_bins :: "TaskKey \<times> DBITask \<Rightarrow> (ptr \<times> devbin) list" where
  "task_bins kt = (case dt_replaceTask (snd kt) of None \<Rightarrow> [] | Some r \<Rightarrow> [(kt_binAddr r, kt_bin r)])"

definition instrumented :: "dbi_state \<Rightarrow> ptr \<Rightarrow> devbin option" where
  \<comment> \<open>the binaries of the tasks that exist, by their addresses\<close>
  "instrumented ds p = map_of (concat (map task_bins (concat (map snd (ds_pool ds))))) p"

section \<open>When a kernel is converted\<close>

definition NeedConvert :: "'w dbi_env \<Rightarrow> DBITaskConfig \<Rightarrow> DBITask \<Rightarrow> 'w \<Rightarrow> bool" where
  "NeedConvert env c t w \<longleftrightarrow>
     dt_replaceTask t = None \<and> dt_funcCtx t = None \<or>
     \<not> sl_isDir (dn_shell env) (GetOutputDir c (dt_launchId t)) w \<and> tc_keepTaskOutputs c"

definition link_outputs :: "'w dbi_env \<Rightarrow> DBITaskConfig \<Rightarrow> DBITask \<Rightarrow> nat \<Rightarrow> 'w \<Rightarrow> 'w" where
  "link_outputs env c t launchId w =
     (if tc_keepTaskOutputs c
      then bv_symlink (de_vendor (dn_dump env)) (GetOutputDir c (dt_launchId t)) (GetOutputDir c launchId) w else w)"

definition ReuseConverted_handle ::
  "'w dbi_env \<Rightarrow> DBITaskConfig \<Rightarrow> nat \<Rightarrow> nat \<Rightarrow> DBITask \<Rightarrow> KernelContext \<Rightarrow> 'w \<Rightarrow>
   ((bool \<times> ptr \<times> KernelContext) \<times> 'w) option"
where
  \<comment> \<open>the null task of a function context would be followed\<close>
  "ReuseConverted_handle env c launchId registerId t k w =
     (if NeedConvert env c t w then Some ((False, 0, k), w)
      else (case dt_replaceTask t of
              None \<Rightarrow> None
            | Some r \<Rightarrow>
                let k = snd (SetDbiBinary registerId (kt_binAddr r) (kt_bin r) k) in
                Some ((True, kt_handle r, k), link_outputs env c t launchId w)))"

definition ReuseConverted :: "'w dbi_env \<Rightarrow> DBITaskConfig \<Rightarrow> nat \<Rightarrow> DBITask \<Rightarrow> 'w \<Rightarrow> bool \<times> 'w" where
  "ReuseConverted env c launchId t w =
     (if NeedConvert env c t w then (False, w) else (True, link_outputs env c t launchId w))"

definition DBITask_Convert ::
  "'w dbi_env \<Rightarrow> bi_config \<Rightarrow> string \<Rightarrow> string \<Rightarrow> string \<Rightarrow> DBITask \<Rightarrow> 'w \<Rightarrow> ((bool \<times> DBITask) \<times> 'w) option"
where
  "DBITask_Convert env config oldKernelPath newKernelPath tilingKey t w =
     (case dt_dbi t of
        None \<Rightarrow> None
      | Some b \<Rightarrow>
          let (ok, b, w) = dbi_SetConfig (dn_shell env) config b w; t = t\<lparr>dt_dbi := Some b\<rparr> in
          if \<not> ok then Some ((False, t), w)
          else
            let (ok, w) = dbi_Convert (de_vendor (dn_dump env)) (dn_shell env) b newKernelPath oldKernelPath tilingKey w in
            Some ((ok, t), w))"

definition task_config :: "DBITaskConfig \<Rightarrow> string \<Rightarrow> string \<Rightarrow> bi_config" where
  "task_config c archName tmpLaunchDir =
     \<lparr>bi_pluginPath = tc_pluginPath c, bi_archName = archName, bi_tmpDir = tmpLaunchDir, bi_tuneLogPath = tc_tuneLogPath c,
      bi_argSize = tc_argsSize c, bi_extraArgs = tc_extraCompilerArgs c\<rparr>"

definition clean_launch_dir :: "'w dbi_env \<Rightarrow> DBITaskConfig \<Rightarrow> string \<Rightarrow> 'w \<Rightarrow> 'w" where
  \<comment> \<open>\<open>defer0\<close>, on every way out once the directory is there\<close>
  "clean_launch_dir env c dir w = (if \<not> tc_keepTaskOutputs c then bv_removeAll (de_vendor (dn_dump env)) dir w else w)"

section \<open>Running a task\<close>

definition convert_func ::
  "'w dbi_env \<Rightarrow> DBITaskConfig \<Rightarrow> nat \<Rightarrow> string \<Rightarrow> FuncContext \<Rightarrow> DBITask \<Rightarrow> contexts \<Rightarrow> 'w \<Rightarrow>
   ((nat option \<times> DBITask \<times> contexts) \<times> 'w) option"
where
  \<comment> \<open>\<open>Run\<close> from the making of the directory to its cleaning\<close>
  "convert_func env c launchId dir f t s w =
     (let v = de_vendor (dn_dump env); soc = de_soc (dn_dump env);
          config = task_config c (GetTargetArchName v soc f w) dir;
          oldKernelPath = JoinPath [dir, tc_oldKernelName c]; newKernelPath = JoinPath [dir, tc_newKernelName c];
          (saved, w) = Register_Save v soc (fx_regCtx f) oldKernelPath w in
      if \<not> saved then Some ((None, t, s), w)
      else
        let tilingKeyStr = (case GetTilingKey f of None \<Rightarrow> [] | Some key \<Rightarrow> decimal key) in
        (case DBITask_Convert env config oldKernelPath newKernelPath tilingKeyStr t w of
           None \<Rightarrow> None
         | Some ((ok, t), w) \<Rightarrow>
             if \<not> ok then Some ((None, t, s), w)
             else
               (case Clone_register v (fx_regCtx f) newKernelPath w of
                  (None, w) \<Rightarrow> Some ((None, t, s), w)
                | (Some newRegCtx, w) \<Rightarrow>
                    (case Clone_func v newRegCtx f w of
                       (None, w) \<Rightarrow> Some ((None, t\<lparr>dt_funcCtx := None\<rparr>, s), RegisterContext_dtor v newRegCtx w)
                     | (Some g, w) \<Rightarrow>
                         let i = length (cx_heap s) in
                         Some ((Some i, t\<lparr>dt_funcCtx := Some i, dt_launchId := launchId\<rparr>,
                                s\<lparr>cx_heap := cx_heap s @ [g]\<rparr>), w)))))"

definition DBITask_Run ::
  "'w dbi_env \<Rightarrow> DBITaskConfig \<Rightarrow> LaunchContext \<Rightarrow> DBITask \<Rightarrow> contexts \<Rightarrow> 'w \<Rightarrow>
   ((nat option \<times> DBITask \<times> contexts) \<times> 'w) option"
where
  "DBITask_Run env c l t s w =
     (let launchId = lx_launchId l; (reused, w) = ReuseConverted env c launchId t w in
      if reused then Some ((dt_funcCtx t, t, s), w)
      else
        let dir = GetOutputDir c launchId; (made, w) = bv_mkdir (de_vendor (dn_dump env)) dir w in
        if \<not> made then Some ((None, t, s), w)
        else map_option (\<lambda>(r, w). (r, clean_launch_dir env c dir w))
               (convert_func env c launchId dir (cx_heap s ! lx_func l) t s w))"

definition kernel_view_of :: "kernel_env \<Rightarrow> KernelContext \<Rightarrow> kernel_view" where
  \<comment> \<open>what theory LaunchInit asks of this class, for the launch under way\<close>
  "kernel_view_of env k =
     (let d = GetDeviceContext env k; launchId = GetLaunchId d in
      \<lparr>kv_registerEvent = map_option (\<lambda>e. (db_magic (re_bin e), re_kernelNames e)) (GetRegisterEvent k (GetRegisterId k d launchId)),
       kv_launchName = map_option ev_kernelName (GetLaunchEvent d launchId), kv_paramNum = kc_kernelParamNum k,
       kv_memInfo = kd_memInfo d, kv_argsSize = kc_argsSize k, kv_ubDynamicSize = kc_simtUbDynamicSize k\<rparr>)"

definition GetCurrentArchName :: "kernel_env \<Rightarrow> string \<Rightarrow> KernelContext \<Rightarrow> string" where
  "GetCurrentArchName env socVersion k = GetArchName (GetCurrentKernelType (kernel_view_of env k)) socVersion"

definition replace_kernel ::
  "'w dbi_env \<Rightarrow> string \<Rightarrow> nat \<Rightarrow> nat \<Rightarrow> bool \<Rightarrow> ptr \<Rightarrow> DBITask \<Rightarrow> KernelContext \<Rightarrow> ptr \<Rightarrow> 'w \<Rightarrow>
   (bool \<times> ptr \<times> DBITask \<times> KernelContext) \<times> 'w"
where
  \<comment> \<open>the end of \<open>Run\<close>: the old task is destroyed before the new binary is registered\<close>
  "replace_kernel env newKernelPath launchId regId withStubFunc handle t k p w =
     (let w = release_task env (dt_replaceTask t) w;
          ((ok, handle, r), w) =
            KernelReplaceTask_Run env k regId withStubFunc handle (new_KernelReplaceTask p newKernelPath) w in
      if ok then
        ((True, handle, t\<lparr>dt_replaceTask := Some r, dt_launchId := launchId\<rparr>,
          snd (SetDbiBinary regId (kt_binAddr r) (kt_bin r) k)), w)
      else ((False, handle, t\<lparr>dt_replaceTask := None\<rparr>, k), KernelReplaceTask_dtor env r w))"

definition convert_kernel ::
  "'w dbi_env \<Rightarrow> DBITaskConfig \<Rightarrow> LaunchEvent \<Rightarrow> nat \<Rightarrow> nat \<Rightarrow> string \<Rightarrow> bool \<Rightarrow> ptr \<Rightarrow> DBITask \<Rightarrow> KernelContext \<Rightarrow> ptr \<Rightarrow> 'w \<Rightarrow>
   ((bool \<times> ptr \<times> DBITask \<times> KernelContext) \<times> 'w) option"
where
  "convert_kernel env c event launchId regId dir withStubFunc handle t k p w =
     (let config = task_config c (GetCurrentArchName (dn_kernel env) (de_soc (dn_dump env)) k) dir;
          oldKernelPath = JoinPath [dir, tc_oldKernelName c]; newKernelPath = JoinPath [dir, tc_newKernelName c];
          (saved, w) = DumpKernelObject (dn_dump env) k regId oldKernelPath w in
      if \<not> saved then Some ((False, handle, t, k), w)
      else
        let tilingKey = (if ev_stubFunc event = 0 then decimal (ev_tilingKey event) else []) in
        (case DBITask_Convert env config oldKernelPath newKernelPath tilingKey t w of
           None \<Rightarrow> None
         | Some ((ok, t), w) \<Rightarrow>
             if \<not> ok then Some ((False, handle, t, k), w)
             else Some (replace_kernel env newKernelPath launchId regId withStubFunc handle t k p w)))"

definition DBITask_Run_handle ::
  "'w dbi_env \<Rightarrow> DBITaskConfig \<Rightarrow> nat \<Rightarrow> bool \<Rightarrow> ptr \<Rightarrow> DBITask \<Rightarrow> KernelContext \<Rightarrow> ptr \<Rightarrow> 'w \<Rightarrow>
   ((bool \<times> ptr \<times> DBITask \<times> KernelContext) \<times> 'w) option"
where
  \<comment> \<open>\<open>handle\<close> is what the caller's variable holds, \<open>p\<close> the address of a new binary\<close>
  "DBITask_Run_handle env c launchId withStubFunc handle t k p w =
     (let d = GetDeviceContext (dn_kernel env) k; regId = GetRegisterId k d launchId in
      case ReuseConverted_handle env c launchId regId t k w of
        None \<Rightarrow> None
      | Some ((reused, h, k), w) \<Rightarrow>
          if reused then Some ((True, h, t, k), w)
          else
            (case GetLaunchEvent d launchId of
               None \<Rightarrow> Some ((False, handle, t, k), w)
             | Some event \<Rightarrow>
                 let dir = GetOutputDir c launchId; (made, w) = bv_mkdir (de_vendor (dn_dump env)) dir w in
                 if \<not> made then Some ((False, handle, t, k), w)
                 else map_option (\<lambda>(r, w). (r, clean_launch_dir env c dir w))
                        (convert_kernel env c event launchId regId dir withStubFunc handle t k p w)))"

definition DBITask_Run_stub ::
  "'w dbi_env \<Rightarrow> DBITaskConfig \<Rightarrow> nat \<Rightarrow> ptr \<Rightarrow> ptr \<Rightarrow> DBITask \<Rightarrow> KernelContext \<Rightarrow> ptr \<Rightarrow> 'w \<Rightarrow>
   ((bool \<times> ptr \<times> ptr \<times> DBITask \<times> KernelContext) \<times> 'w) option"
where
  "DBITask_Run_stub env c launchId handle stubFunc t k p w =
     (case DBITask_Run_handle env c launchId True handle t k p w of
        None \<Rightarrow> None
      | Some ((ok, handle, t, k), w) \<Rightarrow>
          if \<not> ok then Some ((False, handle, stubFunc, t, k), w)
          else if dt_registered t then Some ((True, handle, dt_stubFunc t, t, k), w)
          else
            (case GetLaunchEvent (GetDeviceContext (dn_kernel env) k) launchId of
               None \<Rightarrow> Some ((False, handle, stubFunc, t, k), w)
             | Some launchEvent \<Rightarrow>
                 (case GetStubFuncInfo k (ev_stubFunc launchEvent) of
                    None \<Rightarrow> Some ((False, handle, stubFunc, t, k), w)
                  | Some i \<Rightarrow>
                      let (ret, w) = dn_registerFunc env handle (dt_stubFunc t) (fi_kernelName i) (fi_kernelInfoExt i) (fi_funcMode i) w in
                      if ret \<noteq> 0 then Some ((False, handle, stubFunc, t, k), w)
                      else Some ((True, handle, dt_stubFunc t, t\<lparr>dt_registered := True\<rparr>, k), w))))"

section \<open>Instrumenting a launch\<close>

definition DumpStaticStubKernel :: "'w dbi_env \<Rightarrow> DBITaskConfig \<Rightarrow> nat \<Rightarrow> RegisterContext \<Rightarrow> 'w \<Rightarrow> 'w" where
  "DumpStaticStubKernel env c launchId regCtx w =
     (if \<not> tc_keepTaskOutputs c then w
      else let (made, w) = bv_mkdir (de_vendor (dn_dump env)) (GetOutputDir c launchId) w in
        if \<not> made then w
        else snd (Register_Save (de_vendor (dn_dump env)) (de_soc (dn_dump env)) regCtx
               (JoinPath [GetOutputDir c launchId, ''tmp_static_kernel.o'']) w))"

definition DumpStaticStubKernel_binary :: "'w dbi_env \<Rightarrow> DBITaskConfig \<Rightarrow> nat \<Rightarrow> devbin \<Rightarrow> 'w \<Rightarrow> 'w" where
  "DumpStaticStubKernel_binary env c launchId binary w =
     (if \<not> tc_keepTaskOutputs c \<or> db_data binary = None \<or> db_length binary = 0 then w
      else let (made, w) = bv_mkdir (de_vendor (dn_dump env)) (GetOutputDir c launchId) w in
        if \<not> made then w
        else snd (WriteBinary (dn_dump env) (JoinPath [GetOutputDir c launchId, ''tmp_static_kernel.o'']) (devbin_bytes binary) w))"

definition RunDBITask ::
  "'w dbi_env \<Rightarrow> LaunchContext \<Rightarrow> contexts \<Rightarrow> dbi_state \<Rightarrow> 'w \<Rightarrow> ((nat option \<times> contexts \<times> dbi_state) \<times> 'w) option"
where
  "RunDBITask env l s ds w =
     (let c = ds_config ds; f = cx_heap s ! lx_func l; kernelName = fx_kernelName f; regCtx = fx_regCtx f in
      if \<not> IsPlatformSupportDBI (de_soc (dn_dump env)) then Some ((None, s, ds), w)
      else if \<not> IsEnabled c (lx_launchId l) kernelName then Some ((None, s, ds), w)
      else if rg_hasStaticStub regCtx then Some ((None, s, ds), DumpStaticStubKernel env c (lx_launchId l) regCtx w)
      else
        let regId = rp_regId (rg_param regCtx); key = key_of_tiling kernelName (tc_type c) (tc_pluginPath c);
            (t, ds) = GetOrCreate regId key ds in
        (case DBITask_Run env c l t s w of
           None \<Rightarrow> None
         | Some ((newFuncCtx, t, s), w) \<Rightarrow> Some ((newFuncCtx, s, put_task regId key t ds), w)))"

definition run_handle_task ::
  "'w dbi_env \<Rightarrow> nat \<Rightarrow> nat \<Rightarrow> ptr \<Rightarrow> nat \<Rightarrow> KernelContext \<Rightarrow> dbi_state \<Rightarrow> 'w \<Rightarrow>
   ((bool \<times> ptr \<times> KernelContext \<times> dbi_state) \<times> 'w) option"
where
  \<comment> \<open>\<open>RunDBITask\<close> from the making of the task\<close>
  "run_handle_task env launchId regId hdl tilingKey k ds w =
     (let c = ds_config ds; key = key_of_tiling (decimal tilingKey) (tc_type c) (tc_pluginPath c);
          (t, ds) = GetOrCreate regId key ds in
      case DBITask_Run_handle env c launchId False hdl t k (ds_next ds) w of
        None \<Rightarrow> None
      | Some ((ok, h, t, k), w) \<Rightarrow>
          let ds = put_task regId key t (ds\<lparr>ds_next := ds_next ds + 1\<rparr>) in
          if \<not> ok then Some ((False, h, k, ds), w)
          else
            let (ok, k) = UpdatePcStartAddrByDbi (dn_kernel env) launchId (KernelHandleArgs hdl h tilingKey) k in
            Some ((ok, h, k, ds), w))"

definition RunDBITask_handle ::
  "'w dbi_env \<Rightarrow> ptr \<Rightarrow> nat \<Rightarrow> KernelContext \<Rightarrow> dbi_state \<Rightarrow> 'w \<Rightarrow> ((bool \<times> ptr \<times> KernelContext \<times> dbi_state) \<times> 'w) option"
where
  "RunDBITask_handle env hdl tilingKey k ds w =
     (let c = ds_config ds; d = GetDeviceContext (dn_kernel env) k; launchId = GetLaunchId d; kernelName = GetLaunchName d NO_ID in
      if \<not> IsPlatformSupportDBI (de_soc (dn_dump env)) then Some ((False, hdl, k, ds), w)
      else
        (case GetDevBinary (instrumented ds) k hdl False of
           Ok binary \<Rightarrow>
             if \<not> IsEnabled c launchId kernelName then Some ((False, hdl, k, ds), w)
             else if HasStaticStub (devbin_bytes binary) then
               Some ((False, hdl, k, ds), DumpStaticStubKernel_binary env c launchId binary w)
             else run_handle_task env launchId (GetRegisterId k d launchId) hdl tilingKey k ds w
         | _ \<Rightarrow> Some ((False, hdl, k, ds), w)))"

definition run_stub_task ::
  "'w dbi_env \<Rightarrow> nat \<Rightarrow> nat \<Rightarrow> ptr \<Rightarrow> KernelContext \<Rightarrow> dbi_state \<Rightarrow> 'w \<Rightarrow>
   ((bool \<times> ptr \<times> KernelContext \<times> dbi_state) \<times> 'w) option"
where
  "run_stub_task env launchId regId stubFunc k ds w =
     (let c = ds_config ds; key = key_of_stub stubFunc (tc_type c) (tc_pluginPath c); (t, ds) = GetOrCreate regId key ds in
      case DBITask_Run_stub env c launchId 0 stubFunc t k (ds_next ds) w of
        None \<Rightarrow> None
      | Some ((ok, h, f, t, k), w) \<Rightarrow>
          let ds = put_task regId key t (ds\<lparr>ds_next := ds_next ds + 1\<rparr>) in
          if \<not> ok then Some ((False, f, k, ds), w)
          else
            let (ok, k) = UpdatePcStartAddrByDbi (dn_kernel env) launchId (StubFuncArgs stubFunc f) k in
            Some ((ok, f, k, ds), w))"

definition RunDBITask_stub ::
  "'w dbi_env \<Rightarrow> ptr \<Rightarrow> KernelContext \<Rightarrow> dbi_state \<Rightarrow> 'w \<Rightarrow> ((bool \<times> ptr \<times> KernelContext \<times> dbi_state) \<times> 'w) option"
where
  "RunDBITask_stub env stubFunc k ds w =
     (let c = ds_config ds; d = GetDeviceContext (dn_kernel env) k; launchId = GetLaunchId d; kernelName = GetLaunchName d NO_ID in
      if \<not> IsPlatformSupportDBI (de_soc (dn_dump env)) then Some ((False, stubFunc, k, ds), w)
      else
        (case GetDevBinary_stub (instrumented ds) k stubFunc False of
           Ok binary \<Rightarrow>
             if \<not> IsEnabled c launchId kernelName then Some ((False, stubFunc, k, ds), w)
             else if HasStaticStub (devbin_bytes binary) then
               Some ((False, stubFunc, k, ds), DumpStaticStubKernel_binary env c launchId binary w)
             else if GetLaunchEvent d launchId = None then Some ((False, stubFunc, k, ds), w)
             else run_stub_task env launchId (GetRegisterId k d launchId) stubFunc k ds w
         | _ \<Rightarrow> Some ((False, stubFunc, k, ds), w)))"

definition InitMemory ::
  "'w acl_api \<Rightarrow> nat \<Rightarrow> DevMemManager \<Rightarrow> 'w \<Rightarrow> (ptr \<times> DevMemManager) \<times> 'w"
where
  "InitMemory api memSize m w =
     (if memSize = 0 then ((0, m), w)
      else
        let ((ret, memInfo), m, w) = MallocMemory api memSize m w; p = (case memInfo of None \<Rightarrow> 0 | Some p \<Rightarrow> p) in
        if ret \<noteq> ACL_SUCCESS then ((0, m), w)
        else let (error, w) = api_memset api p memSize 0 memSize w in
          if error \<noteq> ACL_SUCCESS then ((0, m), w) else ((p, m), w))"

end
