(* ===== verification/BBCount.thy ===== *)
theory BBCount
  imports DbiTask
begin

text \<open>
  Models runtime/inject_helpers/BBCountDumper.h and .cpp: kernels instrumented to count how often their basic
  blocks run, the map of the blocks and the counters, which are saved for each launch of a binary under a number that
  goes up. The tool's answer about the output directory and the texts of files are the environment.
\<close>

record BBCountDumper =
  bb_enabled :: bool
  bb_outputDir :: string
  bb_matcher :: "matcher_config option"
  bb_lastLaunchId :: "(nat \<times> nat) list"
  bb_type :: BIType

definition bb0 :: BBCountDumper where
  "bb0 = \<lparr>bb_enabled = False, bb_outputDir = [], bb_matcher = None, bb_lastLaunchId = [], bb_type = CUSTOMIZE\<rparr>"

definition BBCount_Init :: "string \<Rightarrow> matcher_config \<Rightarrow> BIType \<Rightarrow> BBCountDumper \<Rightarrow> BBCountDumper" where
  "BBCount_Init outputDir config type b =
     b\<lparr>bb_enabled := True, bb_outputDir := outputDir, bb_matcher := Some config, bb_type := type\<rparr>"

record 'w bb_env =
  bv_dbi :: "'w dbi_env"
  bv_askPath :: "'w \<Rightarrow> (int \<times> string) \<times> 'w"  \<comment> \<open>what the tool answers to \<open>$GetOutputPath;\<close>\<close>
  bv_text :: "string \<Rightarrow> 'w \<Rightarrow> string"
  bv_fileSize :: "string \<Rightarrow> 'w \<Rightarrow> nat"
  bv_pid :: nat
  bv_time :: string

definition BBCount_GetOutputDir :: "'w bb_env \<Rightarrow> BBCountDumper \<Rightarrow> 'w \<Rightarrow> (string \<times> BBCountDumper) \<times> 'w" where
  "BBCount_GetOutputDir env b w =
     (if bb_outputDir b \<noteq> [] then ((bb_outputDir b, b), w)
      else
        let ((n, msg), w) = bv_askPath env w;
            b = (if n > 0 \<and> length msg > 2 \<and> hd msg = CHR ''$'' \<and> last msg = CHR '';''
                 then b\<lparr>bb_outputDir := take (length msg - 2) (tl msg)\<rparr> else b) in
        ((bb_outputDir b, b), w))"

datatype DataType = KERNEL | STUBKERNEL | BLOCKMAP | EXTRAMEM | NO_FILE

definition GetOutFileName :: "DataType \<Rightarrow> nat \<Rightarrow> string" where
  "GetOutFileName type regId =
     (case type of
        KERNEL \<Rightarrow> ''kernel'' @ decimal regId @ ''.o''
      | STUBKERNEL \<Rightarrow> ''kernel'' @ decimal regId @ ''Stub.o''
      | BLOCKMAP \<Rightarrow> ''kernel'' @ decimal regId @ ''Stub.o.bbbmap''
      | EXTRAMEM \<Rightarrow> ''kernel'' @ decimal regId @ ''.extra''
      | NO_FILE \<Rightarrow> [])"

definition last_launch :: "nat \<Rightarrow> BBCountDumper \<Rightarrow> nat \<times> BBCountDumper" where
  \<comment> \<open>\<open>lastLaunchId_[regId]\<close>, which enters 0 when there is no number\<close>
  "last_launch regId b =
     (case map_of (bb_lastLaunchId b) regId of
        Some n \<Rightarrow> (n, b)
      | None \<Rightarrow> (0, b\<lparr>bb_lastLaunchId := al_put regId 0 (bb_lastLaunchId b)\<rparr>))"

definition out_path :: "'w bb_env \<Rightarrow> string \<Rightarrow> BBCountDumper \<Rightarrow> 'w \<Rightarrow> (string \<times> BBCountDumper) \<times> 'w" where
  "out_path env outputPath b w = (if outputPath = [] then BBCount_GetOutputDir env b w else ((outputPath, b), w))"

definition MAX_FILE_SIZE :: nat where "MAX_FILE_SIZE = 1024 * 1024 * 1024"
definition MAX_CORE_UNIT_SIZE :: nat where "MAX_CORE_UNIT_SIZE = 50 * 1024 * 1024"

definition count_blocks :: "string \<Rightarrow> nat" where
  "count_blocks txt = length (filter (\<lambda>line. find_sub ''BBB id'' line \<noteq> None) (SplitString (CHR 0x0A) txt))"

definition core_unit :: "nat \<Rightarrow> nat" where
  \<comment> \<open>four bytes for each block, a multiple of 256, at most 50 MB\<close>
  "core_unit bbCountNum = min MAX_CORE_UNIT_SIZE ((bbCountNum * 4 + 256 - 1) div 256 * 256)"

definition GetMemSize :: "'w bb_env \<Rightarrow> nat \<Rightarrow> string \<Rightarrow> BBCountDumper \<Rightarrow> 'w \<Rightarrow> (nat \<times> BBCountDumper) \<times> 'w" where
  "GetMemSize env regId outputPath b w =
     (let (subKernelID, b) = last_launch regId b;
          ((outPath, b), w) = out_path env outputPath b w;
          filePath = JoinPath [outPath, GetOutFileName BLOCKMAP regId @ ''.'' @ decimal subKernelID];
          sh = dn_shell (bv_dbi env); v = de_vendor (dn_dump (bv_dbi env)) in
      if \<not> bv_exists v filePath w \<or> \<not> sl_inputValid sh filePath ''bin'' w then ((0, b), w)
      else if bv_fileSize env filePath w \<le> MAX_FILE_SIZE then
        ((core_unit (count_blocks (bv_text env filePath w)) * C220_MIX_SUB_BLOCKDIM * MAX_BLOCKDIM_NUMS, b), w)
      else ((0, b), w))"

definition DumpBBData :: "'w bb_env \<Rightarrow> nat \<Rightarrow> nat \<Rightarrow> ptr \<Rightarrow> BBCountDumper \<Rightarrow> 'w \<Rightarrow> (bool \<times> BBCountDumper) \<times> 'w" where
  "DumpBBData env regId memSize memInfo b w =
     (if memSize = 0 then ((False, b), w)
      else
        let ((error, data), w) = api_read (de_api (dn_dump (bv_dbi env))) memInfo memSize w in
        if error \<noteq> ACL_SUCCESS then ((False, b), w)
        else
          let (lastLaunchId, b) = last_launch regId b;
              ((dir, b), w) = BBCount_GetOutputDir env b w;
              (written, w) = bv_writeBinary (de_vendor (dn_dump (bv_dbi env)))
                (JoinPath [dir, GetOutFileName EXTRAMEM regId @ ''.'' @ decimal lastLaunchId]) data w in
          ((written \<noteq> 0, b), w))"

definition GenExtraAndReturnName ::
  "'w bb_env \<Rightarrow> string \<Rightarrow> nat \<Rightarrow> nat \<Rightarrow> ptr \<Rightarrow> BBCountDumper \<Rightarrow> 'w \<Rightarrow> (string \<times> BBCountDumper) \<times> 'w"
where
  \<comment> \<open>the name is returned also when the file could not be written\<close>
  "GenExtraAndReturnName env path regId memSize memInfo b w =
     (if memSize = 0 then (([], b), w)
      else
        let ((error, data), w) = api_read (de_api (dn_dump (bv_dbi env))) memInfo memSize w in
        if error \<noteq> ACL_SUCCESS then (([], b), w)
        else
          let (lastLaunchId, b) = last_launch regId b;
              extraMemFileName = GetOutFileName EXTRAMEM regId @ ''.'' @ decimal lastLaunchId;
              (written, w) = bv_writeBinary (de_vendor (dn_dump (bv_dbi env))) (JoinPath [path, extraMemFileName]) data w in
          ((extraMemFileName, b), w))"

section \<open>Replacing the kernel of a launch\<close>

type_synonym cleaner = "(string \<times> bool) list"

definition InitDBITaskConfig :: "'w bb_env \<Rightarrow> nat \<Rightarrow> string \<Rightarrow> BBCountDumper \<Rightarrow> DBITaskConfig \<times> cleaner \<Rightarrow> DBITaskConfig \<times> cleaner" where
  "InitDBITaskConfig env regId outputPath b cp =
     (let (c, paths) = Config_Init_matcher (bb_type b) (bb_matcher b) (bv_pid env) (bv_time env) outputPath cp in
      ((KeepTaskOutputs c)\<lparr>tc_oldKernelName := GetOutFileName KERNEL regId,
         tc_newKernelName := GetOutFileName STUBKERNEL regId\<rparr>, paths))"

definition next_launch :: "nat \<Rightarrow> BBCountDumper \<Rightarrow> nat \<times> BBCountDumper" where
  "next_launch regId b =
     (let n = (case map_of (bb_lastLaunchId b) regId of None \<Rightarrow> 0 | Some n \<Rightarrow> n + 1) in
      (n, b\<lparr>bb_lastLaunchId := al_put regId n (bb_lastLaunchId b)\<rparr>))"

definition SaveBlockMapFile ::
  "'w bb_env \<Rightarrow> DBITaskConfig \<Rightarrow> nat \<Rightarrow> nat \<Rightarrow> string \<Rightarrow> BBCountDumper \<Rightarrow> 'w \<Rightarrow> BBCountDumper \<times> 'w"
where
  "SaveBlockMapFile env c launchId regId outputPath b w =
     (let ((outDir, b), w) = out_path env outputPath b w;
          dbiDir = GetOutputDir c launchId; v = de_vendor (dn_dump (bv_dbi env)); sh = dn_shell (bv_dbi env);
          baseBBMapPath = JoinPath [dbiDir, GetOutFileName BLOCKMAP regId];
          oldKernelPath = JoinPath [dbiDir, GetOutFileName KERNEL regId] in
      if \<not> bv_exists v baseBBMapPath w \<or> \<not> bv_exists v oldKernelPath w then (b, w)
      else let (ok, w) = sl_chmod sh baseBBMapPath SAVE_DATA_FILE_AUTHORITY w in
        if \<not> ok then (b, w)
        else
          let (lastLaunchId, b) = next_launch regId b;
              curBBMapPath = JoinPath [outDir, GetOutFileName BLOCKMAP regId @ ''.'' @ decimal lastLaunchId];
              curKernelPath = JoinPath [outDir, GetOutFileName KERNEL regId];
              (copied, w) = bv_copyFile v baseBBMapPath curBBMapPath w in
          if \<not> copied then (b, w) else (b, snd (bv_copyFile v oldKernelPath curKernelPath w)))"

record 'w bb_state =
  bs_dumper :: BBCountDumper
  bs_dbi :: dbi_state
  bs_cleaner :: cleaner
  bs_kernels :: KernelContext
  bs_contexts :: contexts
  bs_files :: 'w

definition configured :: "'w bb_env \<Rightarrow> nat \<Rightarrow> string \<Rightarrow> 'w bb_state \<Rightarrow> 'w bb_state" where
  "configured env regId outputPath s =
     (let (c, paths) = InitDBITaskConfig env regId outputPath (bs_dumper s) (ds_config (bs_dbi s), bs_cleaner s) in
      s\<lparr>bs_dbi := (bs_dbi s)\<lparr>ds_config := c\<rparr>, bs_cleaner := paths\<rparr>)"

definition save_map :: "'w bb_env \<Rightarrow> nat \<Rightarrow> nat \<Rightarrow> string \<Rightarrow> 'w bb_state \<Rightarrow> 'w bb_state" where
  "save_map env launchId regId outputPath s =
     (let (b, w) = SaveBlockMapFile env (ds_config (bs_dbi s)) launchId regId outputPath (bs_dumper s) (bs_files s) in
      s\<lparr>bs_dumper := b, bs_files := w\<rparr>)"

definition Replace_stub :: "'w bb_env \<Rightarrow> ptr \<Rightarrow> nat \<Rightarrow> string \<Rightarrow> 'w bb_state \<Rightarrow> ((bool \<times> ptr) \<times> 'w bb_state) option" where
  "Replace_stub env stubFunc launchId outputPath s =
     (if \<not> bb_enabled (bs_dumper s) then Some ((False, stubFunc), s)
      else
        let regId = GetRegisterId (bs_kernels s) (GetDeviceContext (dn_kernel (bv_dbi env)) (bs_kernels s)) launchId;
            s = configured env regId outputPath s in
        (case RunDBITask_stub (bv_dbi env) stubFunc (bs_kernels s) (bs_dbi s) (bs_files s) of
           None \<Rightarrow> None
         | Some ((ok, f, k, ds), w) \<Rightarrow>
             let s = s\<lparr>bs_kernels := k, bs_dbi := ds, bs_files := w\<rparr> in
             Some ((ok, f), if ok then save_map env launchId regId outputPath s else s)))"

definition Replace_handle ::
  "'w bb_env \<Rightarrow> ptr \<Rightarrow> nat \<Rightarrow> nat \<Rightarrow> string \<Rightarrow> 'w bb_state \<Rightarrow> ((bool \<times> ptr) \<times> 'w bb_state) option"
where
  "Replace_handle env hdl tilingKey launchId outputPath s =
     (if \<not> bb_enabled (bs_dumper s) then Some ((False, hdl), s)
      else
        let regId = GetRegisterId (bs_kernels s) (GetDeviceContext (dn_kernel (bv_dbi env)) (bs_kernels s)) launchId;
            s = configured env regId outputPath s in
        (case RunDBITask_handle (bv_dbi env) hdl tilingKey (bs_kernels s) (bs_dbi s) (bs_files s) of
           None \<Rightarrow> None
         | Some ((ok, h, k, ds), w) \<Rightarrow>
             let s = s\<lparr>bs_kernels := k, bs_dbi := ds, bs_files := w\<rparr> in
             Some ((ok, h), if ok then save_map env launchId regId outputPath s else s)))"

definition Replace_launch ::
  "'w bb_env \<Rightarrow> LaunchContext \<Rightarrow> string \<Rightarrow> 'w bb_state \<Rightarrow> (nat option \<times> 'w bb_state) option"
where
  "Replace_launch env l outputPath s =
     (if \<not> bb_enabled (bs_dumper s) then Some (None, s)
      else
        let regId = rp_regId (rg_param (fx_regCtx (cx_heap (bs_contexts s) ! lx_func l)));
            s = configured env regId outputPath s in
        (case RunDBITask (bv_dbi env) l (bs_contexts s) (bs_dbi s) (bs_files s) of
           None \<Rightarrow> None
         | Some ((funcCtx, cx, ds), w) \<Rightarrow>
             let s = s\<lparr>bs_contexts := cx, bs_dbi := ds, bs_files := w\<rparr> in
             Some (funcCtx, if funcCtx \<noteq> None then save_map env (lx_launchId l) regId outputPath s else s)))"

definition GetLaunchCount :: "BBCountDumper \<Rightarrow> nat \<Rightarrow> nat option" where
  "GetLaunchCount b regId = map_of (bb_lastLaunchId b) regId"

end
