(* ===== verification/DbiFacts.thy ===== *)
theory DbiFacts
  imports BBCount LaunchReplay KernelFacts
begin

text \<open>
  What holds of instrumented kernels: the pool keeps one task for each key and converts a kernel once; the binaries of
  its tasks are found under their addresses; the counters of basic blocks have room and are saved under rising numbers.
\<close>

section \<open>The pool\<close>

lemma pool_task_put:
  "pool_task (put_task regId key t ds) regId' key' =
     (if regId' = regId \<and> key' = key then Some t else pool_task ds regId' key')"
  by (auto simp: pool_task_def put_task_def Let_def split: option.splits)

lemma put_task_fields [simp]:
  "ds_config (put_task regId key t ds) = ds_config ds" "ds_next (put_task regId key t ds) = ds_next ds"
  by (simp_all add: put_task_def Let_def)

lemma pool_task_fields [simp]: "pool_task (ds\<lparr>ds_next := n\<rparr>) = pool_task ds" "pool_task (ds\<lparr>ds_config := c\<rparr>) = pool_task ds"
  by (simp_all add: pool_task_def fun_eq_iff)

lemma GetOrCreate_found: "pool_task ds regId key = Some t \<Longrightarrow> GetOrCreate regId key ds = (t, ds)"
  by (simp add: GetOrCreate_def)

lemma GetOrCreate_pool:
  assumes "GetOrCreate regId key ds = (t, ds')"
  shows "pool_task ds' regId key = Some t" "ds_config ds' = ds_config ds" "ds_next ds \<le> ds_next ds'"
    "\<And>r k. (r, k) \<noteq> (regId, key) \<Longrightarrow> pool_task ds' r k = pool_task ds r k"
    "pool_task ds regId key = Some t \<or> pool_task ds regId key = None \<and> dt_replaceTask t = None \<and> dt_funcCtx t = None"
  using assms
  by (auto simp: GetOrCreate_def pool_task_put new_DBITask_def Let_def split: option.splits)

section \<open>Kernels of the ACL interface are converted once\<close>

lemma Run_keeps_converted:
  assumes "dt_funcCtx t = Some i" "\<not> tc_keepTaskOutputs c"
  shows "DBITask_Run env c l t s w = Some ((Some i, t, s), w)"
  using assms by (simp add: DBITask_Run_def ReuseConverted_def NeedConvert_def link_outputs_def Let_def)

lemma convert_func_result:
  assumes "convert_func env c launchId dir f t s w = Some ((r, t', s'), w')"
  shows "case r of None \<Rightarrow> s' = s \<and> (dt_funcCtx t' = None \<or> dt_funcCtx t' = dt_funcCtx t)
    | Some i \<Rightarrow> i = length (cx_heap s) \<and> dt_funcCtx t' = Some i \<and> (\<exists>g. s' = s\<lparr>cx_heap := cx_heap s @ [g]\<rparr>)"
  using assms
  by (auto simp: convert_func_def DBITask_Convert_def Let_def split: prod.splits option.splits if_splits)

lemma Run_result:
  assumes "DBITask_Run env c l t s w = Some ((Some i, t', s'), w')"
  shows "dt_funcCtx t' = Some i"
  using assms
  by (auto simp: DBITask_Run_def ReuseConverted_def Let_def split: prod.splits if_splits dest!: convert_func_result)

lemma RunDBITask_task:
  assumes "RunDBITask env l s ds w = Some ((r, s', ds'), w')"
  shows "ds' = ds \<or> (\<exists>t ds1 t' r' s1 w1 regId key. GetOrCreate regId key ds = (t, ds1) \<and>
      DBITask_Run env (ds_config ds) l t s w = Some ((r', t', s1), w1) \<and> ds' = put_task regId key t' ds1)"
proof -
  let ?c = "ds_config ds" and ?f = "cx_heap s ! lx_func l"
  let ?regId = "rp_regId (rg_param (fx_regCtx ?f))" and ?key = "key_of_tiling (fx_kernelName ?f) (tc_type ?c) (tc_pluginPath ?c)"
  have "ds' = ds \<or> (\<exists>t ds1 t' r' s1 w1. GetOrCreate ?regId ?key ds = (t, ds1) \<and>
      DBITask_Run env ?c l t s w = Some ((r', t', s1), w1) \<and> ds' = put_task ?regId ?key t' ds1)"
    using assms by (auto simp: RunDBITask_def Let_def split: if_splits option.splits prod.splits)
  then show ?thesis by blast
qed

lemma RunDBITask_other_keys:
  assumes "RunDBITask env l s ds w = Some ((r, s', ds'), w')" "\<not> tc_keepTaskOutputs (ds_config ds)"
  shows "ds_config ds' = ds_config ds"
    and "pool_task ds regId key = Some t \<Longrightarrow> dt_funcCtx t = Some i \<Longrightarrow> pool_task ds' regId key = Some t"
proof -
  note same = RunDBITask_task [OF assms(1)]
  then show "ds_config ds' = ds_config ds" by (auto dest: GetOrCreate_pool(2))
  assume t: "pool_task ds regId key = Some t" "dt_funcCtx t = Some i"
  from same show "pool_task ds' regId key = Some t"
  proof (elim disjE exE conjE)
    fix u ds1 u' r' s1 w1 regId' key'
    assume run: "GetOrCreate regId' key' ds = (u, ds1)" "DBITask_Run env (ds_config ds) l u s w = Some ((r', u', s1), w1)"
      "ds' = put_task regId' key' u' ds1"
    show ?thesis
    proof (cases "(regId, key) = (regId', key')")
      case True
      then have "u = t" using GetOrCreate_found t(1) run(1) by fastforce
      then have "u' = t" using run(2) Run_keeps_converted [OF t(2) assms(2), of env l s w] by simp
      then show ?thesis using run(3) True by (simp add: pool_task_put)
    next
      case False
      then show ?thesis using run(3) GetOrCreate_pool(4) [OF run(1)] t(1) by (auto simp: pool_task_put)
    qed
  qed (use t in simp)
qed

inductive instrument_step :: "'w dbi_env \<Rightarrow> dbi_state \<Rightarrow> dbi_state \<Rightarrow> bool" for env where
  \<comment> \<open>a launch on any device, whatever happened to contexts and files in between\<close>
  "RunDBITask env l s ds w = Some ((r, s', ds'), w') \<Longrightarrow> instrument_step env ds ds'"

lemma converted_stays:
  assumes "(instrument_step env)\<^sup>*\<^sup>* ds ds'" "\<not> tc_keepTaskOutputs (ds_config ds)" "pool_task ds regId key = Some t" "dt_funcCtx t = Some i"
  shows "ds_config ds' = ds_config ds \<and> pool_task ds' regId key = Some t"
  using assms(1)
proof (induction rule: rtranclp_induct)
  case (step ds1 ds2)
  from step.hyps(2) show ?case
  proof (cases rule: instrument_step.cases)
    case (1 l s w r s' w')
    then show ?thesis using RunDBITask_other_keys [OF 1(1)] step.IH assms(2,4) by simp
  qed
qed (use assms in simp)


section \<open>A tool and its log\<close>

definition tool_vendor :: "string list list binary_vendor" where
  \<comment> \<open>every file holds the example binary\<close>
  "tool_vendor = none_vendor\<lparr>bv_readBinary := (\<lambda>_ _. ex_image), bv_writeBinary := (\<lambda>_ bs w. (length bs, w)),
     bv_mkdir := (\<lambda>_ w. (True, w)), bv_function := (\<lambda>_ _ w. ((ACL_SUCCESS, 31), w))\<rparr>"

definition tool_shell :: "string list list shell" where
  \<comment> \<open>the world is the list of the programs that were run\<close>
  "tool_shell = \<lparr>sl_run = (\<lambda>cmd w. ((True, []), w @ [cmd])), sl_chmod = (\<lambda>_ _ w. (True, w)), sl_umask = (\<lambda>_ w. (0, w)),
     sl_writeText = (\<lambda>_ _ w. (True, w)), sl_isDir = (\<lambda>_ _. False), sl_inputValid = (\<lambda>_ _ _. True), sl_open = (\<lambda>_ w. (5, w)),
     sl_symbol = (\<lambda>_ _ _. 6), sl_close = (\<lambda>_ w. w), sl_start = (\<lambda>_ _ _ _ w. w)\<rparr>"

definition tool_env :: "string list list dbi_env" where
  "tool_env = \<lparr>dn_dump = \<lparr>de_vendor = tool_vendor, de_api = undefined, de_rt = undefined, de_soc = ''Ascend910B1'',
       de_running = 0, de_devId = 0, de_visibleDevId = 0, de_json = plain_json\<rparr>,
     dn_kernel = ex_kernel_env, dn_shell = tool_shell, dn_register = (\<lambda>_ _ w. ((0, 41), w)), dn_unregister = (\<lambda>_ w. w),
     dn_registerFunc = (\<lambda>_ _ _ _ _ w. (0, w))\<rparr>"

definition tool_config :: DBITaskConfig where
  "tool_config = (tc0 False)\<lparr>tc_enabled := True, tc_matcher := Some any_launch, tc_type := BB_COUNT, tc_tmpRootDir := ''t''\<rparr>"

definition tool_state :: dbi_state where
  "tool_state = \<lparr>ds_config = tool_config, ds_pool = [], ds_next = 1\<rparr>"

definition tool_contexts :: contexts where
  "tool_contexts = cx0\<lparr>cx_heap := [new_FuncContext Stub (ex_context 0 9) ''k'' 21]\<rparr>"

definition tool_launch :: "nat \<Rightarrow> LaunchContext" where
  "tool_launch i = \<lparr>lx_func = 0, lx_args = 0, lx_blockDim = 8, lx_stream = 0, lx_isSink = False, lx_launchId = i, lx_cfg = None, lx_dbiFunc = None\<rparr>"

lemma tool_env_fields [simp]:
  "dn_shell tool_env = tool_shell" "de_vendor (dn_dump tool_env) = tool_vendor" "de_soc (dn_dump tool_env) = ''Ascend910B1''"
  "dn_kernel tool_env = ex_kernel_env" "dn_register tool_env ws b w = ((0, 41), w)" "dn_unregister tool_env h w = w"
  "PipeCall tool_shell cmd out w = ((True, out), w @ [cmd])" "with_umask tool_shell m act w = act w"
  "sl_chmod tool_shell p m w = (True, w)" "sl_isDir tool_shell p w = False"
  by (simp_all add: tool_env_def tool_shell_def PipeCall_def with_umask_def split: prod.splits)

lemma tool_config_fields [simp]:
  "tc_keepTaskOutputs tool_config = False" "tc_type tool_config = BB_COUNT" "IsEnabled tool_config i n"
  by (simp_all add: tool_config_def tc0_def IsEnabled_def Match_def IsMatchAll_def any_launch_def)

lemma tool_vendor_fields [simp]:
  "bv_mkdir tool_vendor d w = (True, w)" "bv_removeAll tool_vendor d w = w" "bv_readBinary tool_vendor p w = ex_image"
  "Register_Save tool_vendor ''Ascend910B1'' (ex_context 0 9) p w = (True, w)"
  using saved_binary_flags_witness
  by (auto simp: tool_vendor_def none_vendor_def Register_Save_def split: option.splits)

lemma Init_image: "\<exists>new. Init_data ex_image h p rg0 = (True, new)"
  by (simp add: Init_data_def ex_scanned GetSectionHeaders_def ex_sections)

lemma tool_clone: "\<exists>new. Clone_register tool_vendor (ex_context 0 9) p w = (Some new, w)"
proof -
  let ?p = "rg_param (ex_context 0 9)"
  obtain x xs where im: "ex_image = x # xs" using length_ex(4) by (cases ex_image) auto
  obtain new where init: "Init_data ex_image 7 (new_RegisterParam (rp_regId ?p) (rp_magic ?p) (Some (param_options ?p)) True
      (rp_optionsIsNull ?p)) rg0 = (True, new)" using Init_image by blast
  have "bv_loadData tool_vendor d options w = ((ACL_SUCCESS, 7), w)" for d options
    by (simp add: tool_vendor_def none_vendor_def)
  moreover have "\<not> rg_isFromFile (ex_context 0 9)" by (simp add: ex_context_def rg0_def)
  ultimately show ?thesis using init by (simp add: Clone_register_def CloneFromBin_def im)
qed

lemma tool_clone_func: "\<exists>g. Clone_func tool_vendor new (new_FuncContext Stub (ex_context 0 9) ''k'' 21) w = (Some g, w)"
  by (simp add: Clone_func_def new_FuncContext_def tool_vendor_def none_vendor_def)

lemma tool_run: "\<exists>s' ds' w'. RunDBITask tool_env (tool_launch 0) tool_contexts tool_state [] = Some ((Some 1, s', ds'), w') \<and>
    length w' = 1 \<and> cx_heap s' ! 0 = cx_heap tool_contexts ! 0"
proof -
  let ?f = "new_FuncContext Stub (ex_context 0 9) ''k'' 21"
  have f: "cx_heap tool_contexts = [?f]" "fx_regCtx ?f = ex_context 0 9" "fx_kernelName ?f = ''k''" "GetTilingKey ?f = None"
    "\<not> rg_hasStaticStub (ex_context 0 9)"
    by (simp_all add: tool_contexts_def new_FuncContext_def GetTilingKey_def ex_context_def rg0_def)
  define dir where "dir = GetOutputDir tool_config 0"
  let ?cfg = "task_config tool_config (GetTargetArchName tool_vendor ''Ascend910B1'' ?f []) dir"
  let ?old = "JoinPath [dir, tc_oldKernelName tool_config]" and ?new = "JoinPath [dir, tc_newKernelName tool_config]"
  obtain t w1 where conv: "DBITask_Convert tool_env ?cfg ?old ?new [] (new_DBITask BB_COUNT 1) [] = Some ((True, t), w1)"
    "length w1 = 1" "dt_funcCtx t = None" "dt_replaceTask t = None"
    by (simp add: DBITask_Convert_def new_DBITask_def DBIFactory_Create_def dbi_SetConfig_def dbi_Convert_def
        BBCount_Convert_def run_and_chmod_def)
  obtain new where new: "Clone_register tool_vendor (ex_context 0 9) ?new w1 = (Some new, w1)" using tool_clone by blast
  obtain g where g: "Clone_func tool_vendor new ?f w1 = (Some g, w1)" using tool_clone_func by blast
  have converted: "convert_func tool_env tool_config 0 dir ?f (new_DBITask BB_COUNT 1) tool_contexts [] =
      Some ((Some 1, t\<lparr>dt_funcCtx := Some 1, dt_launchId := 0\<rparr>, tool_contexts\<lparr>cx_heap := [?f, g]\<rparr>), w1)"
    using conv(1) new g f by (simp add: convert_func_def Let_def)
  have support: "IsPlatformSupportDBI ''Ascend910B1''"
    by (simp add: IsPlatformSupportDBI_def)
  have "DBITask_Run tool_env tool_config (tool_launch 0) (new_DBITask BB_COUNT 1) tool_contexts [] =
      Some ((Some 1, t\<lparr>dt_funcCtx := Some 1, dt_launchId := 0\<rparr>, tool_contexts\<lparr>cx_heap := [?f, g]\<rparr>), w1)"
    using converted f(1)
    by (simp add: DBITask_Run_def tool_launch_def ReuseConverted_def NeedConvert_def new_DBITask_def dir_def clean_launch_dir_def Let_def)
  then show ?thesis
    using f support conv(2)
    by (simp add: RunDBITask_def tool_state_def GetOrCreate_def pool_task_def key_of_tiling_def tool_launch_def Let_def)
qed


section \<open>The binaries of the tasks\<close>

definition sorted_pool :: "dbi_state \<Rightarrow> bool" where
  "sorted_pool ds \<longleftrightarrow> oset fst (ds_pool ds) \<and> (\<forall>(regId, tasks) \<in> set (ds_pool ds). oset fst tasks)"

definition bin_addr :: "dbi_state \<Rightarrow> nat \<times> TaskKey \<Rightarrow> ptr option" where
  "bin_addr ds x =
     (case pool_task ds (fst x) (snd x) of None \<Rightarrow> None | Some t \<Rightarrow> map_option kt_binAddr (dt_replaceTask t))"

definition pool_ok :: "dbi_state \<Rightarrow> bool" where
  \<comment> \<open>no two tasks have a binary at the same address, and none has one at the next address\<close>
  "pool_ok ds \<longleftrightarrow> sorted_pool ds \<and> 0 < ds_next ds \<and> (\<forall>x p. bin_addr ds x = Some p \<longrightarrow> 0 < p \<and> p < ds_next ds) \<and>
     inj_on (bin_addr ds) {x. bin_addr ds x \<noteq> None}"

lemma oset_lookup: "oset fst xs \<Longrightarrow> (k, v) \<in> set xs \<longleftrightarrow> map_of xs k = Some v"
  by (simp add: oset_fst_distinct)

lemma map_of_unique: "(k, v) \<in> set xs \<Longrightarrow> (\<And>v'. (k, v') \<in> set xs \<Longrightarrow> v' = v) \<Longrightarrow> map_of xs k = Some v"
  by (metis map_of_SomeD weak_map_of_SomeI)

lemma in_pool: "sorted_pool ds \<Longrightarrow> (\<exists>tasks. (regId, tasks) \<in> set (ds_pool ds) \<and> (key, t) \<in> set tasks) \<longleftrightarrow> pool_task ds regId key = Some t"
  by (auto simp: sorted_pool_def pool_task_def oset_lookup split: option.splits dest!: map_of_SomeD bspec)

lemma in_omap_put: "set (omap_put k v xs) \<subseteq> insert (k, v) (set xs)"
  by (induction k v xs rule: omap_put.induct) auto

lemma sorted_put: "sorted_pool ds \<Longrightarrow> sorted_pool (put_task regId key t ds)"
proof -
  assume s: "sorted_pool ds"
  have "oset fst (case map_of (ds_pool ds) regId of None \<Rightarrow> [] | Some tasks \<Rightarrow> tasks)"
    using s by (auto simp: sorted_pool_def split: option.splits dest!: map_of_SomeD bspec)
  then show ?thesis
    using s in_omap_put by (fastforce simp: sorted_pool_def put_task_def Let_def oset_omap_put)
qed

lemma sorted_fields [simp]: "sorted_pool (ds\<lparr>ds_next := n\<rparr>) = sorted_pool ds" "sorted_pool (ds\<lparr>ds_config := c\<rparr>) = sorted_pool ds"
  by (simp_all add: sorted_pool_def)

lemma bin_addr_put:
  "bin_addr (put_task regId key t ds) = (bin_addr ds)((regId, key) := map_option kt_binAddr (dt_replaceTask t))"
  by (auto simp: bin_addr_def pool_task_put fun_eq_iff)

lemma bin_addr_fields [simp]: "bin_addr (ds\<lparr>ds_next := n\<rparr>) = bin_addr ds" "bin_addr (ds\<lparr>ds_config := c\<rparr>) = bin_addr ds"
  by (simp_all add: bin_addr_def fun_eq_iff)

lemma pool_ok_put:
  assumes "pool_ok ds" "map_option kt_binAddr (dt_replaceTask t) \<in> {None, bin_addr ds (regId, key), Some (ds_next ds)}"
  shows "pool_ok (put_task regId key t (ds\<lparr>ds_next := ds_next ds + 1\<rparr>))"
proof -
  let ?a = "map_option kt_binAddr (dt_replaceTask t)" and ?x = "(regId, key)"
  have below: "0 < p \<and> p < ds_next ds" if "bin_addr ds x = Some p" for x p
    using assms(1) that unfolding pool_ok_def by blast
  have inj: "x = y" if "bin_addr ds x = Some p" "bin_addr ds y = Some p" for x y p
    using assms(1) that inj_onD [of "bin_addr ds" _ x y] unfolding pool_ok_def by auto
  have clash: False if z: "z \<noteq> ?x" "bin_addr ds z = Some p" and a: "?a = Some p" for z p
  proof -
    consider "?a = bin_addr ds ?x" | "?a = Some (ds_next ds)" using assms(2) a by auto
    then show False using z a below [OF z(2)] inj [of z p ?x] by cases simp_all
  qed
  have "inj_on ((bin_addr ds)(?x := ?a)) {x. ((bin_addr ds)(?x := ?a)) x \<noteq> None}"
  proof (rule inj_onI)
    fix x y
    assume *: "x \<in> {x. ((bin_addr ds)(?x := ?a)) x \<noteq> None}" "((bin_addr ds)(?x := ?a)) x = ((bin_addr ds)(?x := ?a)) y"
    then obtain p where "((bin_addr ds)(?x := ?a)) x = Some p" "((bin_addr ds)(?x := ?a)) y = Some p" by auto
    then show "x = y" using clash [of x p] clash [of y p] inj [of x p y] by (auto split: if_splits)
  qed
  moreover have "sorted_pool (put_task regId key t (ds\<lparr>ds_next := ds_next ds + 1\<rparr>))"
    using assms(1) by (simp add: sorted_put pool_ok_def)
  moreover have "0 < ds_next ds" using assms(1) by (simp add: pool_ok_def)
  moreover from this have "0 < p \<and> p < ds_next ds + 1" if "((bin_addr ds)(?x := ?a)) x = Some p" for x p
    using that assms(2) below [of x p] by (auto split: if_splits)
  ultimately show ?thesis by (auto simp: pool_ok_def bin_addr_put)
qed

lemma pool_ok_create:
  assumes "pool_ok ds" "GetOrCreate regId key ds = (t, ds')"
  shows "pool_ok ds'" "bin_addr ds' = bin_addr ds" "ds_next ds \<le> ds_next ds'"
    "map_option kt_binAddr (dt_replaceTask t) = bin_addr ds' (regId, key)"
proof -
  have "map_option kt_binAddr (dt_replaceTask (new_DBITask (tk_biType key) p)) = None" for p by (simp add: new_DBITask_def)
  then show "pool_ok ds'" using assms pool_ok_put [OF assms(1), of "new_DBITask (tk_biType key) (ds_next ds)" regId key]
    by (auto simp: GetOrCreate_def Let_def split: option.splits)
  show "bin_addr ds' = bin_addr ds"
    using assms(2) by (auto simp: GetOrCreate_def Let_def bin_addr_put new_DBITask_def fun_eq_iff split: option.splits)
      (simp add: bin_addr_def)
  show "ds_next ds \<le> ds_next ds'" using GetOrCreate_pool(3) [OF assms(2)] .
  show "map_option kt_binAddr (dt_replaceTask t) = bin_addr ds' (regId, key)"
    using GetOrCreate_pool(1) [OF assms(2)] by (simp add: bin_addr_def)
qed

lemma in_instrumented:
  "(p, b) \<in> set (concat (map task_bins (concat (map snd pool)))) \<longleftrightarrow>
     (\<exists>regId tasks key t r. (regId, tasks) \<in> set pool \<and> (key, t) \<in> set tasks \<and> dt_replaceTask t = Some r \<and>
        p = kt_binAddr r \<and> b = kt_bin r)"
proof -
  have "(p, b) \<in> set (task_bins (key, t)) \<longleftrightarrow> (\<exists>r. dt_replaceTask t = Some r \<and> p = kt_binAddr r \<and> b = kt_bin r)" for key t
    by (cases "dt_replaceTask t") (auto simp: task_bins_def)
  moreover have "(p, b) \<in> set (concat (map task_bins (concat (map snd pool)))) \<longleftrightarrow>
      (\<exists>x \<in> set pool. \<exists>kt \<in> set (snd x). (p, b) \<in> set (task_bins kt))" by auto
  ultimately show ?thesis by (simp add: Bex_def split_paired_Ex)
qed

lemma instrumented_found:
  assumes "pool_ok ds" "pool_task ds regId key = Some t" "dt_replaceTask t = Some r"
  shows "instrumented ds (kt_binAddr r) = Some (kt_bin r)"
  unfolding instrumented_def
proof (rule map_of_unique, unfold in_instrumented)
  have sorted: "sorted_pool ds" using assms(1) by (simp add: pool_ok_def)
  show "\<exists>regId tasks key t r'. (regId, tasks) \<in> set (ds_pool ds) \<and> (key, t) \<in> set tasks \<and> dt_replaceTask t = Some r' \<and>
      kt_binAddr r = kt_binAddr r' \<and> kt_bin r = kt_bin r'"
    using in_pool [OF sorted, of regId key t] assms(2,3) by blast
  fix b
  assume "\<exists>regId tasks key t r'. (regId, tasks) \<in> set (ds_pool ds) \<and> (key, t) \<in> set tasks \<and> dt_replaceTask t = Some r' \<and>
      kt_binAddr r = kt_binAddr r' \<and> b = kt_bin r'"
  then obtain regId' key' t' r' where t': "pool_task ds regId' key' = Some t'" "dt_replaceTask t' = Some r'"
      "kt_binAddr r = kt_binAddr r'" "b = kt_bin r'"
    using in_pool [OF sorted] by blast
  then have "bin_addr ds (regId', key') = Some (kt_binAddr r)" "bin_addr ds (regId, key) = Some (kt_binAddr r)"
    using assms(2,3) by (simp_all add: bin_addr_def)
  then have "(regId', key') = (regId, key)"
    using assms(1) inj_onD [of "bin_addr ds" _ "(regId', key')" "(regId, key)"] unfolding pool_ok_def by auto
  then show "b = kt_bin r" using assms(2,3) t' by simp
qed

section \<open>Kernels of the older runtime interface\<close>

lemma KernelReplaceTask_Run_result:
  "KernelReplaceTask_Run env k regId ws h t w = ((ok, h', t'), w') \<Longrightarrow>
     kt_binAddr t' = kt_binAddr t \<and> (ok \<longrightarrow> h' = kt_handle t')"
  by (auto simp: KernelReplaceTask_Run_def Let_def split: option.splits if_splits prod.splits)

definition replaced :: "nat \<Rightarrow> KernelReplaceTask \<Rightarrow> KernelContext \<Rightarrow> KernelContext" where
  "replaced regId r k = snd (SetDbiBinary regId (kt_binAddr r) (kt_bin r) k)"

lemma convert_kernel_task:
  assumes "convert_kernel env c ev launchId regId dir ws h t k p w = Some ((ok, h', t', k'), w')"
  shows "if ok then \<exists>r. dt_replaceTask t' = Some r \<and> kt_binAddr r = p \<and> h' = kt_handle r \<and> k' = replaced regId r k
    else k' = k \<and> (dt_replaceTask t' = None \<or> dt_replaceTask t' = dt_replaceTask t)"
  using assms
  by (auto simp: convert_kernel_def DBITask_Convert_def replace_kernel_def replaced_def new_KernelReplaceTask_def Let_def
      split: prod.splits option.splits if_splits dest: KernelReplaceTask_Run_result)

lemma Run_handle_task:
  assumes "DBITask_Run_handle env c launchId ws h t k p w = Some ((ok, h', t', k'), w')"
  shows "if ok then \<exists>r. dt_replaceTask t' = Some r \<and> (kt_binAddr r = p \<or> dt_replaceTask t = Some r) \<and> h' = kt_handle r \<and>
      k' = replaced (GetRegisterId k (GetDeviceContext (dn_kernel env) k) launchId) r k
    else k' = k \<and> (dt_replaceTask t' = None \<or> dt_replaceTask t' = dt_replaceTask t)"
proof -
  let ?d = "GetDeviceContext (dn_kernel env) k"
  let ?regId = "GetRegisterId k ?d launchId"
  obtain reused h1 k1 w1 where reuse: "ReuseConverted_handle env c launchId ?regId t k w = Some ((reused, h1, k1), w1)"
    using assms by (auto simp: DBITask_Run_handle_def Let_def split: option.splits)
  show ?thesis
  proof (cases reused)
    case True
    with reuse have "\<exists>r. dt_replaceTask t = Some r \<and> h1 = kt_handle r \<and> k1 = replaced ?regId r k"
      by (auto simp: ReuseConverted_handle_def replaced_def split: if_splits option.splits)
    then show ?thesis using assms reuse True by (auto simp: DBITask_Run_handle_def)
  next
    case False
    with reuse have k1: "k1 = k" by (auto simp: ReuseConverted_handle_def split: if_splits option.splits)
    show ?thesis
    proof (cases "GetLaunchEvent ?d launchId")
      case None
      then show ?thesis using assms reuse False k1 by (auto simp: DBITask_Run_handle_def)
    next
      case (Some ev)
      then have "ok = False \<and> k' = k \<and> t' = t \<or>
          (\<exists>dir w2 w3. convert_kernel env c ev launchId ?regId dir ws h t k p w2 = Some ((ok, h', t', k'), w3))"
        using assms reuse False k1 by (auto simp: DBITask_Run_handle_def Let_def split: prod.splits if_splits)
      then show ?thesis using convert_kernel_task by fastforce
    qed
  qed
qed

lemma Run_handle_addr:
  assumes "DBITask_Run_handle env c launchId ws h t k p w = Some ((ok, h', t', k'), w')"
  shows "map_option kt_binAddr (dt_replaceTask t') \<in> {None, map_option kt_binAddr (dt_replaceTask t), Some p}"
  using Run_handle_task [OF assms] by (auto split: if_splits)

lemma Run_stub_addr:
  assumes "DBITask_Run_stub env c launchId h f t k p w = Some ((ok, h', f', t', k'), w')"
  shows "map_option kt_binAddr (dt_replaceTask t') \<in> {None, map_option kt_binAddr (dt_replaceTask t), Some p}"
proof -
  obtain ok1 h1 t1 k1 w1 where run: "DBITask_Run_handle env c launchId True h t k p w = Some ((ok1, h1, t1, k1), w1)"
    using assms by (auto simp: DBITask_Run_stub_def split: option.splits)
  then have "dt_replaceTask t' = dt_replaceTask t1"
    using assms by (auto simp: DBITask_Run_stub_def Let_def split: option.splits if_splits prod.splits)
  then show ?thesis using Run_handle_addr [OF run] by simp
qed

lemma Run_funcs_addr:
  assumes "DBITask_Run env c l t s w = Some ((r, t', s'), w')"
  shows "dt_replaceTask t' = dt_replaceTask t"
  using assms
  by (auto simp: DBITask_Run_def convert_func_def DBITask_Convert_def Let_def split: prod.splits option.splits if_splits)

inductive dbi_step :: "'w dbi_env \<Rightarrow> dbi_state \<Rightarrow> dbi_state \<Rightarrow> bool" for env where
  Launch: "RunDBITask env l s ds w = Some ((r, s', ds'), w') \<Longrightarrow> dbi_step env ds ds'"
| Handle: "RunDBITask_handle env hdl key k ds w = Some ((ok, h, k', ds'), w') \<Longrightarrow> dbi_step env ds ds'"
| Stub: "RunDBITask_stub env f k ds w = Some ((ok, f', k', ds'), w') \<Longrightarrow> dbi_step env ds ds'"
| Configure: "dbi_step env ds (ds\<lparr>ds_config := c\<rparr>)"
| Unregister: "Destroy env regId ds w = (ds', w') \<Longrightarrow> dbi_step env ds ds'"

lemma pool_ok_run:
  assumes "pool_ok ds" "GetOrCreate regId key ds = (t, ds1)"
    and "map_option kt_binAddr (dt_replaceTask t') \<in> {None, map_option kt_binAddr (dt_replaceTask t), Some (ds_next ds1)}"
  shows "pool_ok (put_task regId key t' (ds1\<lparr>ds_next := ds_next ds1 + 1\<rparr>))"
  using pool_ok_put [OF pool_ok_create(1) [OF assms(1,2)]] assms(3) pool_ok_create(4) [OF assms(1,2)] by simp

lemma pool_ok_same:
  assumes "pool_ok ds" "map_option kt_binAddr (dt_replaceTask t) = bin_addr ds (regId, key)"
  shows "pool_ok (put_task regId key t ds)"
proof -
  have "(bin_addr ds)((regId, key) := map_option kt_binAddr (dt_replaceTask t)) = bin_addr ds" using assms(2) by auto
  then show ?thesis using assms(1) by (auto simp: pool_ok_def sorted_put bin_addr_put)
qed

lemma pool_ok_destroy:
  assumes "pool_ok ds" "Destroy env regId ds w = (ds', w')"
  shows "pool_ok ds'"
proof (cases "map_of (ds_pool ds) regId")
  case (Some tasks)
  then have ds': "ds' = ds\<lparr>ds_pool := al_del regId (ds_pool ds)\<rparr>" using assms(2) by (simp add: Destroy_def)
  have "bin_addr ds' x = (if fst x = regId then None else bin_addr ds x)" for x
    by (simp add: ds' bin_addr_def pool_task_def)
  moreover have "sorted_pool ds'"
  proof -
    have "set (al_del regId (ds_pool ds)) \<subseteq> set (ds_pool ds)" by (auto simp: al_del_def)
    then show ?thesis using assms(1) by (auto simp: ds' pool_ok_def sorted_pool_def oset_al_del)
  qed
  moreover have "ds_next ds' = ds_next ds" by (simp add: ds')
  ultimately show ?thesis using assms(1) unfolding pool_ok_def inj_on_def by auto
qed (use assms in \<open>simp add: Destroy_def\<close>)

lemma RunDBITask_handle_cases:
  assumes "RunDBITask_handle env hdl key k ds w = Some ((ok, h, k', ds'), w')"
  obtains "ok = False" "ds' = ds" | launchId regId where "run_handle_task env launchId regId hdl key k ds w = Some ((ok, h, k', ds'), w')"
  using assms by (auto simp: RunDBITask_handle_def Let_def split: if_splits elf_result.splits)

lemma RunDBITask_stub_cases:
  assumes "RunDBITask_stub env f k ds w = Some ((ok, f', k', ds'), w')"
  obtains "ok = False" "ds' = ds" | launchId regId where "run_stub_task env launchId regId f k ds w = Some ((ok, f', k', ds'), w')"
  using assms by (auto simp: RunDBITask_stub_def Let_def split: if_splits elf_result.splits)

lemma run_handle_task_ok:
  assumes "pool_ok ds" "run_handle_task env launchId regId hdl key k ds w = Some ((ok, h, k', ds'), w')"
  shows "pool_ok ds'"
proof -
  obtain tk t ds1 ok1 h1 t1 k1 w1 where run: "GetOrCreate regId tk ds = (t, ds1)"
      "DBITask_Run_handle env (ds_config ds) launchId False hdl t k (ds_next ds1) w = Some ((ok1, h1, t1, k1), w1)"
      "ds' = put_task regId tk t1 (ds1\<lparr>ds_next := ds_next ds1 + 1\<rparr>)"
    using assms(2) by (auto simp: run_handle_task_def Let_def split: prod.splits option.splits if_splits)
  then show ?thesis using pool_ok_run [OF assms(1) run(1) Run_handle_addr [OF run(2)]] by simp
qed

lemma run_stub_task_ok:
  assumes "pool_ok ds" "run_stub_task env launchId regId f k ds w = Some ((ok, f', k', ds'), w')"
  shows "pool_ok ds'"
proof -
  obtain tk t ds1 ok1 h1 f1 t1 k1 w1 where run: "GetOrCreate regId tk ds = (t, ds1)"
      "DBITask_Run_stub env (ds_config ds) launchId 0 f t k (ds_next ds1) w = Some ((ok1, h1, f1, t1, k1), w1)"
      "ds' = put_task regId tk t1 (ds1\<lparr>ds_next := ds_next ds1 + 1\<rparr>)"
    using assms(2) by (auto simp: run_stub_task_def Let_def split: prod.splits option.splits if_splits)
  then show ?thesis using pool_ok_run [OF assms(1) run(1) Run_stub_addr [OF run(2)]] by simp
qed

lemma RunDBITask_ok:
  assumes "pool_ok ds" "RunDBITask env l s ds w = Some ((r, s', ds'), w')"
  shows "pool_ok ds'"
  using RunDBITask_task [OF assms(2)]
proof (elim disjE exE conjE)
  fix t ds1 t' r' s1 w1 regId key
  assume run: "GetOrCreate regId key ds = (t, ds1)" "DBITask_Run env (ds_config ds) l t s w = Some ((r', t', s1), w1)"
    "ds' = put_task regId key t' ds1"
  show ?thesis unfolding run(3)
    by (rule pool_ok_same [OF pool_ok_create(1) [OF assms(1) run(1)]])
      (simp add: Run_funcs_addr [OF run(2)] pool_ok_create(4) [OF assms(1) run(1)])
qed (use assms(1) in simp)

lemma pool_ok_step: "dbi_step env ds ds' \<Longrightarrow> pool_ok ds \<Longrightarrow> pool_ok ds'"
proof (induction rule: dbi_step.induct)
  case (Handle hdl key k ds w ok h k' ds' w')
  from Handle(1) show ?case
    by (cases rule: RunDBITask_handle_cases) (use Handle(2) in \<open>auto intro: run_handle_task_ok\<close>)
next
  case (Stub f k ds w ok f' k' ds' w')
  from Stub(1) show ?case
    by (cases rule: RunDBITask_stub_cases) (use Stub(2) in \<open>auto intro: run_stub_task_ok\<close>)
next
  case (Configure ds c)
  then show ?case by (simp add: pool_ok_def)
qed (auto intro: RunDBITask_ok pool_ok_destroy)

lemma pool_ok_reached: "(dbi_step env)\<^sup>*\<^sup>* ds ds' \<Longrightarrow> pool_ok ds \<Longrightarrow> pool_ok ds'"
  by (induction rule: rtranclp_induct) (auto intro: pool_ok_step)

lemma pool_ok_start: "ds_pool ds = [] \<Longrightarrow> 0 < ds_next ds \<Longrightarrow> pool_ok ds"
  by (simp add: pool_ok_def sorted_pool_def bin_addr_def pool_task_def)

lemma replaced_tables [simp]: "kc_hdlToRegId (replaced i r k) = kc_hdlToRegId k" "kc_devices (replaced i r k) = kc_devices k"
  "length (kc_registerEvents (replaced i r k)) = length (kc_registerEvents k)"
  by (simp_all add: replaced_def SetDbiBinary_def Let_def)

lemma replaced_event:
  "i < length (kc_registerEvents k) \<Longrightarrow> re_stubBin (kc_registerEvents (replaced i r k) ! i) = kt_binAddr r"
  "i < length (kc_registerEvents k) \<Longrightarrow> re_bin (kc_registerEvents (replaced i r k) ! i) = re_bin (kc_registerEvents k ! i)"
  by (simp_all add: replaced_def SetDbiBinary_def Let_def)

definition kernels_of :: "devbin \<Rightarrow> string list \<times> nat list" where
  "kernels_of b = (let sy = (case ScanKernelSymbols (devbin_bytes b) of Ok sy \<Rightarrow> sy | _ \<Rightarrow> no_symbols) in
     (map chars (ks_names sy), ks_offsets sy))"

lemma replaced_names:
  "i < length (kc_registerEvents k) \<Longrightarrow>
     (re_kernelNames (kc_registerEvents (replaced i r k) ! i), re_kernelOffsets (kc_registerEvents (replaced i r k) ! i)) =
     kernels_of (kt_bin r)"
  by (simp add: replaced_def SetDbiBinary_def kernels_of_def Let_def)

text \<open>
  C34: When a launch by handle has been instrumented, the registration of its handle refers to the binary of the task, which
  exists, next to the original binary, which stays; and the launch is recorded with the start of the instrumented
  kernel: the address that the driver gives for the new handle less the offset that the kernel with the
  launch's key has in the instrumented binary.
\<close>

theorem instrumented_launch:
  assumes "ds_pool ds0 = []" "0 < ds_next ds0" "(dbi_step env)\<^sup>*\<^sup>* ds0 ds"
    and "RunDBITask_handle env hdl key k ds w = Some ((True, h, k', ds'), w')" "h \<noteq> 0"
    and "GetLastLaunchEvent (GetDeviceContext (dn_kernel env) k) = Some ev" "ev_hdl ev = hdl"
  shows "\<exists>b a off ev'. GetDevBinary (instrumented ds') k' hdl True = Ok b \<and>
    GetDevBinary bins k' hdl False = GetDevBinary bins k hdl False \<and>
    kn_addrOfKey (dn_kernel env) h key = Some a \<and>
    GetKernelOffsetByTilingKey (fst (kernels_of b)) (snd (kernels_of b)) key = Some off \<and>
    GetLastLaunchEvent (GetDeviceContext (dn_kernel env) k') = Some ev' \<and> ev_pcStartAddr ev' + off = a"
proof -
  let ?d = "GetDeviceContext (dn_kernel env) k"
  let ?launchId = "GetLaunchId ?d"
  let ?regId = "GetRegisterId k ?d ?launchId"
  have ok: "pool_ok ds" using pool_ok_reached [OF assms(3) pool_ok_start [OF assms(1,2)]] .
  have task: "run_handle_task env ?launchId ?regId hdl key k ds w = Some ((True, h, k', ds'), w')"
    and known: "map_of (kc_hdlToRegId k) hdl \<noteq> None"
    using assms(4) by (auto simp: RunDBITask_handle_def GetDevBinary_def Let_def split: if_splits elf_result.splits option.splits)
  obtain tk t ds1 t1 k1 w1 where run: "GetOrCreate ?regId tk ds = (t, ds1)"
      "DBITask_Run_handle env (ds_config ds) ?launchId False hdl t k (ds_next ds1) w = Some ((True, h, t1, k1), w1)"
      "ds' = put_task ?regId tk t1 (ds1\<lparr>ds_next := ds_next ds1 + 1\<rparr>)"
      "UpdatePcStartAddrByDbi (dn_kernel env) ?launchId (KernelHandleArgs hdl h key) k1 = (True, k')"
    using task by (auto simp: run_handle_task_def Let_def split: prod.splits option.splits if_splits)
  obtain r where r: "dt_replaceTask t1 = Some r" "h = kt_handle r" "k1 = replaced ?regId r k"
    using Run_handle_task [OF run(2)] by auto
  have events: "kd_launchEvents ?d \<noteq> []" "kd_launchEvents ?d ! (length (kd_launchEvents ?d) - 1) = ev"
    using assms(6) by (auto simp: GetLastLaunchEvent_def last_conv_nth split: if_splits)
  have "\<not> length (kd_launchEvents ?d) \<le> length (kd_launchEvents ?d) - Suc 0" using events(1) by (cases "kd_launchEvents ?d") auto
  then have regId: "map_of (kc_hdlToRegId k) hdl = Some ?regId"
    using known assms(7) events by (auto simp: GetLaunchId_def GetRegisterId_def GetRegisterId_key_def split: option.splits)
  have d1: "GetDeviceContext (dn_kernel env) k1 = ?d" by (simp add: r(3) GetDeviceContext_def)
  obtain pc where pc: "GetPcStartAddr (dn_kernel env) k1 (KernelHandleArgs hdl h key) = Some pc"
    and k': "k' = on_kernel_device (dn_kernel env) (\<lambda>d. d\<lparr>kd_launchEvents := (kd_launchEvents d)
        [?launchId := (kd_launchEvents d ! ?launchId)\<lparr>ev_pcStartAddr := pc\<rparr>]\<rparr>) k1"
    using run(4) by (auto simp: UpdatePcStartAddrByDbi_def Let_def d1 split: if_splits option.splits)
  obtain a off where a: "kn_addrOfKey (dn_kernel env) h key = Some a" "GetKernelOffset k1 (KernelHandleArgs hdl h key) = Some off"
      "off \<le> a" "pc = a - off"
    using pc assms(5) by (auto simp: GetPcStartAddr_def GetKernelAddr_def split: option.splits if_splits)
  have i: "?regId < length (kc_registerEvents k)"
    and off: "GetKernelOffsetByTilingKey (fst (kernels_of (kt_bin r))) (snd (kernels_of (kt_bin r))) key = Some off"
    using a(2) regId replaced_names [of ?regId k r, symmetric]
    by (auto simp: GetKernelOffset_def GetRegisterEvent_def GetRegisterId_key_def r(3) split: option.splits if_splits)
  have same: "kc_registerEvents k' = kc_registerEvents k1" "kc_hdlToRegId k' = kc_hdlToRegId k"
    by (simp_all add: k' on_kernel_device_def r(3))
  have pool: "pool_ok ds'" "pool_task ds' ?regId tk = Some t1"
    using run_handle_task_ok [OF ok task] run(3) by (simp_all add: pool_task_put)
  then have "bin_addr ds' (?regId, tk) = Some (kt_binAddr r)" using r(1) by (simp add: bin_addr_def)
  then have "0 < kt_binAddr r" using pool(1) unfolding pool_ok_def by blast
  then have "GetDevBinary (instrumented ds') k' hdl True = Ok (kt_bin r)" "GetDevBinary bins k' hdl False = GetDevBinary bins k hdl False"
    using instrumented_found [OF pool r(1)] i regId same
    by (simp_all add: GetDevBinary_def Let_def r(3) replaced_event)
  moreover have "GetLastLaunchEvent (GetDeviceContext (dn_kernel env) k') = Some (ev\<lparr>ev_pcStartAddr := pc\<rparr>)"
    using events d1 by (auto simp: k' GetDeviceContext_def on_kernel_device_def GetLastLaunchEvent_def GetLaunchId_def last_list_update)
  ultimately show ?thesis using a off by (intro exI [of _ "kt_bin r"] exI [of _ a] exI [of _ off] exI [of _ "ev\<lparr>ev_pcStartAddr := pc\<rparr>"]) simp
qed

text \<open>An instrumented binary whose kernel has the key 7.\<close>

definition seven_names :: bytes where
  \<comment> \<open>\<open>.text\<close>, \<open>_7\<close> and \<open>$\<close>\<close>
  "seven_names = [0, 0x2E, 0x74, 0x65, 0x78, 0x74, 0, 0x5F, 0x37, 0, 0x24, 0]"

definition seven_image :: bytes where
  "seven_image = elf_image (seven_names @ ex_syms) ex_shdrs 3"

lemma length_seven: "length seven_names = 12" "length seven_image = 380"
  by (simp_all add: seven_names_def ex_syms_def ex_shdrs_def seven_image_def length_elf_image)

lemma wf_seven: "wf_image (seven_names @ ex_syms) ex_shdrs 3"
  by (simp add: wf_image_def length_ex length_seven) (simp add: ex_shdrs_def ex_header_def wf_shdr_def)

lemma seven_body: "off + n \<le> 60 \<Longrightarrow> read_bytes seven_image (64 + off) n = Some (take n (drop off (seven_names @ ex_syms)))"
  unfolding seven_image_def by (rule read_body) (simp add: length_ex length_seven)

lemma seven_located: "LocateKernelSymtab seven_image = Ok (ex_header 0 2 76 48 3, ex_header 0 3 64 12 0, Some 1)"
proof -
  have ne: "seven_image \<noteq> []" using length_seven(2) by auto
  have names: "read_bytes seven_image 64 12 = Some seven_names" using seven_body [of 0 12] by (simp add: length_seven)
  have t: "terminated seven_names" by (simp add: terminated_def seven_names_def)
  have loop: "locate_loop seven_names 0 ex_shdrs (None, None) = Ok (Some 2, Some 1)"
    by (simp add: ex_shdrs_def ex_header_def seven_names_def SHT_SYMTAB_def text_name_def cstr_at_def Let_def)
  note hd = image_header [OF wf_seven, folded seven_image_def, unfolded length_append length_ex length_seven]
  have nth: "ex_shdrs ! 2 = ex_header 0 2 76 48 3" "ex_shdrs ! 3 = ex_header 0 3 64 12 0"
    by (simp_all add: ex_shdrs_def)
  show ?thesis
    using hd ne t unfolding LocateKernelSymtab_def
    by (simp add: length_ex length_seven sizeof_Shdr_def Let_def nth names loop terminated_def)
      (simp add: ex_header_def names loop nth length_ex length_seven)
qed

lemma seven_take: "off + n \<le> 60 \<Longrightarrow> take n (drop (64 + off) seven_image) = take n (drop off (seven_names @ ex_syms))"
  using seven_body [of off n] by (simp add: read_bytes_def split: if_splits)

lemma seven_scanned: "ScanKernelSymbols seven_image = Ok \<lparr>ks_names = [[0x5F, 0x37]], ks_offsets = [16], ks_hasSimt = False\<rparr>"
proof -
  have syms: "map (symbol_at seven_image (ex_header 0 2 76 48 3)) [0..<2] =
      [\<lparr>st_name = 7, st_info = 18, st_shndx = 1, st_value = 16\<rparr>, \<lparr>st_name = 9, st_info = 0, st_shndx = 1, st_value = 0\<rparr>]"
    using seven_take [of 12 24] seven_take [of 36 24]
    by (simp add: symbol_at_def ex_header_def sizeof_Sym_def upt_rec numeral_2_eq_2 length_ex length_seven)
      (simp add: seven_names_def ex_syms_def dec_sym_def field_def)
  have "name_bytes seven_image (ex_header 0 3 64 12 0) s = take (12 - st_name s) (drop (st_name s) seven_names)" if "st_name s \<le> 12" for s
    using seven_take [of "st_name s" "12 - st_name s"] that by (simp add: name_bytes_def ex_header_def length_ex length_seven)
  then have "kernel_symbols seven_image (ex_header 0 2 76 48 3) (ex_header 0 3 64 12 0) (Some 1) =
      \<lparr>ks_names = [[0x5F, 0x37]], ks_offsets = [16], ks_hasSimt = False\<rparr>"
    using syms by (simp add: kernel_symbols_def text_symbols_def ex_header_def sizeof_Sym_def)
      (simp add: is_kernel_def is_simt_def seven_names_def)
  then show ?thesis
    using collect_symbols [of seven_image "ex_header 0 2 76 48 3" "ex_header 0 3 64 12 0" "Some 1"]
    by (simp add: ScanKernelSymbols_def seven_located length_seven) (simp add: ex_header_def)
qed

definition seven_env :: "string list list dbi_env" where
  "seven_env = tool_env\<lparr>dn_dump := (dn_dump tool_env)\<lparr>de_vendor := tool_vendor\<lparr>bv_readBinary := (\<lambda>_ _. seven_image)\<rparr>\<rparr>\<rparr>"

definition seven_event :: LaunchEvent where
  "seven_event = \<lparr>ev_launchWithHandle = True, ev_stubFunc = 0, ev_hdl = 5, ev_hasTilingKey = True, ev_tilingKey = 7,
     ev_pcStartAddr = 0, ev_argsInfo = 0, ev_blockDim = 8, ev_kernelName = ''k'', ev_argsInfoCopy = rx0, ev_isSink = False\<rparr>"

definition seven_kernels :: KernelContext where
  "seven_kernels = push_launch ex_kernel_env seven_event (AddHdlRegisterEvent 5 (Some ex_bin) 0 kc0)"

definition seven_task :: KernelReplaceTask where
  "seven_task = \<lparr>kt_bin = ex_bin\<lparr>db_data := Some seven_image, db_length := 380\<rparr>, kt_binAddr = 2, kt_handle = 41,
     kt_kernelPath = JoinPath [GetOutputDir tool_config 0, tc_newKernelName tool_config]\<rparr>"

lemma ex_bin_bytes: "devbin_bytes ex_bin = ex_image" "db_length ex_bin < MAX_MEM_BYTE_SIZE"
  using length_ex(4) by (simp_all add: devbin_bytes_def ex_bin_def MAX_MEM_BYTE_SIZE_def)

lemma seven_fields:
  "kc_registerEvents seven_kernels = [new_RegisterEvent 5 ex_bin 0]" "kc_hdlToRegId seven_kernels = [(5, 0)]"
  "GetDeviceContext ex_kernel_env seven_kernels = kd0\<lparr>kd_launchEvents := [seven_event]\<rparr>"
  using ex_bin_bytes(2)
  by (simp_all add: seven_kernels_def push_launch_def on_kernel_device_def AddHdlRegisterEvent_def kc0_def
      GetDeviceContext_def kd0_def)

lemma seven_ready:
  "GetDevBinary bins seven_kernels 5 False = Ok ex_bin" "GetRegisterId seven_kernels (kd0\<lparr>kd_launchEvents := [seven_event]\<rparr>) 0 = 0"
  "GetLaunchId (kd0\<lparr>kd_launchEvents := [seven_event]\<rparr>) = 0" "\<not> HasStaticStub (devbin_bytes ex_bin)"
  using ex_stub
  by (simp_all add: GetDevBinary_def seven_fields new_RegisterEvent_def GetRegisterId_def GetRegisterId_key_def seven_event_def
      GetLaunchId_def ex_bin_bytes HasStaticStub_def GetSectionHeaders_def ex_sections Let_def)

lemma seven_names_offset:
  "kernels_of (kt_bin seven_task) = ([''_7''], [16])" "GetKernelOffsetByTilingKey [''_7''] [16] 7 = Some 16"
proof -
  have "devbin_bytes (kt_bin seven_task) = seven_image" using length_seven by (simp add: devbin_bytes_def seven_task_def)
  moreover have "char_of (95 :: nat) = CHR ''_''" "char_of (55 :: nat) = CHR ''7''"
    using char_of_char [of "CHR ''_''", where 'a = nat] char_of_char [of "CHR ''7''", where 'a = nat] by simp_all
  then have "chars [0x5F, 0x37] = ''_7''" by (simp add: chars_def)
  ultimately show "kernels_of (kt_bin seven_task) = ([''_7''], [16])" by (simp add: kernels_of_def seven_scanned)
  show "GetKernelOffsetByTilingKey [''_7''] [16] 7 = Some 16"
    by (simp add: GetKernelOffsetByTilingKey_def GetTilingKeyFromName_def EndsWith_def MIX_AIC_TAIL_def MIX_AIV_TAIL_def
        extract_u64_def isspace_def isdigit_def code_def dec_val_def)
qed

lemma seven_dump: "fst (DumpKernelObject (dn_dump seven_env) seven_kernels 0 p w)" "snd (DumpKernelObject (dn_dump seven_env) seven_kernels 0 p w) = w"
  using image_header(1) [OF wf_ex, folded ex_image_def]
  by (simp_all add: DumpKernelObject_def GetRegisterEvent_def seven_fields new_RegisterEvent_def object_image_def ex_bin_bytes
      WriteBinary_def seven_env_def tool_vendor_def Let_def)

lemma tool_type: "tc_type tool_config = BB_COUNT"
  by (simp add: tool_config_def)

lemma seven_run:
  "\<exists>k' ds' w'. RunDBITask_handle seven_env 5 7 seven_kernels tool_state [] = Some ((True, 41, k', ds'), w')"
proof -
  define dir where "dir = GetOutputDir tool_config 0"
  let ?d = "kd0\<lparr>kd_launchEvents := [seven_event]\<rparr>" and ?k = "replaced 0 seven_task seven_kernels"
  let ?cfg = "task_config tool_config (GetCurrentArchName ex_kernel_env ''Ascend910B1'' seven_kernels) dir"
  let ?old = "JoinPath [dir, tc_oldKernelName tool_config]" and ?new = "JoinPath [dir, tc_newKernelName tool_config]"
  have env [simp]: "dn_kernel seven_env = ex_kernel_env" "de_soc (dn_dump seven_env) = ''Ascend910B1''" "dn_shell seven_env = tool_shell"
    "de_vendor (dn_dump seven_env) = tool_vendor\<lparr>bv_readBinary := (\<lambda>_ _. seven_image)\<rparr>"
    "dn_register seven_env ws b w = ((0, 41), w)" for ws b w
    by (simp_all add: seven_env_def tool_env_def)
  have mkdir: "bv_mkdir (tool_vendor\<lparr>bv_readBinary := r\<rparr>) p w = (True, w)" "bv_removeAll (tool_vendor\<lparr>bv_readBinary := r\<rparr>) p w = w" for r p w
    by (simp_all add: tool_vendor_def none_vendor_def)
  obtain t w1 where conv: "DBITask_Convert seven_env ?cfg ?old ?new (decimal 7) (new_DBITask BB_COUNT 1) [] = Some ((True, t), w1)"
    "dt_replaceTask t = None"
    by (simp add: DBITask_Convert_def new_DBITask_def DBIFactory_Create_def dbi_SetConfig_def dbi_Convert_def
        BBCount_Convert_def run_and_chmod_def)
  have img: "seven_image \<noteq> []" using length_seven(2) by auto
  have "re_bin (new_RegisterEvent 5 ex_bin 0) = ex_bin" by (simp add: new_RegisterEvent_def Let_def)
  then have replace: "KernelReplaceTask_Run seven_env seven_kernels 0 False 5 (new_KernelReplaceTask 2 ?new) w1 = ((True, 41, seven_task), w1)"
    using img by (simp add: KernelReplaceTask_Run_def GetRegisterEvent_def seven_fields new_KernelReplaceTask_def seven_task_def dir_def length_seven)
  have "convert_kernel seven_env tool_config seven_event 0 0 dir False 5 (new_DBITask BB_COUNT 1) seven_kernels 2 [] =
      Some ((True, 41, t\<lparr>dt_replaceTask := Some seven_task, dt_launchId := 0\<rparr>, ?k), w1)"
    using conv replace seven_dump by (simp add: convert_kernel_def replace_kernel_def release_task_def seven_event_def replaced_def Let_def split_beta)
  then have run: "DBITask_Run_handle seven_env tool_config 0 False 5 (new_DBITask BB_COUNT 1) seven_kernels 2 [] =
      Some ((True, 41, t\<lparr>dt_replaceTask := Some seven_task, dt_launchId := 0\<rparr>, ?k), w1)"
    using seven_ready(2) mkdir
    by (simp add: DBITask_Run_handle_def seven_fields ReuseConverted_handle_def NeedConvert_def new_DBITask_def GetLaunchEvent_def kd0_def
        dir_def clean_launch_dir_def Let_def)
  have "GetPcStartAddr ex_kernel_env ?k (KernelHandleArgs 5 41 7) = Some 4096"
    using seven_names_offset replaced_names [of 0 seven_kernels seven_task]
    by (simp add: GetPcStartAddr_def GetKernelAddr_def GetKernelOffset_def GetRegisterEvent_def GetRegisterId_key_def seven_fields ex_kernel_env_def)
  then obtain k2 where "UpdatePcStartAddrByDbi ex_kernel_env 0 (KernelHandleArgs 5 41 7) ?k = (True, k2)"
    using seven_fields(3) by (simp add: UpdatePcStartAddrByDbi_def GetDeviceContext_def kd0_def Let_def)
  then have task: "\<exists>k' ds' w'. run_handle_task seven_env 0 0 5 7 seven_kernels tool_state [] = Some ((True, 41, k', ds'), w')"
    using run by (simp add: run_handle_task_def tool_state_def GetOrCreate_def pool_task_def key_of_tiling_def tool_type Let_def
        numeral_2_eq_2 split: prod.splits)
  have "IsPlatformSupportDBI ''Ascend910B1''" by (simp add: IsPlatformSupportDBI_def)
  then show ?thesis
    using task seven_ready seven_fields(3) by (simp add: RunDBITask_handle_def tool_state_def Let_def)
qed

theorem instrumented_launch_witness:
  "\<exists>k' ds' w' b. RunDBITask_handle seven_env 5 7 seven_kernels tool_state [] = Some ((True, 41, k', ds'), w') \<and>
     GetDevBinary (instrumented ds') k' 5 True = Ok b \<and> GetDevBinary (instrumented ds') k' 5 False = Ok ex_bin"
proof -
  obtain k' ds' w' where run: "RunDBITask_handle seven_env 5 7 seven_kernels tool_state [] = Some ((True, 41, k', ds'), w')"
    using seven_run by blast
  have start: "ds_pool tool_state = []" "0 < ds_next tool_state" by (simp_all add: tool_state_def)
  have ev: "GetLastLaunchEvent (GetDeviceContext (dn_kernel seven_env) seven_kernels) = Some seven_event" "ev_hdl seven_event = 5"
    by (simp_all add: seven_env_def seven_fields GetLastLaunchEvent_def kd0_def seven_event_def)
  show ?thesis
    using instrumented_launch [OF start rtranclp.rtrancl_refl run _ ev, of "instrumented ds'"] run seven_ready(1) by auto
qed

end
