(* ===== verification/ProfConf.thy ===== *)
theory ProfConf
  imports BBCount Paths
begin

text \<open>
  Models csrc/runtime/inject_helpers/ProfConfig.h and .cpp, the profiler's configuration and its requests to
  the tool process; csrc/include/opprof/Protocol.h, BasicDefs.h and DbiDefs.h, the layout of what is
  exchanged; and DbiRecordTaskHelper.h, what each kind of instrumentation needs. A message is a list of bytes in
  the layout of its packed structure. The socket is a parameter, and so are the environment variables.
\<close>

section \<open>Constants and layouts\<close>

definition PATH_MAX_LENGTH :: nat where "PATH_MAX_LENGTH = 4096"
definition NAME_MAX_LENGTH :: nat where "NAME_MAX_LENGTH = 1024"
definition PMU_EVENT_MAX_NUM :: nat where "PMU_EVENT_MAX_NUM = 8"
definition EVENT_MAX_NUM :: nat where "EVENT_MAX_NUM = 96"
definition PMU_EVENT_MAX_NUM_A5 :: nat where "PMU_EVENT_MAX_NUM_A5 = 10"
definition EVENT_MAX_NUM_A5 :: nat where "EVENT_MAX_NUM_A5 = 60"

datatype ReplayMode = MODE_KERNEL | MODE_APPLICATION | MODE_RANGE

fun ReplayMode_code :: "ReplayMode \<Rightarrow> nat" where
  "ReplayMode_code MODE_KERNEL = 0"
| "ReplayMode_code MODE_APPLICATION = 1"
| "ReplayMode_code MODE_RANGE = 2"

datatype ProfPacketType = CONFIG | DATA_PATH | PROCESS_CTRL | DBI_DATA | COLLECT_START | PROF_FINISH
  | INSTR_LOG | POPPED_LOG | ICACHE_LOG | MTE_LOG | CCU_LOG | INVALID

fun ProfPacketType_code :: "ProfPacketType \<Rightarrow> nat" where
  "ProfPacketType_code CONFIG = 0"
| "ProfPacketType_code DATA_PATH = 1"
| "ProfPacketType_code PROCESS_CTRL = 2"
| "ProfPacketType_code DBI_DATA = 3"
| "ProfPacketType_code COLLECT_START = 4"
| "ProfPacketType_code PROF_FINISH = 5"
| "ProfPacketType_code INSTR_LOG = 20"
| "ProfPacketType_code POPPED_LOG = 21"
| "ProfPacketType_code ICACHE_LOG = 22"
| "ProfPacketType_code MTE_LOG = 23"
| "ProfPacketType_code CCU_LOG = 24"
| "ProfPacketType_code INVALID = 25"

definition ProfPacketHead :: "ProfPacketType \<Rightarrow> nat \<Rightarrow> bytes" where
  "ProfPacketHead type len = Serialize_u 4 (ProfPacketType_code type) @ Serialize_u 4 len"

definition char_field :: "nat \<Rightarrow> string \<Rightarrow> bytes" where
  \<comment> \<open>an array of \<open>n\<close> characters that was zero before the copy\<close>
  "char_field n s = ascii s @ replicate (n - length s) 0"

record MessageOfProfConfig =
  mp_isMstxEnable :: bool
  mp_mstxEnabledMessage :: bytes
  mp_replayCount :: nat
  mp_dbiFlag :: nat
  mp_profWarmUpTimes :: nat
  mp_aicPmu :: "nat list"
  mp_aivPmu :: "nat list"
  mp_l2CachePmu :: "nat list"
  mp_replayMode :: nat
  mp_instrTimelinePipe :: bytes
  mp_useProfileMode :: bool
  mp_killAdvance :: bool
  mp_isDeviceToSimulator :: bool
  mp_isSimulator :: bool
  mp_pmSamplingEnable :: bool

definition mp0 :: MessageOfProfConfig where
  "mp0 = \<lparr>mp_isMstxEnable = False, mp_mstxEnabledMessage = replicate NAME_MAX_LENGTH 0, mp_replayCount = 2 ^ 32 - 1, mp_dbiFlag = 0,
     mp_profWarmUpTimes = 0, mp_aicPmu = replicate EVENT_MAX_NUM 0, mp_aivPmu = replicate EVENT_MAX_NUM 0,
     mp_l2CachePmu = replicate EVENT_MAX_NUM 0, mp_replayMode = 0, mp_instrTimelinePipe = replicate NAME_MAX_LENGTH 0,
     mp_useProfileMode = False, mp_killAdvance = False, mp_isDeviceToSimulator = False, mp_isSimulator = False,
     mp_pmSamplingEnable = False\<rparr>"

definition sizeof_MessageOfProfConfig :: nat where "sizeof_MessageOfProfConfig = 2644"

definition u16_array :: "bytes \<Rightarrow> nat \<Rightarrow> nat \<Rightarrow> nat list" where
  "u16_array bs off n = map (\<lambda>i. field bs (off + 2 * i) 2) [0..<n]"

definition Deserialize_profConfig :: "bytes \<Rightarrow> MessageOfProfConfig option" where
  \<comment> \<open>the structure is not packed: its members are at the offsets that the alignment gives them\<close>
  "Deserialize_profConfig bs =
     (if length bs < sizeof_MessageOfProfConfig then None
      else Some
        \<lparr>mp_isMstxEnable = field bs 0 1 \<noteq> 0, mp_mstxEnabledMessage = take NAME_MAX_LENGTH (drop 1 bs),
         mp_replayCount = field bs 1028 4, mp_dbiFlag = field bs 1032 4, mp_profWarmUpTimes = field bs 1036 2,
         mp_aicPmu = u16_array bs 1038 EVENT_MAX_NUM, mp_aivPmu = u16_array bs 1230 EVENT_MAX_NUM,
         mp_l2CachePmu = u16_array bs 1422 EVENT_MAX_NUM, mp_replayMode = field bs 1614 1,
         mp_instrTimelinePipe = take NAME_MAX_LENGTH (drop 1615 bs),
         mp_useProfileMode = field bs 2639 1 \<noteq> 0, mp_killAdvance = field bs 2640 1 \<noteq> 0,
         mp_isDeviceToSimulator = field bs 2641 1 \<noteq> 0, mp_isSimulator = field bs 2642 1 \<noteq> 0,
         mp_pmSamplingEnable = field bs 2643 1 \<noteq> 0\<rparr>)"

section \<open>Kinds of instrumentation\<close>

datatype ProfDBIType =
  AS_IS | OPERAND_RECORD | MEMORY_CHART | INSTR_PROF_START | INSTR_PROF_END | INSTR_PROF_DFX | DBI_BB_COUNT | WARP_TIMELINE

fun ProfDBIType_code :: "ProfDBIType \<Rightarrow> nat" where
  "ProfDBIType_code AS_IS = 0"
| "ProfDBIType_code OPERAND_RECORD = 1"
| "ProfDBIType_code MEMORY_CHART = 2"
| "ProfDBIType_code INSTR_PROF_START = 3"
| "ProfDBIType_code INSTR_PROF_END = 4"
| "ProfDBIType_code INSTR_PROF_DFX = 5"
| "ProfDBIType_code DBI_BB_COUNT = 6"
| "ProfDBIType_code WARP_TIMELINE = 7"

definition DBI_FLAG :: "ProfDBIType \<Rightarrow> nat" where
  \<comment> \<open>the constants \<open>DBI_FLAG_...\<close>\<close>
  "DBI_FLAG type = push_bit (ProfDBIType_code type) 1"

definition has_flag :: "MessageOfProfConfig \<Rightarrow> ProfDBIType \<Rightarrow> bool" where
  "has_flag c type \<longleftrightarrow> bit (mp_dbiFlag c) (ProfDBIType_code type)"

definition INSTR_PROF_MEMSIZE :: nat where "INSTR_PROF_MEMSIZE = 8"
definition BLOCK_GAP :: nat where "BLOCK_GAP = 64"
definition MAX_BLOCK :: nat where "MAX_BLOCK = 108"
definition SIMT_THREAD_GAP :: nat where "SIMT_THREAD_GAP = 64"
definition MAX_THREAD_NUM :: nat where "MAX_THREAD_NUM = 2048"
definition MAX_BLOCK_DATA_SIZE :: nat where "MAX_BLOCK_DATA_SIZE = 100 * 1024 * 1024"
definition BLOCK_MEM_SIZE :: nat where "BLOCK_MEM_SIZE = MAX_BLOCK_DATA_SIZE + BLOCK_GAP"
definition WARP_NUM_PER_BLOCK :: nat where "WARP_NUM_PER_BLOCK = 64"
definition OperandType_END :: nat where "OperandType_END = 33"
definition sizeof_OperandHeader :: nat where "sizeof_OperandHeader = 8"
definition sizeof_OperandRecord :: nat where "sizeof_OperandRecord = 24"
definition sizeof_WarpHeader :: nat where "sizeof_WarpHeader = 16"
definition sizeof_WarpRecord :: nat where "sizeof_WarpRecord = 16"
definition sizeof_BlockHeader :: nat where "sizeof_BlockHeader = 176"

definition GetCoreNumForDbi :: "nat \<Rightarrow> nat" where
  "GetCoreNumForDbi blockDim = (if blockDim > MAX_BLOCK \<or> blockDim * 3 > MAX_BLOCK then MAX_BLOCK else blockDim * 3)"

definition GetDbiRecordMemSize :: "ProfDBIType \<Rightarrow> nat \<Rightarrow> nat \<Rightarrow> nat" where
  "GetDbiRecordMemSize mode numBlocks memoryChartCoreNum =
     (case mode of
        MEMORY_CHART \<Rightarrow> BLOCK_MEM_SIZE * (if memoryChartCoreNum = 0 then GetCoreNumForDbi numBlocks else memoryChartCoreNum)
      | OPERAND_RECORD \<Rightarrow>
          let sizePerAllType = OperandType_END * sizeof_OperandRecord + SIMT_THREAD_GAP in
          sizeof_OperandHeader + (sizePerAllType * (MAX_THREAD_NUM + 1) + BLOCK_GAP) * GetCoreNumForDbi numBlocks
      | WARP_TIMELINE \<Rightarrow>
          (sizeof_WarpHeader + WARP_NUM_PER_BLOCK * sizeof_WarpRecord + BLOCK_GAP) * GetCoreNumForDbi numBlocks
      | _ \<Rightarrow> 0)"

section \<open>The configuration\<close>

record 'w tool_link =
  tl_notify :: "bytes \<Rightarrow> 'w \<Rightarrow> int \<times> 'w"
  tl_wait :: "nat \<Rightarrow> 'w \<Rightarrow> (int \<times> bytes) \<times> 'w"  \<comment> \<open>with a time limit: the result and the message\<close>
  tl_getenv :: "string \<Rightarrow> string"  \<comment> \<open>empty when it is not set\<close>
  tl_realpath :: "string \<Rightarrow> string option"

record ProfConfig =
  pf_config :: MessageOfProfConfig
  pf_socVersion :: string
  pf_isAppReplay :: bool
  pf_isRangeReplay :: bool
  pf_isCaLogTrans :: bool

definition MAX_NUM_PACKET :: nat where "MAX_NUM_PACKET = 64"

definition sent :: "'w tool_link \<Rightarrow> bytes \<Rightarrow> 'w \<Rightarrow> bool \<times> 'w" where
  \<comment> \<open>\<open>Notify\<close> and the test whether all of it went out\<close>
  "sent lk msg w = (let (ret, w) = tl_notify lk msg w in (\<not> (ret < 0 \<or> nat ret \<noteq> length msg), w))"

fun receive :: "'w tool_link \<Rightarrow> nat \<Rightarrow> nat \<Rightarrow> bytes \<Rightarrow> 'w \<Rightarrow> bytes option \<times> 'w" where
  \<comment> \<open>the loop of \<open>WaitForPayload\<close>, for the number of packets that may still come\<close>
  "receive lk n0 0 rspMsg w = (None, w)"
| "receive lk n0 (Suc n) rspMsg w =
     (let ((len, buf), w) = tl_wait lk 1 w in
      if len \<le> 0 then receive lk n0 n rspMsg w
      else if length (rspMsg @ buf) \<ge> n0 then (Some (rspMsg @ buf), w)
      else receive lk n0 n (rspMsg @ buf) w)"

definition WaitForPayload :: "'w tool_link \<Rightarrow> nat \<Rightarrow> (bytes \<Rightarrow> 'a option) \<Rightarrow> 'w \<Rightarrow> 'a option \<times> 'w" where
  \<comment> \<open>for a structure of \<open>n0\<close> bytes\<close>
  "WaitForPayload lk n0 deserialize w =
     (let (msg, w) = receive lk n0 MAX_NUM_PACKET [] w in (Option.bind msg deserialize, w))"

definition WaitForReply :: "'w tool_link \<Rightarrow> bytes \<Rightarrow> 'w \<Rightarrow> bool \<times> 'w" where
  "WaitForReply lk objReply w =
     (let ((len, receivedMsg), w) = tl_wait lk (2 ^ 32 - 1) w in (len \<ge> 0 \<and> receivedMsg = objReply, w))"

definition IsDbi :: "ProfConfig \<Rightarrow> bool" where
  "IsDbi c \<longleftrightarrow> pf_isAppReplay c \<and> mp_dbiFlag (pf_config c) \<noteq> 0"

definition GetInitReplayCount :: "ProfConfig \<Rightarrow> nat" where
  "GetInitReplayCount c = (if pf_isAppReplay c then mp_replayCount (pf_config c) else 0)"

definition WARMUP_MAX_TIMES :: nat where "WARMUP_MAX_TIMES = 500"

definition GetWarmUpTimes :: "ProfConfig \<Rightarrow> nat" where
  "GetWarmUpTimes c =
     (if mp_profWarmUpTimes (pf_config c) \<le> WARMUP_MAX_TIMES then mp_profWarmUpTimes (pf_config c) else WARMUP_MAX_TIMES)"

definition IsSimulator :: "ProfConfig \<Rightarrow> bool" where "IsSimulator c \<longleftrightarrow> mp_isSimulator (pf_config c)"
definition IsInstrTimelineEnabled :: "ProfConfig \<Rightarrow> bool" where "IsInstrTimelineEnabled c \<longleftrightarrow> has_flag (pf_config c) INSTR_PROF_DFX"
definition IsPipeTimelineEnabled :: "ProfConfig \<Rightarrow> bool" where "IsPipeTimelineEnabled c \<longleftrightarrow> has_flag (pf_config c) INSTR_PROF_END"
definition IsPCSamplingEnabled :: "ProfConfig \<Rightarrow> bool" where "IsPCSamplingEnabled c \<longleftrightarrow> has_flag (pf_config c) INSTR_PROF_START"
definition IsWarpTimelineEnabled :: "ProfConfig \<Rightarrow> bool" where "IsWarpTimelineEnabled c \<longleftrightarrow> has_flag (pf_config c) WARP_TIMELINE"

definition SetLogTransFlag :: "bool \<Rightarrow> ProfConfig \<Rightarrow> ProfConfig" where
  "SetLogTransFlag flag c = c\<lparr>pf_isCaLogTrans := flag\<rparr>"

definition RestoreMemoryByMode :: "'w acl_api \<Rightarrow> int \<Rightarrow> ProfConfig \<Rightarrow> MemoryContext \<Rightarrow> 'w \<Rightarrow> MemoryContext \<times> 'w" where
  "RestoreMemoryByMode api devId c mc w =
     (if pf_isAppReplay c \<or> pf_isRangeReplay c then (mc, w) else let (ok, mc, w) = Restore api devId mc w in (mc, w))"

definition GetInstrTimelinePipe :: "ProfConfig \<Rightarrow> string option" where
  \<comment> \<open>\<open>None\<close> when the array of characters has no end\<close>
  "GetInstrTimelinePipe c =
     map_option (\<lambda>s. let pipe = chars s in
         if pipe = [] then ''cube,fixp,vector,mte1,mte2,mte3''
         else Join (map ToLower (SplitString CHR ''|'' pipe)) '','')
       (cstr_at (mp_instrTimelinePipe (pf_config c)) 0)"

section \<open>Requests to the tool\<close>

definition RequestLogTranslate :: "'w tool_link \<Rightarrow> string \<Rightarrow> string \<Rightarrow> 'w \<Rightarrow> 'w" where
  "RequestLogTranslate lk outputPath kernelName w =
     (if length kernelName \<ge> NAME_MAX_LENGTH \<or> length outputPath \<ge> PATH_MAX_LENGTH then w
      else
        let msg = ProfPacketHead COLLECT_START (PATH_MAX_LENGTH + NAME_MAX_LENGTH) @
              char_field PATH_MAX_LENGTH outputPath @ char_field NAME_MAX_LENGTH kernelName;
            (ok, w) = sent lk msg w in
        if \<not> ok then w else snd (WaitForReply lk (ascii ''SUC'') w))"

definition NotifyStopTransLog :: "'w tool_link \<Rightarrow> 'w \<Rightarrow> 'w" where
  "NotifyStopTransLog lk w =
     (let (ok, w) = sent lk (ProfPacketHead PROF_FINISH 0) w in
      if \<not> ok then w else snd (WaitForReply lk (ascii ''SUC'') w))"

fun receive_line :: "'w tool_link \<Rightarrow> nat \<Rightarrow> bytes \<Rightarrow> 'w \<Rightarrow> bytes option \<times> 'w" where
  \<comment> \<open>the loop of \<open>GetOutputPathFromRemote\<close>; 10 is the end of a line\<close>
  "receive_line lk n receivedMsg w =
     (if receivedMsg \<noteq> [] \<and> last receivedMsg = 10 then (Some receivedMsg, w)
      else
        (case n of
           0 \<Rightarrow> (None, w)
         | Suc n \<Rightarrow>
             let ((len, msg), w) = tl_wait lk 1 w in
             if len = 0 then receive_line lk n receivedMsg w
             else if len < 0 then (Some receivedMsg, w)
             else receive_line lk n (receivedMsg @ msg) w))"

declare receive_line.simps [simp del]

definition data_path_request :: "string \<Rightarrow> int \<Rightarrow> bytes" where
  "data_path_request kernelName deviceId =
     ProfPacketHead DATA_PATH (NAME_MAX_LENGTH + 4) @ char_field NAME_MAX_LENGTH kernelName @
     Serialize_u 4 (nat (deviceId mod 2 ^ 32))"

definition GetOutputPathFromRemote :: "'w tool_link \<Rightarrow> string \<Rightarrow> int \<Rightarrow> 'w \<Rightarrow> string \<times> 'w" where
  "GetOutputPathFromRemote lk kernelName deviceId w =
     (if kernelName = [] then ([], w)
      else if length kernelName \<ge> NAME_MAX_LENGTH then ([], w)
      else
        let (ok, w) = sent lk (data_path_request kernelName deviceId) w in
        if \<not> ok then ([], w)
        else (case receive_line lk MAX_NUM_PACKET [] w of
                (None, w) \<Rightarrow> ([], w)
              | (Some receivedMsg, w) \<Rightarrow> (chars (butlast receivedMsg), w)))"

definition InitProfConfig :: "'w tool_link \<Rightarrow> ProfConfig \<Rightarrow> 'w \<Rightarrow> ProfConfig \<times> 'w" where
  "InitProfConfig lk c w =
     (let msg = ProfPacketHead CONFIG 0; (ret, w) = tl_notify lk msg w in
      if ret > 0 \<and> nat ret = length msg then
        (case WaitForPayload lk sizeof_MessageOfProfConfig Deserialize_profConfig w of
           (None, w) \<Rightarrow> (c, w)
         | (Some m, w) \<Rightarrow> (c\<lparr>pf_config := m\<rparr>, w))
      else (c, w))"

definition LoadSocVersionFromEnv :: "'w tool_link \<Rightarrow> ProfConfig \<Rightarrow> ProfConfig" where
  "LoadSocVersionFromEnv lk c =
     (if \<not> IsSimulator c then c
      else
        let soc = tl_getenv lk ''CAMODEL_SOC_VERSION'';
            c = c\<lparr>pf_socVersion := soc\<rparr> in
        if soc \<noteq> [] then c
        else (case GetSocVersionFromEnvVar (tl_realpath lk) (tl_getenv lk ''ASCEND_HOME_PATH'') (Some (tl_getenv lk ''LD_LIBRARY_PATH'')) of
                None \<Rightarrow> c
              | Some v \<Rightarrow> c\<lparr>pf_socVersion := v\<rparr>))"

definition IsSimulatorLaunchedByDevice :: "'w tool_link \<Rightarrow> bool" where
  "IsSimulatorLaunchedByDevice lk \<longleftrightarrow> tl_getenv lk ''DEVICE_TO_SIMULATOR'' = ''true''"

definition InitConfigData :: "'w tool_link \<Rightarrow> ProfConfig \<Rightarrow> 'w \<Rightarrow> ProfConfig \<times> 'w" where
  "InitConfigData lk c w =
     (let (c, w) =
        (if IsSimulatorLaunchedByDevice lk then (c\<lparr>pf_config := (pf_config c)\<lparr>mp_isSimulator := True\<rparr>\<rparr>, w)
         else
           let (c, w) = InitProfConfig lk c w in
           (c\<lparr>pf_isAppReplay := (mp_replayMode (pf_config c) = ReplayMode_code MODE_APPLICATION),
              pf_isRangeReplay := (mp_replayMode (pf_config c) = ReplayMode_code MODE_RANGE)\<rparr>, w)) in
      (LoadSocVersionFromEnv lk c, w))"

definition pf0 :: ProfConfig where
  "pf0 = \<lparr>pf_config = mp0, pf_socVersion = [], pf_isAppReplay = False, pf_isRangeReplay = False, pf_isCaLogTrans = False\<rparr>"

definition new_ProfConfig :: "'w tool_link \<Rightarrow> 'w \<Rightarrow> ProfConfig \<times> 'w" where
  "new_ProfConfig lk w = InitConfigData lk pf0 w"

definition Reset_config :: "'w tool_link \<Rightarrow> ProfConfig \<Rightarrow> 'w \<Rightarrow> ProfConfig \<times> 'w" where
  "Reset_config lk c w = InitConfigData lk pf0 w"

definition PostNotify :: "'w tool_link \<Rightarrow> ProfConfig \<Rightarrow> int \<Rightarrow> 'w \<Rightarrow> nat option \<times> 'w" where
  \<comment> \<open>with \<open>rsp.termination\<close> when there was an answer\<close>
  "PostNotify lk c currentDeviceId w =
     (if \<not> mp_killAdvance (pf_config c) then (None, w)
      else
        let req = [1, 0, 0, 0] @ Serialize_u 4 (nat (currentDeviceId mod 2 ^ 32));
            (ok, w) = sent lk (ProfPacketHead PROCESS_CTRL 8 @ req) w in
        if \<not> ok then (None, w) else WaitForPayload lk 1 (Deserialize_u 1) w)"

definition GetMsopprofPath :: "'w tool_link \<Rightarrow> string" where
  "GetMsopprofPath lk =
     (if tl_getenv lk ''MSOPPROF_EXE_PATH'' \<noteq> [] then tl_getenv lk ''MSOPPROF_EXE_PATH''
      else (case GetAscendHomePath (tl_realpath lk) (tl_getenv lk ''ASCEND_HOME_PATH'') of
              None \<Rightarrow> []
            | Some home \<Rightarrow> JoinPath [home, ''tools'', ''msopt'']))"

definition pluginMap :: "(ProfDBIType \<times> string) list" where
  "pluginMap =
     [(MEMORY_CHART, ''libprofplugin_memorychart.so''), (OPERAND_RECORD, ''libprofplugin_operandrecord.so''),
      (INSTR_PROF_END, ''libprofplugin_instrprofend.so''), (INSTR_PROF_DFX, ''libprofplugin_instrprofend.so''),
      (INSTR_PROF_START, ''libprofplugin_instrprofstart.so''), (WARP_TIMELINE, ''libprofplugin_warptimeline.so'')]"

definition GetPluginPath :: "'w tool_link \<Rightarrow> ProfDBIType \<Rightarrow> string" where
  "GetPluginPath lk pluginType =
     (let opprofPath = GetMsopprofPath lk in
      if opprofPath = [] then []
      else (case map_of pluginMap pluginType of None \<Rightarrow> [] | Some so \<Rightarrow> JoinPath [opprofPath, ''lib64'', so]))"

definition SendMsg :: "'w tool_link \<Rightarrow> bytes \<Rightarrow> 'w \<Rightarrow> 'w" where
  "SendMsg lk msg w = snd (tl_notify lk msg w)"

section \<open>What an instrumentation needs\<close>

definition DBI_RECORD_TASKS :: "ProfDBIType list" where
  "DBI_RECORD_TASKS = [MEMORY_CHART, OPERAND_RECORD, WARP_TIMELINE]"

definition AppendExtraInfo ::
  "ProfConfig \<Rightarrow> ProfDBIType \<Rightarrow> string \<Rightarrow> string \<times> string list \<Rightarrow> (string \<times> string list) option"
where
  \<comment> \<open>on the path of the log and the compiler's arguments\<close>
  "AppendExtraInfo c mode outputPath a =
     (case mode of
        INSTR_PROF_START \<Rightarrow> Some (fst a, [''--kernel-bounded-pcstb-mode''])
      | INSTR_PROF_DFX \<Rightarrow>
          map_option (\<lambda>pipes. (JoinPath [outputPath, ''dfx_tune.log''],
              [''--dfx-region-instr-pipe='' @ pipes, ''--dfx-region-id-map='' @ JoinPath [outputPath, ''dfx_region_map.txt'']]))
            (GetInstrTimelinePipe c)
      | _ \<Rightarrow> Some a)"

definition AppendHbmOutParamInfoArgs :: "string list \<Rightarrow> string list" where
  "AppendHbmOutParamInfoArgs extraArgs =
     (if ''--append-hbmout-paraminfo'' \<in> set extraArgs then extraArgs else extraArgs @ [''--append-hbmout-paraminfo''])"

definition AppendHbmOutParamInfoToConfig :: "DBITaskConfig \<Rightarrow> DBITaskConfig" where
  "AppendHbmOutParamInfoToConfig c = c\<lparr>tc_extraCompilerArgs := AppendHbmOutParamInfoArgs (tc_extraCompilerArgs c)\<rparr>"

end
