(* ===== verification/ProfTask.thy ===== *)
theory ProfTask
  imports ProfConf
begin

text \<open>
  Models csrc/runtime/inject_helpers/ProfTask.h and .cpp: what the profiler starts and stops on the channels of
  the profiling driver for one run of a kernel, for the three families of chips, and the thread that writes
  what the channels deliver. The driver and the files are parameters. A channel's configuration is given by its
  bytes; \<open>malloc\<close> is taken to succeed.
\<close>

section \<open>The driver\<close>

record start_para =
  sp_channel_type :: nat
  sp_sample_period :: nat
  sp_real_time :: nat
  sp_user_data :: bytes

record 'w prof_drv =
  pd_start :: "nat \<Rightarrow> nat \<Rightarrow> start_para \<Rightarrow> 'w \<Rightarrow> int \<times> 'w"  \<comment> \<open>device, channel\<close>
  pd_stop :: "nat \<Rightarrow> nat \<Rightarrow> 'w \<Rightarrow> int \<times> 'w"
  pd_poll :: "nat \<Rightarrow> 'w \<Rightarrow> (int \<times> (nat \<times> nat) list) \<times> 'w"  \<comment> \<open>how many are ready, and the vector\<close>
  pd_read :: "nat \<Rightarrow> nat \<Rightarrow> nat \<Rightarrow> 'w \<Rightarrow> (int \<times> bytes) \<times> 'w"  \<comment> \<open>the result and what was stored\<close>
  pd_version :: "'w \<Rightarrow> int \<times> int"  \<comment> \<open>\<open>halGetAPIVersion\<close>\<close>
  pd_append :: "string \<Rightarrow> bytes \<Rightarrow> 'w \<Rightarrow> nat \<times> 'w"  \<comment> \<open>\<open>WriteBinary\<close> at the end of a file\<close>
  pd_running :: "'w \<Rightarrow> bool"  \<comment> \<open>\<open>profRunning_\<close>, as the reading thread sees it\<close>

definition CHANNEL_HCCS :: nat where "CHANNEL_HCCS = 9"
definition CHANNEL_AICORE :: nat where "CHANNEL_AICORE = 43"
definition CHANNEL_HWTS_LOG :: nat where "CHANNEL_HWTS_LOG = 45"
definition CHANNEL_TSFW_L2 :: nat where "CHANNEL_TSFW_L2 = 47"
definition CHANNEL_STARS_SOC_LOG_BUFFER :: nat where "CHANNEL_STARS_SOC_LOG_BUFFER = 50"
definition CHANNEL_FFTS_PROFILE_BUFFER_TASK :: nat where "CHANNEL_FFTS_PROFILE_BUFFER_TASK = 53"
definition CHANNEL_AICPU :: nat where "CHANNEL_AICPU = 143"

definition PROF_TS_TYPE :: nat where "PROF_TS_TYPE = 0"
definition PROF_PERIPHERAL_TYPE :: nat where "PROF_PERIPHERAL_TYPE = 1"
definition PROF_REAL :: nat where "PROF_REAL = 1"

section \<open>Configurations of the channels\<close>

definition words32 :: "nat list \<Rightarrow> bytes" where
  "words32 vs = Serialize_cat (map (Serialize_u 4) vs)"

definition words16 :: "nat list \<Rightarrow> bytes" where
  "words16 vs = Serialize_cat (map (Serialize_u 2) vs)"

definition ts_para :: "bytes \<Rightarrow> start_para" where
  "ts_para data = \<lparr>sp_channel_type = PROF_TS_TYPE, sp_sample_period = 0, sp_real_time = PROF_REAL, sp_user_data = data\<rparr>"

definition peripheral_para :: "nat \<Rightarrow> start_para" where
  "peripheral_para period =
     \<lparr>sp_channel_type = PROF_PERIPHERAL_TYPE, sp_sample_period = period, sp_real_time = PROF_REAL, sp_user_data = []\<rparr>"

definition AicpuTask_GetTask :: start_para where "AicpuTask_GetTask = peripheral_para 100"
definition HccsTask_GetTask :: start_para where "HccsTask_GetTask = peripheral_para 10"

definition IsDataLoss :: "'w prof_drv \<Rightarrow> 'w \<Rightarrow> bool" where
  "IsDataLoss drv w = (let (ret, version) = pd_version drv w in \<not> (ret \<noteq> 0 \<or> version < 0x07241a))"

definition InstrProfTask_GetTask :: "'w prof_drv \<Rightarrow> nat \<Rightarrow> 'w \<Rightarrow> start_para" where
  \<comment> \<open>period, mode, group type and number; the second version has one more byte\<close>
  "InstrProfTask_GetTask drv mode w = ts_para (words32 [32, mode, 0, 0] @ (if IsDataLoss drv w then [1] else []))"

definition core_mask :: nat where "core_mask = 0xFFFFFFFF"
definition FFTS_PROF_CFG_TYPE :: nat where "FFTS_PROF_CFG_TYPE = 5"
definition FFTS_PROF_CFG_MODE :: nat where "FFTS_PROF_CFG_MODE = 3"

definition FftsA5_config :: "nat list \<Rightarrow> bytes" where
  \<comment> \<open>one \<open>AccProfileConfigT\<close>\<close>
  "FftsA5_config events = words32 [FFTS_PROF_CFG_TYPE, 0, core_mask, PMU_EVENT_MAX_NUM_A5] @ words16 events"

definition FftsA5Task_GetTask :: "bool \<Rightarrow> nat list \<Rightarrow> nat list \<Rightarrow> start_para" where
  \<comment> \<open>tag, shrink flag and scale at the end\<close>
  "FftsA5Task_GetTask useProfileMode aic aiv =
     ts_para (words32 [FFTS_PROF_CFG_MODE] @ FftsA5_config aic @ FftsA5_config aiv @ words32 [0, 2, if useProfileMode then 1 else 0])"

definition Ffts_config :: "nat list \<Rightarrow> bytes" where
  "Ffts_config events = words32 [FFTS_PROF_CFG_TYPE, 0, core_mask, PMU_EVENT_MAX_NUM] @ words16 events"

definition FftsTask_GetTask :: "bool \<Rightarrow> nat list \<Rightarrow> nat list \<Rightarrow> start_para" where
  "FftsTask_GetTask useProfileMode aic aiv =
     ts_para (words32 [FFTS_PROF_CFG_MODE] @ Ffts_config aic @ Ffts_config aiv @ words32 [if useProfileMode then 0x10000 else 0])"

definition StarsTask_GetTask :: start_para where
  "StarsTask_GetTask = ts_para (words32 [1, 1, 0, 0, 0, 0, 1, 0, 0])"

definition StarsTask_GetTaskA5 :: start_para where
  "StarsTask_GetTaskA5 = ts_para (words32 [1, 1, 0, 0, 0, 0, 1, 0, 0, 0, 0])"

definition AiCoreTask_GetTask :: "nat list \<Rightarrow> start_para" where
  "AiCoreTask_GetTask events = ts_para (words32 ([0, 0, 0, 0, PMU_EVENT_MAX_NUM] @ events @ [0]))"

definition HwtsTask_GetTask :: start_para where "HwtsTask_GetTask = ts_para (words32 [0])"

definition L2CacheTask_GetTask :: "nat list \<Rightarrow> start_para" where
  "L2CacheTask_GetTask events = ts_para (words32 (PMU_EVENT_MAX_NUM # events))"

definition GetL2cacheEvict :: "nat list \<Rightarrow> start_para" where
  \<comment> \<open>eight more words than the structure has\<close>
  "GetL2cacheEvict events = ts_para (words32 (PMU_EVENT_MAX_NUM # events @ replicate 8 0))"

section \<open>The task\<close>

datatype chip_family = TaskA5 | Task910B | Task310P

datatype InstrProfState = IDLE | PC_SAMPLING | TIMELINE | DONE

record ProfTask =
  tk_family :: chip_family
  tk_profRunning :: bool
  tk_isL2CacheStart :: bool
  tk_isHccs :: bool
  tk_config :: MessageOfProfConfig
  tk_deviceId :: nat
  tk_isLastReplay :: bool
  tk_hasSimt :: bool
  tk_instrProfState :: InstrProfState
  tk_isStarsStart :: bool
  tk_isAiCoreStart :: bool
  tk_isHwtsStart :: bool

definition new_ProfTask :: "chip_family \<Rightarrow> MessageOfProfConfig \<Rightarrow> nat \<Rightarrow> ProfTask" where
  "new_ProfTask family config deviceId =
     \<lparr>tk_family = family, tk_profRunning = False, tk_isL2CacheStart = False, tk_isHccs = False, tk_config = config,
      tk_deviceId = deviceId, tk_isLastReplay = False, tk_hasSimt = False, tk_instrProfState = IDLE, tk_isStarsStart = False,
      tk_isAiCoreStart = False, tk_isHwtsStart = False\<rparr>"

definition ProfTaskFactory_Create :: "string \<Rightarrow> MessageOfProfConfig \<Rightarrow> int \<Rightarrow> ProfTask" where
  "ProfTaskFactory_Create socVersion config runningDevice =
     new_ProfTask
       (if StartsWith socVersion ''Ascend310P'' then Task310P
        else if StartsWith socVersion ''Ascend910B'' then Task910B
        else if StartsWith socVersion ''Ascend950'' then TaskA5 else Task910B)
       config (nat (runningDevice mod 2 ^ 32))"

definition instrProfChn :: "(nat \<times> nat \<times> nat) list" where
  \<comment> \<open>channel, group type, group number, in the order of the map\<close>
  "instrProfChn = map (\<lambda>i. (11 + i, i mod 3, i div 3)) [0..<18]"

definition round_events :: "nat \<Rightarrow> nat list \<Rightarrow> nat \<Rightarrow> nat list" where
  "round_events n pmu replayCount = take n (drop (replayCount * n) pmu)"

definition start_channel :: "'w prof_drv \<Rightarrow> nat \<Rightarrow> start_para \<Rightarrow> ProfTask \<Rightarrow> 'w \<Rightarrow> bool \<times> 'w" where
  "start_channel drv chan para t w = (let (ret, w) = pd_start drv (tk_deviceId t) chan para w in (ret = 0, w))"

fun start_instr_channels :: "'w prof_drv \<Rightarrow> start_para \<Rightarrow> ProfTask \<Rightarrow> (nat \<times> nat \<times> nat) list \<Rightarrow> 'w \<Rightarrow> 'w" where
  "start_instr_channels drv para t [] w = w"
| "start_instr_channels drv para t ((chan, _) # cs) w =
     start_instr_channels drv para t cs (snd (pd_start drv (tk_deviceId t) chan para w))"

definition StartInstrProfTask :: "'w prof_drv \<Rightarrow> nat \<Rightarrow> ProfTask \<Rightarrow> 'w \<Rightarrow> bool \<times> 'w" where
  "StartInstrProfTask drv mode t w =
     (True, start_instr_channels drv (InstrProfTask_GetTask drv mode w) t instrProfChn w)"

definition StartFFTSTask_A5 :: "'w prof_drv \<Rightarrow> nat \<Rightarrow> ProfTask \<Rightarrow> 'w \<Rightarrow> (bool \<times> ProfTask) \<times> 'w" where
  "StartFFTSTask_A5 drv replayCount t w =
     (let n = PMU_EVENT_MAX_NUM_A5; aic = mp_aicPmu (tk_config t); aiv = mp_aivPmu (tk_config t) in
      if replayCount \<ge> EVENT_MAX_NUM_A5 div n then ((False, t), w)
      else
        let para = FftsA5Task_GetTask (mp_useProfileMode (tk_config t)) (round_events n aic replayCount) (round_events n aiv replayCount);
            (ok, w) = start_channel drv CHANNEL_FFTS_PROFILE_BUFFER_TASK para t w in
        if \<not> ok then ((False, t), w)
        else if replayCount = EVENT_MAX_NUM_A5 div n - 1 \<or> aic ! (replayCount * n + n) = 0 \<and> aiv ! (replayCount * n + n) = 0
          then ((True, t\<lparr>tk_isLastReplay := True\<rparr>), w)
        else ((True, t), w))"

definition StartStarsTask :: "'w prof_drv \<Rightarrow> ProfTask \<Rightarrow> 'w \<Rightarrow> (bool \<times> ProfTask) \<times> 'w" where
  "StartStarsTask drv t w =
     (let para = (if tk_family t = TaskA5 then StarsTask_GetTaskA5 else StarsTask_GetTask);
          (ok, w) = start_channel drv CHANNEL_STARS_SOC_LOG_BUFFER para t w in
      if \<not> ok then ((False, t), w) else ((True, t\<lparr>tk_isStarsStart := True\<rparr>), w))"

definition timeline_on :: "ProfConfig \<Rightarrow> bool" where
  "timeline_on c \<longleftrightarrow> IsInstrTimelineEnabled c \<or> IsPipeTimelineEnabled c"

definition start_round :: "('w \<Rightarrow> (bool \<times> ProfTask) \<times> 'w) \<Rightarrow> 'w prof_drv \<Rightarrow> 'w \<Rightarrow> (bool \<times> ProfTask) \<times> 'w" where
  \<comment> \<open>the counters, and the durations with the last of them\<close>
  "start_round ffts drv w =
     (let ((ok, t), w) = ffts w in
      if \<not> ok then ((False, t), w)
      else if \<not> tk_isStarsStart t \<and> tk_isLastReplay t then StartStarsTask drv t w
      else ((True, t), w))"

definition Start_A5 :: "'w prof_drv \<Rightarrow> ProfConfig \<Rightarrow> nat \<Rightarrow> bool \<Rightarrow> ProfTask \<Rightarrow> 'w \<Rightarrow> (bool \<times> ProfTask) \<times> 'w" where
  "Start_A5 drv c replayCount hasSimt t w =
     (let t = t\<lparr>tk_profRunning := True, tk_hasSimt := hasSimt\<rparr> in
      if tk_instrProfState t = IDLE \<and> IsPCSamplingEnabled c \<and> hasSimt then
        let t = t\<lparr>tk_instrProfState := PC_SAMPLING\<rparr>; (ok, w) = StartInstrProfTask drv 1 t w in ((ok, t), w)
      else if (tk_instrProfState t = IDLE \<or> tk_instrProfState t = TIMELINE) \<and> timeline_on c then
        let t = t\<lparr>tk_instrProfState := TIMELINE\<rparr>; (ok, w) = StartInstrProfTask drv 0 t w in ((ok, t), w)
      else start_round (StartFFTSTask_A5 drv replayCount t) drv w)"

fun stop_instr_channels :: "'w prof_drv \<Rightarrow> ProfTask \<Rightarrow> (nat \<times> nat \<times> nat) list \<Rightarrow> 'w \<Rightarrow> 'w" where
  \<comment> \<open>\<open>StopInstrProfChannels\<close>; lost data is only logged\<close>
  "stop_instr_channels drv t [] w = w"
| "stop_instr_channels drv t ((chan, _) # cs) w = stop_instr_channels drv t cs (snd (pd_stop drv (tk_deviceId t) chan w))"

definition stop_channel :: "'w prof_drv \<Rightarrow> ProfTask \<Rightarrow> bool \<Rightarrow> nat \<Rightarrow> 'w \<Rightarrow> 'w" where
  "stop_channel drv t started chan w = (if started then snd (pd_stop drv (tk_deviceId t) chan w) else w)"

definition Stop_A5 :: "'w prof_drv \<Rightarrow> ProfConfig \<Rightarrow> ProfTask \<Rightarrow> 'w \<Rightarrow> ProfTask \<times> 'w" where
  "Stop_A5 drv c t w =
     (let w = stop_channel drv t True CHANNEL_FFTS_PROFILE_BUFFER_TASK w;
          w = stop_channel drv t (tk_isStarsStart t) CHANNEL_STARS_SOC_LOG_BUFFER w;
          (t, w) =
            (if tk_instrProfState t = PC_SAMPLING then
               (t\<lparr>tk_instrProfState := (if timeline_on c then TIMELINE else DONE)\<rparr>, stop_instr_channels drv t instrProfChn w)
             else if tk_instrProfState t = TIMELINE then (t\<lparr>tk_instrProfState := DONE\<rparr>, stop_instr_channels drv t instrProfChn w)
             else (t, w)) in
      (t\<lparr>tk_profRunning := False\<rparr>, w))"

definition StartFFTSTask :: "'w prof_drv \<Rightarrow> nat \<Rightarrow> ProfTask \<Rightarrow> 'w \<Rightarrow> (bool \<times> ProfTask) \<times> 'w" where
  "StartFFTSTask drv replayCount t w =
     (let n = PMU_EVENT_MAX_NUM; aic = mp_aicPmu (tk_config t); aiv = mp_aivPmu (tk_config t) in
      if replayCount > EVENT_MAX_NUM div n - 1 then ((False, t), w)
      else
        let para = FftsTask_GetTask (mp_useProfileMode (tk_config t)) (round_events n aic replayCount) (round_events n aiv replayCount);
            (ok, w) = start_channel drv CHANNEL_FFTS_PROFILE_BUFFER_TASK para t w in
        if \<not> ok then ((False, t), w)
        else if replayCount = EVENT_MAX_NUM div n - 1 \<or> aic ! (replayCount * n + n) = 0 \<and> aiv ! (replayCount * n + n) = 0
          then ((True, t\<lparr>tk_isLastReplay := True\<rparr>), w)
        else ((True, t), w))"

definition StartTSFWTask :: "'w prof_drv \<Rightarrow> ProfTask \<Rightarrow> 'w \<Rightarrow> (bool \<times> ProfTask) \<times> 'w" where
  "StartTSFWTask drv t w =
     (if tk_isL2CacheStart t then ((True, t), w)
      else
        let (ok, w) = start_channel drv CHANNEL_TSFW_L2
              (GetL2cacheEvict (take PMU_EVENT_MAX_NUM (mp_l2CachePmu (tk_config t)))) t w in
        if \<not> ok then ((False, t), w) else ((True, t\<lparr>tk_isL2CacheStart := True\<rparr>), w))"

definition StartHCCSTask :: "'w prof_drv \<Rightarrow> ProfTask \<Rightarrow> 'w \<Rightarrow> (bool \<times> ProfTask) \<times> 'w" where
  "StartHCCSTask drv t w =
     (if tk_isHccs t then ((True, t), w)
      else let (ok, w) = start_channel drv CHANNEL_HCCS HccsTask_GetTask t w in
        if \<not> ok then ((False, t), w) else ((True, t\<lparr>tk_isHccs := True\<rparr>), w))"

definition ffts_and_aicpu :: "'w prof_drv \<Rightarrow> bool \<Rightarrow> nat \<Rightarrow> ProfTask \<Rightarrow> 'w \<Rightarrow> (bool \<times> ProfTask) \<times> 'w" where
  "ffts_and_aicpu drv mc2 replayCount t w =
     (let ((ok, t), w) = StartFFTSTask drv replayCount t w in
      if \<not> ok then ((False, t), w)
      else if replayCount = 0 \<and> mc2 then
        let (ok, w) = start_channel drv CHANNEL_AICPU AicpuTask_GetTask t w in ((ok, t), w)
      else ((True, t), w))"

definition Start_910B :: "'w prof_drv \<Rightarrow> bool \<Rightarrow> nat \<Rightarrow> ProfTask \<Rightarrow> 'w \<Rightarrow> (bool \<times> ProfTask) \<times> 'w" where
  \<comment> \<open>\<open>mc2\<close>: the flag of theory KernelCtx\<close>
  "Start_910B drv mc2 replayCount t w =
     (let t = t\<lparr>tk_profRunning := True\<rparr>; l2 = mp_l2CachePmu (tk_config t) in
      if l2 ! 0 \<noteq> 0 then StartTSFWTask drv (t\<lparr>tk_config := (tk_config t)\<lparr>mp_l2CachePmu := l2[0 := 0]\<rparr>\<rparr>) w
      else start_round (ffts_and_aicpu drv mc2 replayCount t) drv w)"

definition Stop_910B :: "'w prof_drv \<Rightarrow> bool \<Rightarrow> ProfTask \<Rightarrow> 'w \<Rightarrow> ProfTask \<times> 'w" where
  "Stop_910B drv mc2 t w =
     (let w = stop_channel drv t True CHANNEL_FFTS_PROFILE_BUFFER_TASK w;
          w = stop_channel drv t (tk_isStarsStart t) CHANNEL_STARS_SOC_LOG_BUFFER w;
          w = stop_channel drv t (tk_isLastReplay t \<and> mc2) CHANNEL_AICPU w;
          w = stop_channel drv t (tk_isL2CacheStart t) CHANNEL_TSFW_L2 w;
          w = stop_channel drv t (tk_isHccs t) CHANNEL_HCCS w in
      (t\<lparr>tk_profRunning := False\<rparr>, w))"

definition StartHwtsTask :: "'w prof_drv \<Rightarrow> ProfTask \<Rightarrow> 'w \<Rightarrow> (bool \<times> ProfTask) \<times> 'w" where
  "StartHwtsTask drv t w =
     (let (ok, w) = start_channel drv CHANNEL_HWTS_LOG HwtsTask_GetTask t w in
      if \<not> ok then ((False, t), w) else ((True, t\<lparr>tk_isHwtsStart := True\<rparr>), w))"

definition start_aicore :: "'w prof_drv \<Rightarrow> nat \<Rightarrow> nat list \<Rightarrow> ProfTask \<Rightarrow> 'w \<Rightarrow> (bool \<times> ProfTask) \<times> 'w" where
  "start_aicore drv replayCount events t w =
     (if events ! 0 \<noteq> 0 \<or> replayCount = 0 then
        let (ok, w) = start_channel drv CHANNEL_AICORE (AiCoreTask_GetTask events) t w in
        if \<not> ok then ((False, t), w) else ((True, t\<lparr>tk_isAiCoreStart := True\<rparr>), w)
      else ((True, t), w))"

definition start_l2 :: "'w prof_drv \<Rightarrow> nat \<Rightarrow> ProfTask \<Rightarrow> 'w \<Rightarrow> (bool \<times> ProfTask) \<times> 'w" where
  "start_l2 drv replayCount t w =
     (let l2 = mp_l2CachePmu (tk_config t) in
      if replayCount = 0 \<and> l2 ! 0 \<noteq> 0 then
        let (ok, w) = start_channel drv CHANNEL_TSFW_L2 (L2CacheTask_GetTask (take PMU_EVENT_MAX_NUM l2)) t w in
        if \<not> ok then ((False, t), w) else ((True, t\<lparr>tk_isL2CacheStart := True\<rparr>), w)
      else ((True, t), w))"

definition Start_310P :: "'w prof_drv \<Rightarrow> nat \<Rightarrow> ProfTask \<Rightarrow> 'w \<Rightarrow> ((bool \<times> ProfTask) \<times> 'w) option" where
  \<comment> \<open>\<open>None\<close> when the event after the last one is read\<close>
  "Start_310P drv replayCount t w =
     (let t = t\<lparr>tk_profRunning := True\<rparr>; n = PMU_EVENT_MAX_NUM; aic = mp_aicPmu (tk_config t) in
      if replayCount \<ge> EVENT_MAX_NUM div n then Some ((False, t), w)
      else
        let ((ok, t), w) = start_aicore drv replayCount (round_events n aic replayCount) t w in
        if \<not> ok then Some ((False, t), w)
        else if tk_isHwtsStart t then Some (start_l2 drv replayCount t w)
        else if replayCount * n + n \<ge> length aic then None
        else
          let ((ok, t), w) = (if aic ! (replayCount * n + n) = 0 then StartHwtsTask drv t w else ((True, t), w)) in
          if \<not> ok then Some ((False, t), w) else Some (start_l2 drv replayCount t w))"

definition Stop_310P :: "'w prof_drv \<Rightarrow> ProfTask \<Rightarrow> 'w \<Rightarrow> ProfTask \<times> 'w" where
  "Stop_310P drv t w =
     (let w = stop_channel drv t (tk_isAiCoreStart t) CHANNEL_AICORE w;
          w = stop_channel drv t (tk_isHwtsStart t) CHANNEL_HWTS_LOG w;
          w = stop_channel drv t (tk_isL2CacheStart t) CHANNEL_TSFW_L2 w in
      (t\<lparr>tk_profRunning := False\<rparr>, w))"

definition Task_Start ::
  "'w prof_drv \<Rightarrow> ProfConfig \<Rightarrow> bool \<Rightarrow> nat \<Rightarrow> bool \<Rightarrow> ProfTask \<Rightarrow> 'w \<Rightarrow> ((bool \<times> ProfTask) \<times> 'w) option"
where
  \<comment> \<open>the virtual method\<close>
  "Task_Start drv c mc2 replayCount hasSimt t w =
     (case tk_family t of
        TaskA5 \<Rightarrow> Some (Start_A5 drv c replayCount hasSimt t w)
      | Task910B \<Rightarrow> Some (Start_910B drv mc2 replayCount t w)
      | Task310P \<Rightarrow> Start_310P drv replayCount t w)"

definition Task_Stop :: "'w prof_drv \<Rightarrow> ProfConfig \<Rightarrow> bool \<Rightarrow> ProfTask \<Rightarrow> 'w \<Rightarrow> ProfTask \<times> 'w" where
  "Task_Stop drv c mc2 t w =
     (case tk_family t of
        TaskA5 \<Rightarrow> Stop_A5 drv c t w
      | Task910B \<Rightarrow> Stop_910B drv mc2 t w
      | Task310P \<Rightarrow> Stop_310P drv t w)"

section \<open>The reading thread\<close>

definition PROF_CHANNEL_BUFFER_SIZE :: nat where "PROF_CHANNEL_BUFFER_SIZE = 1024 * 1024 * 2"
definition PROF_CHANNEL_NUM :: nat where "PROF_CHANNEL_NUM = 18"
definition MAX_BIN_FILE_SIZE :: nat where "MAX_BIN_FILE_SIZE = 1024 * 1024 * 1024"
definition sizeof_InstrProfHeadInfoT :: nat where "sizeof_InstrProfHeadInfoT = 8"

record InstrChnReadCtrl =
  ic_splitFileNum :: nat
  ic_InstrProfReadSize :: nat

definition ic0 :: InstrChnReadCtrl where "ic0 = \<lparr>ic_splitFileNum = 0, ic_InstrProfReadSize = 0\<rparr>"

definition channelFileMap :: "(nat \<times> string) list" where
  "channelFileMap =
     [(CHANNEL_FFTS_PROFILE_BUFFER_TASK, ''DeviceProf''), (CHANNEL_AICORE, ''DeviceProf''),
      (CHANNEL_STARS_SOC_LOG_BUFFER, ''duration.bin''), (CHANNEL_HWTS_LOG, ''duration.bin''),
      (CHANNEL_TSFW_L2, ''L2Cache.bin''), (CHANNEL_AICPU, ''aicpu.bin''), (CHANNEL_HCCS, ''hccs.bin'')]"

definition next_file :: "InstrChnReadCtrl \<Rightarrow> InstrChnReadCtrl" where
  \<comment> \<open>a file has at most one gigabyte\<close>
  "next_file ic =
     (if ic_InstrProfReadSize ic > MAX_BIN_FILE_SIZE - sizeof_InstrProfHeadInfoT - PROF_CHANNEL_BUFFER_SIZE
      then \<lparr>ic_splitFileNum = ic_splitFileNum ic + 1, ic_InstrProfReadSize = 0\<rparr> else ic)"

definition instr_file :: "InstrProfState \<Rightarrow> nat \<Rightarrow> string option" where
  "instr_file st n =
     (case st of PC_SAMPLING \<Rightarrow> Some (''pcSampling.bin.'' @ decimal n) | TIMELINE \<Rightarrow> Some (''timeline.bin.'' @ decimal n) | _ \<Rightarrow> None)"

definition instr_head :: "nat \<times> nat \<Rightarrow> int \<Rightarrow> bytes" where
  \<comment> \<open>group number, group type, length\<close>
  "instr_head chn validLen = Serialize_u 2 (snd chn) @ Serialize_u 2 (fst chn) @ Serialize_u 4 (nat (validLen mod 2 ^ 32))"

definition WriteInstrChannelData ::
  "'w prof_drv \<Rightarrow> ProfTask \<Rightarrow> string \<Rightarrow> nat \<Rightarrow> bytes \<Rightarrow> int \<Rightarrow> InstrChnReadCtrl \<Rightarrow> 'w \<Rightarrow> (bool \<times> InstrChnReadCtrl) \<times> 'w"
where
  \<comment> \<open>the class of the other chips answers \<open>false\<close>\<close>
  "WriteInstrChannelData drv t prefixName channelId data validLen ic w =
     (if tk_family t \<noteq> TaskA5 then ((False, ic), w)
      else
        (case map_of instrProfChn channelId of
           None \<Rightarrow> ((False, ic), w)
         | Some chn \<Rightarrow>
             let ic = next_file ic in
             (case instr_file (tk_instrProfState t) (ic_splitFileNum ic) of
                None \<Rightarrow> ((True, ic), w)
              | Some binName \<Rightarrow>
                  let binFile = JoinPath [prefixName, binName];
                      (n, w) = pd_append drv binFile (instr_head chn validLen) w in
                  if n = 0 then ((True, ic), w)
                  else
                    let ic = ic\<lparr>ic_InstrProfReadSize := ic_InstrProfReadSize ic + sizeof_InstrProfHeadInfoT\<rparr>;
                        (n, w) = pd_append drv binFile data w in
                    if n = 0 then ((True, ic), w)
                    else ((True, ic\<lparr>ic_InstrProfReadSize := ic_InstrProfReadSize ic + PROF_CHANNEL_BUFFER_SIZE\<rparr>), w))))"

definition read_channel ::
  "'w prof_drv \<Rightarrow> (nat \<Rightarrow> string) \<Rightarrow> (nat \<Rightarrow> nat) \<Rightarrow> ProfTask \<Rightarrow> nat \<times> nat \<Rightarrow> InstrChnReadCtrl \<Rightarrow> 'w \<Rightarrow> InstrChnReadCtrl \<times> 'w"
where
  \<comment> \<open>the output path and the number of the replay of a device\<close>
  "read_channel drv pathOf replayOf t c ic w =
     (let (dev, chan) = c; ((curLen, got), w) = pd_read drv dev chan PROF_CHANNEL_BUFFER_SIZE w;
          outBuf = take PROF_CHANNEL_BUFFER_SIZE (got @ replicate PROF_CHANNEL_BUFFER_SIZE 0) in
      if pathOf dev = [] then (ic, w)
      else
        let ((done, ic), w) = WriteInstrChannelData drv t (pathOf dev) chan outBuf curLen ic w in
        if done then (ic, w)
        else
          (case map_of channelFileMap chan of
             None \<Rightarrow> (ic, w)
           | Some fileName \<Rightarrow>
               if curLen \<le> 0 then (ic, w)
               else
                 let fileName = (if chan = CHANNEL_FFTS_PROFILE_BUFFER_TASK \<or> chan = CHANNEL_AICORE
                       then fileName @ decimal (replayOf dev + 1) @ ''.bin'' else fileName) in
                 (ic, snd (pd_append drv (JoinPath [pathOf dev, fileName]) (take (nat curLen) outBuf) w))))"

fun read_channels ::
  "'w prof_drv \<Rightarrow> (nat \<Rightarrow> string) \<Rightarrow> (nat \<Rightarrow> nat) \<Rightarrow> ProfTask \<Rightarrow> (nat \<times> nat) list \<Rightarrow> InstrChnReadCtrl \<Rightarrow> 'w \<Rightarrow> InstrChnReadCtrl \<times> 'w"
where
  "read_channels drv pathOf replayOf t [] ic w = (ic, w)"
| "read_channels drv pathOf replayOf t (c # cs) ic w =
     (let (ic, w) = read_channel drv pathOf replayOf t c ic w in read_channels drv pathOf replayOf t cs ic w)"

definition read_round ::
  "'w prof_drv \<Rightarrow> (nat \<Rightarrow> string) \<Rightarrow> (nat \<Rightarrow> nat) \<Rightarrow> ProfTask \<Rightarrow> InstrChnReadCtrl \<Rightarrow> 'w \<Rightarrow> InstrChnReadCtrl \<times> 'w"
where
  "read_round drv pathOf replayOf t ic w =
     (let ((ret, channels), w) = pd_poll drv PROF_CHANNEL_NUM w in
      read_channels drv pathOf replayOf t (take (min (nat ret) PROF_CHANNEL_NUM) channels) ic w)"

partial_function (option) ChannelRead ::
  "'w prof_drv \<Rightarrow> (nat \<Rightarrow> string) \<Rightarrow> (nat \<Rightarrow> nat) \<Rightarrow> ProfTask \<Rightarrow> InstrChnReadCtrl \<Rightarrow> 'w \<Rightarrow> (InstrChnReadCtrl \<times> 'w) option"
where
  "ChannelRead drv pathOf replayOf t ic w =
     (let (ic, w) = read_round drv pathOf replayOf t ic w in
      if pd_running drv w then ChannelRead drv pathOf replayOf t ic w else Some (ic, w))"

end
