(* ===== verification/ProfReplay.thy ===== *)
theory ProfReplay
  imports ProfTask
begin

text \<open>
  Models the class \<open>DataCollectInDevice\<close> of csrc/runtime/inject_helpers/ProfDataCollect.cpp as far as it runs kernels:
  the warm-up, the emptying of the cache, one replay, the replays of a kernel, the single run for instruction profiles
  and the replays of a captured range. The launch of the kernel is a function on the device, which the caller
  gives. The runtime, the driver and the kernels that clear the cache are parameters; what the reading thread
  (theory ProfTask) did is applied when it is joined.
\<close>

section \<open>The state\<close>

record RangeReplayConfig =
  rr_flag :: bool
  rr_count :: nat
  rr_stream :: ptr
  rr_outputs :: "string list"

definition rr0 :: RangeReplayConfig where "rr0 = \<lparr>rr_flag = False, rr_count = 0, rr_stream = 0, rr_outputs = []\<rparr>"

record DataCollect =
  dc_deviceId :: int
  dc_outputPath :: string
  dc_kernelName :: string
  dc_launchCtx :: "LaunchContext option"
  dc_hasSimt :: bool
  dc_replayCount :: nat
  dc_curFreq :: int
  dc_ratedFreq :: int
  dc_task :: ProfTask
  dc_isClearParamSuccess :: bool
  dc_profL2cacheEvict :: bool

record prof_globals =
  pg_deviceOutputPath :: "(int \<times> string) list"
  pg_deviceReplayCount :: "(int \<times> nat) list"
  pg_threadRangeConfig :: "(nat \<times> RangeReplayConfig) list"

record 'w prof_state =
  ps_dc :: DataCollect
  ps_mc :: MemoryContext
  ps_g :: prof_globals
  ps_k :: KernelContext
  ps_w :: 'w

record prof_command =
  pm_profSwitch :: "nat option"  \<comment> \<open>\<open>None\<close> when the member keeps what was on the stack\<close>
  pm_device :: int
  pm_type :: nat

record 'w prof_env =
  pe_api :: "'w acl_api"
  pe_drv :: "'w prof_drv"
  pe_files :: "'w binary_vendor"
  pe_shell :: "'w shell"
  pe_kernel :: kernel_env
  pe_soc :: string
  pe_device :: int  \<comment> \<open>the device of the calling thread\<close>
  pe_thread :: nat
  pe_pid :: nat
  pe_dumpPath :: string  \<comment> \<open>the variable \<open>DEVICE_PROF_DUMP_PATH\<close>\<close>
  pe_inRange :: bool  \<comment> \<open>\<open>IsInMstxRange\<close> of theory Markers\<close>
  pe_writable :: "string \<Rightarrow> 'w \<Rightarrow> bool"  \<comment> \<open>\<open>CheckWriteFilePathValid\<close>\<close>
  pe_openWrite :: "string \<Rightarrow> string \<Rightarrow> 'w \<Rightarrow> bool \<times> 'w"  \<comment> \<open>a file stream: whether it opened, with what was written\<close>
  pe_signal :: "'w \<Rightarrow> bool"  \<comment> \<open>\<open>g_receiveSignal\<close>\<close>
  pe_reader :: "ProfTask \<Rightarrow> prof_globals \<Rightarrow> 'w \<Rightarrow> 'w"
  pe_syncTimeout :: "ptr \<Rightarrow> 'w \<Rightarrow> int \<times> 'w"
  pe_cmo :: "ptr \<Rightarrow> nat \<Rightarrow> ptr \<Rightarrow> 'w \<Rightarrow> int \<times> 'w"
  pe_putHost :: "ptr \<Rightarrow> bytes \<Rightarrow> 'w \<Rightarrow> 'w"
  pe_clearL2 :: "nat \<Rightarrow> ptr \<Rightarrow> ptr list \<Rightarrow> 'w \<Rightarrow> bool \<times> 'w"  \<comment> \<open>\<open>CallClearL2Cache\<close>\<close>
  pe_emptyKernel :: "ptr \<Rightarrow> 'w \<Rightarrow> bool \<times> 'w"
  pe_profCommand :: "prof_command \<Rightarrow> 'w \<Rightarrow> 'w"
  pe_ratedFreq :: "int \<Rightarrow> 'w \<Rightarrow> int \<times> int"  \<comment> \<open>status and value\<close>
  pe_currentFreq :: "int \<Rightarrow> 'w \<Rightarrow> int \<times> int"
  pe_hcclComm :: ptr
  pe_createEvent :: "'w \<Rightarrow> (int \<times> ptr) \<times> 'w"
  pe_destroyEvent :: "ptr \<Rightarrow> 'w \<Rightarrow> 'w"
  pe_barrier :: "ptr \<Rightarrow> ptr \<Rightarrow> 'w \<Rightarrow> int \<times> 'w"
  pe_recordEvent :: "ptr \<Rightarrow> ptr \<Rightarrow> 'w \<Rightarrow> int \<times> 'w"
  pe_waitEvent :: "ptr \<Rightarrow> ptr \<Rightarrow> 'w \<Rightarrow> int \<times> 'w"
  pe_resetEvent :: "ptr \<Rightarrow> ptr \<Rightarrow> 'w \<Rightarrow> int \<times> 'w"
  pe_aicpuLaunch :: "AicpuLaunchArgs \<Rightarrow> 'w \<Rightarrow> int \<times> 'w"
  pe_captureBegin :: "ptr \<Rightarrow> 'w \<Rightarrow> int \<times> 'w"
  pe_riExecute :: "ptr \<Rightarrow> ptr \<Rightarrow> 'w \<Rightarrow> int \<times> 'w"

definition in_world :: "('w \<Rightarrow> 'a \<times> 'w) \<Rightarrow> 'w prof_state \<Rightarrow> 'a \<times> 'w prof_state" where
  "in_world f s = (let (r, w) = f (ps_w s) in (r, s\<lparr>ps_w := w\<rparr>))"

definition run_world :: "('w \<Rightarrow> 'w) \<Rightarrow> 'w prof_state \<Rightarrow> 'w prof_state" where
  "run_world f s = s\<lparr>ps_w := f (ps_w s)\<rparr>"

definition on_dc :: "(DataCollect \<Rightarrow> DataCollect) \<Rightarrow> 'w prof_state \<Rightarrow> 'w prof_state" where
  "on_dc f s = s\<lparr>ps_dc := f (ps_dc s)\<rparr>"

definition mc2_flag :: "'w prof_env \<Rightarrow> 'w prof_state \<Rightarrow> bool" where
  "mc2_flag env s \<longleftrightarrow> kd_isMC2 (GetDeviceContext (pe_kernel env) (ps_k s))"

definition lccl_flag :: "'w prof_env \<Rightarrow> 'w prof_state \<Rightarrow> bool" where
  "lccl_flag env s \<longleftrightarrow> kd_isLccl (GetDeviceContext (pe_kernel env) (ps_k s))"

definition backup_memory :: "'w prof_env \<Rightarrow> 'w prof_state \<Rightarrow> bool \<times> 'w prof_state" where
  "backup_memory env s =
     (let (ok, mc, w) = Backup (pe_api env) (pe_device env) (ps_mc s) (ps_w s) in (ok, s\<lparr>ps_mc := mc, ps_w := w\<rparr>))"

definition restore_memory :: "'w prof_env \<Rightarrow> 'w prof_state \<Rightarrow> bool \<times> 'w prof_state" where
  "restore_memory env s =
     (let (ok, mc, w) = Restore (pe_api env) (pe_device env) (ps_mc s) (ps_w s) in (ok, s\<lparr>ps_mc := mc, ps_w := w\<rparr>))"

section \<open>Emptying the cache\<close>

definition l2CacheClearTilingMap :: "(string \<times> nat \<times> nat) list" where
  \<comment> \<open>bytes for each core and the number of cores\<close>
  "l2CacheClearTilingMap =
    [(''Ascend910B1'', 8388608, 24), (''Ascend910B2'', 8388608, 24), (''Ascend910B2C'', 8388608, 24),
     (''Ascend910B3'', 10485760, 20), (''Ascend910B4'', 5242880, 20), (''Ascend910B4-1'', 10485760, 20),
     (''Ascend910_9391'', 8388608, 24), (''Ascend910_9392'', 8388608, 24), (''Ascend910_9381'', 8388608, 24),
     (''Ascend910_9382'', 8388608, 24), (''Ascend910_9372'', 10485760, 20), (''Ascend910_9362'', 10485760, 20),
     (''Ascend910_9363'', 10485760, 20), (''Ascend310P1'', 2097152, 10), (''Ascend310P3'', 2097152, 8),
     (''Ascend310P5'', 2097152, 8), (''Ascend310P7'', 2097152, 8), (''Ascend950DT_950x'', 4194304, 8),
     (''Ascend950DT_950y'', 4194304, 8), (''Ascend950DT_9571'', 4794880, 28), (''Ascend950DT_9572'', 4794880, 28),
     (''Ascend950DT_9573'', 4194304, 28), (''Ascend950DT_9574'', 4194304, 28), (''Ascend950DT_9575'', 4794880, 28),
     (''Ascend950DT_9576'', 4794880, 28), (''Ascend950DT_9577'', 4194304, 28), (''Ascend950DT_9578'', 4194304, 28),
     (''Ascend950DT_9581'', 4194304, 32), (''Ascend950DT_9582'', 4194304, 32), (''Ascend950DT_9583'', 3670016, 32),
     (''Ascend950DT_9584'', 3670016, 32), (''Ascend950DT_9585'', 4194304, 32), (''Ascend950DT_9586'', 4194304, 32),
     (''Ascend950DT_9587'', 3670016, 32), (''Ascend950DT_9588'', 3670016, 32), (''Ascend950DT_9591'', 3729920, 36),
     (''Ascend950DT_9592'', 3729920, 36), (''Ascend950DT_9595'', 3729920, 36), (''Ascend950DT_9596'', 3729920, 36),
     (''Ascend950DT_95A1'', 3728280, 36), (''Ascend950DT_95A2'', 3728280, 36), (''Ascend950PR_950z'', 2097152, 8),
     (''Ascend950PR_9579'', 4794880, 28), (''Ascend950PR_957b'', 4194304, 28), (''Ascend950PR_957c'', 4194304, 28),
     (''Ascend950PR_957d'', 3596800, 28), (''Ascend950PR_9589'', 4194304, 32), (''Ascend950PR_958b'', 3670016, 32),
     (''Ascend950PR_9599'', 3729920, 36)]"

record L2cacheParam =
  lp_flushBuffer :: ptr
  lp_buffer :: ptr
  lp_cmoBuffer :: ptr
  lp_stream :: ptr
  lp_blockLen :: ptr
  lp_l2Buffer :: ptr
  lp_blockDim :: nat
  lp_bufferSize :: nat

definition lp0 :: "ptr \<Rightarrow> L2cacheParam" where
  "lp0 stream = \<lparr>lp_flushBuffer = 0, lp_buffer = 0, lp_cmoBuffer = 0, lp_stream = stream, lp_blockLen = 0, lp_l2Buffer = 0,
     lp_blockDim = 0, lp_bufferSize = 0\<rparr>"

definition MallocBuffer :: "'w acl_api \<Rightarrow> L2cacheParam \<Rightarrow> 'w \<Rightarrow> (bool \<times> L2cacheParam) \<times> 'w" where
  \<comment> \<open>the pointer is stored by the call whatever it answers\<close>
  "MallocBuffer api param w =
     (let ((ret, p), w) = api_malloc api (lp_bufferSize param) ACL_MEM_MALLOC_HUGE_FIRST w; param = param\<lparr>lp_buffer := p\<rparr> in
      if ret \<noteq> ACL_SUCCESS then ((False, param), w)
      else
        let ((ret, p), w) = api_malloc api (lp_bufferSize param) ACL_MEM_MALLOC_HUGE_FIRST w; param = param\<lparr>lp_flushBuffer := p\<rparr> in
        if ret \<noteq> ACL_SUCCESS then ((False, param), w)
        else
          let ((ret, p), w) = api_malloc api (lp_bufferSize param) ACL_MEM_MALLOC_HUGE_FIRST w; param = param\<lparr>lp_cmoBuffer := p\<rparr> in
          ((ret = ACL_SUCCESS, param), w))"

definition load_tiling :: "'w prof_env \<Rightarrow> nat \<times> nat \<Rightarrow> ptr \<Rightarrow> L2cacheParam \<Rightarrow> 'w \<Rightarrow> (bool \<times> L2cacheParam) \<times> 'w" where
  \<comment> \<open>\<open>PrepareClearL2CacheParam\<close> while the host's buffer is there\<close>
  "load_tiling env tiling hostBlockLen param w =
     (let api = pe_api env; w = pe_putHost env hostBlockLen (Serialize_u 8 (fst tiling)) w;
          ((ret, p), w) = api_malloc api 32 ACL_MEM_MALLOC_HUGE_FIRST w; param = param\<lparr>lp_blockLen := p\<rparr> in
      if ret \<noteq> ACL_SUCCESS then ((False, param), snd (api_free api (lp_l2Buffer param) w))
      else
        let (ret, w) = api_copyAsync api (lp_blockLen param) 8 hostBlockLen 8 (lp_stream param) w;
            (ok, w) = (if ret \<noteq> ACL_SUCCESS then (False, w)
                       else let (ret, w) = api_sync api (lp_stream param) w in (ret = ACL_SUCCESS, w)) in
        if \<not> ok then
          ((False, param), snd (api_free api (lp_blockLen param) (snd (api_free api (lp_l2Buffer param) w))))
        else ((True, param\<lparr>lp_blockDim := snd tiling\<rparr>), w))"

definition PrepareClearL2CacheParam :: "'w prof_env \<Rightarrow> L2cacheParam \<Rightarrow> 'w \<Rightarrow> (bool \<times> L2cacheParam) \<times> 'w" where
  "PrepareClearL2CacheParam env param w =
     (case map_of l2CacheClearTilingMap (pe_soc env) of
        None \<Rightarrow> ((False, param), w)
      | Some tiling \<Rightarrow>
          let api = pe_api env; param = param\<lparr>lp_bufferSize := fst tiling * snd tiling\<rparr>;
              ((ok, param), w) = MallocBuffer api param w in
          if \<not> ok then ((False, param), w)
          else
            let ((ret, p), w) = api_malloc api (lp_bufferSize param) ACL_MEM_MALLOC_HUGE_FIRST w; param = param\<lparr>lp_l2Buffer := p\<rparr> in
            if ret \<noteq> ACL_SUCCESS then ((False, param), w)
            else
              let ((ret, hostBlockLen), w) = api_mallocHost api 8 w in
              if ret \<noteq> ACL_SUCCESS then ((False, param), snd (api_free api (lp_l2Buffer param) w))
              else
                let (r, w) = load_tiling env tiling hostBlockLen param w in (r, snd (api_freeHost api hostBlockLen w)))"

definition WaitClearL2Cache :: "'w prof_env \<Rightarrow> L2cacheParam \<Rightarrow> 'w \<Rightarrow> bool \<times> 'w" where
  "WaitClearL2Cache env param w =
     (let api = pe_api env; chipType = GetProductTypeBySocVersion (pe_soc env);
          (ret, w) = api_copyAsync api (lp_flushBuffer param) (lp_bufferSize param) (lp_buffer param) (lp_bufferSize param)
                       (lp_stream param) w in
      if ret \<noteq> ACL_SUCCESS then (False, w)
      else
        let (ret, w) = api_sync api (lp_stream param) w in
        if ret \<noteq> ACL_SUCCESS then (False, w)
        else
          let (ret, w) =
                (if IsChipSeriesTypeValid chipType ASCEND910B_SERIES \<or> IsChipSeriesTypeValid chipType ASCEND910_93_SERIES
                 then pe_cmo env (lp_cmoBuffer param) (lp_bufferSize param) (lp_stream param) w else (ACL_SUCCESS, w)) in
          if ret \<noteq> ACL_SUCCESS then (False, w)
          else let (ret, w) = api_sync api (lp_stream param) w in (ret = ACL_SUCCESS, w))"

definition free_nonnull :: "'w acl_api \<Rightarrow> ptr \<Rightarrow> 'w \<Rightarrow> 'w" where
  "free_nonnull api p w = (if p \<noteq> 0 then snd (api_free api p w) else w)"

definition FreeL2Cache :: "'w acl_api \<Rightarrow> L2cacheParam \<Rightarrow> 'w \<Rightarrow> 'w" where
  "FreeL2Cache api param w =
     free_nonnull api (lp_blockLen param) (free_nonnull api (lp_l2Buffer param) (free_nonnull api (lp_buffer param)
       (free_nonnull api (lp_cmoBuffer param) (free_nonnull api (lp_flushBuffer param) w))))"

definition ClearL2Cache :: "'w prof_env \<Rightarrow> L2cacheParam \<Rightarrow> 'w \<Rightarrow> bool \<times> 'w" where
  "ClearL2Cache env param w =
     (let (ok, w) = pe_clearL2 env (lp_blockDim param) (lp_stream param) [lp_l2Buffer param, lp_blockLen param] w in
      if \<not> ok then (False, w) else WaitClearL2Cache env param w)"

section \<open>One run of the kernel\<close>

definition IsPmuEventEmpty :: "'w prof_env \<Rightarrow> ProfConfig \<Rightarrow> nat \<Rightarrow> bool" where
  "IsPmuEventEmpty env c replayCount \<longleftrightarrow>
     (let a5 = IsChipSeriesTypeValid (GetProductTypeBySocVersion (pe_soc env)) ASCEND950_SERIES;
          nextPmuId = wrap32 (replayCount * (if a5 then PMU_EVENT_MAX_NUM_A5 else PMU_EVENT_MAX_NUM)) in
      nextPmuId \<ge> (if a5 then EVENT_MAX_NUM_A5 else EVENT_MAX_NUM) \<or>
      mp_aicPmu (pf_config c) ! nextPmuId = 0 \<and> mp_aivPmu (pf_config c) ! nextPmuId = 0)"

definition GetReplayTimes :: nat where "GetReplayTimes = EVENT_MAX_NUM div PMU_EVENT_MAX_NUM"

definition StartProf :: "'w prof_env \<Rightarrow> ProfConfig \<Rightarrow> 'w prof_state \<Rightarrow> (bool \<times> 'w prof_state) option" where
  "StartProf env c s =
     (let dc = ps_dc s in
      case Task_Start (pe_drv env) c (mc2_flag env s) (dc_replayCount dc) (dc_hasSimt dc) (dc_task dc) (ps_w s) of
        None \<Rightarrow> None
      | Some ((ok, t), w) \<Rightarrow>
          let s = s\<lparr>ps_dc := dc\<lparr>dc_task := t\<rparr>, ps_w := w\<rparr> in
          if \<not> ok then Some (False, s)
          else Some (True, s\<lparr>ps_g := (ps_g s)\<lparr>pg_deviceReplayCount :=
                 omap_put (dc_deviceId dc) (dc_replayCount dc) (pg_deviceReplayCount (ps_g s))\<rparr>\<rparr>))"

definition StopProf :: "'w prof_env \<Rightarrow> ProfConfig \<Rightarrow> 'w prof_state \<Rightarrow> 'w prof_state" where
  "StopProf env c s =
     (let (t, w) = Task_Stop (pe_drv env) c (mc2_flag env s) (dc_task (ps_dc s)) (ps_w s) in
      s\<lparr>ps_dc := (ps_dc s)\<lparr>dc_task := t\<rparr>, ps_w := w\<rparr>)"

definition join_reader :: "'w prof_env \<Rightarrow> 'w prof_state \<Rightarrow> 'w prof_state" where
  "join_reader env s = run_world (pe_reader env (dc_task (ps_dc s)) (ps_g s)) s"

definition LoadFrequency :: "'w prof_env \<Rightarrow> 'w prof_state \<Rightarrow> 'w prof_state" where
  "LoadFrequency env s =
     (let dev = dc_deviceId (ps_dc s);
          known = (\<lambda>(ret, v). if ret \<noteq> 0 then -1 else v) in
      on_dc (\<lambda>dc. dc\<lparr>dc_ratedFreq := known (pe_ratedFreq env dev (ps_w s)), dc_curFreq := known (pe_currentFreq env dev (ps_w s))\<rparr>) s)"

definition ProfCommandAction :: "'w prof_env \<Rightarrow> ProfConfig \<Rightarrow> nat \<Rightarrow> 'w prof_state \<Rightarrow> 'w prof_state" where
  "ProfCommandAction env c type s =
     (let chipType = GetProductTypeBySocVersion (pe_soc env); timestamp = 2 ^ 32;
          switch =
            (if IsChipSeriesTypeValid chipType ASCEND310P_SERIES then Some 4
             else if IsChipSeriesTypeValid chipType ASCEND910B_SERIES \<or> IsChipSeriesTypeValid chipType ASCEND910_93_SERIES
               then Some (0x10 + timestamp)
             else if IsChipSeriesTypeValid chipType ASCEND950_SERIES then
               (if timeline_on c \<or> IsPCSamplingEnabled c \<and> dc_hasSimt (ps_dc s) then Some (0x00800000 + timestamp) else Some timestamp)
             else None) in
      run_world (pe_profCommand env \<lparr>pm_profSwitch = switch, pm_device = dc_deviceId (ps_dc s), pm_type = type\<rparr>) s)"

definition PROF_COMMANDHANDLE_TYPE_START :: nat where "PROF_COMMANDHANDLE_TYPE_START = 1"

definition mc2_with_event ::
  "'w prof_env \<Rightarrow> ptr \<Rightarrow> ('w \<Rightarrow> bool \<times> 'w) \<Rightarrow> ptr \<Rightarrow> 'w prof_state \<Rightarrow> bool \<times> 'w prof_state"
where
  "mc2_with_event env stream launch event s =
     (let aicpu = kc_aicpu (ps_k s); (hcclRes, s) = in_world (pe_barrier env (pe_hcclComm env) stream) s in
      if hcclRes \<noteq> 0 then (False, s)
      else
        let (res, s) = in_world (pe_recordEvent env event stream) s in
        if res \<noteq> 0 then (False, s)
        else
          let (res, s) = in_world (pe_waitEvent env (ac_stm aicpu) event) s in
          if res \<noteq> 0 then (False, s)
          else
            let (aicpuRet, s) = in_world (pe_aicpuLaunch env aicpu) s;
                (ret, s) = in_world launch s;
                s = LoadFrequency env s;
                s = (if ret then run_world (\<lambda>w. snd (pe_syncTimeout env stream w)) s else s);
                s = (if aicpuRet = 0 then run_world (\<lambda>w. snd (pe_syncTimeout env (ac_stm aicpu) w)) s else s) in
            (ret, run_world (\<lambda>w. snd (pe_resetEvent env event (ac_stm aicpu) w)) s))"

definition MC2KernelLaunch ::
  "'w prof_env \<Rightarrow> ptr \<Rightarrow> ('w \<Rightarrow> bool \<times> 'w) \<Rightarrow> 'w prof_state \<Rightarrow> bool \<times> 'w prof_state"
where
  "MC2KernelLaunch env stream launch s =
     (if pe_hcclComm env = 0 then (False, s)
      else
        let ((res, event), s) = in_world (pe_createEvent env) s in
        if res \<noteq> 0 then (False, s)
        else let (ret, s) = mc2_with_event env stream launch event s in (ret, run_world (pe_destroyEvent env event) s))"

fun launch_times :: "('w \<Rightarrow> bool \<times> 'w) \<Rightarrow> nat \<Rightarrow> 'w \<Rightarrow> 'w" where
  "launch_times launch 0 w = w"
| "launch_times launch (Suc n) w = launch_times launch n (snd (launch w))"

definition launch_and_wait ::
  "'w prof_env \<Rightarrow> ptr \<Rightarrow> ('w \<Rightarrow> bool \<times> 'w) \<Rightarrow> ('w prof_state \<Rightarrow> 'w prof_state) \<Rightarrow> 'w prof_state \<Rightarrow> bool \<times> 'w prof_state"
where
  \<comment> \<open>the launch, what comes after it, and the wait, whose status is only logged\<close>
  "launch_and_wait env stream launch after s =
     (let (ret, s) = in_world launch s; s = after s in
      (ret, if ret then run_world (\<lambda>w. snd (pe_syncTimeout env stream w)) s else s))"

definition collect_run ::
  "'w prof_env \<Rightarrow> ProfConfig \<Rightarrow> ptr \<Rightarrow> ('w \<Rightarrow> bool \<times> 'w) \<Rightarrow> 'w prof_state \<Rightarrow> (bool \<times> 'w prof_state) option"
where
  \<comment> \<open>\<open>ReplayOnce\<close> from the start of the channels\<close>
  "collect_run env c stream launch s =
     (case StartProf env c s of
        None \<Rightarrow> None
      | Some (ok, s) \<Rightarrow>
          if \<not> ok then Some (False, StopProf env c s)
          else
            let s = (if dc_profL2cacheEvict (ps_dc s) then run_world (\<lambda>w. snd (pe_emptyKernel env stream w)) s else s);
                s = (if lccl_flag env s \<and> \<not> dc_profL2cacheEvict (ps_dc s)
                     then run_world (launch_times launch (GetWarmUpTimes c)) s else s);
                (ret, s) =
                  (if mc2_flag env s then MC2KernelLaunch env stream launch s
                   else launch_and_wait env stream launch
                     (\<lambda>s. if IsPmuEventEmpty env c (dc_replayCount (ps_dc s) + 1) then LoadFrequency env s else s) s) in
            Some (ret, join_reader env (StopProf env c s)))"

definition ReplayOnce ::
  "'w prof_env \<Rightarrow> ProfConfig \<Rightarrow> ptr \<Rightarrow> ('w \<Rightarrow> bool \<times> 'w) \<Rightarrow> L2cacheParam \<Rightarrow> 'w prof_state \<Rightarrow> (bool \<times> 'w prof_state) option"
where
  "ReplayOnce env c stream launch param s =
     (let rc = dc_replayCount (ps_dc s) in
      if IsPmuEventEmpty env c rc \<and> rc \<noteq> 0 then Some (True, s)
      else
        let s = (if \<not> pf_isAppReplay c \<and> dc_isClearParamSuccess (ps_dc s)
                 then run_world (\<lambda>w. snd (ClearL2Cache env param w)) s else s);
            (ok, s) = (if \<not> mc2_flag env s \<and> \<not> pf_isAppReplay c \<and> \<not> lccl_flag env s then restore_memory env s else (True, s)) in
        if \<not> ok then Some (False, s) else collect_run env c stream launch s)"

section \<open>Warm-up\<close>

fun warm_up_loop ::
  "'w prof_env \<Rightarrow> ptr \<Rightarrow> ('w \<Rightarrow> bool \<times> 'w) \<Rightarrow> nat \<Rightarrow> 'w prof_state \<Rightarrow> 'w prof_state"
where
  "warm_up_loop env stream launch 0 s = s"
| "warm_up_loop env stream launch (Suc n) s =
     (let (ok, s) = restore_memory env s in
      if \<not> ok then s
      else
        let s = run_world (\<lambda>w. snd (launch w)) s; (ret, s) = in_world (api_sync (pe_api env) stream) s in
        if ret \<noteq> ACL_SUCCESS then s else warm_up_loop env stream launch n s)"

fun copy_loop :: "'w acl_api \<Rightarrow> ptr \<Rightarrow> ptr \<Rightarrow> ptr \<Rightarrow> nat \<Rightarrow> 'w \<Rightarrow> bool \<times> 'w" where
  "copy_loop api dst src stream 0 w = (True, w)"
| "copy_loop api dst src stream (Suc n) w =
     (let (ret, w) = api_copyAsync api dst MB_TO_BYTES src MB_TO_BYTES stream w in
      if ret \<noteq> ACL_SUCCESS then (False, w) else copy_loop api dst src stream n w)"

definition warm_up_copies :: "'w acl_api \<Rightarrow> ptr \<Rightarrow> nat \<Rightarrow> 'w \<Rightarrow> 'w" where
  \<comment> \<open>when the application is run again: copies instead of the kernel; the blocks are freed on every way out\<close>
  "warm_up_copies api stream n w =
     (let ((ret, a), w) = api_malloc api MB_TO_BYTES ACL_MEM_MALLOC_HUGE_FIRST w in
      if ret \<noteq> ACL_SUCCESS then w
      else
        let ((ret, b), w) = api_malloc api MB_TO_BYTES ACL_MEM_MALLOC_HUGE_FIRST w in
        if ret \<noteq> ACL_SUCCESS then snd (api_free api a w)
        else
          let (ok, w) = copy_loop api b a stream n w;
              w = (if ok then snd (api_sync api stream w) else w) in
          snd (api_free api a (snd (api_free api b w))))"

definition WarmUp :: "'w prof_env \<Rightarrow> ProfConfig \<Rightarrow> ptr \<Rightarrow> ('w \<Rightarrow> bool \<times> 'w) \<Rightarrow> 'w prof_state \<Rightarrow> 'w prof_state" where
  "WarmUp env c stream launch s =
     (let warmUpTimes = GetWarmUpTimes c in
      if warmUpTimes = 0 \<or> mc2_flag env s \<or> lccl_flag env s then s
      else if \<not> pf_isAppReplay c then warm_up_loop env stream launch warmUpTimes s
      else run_world (warm_up_copies (pe_api env) stream warmUpTimes) s)"

section \<open>The replays of a kernel\<close>

definition SupportProfL2CacheEvict :: "'w prof_env \<Rightarrow> ProfConfig \<Rightarrow> bool" where
  "SupportProfL2CacheEvict env c \<longleftrightarrow>
     (let chipType = GetProductTypeBySocVersion (pe_soc env); m = pf_config c in
      (IsChipSeriesTypeValid chipType ASCEND910B_SERIES \<or> IsChipSeriesTypeValid chipType ASCEND910_93_SERIES) \<and>
      mp_aicPmu m ! 0 \<noteq> 0 \<and> mp_aivPmu m ! 0 \<noteq> 0 \<and> mp_l2CachePmu m ! 0 \<noteq> 0)"

fun replay_loop ::
  "'w prof_env \<Rightarrow> ProfConfig \<Rightarrow> ptr \<Rightarrow> ('w \<Rightarrow> bool \<times> 'w) \<Rightarrow> L2cacheParam \<Rightarrow> nat \<Rightarrow> bool \<Rightarrow> 'w prof_state \<Rightarrow>
   (bool \<times> bool \<times> 'w prof_state) option"
where
  \<comment> \<open>the result, whether the function returned from within, and the state; the counter ends the loop\<close>
  "replay_loop env c stream launch param 0 funcRet s = Some (funcRet, False, s)"
| "replay_loop env c stream launch param (Suc n) funcRet s =
     (if \<not> dc_replayCount (ps_dc s) < GetReplayTimes \<or> pe_signal env (ps_w s) then Some (funcRet, False, s)
      else
        (case ReplayOnce env c stream launch param s of
           None \<Rightarrow> None
         | Some (profRes, s) \<Rightarrow>
             let funcRet = (funcRet \<and> profRes) in
             if pf_isAppReplay c then Some (funcRet, True, s)
             else replay_loop env c stream launch param n funcRet (on_dc (\<lambda>dc. dc\<lparr>dc_replayCount := dc_replayCount dc + 1\<rparr>) s)))"

definition restore_finally :: "'w prof_env \<Rightarrow> 'w prof_state \<Rightarrow> 'w prof_state" where
  "restore_finally env s = (if \<not> mc2_flag env s \<and> \<not> lccl_flag env s then snd (restore_memory env s) else s)"

definition run_replays ::
  "'w prof_env \<Rightarrow> ProfConfig \<Rightarrow> ptr \<Rightarrow> ('w \<Rightarrow> bool \<times> 'w) \<Rightarrow> L2cacheParam \<Rightarrow> 'w prof_state \<Rightarrow> (bool \<times> 'w prof_state) option"
where
  \<comment> \<open>\<open>KernelReplay\<close> from the loop on\<close>
  "run_replays env c stream launch param s =
     (case replay_loop env c stream launch param GetReplayTimes True s of
        None \<Rightarrow> None
      | Some (funcRet, returned, s) \<Rightarrow>
          if returned then Some (funcRet, s)
          else Some (funcRet, run_world (FreeL2Cache (pe_api env) param) (restore_finally env s)))"

definition KernelReplay ::
  "'w prof_env \<Rightarrow> ProfConfig \<Rightarrow> ptr \<Rightarrow> ('w \<Rightarrow> bool \<times> 'w) \<Rightarrow> 'w prof_state \<Rightarrow> (bool \<times> 'w prof_state) option"
where
  "KernelReplay env c stream launch s =
     (if IsDbi c then Some (True, s)
      else
        let s = on_dc (\<lambda>dc. dc\<lparr>dc_replayCount := GetInitReplayCount c\<rparr>) s;
            ((clear, param), s) =
              (if pf_isAppReplay c then ((False, lp0 stream), s) else in_world (PrepareClearL2CacheParam env (lp0 stream)) s);
            s = on_dc (\<lambda>dc. dc\<lparr>dc_isClearParamSuccess := clear\<rparr>) s;
            s = WarmUp env c stream launch s;
            s = ProfCommandAction env c PROF_COMMANDHANDLE_TYPE_START s in
        if SupportProfL2CacheEvict env c then
          (case ReplayOnce env c stream launch param (on_dc (\<lambda>dc. dc\<lparr>dc_profL2cacheEvict := True\<rparr>) s) of
             None \<Rightarrow> None
           | Some (res, s) \<Rightarrow>
               let s = on_dc (\<lambda>dc. dc\<lparr>dc_profL2cacheEvict := False\<rparr>) s in
               if pf_isAppReplay c then Some (res, s) else run_replays env c stream launch param s)
        else run_replays env c stream launch param s)"

definition instr_run ::
  "'w prof_env \<Rightarrow> ptr \<Rightarrow> ('w \<Rightarrow> bool \<times> 'w) \<Rightarrow> 'w prof_state \<Rightarrow> bool \<times> 'w prof_state"
where
  "instr_run env stream launch s =
     (if mc2_flag env s then MC2KernelLaunch env stream launch s else launch_and_wait env stream launch (\<lambda>s. s) s)"

definition KernelLaunchForInstrProf ::
  "'w prof_env \<Rightarrow> ProfConfig \<Rightarrow> ptr \<Rightarrow> ('w \<Rightarrow> bool \<times> 'w) \<Rightarrow> 'w prof_state \<Rightarrow> (bool \<times> 'w prof_state) option"
where
  "KernelLaunchForInstrProf env c stream launch s =
     (let s = WarmUp env c stream launch s; s = ProfCommandAction env c PROF_COMMANDHANDLE_TYPE_START s in
      case StartProf env c s of
        None \<Rightarrow> None
      | Some (ok, s) \<Rightarrow>
          if \<not> ok then Some (False, StopProf env c s)
          else
            let (ret, s) = instr_run env stream launch s; s = join_reader env (StopProf env c s) in
            Some (ret, if pf_isAppReplay c then s else restore_finally env s))"

definition InstrProfData ::
  "'w prof_env \<Rightarrow> ProfConfig \<Rightarrow> ptr \<Rightarrow> ('w \<Rightarrow> bool \<times> 'w) \<Rightarrow> 'w prof_state \<Rightarrow> (bool \<times> 'w prof_state) option"
where
  "InstrProfData env c stream launch s =
     (if pf_isRangeReplay c then Some (False, s)
      else if dc_outputPath (ps_dc s) = [] then Some (True, s)
      else if \<not> bv_exists (pe_files env) (dc_outputPath (ps_dc s)) (ps_w s) then Some (False, s)
      else
        let (ok, s) = (if \<not> pf_isAppReplay c \<and> \<not> lccl_flag env s \<and> \<not> mc2_flag env s then backup_memory env s else (True, s)) in
        if \<not> ok then Some (False, s)
        else KernelLaunchForInstrProf env c stream launch (run_world (\<lambda>w. snd (api_sync (pe_api env) stream w)) s))"

end
