(* ===== verification/ProfCollect.thy ===== *)
theory ProfCollect
  imports ProfReplay
begin

text \<open>
  Models the rest of csrc/runtime/inject_helpers/ProfDataCollect.cpp: the making of the object of a launch, the
  profiling of a launch on the device and of a captured range, the files that describe it, the data that an
  instrumented kernel left, the collection when the program runs on the simulator, and the questions of class
  \<open>ProfDataCollect\<close> that the hooks of the launches ask. The simulator's own library is a parameter.
\<close>

section \<open>Paths and names\<close>

definition cut_last :: "string \<Rightarrow> string option" where
  "cut_last path =
     (case rfind_sub ''/'' path (length path) of
        None \<Rightarrow> None
      | Some found \<Rightarrow>
          let tmp = take found path; cut = rev (dropWhile (\<lambda>ch. ch = CHR ''/'') (rev tmp)) in
          Some (if cut = [] then tmp else cut))"

primrec RollbackPath :: "nat \<Rightarrow> string \<Rightarrow> string option" where
  "RollbackPath 0 path = Some (if path = [] then ''/'' else path)"
| "RollbackPath (Suc n) path = (case cut_last path of None \<Rightarrow> None | Some p \<Rightarrow> RollbackPath n p)"

fun name_length :: "string \<Rightarrow> nat \<Rightarrow> nat \<Rightarrow> nat \<Rightarrow> (nat \<times> nat) option" where
  \<comment> \<open>the loop over the digits: what is left of the name, the position, the value so far and the length of the name\<close>
  "name_length [] i n reqs = Some (i, n)"
| "name_length (ch # cs) i n reqs =
     (if \<not> isdigit ch then Some (i, n)
      else
        let n = n * 10 + (code ch - 48) in
        if i + 1 + n > reqs then None else name_length cs (i + 1) n reqs)"

definition KernelNameConver :: "string \<Rightarrow> string" where
  "KernelNameConver kernelName =
     (case find_sub ''_Z'' kernelName of
        None \<Rightarrow> kernelName
      | Some start \<Rightarrow>
          (case name_length (drop (start + 2) kernelName) (start + 2) 0 (length kernelName) of
             None \<Rightarrow> kernelName
           | Some (i, n) \<Rightarrow> if n > 0 then take n (drop i kernelName) else kernelName))"

definition short_name :: "(string \<Rightarrow> nat) \<Rightarrow> string \<Rightarrow> string" where
  \<comment> \<open>a name that is too long for a file, with the standard library's hash\<close>
  "short_name hash name = (if length name \<ge> 255 then take 72 name @ ''_'' @ decimal (hash (drop 72 name)) else name)"

section \<open>The object of a launch\<close>

definition lookup_func :: "contexts \<Rightarrow> LaunchContext \<Rightarrow> FuncContext" where
  "lookup_func cx l = cx_heap cx ! lx_func l"

definition new_DataCollect ::
  "'w prof_env \<Rightarrow> 'w tool_link \<Rightarrow> (string \<Rightarrow> nat) \<Rightarrow> ProfConfig \<Rightarrow> ProfTask \<Rightarrow> LaunchContext option \<Rightarrow> bool \<Rightarrow>
   contexts \<Rightarrow> KernelContext \<Rightarrow> prof_globals \<Rightarrow> 'w \<Rightarrow> (DataCollect \<times> prof_globals) \<times> 'w"
where
  \<comment> \<open>with the task of the object\<close>
  "new_DataCollect env lk hash c task ctx isInitOutput cx k g w =
     (let dc = \<lparr>dc_deviceId = 0, dc_outputPath = [], dc_kernelName = [], dc_launchCtx = None, dc_hasSimt = False, dc_replayCount = 0,
                 dc_curFreq = -1, dc_ratedFreq = -1, dc_task = task, dc_isClearParamSuccess = False, dc_profL2cacheEvict = False\<rparr> in
      if (case ctx of None \<Rightarrow> False | Some l \<Rightarrow> rg_type (fx_regCtx (lookup_func cx l)) = ACL_RT_BINARY_LOAD_OPT_CPU_KERNEL_MODE)
      then ((dc, g), w)
      else
        let dc = dc\<lparr>dc_deviceId := pe_device env\<rparr>; devId = (if IsSimulator c then 0 else pe_device env) in
        if \<not> isInitOutput then ((dc, g), w)
        else
          let dc = (if \<not> pe_inRange env then dc
                    else (case ctx of
                            None \<Rightarrow> dc\<lparr>dc_kernelName := GetLaunchName (GetDeviceContext (pe_kernel env) k) NO_ID\<rparr>
                          | Some l \<Rightarrow> dc\<lparr>dc_launchCtx := Some l, dc_kernelName := fx_kernelName (lookup_func cx l)\<rparr>));
              dc = dc\<lparr>dc_hasSimt := (case dc_launchCtx dc of None \<Rightarrow> kc_hasSimt k | Some l \<Rightarrow> rg_hasSimt (fx_regCtx (lookup_func cx l)))\<rparr>;
              ((path, g), w) =
                (if IsSimulatorLaunchedByDevice lk then ((tl_getenv lk ''MSOPPROF_OUTPUT_DUMP_PATH'', g), w)
                 else let (path, w) = GetOutputPathFromRemote lk (short_name hash (dc_kernelName dc)) devId w in
                   ((path, g\<lparr>pg_deviceOutputPath := omap_put devId path (pg_deviceOutputPath g)\<rparr>), w));
              w = (if path \<noteq> [] then snd (bv_mkdir (pe_files env) path w) else w) in
          ((dc\<lparr>dc_outputPath := path\<rparr>, g), w))"

definition GetAicoreOutputPath :: "prof_globals \<Rightarrow> int \<Rightarrow> string" where
  "GetAicoreOutputPath g device = (case map_of (pg_deviceOutputPath g) device of None \<Rightarrow> [] | Some p \<Rightarrow> p)"

definition GetDeviceReplayCount :: "prof_globals \<Rightarrow> int \<Rightarrow> nat \<times> prof_globals" where
  "GetDeviceReplayCount g device =
     (case map_of (pg_deviceReplayCount g) device of
        None \<Rightarrow> (0, g\<lparr>pg_deviceReplayCount := omap_put device 0 (pg_deviceReplayCount g)\<rparr>)
      | Some n \<Rightarrow> (n, g))"

definition GetThreadRangeConfigMap :: "nat \<Rightarrow> prof_globals \<Rightarrow> RangeReplayConfig \<times> prof_globals" where
  "GetThreadRangeConfigMap threadId g =
     (case map_of (pg_threadRangeConfig g) threadId of
        None \<Rightarrow> (rr0, g\<lparr>pg_threadRangeConfig := omap_put threadId rr0 (pg_threadRangeConfig g)\<rparr>)
      | Some r \<Rightarrow> (r, g))"

definition change_range :: "nat \<Rightarrow> (RangeReplayConfig \<Rightarrow> RangeReplayConfig) \<Rightarrow> prof_globals \<Rightarrow> prof_globals" where
  \<comment> \<open>a change of \<open>threadRangeConfigMap_[threadId]\<close>\<close>
  "change_range threadId f g =
     (let (r, g) = GetThreadRangeConfigMap threadId g in
      g\<lparr>pg_threadRangeConfig := omap_put threadId (f r) (pg_threadRangeConfig g)\<rparr>)"

definition ResetRangeConfig :: "nat \<Rightarrow> prof_globals \<Rightarrow> prof_globals" where
  "ResetRangeConfig threadId g =
     (if map_of (pg_threadRangeConfig g) threadId = None then g
      else change_range threadId (\<lambda>r. r\<lparr>rr_flag := False, rr_stream := 0, rr_outputs := []\<rparr>) g)"

section \<open>Files\<close>

definition save_text :: "'w prof_env \<Rightarrow> string \<Rightarrow> string \<Rightarrow> 'w prof_state \<Rightarrow> bool \<times> 'w prof_state" where
  "save_text env path content s =
     (if \<not> pe_writable env path (ps_w s) then (False, s)
      else
        let (opened, s) = in_world (pe_openWrite env path content) s in
        if \<not> opened then (False, s)
        else (True, run_world (\<lambda>w. snd (sl_chmod (pe_shell env) path SAVE_DATA_FILE_AUTHORITY w)) s))"

definition freq_text :: "int \<Rightarrow> string" where
  "freq_text f = (if f \<noteq> -1 then decimal_int f else ''NA'')"

definition freq_lines :: "DataCollect \<Rightarrow> string" where
  "freq_lines dc = ''Current Freq='' @ freq_text (dc_curFreq dc) @ ''\<newline>'' @ ''Rated Freq='' @ freq_text (dc_ratedFreq dc) @ ''\<newline>''"

definition flag_text :: "bool \<Rightarrow> string" where "flag_text b = (if b then ''1'' else ''0'')"

definition basic_info :: "'w prof_env \<Rightarrow> ProfConfig \<Rightarrow> 'w prof_state \<Rightarrow> string" where
  "basic_info env c s =
     (let dc = ps_dc s;
          blockDim = (case dc_launchCtx dc of Some l \<Rightarrow> lx_blockDim l | None \<Rightarrow> GetBlockId (GetDeviceContext (pe_kernel env) (ps_k s))) in
      ''Op Name='' @ KernelNameConver (dc_kernelName dc) @ ''\<newline>'' @
      ''Block Dim='' @ decimal blockDim @ ''\<newline>'' @
      ''Run Soc Version='' @ pe_soc env @ ''\<newline>'' @
      ''Device Id='' @ decimal_int (dc_deviceId dc) @ ''\<newline>'' @
      (if \<not> pf_isAppReplay c then ''Pid='' @ decimal (pe_pid env) @ ''\<newline>'' else []) @
      (if \<not> pf_isRangeReplay c then freq_lines dc else []) @
      ''Is MC2='' @ flag_text (mc2_flag env s) @ ''\<newline>'' @
      ''Is Lccl='' @ flag_text (lccl_flag env s) @ ''\<newline>'' @
      ''Has Simt='' @ flag_text (dc_hasSimt dc) @ ''\<newline>'')"

definition SaveBasicInfo :: "'w prof_env \<Rightarrow> ProfConfig \<Rightarrow> 'w prof_state \<Rightarrow> 'w prof_state" where
  "SaveBasicInfo env c s = snd (save_text env (JoinPath [dc_outputPath (ps_dc s), ''op_basic_info.txt'']) (basic_info env c s) s)"

definition SaveFrequency :: "'w prof_env \<Rightarrow> string \<Rightarrow> 'w prof_state \<Rightarrow> 'w prof_state" where
  "SaveFrequency env outputPath s = snd (save_text env (JoinPath [outputPath, ''freq.txt'']) (freq_lines (ps_dc s)) s)"

section \<open>A captured range\<close>

definition range_path :: "'w prof_env \<Rightarrow> DataCollect \<Rightarrow> nat \<Rightarrow> string" where
  "range_path env dc n = JoinPath [pe_dumpPath env, ''device'' @ decimal_int (dc_deviceId dc), decimal (pe_pid env), decimal n]"

definition RangeReplayInit :: "'w prof_env \<Rightarrow> 'w prof_state \<Rightarrow> (bool \<times> bool) \<times> 'w prof_state" where
  \<comment> \<open>the result and \<open>needReplay\<close>\<close>
  "RangeReplayInit env s =
     (let (rangeConfig, g) = GetThreadRangeConfigMap (pe_thread env) (ps_g s);
          s = s\<lparr>ps_g := ResetRangeConfig (pe_thread env) g\<rparr> in
      if \<not> rr_flag rangeConfig \<or> list_all (\<lambda>out. out = ''-1'') (rr_outputs rangeConfig) then ((True, False), s)
      else
        let replayPath = range_path env (ps_dc s) (rr_count rangeConfig);
            (made, s) = in_world (bv_mkdir (pe_files env) replayPath) s in
        if \<not> made then ((False, True), s)
        else
          let (saved, s) = save_text env (JoinPath [replayPath, ''output.txt'']) (concat (map (\<lambda>out. out @ ''\<newline>'') (rr_outputs rangeConfig))) s in
          if \<not> saved then ((False, True), s)
          else
            let g = change_range (pe_thread env) (\<lambda>r. r\<lparr>rr_count := wrap32 (rr_count r + 1)\<rparr>) (ps_g s) in
            ((True, True), s\<lparr>ps_g := g\<lparr>pg_deviceOutputPath := omap_put (dc_deviceId (ps_dc s)) replayPath (pg_deviceOutputPath g)\<rparr>\<rparr>))"

definition RangeReplayOnce ::
  "'w prof_env \<Rightarrow> ProfConfig \<Rightarrow> L2cacheParam \<Rightarrow> ptr \<Rightarrow> 'w prof_state \<Rightarrow> (bool \<times> 'w prof_state) option"
where
  "RangeReplayOnce env c param modelRI s =
     (let s = (if dc_isClearParamSuccess (ps_dc s) then run_world (\<lambda>w. snd (ClearL2Cache env param w)) s else s);
          (ok, s) = restore_memory env s in
      if \<not> ok then Some (False, s)
      else
        (case StartProf env c s of
           None \<Rightarrow> None
         | Some (ok, s) \<Rightarrow>
             if \<not> ok then Some (False, StopProf env c s)
             else
               let (ret, s) = in_world (pe_riExecute env modelRI (lp_stream param)) s;
                   s = (if IsPmuEventEmpty env c (dc_replayCount (ps_dc s) + 1)
                        then let s = LoadFrequency env s in SaveFrequency env (GetAicoreOutputPath (ps_g s) (dc_deviceId (ps_dc s))) s
                        else s);
                   (ret, s) = (if ret = 0 then in_world (pe_syncTimeout env (lp_stream param)) s else (ret, s)) in
               Some (ret = 0, join_reader env (StopProf env c s))))"

fun range_loop ::
  "'w prof_env \<Rightarrow> ProfConfig \<Rightarrow> L2cacheParam \<Rightarrow> ptr \<Rightarrow> nat \<Rightarrow> bool \<Rightarrow> 'w prof_state \<Rightarrow> (bool \<times> 'w prof_state) option"
where
  "range_loop env c param modelRI 0 funcRet s = Some (funcRet, s)"
| "range_loop env c param modelRI (Suc n) funcRet s =
     (let rc = dc_replayCount (ps_dc s) in
      if \<not> rc < GetReplayTimes \<or> pe_signal env (ps_w s) then Some (funcRet, s)
      else if rc \<noteq> 0 \<and> IsPmuEventEmpty env c rc then Some (funcRet, s)
      else
        (case RangeReplayOnce env c param modelRI s of
           None \<Rightarrow> None
         | Some (ok, s) \<Rightarrow>
             range_loop env c param modelRI n (funcRet \<or> ok) (on_dc (\<lambda>dc. dc\<lparr>dc_replayCount := dc_replayCount dc + 1\<rparr>) s)))"

fun execute_times :: "'w prof_env \<Rightarrow> ptr \<Rightarrow> ptr \<Rightarrow> nat \<Rightarrow> 'w \<Rightarrow> 'w" where
  "execute_times env modelRI stream 0 w = w"
| "execute_times env modelRI stream (Suc n) w = execute_times env modelRI stream n (snd (pe_riExecute env modelRI stream w))"

definition WarmUp_range :: "'w prof_env \<Rightarrow> ProfConfig \<Rightarrow> ptr \<Rightarrow> ptr \<Rightarrow> 'w \<Rightarrow> 'w" where
  "WarmUp_range env c stream modelRI w =
     (let warmUpTimes = GetWarmUpTimes c in
      if warmUpTimes = 0 then w else snd (pe_syncTimeout env stream (execute_times env modelRI stream warmUpTimes w)))"

definition RangeReplay ::
  "'w prof_env \<Rightarrow> ProfConfig \<Rightarrow> ptr \<Rightarrow> ptr \<Rightarrow> 'w prof_state \<Rightarrow> (bool \<times> 'w prof_state) option"
where
  \<comment> \<open>the backup's result is not looked at\<close>
  "RangeReplay env c stream modelRI s =
     (let ((ok, needReplay), s) = RangeReplayInit env s in
      if \<not> ok then Some (False, s)
      else if \<not> needReplay then Some (True, s)
      else
        let s = snd (backup_memory env s);
            s = run_world (WarmUp_range env c stream modelRI) s;
            ((clear, param), s) = in_world (PrepareClearL2CacheParam env (lp0 stream)) s;
            s = on_dc (\<lambda>dc. dc\<lparr>dc_isClearParamSuccess := clear, dc_replayCount := GetInitReplayCount c\<rparr>) s;
            s = ProfCommandAction env c PROF_COMMANDHANDLE_TYPE_START s in
        map_option (\<lambda>(funcRet, s). (funcRet, run_world (FreeL2Cache (pe_api env) param) s))
          (range_loop env c param modelRI GetReplayTimes False s))"

definition RangeReplayProfData :: "'w prof_env \<Rightarrow> ptr \<Rightarrow> 'w prof_state \<Rightarrow> bool \<times> 'w prof_state" where
  "RangeReplayProfData env stream s =
     (let (rangeConfig, g) = GetThreadRangeConfigMap (pe_thread env) (ps_g s); s = s\<lparr>ps_g := g\<rparr>;
          (ok, s) =
            (if rr_flag rangeConfig then (True, s)
             else
               let (res, s) = in_world (pe_captureBegin env stream) s in
               if res \<noteq> 0 then (False, s)
               else (True, s\<lparr>ps_g := change_range (pe_thread env) (\<lambda>r. r\<lparr>rr_flag := True, rr_stream := stream\<rparr>) (ps_g s)\<rparr>));
          tmpOutput = (if dc_outputPath (ps_dc s) = [] then ''-1'' else dc_outputPath (ps_dc s)) in
      if \<not> ok then (False, s)
      else (True, s\<lparr>ps_g := change_range (pe_thread env) (\<lambda>r. r\<lparr>rr_outputs := rr_outputs r @ [tmpOutput]\<rparr>) (ps_g s)\<rparr>))"

section \<open>The launch on the device\<close>

record 'w sim_launcher =
  \<comment> \<open>the process that repeats the launch on the simulator\<close>
  sm_env :: "string list option"
  sm_dump :: "string \<Rightarrow> nat option \<Rightarrow> KernelContext \<Rightarrow> 'w \<Rightarrow> bool \<times> 'w"  \<comment> \<open>\<open>Dump\<close> of theory LaunchDump\<close>
  sm_executable :: "string \<Rightarrow> 'w \<Rightarrow> bool"
  sm_spawn :: "string \<Rightarrow> string list \<Rightarrow> string list \<Rightarrow> 'w \<Rightarrow> 'w"
  sm_link :: "string \<Rightarrow> string \<Rightarrow> 'w \<Rightarrow> bool \<times> 'w"

definition launcher_paths :: "'w tool_link \<Rightarrow> string \<times> string" where
  \<comment> \<open>the program and the library that it is loaded with\<close>
  "launcher_paths lk =
     (let p = GetMsopprofPath lk in
      if p = [] then ([], [])
      else (JoinPath [p, ''bin'', ''kernel-launcher''], JoinPath [p, ''lib64/libmsopprof_injection.so'']))"

definition RuntimeToTargetLib ::
  "'w binary_vendor \<Rightarrow> 'w sim_launcher \<Rightarrow> (string \<times> string) list \<Rightarrow> string \<Rightarrow> string \<Rightarrow> 'w \<Rightarrow> (bool \<times> (string \<times> string) list) \<times> 'w"
where
  \<comment> \<open>looking \<open>LD_LIBRARY_PATH\<close> up enters it\<close>
  "RuntimeToTargetLib v sm env runtimePath targetPath w =
     (let (made, w) = (if runtimePath = [] then (False, w) else bv_mkdir v runtimePath w) in
      if \<not> made then ((False, env), w)
      else
        let soName = JoinPath [runtimePath, ''libruntime.so''];
            ldEnv = (case map_of env ''LD_LIBRARY_PATH'' of None \<Rightarrow> [] | Some p \<Rightarrow> p);
            env = omap_put ''LD_LIBRARY_PATH'' ldEnv env;
            w = (if bv_exists v soName w then bv_removeAll v soName w else w);
            (linked, w) = sm_link sm targetPath soName w in
        if \<not> linked then ((False, env), w)
        else ((True, omap_put ''LD_LIBRARY_PATH'' (if ldEnv \<noteq> [] then runtimePath @ '':'' @ ldEnv else runtimePath) env), w))"

definition SetEnvToSimu :: "'w binary_vendor \<Rightarrow> 'w sim_launcher \<Rightarrow> string \<Rightarrow> string \<Rightarrow> 'w \<Rightarrow> string list option \<times> 'w" where
  \<comment> \<open>\<open>None\<close> when the walk over the system's variables does not end\<close>
  "SetEnvToSimu v sm injectionLib dumpPath w =
     (case RollbackPath 3 dumpPath of
        None \<Rightarrow> (Some [], w)
      | Some p \<Rightarrow>
          let camodelPath = JoinPath [p, ''tmp_dump''];
              env = omap_put ''LD_PRELOAD'' (injectionLib @ '':libruntime_camodel.so'') (omap_put ''IS_SIMULATOR_ENV'' ''true''
                      (omap_put ''DEVICE_TO_SIMULATOR'' ''true'' (omap_put ''CAMODEL_LOG_PATH'' camodelPath
                      (omap_put ''MSOPPROF_OUTPUT_DUMP_PATH'' dumpPath []))));
              w = snd (bv_mkdir v camodelPath w);
              ((_, env), w) = RuntimeToTargetLib v sm env camodelPath injectionLib w in
          (JoinWithSystemEnv (sm_env sm) env [] True, w))"

definition GetLaunchArgs :: "string \<Rightarrow> string \<Rightarrow> string list" where
  "GetLaunchArgs kernelLaunchBinPath outputDir = [kernelLaunchBinPath, ''-c'', JoinPath [outputDir, KERNEL_CONFIG_NAME]]"

definition Launch_simulator ::
  "'w binary_vendor \<Rightarrow> 'w tool_link \<Rightarrow> 'w sim_launcher \<Rightarrow> string \<Rightarrow> nat option \<Rightarrow> KernelContext \<Rightarrow> 'w \<Rightarrow> 'w option"
where
  \<comment> \<open>the number of the launch in the newer interface\<close>
  "Launch_simulator v lk sm dumpPath launch k w =
     (let outputDir = JoinPath [dumpPath, ''kernel_data'']; (prog, lib) = launcher_paths lk; (dumped, w) = sm_dump sm outputDir launch k w in
      if \<not> dumped then Some w
      else
        let (envs, w) = SetEnvToSimu v sm lib dumpPath w in
        map_option (\<lambda>envs. sm_spawn sm prog (GetLaunchArgs prog outputDir) envs w) envs)"

definition profile_launch ::
  "'w prof_env \<Rightarrow> ProfConfig \<Rightarrow> ptr \<Rightarrow> ('w \<Rightarrow> bool \<times> 'w) \<Rightarrow> 'w prof_state \<Rightarrow> (bool \<times> 'w prof_state) option"
where
  \<comment> \<open>\<open>ProfData\<close> from the start on, up to the description of the launch\<close>
  "profile_launch env c stream launch s =
     (let s = run_world (\<lambda>w. snd (api_sync (pe_api env) stream w)) s;
          s = (if mc2_flag env s then
                 run_world (\<lambda>w. snd (pe_syncTimeout env (ac_stm (kc_aicpu (ps_k s))) (snd (pe_syncTimeout env stream (snd (launch w)))))) s
               else s) in
      case KernelReplay env c stream launch s of
        None \<Rightarrow> None
      | Some (ret, s) \<Rightarrow> Some (ret, if ret \<and> (\<not> pf_isAppReplay c \<or> \<not> IsDbi c) then SaveBasicInfo env c s else s))"

definition launch_on_simulator ::
  "'w prof_env \<Rightarrow> 'w tool_link \<Rightarrow> 'w sim_launcher \<Rightarrow> ProfConfig \<Rightarrow> 'w prof_state \<Rightarrow> 'w prof_state option"
where
  "launch_on_simulator env lk sm c s =
     (if mp_isDeviceToSimulator (pf_config c) \<and> \<not> mc2_flag env s then
        map_option (\<lambda>w. s\<lparr>ps_w := w\<rparr>)
          (Launch_simulator (pe_files env) lk sm (dc_outputPath (ps_dc s)) (map_option lx_launchId (dc_launchCtx (ps_dc s))) (ps_k s) (ps_w s))
      else Some s)"

definition ProfData ::
  "'w prof_env \<Rightarrow> 'w tool_link \<Rightarrow> 'w sim_launcher \<Rightarrow> ProfConfig \<Rightarrow> ptr \<Rightarrow> ('w \<Rightarrow> bool \<times> 'w) \<Rightarrow> 'w prof_state \<Rightarrow>
   (bool \<times> 'w prof_state) option"
where
  "ProfData env lk sm c stream launch s =
     (let isRange = (pf_isRangeReplay c \<and> pe_inRange env);
          (ok, s) = (if isRange then RangeReplayProfData env stream s else (True, s)) in
      if \<not> ok then Some (False, s)
      else if dc_outputPath (ps_dc s) = [] then Some (True, s)
      else if \<not> bv_exists (pe_files env) (dc_outputPath (ps_dc s)) (ps_w s) then Some (False, s)
      else if isRange then Some (True, SaveBasicInfo env c s)
      else
        let (ok, s) = (if \<not> pf_isAppReplay c \<and> \<not> lccl_flag env s then backup_memory env s else (True, s)) in
        if \<not> ok then Some (False, s)
        else (case profile_launch env c stream launch s of
                None \<Rightarrow> None
              | Some (ret, s) \<Rightarrow> map_option (\<lambda>s. (ret, s)) (launch_on_simulator env lk sm c s)))"

section \<open>Before the launch\<close>

definition DataCollect_GetPcStartAddr :: "'w prof_env \<Rightarrow> KernelContext \<Rightarrow> ptr \<Rightarrow> nat \<Rightarrow> bool \<Rightarrow> nat option" where
  "DataCollect_GetPcStartAddr env k hdlOrStubFunc tiling type =
     (if type then
        (if \<not> CheckStubValid k hdlOrStubFunc then None
         else GetPcStartAddr (pe_kernel env) k (StubFuncArgs hdlOrStubFunc 0))
      else if \<not> CheckHdlVaild k hdlOrStubFunc then None
      else GetPcStartAddr (pe_kernel env) k (KernelHandleArgs hdlOrStubFunc 0 tiling))"

definition legacy_start :: "'w prof_env \<Rightarrow> KernelContext \<Rightarrow> ptr \<Rightarrow> ptr \<Rightarrow> bool \<Rightarrow> nat" where
  \<comment> \<open>the start of a launch of the older interface, 0 when it is not known\<close>
  "legacy_start env k hdl stubFunc type =
     (let tiling = (case GetLastLaunchEvent (GetDeviceContext (pe_kernel env) k) of None \<Rightarrow> 0 | Some e \<Rightarrow> ev_tilingKey e) in
      case DataCollect_GetPcStartAddr env k (if type then stubFunc else hdl) tiling type of None \<Rightarrow> 0 | Some a \<Rightarrow> a)"

definition save_start :: "'w prof_env \<Rightarrow> nat \<Rightarrow> 'w prof_state \<Rightarrow> 'w prof_state" where
  "save_start env pcStart s =
     (if pcStart = 0 then s
      else run_world (\<lambda>w. snd (sl_writeText (pe_shell env) (JoinPath [dc_outputPath (ps_dc s), ''pc_start_addr.txt''])
             (NumToHexString pcStart) w)) s)"

definition lcal_section :: bytes where "lcal_section = ascii ''Attr_Section_Lcal''"

definition ProfInit_device ::
  "'w prof_env \<Rightarrow> 'w dump_env \<Rightarrow> contexts \<Rightarrow> ptr \<Rightarrow> ptr \<Rightarrow> bool \<Rightarrow> 'w prof_state \<Rightarrow> 'w prof_state"
where
  "ProfInit_device env de cx hdl stubFunc type s =
     (let dc = ps_dc s; k = ps_k s in
      if dc_outputPath dc = [] then s
      else
        let (headers, pcStart, s) =
              (case dc_launchCtx dc of
                 Some l \<Rightarrow>
                   let f = lookup_func cx l;
                       s = run_world (\<lambda>w. snd (Register_Save (pe_files env) (pe_soc env) (fx_regCtx f)
                             (JoinPath [dc_outputPath dc, AICORE_KERNEL_NAME]) w)) s in
                   (GetSectionHeaders (rg_elfData (fx_regCtx f)), GetStartPC (pe_files env) f (ps_w s), s)
               | None \<Rightarrow>
                   let headers = (case GetDevBinary (\<lambda>_. None) k hdl False of Ok b \<Rightarrow> GetSectionHeaders (devbin_bytes b) | _ \<Rightarrow> None);
                       s = run_world (\<lambda>w. snd (DumpAicore de (pe_kernel env) (dc_outputPath dc) k w)) s in
                   (headers, legacy_start env k hdl stubFunc type, s));
            k = (case headers of
                   None \<Rightarrow> k
                 | Some h \<Rightarrow> if map_of h lcal_section \<noteq> None then SetLcclFlag (pe_kernel env) True k else k);
            k = SetMC2Flag (pe_kernel env) cx k in
        save_start env pcStart (s\<lparr>ps_k := k\<rparr>))"

section \<open>What an instrumented kernel left\<close>

definition RECORD_OVERFLOW_BIT :: nat where "RECORD_OVERFLOW_BIT = 2 ^ 63"
definition sizeof_DBIDataHeader :: nat where "sizeof_DBIDataHeader = 28"

definition enc_dbi :: "nat \<Rightarrow> nat \<Rightarrow> nat \<Rightarrow> nat \<Rightarrow> nat \<Rightarrow> bytes" where
  \<comment> \<open>count, length, overflow, block, end flag, and one byte of padding\<close>
  "enc_dbi n len overflow blockId endFlag =
     Serialize_u 8 n @ Serialize_u 8 len @ Serialize_u 8 overflow @ Serialize_u 2 blockId @ Serialize_u 1 endFlag @ [0]"

definition block_message :: "nat \<Rightarrow> bytes \<Rightarrow> bytes option option" where
  \<comment> \<open>the message for a block, if there is one; \<open>None\<close> when its length leads out of the block\<close>
  "block_message i blk =
     (let n = field blk 0 8; len = field blk 8 8 in
      if len = 0 then Some None
      else
        let (skip, len, overflow) =
              (if bit len 63 then
                 let reqs = len - RECORD_OVERFLOW_BIT in
                 (reqs \<le> n, MAX_BLOCK_DATA_SIZE - sizeof_BlockHeader, reqs - n)
               else (False, len, 0)) in
        if skip then Some None
        else if sizeof_BlockHeader + len > length blk then None
        else Some (Some (ProfPacketHead DBI_DATA (wrap32 (len + sizeof_DBIDataHeader)) @
               enc_dbi n len overflow (i mod 2 ^ 16) 0 @ take len (drop sizeof_BlockHeader blk))))"

fun send_blocks :: "'w acl_api \<Rightarrow> 'w tool_link \<Rightarrow> ptr \<Rightarrow> nat list \<Rightarrow> 'w \<Rightarrow> 'w option" where
  "send_blocks api lk memInfo [] w = Some w"
| "send_blocks api lk memInfo (i # js) w =
     (let ((error, blk), w) = api_read api (memInfo + i * BLOCK_MEM_SIZE) MAX_BLOCK_DATA_SIZE w in
      if error \<noteq> ACL_SUCCESS then Some w
      else (case block_message i blk of
              None \<Rightarrow> None
            | Some None \<Rightarrow> send_blocks api lk memInfo js w
            | Some (Some msg) \<Rightarrow> send_blocks api lk memInfo js (SendMsg lk msg w)))"

definition end_message :: "string \<Rightarrow> bytes" where
  "end_message outputPath =
     ProfPacketHead DBI_DATA (wrap32 (length outputPath + sizeof_DBIDataHeader)) @ enc_dbi 0 (length outputPath) 0 0 1 @ ascii outputPath"

definition GenDBIData :: "'w prof_env \<Rightarrow> 'w tool_link \<Rightarrow> nat \<Rightarrow> ptr \<Rightarrow> 'w prof_state \<Rightarrow> 'w prof_state option" where
  "GenDBIData env lk memSize memInfo s =
     (if memSize = 0 then Some s
      else map_option (\<lambda>w. s\<lparr>ps_w := SendMsg lk (end_message (dc_outputPath (ps_dc s))) w\<rparr>)
             (send_blocks (pe_api env) lk memInfo [0..<memSize div BLOCK_MEM_SIZE] (ps_w s)))"

definition GenRecordData :: "'w prof_env \<Rightarrow> nat \<Rightarrow> ptr \<Rightarrow> string \<Rightarrow> 'w prof_state \<Rightarrow> 'w prof_state" where
  "GenRecordData env memSize memInfo recordName s =
     (if memSize = 0 then s
      else
        let api = pe_api env; ((ret, p), s) = in_world (api_mallocHost api memSize) s in
        if ret \<noteq> ACL_SUCCESS then s
        else
          let ((error, data), s) = in_world (api_read api memInfo memSize) s;
              s = (if error \<noteq> ACL_SUCCESS then s
                   else run_world (\<lambda>w. snd (bv_writeBinary (pe_files env) (JoinPath [dc_outputPath (ps_dc s), recordName]) data w)) s) in
          run_world (\<lambda>w. snd (api_freeHost api p w)) s)"

definition GenBBcountFile ::
  "'w prof_env \<Rightarrow> 'w bb_env \<Rightarrow> (string \<Rightarrow> string \<Rightarrow> 'w \<Rightarrow> bool \<times> 'w) \<Rightarrow> nat \<Rightarrow> nat \<Rightarrow> ptr \<Rightarrow> BBCountDumper \<Rightarrow> 'w prof_state \<Rightarrow>
   BBCountDumper \<times> 'w prof_state"
where
  \<comment> \<open>with \<open>rename\<close> of the system\<close>
  "GenBBcountFile env be rename regId memSize memInfo b s =
     (if \<not> IsPlatformSupportDBI (pe_soc env) then (b, s)
      else if pe_dumpPath env = [] \<or> \<not> bv_exists (pe_files env) (pe_dumpPath env) (ps_w s) then (b, s)
      else
        let ((extraName, b), s) = in_world (GenExtraAndReturnName be (dc_outputPath (ps_dc s)) regId memSize memInfo b) s in
        if extraName = [] then (b, s)
        else
          let kernelFile = JoinPath [dc_outputPath (ps_dc s), ''kernel'' @ decimal regId @ ''.o''];
              newKernelFile = JoinPath [dc_outputPath (ps_dc s), AICORE_KERNEL_NAME] in
          (b, if bv_exists (pe_files env) kernelFile (ps_w s) then run_world (\<lambda>w. snd (rename kernelFile newKernelFile w)) s else s))"

section \<open>Questions of the hooks\<close>

definition IsNeedProf :: "'w prof_state \<Rightarrow> bool" where "IsNeedProf s \<longleftrightarrow> dc_outputPath (ps_dc s) \<noteq> []"

definition plain_operator :: "'w prof_env \<Rightarrow> 'w prof_state \<Rightarrow> bool" where
  "plain_operator env s \<longleftrightarrow> \<not> mc2_flag env s \<and> \<not> lccl_flag env s"

definition IsBBCountNeedGen :: "'w prof_env \<Rightarrow> ProfConfig \<Rightarrow> 'w prof_state \<Rightarrow> bool" where
  "IsBBCountNeedGen env c s \<longleftrightarrow> has_flag (pf_config c) DBI_BB_COUNT \<and> IsNeedProf s \<and> plain_operator env s"

definition IsNeedDumpContext :: "'w prof_env \<Rightarrow> ProfConfig \<Rightarrow> 'w prof_state \<Rightarrow> bool" where
  "IsNeedDumpContext env c s \<longleftrightarrow> IsNeedProf s \<and> \<not> mc2_flag env s \<and> mp_isDeviceToSimulator (pf_config c)"

definition IsMemoryChartNeedGen :: "'w prof_env \<Rightarrow> ProfConfig \<Rightarrow> 'w prof_state \<Rightarrow> bool" where
  "IsMemoryChartNeedGen env c s \<longleftrightarrow> has_flag (pf_config c) MEMORY_CHART \<and> IsNeedProf s \<and> plain_operator env s"

definition IsOperandRecordNeedGen :: "'w prof_env \<Rightarrow> ProfConfig \<Rightarrow> 'w prof_state \<Rightarrow> bool" where
  "IsOperandRecordNeedGen env c s \<longleftrightarrow>
     has_flag (pf_config c) OPERAND_RECORD \<and> IsNeedProf s \<and> plain_operator env s \<and> \<not> pf_isRangeReplay c"

definition IsPCSamplingNeedGen :: "ProfConfig \<Rightarrow> 'w prof_state \<Rightarrow> bool" where
  "IsPCSamplingNeedGen c s \<longleftrightarrow> IsPCSamplingEnabled c \<and> IsNeedProf s"

definition IsTimelineNeedGen :: "ProfConfig \<Rightarrow> 'w prof_state \<Rightarrow> ProfDBIType option" where
  \<comment> \<open>with the kind that is stored\<close>
  "IsTimelineNeedGen c s =
     (if \<not> IsNeedProf s then None
      else if IsInstrTimelineEnabled c then Some INSTR_PROF_DFX
      else if IsPipeTimelineEnabled c then Some INSTR_PROF_END else None)"

definition IsWarpTimelineNeedGen :: "ProfConfig \<Rightarrow> 'w prof_state \<Rightarrow> bool" where
  "IsWarpTimelineNeedGen c s \<longleftrightarrow> IsWarpTimelineEnabled c \<and> IsNeedProf s \<and> dc_hasSimt (ps_dc s) \<and> \<not> pf_isRangeReplay c"

definition IsNeedRunOriginLaunch :: "'w prof_env \<Rightarrow> ProfConfig \<Rightarrow> 'w prof_state \<Rightarrow> bool" where
  "IsNeedRunOriginLaunch env c s \<longleftrightarrow>
     (if mc2_flag env s \<or> lccl_flag env s then False
      else if pf_isAppReplay c \<and> mp_dbiFlag (pf_config c) = DBI_FLAG WARP_TIMELINE \<and> \<not> dc_hasSimt (ps_dc s) then True
      else \<not> IsNeedProf s \<or> \<not> (mp_dbiFlag (pf_config c) \<noteq> DBI_FLAG DBI_BB_COUNT \<and> pf_isAppReplay c))"

definition IsNeedGen :: "'w prof_env \<Rightarrow> ProfConfig \<Rightarrow> ProfDBIType \<Rightarrow> 'w prof_state \<Rightarrow> bool" where
  "IsNeedGen env c mode s \<longleftrightarrow>
     (case mode of
        MEMORY_CHART \<Rightarrow> IsMemoryChartNeedGen env c s
      | OPERAND_RECORD \<Rightarrow> IsOperandRecordNeedGen env c s
      | WARP_TIMELINE \<Rightarrow> IsWarpTimelineNeedGen c s
      | _ \<Rightarrow> False)"

definition CollectData ::
  "'w prof_env \<Rightarrow> 'w tool_link \<Rightarrow> ProfDBIType \<Rightarrow> nat \<Rightarrow> ptr \<Rightarrow> 'w prof_state \<Rightarrow> 'w prof_state option"
where
  "CollectData env lk mode memSize memInfo s =
     (case mode of
        MEMORY_CHART \<Rightarrow> GenDBIData env lk memSize memInfo s
      | OPERAND_RECORD \<Rightarrow> Some (GenRecordData env memSize memInfo ''OperandRecord.bin'' s)
      | WARP_TIMELINE \<Rightarrow> Some (GenRecordData env memSize memInfo ''WarpTimeline.bin'' s)
      | _ \<Rightarrow> Some s)"

definition PostProcess :: "'w prof_env \<Rightarrow> 'w tool_link \<Rightarrow> ('w \<Rightarrow> 'w) \<Rightarrow> ProfConfig \<Rightarrow> 'w prof_state \<Rightarrow> 'w prof_state" where
  \<comment> \<open>with what ends the process\<close>
  "PostProcess env lk terminate c s =
     (let (rsp, s) = in_world (PostNotify lk c (pe_device env)) s in
      case rsp of None \<Rightarrow> s | Some termination \<Rightarrow> if termination \<noteq> 0 then run_world terminate s else s)"

end
