(* ===== verification/ProfFacts.thy ===== *)
theory ProfFacts
  imports ProfCollect
begin

text \<open>
  What holds of the profiler's runs of a kernel (theories ProfReplay and ProfCollect): each of them starts from the
  memory of the first, and the program finds its memory as it was. The laws of the environment say that the
  calls around the launches leave the program's blocks and their snapshots alone.
\<close>

section \<open>Blocks that are left alone\<close>

definition keeps :: "('w \<Rightarrow> ptr \<Rightarrow> byte) \<Rightarrow> (ptr \<times> nat) list \<Rightarrow> 'w \<Rightarrow> 'w \<Rightarrow> bool" where
  "keeps mem bs w w' \<longleftrightarrow> (\<forall>(p, n) \<in> set bs. mem_range mem w' p n = mem_range mem w p n)"

definition calm :: "('w \<Rightarrow> ptr \<Rightarrow> byte) \<Rightarrow> (ptr \<times> nat) list \<Rightarrow> ('w \<Rightarrow> 'w) \<Rightarrow> bool" where
  "calm mem bs f \<longleftrightarrow> (\<forall>w. keeps mem bs w (f w))"

definition blocks_of :: "(ptr \<times> MemSection) list \<Rightarrow> (ptr \<times> nat) list" where
  "blocks_of secs = concat (map section_blocks secs)"

lemma keeps_refl [simp]: "keeps mem bs w w"
  by (auto simp: keeps_def)

lemma keeps_trans [trans]: "keeps mem bs w w1 \<Longrightarrow> keeps mem bs w1 w2 \<Longrightarrow> keeps mem bs w w2"
  by (fastforce simp: keeps_def)

lemma calm_keeps: "calm mem bs f \<Longrightarrow> keeps mem bs w (f w)"
  by (simp add: calm_def)

lemma calm_snd: "calm mem bs (\<lambda>w. snd (f w)) \<Longrightarrow> f w = (r, w') \<Longrightarrow> keeps mem bs w w'"
  using calm_keeps [of mem bs "\<lambda>w. snd (f w)" w] by simp

lemma mem_keeps: "mem w' = mem w \<Longrightarrow> keeps mem bs w w'"
  by (auto simp: keeps_def mem_range_def)

lemma copies_keeps: "copies mem d s n w w' \<Longrightarrow> \<forall>b \<in> set bs. apart (d, n) b \<Longrightarrow> keeps mem bs w w'"
  using mem_range_apart by (fastforce simp: keeps_def)

lemma keeps_origin: "keeps mem (blocks_of secs) w w' \<Longrightarrow> e \<in> set secs \<Longrightarrow> origin_range mem w' e = origin_range mem w e"
  by (fastforce simp: keeps_def blocks_of_def section_blocks_def origin_range_def)

lemma keeps_snap: "keeps mem (blocks_of secs) w w' \<Longrightarrow> e \<in> set secs \<Longrightarrow> snap_range mem w' e = snap_range mem w e"
  by (fastforce simp: keeps_def blocks_of_def section_blocks_def snap_range_def)

section \<open>The environment\<close>

definition fresh_law :: "'w prof_env \<Rightarrow> (ptr \<times> nat) list \<Rightarrow> ('w \<Rightarrow> bool) \<Rightarrow> bool" where
  \<comment> \<open>while the blocks are held a new block does not overlap them; \<open>api_free\<close> is not among the calls that keep them held\<close>
  "fresh_law env bs held \<longleftrightarrow>
     (\<forall>n p w r q w'. held w \<longrightarrow> api_malloc (pe_api env) n p w = ((r, q), w') \<longrightarrow>
        held w' \<and> (r = ACL_SUCCESS \<longrightarrow> (\<forall>b \<in> set bs. apart (q, n) b))) \<and>
     (\<forall>n w. held w \<longrightarrow> held (snd (api_mallocHost (pe_api env) n w))) \<and> (\<forall>st w. held w \<longrightarrow> held (snd (api_sync (pe_api env) st w))) \<and>
     (\<forall>p xs w. held w \<longrightarrow> held (pe_putHost env p xs w))"

definition calm_api :: "('w \<Rightarrow> ptr \<Rightarrow> byte) \<Rightarrow> (ptr \<times> nat) list \<Rightarrow> 'w acl_api \<Rightarrow> bool" where
  "calm_api mem bs api \<longleftrightarrow>
     (\<forall>p. calm mem bs (\<lambda>w. snd (api_free api p w))) \<and> (\<forall>n. calm mem bs (\<lambda>w. snd (api_mallocHost api n w))) \<and>
     (\<forall>p. calm mem bs (\<lambda>w. snd (api_freeHost api p w)))"

definition calm_driver :: "('w \<Rightarrow> ptr \<Rightarrow> byte) \<Rightarrow> (ptr \<times> nat) list \<Rightarrow> 'w prof_env \<Rightarrow> bool" where
  "calm_driver mem bs env \<longleftrightarrow>
     (\<forall>d ch para. calm mem bs (\<lambda>w. snd (pd_start (pe_drv env) d ch para w))) \<and>
     (\<forall>d ch. calm mem bs (\<lambda>w. snd (pd_stop (pe_drv env) d ch w))) \<and>
     (\<forall>t g. calm mem bs (pe_reader env t g)) \<and> (\<forall>x. calm mem bs (pe_profCommand env x)) \<and>
     (\<forall>st. calm mem bs (\<lambda>w. snd (pe_syncTimeout env st w)))"

definition calm_helpers :: "('w \<Rightarrow> ptr \<Rightarrow> byte) \<Rightarrow> (ptr \<times> nat) list \<Rightarrow> 'w prof_env \<Rightarrow> bool" where
  "calm_helpers mem bs env \<longleftrightarrow>
     (\<forall>n st ps. calm mem bs (\<lambda>w. snd (pe_clearL2 env n st ps w))) \<and> (\<forall>st. calm mem bs (\<lambda>w. snd (pe_emptyKernel env st w))) \<and>
     (\<forall>p n st. calm mem bs (\<lambda>w. snd (pe_cmo env p n st w))) \<and> (\<forall>p xs. calm mem bs (pe_putHost env p xs)) \<and>
     (\<forall>p x. calm mem bs (\<lambda>w. snd (pe_openWrite env p x w))) \<and> (\<forall>p m. calm mem bs (\<lambda>w. snd (sl_chmod (pe_shell env) p m w)))"

definition replay_laws :: "'w prof_env \<Rightarrow> ('w \<Rightarrow> ptr \<Rightarrow> byte) \<Rightarrow> (ptr \<times> MemSection) list \<Rightarrow> bool" where
  "replay_laws env mem secs \<longleftrightarrow>
     copy_law (pe_api env) mem \<and> quiet_law (pe_api env) mem \<and> separate secs \<and>
     (\<forall>e \<in> set secs. ms_originAddr (snd e) \<noteq> 0 \<and> ms_snapshotAddr (snd e) \<noteq> 0) \<and>
     calm_api mem (blocks_of secs) (pe_api env) \<and> calm_driver mem (blocks_of secs) env \<and> calm_helpers mem (blocks_of secs) env"

lemma calm_driverD:
  assumes "calm_driver mem bs env"
  shows "pd_start (pe_drv env) d ch para w = (r, w') \<Longrightarrow> keeps mem bs w w'"
    and "keeps mem bs w (snd (pd_start (pe_drv env) d ch para w))"
    and "keeps mem bs w (snd (pd_stop (pe_drv env) d ch w))"
    and "keeps mem bs w (pe_reader env t g w)" "keeps mem bs w (pe_profCommand env x w)"
    and "keeps mem bs w (snd (pe_syncTimeout env st w))"
  using assms unfolding calm_driver_def calm_def by (metis snd_conv)+

section \<open>Starting and stopping\<close>

lemma start_channel_keeps:
  "calm_driver mem bs env \<Longrightarrow> start_channel (pe_drv env) ch para t w = (ok, w') \<Longrightarrow> keeps mem bs w w'"
  using calm_driverD(1) by (fastforce simp: start_channel_def split: prod.splits)

lemma start_instr_channels_keeps:
  assumes "calm_driver mem bs env"
  shows "keeps mem bs w (start_instr_channels (pe_drv env) para t cs w)"
proof (induction cs arbitrary: w)
  case (Cons x cs)
  obtain ch y where "x = (ch, y)" by (cases x)
  then show ?case using Cons.IH calm_driverD(2) [OF assms] keeps_trans by fastforce
qed simp

lemma stop_instr_channels_keeps:
  assumes "calm_driver mem bs env"
  shows "keeps mem bs w (stop_instr_channels (pe_drv env) t cs w)"
proof (induction cs arbitrary: w)
  case (Cons x cs)
  obtain ch y where "x = (ch, y)" by (cases x)
  then show ?case using Cons.IH calm_driverD(3) [OF assms] keeps_trans by fastforce
qed simp

lemma stop_channel_keeps: "calm_driver mem bs env \<Longrightarrow> keeps mem bs w (stop_channel (pe_drv env) t b ch w)"
  using calm_driverD(3) by (fastforce simp: stop_channel_def)

lemma StartFFTS_keeps:
  assumes "calm_driver mem bs env"
  shows "StartFFTSTask (pe_drv env) rc t w = ((ok, t'), w') \<Longrightarrow> keeps mem bs w w' \<and> tk_family t' = tk_family t"
    and "StartFFTSTask_A5 (pe_drv env) rc t w = ((ok, t'), w') \<Longrightarrow> keeps mem bs w w' \<and> tk_family t' = tk_family t"
  using start_channel_keeps [OF assms]
  by (fastforce simp: StartFFTSTask_def StartFFTSTask_A5_def Let_def split: if_splits prod.splits)+

lemma StartStars_keeps:
  assumes "calm_driver mem bs env"
  shows "StartStarsTask (pe_drv env) t w = ((ok, t'), w') \<Longrightarrow> keeps mem bs w w' \<and> tk_family t' = tk_family t"
  using start_channel_keeps [OF assms] by (fastforce simp: StartStarsTask_def Let_def split: if_splits prod.splits)

lemma start_round_keeps:
  assumes "calm_driver mem bs env" "\<And>w ok t' w'. ffts w = ((ok, t'), w') \<Longrightarrow> keeps mem bs w w' \<and> tk_family t' = fam"
    and "start_round ffts (pe_drv env) w = ((ok, t'), w')"
  shows "keeps mem bs w w' \<and> tk_family t' = fam"
proof -
  obtain ok1 t1 w1 where f: "ffts w = ((ok1, t1), w1)" by (metis prod.exhaust)
  note k = assms(2) [OF f]
  show ?thesis
    using assms(3) f k StartStars_keeps [OF assms(1), of t1 w1] keeps_trans [of mem bs w w1]
    by (auto simp: start_round_def split: if_splits)
qed

lemma ffts_and_aicpu_keeps:
  assumes "calm_driver mem bs env" "ffts_and_aicpu (pe_drv env) mc2 rc t w = ((ok, t'), w')"
  shows "keeps mem bs w w' \<and> tk_family t' = tk_family t"
proof -
  obtain ok1 t1 w1 where f: "StartFFTSTask (pe_drv env) rc t w = ((ok1, t1), w1)" by (metis prod.exhaust)
  note k = StartFFTS_keeps(1) [OF assms(1) f]
  show ?thesis
    using assms(2) f k start_channel_keeps [OF assms(1), of CHANNEL_AICPU AicpuTask_GetTask t1 w1] keeps_trans [of mem bs w w1]
    by (auto simp: ffts_and_aicpu_def split: if_splits prod.splits)
qed

lemma Start_A5_keeps:
  assumes "calm_driver mem bs env" "Start_A5 (pe_drv env) c rc simt t w = ((ok, t'), w')"
  shows "keeps mem bs w w' \<and> tk_family t' = tk_family t"
proof -
  have round: "keeps mem bs w w' \<and> tk_family t' = tk_family u" if "start_round (StartFFTSTask_A5 (pe_drv env) rc u) (pe_drv env) w = ((ok, t'), w')" for u
    using start_round_keeps [OF assms(1) StartFFTS_keeps(2) [OF assms(1)] that] .
  show ?thesis
    using assms(2) start_instr_channels_keeps [OF assms(1)] round
    by (auto simp: Start_A5_def StartInstrProfTask_def Let_def split: if_splits)
qed

lemma Start_910B_keeps:
  assumes "calm_driver mem bs env" "Start_910B (pe_drv env) mc2 rc t w = ((ok, t'), w')"
  shows "keeps mem bs w w' \<and> tk_family t' = tk_family t"
proof -
  have round: "keeps mem bs w w' \<and> tk_family t' = tk_family u" if "start_round (ffts_and_aicpu (pe_drv env) mc2 rc u) (pe_drv env) w = ((ok, t'), w')" for u
    using start_round_keeps [OF assms(1) ffts_and_aicpu_keeps [OF assms(1)] that] .
  show ?thesis
    using assms(2) start_channel_keeps [OF assms(1)] round
    by (fastforce simp: Start_910B_def StartTSFWTask_def Let_def split: if_splits prod.splits)
qed

lemma Task_Start_keeps:
  assumes "calm_driver mem bs env" "tk_family t \<noteq> Task310P"
  obtains ok t' w' where "Task_Start (pe_drv env) c mc2 rc simt t w = Some ((ok, t'), w')" "keeps mem bs w w'" "tk_family t' = tk_family t"
proof (cases "tk_family t")
  case TaskA5
  then show ?thesis
    using that Start_A5_keeps [OF assms(1), of c rc simt t w] by (cases "Start_A5 (pe_drv env) c rc simt t w") (auto simp: Task_Start_def)
next
  case Task910B
  then show ?thesis
    using that Start_910B_keeps [OF assms(1), of mc2 rc t w] by (cases "Start_910B (pe_drv env) mc2 rc t w") (auto simp: Task_Start_def)
qed (use assms in simp)

lemma Task_Stop_keeps:
  assumes "calm_driver mem bs env"
  shows "keeps mem bs w (snd (Task_Stop (pe_drv env) c mc2 t w)) \<and> tk_family (fst (Task_Stop (pe_drv env) c mc2 t w)) = tk_family t"
proof -
  note st = stop_channel_keeps [OF assms] and si = stop_instr_channels_keeps [OF assms]
  show ?thesis
    by (auto simp: Task_Stop_def Stop_A5_def Stop_910B_def Stop_310P_def Let_def split: chip_family.split
        intro!: st si intro: keeps_trans [OF st] keeps_trans [OF st keeps_trans [OF st]])
qed


section \<open>The replays\<close>

definition leaves :: "('w \<Rightarrow> ptr \<Rightarrow> byte) \<Rightarrow> (ptr \<times> MemSection) list \<Rightarrow> 'w prof_state \<Rightarrow> 'w prof_state \<Rightarrow> bool" where
  \<comment> \<open>a step that leaves the program's memory and what the replays rely on\<close>
  "leaves mem secs s s' \<longleftrightarrow> ps_mc s' = ps_mc s \<and> ps_k s' = ps_k s \<and> tk_family (dc_task (ps_dc s')) = tk_family (dc_task (ps_dc s)) \<and>
     dc_isClearParamSuccess (ps_dc s') = dc_isClearParamSuccess (ps_dc s) \<and> keeps mem (blocks_of secs) (ps_w s) (ps_w s')"

definition replayable ::
  "'w prof_env \<Rightarrow> ('w \<Rightarrow> ptr \<Rightarrow> byte) \<Rightarrow> (ptr \<times> MemSection) list \<Rightarrow> (ptr \<times> MemSection \<Rightarrow> bytes) \<Rightarrow> L2cacheParam \<Rightarrow> 'w prof_state \<Rightarrow> bool"
where
  \<comment> \<open>the snapshots hold the contents, and the buffers that clear the cache are not the program's\<close>
  "replayable env mem secs cont param s \<longleftrightarrow>
     bucket_of (pe_device env) (ps_mc s) = secs \<and> (\<forall>e \<in> set secs. snap_range mem (ps_w s) e = cont e) \<and>
     \<not> mc2_flag env s \<and> \<not> lccl_flag env s \<and> tk_family (dc_task (ps_dc s)) \<noteq> Task310P \<and>
     (dc_isClearParamSuccess (ps_dc s) \<longrightarrow> (\<forall>b \<in> set (blocks_of secs). apart (lp_flushBuffer param, lp_bufferSize param) b))"

definition as_before :: "('w \<Rightarrow> ptr \<Rightarrow> byte) \<Rightarrow> (ptr \<times> MemSection) list \<Rightarrow> (ptr \<times> MemSection \<Rightarrow> bytes) \<Rightarrow> 'w \<Rightarrow> bool" where
  "as_before mem secs cont w \<longleftrightarrow> (\<forall>e \<in> set secs. origin_range mem w e = cont e)"

lemma leaves_refl [simp]: "leaves mem secs s s"
  by (simp add: leaves_def)

lemma leaves_trans [trans]: "leaves mem secs s s1 \<Longrightarrow> leaves mem secs s1 s2 \<Longrightarrow> leaves mem secs s s2"
  by (auto simp: leaves_def intro: keeps_trans)

lemma leaves_world: "keeps mem (blocks_of secs) (ps_w s) (f (ps_w s)) \<Longrightarrow> leaves mem secs s (run_world f s)"
  by (simp add: leaves_def run_world_def)

lemma leaves_replayable: "leaves mem secs s s' \<Longrightarrow> replayable env mem secs cont param s \<Longrightarrow> replayable env mem secs cont param s'"
  using keeps_snap by (fastforce simp: leaves_def replayable_def mc2_flag_def lccl_flag_def)

lemma leaves_as_before: "leaves mem secs s s' \<Longrightarrow> as_before mem secs cont (ps_w s) \<Longrightarrow> as_before mem secs cont (ps_w s')"
  using keeps_origin by (fastforce simp: leaves_def as_before_def)

lemma replay_lawsD:
  assumes "replay_laws env mem secs"
  shows "copy_law (pe_api env) mem" "quiet_law (pe_api env) mem" "separate secs"
    and "\<forall>e \<in> set secs. ms_originAddr (snd e) \<noteq> 0 \<and> ms_snapshotAddr (snd e) \<noteq> 0"
    and "calm_api mem (blocks_of secs) (pe_api env)" "calm_driver mem (blocks_of secs) env" "calm_helpers mem (blocks_of secs) env"
  using assms by (auto simp: replay_laws_def)

lemma restore_memory_replayable:
  assumes "replay_laws env mem secs" "replayable env mem secs cont param s" "restore_memory env s = (ok, s')"
  shows "ok" "replayable env mem secs cont param s'" "as_before mem secs cont (ps_w s')" "ps_dc s' = ps_dc s" "ps_k s' = ps_k s" "ps_g s' = ps_g s"
proof -
  note law = replay_lawsD [OF assms(1)]
  obtain b mc1 where g: "GetBucket (pe_device env) (ps_mc s) = (b, mc1)" by (metis prod.exhaust)
  have secs: "db_memSectionMap b = secs" using GetBucket_fst [OF g] assms(2) by (simp add: replayable_def)
  obtain st w' where l: "restore_loop (pe_api env) secs (db_stream b) (ps_w s) = (st, w')" by (metis prod.exhaust)
  note r = restore_loop_copies [OF law(1,2) l law(3,4)]
  have s': "ok \<and> s' = s\<lparr>ps_mc := omap_put (pe_device env) (b\<lparr>db_stream := st\<rparr>) mc1, ps_w := w'\<rparr>"
    using assms(3) g l secs by (auto simp: restore_memory_def Restore_def)
  have snap: "snap_range mem w' e = snap_range mem (ps_w s) e" if e: "e \<in> set secs" for e
    unfolding snap_range_def
  proof (rule mem_range_cong)
    fix a assume "ms_snapshotAddr (snd e) \<le> a" "a < ms_snapshotAddr (snd e) + ms_size (snd e)"
    then have "\<not> in_origin secs a" using separate_snap_origin [OF law(3) e] by (fastforce simp: in_origin_def apart_def)
    then show "mem w' a = mem (ps_w s) a" using r by blast
  qed
  show "ok" "ps_dc s' = ps_dc s" "ps_k s' = ps_k s" "ps_g s' = ps_g s" using s' by simp_all
  show "replayable env mem secs cont param s'"
    using assms(2) s' snap secs by (auto simp: replayable_def mc2_flag_def lccl_flag_def)
  show "as_before mem secs cont (ps_w s')" using r assms(2) s' by (simp add: as_before_def replayable_def)
qed

lemma StartProf_leaves:
  assumes "replay_laws env mem secs" "tk_family (dc_task (ps_dc s)) \<noteq> Task310P"
  obtains ok s' where "StartProf env c s = Some (ok, s')" "leaves mem secs s s'"
proof -
  obtain ok t w where st: "Task_Start (pe_drv env) c (mc2_flag env s) (dc_replayCount (ps_dc s)) (dc_hasSimt (ps_dc s)) (dc_task (ps_dc s)) (ps_w s) = Some ((ok, t), w)"
    "keeps mem (blocks_of secs) (ps_w s) w" "tk_family t = tk_family (dc_task (ps_dc s))"
    using Task_Start_keeps [OF replay_lawsD(6) [OF assms(1)] assms(2)] .
  show ?thesis
    by (rule that [of ok "if ok then s\<lparr>ps_dc := (ps_dc s)\<lparr>dc_task := t\<rparr>, ps_w := w, ps_g := (ps_g s)\<lparr>pg_deviceReplayCount :=
                 omap_put (dc_deviceId (ps_dc s)) (dc_replayCount (ps_dc s)) (pg_deviceReplayCount (ps_g s))\<rparr>\<rparr>
          else s\<lparr>ps_dc := (ps_dc s)\<lparr>dc_task := t\<rparr>, ps_w := w\<rparr>"])
      (use st in \<open>auto simp: StartProf_def leaves_def Let_def\<close>)
qed

lemma StopProf_leaves: "replay_laws env mem secs \<Longrightarrow> leaves mem secs s (StopProf env c s)"
  using Task_Stop_keeps [OF replay_lawsD(6), of env mem secs "ps_w s" c "mc2_flag env s" "dc_task (ps_dc s)"]
  by (auto simp: StopProf_def leaves_def split: prod.splits)

lemma LoadFrequency_leaves: "leaves mem secs s (LoadFrequency env s)"
  by (simp add: LoadFrequency_def leaves_def on_dc_def Let_def)


section \<open>Emptying the cache\<close>

lemma calm_apiD:
  assumes "calm_api mem bs api"
  shows "keeps mem bs w (snd (api_free api p w))" "keeps mem bs w (snd (api_freeHost api p w))"
    and "api_mallocHost api n w = (r, w') \<Longrightarrow> keeps mem bs w w'"
  using assms unfolding calm_api_def calm_def by (metis snd_conv)+

lemma fresh_lawD:
  assumes "fresh_law env bs held" "held w"
  shows "api_malloc (pe_api env) n p w = ((r, q), w') \<Longrightarrow> held w'"
    and "api_malloc (pe_api env) n p w = ((ACL_SUCCESS, q), w') \<Longrightarrow> b \<in> set bs \<Longrightarrow> apart (q, n) b"
    and "api_mallocHost (pe_api env) n w = (r', w') \<Longrightarrow> held w'" "held (snd (api_sync (pe_api env) st w))" "held (pe_putHost env a xs w)"
  using assms unfolding fresh_law_def by (metis snd_conv)+

lemma calm_helpersD:
  assumes "calm_helpers mem bs env"
  shows "pe_clearL2 env n st ps w = (r, w') \<Longrightarrow> keeps mem bs w w'" "keeps mem bs w (snd (pe_emptyKernel env st w))"
    and "pe_cmo env p n st w = (c, w') \<Longrightarrow> keeps mem bs w w'" "keeps mem bs w (pe_putHost env p xs w)"
    and "keeps mem bs w (snd (pe_openWrite env t x w))" "keeps mem bs w (snd (sl_chmod (pe_shell env) t m w))"
  using assms unfolding calm_helpers_def calm_def by (metis snd_conv)+

lemma apart_less: "apart (q, n) b \<Longrightarrow> m \<le> n \<Longrightarrow> apart (q, m) b"
  by (auto simp: apart_def)

lemma malloc_keeps: "quiet_law api mem \<Longrightarrow> api_malloc api n p w = (r, w') \<Longrightarrow> keeps mem bs w w'"
  using quiet_lawD(1) by (metis mem_keeps prod.exhaust)

lemma sync_keeps: "quiet_law api mem \<Longrightarrow> api_sync api t w = (r, w') \<Longrightarrow> keeps mem bs w w'"
  using quiet_lawD(2) by (metis mem_keeps)

lemma free_nonnull_keeps: "calm_api mem bs api \<Longrightarrow> keeps mem bs w (free_nonnull api p w)"
  by (simp add: free_nonnull_def calm_apiD(1))

lemma FreeL2Cache_keeps: "calm_api mem bs api \<Longrightarrow> keeps mem bs w (FreeL2Cache api param w)"
  using free_nonnull_keeps keeps_trans unfolding FreeL2Cache_def by metis

definition aside :: "(ptr \<times> nat) list \<Rightarrow> L2cacheParam \<Rightarrow> bool" where
  "aside bs param \<longleftrightarrow> (\<forall>b \<in> set bs. apart (lp_flushBuffer param, lp_bufferSize param) b)"

lemma MallocBuffer_keeps:
  assumes "quiet_law (pe_api env) mem" "fresh_law env bs held" "held w" "MallocBuffer (pe_api env) param w = ((ok, param'), w')"
  shows "keeps mem bs w w'" "ok \<Longrightarrow> aside bs param'" "held w'"
proof -
  let ?n = "lp_bufferSize param" and ?p = ACL_MEM_MALLOC_HUGE_FIRST and ?api = "pe_api env"
  obtain r1 p1 w1 where m1: "api_malloc ?api ?n ?p w = ((r1, p1), w1)" by (metis prod.exhaust)
  obtain r2 p2 w2 where m2: "api_malloc ?api ?n ?p w1 = ((r2, p2), w2)" by (metis prod.exhaust)
  obtain r3 p3 w3 where m3: "api_malloc ?api ?n ?p w2 = ((r3, p3), w3)" by (metis prod.exhaust)
  note k = malloc_keeps [OF assms(1) m1] malloc_keeps [OF assms(1) m2] malloc_keeps [OF assms(1) m3]
  have h1: "held w1" using fresh_lawD(1) [OF assms(2,3) m1] .
  have h2: "held w2" using fresh_lawD(1) [OF assms(2) h1 m2] .
  have h3: "held w3" using fresh_lawD(1) [OF assms(2) h2 m3] .
  show "keeps mem bs w w'" "held w'"
    using assms(4) h1 h2 h3 m1 m2 m3 k keeps_trans [OF k(1) k(2)] keeps_trans [OF keeps_trans [OF k(1) k(2)] k(3)]
    by (auto simp: MallocBuffer_def Let_def split: if_splits)
  show "aside bs param'" if ok
    using assms(4) m1 m2 m3 that fresh_lawD(2) [OF assms(2) h1, of ?n ?p p2 w2]
    by (auto simp: MallocBuffer_def Let_def aside_def split: if_splits)
qed

lemma load_tiling_keeps:
  assumes "replay_laws env mem secs" "fresh_law env (blocks_of secs) held" "held w" "load_tiling env tiling host param w = ((ok, param'), w')"
  shows "keeps mem (blocks_of secs) w w' \<and> lp_flushBuffer param' = lp_flushBuffer param \<and> lp_bufferSize param' = lp_bufferSize param"
proof -
  note law = replay_lawsD [OF assms(1)]
  let ?api = "pe_api env" and ?w0 = "pe_putHost env host (Serialize_u 8 (fst tiling)) w"
  obtain r1 p1 w1 where m: "api_malloc ?api 32 ACL_MEM_MALLOC_HUGE_FIRST ?w0 = ((r1, p1), w1)" by (metis prod.exhaust)
  obtain r2 w2 where y: "api_copyAsync ?api p1 8 host 8 (lp_stream param) w1 = (r2, w2)" by (metis prod.exhaust)
  obtain r3 w3 where z: "api_sync ?api (lp_stream param) w2 = (r3, w3)" by (metis prod.exhaust)
  have k1: "keeps mem (blocks_of secs) w w1"
    using keeps_trans [OF calm_helpersD(4) [OF law(7)] malloc_keeps [OF law(2) m]] .
  have k2: "keeps mem (blocks_of secs) w w3" if "r1 = ACL_SUCCESS"
  proof -
    have "\<forall>b \<in> set (blocks_of secs). apart (p1, 8) b"
      using fresh_lawD(2) [OF assms(2) fresh_lawD(5) [OF assms(2,3)]] m that apart_less [of p1 32 _ 8] by fastforce
    then have "keeps mem (blocks_of secs) w1 w2" using copy_lawD(2) [OF law(1) y] copies_keeps [of mem p1 host 8 w1 w2] by auto
    then show ?thesis using keeps_trans k1 sync_keeps [OF law(2) z] by metis
  qed
  note fr = calm_apiD(1) [OF law(5)]
  show ?thesis
    using assms(4) m y z k2 copy_lawD(2) [OF law(1) y] quiet_lawD(2) [OF law(2) z] keeps_trans [OF k1 fr]
    by (auto simp: load_tiling_def Let_def split: if_splits)
qed

lemma PrepareClear_keeps:
  assumes "replay_laws env mem secs" "fresh_law env (blocks_of secs) held" "held w" "PrepareClearL2CacheParam env param w = ((ok, param'), w')"
  shows "keeps mem (blocks_of secs) w w'" "ok \<Longrightarrow> aside (blocks_of secs) param'"
proof -
  note law = replay_lawsD [OF assms(1)]
  let ?api = "pe_api env" and ?bs = "blocks_of secs"
  have "keeps mem ?bs w w' \<and> (ok \<longrightarrow> aside ?bs param')"
  proof (cases "map_of l2CacheClearTilingMap (pe_soc env)")
    case None
    then show ?thesis using assms(4) by (simp add: PrepareClearL2CacheParam_def)
  next
    case (Some tiling)
    let ?p0 = "param\<lparr>lp_bufferSize := fst tiling * snd tiling\<rparr>"
    obtain ok1 p1 w1 where b: "MallocBuffer ?api ?p0 w = ((ok1, p1), w1)" by (metis prod.exhaust)
    obtain r2 q2 w2 where m: "api_malloc ?api (lp_bufferSize p1) ACL_MEM_MALLOC_HUGE_FIRST w1 = ((r2, q2), w2)" by (metis prod.exhaust)
    obtain r3 q3 w3 where h: "api_mallocHost ?api 8 w2 = ((r3, q3), w3)" by (metis prod.exhaust)
    let ?p2 = "p1\<lparr>lp_l2Buffer := q2\<rparr>"
    obtain ok4 p4 w4 where t: "load_tiling env tiling q3 ?p2 w3 = ((ok4, p4), w4)" by (metis prod.exhaust)
    note k1 = MallocBuffer_keeps [OF law(2) assms(2,3) b]
    have k2: "keeps mem ?bs w w2" using keeps_trans [OF k1(1) malloc_keeps [OF law(2) m]] .
    have k3: "keeps mem ?bs w w3" using keeps_trans [OF k2 calm_apiD(3) [OF law(5) h]] .
    have h3: "held w3" using fresh_lawD(3) [OF assms(2) fresh_lawD(1) [OF assms(2) k1(3) m] h] .
    note lt = load_tiling_keeps [OF assms(1,2) h3 t]
    have k4: "keeps mem ?bs w (snd (api_freeHost ?api q3 w4))" "keeps mem ?bs w (snd (api_free ?api q2 w3))"
      using keeps_trans [OF keeps_trans [OF k3 conjunct1 [OF lt]] calm_apiD(2) [OF law(5)]] keeps_trans [OF k3 calm_apiD(1) [OF law(5)]] .
    have as: "ok1 \<Longrightarrow> aside ?bs p4" using k1(2) lt by (simp add: aside_def)
    show ?thesis
      using assms(4) Some b m h t k1(1) k2 k4 as by (auto simp: PrepareClearL2CacheParam_def Let_def split: if_splits)
  qed
  then show "keeps mem ?bs w w'" "ok \<Longrightarrow> aside ?bs param'" by auto
qed

lemma ClearL2Cache_keeps:
  assumes "replay_laws env mem secs" "aside (blocks_of secs) param"
  shows "keeps mem (blocks_of secs) w (snd (ClearL2Cache env param w))"
proof -
  note law = replay_lawsD [OF assms(1)]
  let ?api = "pe_api env" and ?bs = "blocks_of secs" and ?n = "lp_bufferSize param" and ?st = "lp_stream param"
  obtain r1 w1 where c: "pe_clearL2 env (lp_blockDim param) ?st [lp_l2Buffer param, lp_blockLen param] w = (r1, w1)" by (metis prod.exhaust)
  obtain r2 w2 where y: "api_copyAsync ?api (lp_flushBuffer param) ?n (lp_buffer param) ?n ?st w1 = (r2, w2)" by (metis prod.exhaust)
  obtain r3 w3 where z: "api_sync ?api ?st w2 = (r3, w3)" by (metis prod.exhaust)
  obtain r4 w4 where m: "pe_cmo env (lp_cmoBuffer param) ?n ?st w3 = (r4, w4)" by (metis prod.exhaust)
  have k1: "keeps mem ?bs w w1" using calm_helpersD(1) [OF law(7) c] .
  have "keeps mem ?bs w1 w2" using copy_lawD(2) [OF law(1) y] assms(2) copies_keeps by (fastforce simp: aside_def)
  then have k2: "keeps mem ?bs w w3" using k1 sync_keeps [OF law(2) z] keeps_trans by metis
  have k3: "keeps mem ?bs w w4" using keeps_trans [OF k2 calm_helpersD(3) [OF law(7) m]] .
  have k4: "keeps mem ?bs w (snd (api_sync ?api ?st v))" if "keeps mem ?bs w v" for v
    using keeps_trans [OF that sync_keeps [OF law(2)]] by (metis prod.collapse)
  show ?thesis
    using c y z m k1 k2 k3 k4 [OF k2] k4 [OF k3] copy_lawD(2) [OF law(1) y] quiet_lawD(2) [OF law(2) z]
    by (auto simp: ClearL2Cache_def WaitClearL2Cache_def Let_def split: if_splits prod.splits)
qed


section \<open>Runs of the kernel\<close>

definition alike ::
  "('w \<Rightarrow> ptr \<Rightarrow> byte) \<Rightarrow> (ptr \<times> MemSection) list \<Rightarrow> (ptr \<times> MemSection \<Rightarrow> bytes) \<Rightarrow> ('w \<Rightarrow> bool \<times> 'w) \<Rightarrow> ('w \<Rightarrow> bool \<times> 'w) \<Rightarrow> bool"
where
  \<comment> \<open>launches that agree whenever the blocks have the given contents\<close>
  "alike mem secs cont launch launch' \<longleftrightarrow> (\<forall>w. as_before mem secs cont w \<longrightarrow> launch' w = launch w)"

lemma run_sync_leaves: "replay_laws env mem secs \<Longrightarrow> leaves mem secs s (run_world (\<lambda>w. snd (pe_syncTimeout env st w)) s)"
  by (intro leaves_world calm_driverD(6) replay_lawsD(6))

lemma launch_replayable:
  assumes "replayable env mem secs cont param s" "keeps_snapshots mem secs (\<lambda>w. snd (launch w))"
  shows "replayable env mem secs cont param (s\<lparr>ps_w := snd (launch (ps_w s))\<rparr>)"
proof -
  have "snap_range mem (snd (launch (ps_w s))) e = snap_range mem (ps_w s) e" if "e \<in> set secs" for e
    unfolding snap_range_def using assms(2) that by (intro mem_range_cong) (auto simp: keeps_snapshots_def in_snapshot_def)
  then show ?thesis using assms(1) by (simp add: replayable_def mc2_flag_def lccl_flag_def)
qed

lemma launch_and_wait_replayable:
  assumes "replay_laws env mem secs" "replayable env mem secs cont param s" "keeps_snapshots mem secs (\<lambda>w. snd (launch w))"
    and "\<And>s. leaves mem secs s (after s)"
  shows "replayable env mem secs cont param (snd (launch_and_wait env stream launch after s))"
proof -
  have 1: "replayable env mem secs cont param (after (s\<lparr>ps_w := snd (launch (ps_w s))\<rparr>))"
    using leaves_replayable [OF assms(4) launch_replayable [OF assms(2,3)]] .
  then show ?thesis using leaves_replayable [OF run_sync_leaves [OF assms(1)] 1]
    by (cases "launch (ps_w s)") (simp add: launch_and_wait_def in_world_def Let_def)
qed

lemma launch_and_wait_alike:
  "alike mem secs cont launch launch' \<Longrightarrow> as_before mem secs cont (ps_w s) \<Longrightarrow>
   launch_and_wait env stream launch' after s = launch_and_wait env stream launch after s"
  by (simp add: launch_and_wait_def alike_def in_world_def)

lemma collect_run_replayable:
  assumes "replay_laws env mem secs" "replayable env mem secs cont param s" "keeps_snapshots mem secs (\<lambda>w. snd (launch w))"
  shows "\<exists>r s'. collect_run env c stream launch s = Some (r, s') \<and> replayable env mem secs cont param s'" (is ?run)
    and "as_before mem secs cont (ps_w s) \<Longrightarrow> alike mem secs cont launch launch' \<Longrightarrow>
      collect_run env c stream launch' s = collect_run env c stream launch s"
proof -
  note law = replay_lawsD [OF assms(1)]
  have fam: "tk_family (dc_task (ps_dc s)) \<noteq> Task310P" using assms(2) by (simp add: replayable_def)
  obtain ok s1 where st: "StartProf env c s = Some (ok, s1)" "leaves mem secs s s1" using StartProf_leaves [OF assms(1) fam] .
  define s2 where "s2 = (if dc_profL2cacheEvict (ps_dc s1) then run_world (\<lambda>w. snd (pe_emptyKernel env stream w)) s1 else s1)"
  have "leaves mem secs s1 s2" by (simp add: s2_def leaves_world calm_helpersD(2) [OF law(7)])
  then have l2: "leaves mem secs s s2" using leaves_trans [OF st(2)] by blast
  note i2 = leaves_replayable [OF l2 assms(2)]
  let ?after = "\<lambda>s. if IsPmuEventEmpty env c (dc_replayCount (ps_dc s) + 1) then LoadFrequency env s else s"
  have after: "\<And>s. leaves mem secs s (?after s)" by (simp add: LoadFrequency_leaves)
  have run: "collect_run env c stream la s =
      Some (if ok then let (ret, s3) = launch_and_wait env stream la ?after s2 in (ret, join_reader env (StopProf env c s3))
            else (False, StopProf env c s1))" for la
    using st i2 by (simp add: collect_run_def s2_def [symmetric] replayable_def Let_def split: prod.splits)
  have join: "leaves mem secs s (join_reader env (StopProf env c s))" for s
    using leaves_trans [OF StopProf_leaves [OF assms(1)]] leaves_world calm_driverD(4) [OF law(6)] by (fastforce simp: join_reader_def)
  obtain ret s3 where w: "launch_and_wait env stream launch ?after s2 = (ret, s3)" by (cases "launch_and_wait env stream launch ?after s2")
  have i3: "replayable env mem secs cont param s3"
    using launch_and_wait_replayable [OF assms(1) i2 assms(3) after, of stream] unfolding w by simp
  show ?run
    using leaves_replayable [OF join i3] leaves_replayable [OF leaves_trans [OF st(2) StopProf_leaves [OF assms(1)]] assms(2)]
    unfolding run w by auto
  show "collect_run env c stream launch' s = collect_run env c stream launch s"
    if "as_before mem secs cont (ps_w s)" "alike mem secs cont launch launch'"
    using launch_and_wait_alike [OF that(2) leaves_as_before [OF l2 that(1)]] by (simp add: run)
qed

lemma ReplayOnce_replayable:
  assumes "replay_laws env mem secs" "replayable env mem secs cont param s" "keeps_snapshots mem secs (\<lambda>w. snd (launch w))"
    and "\<not> pf_isAppReplay c"
  shows "\<exists>r s'. ReplayOnce env c stream launch param s = Some (r, s') \<and> replayable env mem secs cont param s'"
    and "alike mem secs cont launch launch' \<Longrightarrow> ReplayOnce env c stream launch' param s = ReplayOnce env c stream launch param s"
proof -
  define s1 where "s1 = (if dc_isClearParamSuccess (ps_dc s) then run_world (\<lambda>w. snd (ClearL2Cache env param w)) s else s)"
  have "leaves mem secs s s1"
    using assms(2) leaves_world [of mem secs s "\<lambda>w. snd (ClearL2Cache env param w)"] ClearL2Cache_keeps [OF assms(1), of param] by (simp add: s1_def replayable_def aside_def)
  note i1 = leaves_replayable [OF this assms(2)]
  obtain ok s2 where r: "restore_memory env s1 = (ok, s2)" by (metis prod.exhaust)
  note i2 = restore_memory_replayable [OF assms(1) i1 r]
  have once: "ReplayOnce env c stream la param s =
      (if IsPmuEventEmpty env c (dc_replayCount (ps_dc s)) \<and> dc_replayCount (ps_dc s) \<noteq> 0 then Some (True, s)
       else collect_run env c stream la s2)" for la
    using i1 i2(1) r assms(4) by (simp add: ReplayOnce_def s1_def [symmetric] replayable_def Let_def)
  show "\<exists>r s'. ReplayOnce env c stream launch param s = Some (r, s') \<and> replayable env mem secs cont param s'"
    using collect_run_replayable(1) [OF assms(1) i2(2) assms(3)] assms(2) by (auto simp: once)
  show "alike mem secs cont launch launch' \<Longrightarrow> ReplayOnce env c stream launch' param s = ReplayOnce env c stream launch param s"
    using collect_run_replayable(2) [OF assms(1) i2(2) assms(3) i2(3)] by (simp add: once)
qed

lemma warm_up_loop_replayable:
  assumes "replay_laws env mem secs" "keeps_snapshots mem secs (\<lambda>w. snd (launch w))" "replayable env mem secs cont param s"
  shows "replayable env mem secs cont param (warm_up_loop env stream launch n s) \<and>
    (alike mem secs cont launch launch' \<longrightarrow> warm_up_loop env stream launch' n s = warm_up_loop env stream launch n s)"
  using assms(3)
proof (induction n arbitrary: s)
  case (Suc n)
  obtain ok s1 where r: "restore_memory env s = (ok, s1)" by (metis prod.exhaust)
  note i1 = restore_memory_replayable [OF assms(1) Suc.prems r]
  let ?s2 = "s1\<lparr>ps_w := snd (launch (ps_w s1))\<rparr>"
  obtain ret w3 where y: "api_sync (pe_api env) stream (ps_w ?s2) = (ret, w3)" by (metis prod.exhaust)
  have "leaves mem secs ?s2 (?s2\<lparr>ps_w := w3\<rparr>)" using sync_keeps [OF replay_lawsD(2) [OF assms(1)] y] by (simp add: leaves_def)
  note i3 = leaves_replayable [OF this launch_replayable [OF i1(2) assms(2)]]
  have step: "warm_up_loop env stream la (Suc n) s = warm_up_loop env stream la n (?s2\<lparr>ps_w := w3\<rparr>)" if "la (ps_w s1) = launch (ps_w s1)" for la
    using r i1(1) y that quiet_lawD(2) [OF replay_lawsD(2) [OF assms(1)] y] by (simp add: run_world_def in_world_def)
  show ?case using Suc.IH [OF i3] i1(3) step [of launch] step [of launch'] by (auto simp: alike_def)
qed simp

lemma replay_loop_replayable:
  assumes "replay_laws env mem secs" "keeps_snapshots mem secs (\<lambda>w. snd (launch w))" "\<not> pf_isAppReplay c"
    and "replayable env mem secs cont param s"
  shows "(\<exists>r s'. replay_loop env c stream launch param n b s = Some (r, False, s') \<and> replayable env mem secs cont param s') \<and>
    (alike mem secs cont launch launch' \<longrightarrow> replay_loop env c stream launch' param n b s = replay_loop env c stream launch param n b s)"
  using assms(4)
proof (induction n arbitrary: b s)
  case (Suc n)
  obtain r s1 where o: "ReplayOnce env c stream launch param s = Some (r, s1)" "replayable env mem secs cont param s1"
    using ReplayOnce_replayable(1) [OF assms(1) Suc.prems assms(2,3)] by blast
  have "replayable env mem secs cont param (on_dc (\<lambda>dc. dc\<lparr>dc_replayCount := dc_replayCount dc + 1\<rparr>) s1)"
    using o(2) by (simp add: replayable_def on_dc_def mc2_flag_def lccl_flag_def)
  from Suc.IH [OF this, of "b \<and> r"] show ?case
    using o Suc.prems assms(3) ReplayOnce_replayable(2) [OF assms(1) Suc.prems assms(2,3), of launch' stream] by auto
qed simp


section \<open>A profiled launch\<close>

definition unclear :: "'w prof_state \<Rightarrow> 'w prof_state" where
  "unclear s = on_dc (\<lambda>dc. dc\<lparr>dc_isClearParamSuccess := False\<rparr>) s"

lemma replayable_dc:
  "replayable env mem secs cont param s \<Longrightarrow> tk_family (dc_task (f (ps_dc s))) = tk_family (dc_task (ps_dc s)) \<Longrightarrow>
   dc_isClearParamSuccess (f (ps_dc s)) = dc_isClearParamSuccess (ps_dc s) \<Longrightarrow> replayable env mem secs cont param (on_dc f s)"
  by (simp add: replayable_def on_dc_def mc2_flag_def lccl_flag_def)

lemma run_replays_replayable:
  assumes "replay_laws env mem secs" "keeps_snapshots mem secs (\<lambda>w. snd (launch w))" "\<not> pf_isAppReplay c"
    and "replayable env mem secs cont param s"
  shows "\<exists>r s'. run_replays env c stream launch param s = Some (r, s') \<and> as_before mem secs cont (ps_w s')"
    and "alike mem secs cont launch launch' \<Longrightarrow> run_replays env c stream launch' param s = run_replays env c stream launch param s"
proof -
  obtain r s1 where l: "replay_loop env c stream launch param GetReplayTimes True s = Some (r, False, s1)" "replayable env mem secs cont param s1"
    using replay_loop_replayable [OF assms] by blast
  obtain ok s2 where re: "restore_memory env s1 = (ok, s2)" by (metis prod.exhaust)
  have "leaves mem secs s2 (run_world (FreeL2Cache (pe_api env) param) s2)"
    using FreeL2Cache_keeps [OF replay_lawsD(5) [OF assms(1)]] by (rule leaves_world)
  from leaves_as_before [OF this restore_memory_replayable(3) [OF assms(1) l(2) re]]
  show "\<exists>r s'. run_replays env c stream launch param s = Some (r, s') \<and> as_before mem secs cont (ps_w s')"
    using l re by (simp add: run_replays_def restore_finally_def replayable_def)
  show "alike mem secs cont launch launch' \<Longrightarrow> run_replays env c stream launch' param s = run_replays env c stream launch param s"
    using replay_loop_replayable [OF assms, of stream GetReplayTimes True launch'] by (simp add: run_replays_def)
qed

lemma prepared_replayable:
  assumes "replay_laws env mem secs" "replayable env mem secs cont param0 (unclear s)"
    and "fresh_law env (blocks_of secs) held" "held (ps_w s)" "PrepareClearL2CacheParam env (lp0 stream) (ps_w s) = ((clear, param), w)"
  shows "replayable env mem secs cont param (s\<lparr>ps_w := w, ps_dc := (ps_dc s)\<lparr>dc_replayCount := n, dc_isClearParamSuccess := clear\<rparr>\<rparr>)"
proof -
  note k = PrepareClear_keeps [OF assms(1,3-5)]
  have "leaves mem secs (unclear s) ((unclear s)\<lparr>ps_w := w\<rparr>)" using k(1) by (simp add: leaves_def unclear_def on_dc_def)
  from leaves_replayable [OF this assms(2)] show ?thesis
    using k(2) by (auto simp: replayable_def unclear_def on_dc_def mc2_flag_def lccl_flag_def aside_def)
qed

lemma WarmUp_replayable:
  assumes "replay_laws env mem secs" "keeps_snapshots mem secs (\<lambda>w. snd (launch w))" "\<not> pf_isAppReplay c"
    and "replayable env mem secs cont param s"
  shows "replayable env mem secs cont param (WarmUp env c stream launch s)"
    and "alike mem secs cont launch launch' \<Longrightarrow> WarmUp env c stream launch' s = WarmUp env c stream launch s"
  using warm_up_loop_replayable [OF assms(1,2,4), of stream "GetWarmUpTimes c" launch'] assms(3,4) by (simp_all add: WarmUp_def Let_def)

lemma ProfCommandAction_leaves:
  assumes "replay_laws env mem secs"
  shows "leaves mem secs s (ProfCommandAction env c ty s)"
  unfolding ProfCommandAction_def Let_def by (intro leaves_world calm_driverD(5) replay_lawsD(6) assms)

lemma KernelReplay_as_before:
  assumes "replay_laws env mem secs" "keeps_snapshots mem secs (\<lambda>w. snd (launch w))" "\<not> pf_isAppReplay c"
    and "replayable env mem secs cont param0 (unclear s)" "as_before mem secs cont (ps_w s)"
    and "fresh_law env (blocks_of secs) held" "held (ps_w s)"
  shows "\<exists>r s'. KernelReplay env c stream launch s = Some (r, s') \<and> as_before mem secs cont (ps_w s')"
    and "alike mem secs cont launch launch' \<Longrightarrow> KernelReplay env c stream launch' s = KernelReplay env c stream launch s"
proof -
  obtain clear param w where p: "PrepareClearL2CacheParam env (lp0 stream) (ps_w s) = ((clear, param), w)" by (metis prod.exhaust)
  define s1 where "s1 = s\<lparr>ps_w := w, ps_dc := (ps_dc s)\<lparr>dc_replayCount := GetInitReplayCount c, dc_isClearParamSuccess := clear\<rparr>\<rparr>"
  have i1: "replayable env mem secs cont param s1" unfolding s1_def by (rule prepared_replayable [OF assms(1,4,6,7) p])
  define s2 where "s2 la = ProfCommandAction env c PROF_COMMANDHANDLE_TYPE_START (WarmUp env c stream la s1)" for la
  have i2: "replayable env mem secs cont param (s2 launch)"
    unfolding s2_def by (rule leaves_replayable [OF ProfCommandAction_leaves [OF assms(1)] WarmUp_replayable(1) [OF assms(1-3) i1]])
  have e2: "alike mem secs cont launch launch' \<Longrightarrow> s2 launch' = s2 launch"
    using WarmUp_replayable(2) [OF assms(1-3) i1, of launch' stream] by (simp add: s2_def)
  define s3 where "s3 = on_dc (\<lambda>dc. dc\<lparr>dc_profL2cacheEvict := True\<rparr>) (s2 launch)"
  have i3: "replayable env mem secs cont param s3" unfolding s3_def by (rule replayable_dc [OF i2]) simp_all
  obtain r s4 where o: "ReplayOnce env c stream launch param s3 = Some (r, s4)" "replayable env mem secs cont param s4"
    using ReplayOnce_replayable(1) [OF assms(1) i3 assms(2,3)] by blast
  let ?s5 = "on_dc (\<lambda>dc. dc\<lparr>dc_profL2cacheEvict := False\<rparr>) s4"
  have i5: "replayable env mem secs cont param ?s5" by (rule replayable_dc [OF o(2)]) simp_all
  have run: "KernelReplay env c stream la s =
      (if IsDbi c then Some (True, s)
       else if SupportProfL2CacheEvict env c then run_replays env c stream la param ?s5 else run_replays env c stream la param (s2 la))"
    if "ReplayOnce env c stream la param (on_dc (\<lambda>dc. dc\<lparr>dc_profL2cacheEvict := True\<rparr>) (s2 la)) = Some (r, s4)" for la
    using p that assms(3) unfolding s2_def s1_def by (simp add: KernelReplay_def on_dc_def in_world_def Let_def)
  note ends = run_replays_replayable [OF assms(1-3) i2, where stream = stream] run_replays_replayable [OF assms(1-3) i5, where stream = stream]
  show "\<exists>r s'. KernelReplay env c stream launch s = Some (r, s') \<and> as_before mem secs cont (ps_w s')"
    using run [OF o(1) [unfolded s3_def]] ends(1,3) assms(5) by auto
  show "KernelReplay env c stream launch' s = KernelReplay env c stream launch s" if a: "alike mem secs cont launch launch'"
  proof -
    have "ReplayOnce env c stream launch' param (on_dc (\<lambda>dc. dc\<lparr>dc_profL2cacheEvict := True\<rparr>) (s2 launch')) = Some (r, s4)"
      using ReplayOnce_replayable(2) [OF assms(1) i3 assms(2,3) a] o(1) e2 [OF a] by (simp add: s3_def)
    from run [OF this] show ?thesis using run [OF o(1) [unfolded s3_def]] ends(2,4) [OF a] e2 [OF a] by simp
  qed
qed


lemma SaveBasicInfo_leaves:
  assumes "replay_laws env mem secs"
  shows "leaves mem secs s (SaveBasicInfo env c s)"
proof -
  note h = calm_helpersD(5,6) [OF replay_lawsD(7) [OF assms]]
  have open_leaves: "leaves mem secs s (snd (in_world (pe_openWrite env p x) s))" for p x
    using h(1) [of "ps_w s" p x] by (cases "pe_openWrite env p x (ps_w s)") (simp add: in_world_def leaves_def)
  have chmod_leaves: "leaves mem secs s (run_world (\<lambda>w. snd (sl_chmod (pe_shell env) p m w)) s)" for p m s
    by (intro leaves_world h(2))
  have "leaves mem secs s (snd (save_text env p x s))" for p x
    using open_leaves [of p x] leaves_trans [OF open_leaves [of p x] chmod_leaves]
    by (cases "in_world (pe_openWrite env p x) s") (simp add: save_text_def)
  then show ?thesis by (simp add: SaveBasicInfo_def)
qed

lemma backup_memory_before:
  assumes "backup_memory env s = (True, s1)" "copy_law (pe_api env) mem" "quiet_law (pe_api env) mem"
    and "separate (bucket_of (pe_device env) (ps_mc s1))"
  defines "secs \<equiv> bucket_of (pe_device env) (ps_mc s1)"
  shows "\<forall>e \<in> set secs. snap_range mem (ps_w s1) e = origin_range mem (ps_w s) e"
    and "\<forall>e \<in> set secs. origin_range mem (ps_w s1) e = origin_range mem (ps_w s) e" "ps_dc s1 = ps_dc s" "ps_k s1 = ps_k s"
proof -
  obtain b mc0 where g: "GetBucket (pe_device env) (ps_mc s) = (b, mc0)" by (metis prod.exhaust)
  obtain secs' st w1 where l: "backup_loop (pe_api env) (db_memSectionMap b) (db_stream b) (ps_w s) = (True, secs', st, w1)"
    and s1: "s1 = s\<lparr>ps_mc := omap_put (pe_device env) (b\<lparr>db_memSectionMap := secs', db_stream := st\<rparr>) mc0, ps_w := w1\<rparr>"
    using assms(1) g by (auto simp: backup_memory_def Backup_def split: prod.splits)
  have secs: "secs = secs'" by (simp add: secs_def s1)
  have sep: "separate secs'" using assms(4) secs_def secs by simp
  note bl = backup_loop_copies [OF assms(2,3) l sep]
  show "\<forall>e \<in> set secs. snap_range mem (ps_w s1) e = origin_range mem (ps_w s) e" using bl by (simp add: secs s1)
  show "\<forall>e \<in> set secs. origin_range mem (ps_w s1) e = origin_range mem (ps_w s) e"
  proof
    fix e assume e: "e \<in> set secs"
    show "origin_range mem (ps_w s1) e = origin_range mem (ps_w s) e"
      unfolding origin_range_def
    proof (rule mem_range_cong)
      fix a assume a: "ms_originAddr (snd e) \<le> a" "a < ms_originAddr (snd e) + ms_size (snd e)"
      have "\<not> in_snapshot secs' a" using separate_snap_origin [OF sep, of _ e] e a unfolding secs in_snapshot_def apart_def by fastforce
      then show "mem (ps_w s1) a = mem (ps_w s) a" using bl by (simp add: s1)
    qed
  qed
  show "ps_dc s1 = ps_dc s" "ps_k s1 = ps_k s" by (simp_all add: s1)
qed

definition profiled_alone :: "'w prof_env \<Rightarrow> ProfConfig \<Rightarrow> 'w prof_state \<Rightarrow> bool" where
  \<comment> \<open>one operator on its own is replayed on the device, and not by running the program again\<close>
  "profiled_alone env c s \<longleftrightarrow> \<not> (pf_isRangeReplay c \<and> pe_inRange env) \<and> \<not> pf_isAppReplay c \<and> \<not> mp_isDeviceToSimulator (pf_config c) \<and>
     \<not> mc2_flag env s \<and> \<not> lccl_flag env s \<and> tk_family (dc_task (ps_dc s)) \<noteq> Task310P"

lemma ProfData_alone:
  assumes "profiled_alone env c s" "backup_memory env s = (True, s1)"
    and "replay_laws env mem (bucket_of (pe_device env) (ps_mc s1))"
    and "keeps_snapshots mem (bucket_of (pe_device env) (ps_mc s1)) (\<lambda>w. snd (launch w))"
    and "fresh_law env (blocks_of (bucket_of (pe_device env) (ps_mc s1))) held" "held (ps_w s1)"
  defines "secs \<equiv> bucket_of (pe_device env) (ps_mc s1)" and "cont \<equiv> origin_range mem (ps_w s)"
  shows "\<exists>r s'. ProfData env lk sm c stream launch s = Some (r, s') \<and> as_before mem secs cont (ps_w s')"
    and "alike mem secs cont launch launch' \<Longrightarrow> ProfData env lk sm c stream launch' s = ProfData env lk sm c stream launch s"
proof -
  have laws: "replay_laws env mem secs" "keeps_snapshots mem secs (\<lambda>w. snd (launch w))" using assms(3,4) by (simp_all add: secs_def)
  note law = replay_lawsD [OF laws(1)] and flags = assms(1) [unfolded profiled_alone_def]
  have app: "\<not> pf_isAppReplay c" using flags by simp
  note b = backup_memory_before [OF assms(2) law(1,2) law(3) [unfolded secs_def], folded secs_def cont_def]
  define s2 where "s2 = run_world (\<lambda>w. snd (api_sync (pe_api env) stream w)) s1"
  have l2: "leaves mem secs (unclear s1) (unclear s2)" "leaves mem secs s1 s2"
    using sync_keeps [OF law(2) surjective_pairing] by (simp_all add: leaves_def s2_def unclear_def on_dc_def run_world_def)
  have "replayable env mem secs cont (lp0 stream) (unclear s1)"
    using b flags by (simp add: replayable_def unclear_def on_dc_def mc2_flag_def lccl_flag_def secs_def)
  note i2 = leaves_replayable [OF l2(1) this]
  have a2: "as_before mem secs cont (ps_w s2)" using leaves_as_before [OF l2(2)] b(2) by (simp add: as_before_def)
  have h2: "held (ps_w s2)" using fresh_lawD(4) [OF assms(5,6)] by (simp add: s2_def run_world_def)
  note rep = KernelReplay_as_before [OF laws app i2 a2 assms(5) [folded secs_def] h2, where stream = stream]
  obtain r s3 where k: "KernelReplay env c stream launch s2 = Some (r, s3)" "as_before mem secs cont (ps_w s3)" using rep(1) by blast
  have range: "(pf_isRangeReplay c \<and> pe_inRange env) = False" using flags by simp
  have flags2: "\<not> mc2_flag env s2" using flags b(4) by (simp add: mc2_flag_def s2_def run_world_def)
  have run: "ProfData env lk sm c stream la s =
     (if dc_outputPath (ps_dc s) = [] then Some (True, s)
      else if \<not> bv_exists (pe_files env) (dc_outputPath (ps_dc s)) (ps_w s) then Some (False, s)
      else Some (r, if r then SaveBasicInfo env c s3 else s3))" if "KernelReplay env c stream la s2 = Some (r, s3)" for la
    unfolding ProfData_def range
    using that flags assms(2) flags2 by (simp add: profile_launch_def launch_on_simulator_def s2_def [symmetric] Let_def)
  have "as_before mem secs cont (ps_w s)" by (simp add: as_before_def cont_def)
  then show "\<exists>r s'. ProfData env lk sm c stream launch s = Some (r, s') \<and> as_before mem secs cont (ps_w s')"
    using run [OF k(1)] k(2) leaves_as_before [OF SaveBasicInfo_leaves [OF laws(1)] k(2)] by auto
  show "ProfData env lk sm c stream launch' s = ProfData env lk sm c stream launch s" if "alike mem secs cont launch launch'"
    using run [of launch'] run [OF k(1)] rep(2) [OF that] k(1) by simp
qed


section \<open>What the program sees of it\<close>



section \<open>A profiled launch on the flat device\<close>

definition still_shell :: "'w shell" where
  "still_shell = \<lparr>sl_run = (\<lambda>cmd w. ((True, []), w)), sl_chmod = (\<lambda>_ _ w. (True, w)), sl_umask = (\<lambda>_ w. (0, w)),
     sl_writeText = (\<lambda>_ _ w. (True, w)), sl_isDir = (\<lambda>_ _. False), sl_inputValid = (\<lambda>_ _ _. True), sl_open = (\<lambda>_ w. (5, w)),
     sl_symbol = (\<lambda>_ _ _. 6), sl_close = (\<lambda>_ w. w), sl_start = (\<lambda>_ _ _ _ w. w)\<rparr>"

definition flat_prof :: "flat prof_env" where
  "flat_prof =
     \<lparr>pe_api = pos_api,
      pe_drv = \<lparr>pd_start = (\<lambda>_ _ _ w. (0, w)), pd_stop = (\<lambda>_ _ w. (0, w)), pd_poll = (\<lambda>_ w. ((0, []), w)),
        pd_read = (\<lambda>_ _ _ w. ((0, []), w)), pd_version = (\<lambda>_. (0, 0)), pd_append = (\<lambda>_ _ w. (0, w)), pd_running = (\<lambda>_. False)\<rparr>,
      pe_files = none_vendor\<lparr>bv_exists := (\<lambda>_ _. True)\<rparr>, pe_shell = still_shell, 
      pe_kernel = \<lparr>kn_device = 0, kn_soc = ''Ascend910B1'', kn_addrOfStub = (\<lambda>_. None), kn_addrOfKey = (\<lambda>_ _. None),
        kn_hmem = (\<lambda>_. 0), kn_threadId = ''7'', kn_subscribe = (\<lambda>_ _. True)\<rparr>, pe_soc = ''Ascend910B1'',
      pe_device = 0, pe_thread = 1, pe_pid = 77, pe_dumpPath = ''/dump'', pe_inRange = True, pe_writable = (\<lambda>_ _. True),
      pe_openWrite = (\<lambda>_ _ w. (True, w)), pe_signal = (\<lambda>_. False), pe_reader = (\<lambda>_ _ w. w), pe_syncTimeout = (\<lambda>_ w. (0, w)),
      pe_cmo = (\<lambda>_ _ _ w. (0, w)), pe_putHost = (\<lambda>_ _ w. w), pe_clearL2 = (\<lambda>_ _ _ w. (True, w)), pe_emptyKernel = (\<lambda>_ w. (True, w)),
      pe_profCommand = (\<lambda>_ w. w), pe_ratedFreq = (\<lambda>_ _. (0, 1800)), pe_currentFreq = (\<lambda>_ _. (0, 1800)), pe_hcclComm = 0,
      pe_createEvent = (\<lambda>w. ((0, 1), w)), pe_destroyEvent = (\<lambda>_ w. w), pe_barrier = (\<lambda>_ _ w. (0, w)), pe_recordEvent = (\<lambda>_ _ w. (0, w)),
      pe_waitEvent = (\<lambda>_ _ w. (0, w)), pe_resetEvent = (\<lambda>_ _ w. (0, w)), pe_aicpuLaunch = (\<lambda>_ w. (0, w)),
      pe_captureBegin = (\<lambda>_ w. (0, w)), pe_riExecute = (\<lambda>_ _ w. (0, w))\<rparr>"

definition flat_state :: "flat prof_state" where
  "flat_state =
     \<lparr>ps_dc = \<lparr>dc_deviceId = 0, dc_outputPath = ''/out'', dc_kernelName = ''Add'', dc_launchCtx = None, dc_hasSimt = False, dc_replayCount = 0,
        dc_curFreq = -1, dc_ratedFreq = -1, dc_task = ProfTaskFactory_Create ''Ascend910B1'' mp0 0, dc_isClearParamSuccess = False,
        dc_profL2cacheEvict = False\<rparr>,
      ps_mc = two_blocks, ps_g = \<lparr>pg_deviceOutputPath = [], pg_deviceReplayCount = [], pg_threadRangeConfig = []\<rparr>, ps_k = kc0, ps_w = flat0\<rparr>"

definition flat_secs :: "(ptr \<times> MemSection) list" where
  "flat_secs = [(16, \<lparr>ms_originAddr = 16, ms_snapshotAddr = 4097, ms_size = 8, ms_policy = 0\<rparr>),
        (32, \<lparr>ms_originAddr = 32, ms_snapshotAddr = 4106, ms_size = 8, ms_policy = 0\<rparr>)]"

definition flat_held :: "flat \<Rightarrow> bool" where "flat_held w \<longleftrightarrow> 4114 \<le> fl_next w"

lemma flat_backup:
  obtains s1 where "backup_memory flat_prof flat_state = (True, s1)" "flat_secs = bucket_of 0 (ps_mc s1)" "flat_held (ps_w s1)"
proof -
  have "fst (backup_memory flat_prof flat_state) \<and> bucket_of 0 (ps_mc (snd (backup_memory flat_prof flat_state))) = flat_secs \<and>
      flat_held (ps_w (snd (backup_memory flat_prof flat_state)))"
    by (simp add: backup_memory_def flat_prof_def flat_state_def flat_secs_def flat_held_def Backup_def two_blocks_def Append_section_def GetBucket_def bucket0_def bucket_of_def
      CreateSnapshot_def copy_section_def MemCopyWithStream_def MemCopySync_def copy_ends_def GetCurrentStream_def pos_api_def
      flat_api_def ACL_SUCCESS_def flat0_def flat_put_def ACL_MEM_MALLOC_HUGE_FIRST_def Let_def)
  then show ?thesis using that by (metis prod.collapse)
qed

lemma flat_alone: "profiled_alone flat_prof pf0 flat_state"
proof -
  have "\<not> StartsWith ''Ascend910B1'' ''Ascend310P''" by code_simp
  then show ?thesis
    by (simp add: profiled_alone_def pf0_def mp0_def flat_state_def mc2_flag_def lccl_flag_def flat_prof_def GetDeviceContext_def kc0_def kd0_def
      ProfTaskFactory_Create_def new_ProfTask_def)
qed

lemma flat_replay_laws: "replay_laws flat_prof fl_mem flat_secs" "fresh_law flat_prof (blocks_of flat_secs) flat_held"
proof -
  have api: "pe_api flat_prof = pos_api" by (simp add: flat_prof_def)
  have "separate flat_secs" by (simp add: flat_secs_def separate_def section_blocks_def apart_def)
  moreover have "calm_api fl_mem bs pos_api" "calm_driver fl_mem bs flat_prof" "calm_helpers fl_mem bs flat_prof" for bs
    by (simp_all add: calm_api_def calm_driver_def calm_helpers_def calm_def flat_prof_def still_shell_def pos_api_def flat_api_def mem_keeps Let_def)
  ultimately show "replay_laws flat_prof fl_mem flat_secs"
    using pos_laws by (simp add: replay_laws_def api) (simp add: flat_secs_def)
  show "fresh_law flat_prof (blocks_of flat_secs) flat_held"
    by (auto simp: fresh_law_def flat_prof_def pos_api_def flat_api_def flat_held_def flat_secs_def blocks_of_def section_blocks_def apart_def Let_def)
qed

lemma flat_kernel_keeps: "keeps_snapshots fl_mem flat_secs (\<lambda>w. snd (True, flat_put 16 [1, 2] w))"
  by (auto simp: keeps_snapshots_def in_snapshot_def flat_secs_def flat_put_def)




section \<open>The order of the runs for instruction profiles\<close>

text \<open>
  ProfTask.h documents the order of the states. As a plan: the runs that are wanted, in order, and after them the
  rounds of events.
\<close>

definition wanted :: "ProfConfig \<Rightarrow> bool \<Rightarrow> InstrProfState list" where
  "wanted c hasSimt = (if IsPCSamplingEnabled c \<and> hasSimt then [PC_SAMPLING] else []) @ (if timeline_on c then [TIMELINE] else [])"

definition mode_of :: "InstrProfState \<Rightarrow> nat" where
  \<comment> \<open>\<open>INSTR_PROF_MODE_PC_SAMPLING\<close> and \<open>INSTR_PROF_MODE_BIU_PERF\<close>\<close>
  "mode_of st = (if st = PC_SAMPLING then 1 else 0)"

definition plan_of :: "ProfConfig \<Rightarrow> bool \<Rightarrow> ProfTask \<Rightarrow> InstrProfState list" where
  \<comment> \<open>what is still to come, between two runs\<close>
  "plan_of c hasSimt t =
     (case tk_instrProfState t of IDLE \<Rightarrow> wanted c hasSimt | TIMELINE \<Rightarrow> filter (\<lambda>st. st = TIMELINE) (wanted c hasSimt) | _ \<Rightarrow> [])"

definition profile_run ::
  "'w prof_drv \<Rightarrow> ProfConfig \<Rightarrow> nat \<Rightarrow> bool \<Rightarrow> ProfTask \<times> 'w \<Rightarrow> (bool \<times> ProfTask \<times> 'w) \<times> (ProfTask \<times> 'w)"
where
  \<comment> \<open>the state while the kernel runs, and the state after the run\<close>
  "profile_run drv c replayCount hasSimt tw =
     (let ((ok, t), w) = Start_A5 drv c replayCount hasSimt (fst tw) (snd tw) in ((ok, t, w), Stop_A5 drv c t w))"

definition planned_run ::
  "'w prof_drv \<Rightarrow> nat \<Rightarrow> bool \<Rightarrow> InstrProfState list \<Rightarrow> ProfTask \<times> 'w \<Rightarrow> bool \<times> ProfTask \<times> 'w"
where
  \<comment> \<open>the channels of the run that comes first in the plan, or else a round of events\<close>
  "planned_run drv replayCount hasSimt plan tw =
     (let t = (fst tw)\<lparr>tk_profRunning := True, tk_hasSimt := hasSimt\<rparr> in
      case plan of
        [] \<Rightarrow> (let ((ok, t), w) = start_round (StartFFTSTask_A5 drv replayCount t) drv (snd tw) in (ok, t, w))
      | st # _ \<Rightarrow>
          (let t = t\<lparr>tk_instrProfState := st\<rparr> in
           (True, t, start_instr_channels drv (InstrProfTask_GetTask drv (mode_of st) (snd tw)) t instrProfChn (snd tw))))"

fun profile_runs ::
  "'w prof_drv \<Rightarrow> ProfConfig \<Rightarrow> bool \<Rightarrow> nat list \<Rightarrow> ProfTask \<times> 'w \<Rightarrow> ProfTask \<times> 'w"
where
  "profile_runs drv c hasSimt [] tw = tw"
| "profile_runs drv c hasSimt (n # ns) tw = profile_runs drv c hasSimt ns (snd (profile_run drv c n hasSimt tw))"

lemma round_state:
  assumes "start_round (StartFFTSTask_A5 drv n t) drv w = ((ok, t'), w')"
  shows "tk_instrProfState t' = tk_instrProfState t"
  using assms by (auto simp: start_round_def StartFFTSTask_A5_def StartStarsTask_def Let_def split: if_splits prod.splits)

lemma Stop_A5_state:
  "tk_instrProfState (fst (Stop_A5 drv c t w)) =
     (if tk_instrProfState t = PC_SAMPLING then (if timeline_on c then TIMELINE else DONE)
      else if tk_instrProfState t = TIMELINE then DONE else tk_instrProfState t)"
  by (simp add: Stop_A5_def Let_def)

lemma profile_run_plan:
  fixes drv c n hasSimt tw
  assumes "tk_instrProfState (fst tw) \<noteq> PC_SAMPLING" "tk_instrProfState (fst tw) = TIMELINE \<longrightarrow> timeline_on c"
  defines "tw' \<equiv> snd (profile_run drv c n hasSimt tw)"
  shows "fst (profile_run drv c n hasSimt tw) = planned_run drv n hasSimt (plan_of c hasSimt (fst tw)) tw"
    and "plan_of c hasSimt (fst tw') = drop 1 (plan_of c hasSimt (fst tw))"
    and "tk_instrProfState (fst tw') \<noteq> PC_SAMPLING" "tk_instrProfState (fst tw') = TIMELINE \<longrightarrow> timeline_on c"
proof -
  obtain t w where tw: "tw = (t, w)" by (cases tw)
  let ?t = "t\<lparr>tk_profRunning := True, tk_hasSimt := hasSimt\<rparr>"
  obtain ok t1 w1 where r: "start_round (StartFFTSTask_A5 drv n ?t) drv w = ((ok, t1), w1)" by (metis prod.exhaust)
  note st = round_state [OF r]
  note unfold = profile_run_def planned_run_def plan_of_def wanted_def mode_of_def Start_A5_def StartInstrProfTask_def
  show "fst (profile_run drv c n hasSimt tw) = planned_run drv n hasSimt (plan_of c hasSimt (fst tw)) tw"
    using assms(1,2) r by (cases "tk_instrProfState t") (auto simp: tw unfold Let_def)
  show "plan_of c hasSimt (fst tw') = drop 1 (plan_of c hasSimt (fst tw))"
    "tk_instrProfState (fst tw') \<noteq> PC_SAMPLING" "tk_instrProfState (fst tw') = TIMELINE \<longrightarrow> timeline_on c"
    using assms(1,2) r st by (cases "tk_instrProfState t"; auto simp: tw'_def tw unfold Let_def Stop_A5_state)+
qed

lemma profile_runs_plan:
  fixes drv c ns hasSimt tw
  assumes "tk_instrProfState (fst tw) \<noteq> PC_SAMPLING" "tk_instrProfState (fst tw) = TIMELINE \<longrightarrow> timeline_on c"
  defines "tw' \<equiv> profile_runs drv c hasSimt ns tw"
  shows "plan_of c hasSimt (fst tw') = drop (length ns) (plan_of c hasSimt (fst tw)) \<and>
    tk_instrProfState (fst tw') \<noteq> PC_SAMPLING \<and> (tk_instrProfState (fst tw') = TIMELINE \<longrightarrow> timeline_on c)"
  unfolding tw'_def using assms(1,2)
proof (induction ns arbitrary: tw)
  case (Cons n ns)
  note run = profile_run_plan [OF Cons.prems, where drv = drv and n = n and hasSimt = hasSimt]
  show ?case using Cons.IH [OF run(3,4)] run(2) by simp
qed simp

text \<open>
  C37: On the chips with instruction profiles the runs of a kernel follow the documented order: the run after any number
  of earlier ones starts the channels for the samples first, if they are wanted, then those for the timeline, each in
  exactly one run and in its own mode, and every later run is a round of the events; with nothing wanted each run is
  such a round. What a run does is what the first entry of the plan says, and a run takes that entry off the plan.
\<close>

theorem instr_runs_follow_plan:
  fixes drv c hasSimt config d w ns n
  defines "tw \<equiv> profile_runs drv c hasSimt ns (new_ProfTask TaskA5 config d, w)"
  shows "fst (profile_run drv c n hasSimt tw) = planned_run drv n hasSimt (drop (length ns) (wanted c hasSimt)) tw"
proof -
  let ?new = "(new_ProfTask TaskA5 config d, w)"
  have new: "tk_instrProfState (fst ?new) = IDLE" "plan_of c hasSimt (fst ?new) = wanted c hasSimt"
    by (simp_all add: new_ProfTask_def plan_of_def)
  have ok: "plan_of c hasSimt (fst tw) = drop (length ns) (wanted c hasSimt) \<and>
      tk_instrProfState (fst tw) \<noteq> PC_SAMPLING \<and> (tk_instrProfState (fst tw) = TIMELINE \<longrightarrow> timeline_on c)"
    using profile_runs_plan [of ?new c, where drv = drv and hasSimt = hasSimt and ns = ns] unfolding new tw_def by simp
  show ?thesis using profile_run_plan(1) [of tw c, where drv = drv and n = n and hasSimt = hasSimt] ok by simp
qed

end
