(* ===== verification/SimCollect.thy ===== *)
theory SimCollect
  imports ProfCollect
begin

text \<open>
  Models what the profiler does in a program that runs on the simulator: the queue of log messages and the thread
  that sends them (camodel/CamodelHelper.h and .cpp), the files of instructions (camodel/CamodelRawInstrDumper.cpp) and the class
  \<open>DataCollectWithSimulator\<close> of ProfDataCollect.cpp, which prepares a launch and collects the simulator's files.
  The file system is a parameter.
\<close>

section \<open>The queue of log messages\<close>

datatype sender = Checking | Waiting | Sending bytes | Ended
  \<comment> \<open>where \<open>PopMessage\<close> stands: before it reads \<open>isListening_\<close>, at the queue, with \<open>data\<close> taken, returned\<close>

record camodel_queue =
  cq_queue :: "bytes list"
  cq_sender :: sender
  cq_sent :: "bytes list"
  cq_isListening :: bool

definition cq0 :: camodel_queue where
  "cq0 = \<lparr>cq_queue = [], cq_sender = Checking, cq_sent = [], cq_isListening = True\<rparr>"

datatype cq_event = SendCaLog bytes | CheckListening | PopMessage | PopTimeout | SendMessage | SendSync | StopListening

fun cq_step :: "cq_event \<Rightarrow> camodel_queue \<Rightarrow> camodel_queue option" where
  \<comment> \<open>one step of a thread; \<open>None\<close> where it cannot be made\<close>
  "cq_step (SendCaLog m) q = Some (q\<lparr>cq_queue := cq_queue q @ [m]\<rparr>)"
| "cq_step CheckListening q =
     (if cq_sender q = Checking then Some (q\<lparr>cq_sender := (if cq_isListening q then Waiting else Ended)\<rparr>) else None)"
| "cq_step PopMessage q =
     (case (cq_sender q, cq_queue q) of (Waiting, m # ms) \<Rightarrow> Some (q\<lparr>cq_queue := ms, cq_sender := Sending m\<rparr>) | _ \<Rightarrow> None)"
| "cq_step PopTimeout q = (if cq_sender q = Waiting \<and> cq_queue q = [] then Some (q\<lparr>cq_sender := Checking\<rparr>) else None)"
| "cq_step SendMessage q =
     (case cq_sender q of Sending m \<Rightarrow> Some (q\<lparr>cq_sender := Checking, cq_sent := cq_sent q @ [m]\<rparr>) | _ \<Rightarrow> None)"
| "cq_step SendSync q = (if cq_queue q = [] then Some q else None)"
| "cq_step StopListening q = Some (q\<lparr>cq_isListening := False\<rparr>)"

fun cq_run :: "cq_event list \<Rightarrow> camodel_queue \<Rightarrow> camodel_queue option" where
  "cq_run [] q = Some q"
| "cq_run (e # es) q = (case cq_step e q of None \<Rightarrow> None | Some q \<Rightarrow> cq_run es q)"

section \<open>The files of instructions\<close>

definition WRITE_WARNING_LIMIT :: nat where "WRITE_WARNING_LIMIT = 10"

definition GetDvcSubCoreName :: "nat \<Rightarrow> string option" where
  "GetDvcSubCoreName subCoreId =
     (if subCoreId = 0 then Some ''cubecore0'' else if subCoreId = 1 then Some ''veccore0''
      else if subCoreId = 2 then Some ''veccore1'' else None)"

datatype RawInstrCallbackType = POPPED | COMPLETE

record DvcInstrLogV2 =
  dv_time :: nat
  dv_pc :: nat
  dv_coreId :: nat
  dv_subCoreId :: nat
  dv_decodeDescr :: string  \<comment> \<open>up to the null character\<close>
  dv_extendParamsJson :: string

record 'w raw_files =
  rf_isDir :: "string \<Rightarrow> 'w \<Rightarrow> bool"
  rf_open :: "string \<Rightarrow> 'w \<Rightarrow> bool \<times> 'w"  \<comment> \<open>empties the file\<close>
  rf_chmod :: "string \<Rightarrow> nat \<Rightarrow> 'w \<Rightarrow> bool \<times> 'w"
  rf_removeAll :: "string \<Rightarrow> 'w \<Rightarrow> 'w"
  rf_append :: "string \<Rightarrow> string \<Rightarrow> 'w \<Rightarrow> bool \<times> 'w"
  rf_close :: "string \<Rightarrow> 'w \<Rightarrow> 'w"

record CamodelRawInstrDumper =
  rw_outputs :: "string list"  \<comment> \<open>the files that are open, in the order of the map\<close>
  rw_outputDir :: string
  rw_warningCount :: nat
  rw_enabled :: bool

definition rw0 :: CamodelRawInstrDumper where
  "rw0 = \<lparr>rw_outputs = [], rw_outputDir = [], rw_warningCount = 0, rw_enabled = False\<rparr>"

definition GetDumpFileName :: "nat \<Rightarrow> string \<Rightarrow> RawInstrCallbackType \<Rightarrow> string" where
  "GetDumpFileName coreId subCoreName type =
     ''core'' @ decimal coreId @ ''.'' @ subCoreName @ ''.'' @ (if type = POPPED then ''instr_popped_log'' else ''instr_log'') @ ''.dump''"

definition WriteSingleLine :: "string \<Rightarrow> string" where
  "WriteSingleLine value = map (\<lambda>ch. if ch = CHR 0x0A \<or> ch = CHR 0x0D then CHR '' '' else ch) value"

definition padded_time :: "nat \<Rightarrow> string" where
  "padded_time t = replicate (8 - length (decimal t)) (CHR ''0'') @ decimal t"

definition instr_line :: "DvcInstrLogV2 \<Rightarrow> string" where
  "instr_line entry =
     ''[info] ['' @ padded_time (dv_time entry) @ ''] '' @ WriteSingleLine (dv_decodeDescr entry) @
     (if dv_extendParamsJson entry \<noteq> [] then ''  '' @ WriteSingleLine (dv_extendParamsJson entry) else []) @ [CHR 0x0A]"

definition WarnWriteFailureLocked :: "CamodelRawInstrDumper \<Rightarrow> CamodelRawInstrDumper" where
  "WarnWriteFailureLocked d =
     (if rw_warningCount d \<ge> WRITE_WARNING_LIMIT then d else d\<lparr>rw_warningCount := rw_warningCount d + 1\<rparr>)"

definition StopLocked :: "'w raw_files \<Rightarrow> CamodelRawInstrDumper \<Rightarrow> 'w \<Rightarrow> CamodelRawInstrDumper \<times> 'w" where
  "StopLocked fs d w =
     (d\<lparr>rw_enabled := False, rw_outputs := [], rw_outputDir := []\<rparr>, foldl (\<lambda>w p. rf_close fs p w) w (rw_outputs d))"

definition Raw_Start :: "'w raw_files \<Rightarrow> string \<Rightarrow> CamodelRawInstrDumper \<Rightarrow> 'w \<Rightarrow> (bool \<times> CamodelRawInstrDumper) \<times> 'w" where
  "Raw_Start fs outputDir d w =
     (let (d, w) = StopLocked fs d w; d = d\<lparr>rw_warningCount := 0\<rparr> in
      if \<not> rf_isDir fs outputDir w then ((False, WarnWriteFailureLocked d), w)
      else ((True, d\<lparr>rw_outputDir := outputDir, rw_enabled := True\<rparr>), w))"

definition OpenOutputLocked :: "'w raw_files \<Rightarrow> string \<Rightarrow> CamodelRawInstrDumper \<Rightarrow> 'w \<Rightarrow> (bool \<times> CamodelRawInstrDumper) \<times> 'w" where
  "OpenOutputLocked fs outputPath d w =
     (if outputPath \<in> set (rw_outputs d) then ((True, d), w)
      else
        let (opened, w) = rf_open fs outputPath w in
        if \<not> opened then ((False, WarnWriteFailureLocked d), w)
        else
          let (ok, w) = rf_chmod fs outputPath SAVE_DATA_FILE_AUTHORITY w in
          if \<not> ok then ((False, WarnWriteFailureLocked d), rf_removeAll fs outputPath (rf_close fs outputPath w))
          else ((True, d\<lparr>rw_outputs := insort outputPath (rw_outputs d)\<rparr>), w))"

definition EnsureCoreFilesLocked ::
  "'w raw_files \<Rightarrow> nat \<Rightarrow> string \<Rightarrow> CamodelRawInstrDumper \<Rightarrow> 'w \<Rightarrow> (bool \<times> CamodelRawInstrDumper) \<times> 'w"
where
  "EnsureCoreFilesLocked fs coreId subCoreName d w =
     (let ((ok, d), w) = OpenOutputLocked fs (JoinPath [rw_outputDir d, GetDumpFileName coreId subCoreName COMPLETE]) d w in
      if \<not> ok then ((False, d), w)
      else OpenOutputLocked fs (JoinPath [rw_outputDir d, GetDumpFileName coreId subCoreName POPPED]) d w)"

definition Record ::
  "'w raw_files \<Rightarrow> RawInstrCallbackType \<Rightarrow> DvcInstrLogV2 \<Rightarrow> CamodelRawInstrDumper \<Rightarrow> 'w \<Rightarrow> CamodelRawInstrDumper \<times> 'w"
where
  "Record fs type entry d w =
     (if \<not> rw_enabled d then (d, w)
      else if dv_decodeDescr entry = [] then (WarnWriteFailureLocked d, w)
      else
        (case GetDvcSubCoreName (dv_subCoreId entry) of
           None \<Rightarrow> (WarnWriteFailureLocked d, w)
         | Some subCoreName \<Rightarrow>
             let ((ok, d), w) = EnsureCoreFilesLocked fs (dv_coreId entry) subCoreName d w in
             if \<not> ok then (d, w)
             else
               let outputPath = JoinPath [rw_outputDir d, GetDumpFileName (dv_coreId entry) subCoreName type] in
               if outputPath \<notin> set (rw_outputs d) then (d, w)
               else
                 let (good, w) = rf_append fs outputPath (instr_line entry) w in
                 if good then (d, w)
                 else ((WarnWriteFailureLocked d)\<lparr>rw_outputs := filter (\<lambda>p. p \<noteq> outputPath) (rw_outputs d)\<rparr>,
                       rf_close fs outputPath w)))"

section \<open>A launch on the simulator\<close>

record 'w sim_env =
  si_files :: "'w raw_files"
  si_isWritable :: "string \<Rightarrow> 'w \<Rightarrow> bool"
  si_isSoftLink :: "string \<Rightarrow> 'w \<Rightarrow> bool"
  si_entries :: "string \<Rightarrow> 'w \<Rightarrow> string list"  \<comment> \<open>the names that \<open>directory_iterator\<close> visits\<close>
  si_writeText :: "string \<Rightarrow> string \<Rightarrow> 'w \<Rightarrow> 'w"
  si_sendSync :: "'w \<Rightarrow> 'w"  \<comment> \<open>\<open>SendSync\<close>: the other threads run until it returns\<close>

record 'w sim_state =
  ss_prof :: "'w prof_state"
  ss_dumper :: CamodelRawInstrDumper
  ss_enable :: bool  \<comment> \<open>\<open>enable_\<close> of \<open>CamodelHelper\<close>\<close>
  ss_tmpDumpPath :: string
  ss_binaryPathMap :: "(ptr \<times> string) list"

definition on_prof :: "('w prof_state \<Rightarrow> 'w prof_state) \<Rightarrow> 'w sim_state \<Rightarrow> 'w sim_state" where
  "on_prof f s = s\<lparr>ss_prof := f (ss_prof s)\<rparr>"

definition on_files :: "('w \<Rightarrow> 'w) \<Rightarrow> 'w sim_state \<Rightarrow> 'w sim_state" where
  "on_files f s = on_prof (run_world f) s"

definition GetTmpDumpPath :: "'w tool_link \<Rightarrow> 'w sim_state \<Rightarrow> 'w sim_state" where
  "GetTmpDumpPath lk s = (if ss_tmpDumpPath s = [] then s\<lparr>ss_tmpDumpPath := tl_getenv lk ''CAMODEL_LOG_PATH''\<rparr> else s)"

definition digits_between :: "string \<Rightarrow> bool" where
  \<comment> \<open>whether what stands between the last two dots is a number: then the access rights are changed\<close>
  "digits_between filePath =
     (case rfind_sub ''.'' filePath (length filePath) of
        None \<Rightarrow> False
      | Some e \<Rightarrow>
          (case rfind_sub ''.'' filePath (if e = 0 then length filePath else e - 1) of
             None \<Rightarrow> False
           | Some b \<Rightarrow> IsDigit (if e = 0 then drop 1 filePath else take (e - b - 1) (drop (b + 1) filePath))))"

definition MakeCaFileReadable :: "'w sim_env \<Rightarrow> string \<Rightarrow> 'w \<Rightarrow> bool \<times> 'w" where
  "MakeCaFileReadable se filePath w =
     (if si_isWritable se filePath w then (True, w)
      else if \<not> digits_between filePath then (True, w)
      else rf_chmod (si_files se) filePath SAVE_DATA_FILE_AUTHORITY w)"

definition CopyAiCoreBinFile :: "'w prof_env \<Rightarrow> ptr \<Rightarrow> 'w sim_state \<Rightarrow> 'w sim_state" where
  "CopyAiCoreBinFile env hdl s =
     (let w = ps_w (ss_prof s); outputPath = dc_outputPath (ps_dc (ss_prof s)) in
      case map_of (ss_binaryPathMap s) hdl of
        None \<Rightarrow> s
      | Some tempPath \<Rightarrow>
          if bv_exists (pe_files env) (JoinPath [outputPath, AICORE_KERNEL_NAME]) w then s
          else if \<not> bv_exists (pe_files env) tempPath w then s
          else on_files (\<lambda>w. snd (bv_copyFile (pe_files env) tempPath outputPath w)) s)"

definition ClearCaFile :: "'w prof_env \<Rightarrow> 'w sim_env \<Rightarrow> string \<Rightarrow> 'w \<Rightarrow> 'w" where
  "ClearCaFile env se realPath w =
     (if \<not> pe_writable env realPath w then w
      else
        let (ok, w) = MakeCaFileReadable se realPath w in
        if \<not> ok then w
        else
          let (opened, w) = rf_open (si_files se) realPath w in
          if \<not> opened then w else rf_close (si_files se) realPath w)"

definition keep_dump :: "'w prof_env \<Rightarrow> 'w sim_env \<Rightarrow> string \<Rightarrow> string \<Rightarrow> string \<Rightarrow> 'w \<Rightarrow> 'w" where
  \<comment> \<open>one entry of the directory, when the files are kept\<close>
  "keep_dump env se tmpDumpPath outputPath name w =
     (let path = JoinPath [tmpDumpPath, name] in
      if rf_isDir (si_files se) path w \<or> si_isSoftLink se path w then w
      else if find_sub ''dump'' name = None then w
      else
        let (retCopy, w) = bv_copyFile (pe_files env) path outputPath w;
            w = (if retCopy then snd (rf_chmod (si_files se) (JoinPath [outputPath, name]) SAVE_DATA_FILE_AUTHORITY w) else w) in
        ClearCaFile env se path w)"

definition drop_dump :: "'w prof_env \<Rightarrow> 'w sim_env \<Rightarrow> string \<Rightarrow> string \<Rightarrow> 'w \<Rightarrow> 'w" where
  "drop_dump env se tmpDumpPath name w =
     (let path = JoinPath [tmpDumpPath, name] in
      if rf_isDir (si_files se) path w \<or> si_isSoftLink se path w then w else ClearCaFile env se path w)"

definition Stop_dumper :: "'w sim_env \<Rightarrow> 'w sim_state \<Rightarrow> 'w sim_state" where
  "Stop_dumper se s =
     (let (d, w) = StopLocked (si_files se) (ss_dumper s) (ps_w (ss_prof s)) in
      s\<lparr>ss_dumper := d, ss_prof := (ss_prof s)\<lparr>ps_w := w\<rparr>\<rparr>)"

definition HandleDumpLogAfterLaunch ::
  "'w prof_env \<Rightarrow> 'w tool_link \<Rightarrow> 'w sim_env \<Rightarrow> ProfConfig \<Rightarrow> 'w sim_state \<Rightarrow> bool \<times> 'w sim_state"
where
  "HandleDumpLogAfterLaunch env lk se c s =
     (let isLogTransEnabled = pf_isCaLogTrans c;
          s = (if isLogTransEnabled \<and> ss_enable s then on_files (\<lambda>w. NotifyStopTransLog lk (si_sendSync se w)) s else s);
          s = GetTmpDumpPath lk (Stop_dumper se s);
          tmp = ss_tmpDumpPath s; out = dc_outputPath (ps_dc (ss_prof s)); w = ps_w (ss_prof s) in
      if tmp = [] \<or> \<not> bv_exists (pe_files env) tmp w then (False, s)
      else
        let keepDumpFiles = (\<not> isLogTransEnabled \<or> tl_getenv lk ''ENABLE_CA_RAW_INSTR_DUMP'' = ''true'');
            step = (if keepDumpFiles \<and> out \<noteq> [] \<and> bv_exists (pe_files env) out w then keep_dump env se tmp out
                    else drop_dump env se tmp) in
        (True, on_files (\<lambda>w. foldl (\<lambda>w name. step name w) w (si_entries se tmp w)) s))"

definition start_translation :: "'w tool_link \<Rightarrow> 'w sim_env \<Rightarrow> ProfConfig \<Rightarrow> 'w sim_state \<Rightarrow> 'w sim_state" where
  \<comment> \<open>the end of \<open>ProfInit\<close>\<close>
  "start_translation lk se c s =
     (let dc = ps_dc (ss_prof s) in
      if tl_getenv lk ''ENABLE_CA_LOG_TRANS'' \<noteq> ''true'' then s
      else if \<not> pf_isCaLogTrans c then on_files (RequestLogTranslate lk [] []) s
      else
        let s = (if tl_getenv lk ''ENABLE_CA_RAW_INSTR_DUMP'' = ''true'' then
                   let ((ok, d), w) = Raw_Start (si_files se) (dc_outputPath dc) (ss_dumper s) (ps_w (ss_prof s)) in
                   s\<lparr>ss_dumper := d, ss_prof := (ss_prof s)\<lparr>ps_w := w\<rparr>\<rparr>
                 else s) in
        on_files (RequestLogTranslate lk (dc_outputPath dc) (dc_kernelName dc)) (s\<lparr>ss_enable := True\<rparr>))"

definition ProfInit_simulator ::
  "'w prof_env \<Rightarrow> 'w tool_link \<Rightarrow> 'w sim_env \<Rightarrow> ProfConfig \<Rightarrow> contexts \<Rightarrow> ptr \<Rightarrow> ptr \<Rightarrow> bool \<Rightarrow> 'w sim_state \<Rightarrow> 'w sim_state"
where
  "ProfInit_simulator env lk se c cx hdl stubFunc type s =
     (let s = Stop_dumper se s; dc = ps_dc (ss_prof s) in
      if dc_outputPath dc = [] then s\<lparr>ss_enable := False\<rparr>
      else
        let (made, w) = bv_mkdir (pe_files env) (dc_outputPath dc) (ps_w (ss_prof s));
            s = on_prof (\<lambda>p. p\<lparr>ps_w := w\<rparr>) s in
        if \<not> made then on_prof (on_dc (\<lambda>dc. dc\<lparr>dc_outputPath := []\<rparr>)) s
        else
          let s = CopyAiCoreBinFile env (case dc_launchCtx dc of Some l \<Rightarrow> rg_hdl (fx_regCtx (lookup_func cx l)) | None \<Rightarrow> hdl) s;
              s = GetTmpDumpPath lk s;
              s = on_files (si_writeText se (JoinPath [ss_tmpDumpPath s, ''object_dump.txt''])
                    (dc_outputPath dc @ [CHR 0x0A] @ dc_kernelName dc)) s;
              pcStart = (case dc_launchCtx dc of
                           Some l \<Rightarrow> GetStartPC (pe_files env) (lookup_func cx l) (ps_w (ss_prof s))
                         | None \<Rightarrow> legacy_start env (ps_k (ss_prof s)) hdl stubFunc type) in
          start_translation lk se c (on_prof (save_start env pcStart) s))"


section \<open>No log message is lost or overtaken\<close>

definition in_flight :: "camodel_queue \<Rightarrow> bytes list" where
  "in_flight q = (case cq_sender q of Sending m \<Rightarrow> [m] | _ \<Rightarrow> []) @ cq_queue q"

definition logged :: "cq_event list \<Rightarrow> bytes list" where
  "logged es = concat (map (\<lambda>e. case e of SendCaLog m \<Rightarrow> [m] | _ \<Rightarrow> []) es)"

lemma cq_step_order: "cq_step e q = Some q' \<Longrightarrow> cq_sent q' @ in_flight q' = cq_sent q @ in_flight q @ logged [e]"
  by (cases e) (auto simp: in_flight_def logged_def split: if_splits sender.splits list.splits)

lemma cq_run_order: "cq_run es q = Some q' \<Longrightarrow> cq_sent q' @ in_flight q' = cq_sent q @ in_flight q @ logged es"
proof (induction es arbitrary: q)
  case (Cons e es)
  obtain q1 where e: "cq_step e q = Some q1" and es: "cq_run es q1 = Some q'" using Cons.prems by (auto split: option.splits)
  show ?case using Cons.IH [OF es] cq_step_order [OF e] by (simp add: logged_def)
qed (simp add: logged_def)

text \<open>
  C39: However the program's threads and the sending thread interleave, the messages that were sent, followed by the one that
  the sending thread holds and those in the queue, are the messages that were logged, in that order: none is lost,
  doubled or overtaken, and whenever \<open>SendSync\<close> returns at most one of them has not been sent yet.
\<close>

theorem camodel_logs_in_order:
  assumes "cq_run es cq0 = Some q"
  shows "cq_sent q @ in_flight q = logged es \<and> (cq_step SendSync q \<noteq> None \<longrightarrow> length (in_flight q) \<le> 1)"
  using cq_run_order [OF assms] by (auto simp: cq0_def in_flight_def split: sender.splits if_splits)

theorem camodel_logs_in_order_witness:
  "logged [SendCaLog [1], CheckListening, SendCaLog [2], PopMessage, SendMessage] = [[1], [2]] \<and>
   cq_run [SendCaLog [1], CheckListening, SendCaLog [2], PopMessage, SendMessage] cq0 =
     Some \<lparr>cq_queue = [[2]], cq_sender = Checking, cq_sent = [[1]], cq_isListening = True\<rparr>"
proof -
  have r: "cq_run [SendCaLog [1], CheckListening, SendCaLog [2], PopMessage, SendMessage] cq0 =
     Some \<lparr>cq_queue = [[2]], cq_sender = Checking, cq_sent = [[1]], cq_isListening = True\<rparr>"
    by (simp add: cq0_def)
  from camodel_logs_in_order [OF r] show ?thesis using r by (simp add: in_flight_def)
qed

text \<open>
  \<open>SendSync\<close> waits for the queue to be empty, not for the last message to be sent: the end of the log can be announced
  before the last message goes out. What is in the queue when the listener is stopped stays there.
\<close>

theorem sync_before_last_message:
  "\<exists>q. cq_run [SendCaLog [1], CheckListening, PopMessage, SendSync] cq0 = Some q \<and> cq_sent q = []"
  by (simp add: cq0_def)

theorem stopped_queue_unsent:
  "\<exists>q. cq_run [SendCaLog [1], StopListening, CheckListening] cq0 = Some q \<and> cq_sender q = Ended \<and> cq_queue q = [[1]]"
  by (simp add: cq0_def)

section \<open>A file of instructions is read line by line\<close>

lemma decimal_line: "CHR 0x0A \<notin> set (decimal n)"
proof (induction n rule: decimal.induct)
  case (1 n)
  have "CHR 0x0A \<noteq> char_of (48 + k)" if "k < 10" for k :: nat
  proof
    assume "CHR 0x0A = char_of (48 + k)"
    then have "(of_char (CHR 0x0A) :: nat) = of_char (char_of (48 + k))" by simp
    then show False using that by simp
  qed
  then show ?case using 1 by (subst decimal.simps) auto
qed

lemma single_line: "CHR 0x0A \<notin> set (WriteSingleLine value)"
  by (auto simp: WriteSingleLine_def)

definition line_text :: "DvcInstrLogV2 \<Rightarrow> string" where
  "line_text entry = butlast (instr_line entry)"

lemma instr_line_text: "instr_line entry = line_text entry @ [CHR 0x0A]" "CHR 0x0A \<notin> set (line_text entry)" "line_text entry \<noteq> []"
  using single_line decimal_line [of "dv_time entry"]
  by (auto simp: line_text_def instr_line_def padded_time_def butlast_append)

lemma split_line:
  assumes "c \<notin> set l" "l \<noteq> []"
  shows "SplitString c (l @ c # rest) = l # SplitString c rest"
proof -
  obtain x xs where l: "l = x # xs" using assms(2) by (cases l) auto
  have "takeWhile (\<lambda>y. y \<noteq> c) (l @ c # rest) = l" "dropWhile (\<lambda>y. y \<noteq> c) (l @ c # rest) = c # rest"
    using assms(1) by (simp_all add: takeWhile_append dropWhile_append)
  then show ?thesis unfolding l by simp
qed

lemma lines_split: "SplitString (CHR 0x0A) (concat (map instr_line entries)) = map line_text entries"
proof (induction entries)
  case (Cons e es)
  have "concat (map instr_line (e # es)) = line_text e @ CHR 0x0A # concat (map instr_line es)"
    using instr_line_text(1) [of e] by simp
  then show ?case using Cons split_line [OF instr_line_text(2,3), of e "concat (map instr_line es)"] by simp
qed simp

definition files_work :: "'w raw_files \<Rightarrow> ('w \<Rightarrow> string \<Rightarrow> string) \<Rightarrow> bool" where
  \<comment> \<open>no call fails: a file that is opened is emptied, what is appended stands at its end, the other files stay\<close>
  "files_work fs content = (\<forall>p w.
     fst (rf_open fs p w) \<and> content (snd (rf_open fs p w)) = (content w)(p := []) \<and>
     (\<forall>m. fst (rf_chmod fs p m w) \<and> content (snd (rf_chmod fs p m w)) = content w) \<and>
     (\<forall>t. fst (rf_append fs p t w) \<and> content (snd (rf_append fs p t w)) = (content w)(p := content w p @ t)) \<and>
     content (rf_close fs p w) = content w)"

lemma files_opened:
  "files_work fs content \<Longrightarrow> \<exists>w'. rf_open fs p w = (True, w') \<and> content w' = (content w)(p := [])"
  by (rule exI [of _ "snd (rf_open fs p w)"]) (simp add: files_work_def prod_eq_iff)

lemma files_chmod:
  "files_work fs content \<Longrightarrow> \<exists>w'. rf_chmod fs p m w = (True, w') \<and> content w' = content w"
  by (rule exI [of _ "snd (rf_chmod fs p m w)"]) (simp add: files_work_def prod_eq_iff)

lemma files_append:
  "files_work fs content \<Longrightarrow> \<exists>w'. rf_append fs p t w = (True, w') \<and> content w' = (content w)(p := content w p @ t)"
  by (rule exI [of _ "snd (rf_append fs p t w)"]) (simp add: files_work_def prod_eq_iff)

definition accepted :: "DvcInstrLogV2 \<Rightarrow> bool" where
  "accepted e = (dv_decodeDescr e \<noteq> [] \<and> GetDvcSubCoreName (dv_subCoreId e) \<noteq> None)"

definition dump_path :: "string \<Rightarrow> RawInstrCallbackType \<times> DvcInstrLogV2 \<Rightarrow> string" where
  "dump_path dir r = JoinPath [dir, GetDumpFileName (dv_coreId (snd r)) (the (GetDvcSubCoreName (dv_subCoreId (snd r)))) (fst r)]"

definition lines_of :: "string \<Rightarrow> string \<Rightarrow> (RawInstrCallbackType \<times> DvcInstrLogV2) list \<Rightarrow> DvcInstrLogV2 list" where
  \<comment> \<open>the records for the file\<close>
  "lines_of dir p rs = map snd (filter (\<lambda>r. accepted (snd r) \<and> dump_path dir r = p) rs)"

definition record_all ::
  "'w raw_files \<Rightarrow> (RawInstrCallbackType \<times> DvcInstrLogV2) list \<Rightarrow> CamodelRawInstrDumper \<times> 'w \<Rightarrow> CamodelRawInstrDumper \<times> 'w"
where
  "record_all fs rs s = foldl (\<lambda>(d, w) (type, entry). Record fs type entry d w) s rs"

definition dump_inv ::
  "('w \<Rightarrow> string \<Rightarrow> string) \<Rightarrow> string \<Rightarrow> (RawInstrCallbackType \<times> DvcInstrLogV2) list \<Rightarrow> CamodelRawInstrDumper \<Rightarrow> 'w \<Rightarrow> bool"
where
  "dump_inv content dir seen d w \<longleftrightarrow> rw_enabled d \<and> rw_outputDir d = dir \<and>
     (\<forall>p \<in> set (rw_outputs d). content w p = concat (map instr_line (lines_of dir p seen))) \<and>
     (\<forall>r \<in> set seen. accepted (snd r) \<longrightarrow> dump_path dir r \<in> set (rw_outputs d))"

lemma no_lines: "dump_inv content dir seen d w \<Longrightarrow> p \<notin> set (rw_outputs d) \<Longrightarrow> lines_of dir p seen = []"
  by (auto simp: dump_inv_def lines_of_def filter_empty_conv)

lemma open_keeps:
  assumes fs: "files_work fs content" and inv: "dump_inv content dir seen d w"
  obtains d' w' where "OpenOutputLocked fs p d w = ((True, d'), w')" "dump_inv content dir seen d' w'"
    "set (rw_outputs d') = insert p (set (rw_outputs d))"
proof (cases "p \<in> set (rw_outputs d)")
  case True
  then show ?thesis using that [of d w] inv by (simp add: OpenOutputLocked_def insert_absorb)
next
  case False
  obtain w1 where o: "rf_open fs p w = (True, w1)" "content w1 = (content w)(p := [])"
    using files_opened [OF fs] by blast
  obtain w2 where c: "rf_chmod fs p SAVE_DATA_FILE_AUTHORITY w1 = (True, w2)" "content w2 = content w1"
    using files_chmod [OF fs] by blast
  have "dump_inv content dir seen (d\<lparr>rw_outputs := insort p (rw_outputs d)\<rparr>) w2"
    using inv no_lines [OF inv False] o(2) c(2) by (auto simp: dump_inv_def set_insort_key)
  then show ?thesis using that False o(1) c(1) by (simp add: OpenOutputLocked_def set_insort_key)
qed

lemma record_keeps:
  assumes fs: "files_work fs content" and inv: "dump_inv content dir seen d w"
  shows "dump_inv content dir (seen @ [(type, e)]) (fst (Record fs type e d w)) (snd (Record fs type e d w))"
proof (cases "accepted e")
  case False
  then show ?thesis using inv
    by (auto simp: Record_def accepted_def dump_inv_def lines_of_def WarnWriteFailureLocked_def split: option.splits)
next
  case True
  then obtain n where n: "GetDvcSubCoreName (dv_subCoreId e) = Some n" "dv_decodeDescr e \<noteq> []" by (auto simp: accepted_def)
  define p where "p = dump_path dir (type, e)"
  let ?P = "\<lambda>t. JoinPath [dir, GetDumpFileName (dv_coreId e) n t]"
  have p: "p = ?P type" by (simp add: p_def dump_path_def n)
  obtain d1 w1 where o1: "OpenOutputLocked fs (?P COMPLETE) d w = ((True, d1), w1)" and i1: "dump_inv content dir seen d1 w1"
    and s1: "set (rw_outputs d1) = insert (?P COMPLETE) (set (rw_outputs d))" by (rule open_keeps [OF fs inv])
  obtain d2 w2 where o2: "OpenOutputLocked fs (?P POPPED) d1 w1 = ((True, d2), w2)" and i2: "dump_inv content dir seen d2 w2"
    and s2: "set (rw_outputs d2) = insert (?P POPPED) (set (rw_outputs d1))" by (rule open_keeps [OF fs i1])
  obtain w3 where a: "rf_append fs p (instr_line e) w2 = (True, w3)" "content w3 = (content w2)(p := content w2 p @ instr_line e)"
    using files_append [OF fs] by blast
  have pin: "p \<in> set (rw_outputs d2)" using s1 s2 by (cases type) (auto simp: p)
  have dirs: "rw_enabled d" "rw_outputDir d = dir" "rw_outputDir d1 = dir" "rw_outputDir d2 = dir"
    using inv i1 i2 by (auto simp: dump_inv_def)
  have "Record fs type e d w = (d2, w3)"
    using n o1 o2 a(1) pin dirs by (simp add: Record_def EnsureCoreFilesLocked_def p)
  moreover have "dump_inv content dir (seen @ [(type, e)]) d2 w3"
    using i2 a(2) pin True by (auto simp: dump_inv_def lines_of_def p_def)
  ultimately show ?thesis by simp
qed

lemma records_keep:
  assumes fs: "files_work fs content" and inv: "dump_inv content dir [] d w"
  shows "dump_inv content dir rs (fst (record_all fs rs (d, w))) (snd (record_all fs rs (d, w)))"
proof (induction rs rule: rev_induct)
  case (snoc r rs)
  obtain type e where r: "r = (type, e)" by (cases r)
  show ?case using record_keeps [OF fs snoc.IH, of type e] by (simp add: record_all_def r case_prod_unfold)
qed (simp add: record_all_def inv)


definition mem_files :: "(string \<Rightarrow> string) raw_files" where
  "mem_files = \<lparr>rf_isDir = (\<lambda>p w. True), rf_open = (\<lambda>p w. (True, w(p := []))), rf_chmod = (\<lambda>p m w. (True, w)),
     rf_removeAll = (\<lambda>p w. w(p := [])), rf_append = (\<lambda>p t w. (True, w(p := w p @ t))), rf_close = (\<lambda>p w. w)\<rparr>"

definition sim_entry :: "nat \<Rightarrow> nat \<Rightarrow> DvcInstrLogV2" where
  "sim_entry t core = \<lparr>dv_time = t, dv_pc = 0, dv_coreId = core, dv_subCoreId = 1, dv_decodeDescr = ''ADD'' @ [CHR 0x0A] @ ''X1'',
     dv_extendParamsJson = ''{}''\<rparr>"

definition sim_rows :: "(RawInstrCallbackType \<times> DvcInstrLogV2) list" where
  "sim_rows = [(COMPLETE, sim_entry 7 0), (COMPLETE, sim_entry 8 1), (POPPED, sim_entry 9 0), (COMPLETE, sim_entry 10 0)]"

lemma mem_files_work: "files_work mem_files (\<lambda>w. w)"
  by (simp add: files_work_def mem_files_def)

lemma sim_start: "Raw_Start mem_files ''d'' rw0 (\<lambda>p. []) = ((True, rw0\<lparr>rw_outputDir := ''d'', rw_enabled := True\<rparr>), \<lambda>p. [])"
  by (simp add: Raw_Start_def StopLocked_def mem_files_def rw0_def)

lemma sim_decimal: "decimal 0 = ''0''" "decimal 1 = ''1''" "decimal 7 = ''7''" "decimal 10 = ''10''"
  by code_simp+

lemma sim_padded: "padded_time 7 = ''00000007''" "padded_time 10 = ''00000010''"
  by code_simp+

lemma sim_paths:
  "dump_path ''d'' (COMPLETE, sim_entry 7 0) = ''d/core0.veccore0.instr_log.dump''"
  "dump_path ''d'' (COMPLETE, sim_entry 8 1) = ''d/core1.veccore0.instr_log.dump''"
  "dump_path ''d'' (POPPED, sim_entry 9 0) = ''d/core0.veccore0.instr_popped_log.dump''"
  "dump_path ''d'' (COMPLETE, sim_entry 10 0) = ''d/core0.veccore0.instr_log.dump''"
  by (simp_all add: dump_path_def sim_entry_def GetDumpFileName_def GetDvcSubCoreName_def JoinPath_def sim_decimal [simplified])


end
