(* ===== verification/SimLogs.thy ===== *)
theory SimLogs
  imports SimCollect
begin

text \<open>
  Models camodel/Camodel.cpp: the callbacks that the simulator calls for each instruction and each transfer, the records
  of include/opprof/CamodelLogProtocol.h they fill in, and the start-up that attaches them. The
  simulator's library (include/thirdparty/dvc_log_api.h is its interface) and the parser for JSON are parameters. A
  callback is one step: what it shares with other threads, the queue and the files, it changes under their locks.
\<close>

section \<open>The records\<close>

definition CAMOLDEL_ERROR_INTERNAL_ERROR :: int where "CAMOLDEL_ERROR_INTERNAL_ERROR = 100000"
definition LOG_TYPE :: nat where "LOG_TYPE = 6"
definition DVC_INSTR_DECODE_DESCR_LENGTH :: nat where "DVC_INSTR_DECODE_DESCR_LENGTH = 200"
definition DVC_EXTEND_PARAMS_JSON_LENGTH :: nat where "DVC_EXTEND_PARAMS_JSON_LENGTH = 1024"

definition instr_log_bytes :: "nat \<Rightarrow> nat \<Rightarrow> nat \<Rightarrow> nat \<Rightarrow> string \<Rightarrow> string \<Rightarrow> bytes" where
  \<comment> \<open>\<open>DvcInstrLog\<close>\<close>
  "instr_log_bytes time pc coreId subCoreId decodeDescr execDescr =
     Serialize_u 8 time @ Serialize_u 8 pc @ Serialize_u 4 coreId @ Serialize_u 4 subCoreId @
     char_field DVC_INSTR_DECODE_DESCR_LENGTH decodeDescr @ char_field 200 execDescr"

definition instr_log2_bytes :: "DvcInstrLogV2 \<Rightarrow> bytes" where
  "instr_log2_bytes l =
     Serialize_u 8 (dv_time l) @ Serialize_u 8 (dv_pc l) @ Serialize_u 4 (dv_coreId l) @ Serialize_u 4 (dv_subCoreId l) @
     char_field DVC_INSTR_DECODE_DESCR_LENGTH (dv_decodeDescr l) @ char_field DVC_EXTEND_PARAMS_JSON_LENGTH (dv_extendParamsJson l)"

definition mte_log_bytes :: "nat \<Rightarrow> nat \<Rightarrow> nat \<Rightarrow> nat \<Rightarrow> nat \<Rightarrow> string \<Rightarrow> bytes" where
  \<comment> \<open>\<open>DvcMteLog\<close>\<close>
  "mte_log_bytes time sz instrId coreId reqId intf =
     Serialize_u 8 time @ Serialize_u 8 sz @ Serialize_u 8 instrId @ Serialize_u 4 coreId @ Serialize_u 4 reqId @ char_field 32 intf"

definition icache_log_bytes :: "nat \<Rightarrow> nat \<Rightarrow> nat \<Rightarrow> nat \<Rightarrow> nat \<Rightarrow> nat \<Rightarrow> nat \<Rightarrow> string \<Rightarrow> bytes" where
  \<comment> \<open>\<open>DvciCacheLog\<close>, with its seven bytes of padding\<close>
  "icache_log_bytes time adr coreId subCoreId sz type isLast opType =
     Serialize_u 8 time @ Serialize_u 8 adr @ Serialize_u 4 coreId @ Serialize_u 4 subCoreId @ Serialize_u 4 sz @
     Serialize_u 4 type @ Serialize_u 1 isLast @ char_field 32 opType @ replicate 7 0"

definition ccu_log_bytes :: "nat \<Rightarrow> nat \<Rightarrow> nat \<Rightarrow> nat \<Rightarrow> bytes" where
  \<comment> \<open>\<open>DvcCcuLog\<close>\<close>
  "ccu_log_bytes time pc coreId subCoreId = Serialize_u 8 time @ Serialize_u 8 pc @ Serialize_u 4 coreId @ Serialize_u 4 subCoreId"

definition SerializeMessage :: "ProfPacketType \<Rightarrow> bytes \<Rightarrow> bytes" where
  \<comment> \<open>the bytes of a record are its size in memory\<close>
  "SerializeMessage type logContent = ProfPacketHead type (wrap32 (length logContent)) @ logContent"

section \<open>What the simulator passes\<close>

record DvcInstrLogEntry =
  ie_core_id :: nat
  ie_sub_core_id :: nat
  ie_pc :: nat
  ie_decode_descr :: "string option"  \<comment> \<open>null, or up to the null character\<close>
  ie_exec_descr :: "string option"

record DvcInstrLogEntryV2 = DvcInstrLogEntry +
  ie_extend_params_json :: "string option"

record mte_op_info =
  oi_intf :: "string option"
  oi_size :: nat
  oi_instr_id :: nat
  oi_req_id :: nat

record DvcMteLogEntry =
  me_core_id :: nat
  me_op :: "string option"
  me_bif_op_info :: mte_op_info  \<comment> \<open>what is read through each member of the union\<close>
  me_intf_op_info :: mte_op_info

record DvcIcacheLogEntry =
  ce_core_id :: nat
  ce_sub_core_id :: nat
  ce_op :: "string option"
  ce_miss_read_addr :: nat
  ce_miss_read_size :: nat
  ce_miss_read_type :: nat
  ce_miss_read_last :: nat
  ce_fetch_req_addr :: nat

record DvcCcuLogEntry =
  ue_core_id :: nat
  ue_sub_core_id :: nat
  ue_op :: "string option"
  ue_issue_success_pc :: nat

section \<open>The callbacks\<close>

datatype BadInstrLogType = EMPTY_DECODE | DECODE_TOO_LONG | INVALID_JSON | JSON_TOO_LONG

record 'w cam_state =
  cm_enable :: bool
  cm_queue :: camodel_queue
  cm_dumper :: CamodelRawInstrDumper
  cm_bad :: "BadInstrLogType \<Rightarrow> nat"  \<comment> \<open>\<open>g_badInstrLogCounters\<close>\<close>
  cm_w :: 'w

definition BAD_LOG_WARN_LIMIT :: nat where "BAD_LOG_WARN_LIMIT = 10"

definition WarnBadInstrLog :: "BadInstrLogType \<Rightarrow> 'w cam_state \<Rightarrow> bool option \<times> 'w cam_state" where
  \<comment> \<open>the warning that is written, if there is one, and whether it is the last\<close>
  "WarnBadInstrLog type s =
     (let count = cm_bad s type in
      (if count \<ge> BAD_LOG_WARN_LIMIT then None else Some (count + 1 = BAD_LOG_WARN_LIMIT),
       s\<lparr>cm_bad := (cm_bad s)(type := wrap32 (count + 1))\<rparr>))"

definition CopyString :: "nat \<Rightarrow> string \<Rightarrow> string option" where
  "CopyString N source = (if length source \<ge> N then None else Some source)"

definition Convert :: "nat \<Rightarrow> DvcInstrLogEntry \<Rightarrow> bytes option" where
  "Convert time source =
     (case (ie_decode_descr source, ie_exec_descr source) of
        (Some d, Some e) \<Rightarrow>
          Some (instr_log_bytes time (ie_pc source) (ie_core_id source) (ie_sub_core_id source)
            (take (min (length d) (DVC_INSTR_DECODE_DESCR_LENGTH - 1)) d) (take (min (length e) (200 - 1)) e))
      | _ \<Rightarrow> None)"

definition extend_params ::
  "(string \<Rightarrow> string option) \<Rightarrow> string option \<Rightarrow> DvcInstrLogV2 \<Rightarrow> 'w cam_state \<Rightarrow> DvcInstrLogV2 \<times> 'w cam_state"
where
  \<comment> \<open>\<open>json\<close>: the text of the object when the parser finds one\<close>
  "extend_params json params destination s =
     (if params = None \<or> params = Some [] then (destination, s)
      else
        (case json (the params) of
           None \<Rightarrow> (destination, snd (WarnBadInstrLog INVALID_JSON s))
         | Some compactJson \<Rightarrow>
             if length compactJson \<ge> DVC_EXTEND_PARAMS_JSON_LENGTH then (destination, snd (WarnBadInstrLog JSON_TOO_LONG s))
             else
               (case CopyString DVC_EXTEND_PARAMS_JSON_LENGTH compactJson of
                  None \<Rightarrow> (destination, s)
                | Some t \<Rightarrow> (destination\<lparr>dv_extendParamsJson := t\<rparr>, s))))"

definition Convert_V2 ::
  "(string \<Rightarrow> string option) \<Rightarrow> nat \<Rightarrow> DvcInstrLogEntryV2 \<Rightarrow> 'w cam_state \<Rightarrow> DvcInstrLogV2 option \<times> 'w cam_state"
where
  "Convert_V2 json time source s =
     (if ie_decode_descr source = None \<or> ie_decode_descr source = Some [] then (None, snd (WarnBadInstrLog EMPTY_DECODE s))
      else
        (case CopyString DVC_INSTR_DECODE_DESCR_LENGTH (the (ie_decode_descr source)) of
           None \<Rightarrow> (None, snd (WarnBadInstrLog DECODE_TOO_LONG s))
         | Some d \<Rightarrow>
             let (l, s) = extend_params json (ie_extend_params_json source)
                   \<lparr>dv_time = time, dv_pc = ie_pc source, dv_coreId = ie_core_id source, dv_subCoreId = ie_sub_core_id source,
                     dv_decodeDescr = d, dv_extendParamsJson = []\<rparr> s in
             (Some l, s)))"

definition send_log :: "ProfPacketType \<Rightarrow> bytes \<Rightarrow> 'w cam_state \<Rightarrow> 'w cam_state" where
  \<comment> \<open>\<open>MakeUnique\<close> of the holder and \<open>SendCaLog\<close>\<close>
  "send_log type logContent s =
     (case cq_step (SendCaLog (SerializeMessage type logContent)) (cm_queue s) of None \<Rightarrow> s | Some q \<Rightarrow> s\<lparr>cm_queue := q\<rparr>)"

definition ForwardInstrLog :: "nat \<Rightarrow> DvcInstrLogEntry option \<Rightarrow> ProfPacketType \<Rightarrow> 'w cam_state \<Rightarrow> 'w cam_state" where
  "ForwardInstrLog time logContent type s =
     (if \<not> cm_enable s then s
      else
        (case logContent of
           None \<Rightarrow> s
         | Some e \<Rightarrow> (case Convert time e of None \<Rightarrow> s | Some log \<Rightarrow> send_log type log s)))"

definition ForwardInstrLogV2 ::
  "(string \<Rightarrow> string option) \<Rightarrow> 'w raw_files \<Rightarrow> nat \<Rightarrow> DvcInstrLogEntryV2 option \<Rightarrow> ProfPacketType \<Rightarrow> RawInstrCallbackType \<Rightarrow>
   'w cam_state \<Rightarrow> 'w cam_state"
where
  "ForwardInstrLogV2 json fs time logContent packetType callbackType s =
     (if \<not> cm_enable s then s
      else
        (case logContent of
           None \<Rightarrow> s
         | Some e \<Rightarrow>
             let (log, s) = Convert_V2 json time e s in
             (case log of
                None \<Rightarrow> s
              | Some l \<Rightarrow>
                  let (d, w) = Record fs callbackType l (cm_dumper s) (cm_w s) in
                  send_log packetType (instr_log2_bytes l) (s\<lparr>cm_dumper := d, cm_w := w\<rparr>))))"

definition mte_bif_ops :: "string list" where
  "mte_bif_ops = [''send_cmd'', ''recv_data'', ''recv_cmd_rsp'', ''recv_wr_data_rsp'']"

definition mte_intf_ops :: "string list" where
  "mte_intf_ops = [''recv_rsp'', ''send_req'', ''send_data'']"

definition mte_record :: "nat \<Rightarrow> DvcMteLogEntry \<Rightarrow> string \<Rightarrow> bytes option" where
  \<comment> \<open>for another operation the record is the one of zeros\<close>
  "mte_record time e op =
     (let filled = (\<lambda>i. case oi_intf i of
                     None \<Rightarrow> None
                   | Some intf \<Rightarrow> Some (mte_log_bytes time (oi_size i) (oi_instr_id i) (me_core_id e) (oi_req_id i)
                                         (take (min (length intf) (32 - 1)) intf))) in
      if op \<in> set mte_bif_ops then filled (me_bif_op_info e)
      else if op \<in> set mte_intf_ops then filled (me_intf_op_info e)
      else Some (mte_log_bytes 0 0 0 0 0 []))"

definition MteLog :: "nat \<Rightarrow> DvcMteLogEntry option \<Rightarrow> 'w cam_state \<Rightarrow> 'w cam_state" where
  "MteLog time mteLog s =
     (if \<not> cm_enable s then s
      else
        (case mteLog of
           None \<Rightarrow> s
         | Some e \<Rightarrow>
             (case me_op e of
                None \<Rightarrow> s
              | Some op \<Rightarrow> (case mte_record time e op of None \<Rightarrow> s | Some log \<Rightarrow> send_log MTE_LOG log s))))"

definition icache_record :: "nat \<Rightarrow> DvcIcacheLogEntry \<Rightarrow> string \<Rightarrow> bytes option" where
  "icache_record time e op =
     (if op \<noteq> ''miss_read'' \<and> op \<noteq> ''fetch_req'' then None
      else
        let opType = take (min (length op) (32 - 1)) op in
        if op = ''miss_read''
        then Some (icache_log_bytes time (ce_miss_read_addr e) (ce_core_id e) (ce_sub_core_id e) (ce_miss_read_size e)
                    (ce_miss_read_type e) (ce_miss_read_last e) opType)
        else Some (icache_log_bytes time (ce_fetch_req_addr e) (ce_core_id e) (ce_sub_core_id e) 0 0 0 opType))"

definition ICacheLog :: "nat \<Rightarrow> DvcIcacheLogEntry option \<Rightarrow> 'w cam_state \<Rightarrow> 'w cam_state" where
  "ICacheLog time iCacheLog s =
     (if \<not> cm_enable s then s
      else
        (case iCacheLog of
           None \<Rightarrow> s
         | Some e \<Rightarrow>
             (case ce_op e of
                None \<Rightarrow> s
              | Some op \<Rightarrow> (case icache_record time e op of None \<Rightarrow> s | Some log \<Rightarrow> send_log ICACHE_LOG log s))))"

definition CcuLog :: "nat \<Rightarrow> DvcCcuLogEntry option \<Rightarrow> 'w cam_state \<Rightarrow> 'w cam_state" where
  "CcuLog time ccuLog s =
     (if \<not> cm_enable s then s
      else
        (case ccuLog of
           None \<Rightarrow> s
         | Some e \<Rightarrow>
             if ue_op e = Some ''ISSUE_SUCCESS''
             then send_log CCU_LOG (ccu_log_bytes time (ue_issue_success_pc e) (ue_core_id e) (ue_sub_core_id e)) s
             else s))"

section \<open>Attaching the callbacks\<close>

datatype log_callback =
    NullCb | InstrPoppedLog | InstrLog | InstrPoppedLogV2 | InstrLogV2 | MteLogCb | ICacheLogCb | CcuLogCb

datatype log_call =
    InstrCall nat "DvcInstrLogEntry option" | InstrCallV2 nat "DvcInstrLogEntryV2 option"
  | MteCall nat "DvcMteLogEntry option" | ICacheCall nat "DvcIcacheLogEntry option" | CcuCall nat "DvcCcuLogEntry option"

fun run_callback ::
  "(string \<Rightarrow> string option) \<Rightarrow> 'w raw_files \<Rightarrow> log_callback \<Rightarrow> log_call \<Rightarrow> 'w cam_state \<Rightarrow> 'w cam_state option"
where
  \<comment> \<open>the call of an attached function; \<open>None\<close> when the entry is not of the type that the function takes\<close>
  "run_callback json fs InstrPoppedLog (InstrCall t e) s = Some (ForwardInstrLog t e POPPED_LOG s)"
| "run_callback json fs InstrLog (InstrCall t e) s = Some (ForwardInstrLog t e INSTR_LOG s)"
| "run_callback json fs InstrPoppedLogV2 (InstrCallV2 t e) s = Some (ForwardInstrLogV2 json fs t e POPPED_LOG POPPED s)"
| "run_callback json fs InstrLogV2 (InstrCallV2 t e) s = Some (ForwardInstrLogV2 json fs t e INSTR_LOG COMPLETE s)"
| "run_callback json fs MteLogCb (MteCall t e) s = Some (MteLog t e s)"
| "run_callback json fs ICacheLogCb (ICacheCall t e) s = Some (ICacheLog t e s)"
| "run_callback json fs CcuLogCb (CcuCall t e) s = Some (CcuLog t e s)"
| "run_callback json fs _ _ s = None"

datatype DvcLogType = DVC_INSTR_POPPED_LOG | DVC_INSTR_LOG | DVC_MTE_LOG | DVC_ICACHE_LOG | DVC_IFU_LOG | DVC_CCU_LOG

definition log_types :: "DvcLogType list" where
  \<comment> \<open>0 to 5\<close>
  "log_types = [DVC_INSTR_POPPED_LOG, DVC_INSTR_LOG, DVC_MTE_LOG, DVC_ICACHE_LOG, DVC_IFU_LOG, DVC_CCU_LOG]"

fun dvcLogCbFnUnion :: "bool \<Rightarrow> DvcLogType \<Rightarrow> log_callback" where
  "dvcLogCbFnUnion isAscend950 DVC_INSTR_POPPED_LOG = (if isAscend950 then InstrPoppedLogV2 else InstrPoppedLog)"
| "dvcLogCbFnUnion isAscend950 DVC_INSTR_LOG = (if isAscend950 then InstrLogV2 else InstrLog)"
| "dvcLogCbFnUnion isAscend950 DVC_MTE_LOG = MteLogCb"
| "dvcLogCbFnUnion isAscend950 DVC_ICACHE_LOG = (if isAscend950 then NullCb else ICacheLogCb)"
| "dvcLogCbFnUnion isAscend950 DVC_CCU_LOG = (if isAscend950 then NullCb else CcuLogCb)"
| "dvcLogCbFnUnion isAscend950 DVC_IFU_LOG = NullCb"

record 'w simulator_api =
  sa_DvcSetLogLevel :: "nat \<Rightarrow> nat \<Rightarrow> nat \<Rightarrow> 'w \<Rightarrow> int \<times> 'w"  \<comment> \<open>\<open>CAMOLDEL_ERROR_INTERNAL_ERROR\<close> when the symbol is not found\<close>
  sa_DvcAttachLogCallback :: "DvcLogType \<Rightarrow> log_callback \<Rightarrow> 'w \<Rightarrow> int \<times> 'w"

definition attach_skipped :: "bool \<Rightarrow> bool \<Rightarrow> DvcLogType \<Rightarrow> bool" where
  "attach_skipped pmSampling isAscend950 i =
     (\<not> pmSampling \<and> i = DVC_MTE_LOG \<or> i = DVC_IFU_LOG \<or> isAscend950 \<and> (i = DVC_ICACHE_LOG \<or> i = DVC_CCU_LOG))"

definition attach_all :: "'w simulator_api \<Rightarrow> bool \<Rightarrow> bool \<Rightarrow> 'w \<Rightarrow> 'w" where
  \<comment> \<open>the loop: a failure is only logged\<close>
  "attach_all sa pmSampling isAscend950 w =
     foldl (\<lambda>w i. if attach_skipped pmSampling isAscend950 i then w
                  else snd (sa_DvcAttachLogCallback sa i (dvcLogCbFnUnion isAscend950 i) w)) w log_types"

definition GetSimulatorLogWithoutDump :: "'w simulator_api \<Rightarrow> ProfConfig \<Rightarrow> 'w \<Rightarrow> ProfConfig \<times> 'w" where
  "GetSimulatorLogWithoutDump sa c w =
     (let (res, w) = sa_DvcSetLogLevel sa 6 4 2 w in
      if res = CAMOLDEL_ERROR_INTERNAL_ERROR then (c, w)
      else
        let isAscend950 = (take 9 (pf_socVersion c) = ''Ascend950'') in
        (SetLogTransFlag True c, attach_all sa (mp_pmSamplingEnable (pf_config c)) isAscend950 w))"

definition CamodelCtor :: "'w tool_link \<Rightarrow> 'w simulator_api \<Rightarrow> ProfConfig \<Rightarrow> 'w \<Rightarrow> ProfConfig \<times> 'w" where
  \<comment> \<open>after the library and the two functions were registered\<close>
  "CamodelCtor lk sa c w =
     (if tl_getenv lk ''ENABLE_CA_LOG_TRANS'' = ''true'' then GetSimulatorLogWithoutDump sa c w else (c, w))"

section \<open>The stream that the profiler reads\<close>

function read_packets :: "bytes \<Rightarrow> (nat \<times> bytes) list" where
  \<comment> \<open>the other end: a head, then as many bytes as it says\<close>
  "read_packets bs =
     (if length bs < 8 then []
      else (field bs 0 4, take (field bs 4 4) (drop 8 bs)) # read_packets (drop (8 + field bs 4 4) bs))"
  by pat_completeness auto
termination by (relation "measure length") auto

declare read_packets.simps [simp del]

lemma read_one:
  assumes "length b < 2 ^ 32"
  shows "read_packets (SerializeMessage t b @ rest) = (ProfPacketType_code t, b) # read_packets rest"
proof -
  have t: "ProfPacketType_code t < 256 ^ 4" by (cases t) simp_all
  have b: "wrap32 (length b) = length b" using assms by (simp add: wrap32_def)
  have f: "field (SerializeMessage t b @ rest) 0 4 = ProfPacketType_code t" "field (SerializeMessage t b @ rest) 4 4 = length b"
    using t assms by (simp_all add: SerializeMessage_def ProfPacketHead_def field_def b Serialize_u_def le_val_small)
  have d: "drop 8 (SerializeMessage t b @ rest) = b @ rest" "\<not> length (SerializeMessage t b @ rest) < 8"
    "drop (8 + length b) (SerializeMessage t b @ rest) = rest"
    by (simp_all add: SerializeMessage_def ProfPacketHead_def)
  show ?thesis by (subst read_packets.simps) (simp only: f d if_False take_append, simp)
qed

lemma read_packets_all:
  "\<forall>(t, b) \<in> set rs. length b < 2 ^ 32 \<Longrightarrow>
   read_packets (concat (map (\<lambda>(t, b). SerializeMessage t b) rs)) = map (\<lambda>(t, b). (ProfPacketType_code t, b)) rs"
proof (induction rs)
  case Nil
  show ?case by (simp add: read_packets.simps)
next
  case (Cons r rs)
  then show ?case by (cases r) (simp add: read_one)
qed

definition whole_V2 :: "(string \<Rightarrow> string option) \<Rightarrow> nat \<Rightarrow> DvcInstrLogEntryV2 \<Rightarrow> DvcInstrLogV2 option" where
  \<comment> \<open>the record of an instruction: its text entire, its parameters entire or not at all\<close>
  "whole_V2 json time e =
     (case ie_decode_descr e of
        None \<Rightarrow> None
      | Some d \<Rightarrow>
          if d = [] \<or> 200 \<le> length d then None
          else Some \<lparr>dv_time = time, dv_pc = ie_pc e, dv_coreId = ie_core_id e, dv_subCoreId = ie_sub_core_id e, dv_decodeDescr = d,
                 dv_extendParamsJson =
                   (case ie_extend_params_json e of
                      None \<Rightarrow> []
                    | Some p \<Rightarrow> if p = [] then []
                                else (case json p of None \<Rightarrow> [] | Some c \<Rightarrow> if length c < 1024 then c else []))\<rparr>)"

lemma Convert_V2_whole: "fst (Convert_V2 json time e s) = whole_V2 json time e"
  by (auto simp: Convert_V2_def whole_V2_def CopyString_def extend_params_def DVC_INSTR_DECODE_DESCR_LENGTH_def
      DVC_EXTEND_PARAMS_JSON_LENGTH_def Let_def split: option.splits)

lemma Convert_V2_keeps:
  "cm_enable (snd (Convert_V2 json time e s)) = cm_enable s" "cm_queue (snd (Convert_V2 json time e s)) = cm_queue s"
  by (auto simp: Convert_V2_def CopyString_def extend_params_def WarnBadInstrLog_def Let_def split: option.splits)

fun call_record :: "(string \<Rightarrow> string option) \<Rightarrow> log_callback \<Rightarrow> log_call \<Rightarrow> (ProfPacketType \<times> bytes) option" where
  \<comment> \<open>the record for one call\<close>
  "call_record json InstrPoppedLog (InstrCall t (Some e)) = map_option (Pair POPPED_LOG) (Convert t e)"
| "call_record json InstrLog (InstrCall t (Some e)) = map_option (Pair INSTR_LOG) (Convert t e)"
| "call_record json InstrPoppedLogV2 (InstrCallV2 t (Some e)) =
     map_option (\<lambda>l. (POPPED_LOG, instr_log2_bytes l)) (whole_V2 json t e)"
| "call_record json InstrLogV2 (InstrCallV2 t (Some e)) = map_option (\<lambda>l. (INSTR_LOG, instr_log2_bytes l)) (whole_V2 json t e)"
| "call_record json MteLogCb (MteCall t (Some e)) = map_option (Pair MTE_LOG) (Option.bind (me_op e) (mte_record t e))"
| "call_record json ICacheLogCb (ICacheCall t (Some e)) = map_option (Pair ICACHE_LOG) (Option.bind (ce_op e) (icache_record t e))"
| "call_record json CcuLogCb (CcuCall t (Some e)) =
     (if ue_op e = Some ''ISSUE_SUCCESS''
      then Some (CCU_LOG, ccu_log_bytes t (ue_issue_success_pc e) (ue_core_id e) (ue_sub_core_id e)) else None)"
| "call_record json _ _ = None"

abbreviation packet_of :: "ProfPacketType \<times> bytes \<Rightarrow> bytes" where
  "packet_of r \<equiv> SerializeMessage (fst r) (snd r)"

definition queued :: "'w cam_state \<Rightarrow> 'w cam_state \<Rightarrow> (ProfPacketType \<times> bytes) option \<Rightarrow> bool" where
  "queued s s' r \<longleftrightarrow> cm_enable s' = cm_enable s \<and>
     cm_queue s' = (case r of None \<Rightarrow> cm_queue s | Some p \<Rightarrow> (cm_queue s)\<lparr>cq_queue := cq_queue (cm_queue s) @ [packet_of p]\<rparr>)"

lemma forward_queues:
  "cm_enable s \<Longrightarrow> queued s (ForwardInstrLog t (Some e) type s) (map_option (Pair type) (Convert t e))"
  by (auto simp: ForwardInstrLog_def send_log_def queued_def split: option.splits)

lemma forward_V2_queues:
  assumes "cm_enable s"
  shows "queued s (ForwardInstrLogV2 json fs t (Some e) type cbt s) (map_option (\<lambda>l. (type, instr_log2_bytes l)) (whole_V2 json t e))"
proof -
  obtain o1 s1 where c: "Convert_V2 json t e s = (o1, s1)" by (cases "Convert_V2 json t e s")
  then have "o1 = whole_V2 json t e" "cm_enable s1 = cm_enable s" "cm_queue s1 = cm_queue s"
    using Convert_V2_whole [of json t e s] Convert_V2_keeps [of json t e s] by simp_all
  then show ?thesis using c assms
    by (auto simp: ForwardInstrLogV2_def send_log_def queued_def split: option.splits prod.splits)
qed

lemma queued_none [simp]: "queued s s None"
  by (simp add: queued_def)

lemma forward_none: "ForwardInstrLog t None type s = s" "ForwardInstrLogV2 json fs t None type cbt s = s"
  by (simp_all add: ForwardInstrLog_def ForwardInstrLogV2_def)

lemma run_callback_queues:
  assumes "run_callback json fs cb cl s = Some s'" "cm_enable s"
  shows "queued s s' (call_record json cb cl)"
  using assms
proof (cases "(json, fs, cb, cl, s)" rule: run_callback.cases)
  case (1 _ _ t e)
  then show ?thesis using assms forward_queues by (cases e) (auto simp: forward_none)
next
  case (2 _ _ t e)
  then show ?thesis using assms forward_queues by (cases e) (auto simp: forward_none)
next
  case (3 _ _ t e)
  then show ?thesis using assms forward_V2_queues by (cases e) (auto simp: forward_none)
next
  case (4 _ _ t e)
  then show ?thesis using assms forward_V2_queues by (cases e) (auto simp: forward_none)
next
  case (5 _ _ t e)
  then show ?thesis using assms by (cases e) (auto simp: MteLog_def send_log_def queued_def split: option.splits)
next
  case (6 _ _ t e)
  then show ?thesis using assms by (cases e) (auto simp: ICacheLog_def send_log_def queued_def split: option.splits)
next
  case (7 _ _ t e)
  then show ?thesis using assms by (cases e) (auto simp: CcuLog_def send_log_def queued_def)
qed auto

datatype cam_event = Callback log_callback log_call | Thread cq_event

fun cam_step :: "(string \<Rightarrow> string option) \<Rightarrow> 'w raw_files \<Rightarrow> cam_event \<Rightarrow> 'w cam_state \<Rightarrow> 'w cam_state option" where
  \<comment> \<open>a callback of the simulator, or a step of another thread on the queue\<close>
  "cam_step json fs (Callback cb cl) s = run_callback json fs cb cl s"
| "cam_step json fs (Thread (SendCaLog m)) s = None"
| "cam_step json fs (Thread e) s = map_option (\<lambda>q. s\<lparr>cm_queue := q\<rparr>) (cq_step e (cm_queue s))"

fun cam_run :: "(string \<Rightarrow> string option) \<Rightarrow> 'w raw_files \<Rightarrow> cam_event list \<Rightarrow> 'w cam_state \<Rightarrow> 'w cam_state option" where
  "cam_run json fs [] s = Some s"
| "cam_run json fs (e # es) s = (case cam_step json fs e s of None \<Rightarrow> None | Some s \<Rightarrow> cam_run json fs es s)"

fun event_record :: "(string \<Rightarrow> string option) \<Rightarrow> cam_event \<Rightarrow> (ProfPacketType \<times> bytes) list" where
  "event_record json (Callback cb cl) = (case call_record json cb cl of None \<Rightarrow> [] | Some r \<Rightarrow> [r])"
| "event_record json (Thread e) = []"

definition all_records :: "(string \<Rightarrow> string option) \<Rightarrow> cam_event list \<Rightarrow> (ProfPacketType \<times> bytes) list" where
  "all_records json es = concat (map (event_record json) es)"

abbreviation stream :: "camodel_queue \<Rightarrow> bytes list" where
  "stream q \<equiv> cq_sent q @ in_flight q"

lemma thread_step:
  "cam_step json fs (Thread e) s = Some s' \<Longrightarrow> \<exists>q. cq_step e (cm_queue s) = Some q \<and> s' = s\<lparr>cm_queue := q\<rparr> \<and> logged [e] = []"
  by (cases e) (auto simp: logged_def simp del: cq_step.simps)

lemma cam_step_stream:
  assumes "cam_step json fs e s = Some s'" "cm_enable s"
  shows "cm_enable s' \<and> stream (cm_queue s') = stream (cm_queue s) @ map packet_of (event_record json e)"
proof (cases e)
  case (Callback cb cl)
  then show ?thesis using run_callback_queues [of json fs cb cl s s'] assms
    by (auto simp: queued_def in_flight_def split: option.splits)
next
  case (Thread c)
  then obtain q where "cq_step c (cm_queue s) = Some q" "s' = s\<lparr>cm_queue := q\<rparr>" "logged [c] = []"
    using thread_step assms(1) by blast
  then show ?thesis using cq_step_order assms(2) Thread by fastforce
qed

lemma cam_run_stream:
  "cam_run json fs es s = Some s' \<Longrightarrow> cm_enable s \<Longrightarrow>
   stream (cm_queue s') = stream (cm_queue s) @ map packet_of (all_records json es)"
proof (induction es arbitrary: s)
  case (Cons e es)
  obtain s1 where e: "cam_step json fs e s = Some s1" and es: "cam_run json fs es s1 = Some s'"
    using Cons.prems(1) by (auto split: option.splits)
  show ?case using Cons.IH [OF es] cam_step_stream [OF e Cons.prems(2)] by (simp add: all_records_def)
qed (simp add: all_records_def)

lemma length_char_field [simp]: "length s \<le> n \<Longrightarrow> length (char_field n s) = n"
  by (simp add: char_field_def ascii_def)

lemma Convert_size: "Convert t e = Some b \<Longrightarrow> length b = 424"
  by (auto simp: Convert_def instr_log_bytes_def DVC_INSTR_DECODE_DESCR_LENGTH_def split: option.splits)

lemma V2_size: "whole_V2 json t e = Some l \<Longrightarrow> length (instr_log2_bytes l) = 1248"
  by (auto simp: whole_V2_def instr_log2_bytes_def DVC_INSTR_DECODE_DESCR_LENGTH_def DVC_EXTEND_PARAMS_JSON_LENGTH_def
      split: option.splits if_splits)

lemma mte_size: "mte_record t e op = Some b \<Longrightarrow> length b = 64"
  by (auto simp: mte_record_def mte_log_bytes_def Let_def split: option.splits if_splits)

lemma icache_size: "icache_record t e op = Some b \<Longrightarrow> length b = 72"
  by (auto simp: icache_record_def icache_log_bytes_def Let_def split: if_splits)

lemma ccu_size: "length (ccu_log_bytes t pc c sc) = 24"
  by (simp add: ccu_log_bytes_def)

lemmas record_sizes = Convert_size V2_size mte_size icache_size ccu_size

lemma call_record_size: "call_record json cb cl = Some (t, b) \<Longrightarrow> length b < 2 ^ 32"
  by (cases "(json, cb, cl)" rule: call_record.cases)
    (auto simp: ccu_size bind_eq_Some_conv dest!: Convert_size V2_size mte_size icache_size split: if_splits)

lemma all_record_sizes: "\<forall>(t, b) \<in> set (all_records json es). length b < 2 ^ 32"
proof -
  have "length b < 2 ^ 32" if "(t, b) \<in> set (event_record json e)" for t b e
    using that by (cases e) (auto split: option.splits dest: call_record_size [OF sym])
  then show ?thesis by (fastforce simp: all_records_def)
qed


definition sim_entry2 :: DvcInstrLogEntryV2 where
  "sim_entry2 = \<lparr>ie_core_id = 1, ie_sub_core_id = 0, ie_pc = 64, ie_decode_descr = Some ''ADD'', ie_exec_descr = None,
     ie_extend_params_json = Some ''{''\<rparr>"

definition sim_ccu :: DvcCcuLogEntry where
  "sim_ccu = \<lparr>ue_core_id = 2, ue_sub_core_id = 1, ue_op = Some ''ISSUE_SUCCESS'', ue_issue_success_pc = 128\<rparr>"

definition sim_events :: "cam_event list" where
  "sim_events = [Thread CheckListening, Callback InstrLogV2 (InstrCallV2 5 (Some sim_entry2)), Thread PopMessage,
     Callback CcuLogCb (CcuCall 6 (Some sim_ccu)), Thread SendMessage, Callback CcuLogCb (CcuCall 7 None)]"

definition sim_state0 :: "(string \<Rightarrow> string) cam_state" where
  "sim_state0 = \<lparr>cm_enable = True, cm_queue = cq0, cm_dumper = rw0, cm_bad = (\<lambda>_. 0), cm_w = (\<lambda>_. [])\<rparr>"

lemma sim_run:
  "\<exists>s'. cam_run (\<lambda>p. None) mem_files sim_events sim_state0 = Some s' \<and> length (cq_sent (cm_queue s')) = 1"
  by (simp add: sim_events_def sim_state0_def sim_entry2_def sim_ccu_def cq0_def ForwardInstrLogV2_def CcuLog_def send_log_def
      Convert_V2_def CopyString_def extend_params_def WarnBadInstrLog_def Record_def rw0_def Let_def
      DVC_INSTR_DECODE_DESCR_LENGTH_def)

lemma sim_records:
  "all_records (\<lambda>p. None) sim_events =
     [(INSTR_LOG, instr_log2_bytes \<lparr>dv_time = 5, dv_pc = 64, dv_coreId = 1, dv_subCoreId = 0, dv_decodeDescr = ''ADD'',
         dv_extendParamsJson = []\<rparr>),
      (CCU_LOG, ccu_log_bytes 6 128 2 1)]"
  by (simp add: all_records_def sim_events_def sim_entry2_def sim_ccu_def whole_V2_def)


section \<open>The texts in a record\<close>

definition c_text :: "bytes \<Rightarrow> bytes" where
  \<comment> \<open>how an array of characters is read\<close>
  "c_text bs = takeWhile (\<lambda>b. b \<noteq> 0) bs"

lemma ascii_nonzero: "CHR 0x00 \<notin> set t \<Longrightarrow> b \<in> set (ascii t) \<Longrightarrow> b \<noteq> 0"
proof -
  assume t: "CHR 0x00 \<notin> set t" and b: "b \<in> set (ascii t)"
  then obtain c where c: "c \<in> set t" "b = of_char c" by (auto simp: ascii_def)
  have "c = CHR 0x00" if "of_char c = (0 :: byte)"
  proof -
    have "unat (of_char c :: byte) = of_char c" by (cases c) (simp add: unat_of_nat of_char_def horner_sum_simps)
    then have "(of_char c :: nat) = 0" using that by simp
    then have "(of_char c :: nat) = of_char (CHR 0x00)" by simp
    then show ?thesis by (simp only: of_char_eq_iff)
  qed
  then show "b \<noteq> 0" using c t by auto
qed

lemma c_text_field: "CHR 0x00 \<notin> set t \<Longrightarrow> c_text (char_field n t) = ascii t"
  using ascii_nonzero [of t]
  by (cases "n - length t") (auto simp: c_text_def char_field_def takeWhile_append intro!: takeWhile_eq_all_conv [THEN iffD2])

lemma V2_texts_whole:
  assumes "fst (Convert_V2 json time e s) = Some l" "CHR 0x00 \<notin> set (dv_decodeDescr l)" "CHR 0x00 \<notin> set (dv_extendParamsJson l)"
  shows "Some (c_text (take 200 (drop 24 (instr_log2_bytes l)))) = map_option ascii (ie_decode_descr e) \<and>
    c_text (take 1024 (drop 224 (instr_log2_bytes l))) = ascii (dv_extendParamsJson l)"
proof -
  have w: "whole_V2 json time e = Some l" using assms(1) Convert_V2_whole [of json time e s] by simp
  then have d: "ie_decode_descr e = Some (dv_decodeDescr l)" "length (dv_decodeDescr l) \<le> 200" "length (dv_extendParamsJson l) \<le> 1024"
    by (auto simp: whole_V2_def split: option.splits if_splits)
  have "take 200 (drop 24 (instr_log2_bytes l)) = char_field 200 (dv_decodeDescr l)"
    "take 1024 (drop 224 (instr_log2_bytes l)) = char_field 1024 (dv_extendParamsJson l)"
    using d(2,3) by (simp_all add: instr_log2_bytes_def DVC_INSTR_DECODE_DESCR_LENGTH_def DVC_EXTEND_PARAMS_JSON_LENGTH_def)
  then show ?thesis using assms(2,3) d(1) by (simp add: c_text_field)
qed

section \<open>What is attached\<close>

fun entry_of :: "bool \<Rightarrow> DvcLogType \<Rightarrow> log_call \<Rightarrow> bool" where
  \<comment> \<open>what the simulator passes for a type: on Ascend950 the instructions have the new layout\<close>
  "entry_of isAscend950 DVC_INSTR_POPPED_LOG (InstrCall t e) = (\<not> isAscend950)"
| "entry_of isAscend950 DVC_INSTR_POPPED_LOG (InstrCallV2 t e) = isAscend950"
| "entry_of isAscend950 DVC_INSTR_LOG (InstrCall t e) = (\<not> isAscend950)"
| "entry_of isAscend950 DVC_INSTR_LOG (InstrCallV2 t e) = isAscend950"
| "entry_of isAscend950 DVC_MTE_LOG (MteCall t e) = True"
| "entry_of isAscend950 DVC_ICACHE_LOG (ICacheCall t e) = True"
| "entry_of isAscend950 DVC_CCU_LOG (CcuCall t e) = True"
| "entry_of isAscend950 _ _ = False"

lemma attached_take_entries:
  "\<not> attach_skipped pmSampling isAscend950 i \<Longrightarrow> entry_of isAscend950 i cl \<Longrightarrow>
   run_callback json fs (dvcLogCbFnUnion isAscend950 i) cl s \<noteq> None"
  by (cases "(isAscend950, i, cl)" rule: entry_of.cases) (auto simp: attach_skipped_def)

theorem failed_attach_still_enables:
  "\<exists>sa :: unit simulator_api. (\<forall>i cb w. fst (sa_DvcAttachLogCallback sa i cb w) = CAMOLDEL_ERROR_INTERNAL_ERROR) \<and>
     (\<forall>c. pf_isCaLogTrans (fst (GetSimulatorLogWithoutDump sa c ())))"
  by (rule exI [of _ "\<lparr>sa_DvcSetLogLevel = (\<lambda>_ _ _ w. (0, w)),
        sa_DvcAttachLogCallback = (\<lambda>_ _ w. (CAMOLDEL_ERROR_INTERNAL_ERROR, w))\<rparr>"])
    (simp add: GetSimulatorLogWithoutDump_def SetLogTransFlag_def CAMOLDEL_ERROR_INTERNAL_ERROR_def)

end
