(* ===== verification/Spec2Isabelle.thy ===== *)
theory Spec2Isabelle
  imports Numeric Serialize Hijack Device MemGuard MemManage Process MetaData MemReport Paths
    MarkerReport AllocHooks DeviceHooks IpcHooks ElfLoader Launches LaunchFinalize
    KernelFacts LaunchReplay DbiFacts ProfFacts SimLogs
begin

text \<open>
  A model of msopcom, the library that is loaded into a program of the Ascend runtime, intercepts
  the calls the program makes, and gives the sanitizer and the profiler (the tool process) what
  they need: which memory is valid, what a kernel was launched with, and where it wrote outside
  of its memory.

  The parts and how they work together (directories under src/csrc):

    \<^item> an intercepted call passes the layers of core/HijackedLayerManager.cpp and the template of
      core/HijackedFuncTemplate.h; core/FuncSelector.cpp tells which tool is attached
      (theory Hijack);
    \<^item> allocations get guard zones (runtime/inject_helpers/MemGuard.cpp, theory MemGuard) and are
      recorded (MemoryDataCollect.cpp, theory MemManage); the recorded ranges are merged before
      each launch. The hooks of the memory functions themselves, acl_rt_impl/HijackedFuncOfAclrt*.cpp
      and runtime/HijackedFuncOf*.cpp, and their entry points in bind/BindSanitizer.cpp are in
      theory AllocHooks; those that bind and reset devices and allow one device to reach another
      in theory DeviceHooks; those that share blocks with other processes in theory IpcHooks;
    \<^item> the profiler runs a kernel several times: the recorded sections of each device are copied
      aside and put back between the runs (MemoryContext.cpp), and DevMemManager.cpp owns the buffer
      of an instrumented kernel (theory Snapshot);
    \<^item> markers that the program sets (MsTx.cpp, theory Markers) delimit the ranges to be profiled
      and describe the memory heaps and regions of its own allocators, which the sanitizer's half
      of bind/BindSanitizer.cpp reports (theory MarkerReport);
    \<^item> a launch's arguments are copied and extended by one pointer for the instrumented kernel:
      LaunchArgs.cpp for the old runtime interface (theory LaunchArgs) and the three argument
      contexts of the new one (theories ArgsArray, ArgsRaw, ArgsHandle);
    \<^item> the kernel's meta section says what its parameters are (KernelMetaDataParser.cpp, theory
      MetaData; chip tables of core/PlatformConfig.h, theory Platform); utils/ElfLoader.cpp finds
      that section and the kernel's symbols in the binary (theory ElfLoader);
    \<^item> the binaries that the program registers are decoded and kept by RegisterManager.cpp
      (theory Registry); FuncManager.cpp and LaunchManager.cpp keep its functions and, per device,
      its launches, each with the memory its meta section describes (theory Launches);
    \<^item> an instrumented kernel writes its records into a buffer of device memory that is divided into one
      block for each core: LaunchInitFinalize.cpp lays it out, writes the heads before the launch and fetches
      the records afterwards (theory LaunchInit, with what holds of the preparation in theory LaunchRecords
      and of the report in theory LaunchFinalize);
    \<^item> the launches of the older runtime interface are kept by runtime/inject_helpers/KernelContext.cpp
      with its own tables of binaries and functions (theory KernelCtx, with what holds of it in theory
      KernelFacts);
    \<^item> a launch can be saved to a directory (ArgsContext.cpp, LaunchContext.cpp, KernelContext.cpp,
      KernelReplacement.cpp, theory LaunchDump) and repeated by tools/kernel_launcher, whose parser
      KernelConfigParser.cpp reads the saved description (theory ConfigParser; the round trip of the
      description in theory ConfigFacts, that of a whole save in theory LaunchReplay);
    \<^item> core/BinaryInstrumentation.cpp has a kernel instrumented by external programs (theory Instrument), DBITask.cpp and
      KernelReplacement.cpp keep one task for each kernel and put the new binary in the place of the old one (theory
      DbiTask; what holds of it in theory DbiFacts), BBCountDumper.cpp numbers the maps of the basic blocks
      and the counters that the instrumented kernel wrote (theory BBCount);
    \<^item> the profiler asks the tool for its configuration and for the directory of a kernel (ProfConfig.cpp,
      DbiRecordTaskHelper.h, include/opprof, theory ProfConf), starts and stops the channels of the profiling driver for
      each family of chips and reads them (ProfTask.cpp, theory ProfTask), warms a kernel up, empties the cache and runs
      it once for each round of events (the device's half of ProfDataCollect.cpp, theory ProfReplay), and replays captured
      ranges, saves what it found, starts the simulator and sends the records of instrumented kernels (theory
      ProfCollect); what holds of the runs is in theory ProfFacts;
    \<^item> on the simulator a launch is prepared and its files are collected by DataCollectWithSimulator (theory SimCollect, with
      the queue of camodel/CamodelHelper.cpp and the files of camodel/CamodelRawInstrDumper.cpp), and camodel/Camodel.cpp
      sends what the simulator logs (theory SimLogs);
    \<^item> records travel to the tool process as packets (utils/Serialize.h, theory Serialize) over
      core/LocalProcess.cpp (theory Process), core/Communication.cpp (theory Comm) and
      core/DomainSocket.cpp (theory Socket).

  Around them: runtime/inject_helpers/ArgsManager.cpp, which owns the argument contexts and
  reads the tensor addresses of a launch (theory ArgsMgr); the functions of MemoryDataCollect.cpp
  that report a launch's memory to the tool and release it (theory MemReport); utils/Ustring.cpp
  (theory Text); utils/Path.cpp and utils/Environment.cpp (theory Paths).

  Prelude holds the machine arithmetic on naturals (\<open>wrap32\<close>, \<open>wrap64\<close>, \<open>sub64\<close>), association
  lists and slices; OrdSet the ordered sets and maps of the standard library; Numeric the
  rounding functions of utils/Numeric.h; Device the interface to device memory.

  Conventions. Classes are records, their methods functions from the old to the new record.
  Code outside the repository is a parameter: \<open>acl_api\<close> is the device runtime, \<open>os_api\<close> the
  system calls, \<open>runtime\<close> the argument-handle calls. What the code relies on is stated as laws
  (\<open>read_law\<close>, \<open>memset_law\<close>, \<open>write_fd_law\<close>, \<open>read_fd_law\<close>, \<open>sendmsg_law\<close>, \<open>memfd_law\<close>, and
  \<open>copy_law\<close>, \<open>quiet_law\<close>, \<open>counting_law\<close> of theory Snapshot, \<open>alloc_law\<close> of theory Markers, \<open>replay_laws\<close> and
  \<open>fresh_law\<close> of theory ProfFacts, \<open>files_work\<close> of theory SimCollect),
  each shown to hold of a concrete instance (\<open>flat_api\<close>, \<open>wire_api\<close>, \<open>pos_api\<close>, \<open>counted_api\<close>, \<open>flat_prof\<close>, \<open>mem_files\<close>). Failure is \<open>None\<close> or an error
  code; reads outside a buffer, which have no meaning in the source, are \<open>None\<close> as well.
  Loops that depend on the outside world are partial functions in the option type, so that a
  loop that does not end has no result; the loop that connects ends by its counter. Threads are
  interleavings of steps (\<open>rsv_step\<close> for the packet numbers, \<open>cq_step\<close> and \<open>cam_step\<close> for the simulator's log) or single runs of a loop body
  (\<open>accept_body\<close>, \<open>listen_body\<close>).

  Interfaces are locales interpreted on the model: \<open>align_up\<close> (Numeric), \<open>codec\<close> (Serialize),
  \<open>alloc_tracker\<close> (MemGuard), \<open>channel\<close> (Comm).

  Bounds. A kernel has at most \<open>GetReplayTimes\<close> (12) rounds, the counter of \<open>replay_loop\<close>; the reading thread of
  ProfTask.cpp runs until it is told to stop and is a partial function.

  Not modelled: bind/BindOpprof.cpp, which attaches the profiler to the hooks; the part of the command-line launcher behind its parser; the threads that run callbacks;
  the profiling flow within the launch hooks; log messages.
\<close>

end
